(* ===== verification/Prelude.thy ===== *)
theory Prelude
  imports Complex_Main "HOL-Library.AList"
begin

text \<open>
  Shared vocabulary of the development: Go's fixed-width integers, truncated division,
  byte strings, the error monad used for functions that return \<open>(value, error)\<close>, and
  association lists for Go maps that the code iterates over.

  Conventions. A Go \<open>int\<close> or \<open>int64\<close> is an \<open>int\<close> whose arithmetic wraps through
  \<open>wrap64\<close> wherever the code can leave the 64-bit range. A string is the list of its
  bytes. A function that returns an error returns a sum with \<open>Inl\<close> for the error.
\<close>

named_theorems go_simps \<open>evaluation of Go library helpers\<close>

type_synonym uuid = nat

definition uuid_nil :: uuid where
  "uuid_nil = 0"

section \<open>Fixed-width integers\<close>

definition wrap64 :: "int \<Rightarrow> int" where
  "wrap64 x = (x + 2 ^ 63) mod 2 ^ 64 - 2 ^ 63"

definition in_int64 :: "int \<Rightarrow> bool" where
  "in_int64 x \<longleftrightarrow> - (2 ^ 63) \<le> x \<and> x < 2 ^ 63"

lemma wrap64_id: "in_int64 x \<Longrightarrow> wrap64 x = x"
  by (simp add: wrap64_def in_int64_def)

lemma wrap64_in_int64 [simp]: "in_int64 (wrap64 x)"
proof -
  have "0 \<le> (x + 2 ^ 63) mod 2 ^ 64" "(x + 2 ^ 63) mod 2 ^ 64 < 2 ^ 64"
    by (rule pos_mod_sign pos_mod_bound, simp)+
  then show ?thesis by (simp add: wrap64_def in_int64_def)
qed

lemma wrap64_cong: "x mod 2 ^ 64 = y mod 2 ^ 64 \<Longrightarrow> wrap64 x = wrap64 y"
  unfolding wrap64_def by (metis mod_add_left_eq)

lemma wrap64_mod: "wrap64 x mod 2 ^ 64 = x mod 2 ^ 64"
  unfolding wrap64_def by (simp add: mod_diff_left_eq)

lemma wrap64_add_left: "wrap64 (wrap64 a + b) = wrap64 (a + b)"
  by (rule wrap64_cong) (metis mod_add_left_eq wrap64_mod)

lemma wrap64_add_right: "wrap64 (a + wrap64 b) = wrap64 (a + b)"
  by (metis wrap64_add_left add.commute)

lemma wrap64_wrap64 [simp]: "wrap64 (wrap64 x) = wrap64 x"
  using wrap64_add_left [of x 0] by simp

text \<open>Go's \<open>/\<close> and \<open>%\<close> truncate towards zero.\<close>

definition quot :: "int \<Rightarrow> int \<Rightarrow> int" where
  "quot a b = sgn a * sgn b * (\<bar>a\<bar> div \<bar>b\<bar>)"

definition qrem :: "int \<Rightarrow> int \<Rightarrow> int" where
  "qrem a b = a - b * quot a b"

lemma quot_nonneg: "0 \<le> a \<Longrightarrow> 0 < b \<Longrightarrow> quot a b = a div b"
  by (cases "a = 0") (auto simp: quot_def sgn_if)

lemma qrem_nonneg: "0 \<le> a \<Longrightarrow> 0 < b \<Longrightarrow> qrem a b = a mod b"
  by (simp add: qrem_def quot_nonneg minus_mult_div_eq_mod)

lemma quot_minus: "quot (- a) b = - quot a b"
  by (simp add: quot_def sgn_minus)

lemma qrem_minus: "qrem (- a) b = - qrem a b"
  by (simp add: qrem_def quot_minus)

lemma quot_mult_self: "0 < b \<Longrightarrow> quot (b * k) b = k"
  by (simp add: quot_def sgn_mult abs_mult mult_sgn_abs)

lemma qrem_mult_self: "0 < b \<Longrightarrow> qrem (b * k) b = 0"
  by (simp add: qrem_def quot_mult_self)

section \<open>Results: \<open>(value, error)\<close> pairs as sums\<close>

fun ebind :: "'e + 'a \<Rightarrow> ('a \<Rightarrow> 'e + 'b) \<Rightarrow> 'e + 'b" where
  "ebind (Inl e) f = Inl e"
| "ebind (Inr x) f = f x"

definition require_that :: "bool \<Rightarrow> 'e \<Rightarrow> 'e + unit" where
  "require_that b e = (if b then Inr () else Inl e)"

fun map_err :: "('e \<Rightarrow> 'f) \<Rightarrow> 'e + 'a \<Rightarrow> 'f + 'a" where
  "map_err h (Inl e) = Inl (h e)"
| "map_err h (Inr x) = Inr x"

lemma ebind_Inr_iff: "ebind m f = Inr y \<longleftrightarrow> (\<exists>x. m = Inr x \<and> f x = Inr y)"
  by (cases m) auto

lemma ebind_Inl_iff: "ebind m f = Inl e \<longleftrightarrow> m = Inl e \<or> (\<exists>x. m = Inr x \<and> f x = Inl e)"
  by (cases m) auto

lemma require_that_Inr [simp]: "require_that b e = Inr u \<longleftrightarrow> b"
  by (simp add: require_that_def)

lemma require_that_Inl [simp]: "require_that b e = Inl e' \<longleftrightarrow> \<not> b \<and> e' = e"
  by (auto simp: require_that_def)

lemma map_err_Inr [simp]: "map_err h m = Inr x \<longleftrightarrow> m = Inr x"
  by (cases m) auto

lemma map_err_Inl: "map_err h m = Inl e \<longleftrightarrow> (\<exists>e'. m = Inl e' \<and> e = h e')"
  by (cases m) auto

lemmas ebind_elims = ebind_Inr_iff ebind_Inl_iff

section \<open>Association lists for Go maps\<close>

text \<open>
  A Go map that the code ranges over is an association list with distinct keys. Its order
  stands for the order Go happens to iterate in, which the language leaves open; lookups
  and updates go through \<open>map_of\<close> and \<open>AList.update\<close>.
\<close>

abbreviation mget :: "('k \<times> 'v) list \<Rightarrow> 'k \<Rightarrow> 'v option" where
  "mget m k \<equiv> map_of m k"

abbreviation mput :: "'k \<Rightarrow> 'v \<Rightarrow> ('k \<times> 'v) list \<Rightarrow> ('k \<times> 'v) list" where
  "mput k v m \<equiv> AList.update k v m"

abbreviation mdel :: "'k \<Rightarrow> ('k \<times> 'v) list \<Rightarrow> ('k \<times> 'v) list" where
  "mdel k m \<equiv> AList.delete k m"

abbreviation mkeys :: "('k \<times> 'v) list \<Rightarrow> 'k list" where
  "mkeys m \<equiv> map fst m"

lemma mget_mput: "mget (mput k v m) = (mget m)(k \<mapsto> v)"
  by (rule update_conv')

lemma mget_mdel: "mget (mdel k m) = (mget m)(k := None)"
  by (auto simp: fun_eq_iff delete_conv')

lemma distinct_mput: "distinct (mkeys m) \<Longrightarrow> distinct (mkeys (mput k v m))"
  by (rule distinct_update)

lemma distinct_mdel: "distinct (mkeys m) \<Longrightarrow> distinct (mkeys (mdel k m))"
  by (rule distinct_delete)

lemma set_mkeys_mput: "set (mkeys (mput k v m)) = insert k (set (mkeys m))"
  by (metis dom_map_of_conv_image_fst dom_fun_upd image_set option.distinct(1) update_conv')

lemmas gomap_simps = mget_mput mget_mdel set_mkeys_mput

section \<open>Strings\<close>

definition has_prefix :: "string \<Rightarrow> string \<Rightarrow> bool" where
  "has_prefix s p \<longleftrightarrow> take (length p) s = p"

definition has_suffix :: "string \<Rightarrow> string \<Rightarrow> bool" where
  "has_suffix s p \<longleftrightarrow> length p \<le> length s \<and> drop (length s - length p) s = p"

definition trim_suffix :: "string \<Rightarrow> string \<Rightarrow> string" where
  "trim_suffix s p = (if has_suffix s p then take (length s - length p) s else s)"

definition is_space :: "char \<Rightarrow> bool" where
  "is_space c \<longleftrightarrow> c \<in> {CHR '' '', CHR 0x09, CHR 0x0A, CHR 0x0B, CHR 0x0C, CHR 0x0D}"

definition trim_space :: "string \<Rightarrow> string" where
  "trim_space s = rev (dropWhile is_space (rev (dropWhile is_space s)))"

definition lower_char :: "char \<Rightarrow> char" where
  "lower_char c = (let n = of_char c :: nat in
     if 65 \<le> n \<and> n \<le> 90 then char_of (n + 32) else c)"

definition to_lower :: "string \<Rightarrow> string" where
  "to_lower s = List.map lower_char s"

lemma dropWhile_rev_dropWhile:
  "dropWhile P xs = xs \<Longrightarrow> dropWhile P (rev (dropWhile P (rev xs))) = rev (dropWhile P (rev xs))"
proof -
  assume f: "dropWhile P xs = xs"
  let ?t = "rev (dropWhile P (rev xs))"
  have xs: "xs = ?t @ rev (takeWhile P (rev xs))"
    by (metis rev_append rev_rev_ident takeWhile_dropWhile_id)
  show ?thesis
  proof (cases "?t")
    case (Cons c cs)
    then have "hd xs = c" "xs \<noteq> []" using xs by (metis append_Cons list.sel(1), auto)
    then have "\<not> P c" using f by (metis hd_dropWhile)
    then show ?thesis using Cons by simp
  next
    case Nil
    then show ?thesis by (metis dropWhile.simps(1))
  qed
qed

lemma trim_space_idem [simp]: "trim_space (trim_space s) = trim_space s"
  unfolding trim_space_def
  by (subst dropWhile_rev_dropWhile) (simp_all add: dropWhile_idem)

lemma trim_space_Nil [simp]: "trim_space [] = []"
  by (simp add: trim_space_def)

section \<open>Generic list facts\<close>

lemma find_Some_iff_first: "List.find P xs = Some x \<Longrightarrow> P x \<and> x \<in> set xs"
  by (metis find_Some_iff nth_mem)

lemma map_filter_set: "set (List.map_filter f xs) = {y. \<exists>x\<in>set xs. f x = Some y}"
  by (force simp: List.map_filter_def)

lemma find_None_all: "List.find P xs = None \<longleftrightarrow> (\<forall>x\<in>set xs. \<not> P x)"
  by (auto simp: find_None_iff)

end
