(* ===== verification/Go_Time.thy ===== *)
theory Go_Time
  imports Prelude
begin

text \<open>
  Instants and durations of Go's \<open>time\<close> package, as far as the scheduling code uses them.
  A \<open>time.Time\<close> is the number of nanoseconds since 1970-01-01T00:00:00Z; every instant is
  read in UTC, the location of all values the code takes from DATE and TIMESTAMPTZ columns.
  A \<open>time.Duration\<close> is a signed 64-bit number of nanoseconds.
\<close>

type_synonym gotime = int
type_synonym duration = int

definition second :: duration where "second = 1000000000"
definition minute :: duration where "minute = 60 * second"
definition hour :: duration where "hour = 60 * minute"
definition day24 :: duration where "day24 = 24 * hour"

lemmas duration_units = second_def minute_def hour_def day24_def

text \<open>The zero \<open>time.Time\<close>: January 1, year 1, 00:00:00 UTC.\<close>

definition zero_time :: gotime where
  "zero_time = - 62135596800 * second"

definition days_since_epoch :: "gotime \<Rightarrow> int" where
  "days_since_epoch t = t div day24"

text \<open>\<open>t.Weekday()\<close>: Sunday is 0; 1970-01-01 was a Thursday.\<close>

definition weekday :: "gotime \<Rightarrow> int" where
  "weekday t = (days_since_epoch t + 4) mod 7"

text \<open>
  The proleptic Gregorian calendar, in years that start on March 1 so that a leap day is
  the last day of its year. \<open>civil_year_day\<close> splits a day number into the March-based
  year and the day of that year by the cascade of 400-, 100-, 4- and 1-year cycles.
\<close>

definition civil_of_doe :: "int \<Rightarrow> int \<times> int" where
  "civil_of_doe doe =
     (let c = min (doe div 36524) 3; r = doe - 36524 * c;
          q = r div 1461; s = r - 1461 * q;
          y = min (s div 365) 3
      in (100 * c + 4 * q + y, s - 365 * y))"

definition civil_year_day :: "int \<Rightarrow> int \<times> int" where
  "civil_year_day d =
     (let z = d + 719468; yd = civil_of_doe (z mod 146097)
      in (400 * (z div 146097) + fst yd, snd yd))"

definition month_day_of_doy :: "int \<Rightarrow> int \<times> int" where
  "month_day_of_doy doy =
     (let mp = (5 * doy + 2) div 153
      in (if mp < 10 then mp + 3 else mp - 9, doy - (153 * mp + 2) div 5 + 1))"

definition month_day :: "gotime \<Rightarrow> int \<times> int" where
  "month_day t = month_day_of_doy (snd (civil_year_day (days_since_epoch t)))"

definition month_of :: "gotime \<Rightarrow> int" where
  "month_of t = fst (month_day t)"

definition day_of :: "gotime \<Rightarrow> int" where
  "day_of t = snd (month_day t)"

definition year_of :: "gotime \<Rightarrow> int" where
  "year_of t = fst (civil_year_day (days_since_epoch t)) + (if month_of t \<le> 2 then 1 else 0)"

text \<open>\<open>t.Truncate(d)\<close> rounds down to a multiple of \<open>d\<close> since the zero time.\<close>

definition truncate_time :: "gotime \<Rightarrow> duration \<Rightarrow> gotime" where
  "truncate_time t d = (if d \<le> 0 then t else t - (t - zero_time) mod d)"

text \<open>\<open>t.Sub(u)\<close> saturates at the largest and smallest duration.\<close>

definition time_sub :: "gotime \<Rightarrow> gotime \<Rightarrow> duration" where
  "time_sub t u = max (- (2 ^ 63)) (min (2 ^ 63 - 1) (t - u))"

text \<open>\<open>t.AddDate(0, 0, n)\<close> in UTC moves by whole days.\<close>

definition add_days :: "gotime \<Rightarrow> int \<Rightarrow> gotime" where
  "add_days t n = t + n * day24"

section \<open>Calendar facts\<close>

definition year_start :: "int \<Rightarrow> int" where
  "year_start y = 365 * y + y div 4 - y div 100 + y div 400 - 719468"

lemma civil_of_doe_cascade:
  assumes "0 \<le> doe" "doe < 146097"
  obtains c q y where "civil_of_doe doe = (100 * c + 4 * q + y, doe - 36524 * c - 1461 * q - 365 * y)"
    "0 \<le> c" "c \<le> 3" "0 \<le> q" "q \<le> 24" "0 \<le> y" "y \<le> 3"
    "0 \<le> doe - 36524 * c - 1461 * q - 365 * y" "doe - 36524 * c - 1461 * q - 365 * y \<le> 365"
proof -
  define c where "c = min (doe div 36524) 3"
  define r where "r = doe - 36524 * c"
  define q where "q = r div 1461"
  define s where "s = r - 1461 * q"
  define y where "y = min (s div 365) 3"
  have c: "0 \<le> c" "c \<le> 3" using assms(1) by (auto simp: c_def)
  have r: "0 \<le> r" "r \<le> 36524"
    using assms(1,2) unfolding r_def c_def min_def by (simp_all split: if_splits) linarith+
  have q: "0 \<le> q" "q \<le> 24" unfolding q_def using r by linarith+
  have s: "0 \<le> s" "s \<le> 1460" unfolding s_def q_def using r by linarith+
  have y: "0 \<le> y" "y \<le> 3" using s by (auto simp: y_def)
  have d: "0 \<le> s - 365 * y" "s - 365 * y \<le> 365"
    using s unfolding y_def min_def by (simp_all split: if_splits) linarith+
  have "civil_of_doe doe = (100 * c + 4 * q + y, doe - 36524 * c - 1461 * q - 365 * y)"
    unfolding civil_of_doe_def Let_def c_def [symmetric] r_def [symmetric] q_def [symmetric]
      s_def [symmetric] y_def [symmetric] by (simp add: s_def r_def)
  from that [OF this c q y] d show thesis by (simp add: s_def r_def)
qed

lemma civil_year_day_cases:
  obtains e c q y doy where "civil_year_day d = (400 * e + 100 * c + 4 * q + y, doy)"
    "0 \<le> c" "c \<le> 3" "0 \<le> q" "q \<le> 24" "0 \<le> y" "y \<le> 3" "0 \<le> doy" "doy \<le> 365"
    "d = 146097 * e + 36524 * c + 1461 * q + 365 * y + doy - 719468"
proof -
  define e doe where "e = (d + 719468) div 146097" and "doe = (d + 719468) mod 146097"
  have doe: "0 \<le> doe" "doe < 146097" and d: "d = 146097 * e + doe - 719468"
    by (simp_all add: doe_def e_def)
  obtain c q y where *: "civil_of_doe doe = (100 * c + 4 * q + y, doe - 36524 * c - 1461 * q - 365 * y)"
    "0 \<le> c" "c \<le> 3" "0 \<le> q" "q \<le> 24" "0 \<le> y" "y \<le> 3"
    "0 \<le> doe - 36524 * c - 1461 * q - 365 * y" "doe - 36524 * c - 1461 * q - 365 * y \<le> 365"
    using civil_of_doe_cascade [OF doe] by metis
  have "civil_year_day d = (400 * e + 100 * c + 4 * q + y, doe - 36524 * c - 1461 * q - 365 * y)"
    unfolding civil_year_day_def Let_def e_def [symmetric] doe_def [symmetric] *(1) by simp
  from that [OF this *(2-9)] d show thesis by simp
qed

lemma civil_year_day_range: "0 \<le> snd (civil_year_day d) \<and> snd (civil_year_day d) \<le> 365"
  by (rule civil_year_day_cases [of d]) simp

lemma civil_year_day_recompose:
  "d = year_start (fst (civil_year_day d)) + snd (civil_year_day d)"
proof (rule civil_year_day_cases [of d])
  fix e c q y doy
  assume *: "civil_year_day d = (400 * e + 100 * c + 4 * q + y, doy)"
    "0 \<le> c" "c \<le> 3" "0 \<le> q" "q \<le> 24" "0 \<le> y" "y \<le> 3"
    "d = 146097 * e + 36524 * c + 1461 * q + 365 * y + doy - 719468"
  let ?Y = "400 * e + 100 * c + 4 * q + y"
  have Y: "?Y div 4 = 100 * e + 25 * c + q" "?Y div 100 = 4 * e + c" "?Y div 400 = e"
    using *(2-7) by linarith+
  show ?thesis unfolding *(1) year_start_def fst_conv snd_conv Y using *(8) by simp
qed

lemma year_start_step: "year_start y + 365 \<le> year_start (y + 1)"
proof -
  define a where "a = y div 4"
  have 1: "y div 100 = a div 25" "(y + 1) div 100 = (y + 1) div 4 div 25"
    by (simp_all add: a_def flip: zdiv_zmult2_eq)
  have 2: "(y + 1) div 4 = a \<or> (y + 1) div 4 = a + 1" unfolding a_def by linarith
  have 3: "(a + 1) div 25 \<le> a div 25 + 1" by linarith
  have 4: "y div 400 \<le> (y + 1) div 400" by (simp add: zdiv_mono1)
  from 2 have "(y + 1) div 4 - (y + 1) div 100 \<ge> y div 4 - y div 100"
  proof
    assume "(y + 1) div 4 = a"
    then show ?thesis unfolding 1 by (simp add: a_def)
  next
    assume "(y + 1) div 4 = a + 1"
    then show ?thesis unfolding 1 using 3 by (simp add: a_def)
  qed
  with 4 show ?thesis unfolding year_start_def by (simp add: algebra_simps)
qed

lemma year_start_mono: "y < y' \<Longrightarrow> year_start y + 365 \<le> year_start y'"
proof (induction "nat (y' - y)" arbitrary: y')
  case 0
  then show ?case by simp
next
  case (Suc n)
  show ?case
  proof (cases "y' = y + 1")
    case True
    then show ?thesis by (simp add: year_start_step)
  next
    case False
    then have "year_start y + 365 \<le> year_start (y' - 1)" using Suc by (intro Suc.hyps) auto
    also have "\<dots> \<le> year_start y'" using year_start_step [of "y' - 1"] by simp
    finally show ?thesis .
  qed
qed

text \<open>Two different days with the same day of the (March-based) year lie a year apart.\<close>

lemma civil_same_doy_apart:
  assumes "snd (civil_year_day d) = snd (civil_year_day d')" "d < d'"
  shows "d + 365 \<le> d'"
proof -
  let ?Y = "fst (civil_year_day d)" and ?Y' = "fst (civil_year_day d')"
  have eq: "d' - d = year_start ?Y' - year_start ?Y"
    using civil_year_day_recompose [of d] civil_year_day_recompose [of d'] assms(1) by linarith
  consider "?Y < ?Y'" | "?Y = ?Y'" | "?Y' < ?Y" by linarith
  then show ?thesis
  proof cases
    case 1
    then show ?thesis using year_start_mono [of ?Y ?Y'] eq by linarith
  next
    case 2
    then show ?thesis using eq assms(2) by simp
  next
    case 3
    then show ?thesis using year_start_mono [of ?Y' ?Y] eq assms(2) by linarith
  qed
qed

text \<open>The calendar date (month and day) determines the day of the year.\<close>

definition doy_of_month_day :: "int \<times> int \<Rightarrow> int" where
  "doy_of_month_day md =
     (let mp = (if fst md \<ge> 3 then fst md - 3 else fst md + 9)
      in (153 * mp + 2) div 5 + snd md - 1)"

lemma doy_of_month_day_of_doy:
  assumes "0 \<le> doy" "doy \<le> 365"
  shows "doy_of_month_day (month_day_of_doy doy) = doy"
proof -
  define mp where "mp = (5 * doy + 2) div 153"
  have "0 \<le> mp" "mp \<le> 11" unfolding mp_def using assms by linarith+
  then have "(if (if mp < 10 then mp + 3 else mp - 9) \<ge> 3 then (if mp < 10 then mp + 3 else mp - 9) - 3
      else (if mp < 10 then mp + 3 else mp - 9) + 9) = mp" by simp
  then show ?thesis
    unfolding doy_of_month_day_def month_day_of_doy_def Let_def mp_def [symmetric] fst_conv snd_conv
    by simp
qed

lemma month_day_apart:
  assumes "month_day t = month_day t'" "days_since_epoch t < days_since_epoch t'"
  shows "days_since_epoch t + 365 \<le> days_since_epoch t'"
proof (rule civil_same_doy_apart [OF _ assms(2)])
  show "snd (civil_year_day (days_since_epoch t)) = snd (civil_year_day (days_since_epoch t'))"
    by (metis assms(1) civil_year_day_range doy_of_month_day_of_doy month_day_def)
qed

lemma days_since_epoch_add: "days_since_epoch (t + k * day24) = days_since_epoch t + k"
  by (simp add: days_since_epoch_def duration_units)

lemma weekday_add: "weekday (t + k * day24) = (weekday t + k) mod 7"
  unfolding weekday_def days_since_epoch_add by presburger

lemma weekday_range: "0 \<le> weekday t \<and> weekday t < 7"
  by (simp add: weekday_def)

lemma zero_time_minute: "zero_time mod minute = 0"
  by (simp add: zero_time_def duration_units)

lemma truncate_minute: "truncate_time t minute = t - t mod minute"
proof -
  have "(t - zero_time) mod minute = t mod minute"
    using zero_time_minute by (metis diff_zero mod_diff_right_eq)
  then show ?thesis by (simp add: truncate_time_def duration_units)
qed

lemma truncate_minute_bounds: "truncate_time t minute \<le> t" "t - minute < truncate_time t minute"
proof -
  have "0 \<le> t mod minute" "t mod minute < minute" by (simp_all add: duration_units)
  then show "truncate_time t minute \<le> t" "t - minute < truncate_time t minute"
    unfolding truncate_minute by simp_all
qed

text \<open>Sanity anchors: 2026-01-05 is a Monday, 2024-02-29 exists.\<close>

lemma calendar_anchor_2026:
  "weekday (20458 * day24) = 1 \<and> month_day (20458 * day24) = (1, 5) \<and> year_of (20458 * day24) = 2026"
  by code_simp

lemma calendar_anchor_leap:
  "month_day (19782 * day24) = (2, 29) \<and> year_of (19782 * day24) = 2024"
  by code_simp

end
