(* ===== verification/Go_Float.thy ===== *)
theory Go_Float
  imports Prelude "HOL-Library.Log_Nat"
begin

text \<open>
  Go's \<open>float64\<close>. A finite float64 is the rational number it denotes; every arithmetic
  operation computes the exact result and rounds it to the nearest number with a 53-bit
  significand, ties to even, as IEEE 754 prescribes (subnormals included). NaN, the
  infinities and overflow past the largest float64 are outside the model: the quantities
  the code computes with (days, square feet, multipliers) stay far below that bound.
  A conversion to an integer truncates towards zero; out of the 64-bit range it yields the
  minimal integer, as the amd64 code does (the language leaves it open).
\<close>

type_synonym f64 = rat

definition pow2 :: "int \<Rightarrow> rat" where
  "pow2 e = (if 0 \<le> e then 2 ^ nat e else 1 / 2 ^ nat (- e))"

definition ilog2 :: "rat \<Rightarrow> int" where
  "ilog2 x =
     (let pq = quotient_of x; k = bitlen (fst pq) - bitlen (snd pq)
      in if pow2 k \<le> x then k else k - 1)"

definition round_even :: "rat \<Rightarrow> int" where
  "round_even y =
     (let n = \<lfloor>y\<rfloor>; r = y - of_int n
      in if r < 1 / 2 then n else if 1 / 2 < r then n + 1 else if even n then n else n + 1)"

definition fexp :: "rat \<Rightarrow> int" where
  "fexp x = max (ilog2 \<bar>x\<bar> - 52) (- 1074)"

definition fl :: "rat \<Rightarrow> f64" where
  "fl x = (if x = 0 then 0 else of_int (round_even (x / pow2 (fexp x))) * pow2 (fexp x))"

definition fadd :: "f64 \<Rightarrow> f64 \<Rightarrow> f64" where "fadd x y = fl (x + y)"
definition fsub :: "f64 \<Rightarrow> f64 \<Rightarrow> f64" where "fsub x y = fl (x - y)"
definition fmul :: "f64 \<Rightarrow> f64 \<Rightarrow> f64" where "fmul x y = fl (x * y)"
definition fdiv :: "f64 \<Rightarrow> f64 \<Rightarrow> f64" where "fdiv x y = fl (x / y)"

definition f64_of_int :: "int \<Rightarrow> f64" where
  "f64_of_int n = fl (of_int n)"

definition trunc :: "rat \<Rightarrow> int" where
  "trunc x = (if 0 \<le> x then \<lfloor>x\<rfloor> else \<lceil>x\<rceil>)"

definition int64_of_f64 :: "f64 \<Rightarrow> int" where
  "int64_of_f64 x = (let n = trunc x in if in_int64 n then n else - (2 ^ 63))"

text \<open>\<open>math.Round\<close> rounds half away from zero; \<open>math.Ceil\<close> is exact.\<close>

definition math_round :: "f64 \<Rightarrow> f64" where
  "math_round x = (if 0 \<le> x then of_int \<lfloor>x + 1 / 2\<rfloor> else of_int \<lceil>x - 1 / 2\<rceil>)"

definition math_ceil :: "f64 \<Rightarrow> f64" where
  "math_ceil x = of_int \<lceil>x\<rceil>"

lemmas float_ops = fadd_def fsub_def fmul_def fdiv_def

section \<open>Powers of two and exponents\<close>

lemma pow2_powi: "pow2 e = 2 powi e"
  by (simp add: pow2_def power_int_def inverse_eq_divide power_one_over)

lemma pow2_pos [simp]: "0 < pow2 e"
  by (simp add: pow2_def)

lemma pow2_nonneg [simp]: "0 \<le> pow2 e"
  by (simp add: less_imp_le)

lemma pow2_nonzero [simp]: "pow2 e \<noteq> 0"
  using pow2_pos [of e] by linarith

lemma pow2_add: "pow2 (a + b) = pow2 a * pow2 b"
  by (simp add: pow2_powi power_int_add)

lemma pow2_diff: "pow2 (a - b) = pow2 a / pow2 b"
  by (simp add: pow2_powi power_int_diff)

lemma pow2_mono: "pow2 a \<le> pow2 b \<longleftrightarrow> a \<le> b"
proof -
  have up: "pow2 a \<le> pow2 b" if "a \<le> b" for a b
    unfolding pow2_powi using that by (intro power_int_increasing) auto
  have "pow2 b < pow2 a" if "b < a"
    unfolding pow2_powi using that by (intro power_int_strict_increasing) auto
  with up show ?thesis by (metis linorder_not_less)
qed

lemma pow2_strict_mono: "pow2 a < pow2 b \<longleftrightarrow> a < b"
  by (metis linorder_not_less pow2_mono)

lemma pow2_nat: "0 \<le> e \<Longrightarrow> pow2 e = of_int (2 ^ nat e)"
  by (simp add: pow2_def)

lemma bitlen_rat: "0 < p \<Longrightarrow> pow2 (bitlen p - 1) \<le> of_int p \<and> of_int p < pow2 (bitlen p)"
proof -
  assume p: "0 < p"
  then have b: "2 ^ nat (bitlen p - 1) \<le> p" "p < 2 ^ nat (bitlen p)" "0 < bitlen p"
    using bitlen_bounds [OF p] bitlen_eq_zero_iff [of p] bitlen_nonneg [of p] by auto
  then have "(of_int (2 ^ nat (bitlen p - 1)) :: rat) \<le> of_int p"
    "(of_int p :: rat) < of_int (2 ^ nat (bitlen p))" by (simp_all only: of_int_le_iff of_int_less_iff)
  then show ?thesis using b(3) by (simp add: pow2_def)
qed

lemma ilog2_bounds:
  assumes "0 < x"
  shows "pow2 (ilog2 x) \<le> x" "x < pow2 (ilog2 x + 1)"
proof -
  obtain p q where pq: "quotient_of x = (p, q)" by fastforce
  then have q: "0 < q" and x: "x = of_int p / of_int q"
    by (auto dest: quotient_of_denom_pos quotient_of_div)
  then have p: "0 < p" using assms by (simp add: zero_less_divide_iff)
  let ?a = "bitlen p" and ?b = "bitlen q"
  have lo: "pow2 (?a - ?b - 1) \<le> x"
  proof -
    have "pow2 (?a - 1) / pow2 ?b \<le> of_int p / of_int q"
      using bitlen_rat [OF p] bitlen_rat [OF q] p q by (intro frac_le) auto
    then show ?thesis unfolding x pow2_diff [symmetric] by (simp add: algebra_simps)
  qed
  have hi: "x < pow2 (?a - ?b + 1)"
  proof -
    have "of_int p / of_int q < pow2 ?a / pow2 (?b - 1)"
      using bitlen_rat [OF p] bitlen_rat [OF q] p by (intro frac_less) auto
    then show ?thesis unfolding x pow2_diff [symmetric] by (simp add: algebra_simps)
  qed
  show "pow2 (ilog2 x) \<le> x" "x < pow2 (ilog2 x + 1)"
    using lo hi by (auto simp: ilog2_def pq Let_def not_le)
qed

lemma ilog2_mono: "0 < x \<Longrightarrow> x \<le> y \<Longrightarrow> ilog2 x \<le> ilog2 y"
proof -
  assume "0 < x" "x \<le> y"
  then have "pow2 (ilog2 x) < pow2 (ilog2 y + 1)"
    using ilog2_bounds [of x] ilog2_bounds [of y] by linarith
  then show ?thesis by (simp add: pow2_strict_mono)
qed

section \<open>Rounding to integers\<close>

lemma round_even_of_int [simp]: "round_even (of_int n) = n"
  by (simp add: round_even_def Let_def)

lemma round_even_bounds: "\<lfloor>y\<rfloor> \<le> round_even y \<and> round_even y \<le> \<lfloor>y\<rfloor> + 1"
  by (simp add: round_even_def Let_def)

lemma round_even_mono: "y \<le> y' \<Longrightarrow> round_even y \<le> round_even y'"
proof -
  assume le: "y \<le> y'"
  show ?thesis
  proof (cases "\<lfloor>y\<rfloor> = \<lfloor>y'\<rfloor>")
    case True
    then show ?thesis using le by (auto simp: round_even_def Let_def)
  next
    case False
    then have "\<lfloor>y\<rfloor> + 1 \<le> \<lfloor>y'\<rfloor>" using floor_mono [OF le] by linarith
    then show ?thesis using round_even_bounds [of y] round_even_bounds [of y'] by linarith
  qed
qed

lemma round_even_ge: "of_int n \<le> y \<Longrightarrow> n \<le> round_even y"
  using round_even_mono [of "of_int n" y] by simp

lemma round_even_le: "y \<le> of_int n \<Longrightarrow> round_even y \<le> n"
  using round_even_mono [of y "of_int n"] by simp

section \<open>Rounding to float64\<close>

lemma fl_zero [simp]: "fl 0 = 0"
  by (simp add: fl_def)

lemma fl_nonneg: "0 \<le> x \<Longrightarrow> 0 \<le> fl x"
  using round_even_ge [of 0 "x / pow2 (fexp x)"] by (simp add: fl_def)

lemma fexp_upper: "0 < x \<Longrightarrow> x < pow2 (fexp x + 53)"
proof -
  assume x: "0 < x"
  have "ilog2 x + 1 \<le> fexp x + 53" using x by (simp add: fexp_def)
  then have "pow2 (ilog2 x + 1) \<le> pow2 (fexp x + 53)" by (simp add: pow2_mono)
  then show ?thesis using ilog2_bounds(2) [OF x] by linarith
qed

lemma fl_le_pow2: "0 < x \<Longrightarrow> fl x \<le> pow2 (fexp x + 53)"
proof -
  assume x: "0 < x"
  have "x / pow2 (fexp x) \<le> pow2 53"
    using fexp_upper [OF x] by (simp add: pow2_add pos_divide_le_eq mult.commute)
  then have "round_even (x / pow2 (fexp x)) \<le> 2 ^ 53" by (intro round_even_le) (simp add: pow2_def)
  then have "(of_int (round_even (x / pow2 (fexp x))) :: rat) \<le> of_int (2 ^ 53)"
    by (simp only: of_int_le_iff)
  then show ?thesis using x by (simp add: fl_def pow2_add pow2_def [of 53] mult.commute)
qed

lemma fl_mono_pos: "0 < x \<Longrightarrow> x \<le> y \<Longrightarrow> fl x \<le> fl y"
proof -
  assume x: "0 < x" and xy: "x \<le> y"
  have e: "fexp x \<le> fexp y" using ilog2_mono [OF x xy] x xy by (simp add: fexp_def)
  show ?thesis
  proof (cases "fexp x = fexp y")
    case True
    have "x / pow2 (fexp y) \<le> y / pow2 (fexp y)" using xy by (intro divide_right_mono) simp_all
    then have "round_even (x / pow2 (fexp y)) \<le> round_even (y / pow2 (fexp y))"
      by (rule round_even_mono)
    then show ?thesis using x xy True by (simp add: fl_def)
  next
    case False
    with e have lt: "fexp x + 1 \<le> fexp y" by simp
    then have "fexp y = ilog2 y - 52" using x xy by (auto simp: fexp_def)
    then have "pow2 (fexp y + 52) \<le> y" using ilog2_bounds(1) [of y] x xy by simp
    then have "pow2 52 \<le> y / pow2 (fexp y)" by (simp add: pow2_add pos_le_divide_eq mult.commute)
    then have "2 ^ 52 \<le> round_even (y / pow2 (fexp y))" by (intro round_even_ge) (simp add: pow2_def)
    then have "(of_int (2 ^ 52) :: rat) \<le> of_int (round_even (y / pow2 (fexp y)))"
      by (simp only: of_int_le_iff)
    then have "pow2 (fexp y + 52) \<le> fl y"
      using x xy by (simp add: fl_def pow2_add pow2_def [of 52] mult.commute)
    moreover have "pow2 (fexp x + 53) \<le> pow2 (fexp y + 52)" using lt by (simp add: pow2_mono)
    ultimately show ?thesis using fl_le_pow2 [OF x] by linarith
  qed
qed

lemma fl_mono: "0 \<le> x \<Longrightarrow> x \<le> y \<Longrightarrow> fl x \<le> fl y"
  using fl_mono_pos [of x y] fl_nonneg [of y] by (cases "x = 0") auto

text \<open>A number with a significand of at most 53 bits is represented exactly.\<close>

definition representable :: "rat \<Rightarrow> bool" where
  "representable x \<longleftrightarrow> (\<exists>m e. x = of_int m * pow2 e \<and> \<bar>m\<bar> \<le> 2 ^ 53 \<and> - 1074 \<le> e)"

lemma fl_exact:
  assumes "representable x"
  shows "fl x = x"
proof (cases "x = 0")
  case False
  from assms obtain m e where x: "x = of_int m * pow2 e" and m: "\<bar>m\<bar> \<le> 2 ^ 53" and e: "- 1074 \<le> e"
    by (auto simp: representable_def)
  let ?E = "fexp x"
  have ax: "0 < \<bar>x\<bar>" using False by simp
  have abs: "\<bar>x\<bar> = of_int \<bar>m\<bar> * pow2 e" by (simp add: x abs_mult abs_of_pos)
  have int: "\<exists>n. x / pow2 ?E = of_int n"
  proof (cases "?E \<le> e")
    case True
    have "x / pow2 ?E = of_int m * pow2 (e - ?E)" by (simp add: x pow2_diff)
    also have "\<dots> = of_int (m * 2 ^ nat (e - ?E))" using True by (simp add: pow2_nat)
    finally show ?thesis by blast
  next
    case False
    then have E: "?E = ilog2 \<bar>x\<bar> - 52" using e by (auto simp: fexp_def)
    have up: "\<bar>x\<bar> \<le> pow2 (53 + e)"
    proof -
      have "(of_int \<bar>m\<bar> :: rat) \<le> of_int (2 ^ 53)" using m by (simp only: of_int_le_iff)
      then have "of_int \<bar>m\<bar> * pow2 e \<le> pow2 53 * pow2 e"
        by (intro mult_right_mono) (simp_all add: pow2_def [of 53] less_imp_le)
      then show ?thesis by (simp add: abs pow2_add)
    qed
    have lo: "pow2 (?E + 52) \<le> \<bar>x\<bar>" using ilog2_bounds(1) [OF ax] E by simp
    from lo up have "pow2 (?E + 52) \<le> pow2 (53 + e)" by linarith
    with False have Ee: "?E = e + 1" by (simp add: pow2_mono)
    with lo up have "\<bar>x\<bar> = pow2 (?E + 52)" by (simp add: algebra_simps)
    then have "\<bar>x\<bar> / pow2 ?E = of_int (2 ^ 52)" by (simp add: pow2_add pow2_def [of 52])
    then have "x / pow2 ?E = of_int (2 ^ 52) \<or> x / pow2 ?E = of_int (- (2 ^ 52))"
      by (cases "0 \<le> x") (simp_all add: minus_equation_iff)
    then show ?thesis by blast
  qed
  then show ?thesis using False by (auto simp: fl_def) (metis pow2_nonzero nonzero_eq_divide_eq)
qed simp

lemma representable_int: "\<bar>n\<bar> \<le> 2 ^ 53 \<Longrightarrow> representable (of_int n)"
  unfolding representable_def by (intro exI [of _ n] exI [of _ 0]) (simp add: pow2_def)

lemma representable_int_shift: "\<bar>n\<bar> \<le> 2 ^ 53 \<Longrightarrow> representable (of_int (n * 2 ^ k))"
  unfolding representable_def by (intro exI [of _ n] exI [of _ "int k"]) (simp add: pow2_def)

lemma f64_of_int_exact: "\<bar>n\<bar> \<le> 2 ^ 53 \<Longrightarrow> f64_of_int n = of_int n"
  by (simp add: f64_of_int_def fl_exact representable_int)

lemma fl_ge: "representable c \<Longrightarrow> 0 \<le> c \<Longrightarrow> c \<le> x \<Longrightarrow> c \<le> fl x"
  using fl_mono [of c x] fl_exact [of c] by simp

lemma fl_le: "representable c \<Longrightarrow> 0 \<le> x \<Longrightarrow> x \<le> c \<Longrightarrow> fl x \<le> c"
  using fl_mono [of x c] fl_exact [of c] by simp

lemma representable_fl_pos:
  assumes "0 < x"
  shows "representable (fl x)"
proof -
  let ?n = "round_even (x / pow2 (fexp x))"
  have "0 \<le> ?n" using assms by (intro round_even_ge) simp
  moreover have "?n \<le> 2 ^ 53"
  proof (rule round_even_le)
    show "x / pow2 (fexp x) \<le> of_int (2 ^ 53)"
      using fexp_upper [OF assms] by (simp add: pow2_add pow2_def [of 53] pos_divide_le_eq mult.commute)
  qed
  moreover have "- 1074 \<le> fexp x" by (simp add: fexp_def)
  ultimately show ?thesis unfolding representable_def
    using assms by (intro exI [of _ ?n] exI [of _ "fexp x"]) (simp add: fl_def)
qed

lemma representable_zero [simp]: "representable 0"
  using representable_int [of 0] by simp

lemma representable_fl: "0 \<le> x \<Longrightarrow> representable (fl x)"
  using representable_fl_pos [of x] by (cases "x = 0") simp_all

lemma fmul_ge_self: "representable x \<Longrightarrow> 0 \<le> x \<Longrightarrow> 1 \<le> k \<Longrightarrow> x \<le> fmul x k"
  unfolding fmul_def by (rule fl_ge) (auto simp: mult_le_cancel_left1)

lemma trunc_of_int [simp]: "trunc (of_int n) = n"
  by (simp add: trunc_def)

lemma int64_of_f64_of_int: "in_int64 n \<Longrightarrow> int64_of_f64 (of_int n) = n"
  by (simp add: int64_of_f64_def)

text \<open>Rounding is symmetric.\<close>

lemma round_even_minus: "round_even (- y) = - round_even y"
proof (cases "y = of_int \<lfloor>y\<rfloor>")
  case True
  then show ?thesis by (metis of_int_minus round_even_of_int)
next
  case False
  then have c: "\<lfloor>- y\<rfloor> = - \<lfloor>y\<rfloor> - 1" by (simp add: floor_minus ceiling_altdef)
  have "- y - of_int (- \<lfloor>y\<rfloor> - 1) = 1 - (y - of_int \<lfloor>y\<rfloor>)" by simp
  then show ?thesis unfolding round_even_def Let_def c by (auto simp: field_simps)
qed

lemma fl_minus: "fl (- x) = - fl x"
  by (simp add: fl_def fexp_def round_even_minus)

lemma f64_of_int_minus: "f64_of_int (- n) = - f64_of_int n"
  by (simp add: f64_of_int_def fl_minus)

end
