(* ===== verification/Models.thy ===== *)
theory Models
  imports Go_Time Go_Float
begin

text \<open>
  The scheduling data of internal/models/project.go and internal/models/types/dependency.go:
  project tasks, task dependencies, WBS template tasks and dependencies, DHSM inputs and the
  weather forecast. A pointer field is an option, a UUID a natural number (0 is the nil UUID).
\<close>

text \<open>\<open>DependencyType\<close> is a string in the code; values outside the four constants can occur.\<close>

type_synonym DependencyType = string

definition DependencyTypeFS :: DependencyType where "DependencyTypeFS = ''FS''"
definition DependencyTypeSS :: DependencyType where "DependencyTypeSS = ''SS''"
definition DependencyTypeFF :: DependencyType where "DependencyTypeFF = ''FF''"
definition DependencyTypeSF :: DependencyType where "DependencyTypeSF = ''SF''"

lemmas dependency_types =
  DependencyTypeFS_def DependencyTypeSS_def DependencyTypeFF_def DependencyTypeSF_def

record Forecast =
  PrecipitationMM :: f64
  LowTempC :: f64
  HighTempC :: f64

record ProjectTask =
  pt_ID :: uuid
  pt_ProjectID :: uuid
  pt_WBSCode :: string
  pt_Name :: string
  pt_DurationDays :: int
  pt_EarlyStart :: "gotime option"
  pt_EarlyFinish :: "gotime option"
  pt_LateStart :: "gotime option"
  pt_LateFinish :: "gotime option"
  pt_TotalFloat :: "int option"
  pt_IsCritical :: bool
  pt_Status :: string
  pt_PercentComplete :: int
  pt_AssignedCrew :: "uuid list"
  pt_CreatedAt :: gotime
  pt_UpdatedAt :: gotime
  pt_CalculatedDuration :: f64
  pt_WeatherAdjustedDuration :: f64
  pt_ManualOverrideDays :: "f64 option"

record TaskDependency =
  td_ID :: uuid
  td_ProjectID :: uuid
  td_PredecessorID :: uuid
  td_SuccessorID :: uuid
  td_DependencyType :: DependencyType
  td_LagDays :: int

record WBSTask =
  wt_Code :: string
  wt_Name :: string
  wt_BaseDurationDays :: f64
  wt_ResponsibleParty :: string
  wt_Deliverable :: string
  wt_PredecessorCodes :: "string list"
  wt_IsInspection :: bool

record WBSTemplateDep =
  wd_PredecessorCode :: string
  wd_SuccessorCode :: string
  wd_Type :: DependencyType
  wd_LagDays :: int

record ProjectContext =
  SupplyChainVolatility :: int
  RoughInspectionLatency :: int
  FinalInspectionLatency :: int

record DurationMultiplier =
  dm_WBSTaskCode :: string
  dm_VariableKey :: string
  dm_Weight :: f64
  dm_MultiplierFormula :: string

text \<open>The zero value of a task, for building examples and the SWIM temporary task.\<close>

definition zero_task :: ProjectTask where
  "zero_task = \<lparr>pt_ID = uuid_nil, pt_ProjectID = uuid_nil, pt_WBSCode = [], pt_Name = [],
     pt_DurationDays = 0, pt_EarlyStart = None, pt_EarlyFinish = None, pt_LateStart = None,
     pt_LateFinish = None, pt_TotalFloat = None, pt_IsCritical = False, pt_Status = [],
     pt_PercentComplete = 0, pt_AssignedCrew = [], pt_CreatedAt = zero_time,
     pt_UpdatedAt = zero_time, pt_CalculatedDuration = 0, pt_WeatherAdjustedDuration = 0,
     pt_ManualOverrideDays = None\<rparr>"

definition zero_dep :: TaskDependency where
  "zero_dep = \<lparr>td_ID = uuid_nil, td_ProjectID = uuid_nil, td_PredecessorID = uuid_nil,
     td_SuccessorID = uuid_nil, td_DependencyType = [], td_LagDays = 0\<rparr>"

end
