(* ===== verification/Digraph.thy ===== *)
theory Digraph
  imports Prelude
begin

text \<open>
  The interface of gonum's directed graph and topological sort, as far as internal/physics/cpm.go
  calls it (package gonum.org/v1/gonum is not part of the repository): \<open>digraph_ops\<close> holds
  the operations, the locale \<open>gonum\<close> their documented behaviour. \<open>AddNode\<close> panics on a known
  node and \<open>SetEdge\<close> on a self edge (None); \<open>topo.Sort\<close> returns a topological order, or an
  \<open>Unorderable\<close> error holding the cyclic components. The list-based digraph at the end,
  with Kahn's algorithm, satisfies the interface.
\<close>

record 'g digraph_ops =
  dg_new :: 'g
  dg_add_node :: "'g \<Rightarrow> int \<Rightarrow> 'g option"
  dg_set_edge :: "'g \<Rightarrow> int \<Rightarrow> int \<Rightarrow> 'g option"
  dg_to :: "'g \<Rightarrow> int \<Rightarrow> int list"
  dg_from :: "'g \<Rightarrow> int \<Rightarrow> int list"
  dg_topo_sort :: "'g \<Rightarrow> int list list + int list"

text \<open>Every node comes after all its predecessors.\<close>

definition topo_order :: "('a \<times> 'a) set \<Rightarrow> 'a list \<Rightarrow> bool" where
  "topo_order E vs \<longleftrightarrow>
     distinct vs \<and> (\<forall>pre v post. vs = pre @ v # post \<longrightarrow> (\<forall>u. (u, v) \<in> E \<longrightarrow> u \<in> set pre))"

lemma topo_orderD: "topo_order E (pre @ v # post) \<Longrightarrow> (u, v) \<in> E \<Longrightarrow> u \<in> set pre"
  by (auto simp: topo_order_def)

lemma topo_order_distinct: "topo_order E vs \<Longrightarrow> distinct vs"
  by (simp add: topo_order_def)

lemma topo_order_succ:
  assumes "topo_order E (pre @ v # post)" "(v, w) \<in> E" "w \<in> set (pre @ v # post)"
  shows "w \<in> set post"
proof (rule ccontr)
  assume "w \<notin> set post"
  with assms(3) have "w \<in> set (pre @ [v])" by auto
  then obtain xs ys where "pre @ [v] = xs @ w # ys" by (meson split_list)
  then have *: "pre @ v # post = xs @ w # ys @ post" by simp
  then have "v \<in> set xs" using assms(1,2) by (metis topo_orderD)
  moreover have "v \<in> set (w # ys)"
    using \<open>pre @ [v] = xs @ w # ys\<close> by (metis last_appendR last_in_set last_snoc list.distinct(1))
  ultimately show False using topo_order_distinct [OF assms(1)] unfolding * by auto
qed

lemma topo_order_acyclic:
  assumes "topo_order E vs" "E \<subseteq> set vs \<times> set vs"
  shows "acyclic E"
proof -
  have before: "(u, v) \<in> E\<^sup>+ \<Longrightarrow> vs = pre @ v # post \<Longrightarrow> u \<in> set pre" for u v pre post
  proof (induction arbitrary: pre post rule: trancl_induct)
    case (base y)
    then show ?case using assms(1) topo_orderD by metis
  next
    case (step y z)
    then have "y \<in> set pre" using assms(1) topo_orderD by metis
    then obtain xs ys where "pre = xs @ y # ys" by (meson split_list)
    with step.IH [of xs "ys @ z # post"] step.prems show ?case by simp
  qed
  have "(v, v) \<notin> E\<^sup>+" for v
  proof
    assume *: "(v, v) \<in> E\<^sup>+"
    then have "v \<in> set vs" using assms(2) by (metis SigmaD1 subsetD tranclD)
    then obtain xs ys where "vs = xs @ v # ys" by (meson split_list)
    then show False using before [OF *] topo_order_distinct [OF assms(1)] by fastforce
  qed
  then show ?thesis by (simp add: acyclic_def)
qed

locale gonum =
  fixes ops :: "'g digraph_ops"
    and valid :: "'g \<Rightarrow> bool"
    and nodes :: "'g \<Rightarrow> int set"
    and edges :: "'g \<Rightarrow> (int \<times> int) set"
  assumes new: "valid (dg_new ops)" "nodes (dg_new ops) = {}" "edges (dg_new ops) = {}"
    and add_node: "valid g \<Longrightarrow> n \<notin> nodes g \<Longrightarrow>
      \<exists>g'. dg_add_node ops g n = Some g' \<and> valid g' \<and> nodes g' = insert n (nodes g) \<and> edges g' = edges g"
    and set_edge: "valid g \<Longrightarrow> u \<noteq> v \<Longrightarrow>
      \<exists>g'. dg_set_edge ops g u v = Some g' \<and> valid g' \<and> nodes g' = nodes g \<union> {u, v} \<and>
           edges g' = insert (u, v) (edges g)"
    and self_edge: "dg_set_edge ops g u u = None"
    and edges_nodes: "valid g \<Longrightarrow> edges g \<subseteq> nodes g \<times> nodes g"
    and to: "valid g \<Longrightarrow> set (dg_to ops g v) = {u. (u, v) \<in> edges g}"
    and fro: "valid g \<Longrightarrow> set (dg_from ops g u) = {v. (u, v) \<in> edges g}"
    and sort_order: "valid g \<Longrightarrow> dg_topo_sort ops g = Inr vs \<Longrightarrow> set vs = nodes g \<and> topo_order (edges g) vs"
    and sort_acyclic: "valid g \<Longrightarrow> acyclic (edges g) \<Longrightarrow> \<exists>vs. dg_topo_sort ops g = Inr vs"
    and sort_cyclic: "valid g \<Longrightarrow> dg_topo_sort ops g = Inl cs \<Longrightarrow>
      set (concat cs) = {v. (v, v) \<in> (edges g)\<^sup>+}"
begin

lemma set_edge_Some:
  "valid g \<Longrightarrow> dg_set_edge ops g u v = Some g' \<Longrightarrow>
   u \<noteq> v \<and> valid g' \<and> nodes g' = nodes g \<union> {u, v} \<and> edges g' = insert (u, v) (edges g)"
  using set_edge [of g u v] self_edge [of g u] by (cases "u = v") auto

lemma add_node_Some:
  "valid g \<Longrightarrow> n \<notin> nodes g \<Longrightarrow> dg_add_node ops g n = Some g' \<Longrightarrow>
   valid g' \<and> nodes g' = insert n (nodes g) \<and> edges g' = edges g"
  using add_node [of g n] by auto

lemma sort_iff_acyclic: "valid g \<Longrightarrow> (\<exists>vs. dg_topo_sort ops g = Inr vs) \<longleftrightarrow> acyclic (edges g)"
  using sort_order sort_acyclic topo_order_acyclic edges_nodes by metis

lemma sort_error_cyclic: "valid g \<Longrightarrow> dg_topo_sort ops g = Inl cs \<Longrightarrow> \<not> acyclic (edges g)"
  using sort_iff_acyclic by (metis sum.distinct(1))

end

section \<open>A list-based implementation\<close>

type_synonym lgraph = "int list \<times> (int \<times> int) list"

definition lg_add_node :: "lgraph \<Rightarrow> int \<Rightarrow> lgraph option" where
  "lg_add_node g n = (if n \<in> set (fst g) then None else Some (fst g @ [n], snd g))"

definition lg_set_edge :: "lgraph \<Rightarrow> int \<Rightarrow> int \<Rightarrow> lgraph option" where
  "lg_set_edge g u v =
     (if u = v then None
      else Some (List.insert u (List.insert v (fst g)), List.insert (u, v) (snd g)))"

text \<open>Kahn's algorithm: take a node with no predecessor left, until none can be taken.\<close>

function kahn :: "(int \<times> int) list \<Rightarrow> int list \<Rightarrow> int list \<times> int list" where
  "kahn es ns =
     (case List.find (\<lambda>v. list_all (\<lambda>e. snd e = v \<longrightarrow> fst e \<notin> set ns) es) ns of
        None \<Rightarrow> ([], ns)
      | Some v \<Rightarrow>
          (if v \<in> set ns
           then let r = kahn es (remove1 v ns) in (v # fst r, snd r)
           else ([], ns)))"
  by pat_completeness auto

termination
  by (relation "measure (\<lambda>(es, ns). length ns)") (auto simp: length_remove1 dest: length_pos_if_in_set)

declare kahn.simps [simp del]

definition lg_topo_sort :: "lgraph \<Rightarrow> int list list + int list" where
  "lg_topo_sort g =
     (let r = kahn (snd g) (fst g)
      in if snd r = [] then Inr (fst r)
         else Inl [filter (\<lambda>v. (v, v) \<in> (set (snd g))\<^sup>+) (fst g)])"

definition lg_ops :: "lgraph digraph_ops" where
  "lg_ops = \<lparr>dg_new = ([], []), dg_add_node = lg_add_node, dg_set_edge = lg_set_edge,
     dg_to = (\<lambda>g v. map fst (filter (\<lambda>e. snd e = v) (snd g))),
     dg_from = (\<lambda>g u. map snd (filter (\<lambda>e. fst e = u) (snd g))),
     dg_topo_sort = lg_topo_sort\<rparr>"

definition lg_valid :: "lgraph \<Rightarrow> bool" where
  "lg_valid g \<longleftrightarrow> distinct (fst g) \<and> set (snd g) \<subseteq> set (fst g) \<times> set (fst g)"

lemma kahn_cases:
  obtains (stop) "\<forall>v\<in>set ns. \<exists>u\<in>set ns. (u, v) \<in> set es" "kahn es ns = ([], ns)"
  | (take) v where "v \<in> set ns" "\<forall>u\<in>set ns. (u, v) \<notin> set es"
      "kahn es ns = (v # fst (kahn es (remove1 v ns)), snd (kahn es (remove1 v ns)))"
proof (cases "List.find (\<lambda>v. list_all (\<lambda>e. snd e = v \<longrightarrow> fst e \<notin> set ns) es) ns")
  case None
  then have "\<forall>v\<in>set ns. \<exists>u\<in>set ns. (u, v) \<in> set es"
    by (fastforce simp: find_None_all list_all_iff)
  moreover have "kahn es ns = ([], ns)" using None by (subst kahn.simps) simp
  ultimately show thesis by (rule stop)
next
  case (Some v)
  then have v: "v \<in> set ns" "\<forall>u\<in>set ns. (u, v) \<notin> set es"
    using find_Some_iff_first [OF Some] by (auto simp: list_all_iff)
  moreover have "kahn es ns = (v # fst (kahn es (remove1 v ns)), snd (kahn es (remove1 v ns)))"
    using Some v by (subst kahn.simps) (simp add: Let_def)
  ultimately show thesis by (rule take)
qed

lemma kahn_partition:
  "distinct ns \<Longrightarrow> distinct (fst (kahn es ns) @ snd (kahn es ns)) \<and>
   set (fst (kahn es ns)) \<union> set (snd (kahn es ns)) = set ns"
proof (induction "length ns" arbitrary: ns)
  case 0
  then show ?case by (cases rule: kahn_cases [of ns es]) auto
next
  case (Suc n)
  show ?case
  proof (cases rule: kahn_cases [of ns es])
    case stop
    then show ?thesis using Suc.prems by simp
  next
    case (take v)
    have "length (remove1 v ns) = n" using Suc.hyps(2) take(1) by (simp add: length_remove1)
    with Suc.hyps(1) [of "remove1 v ns"] Suc.prems have
      "distinct (fst (kahn es (remove1 v ns)) @ snd (kahn es (remove1 v ns)))"
      "set (fst (kahn es (remove1 v ns))) \<union> set (snd (kahn es (remove1 v ns))) = set ns - {v}"
      by (simp_all add: set_remove1_eq)
    then show ?thesis using take by auto
  qed
qed

lemma kahn_stuck: "snd (kahn es ns) \<noteq> [] \<Longrightarrow>
  set (snd (kahn es ns)) \<subseteq> set ns \<and> (\<forall>v\<in>set (snd (kahn es ns)). \<exists>u\<in>set (snd (kahn es ns)). (u, v) \<in> set es)"
proof (induction "length ns" arbitrary: ns)
  case 0
  then show ?case by (cases rule: kahn_cases [of ns es]) auto
next
  case (Suc n)
  show ?case
  proof (cases rule: kahn_cases [of ns es])
    case (take v)
    have "length (remove1 v ns) = n" using Suc.hyps(2) take(1) by (simp add: length_remove1)
    with Suc.hyps(1) [of "remove1 v ns"] Suc.prems take(3) show ?thesis
      using set_remove1_subset [of v ns] by auto
  qed auto
qed

lemma kahn_order:
  "distinct ns \<Longrightarrow> snd (kahn es ns) = [] \<Longrightarrow> fst (kahn es ns) = pre @ v # post \<Longrightarrow>
   (u, v) \<in> set es \<Longrightarrow> u \<in> set ns \<Longrightarrow> u \<in> set pre"
proof (induction "length ns" arbitrary: ns pre)
  case 0
  then show ?case by simp
next
  case (Suc n)
  show ?case
  proof (cases rule: kahn_cases [of ns es])
    case stop
    then show ?thesis using Suc.prems by simp
  next
    case (take w)
    have len: "n = length (remove1 w ns)" using Suc.hyps(2) take(1) by (simp add: length_remove1)
    show ?thesis
    proof (cases pre)
      case Nil
      then show ?thesis using take Suc.prems by auto
    next
      case (Cons x pre')
      then have x: "x = w" "fst (kahn es (remove1 w ns)) = pre' @ v # post"
        using take(3) Suc.prems(3) by auto
      show ?thesis
      proof (cases "u = w")
        case False
        then show ?thesis
          using Suc.hyps(1) [OF len _ _ x(2) Suc.prems(4)] Suc.prems take(3) Cons by simp
      qed (use x Cons in simp)
    qed
  qed
qed

lemma finite_acyclic_source:
  assumes "finite (V :: 'a set)" "V \<noteq> {}" "\<forall>v\<in>V. \<exists>u\<in>V. (u, v) \<in> E" "finite E"
  shows "\<not> acyclic E"
proof
  assume "acyclic E"
  then have "wf E" using assms(4) by (rule finite_acyclic_wf [rotated])
  then obtain z where "z \<in> V" "\<forall>y. (y, z) \<in> E \<longrightarrow> y \<notin> V"
    using assms(2) by (meson wfE_min equals0I)
  then show False using assms(3) by blast
qed

interpretation lg: gonum lg_ops lg_valid "\<lambda>g. set (fst g)" "\<lambda>g. set (snd g)"
proof
  fix g :: lgraph and vs
  assume g: "lg_valid g" "dg_topo_sort lg_ops g = Inr vs"
  then have vs: "vs = fst (kahn (snd g) (fst g))" "snd (kahn (snd g) (fst g)) = []"
    by (auto simp: lg_ops_def lg_topo_sort_def Let_def split: if_splits)
  have "topo_order (set (snd g)) vs"
    unfolding topo_order_def
  proof (intro conjI allI impI)
    show "distinct vs" using kahn_partition [of "fst g" "snd g"] g(1) vs by (simp add: lg_valid_def)
    fix pre v post u
    assume "vs = pre @ v # post" "(u, v) \<in> set (snd g)"
    moreover have "distinct (fst g)" "u \<in> set (fst g)"
      using g(1) calculation(2) by (auto simp: lg_valid_def)
    ultimately show "u \<in> set pre" using kahn_order [of "fst g" "snd g" pre v post u] vs by simp
  qed
  then show "set vs = set (fst g) \<and> topo_order (set (snd g)) vs"
    using kahn_partition [of "fst g" "snd g"] g(1) vs by (simp add: lg_valid_def)
next
  fix g :: lgraph
  assume g: "lg_valid g" "acyclic (set (snd g))"
  have "snd (kahn (snd g) (fst g)) = []"
  proof (rule ccontr)
    assume ne: "snd (kahn (snd g) (fst g)) \<noteq> []"
    show False
      using finite_acyclic_source [of "set (snd (kahn (snd g) (fst g)))" "set (snd g)"]
        kahn_stuck [OF ne] g(2) ne by auto
  qed
  then show "\<exists>vs. dg_topo_sort lg_ops g = Inr vs" by (simp add: lg_ops_def lg_topo_sort_def Let_def)
next
  fix g :: lgraph and cs
  assume g: "lg_valid g" "dg_topo_sort lg_ops g = Inl cs"
  then have cs: "cs = [filter (\<lambda>v. (v, v) \<in> (set (snd g))\<^sup>+) (fst g)]"
    by (auto simp: lg_ops_def lg_topo_sort_def Let_def split: if_splits)
  have "v \<in> set (fst g)" if cyc: "(v, v) \<in> (set (snd g))\<^sup>+" for v
  proof -
    obtain w where "(v, w) \<in> set (snd g)" using tranclD [OF cyc] by blast
    then show ?thesis using g(1) by (auto simp: lg_valid_def)
  qed
  then show "set (concat cs) = {v. (v, v) \<in> (set (snd g))\<^sup>+}" using cs by auto
qed (auto simp: lg_ops_def lg_valid_def lg_add_node_def lg_set_edge_def image_iff)

end
