(* ===== verification/Cpm_Graph.thy ===== *)
theory Cpm_Graph
  imports Models Digraph
begin

text \<open>
  The dependency graph of internal/physics/cpm.go: \<open>DependencyGraph\<close>, its construction from
  project tasks and dependencies, the topological sort, cycle detection and the lookups the
  two passes use. The gonum graph type and its operations are the parameter \<open>ops\<close>
  (theory Digraph). \<open>graph_ok\<close> says which graph the tasks and dependencies stand for;
  \<open>build_ok\<close> shows that construction establishes it, the accessor lemmas read it back.
\<close>

record 'g DependencyGraph =
  Graph :: 'g
  NodeMap :: "uuid \<rightharpoonup> int"
  TaskMap :: "int \<rightharpoonup> uuid"
  Tasks :: "uuid \<rightharpoonup> ProjectTask"
  Deps :: "int \<rightharpoonup> (int \<rightharpoonup> TaskDependency)"

text \<open>Errors of the package; the last two stand for a Go panic and for an endless loop.\<close>

datatype cpm_error =
    Unorderable "int list list"
  | InvalidTaskDuration string uuid
  | CycleDetected "string list"
  | CalendarStuck

fun add_nodes :: "'g digraph_ops \<Rightarrow> ProjectTask list \<Rightarrow> int \<Rightarrow> 'g DependencyGraph \<Rightarrow>
    'g DependencyGraph option" where
  "add_nodes ops [] nodeID g = Some g"
| "add_nodes ops (task # tasks) nodeID g =
     (case dg_add_node ops (Graph g) nodeID of
        None \<Rightarrow> None
      | Some G \<Rightarrow> add_nodes ops tasks (nodeID + 1)
          (g\<lparr>Graph := G, NodeMap := (NodeMap g)(pt_ID task \<mapsto> nodeID),
             TaskMap := (TaskMap g)(nodeID \<mapsto> pt_ID task), Tasks := (Tasks g)(pt_ID task \<mapsto> task)\<rparr>))"

definition put_dep :: "(int \<rightharpoonup> (int \<rightharpoonup> TaskDependency)) \<Rightarrow> int \<Rightarrow> int \<Rightarrow> TaskDependency \<Rightarrow>
    (int \<rightharpoonup> (int \<rightharpoonup> TaskDependency))" where
  "put_dep D from to dep =
     (let D' = (if D from = None then D(from \<mapsto> Map.empty) else D)
      in D'(from \<mapsto> (the (D' from))(to \<mapsto> dep)))"

fun add_edges :: "'g digraph_ops \<Rightarrow> TaskDependency list \<Rightarrow> 'g DependencyGraph \<Rightarrow>
    'g DependencyGraph option" where
  "add_edges ops [] g = Some g"
| "add_edges ops (dep # deps) g =
     (case (NodeMap g (td_PredecessorID dep), NodeMap g (td_SuccessorID dep)) of
        (Some fromID, Some toID) \<Rightarrow>
          (case dg_set_edge ops (Graph g) fromID toID of
             None \<Rightarrow> None
           | Some G \<Rightarrow> add_edges ops deps (g\<lparr>Graph := G, Deps := put_dep (Deps g) fromID toID dep\<rparr>))
      | _ \<Rightarrow> add_edges ops deps g)"

definition empty_graph :: "'g digraph_ops \<Rightarrow> 'g DependencyGraph" where
  "empty_graph ops = \<lparr>Graph = dg_new ops, NodeMap = Map.empty, TaskMap = Map.empty,
     Tasks = Map.empty, Deps = Map.empty\<rparr>"

text \<open>None: the construction panics (gonum refuses a self edge).\<close>

definition BuildDependencyGraph :: "'g digraph_ops \<Rightarrow> ProjectTask list \<Rightarrow> TaskDependency list \<Rightarrow>
    'g DependencyGraph option" where
  "BuildDependencyGraph ops tasks deps =
     (case add_nodes ops tasks 1 (empty_graph ops) of
        None \<Rightarrow> None
      | Some g \<Rightarrow> add_edges ops deps g)"

definition task_of :: "'g DependencyGraph \<Rightarrow> int \<Rightarrow> uuid" where
  "task_of g n = (case TaskMap g n of None \<Rightarrow> uuid_nil | Some u \<Rightarrow> u)"

definition TopologicalSort :: "'g digraph_ops \<Rightarrow> 'g DependencyGraph \<Rightarrow> cpm_error + uuid list" where
  "TopologicalSort ops g =
     (case dg_topo_sort ops (Graph g) of
        Inl cs \<Rightarrow> Inl (Unorderable cs)
      | Inr nodes \<Rightarrow> Inr (map (task_of g) nodes))"

definition DetectCycle :: "'g digraph_ops \<Rightarrow> 'g DependencyGraph \<Rightarrow> cpm_error + unit" where
  "DetectCycle ops g =
     (case dg_topo_sort ops (Graph g) of
        Inr _ \<Rightarrow> Inr ()
      | Inl unorderable \<Rightarrow> Inl (CycleDetected
          (concat (map (\<lambda>component. concat (map (\<lambda>node.
             (case Tasks g (task_of g node) of
                Some task \<Rightarrow> [pt_WBSCode task]
              | None \<Rightarrow> [])) component)) unorderable))))"

definition GetDependency :: "'g DependencyGraph \<Rightarrow> uuid \<Rightarrow> uuid \<Rightarrow> TaskDependency option" where
  "GetDependency g predecessorID successorID =
     (case (NodeMap g predecessorID, NodeMap g successorID) of
        (Some fromID, Some toID) \<Rightarrow>
          (case Deps g fromID of None \<Rightarrow> None | Some m \<Rightarrow> m toID)
      | _ \<Rightarrow> None)"

definition GetPredecessors :: "'g digraph_ops \<Rightarrow> 'g DependencyGraph \<Rightarrow> uuid \<Rightarrow> uuid list" where
  "GetPredecessors ops g taskID =
     (case NodeMap g taskID of
        None \<Rightarrow> []
      | Some nodeID \<Rightarrow> List.map_filter (TaskMap g) (dg_to ops (Graph g) nodeID))"

definition GetSuccessors :: "'g digraph_ops \<Rightarrow> 'g DependencyGraph \<Rightarrow> uuid \<Rightarrow> uuid list" where
  "GetSuccessors ops g taskID =
     (case NodeMap g taskID of
        None \<Rightarrow> []
      | Some nodeID \<Rightarrow> List.map_filter (TaskMap g) (dg_from ops (Graph g) nodeID))"

section \<open>The tasks and dependencies a graph stands for\<close>

abbreviation task_ids :: "ProjectTask list \<Rightarrow> uuid set" where
  "task_ids tasks \<equiv> pt_ID ` set tasks"

definition dep_rel :: "ProjectTask list \<Rightarrow> TaskDependency list \<Rightarrow> (uuid \<times> uuid) set" where
  "dep_rel tasks deps =
     {(p, s). p \<in> task_ids tasks \<and> s \<in> task_ids tasks \<and>
        (\<exists>d\<in>set deps. td_PredecessorID d = p \<and> td_SuccessorID d = s)}"

text \<open>Of several dependencies between two tasks the last one counts.\<close>

definition last_dep :: "TaskDependency list \<Rightarrow> uuid \<Rightarrow> uuid \<Rightarrow> TaskDependency option" where
  "last_dep deps p s = List.find (\<lambda>d. td_PredecessorID d = p \<and> td_SuccessorID d = s) (rev deps)"

definition task_by_id :: "ProjectTask list \<Rightarrow> uuid \<Rightarrow> ProjectTask option" where
  "task_by_id tasks u = List.find (\<lambda>t. pt_ID t = u) tasks"

definition nodes_ok :: "('g \<Rightarrow> bool) \<Rightarrow> ('g \<Rightarrow> int set) \<Rightarrow> ProjectTask list \<Rightarrow>
    'g DependencyGraph \<Rightarrow> bool" where
  "nodes_ok valid nodes tasks g \<longleftrightarrow>
     valid (Graph g) \<and> nodes (Graph g) = dom (TaskMap g) \<and>
     (\<forall>u n. NodeMap g u = Some n \<longleftrightarrow> TaskMap g n = Some u) \<and>
     dom (NodeMap g) = task_ids tasks \<and> (\<forall>u. Tasks g u = task_by_id tasks u)"

definition graph_ok :: "('g \<Rightarrow> bool) \<Rightarrow> ('g \<Rightarrow> int set) \<Rightarrow> ('g \<Rightarrow> (int \<times> int) set) \<Rightarrow>
    ProjectTask list \<Rightarrow> TaskDependency list \<Rightarrow> 'g DependencyGraph \<Rightarrow> bool" where
  "graph_ok valid nodes edges tasks deps g \<longleftrightarrow>
     nodes_ok valid nodes tasks g \<and>
     (\<forall>p s n m. NodeMap g p = Some n \<longrightarrow> NodeMap g s = Some m \<longrightarrow>
        ((n, m) \<in> edges (Graph g) \<longleftrightarrow> (p, s) \<in> dep_rel tasks deps) \<and>
        GetDependency g p s = last_dep deps p s)"

definition no_self_dep :: "ProjectTask list \<Rightarrow> TaskDependency list \<Rightarrow> bool" where
  "no_self_dep tasks deps \<longleftrightarrow>
     list_all (\<lambda>d. td_PredecessorID d = td_SuccessorID d \<longrightarrow> td_PredecessorID d \<notin> task_ids tasks) deps"

lemma task_by_id_Some: "task_by_id tasks u = Some t \<Longrightarrow> t \<in> set tasks \<and> pt_ID t = u"
  unfolding task_by_id_def by (auto dest: find_Some_iff_first)

lemma task_by_id_distinct:
  "distinct (map pt_ID tasks) \<Longrightarrow> t \<in> set tasks \<Longrightarrow> task_by_id tasks (pt_ID t) = Some t"
  unfolding task_by_id_def by (induction tasks) (auto simp: image_iff)

lemma task_by_id_None: "task_by_id tasks u = None \<longleftrightarrow> u \<notin> task_ids tasks"
  by (auto simp: task_by_id_def find_None_all)

lemma task_by_id_collect:
  assumes "distinct (map pt_ID tasks)"
  shows "set (case task_by_id tasks u of Some t \<Rightarrow> [f t] | None \<Rightarrow> []) =
    {f t |t. t \<in> set tasks \<and> pt_ID t = u}"
proof (cases "task_by_id tasks u")
  case None
  then show ?thesis using task_by_id_None [of tasks u] by auto
next
  case (Some t)
  have "t' \<in> set tasks \<and> pt_ID t' = u \<longleftrightarrow> t' = t" for t'
    using task_by_id_Some [OF Some] task_by_id_distinct [OF assms, of t'] Some
    by (metis option.inject)
  then show ?thesis by (simp add: Some)
qed

lemma task_by_id_snoc:
  "pt_ID t \<notin> task_ids tasks \<Longrightarrow>
   task_by_id (tasks @ [t]) u = (if u = pt_ID t then Some t else task_by_id tasks u)"
  unfolding task_by_id_def by (induction tasks) auto

lemma last_dep_snoc: "last_dep (deps @ [d]) p s =
    (if td_PredecessorID d = p \<and> td_SuccessorID d = s then Some d else last_dep deps p s)"
  by (simp add: last_dep_def)

lemma dep_rel_iff_last_dep:
  "(p, s) \<in> dep_rel tasks deps \<longleftrightarrow>
   p \<in> task_ids tasks \<and> s \<in> task_ids tasks \<and> last_dep deps p s \<noteq> None"
  by (auto simp: dep_rel_def last_dep_def find_None_iff)

lemma finite_dep_rel: "finite (dep_rel tasks deps)"
proof (rule finite_subset)
  show "dep_rel tasks deps \<subseteq> task_ids tasks \<times> task_ids tasks" by (auto simp: dep_rel_def)
qed simp

lemma nodes_ok_None: "nodes_ok valid nodes ts g \<Longrightarrow> NodeMap g u = None \<longleftrightarrow> u \<notin> task_ids ts"
  by (metis domIff nodes_ok_def)

context gonum
begin

lemma add_nodes_ok:
  assumes "nodes_ok valid nodes ts0 g" "dom (TaskMap g) = {1..int (length ts0)}"
    and "distinct (map pt_ID (ts0 @ ts))" "edges (Graph g) = {}" "Deps g = Map.empty"
  shows "\<exists>g'. add_nodes ops ts (int (length ts0) + 1) g = Some g' \<and> nodes_ok valid nodes (ts0 @ ts) g' \<and>
      edges (Graph g') = {} \<and> Deps g' = Map.empty"
  using assms
proof (induction ts arbitrary: ts0 g)
  case Nil
  then show ?case by auto
next
  case (Cons t ts)
  let ?n = "int (length ts0) + 1"
  have fresh: "?n \<notin> nodes (Graph g)" and v: "valid (Graph g)"
    using Cons.prems(1,2) by (auto simp: nodes_ok_def)
  obtain G where G: "dg_add_node ops (Graph g) ?n = Some G" "valid G"
    "nodes G = insert ?n (nodes (Graph g))" "edges G = edges (Graph g)"
    using add_node [OF v fresh] by blast
  let ?g = "g\<lparr>Graph := G, NodeMap := (NodeMap g)(pt_ID t \<mapsto> ?n), TaskMap := (TaskMap g)(?n \<mapsto> pt_ID t),
     Tasks := (Tasks g)(pt_ID t \<mapsto> t)\<rparr>"
  have "?n \<notin> dom (TaskMap g)" unfolding Cons.prems(2) by simp
  then have tm: "TaskMap g ?n = None" by (simp add: domIff)
  have nt: "pt_ID t \<notin> task_ids ts0" using Cons.prems(3) by auto
  have nm: "NodeMap g (pt_ID t) = None" using Cons.prems(1) nt by (auto simp: nodes_ok_def dom_def)
  have iff: "NodeMap g u = Some n \<longleftrightarrow> TaskMap g n = Some u" for u n
    using Cons.prems(1) by (simp add: nodes_ok_def)
  have map_iff: "NodeMap ?g u = Some n \<longleftrightarrow> TaskMap ?g n = Some u" for u n
    using iff [of u n] tm nm iff [of "pt_ID t" n] iff [of u ?n] by auto
  have a: "nodes_ok valid nodes (ts0 @ [t]) ?g"
    unfolding nodes_ok_def
  proof (intro conjI allI)
    show "(NodeMap ?g u = Some n) = (TaskMap ?g n = Some u)" for u n by (rule map_iff)
    show "Tasks ?g u = task_by_id (ts0 @ [t]) u" for u
      using Cons.prems(1) task_by_id_snoc [OF nt, of u] by (simp add: nodes_ok_def)
  qed (use Cons.prems(1) G in \<open>auto simp: nodes_ok_def\<close>)
  have b: "dom (TaskMap ?g) = {1..int (length (ts0 @ [t]))}" using Cons.prems(2) by auto
  have c: "distinct (map pt_ID ((ts0 @ [t]) @ ts))" using Cons.prems(3) by simp
  have "\<exists>g'. add_nodes ops ts (int (length (ts0 @ [t])) + 1) ?g = Some g' \<and>
      nodes_ok valid nodes ((ts0 @ [t]) @ ts) g' \<and> edges (Graph g') = {} \<and> Deps g' = Map.empty"
    by (rule Cons.IH [OF a b c]) (use G(4) Cons.prems(4,5) in simp_all)
  then show ?case using G(1) by (simp add: add.commute)
qed

lemma add_edges_step:
  assumes "graph_ok valid nodes edges ts ds g" "NodeMap g (td_PredecessorID d) = Some n"
    "NodeMap g (td_SuccessorID d) = Some m" "dg_set_edge ops (Graph g) n m = Some G"
  shows "graph_ok valid nodes edges ts (ds @ [d]) (g\<lparr>Graph := G, Deps := put_dep (Deps g) n m d\<rparr>)"
proof -
  let ?g = "g\<lparr>Graph := G, Deps := put_dep (Deps g) n m d\<rparr>"
  have ok: "nodes_ok valid nodes ts g" using assms(1) by (simp add: graph_ok_def)
  then have iff: "NodeMap g u = Some k \<longleftrightarrow> TaskMap g k = Some u" for u k by (simp add: nodes_ok_def)
  have ids: "dom (NodeMap g) = task_ids ts" using ok by (simp add: nodes_ok_def)
  have G: "valid G" "nodes G = nodes (Graph g) \<union> {n, m}" "edges G = insert (n, m) (edges (Graph g))"
    using set_edge_Some [OF _ assms(4)] ok by (simp_all add: nodes_ok_def)
  have "{n, m} \<subseteq> nodes (Graph g)" using ok assms(2,3) by (auto simp: nodes_ok_def)
  then have nodes: "nodes_ok valid nodes ts ?g" using ok G(1,2) by (auto simp: nodes_ok_def)
  have known: "td_PredecessorID d \<in> task_ids ts" "td_SuccessorID d \<in> task_ids ts"
    using assms(2,3) ids by auto
  have one: "((k, l) \<in> edges G \<longleftrightarrow> (p, s) \<in> dep_rel ts (ds @ [d])) \<and>
      GetDependency ?g p s = last_dep (ds @ [d]) p s"
    if ps: "NodeMap g p = Some k" "NodeMap g s = Some l" for p s k l
  proof -
    have old: "((k, l) \<in> edges (Graph g) \<longleftrightarrow> (p, s) \<in> dep_rel ts ds)"
      "GetDependency g p s = last_dep ds p s"
      using assms(1) ps by (auto simp: graph_ok_def)
    have same: "p = td_PredecessorID d \<longleftrightarrow> k = n" "s = td_SuccessorID d \<longleftrightarrow> l = m"
      using ps assms(2,3) iff by (metis option.inject)+
    have "GetDependency ?g p s = (if k = n \<and> l = m then Some d else GetDependency g p s)"
      using ps by (auto simp: GetDependency_def put_dep_def Let_def split: option.splits)
    moreover have "(p, s) \<in> dep_rel ts (ds @ [d]) \<longleftrightarrow> (k = n \<and> l = m) \<or> (p, s) \<in> dep_rel ts ds"
      using same known by (auto simp: dep_rel_def)
    ultimately show ?thesis using old same G(3) by (auto simp: last_dep_snoc)
  qed
  then show ?thesis using nodes by (simp add: graph_ok_def)
qed

lemma graph_ok_skip:
  assumes "graph_ok valid nodes edges ts ds g"
    and "NodeMap g (td_PredecessorID d) = None \<or> NodeMap g (td_SuccessorID d) = None"
  shows "graph_ok valid nodes edges ts (ds @ [d]) g"
proof -
  have un: "td_PredecessorID d \<notin> task_ids ts \<or> td_SuccessorID d \<notin> task_ids ts"
    using assms nodes_ok_None unfolding graph_ok_def by metis
  then have "dep_rel ts (ds @ [d]) = dep_rel ts ds" by (auto simp: dep_rel_def)
  moreover have "last_dep (ds @ [d]) p s = last_dep ds p s"
    if "NodeMap g p = Some n" "NodeMap g s = Some m" for p s n m
    using that assms(2) by (auto simp: last_dep_snoc)
  ultimately show ?thesis using assms(1) by (simp add: graph_ok_def)
qed

lemma add_edges_ok:
  "graph_ok valid nodes edges ts ds0 g \<Longrightarrow> add_edges ops ds g = Some g' \<Longrightarrow>
   graph_ok valid nodes edges ts (ds0 @ ds) g'"
proof (induction ds arbitrary: ds0 g)
  case (Cons d ds)
  show ?case
  proof (cases "\<exists>n m. NodeMap g (td_PredecessorID d) = Some n \<and> NodeMap g (td_SuccessorID d) = Some m")
    case True
    then obtain n m where nm: "NodeMap g (td_PredecessorID d) = Some n" "NodeMap g (td_SuccessorID d) = Some m"
      by blast
    then obtain G where G: "dg_set_edge ops (Graph g) n m = Some G"
      "add_edges ops ds (g\<lparr>Graph := G, Deps := put_dep (Deps g) n m d\<rparr>) = Some g'"
      using Cons.prems(2) by (auto split: option.splits)
    show ?thesis using Cons.IH [OF add_edges_step [OF Cons.prems(1) nm G(1)] G(2)] by simp
  next
    case False
    then have no: "NodeMap g (td_PredecessorID d) = None \<or> NodeMap g (td_SuccessorID d) = None" by auto
    then have "add_edges ops ds g = Some g'" using Cons.prems(2) by (auto split: option.splits)
    then show ?thesis using Cons.IH [OF graph_ok_skip [OF Cons.prems(1) no]] by simp
  qed
qed simp

lemma add_edges_defined:
  "graph_ok valid nodes edges ts ds0 g \<Longrightarrow>
   (\<exists>g'. add_edges ops ds g = Some g') \<longleftrightarrow> no_self_dep ts ds"
proof (induction ds arbitrary: ds0 g)
  case (Cons d ds)
  have ids: "dom (NodeMap g) = task_ids ts" using Cons.prems by (simp add: graph_ok_def nodes_ok_def)
  have iff: "NodeMap g u = Some k \<longleftrightarrow> TaskMap g k = Some u" for u k
    using Cons.prems by (simp add: graph_ok_def nodes_ok_def)
  show ?case
  proof (cases "\<exists>n m. NodeMap g (td_PredecessorID d) = Some n \<and> NodeMap g (td_SuccessorID d) = Some m")
    case True
    then obtain n m where nm: "NodeMap g (td_PredecessorID d) = Some n" "NodeMap g (td_SuccessorID d) = Some m"
      by blast
    then have known: "td_PredecessorID d \<in> task_ids ts" using ids by auto
    have same: "td_PredecessorID d = td_SuccessorID d \<longleftrightarrow> n = m" using nm iff by (metis option.inject)
    show ?thesis
    proof (cases "n = m")
      case True
      then show ?thesis using nm known same self_edge by (auto simp: no_self_dep_def)
    next
      case False
      then obtain G where G: "dg_set_edge ops (Graph g) n m = Some G"
        using set_edge [of "Graph g" n m] Cons.prems by (auto simp: graph_ok_def nodes_ok_def)
      show ?thesis
        using Cons.IH [OF add_edges_step [OF Cons.prems nm G]] nm G False same
        by (auto simp: no_self_dep_def)
    qed
  next
    case False
    then have no: "NodeMap g (td_PredecessorID d) = None \<or> NodeMap g (td_SuccessorID d) = None" by auto
    then have "td_PredecessorID d = td_SuccessorID d \<longrightarrow> td_PredecessorID d \<notin> task_ids ts"
      using Cons.prems nodes_ok_None unfolding graph_ok_def by metis
    moreover have "add_edges ops (d # ds) g = add_edges ops ds g" using no by (auto split: option.splits)
    ultimately show ?thesis using Cons.IH [OF graph_ok_skip [OF Cons.prems no]]
      by (simp add: no_self_dep_def)
  qed
qed (simp add: no_self_dep_def)

lemma empty_nodes_ok: "nodes_ok valid nodes [] (empty_graph ops)"
  by (simp add: nodes_ok_def empty_graph_def new task_by_id_def)

lemma nodes_graph_ok:
  "nodes_ok valid nodes ts g \<Longrightarrow> edges (Graph g) = {} \<Longrightarrow> Deps g = Map.empty \<Longrightarrow>
   graph_ok valid nodes edges ts [] g"
  by (auto simp: graph_ok_def dep_rel_def last_dep_def GetDependency_def split: option.splits)

lemma build_nodes:
  assumes "distinct (map pt_ID ts)"
  obtains g where "add_nodes ops ts 1 (empty_graph ops) = Some g" "graph_ok valid nodes edges ts [] g"
proof -
  have "\<exists>g'. add_nodes ops ts (int (length ([] :: ProjectTask list)) + 1) (empty_graph ops) = Some g' \<and>
      nodes_ok valid nodes ([] @ ts) g' \<and> edges (Graph g') = {} \<and> Deps g' = Map.empty"
    by (rule add_nodes_ok [OF empty_nodes_ok]) (use assms in \<open>simp_all add: empty_graph_def new\<close>)
  then show thesis using that nodes_graph_ok by auto
qed

lemma build_ok:
  assumes "distinct (map pt_ID ts)" "BuildDependencyGraph ops ts ds = Some g"
  shows "graph_ok valid nodes edges ts ds g"
proof -
  obtain g0 where g0: "add_nodes ops ts 1 (empty_graph ops) = Some g0" "graph_ok valid nodes edges ts [] g0"
    using build_nodes [OF assms(1)] by blast
  then show ?thesis using add_edges_ok [OF g0(2), of ds g] assms(2) by (simp add: BuildDependencyGraph_def)
qed

lemma build_defined:
  assumes "distinct (map pt_ID ts)"
  shows "(\<exists>g. BuildDependencyGraph ops ts ds = Some g) \<longleftrightarrow> no_self_dep ts ds"
proof -
  obtain g0 where g0: "add_nodes ops ts 1 (empty_graph ops) = Some g0" "graph_ok valid nodes edges ts [] g0"
    using build_nodes [OF assms] by blast
  then show ?thesis using add_edges_defined [OF g0(2), of ds] by (simp add: BuildDependencyGraph_def)
qed

section \<open>Reading the graph back\<close>

lemma graph_ok_edge:
  assumes "graph_ok valid nodes edges ts ds g"
  shows "(n, m) \<in> edges (Graph g) \<longleftrightarrow>
    (\<exists>p s. NodeMap g p = Some n \<and> NodeMap g s = Some m \<and> (p, s) \<in> dep_rel ts ds)"
proof -
  have ok: "nodes_ok valid nodes ts g" using assms by (simp add: graph_ok_def)
  have "\<exists>p s. NodeMap g p = Some n \<and> NodeMap g s = Some m" if "(n, m) \<in> edges (Graph g)"
  proof -
    have "n \<in> nodes (Graph g)" "m \<in> nodes (Graph g)"
      using that edges_nodes [of "Graph g"] ok by (auto simp: nodes_ok_def)
    then show ?thesis using ok by (auto simp: nodes_ok_def dom_def)
  qed
  then show ?thesis using assms unfolding graph_ok_def by blast
qed

lemma graph_ok_node: "graph_ok valid nodes edges ts ds g \<Longrightarrow> NodeMap g u = Some n \<longleftrightarrow> TaskMap g n = Some u"
  by (simp add: graph_ok_def nodes_ok_def)

lemma graph_ok_task: "graph_ok valid nodes edges ts ds g \<Longrightarrow> Tasks g u = task_by_id ts u"
  by (simp add: graph_ok_def nodes_ok_def)

lemma graph_ok_ids: "graph_ok valid nodes edges ts ds g \<Longrightarrow> u \<in> task_ids ts \<Longrightarrow> \<exists>n. NodeMap g u = Some n"
  unfolding graph_ok_def nodes_ok_def by blast

lemma graph_ok_valid: "graph_ok valid nodes edges ts ds g \<Longrightarrow> valid (Graph g)"
  by (simp add: graph_ok_def nodes_ok_def)

lemma GetDependency_ok:
  "graph_ok valid nodes edges ts ds g \<Longrightarrow> p \<in> task_ids ts \<Longrightarrow> s \<in> task_ids ts \<Longrightarrow>
   GetDependency g p s = last_dep ds p s"
  using graph_ok_ids unfolding graph_ok_def by metis

lemma graph_ok_edge_named:
  assumes "graph_ok valid nodes edges ts ds g" "NodeMap g p = Some n" "NodeMap g s = Some m"
  shows "(n, m) \<in> edges (Graph g) \<longleftrightarrow> (p, s) \<in> dep_rel ts ds"
  using assms by (simp add: graph_ok_def)

lemma dep_rel_nodes:
  assumes "graph_ok valid nodes edges ts ds g" "(p, s) \<in> dep_rel ts ds"
  obtains n m where "NodeMap g p = Some n" "NodeMap g s = Some m"
  using assms(2) graph_ok_ids [OF assms(1), of p] graph_ok_ids [OF assms(1), of s]
  by (auto simp: dep_rel_def)

lemma GetPredecessors_ok:
  assumes "graph_ok valid nodes edges ts ds g" "u \<in> task_ids ts"
  shows "set (GetPredecessors ops g u) = {p. (p, u) \<in> dep_rel ts ds}"
proof -
  obtain m where m: "NodeMap g u = Some m" using graph_ok_ids [OF assms] by blast
  have "set (GetPredecessors ops g u) = {p. \<exists>n. (n, m) \<in> edges (Graph g) \<and> TaskMap g n = Some p}"
    using m to [OF graph_ok_valid [OF assms(1)]]
    by (auto simp: GetPredecessors_def map_filter_set)
  also have "\<dots> = {p. (p, u) \<in> dep_rel ts ds}"
    unfolding graph_ok_node [OF assms(1), symmetric]
    using graph_ok_edge_named [OF assms(1) _ m] dep_rel_nodes [OF assms(1)] by blast
  finally show ?thesis .
qed

lemma GetSuccessors_ok:
  assumes "graph_ok valid nodes edges ts ds g" "u \<in> task_ids ts"
  shows "set (GetSuccessors ops g u) = {s. (u, s) \<in> dep_rel ts ds}"
proof -
  obtain n where n: "NodeMap g u = Some n" using graph_ok_ids [OF assms] by blast
  have "set (GetSuccessors ops g u) = {s. \<exists>m. (n, m) \<in> edges (Graph g) \<and> TaskMap g m = Some s}"
    using n fro [OF graph_ok_valid [OF assms(1)]]
    by (auto simp: GetSuccessors_def map_filter_set)
  also have "\<dots> = {s. (u, s) \<in> dep_rel ts ds}"
    unfolding graph_ok_node [OF assms(1), symmetric]
    using graph_ok_edge_named [OF assms(1) n] dep_rel_nodes [OF assms(1)] by blast
  finally show ?thesis .
qed

lemma trancl_edges:
  assumes "graph_ok valid nodes edges ts ds g" "NodeMap g p = Some n" "NodeMap g s = Some m"
  shows "(n, m) \<in> (edges (Graph g))\<^sup>+ \<longleftrightarrow> (p, s) \<in> (dep_rel ts ds)\<^sup>+"
proof
  have inj: "NodeMap g u = Some k \<Longrightarrow> NodeMap g v = Some k \<Longrightarrow> u = v" for u v k
    using graph_ok_node [OF assms(1)] by (metis option.inject)
  show "(p, s) \<in> (dep_rel ts ds)\<^sup>+" if "(n, m) \<in> (edges (Graph g))\<^sup>+"
    using that assms(3)
  proof (induction arbitrary: s rule: trancl_induct)
    case (base m)
    then obtain q r where "NodeMap g q = Some n" "NodeMap g r = Some m" "(q, r) \<in> dep_rel ts ds"
      using graph_ok_edge [OF assms(1)] by blast
    then show ?case using assms(2) base.prems inj by (metis trancl.r_into_trancl)
  next
    case (step k m)
    then obtain q r where "NodeMap g q = Some k" "NodeMap g r = Some m" "(q, r) \<in> dep_rel ts ds"
      using graph_ok_edge [OF assms(1)] by blast
    then have "NodeMap g q = Some k" "(q, s) \<in> dep_rel ts ds" using step.prems inj by blast+
    then show ?case using step.IH by (meson trancl.trancl_into_trancl)
  qed
  show "(n, m) \<in> (edges (Graph g))\<^sup>+" if "(p, s) \<in> (dep_rel ts ds)\<^sup>+"
    using that assms(3)
  proof (induction arbitrary: m rule: trancl_induct)
    case (base s)
    then show ?case using assms(2) graph_ok_edge [OF assms(1)] by blast
  next
    case (step q s)
    then obtain k where k: "NodeMap g q = Some k" using graph_ok_ids [OF assms(1), of q] by (auto simp: dep_rel_def)
    then have "(k, m) \<in> edges (Graph g)" using step.hyps(2) step.prems graph_ok_edge [OF assms(1)] by blast
    then show ?case using step.IH [OF k] by (meson trancl.trancl_into_trancl)
  qed
qed

lemma acyclic_edges:
  assumes "graph_ok valid nodes edges ts ds g"
  shows "acyclic (edges (Graph g)) \<longleftrightarrow> acyclic (dep_rel ts ds)"
proof -
  have "\<exists>u. NodeMap g u = Some n" if "(n, n) \<in> (edges (Graph g))\<^sup>+" for n
    using tranclD [OF that] graph_ok_edge [OF assms] by blast
  moreover have "\<exists>n. NodeMap g u = Some n" if "(u, u) \<in> (dep_rel ts ds)\<^sup>+" for u
    using tranclD [OF that] graph_ok_ids [OF assms, of u] by (auto simp: dep_rel_def)
  ultimately show ?thesis using trancl_edges [OF assms] unfolding acyclic_def by metis
qed

lemma task_of_node: "graph_ok valid nodes edges ts ds g \<Longrightarrow> NodeMap g u = Some n \<Longrightarrow> task_of g n = u"
  using graph_ok_node by (simp add: task_of_def)

lemma task_of_image:
  assumes "graph_ok valid nodes edges ts ds g"
  shows "task_of g ` nodes (Graph g) = task_ids ts" "inj_on (task_of g) (nodes (Graph g))"
proof -
  have n: "nodes (Graph g) = {n. \<exists>u. NodeMap g u = Some n}" "dom (NodeMap g) = task_ids ts"
    using assms by (auto simp: graph_ok_def nodes_ok_def)
  show "task_of g ` nodes (Graph g) = task_ids ts"
    unfolding n(1) n(2) [symmetric] using task_of_node [OF assms] by (auto simp: image_iff)
  show "inj_on (task_of g) (nodes (Graph g))"
    unfolding n(1) inj_on_def using task_of_node [OF assms] by fastforce
qed

lemma TopologicalSort_ok:
  assumes "graph_ok valid nodes edges ts ds g" "TopologicalSort ops g = Inr us"
  shows "set us = task_ids ts \<and> topo_order (dep_rel ts ds) us"
proof -
  obtain vs where vs: "dg_topo_sort ops (Graph g) = Inr vs" "us = map (task_of g) vs"
    using assms(2) by (auto simp: TopologicalSort_def split: sum.splits)
  then have o: "set vs = nodes (Graph g)" "topo_order (edges (Graph g)) vs"
    using sort_order [OF graph_ok_valid [OF assms(1)]] by auto
  have "topo_order (dep_rel ts ds) us"
    unfolding topo_order_def
  proof (intro conjI allI impI)
    show "distinct us" using vs(2) o task_of_image(2) [OF assms(1)] topo_order_distinct
      by (auto simp: distinct_map)
    fix pre s post p
    assume us: "us = pre @ s # post" and dep: "(p, s) \<in> dep_rel ts ds"
    obtain vpre m vpost where v: "vs = vpre @ m # vpost" "pre = map (task_of g) vpre" "s = task_of g m"
      using us unfolding vs(2) by (auto simp: map_eq_append_conv map_eq_Cons_conv)
    have "p \<in> task_ids ts" "s \<in> task_ids ts" using dep by (auto simp: dep_rel_def)
    then obtain n m' where n: "NodeMap g p = Some n" "NodeMap g s = Some m'"
      using graph_ok_ids [OF assms(1)] by metis
    have "m' = m"
    proof -
      have "m \<in> nodes (Graph g)" using o(1) v(1) by auto
      moreover have "m' \<in> nodes (Graph g)"
        using n(2) assms(1) by (auto simp: graph_ok_def nodes_ok_def)
      ultimately show ?thesis
        using task_of_image(2) [OF assms(1)] v(3) task_of_node [OF assms(1) n(2)] by (metis inj_onD)
    qed
    then have "(n, m) \<in> edges (Graph g)" using n dep graph_ok_edge [OF assms(1)] by blast
    then have "n \<in> set vpre" using o(2) v(1) by (metis topo_orderD)
    then show "p \<in> set pre" using v(2) task_of_node [OF assms(1) n(1)] by (metis image_eqI image_set)
  qed
  then show ?thesis using vs(2) o(1) task_of_image(1) [OF assms(1)] by simp
qed

lemma TopologicalSort_defined:
  assumes "graph_ok valid nodes edges ts ds g"
  shows "(\<exists>us. TopologicalSort ops g = Inr us) \<longleftrightarrow> acyclic (dep_rel ts ds)"
proof -
  have "(\<exists>us. TopologicalSort ops g = Inr us) \<longleftrightarrow> (\<exists>vs. dg_topo_sort ops (Graph g) = Inr vs)"
    by (auto simp: TopologicalSort_def split: sum.splits)
  then show ?thesis
    using sort_iff_acyclic [OF graph_ok_valid [OF assms]] acyclic_edges [OF assms] by simp
qed

lemma cyclic_nodes:
  assumes "graph_ok valid nodes edges ts ds g" "dg_topo_sort ops (Graph g) = Inl cs"
  shows "task_of g ` set (concat cs) = {u. (u, u) \<in> (dep_rel ts ds)\<^sup>+}"
proof -
  have cs: "set (concat cs) = {n. (n, n) \<in> (edges (Graph g))\<^sup>+}"
    using sort_cyclic [OF graph_ok_valid [OF assms(1)] assms(2)] .
  have a: "\<exists>u. NodeMap g u = Some n" if "(n, n) \<in> (edges (Graph g))\<^sup>+" for n
    using tranclD [OF that] graph_ok_edge [OF assms(1)] by blast
  have b: "\<exists>n. NodeMap g u = Some n" if "(u, u) \<in> (dep_rel ts ds)\<^sup>+" for u
    using tranclD [OF that] graph_ok_ids [OF assms(1), of u] by (auto simp: dep_rel_def)
  show ?thesis
    unfolding cs
  proof (intro equalityI subsetI)
    fix u assume "u \<in> task_of g ` {n. (n, n) \<in> (edges (Graph g))\<^sup>+}"
    then obtain n where n: "u = task_of g n" "(n, n) \<in> (edges (Graph g))\<^sup>+" by blast
    then obtain v where "NodeMap g v = Some n" using a by blast
    then show "u \<in> {u. (u, u) \<in> (dep_rel ts ds)\<^sup>+}"
      using n(2) trancl_edges [OF assms(1), of v n v n] task_of_node [OF assms(1), of v n] unfolding n(1) by simp
  next
    fix u assume "u \<in> {u. (u, u) \<in> (dep_rel ts ds)\<^sup>+}"
    then have u: "(u, u) \<in> (dep_rel ts ds)\<^sup>+" by simp
    then obtain n where n: "NodeMap g u = Some n" using b by blast
    then have "(n, n) \<in> (edges (Graph g))\<^sup>+" using trancl_edges [OF assms(1) n n] u by simp
    with n
    show "u \<in> task_of g ` {n. (n, n) \<in> (edges (Graph g))\<^sup>+}"
      using task_of_node [OF assms(1), of u n] by (intro image_eqI [of _ _ n]) simp_all
  qed
qed

lemma DetectCycle_ok:
  assumes "graph_ok valid nodes edges ts ds g" "distinct (map pt_ID ts)"
  shows "if acyclic (dep_rel ts ds) then DetectCycle ops g = Inr ()
    else \<exists>names. DetectCycle ops g = Inl (CycleDetected names) \<and>
       set names = {pt_WBSCode t |t. t \<in> set ts \<and> (pt_ID t, pt_ID t) \<in> (dep_rel ts ds)\<^sup>+}"
proof (cases "dg_topo_sort ops (Graph g)")
  case (Inr vs)
  then have "acyclic (dep_rel ts ds)"
    using sort_iff_acyclic [OF graph_ok_valid [OF assms(1)]] acyclic_edges [OF assms(1)] by blast
  then show ?thesis using Inr by (simp add: DetectCycle_def)
next
  case (Inl cs)
  then have na: "\<not> acyclic (dep_rel ts ds)"
    using sort_error_cyclic [OF graph_ok_valid [OF assms(1)]] acyclic_edges [OF assms(1)] by blast
  let ?name = "\<lambda>u. case Tasks g u of Some task \<Rightarrow> [pt_WBSCode task] | None \<Rightarrow> []"
  have "(\<Union>n\<in>set (concat cs). set (?name (task_of g n))) = (\<Union>u\<in>task_of g ` set (concat cs). set (?name u))"
    by simp
  also have "\<dots> = (\<Union>u\<in>{u. (u, u) \<in> (dep_rel ts ds)\<^sup>+}. {pt_WBSCode t |t. t \<in> set ts \<and> pt_ID t = u})"
    unfolding cyclic_nodes [OF assms(1) Inl]
  proof (rule SUP_cong [OF refl])
    fix u
    show "set (?name u) = {pt_WBSCode t |t. t \<in> set ts \<and> pt_ID t = u}"
      unfolding graph_ok_task [OF assms(1)] by (rule task_by_id_collect [OF assms(2)])
  qed
  also have "\<dots> = {pt_WBSCode t |t. t \<in> set ts \<and> (pt_ID t, pt_ID t) \<in> (dep_rel ts ds)\<^sup>+}" by blast
  finally show ?thesis using Inl na by (auto simp: DetectCycle_def)
qed

end

section \<open>What the graph promises\<close>

definition sample_task :: "uuid \<Rightarrow> string \<Rightarrow> int \<Rightarrow> ProjectTask" where
  "sample_task u code days =
     zero_task\<lparr>pt_ID := u, pt_WBSCode := code, pt_DurationDays := days\<rparr>"

definition sample_dep :: "uuid \<Rightarrow> uuid \<Rightarrow> DependencyType \<Rightarrow> int \<Rightarrow> TaskDependency" where
  "sample_dep p s ty lag = zero_dep\<lparr>td_PredecessorID := p, td_SuccessorID := s,
     td_DependencyType := ty, td_LagDays := lag\<rparr>"

lemmas sample_defs = sample_task_def sample_dep_def zero_task_def zero_dep_def dependency_types

text \<open>
  Building the dependency graph from tasks with distinct ids panics exactly when some
  dependency makes a known task its own predecessor; dependencies that name an unknown task
  are skipped.
\<close>

theorem build_panics_iff_self_dependency:
  assumes "gonum ops valid nodes edges" "distinct (map pt_ID tasks)"
  shows "BuildDependencyGraph ops tasks deps = None \<longleftrightarrow> \<not> no_self_dep tasks deps"
  using gonum.build_defined [OF assms, of deps] by (metis option.exhaust option.distinct(1))

theorem build_panics_iff_self_dependency_witness:
  "BuildDependencyGraph lg_ops [sample_task 1 ''1.0'' 3] [sample_dep 1 1 DependencyTypeFS 0] = None"
  using build_panics_iff_self_dependency
    [OF lg.gonum_axioms, of "[sample_task 1 ''1.0'' 3]" "[sample_dep 1 1 DependencyTypeFS 0]"]
  by (simp add: no_self_dep_def sample_defs)

text \<open>
  C4. Cycle detection: \<open>DetectCycle\<close> returns nil when the dependencies between known tasks are
  acyclic, and otherwise the error that names the WBS codes of exactly the tasks that lie on a
  dependency cycle.
\<close>

theorem detect_cycle_names_cyclic_tasks:
  assumes "gonum ops valid nodes edges" "distinct (map pt_ID tasks)"
    and "BuildDependencyGraph ops tasks deps = Some g"
  shows "if acyclic (dep_rel tasks deps) then DetectCycle ops g = Inr ()
    else \<exists>names. DetectCycle ops g = Inl (CycleDetected names) \<and>
       set names = {pt_WBSCode t |t. t \<in> set tasks \<and> (pt_ID t, pt_ID t) \<in> (dep_rel tasks deps)\<^sup>+}"
  by (rule gonum.DetectCycle_ok [OF assms(1) gonum.build_ok [OF assms]  assms(2)])

theorem detect_cycle_names_cyclic_tasks_witness:
  "\<exists>names. DetectCycle lg_ops (the (BuildDependencyGraph lg_ops
      [sample_task 1 ''5.0'' 3, sample_task 2 ''7.0'' 2, sample_task 3 ''8.0'' 1]
      [sample_dep 1 2 DependencyTypeFS 0, sample_dep 2 1 DependencyTypeSS 1, sample_dep 2 3 DependencyTypeFS 0])) =
    Inl (CycleDetected names) \<and> set names = {''5.0'', ''7.0''}"
proof -
  let ?tasks = "[sample_task 1 ''5.0'' 3, sample_task 2 ''7.0'' 2, sample_task 3 ''8.0'' 1]"
  let ?deps = "[sample_dep 1 2 DependencyTypeFS 0, sample_dep 2 1 DependencyTypeSS 1, sample_dep 2 3 DependencyTypeFS 0]"
  have dist: "distinct (map pt_ID ?tasks)" by (simp add: sample_defs)
  have "no_self_dep ?tasks ?deps" by (simp add: no_self_dep_def sample_defs)
  then obtain g where g: "BuildDependencyGraph lg_ops ?tasks ?deps = Some g"
    using lg.build_defined [OF dist] by blast
  have rel: "dep_rel ?tasks ?deps = {(1, 2), (2, 1), (2, 3)}"
    by (auto simp: dep_rel_def sample_defs)
  have cyclic: "(1 :: uuid, 1) \<in> {(1, 2), (2, 1), (2, 3)}\<^sup>+" "(2 :: uuid, 2) \<in> {(1, 2), (2, 1), (2, 3)}\<^sup>+"
    by (meson insertI1 insertI2 r_into_trancl' trancl_trans)+
  moreover have "(3 :: uuid, 3) \<notin> {(1, 2), (2, 1), (2, 3)}\<^sup>+" by (auto dest: tranclD)
  moreover have collect: "{f t |t. t \<in> set (x # xs) \<and> P t} = (if P x then {f x} else {}) \<union> {f t |t. t \<in> set xs \<and> P t}"
    for f :: "ProjectTask \<Rightarrow> string" and x xs P by auto
  ultimately have names: "{pt_WBSCode t |t. t \<in> set ?tasks \<and> (pt_ID t, pt_ID t) \<in> (dep_rel ?tasks ?deps)\<^sup>+} = {''5.0'', ''7.0''}"
    unfolding rel collect by (simp add: sample_defs insert_commute)
  have "\<not> acyclic (dep_rel ?tasks ?deps)" unfolding rel acyclic_def using cyclic by blast
  then show ?thesis
    using detect_cycle_names_cyclic_tasks [OF lg.gonum_axioms dist g] unfolding names g option.sel by simp
qed

end
