(* ===== verification/Calendar.thy ===== *)
theory Calendar
  imports Go_Time Go_Float
begin

text \<open>
  The work calendar of internal/physics/cpm.go: \<open>StandardCalendar\<close>, the working-day test,
  \<open>AddWorkDuration\<close> and the deprecated \<open>AddWorkingDays\<close>, and the \<open>Calendar\<close> interface the
  scheduling passes rely on. The inner loops that skip non-working days have no bound in
  the code, so the skip is a partial function whose value None means that it never returns;
  \<open>calendar_ok\<close> is a condition under which it always returns.
\<close>

record StandardCalendar =
  WorkDays :: "int list"
  Holidays :: "gotime list"

definition default_calendar :: StandardCalendar where
  "default_calendar = \<lparr>WorkDays = [], Holidays = []\<rparr>"

definition isHoliday :: "StandardCalendar \<Rightarrow> gotime \<Rightarrow> bool" where
  "isHoliday c date \<longleftrightarrow>
     list_ex (\<lambda>h. month_of date = month_of h \<and> day_of date = day_of h) (Holidays c)"

definition isNonWorkingDay :: "StandardCalendar \<Rightarrow> gotime \<Rightarrow> bool" where
  "isNonWorkingDay c date =
     (let workDays = (if WorkDays c = [] then [1, 2, 3, 4, 5] else WorkDays c);
          isWorkDay = list_ex (\<lambda>wd. weekday date = wd) workDays
      in if \<not> isWorkDay then True else isHoliday c date)"

text \<open>\<open>for c.isNonWorkingDay(result) { result = result.Add(step) }\<close>\<close>

partial_function (option) skip_non_working ::
    "StandardCalendar \<Rightarrow> duration \<Rightarrow> gotime \<Rightarrow> gotime option" where
  "skip_non_working c step t =
     (if isNonWorkingDay c t then skip_non_working c step (t + step) else Some t)"

declare skip_non_working.simps [code]

fun advance_days :: "StandardCalendar \<Rightarrow> duration \<Rightarrow> nat \<Rightarrow> gotime \<Rightarrow> gotime option" where
  "advance_days c step 0 t = Some t"
| "advance_days c step (Suc n) t =
     Option.bind (skip_non_working c step (t + step)) (advance_days c step n)"

definition AddWorkDuration :: "StandardCalendar \<Rightarrow> gotime \<Rightarrow> duration \<Rightarrow> gotime option" where
  "AddWorkDuration c date dur =
     (if dur = 0 then Some date
      else let wholeDays = quot dur day24; remainder = qrem dur day24
        in Option.bind
             (if wholeDays > 0 then advance_days c day24 (nat wholeDays) date
              else if wholeDays < 0 then advance_days c (- day24) (nat (- wholeDays)) date
              else Some date)
             (\<lambda>result. Some (truncate_time
                (if remainder \<noteq> 0 then result + remainder else result) minute)))"

definition AddWorkingDays :: "StandardCalendar \<Rightarrow> gotime \<Rightarrow> f64 \<Rightarrow> gotime option" where
  "AddWorkingDays c date days =
     (if days = 0 then Some date
      else let wholeDays = int64_of_f64 days; fraction = fsub days (f64_of_int wholeDays)
        in Option.bind
             (if wholeDays > 0 then advance_days c day24 (nat wholeDays) date
              else if wholeDays < 0 then advance_days c (- day24) (nat (- wholeDays)) date
              else Some date)
             (\<lambda>result. Some (truncate_time
                (if fraction \<noteq> 0
                 then result + int64_of_f64 (fmul (fmul fraction 24) (f64_of_int hour))
                 else result) minute)))"

section \<open>Skipping returns\<close>

text \<open>
  A valid weekday is configured (or the default Monday-to-Friday week is used) and fewer
  than 53 holidays are: within a year every weekday falls on 53 different dates.
\<close>

definition calendar_ok :: "StandardCalendar \<Rightarrow> bool" where
  "calendar_ok c \<longleftrightarrow>
     (WorkDays c = [] \<or> list_ex (\<lambda>w. 0 \<le> w \<and> w < 7) (WorkDays c)) \<and> length (Holidays c) < 53"

lemma nonworking_cases:
  assumes "calendar_ok c"
  obtains w where "0 \<le> w" "w < 7"
    "\<And>t. weekday t = w \<Longrightarrow> isNonWorkingDay c t \<Longrightarrow> month_day t \<in> set (map month_day (Holidays c))"
proof -
  have "\<exists>w\<in>set (if WorkDays c = [] then [1, 2, 3, 4, 5] else WorkDays c). 0 \<le> w \<and> w < 7"
    using assms by (cases "WorkDays c = []") (auto simp: calendar_ok_def list_ex_iff)
  then obtain w where w: "0 \<le> w" "w < 7"
    "w \<in> set (if WorkDays c = [] then [1, 2, 3, 4, 5] else WorkDays c)" by blast
  have "month_day t \<in> set (map month_day (Holidays c))" if "weekday t = w" "isNonWorkingDay c t" for t
    using that w(3)
    by (auto simp: isNonWorkingDay_def isHoliday_def list_ex_iff month_of_def day_of_def Let_def
        image_iff prod_eq_iff split: if_splits)
  with w(1,2) show thesis by (rule that)
qed

lemma weekday_reach:
  fixes a w i k s :: int
  assumes "s = 1 \<or> s = - 1" "0 \<le> w" "w < 7" "k = (s * (w - a)) mod 7"
  shows "(a + s * (k + 7 * i)) mod 7 = w"
proof -
  have "(a + s * (k + 7 * i)) mod 7 = (a + s * k + 7 * (s * i)) mod 7"
    by (simp add: algebra_simps)
  also have "\<dots> = (a + s * k) mod 7" by (rule mod_mult_self2)
  also have "\<dots> = (a + s * (s * (w - a))) mod 7"
    unfolding assms(4) by (metis mod_add_right_eq mod_mult_right_eq)
  also have "a + s * (s * (w - a)) = w" using assms(1) by auto
  finally show ?thesis using assms(2,3) by simp
qed

lemma working_day_exists:
  assumes ok: "calendar_ok c" and s: "s = 1 \<or> s = (- 1 :: int)"
  shows "\<exists>k. \<not> isNonWorkingDay c (t + int k * (s * day24))"
proof (rule ccontr)
  assume "\<not> ?thesis"
  then have all: "isNonWorkingDay c (t + int k * (s * day24))" for k by blast
  obtain w where w: "0 \<le> w" "w < 7"
    and md: "\<And>t. weekday t = w \<Longrightarrow> isNonWorkingDay c t \<Longrightarrow> month_day t \<in> set (map month_day (Holidays c))"
    using nonworking_cases [OF ok] by metis
  define k0 where "k0 = nat ((s * (w - weekday t)) mod 7)"
  have k0: "int k0 = (s * (w - weekday t)) mod 7" "int k0 < 7" by (simp_all add: k0_def)
  define p where "p i = t + (s * (int k0 + 7 * int i)) * day24" for i
  have day: "days_since_epoch (p i) = days_since_epoch t + s * (int k0 + 7 * int i)" for i
    unfolding p_def by (rule days_since_epoch_add)
  have "weekday (p i) = w" for i
    unfolding p_def weekday_add using s w k0(1) by (rule weekday_reach)
  moreover have "isNonWorkingDay c (p i)" for i
    using all [of "k0 + 7 * i"] by (simp add: p_def algebra_simps)
  ultimately have hol: "month_day (p i) \<in> set (map month_day (Holidays c))" for i using md by blast
  have "inj_on (\<lambda>i. month_day (p i)) {..<53}"
  proof (rule inj_onI)
    fix i j :: nat
    assume ij: "i \<in> {..<53}" "j \<in> {..<53}" "month_day (p i) = month_day (p j)"
    show "i = j"
    proof (rule ccontr)
      assume "i \<noteq> j"
      then have "days_since_epoch (p i) \<noteq> days_since_epoch (p j)" using s by (auto simp: day)
      then have "days_since_epoch (p i) + 365 \<le> days_since_epoch (p j) \<or>
          days_since_epoch (p j) + 365 \<le> days_since_epoch (p i)"
        using month_day_apart ij(3) by (metis linorder_neqE)
      then show False using s ij(1,2) by (auto simp: day)
    qed
  qed
  then have "card {..<53::nat} = card ((\<lambda>i. month_day (p i)) ` {..<53})" by (simp add: card_image)
  also have "\<dots> \<le> card (set (map month_day (Holidays c)))" using hol by (intro card_mono) auto
  also have "\<dots> \<le> length (Holidays c)" by (metis card_length length_map)
  finally show False using ok by (simp add: calendar_ok_def)
qed

lemma skip_non_working_reaches:
  "\<not> isNonWorkingDay c (t + int k * step) \<Longrightarrow> skip_non_working c step t \<noteq> None"
proof (induction k arbitrary: t)
  case 0
  then show ?case by (subst skip_non_working.simps) simp
next
  case (Suc k)
  then have "skip_non_working c step (t + step) \<noteq> None" by (simp add: algebra_simps)
  then show ?case by (subst skip_non_working.simps) simp
qed

lemma skip_non_working_total:
  "calendar_ok c \<Longrightarrow> step = day24 \<or> step = - day24 \<Longrightarrow> \<exists>r. skip_non_working c step t = Some r"
  using working_day_exists [of c 1 t] working_day_exists [of c "- 1" t] skip_non_working_reaches [of c t _ step]
  by fastforce

lemma advance_days_total:
  "calendar_ok c \<Longrightarrow> step = day24 \<or> step = - day24 \<Longrightarrow> \<exists>r. advance_days c step n t = Some r"
proof (induction n arbitrary: t)
  case (Suc n)
  then show ?case using skip_non_working_total [OF Suc.prems, of "t + step"] by auto
qed simp

lemma add_work_duration_total: "calendar_ok c \<Longrightarrow> \<exists>r. AddWorkDuration c t d = Some r"
  using advance_days_total [of c day24 "nat (quot d day24)" t]
    advance_days_total [of c "- day24" "nat (- quot d day24)" t]
  by (auto simp: AddWorkDuration_def Let_def)

section \<open>Counting working days\<close>

definition working_days :: "StandardCalendar \<Rightarrow> duration \<Rightarrow> gotime \<Rightarrow> nat \<Rightarrow> nat" where
  "working_days c step t k = length (filter (\<lambda>j. \<not> isNonWorkingDay c (t + int j * step)) [1..<Suc k])"

lemma working_days_0 [simp]: "working_days c step t 0 = 0"
  by (simp add: working_days_def)

lemma working_days_Suc:
  "working_days c step t (Suc k) = working_days c step t k +
     (if isNonWorkingDay c (t + int (Suc k) * step) then 0 else 1)"
  by (simp add: working_days_def)

lemma working_days_shift:
  "working_days c step t (Suc k) =
     (if isNonWorkingDay c (t + step) then 0 else 1) + working_days c step (t + step) k"
  by (induction k) (simp_all add: working_days_Suc algebra_simps)

lemma working_days_add:
  "working_days c step t (k + m) = working_days c step t k + working_days c step (t + int k * step) m"
  by (induction m) (simp_all add: working_days_Suc algebra_simps)

lemma working_days_mono: "k \<le> m \<Longrightarrow> working_days c step t k \<le> working_days c step t m"
  using working_days_add [of c step t k "m - k"] by simp

lemma working_days_strict:
  assumes "k < m" "\<not> isNonWorkingDay c (t + int m * step)"
  shows "working_days c step t k < working_days c step t m"
proof -
  obtain m' where m: "m = Suc m'" using assms(1) by (cases m) auto
  then have "working_days c step t k \<le> working_days c step t m'"
    using assms(1) by (intro working_days_mono) simp
  then show ?thesis using assms(2) m by (simp add: working_days_Suc)
qed

lemma working_days_zero:
  "\<forall>j<k. isNonWorkingDay c (t + step + int j * step) \<Longrightarrow> working_days c step t k = 0"
proof (induction k)
  case (Suc k)
  then have "isNonWorkingDay c (t + step + int k * step)" "working_days c step t k = 0" by auto
  then show ?case by (simp add: working_days_Suc algebra_simps)
qed simp

lemma skip_non_working_count:
  assumes ret: "skip_non_working c step t = Some r"
  shows "\<exists>k. r = t + int k * step \<and> \<not> isNonWorkingDay c r \<and>
    (\<forall>j<k. isNonWorkingDay c (t + int j * step))"
proof (rule skip_non_working.raw_induct
    [where P = "\<lambda>c step t r. \<exists>k. r = t + int k * step \<and> \<not> isNonWorkingDay c r \<and>
      (\<forall>j<k. isNonWorkingDay c (t + int j * step))", OF _ ret])
  fix skip c step t r
  assume IH: "\<And>c step t r. skip c step t = Some r \<Longrightarrow>
      \<exists>k. r = t + int k * step \<and> \<not> isNonWorkingDay c r \<and> (\<forall>j<k. isNonWorkingDay c (t + int j * step))"
    and eq: "(if isNonWorkingDay c t then skip c step (t + step) else Some t) = Some r"
  show "\<exists>k. r = t + int k * step \<and> \<not> isNonWorkingDay c r \<and>
      (\<forall>j<k. isNonWorkingDay c (t + int j * step))"
  proof (cases "isNonWorkingDay c t")
    case True
    with eq IH obtain k where k: "r = t + step + int k * step" "\<not> isNonWorkingDay c r"
      "\<forall>j<k. isNonWorkingDay c (t + step + int j * step)" by force
    have "isNonWorkingDay c (t + int j * step)" if "j < Suc k" for j
      using that True k(3) by (cases j) (auto simp: algebra_simps)
    with k show ?thesis by (intro exI [of _ "Suc k"]) (simp add: algebra_simps)
  next
    case False
    with eq show ?thesis by (intro exI [of _ 0]) auto
  qed
qed

lemma advance_days_count:
  "advance_days c step n t = Some r \<Longrightarrow>
   \<exists>k. r = t + int k * step \<and> working_days c step t k = n \<and> (n = 0 \<longrightarrow> k = 0) \<and>
       (0 < n \<longrightarrow> 0 < k \<and> \<not> isNonWorkingDay c r)"
proof (induction n arbitrary: t)
  case 0
  then show ?case by (intro exI [of _ 0]) simp
next
  case (Suc n)
  obtain u where u: "skip_non_working c step (t + step) = Some u" and r: "advance_days c step n u = Some r"
    using Suc.prems by (auto simp: bind_eq_Some_conv)
  from skip_non_working_count [OF u] obtain k where k: "u = t + step + int k * step"
    "\<not> isNonWorkingDay c u" "\<forall>j<k. isNonWorkingDay c (t + step + int j * step)" by blast
  obtain m where *: "r = u + int m * step \<and> working_days c step u m = n \<and> (n = 0 \<longrightarrow> m = 0) \<and>
    (0 < n \<longrightarrow> 0 < m \<and> \<not> isNonWorkingDay c r)"
    using Suc.IH [OF r] by (rule exE)
  note m = * [THEN conjunct1] * [THEN conjunct2, THEN conjunct1]
    * [THEN conjunct2, THEN conjunct2, THEN conjunct1] * [THEN conjunct2, THEN conjunct2, THEN conjunct2]
  have "working_days c step t k = 0" using k(3) by (rule working_days_zero)
  moreover have tk: "t + int (Suc k) * step = u" unfolding k(1) by (simp add: algebra_simps)
  ultimately have "working_days c step t (Suc k) = 1"
    using k(2) unfolding working_days_Suc tk by simp
  then have "working_days c step t (Suc k + m) = Suc n"
    using m(2) unfolding working_days_add tk by simp
  moreover have "r = t + int (Suc k + m) * step"
    unfolding m(1) tk [symmetric] of_nat_add distrib_right by simp
  moreover have "\<not> isNonWorkingDay c r" using m(1,3,4) k(2) by (cases "n = 0") auto
  ultimately show ?case by (intro exI [of _ "Suc k + m"]) simp
qed

lemma advance_days_complete:
  assumes "calendar_ok c" "step = day24 \<or> step = - day24"
    and "working_days c step t k = n" "0 < n" "\<not> isNonWorkingDay c (t + int k * step)"
  shows "advance_days c step n t = Some (t + int k * step)"
proof -
  obtain r where r: "advance_days c step n t = Some r" using advance_days_total [OF assms(1,2)] by blast
  from advance_days_count [OF r] assms(4) obtain m where m: "r = t + int m * step"
    "working_days c step t m = n" "\<not> isNonWorkingDay c r" by blast
  have "m = k"
    using working_days_strict [of m k c t step] working_days_strict [of k m c t step] assms(3,5) m
    by (metis linorder_neqE_nat nat_less_le)
  with r m show ?thesis by simp
qed

lemma working_days_reverse:
  "working_days c (- s) (t + int k * s) k + (if isNonWorkingDay c (t + int k * s) then 0 else 1) =
   working_days c s t k + (if isNonWorkingDay c t then 0 else 1)"
proof (induction k)
  case (Suc k)
  have bk: "t + int (Suc k) * s + - s = t + int k * s" by (simp add: algebra_simps)
  show ?case
    unfolding working_days_shift [of c "- s" "t + int (Suc k) * s"] bk working_days_Suc [of c s t k]
    using Suc.IH by simp
qed simp

lemma AddWorkDuration_whole:
  assumes "0 < n" "s = 1 \<or> s = - 1"
  shows "AddWorkDuration c t (s * (int n * day24)) =
    Option.bind (advance_days c (s * day24) n t) (\<lambda>r. Some (truncate_time r minute))"
proof -
  have d: "0 < day24" by (simp add: duration_units)
  have eq: "s * (int n * day24) = day24 * (s * int n)" by simp
  have "quot (s * (int n * day24)) day24 = s * int n" "qrem (s * (int n * day24)) day24 = 0"
    unfolding eq using d by (simp_all add: quot_mult_self qrem_mult_self)
  moreover have "s * (int n * day24) \<noteq> 0" using assms d by auto
  ultimately show ?thesis using assms by (auto simp: AddWorkDuration_def)
qed

lemma truncate_aligned: "t mod minute = 0 \<Longrightarrow> truncate_time (t + k * day24) minute = t + k * day24"
proof -
  assume "t mod minute = 0"
  moreover have "k * day24 mod minute = 0" by (simp add: duration_units)
  ultimately have "(t + k * day24) mod minute = 0" by (metis add_0 mod_add_eq mod_0)
  then show ?thesis by (simp add: truncate_minute)
qed

section \<open>What the calendar promises\<close>

text \<open>
  C35. With a configured (or default) working weekday and fewer than 53 holidays,
  \<open>AddWorkDuration\<close> returns for every date and every duration, positive or negative: the
  unbounded loops that skip non-working days always find one.
\<close>

theorem add_work_duration_returns:
  "calendar_ok c \<Longrightarrow> \<exists>r. AddWorkDuration c date dur = Some r"
  by (rule add_work_duration_total)

theorem add_work_duration_returns_witness:
  "\<exists>r. AddWorkDuration \<lparr>WorkDays = [6], Holidays = [0, 30 * day24]\<rparr> 0 (- 5 * day24) = Some r"
  by (rule add_work_duration_returns) (simp add: calendar_ok_def)

text \<open>
  Adding \<open>n\<close> whole days (or subtracting them, \<open>s = -1\<close>) returns exactly the instant, cut
  to the minute, of the \<open>n\<close>-th working day strictly after (before) the date: the day it
  lands on is a working day, and \<open>n\<close> working days lie on the way, that day included.
\<close>

theorem add_whole_days_counts:
  assumes "calendar_ok c" "0 < n" "s = 1 \<or> s = - 1"
  shows "AddWorkDuration c t (s * (int n * day24)) = Some r \<longleftrightarrow>
    (\<exists>k. r = truncate_time (t + int k * (s * day24)) minute \<and>
         working_days c (s * day24) t k = n \<and> \<not> isNonWorkingDay c (t + int k * (s * day24)))"
proof -
  have st: "s * day24 = day24 \<or> s * day24 = - day24" using assms(3) by auto
  show ?thesis
  proof
    assume "AddWorkDuration c t (s * (int n * day24)) = Some r"
    then obtain u where u: "advance_days c (s * day24) n t = Some u" "r = truncate_time u minute"
      unfolding AddWorkDuration_whole [OF assms(2,3)] by (auto simp: bind_eq_Some_conv)
    from advance_days_count [OF u(1)] u(2) assms(2)
    show "\<exists>k. r = truncate_time (t + int k * (s * day24)) minute \<and>
         working_days c (s * day24) t k = n \<and> \<not> isNonWorkingDay c (t + int k * (s * day24))"
      by metis
  next
    assume "\<exists>k. r = truncate_time (t + int k * (s * day24)) minute \<and>
         working_days c (s * day24) t k = n \<and> \<not> isNonWorkingDay c (t + int k * (s * day24))"
    then obtain k where k: "r = truncate_time (t + int k * (s * day24)) minute"
      "working_days c (s * day24) t k = n" "\<not> isNonWorkingDay c (t + int k * (s * day24))" by blast
    have "advance_days c (s * day24) n t = Some (t + int k * (s * day24))"
      by (rule advance_days_complete [OF assms(1) st k(2) assms(2) k(3)])
    then show "AddWorkDuration c t (s * (int n * day24)) = Some r"
      unfolding AddWorkDuration_whole [OF assms(2,3)] k(1) by simp
  qed
qed

theorem add_whole_days_counts_witness:
  "(AddWorkDuration default_calendar (20461 * day24) (1 * (int 2 * day24)) = Some (20465 * day24)) \<longleftrightarrow>
    (\<exists>k. 20465 * day24 = truncate_time (20461 * day24 + int k * (1 * day24)) minute \<and>
         working_days default_calendar (1 * day24) (20461 * day24) k = 2 \<and>
         \<not> isNonWorkingDay default_calendar (20461 * day24 + int k * (1 * day24)))"
  by (rule add_whole_days_counts) (simp_all add: calendar_ok_def default_calendar_def)

text \<open>
  Subtracting a whole-day duration undoes adding it, when the start is a working day on
  a full minute. (Away from working days it does not: see the theorem on project starts in Cpm_Critical.)
\<close>

theorem add_work_duration_round_trip:
  assumes "calendar_ok c" "\<not> isNonWorkingDay c t" "t mod minute = 0"
    and "AddWorkDuration c t (int n * day24) = Some r"
  shows "AddWorkDuration c r (- (int n * day24)) = Some t"
proof (cases "n = 0")
  case True
  then show ?thesis using assms(4) by (simp add: AddWorkDuration_def)
next
  case False
  then have n: "0 < n" by simp
  have "AddWorkDuration c t (1 * (int n * day24)) = Some r" using assms(4) by simp
  then obtain u where u: "advance_days c day24 n t = Some u" "r = truncate_time u minute"
    unfolding AddWorkDuration_whole [OF n disjI1, OF refl] by (auto simp: bind_eq_Some_conv)
  obtain k where k: "u = t + int k * day24" "working_days c day24 t k = n" "\<not> isNonWorkingDay c u"
    using advance_days_count [OF u(1)] n by metis
  have r: "r = t + int k * day24" using u(2) k(1) truncate_aligned [OF assms(3)] by simp
  have "working_days c (- day24) r k = n"
    using working_days_reverse [of c day24 t k] k assms(2) r by simp
  moreover have t: "r + int k * - day24 = t" using r by simp
  ultimately have "advance_days c (- day24) n r = Some t"
    using advance_days_complete [OF assms(1) disjI2 _ n, OF refl, where t = r and k = k] assms(2) by simp
  then have "AddWorkDuration c r (- 1 * (int n * day24)) = Some (truncate_time t minute)"
    unfolding AddWorkDuration_whole [OF n disjI2, OF refl] by simp
  then show ?thesis using truncate_aligned [OF assms(3), of 0] by simp
qed

theorem add_work_duration_round_trip_witness:
  "AddWorkDuration default_calendar (20465 * day24) (- (int 2 * day24)) = Some (20461 * day24)"
  by (rule add_work_duration_round_trip) code_simp+

text \<open>
  The deprecated float64 entry point agrees with \<open>AddWorkDuration\<close> on every whole number of
  days up to 2^53.
\<close>

theorem add_working_days_agrees:
  assumes "\<bar>n\<bar> \<le> 2 ^ 53"
  shows "AddWorkingDays c date (f64_of_int n) = AddWorkDuration c date (n * day24)"
proof -
  have d: "0 < day24" by (simp add: duration_units)
  have n: "f64_of_int n = of_int n" "in_int64 n" using assms by (auto simp: f64_of_int_exact in_int64_def abs_le_iff)
  have "quot (n * day24) day24 = n" "qrem (n * day24) day24 = 0"
    using quot_mult_self [OF d, of n] qrem_mult_self [OF d, of n] by (simp_all add: mult.commute)
  then show ?thesis
    using n d by (simp add: AddWorkingDays_def AddWorkDuration_def int64_of_f64_of_int fsub_def Let_def)
qed

theorem add_working_days_agrees_witness:
  "AddWorkingDays default_calendar 0 (f64_of_int 3) = AddWorkDuration default_calendar 0 (3 * day24)"
  by (rule add_working_days_agrees) simp

section \<open>The \<open>Calendar\<close> interface\<close>

text \<open>
  What the scheduling passes may assume of a \<open>Calendar\<close>: it returns, a zero duration is
  the identity, a forward move of at least a minute never goes back, a backward move never
  goes forward.
\<close>

locale work_calendar =
  fixes awd :: "gotime \<Rightarrow> duration \<Rightarrow> gotime option"
  assumes returns: "\<exists>r. awd t d = Some r"
    and zero: "awd t 0 = Some t"
    and forward: "minute \<le> d \<Longrightarrow> awd t d = Some r \<Longrightarrow> t \<le> r"
    and backward: "d \<le> 0 \<Longrightarrow> awd t d = Some r \<Longrightarrow> r \<le> t"
begin

lemma not_before: "d = 0 \<or> minute \<le> d \<Longrightarrow> awd t d = Some r \<Longrightarrow> t \<le> r"
  using forward zero by fastforce

lemma day_lag: "0 \<le> k \<Longrightarrow> awd t (k * day24) = Some r \<Longrightarrow> t \<le> r"
proof -
  assume k: "0 \<le> k" and r: "awd t (k * day24) = Some r"
  have "k * day24 = 0 \<or> minute \<le> k * day24"
    using k by (cases "k = 0") (auto simp: duration_units)
  with r show ?thesis using not_before by blast
qed

end

lemma advance_days_moves:
  "advance_days c step n t = Some r \<Longrightarrow> 0 < n \<Longrightarrow> \<exists>k>0. r = t + int k * step"
  using advance_days_count [of c step n t r] by metis

lemma add_work_duration_forward:
  assumes "minute \<le> d" "AddWorkDuration c t d = Some r"
  shows "t \<le> r"
proof -
  have d: "0 < d" "0 < day24" using assms(1) by (simp_all add: duration_units)
  let ?q = "d div day24" and ?m = "d mod day24"
  have q: "quot d day24 = ?q" "qrem d day24 = ?m" using d by (simp_all add: quot_nonneg qrem_nonneg)
  have m: "0 \<le> ?m" and q0: "0 \<le> ?q" using d by (simp_all add: pos_imp_zdiv_nonneg_iff)
  show ?thesis
  proof (cases "?q = 0")
    case True
    then have "?m = d" by (metis add_0 div_mult_mod_eq mult_zero_left)
    then have "r = truncate_time (t + d) minute"
      using assms(2) d True by (simp add: AddWorkDuration_def q Let_def)
    then show ?thesis using truncate_minute_bounds(2) [of "t + d"] assms(1) by linarith
  next
    case False
    then obtain u where u: "advance_days c day24 (nat ?q) t = Some u"
      and r: "r = truncate_time (u + ?m) minute"
      using assms(2) d q0 by (auto simp: AddWorkDuration_def q Let_def bind_eq_Some_conv split: if_splits)
    obtain k where "0 < k" "u = t + int k * day24" using advance_days_moves [OF u] False q0 by auto
    then have "t + day24 \<le> u" using d by (simp add: mult_le_cancel_right1)
    moreover have "minute \<le> day24" by (simp add: duration_units)
    ultimately show ?thesis using truncate_minute_bounds(2) [of "u + ?m"] m r by linarith
  qed
qed

lemma add_work_duration_backward:
  assumes "d \<le> 0" "AddWorkDuration c t d = Some r"
  shows "r \<le> t"
proof (cases "d = 0")
  case False
  define e where "e = - d"
  have e: "0 < e" "0 < day24" "d = - e" using assms(1) False by (simp_all add: e_def duration_units)
  let ?q = "e div day24" and ?m = "e mod day24"
  have q: "quot d day24 = - ?q" "qrem d day24 = - ?m"
    unfolding e(3) quot_minus qrem_minus using e by (simp_all add: quot_nonneg qrem_nonneg)
  have m: "0 \<le> ?m" and q0: "0 \<le> ?q" using e by (simp_all add: pos_imp_zdiv_nonneg_iff)
  obtain u where u: "(if ?q = 0 then Some t else advance_days c (- day24) (nat ?q) t) = Some u"
    and r: "r = truncate_time (u + - ?m) minute"
    using assms(2) False q0 by (auto simp: AddWorkDuration_def q Let_def bind_eq_Some_conv split: if_splits)
  have "u \<le> t"
  proof (cases "?q = 0")
    case False
    then obtain k where "0 < k" "u = t + int k * - day24"
      using advance_days_moves [of c "- day24" "nat ?q" t u] u q0 by auto
    then show ?thesis using e(2) by simp
  qed (use u in simp)
  then show ?thesis using truncate_minute_bounds(1) [of "u + - ?m"] m r by linarith
qed (use assms(2) in \<open>simp add: AddWorkDuration_def\<close>)

lemma work_calendar_standard: "calendar_ok c \<Longrightarrow> work_calendar (AddWorkDuration c)"
proof
  show "AddWorkDuration c t 0 = Some t" for t by (simp add: AddWorkDuration_def)
qed (auto intro: add_work_duration_total add_work_duration_forward add_work_duration_backward)

lemma calendar_ok_default [simp]: "calendar_ok default_calendar"
  by (simp add: calendar_ok_def default_calendar_def)

text \<open>The calendar the schedule service uses, \<open>&physics.StandardCalendar{}\<close>, is one.\<close>

interpretation std: work_calendar "AddWorkDuration default_calendar"
  by (rule work_calendar_standard) simp

end
