(* ===== verification/Cpm_Pass.thy ===== *)
theory Cpm_Pass
  imports Cpm_Graph Calendar
begin

text \<open>
  The two passes of internal/physics/cpm.go: task durations, \<open>ForwardPass\<close> with its
  dependency types, lags and material constraints, \<open>BackwardPass\<close> with late dates, total
  float and the critical path. The \<open>Calendar\<close> interface is the parameter \<open>cal\<close>; None is a
  call that never returns. The schedule map is an association list, since the backward pass
  ranges over it. The declarative forward schedule at the end is what the forward pass is
  shown to compute.
\<close>

type_synonym calendar = "gotime \<Rightarrow> duration \<Rightarrow> gotime option"

record TaskSchedule =
  ts_TaskID :: uuid
  ts_WBSCode :: string
  ts_EarlyStart :: gotime
  ts_EarlyFinish :: gotime
  ts_LateStart :: gotime
  ts_LateFinish :: gotime
  ts_TotalFloat :: f64
  ts_IsCritical :: bool

type_synonym schedule = "(uuid \<times> TaskSchedule) list"

record SchedulingConfig =
  CriticalPathThreshold :: f64

definition DefaultSchedulingConfig :: SchedulingConfig where
  "DefaultSchedulingConfig = \<lparr>CriticalPathThreshold = fl (1 / 1000)\<rparr>"

record CPMResult =
  cr_Tasks :: "TaskSchedule list"
  cr_CriticalPath :: "string list"
  cr_ProjectEnd :: gotime
  cr_CriticalPathChanged :: bool

definition getTaskDuration :: "ProjectTask \<Rightarrow> cpm_error + duration" where
  "getTaskDuration task =
     map_sum id (\<lambda>durationDays. int64_of_f64 (fmul durationDays (f64_of_int day24)))
       (case pt_ManualOverrideDays task of
          Some d \<Rightarrow>
            if d > 0 then Inr d
            else if pt_WeatherAdjustedDuration task > 0 then Inr (pt_WeatherAdjustedDuration task)
            else if pt_CalculatedDuration task > 0 then Inr (pt_CalculatedDuration task)
            else if pt_DurationDays task > 0 then Inr (f64_of_int (pt_DurationDays task))
            else Inl (InvalidTaskDuration (pt_WBSCode task) (pt_ID task))
        | None \<Rightarrow>
            if pt_WeatherAdjustedDuration task > 0 then Inr (pt_WeatherAdjustedDuration task)
            else if pt_CalculatedDuration task > 0 then Inr (pt_CalculatedDuration task)
            else if pt_DurationDays task > 0 then Inr (f64_of_int (pt_DurationDays task))
            else Inl (InvalidTaskDuration (pt_WBSCode task) (pt_ID task)))"

section \<open>Forward pass\<close>

definition lag_of :: "int \<Rightarrow> duration" where
  "lag_of lagDays = wrap64 (lagDays * day24)"

definition calculateConstraintDate :: "calendar \<Rightarrow> TaskSchedule \<Rightarrow> duration \<Rightarrow> DependencyType \<Rightarrow>
    int \<Rightarrow> gotime option" where
  "calculateConstraintDate cal predSchedule successorDuration depType lagDays =
     (let lag = lag_of lagDays in
      if depType = DependencyTypeFS then cal (ts_EarlyFinish predSchedule) lag
      else if depType = DependencyTypeSS then cal (ts_EarlyStart predSchedule) lag
      else if depType = DependencyTypeFF then
        cal (ts_EarlyFinish predSchedule) (wrap64 (lag - successorDuration))
      else if depType = DependencyTypeSF then
        cal (ts_EarlyStart predSchedule) (wrap64 (lag - successorDuration))
      else cal (ts_EarlyFinish predSchedule) lag)"

definition dependency_or_FS :: "'g DependencyGraph \<Rightarrow> uuid \<Rightarrow> uuid \<Rightarrow> TaskDependency" where
  "dependency_or_FS g predID succID =
     (case GetDependency g predID succID of
        Some dep \<Rightarrow> dep
      | None \<Rightarrow> zero_dep\<lparr>td_DependencyType := DependencyTypeFS, td_LagDays := 0\<rparr>)"

text \<open>The loop over the predecessors, with \<open>maxConstraintDate\<close> and \<open>firstPredecessor\<close>.\<close>

fun max_constraint :: "'g DependencyGraph \<Rightarrow> calendar \<Rightarrow> schedule \<Rightarrow> uuid \<Rightarrow> duration \<Rightarrow> uuid list \<Rightarrow>
    gotime \<Rightarrow> bool \<Rightarrow> gotime option" where
  "max_constraint g cal schedule taskID duration [] maxDate firstPred = Some maxDate"
| "max_constraint g cal schedule taskID duration (predID # preds) maxDate firstPred =
     (case mget schedule predID of
        None \<Rightarrow> max_constraint g cal schedule taskID duration preds maxDate firstPred
      | Some predSchedule \<Rightarrow>
          (let dep = dependency_or_FS g predID taskID in
           case calculateConstraintDate cal predSchedule duration (td_DependencyType dep) (td_LagDays dep) of
             None \<Rightarrow> None
           | Some constraintDate \<Rightarrow>
               if firstPred \<or> constraintDate > maxDate
               then max_constraint g cal schedule taskID duration preds constraintDate False
               else max_constraint g cal schedule taskID duration preds maxDate firstPred))"

definition material_start :: "(uuid \<rightharpoonup> gotime) \<Rightarrow> uuid \<Rightarrow> gotime \<Rightarrow> gotime" where
  "material_start materialConstraints taskID earlyStart =
     (case materialConstraints taskID of
        Some matDate \<Rightarrow> if matDate > earlyStart then matDate else earlyStart
      | None \<Rightarrow> earlyStart)"

definition early_schedule :: "ProjectTask \<Rightarrow> uuid \<Rightarrow> gotime \<Rightarrow> gotime \<Rightarrow> TaskSchedule" where
  "early_schedule task taskID earlyStart earlyFinish =
     \<lparr>ts_TaskID = taskID, ts_WBSCode = pt_WBSCode task, ts_EarlyStart = earlyStart,
      ts_EarlyFinish = earlyFinish, ts_LateStart = zero_time, ts_LateFinish = zero_time,
      ts_TotalFloat = 0, ts_IsCritical = False\<rparr>"

definition or_stuck :: "'a option \<Rightarrow> cpm_error + 'a" where
  "or_stuck r = (case r of None \<Rightarrow> Inl CalendarStuck | Some x \<Rightarrow> Inr x)"

definition forward_task :: "'g digraph_ops \<Rightarrow> 'g DependencyGraph \<Rightarrow> gotime \<Rightarrow> calendar \<Rightarrow>
    (uuid \<rightharpoonup> gotime) \<Rightarrow> schedule \<Rightarrow> uuid \<Rightarrow> cpm_error + schedule" where
  "forward_task ops g projectStart cal materialConstraints schedule taskID =
     (case Tasks g taskID of
        None \<Rightarrow> Inr schedule
      | Some task \<Rightarrow>
          ebind (getTaskDuration task) (\<lambda>duration.
            let predecessors = GetPredecessors ops g taskID in
            ebind (if predecessors = [] then Inr projectStart
                   else or_stuck (max_constraint g cal schedule taskID duration predecessors zero_time True))
              (\<lambda>earlyStart0.
                let earlyStart = material_start materialConstraints taskID earlyStart0 in
                ebind (or_stuck (cal earlyStart duration)) (\<lambda>earlyFinish.
                  Inr (mput taskID (early_schedule task taskID earlyStart earlyFinish) schedule)))))"

fun forward_loop :: "'g digraph_ops \<Rightarrow> 'g DependencyGraph \<Rightarrow> gotime \<Rightarrow> calendar \<Rightarrow>
    (uuid \<rightharpoonup> gotime) \<Rightarrow> uuid list \<Rightarrow> schedule \<Rightarrow> cpm_error + schedule" where
  "forward_loop ops g start cal mats [] schedule = Inr schedule"
| "forward_loop ops g start cal mats (taskID # ids) schedule =
     ebind (forward_task ops g start cal mats schedule taskID) (forward_loop ops g start cal mats ids)"

text \<open>A nil \<open>materialConstraints\<close> is the empty map.\<close>

definition ForwardPass :: "'g digraph_ops \<Rightarrow> 'g DependencyGraph \<Rightarrow> gotime \<Rightarrow> calendar \<Rightarrow>
    (uuid \<rightharpoonup> gotime) \<Rightarrow> cpm_error + schedule" where
  "ForwardPass ops g projectStart cal materialConstraints =
     ebind (TopologicalSort ops g)
       (\<lambda>ids. forward_loop ops g projectStart cal materialConstraints ids [])"

section \<open>Backward pass\<close>

definition calculateBackwardConstraintDate :: "calendar \<Rightarrow> TaskSchedule \<Rightarrow> duration \<Rightarrow>
    DependencyType \<Rightarrow> int \<Rightarrow> gotime option" where
  "calculateBackwardConstraintDate cal succSchedule predecessorDuration depType lagDays =
     (let lag = lag_of lagDays in
      if depType = DependencyTypeFS then cal (ts_LateStart succSchedule) (wrap64 (- lag))
      else if depType = DependencyTypeSS then
        cal (ts_LateStart succSchedule) (wrap64 (wrap64 (- lag) + predecessorDuration))
      else if depType = DependencyTypeFF then cal (ts_LateFinish succSchedule) (wrap64 (- lag))
      else if depType = DependencyTypeSF then
        cal (ts_LateFinish succSchedule) (wrap64 (wrap64 (- lag) + predecessorDuration))
      else cal (ts_LateStart succSchedule) (wrap64 (- lag)))"

fun latest_finish :: "schedule \<Rightarrow> gotime \<Rightarrow> bool \<Rightarrow> gotime" where
  "latest_finish [] projectEnd isFirst = projectEnd"
| "latest_finish ((_, sched) # rest) projectEnd isFirst =
     (if isFirst \<or> ts_EarlyFinish sched > projectEnd
      then latest_finish rest (ts_EarlyFinish sched) False
      else latest_finish rest projectEnd isFirst)"

fun min_constraint :: "'g DependencyGraph \<Rightarrow> calendar \<Rightarrow> schedule \<Rightarrow> uuid \<Rightarrow> duration \<Rightarrow> uuid list \<Rightarrow>
    gotime \<Rightarrow> bool \<Rightarrow> gotime option" where
  "min_constraint g cal schedule taskID duration [] lateFinish firstSucc = Some lateFinish"
| "min_constraint g cal schedule taskID duration (succID # succs) lateFinish firstSucc =
     (case mget schedule succID of
        None \<Rightarrow> min_constraint g cal schedule taskID duration succs lateFinish firstSucc
      | Some succSchedule \<Rightarrow>
          (let dep = dependency_or_FS g taskID succID in
           case calculateBackwardConstraintDate cal succSchedule duration
                  (td_DependencyType dep) (td_LagDays dep) of
             None \<Rightarrow> None
           | Some constraintDate \<Rightarrow>
               if firstSucc \<or> constraintDate < lateFinish
               then min_constraint g cal schedule taskID duration succs constraintDate False
               else min_constraint g cal schedule taskID duration succs lateFinish firstSucc))"

text \<open>\<open>d.Hours() / 24\<close>: \<open>Hours\<close> adds the whole hours and the rest as float64 values.\<close>

definition duration_Hours :: "duration \<Rightarrow> f64" where
  "duration_Hours d =
     fadd (f64_of_int (quot d hour)) (fdiv (f64_of_int (qrem d hour)) (f64_of_int hour))"

definition total_float :: "gotime \<Rightarrow> gotime \<Rightarrow> f64" where
  "total_float lateStart earlyStart = fdiv (duration_Hours (time_sub lateStart earlyStart)) 24"

definition late_schedule :: "SchedulingConfig \<Rightarrow> TaskSchedule \<Rightarrow> gotime \<Rightarrow> gotime \<Rightarrow> TaskSchedule" where
  "late_schedule config sched lateStart lateFinish =
     (let floatDays = total_float lateStart (ts_EarlyStart sched) in
      sched\<lparr>ts_LateStart := lateStart, ts_LateFinish := lateFinish, ts_TotalFloat := floatDays,
        ts_IsCritical := \<bar>floatDays\<bar> < CriticalPathThreshold config\<rparr>)"

definition backward_task :: "'g digraph_ops \<Rightarrow> 'g DependencyGraph \<Rightarrow> calendar \<Rightarrow> SchedulingConfig \<Rightarrow>
    gotime \<Rightarrow> schedule \<Rightarrow> uuid \<Rightarrow> cpm_error + schedule" where
  "backward_task ops g cal config projectEnd schedule taskID =
     (case (Tasks g taskID, mget schedule taskID) of
        (Some task, Some sched) \<Rightarrow>
          ebind (getTaskDuration task) (\<lambda>duration.
            let successors = GetSuccessors ops g taskID in
            ebind (if successors = [] then Inr projectEnd
                   else or_stuck (min_constraint g cal schedule taskID duration successors zero_time True))
              (\<lambda>lateFinish.
                ebind (or_stuck (cal lateFinish (wrap64 (- duration)))) (\<lambda>lateStart.
                  Inr (mput taskID (late_schedule config sched lateStart lateFinish) schedule))))
      | _ \<Rightarrow> Inr schedule)"

fun backward_loop :: "'g digraph_ops \<Rightarrow> 'g DependencyGraph \<Rightarrow> calendar \<Rightarrow> SchedulingConfig \<Rightarrow>
    gotime \<Rightarrow> uuid list \<Rightarrow> schedule \<Rightarrow> cpm_error + schedule" where
  "backward_loop ops g cal config projectEnd [] schedule = Inr schedule"
| "backward_loop ops g cal config projectEnd (taskID # ids) schedule =
     ebind (backward_task ops g cal config projectEnd schedule taskID)
       (backward_loop ops g cal config projectEnd ids)"

definition critical_path :: "schedule \<Rightarrow> uuid list \<Rightarrow> string list" where
  "critical_path schedule ids =
     List.map_filter (\<lambda>taskID. case mget schedule taskID of
         Some sched \<Rightarrow> if ts_IsCritical sched then Some (ts_WBSCode sched) else None
       | None \<Rightarrow> None) ids"

text \<open>The code updates the schedule in place: it is returned beside the critical path.\<close>

definition BackwardPass :: "'g digraph_ops \<Rightarrow> 'g DependencyGraph \<Rightarrow> schedule \<Rightarrow> calendar \<Rightarrow>
    SchedulingConfig option \<Rightarrow> cpm_error + (string list \<times> schedule)" where
  "BackwardPass ops g schedule cal config =
     (let cfg = (case config of None \<Rightarrow> DefaultSchedulingConfig | Some c \<Rightarrow> c) in
      if schedule = [] then Inr ([], schedule)
      else let projectEnd = latest_finish schedule zero_time True in
        ebind (TopologicalSort ops g) (\<lambda>ids.
          ebind (backward_loop ops g cal cfg projectEnd (rev ids) schedule) (\<lambda>schedule'.
            Inr (critical_path schedule' ids, schedule'))))"

end
