(* ===== verification/Cpm_Forward.thy ===== *)
theory Cpm_Forward
  imports Cpm_Pass
begin

text \<open>
  The forward pass computes the classical schedule. \<open>forward_schedule\<close> states, task by
  task and without any order of processing, what early dates are; \<open>forward_pass_correct\<close> shows
  that whatever the pass returns satisfies it, \<open>forward_schedule_unique\<close> that on acyclic
  dependencies there is only one such schedule, so that neither gonum's choice of
  topological order nor its order of predecessors can show in the result.
\<close>

definition dep_date :: "calendar \<Rightarrow> TaskSchedule \<Rightarrow> duration \<Rightarrow> TaskDependency \<Rightarrow> gotime option" where
  "dep_date cal q dur d = calculateConstraintDate cal q dur (td_DependencyType d) (td_LagDays d)"

text \<open>The dates the dependencies on a task impose, given the schedule of its predecessors.\<close>

definition constraint_dates :: "calendar \<Rightarrow> ProjectTask list \<Rightarrow> TaskDependency list \<Rightarrow>
    (uuid \<rightharpoonup> TaskSchedule) \<Rightarrow> uuid \<Rightarrow> duration \<Rightarrow> gotime set" where
  "constraint_dates cal ts ds S u dur =
     {c. \<exists>p q d. (p, u) \<in> dep_rel ts ds \<and> last_dep ds p u = Some d \<and> S p = Some q \<and>
           dep_date cal q dur d = Some c}"

definition greatest :: "'a::linorder \<Rightarrow> 'a set \<Rightarrow> bool" where
  "greatest m A \<longleftrightarrow> m \<in> A \<and> (\<forall>a\<in>A. a \<le> m)"

definition early_base :: "calendar \<Rightarrow> gotime \<Rightarrow> ProjectTask list \<Rightarrow> TaskDependency list \<Rightarrow>
    (uuid \<rightharpoonup> TaskSchedule) \<Rightarrow> uuid \<Rightarrow> duration \<Rightarrow> gotime \<Rightarrow> bool" where
  "early_base cal start ts ds S u dur base \<longleftrightarrow>
     (if \<exists>p. (p, u) \<in> dep_rel ts ds
      then greatest base (constraint_dates cal ts ds S u dur)
      else base = start)"

definition forward_at :: "calendar \<Rightarrow> gotime \<Rightarrow> (uuid \<rightharpoonup> gotime) \<Rightarrow> ProjectTask list \<Rightarrow>
    TaskDependency list \<Rightarrow> (uuid \<rightharpoonup> TaskSchedule) \<Rightarrow> ProjectTask \<Rightarrow> bool" where
  "forward_at cal start mats ts ds S t \<longleftrightarrow>
     (\<exists>dur base ef. getTaskDuration t = Inr dur \<and>
        early_base cal start ts ds S (pt_ID t) dur base \<and>
        cal (material_start mats (pt_ID t) base) dur = Some ef \<and>
        S (pt_ID t) = Some (early_schedule t (pt_ID t) (material_start mats (pt_ID t) base) ef))"

definition forward_schedule :: "calendar \<Rightarrow> gotime \<Rightarrow> (uuid \<rightharpoonup> gotime) \<Rightarrow> ProjectTask list \<Rightarrow>
    TaskDependency list \<Rightarrow> (uuid \<rightharpoonup> TaskSchedule) \<Rightarrow> bool" where
  "forward_schedule cal start mats ts ds S \<longleftrightarrow>
     dom S = task_ids ts \<and> (\<forall>t\<in>set ts. forward_at cal start mats ts ds S t)"

lemma greatest_unique: "greatest a A \<Longrightarrow> greatest b A \<Longrightarrow> a = b"
  by (simp add: greatest_def antisym)

lemma constraint_dates_cong:
  assumes "\<And>p. (p, u) \<in> dep_rel ts ds \<Longrightarrow> S p = S' p"
  shows "constraint_dates cal ts ds S u dur = constraint_dates cal ts ds S' u dur"
  unfolding constraint_dates_def by (rule Collect_cong) (use assms in metis)

lemma early_base_cong:
  assumes "\<And>p. (p, u) \<in> dep_rel ts ds \<Longrightarrow> S p = S' p"
  shows "early_base cal start ts ds S u dur base = early_base cal start ts ds S' u dur base"
proof -
  have "constraint_dates cal ts ds S u dur = constraint_dates cal ts ds S' u dur"
    using assms by (rule constraint_dates_cong)
  then show ?thesis by (simp add: early_base_def)
qed

lemma forward_at_cong:
  assumes "S (pt_ID t) = S' (pt_ID t)" "\<And>p. (p, pt_ID t) \<in> dep_rel ts ds \<Longrightarrow> S p = S' p"
  shows "forward_at cal start mats ts ds S t = forward_at cal start mats ts ds S' t"
proof -
  have "early_base cal start ts ds S (pt_ID t) dur base = early_base cal start ts ds S' (pt_ID t) dur base"
    for dur base using assms(2) by (rule early_base_cong)
  then show ?thesis by (simp add: forward_at_def assms(1))
qed

lemma forward_schedule_unique:
  assumes ac: "acyclic (dep_rel ts ds)"
    and S: "forward_schedule cal start mats ts ds S" and S': "forward_schedule cal start mats ts ds S'"
    and dist: "distinct (map pt_ID ts)"
  shows "S = S'"
proof -
  have dom: "dom S = task_ids ts" "dom S' = task_ids ts" using S S' by (auto simp: forward_schedule_def)
  have wf: "wf (dep_rel ts ds)" using finite_dep_rel ac by (rule finite_acyclic_wf)
  have "u \<in> task_ids ts \<longrightarrow> S u = S' u" for u
    using wf
  proof (induction u rule: wf_induct_rule)
    case (less u)
    show ?case
    proof
      assume "u \<in> task_ids ts"
      then obtain t where t: "t \<in> set ts" "pt_ID t = u" by blast
      have preds: "S p = S' p" if "(p, u) \<in> dep_rel ts ds" for p
        using less that by (auto simp: dep_rel_def)
      have c: "constraint_dates cal ts ds S u dur = constraint_dates cal ts ds S' u dur" for dur
        using preds by (rule constraint_dates_cong)
      have "forward_at cal start mats ts ds S t" "forward_at cal start mats ts ds S' t"
        using S S' t(1) by (auto simp: forward_schedule_def)
      then obtain dur base ef dur' base' ef' where
        a: "getTaskDuration t = Inr dur" "early_base cal start ts ds S u dur base"
          "cal (material_start mats u base) dur = Some ef"
          "S u = Some (early_schedule t u (material_start mats u base) ef)" and
        b: "getTaskDuration t = Inr dur'" "early_base cal start ts ds S' u dur' base'"
          "cal (material_start mats u base') dur' = Some ef'"
          "S' u = Some (early_schedule t u (material_start mats u base') ef')"
        unfolding forward_at_def t(2) by metis
      have d: "dur' = dur" using a(1) b(1) by simp
      have "base' = base"
        using a(2) b(2) greatest_unique unfolding early_base_def d c by (metis (full_types))
      then show "S u = S' u" using a b d by simp
    qed
  qed
  then show ?thesis using dom by (intro ext) (metis domIff)
qed

section \<open>The loop over the predecessors\<close>

lemma max_constraint_greatest:
  assumes "max_constraint g cal sched u dur ps m isFirst = Some r"
    and "\<forall>p\<in>set ps. \<exists>q. mget sched p = Some q"
  shows "(ps = [] \<and> r = m) \<or>
    greatest r ({c. \<exists>p\<in>set ps. \<exists>q. mget sched p = Some q \<and> dep_date cal q dur (dependency_or_FS g p u) = Some c} \<union>
      (if isFirst then {} else {m}))"
  using assms
proof (induction ps arbitrary: m isFirst)
  case (Cons p ps)
  obtain q where q: "mget sched p = Some q" using Cons.prems(2) by auto
  then obtain c where c: "dep_date cal q dur (dependency_or_FS g p u) = Some c"
    and rest: "(if isFirst \<or> c > m then max_constraint g cal sched u dur ps c False
      else max_constraint g cal sched u dur ps m isFirst) = Some r"
    using Cons.prems(1) by (auto simp: Let_def dep_date_def split: option.splits)
  have all: "\<forall>p\<in>set ps. \<exists>q. mget sched p = Some q" using Cons.prems(2) by simp
  let ?C = "\<lambda>ps. {c. \<exists>p\<in>set ps. \<exists>q. mget sched p = Some q \<and> dep_date cal q dur (dependency_or_FS g p u) = Some c}"
  have C: "?C (p # ps) = insert c (?C ps)" using q c by auto
  show ?case
  proof (cases "isFirst \<or> c > m")
    case True
    then have "max_constraint g cal sched u dur ps c False = Some r" using rest by simp
    from Cons.IH [OF this all] show ?thesis using True unfolding C by (auto simp: greatest_def)
  next
    case False
    then have "max_constraint g cal sched u dur ps m isFirst = Some r" using rest by simp
    from Cons.IH [OF this all] show ?thesis using False unfolding C by (auto simp: greatest_def)
  qed
qed simp

lemma max_constraint_defined:
  assumes "\<And>t d. cal t d \<noteq> None"
  shows "max_constraint g cal sched u dur ps m isFirst \<noteq> None"
proof (induction ps arbitrary: m isFirst)
  case (Cons p ps)
  have "calculateConstraintDate cal q dur ty lag \<noteq> None" for q ty lag
    using assms by (simp add: calculateConstraintDate_def Let_def)
  then have c: "\<exists>c. calculateConstraintDate cal q dur ty lag = Some c" for q ty lag by simp
  show ?case
  proof (cases "mget sched p")
    case (Some q)
    let ?d = "dependency_or_FS g p u"
    obtain c where "calculateConstraintDate cal q dur (td_DependencyType ?d) (td_LagDays ?d) = Some c"
      using c by blast
    then show ?thesis using Some Cons.IH by (simp add: Let_def)
  qed (use Cons.IH in simp)
qed simp

section \<open>The loop over the tasks\<close>

definition forward_inv :: "calendar \<Rightarrow> gotime \<Rightarrow> (uuid \<rightharpoonup> gotime) \<Rightarrow> ProjectTask list \<Rightarrow>
    TaskDependency list \<Rightarrow> uuid list \<Rightarrow> schedule \<Rightarrow> bool" where
  "forward_inv cal start mats ts ds us sched \<longleftrightarrow>
     mkeys sched = us \<and> (\<forall>p u. (p, u) \<in> dep_rel ts ds \<longrightarrow> u \<in> set us \<longrightarrow> p \<in> set us) \<and>
     (\<forall>t\<in>set ts. pt_ID t \<in> set us \<longrightarrow> forward_at cal start mats ts ds (mget sched) t)"

lemma mput_new: "k \<notin> set (mkeys m) \<Longrightarrow> mput k v m = m @ [(k, v)]"
  by (induction m) auto

context gonum
begin

lemma predecessor_dates:
  assumes "graph_ok valid nodes edges ts ds g" "u \<in> task_ids ts" "sched = mget s"
  shows "{c. \<exists>p\<in>set (GetPredecessors ops g u). \<exists>q. mget s p = Some q \<and>
      dep_date cal q dur (dependency_or_FS g p u) = Some c} = constraint_dates cal ts ds sched u dur"
proof -
  have "dependency_or_FS g p u = the (last_dep ds p u) \<and> last_dep ds p u \<noteq> None"
    if "(p, u) \<in> dep_rel ts ds" for p
    using that GetDependency_ok [OF assms(1), of p u] assms(2)
    by (auto simp: dep_rel_iff_last_dep dependency_or_FS_def)
  then show ?thesis
    unfolding GetPredecessors_ok [OF assms(1,2)] constraint_dates_def assms(3)
    by (intro Collect_cong) fastforce
qed

lemma forward_task_step:
  assumes g: "graph_ok valid nodes edges ts ds g" and dist: "distinct (map pt_ID ts)"
    and inv: "forward_inv cal start mats ts ds us s"
    and u: "u \<in> task_ids ts" "u \<notin> set us" "\<And>p. (p, u) \<in> dep_rel ts ds \<Longrightarrow> p \<in> set us"
    and r: "forward_task ops g start cal mats s u = Inr s'"
  shows "forward_inv cal start mats ts ds (us @ [u]) s'"
proof -
  obtain t where t: "t \<in> set ts" "pt_ID t = u" using u(1) by blast
  have task: "Tasks g u = Some t" using graph_ok_task [OF g] task_by_id_distinct [OF dist t(1)] t(2) by simp
  let ?ps = "GetPredecessors ops g u"
  obtain dur base ef where e: "getTaskDuration t = Inr dur"
    "(if ?ps = [] then Inr start else or_stuck (max_constraint g cal s u dur ?ps zero_time True)) = Inr base"
    "cal (material_start mats u base) dur = Some ef"
    "s' = mput u (early_schedule t u (material_start mats u base) ef) s"
    using r task by (auto simp: forward_task_def Let_def ebind_Inr_iff or_stuck_def split: option.splits if_splits)
  have keys: "mkeys s = us" using inv by (simp add: forward_inv_def)
  have preds: "\<forall>p\<in>set ?ps. \<exists>q. mget s p = Some q"
    using u(3) keys GetPredecessors_ok [OF g u(1)] by (auto simp: map_of_eq_None_iff simp flip: not_None_eq)
  have base: "early_base cal start ts ds (mget s) u dur base"
  proof (cases "?ps = []")
    case True
    then have "\<not> (\<exists>p. (p, u) \<in> dep_rel ts ds)" using GetPredecessors_ok [OF g u(1)] by auto
    then show ?thesis using e(2) True by (simp add: early_base_def)
  next
    case False
    then have ex: "\<exists>p. (p, u) \<in> dep_rel ts ds"
      using GetPredecessors_ok [OF g u(1)] by (metis mem_Collect_eq set_empty ex_in_conv)
    have "max_constraint g cal s u dur ?ps zero_time True = Some base"
      using e(2) False by (auto simp: or_stuck_def split: option.splits)
    from max_constraint_greatest [OF this preds] False ex show ?thesis
      unfolding predecessor_dates [OF g u(1) refl] early_base_def by simp
  qed
  have fresh: "u \<notin> set (mkeys s)" using u(2) keys by simp
  have irr: "(u, u) \<notin> dep_rel ts ds" using u(2,3) by blast
  have same: "mget s' p = mget s p" if "p \<noteq> u" for p using that unfolding e(4) mget_mput by simp
  have "early_base cal start ts ds (mget s') u dur base = early_base cal start ts ds (mget s) u dur base"
    by (rule early_base_cong) (use irr same in metis)
  then have "early_base cal start ts ds (mget s') u dur base" using base by simp
  moreover have "mget s' u = Some (early_schedule t u (material_start mats u base) ef)"
    unfolding e(4) mget_mput by simp
  ultimately have at: "forward_at cal start mats ts ds (mget s') t"
    unfolding forward_at_def t(2) using e(1,3) by blast
  have old: "forward_at cal start mats ts ds (mget s') t'" if t': "t' \<in> set ts" "pt_ID t' \<in> set us" for t'
  proof -
    have "p \<in> set us" if "(p, pt_ID t') \<in> dep_rel ts ds" for p
      using inv t'(2) that by (auto simp: forward_inv_def)
    then have "(p, pt_ID t') \<in> dep_rel ts ds \<Longrightarrow> mget s' p = mget s p" for p using same u(2) by metis
    moreover have "mget s' (pt_ID t') = mget s (pt_ID t')" using same t'(2) u(2) by metis
    ultimately show ?thesis
      using forward_at_cong [of "mget s'" t' "mget s"] inv t' by (simp add: forward_inv_def)
  qed
  have "t' = t" if "t' \<in> set ts" "pt_ID t' = u" for t'
    using that t task_by_id_distinct [OF dist] by (metis option.inject)
  then have "forward_at cal start mats ts ds (mget s') t'" if "t' \<in> set ts" "pt_ID t' \<in> set (us @ [u])" for t'
    using that at old by auto
  moreover have "mkeys s' = us @ [u]" unfolding e(4) mput_new [OF fresh] using keys by simp
  moreover have "p \<in> set (us @ [u])" if "(p, v) \<in> dep_rel ts ds" "v \<in> set (us @ [u])" for p v
    using that inv u(3) by (auto simp: forward_inv_def)
  ultimately show ?thesis unfolding forward_inv_def by blast
qed

lemma forward_loop_inv:
  assumes g: "graph_ok valid nodes edges ts ds g" and dist: "distinct (map pt_ID ts)"
  shows "forward_inv cal start mats ts ds us s \<Longrightarrow> topo_order (dep_rel ts ds) (us @ vs) \<Longrightarrow>
    set vs \<subseteq> task_ids ts \<Longrightarrow> forward_loop ops g start cal mats vs s = Inr s' \<Longrightarrow>
    forward_inv cal start mats ts ds (us @ vs) s'"
proof (induction vs arbitrary: us s)
  case (Cons v vs)
  obtain s1 where s1: "forward_task ops g start cal mats s v = Inr s1"
    "forward_loop ops g start cal mats vs s1 = Inr s'"
    using Cons.prems(4) by (auto simp: ebind_Inr_iff)
  have "v \<in> task_ids ts" "v \<notin> set us" using Cons.prems(2,3) topo_order_distinct [OF Cons.prems(2)] by auto
  moreover have "(p, v) \<in> dep_rel ts ds \<Longrightarrow> p \<in> set us" for p
    using Cons.prems(2) by (rule topo_orderD)
  ultimately have "forward_inv cal start mats ts ds (us @ [v]) s1"
    using forward_task_step [OF g dist Cons.prems(1) _ _ _ s1(1)] by blast
  from Cons.IH [OF this _ _ s1(2)] Cons.prems(2,3) show ?case by simp
qed simp

lemma ForwardPass_inv:
  assumes g: "graph_ok valid nodes edges ts ds g" and dist: "distinct (map pt_ID ts)"
    and r: "ForwardPass ops g start cal mats = Inr sched"
  obtains us where "TopologicalSort ops g = Inr us" "forward_inv cal start mats ts ds us sched"
    "set us = task_ids ts"
proof -
  obtain us where us: "TopologicalSort ops g = Inr us" "forward_loop ops g start cal mats us [] = Inr sched"
    using r by (auto simp: ForwardPass_def ebind_Inr_iff)
  have o: "set us = task_ids ts" "topo_order (dep_rel ts ds) us" using TopologicalSort_ok [OF g us(1)] by auto
  have "forward_inv cal start mats ts ds [] []" by (simp add: forward_inv_def)
  from forward_loop_inv [OF g dist this _ _ us(2)] o have "forward_inv cal start mats ts ds us sched" by simp
  from that [OF us(1) this o(1)] show thesis .
qed

lemma ForwardPass_correct:
  assumes "graph_ok valid nodes edges ts ds g" "distinct (map pt_ID ts)"
    and "ForwardPass ops g start cal mats = Inr sched"
  shows "forward_schedule cal start mats ts ds (mget sched)"
proof -
  obtain us where us: "forward_inv cal start mats ts ds us sched" "set us = task_ids ts"
    using ForwardPass_inv [OF assms] by metis
  then have "set (mkeys sched) = task_ids ts" unfolding forward_inv_def by simp
  then have "dom (mget sched) = task_ids ts" unfolding dom_map_of_conv_image_fst by simp
  moreover have "pt_ID t \<in> set us" if "t \<in> set ts" for t using us(2) that by simp
  ultimately show ?thesis using us(1) by (simp add: forward_schedule_def forward_inv_def)
qed

lemma ForwardPass_defined:
  assumes g: "graph_ok valid nodes edges ts ds g" and dist: "distinct (map pt_ID ts)"
    and cal: "\<And>t d. cal t d \<noteq> None"
  shows "(\<exists>sched. ForwardPass ops g start cal mats = Inr sched) \<longleftrightarrow>
    acyclic (dep_rel ts ds) \<and> (\<forall>t\<in>set ts. \<exists>dur. getTaskDuration t = Inr dur)"
proof
  assume "\<exists>sched. ForwardPass ops g start cal mats = Inr sched"
  then obtain sched where s: "ForwardPass ops g start cal mats = Inr sched" by blast
  then have "\<exists>us. TopologicalSort ops g = Inr us" by (auto simp: ForwardPass_def ebind_Inr_iff)
  then show "acyclic (dep_rel ts ds) \<and> (\<forall>t\<in>set ts. \<exists>dur. getTaskDuration t = Inr dur)"
    using TopologicalSort_defined [OF g] ForwardPass_correct [OF g dist s]
    by (auto simp: forward_schedule_def forward_at_def)
next
  assume r: "acyclic (dep_rel ts ds) \<and> (\<forall>t\<in>set ts. \<exists>dur. getTaskDuration t = Inr dur)"
  then obtain us where us: "TopologicalSort ops g = Inr us" using TopologicalSort_defined [OF g] by blast
  have "\<exists>s'. forward_task ops g start cal mats s u = Inr s'" for s u
  proof (cases "Tasks g u")
    case (Some t)
    then have "t \<in> set ts" using graph_ok_task [OF g] task_by_id_Some by metis
    then obtain dur where "getTaskDuration t = Inr dur" using r by blast
    moreover obtain base where "(if GetPredecessors ops g u = [] then Inr start
        else or_stuck (max_constraint g cal s u dur (GetPredecessors ops g u) zero_time True)) = Inr base"
      using max_constraint_defined [of cal g s u dur "GetPredecessors ops g u" zero_time True] cal
      by (cases "GetPredecessors ops g u = []") (auto simp: or_stuck_def)
    moreover obtain ef where "cal (material_start mats u base) dur = Some ef" using cal by fast
    ultimately show ?thesis using Some by (simp add: forward_task_def or_stuck_def Let_def)
  qed (simp add: forward_task_def)
  then have "\<exists>s'. forward_loop ops g start cal mats us s = Inr s'" for us s
    by (induction us arbitrary: s) (auto, metis ebind.simps(2))
  then show "\<exists>sched. ForwardPass ops g start cal mats = Inr sched" using us by (simp add: ForwardPass_def)
qed

end

lemma early_schedule_sel [simp]:
  "ts_EarlyStart (early_schedule t u es ef) = es" "ts_EarlyFinish (early_schedule t u es ef) = ef"
  "ts_WBSCode (early_schedule t u es ef) = pt_WBSCode t"
  by (simp_all add: early_schedule_def)

section \<open>Early dates spelled out\<close>

text \<open>
  The contract of the forward pass without any function of the code: the first positive of the
  four duration fields in days of 24 hours, the table of dependency types with its lags, the
  latest imposed date, the material date. The lemmas \<open>getTaskDuration_stated\<close>,
  \<open>dep_date_stated\<close> and \<open>forward_schedule_stated\<close> show that the code's own functions meet it.
\<close>

definition stated_days :: "ProjectTask \<Rightarrow> f64 option" where
  "stated_days t = List.find (\<lambda>x. 0 < x) ((case pt_ManualOverrideDays t of None \<Rightarrow> [] | Some d \<Rightarrow> [d]) @
     [pt_WeatherAdjustedDuration t, pt_CalculatedDuration t, fl (of_int (pt_DurationDays t))])"

definition nanoseconds :: "f64 \<Rightarrow> duration" where
  "nanoseconds x = int64_of_f64 (fl (x * of_int (24 * 3600 * 10 ^ 9)))"

definition stated_duration :: "ProjectTask \<Rightarrow> duration \<Rightarrow> bool" where
  "stated_duration t dur \<longleftrightarrow> (\<exists>x. stated_days t = Some x \<and> dur = nanoseconds x)"

lemma f64_of_int_pos: "0 < f64_of_int n \<longleftrightarrow> 0 < n"
proof
  assume n: "0 < n"
  then have "(1 :: rat) \<le> of_int n" by simp
  then have "1 \<le> f64_of_int n" unfolding f64_of_int_def using representable_int [of 1] by (intro fl_ge) simp_all
  then show "0 < f64_of_int n" by linarith
next
  assume a: "0 < f64_of_int n"
  show "0 < n"
  proof (rule ccontr)
    assume "\<not> 0 < n"
    then have "0 \<le> fl (of_int (- n))" by (intro fl_nonneg) simp
    then show False using a f64_of_int_minus [of n] by (simp add: f64_of_int_def)
  qed
qed

lemma getTaskDuration_stated: "getTaskDuration t = Inr dur \<longleftrightarrow> stated_duration t dur"
proof -
  have day: "f64_of_int day24 = of_int (24 * 3600 * 10 ^ 9)" using f64_of_int_exact [of day24] by (simp add: duration_units)
  show ?thesis using f64_of_int_pos [of "pt_DurationDays t"]
    by (cases "pt_ManualOverrideDays t")
      (auto simp: getTaskDuration_def stated_duration_def stated_days_def nanoseconds_def fmul_def day f64_of_int_def [of "pt_DurationDays t"])
qed

definition earliest_start :: "calendar \<Rightarrow> duration \<Rightarrow> TaskDependency \<Rightarrow> TaskSchedule \<Rightarrow> gotime option" where
  "earliest_start cal dur d q =
     (let lag = td_LagDays d * (24 * 3600 * 10 ^ 9) in
      if td_DependencyType d = ''SS'' then cal (ts_EarlyStart q) (wrap64 lag)
      else if td_DependencyType d = ''FF'' then cal (ts_EarlyFinish q) (wrap64 (lag - dur))
      else if td_DependencyType d = ''SF'' then cal (ts_EarlyStart q) (wrap64 (lag - dur))
      else cal (ts_EarlyFinish q) (wrap64 lag))"

lemma dep_date_stated: "dep_date cal q dur d = earliest_start cal dur d q"
proof -
  have lag: "lag_of k = wrap64 (k * (24 * 3600 * 10 ^ 9))" for k by (simp add: lag_of_def duration_units)
  have "wrap64 (wrap64 a - b) = wrap64 (a - b)" for a b using wrap64_add_left [of a "- b"] by simp
  then show ?thesis by (simp add: dep_date_def earliest_start_def calculateConstraintDate_def Let_def dependency_types lag)
qed

definition imposed_starts :: "calendar \<Rightarrow> ProjectTask list \<Rightarrow> TaskDependency list \<Rightarrow> (uuid \<rightharpoonup> TaskSchedule) \<Rightarrow>
    uuid \<Rightarrow> duration \<Rightarrow> gotime set" where
  "imposed_starts cal ts ds S u dur = {c. \<exists>p d r. (p, u) \<in> dep_rel ts ds \<and> last_dep ds p u = Some d \<and> S p = Some r \<and>
     earliest_start cal dur d r = Some c}"

definition early_entry :: "calendar \<Rightarrow> gotime \<Rightarrow> (uuid \<rightharpoonup> gotime) \<Rightarrow> ProjectTask list \<Rightarrow> TaskDependency list \<Rightarrow>
    (uuid \<rightharpoonup> TaskSchedule) \<Rightarrow> ProjectTask \<Rightarrow> TaskSchedule \<Rightarrow> bool" where
  "early_entry cal start mats ts ds S t q \<longleftrightarrow> ts_TaskID q = pt_ID t \<and> ts_WBSCode q = pt_WBSCode t \<and>
     (\<exists>dur base. stated_duration t dur \<and>
        (if \<exists>p. (p, pt_ID t) \<in> dep_rel ts ds
         then greatest base (imposed_starts cal ts ds S (pt_ID t) dur)
         else base = start) \<and>
        ts_EarlyStart q = (case mats (pt_ID t) of None \<Rightarrow> base | Some m \<Rightarrow> max base m) \<and>
        cal (ts_EarlyStart q) dur = Some (ts_EarlyFinish q))"

lemma forward_schedule_stated:
  assumes "forward_schedule cal start mats ts ds S" "t \<in> set ts"
  shows "\<exists>q. S (pt_ID t) = Some q \<and> early_entry cal start mats ts ds S t q"
proof -
  have "forward_at cal start mats ts ds S t" using assms by (simp add: forward_schedule_def)
  then obtain dur base ef where at: "getTaskDuration t = Inr dur" "early_base cal start ts ds S (pt_ID t) dur base"
    "cal (material_start mats (pt_ID t) base) dur = Some ef"
    "S (pt_ID t) = Some (early_schedule t (pt_ID t) (material_start mats (pt_ID t) base) ef)" by (auto simp: forward_at_def)
  have dates: "constraint_dates cal ts ds S (pt_ID t) dur = imposed_starts cal ts ds S (pt_ID t) dur"
    unfolding constraint_dates_def imposed_starts_def dep_date_stated by blast
  have mat: "material_start mats (pt_ID t) base = (case mats (pt_ID t) of None \<Rightarrow> base | Some m \<Rightarrow> max base m)"
    by (auto simp: material_start_def max_def split: option.splits)
  have base: "if \<exists>p. (p, pt_ID t) \<in> dep_rel ts ds then greatest base (imposed_starts cal ts ds S (pt_ID t) dur) else base = start"
    using at(2) unfolding early_base_def dates .
  have "early_entry cal start mats ts ds S t (early_schedule t (pt_ID t) (material_start mats (pt_ID t) base) ef)"
    unfolding early_entry_def using at(1,3) base
    by - (rule conjI, simp add: early_schedule_def, rule conjI, simp add: early_schedule_def,
        rule exI [of _ dur], rule exI [of _ base], intro conjI,
        simp_all only: early_schedule_sel mat getTaskDuration_stated)
  with at(4) show ?thesis by blast
qed

definition scheduled_early :: "calendar \<Rightarrow> gotime \<Rightarrow> (uuid \<rightharpoonup> gotime) \<Rightarrow> ProjectTask list \<Rightarrow>
    TaskDependency list \<Rightarrow> (uuid \<rightharpoonup> TaskSchedule) \<Rightarrow> bool" where
  "scheduled_early cal start mats ts ds S \<longleftrightarrow> dom S = pt_ID ` set ts \<and>
     (\<forall>t\<in>set ts. \<exists>q. S (pt_ID t) = Some q \<and> early_entry cal start mats ts ds S t q)"

lemma forward_schedule_scheduled:
  "forward_schedule cal start mats ts ds S \<Longrightarrow> scheduled_early cal start mats ts ds S"
  unfolding scheduled_early_def using forward_schedule_stated by (auto simp: forward_schedule_def)

section \<open>What the forward pass promises\<close>

text \<open>
  C1. Refinement: on a graph built from tasks with distinct ids, the schedule that
  \<open>ForwardPass\<close> returns holds an entry for every task and no other, whose early start is the
  project start for a task without predecessors and otherwise the latest of the dates its
  dependencies impose (FS: predecessor's finish plus lag; SS: its start plus lag; FF: its
  finish plus lag less the duration; SF: its start plus lag less the duration; the last
  dependency between two tasks counts), pushed back to the material date if that is later,
  and whose early finish is the calendar's sum of the early start and the task's duration,
  the first positive of its four duration fields in days of 24 hours.
\<close>

theorem forward_pass_correct:
  assumes "gonum ops valid nodes edges" "distinct (map pt_ID tasks)"
    and "BuildDependencyGraph ops tasks deps = Some g"
    and "ForwardPass ops g start cal mats = Inr sched"
  shows "scheduled_early cal start mats tasks deps (mget sched)"
  by (rule forward_schedule_scheduled)
    (rule gonum.ForwardPass_correct [OF assms(1) gonum.build_ok [OF assms(1-3)] assms(2,4)])

definition sample_tasks :: "ProjectTask list" where
  "sample_tasks = [sample_task 1 ''5.0'' 3, sample_task 2 ''7.0'' 2, sample_task 3 ''8.0'' 4]"

definition sample_deps :: "TaskDependency list" where
  "sample_deps = [sample_dep 1 2 DependencyTypeFS 1, sample_dep 1 3 DependencyTypeSS 2,
     sample_dep 2 3 DependencyTypeFF 0]"

definition sample_graph :: "lgraph DependencyGraph" where
  "sample_graph = the (BuildDependencyGraph lg_ops sample_tasks sample_deps)"

definition monday :: gotime where
  "monday = 20458 * day24"

definition sample_forward :: schedule where
  "sample_forward = projr (ForwardPass lg_ops sample_graph monday (AddWorkDuration default_calendar) Map.empty)"

lemma sample_tasks_distinct: "distinct (map pt_ID sample_tasks)"
  by code_simp

lemma sample_build: "BuildDependencyGraph lg_ops sample_tasks sample_deps = Some sample_graph"
proof -
  have "no_self_dep sample_tasks sample_deps" by code_simp
  then show ?thesis
    using lg.build_defined [OF sample_tasks_distinct] by (auto simp: sample_graph_def)
qed

lemma sample_acyclic: "acyclic (dep_rel sample_tasks sample_deps)"
proof -
  have "dep_rel sample_tasks sample_deps \<subseteq> less_than"
    by (auto simp: dep_rel_def sample_deps_def sample_defs)
  then show ?thesis using acyclic_subset wf_acyclic wf_less_than by metis
qed

lemma sample_durations: "\<forall>t\<in>set sample_tasks. \<exists>dur. getTaskDuration t = Inr dur"
  by (simp add: sample_tasks_def sample_defs getTaskDuration_def)

lemma sample_forward_ok:
  "ForwardPass lg_ops sample_graph monday (AddWorkDuration default_calendar) Map.empty = Inr sample_forward"
  using lg.ForwardPass_defined [OF lg.build_ok [OF sample_tasks_distinct sample_build] sample_tasks_distinct,
      of "AddWorkDuration default_calendar" monday Map.empty]
    sample_acyclic sample_durations std.returns
  by (auto simp: sample_forward_def)

theorem forward_pass_correct_witness:
  "\<exists>sched. ForwardPass lg_ops sample_graph monday (AddWorkDuration default_calendar) [2 \<mapsto> monday + 20 * day24] = Inr sched \<and>
     scheduled_early (AddWorkDuration default_calendar) monday [2 \<mapsto> monday + 20 * day24] sample_tasks sample_deps (mget sched)"
proof -
  obtain sched where "ForwardPass lg_ops sample_graph monday (AddWorkDuration default_calendar)
      [2 \<mapsto> monday + 20 * day24] = Inr sched"
    using lg.ForwardPass_defined [OF lg.build_ok [OF sample_tasks_distinct sample_build] sample_tasks_distinct,
        of "AddWorkDuration default_calendar" monday "[2 \<mapsto> monday + 20 * day24]"]
      sample_acyclic sample_durations std.returns by auto
  then show ?thesis using forward_pass_correct [OF lg.gonum_axioms sample_tasks_distinct sample_build] by blast
qed

text \<open>
  Determinism: two runs over the same tasks and dependencies give every task the same
  early dates, whichever implementation of the graph library, topological order and order
  of predecessors they use.
\<close>

theorem forward_pass_deterministic:
  assumes "gonum ops valid nodes edges" "gonum ops' valid' nodes' edges'"
    and "distinct (map pt_ID tasks)"
    and "BuildDependencyGraph ops tasks deps = Some g" "BuildDependencyGraph ops' tasks deps = Some g'"
    and "ForwardPass ops g start cal mats = Inr sched" "ForwardPass ops' g' start cal mats = Inr sched'"
  shows "mget sched = mget sched'"
proof -
  have "\<exists>us. TopologicalSort ops g = Inr us"
    using assms(6) by (auto simp: ForwardPass_def ebind_Inr_iff)
  then have "acyclic (dep_rel tasks deps)"
    using gonum.TopologicalSort_defined [OF assms(1) gonum.build_ok [OF assms(1,3,4)]] by simp
  then show ?thesis
    using forward_schedule_unique gonum.ForwardPass_correct [OF assms(1) gonum.build_ok [OF assms(1,3,4)] assms(3,6)]
      gonum.ForwardPass_correct [OF assms(2) gonum.build_ok [OF assms(2,3,5)] assms(3,7)] assms(3) by metis
qed

theorem forward_pass_deterministic_witness:
  "mget sample_forward = mget sample_forward"
  by (rule forward_pass_deterministic [OF lg.gonum_axioms lg.gonum_axioms sample_tasks_distinct
        sample_build sample_build sample_forward_ok sample_forward_ok])

text \<open>
  C3. The pass answers: with a calendar that returns, it produces a schedule exactly when the
  dependencies are acyclic and every task has a valid duration; otherwise it returns an error.
\<close>

theorem forward_pass_returns_iff:
  assumes "gonum ops valid nodes edges" "work_calendar cal" "distinct (map pt_ID tasks)"
    and "BuildDependencyGraph ops tasks deps = Some g"
  shows "(\<exists>sched. ForwardPass ops g start cal mats = Inr sched) \<longleftrightarrow>
    acyclic (dep_rel tasks deps) \<and> (\<forall>t\<in>set tasks. \<exists>dur. getTaskDuration t = Inr dur)"
  using gonum.ForwardPass_defined [OF assms(1) gonum.build_ok [OF assms(1,3,4)] assms(3)]
    work_calendar.returns [OF assms(2)] by (metis option.distinct(1))

theorem forward_pass_returns_iff_witness:
  "(\<exists>sched. ForwardPass lg_ops sample_graph monday (AddWorkDuration default_calendar) Map.empty = Inr sched) \<longleftrightarrow>
    acyclic (dep_rel sample_tasks sample_deps) \<and> (\<forall>t\<in>set sample_tasks. \<exists>dur. getTaskDuration t = Inr dur)"
  by (rule forward_pass_returns_iff [OF lg.gonum_axioms std.work_calendar_axioms sample_tasks_distinct sample_build])

lemma lag_of_id: "0 \<le> k \<Longrightarrow> k \<le> 106751 \<Longrightarrow> lag_of k = k * day24"
  unfolding lag_of_def by (rule wrap64_id) (simp add: in_int64_def duration_units)

lemma material_start_ge: "base \<le> material_start mats u base"
    "mats u = Some m \<Longrightarrow> m \<le> material_start mats u base"
  by (auto simp: material_start_def split: option.splits)

lemma forward_schedule_entry:
  assumes "forward_schedule cal start mats ts ds S" "S u = Some q"
  obtains dur base where "early_base cal start ts ds S u dur base"
    "ts_EarlyStart q = material_start mats u base" "cal (ts_EarlyStart q) dur = Some (ts_EarlyFinish q)"
proof -
  have "u \<in> task_ids ts" using assms by (auto simp: forward_schedule_def)
  then obtain t where t: "t \<in> set ts" "pt_ID t = u" by blast
  then have "forward_at cal start mats ts ds S t" using assms(1) by (simp add: forward_schedule_def)
  then show thesis using that assms(2) t(2) by (auto simp: forward_at_def early_schedule_def)
qed

lemma forward_schedule_task:
  assumes "forward_schedule cal start mats ts ds S" "t \<in> set ts" "getTaskDuration t = Inr dur"
  obtains base ef where "early_base cal start ts ds S (pt_ID t) dur base"
    "cal (material_start mats (pt_ID t) base) dur = Some ef"
    "S (pt_ID t) = Some (early_schedule t (pt_ID t) (material_start mats (pt_ID t) base) ef)"
  using assms unfolding forward_schedule_def forward_at_def by auto

lemma early_base_source: "early_base cal start ts ds S u dur base \<Longrightarrow>
    \<not> (\<exists>p. (p, u) \<in> dep_rel ts ds) \<Longrightarrow> base = start"
  by (simp add: early_base_def)

lemma early_base_pred: "early_base cal start ts ds S u dur base \<Longrightarrow> (p, u) \<in> dep_rel ts ds \<Longrightarrow>
    greatest base (constraint_dates cal ts ds S u dur)"
  unfolding early_base_def by presburger

lemma early_base_ge:
  assumes "early_base cal start ts ds S s dur base" "(p, s) \<in> dep_rel ts ds"
    and "last_dep ds p s = Some d" "S p = Some q" "dep_date cal q dur d = Some c"
  shows "c \<le> base"
proof -
  have "greatest base (constraint_dates cal ts ds S s dur)"
    using assms(1,2) unfolding early_base_def by presburger
  moreover have "c \<in> constraint_dates cal ts ds S s dur" unfolding constraint_dates_def using assms(2-5) by blast
  ultimately show ?thesis by (simp add: greatest_def)
qed

lemma dep_date_total: "(\<And>t d. \<exists>r. cal t d = Some r) \<Longrightarrow> \<exists>c. dep_date cal q dur d = Some c"
  by (simp add: dep_date_def calculateConstraintDate_def Let_def)

lemma forward_precedence:
  assumes "work_calendar cal" "forward_schedule cal start mats ts ds S"
    and "(p, s) \<in> dep_rel ts ds" "last_dep ds p s = Some d" "0 \<le> td_LagDays d" "td_LagDays d \<le> 106751"
    and "S p = Some qp" "S s = Some qs"
  shows "(td_DependencyType d \<notin> {DependencyTypeSS, DependencyTypeFF, DependencyTypeSF} \<longrightarrow>
          ts_EarlyFinish qp \<le> ts_EarlyStart qs) \<and>
      (td_DependencyType d = DependencyTypeSS \<longrightarrow> ts_EarlyStart qp \<le> ts_EarlyStart qs) \<and>
      (\<forall>m. mats s = Some m \<longrightarrow> m \<le> ts_EarlyStart qs)"
proof -
  obtain dur base where b: "early_base cal start ts ds S s dur base"
    "ts_EarlyStart qs = material_start mats s base"
    using forward_schedule_entry [OF assms(2,8)] by metis
  obtain c where c: "dep_date cal qp dur d = Some c"
    using dep_date_total work_calendar.returns [OF assms(1)] by blast
  have "c \<le> ts_EarlyStart qs"
    using early_base_ge [OF b(1) assms(3,4,7) c] material_start_ge(1) [of base mats s] b(2) by simp
  moreover have "t \<le> c" if "cal t (td_LagDays d * day24) = Some c" for t
    using work_calendar.day_lag [OF assms(1,5) that] .
  ultimately show ?thesis
    using c b(2) material_start_ge(2) [of mats s _ base]
    unfolding dep_date_def calculateConstraintDate_def Let_def lag_of_id [OF assms(5,6)]
    by (fastforce simp: dependency_types split: if_splits)
qed

text \<open>
  Precedence: in the schedule that \<open>ForwardPass\<close> returns, with a non-negative lag no task
  starts before its finish-to-start predecessor (or one of unknown dependency type) ends, nor
  before its start-to-start predecessor starts; and no task starts before its material date.
\<close>

theorem forward_pass_precedence:
  assumes "gonum ops valid nodes edges" "work_calendar cal" "distinct (map pt_ID tasks)"
    and "BuildDependencyGraph ops tasks deps = Some g"
    and "ForwardPass ops g start cal mats = Inr sched"
    and "(p, s) \<in> dep_rel tasks deps" "last_dep deps p s = Some d"
    and "0 \<le> td_LagDays d" "td_LagDays d \<le> 106751"
    and "mget sched p = Some qp" "mget sched s = Some qs"
  shows "(td_DependencyType d \<notin> {DependencyTypeSS, DependencyTypeFF, DependencyTypeSF} \<longrightarrow>
          ts_EarlyFinish qp \<le> ts_EarlyStart qs) \<and>
      (td_DependencyType d = DependencyTypeSS \<longrightarrow> ts_EarlyStart qp \<le> ts_EarlyStart qs) \<and>
      (\<forall>m. mats s = Some m \<longrightarrow> m \<le> ts_EarlyStart qs)"
  using gonum.ForwardPass_correct [OF assms(1) gonum.build_ok [OF assms(1,3,4)] assms(3,5)]
  by (rule forward_precedence [OF assms(2) _ assms(6-11)])

lemma sample_forward_entries:
  "\<exists>q. mget sample_forward 1 = Some q" "\<exists>q. mget sample_forward 2 = Some q"
  using lg.ForwardPass_correct [OF lg.build_ok [OF sample_tasks_distinct sample_build]
      sample_tasks_distinct sample_forward_ok]
  by (auto simp: forward_schedule_def sample_tasks_def sample_defs)

theorem forward_pass_precedence_witness:
  "ts_EarlyFinish (the (mget sample_forward 1)) \<le> ts_EarlyStart (the (mget sample_forward 2))"
proof -
  let ?d = "sample_dep 1 2 DependencyTypeFS 1"
  obtain qp qs where q: "mget sample_forward 1 = Some qp" "mget sample_forward 2 = Some qs"
    using sample_forward_entries by blast
  have dep: "(1, 2) \<in> dep_rel sample_tasks sample_deps" "last_dep sample_deps 1 2 = Some ?d"
    "0 \<le> td_LagDays ?d" "td_LagDays ?d \<le> 106751" "td_DependencyType ?d = DependencyTypeFS"
    by (auto simp: dep_rel_def last_dep_def sample_tasks_def sample_deps_def sample_defs)
  from forward_pass_precedence [OF lg.gonum_axioms std.work_calendar_axioms sample_tasks_distinct
      sample_build sample_forward_ok dep(1-4) q] dep(5) q
  show ?thesis by (simp add: dependency_types)
qed

lemma getTaskDuration_exact:
  assumes "0 < n" "n \<le> 106751"
    and "(case pt_ManualOverrideDays t of
            Some m \<Rightarrow> m = of_int n
          | None \<Rightarrow> (if pt_WeatherAdjustedDuration t > 0 then pt_WeatherAdjustedDuration t = of_int n
              else if pt_CalculatedDuration t > 0 then pt_CalculatedDuration t = of_int n
              else pt_DurationDays t = n))"
  shows "getTaskDuration t = Inr (n * day24)"
proof -
  have d: "day24 = 1318359375 * 2 ^ 16" by (simp add: duration_units)
  have "fmul (of_int n) (f64_of_int day24) = fl (of_int ((n * 1318359375) * 2 ^ 16))"
    unfolding fmul_def using f64_of_int_exact [of day24] by (simp add: duration_units mult.commute)
  also have "\<dots> = of_int ((n * 1318359375) * 2 ^ 16)"
    using assms(1,2) by (intro fl_exact representable_int_shift) simp
  also have "(n * 1318359375) * 2 ^ 16 = n * day24" by (simp add: d)
  finally have "int64_of_f64 (fmul (of_int n) (f64_of_int day24)) = n * day24"
    using assms(1,2) int64_of_f64_of_int [of "n * day24"] by (simp add: in_int64_def duration_units)
  moreover have "f64_of_int n = of_int n" using assms(1,2) by (intro f64_of_int_exact) simp
  ultimately show ?thesis
    using assms by (auto simp: getTaskDuration_def split: option.splits if_splits)
qed

text \<open>
  A whole number of days (up to 106751, the range of a duration) becomes exactly that many
  times 24 hours, through the float64 multiplication and the conversion back, whichever of
  the four duration fields supplies it; the manual override wins over the weather-adjusted
  duration, that over the calculated one, and that over the integer field.
\<close>

theorem task_duration_exact:
  assumes "0 < n" "n \<le> 106751"
    and "(case pt_ManualOverrideDays t of
            Some m \<Rightarrow> m = of_int n
          | None \<Rightarrow> (if pt_WeatherAdjustedDuration t > 0 then pt_WeatherAdjustedDuration t = of_int n
              else if pt_CalculatedDuration t > 0 then pt_CalculatedDuration t = of_int n
              else pt_DurationDays t = n))"
  shows "getTaskDuration t = Inr (n * day24)"
  using assms by (rule getTaskDuration_exact)

theorem task_duration_exact_witness:
  "getTaskDuration (sample_task 1 ''5.0'' 3) = Inr (3 * day24)"
  by (rule task_duration_exact) (simp_all add: sample_defs)

end
