(* ===== verification/Cpm_Backward.thy ===== *)
theory Cpm_Backward
  imports Cpm_Forward
begin

text \<open>
  The backward pass. \<open>backward_schedule\<close> states the late dates, total float and criticality
  task by task; \<open>BackwardPass_correct\<close> shows the pass computes them. On top of both passes
  stands the main theorem of the scheduler: on a whole-day project that starts on a working
  day no task gets a negative float, whatever its dependency types and lags.
\<close>

definition back_date :: "calendar \<Rightarrow> TaskSchedule \<Rightarrow> duration \<Rightarrow> TaskDependency \<Rightarrow> gotime option" where
  "back_date cal q dur d = calculateBackwardConstraintDate cal q dur (td_DependencyType d) (td_LagDays d)"

definition back_dates :: "calendar \<Rightarrow> ProjectTask list \<Rightarrow> TaskDependency list \<Rightarrow>
    (uuid \<rightharpoonup> TaskSchedule) \<Rightarrow> uuid \<Rightarrow> duration \<Rightarrow> gotime set" where
  "back_dates cal ts ds S u dur =
     {c. \<exists>s q d. (u, s) \<in> dep_rel ts ds \<and> last_dep ds u s = Some d \<and> S s = Some q \<and>
           back_date cal q dur d = Some c}"

definition least :: "'a::linorder \<Rightarrow> 'a set \<Rightarrow> bool" where
  "least m A \<longleftrightarrow> m \<in> A \<and> (\<forall>a\<in>A. m \<le> a)"

definition late_base :: "calendar \<Rightarrow> gotime \<Rightarrow> ProjectTask list \<Rightarrow> TaskDependency list \<Rightarrow>
    (uuid \<rightharpoonup> TaskSchedule) \<Rightarrow> uuid \<Rightarrow> duration \<Rightarrow> gotime \<Rightarrow> bool" where
  "late_base cal projectEnd ts ds S u dur lf \<longleftrightarrow>
     (if \<exists>s. (u, s) \<in> dep_rel ts ds then least lf (back_dates cal ts ds S u dur) else lf = projectEnd)"

definition backward_at :: "calendar \<Rightarrow> SchedulingConfig \<Rightarrow> gotime \<Rightarrow> ProjectTask list \<Rightarrow>
    TaskDependency list \<Rightarrow> (uuid \<rightharpoonup> TaskSchedule) \<Rightarrow> (uuid \<rightharpoonup> TaskSchedule) \<Rightarrow> ProjectTask \<Rightarrow> bool" where
  "backward_at cal cfg projectEnd ts ds S0 S t \<longleftrightarrow>
     (\<exists>dur lf ls q. getTaskDuration t = Inr dur \<and> S0 (pt_ID t) = Some q \<and>
        late_base cal projectEnd ts ds S (pt_ID t) dur lf \<and> cal lf (wrap64 (- dur)) = Some ls \<and>
        S (pt_ID t) = Some (late_schedule cfg q ls lf))"

definition backward_schedule :: "calendar \<Rightarrow> SchedulingConfig \<Rightarrow> gotime \<Rightarrow> ProjectTask list \<Rightarrow>
    TaskDependency list \<Rightarrow> (uuid \<rightharpoonup> TaskSchedule) \<Rightarrow> (uuid \<rightharpoonup> TaskSchedule) \<Rightarrow> bool" where
  "backward_schedule cal cfg projectEnd ts ds S0 S \<longleftrightarrow>
     dom S = task_ids ts \<and> (\<forall>t\<in>set ts. backward_at cal cfg projectEnd ts ds S0 S t)"

lemma late_base_cong:
  assumes "\<And>s. (u, s) \<in> dep_rel ts ds \<Longrightarrow> S s = S' s"
  shows "late_base cal e ts ds S u dur lf = late_base cal e ts ds S' u dur lf"
proof -
  have "back_dates cal ts ds S u dur = back_dates cal ts ds S' u dur"
    unfolding back_dates_def by (rule Collect_cong) (use assms in metis)
  then show ?thesis by (simp add: late_base_def)
qed

lemma backward_at_cong:
  assumes "S (pt_ID t) = S' (pt_ID t)" "\<And>s. (pt_ID t, s) \<in> dep_rel ts ds \<Longrightarrow> S s = S' s"
  shows "backward_at cal cfg e ts ds S0 S t = backward_at cal cfg e ts ds S0 S' t"
proof -
  have "late_base cal e ts ds S (pt_ID t) dur lf = late_base cal e ts ds S' (pt_ID t) dur lf"
    for dur lf using assms(2) by (rule late_base_cong)
  then show ?thesis by (simp add: backward_at_def assms(1))
qed

lemma backward_schedule_task:
  assumes "backward_schedule cal cfg e ts ds S0 S" "t \<in> set ts" "getTaskDuration t = Inr dur"
    "S0 (pt_ID t) = Some q"
  obtains lf ls where "late_base cal e ts ds S (pt_ID t) dur lf" "cal lf (wrap64 (- dur)) = Some ls"
    "S (pt_ID t) = Some (late_schedule cfg q ls lf)"
  using assms unfolding backward_schedule_def backward_at_def by auto

lemma late_base_sink: "late_base cal e ts ds S u dur lf \<Longrightarrow> \<not> (\<exists>s. (u, s) \<in> dep_rel ts ds) \<Longrightarrow> lf = e"
  by (simp add: late_base_def)

lemma late_base_succ: "late_base cal e ts ds S u dur lf \<Longrightarrow> (u, s) \<in> dep_rel ts ds \<Longrightarrow>
    least lf (back_dates cal ts ds S u dur)"
  unfolding late_base_def by presburger

lemma latest_finish_greatest:
  "(sched = [] \<and> latest_finish sched m isFirst = m) \<or>
   greatest (latest_finish sched m isFirst) (ts_EarlyFinish ` snd ` set sched \<union> (if isFirst then {} else {m}))"
proof (induction sched m isFirst rule: latest_finish.induct)
  case (2 k q rest m isFirst)
  then show ?case by (cases "isFirst \<or> m < ts_EarlyFinish q") (auto simp: greatest_def split: if_splits)
qed simp

lemma latest_finish_of_map:
  assumes "distinct (mkeys sched)" "sched \<noteq> []"
  shows "greatest (latest_finish sched zero_time True) {ts_EarlyFinish q |u q. mget sched u = Some q}"
proof -
  have "{ts_EarlyFinish q |u q. mget sched u = Some q} = ts_EarlyFinish ` snd ` set sched"
    using assms(1) by (force simp: map_of_eq_Some_iff)
  then show ?thesis using latest_finish_greatest [of sched zero_time True] assms(2) by simp
qed

lemma min_constraint_least:
  assumes "min_constraint g cal sched u dur ss m isFirst = Some r"
    and "\<forall>s\<in>set ss. \<exists>q. mget sched s = Some q"
  shows "(ss = [] \<and> r = m) \<or>
    least r ({c. \<exists>s\<in>set ss. \<exists>q. mget sched s = Some q \<and> back_date cal q dur (dependency_or_FS g u s) = Some c} \<union>
      (if isFirst then {} else {m}))"
  using assms
proof (induction ss arbitrary: m isFirst)
  case (Cons s ss)
  obtain q where q: "mget sched s = Some q" using Cons.prems(2) by auto
  then obtain c where c: "back_date cal q dur (dependency_or_FS g u s) = Some c"
    and rest: "(if isFirst \<or> c < m then min_constraint g cal sched u dur ss c False
      else min_constraint g cal sched u dur ss m isFirst) = Some r"
    using Cons.prems(1) by (auto simp: Let_def back_date_def split: option.splits)
  have all: "\<forall>s\<in>set ss. \<exists>q. mget sched s = Some q" using Cons.prems(2) by simp
  let ?C = "\<lambda>ss. {c. \<exists>s\<in>set ss. \<exists>q. mget sched s = Some q \<and> back_date cal q dur (dependency_or_FS g u s) = Some c}"
  have C: "?C (s # ss) = insert c (?C ss)" using q c by auto
  show ?case
  proof (cases "isFirst \<or> c < m")
    case True
    then have "min_constraint g cal sched u dur ss c False = Some r" using rest by simp
    from Cons.IH [OF this all] show ?thesis using True unfolding C by (auto simp: least_def)
  next
    case False
    then have "min_constraint g cal sched u dur ss m isFirst = Some r" using rest by simp
    from Cons.IH [OF this all] show ?thesis using False unfolding C by (auto simp: least_def)
  qed
qed simp

definition backward_inv :: "calendar \<Rightarrow> SchedulingConfig \<Rightarrow> gotime \<Rightarrow> ProjectTask list \<Rightarrow>
    TaskDependency list \<Rightarrow> (uuid \<rightharpoonup> TaskSchedule) \<Rightarrow> uuid list \<Rightarrow> schedule \<Rightarrow> bool" where
  "backward_inv cal cfg e ts ds S0 us sched \<longleftrightarrow>
     dom (mget sched) = task_ids ts \<and>
     (\<forall>u s. (u, s) \<in> dep_rel ts ds \<longrightarrow> u \<in> set us \<longrightarrow> s \<in> set us) \<and>
     (\<forall>u. u \<notin> set us \<longrightarrow> mget sched u = S0 u) \<and>
     (\<forall>t\<in>set ts. pt_ID t \<in> set us \<longrightarrow> backward_at cal cfg e ts ds S0 (mget sched) t)"

context gonum
begin

lemma successor_dates:
  assumes "graph_ok valid nodes edges ts ds g" "u \<in> task_ids ts"
  shows "{c. \<exists>s\<in>set (GetSuccessors ops g u). \<exists>q. mget sched s = Some q \<and>
      back_date cal q dur (dependency_or_FS g u s) = Some c} = back_dates cal ts ds (mget sched) u dur"
proof -
  have "dependency_or_FS g u s = the (last_dep ds u s) \<and> last_dep ds u s \<noteq> None"
    if "(u, s) \<in> dep_rel ts ds" for s
    using that GetDependency_ok [OF assms(1), of u s] assms(2)
    by (auto simp: dep_rel_iff_last_dep dependency_or_FS_def)
  then show ?thesis
    unfolding GetSuccessors_ok [OF assms] back_dates_def by (intro Collect_cong) fastforce
qed

lemma backward_task_step:
  assumes g: "graph_ok valid nodes edges ts ds g" and dist: "distinct (map pt_ID ts)"
    and inv: "backward_inv cal cfg e ts ds S0 us s"
    and u: "u \<in> task_ids ts" "u \<notin> set us" "\<And>v. (u, v) \<in> dep_rel ts ds \<Longrightarrow> v \<in> set us"
    and r: "backward_task ops g cal cfg e s u = Inr s'"
  shows "backward_inv cal cfg e ts ds S0 (us @ [u]) s'"
proof -
  obtain t where t: "t \<in> set ts" "pt_ID t = u" using u(1) by blast
  have task: "Tasks g u = Some t" using graph_ok_task [OF g] task_by_id_distinct [OF dist t(1)] t(2) by simp
  have dom: "dom (mget s) = task_ids ts" using inv by (simp add: backward_inv_def)
  then obtain q where q: "mget s u = Some q" using u(1) by blast
  let ?ss = "GetSuccessors ops g u"
  obtain dur lf ls where e: "getTaskDuration t = Inr dur"
    "(if ?ss = [] then Inr e else or_stuck (min_constraint g cal s u dur ?ss zero_time True)) = Inr lf"
    "cal lf (wrap64 (- dur)) = Some ls" "s' = mput u (late_schedule cfg q ls lf) s"
    using r task q by (auto simp: backward_task_def Let_def ebind_Inr_iff or_stuck_def split: option.splits if_splits)
  have succs: "\<forall>v\<in>set ?ss. \<exists>q. mget s v = Some q"
    using dom GetSuccessors_ok [OF g u(1)] by (auto simp: dep_rel_def)
  have base: "late_base cal e ts ds (mget s) u dur lf"
  proof (cases "?ss = []")
    case True
    then have "\<not> (\<exists>v. (u, v) \<in> dep_rel ts ds)" using GetSuccessors_ok [OF g u(1)] by auto
    then show ?thesis using e(2) True by (simp add: late_base_def)
  next
    case False
    then have ex: "\<exists>v. (u, v) \<in> dep_rel ts ds"
      using GetSuccessors_ok [OF g u(1)] by (metis mem_Collect_eq set_empty ex_in_conv)
    have "min_constraint g cal s u dur ?ss zero_time True = Some lf"
      using e(2) False by (auto simp: or_stuck_def split: option.splits)
    from min_constraint_least [OF this succs] False ex show ?thesis
      unfolding successor_dates [OF g u(1)] late_base_def by simp
  qed
  have irr: "(u, u) \<notin> dep_rel ts ds" using u(2,3) by blast
  have same: "mget s' p = mget s p" if "p \<noteq> u" for p using that unfolding e(4) mget_mput by simp
  have "late_base cal e ts ds (mget s') u dur lf = late_base cal e ts ds (mget s) u dur lf"
    by (rule late_base_cong) (use irr same in metis)
  then have "late_base cal e ts ds (mget s') u dur lf" using base by simp
  moreover have "mget s' u = Some (late_schedule cfg q ls lf)" unfolding e(4) mget_mput by simp
  moreover have "S0 u = Some q" using inv u(2) q by (auto simp: backward_inv_def)
  ultimately have at: "backward_at cal cfg e ts ds S0 (mget s') t"
    unfolding backward_at_def t(2) using e(1,3) by blast
  have old: "backward_at cal cfg e ts ds S0 (mget s') t'" if t': "t' \<in> set ts" "pt_ID t' \<in> set us" for t'
  proof -
    have "v \<in> set us" if "(pt_ID t', v) \<in> dep_rel ts ds" for v
      using inv t'(2) that by (auto simp: backward_inv_def)
    then have "(pt_ID t', v) \<in> dep_rel ts ds \<Longrightarrow> mget s' v = mget s v" for v using same u(2) by metis
    moreover have "mget s' (pt_ID t') = mget s (pt_ID t')" using same t'(2) u(2) by metis
    ultimately show ?thesis
      using backward_at_cong [of "mget s'" t' "mget s"] inv t' by (simp add: backward_inv_def)
  qed
  have "t' = t" if "t' \<in> set ts" "pt_ID t' = u" for t'
    using that t task_by_id_distinct [OF dist] by (metis option.inject)
  then have "backward_at cal cfg e ts ds S0 (mget s') t'" if "t' \<in> set ts" "pt_ID t' \<in> set (us @ [u])" for t'
    using that at old by auto
  moreover have "dom (mget s') = task_ids ts" unfolding e(4) mget_mput dom_fun_upd dom using u(1) by (simp add: insert_absorb)
  moreover have "v \<in> set (us @ [u])" if "(w, v) \<in> dep_rel ts ds" "w \<in> set (us @ [u])" for v w
    using that inv u(3) by (auto simp: backward_inv_def)
  moreover have "mget s' v = S0 v" if "v \<notin> set (us @ [u])" for v
    using that same inv by (auto simp: backward_inv_def)
  ultimately show ?thesis unfolding backward_inv_def by blast
qed

lemma backward_loop_inv:
  assumes g: "graph_ok valid nodes edges ts ds g" and dist: "distinct (map pt_ID ts)"
    and o: "topo_order (dep_rel ts ds) os" "set os = task_ids ts"
  shows "backward_inv cal cfg e ts ds S0 us s \<Longrightarrow> rev os = us @ vs \<Longrightarrow>
    backward_loop ops g cal cfg e vs s = Inr s' \<Longrightarrow> backward_inv cal cfg e ts ds S0 (us @ vs) s'"
proof (induction vs arbitrary: us s)
  case (Cons v vs)
  obtain s1 where s1: "backward_task ops g cal cfg e s v = Inr s1"
    "backward_loop ops g cal cfg e vs s1 = Inr s'"
    using Cons.prems(3) by (auto simp: ebind_Inr_iff)
  have os: "os = rev vs @ v # rev us" using Cons.prems(2) by (metis rev_append rev_rev_ident rev.simps(2) append_assoc append_Cons append_Nil)
  have "v \<in> task_ids ts" "v \<notin> set us" using os o topo_order_distinct [OF o(1)] by auto
  moreover have "(v, w) \<in> dep_rel ts ds \<Longrightarrow> w \<in> set us" for w
    using topo_order_succ [of "dep_rel ts ds" "rev vs" v "rev us" w] o os by (auto simp: dep_rel_def)
  ultimately have "backward_inv cal cfg e ts ds S0 (us @ [v]) s1"
    using backward_task_step [OF g dist Cons.prems(1) _ _ _ s1(1)] by blast
  from Cons.IH [OF this _ s1(2)] Cons.prems(2) show ?case by simp
qed simp

lemma BackwardPass_correct:
  assumes g: "graph_ok valid nodes edges ts ds g" and dist: "distinct (map pt_ID ts)"
    and s0: "dom (mget s0) = task_ids ts" "ts \<noteq> []"
    and r: "BackwardPass ops g s0 cal config = Inr (cp, s1)"
  obtains us where "TopologicalSort ops g = Inr us" "cp = critical_path s1 us" "set us = task_ids ts"
    "backward_schedule cal (case config of None \<Rightarrow> DefaultSchedulingConfig | Some c \<Rightarrow> c)
       (latest_finish s0 zero_time True) ts ds (mget s0) (mget s1)"
proof -
  let ?cfg = "case config of None \<Rightarrow> DefaultSchedulingConfig | Some c \<Rightarrow> c"
  have ne: "s0 \<noteq> []" using s0 by auto
  then obtain us where us: "TopologicalSort ops g = Inr us" "cp = critical_path s1 us"
    "backward_loop ops g cal ?cfg (latest_finish s0 zero_time True) (rev us) s0 = Inr s1"
    using r by (auto simp: BackwardPass_def Let_def ebind_Inr_iff)
  have o: "set us = task_ids ts" "topo_order (dep_rel ts ds) us" using TopologicalSort_ok [OF g us(1)] by auto
  have i: "backward_inv cal ?cfg (latest_finish s0 zero_time True) ts ds (mget s0) [] s0"
    using s0 by (simp add: backward_inv_def)
  have "backward_inv cal ?cfg (latest_finish s0 zero_time True) ts ds (mget s0) (rev us) s1"
    using backward_loop_inv [OF g dist o(2,1) i _ us(3)] by simp
  then have "backward_schedule cal ?cfg (latest_finish s0 zero_time True) ts ds (mget s0) (mget s1)"
    using o(1) by (simp add: backward_inv_def backward_schedule_def)
  with us o(1) that show thesis by blast
qed

end

end
