(* ===== verification/Workdays.thy ===== *)
theory Workdays
  imports Calendar
begin

text \<open>
  Whole-day arithmetic on working days: seen from working days at one time of day, moving by
  whole days is an action of the integers that keeps the order. The locale
  \<open>day_calendar\<close> states this as an extension of the \<open>Calendar\<close> interface; it is what makes
  the backward pass undo the forward pass.
\<close>

locale day_calendar = work_calendar +
  fixes W :: "gotime set"
  assumes closed: "t \<in> W \<Longrightarrow> awd t (k * day24) = Some r \<Longrightarrow> r \<in> W"
    and compose: "t \<in> W \<Longrightarrow> awd t (a * day24) = Some r \<Longrightarrow> awd r (b * day24) = awd t ((a + b) * day24)"
    and mono: "t \<in> W \<Longrightarrow> t' \<in> W \<Longrightarrow> t \<le> t' \<Longrightarrow> awd t (k * day24) = Some r \<Longrightarrow>
      awd t' (k * day24) = Some r' \<Longrightarrow> r \<le> r'"
    and progress: "t \<in> W \<Longrightarrow> 0 < k \<Longrightarrow> awd t (k * day24) = Some r \<Longrightarrow> t + day24 \<le> r"
begin

lemma undo: "t \<in> W \<Longrightarrow> awd t (k * day24) = Some r \<Longrightarrow> awd r (- k * day24) = Some t"
  using compose [of t k r "- k"] zero by simp

text \<open>From \<open>a\<close> days after \<open>t\<close> at the latest at \<open>x\<close>, moving on by \<open>b\<close> days gets at least \<open>a + b\<close> days after \<open>t\<close>.\<close>

lemma move_on:
  assumes "t \<in> W" "x \<in> W" "awd t (a * day24) = Some f" "f \<le> x" "awd x (b * day24) = Some c"
    and "awd t ((a + b) * day24) = Some y"
  shows "y \<le> c"
proof -
  have "f \<in> W" using closed assms(1,3) by blast
  moreover have "awd f (b * day24) = Some y" using compose [OF assms(1,3)] assms(6) by simp
  ultimately show ?thesis using mono assms(2,4,5) by blast
qed

end

definition workday_index :: "StandardCalendar \<Rightarrow> int \<Rightarrow> int \<Rightarrow> int" where
  "workday_index c tod k =
     (if 0 \<le> k then int (working_days c day24 tod (nat k))
      else - int (working_days c day24 (tod + k * day24) (nat (- k))))"

definition workdays_at :: "StandardCalendar \<Rightarrow> int \<Rightarrow> gotime set" where
  "workdays_at c tod = {tod + k * day24 |k. \<not> isNonWorkingDay c (tod + k * day24)}"

lemma workday_index_diff:
  assumes "i \<le> j"
  shows "workday_index c tod j - workday_index c tod i =
    int (working_days c day24 (tod + i * day24) (nat (j - i)))"
proof -
  consider "0 \<le> i" | "i < 0" "0 \<le> j" | "j < 0" using assms by linarith
  then show ?thesis
  proof cases
    case 1
    have "nat i + nat (j - i) = nat j" using 1 assms by simp
    then have "working_days c day24 tod (nat j) =
        working_days c day24 tod (nat i) + working_days c day24 (tod + int (nat i) * day24) (nat (j - i))"
      by (metis working_days_add)
    then show ?thesis using 1 assms by (simp add: workday_index_def)
  next
    case 2
    have "nat (- i) + nat j = nat (j - i)" using 2 by simp
    then have "working_days c day24 (tod + i * day24) (nat (j - i)) =
        working_days c day24 (tod + i * day24) (nat (- i)) +
        working_days c day24 (tod + i * day24 + int (nat (- i)) * day24) (nat j)"
      by (metis working_days_add)
    then show ?thesis using 2 by (simp add: workday_index_def)
  next
    case 3
    have eq: "tod + i * day24 + int (nat (j - i)) * day24 = tod + j * day24"
      using assms by (simp add: algebra_simps)
    have "nat (j - i) + nat (- j) = nat (- i)" using 3 assms by simp
    then have "working_days c day24 (tod + i * day24) (nat (- i)) =
        working_days c day24 (tod + i * day24) (nat (j - i)) +
        working_days c day24 (tod + j * day24) (nat (- j))"
      unfolding eq [symmetric] by (metis working_days_add)
    then show ?thesis using 3 assms by (simp add: workday_index_def)
  qed
qed

lemma workday_index_strict:
  assumes "i < j" "\<not> isNonWorkingDay c (tod + j * day24)"
  shows "workday_index c tod i < workday_index c tod j"
proof -
  have eq: "tod + i * day24 + int (nat (j - i)) * day24 = tod + j * day24"
    using assms(1) by (simp add: algebra_simps)
  have "working_days c day24 (tod + i * day24) 0 < working_days c day24 (tod + i * day24) (nat (j - i))"
  proof (rule working_days_strict)
    show "0 < nat (j - i)" using assms(1) by simp
    show "\<not> isNonWorkingDay c (tod + i * day24 + int (nat (j - i)) * day24)"
      unfolding eq by (rule assms(2))
  qed
  then show ?thesis using workday_index_diff [of i j c tod] assms(1) by simp
qed

lemma workday_index_inj:
  assumes "workday_index c tod i \<le> workday_index c tod j" "\<not> isNonWorkingDay c (tod + i * day24)"
  shows "i \<le> j"
  using workday_index_strict [of j i c tod] assms by (meson leD linorder_le_less_linear)

lemma move_workdays:
  assumes ok: "calendar_ok c" and tod: "tod mod minute = 0"
    and t: "\<not> isNonWorkingDay c (tod + i * day24) \<or> 0 < k"
  obtains j where "AddWorkDuration c (tod + i * day24) (k * day24) = Some (tod + j * day24)"
    "\<not> isNonWorkingDay c (tod + j * day24)" "workday_index c tod j = workday_index c tod i + k"
proof (cases "k = 0")
  case True
  then show thesis using that [of i] t by (simp add: AddWorkDuration_def split: if_splits)
next
  case False
  define s :: int where "s = sgn k"
  define n where "n = nat \<bar>k\<bar>"
  have s: "s = 1 \<or> s = - 1" and n: "0 < n" and k: "k * day24 = s * (int n * day24)"
    using False by (auto simp: s_def n_def sgn_if)
  have st: "s * day24 = day24 \<or> s * day24 = - day24" using s by auto
  let ?t = "tod + i * day24"
  have tm: "?t mod minute = 0"
  proof -
    have "i * day24 mod minute = 0" by (simp add: duration_units)
    then show ?thesis using tod by (metis add_0 mod_add_eq mod_0)
  qed
  obtain r where r: "advance_days c (s * day24) n ?t = Some r" using advance_days_total [OF ok st] by blast
  obtain m where m: "r = ?t + int m * (s * day24)" "working_days c (s * day24) ?t m = n" "\<not> isNonWorkingDay c r"
    using advance_days_count [OF r] n by metis
  define j where "j = i + s * int m"
  have rj: "r = tod + j * day24" unfolding m(1) j_def by (simp add: algebra_simps)
  have tr: "truncate_time r minute = r"
    using truncate_aligned [OF tm, of "s * int m"] unfolding m(1) by (simp add: algebra_simps)
  have a: "AddWorkDuration c ?t (k * day24) = Some (tod + j * day24)"
    unfolding k AddWorkDuration_whole [OF n s] using r tr rj by simp
  have w: "\<not> isNonWorkingDay c (tod + j * day24)" using m(3) rj by simp
  have "workday_index c tod j = workday_index c tod i + k"
    using s
  proof
    assume s1: "s = 1"
    then have "i \<le> j" "nat (j - i) = m" "k = int n" using False by (auto simp: j_def n_def s_def sgn_if split: if_splits)
    then show ?thesis using workday_index_diff [of i j c tod] m(2) s1 by simp
  next
    assume s1: "s = - 1"
    then have ij: "j \<le> i" "nat (i - j) = m" "k = - int n" using False by (auto simp: j_def n_def s_def sgn_if split: if_splits)
    have "working_days c (- (- day24)) r m = working_days c (- day24) ?t m"
      using working_days_reverse [of c "- day24" ?t m] m t s1 ij(3) by simp
    then show ?thesis using workday_index_diff [OF ij(1), of c tod] ij m(2) s1 rj by simp
  qed
  from that [OF a w this] show thesis .
qed

lemma day_calendar_standard:
  assumes ok: "calendar_ok c" and tod: "tod mod minute = 0"
  shows "day_calendar (AddWorkDuration c) (workdays_at c tod)"
proof (intro day_calendar.intro day_calendar_axioms.intro work_calendar_standard [OF ok])
  fix t k r assume t: "t \<in> workdays_at c tod" "AddWorkDuration c t (k * day24) = Some r"
  then obtain i where "t = tod + i * day24" "\<not> isNonWorkingDay c (tod + i * day24)" by (auto simp: workdays_at_def)
  with move_workdays [OF ok tod disjI1, OF this(2), of k] t(2) show "r \<in> workdays_at c tod"
    by (auto simp: workdays_at_def)
next
  fix t a r b assume t: "t \<in> workdays_at c tod" "AddWorkDuration c t (a * day24) = Some r"
  then obtain i where i: "t = tod + i * day24" "\<not> isNonWorkingDay c (tod + i * day24)" by (auto simp: workdays_at_def)
  obtain j where j: "r = tod + j * day24" "\<not> isNonWorkingDay c (tod + j * day24)"
    "workday_index c tod j = workday_index c tod i + a"
    using move_workdays [OF ok tod disjI1, OF i(2), of a] t(2) i(1) by (metis option.inject)
  obtain l where l: "AddWorkDuration c r (b * day24) = Some (tod + l * day24)" "\<not> isNonWorkingDay c (tod + l * day24)"
    "workday_index c tod l = workday_index c tod j + b"
    using move_workdays [OF ok tod disjI1, OF j(2), of b] j(1) by metis
  obtain m where m: "AddWorkDuration c t ((a + b) * day24) = Some (tod + m * day24)" "\<not> isNonWorkingDay c (tod + m * day24)"
    "workday_index c tod m = workday_index c tod i + (a + b)"
    using move_workdays [OF ok tod disjI1, OF i(2), of "a + b"] i(1) by metis
  have "l = m" using workday_index_inj [of c tod l m] workday_index_inj [of c tod m l] j l m by simp
  then show "AddWorkDuration c r (b * day24) = AddWorkDuration c t ((a + b) * day24)" using l m by simp
next
  fix t t' k r r' assume t: "t \<in> workdays_at c tod" "t' \<in> workdays_at c tod" "t \<le> t'"
    "AddWorkDuration c t (k * day24) = Some r" "AddWorkDuration c t' (k * day24) = Some r'"
  then obtain i i' where i: "t = tod + i * day24" "\<not> isNonWorkingDay c (tod + i * day24)"
    "t' = tod + i' * day24" "\<not> isNonWorkingDay c (tod + i' * day24)" by (auto simp: workdays_at_def)
  have d: "0 < day24" by (simp add: duration_units)
  then have "i \<le> i'" using t(3) i(1,3) by simp
  then have ii: "workday_index c tod i \<le> workday_index c tod i'"
    using workday_index_strict [of i i' c tod] i(4) by (cases "i = i'") auto
  obtain j where j: "r = tod + j * day24" "\<not> isNonWorkingDay c (tod + j * day24)"
    "workday_index c tod j = workday_index c tod i + k"
    using move_workdays [OF ok tod disjI1, OF i(2), of k] t(4) i(1) by (metis option.inject)
  obtain j' where j': "r' = tod + j' * day24" "\<not> isNonWorkingDay c (tod + j' * day24)"
    "workday_index c tod j' = workday_index c tod i' + k"
    using move_workdays [OF ok tod disjI1, OF i(4), of k] t(5) i(3) by (metis option.inject)
  have "j \<le> j'" using workday_index_inj [of c tod j j'] ii j j' by simp
  then show "r \<le> r'" using d j(1) j'(1) by simp
next
  fix t k r assume t: "t \<in> workdays_at c tod" "0 < (k :: int)" "AddWorkDuration c t (k * day24) = Some r"
  then obtain i where i: "t = tod + i * day24" "\<not> isNonWorkingDay c (tod + i * day24)" by (auto simp: workdays_at_def)
  obtain j where j: "r = tod + j * day24" "workday_index c tod j = workday_index c tod i + k"
    using move_workdays [OF ok tod disjI1, OF i(2), of k] t(3) i(1) by (metis option.inject)
  have "i < j" using workday_index_diff [of j i c tod] j(2) t(2) by (cases "j \<le> i") auto
  then have "i * day24 + day24 \<le> j * day24" by (simp add: duration_units)
  then show "t + day24 \<le> r" using i(1) j(1) by simp
qed

text \<open>
  From a non-working day, subtracting what was added lands before the start: the working day
  that is counted first on the way out is counted as well on the way back.
\<close>

lemma nonworking_not_undone:
  assumes ok: "calendar_ok c" and t: "isNonWorkingDay c t" "t mod minute = 0" and k: "0 < k"
    and r: "AddWorkDuration c t (k * day24) = Some r" "AddWorkDuration c r (- k * day24) = Some l"
  shows "l + day24 \<le> t"
proof -
  define tod where "tod = t mod day24"
  define i where "i = t div day24"
  have ti: "t = tod + i * day24" by (simp add: tod_def i_def)
  have tod: "tod mod minute = 0"
    using t(2) by (simp add: tod_def mod_mod_cancel duration_units)
  obtain j where j: "r = tod + j * day24" "\<not> isNonWorkingDay c (tod + j * day24)"
    "workday_index c tod j = workday_index c tod i + k"
    using move_workdays [OF ok tod disjI2, OF k, of i] r(1) ti by (metis option.inject)
  obtain m where m: "l = tod + m * day24" "\<not> isNonWorkingDay c (tod + m * day24)"
    "workday_index c tod m = workday_index c tod j + - k"
    using move_workdays [OF ok tod disjI1, OF j(2), of "- k"] r(2) j(1) by (metis option.inject)
  have "m \<noteq> i" using m(2) t(1) ti by auto
  moreover have "\<not> i < m" using workday_index_strict [of i m c tod] m(2,3) j(3) by auto
  ultimately have "m < i" by simp
  then have "m * day24 + day24 \<le> i * day24" by (simp add: duration_units)
  then show ?thesis using ti m(1) by simp
qed

interpretation std_days: day_calendar "AddWorkDuration default_calendar" "workdays_at default_calendar 0"
  by (rule day_calendar_standard) simp_all

end
