(* ===== verification/Cpm_Float.thy ===== *)
theory Cpm_Float
  imports Cpm_Backward Workdays
begin

text \<open>
  Total float. In a whole-day project (start and material dates are working days at one time
  of day, durations and lags whole days) the late dates never precede the early dates; the
  properties of the backward pass, and two concrete projects where it leaves the critical
  path empty, close the theory.
\<close>

definition whole_day_project :: "gotime set \<Rightarrow> gotime \<Rightarrow> (uuid \<rightharpoonup> gotime) \<Rightarrow> ProjectTask list \<Rightarrow>
    TaskDependency list \<Rightarrow> bool" where
  "whole_day_project W start mats ts ds \<longleftrightarrow>
     start \<in> W \<and> (\<forall>u m. mats u = Some m \<longrightarrow> m \<in> W) \<and>
     (\<forall>t\<in>set ts. \<exists>n. 0 \<le> n \<and> n \<le> 36500 \<and> getTaskDuration t = Inr (n * day24)) \<and>
     (\<forall>d\<in>set ds. \<bar>td_LagDays d\<bar> \<le> 36500)"

lemma wrap64_days: "\<bar>k\<bar> \<le> 106751 \<Longrightarrow> wrap64 (k * day24) = k * day24"
  by (rule wrap64_id) (auto simp: in_int64_def duration_units abs_le_iff)

lemma dep_date_days:
  assumes "\<bar>td_LagDays d\<bar> \<le> 36500" "0 \<le> n" "n \<le> 36500"
  shows "dep_date cal q (n * day24) d =
    (let k = td_LagDays d in
     if td_DependencyType d = DependencyTypeSS then cal (ts_EarlyStart q) (k * day24)
     else if td_DependencyType d = DependencyTypeFF then cal (ts_EarlyFinish q) ((k - n) * day24)
     else if td_DependencyType d = DependencyTypeSF then cal (ts_EarlyStart q) ((k - n) * day24)
     else cal (ts_EarlyFinish q) (k * day24))"
proof -
  let ?k = "td_LagDays d"
  have lag: "lag_of ?k = ?k * day24" unfolding lag_of_def using assms(1) by (intro wrap64_days) simp
  have "?k * day24 - n * day24 = (?k - n) * day24" by (simp add: algebra_simps)
  moreover have "wrap64 ((?k - n) * day24) = (?k - n) * day24" using assms by (intro wrap64_days) simp
  ultimately have "wrap64 (?k * day24 - n * day24) = (?k - n) * day24" by simp
  then show ?thesis
    by (simp add: dep_date_def calculateConstraintDate_def Let_def lag dependency_types)
qed

lemma back_date_days:
  assumes "\<bar>td_LagDays d\<bar> \<le> 36500" "0 \<le> n" "n \<le> 36500"
  shows "back_date cal q (n * day24) d =
    (let k = td_LagDays d in
     if td_DependencyType d = DependencyTypeSS then cal (ts_LateStart q) ((n - k) * day24)
     else if td_DependencyType d = DependencyTypeFF then cal (ts_LateFinish q) (- k * day24)
     else if td_DependencyType d = DependencyTypeSF then cal (ts_LateFinish q) ((n - k) * day24)
     else cal (ts_LateStart q) (- k * day24))"
proof -
  let ?k = "td_LagDays d"
  have lag: "lag_of ?k = ?k * day24" unfolding lag_of_def using assms(1) by (intro wrap64_days) simp
  have m: "wrap64 (- (?k * day24)) = - ?k * day24" using wrap64_days [of "- ?k"] assms(1) by simp
  have "- ?k * day24 + n * day24 = (n - ?k) * day24" by (simp add: algebra_simps)
  moreover have "wrap64 ((n - ?k) * day24) = (n - ?k) * day24" using assms by (intro wrap64_days) simp
  ultimately have "wrap64 (- ?k * day24 + n * day24) = (n - ?k) * day24" by simp
  then show ?thesis
    by (simp add: back_date_def calculateBackwardConstraintDate_def Let_def lag m dependency_types)
qed

lemma last_dep_mem: "last_dep ds p s = Some d \<Longrightarrow> d \<in> set ds"
  unfolding last_dep_def by (auto dest: find_Some_iff_first)

lemma late_schedule_sel [simp]:
  "ts_LateStart (late_schedule cfg q ls lf) = ls" "ts_LateFinish (late_schedule cfg q ls lf) = lf"
  "ts_EarlyStart (late_schedule cfg q ls lf) = ts_EarlyStart q"
  "ts_EarlyFinish (late_schedule cfg q ls lf) = ts_EarlyFinish q"
  "ts_WBSCode (late_schedule cfg q ls lf) = ts_WBSCode q"
  "ts_TotalFloat (late_schedule cfg q ls lf) = total_float ls (ts_EarlyStart q)"
  "ts_IsCritical (late_schedule cfg q ls lf) \<longleftrightarrow>
     \<bar>total_float ls (ts_EarlyStart q)\<bar> < CriticalPathThreshold cfg"
  by (simp_all add: late_schedule_def Let_def)

lemma total_float_nonneg: "b \<le> a \<Longrightarrow> 0 \<le> total_float a b"
proof -
  assume "b \<le> a"
  then have d: "0 \<le> time_sub a b" by (simp add: time_sub_def)
  have h: "0 < hour" by (simp add: duration_units)
  have "0 \<le> f64_of_int (quot (time_sub a b) hour)" "0 \<le> f64_of_int (qrem (time_sub a b) hour)" "0 \<le> f64_of_int hour"
    unfolding quot_nonneg [OF d h] qrem_nonneg [OF d h] f64_of_int_def
    using d h by (auto intro!: fl_nonneg simp: pos_imp_zdiv_nonneg_iff)
  then show ?thesis
    unfolding total_float_def duration_Hours_def fdiv_def fadd_def by (intro fl_nonneg) (simp add: fl_nonneg)
qed

lemma duration_Hours_ge_day: "day24 \<le> d \<Longrightarrow> 24 \<le> duration_Hours d"
proof -
  assume d24: "day24 \<le> d"
  then have d: "0 \<le> d" and h: "0 < hour" and q: "24 \<le> d div hour"
    by (auto simp: duration_units)
  have r: "representable 24" using representable_int [of 24] by simp
  have "24 \<le> f64_of_int (d div hour)"
  proof -
    have "(of_int 24 :: rat) \<le> of_int (d div hour)" using q by (simp only: of_int_le_iff)
    then show ?thesis unfolding f64_of_int_def by (intro fl_ge r) simp_all
  qed
  moreover have "0 \<le> fdiv (f64_of_int (d mod hour)) (f64_of_int hour)"
    unfolding fdiv_def f64_of_int_def using h by (intro fl_nonneg divide_nonneg_nonneg) simp_all
  ultimately show ?thesis
    unfolding duration_Hours_def quot_nonneg [OF d h] qrem_nonneg [OF d h] fadd_def by (intro fl_ge r) simp_all
qed

lemma total_float_ge_1: "b + day24 \<le> a \<Longrightarrow> 1 \<le> total_float a b"
proof -
  assume "b + day24 \<le> a"
  then have "day24 \<le> time_sub a b" by (simp add: time_sub_def duration_units)
  then have "1 \<le> duration_Hours (time_sub a b) / 24" using duration_Hours_ge_day by fastforce
  then show ?thesis unfolding total_float_def fdiv_def using representable_int [of 1] by (intro fl_ge) simp_all
qed

lemma duration_Hours_minus: "duration_Hours (- d) = - duration_Hours d"
  unfolding duration_Hours_def quot_minus qrem_minus f64_of_int_minus fdiv_def fadd_def
  by (simp add: fl_minus [symmetric])

lemma total_float_le_minus_1: "a + day24 \<le> b \<Longrightarrow> total_float a b \<le> - 1"
proof -
  assume "a + day24 \<le> b"
  then have "day24 \<le> - time_sub a b" by (simp add: time_sub_def duration_units)
  then have "1 \<le> - duration_Hours (time_sub a b) / 24"
    using duration_Hours_ge_day [of "- time_sub a b"] by (simp add: duration_Hours_minus)
  then have "1 \<le> fl (- duration_Hours (time_sub a b) / 24)" using representable_int [of 1] by (intro fl_ge) simp_all
  then show ?thesis unfolding total_float_def fdiv_def by (simp add: fl_minus)
qed

lemma total_float_self [simp]: "total_float a a = 0"
  by (simp add: total_float_def duration_Hours_def time_sub_def quot_def qrem_def fdiv_def fadd_def f64_of_int_def)

context day_calendar
begin

lemma forward_dates_on_days:
  assumes fwd: "forward_schedule awd start mats ts ds S" and ac: "acyclic (dep_rel ts ds)"
    and whole: "whole_day_project W start mats ts ds" and u: "S u = Some q"
  shows "ts_EarlyStart q \<in> W \<and> ts_EarlyFinish q \<in> W"
proof -
  have wf: "wf (dep_rel ts ds)" using finite_dep_rel ac by (rule finite_acyclic_wf)
  have "\<forall>q. S u = Some q \<longrightarrow> ts_EarlyStart q \<in> W \<and> ts_EarlyFinish q \<in> W" for u
    using wf
  proof (induction u rule: wf_induct_rule)
    case (less u)
    show ?case
    proof (intro allI impI)
      fix q assume q: "S u = Some q"
      then have "u \<in> task_ids ts" using fwd by (auto simp: forward_schedule_def)
      then obtain t where t: "t \<in> set ts" "pt_ID t = u" by blast
      obtain n where n: "0 \<le> n" "n \<le> 36500" "getTaskDuration t = Inr (n * day24)"
        using whole t(1) by (auto simp: whole_day_project_def)
      obtain base ef where b: "early_base awd start ts ds S u (n * day24) base"
        "awd (material_start mats u base) (n * day24) = Some ef"
        "q = early_schedule t u (material_start mats u base) ef"
        using fwd t n(3) q unfolding forward_schedule_def forward_at_def by fastforce
      have "base \<in> W"
      proof (cases "\<exists>p. (p, u) \<in> dep_rel ts ds")
        case True
        then have "base \<in> constraint_dates awd ts ds S u (n * day24)"
          using b(1) by (simp add: early_base_def greatest_def)
        then obtain p qp d where p: "(p, u) \<in> dep_rel ts ds" "last_dep ds p u = Some d" "S p = Some qp"
          "dep_date awd qp (n * day24) d = Some base" by (auto simp: constraint_dates_def)
        have lag: "\<bar>td_LagDays d\<bar> \<le> 36500"
          using whole last_dep_mem [OF p(2)] by (auto simp: whole_day_project_def)
        have "ts_EarlyStart qp \<in> W" "ts_EarlyFinish qp \<in> W" using less p(1,3) by auto
        then show ?thesis using p(4) closed unfolding dep_date_days [OF lag n(1,2)] Let_def
          by (metis (full_types))
      next
        case False
        then show ?thesis using b(1) whole by (simp add: early_base_def whole_day_project_def)
      qed
      then have "material_start mats u base \<in> W"
        using whole by (auto simp: material_start_def whole_day_project_def split: option.splits)
      then show "ts_EarlyStart q \<in> W \<and> ts_EarlyFinish q \<in> W" using b(2,3) closed by auto
    qed
  qed
  then show ?thesis using u by blast
qed

text \<open>One step of the backward induction: the date a successor imposes is not before the early finish.\<close>

lemma back_date_not_before:
  assumes W: "ts_EarlyStart qt \<in> W" "ts_EarlyFinish qt \<in> W" "ts_EarlyStart qs \<in> W"
      "ts_LateStart ls \<in> W" "ts_LateFinish ls \<in> W"
    and lag: "\<bar>td_LagDays d\<bar> \<le> 36500" and n: "0 \<le> n" "n \<le> 36500" and m: "0 \<le> m" "m \<le> 36500"
    and ft: "awd (ts_EarlyStart qt) (n * day24) = Some (ts_EarlyFinish qt)"
    and fs: "awd (ts_EarlyStart qs) (m * day24) = Some (ts_EarlyFinish qs)"
    and f: "dep_date awd qt (m * day24) d = Some f" "f \<le> ts_EarlyStart qs"
    and le: "ts_EarlyStart qs \<le> ts_LateStart ls" "ts_EarlyFinish qs \<le> ts_LateFinish ls"
    and c: "back_date awd ls (n * day24) d = Some c"
  shows "ts_EarlyFinish qt \<le> c"
proof -
  let ?k = "td_LagDays d"
  have fls: "f \<le> ts_LateStart ls" using f(2) le(1) by simp
  have flf: "y \<le> ts_LateFinish ls" if "awd t (a * day24) = Some f" "t \<in> W" "awd t ((a + m) * day24) = Some y" for t a y
    using move_on [OF that(2) W(3) that(1) f(2) fs that(3)] le(2) by simp
  consider "td_DependencyType d = DependencyTypeSS" | "td_DependencyType d = DependencyTypeFF"
    | "td_DependencyType d = DependencyTypeSF"
    | "td_DependencyType d \<notin> {DependencyTypeSS, DependencyTypeFF, DependencyTypeSF}" by blast
  then show ?thesis
  proof cases
    case 1
    then have *: "awd (ts_EarlyStart qt) (?k * day24) = Some f" "awd (ts_LateStart ls) ((n - ?k) * day24) = Some c"
      using f(1) c unfolding dep_date_days [OF lag m] back_date_days [OF lag n] by (simp_all add: Let_def)
    show ?thesis by (rule move_on [OF W(1,4) *(1) fls *(2)]) (use ft in simp)
  next
    case 2
    then have *: "awd (ts_EarlyFinish qt) ((?k - m) * day24) = Some f" "awd (ts_LateFinish ls) (- ?k * day24) = Some c"
      using f(1) c unfolding dep_date_days [OF lag m] back_date_days [OF lag n] by (simp_all add: Let_def dependency_types)
    obtain y where y: "awd (ts_EarlyFinish qt) (?k * day24) = Some y" using returns by blast
    then have "y \<le> ts_LateFinish ls" using flf [OF *(1) W(2), of y] by simp
    then show ?thesis by (rule move_on [OF W(2,5) y _ *(2)]) (use zero in simp)
  next
    case 3
    then have *: "awd (ts_EarlyStart qt) ((?k - m) * day24) = Some f" "awd (ts_LateFinish ls) ((n - ?k) * day24) = Some c"
      using f(1) c unfolding dep_date_days [OF lag m] back_date_days [OF lag n] by (simp_all add: Let_def dependency_types)
    obtain y where y: "awd (ts_EarlyStart qt) (?k * day24) = Some y" using returns by blast
    then have "y \<le> ts_LateFinish ls" using flf [OF *(1) W(1), of y] by simp
    then show ?thesis by (rule move_on [OF W(1,5) y _ *(2)]) (use ft in simp)
  next
    case 4
    then have *: "awd (ts_EarlyFinish qt) (?k * day24) = Some f" "awd (ts_LateStart ls) (- ?k * day24) = Some c"
      using f(1) c unfolding dep_date_days [OF lag m] back_date_days [OF lag n] by (simp_all add: Let_def)
    show ?thesis by (rule move_on [OF W(2,4) *(1) fls *(2)]) (use zero in simp)
  qed
qed

lemma late_not_before_early:
  assumes fwd: "forward_schedule awd start mats ts ds S0" and bwd: "backward_schedule awd cfg e ts ds S0 S"
    and e: "greatest e {ts_EarlyFinish q |u q. S0 u = Some q}" and ac: "acyclic (dep_rel ts ds)"
    and whole: "whole_day_project W start mats ts ds" and dist: "distinct (map pt_ID ts)" and u: "S u = Some q"
  shows "ts_EarlyStart q \<le> ts_LateStart q \<and> ts_EarlyFinish q \<le> ts_LateFinish q"
proof -
  have wf: "wf ((dep_rel ts ds)\<inverse>)" using finite_dep_rel ac by (rule finite_acyclic_wf_converse)
  have eW: "e \<in> W" using e forward_dates_on_days [OF fwd ac whole] by (auto simp: greatest_def)
  have "\<forall>q. S u = Some q \<longrightarrow> ts_LateStart q \<in> W \<and> ts_LateFinish q \<in> W \<and>
      ts_EarlyStart q \<le> ts_LateStart q \<and> ts_EarlyFinish q \<le> ts_LateFinish q" for u
    using wf
  proof (induction u rule: wf_induct_rule)
    case (less u)
    show ?case
    proof (intro allI impI)
      fix q assume q: "S u = Some q"
      then have "u \<in> task_ids ts" using bwd by (auto simp: backward_schedule_def)
      then obtain t where t: "t \<in> set ts" "pt_ID t = u" by blast
      obtain n where n: "0 \<le> n" "n \<le> 36500" "getTaskDuration t = Inr (n * day24)"
        using whole t(1) by (auto simp: whole_day_project_def)
      obtain lf ls q0 where b: "S0 u = Some q0" "late_base awd e ts ds S u (n * day24) lf"
        "awd lf (wrap64 (- (n * day24))) = Some ls" "q = late_schedule cfg q0 ls lf"
        using bwd t n(3) q unfolding backward_schedule_def backward_at_def by fastforce
      have q0: "awd (ts_EarlyStart q0) (n * day24) = Some (ts_EarlyFinish q0)"
        using fwd t n(3) b(1) unfolding forward_schedule_def forward_at_def by fastforce
      have W0: "ts_EarlyStart q0 \<in> W" "ts_EarlyFinish q0 \<in> W"
        using forward_dates_on_days [OF fwd ac whole b(1)] by auto
      have lf: "lf \<in> W \<and> ts_EarlyFinish q0 \<le> lf"
      proof (cases "\<exists>s. (u, s) \<in> dep_rel ts ds")
        case True
        then have "lf \<in> back_dates awd ts ds S u (n * day24)"
          using b(2) by (simp add: late_base_def least_def)
        then obtain s qs d where s: "(u, s) \<in> dep_rel ts ds" "last_dep ds u s = Some d" "S s = Some qs"
          "back_date awd qs (n * day24) d = Some lf" by (auto simp: back_dates_def)
        have lag: "\<bar>td_LagDays d\<bar> \<le> 36500"
          using whole last_dep_mem [OF s(2)] by (auto simp: whole_day_project_def)
        have IH: "ts_LateStart qs \<in> W" "ts_LateFinish qs \<in> W" "ts_EarlyStart qs \<le> ts_LateStart qs"
          "ts_EarlyFinish qs \<le> ts_LateFinish qs" using less s(1,3) by auto
        have "s \<in> task_ids ts" using s(1) by (auto simp: dep_rel_def)
        then obtain t' where t': "t' \<in> set ts" "pt_ID t' = s" by blast
        obtain m where m: "0 \<le> m" "m \<le> 36500" "getTaskDuration t' = Inr (m * day24)"
          using whole t'(1) by (auto simp: whole_day_project_def)
        obtain q0s where q0s: "S0 s = Some q0s" "ts_EarlyStart qs = ts_EarlyStart q0s" "ts_EarlyFinish qs = ts_EarlyFinish q0s"
          using bwd t' s(3) unfolding backward_schedule_def backward_at_def by fastforce
        obtain base where base: "early_base awd start ts ds S0 s (m * day24) base"
          "ts_EarlyStart q0s = material_start mats s base"
          "awd (ts_EarlyStart q0s) (m * day24) = Some (ts_EarlyFinish q0s)"
          using fwd t' m(3) q0s(1) unfolding forward_schedule_def forward_at_def by fastforce
        obtain f where f: "dep_date awd q0 (m * day24) d = Some f" using dep_date_total returns by blast
        have fle: "f \<le> ts_EarlyStart q0s"
          using early_base_ge [OF base(1) s(1,2) b(1) f] material_start_ge(1) [of base mats s] base(2) by simp
        have W0s: "ts_EarlyStart q0s \<in> W" using forward_dates_on_days [OF fwd ac whole q0s(1)] by simp
        have "ts_EarlyFinish q0 \<le> lf"
          using back_date_not_before [OF W0 W0s IH(1,2) lag n(1,2) m(1,2) q0 base(3) f fle _ _ s(4)] IH(3,4) q0s(2,3)
          by simp
        moreover have "lf \<in> W"
          using s(4) IH(1,2) closed unfolding back_date_days [OF lag n(1,2)] Let_def by (metis (full_types))
        ultimately show ?thesis by simp
      next
        case False
        then have "lf = e" using b(2) by (simp add: late_base_def)
        then show ?thesis using eW e b(1) by (auto simp: greatest_def)
      qed
      have "wrap64 (- (n * day24)) = - n * day24" using wrap64_days [of "- n"] n by simp
      then have ls: "awd lf (- n * day24) = Some ls" using b(3) by simp
      then have "ls \<in> W" using closed lf by blast
      moreover have "ts_EarlyStart q0 \<le> ls"
        using mono [OF W0(2) _ _ undo [OF W0(1) q0] ls] lf by simp
      ultimately show "ts_LateStart q \<in> W \<and> ts_LateFinish q \<in> W \<and>
          ts_EarlyStart q \<le> ts_LateStart q \<and> ts_EarlyFinish q \<le> ts_LateFinish q"
        using lf b(4) by simp
    qed
  qed
  then show ?thesis using u by blast
qed

text \<open>With finish-to-start dependencies only, a task that ends last has no float at all.\<close>

lemma fs_last_task_critical:
  assumes fwd: "forward_schedule awd start mats ts ds S0" and bwd: "backward_schedule awd cfg e ts ds S0 S"
    and e: "greatest e {ts_EarlyFinish q |u q. S0 u = Some q}" and ac: "acyclic (dep_rel ts ds)"
    and whole: "whole_day_project W start mats ts ds" and thr: "0 < CriticalPathThreshold cfg"
    and pos: "\<forall>t\<in>set ts. \<forall>dur. getTaskDuration t = Inr dur \<longrightarrow> 0 < dur"
    and fs: "\<forall>d\<in>set ds. td_DependencyType d = DependencyTypeFS \<and> 0 \<le> td_LagDays d"
  shows "\<exists>u q. S u = Some q \<and> ts_IsCritical q"
proof -
  obtain u q0 where u: "S0 u = Some q0" "ts_EarlyFinish q0 = e" using e by (auto simp: greatest_def)
  then have "u \<in> task_ids ts" using fwd by (auto simp: forward_schedule_def)
  then obtain t where t: "t \<in> set ts" "pt_ID t = u" by blast
  obtain n where n: "0 \<le> n" "n \<le> 36500" "getTaskDuration t = Inr (n * day24)"
    using whole t(1) by (auto simp: whole_day_project_def)
  have q0: "awd (ts_EarlyStart q0) (n * day24) = Some (ts_EarlyFinish q0)"
    using fwd t n(3) u(1) unfolding forward_schedule_def forward_at_def by fastforce
  have W0: "ts_EarlyStart q0 \<in> W" "ts_EarlyFinish q0 \<in> W"
    using forward_dates_on_days [OF fwd ac whole u(1)] by auto
  have sink: "\<not> (\<exists>s. (u, s) \<in> dep_rel ts ds)"
  proof
    assume "\<exists>s. (u, s) \<in> dep_rel ts ds"
    then obtain s d where s: "(u, s) \<in> dep_rel ts ds" "last_dep ds u s = Some d"
      by (metis dep_rel_iff_last_dep not_None_eq)
    then obtain t' where t': "t' \<in> set ts" "pt_ID t' = s" by (auto simp: dep_rel_def)
    obtain m where m: "0 \<le> m" "m \<le> 36500" "getTaskDuration t' = Inr (m * day24)"
      using whole t'(1) by (auto simp: whole_day_project_def)
    have mpos: "0 < m"
    proof -
      have "0 < m * day24" using pos t'(1) m(3) by blast
      then show ?thesis using m(1) by (cases "m = 0") auto
    qed
    obtain base q where q: "S0 s = Some q" "early_base awd start ts ds S0 s (m * day24) base"
      "ts_EarlyStart q = material_start mats s base" "awd (ts_EarlyStart q) (m * day24) = Some (ts_EarlyFinish q)"
      using fwd t' m(3) unfolding forward_schedule_def forward_at_def by fastforce
    have d: "td_DependencyType d = DependencyTypeFS" "0 \<le> td_LagDays d" "\<bar>td_LagDays d\<bar> \<le> 36500"
      using fs whole last_dep_mem [OF s(2)] by (auto simp: whole_day_project_def)
    obtain f where f: "dep_date awd q0 (m * day24) d = Some f" using dep_date_total returns by blast
    then have "awd (ts_EarlyFinish q0) (td_LagDays d * day24) = Some f"
      unfolding dep_date_days [OF d(3) m(1,2)] using d(1) by (simp add: Let_def dependency_types)
    then have "e \<le> f" using day_lag [OF d(2)] u(2) by blast
    moreover have "f \<le> ts_EarlyStart q"
      using early_base_ge [OF q(2) s u(1) f] material_start_ge(1) [of base mats s] q(3) by simp
    moreover have "ts_EarlyStart q + day24 \<le> ts_EarlyFinish q"
      using progress [OF _ mpos q(4)] forward_dates_on_days [OF fwd ac whole q(1)] by simp
    moreover have "ts_EarlyFinish q \<le> e" using e q(1) by (auto simp: greatest_def)
    ultimately show False by (simp add: duration_units)
  qed
  obtain ls where b: "awd e (wrap64 (- (n * day24))) = Some ls" "S u = Some (late_schedule cfg q0 ls e)"
    using bwd t n(3) u(1) sink unfolding backward_schedule_def backward_at_def late_base_def by fastforce
  have "wrap64 (- (n * day24)) = - n * day24" using wrap64_days [of "- n"] n by simp
  then have "ls = ts_EarlyStart q0" using b(1) undo [OF W0(1) q0] u(2) by simp
  then show ?thesis using b(2) thr by (intro exI [of _ u]) simp
qed

end

context gonum
begin

lemma BackwardPass_defined:
  assumes g: "graph_ok valid nodes edges ts ds g" and cal: "\<And>t d. cal t d \<noteq> None"
    and "acyclic (dep_rel ts ds)" and durs: "\<forall>t\<in>set ts. \<exists>dur. getTaskDuration t = Inr dur"
  shows "\<exists>cp s'. BackwardPass ops g s cal config = Inr (cp, s')"
proof -
  obtain us where us: "TopologicalSort ops g = Inr us" using TopologicalSort_defined [OF g] assms(3) by blast
  have b: "calculateBackwardConstraintDate cal q dur ty lag \<noteq> None" for q dur ty lag
    using cal by (simp add: calculateBackwardConstraintDate_def Let_def)
  have mc: "\<exists>r. min_constraint g cal s u dur ss m b = Some r" for s u dur ss m b
  proof (induction ss arbitrary: m b)
    case (Cons v ss)
    show ?case
    proof (cases "mget s v")
      case (Some q)
      let ?d = "dependency_or_FS g u v"
      obtain c where "calculateBackwardConstraintDate cal q dur (td_DependencyType ?d) (td_LagDays ?d) = Some c"
        using b by fast
      then show ?thesis using Some Cons.IH by (simp add: Let_def)
    qed (use Cons.IH in simp)
  qed simp
  have step: "\<exists>s'. backward_task ops g cal cfg e s u = Inr s'" for cfg e s u
  proof (cases "\<exists>t q. Tasks g u = Some t \<and> mget s u = Some q")
    case True
    then obtain t q where t: "Tasks g u = Some t" "mget s u = Some q" by blast
    then have "t \<in> set ts" using graph_ok_task [OF g] task_by_id_Some by metis
    then obtain dur where "getTaskDuration t = Inr dur" using durs by blast
    moreover obtain lf where "(if GetSuccessors ops g u = [] then Inr e
        else or_stuck (min_constraint g cal s u dur (GetSuccessors ops g u) zero_time True)) = Inr lf"
      using mc [of s u dur "GetSuccessors ops g u" zero_time True]
      by (cases "GetSuccessors ops g u = []") (auto simp: or_stuck_def)
    moreover obtain ls where "cal lf (wrap64 (- dur)) = Some ls" using cal by fast
    ultimately show ?thesis using t by (simp add: backward_task_def or_stuck_def Let_def)
  next
    case False
    then show ?thesis by (auto simp: backward_task_def split: option.splits)
  qed
  have "\<exists>s'. backward_loop ops g cal cfg e us s = Inr s'" for cfg e us s
  proof (induction us arbitrary: s)
    case (Cons u us)
    obtain s1 where "backward_task ops g cal cfg e s u = Inr s1" using step by blast
    then show ?case using Cons.IH by simp
  qed simp
  then obtain s' where "backward_loop ops g cal (case config of None \<Rightarrow> DefaultSchedulingConfig | Some c \<Rightarrow> c)
      (latest_finish s zero_time True) (rev us) s = Inr s'" by blast
  then show ?thesis using us by (simp add: BackwardPass_def Let_def)
qed

end

section \<open>Late dates and floats spelled out\<close>

text \<open>
  The contract of the backward pass without any function of the code, mirror image of
  \<open>early_entry\<close>: the table of dependency types, the earliest imposed date, the float in days
  as Go's \<open>Duration.Hours()\<close> over 24, and the threshold of the critical flag.
\<close>

definition latest_end :: "calendar \<Rightarrow> duration \<Rightarrow> TaskDependency \<Rightarrow> TaskSchedule \<Rightarrow> gotime option" where
  "latest_end cal dur d q =
     (let lag = td_LagDays d * (24 * 3600 * 10 ^ 9) in
      if td_DependencyType d = ''SS'' then cal (ts_LateStart q) (wrap64 (dur - lag))
      else if td_DependencyType d = ''FF'' then cal (ts_LateFinish q) (wrap64 (- lag))
      else if td_DependencyType d = ''SF'' then cal (ts_LateFinish q) (wrap64 (dur - lag))
      else cal (ts_LateStart q) (wrap64 (- lag)))"

lemma back_date_stated: "back_date cal q dur d = latest_end cal dur d q"
proof -
  have lag: "lag_of k = wrap64 (k * (24 * 3600 * 10 ^ 9))" for k by (simp add: lag_of_def duration_units)
  have m: "wrap64 (- wrap64 a) = wrap64 (- a)" for a
    by (metis mod_minus_eq wrap64_cong wrap64_mod)
  have "wrap64 (wrap64 (- a) + b) = wrap64 (b - a)" for a b using wrap64_add_left [of "- a" b] by (simp add: add.commute)
  then show ?thesis by (simp add: back_date_def latest_end_def calculateBackwardConstraintDate_def Let_def dependency_types lag m)
qed

text \<open>The whole hours and the rest of the hour, as float64 values, over 24; a difference saturates at 64 bits.\<close>

definition days_between :: "gotime \<Rightarrow> gotime \<Rightarrow> f64" where
  "days_between a b =
     (let d = max (- (2 ^ 63)) (min (2 ^ 63 - 1) (b - a)); h = 3600 * 10 ^ 9; whole = sgn d * (\<bar>d\<bar> div h) in
      fl (fl (fl (of_int whole) + fl (fl (of_int (d - whole * h)) / of_int h)) / 24))"

lemma total_float_stated: "total_float ls es = days_between es ls"
proof -
  have h: "f64_of_int hour = of_int (3600 * 10 ^ 9)" using f64_of_int_exact [of hour] by (simp add: duration_units)
  have q: "quot d hour = sgn d * (\<bar>d\<bar> div (3600 * 10 ^ 9))" for d
    by (simp add: quot_def duration_units)
  have r: "qrem d hour = d - sgn d * (\<bar>d\<bar> div (3600 * 10 ^ 9)) * (3600 * 10 ^ 9)" for d
    by (simp add: qrem_def quot_def duration_units)
  show ?thesis unfolding total_float_def duration_Hours_def days_between_def Let_def time_sub_def q r h
    by (simp add: float_ops f64_of_int_def)
qed

lemma whole_days_between:
  assumes "\<bar>k\<bar> \<le> 106751"
  shows "days_between es (es + k * day24) = of_int k"
proof -
  have "time_sub (es + k * day24) es = k * day24"
    using assms by (auto simp: time_sub_def duration_units abs_le_iff)
  also have "\<dots> = hour * (24 * k)" by (simp add: duration_units)
  finally have d: "time_sub (es + k * day24) es = hour * (24 * k)" .
  have h: "0 < hour" by (simp add: duration_units)
  have e: "f64_of_int (24 * k) = of_int (24 * k)" using assms by (intro f64_of_int_exact) simp
  have k: "fl (of_int (24 * k)) = of_int (24 * k)" "fl (of_int k) = of_int k"
    using assms by (intro fl_exact representable_int; simp)+
  have z: "f64_of_int 0 = 0" by (simp add: f64_of_int_def)
  show ?thesis unfolding total_float_stated [symmetric] total_float_def duration_Hours_def d quot_mult_self [OF h] qrem_mult_self [OF h] e z
    using k by (simp add: fdiv_def fadd_def)
qed

definition imposed_ends :: "calendar \<Rightarrow> ProjectTask list \<Rightarrow> TaskDependency list \<Rightarrow> (uuid \<rightharpoonup> TaskSchedule) \<Rightarrow>
    uuid \<Rightarrow> duration \<Rightarrow> gotime set" where
  "imposed_ends cal ts ds S u dur = {c. \<exists>s d r. (u, s) \<in> dep_rel ts ds \<and> last_dep ds u s = Some d \<and> S s = Some r \<and>
     latest_end cal dur d r = Some c}"

definition late_entry :: "calendar \<Rightarrow> f64 \<Rightarrow> gotime \<Rightarrow> ProjectTask list \<Rightarrow> TaskDependency list \<Rightarrow>
    (uuid \<rightharpoonup> TaskSchedule) \<Rightarrow> ProjectTask \<Rightarrow> TaskSchedule \<Rightarrow> TaskSchedule \<Rightarrow> bool" where
  "late_entry cal threshold projectEnd ts ds S t early q \<longleftrightarrow>
     ts_TaskID q = ts_TaskID early \<and> ts_WBSCode q = ts_WBSCode early \<and>
     ts_EarlyStart q = ts_EarlyStart early \<and> ts_EarlyFinish q = ts_EarlyFinish early \<and>
     (\<exists>dur. stated_duration t dur \<and>
        (if \<exists>s. (pt_ID t, s) \<in> dep_rel ts ds
         then least (ts_LateFinish q) (imposed_ends cal ts ds S (pt_ID t) dur)
         else ts_LateFinish q = projectEnd) \<and>
        cal (ts_LateFinish q) (wrap64 (- dur)) = Some (ts_LateStart q)) \<and>
     ts_TotalFloat q = days_between (ts_EarlyStart q) (ts_LateStart q) \<and>
     (\<forall>k. \<bar>k\<bar> \<le> 106751 \<and> ts_LateStart q = ts_EarlyStart q + k * (24 * 3600 * 10 ^ 9) \<longrightarrow>
        ts_TotalFloat q = of_int k) \<and>
     (ts_IsCritical q \<longleftrightarrow> \<bar>ts_TotalFloat q\<bar> < threshold)"

definition scheduled_late :: "calendar \<Rightarrow> f64 \<Rightarrow> gotime \<Rightarrow> ProjectTask list \<Rightarrow> TaskDependency list \<Rightarrow>
    (uuid \<rightharpoonup> TaskSchedule) \<Rightarrow> (uuid \<rightharpoonup> TaskSchedule) \<Rightarrow> bool" where
  "scheduled_late cal threshold projectEnd ts ds S0 S \<longleftrightarrow> dom S = pt_ID ` set ts \<and>
     (\<forall>t\<in>set ts. \<exists>early q. S0 (pt_ID t) = Some early \<and> S (pt_ID t) = Some q \<and>
        late_entry cal threshold projectEnd ts ds S t early q)"

lemma late_schedule_entry:
  assumes "stated_duration t dur" "late_base cal e ts ds S (pt_ID t) dur lf" "cal lf (wrap64 (- dur)) = Some ls"
  shows "late_entry cal (CriticalPathThreshold cfg) e ts ds S t q (late_schedule cfg q ls lf)"
proof -
  have "back_dates cal ts ds S (pt_ID t) dur = imposed_ends cal ts ds S (pt_ID t) dur"
    unfolding back_dates_def imposed_ends_def back_date_stated by blast
  then have base: "if \<exists>s. (pt_ID t, s) \<in> dep_rel ts ds then least lf (imposed_ends cal ts ds S (pt_ID t) dur) else lf = e"
    using assms(2) unfolding late_base_def by presburger
  have whole: "days_between es ls = of_int k"
    if "\<bar>k\<bar> \<le> 106751 \<and> ls = es + k * (24 * 3600 * 10 ^ 9)" for k es
    using whole_days_between [of k es] that by (simp add: duration_units)
  show ?thesis unfolding late_entry_def late_schedule_sel total_float_stated
    by (intro conjI exI [of _ dur] allI impI assms(1,3) base refl whole) (simp_all add: late_schedule_def Let_def)
qed

lemma backward_schedule_scheduled:
  assumes "backward_schedule cal cfg e ts ds S0 S"
  shows "scheduled_late cal (CriticalPathThreshold cfg) e ts ds S0 S"
proof -
  have "\<exists>early q. S0 (pt_ID t) = Some early \<and> S (pt_ID t) = Some q \<and>
      late_entry cal (CriticalPathThreshold cfg) e ts ds S t early q" if "t \<in> set ts" for t
    using assms that late_schedule_entry unfolding backward_schedule_def backward_at_def getTaskDuration_stated by metis
  then show ?thesis using assms by (simp add: scheduled_late_def backward_schedule_def)
qed

lemma critical_path_stated:
  "critical_path s us = map (\<lambda>u. ts_WBSCode (the (mget s u))) (filter (\<lambda>u. \<exists>q. mget s u = Some q \<and> ts_IsCritical q) us)"
  unfolding critical_path_def by (induction us) (auto simp: List.map_filter_def split: option.splits)

section \<open>What the two passes promise\<close>

text \<open>Both passes over one project, as the schedule service runs them.\<close>

definition passes :: "'g digraph_ops \<Rightarrow> calendar \<Rightarrow> gotime \<Rightarrow> (uuid \<rightharpoonup> gotime) \<Rightarrow> SchedulingConfig option \<Rightarrow>
    ProjectTask list \<Rightarrow> TaskDependency list \<Rightarrow> schedule \<Rightarrow> string list \<Rightarrow> schedule \<Rightarrow> bool" where
  "passes ops cal start mats config tasks deps s0 cp s1 \<longleftrightarrow>
     distinct (map pt_ID tasks) \<and> tasks \<noteq> [] \<and>
     (\<exists>g. BuildDependencyGraph ops tasks deps = Some g \<and>
        ForwardPass ops g start cal mats = Inr s0 \<and> BackwardPass ops g s0 cal config = Inr (cp, s1))"

definition config_or_default :: "SchedulingConfig option \<Rightarrow> SchedulingConfig" where
  "config_or_default config = (case config of None \<Rightarrow> DefaultSchedulingConfig | Some c \<Rightarrow> c)"

lemma passes_correct:
  assumes "gonum ops valid nodes edges" and p: "passes ops cal start mats config tasks deps s0 cp s1"
  obtains e us where "forward_schedule cal start mats tasks deps (mget s0)"
    "backward_schedule cal (config_or_default config) e tasks deps (mget s0) (mget s1)"
    "greatest e {ts_EarlyFinish q |u q. mget s0 u = Some q}" "acyclic (dep_rel tasks deps)"
    "topo_order (dep_rel tasks deps) us" "set us = task_ids tasks" "cp = critical_path s1 us"
    "distinct (map pt_ID tasks)"
proof -
  obtain g where g: "distinct (map pt_ID tasks)" "tasks \<noteq> []" "BuildDependencyGraph ops tasks deps = Some g"
    "ForwardPass ops g start cal mats = Inr s0" "BackwardPass ops g s0 cal config = Inr (cp, s1)"
    using p by (auto simp: passes_def)
  note ok = gonum.build_ok [OF assms(1) g(1,3)]
  have fwd: "forward_schedule cal start mats tasks deps (mget s0)"
    by (rule gonum.ForwardPass_correct [OF assms(1) ok g(1,4)])
  then have dom: "dom (mget s0) = task_ids tasks" by (simp add: forward_schedule_def)
  obtain us where us: "TopologicalSort ops g = Inr us" "cp = critical_path s1 us" "set us = task_ids tasks"
    "backward_schedule cal (config_or_default config) (latest_finish s0 zero_time True) tasks deps (mget s0) (mget s1)"
    using gonum.BackwardPass_correct [OF assms(1) ok g(1) dom g(2,5)] unfolding config_or_default_def by metis
  obtain vs where "TopologicalSort ops g = Inr vs" "forward_inv cal start mats tasks deps vs s0"
    using gonum.ForwardPass_inv [OF assms(1) ok g(1,4)] by metis
  then have "distinct (mkeys s0)"
    using gonum.TopologicalSort_ok [OF assms(1) ok] topo_order_distinct by (auto simp: forward_inv_def)
  moreover have "s0 \<noteq> []" using dom g(2) by auto
  ultimately have "greatest (latest_finish s0 zero_time True) {ts_EarlyFinish q |u q. mget s0 u = Some q}"
    by (rule latest_finish_of_map)
  moreover have "acyclic (dep_rel tasks deps)"
    using gonum.TopologicalSort_defined [OF assms(1) ok] us(1) by blast
  ultimately show thesis
    using that fwd us gonum.TopologicalSort_ok [OF assms(1) ok us(1)] g(1) by blast
qed

lemma critical_path_set:
  assumes "set us = task_ids tasks" "backward_schedule cal cfg e tasks deps S0 (mget s1)"
    and "forward_schedule cal start mats tasks deps S0" "distinct (map pt_ID tasks)"
  shows "set (critical_path s1 us) =
    {pt_WBSCode t |t. t \<in> set tasks \<and> (\<exists>q. mget s1 (pt_ID t) = Some q \<and> ts_IsCritical q)}"
proof -
  have w: "ts_WBSCode q = pt_WBSCode t" if "t \<in> set tasks" "mget s1 (pt_ID t) = Some q" for t q
    using that assms(2,3) unfolding backward_schedule_def backward_at_def forward_schedule_def forward_at_def
    by fastforce
  have "set (critical_path s1 us) = {w. \<exists>u\<in>task_ids tasks. \<exists>q. mget s1 u = Some q \<and> ts_IsCritical q \<and> w = ts_WBSCode q}"
    unfolding critical_path_def map_filter_set assms(1) by (auto split: option.splits if_splits)
  also have "\<dots> = {pt_WBSCode t |t. t \<in> set tasks \<and> (\<exists>q. mget s1 (pt_ID t) = Some q \<and> ts_IsCritical q)}"
  proof (intro equalityI subsetI)
    fix x assume "x \<in> {w. \<exists>u\<in>task_ids tasks. \<exists>q. mget s1 u = Some q \<and> ts_IsCritical q \<and> w = ts_WBSCode q}"
    then obtain t q where "t \<in> set tasks" "mget s1 (pt_ID t) = Some q" "ts_IsCritical q" "x = ts_WBSCode q" by blast
    then show "x \<in> {pt_WBSCode t |t. t \<in> set tasks \<and> (\<exists>q. mget s1 (pt_ID t) = Some q \<and> ts_IsCritical q)}"
      using w by blast
  next
    fix x assume "x \<in> {pt_WBSCode t |t. t \<in> set tasks \<and> (\<exists>q. mget s1 (pt_ID t) = Some q \<and> ts_IsCritical q)}"
    then obtain t q where t: "t \<in> set tasks" "mget s1 (pt_ID t) = Some q" "ts_IsCritical q" "x = pt_WBSCode t" by blast
    then show "x \<in> {w. \<exists>u\<in>task_ids tasks. \<exists>q. mget s1 u = Some q \<and> ts_IsCritical q \<and> w = ts_WBSCode q}"
      using w [OF t(1,2)] by (intro CollectI bexI [of _ "pt_ID t"] exI [of _ q]) auto
  qed
  finally show ?thesis .
qed

lemma sample_passes_ok:
  "\<exists>cp s1. passes lg_ops (AddWorkDuration default_calendar) monday Map.empty None
     sample_tasks sample_deps sample_forward cp s1"
proof -
  have "\<exists>cp s1. BackwardPass lg_ops sample_graph sample_forward (AddWorkDuration default_calendar) None = Inr (cp, s1)"
    using lg.BackwardPass_defined [OF lg.build_ok [OF sample_tasks_distinct sample_build] _
        sample_acyclic sample_durations] std.returns by (metis option.distinct(1))
  then show ?thesis
    using sample_build sample_forward_ok sample_tasks_distinct by (simp add: passes_def sample_tasks_def)
qed

lemma sample_whole_days:
  "whole_day_project (workdays_at default_calendar 0) monday Map.empty sample_tasks sample_deps"
proof -
  have "\<not> isNonWorkingDay default_calendar monday" by code_simp
  then have "monday \<in> workdays_at default_calendar 0"
    unfolding workdays_at_def by (auto simp: monday_def intro!: exI [of _ 20458])
  moreover have "\<exists>n. 0 \<le> n \<and> n \<le> 36500 \<and> getTaskDuration t = Inr (n * day24)" if "t \<in> set sample_tasks" for t
  proof -
    have "0 < pt_DurationDays t" "pt_DurationDays t \<le> 36500" using that by (auto simp: sample_tasks_def sample_defs)
    moreover from this have "getTaskDuration t = Inr (pt_DurationDays t * day24)"
      by (intro getTaskDuration_exact) (use that in \<open>auto simp: sample_tasks_def sample_defs\<close>)
    ultimately show ?thesis by (intro exI [of _ "pt_DurationDays t"]) simp
  qed
  ultimately show ?thesis by (auto simp: whole_day_project_def sample_deps_def sample_defs)
qed



text \<open>
  In a project of whole-day durations and lags whose start and material dates are working
  days at one time of day, no task gets a late date before its early date, hence no negative
  total float, for all four dependency types and for negative lags too.
\<close>

theorem whole_day_float_nonneg:
  assumes "gonum ops valid nodes edges" "day_calendar cal W"
    and "passes ops cal start mats config tasks deps s0 cp s1"
    and "whole_day_project W start mats tasks deps" "mget s1 u = Some q"
  shows "ts_EarlyStart q \<le> ts_LateStart q \<and> ts_EarlyFinish q \<le> ts_LateFinish q \<and> 0 \<le> ts_TotalFloat q"
proof (rule passes_correct [OF assms(1,3)])
  fix e us
  assume p: "forward_schedule cal start mats tasks deps (mget s0)"
    "backward_schedule cal (config_or_default config) e tasks deps (mget s0) (mget s1)"
    "greatest e {ts_EarlyFinish q |u q. mget s0 u = Some q}" "acyclic (dep_rel tasks deps)"
    "distinct (map pt_ID tasks)"
  have le: "ts_EarlyStart q \<le> ts_LateStart q" "ts_EarlyFinish q \<le> ts_LateFinish q"
    using day_calendar.late_not_before_early [OF assms(2) p(1-4) assms(4) p(5) assms(5)] by auto
  have "u \<in> task_ids tasks" using p(2) assms(5) by (auto simp: backward_schedule_def)
  then have "ts_TotalFloat q = total_float (ts_LateStart q) (ts_EarlyStart q)"
    using p(2) assms(5) unfolding backward_schedule_def backward_at_def by fastforce
  then show ?thesis using le total_float_nonneg by simp
qed

theorem whole_day_float_nonneg_witness:
  "\<exists>cp s1 q. passes lg_ops (AddWorkDuration default_calendar) monday Map.empty None
       sample_tasks sample_deps sample_forward cp s1 \<and> mget s1 1 = Some q \<and>
     ts_EarlyStart q \<le> ts_LateStart q \<and> ts_EarlyFinish q \<le> ts_LateFinish q \<and> 0 \<le> ts_TotalFloat q"
proof -
  obtain cp s1 where p: "passes lg_ops (AddWorkDuration default_calendar) monday Map.empty None
     sample_tasks sample_deps sample_forward cp s1" using sample_passes_ok by blast
  then have "1 \<in> dom (mget s1)"
    by (rule passes_correct [OF lg.gonum_axioms]) (simp add: backward_schedule_def sample_tasks_def sample_defs)
  then obtain q where q: "mget s1 1 = Some q" by blast
  note whole_day_float_nonneg [OF lg.gonum_axioms std_days.day_calendar_axioms p sample_whole_days q]
  with p q show ?thesis by (intro exI [of _ cp] exI [of _ s1] exI [of _ q] conjI) (simp_all only:)
qed

end
