(* ===== verification/Cpm_Critical.thy ===== *)
theory Cpm_Critical
  imports Cpm_Float
begin

text \<open>
  The critical path: a whole-day project with finish-to-start dependencies always has a
  critical task, while a project that starts on a non-working day and a start-to-start
  dependency on a longer task lose it. The last two are behaviours of the code as it is.
\<close>

text \<open>
  C5. A whole-day project whose dependencies are finish-to-start with non-negative lag, and
  whose durations are positive, gets a non-empty critical path (for a positive threshold).
\<close>

theorem fs_project_has_critical_path:
  assumes "gonum ops valid nodes edges" "day_calendar cal W"
    and "passes ops cal start mats config tasks deps s0 cp s1"
    and "whole_day_project W start mats tasks deps" "0 < CriticalPathThreshold (config_or_default config)"
    and "\<forall>t\<in>set tasks. \<forall>dur. getTaskDuration t = Inr dur \<longrightarrow> 0 < dur"
    and "\<forall>d\<in>set deps. td_DependencyType d = DependencyTypeFS \<and> 0 \<le> td_LagDays d"
  shows "cp \<noteq> []"
proof (rule passes_correct [OF assms(1,3)])
  fix e us
  assume p: "forward_schedule cal start mats tasks deps (mget s0)"
    "backward_schedule cal (config_or_default config) e tasks deps (mget s0) (mget s1)"
    "greatest e {ts_EarlyFinish q |u q. mget s0 u = Some q}" "acyclic (dep_rel tasks deps)"
    "set us = task_ids tasks" "cp = critical_path s1 us" "distinct (map pt_ID tasks)"
  obtain u q where u: "mget s1 u = Some q" "ts_IsCritical q"
    using day_calendar.fs_last_task_critical [OF assms(2) p(1-4) assms(4-7)] by blast
  then have "u \<in> task_ids tasks" using p(2) by (auto simp: backward_schedule_def)
  then obtain t where "t \<in> set tasks" "pt_ID t = u" by blast
  then have "pt_WBSCode t \<in> set (critical_path s1 us)"
    unfolding critical_path_set [OF p(5,2,1,7)] using u by blast
  then show ?thesis using p(6) by auto
qed

definition fs_deps :: "TaskDependency list" where
  "fs_deps = [sample_dep 1 2 DependencyTypeFS 1, sample_dep 1 3 DependencyTypeFS 0]"

lemma default_threshold_bounds:
  "0 < CriticalPathThreshold (config_or_default None)" "CriticalPathThreshold (config_or_default None) \<le> 1"
  unfolding config_or_default_def by code_simp+

text \<open>Runs of both passes exist for acyclic projects with durations and no self dependency.\<close>

lemma passes_exist:
  assumes "gonum ops valid nodes edges" "work_calendar cal" "distinct (map pt_ID tasks)" "tasks \<noteq> []"
    and "no_self_dep tasks deps" "acyclic (dep_rel tasks deps)"
    and "\<forall>t\<in>set tasks. \<exists>dur. getTaskDuration t = Inr dur"
  shows "\<exists>s0 cp s1. passes ops cal start mats config tasks deps s0 cp s1"
proof -
  have cal: "cal t d \<noteq> None" for t d using work_calendar.returns [OF assms(2), of t d] by auto
  obtain g where g: "BuildDependencyGraph ops tasks deps = Some g"
    using gonum.build_defined [OF assms(1,3)] assms(5) by blast
  note ok = gonum.build_ok [OF assms(1,3) g]
  obtain s0 where s0: "ForwardPass ops g start cal mats = Inr s0"
    using gonum.ForwardPass_defined [OF assms(1) ok assms(3), where cal = cal] cal assms(6,7) by blast
  obtain cp s1 where s1: "BackwardPass ops g s0 cal config = Inr (cp, s1)"
    using gonum.BackwardPass_defined [OF assms(1) ok _ assms(6,7), where cal = cal] cal by blast
  show ?thesis using assms(3,4) g s0 s1 by (auto simp: passes_def)
qed

lemma fs_passes_ok:
  "\<exists>s0 cp s1. passes lg_ops (AddWorkDuration default_calendar) monday Map.empty None sample_tasks fs_deps s0 cp s1"
proof (rule passes_exist [OF lg.gonum_axioms std.work_calendar_axioms sample_tasks_distinct])
  have "dep_rel sample_tasks fs_deps \<subseteq> less_than"
    by (auto simp: dep_rel_def fs_deps_def sample_defs)
  then show "acyclic (dep_rel sample_tasks fs_deps)" using acyclic_subset wf_acyclic wf_less_than by metis
qed (use sample_durations in \<open>simp_all add: no_self_dep_def fs_deps_def sample_defs sample_tasks_def\<close>)

lemma fs_whole_days:
  "whole_day_project (workdays_at default_calendar 0) monday Map.empty sample_tasks fs_deps"
  using sample_whole_days by (auto simp: whole_day_project_def fs_deps_def sample_defs)

theorem fs_project_has_critical_path_witness:
  "\<exists>s0 cp s1. passes lg_ops (AddWorkDuration default_calendar) monday Map.empty None
     sample_tasks fs_deps s0 cp s1 \<and> cp \<noteq> []"
proof -
  obtain s0 cp s1 where p: "passes lg_ops (AddWorkDuration default_calendar) monday Map.empty None
     sample_tasks fs_deps s0 cp s1" using fs_passes_ok by blast
  have pos: "\<forall>t\<in>set sample_tasks. \<forall>dur. getTaskDuration t = Inr dur \<longrightarrow> 0 < dur"
  proof (intro ballI allI impI)
    fix t dur assume t: "t \<in> set sample_tasks" "getTaskDuration t = Inr dur"
    then have "0 < pt_DurationDays t" "pt_DurationDays t \<le> 36500" by (auto simp: sample_tasks_def sample_defs)
    moreover from this have "getTaskDuration t = Inr (pt_DurationDays t * day24)"
      by (intro getTaskDuration_exact) (use t in \<open>auto simp: sample_tasks_def sample_defs\<close>)
    ultimately show "0 < dur" using t(2) by (auto simp: duration_units)
  qed
  have fs: "\<forall>d\<in>set fs_deps. td_DependencyType d = DependencyTypeFS \<and> 0 \<le> td_LagDays d"
    by (auto simp: fs_deps_def sample_defs)
  from fs_project_has_critical_path [OF lg.gonum_axioms std_days.day_calendar_axioms p fs_whole_days
      default_threshold_bounds(1) pos fs]
  show ?thesis using p by blast
qed

text \<open>
  Starting a project on a non-working day breaks the backward pass: a single task of \<open>n\<close>
  whole days gets a late start at least a day before its early start, a float of at most -1 and,
  with a threshold of at most a day, the critical path comes back empty.
\<close>

theorem start_on_non_working_day_loses_critical_path:
  assumes "gonum ops valid nodes edges" "calendar_ok c"
    and "isNonWorkingDay c start" "start mod minute = 0"
    and "passes ops (AddWorkDuration c) start Map.empty config [t] [] s0 cp s1"
    and "getTaskDuration t = Inr (n * day24)" "0 < n" "n \<le> 36500"
    and "CriticalPathThreshold (config_or_default config) \<le> 1"
  shows "cp = [] \<and> (\<exists>q. mget s1 (pt_ID t) = Some q \<and> ts_LateStart q + day24 \<le> ts_EarlyStart q \<and>
    ts_TotalFloat q \<le> - 1)"
proof (rule passes_correct [OF assms(1,5)])
  fix e us
  assume p: "forward_schedule (AddWorkDuration c) start Map.empty [t] [] (mget s0)"
    "backward_schedule (AddWorkDuration c) (config_or_default config) e [t] [] (mget s0) (mget s1)"
    "greatest e {ts_EarlyFinish q |u q. mget s0 u = Some q}"
    "set us = task_ids [t]" "cp = critical_path s1 us" "distinct (map pt_ID [t])"
  have nodep: "\<not> (\<exists>p. (p, pt_ID t) \<in> dep_rel [t] [])" "\<not> (\<exists>s. (pt_ID t, s) \<in> dep_rel [t] [])"
    by (auto simp: dep_rel_def)
  obtain q0 where q0: "mget s0 (pt_ID t) = Some q0" "ts_EarlyStart q0 = start"
    "AddWorkDuration c start (n * day24) = Some (ts_EarlyFinish q0)"
    using p(1) assms(6) nodep(1) unfolding forward_schedule_def forward_at_def early_base_def material_start_def
    by fastforce
  have "dom (mget s0) = {pt_ID t}" using p(1) by (simp add: forward_schedule_def)
  have e: "e = ts_EarlyFinish q0"
  proof -
    obtain u q where u: "mget s0 u = Some q" "e = ts_EarlyFinish q" using p(3) by (auto simp: greatest_def)
    then have "u = pt_ID t" using \<open>dom (mget s0) = {pt_ID t}\<close> by blast
    then show ?thesis using u q0(1) by simp
  qed
  obtain ls where ls: "AddWorkDuration c e (wrap64 (- (n * day24))) = Some ls"
    "mget s1 (pt_ID t) = Some (late_schedule (config_or_default config) q0 ls e)"
    using p(2) assms(6) q0(1) nodep(2) unfolding backward_schedule_def backward_at_def late_base_def by fastforce
  have "wrap64 (- (n * day24)) = - n * day24" using wrap64_days [of "- n"] assms(7,8) by simp
  then have "AddWorkDuration c (ts_EarlyFinish q0) (- n * day24) = Some ls" using ls(1) e by simp
  from nonworking_not_undone [OF assms(2-4,7) q0(3) this] have before: "ls + day24 \<le> start" .
  then have fl: "total_float ls start \<le> - 1" by (rule total_float_le_minus_1)
  then have "\<not> ts_IsCritical (late_schedule (config_or_default config) q0 ls e)"
    using assms(9) q0(2) by simp
  then have "set (critical_path s1 us) = {}"
    unfolding critical_path_set [OF p(4,2,1,6)] using ls(2) by auto
  then show ?thesis using p(5) ls(2) before fl q0(2) by simp
qed

definition saturday :: gotime where
  "saturday = 20463 * day24"

lemma saturday_passes:
  "\<exists>s0 cp s1. passes lg_ops (AddWorkDuration default_calendar) saturday Map.empty None
     [sample_task 1 ''5.0'' 3] [] s0 cp s1"
  by (rule passes_exist [OF lg.gonum_axioms std.work_calendar_axioms])
    (simp_all add: no_self_dep_def dep_rel_def sample_defs getTaskDuration_def acyclic_def)

theorem start_on_non_working_day_loses_critical_path_witness:
  "\<exists>s0 s1. passes lg_ops (AddWorkDuration default_calendar) saturday Map.empty None
     [sample_task 1 ''5.0'' 3] [] s0 [] s1"
proof -
  obtain s0 cp s1 where p: "passes lg_ops (AddWorkDuration default_calendar) saturday Map.empty None
     [sample_task 1 ''5.0'' 3] [] s0 cp s1" using saturday_passes by blast
  have "getTaskDuration (sample_task 1 ''5.0'' 3) = Inr (3 * day24)"
    by (rule getTaskDuration_exact) (simp_all add: sample_defs)
  moreover have "isNonWorkingDay default_calendar saturday" "saturday mod minute = 0" by code_simp+
  ultimately have "cp = []"
    using start_on_non_working_day_loses_critical_path [OF lg.gonum_axioms calendar_ok_default _ _ p, of 3]
      default_threshold_bounds(2) by simp
  with p show ?thesis by blast
qed

text \<open>
  A start-to-start dependency loses the critical path as well: when a task of \<open>n\<close> days has as
  its only successor a shorter task of \<open>m\<close> days that may start with it, the pass takes the
  successor's late start plus \<open>n\<close> days for the late finish, with no bound at the project end, so
  that this lies after the project end; neither task is critical and the critical path is
  empty, although the longer task determines the end of the project.
\<close>

theorem start_to_start_loses_critical_path:
  assumes "gonum ops valid nodes edges" "day_calendar cal W" "start \<in> W"
    and "passes ops cal start Map.empty config [a, b] [d] s0 cp s1"
    and "td_PredecessorID d = pt_ID a" "td_SuccessorID d = pt_ID b"
    and "td_DependencyType d = DependencyTypeSS" "td_LagDays d = 0"
    and "getTaskDuration a = Inr (n * day24)" "getTaskDuration b = Inr (m * day24)" "0 < m" "m < n" "n \<le> 36500"
    and "CriticalPathThreshold (config_or_default config) \<le> 1"
  shows "cp = [] \<and> (\<exists>e q. greatest e {ts_EarlyFinish q |u q. mget s0 u = Some q} \<and>
    mget s1 (pt_ID a) = Some q \<and> e < ts_LateFinish q)"
proof (rule passes_correct [OF assms(1,4)])
  fix e us
  let ?A = "pt_ID a" and ?B = "pt_ID b"
  assume p: "forward_schedule cal start Map.empty [a, b] [d] (mget s0)"
    "backward_schedule cal (config_or_default config) e [a, b] [d] (mget s0) (mget s1)"
    "greatest e {ts_EarlyFinish q |u q. mget s0 u = Some q}" "acyclic (dep_rel [a, b] [d])"
    "set us = task_ids [a, b]" "cp = critical_path s1 us" "distinct (map pt_ID [a, b])"
  have ne: "?A \<noteq> ?B" using p(7) by auto
  have dep: "dep_rel [a, b] [d] = {(?A, ?B)}" "last_dep [d] ?A ?B = Some d"
    using assms(5,6) by (auto simp: dep_rel_def last_dep_def)
  have whole: "whole_day_project W start Map.empty [a, b] [d]"
    unfolding whole_day_project_def
    using assms(3,8-13) by (auto intro: exI [of _ n] exI [of _ m])
  have cong: "(\<exists>p. (p, ?A) \<in> dep_rel [a, b] [d]) = False" "(\<exists>s. (?B, s) \<in> dep_rel [a, b] [d]) = False"
    "(\<exists>s. (?A, s) \<in> dep_rel [a, b] [d]) = True" "(\<exists>p. (p, ?B) \<in> dep_rel [a, b] [d]) = True"
    using ne by (auto simp: dep)
  note comp = day_calendar.compose [OF assms(2)] and zero = work_calendar.zero [OF day_calendar.axioms(1) [OF assms(2)]]
    and prog = day_calendar.progress [OF assms(2)] and cl = day_calendar.closed [OF assms(2)]
  obtain qa where qa: "mget s0 ?A = Some qa" "ts_EarlyStart qa = start" "cal start (n * day24) = Some (ts_EarlyFinish qa)"
    using p(1) assms(9) cong(1) unfolding forward_schedule_def forward_at_def early_base_def material_start_def
    by fastforce
  obtain qb base where qb: "mget s0 ?B = Some qb" "ts_EarlyStart qb = base"
    "base \<in> constraint_dates cal [a, b] [d] (mget s0) ?B (m * day24)" "cal base (m * day24) = Some (ts_EarlyFinish qb)"
  proof (rule forward_schedule_task [OF p(1) _ assms(10)])
    fix base ef
    assume b: "early_base cal start [a, b] [d] (mget s0) ?B (m * day24) base"
      "cal (material_start Map.empty ?B base) (m * day24) = Some ef"
      "mget s0 ?B = Some (early_schedule b ?B (material_start Map.empty ?B base) ef)"
    show thesis
      by (rule that [OF b(3)]) (use b(2) early_base_pred [OF b(1), of ?A] dep(1) in
        \<open>simp_all add: material_start_def greatest_def\<close>)
  qed simp
  have bs: "base = start"
    using qb(3) qa dep zero dep_date_days [of d m cal qa] assms(7,8,11-13)
    by (auto simp: constraint_dates_def Let_def)
  obtain y where y: "cal start (m * day24) = Some y" "ts_EarlyFinish qb = y" using qb(4) bs by blast
  have yn: "cal y ((n - m) * day24) = Some (ts_EarlyFinish qa)" using comp [OF assms(3) y(1), of "n - m"] qa(3) by simp
  have later: "y + day24 \<le> ts_EarlyFinish qa" using prog [OF cl [OF assms(3) y(1)] _ yn] assms(12) by simp
  have e: "e = ts_EarlyFinish qa"
  proof -
    have "ts_EarlyFinish qa \<le> e" using p(3) qa(1) by (auto simp: greatest_def)
    moreover obtain u q where u: "mget s0 u = Some q" "e = ts_EarlyFinish q" using p(3) by (auto simp: greatest_def)
    moreover have "u \<in> task_ids [a, b]" using p(1) u(1) by (auto simp: forward_schedule_def)
    ultimately show ?thesis using qa(1) qb(1) later y(2) by (auto simp: duration_units)
  qed
  have wm: "wrap64 (- (k * day24)) = - k * day24" if "k \<in> {m, n}" for k
    using wrap64_days [of "- k"] that assms(11-13) by auto
  have eW: "e \<in> W" using e cl [OF assms(3) qa(3)] by simp
  obtain lb where lb: "cal e (- m * day24) = Some lb" "mget s1 ?B = Some (late_schedule (config_or_default config) qb lb e)"
    using p(2) assms(10) qb(1) cong(2) wm [of m] unfolding backward_schedule_def backward_at_def late_base_def by fastforce
  have "cal start ((n - m) * day24) = Some lb" using comp [OF assms(3) qa(3), of "- m"] lb(1) e by simp
  note lbn = this and lbW = cl [OF assms(3) this] and lbs = prog [OF assms(3) _ this]
  obtain la fa where la: "fa \<in> back_dates cal [a, b] [d] (mget s1) ?A (n * day24)" "cal fa (- n * day24) = Some la"
    "mget s1 ?A = Some (late_schedule (config_or_default config) qa la fa)"
  proof (rule backward_schedule_task [OF p(2) _ assms(9) qa(1)])
    fix lf ls
    assume b: "late_base cal e [a, b] [d] (mget s1) ?A (n * day24) lf" "cal lf (wrap64 (- (n * day24))) = Some ls"
      "mget s1 ?A = Some (late_schedule (config_or_default config) qa ls lf)"
    show thesis
      by (rule that [OF _ _ b(3)]) (use b(2) wm [of n] late_base_succ [OF b(1), of ?B] dep(1) in
        \<open>simp_all add: least_def\<close>)
  qed simp
  have fa: "cal lb (n * day24) = Some fa"
    using la(1) dep lb(2) back_date_days [of d n cal] assms(7,8,11-13) by (auto simp: back_dates_def Let_def)
  have late: "cal e ((n - m) * day24) = Some fa" using comp [OF eW lb(1), of n] fa by simp
  have after: "e + day24 \<le> fa" using prog [OF eW _ late] assms(12) by simp
  have "la = lb" using comp [OF lbW fa, of "- n"] la(2) zero by simp
  then have "1 \<le> total_float la start" "1 \<le> total_float lb start"
    using total_float_ge_1 lbs assms(12) by auto
  then have "\<not> ts_IsCritical (late_schedule (config_or_default config) qa la fa)"
    "\<not> ts_IsCritical (late_schedule (config_or_default config) qb lb e)"
    using assms(14) qa(2) qb(2) bs by simp_all
  then have "set (critical_path s1 us) = {}"
    unfolding critical_path_set [OF p(5,2,1,7)] using la(3) lb(2) by auto
  then show ?thesis using p(3,6) la(3) after by (auto simp: duration_units)
qed

definition ss_tasks :: "ProjectTask list" where
  "ss_tasks = [sample_task 1 ''7.0'' 10, sample_task 2 ''7.1'' 1]"

definition ss_dep :: TaskDependency where
  "ss_dep = sample_dep 1 2 DependencyTypeSS 0"

lemma ss_passes:
  "\<exists>s0 cp s1. passes lg_ops (AddWorkDuration default_calendar) monday Map.empty None ss_tasks [ss_dep] s0 cp s1"
proof (rule passes_exist [OF lg.gonum_axioms std.work_calendar_axioms])
  have "dep_rel ss_tasks [ss_dep] \<subseteq> less_than" by (auto simp: dep_rel_def ss_dep_def sample_defs)
  then show "acyclic (dep_rel ss_tasks [ss_dep])" using acyclic_subset wf_acyclic wf_less_than by metis
qed (simp_all add: no_self_dep_def sample_defs getTaskDuration_def ss_tasks_def ss_dep_def)

theorem start_to_start_loses_critical_path_witness:
  "\<exists>s0 s1. passes lg_ops (AddWorkDuration default_calendar) monday Map.empty None ss_tasks [ss_dep] s0 [] s1"
proof -
  obtain s0 cp s1 where p: "passes lg_ops (AddWorkDuration default_calendar) monday Map.empty None
     [sample_task 1 ''7.0'' 10, sample_task 2 ''7.1'' 1] [ss_dep] s0 cp s1"
    using ss_passes unfolding ss_tasks_def by blast
  have "monday \<in> workdays_at default_calendar 0" using sample_whole_days by (simp add: whole_day_project_def)
  moreover have "getTaskDuration (sample_task 1 ''7.0'' 10) = Inr (10 * day24)"
    "getTaskDuration (sample_task 2 ''7.1'' 1) = Inr (1 * day24)"
    by (rule getTaskDuration_exact; simp add: sample_defs)+
  ultimately have "cp = []"
    using start_to_start_loses_critical_path [OF lg.gonum_axioms std_days.day_calendar_axioms _ p, of 10 1]
      default_threshold_bounds(2) by (simp add: ss_dep_def sample_defs)
  with p show ?thesis by (auto simp: ss_tasks_def)
qed

end
