(* ===== verification/Durations.thy ===== *)
theory Durations
  imports Models
begin

text \<open>
  Task durations: the weather model of internal/physics/swim.go and the size and multiplier
  model of internal/physics/dhsm.go, in their float64 and their integer-nanosecond versions.
  \<open>math.Pow\<close> is the parameter \<open>pow\<close> (its rounding is not specified). \<open>strconv.ParseFloat\<close>
  is modelled for the text before the first dot of a WBS code: a decimal integer with optional
  sign and exponent, and the names of infinity and not-a-number; hexadecimal and underscored
  literals, which no WBS code uses, count as malformed here.
\<close>

section \<open>Weather (SWIM)\<close>

datatype parsed_float = Finite f64 | PosInf | NegInf | NotANumber

definition digit_val :: "char \<Rightarrow> int option" where
  "digit_val c = (let n = int (of_char c) in if 48 \<le> n \<and> n \<le> 57 then Some (n - 48) else None)"

fun decimal_val :: "int \<Rightarrow> string \<Rightarrow> int option" where
  "decimal_val acc [] = Some acc"
| "decimal_val acc (c # cs) =
     (case digit_val c of None \<Rightarrow> None | Some d \<Rightarrow> decimal_val (10 * acc + d) cs)"

definition digits :: "string \<Rightarrow> int option" where
  "digits s = (if s = [] then None else decimal_val 0 s)"

definition split_sign :: "string \<Rightarrow> bool \<times> string" where
  "split_sign s = (case s of
      c # cs \<Rightarrow> if c = CHR ''-'' then (True, cs) else if c = CHR ''+'' then (False, cs) else (False, s)
    | [] \<Rightarrow> (False, []))"

definition max_float :: rat where
  "max_float = (2 ^ 53 - 1) * 2 ^ 971"

definition parse_float :: "string \<Rightarrow> parsed_float option" where
  "parse_float s =
     (let (neg, body) = split_sign s;
          mant = takeWhile (\<lambda>c. c \<noteq> CHR ''e'' \<and> c \<noteq> CHR ''E'') body;
          exptext = drop (length mant) body;
          low = to_lower body
      in if low = ''inf'' \<or> low = ''infinity'' then Some (if neg then NegInf else PosInf)
         else if to_lower s = ''nan'' then Some NotANumber
         else case digits mant of
             None \<Rightarrow> None
           | Some m \<Rightarrow>
               (case (if exptext = [] then Some 0
                      else let (eneg, edigits) = split_sign (tl exptext)
                        in map_option (\<lambda>e. if eneg then - e else e) (digits edigits)) of
                  None \<Rightarrow> None
                | Some e \<Rightarrow>
                    (let x = fl (of_int m * (if 0 \<le> e then 10 ^ nat e else 1 / 10 ^ nat (- e)))
                     in if x > max_float then None else Some (Finite (if neg then - x else x)))))"

definition isWeatherSensitive :: "string \<Rightarrow> bool" where
  "isWeatherSensitive wbs =
     (case parse_float (takeWhile (\<lambda>c. c \<noteq> CHR ''.'') wbs) of
        None \<Rightarrow> False
      | Some (Finite major) \<Rightarrow> if major < 10 then True else if major = 13 then True else False
      | Some PosInf \<Rightarrow> False
      | Some NegInf \<Rightarrow> True
      | Some NotANumber \<Rightarrow> False)"

definition weather_multiplier :: "Forecast \<Rightarrow> f64" where
  "weather_multiplier forecast =
     (let m0 = 1;
          m1 = (if PrecipitationMM forecast > 10 then fmul m0 (fl (115 / 100)) else m0);
          m2 = (if LowTempC forecast < 0 then fmul m1 (fl (125 / 100)) else m1)
      in if HighTempC forecast > 35 then fmul m2 (fl (110 / 100)) else m2)"

definition ApplyWeatherAdjustment :: "ProjectTask \<Rightarrow> Forecast \<Rightarrow> f64" where
  "ApplyWeatherAdjustment task forecast =
     (if \<not> isWeatherSensitive (pt_WBSCode task) then pt_CalculatedDuration task
      else fmul (pt_CalculatedDuration task) (weather_multiplier forecast))"

section \<open>Size and multipliers (DHSM)\<close>

record PhysicsConfig =
  StandardHouseSizeSF :: f64
  SizeAdjustmentExponent :: f64

definition WithDefaults :: "PhysicsConfig \<Rightarrow> PhysicsConfig" where
  "WithDefaults p =
     (let p1 = (if StandardHouseSizeSF p \<le> 0 then p\<lparr>StandardHouseSizeSF := 2000\<rparr> else p)
      in if SizeAdjustmentExponent p1 \<le> 0 then p1\<lparr>SizeAdjustmentExponent := fl (35 / 100)\<rparr> else p1)"

definition WorkDayPrecision :: duration where "WorkDayPrecision = 30 * minute"
definition HalfDay :: duration where "HalfDay = 4 * hour"

definition CalculateSAF :: "(f64 \<Rightarrow> f64 \<Rightarrow> f64) \<Rightarrow> f64 \<Rightarrow> PhysicsConfig \<Rightarrow> f64" where
  "CalculateSAF pow gsf cfg =
     (if gsf \<le> 0 then 1
      else let cfg' = WithDefaults cfg
        in pow (fdiv gsf (StandardHouseSizeSF cfg')) (SizeAdjustmentExponent cfg'))"

definition CalculateSAFScaled :: "(f64 \<Rightarrow> f64 \<Rightarrow> f64) \<Rightarrow> f64 \<Rightarrow> PhysicsConfig \<Rightarrow> int" where
  "CalculateSAFScaled pow gsf cfg = int64_of_f64 (math_round (fmul (CalculateSAF pow gsf cfg) 1000))"

definition getContextVariable :: "ProjectContext \<Rightarrow> string \<Rightarrow> f64" where
  "getContextVariable ctx key =
     (if key = ''supply_chain_volatility'' then f64_of_int (SupplyChainVolatility ctx)
      else if key = ''rough_inspection_latency'' then f64_of_int (RoughInspectionLatency ctx)
      else if key = ''final_inspection_latency'' then f64_of_int (FinalInspectionLatency ctx)
      else 0)"

definition applyMultiplierFormula :: "f64 \<Rightarrow> f64 \<Rightarrow> string \<Rightarrow> f64" where
  "applyMultiplierFormula value weight formula =
     (if formula = ''linear'' then fadd 1 (fmul value weight)
      else if formula = ''scaled'' then fadd 1 (fmul (fdiv (fsub value 2000) 10000) weight)
      else if formula = ''step'' then fadd 1 (fmul (fsub value 1) weight)
      else fadd 1 (fmul value weight))"

definition applicable :: "WBSTask \<Rightarrow> ProjectContext \<Rightarrow> DurationMultiplier \<Rightarrow> bool" where
  "applicable task ctx mult \<longleftrightarrow>
     (dm_WBSTaskCode mult = ''*'' \<or> dm_WBSTaskCode mult = wt_Code task) \<and>
     getContextVariable ctx (dm_VariableKey mult) \<noteq> 0"

definition adjustment :: "ProjectContext \<Rightarrow> DurationMultiplier \<Rightarrow> f64" where
  "adjustment ctx mult =
     applyMultiplierFormula (getContextVariable ctx (dm_VariableKey mult)) (dm_Weight mult) (dm_MultiplierFormula mult)"

definition weather_task :: "string \<Rightarrow> f64 \<Rightarrow> ProjectTask" where
  "weather_task code days = zero_task\<lparr>pt_WBSCode := code, pt_CalculatedDuration := days\<rparr>"

definition CalculateTaskDuration :: "(f64 \<Rightarrow> f64 \<Rightarrow> f64) \<Rightarrow> WBSTask \<Rightarrow> f64 \<Rightarrow> ProjectContext \<Rightarrow>
    DurationMultiplier list \<Rightarrow> Forecast \<Rightarrow> PhysicsConfig \<Rightarrow> f64" where
  "CalculateTaskDuration pow task gsf ctx multipliers forecast cfg =
     (let saf = (if wt_IsInspection task then 1 else CalculateSAF pow gsf cfg);
          base0 = fmul (wt_BaseDurationDays task) saf;
          base1 = fold (\<lambda>mult base. if applicable task ctx mult then fmul base (adjustment ctx mult) else base)
                    multipliers base0;
          base2 = ApplyWeatherAdjustment (weather_task (wt_Code task) base1) forecast
      in fdiv (math_ceil (fmul base2 2)) 2)"

definition scale_nanos :: "int \<Rightarrow> int \<Rightarrow> int" where
  "scale_nanos nanos scaled = quot (wrap64 (nanos * scaled)) 1000"

definition nanos_of_days :: "f64 \<Rightarrow> int" where
  "nanos_of_days days = int64_of_f64 (fmul days (f64_of_int day24))"

definition round_up_half_day :: "int \<Rightarrow> duration" where
  "round_up_half_day nanos =
     (let remainder = qrem nanos HalfDay
      in if remainder > 0 then wrap64 (nanos + (HalfDay - remainder)) else nanos)"

definition scaled_nanos :: "(f64 \<Rightarrow> f64 \<Rightarrow> f64) \<Rightarrow> WBSTask \<Rightarrow> f64 \<Rightarrow> ProjectContext \<Rightarrow>
    DurationMultiplier list \<Rightarrow> PhysicsConfig \<Rightarrow> int" where
  "scaled_nanos pow task gsf ctx multipliers cfg =
     (let safScaled = (if wt_IsInspection task then 1000 else CalculateSAFScaled pow gsf cfg)
      in fold (\<lambda>mult nanos. if applicable task ctx mult
             then scale_nanos nanos (int64_of_f64 (math_round (fmul (adjustment ctx mult) 1000))) else nanos)
           multipliers (scale_nanos (nanos_of_days (wt_BaseDurationDays task)) safScaled))"

definition DurationToDays :: "duration \<Rightarrow> f64" where
  "DurationToDays d = fdiv (f64_of_int d) (f64_of_int day24)"

definition CalculateTaskDurationV2 :: "(f64 \<Rightarrow> f64 \<Rightarrow> f64) \<Rightarrow> WBSTask \<Rightarrow> f64 \<Rightarrow> ProjectContext \<Rightarrow>
    DurationMultiplier list \<Rightarrow> Forecast \<Rightarrow> PhysicsConfig \<Rightarrow> duration" where
  "CalculateTaskDurationV2 pow task gsf ctx multipliers forecast cfg =
     (let baseNanos = scaled_nanos pow task gsf ctx multipliers cfg;
          adjustedDays = ApplyWeatherAdjustment (weather_task (wt_Code task) (DurationToDays baseNanos)) forecast
      in round_up_half_day (nanos_of_days adjustedDays))"

definition DaysToDuration :: "f64 \<Rightarrow> duration" where
  "DaysToDuration days =
     (let nanos = nanos_of_days days; precision = WorkDayPrecision; remainder = qrem nanos precision
      in if remainder \<ge> quot precision 2 then wrap64 (nanos + (precision - remainder))
         else wrap64 (nanos - remainder))"

record DHSMResult =
  dr_WBSCode :: string
  dr_BaseDuration :: f64
  dr_CalculatedDuration :: f64

record DHSMResultV2 =
  dr2_WBSCode :: string
  dr2_BaseDuration :: duration
  dr2_CalculatedDuration :: duration

definition CalculateBatchDurations where
  "CalculateBatchDurations pow tasks gsf ctx multipliers forecast cfg =
     map (\<lambda>task. \<lparr>dr_WBSCode = wt_Code task, dr_BaseDuration = wt_BaseDurationDays task,
        dr_CalculatedDuration = CalculateTaskDuration pow task gsf ctx multipliers forecast cfg\<rparr>) tasks"

definition CalculateBatchDurationsV2 where
  "CalculateBatchDurationsV2 pow tasks gsf ctx multipliers forecast cfg =
     map (\<lambda>task. \<lparr>dr2_WBSCode = wt_Code task, dr2_BaseDuration = DaysToDuration (wt_BaseDurationDays task),
        dr2_CalculatedDuration = CalculateTaskDurationV2 pow task gsf ctx multipliers forecast cfg\<rparr>) tasks"

section \<open>Rounding\<close>

lemma weather_multiplier_ge_1: "1 \<le> weather_multiplier f"
proof -
  have step: "1 \<le> m \<Longrightarrow> 1 \<le> c \<Longrightarrow> 1 \<le> fmul m c" for m c :: rat
    unfolding fmul_def using mult_mono [of 1 m 1 c] representable_int [of 1] by (intro fl_ge) auto
  have c: "1 \<le> fl (115 / 100)" "1 \<le> fl (125 / 100)" "1 \<le> fl (110 / 100)"
    using representable_int [of 1] by (auto intro!: fl_ge)
  show ?thesis unfolding weather_multiplier_def Let_def using step c by (auto split: if_splits)
qed

lemma round_up_half_day_spec:
  assumes "0 \<le> n" "n \<le> 2 ^ 62"
  shows "round_up_half_day n mod HalfDay = 0 \<and> n \<le> round_up_half_day n \<and> round_up_half_day n < n + HalfDay"
proof -
  have h: "HalfDay = 14400000000000" by (simp add: HalfDay_def duration_units)
  have r: "qrem n HalfDay = n mod HalfDay" using assms(1) by (simp add: qrem_nonneg h)
  have m: "0 \<le> n mod HalfDay" "n mod HalfDay < HalfDay" by (simp_all add: h)
  show ?thesis
  proof (cases "n mod HalfDay = 0")
    case False
    have w: "wrap64 (n + (HalfDay - n mod HalfDay)) = n + (HalfDay - n mod HalfDay)"
    proof (rule wrap64_id)
      have "(2 :: int) ^ 62 = 4611686018427387904" "(2 :: int) ^ 63 = 9223372036854775808" by simp_all
      then show "in_int64 (n + (HalfDay - n mod HalfDay))" unfolding in_int64_def using assms m h by linarith
    qed
    have "n + (HalfDay - n mod HalfDay) = HalfDay * (n div HalfDay + 1)"
      using minus_mult_div_eq_mod [of n HalfDay] by (simp add: algebra_simps)
    then have "(n + (HalfDay - n mod HalfDay)) mod HalfDay = 0" by simp
    then show ?thesis using False m w r by (simp add: round_up_half_day_def Let_def)
  qed (use r in \<open>simp add: round_up_half_day_def h Let_def\<close>)
qed

text \<open>
  Weather only ever lengthens: the adjusted duration of a task is at least its calculated
  duration, for every forecast, and equal to it for a task outside the weather-sensitive scope.
\<close>

theorem weather_never_shortens:
  assumes "representable (pt_CalculatedDuration task)" "0 \<le> pt_CalculatedDuration task"
  shows "pt_CalculatedDuration task \<le> ApplyWeatherAdjustment task forecast \<and>
    (\<not> isWeatherSensitive (pt_WBSCode task) \<longrightarrow> ApplyWeatherAdjustment task forecast = pt_CalculatedDuration task)"
  using fmul_ge_self [OF assms weather_multiplier_ge_1] by (simp add: ApplyWeatherAdjustment_def)

theorem weather_never_shortens_witness:
  "pt_CalculatedDuration (weather_task ''8.1'' 4) \<le>
     ApplyWeatherAdjustment (weather_task ''8.1'' 4) \<lparr>PrecipitationMM = 12, LowTempC = - 3, HighTempC = 2\<rparr>"
  using weather_never_shortens [of "weather_task ''8.1'' 4"] representable_int [of 4]
  by (simp add: weather_task_def zero_task_def)

text \<open>
  C36. The integer duration model returns a whole number of half days (4 hours), never below the
  weather-adjusted duration and less than half a day above it, for every size, context,
  multiplier list and power function, as long as that duration is non-negative and below 2^62 ns.
\<close>

theorem task_duration_half_days:
  assumes "n = nanos_of_days (ApplyWeatherAdjustment (weather_task (wt_Code task)
      (DurationToDays (scaled_nanos pow task gsf ctx multipliers cfg))) forecast)"
    and "0 \<le> n" "n \<le> 2 ^ 62"
  shows "CalculateTaskDurationV2 pow task gsf ctx multipliers forecast cfg mod HalfDay = 0 \<and>
    n \<le> CalculateTaskDurationV2 pow task gsf ctx multipliers forecast cfg \<and>
    CalculateTaskDurationV2 pow task gsf ctx multipliers forecast cfg < n + HalfDay"
  using round_up_half_day_spec [OF assms(2,3)] unfolding CalculateTaskDurationV2_def Let_def assms(1) .

definition sample_wbs :: WBSTask where
  "sample_wbs = \<lparr>wt_Code = ''11.2'', wt_Name = ''HVAC rough'', wt_BaseDurationDays = 3, wt_ResponsibleParty = [],
     wt_Deliverable = [], wt_PredecessorCodes = [], wt_IsInspection = True\<rparr>"

definition sample_context :: ProjectContext where
  "sample_context = \<lparr>SupplyChainVolatility = 2, RoughInspectionLatency = 0, FinalInspectionLatency = 0\<rparr>"

definition sample_multiplier :: DurationMultiplier where
  "sample_multiplier = \<lparr>dm_WBSTaskCode = ''*'', dm_VariableKey = ''supply_chain_volatility'',
     dm_Weight = 1 / 4, dm_MultiplierFormula = ''linear''\<rparr>"

definition sample_forecast :: Forecast where
  "sample_forecast = \<lparr>PrecipitationMM = 0, LowTempC = 5, HighTempC = 20\<rparr>"

definition sample_physics :: PhysicsConfig where
  "sample_physics = \<lparr>StandardHouseSizeSF = 0, SizeAdjustmentExponent = 0\<rparr>"

lemma sample_adjustment: "applicable sample_wbs sample_context sample_multiplier"
    "adjustment sample_context sample_multiplier = 3 / 2"
  by code_simp+

lemma sample_scaled: "scaled_nanos pow sample_wbs gsf sample_context [sample_multiplier] cfg = 388800000000000"
proof -
  have "scaled_nanos pow sample_wbs gsf sample_context [sample_multiplier] cfg =
      scale_nanos (scale_nanos (nanos_of_days 3) 1000) (int64_of_f64 (math_round (fmul (3 / 2) 1000)))"
    by (simp add: scaled_nanos_def sample_adjustment) (simp add: sample_wbs_def)
  also have "\<dots> = 388800000000000" by code_simp
  finally show ?thesis .
qed

theorem task_duration_half_days_witness:
  "CalculateTaskDurationV2 (\<lambda>_ _. 1) sample_wbs 2000 sample_context [sample_multiplier] sample_forecast sample_physics mod HalfDay = 0"
proof -
  let ?n = "nanos_of_days (ApplyWeatherAdjustment (weather_task (wt_Code sample_wbs)
      (DurationToDays (scaled_nanos (\<lambda>_ _. 1) sample_wbs 2000 sample_context [sample_multiplier] sample_physics))) sample_forecast)"
  have ins: "isWeatherSensitive (wt_Code sample_wbs) = False"
    by (simp add: isWeatherSensitive_def parse_float_def sample_wbs_def split_sign_def digits_def digit_val_def
        to_lower_def lower_char_def max_float_def f64_of_int_exact [unfolded f64_of_int_def, of 11, simplified])
  have "ApplyWeatherAdjustment (weather_task (wt_Code sample_wbs) x) sample_forecast = x" for x
    by (simp add: ApplyWeatherAdjustment_def weather_task_def ins zero_task_def)
  then have n: "?n = nanos_of_days (DurationToDays 388800000000000)" unfolding sample_scaled by simp
  have "nanos_of_days (DurationToDays 388800000000000) = 388800000000000" by code_simp
  then have "0 \<le> ?n \<and> ?n \<le> 2 ^ 62" unfolding n by simp
  then show ?thesis using task_duration_half_days [OF refl] by blast
qed

text \<open>
  \<open>DaysToDuration\<close> rounds to the nearest half hour: for non-negative nanoseconds the result is a
  multiple of 30 minutes at most 15 minutes away.
\<close>

theorem days_to_duration_nearest:
  assumes "0 \<le> nanos_of_days days" "nanos_of_days days \<le> 2 ^ 62"
  shows "DaysToDuration days mod WorkDayPrecision = 0 \<and>
    \<bar>DaysToDuration days - nanos_of_days days\<bar> \<le> 15 * minute"
proof -
  let ?n = "nanos_of_days days"
  have p: "WorkDayPrecision = 1800000000000" "quot WorkDayPrecision 2 = 900000000000" "15 * minute = 900000000000"
    by (simp_all add: WorkDayPrecision_def duration_units quot_def)
  define r where "r = ?n mod WorkDayPrecision"
  have r: "qrem ?n WorkDayPrecision = r" "0 \<le> r" "r < 1800000000000"
    using assms(1) by (simp_all add: r_def qrem_nonneg p)
  have w: "wrap64 (?n + (WorkDayPrecision - r)) = ?n + (WorkDayPrecision - r)" "wrap64 (?n - r) = ?n - r"
    using assms r p by (auto intro!: wrap64_id simp: in_int64_def)
  have "?n - r = WorkDayPrecision * (?n div WorkDayPrecision)" "?n + (WorkDayPrecision - r) = WorkDayPrecision * (?n div WorkDayPrecision + 1)"
    using minus_mult_div_eq_mod [of ?n WorkDayPrecision] by (simp_all add: r_def algebra_simps)
  then have m: "(?n - r) mod WorkDayPrecision = 0" "(?n + (WorkDayPrecision - r)) mod WorkDayPrecision = 0"
    by (simp_all only: mod_mult_self1_is_0)
  show ?thesis
  proof (cases "r \<ge> 900000000000")
    case True
    then have "DaysToDuration days = ?n + (WorkDayPrecision - r)"
      using w(1) r(1) p(2) by (simp add: DaysToDuration_def Let_def)
    then show ?thesis using m(2) True r p by simp
  next
    case False
    then have "DaysToDuration days = ?n - r"
      using w(2) r(1) p(2) by (simp add: DaysToDuration_def Let_def)
    then show ?thesis using m(1) False r p by simp
  qed
qed

theorem days_to_duration_nearest_witness:
  "DaysToDuration (1 / 16) mod WorkDayPrecision = 0"
proof -
  have "0 \<le> nanos_of_days (1 / 16)" "nanos_of_days (1 / 16) \<le> 2 ^ 62" by code_simp+
  then show ?thesis using days_to_duration_nearest by blast
qed

end
