(* ===== verification/Scoping.thy ===== *)
theory Scoping
  imports Models
begin

text \<open>
  The scoping engine of internal/physics/scoping.go: \<open>ApplyScope\<close> adapts the WBS template to a
  project by foundation, story, size, topography and progress rules, and the helpers that
  expand completed-phase wildcards. \<open>taskMap\<close> is a Go map the rules update and range over, here an
  association list. The properties say that the adapted template is well formed: every kept
  dependency joins kept tasks, codes stay distinct, and an acyclic template stays acyclic.
\<close>

type_synonym task_map = "(string \<times> WBSTask) list"

record ProjectScopeContext =
  FoundationType :: string
  Stories :: int
  GSF :: f64
  Bedrooms :: int
  Bathrooms :: int
  Topography :: string
  SoilConditions :: string
  CompletedWBSCodes :: "string list"
  CurrentPhase :: string

record ScopeChange =
  RuleApplied :: string
  TasksAdded :: "string list"
  TasksRemoved :: "string list"
  DurationAdjustments :: "(string \<times> f64) list"

definition newDep :: "string \<Rightarrow> string \<Rightarrow> WBSTemplateDep" where
  "newDep pred succ = \<lparr>wd_PredecessorCode = pred, wd_SuccessorCode = succ, wd_Type = DependencyTypeFS, wd_LagDays = 0\<rparr>"

definition trade_task :: "string \<Rightarrow> string \<Rightarrow> f64 \<Rightarrow> string list \<Rightarrow> WBSTask" where
  "trade_task code name days preds = \<lparr>wt_Code = code, wt_Name = name, wt_BaseDurationDays = days,
     wt_ResponsibleParty = ''Trade Partner'', wt_Deliverable = ''Work Completion'',
     wt_PredecessorCodes = preds, wt_IsInspection = False\<rparr>"

definition remove_codes :: "string list \<Rightarrow> task_map \<Rightarrow> task_map \<times> string list" where
  "remove_codes codes tm =
     fold (\<lambda>code (tm, removed). if mget tm code \<noteq> None then (mdel code tm, removed @ [code]) else (tm, removed))
       codes (tm, [])"

definition put_task :: "WBSTask \<Rightarrow> task_map \<Rightarrow> task_map" where
  "put_task t tm = mput (wt_Code t) t tm"

definition stretch :: "f64 \<Rightarrow> string \<Rightarrow> task_map \<times> (string \<times> f64) list \<Rightarrow> task_map \<times> (string \<times> f64) list" where
  "stretch factor code s =
     (case mget (fst s) code of
        Some t \<Rightarrow> (mput code (t\<lparr>wt_BaseDurationDays := fmul (wt_BaseDurationDays t) factor\<rparr>) (fst s),
                   mput code factor (snd s))
      | None \<Rightarrow> s)"

definition basement_tasks :: "WBSTask list" where
  "basement_tasks =
     [trade_task ''8.12'' ''Drain Tile Installation'' 2 [''8.6''],
      trade_task ''8.13'' ''Damp Proofing / Waterproofing'' 2 [''8.12''],
      trade_task ''8.14'' ''Basement Egress Window Installation'' 1 [''8.13'']]"

definition applyFoundationRules :: "task_map \<Rightarrow> ProjectScopeContext \<Rightarrow> task_map \<times> ScopeChange list" where
  "applyFoundationRules tm ctx =
     (let ft = to_lower (FoundationType ctx) in
      if ft = ''slab'' then
        (let (tm', removed) = remove_codes [''8.7'', ''8.8''] tm in
         (tm', if removed \<noteq> [] then
            [\<lparr>RuleApplied = ''foundation=slab: remove waterproofing/drain tasks'', TasksAdded = [],
              TasksRemoved = removed, DurationAdjustments = []\<rparr>] else []))
      else if ft = ''basement'' then
        (fold put_task basement_tasks tm,
         [\<lparr>RuleApplied = ''foundation=basement: add drain tile, damp proofing, egress tasks'',
           TasksAdded = map wt_Code basement_tasks, TasksRemoved = [], DurationAdjustments = []\<rparr>])
      else (tm, []))"

definition floor_task :: WBSTask where
  "floor_task = trade_task ''9.8'' ''Engineered Floor System Installation'' 3 [''9.1'']"

definition applyStoryRules :: "task_map \<Rightarrow> ProjectScopeContext \<Rightarrow> task_map \<times> ScopeChange list" where
  "applyStoryRules tm ctx =
     (if Stories ctx \<le> 0 then (tm, [])
      else
        let (tm1, changes1) =
          (if Stories ctx = 1 then
             (let (tmr, removed) = remove_codes [''9.2''] tm;
                  (tms, adjustments) = stretch (fl (7 / 10)) ''9.1'' (tmr, []) in
              (tms, if removed \<noteq> [] \<or> adjustments \<noteq> [] then
                 [\<lparr>RuleApplied = ''stories=1: remove second floor framing, reduce first floor framing 30%'',
                   TasksAdded = [], TasksRemoved = removed, DurationAdjustments = adjustments\<rparr>] else []))
           else (tm, []))
        in if Stories ctx \<ge> 3 then
             (let (tm2, adjustments) = fold (stretch (fl (13 / 10))) [''9.1'', ''9.2'', ''9.3'']
                    (put_task floor_task tm1, []) in
              (tm2, changes1 @
                 [\<lparr>RuleApplied = ''stories>=3: add engineered floor system, increase framing durations 30%'',
                   TasksAdded = [''9.8''], TasksRemoved = [], DurationAdjustments = adjustments\<rparr>]))
           else (tm1, changes1))"

definition site_task :: WBSTask where
  "site_task = trade_task ''7.5'' ''Extended Site Preparation (Large Footprint)'' 3 [''7.4'']"

definition applySizeRules :: "task_map \<Rightarrow> ProjectScopeContext \<Rightarrow> task_map \<times> ScopeChange list" where
  "applySizeRules tm ctx =
     (if GSF ctx \<le> 4000 then (tm, [])
      else (put_task site_task tm,
        [\<lparr>RuleApplied = ''gsf>4000: add extended site prep task'', TasksAdded = [''7.5''],
          TasksRemoved = [], DurationAdjustments = []\<rparr>]))"

definition retaining_task :: WBSTask where
  "retaining_task = trade_task ''7.6'' ''Retaining Wall Construction'' 5 [''7.4'']"

definition extend_foundation :: "string \<Rightarrow> task_map \<times> (string \<times> f64) list \<Rightarrow> task_map \<times> (string \<times> f64) list" where
  "extend_foundation code s =
     (if has_prefix code ''8.'' then
        (case mget (fst s) code of
           Some t \<Rightarrow> if \<not> wt_IsInspection t then stretch (fl (14 / 10)) code s else s
         | None \<Rightarrow> s)
      else s)"

definition applyTopographyRules :: "task_map \<Rightarrow> ProjectScopeContext \<Rightarrow> task_map \<times> ScopeChange list" where
  "applyTopographyRules tm ctx =
     (if to_lower (Topography ctx) \<noteq> ''hillside'' then (tm, [])
      else
        let tm1 = put_task retaining_task tm;
            (tm2, adjustments) = fold extend_foundation (mkeys tm1) (tm1, [])
        in (tm2, [\<lparr>RuleApplied = ''topography=hillside: add retaining wall, extend foundation durations 40%'',
              TasksAdded = [''7.6''], TasksRemoved = [], DurationAdjustments = adjustments\<rparr>]))"

text \<open>A completed-phase entry \<open>"5.x"\<close> stands for every code that starts with \<open>"5."\<close>.\<close>

definition expand_completed :: "string \<Rightarrow> string list \<Rightarrow> string list" where
  "expand_completed code codes =
     (if has_suffix code ''.x'' then filter (\<lambda>c. has_prefix c (trim_suffix code ''x'')) codes else [code])"

definition mark_completed :: "string \<Rightarrow> task_map \<times> string list \<Rightarrow> task_map \<times> string list" where
  "mark_completed code s =
     (case mget (fst s) code of
        Some t \<Rightarrow> (mput code (t\<lparr>wt_BaseDurationDays := 1 / 2\<rparr>) (fst s), snd s @ [code])
      | None \<Rightarrow> s)"

definition applyInProgressRules :: "task_map \<Rightarrow> ProjectScopeContext \<Rightarrow> task_map \<times> ScopeChange list" where
  "applyInProgressRules tm ctx =
     (if CompletedWBSCodes ctx = [] then (tm, [])
      else
        let completedSet = remdups (concat (map (\<lambda>code. expand_completed code (mkeys tm)) (CompletedWBSCodes ctx)));
            (tm', completed) = fold mark_completed completedSet (tm, [])
        in if completed = [] then (tm', [])
           else (tm', [\<lparr>RuleApplied = ''in-progress: mark completed tasks'', TasksAdded = [], TasksRemoved = [],
                  DurationAdjustments = [(''_completed_count'', f64_of_int (int (length completed)))]\<rparr>]))"

definition run_rules :: "task_map \<Rightarrow> ProjectScopeContext \<Rightarrow> task_map \<times> ScopeChange list" where
  "run_rules tm ctx =
     (let (tm1, c1) = applyFoundationRules tm ctx; (tm2, c2) = applyStoryRules tm1 ctx;
          (tm3, c3) = applySizeRules tm2 ctx; (tm4, c4) = applyTopographyRules tm3 ctx;
          (tm5, c5) = applyInProgressRules tm4 ctx
      in (tm5, c1 @ c2 @ c3 @ c4 @ c5))"

text \<open>The tasks that remain in template order, then the added ones in map order.\<close>

definition kept_and_added :: "WBSTask list \<Rightarrow> task_map \<Rightarrow> WBSTask list" where
  "kept_and_added tasks taskMap =
     List.map_filter (\<lambda>t. mget taskMap (wt_Code t)) tasks @
     map snd (filter (\<lambda>(code, t). code \<notin> set (map wt_Code tasks)) taskMap)"

definition added_deps :: "WBSTask list \<Rightarrow> task_map \<Rightarrow> WBSTemplateDep list" where
  "added_deps tasks taskMap =
     concat (map (\<lambda>(code, t). if code \<in> set (map wt_Code tasks) then []
       else map (\<lambda>predCode. newDep predCode code) (wt_PredecessorCodes t)) taskMap)"

definition valid_deps :: "WBSTask list \<Rightarrow> WBSTemplateDep list \<Rightarrow> WBSTemplateDep list" where
  "valid_deps result deps =
     (let validCodes = set (map wt_Code result)
      in filter (\<lambda>d. wd_PredecessorCode d \<in> validCodes \<and> wd_SuccessorCode d \<in> validCodes) deps)"

definition ApplyScope :: "WBSTask list \<Rightarrow> WBSTemplateDep list \<Rightarrow> ProjectScopeContext \<Rightarrow>
    WBSTask list \<times> WBSTemplateDep list \<times> ScopeChange list" where
  "ApplyScope tasks deps ctx =
     (let (taskMap, changes) = run_rules (fold put_task tasks []) ctx;
          deps' = deps @ added_deps tasks taskMap;
          result = kept_and_added tasks taskMap
      in (result, valid_deps result deps', changes))"

definition CompletedTaskCodes :: "string list \<Rightarrow> WBSTask list \<Rightarrow> string list" where
  "CompletedTaskCodes completedInput allTasks =
     (let allCodes = remdups (map wt_Code allTasks)
      in remdups (concat (map (\<lambda>code.
           if has_suffix code ''.x'' then filter (\<lambda>c. has_prefix c (trim_suffix code ''x'')) allCodes
           else if code \<in> set allCodes then [code] else []) completedInput)))"

definition IsTaskCompleted :: "string \<Rightarrow> string list \<Rightarrow> bool" where
  "IsTaskCompleted code completedCodes =
     list_ex (\<lambda>cc. cc = code \<or> (has_suffix cc ''.x'' \<and> has_prefix code (trim_suffix cc ''x''))) completedCodes"

section \<open>The task map stays well formed\<close>

text \<open>The codes the rules may add, each with its predecessors.\<close>

definition added_codes :: "(string \<times> string list) list" where
  "added_codes = [(''8.12'', [''8.6'']), (''8.13'', [''8.12'']), (''8.14'', [''8.13'']),
     (''9.8'', [''9.1'']), (''7.5'', [''7.4'']), (''7.6'', [''7.4''])]"

definition map_ok :: "string set \<Rightarrow> task_map \<Rightarrow> bool" where
  "map_ok orig tm \<longleftrightarrow> distinct (mkeys tm) \<and>
     (\<forall>(k, t)\<in>set tm. wt_Code t = k \<and> (k \<in> orig \<or> (k, wt_PredecessorCodes t) \<in> set added_codes))"

lemma map_ok_get: "map_ok orig tm \<Longrightarrow> mget tm k = Some t \<Longrightarrow>
    wt_Code t = k \<and> (k \<in> orig \<or> (k, wt_PredecessorCodes t) \<in> set added_codes)"
  by (auto simp: map_ok_def dest: map_of_SomeD)

lemma map_ok_get_iff: "map_ok orig tm \<longleftrightarrow> distinct (mkeys tm) \<and>
    (\<forall>k t. mget tm k = Some t \<longrightarrow> wt_Code t = k \<and> (k \<in> orig \<or> (k, wt_PredecessorCodes t) \<in> set added_codes))"
  by (fastforce simp: map_ok_def dest: map_of_SomeD)

lemma map_ok_mput:
  assumes "map_ok orig tm" "wt_Code t = k" "k \<in> orig \<or> (k, wt_PredecessorCodes t) \<in> set added_codes"
  shows "map_ok orig (mput k t tm)"
  using assms by (auto simp: map_ok_get_iff distinct_mput mget_mput)

lemma map_ok_mdel: "map_ok orig tm \<Longrightarrow> map_ok orig (mdel k tm)"
  by (auto simp: map_ok_get_iff distinct_mdel mget_mdel split: if_splits)

lemma map_ok_put_task: "map_ok orig tm \<Longrightarrow>
    wt_Code t \<in> orig \<or> (wt_Code t, wt_PredecessorCodes t) \<in> set added_codes \<Longrightarrow> map_ok orig (put_task t tm)"
  unfolding put_task_def by (rule map_ok_mput) auto

lemma map_ok_duration: "map_ok orig tm \<Longrightarrow> mget tm k = Some t \<Longrightarrow>
    map_ok orig (mput k (t\<lparr>wt_BaseDurationDays := d\<rparr>) tm)"
  using map_ok_get [of orig tm k t] by (intro map_ok_mput) auto

lemma map_ok_stretch: "map_ok orig (fst s) \<Longrightarrow> map_ok orig (fst (stretch f code s))"
  by (auto simp: stretch_def map_ok_duration split: option.splits)

lemma map_ok_remove: "map_ok orig tm \<Longrightarrow> map_ok orig (fst (remove_codes codes tm))"
proof -
  have "map_ok orig (fst s) \<Longrightarrow> map_ok orig (fst (fold (\<lambda>code (tm, removed).
      if mget tm code \<noteq> None then (mdel code tm, removed @ [code]) else (tm, removed)) codes s))" for s
    by (induction codes arbitrary: s) (auto simp: map_ok_mdel split: prod.splits)
  from this [of "(tm, [])"] show "map_ok orig tm \<Longrightarrow> map_ok orig (fst (remove_codes codes tm))"
    by (simp add: remove_codes_def)
qed

lemma map_ok_fold: "(\<And>c s. map_ok orig (fst s) \<Longrightarrow> map_ok orig (fst (f c s))) \<Longrightarrow> map_ok orig (fst s) \<Longrightarrow>
    map_ok orig (fst (fold f cs s))"
  by (induction cs arbitrary: s) auto

lemma map_ok_rules:
  assumes "map_ok orig tm"
  shows "map_ok orig (fst (applyFoundationRules tm ctx))" "map_ok orig (fst (applyStoryRules tm ctx))"
    "map_ok orig (fst (applySizeRules tm ctx))" "map_ok orig (fst (applyTopographyRules tm ctx))"
    "map_ok orig (fst (applyInProgressRules tm ctx))"
proof -
  show "map_ok orig (fst (applyFoundationRules tm ctx))"
    using assms map_ok_remove [OF assms, of "[''8.7'', ''8.8'']"]
    by (auto simp: applyFoundationRules_def Let_def basement_tasks_def trade_task_def added_codes_def
        intro!: map_ok_put_task split: prod.splits)
  have one: "map_ok orig (fst (stretch f code (fst (remove_codes [''9.2''] tm), [])))" for f code
    using map_ok_remove [OF assms, of "[''9.2'']"] by (intro map_ok_stretch) simp
  have floor: "map_ok orig (put_task floor_task tm)"
    by (rule map_ok_put_task [OF assms]) (simp add: floor_task_def trade_task_def added_codes_def)
  have three: "map_ok orig (fst (fold (stretch f) codes (put_task floor_task tm, [])))" for f codes
    by (rule map_ok_fold) (simp_all add: map_ok_stretch floor)
  show "map_ok orig (fst (applyStoryRules tm ctx))"
    using assms one three map_ok_remove [OF assms, of "[''9.2'']"]
    by (simp add: applyStoryRules_def Let_def case_prod_beta del: fold.simps)
  show "map_ok orig (fst (applySizeRules tm ctx))"
    using assms by (auto simp: applySizeRules_def site_task_def trade_task_def added_codes_def intro!: map_ok_put_task)
  have wall: "map_ok orig (put_task retaining_task tm)"
    by (rule map_ok_put_task [OF assms]) (simp add: retaining_task_def trade_task_def added_codes_def)
  have "map_ok orig (fst (fold extend_foundation codes (put_task retaining_task tm, [])))" for codes
    by (rule map_ok_fold) (simp_all add: wall extend_foundation_def map_ok_stretch split: option.splits)
  then show "map_ok orig (fst (applyTopographyRules tm ctx))"
    using assms by (simp add: applyTopographyRules_def Let_def case_prod_beta)
  have "map_ok orig (fst (fold mark_completed codes (tm, [])))" for codes
    by (rule map_ok_fold) (simp_all add: assms mark_completed_def map_ok_duration split: option.splits)
  then show "map_ok orig (fst (applyInProgressRules tm ctx))"
    using assms by (simp add: applyInProgressRules_def Let_def case_prod_beta)
qed

lemma map_ok_run_rules: "map_ok orig tm \<Longrightarrow> map_ok orig (fst (run_rules tm ctx))"
  unfolding run_rules_def Let_def case_prod_beta fst_conv by (intro map_ok_rules)

lemma map_ok_initial: "map_ok (set (map wt_Code tasks)) (fold put_task tasks [])"
proof -
  have "set ts \<subseteq> set tasks \<Longrightarrow> map_ok (set (map wt_Code tasks)) tm \<Longrightarrow>
      map_ok (set (map wt_Code tasks)) (fold put_task ts tm)" for ts tm
    by (induction ts arbitrary: tm) (auto simp: map_ok_put_task)
  from this [of tasks "[]"] show ?thesis by (simp add: map_ok_def)
qed

text \<open>The task map after all rules, and the parts of the result in terms of it.\<close>

definition scoped_map :: "WBSTask list \<Rightarrow> ProjectScopeContext \<Rightarrow> task_map" where
  "scoped_map tasks ctx = fst (run_rules (fold put_task tasks []) ctx)"

lemma scoped_map_ok: "map_ok (set (map wt_Code tasks)) (scoped_map tasks ctx)"
  unfolding scoped_map_def by (intro map_ok_run_rules map_ok_initial)

lemma ApplyScope_parts:
  assumes "ApplyScope tasks deps ctx = (result, deps', changes)"
  shows "result = kept_and_added tasks (scoped_map tasks ctx)"
    and "deps' = valid_deps result (deps @ added_deps tasks (scoped_map tasks ctx))"
  using assms by (auto simp: ApplyScope_def Let_def scoped_map_def case_prod_unfold)

lemma result_codes:
  assumes "ApplyScope tasks deps ctx = (result, deps', changes)" "distinct (map wt_Code tasks)"
  shows "distinct (map wt_Code result)" "set (map wt_Code result) = set (mkeys (scoped_map tasks ctx))"
proof -
  let ?m = "scoped_map tasks ctx" and ?o = "set (map wt_Code tasks)"
  have ok: "map_ok ?o ?m" by (rule scoped_map_ok)
  have code: "wt_Code t = k" if "(k, t) \<in> set ?m" for k t using ok that by (auto simp: map_ok_def)
  have kept: "map wt_Code (List.map_filter (\<lambda>t. mget ?m (wt_Code t)) ts) = filter (\<lambda>k. k \<in> set (mkeys ?m)) (map wt_Code ts)" for ts
  proof (induction ts)
    case (Cons t ts)
    show ?case
    proof (cases "mget ?m (wt_Code t)")
      case None
      then have "wt_Code t \<notin> set (mkeys ?m)" by (simp add: map_of_eq_None_iff)
      then show ?thesis using Cons None by simp
    next
      case (Some t')
      then have "wt_Code t' = wt_Code t" "wt_Code t \<in> set (mkeys ?m)"
        using map_ok_get [OF ok Some] map_of_eq_None_iff [of ?m "wt_Code t"] by auto
      then show ?thesis using Cons Some by simp
    qed
  qed simp
  have new: "map wt_Code (map snd (filter (\<lambda>(code, t). code \<notin> ?o) ?m)) = filter (\<lambda>k. k \<notin> ?o) (mkeys ?m)"
  proof -
    have "map wt_Code (map snd (filter (\<lambda>(code, t). code \<notin> ?o) xs)) = filter (\<lambda>k. k \<notin> ?o) (mkeys xs)"
      if "set xs \<subseteq> set ?m" for xs using that code by (induction xs) auto
    then show ?thesis by blast
  qed
  have all: "map wt_Code result = filter (\<lambda>k. k \<in> set (mkeys ?m)) (map wt_Code tasks) @ filter (\<lambda>k. k \<notin> ?o) (mkeys ?m)"
    unfolding ApplyScope_parts(1) [OF assms(1)] kept_and_added_def map_append kept new ..
  have "distinct (mkeys ?m)" using ok by (simp add: map_ok_def)
  then show "distinct (map wt_Code result)" unfolding all using assms(2) by auto
  show "set (map wt_Code result) = set (mkeys ?m)" unfolding all by auto
qed

section \<open>What scoping promises\<close>

text \<open>
  C37. The adapted template is closed: task codes stay distinct, every dependency that comes out
  joins two tasks that come out, no template dependency between two such tasks is dropped, and
  every dependency that is not from the template is a zero-lag finish-to-start link into a task
  the rules added.
\<close>

theorem scope_closed:
  assumes "ApplyScope tasks deps ctx = (result, deps', changes)" "distinct (map wt_Code tasks)"
  shows "distinct (map wt_Code result) \<and>
    (\<forall>d\<in>set deps'. wd_PredecessorCode d \<in> wt_Code ` set result \<and> wd_SuccessorCode d \<in> wt_Code ` set result) \<and>
    (\<forall>d\<in>set deps. wd_PredecessorCode d \<in> wt_Code ` set result \<longrightarrow> wd_SuccessorCode d \<in> wt_Code ` set result \<longrightarrow>
       d \<in> set deps') \<and>
    (\<forall>d\<in>set deps'. d \<notin> set deps \<longrightarrow> wd_SuccessorCode d \<notin> wt_Code ` set tasks \<and>
       wd_Type d = DependencyTypeFS \<and> wd_LagDays d = 0)"
  using result_codes(1) [OF assms] unfolding ApplyScope_parts(2) [OF assms(1)]
  by (auto simp: valid_deps_def added_deps_def newDep_def split: if_splits)

definition template_tasks :: "WBSTask list" where
  "template_tasks = [trade_task ''7.4'' ''Grading'' 2 [], trade_task ''8.6'' ''Backfill'' 2 [''7.4''],
     trade_task ''9.1'' ''First floor framing'' 6 [''8.6''], trade_task ''9.2'' ''Second floor framing'' 5 [''9.1'']]"

definition template_deps :: "WBSTemplateDep list" where
  "template_deps = [newDep ''7.4'' ''8.6'', newDep ''8.6'' ''9.1'', newDep ''9.1'' ''9.2'']"

definition hillside_basement :: ProjectScopeContext where
  "hillside_basement = \<lparr>FoundationType = ''Basement'', Stories = 3, GSF = 5200, Bedrooms = 4, Bathrooms = 3,
     Topography = ''hillside'', SoilConditions = [], CompletedWBSCodes = [''7.x''], CurrentPhase = []\<rparr>"

lemma template_distinct: "distinct (map wt_Code template_tasks)"
  by (simp add: template_tasks_def trade_task_def)

theorem scope_closed_witness:
  "distinct (map wt_Code (fst (ApplyScope template_tasks template_deps hillside_basement)))"
proof -
  obtain r d c where "ApplyScope template_tasks template_deps hillside_basement = (r, d, c)"
    by (metis prod_cases3)
  from scope_closed [OF this template_distinct] this show ?thesis by simp
qed

definition template_rel :: "WBSTemplateDep list \<Rightarrow> (string \<times> string) set" where
  "template_rel deps = {(wd_PredecessorCode d, wd_SuccessorCode d) |d. d \<in> set deps}"

lemma added_rel_acyclic: "acyclic {(p, k). \<exists>ps. (k, ps) \<in> set added_codes \<and> p \<in> set ps}"
proof -
  define r :: "string \<Rightarrow> nat" where
    "r k = (if k = ''8.12'' then 1 else if k = ''8.13'' then 2 else if k \<in> {''8.14'', ''9.8'', ''7.5'', ''7.6''} then 3 else 0)" for k
  have "\<forall>e\<in>set added_codes. \<forall>p\<in>set (snd e). r p < r (fst e)"
    by (simp add: added_codes_def r_def)
  then have less: "r p < r k" if "(k, ps) \<in> set added_codes" "p \<in> set ps" for k ps p
    using that by (metis fst_conv snd_conv)
  have "{(p, k). \<exists>ps. (k, ps) \<in> set added_codes \<and> p \<in> set ps} \<subseteq> measure r"
  proof
    fix e assume "e \<in> {(p, k). \<exists>ps. (k, ps) \<in> set added_codes \<and> p \<in> set ps}"
    then obtain p k ps where e: "e = (p, k)" "(k, ps) \<in> set added_codes" "p \<in> set ps" by blast
    show "e \<in> measure r" unfolding e(1) in_measure by (rule less [OF e(2,3)])
  qed
  then show ?thesis by (rule acyclic_subset [OF wf_acyclic [OF wf_measure]])
qed

text \<open>
  Scoping keeps the network schedulable: from a template whose dependencies join template
  tasks and are acyclic, every project gets acyclic dependencies.
\<close>

theorem scope_keeps_acyclic:
  assumes "ApplyScope tasks deps ctx = (result, deps', changes)"
    and "\<forall>d\<in>set deps. wd_PredecessorCode d \<in> wt_Code ` set tasks \<and> wd_SuccessorCode d \<in> wt_Code ` set tasks"
    and "acyclic (template_rel deps)"
  shows "acyclic (template_rel deps')"
proof -
  let ?m = "scoped_map tasks ctx" and ?o = "set (map wt_Code tasks)"
  let ?N = "{(p, k). k \<notin> ?o \<and> (\<exists>ps. (k, ps) \<in> set added_codes \<and> p \<in> set ps)}"
  have sub: "template_rel deps' \<subseteq> template_rel deps \<union> ?N"
  proof
    fix e assume "e \<in> template_rel deps'"
    then obtain d where d: "d \<in> set deps'" "e = (wd_PredecessorCode d, wd_SuccessorCode d)"
      by (auto simp: template_rel_def)
    then have "d \<in> set deps \<or> d \<in> set (added_deps tasks ?m)"
      unfolding ApplyScope_parts(2) [OF assms(1)] valid_deps_def Let_def by auto
    then show "e \<in> template_rel deps \<union> ?N"
    proof
      assume "d \<in> set (added_deps tasks ?m)"
      then obtain k t p where k: "(k, t) \<in> set ?m" "k \<notin> ?o" "p \<in> set (wt_PredecessorCodes t)" "d = newDep p k"
        by (auto simp: added_deps_def split: if_splits)
      then have "(k, wt_PredecessorCodes t) \<in> set added_codes"
        using scoped_map_ok [of tasks ctx] unfolding map_ok_def by blast
      then show ?thesis using k(2,3) unfolding d(2) k(4) newDep_def by auto
    qed (use d(2) in \<open>auto simp: template_rel_def\<close>)
  qed
  have fin: "finite (template_rel deps)"
  proof -
    have "template_rel deps = (\<lambda>d. (wd_PredecessorCode d, wd_SuccessorCode d)) ` set deps"
      by (auto simp: template_rel_def)
    then show ?thesis by simp
  qed
  have "finite {(p, k). \<exists>ps. (k, ps) \<in> set added_codes \<and> p \<in> set ps}"
    by (rule finite_subset [of _ "(\<Union>(k, ps)\<in>set added_codes. set ps \<times> {k})"]) auto
  then have "wf {(p, k). \<exists>ps. (k, ps) \<in> set added_codes \<and> p \<in> set ps}"
    using added_rel_acyclic by (rule finite_acyclic_wf)
  then have "wf ?N" by (rule wf_subset) auto
  moreover have "wf (template_rel deps)" using fin assms(3) by (rule finite_acyclic_wf)
  moreover have "Domain (template_rel deps) \<inter> Range ?N = {}"
    using assms(2) by (auto simp: template_rel_def)
  ultimately have "wf (template_rel deps \<union> ?N)" by (intro wf_Un)
  from wf_acyclic [OF wf_subset [OF this sub]] show ?thesis .
qed

theorem scope_keeps_acyclic_witness:
  "acyclic (template_rel (fst (snd (ApplyScope template_tasks template_deps hillside_basement))))"
proof -
  obtain r d c where r: "ApplyScope template_tasks template_deps hillside_basement = (r, d, c)"
    by (metis prod_cases3)
  define rank :: "string \<Rightarrow> nat" where
    "rank k = (if k = ''7.4'' then 0 else if k = ''8.6'' then 1 else if k = ''9.1'' then 2 else 3)" for k
  have "template_rel template_deps \<subseteq> measure rank"
    by (auto simp: template_rel_def template_deps_def newDep_def rank_def)
  then have "acyclic (template_rel template_deps)" by (rule acyclic_subset [OF wf_acyclic [OF wf_measure]])
  moreover have "\<forall>d\<in>set template_deps. wd_PredecessorCode d \<in> wt_Code ` set template_tasks \<and>
      wd_SuccessorCode d \<in> wt_Code ` set template_tasks"
    by (simp add: template_deps_def template_tasks_def newDep_def trade_task_def)
  ultimately show ?thesis using scope_keeps_acyclic [OF r] r by simp
qed

text \<open>
  The two readings of completed-phase codes agree: the codes \<open>CompletedTaskCodes\<close> expands from
  the input are, each once, exactly the task codes that \<open>IsTaskCompleted\<close> accepts for it.
\<close>

theorem completed_codes_agree:
  "set (CompletedTaskCodes input tasks) = {c \<in> wt_Code ` set tasks. IsTaskCompleted c input} \<and>
   distinct (CompletedTaskCodes input tasks)"
proof -
  have self: "has_prefix c (trim_suffix c ''x'')" if "has_suffix c ''.x''" for c
    unfolding trim_suffix_def has_prefix_def by simp
  have "c \<in> set (CompletedTaskCodes input tasks) \<longleftrightarrow> c \<in> wt_Code ` set tasks \<and> IsTaskCompleted c input" for c
  proof -
    have "c \<in> set (CompletedTaskCodes input tasks) \<longleftrightarrow> (\<exists>code\<in>set input. c \<in> wt_Code ` set tasks \<and>
        (if has_suffix code ''.x'' then has_prefix c (trim_suffix code ''x'') else c = code))"
      unfolding CompletedTaskCodes_def Let_def set_remdups set_concat set_map
      by (rule iffI; elim UN_E imageE bexE; force split: if_splits)
    moreover have "(if has_suffix code ''.x'' then has_prefix c (trim_suffix code ''x'') else c = code) \<longleftrightarrow>
        code = c \<or> (has_suffix code ''.x'' \<and> has_prefix c (trim_suffix code ''x''))" for code
      using self [of c] by auto
    ultimately show ?thesis by (simp add: IsTaskCompleted_def list_ex_iff)
  qed
  then show ?thesis by (auto simp: CompletedTaskCodes_def Let_def)
qed

end
