(* ===== verification/Breaker.thy ===== *)
theory Breaker
  imports Go_Time Prelude "HOL-Library.Multiset"
begin

text \<open>
  The circuit breakers of internal/connectors/breaker.go and internal/ai/resilience.go. Each
  operation takes the clock reading it makes (\<open>cfg.Now()\<close>) as an argument and runs under the
  breaker's mutex, so that concurrent calls are an interleaving of operations. \<open>gen\<close> is a uint64
  that counts state transitions; a wrap would take 2^64 of them, and it is a natural number here.
  The locale \<open>circuit\<close> holds what callers of a breaker rely on; both breakers interpret it.
\<close>

section \<open>Connector breaker\<close>

datatype breakerState = breakerClosed | breakerOpen | breakerHalfOpen

record BreakerConfig =
  FailureThreshold :: int
  FailureWindow :: duration
  OpenDuration :: duration

definition withDefaults :: "BreakerConfig \<Rightarrow> BreakerConfig" where
  "withDefaults c =
     (let c1 = (if FailureThreshold c \<le> 0 then c\<lparr>FailureThreshold := 5\<rparr> else c);
          c2 = (if FailureWindow c1 \<le> 0 then c1\<lparr>FailureWindow := 60 * second\<rparr> else c1)
      in if OpenDuration c2 \<le> 0 then c2\<lparr>OpenDuration := 30 * second\<rparr> else c2)"

record Breaker =
  br_cfg :: BreakerConfig
  br_state :: breakerState
  br_failures :: "gotime list"
  br_openedAt :: gotime
  br_probing :: bool
  br_gen :: nat

definition newBreaker :: "BreakerConfig \<Rightarrow> Breaker" where
  "newBreaker cfg = \<lparr>br_cfg = withDefaults cfg, br_state = breakerClosed, br_failures = [],
     br_openedAt = zero_time, br_probing = False, br_gen = 0\<rparr>"

definition Allow :: "gotime \<Rightarrow> Breaker \<Rightarrow> bool \<times> nat \<times> Breaker" where
  "Allow now b =
     (case br_state b of
        breakerClosed \<Rightarrow> (True, br_gen b, b)
      | breakerOpen \<Rightarrow>
          if time_sub now (br_openedAt b) \<ge> OpenDuration (br_cfg b)
          then (True, Suc (br_gen b), b\<lparr>br_state := breakerHalfOpen, br_probing := True, br_gen := Suc (br_gen b)\<rparr>)
          else (False, br_gen b, b)
      | breakerHalfOpen \<Rightarrow>
          if br_probing b then (False, br_gen b, b)
          else (True, br_gen b, b\<lparr>br_probing := True\<rparr>))"

definition RecordSuccess :: "nat \<Rightarrow> Breaker \<Rightarrow> Breaker" where
  "RecordSuccess gen b =
     (if gen \<noteq> br_gen b then b
      else if br_state b = breakerHalfOpen
      then b\<lparr>br_state := breakerClosed, br_probing := False, br_failures := [], br_gen := Suc (br_gen b)\<rparr>
      else b\<lparr>br_failures := []\<rparr>)"

definition RecordFailure :: "gotime \<Rightarrow> nat \<Rightarrow> Breaker \<Rightarrow> Breaker" where
  "RecordFailure now gen b =
     (if gen \<noteq> br_gen b then b
      else if br_state b = breakerHalfOpen
      then b\<lparr>br_state := breakerOpen, br_openedAt := now, br_probing := False, br_gen := Suc (br_gen b)\<rparr>
      else
        let cutoff = now - FailureWindow (br_cfg b);
            failures = dropWhile (\<lambda>t. t < cutoff) (br_failures b @ [now])
        in if int (length failures) \<ge> FailureThreshold (br_cfg b)
           then b\<lparr>br_state := breakerOpen, br_openedAt := now, br_failures := [], br_gen := Suc (br_gen b)\<rparr>
           else b\<lparr>br_failures := failures\<rparr>)"

text \<open>The registry: one breaker per key (organisation and endpoint), created on first use.\<close>

record BreakerRegistry =
  reg_cfg :: BreakerConfig
  reg_m :: "(string \<times> Breaker) list"

definition NewBreakerRegistry :: "BreakerConfig \<Rightarrow> BreakerRegistry" where
  "NewBreakerRegistry cfg = \<lparr>reg_cfg = withDefaults cfg, reg_m = []\<rparr>"

definition registry_Get :: "string \<Rightarrow> BreakerRegistry \<Rightarrow> Breaker \<times> BreakerRegistry" where
  "registry_Get key r =
     (case mget (reg_m r) key of
        Some b \<Rightarrow> (b, r)
      | None \<Rightarrow> (let b = newBreaker (reg_cfg r) in (b, r\<lparr>reg_m := mput key b (reg_m r)\<rparr>)))"

section \<open>AI client breaker\<close>

datatype circuitState = circuitClosed | circuitOpen | circuitHalfOpen

record CircuitConfig =
  cc_FailureThreshold :: int
  cc_FailureWindow :: duration
  cc_OpenDuration :: duration

definition cc_withDefaults :: "CircuitConfig \<Rightarrow> CircuitConfig" where
  "cc_withDefaults c =
     (let c1 = (if cc_FailureThreshold c \<le> 0 then c\<lparr>cc_FailureThreshold := 5\<rparr> else c);
          c2 = (if cc_FailureWindow c1 \<le> 0 then c1\<lparr>cc_FailureWindow := 60 * second\<rparr> else c1)
      in if cc_OpenDuration c2 \<le> 0 then c2\<lparr>cc_OpenDuration := 30 * second\<rparr> else c2)"

record circuitBreaker =
  cb_cfg :: CircuitConfig
  cb_state :: circuitState
  cb_failures :: "gotime list"
  cb_openedAt :: gotime
  cb_probeOutstand :: bool
  cb_generationSeed :: nat

definition newCircuitBreaker :: "CircuitConfig \<Rightarrow> circuitBreaker" where
  "newCircuitBreaker cfg = \<lparr>cb_cfg = cc_withDefaults cfg, cb_state = circuitClosed, cb_failures = [],
     cb_openedAt = zero_time, cb_probeOutstand = False, cb_generationSeed = 0\<rparr>"

definition allow :: "gotime \<Rightarrow> circuitBreaker \<Rightarrow> (bool \<times> nat \<times> duration) \<times> circuitBreaker" where
  "allow now cb =
     (case cb_state cb of
        circuitClosed \<Rightarrow> ((True, cb_generationSeed cb, 0), cb)
      | circuitOpen \<Rightarrow>
          if time_sub now (cb_openedAt cb) \<ge> cc_OpenDuration (cb_cfg cb)
          then ((True, Suc (cb_generationSeed cb), 0),
                cb\<lparr>cb_state := circuitHalfOpen, cb_probeOutstand := True, cb_generationSeed := Suc (cb_generationSeed cb)\<rparr>)
          else ((False, cb_generationSeed cb, time_sub (cb_openedAt cb + cc_OpenDuration (cb_cfg cb)) now), cb)
      | circuitHalfOpen \<Rightarrow>
          if cb_probeOutstand cb then ((False, cb_generationSeed cb, 0), cb)
          else ((True, cb_generationSeed cb, 0), cb\<lparr>cb_probeOutstand := True\<rparr>))"

definition recordSuccess :: "nat \<Rightarrow> circuitBreaker \<Rightarrow> circuitBreaker" where
  "recordSuccess gen cb =
     (if gen \<noteq> cb_generationSeed cb then cb
      else if cb_state cb = circuitHalfOpen
      then cb\<lparr>cb_state := circuitClosed, cb_probeOutstand := False, cb_failures := [],
             cb_generationSeed := Suc (cb_generationSeed cb)\<rparr>
      else cb\<lparr>cb_failures := []\<rparr>)"

definition recordFailure :: "gotime \<Rightarrow> nat \<Rightarrow> circuitBreaker \<Rightarrow> circuitBreaker" where
  "recordFailure now gen cb =
     (if gen \<noteq> cb_generationSeed cb then cb
      else if cb_state cb = circuitHalfOpen
      then cb\<lparr>cb_state := circuitOpen, cb_openedAt := now, cb_probeOutstand := False,
             cb_generationSeed := Suc (cb_generationSeed cb)\<rparr>
      else
        let cutoff = now - cc_FailureWindow (cb_cfg cb);
            failures = dropWhile (\<lambda>t. t < cutoff) (cb_failures cb @ [now])
        in if int (length failures) \<ge> cc_FailureThreshold (cb_cfg cb)
           then cb\<lparr>cb_state := circuitOpen, cb_openedAt := now, cb_failures := [],
                  cb_generationSeed := Suc (cb_generationSeed cb)\<rparr>
           else cb\<lparr>cb_failures := failures\<rparr>)"

definition snapshot :: "circuitBreaker \<Rightarrow> circuitState \<times> int" where
  "snapshot cb = (cb_state cb, int (length (cb_failures cb)))"

section \<open>Callers of a breaker\<close>

text \<open>
  Any number of concurrent calls: each asks for admission, keeps the generation it was given and
  reports one outcome with it, or gives up without a report. \<open>P\<close> holds the generations of the
  admitted calls that have not reported yet.
\<close>

inductive call_step :: "(gotime \<Rightarrow> 's \<Rightarrow> bool \<times> nat \<times> 's) \<Rightarrow> (nat \<Rightarrow> 's \<Rightarrow> 's) \<Rightarrow> (gotime \<Rightarrow> nat \<Rightarrow> 's \<Rightarrow> 's) \<Rightarrow>
    's \<times> nat multiset \<Rightarrow> 's \<times> nat multiset \<Rightarrow> bool"
  for admit :: "gotime \<Rightarrow> 's \<Rightarrow> bool \<times> nat \<times> 's" and good :: "nat \<Rightarrow> 's \<Rightarrow> 's" and bad :: "gotime \<Rightarrow> nat \<Rightarrow> 's \<Rightarrow> 's"
where
  admitted: "admit now s = (True, g, s') \<Longrightarrow> call_step admit good bad (s, P) (s', add_mset g P)"
| rejected: "admit now s = (False, g, s') \<Longrightarrow> call_step admit good bad (s, P) (s', P)"
| succeeded: "g \<in># P \<Longrightarrow> call_step admit good bad (s, P) (good g s, P - {#g#})"
| failed: "g \<in># P \<Longrightarrow> call_step admit good bad (s, P) (bad now g s, P - {#g#})"
| abandoned: "g \<in># P \<Longrightarrow> call_step admit good bad (s, P) (s, P - {#g#})"

definition call_reach :: "(gotime \<Rightarrow> 's \<Rightarrow> bool \<times> nat \<times> 's) \<Rightarrow> (nat \<Rightarrow> 's \<Rightarrow> 's) \<Rightarrow> (gotime \<Rightarrow> nat \<Rightarrow> 's \<Rightarrow> 's) \<Rightarrow>
    's \<Rightarrow> 's \<times> nat multiset \<Rightarrow> bool" where
  "call_reach admit good bad s0 c \<longleftrightarrow> (call_step admit good bad)\<^sup>*\<^sup>* (s0, {#}) c"

locale circuit =
  fixes admit :: "gotime \<Rightarrow> 's \<Rightarrow> bool \<times> nat \<times> 's"
    and good :: "nat \<Rightarrow> 's \<Rightarrow> 's"
    and bad :: "gotime \<Rightarrow> nat \<Rightarrow> 's \<Rightarrow> 's"
    and half :: "'s \<Rightarrow> bool"
    and probing :: "'s \<Rightarrow> bool"
    and gen :: "'s \<Rightarrow> nat"
  assumes admit_token: "admit now s = (True, g, s') \<Longrightarrow> g = gen s'"
    and admit_probe: "admit now s = (True, g, s') \<Longrightarrow> half s' \<Longrightarrow>
      probing s' \<and> (half s \<longrightarrow> \<not> probing s \<and> gen s' = gen s) \<and> (\<not> half s \<longrightarrow> gen s' = Suc (gen s))"
    and admit_closed: "admit now s = (True, g, s') \<Longrightarrow> \<not> half s' \<Longrightarrow> s' = s"
    and reject: "admit now s = (False, g, s') \<Longrightarrow> s' = s"
    and reject_probing: "half s \<Longrightarrow> probing s \<Longrightarrow> fst (admit now s) = False"
    and stale: "g \<noteq> gen s \<Longrightarrow> good g s = s" "g \<noteq> gen s \<Longrightarrow> bad now g s = s"
    and leaves_half: "\<not> half (good (gen s) s)" "\<not> half (bad now (gen s) s)"
    and gen_mono: "gen s \<le> gen (good g s)" "gen s \<le> gen (bad now g s)"
begin

definition calls_ok :: "'s \<times> nat multiset \<Rightarrow> bool" where
  "calls_ok c \<longleftrightarrow> (\<forall>g\<in>#snd c. g \<le> gen (fst c)) \<and>
     (half (fst c) \<longrightarrow> probing (fst c) \<and> count (snd c) (gen (fst c)) \<le> 1)"

lemma calls_ok_drop: "calls_ok (s, P) \<Longrightarrow> calls_ok (s, P - {#g#})"
  by (auto simp: calls_ok_def dest: in_diffD)

lemma calls_ok_step: "call_step admit good bad c c' \<Longrightarrow> calls_ok c \<Longrightarrow> calls_ok c'"
proof (induction rule: call_step.induct)
  case (admitted now s g s' P)
  have g: "g = gen s'" by (rule admit_token [OF admitted(1)])
  show ?case
  proof (cases "half s'")
    case True
    note p = admit_probe [OF admitted(1) True]
    then have nh: "\<not> half s" using admitted(2) by (auto simp: calls_ok_def)
    then have "gen s' = Suc (gen s)" using p by simp
    moreover from this have "count P (gen s') = 0"
      using admitted(2) by (fastforce simp: calls_ok_def count_eq_zero_iff)
    ultimately show ?thesis using admitted(2) p g by (auto simp: calls_ok_def)
  next
    case False
    then show ?thesis using admit_closed [OF admitted(1) False] admitted(2) g by (auto simp: calls_ok_def)
  qed
next
  case (rejected now s g s' P)
  then show ?case using reject by blast
next
  case (succeeded g P s)
  show ?case
  proof (cases "g = gen s")
    case True
    then show ?thesis using succeeded leaves_half(1) [of s] gen_mono(1) [of s g]
      by (auto simp: calls_ok_def dest!: in_diffD)
  qed (use succeeded stale(1) calls_ok_drop in auto)
next
  case (failed g P s now)
  show ?case
  proof (cases "g = gen s")
    case True
    then show ?thesis using failed leaves_half(2) [of now s] gen_mono(2) [of s now g]
      by (auto simp: calls_ok_def dest!: in_diffD)
  qed (use failed stale(2) calls_ok_drop in auto)
next
  case (abandoned g P s)
  then show ?case using calls_ok_drop by blast
qed

lemma calls_ok_reach: "call_reach admit good bad s0 c \<Longrightarrow> \<not> half s0 \<Longrightarrow> calls_ok c"
  unfolding call_reach_def
  by (induction rule: rtranclp_induct) (auto simp: calls_ok_def [of "(s0, {#})"] intro: calls_ok_step)

lemma one_probe:
  assumes "call_reach admit good bad s0 (s, P)" "\<not> half s0" "half s"
  shows "count P (gen s) \<le> 1 \<and> (\<forall>now. \<not> fst (admit now s))"
  using calls_ok_reach [OF assms(1,2)] assms(3) reject_probing by (auto simp: calls_ok_def)

end

lemmas breaker_defs = Allow_def RecordSuccess_def RecordFailure_def
lemmas circuit_defs = allow_def recordSuccess_def recordFailure_def

interpretation conn: circuit Allow RecordSuccess RecordFailure
  "\<lambda>b. br_state b = breakerHalfOpen" br_probing br_gen
  by unfold_locales (auto simp: breaker_defs Let_def split: breakerState.splits if_splits)

definition ai_admit :: "gotime \<Rightarrow> circuitBreaker \<Rightarrow> bool \<times> nat \<times> circuitBreaker" where
  "ai_admit now cb = (case allow now cb of ((ok, gen, openFor), cb') \<Rightarrow> (ok, gen, cb'))"

interpretation ai: circuit ai_admit recordSuccess recordFailure
  "\<lambda>cb. cb_state cb = circuitHalfOpen" cb_probeOutstand cb_generationSeed
  by unfold_locales (auto simp: ai_admit_def circuit_defs Let_def split: circuitState.splits if_splits)

section \<open>What the breakers promise\<close>

text \<open>
  C38. At most one half-open probe: however many callers interleave admission, outcome reports and
  abandonment, in a half-open connector breaker at most one admitted call of the current generation
  has not reported, and every further caller is rejected until it does.
\<close>

theorem connector_breaker_one_probe:
  assumes "call_reach Allow RecordSuccess RecordFailure (newBreaker cfg) (b, P)" "br_state b = breakerHalfOpen"
  shows "count P (br_gen b) \<le> 1 \<and> (\<forall>now. \<not> fst (Allow now b))"
  by (rule conn.one_probe [OF assms(1) _ assms(2)]) (simp add: newBreaker_def)

definition tripped :: Breaker where
  "tripped = \<lparr>br_cfg = withDefaults \<lparr>FailureThreshold = 1, FailureWindow = 0, OpenDuration = 0\<rparr>,
     br_state = breakerHalfOpen, br_failures = [], br_openedAt = 0, br_probing = True, br_gen = 2\<rparr>"

lemma tripped_reach:
  "call_reach Allow RecordSuccess RecordFailure (newBreaker \<lparr>FailureThreshold = 1, FailureWindow = 0, OpenDuration = 0\<rparr>)
     (tripped, {#2#})"
proof -
  let ?c = "\<lparr>FailureThreshold = 1, FailureWindow = 0, OpenDuration = 0\<rparr>"
  let ?step = "call_step Allow RecordSuccess RecordFailure"
  let ?b0 = "newBreaker ?c"
  let ?b1 = "?b0\<lparr>br_state := breakerOpen, br_openedAt := 0, br_gen := 1\<rparr>"
  have s1: "?step (?b0, {#}) (?b0, add_mset 0 {#})"
    by (rule admitted [of _ 0]) (simp add: Allow_def newBreaker_def)
  have s2: "?step (?b0, add_mset 0 {#}) (RecordFailure 0 0 ?b0, add_mset 0 {#} - {#0#})"
    by (rule failed) simp
  have b1: "RecordFailure 0 0 ?b0 = ?b1"
    by (simp add: RecordFailure_def newBreaker_def withDefaults_def duration_units Let_def)
  have s3: "?step (?b1, {#}) (tripped, add_mset 2 {#})"
    by (rule admitted [of _ "60 * second"])
      (simp add: Allow_def newBreaker_def tripped_def withDefaults_def duration_units time_sub_def Let_def numeral_2_eq_2)
  have s2': "?step (?b0, add_mset 0 {#}) (?b1, {#})" using s2 unfolding b1 by simp
  have "?step\<^sup>*\<^sup>* (?b0, {#}) (?b0, add_mset 0 {#})" using s1 by (rule r_into_rtranclp)
  then have "?step\<^sup>*\<^sup>* (?b0, {#}) (?b1, {#})" using s2' by (rule rtranclp.rtrancl_into_rtrancl)
  then have "?step\<^sup>*\<^sup>* (?b0, {#}) (tripped, {#2#})" using s3 by (rule rtranclp.rtrancl_into_rtrancl)
  then show ?thesis by (simp only: call_reach_def)
qed

theorem connector_breaker_one_probe_witness:
  "count {#2#} (br_gen tripped) \<le> 1 \<and> (\<forall>now. \<not> fst (Allow now tripped))"
  by (rule connector_breaker_one_probe [OF tripped_reach]) (simp add: tripped_def)

definition conn_state :: "circuitState \<Rightarrow> breakerState" where
  "conn_state st = (case st of circuitClosed \<Rightarrow> breakerClosed | circuitOpen \<Rightarrow> breakerOpen
     | circuitHalfOpen \<Rightarrow> breakerHalfOpen)"

definition conn_cfg :: "CircuitConfig \<Rightarrow> BreakerConfig" where
  "conn_cfg c = \<lparr>FailureThreshold = cc_FailureThreshold c, FailureWindow = cc_FailureWindow c,
     OpenDuration = cc_OpenDuration c\<rparr>"

definition conn_of :: "circuitBreaker \<Rightarrow> Breaker" where
  "conn_of cb = \<lparr>br_cfg = conn_cfg (cb_cfg cb), br_state = conn_state (cb_state cb), br_failures = cb_failures cb,
     br_openedAt = cb_openedAt cb, br_probing = cb_probeOutstand cb, br_gen = cb_generationSeed cb\<rparr>"

text \<open>
  The connector breaker is the AI breaker: mapping the AI client's breaker to the connector's, every
  operation of the one is the operation of the other, with the same answers, from construction on.
\<close>

theorem breakers_agree:
  "conn_of (newCircuitBreaker c) = newBreaker (conn_cfg c) \<and>
   Allow now (conn_of cb) = (fst (ai_admit now cb), fst (snd (ai_admit now cb)), conn_of (snd (snd (ai_admit now cb)))) \<and>
   RecordSuccess g (conn_of cb) = conn_of (recordSuccess g cb) \<and>
   RecordFailure now g (conn_of cb) = conn_of (recordFailure now g cb)"
proof (intro conjI)
  show "conn_of (newCircuitBreaker c) = newBreaker (conn_cfg c)"
    by (simp add: conn_of_def newCircuitBreaker_def newBreaker_def conn_state_def conn_cfg_def withDefaults_def
        cc_withDefaults_def Let_def)
  show "Allow now (conn_of cb) = (fst (ai_admit now cb), fst (snd (ai_admit now cb)), conn_of (snd (snd (ai_admit now cb))))"
    by (cases "cb_state cb") (auto simp: Allow_def ai_admit_def allow_def conn_of_def conn_state_def conn_cfg_def)
  show "RecordSuccess g (conn_of cb) = conn_of (recordSuccess g cb)"
    by (cases "cb_state cb") (auto simp: RecordSuccess_def recordSuccess_def conn_of_def conn_state_def)
  show "RecordFailure now g (conn_of cb) = conn_of (recordFailure now g cb)"
    by (cases "cb_state cb")
      (auto simp: RecordFailure_def recordFailure_def conn_of_def conn_state_def conn_cfg_def Let_def)
qed

lemma dropWhile_sorted: "sorted xs \<Longrightarrow> dropWhile (\<lambda>t. t < c) xs = filter (\<lambda>t. c \<le> t) (xs :: int list)"
proof (induction xs)
  case (Cons x xs)
  show ?case
  proof (cases "x < c")
    case False
    then have "filter (\<lambda>t. c \<le> t) xs = xs" using Cons.prems by (auto intro!: filter_True)
    then show ?thesis using False by simp
  qed (use Cons in simp)
qed simp

text \<open>
  Tripping and cooling down: a failure reported to a closed breaker by a current call opens it exactly
  when, with it, at least the threshold of failures lie in the rolling window (times in order),
  and otherwise keeps just those; an open breaker rejects every call until the open duration has
  passed and then admits one probe, after which it rejects again.
\<close>

theorem breaker_trips_and_cools:
  assumes "sorted (br_failures b @ [now])"
  shows "(br_state b = breakerClosed \<longrightarrow>
       (let recent = filter (\<lambda>t. now - FailureWindow (br_cfg b) \<le> t) (br_failures b @ [now]);
            b' = RecordFailure now (br_gen b) b
        in (br_state b' = breakerOpen \<longleftrightarrow> int (length recent) \<ge> FailureThreshold (br_cfg b)) \<and>
           (br_state b' \<noteq> breakerOpen \<longrightarrow> b' = b\<lparr>br_failures := recent\<rparr>) \<and>
           (br_state b' = breakerOpen \<longrightarrow> br_openedAt b' = now))) \<and>
    (br_state b = breakerOpen \<longrightarrow>
       (fst (Allow t b) \<longleftrightarrow> OpenDuration (br_cfg b) \<le> time_sub t (br_openedAt b)) \<and>
       (\<not> fst (Allow t b) \<longrightarrow> snd (snd (Allow t b)) = b) \<and>
       (fst (Allow t b) \<longrightarrow> \<not> fst (Allow t' (snd (snd (Allow t b))))))"
  using assms by (auto simp: RecordFailure_def Allow_def Let_def dropWhile_sorted)

theorem breaker_trips_and_cools_witness:
  "let b = newBreaker \<lparr>FailureThreshold = 2, FailureWindow = 0, OpenDuration = 0\<rparr>;
       b1 = RecordFailure 0 0 b
   in \<not> fst (Allow 5 (RecordFailure second 0 b1))"
proof -
  let ?b1 = "RecordFailure 0 0 (newBreaker \<lparr>FailureThreshold = 2, FailureWindow = 0, OpenDuration = 0\<rparr>)"
  have b1: "?b1 = (newBreaker \<lparr>FailureThreshold = 2, FailureWindow = 0, OpenDuration = 0\<rparr>)\<lparr>br_failures := [0]\<rparr>"
    by (simp add: RecordFailure_def newBreaker_def withDefaults_def duration_units Let_def)
  have "sorted (br_failures ?b1 @ [second])" unfolding b1 by (simp add: duration_units)
  from breaker_trips_and_cools [OF this] have "br_state (RecordFailure second 0 ?b1) = breakerOpen"
    unfolding b1 by (simp add: newBreaker_def withDefaults_def duration_units Let_def)
  moreover have "br_failures (RecordFailure second 0 ?b1) = []" "br_openedAt (RecordFailure second 0 ?b1) = second"
      "OpenDuration (br_cfg (RecordFailure second 0 ?b1)) = 30 * second"
    unfolding b1 by (simp_all add: RecordFailure_def newBreaker_def withDefaults_def duration_units Let_def)
  ultimately show ?thesis
    using breaker_trips_and_cools [of "RecordFailure second 0 ?b1" second 5]
    by (simp add: time_sub_def duration_units Let_def)
qed

end
