(* ===== verification/Authz.thy ===== *)
theory Authz
  imports Prelude
begin

text \<open>
  The role ladder of internal/authz/role.go and the route gates of
  internal/api/middleware/rbac.go. A gate is a function of the request method and the claims in
  the request context; it lets the request through or answers 401 or 403.
\<close>

definition RoleFieldWorker :: string where "RoleFieldWorker = ''field_worker''"
definition RoleSuperintendent :: string where "RoleSuperintendent = ''superintendent''"
definition RoleAdmin :: string where "RoleAdmin = ''admin''"
definition RoleOwner :: string where "RoleOwner = ''owner''"

lemmas role_names = RoleFieldWorker_def RoleSuperintendent_def RoleAdmin_def RoleOwner_def

definition rank :: "(string \<times> int) list" where
  "rank = [(RoleFieldWorker, 1), (RoleSuperintendent, 2), (RoleAdmin, 3), (RoleOwner, 4)]"

definition RoleRank :: "string \<Rightarrow> int" where
  "RoleRank role = (case mget rank role of Some r \<Rightarrow> r | None \<Rightarrow> 0)"

definition RoleAtLeast :: "string \<Rightarrow> string \<Rightarrow> bool" where
  "RoleAtLeast role minRole =
     (case (mget rank role, mget rank minRole) of (Some r, Some m) \<Rightarrow> r \<ge> m | _ \<Rightarrow> False)"

datatype gate = Serve | Unauthorized | Forbidden

record Claims =
  cl_Role :: string

definition RequireRole :: "string list \<Rightarrow> Claims option \<Rightarrow> gate" where
  "RequireRole allowedRoles claims =
     (case claims of None \<Rightarrow> Unauthorized
      | Some c \<Rightarrow> if \<not> list_ex (\<lambda>r. r = cl_Role c) allowedRoles then Forbidden else Serve)"

definition RequireMinRole :: "string \<Rightarrow> Claims option \<Rightarrow> gate" where
  "RequireMinRole minRole claims =
     (case claims of None \<Rightarrow> Unauthorized
      | Some c \<Rightarrow> if \<not> RoleAtLeast (cl_Role c) minRole then Forbidden else Serve)"

definition RequireWriteRole :: "string \<Rightarrow> Claims option \<Rightarrow> gate" where
  "RequireWriteRole meth claims =
     (if meth = ''GET'' \<or> meth = ''HEAD'' \<or> meth = ''OPTIONS'' then Serve
      else case claims of None \<Rightarrow> Unauthorized
        | Some c \<Rightarrow> if cl_Role c \<noteq> RoleOwner \<and> cl_Role c \<noteq> RoleAdmin then Forbidden else Serve)"

lemma rank_get: "mget rank role = Some r \<longleftrightarrow>
    (role = RoleFieldWorker \<and> r = 1) \<or> (role = RoleSuperintendent \<and> r = 2) \<or>
    (role = RoleAdmin \<and> r = 3) \<or> (role = RoleOwner \<and> r = 4)"
  by (auto simp: rank_def role_names)

lemma rank_pos: "mget rank role = Some r \<Longrightarrow> 0 < r"
  by (auto simp: rank_get)

lemma RoleAtLeast_iff: "RoleAtLeast role minRole \<longleftrightarrow>
    (\<exists>r m. mget rank role = Some r \<and> mget rank minRole = Some m \<and> m \<le> r)"
  by (auto simp: RoleAtLeast_def split: option.splits)

text \<open>
  The ladder: \<open>RoleAtLeast\<close> is a total order on the four roles (reflexive exactly on them,
  transitive, antisymmetric, total) and agrees with \<open>RoleRank\<close>; an unknown role meets no minimum and
  an unknown minimum is met by no role.
\<close>

theorem role_ladder_total_order:
  "(RoleAtLeast a a \<longleftrightarrow> a \<in> set (mkeys rank)) \<and>
   (RoleAtLeast a b \<longrightarrow> RoleAtLeast b c \<longrightarrow> RoleAtLeast a c) \<and>
   (RoleAtLeast a b \<longrightarrow> RoleAtLeast b a \<longrightarrow> a = b) \<and>
   (a \<in> set (mkeys rank) \<longrightarrow> b \<in> set (mkeys rank) \<longrightarrow> RoleAtLeast a b \<or> RoleAtLeast b a) \<and>
   (RoleAtLeast a b \<longleftrightarrow> RoleRank b \<noteq> 0 \<and> RoleRank b \<le> RoleRank a)"
proof (intro conjI impI)
  show "RoleAtLeast a a \<longleftrightarrow> a \<in> set (mkeys rank)"
    by (auto simp: RoleAtLeast_def rank_def role_names)
  show "RoleAtLeast a b \<Longrightarrow> RoleAtLeast b c \<Longrightarrow> RoleAtLeast a c"
    by (auto simp: RoleAtLeast_iff)
  show "RoleAtLeast a b \<Longrightarrow> RoleAtLeast b a \<Longrightarrow> a = b"
    by (auto simp: RoleAtLeast_iff rank_get) (simp_all add: role_names)
  show "a \<in> set (mkeys rank) \<Longrightarrow> b \<in> set (mkeys rank) \<Longrightarrow> RoleAtLeast a b \<or> RoleAtLeast b a"
    by (auto simp: RoleAtLeast_def rank_def role_names)
  show "RoleAtLeast a b \<longleftrightarrow> RoleRank b \<noteq> 0 \<and> RoleRank b \<le> RoleRank a"
    using rank_pos [of b] rank_pos [of a]
    by (cases "mget rank a"; cases "mget rank b") (auto simp: RoleAtLeast_def RoleRank_def)
qed

theorem role_ladder_total_order_witness:
  "RoleAtLeast RoleOwner RoleFieldWorker \<and> \<not> RoleAtLeast ''guest'' RoleFieldWorker"
  using role_ladder_total_order [of RoleOwner RoleFieldWorker RoleFieldWorker]
    role_ladder_total_order [of "''guest''" RoleFieldWorker RoleFieldWorker]
  by (simp add: RoleRank_def rank_def role_names)

lemma at_least_admin: "RoleAtLeast r RoleAdmin \<longleftrightarrow> r = RoleOwner \<or> r = RoleAdmin"
  by (simp add: RoleAtLeast_def rank_def role_names)

text \<open>
  The three gates agree on who may write: for a mutating request \<open>RequireWriteRole\<close>, the minimum role
  admin and the explicit pair owner and admin give the same answer for every claim, and none serves
  a request without claims.
\<close>

theorem write_gates_agree:
  "meth \<notin> {''GET'', ''HEAD'', ''OPTIONS''} \<Longrightarrow>
   RequireWriteRole meth claims = RequireMinRole RoleAdmin claims \<and>
   RequireWriteRole meth claims = RequireRole [RoleOwner, RoleAdmin] claims \<and>
   RequireWriteRole meth None = Unauthorized"
  by (cases claims) (simp_all add: RequireWriteRole_def RequireMinRole_def RequireRole_def at_least_admin eq_commute)

theorem write_gates_agree_witness:
  "RequireWriteRole ''POST'' (Some \<lparr>cl_Role = ''superintendent''\<rparr>) =
   RequireMinRole RoleAdmin (Some \<lparr>cl_Role = ''superintendent''\<rparr>)"
  using write_gates_agree [of "''POST''" "Some \<lparr>cl_Role = ''superintendent''\<rparr>"] by simp

end
