(* ===== verification/Currency.thy ===== *)
theory Currency
  imports Prelude
begin

text \<open>
  Money of internal/currency/currency.go: cents are an int64 whose sums wrap, the code a string.
\<close>

datatype currency_error = ErrCrossCurrency | ErrUnsupportedCurrency string

definition USD :: string where "USD = ''USD''"
definition CAD :: string where "CAD = ''CAD''"

definition Validate :: "string \<Rightarrow> currency_error + unit" where
  "Validate code = require_that (code = USD \<or> code = CAD) (ErrUnsupportedCurrency code)"

record Money =
  Cents :: int
  CurrencyCode :: string

definition money_New :: "int \<Rightarrow> string \<Rightarrow> currency_error + Money" where
  "money_New cents code = ebind (Validate code) (\<lambda>_. Inr \<lparr>Cents = cents, CurrencyCode = code\<rparr>)"

definition money_Zero :: "string \<Rightarrow> currency_error + Money" where
  "money_Zero code = money_New 0 code"

definition money_Add :: "Money \<Rightarrow> Money \<Rightarrow> currency_error + Money" where
  "money_Add m other =
     (if CurrencyCode m \<noteq> CurrencyCode other then Inl ErrCrossCurrency
      else Inr \<lparr>Cents = wrap64 (Cents m + Cents other), CurrencyCode = CurrencyCode m\<rparr>)"

definition money_Sub :: "Money \<Rightarrow> Money \<Rightarrow> currency_error + Money" where
  "money_Sub m other =
     (if CurrencyCode m \<noteq> CurrencyCode other then Inl ErrCrossCurrency
      else Inr \<lparr>Cents = wrap64 (Cents m - Cents other), CurrencyCode = CurrencyCode m\<rparr>)"

definition SameCurrency :: "Money \<Rightarrow> Money \<Rightarrow> bool" where
  "SameCurrency m other \<longleftrightarrow> CurrencyCode m \<noteq> [] \<and> CurrencyCode m = CurrencyCode other"

definition sum_step :: "Money \<Rightarrow> (string \<times> int) list \<Rightarrow> (string \<times> int) list" where
  "sum_step v out =
     (if CurrencyCode v = [] then out
      else mput (CurrencyCode v)
        (wrap64 ((case mget out (CurrencyCode v) of Some c \<Rightarrow> c | None \<Rightarrow> 0) + Cents v)) out)"

definition SumByCurrency :: "Money list \<Rightarrow> (string \<times> int) list" where
  "SumByCurrency vs = fold sum_step vs []"

definition cents_of :: "string \<Rightarrow> Money list \<Rightarrow> int" where
  "cents_of c vs = (\<Sum>v\<leftarrow>filter (\<lambda>v. CurrencyCode v = c) vs. Cents v)"

lemma cents_of_none: "\<not> (\<exists>v\<in>set vs. CurrencyCode v = c) \<Longrightarrow> cents_of c vs = 0"
  by (simp add: cents_of_def filter_False)

lemma cents_of_Cons: "cents_of c (v # vs) = (if CurrencyCode v = c then Cents v else 0) + cents_of c vs"
  by (simp add: cents_of_def)

lemma SumByCurrency_fold:
  "mget (fold sum_step vs out) c =
     (if c \<noteq> [] \<and> (\<exists>v\<in>set vs. CurrencyCode v = c)
      then Some (wrap64 ((case mget out c of Some x \<Rightarrow> x | None \<Rightarrow> 0) + cents_of c vs))
      else mget out c)"
proof (induction vs arbitrary: out)
  case (Cons v vs)
  show ?case
  proof (cases "CurrencyCode v = c \<and> c \<noteq> []")
    case True
    let ?x = "case mget out c of Some x \<Rightarrow> x | None \<Rightarrow> 0"
    have step: "mget (sum_step v out) c = Some (wrap64 (?x + Cents v))"
      using True by (simp add: sum_step_def mget_mput)
    have "mget (fold sum_step (v # vs) out) c = Some (wrap64 (wrap64 (?x + Cents v) + cents_of c vs))"
      using Cons.IH [of "sum_step v out"] True step cents_of_none [of vs c] by auto
    then show ?thesis using True by (simp add: wrap64_add_left cents_of_Cons add.assoc)
  next
    case False
    then have "mget (sum_step v out) c = mget out c" by (auto simp: sum_step_def mget_mput)
    then show ?thesis using Cons.IH [of "sum_step v out"] False by (auto simp: cents_of_Cons)
  qed
qed simp

text \<open>
  Totals per currency: \<open>SumByCurrency\<close> has an entry exactly for the non-empty codes that occur, and
  the entry is the 64-bit wrap of the true sum of that currency's cents, so it is that sum whenever
  the sum fits; no amount of one currency ever reaches the total of another.
\<close>

theorem sum_by_currency_exact:
  "mget (SumByCurrency vs) c =
     (if c \<noteq> [] \<and> (\<exists>v\<in>set vs. CurrencyCode v = c) then Some (wrap64 (cents_of c vs)) else None)"
  using SumByCurrency_fold [of vs "[]" c] by (simp add: SumByCurrency_def)

end
