(* ===== verification/Pii.thy ===== *)
theory Pii
  imports Go_Time
begin

text \<open>
  JSON values and the classification of internal/pii/pii.go: which fields are personal or confidential and how their
  values are masked before they leave the server or reach the audit log.
\<close>

section \<open>JSON values\<close>

text \<open>
  A value of Go's \<open>any\<close> as \<open>encoding/json\<close> reads or writes it. \<open>JUuid\<close> and \<open>JTime\<close> are the typed values that are written
  as text. The keys of an object are distinct and their order is of no account.
\<close>

datatype json =
    JNull
  | JBool bool
  | JStr string
  | JInt int
  | JFloat rat
  | JUuid uuid
  | JTime gotime
  | JList "json list"
  | JObject "(string \<times> json) list"

type_synonym payload = "(string \<times> json) list"

section \<open>Classes\<close>

definition Class_Public :: int where "Class_Public = 0"
definition Class_Internal :: int where "Class_Internal = 1"
definition Class_Confidential :: int where "Class_Confidential = 2"
definition Class_Restricted :: int where "Class_Restricted = 3"

lemmas class_defs = Class_Public_def Class_Internal_def Class_Confidential_def Class_Restricted_def

definition Class_String :: "int \<Rightarrow> string" where
  "Class_String c = (if c = Class_Public then ''public'' else if c = Class_Internal then ''internal''
     else if c = Class_Confidential then ''confidential'' else if c = Class_Restricted then ''restricted'' else ''unknown'')"

definition IsAtLeast :: "int \<Rightarrow> int \<Rightarrow> bool" where
  "IsAtLeast c threshold \<longleftrightarrow> threshold \<le> c"

definition redacted_mark :: string where "redacted_mark = ''[REDACTED]''"

text \<open>\<open>string(b)\<close> of a byte: the UTF-8 encoding of the code point with that number.\<close>

definition string_of_byte :: "char \<Rightarrow> string" where
  "string_of_byte c = (let n = of_char c :: nat in if n < 128 then [c] else [char_of (192 + n div 64), char_of (128 + n mod 64)])"

definition MaskString :: "string \<Rightarrow> int \<Rightarrow> string" where
  "MaskString s c =
     (if c = Class_Public \<or> c = Class_Internal then s
      else if c = Class_Confidential then
        (case s of [] \<Rightarrow> [] | b # rest \<Rightarrow> if rest = [] then ''*'' else string_of_byte b @ replicate (length rest) (CHR ''*''))
      else if c = Class_Restricted then (if s = [] then [] else redacted_mark)
      else redacted_mark)"

definition restricted_fields :: "string list" where
  "restricted_fields =
     [''email'', ''email_address'', ''phone'', ''phone_number'', ''first_name'', ''last_name'', ''display_name'', ''name'',
      ''address'', ''street_address'', ''gps_lat'', ''gps_lng'', ''oidc_subject'', ''sub'', ''user_sub'', ''ip_address'',
      ''remote_addr'', ''client_name'', ''client_email'', ''client_phone'', ''recipient_email'', ''password'', ''password_hash'',
      ''secret'', ''token'', ''access_token'', ''refresh_token'', ''reset_token'', ''token_hash'', ''api_key'', ''apikey'',
      ''private_key'', ''authorization'', ''jwt'', ''vault_key'']"

definition confidential_fields :: "string list" where
  "confidential_fields =
     [''message'', ''triage_note'', ''vendor_name'', ''invoice_number'', ''po_number'', ''project_name'', ''prospect_name'',
      ''contact_name'', ''company'', ''organization'', ''amount_cents'', ''total_cents'', ''cost_cents'', ''budget_cents'',
      ''price_cents'']"

definition internal_fields :: "string list" where
  "internal_fields = [''request_id'', ''trace_id'', ''span_id'', ''event_type'', ''action'', ''resource_id'', ''org_id'', ''id'']"

definition FieldClass :: "string \<Rightarrow> int option" where
  "FieldClass k = (if k \<in> set restricted_fields then Some Class_Restricted else if k \<in> set confidential_fields then Some Class_Confidential
     else if k \<in> set internal_fields then Some Class_Internal else None)"

definition ClassFor :: "string \<Rightarrow> int" where
  "ClassFor field = (case FieldClass (to_lower field) of Some c \<Rightarrow> c | None \<Rightarrow> Class_Internal)"

section \<open>Scrubbing\<close>

text \<open>A number, a boolean, a nil or another typed value of the field.\<close>

definition scrub_scalar :: "string \<Rightarrow> json \<Rightarrow> int \<Rightarrow> json" where
  "scrub_scalar field v threshold =
     (if IsAtLeast (ClassFor field) threshold then
        if ClassFor field = Class_Restricted then JStr redacted_mark
        else if ClassFor field = Class_Confidential then JStr ''[CONFIDENTIAL]'' else v
      else v)"

fun scrubValue :: "string \<Rightarrow> json \<Rightarrow> int \<Rightarrow> json" where
  "scrubValue field (JStr s) threshold =
     (if IsAtLeast (ClassFor field) threshold then JStr (MaskString s (ClassFor field)) else JStr s)"
| "scrubValue field (JObject m) threshold = JObject (List.map (\<lambda>(k, v). (k, scrubValue k v threshold)) m)"
| "scrubValue field (JList vs) threshold = JList (List.map (\<lambda>v. scrubValue field v threshold) vs)"
| "scrubValue field v threshold = scrub_scalar field v threshold"

definition ScrubMap :: "payload \<Rightarrow> int \<Rightarrow> payload" where
  "ScrubMap m threshold = List.map (\<lambda>(k, v). (k, scrubValue k v threshold)) m"

fun scrubAny :: "json \<Rightarrow> int \<Rightarrow> json" where
  "scrubAny (JObject m) threshold = JObject (ScrubMap m threshold)"
| "scrubAny (JList vs) threshold = JList (List.map (\<lambda>v. scrubAny v threshold) vs)"
| "scrubAny v threshold = v"

text \<open>
  \<open>json.Unmarshal\<close> into \<open>any\<close> turns every number into a \<open>float64\<close>, which \<open>json.Marshal\<close> prints again: \<open>num\<close> is what an
  integer becomes on the way.
\<close>

fun renumber :: "(int \<Rightarrow> int) \<Rightarrow> json \<Rightarrow> json" where
  "renumber num (JInt i) = JInt (num i)"
| "renumber num (JObject m) = JObject (List.map (\<lambda>(k, v). (k, renumber num v)) m)"
| "renumber num (JList vs) = JList (List.map (renumber num) vs)"
| "renumber num v = v"

text \<open>\<open>raw\<close> is the parsed text, \<open>None\<close> one that does not parse, which is returned as it came.\<close>

definition ScrubJSON :: "(int \<Rightarrow> int) \<Rightarrow> json option \<Rightarrow> int \<Rightarrow> json option" where
  "ScrubJSON num raw threshold = map_option (\<lambda>v. scrubAny (renumber num v) threshold) raw"

section \<open>What is left in the clear\<close>

text \<open>No value under a restricted key is legible, at any depth.\<close>

fun clean :: "string \<Rightarrow> json \<Rightarrow> bool" where
  "clean field (JStr s) \<longleftrightarrow> ClassFor field = Class_Restricted \<longrightarrow> s = [] \<or> s = redacted_mark"
| "clean field (JObject m) \<longleftrightarrow> list_all (\<lambda>(k, v). clean k v) m"
| "clean field (JList vs) \<longleftrightarrow> list_all (clean field) vs"
| "clean field v \<longleftrightarrow> ClassFor field \<noteq> Class_Restricted"

definition clean_payload :: "payload \<Rightarrow> bool" where
  "clean_payload m \<longleftrightarrow> list_all (\<lambda>(k, v). clean k v) m"

lemma clean_scalar: "clean field v \<Longrightarrow> clean field (scrub_scalar field v t)"
  by (auto simp: scrub_scalar_def class_defs)

lemma scrub_clean [simp]: "clean field (scrubValue field v Class_Restricted)"
  by (induction field v Class_Restricted rule: scrubValue.induct)
    (auto simp: scrub_scalar_def IsAtLeast_def MaskString_def list_all_iff class_defs)

lemma ScrubMap_clean: "clean_payload (ScrubMap m Class_Restricted)"
  by (auto simp: clean_payload_def ScrubMap_def list_all_iff)

lemma scrubAny_object: "scrubAny (JObject m) t = scrubValue field (JObject m) t"
  by (simp add: ScrubMap_def)

section \<open>What can be told from a scrubbed value\<close>

text \<open>
  Two values a reader of the scrubbed ones must not tell apart: they have the same keys and shapes, and differ only in
  leaves under restricted keys. An empty text stays empty and so is told from another.
\<close>

fun hidden_leaf :: "json \<Rightarrow> bool" where
  "hidden_leaf (JStr s) \<longleftrightarrow> s \<noteq> []"
| "hidden_leaf (JObject m) \<longleftrightarrow> False"
| "hidden_leaf (JList vs) \<longleftrightarrow> False"
| "hidden_leaf v \<longleftrightarrow> True"

inductive alike :: "string \<Rightarrow> json \<Rightarrow> json \<Rightarrow> bool" where
  same: "alike field v v"
| hidden: "ClassFor field = Class_Restricted \<Longrightarrow> hidden_leaf v \<Longrightarrow> hidden_leaf w \<Longrightarrow> alike field v w"
| object: "list_all2 (\<lambda>p q. fst p = fst q \<and> alike (fst p) (snd p) (snd q)) m m' \<Longrightarrow> alike field (JObject m) (JObject m')"
| items: "list_all2 (alike field) vs ws \<Longrightarrow> alike field (JList vs) (JList ws)"

lemma scrub_hidden: "ClassFor field = Class_Restricted \<Longrightarrow> hidden_leaf v \<Longrightarrow> scrubValue field v Class_Restricted = JStr redacted_mark"
  by (cases v) (auto simp: scrub_scalar_def IsAtLeast_def MaskString_def class_defs)

lemma alike_scrub: "alike field v w \<Longrightarrow> scrubValue field v Class_Restricted = scrubValue field w Class_Restricted"
proof (induction rule: alike.induct)
  case (object m m' field)
  then show ?case by (auto simp: list_all2_conv_all_nth case_prod_unfold intro!: nth_equalityI)
next
  case (items field vs ws)
  then show ?case by (auto simp: list_all2_conv_all_nth intro!: nth_equalityI)
qed (auto simp: scrub_hidden)

lemma ClassFor_Restricted: "Class_Restricted \<le> ClassFor field \<longleftrightarrow> ClassFor field = Class_Restricted"
  by (auto simp: ClassFor_def FieldClass_def class_defs split: option.splits if_splits)

lemma scrub_shape:
  "scrubValue field w c = JObject x \<Longrightarrow> \<exists>m. w = JObject m"
  "scrubValue field w c = JList y \<Longrightarrow> \<exists>vs. w = JList vs"
  by (cases w; auto simp: scrub_scalar_def split: if_splits)+

lemma scrub_leaf:
  assumes "\<And>m. v \<noteq> JObject m" "\<And>vs. v \<noteq> JList vs"
  shows "scrubValue field v Class_Restricted = (if ClassFor field = Class_Restricted \<and> hidden_leaf v then JStr redacted_mark else v)"
  using assms ClassFor_Restricted [of field]
  by (cases v) (auto simp: scrub_scalar_def IsAtLeast_def MaskString_def class_defs)

lemma alike_leaf:
  assumes "\<And>m. v \<noteq> JObject m" "\<And>vs. v \<noteq> JList vs"
    and eq: "scrubValue field v Class_Restricted = scrubValue field w Class_Restricted"
  shows "alike field v w"
proof -
  have v: "scrubValue field v Class_Restricted = (if ClassFor field = Class_Restricted \<and> hidden_leaf v then JStr redacted_mark else v)"
    by (rule scrub_leaf [OF assms(1,2)])
  have "w \<noteq> JObject m" for m using scrub_shape(1) [of field v Class_Restricted] eq assms(1) by fastforce
  moreover have "w \<noteq> JList vs" for vs using scrub_shape(2) [of field v Class_Restricted] eq assms(2) by fastforce
  ultimately have w: "scrubValue field w Class_Restricted = (if ClassFor field = Class_Restricted \<and> hidden_leaf w then JStr redacted_mark else w)"
    by (rule scrub_leaf)
  show ?thesis
  proof (cases "ClassFor field = Class_Restricted \<and> (hidden_leaf v \<or> hidden_leaf w)")
    case True
    have mark: "hidden_leaf (JStr redacted_mark)" by (simp add: redacted_mark_def)
    have "hidden_leaf v" using True eq v w mark by (cases "hidden_leaf v"; cases "hidden_leaf w") auto
    moreover have "hidden_leaf w" using True eq v w mark by (cases "hidden_leaf v"; cases "hidden_leaf w") auto
    ultimately show ?thesis using True by (intro alike.hidden) auto
  next
    case False
    then have "v = w" using eq v w by (auto split: if_splits)
    then show ?thesis by (simp add: alike.same)
  qed
qed

lemma scrub_alike: "scrubValue field v Class_Restricted = scrubValue field w Class_Restricted \<Longrightarrow> alike field v w"
proof (induction field v Class_Restricted arbitrary: w rule: scrubValue.induct)
  case (2 field m)
  obtain m' where w: "w = JObject m'" using scrub_shape(1) [OF 2(2) [symmetric, unfolded scrubValue.simps]] by blast
  have eq: "List.map (\<lambda>(k, v). (k, scrubValue k v Class_Restricted)) m = List.map (\<lambda>(k, v). (k, scrubValue k v Class_Restricted)) m'"
    using 2(2) w by simp
  have len: "length m = length m'" using arg_cong [OF eq, of length] by simp
  have "fst (m ! i) = fst (m' ! i) \<and> alike (fst (m ! i)) (snd (m ! i)) (snd (m' ! i))" if i: "i < length m" for i
  proof -
    have "(\<lambda>(k, v). (k, scrubValue k v Class_Restricted)) (m ! i) = (\<lambda>(k, v). (k, scrubValue k v Class_Restricted)) (m' ! i)"
      using arg_cong [OF eq, of "\<lambda>l. l ! i"] i len by simp
    then have keys: "fst (m ! i) = fst (m' ! i)"
      and "scrubValue (fst (m ! i)) (snd (m ! i)) Class_Restricted = scrubValue (fst (m' ! i)) (snd (m' ! i)) Class_Restricted"
      unfolding case_prod_unfold prod.inject by blast+
    then have "scrubValue (fst (m ! i)) (snd (m ! i)) Class_Restricted = scrubValue (fst (m ! i)) (snd (m' ! i)) Class_Restricted"
      by (simp only: keys)
    with keys show ?thesis using 2(1) [OF nth_mem [OF i] prod.collapse] by simp
  qed
  then show ?case unfolding w by (intro alike.object list_all2_all_nthI len) blast
next
  case (3 field vs)
  obtain ws where w: "w = JList ws" using scrub_shape(2) [OF 3(2) [symmetric, unfolded scrubValue.simps]] by blast
  have eq: "List.map (\<lambda>v. scrubValue field v Class_Restricted) vs = List.map (\<lambda>v. scrubValue field v Class_Restricted) ws"
    using 3(2) w by simp
  have len: "length vs = length ws" using arg_cong [OF eq, of length] by simp
  have "alike field (vs ! i) (ws ! i)" if i: "i < length vs" for i
    using arg_cong [OF eq, of "\<lambda>l. l ! i"] i len 3(1) [OF nth_mem [OF i]] by simp
  then show ?case unfolding w by (intro alike.items) (auto simp: list_all2_conv_all_nth len)
qed (rule alike_leaf; simp)+

text \<open>C0. Two payloads look the same after the scrub of the audit log exactly when they have the same keys and shapes and
  C40. differ only in leaves under restricted keys: no personal datum or secret can be told from what is stored, and nothing
  else is lost.\<close>

theorem scrub_hides_exactly_restricted:
  "scrubAny (JObject m) Class_Restricted = scrubAny (JObject m') Class_Restricted \<longleftrightarrow> alike [] (JObject m) (JObject m')"
  using scrub_alike alike_scrub unfolding scrubAny_object [of m _ "[]"] scrubAny_object [of m' _ "[]"] by blast

section \<open>Masks\<close>

lemma MaskString_length:
  "length (MaskString s Class_Confidential) = length s \<longleftrightarrow> length s \<le> 1 \<or> (of_char (hd s) :: nat) < 128"
  by (cases s) (auto simp: MaskString_def class_defs string_of_byte_def Let_def)

lemma scrub_idempotent: "scrubValue field (scrubValue field v Class_Restricted) Class_Restricted = scrubValue field v Class_Restricted"
proof (induction field v Class_Restricted rule: scrubValue.induct)
  case (2 field m)
  then show ?case by (auto simp: case_prod_unfold)
qed (auto simp: scrub_scalar_def IsAtLeast_def MaskString_def class_defs redacted_mark_def)

end
