(* ===== verification/Db.thy ===== *)
theory Db
  imports Pii
begin

text \<open>
  The database as the store layer sees it: sessions of one transaction, single-row queries,
  \<open>UPDATE ... RETURNING\<close>, \<open>INSERT ... RETURNING\<close> and \<open>pgx.BeginTxFunc\<close>, with the audit recorder
  of internal/service/audit.go and internal/store/audit.go on top.

  A table is the list of its rows in insertion order. Every statement carries the label that the
  Go code wraps its error with, and the environment says which statements fail at run time (a lost
  connection, a timeout, a constraint): a property that holds for every environment holds
  whatever fails. A failed statement aborts a Postgres transaction, so each later statement and
  the commit fail too. Transactions run one after the other, except where a theorem speaks of
  an interleaving.
\<close>

section \<open>Errors\<close>

text \<open>
  \<open>StoreNotFound\<close> is \<open>store.ErrNotFound\<close> and \<open>NotFound\<close> the service's \<open>ErrNotFound\<close>. \<open>InvalidInput\<close> carries
  the field it names, \<open>DbError\<close> the label the failing statement is wrapped with, \<open>UniqueViolation\<close>
  (Postgres error 23505) the constraint, \<open>Internal\<close> another error by the text it is wrapped with. \<open>Panicked\<close> is
  a Go panic, which rolls the transaction back and which the server's recovery middleware answers. The
  constructors after it are the sentinel errors of the services, identity and onboarding first.
\<close>

datatype svc_error =
    NotFound
  | InvalidInput string
  | InvalidTransition
  | TerminalStage
  | NotImplemented
  | StoreNotFound
  | UniqueViolation string
  | DbError string
  | CommitFailed
  | Internal string
  | Panicked
  | InvalidCredentials
  | InvalidRefreshToken
  | InvalidResetToken
  | FirstOwnerExists
  | InvalidBootstrapToken
  | SetupAlreadyComplete
  | BootstrapTokenExists
  | FeedCardNotFound
  | DuplicateActiveRiskCard
  | ProcurementItemNotFound
  | AIUnavailable
  | VendorReviewUnavailable
  | AIFailed
  | FleetAssetNotFound
  | AllocationConflict
  | IdempotencyConflict
  | PhotoLimit
  | InvalidPhotoAsset
  | StorageUnavailable
  | ReportsAIUnavailable
  | ClientUpdateAIUnavailable
  | NoClientContact
  | MailerUnconfigured
  | ClientUpdateSendFailed
  | AlreadySent
  | ShareLinkNotSent
  | InvalidShareToken
  | EmployeeNotFound
  | FeedbackRateLimited
  | SendFailed string

fun mapStoreError :: "svc_error \<Rightarrow> svc_error" where
  "mapStoreError StoreNotFound = NotFound"
| "mapStoreError (UniqueViolation c) = InvalidInput c"
| "mapStoreError e = e"

section \<open>The environment of a request\<close>

text \<open>A pointer field, and one with \<open>omitempty\<close>.\<close>

definition opt_json :: "('a \<Rightarrow> json) \<Rightarrow> 'a option \<Rightarrow> json" where
  "opt_json f x = (case x of None \<Rightarrow> JNull | Some y \<Rightarrow> f y)"

definition opt_field :: "string \<Rightarrow> ('a \<Rightarrow> json) \<Rightarrow> 'a option \<Rightarrow> payload" where
  "opt_field k f x = (case x of None \<Rightarrow> [] | Some y \<Rightarrow> [(k, f y)])"

text \<open>
  \<open>e_uuid k\<close> is the \<open>k\<close>-th value \<open>gen_random_uuid()\<close> returns in the transaction, \<open>e_now\<close> its \<open>now()\<close>;
  \<open>e_fail\<close> the statements that fail; \<open>e_commit_fails\<close> a failing COMMIT; \<open>e_riverWired\<close> whether the
  service was given a River client; \<open>e_number\<close> what an
  integer becomes when \<open>encoding/json\<close> reads it into a \<open>float64\<close> and prints it (itself, up to \<open>2 ^ 53\<close>).
\<close>

record env =
  e_now :: gotime
  e_uuid :: "nat \<Rightarrow> uuid"
  e_fail :: "string \<Rightarrow> bool"
  e_commit_fails :: bool
  e_riverWired :: bool
  e_request_id :: string
  e_number :: "int \<Rightarrow> int"

section \<open>Sessions and statements\<close>

record 'd session =
  s_db :: 'd
  s_draws :: nat
  s_aborted :: bool

type_synonym ('d, 'a) tx = "'d session \<Rightarrow> svc_error + ('a \<times> 'd session)"

definition tret :: "'a \<Rightarrow> ('d, 'a) tx" where
  "tret x s = Inr (x, s)"

definition tfail :: "svc_error \<Rightarrow> ('d, 'a) tx" where
  "tfail e s = Inl e"

definition tguard :: "bool \<Rightarrow> svc_error \<Rightarrow> ('d, unit) tx" where
  "tguard b e s = (if b then Inr ((), s) else Inl e)"

definition tbind :: "('d, 'a) tx \<Rightarrow> ('a \<Rightarrow> ('d, 'b) tx) \<Rightarrow> ('d, 'b) tx" where
  "tbind m f s = (case m s of Inl e \<Rightarrow> Inl e | Inr (x, s') \<Rightarrow> f x s')"

definition tlift :: "svc_error + 'a \<Rightarrow> ('d, 'a) tx" where
  "tlift r s = (case r of Inl err \<Rightarrow> Inl err | Inr x \<Rightarrow> Inr (x, s))"

text \<open>A statement: it fails when the transaction is already aborted or the environment says so.\<close>

definition stmt :: "env \<Rightarrow> string \<Rightarrow> ('d, 'a) tx \<Rightarrow> ('d, 'a) tx" where
  "stmt e label m s = (if s_aborted s \<or> e_fail e label then Inl (DbError label) else m s)"

definition select_all :: "env \<Rightarrow> string \<Rightarrow> ('d \<Rightarrow> 'r list) \<Rightarrow> ('d, 'r list) tx" where
  "select_all e label q = stmt e label (\<lambda>s. Inr (q (s_db s), s))"

definition select_one :: "env \<Rightarrow> string \<Rightarrow> ('d \<Rightarrow> 'r list) \<Rightarrow> ('r \<Rightarrow> bool) \<Rightarrow> ('d, 'r) tx" where
  "select_one e label tab P = stmt e label
     (\<lambda>s. case List.find P (tab (s_db s)) of None \<Rightarrow> Inl StoreNotFound | Some r \<Rightarrow> Inr (r, s))"

definition update_where :: "('r \<Rightarrow> bool) \<Rightarrow> ('r \<Rightarrow> 'r) \<Rightarrow> 'r list \<Rightarrow> 'r list" where
  "update_where P f rows = List.map (\<lambda>r. if P r then f r else r) rows"

definition update_returning ::
  "env \<Rightarrow> string \<Rightarrow> ('d \<Rightarrow> 'r list) \<Rightarrow> (('r list \<Rightarrow> 'r list) \<Rightarrow> 'd \<Rightarrow> 'd) \<Rightarrow>
   ('r \<Rightarrow> bool) \<Rightarrow> ('r \<Rightarrow> 'r) \<Rightarrow> ('d, 'r) tx" where
  "update_returning e label tab upd P f = stmt e label
     (\<lambda>s. case List.find P (tab (s_db s)) of
            None \<Rightarrow> Inl StoreNotFound
          | Some r \<Rightarrow> Inr (f r, s\<lparr>s_db := upd (update_where P f) (s_db s)\<rparr>))"

text \<open>An \<open>UPDATE\<close> run with \<open>Exec\<close>: no row is an update of none. \<open>ok\<close> are the column types of the new values.\<close>

definition update_exec ::
  "env \<Rightarrow> string \<Rightarrow> (('r list \<Rightarrow> 'r list) \<Rightarrow> 'd \<Rightarrow> 'd) \<Rightarrow> bool \<Rightarrow> ('r \<Rightarrow> bool) \<Rightarrow> ('r \<Rightarrow> 'r) \<Rightarrow> ('d, unit) tx" where
  "update_exec e label upd ok P f = stmt e label
     (\<lambda>s. if ok then Inr ((), s\<lparr>s_db := upd (update_where P f) (s_db s)\<rparr>) else Inl (DbError label))"

text \<open>An \<open>UPDATE\<close> whose caller looks at \<open>RowsAffected\<close>: \<open>ErrNotFound\<close> when there is none.\<close>

definition update_affected ::
  "env \<Rightarrow> string \<Rightarrow> ('d \<Rightarrow> 'r list) \<Rightarrow> (('r list \<Rightarrow> 'r list) \<Rightarrow> 'd \<Rightarrow> 'd) \<Rightarrow>
   ('d \<Rightarrow> bool) \<Rightarrow> ('r \<Rightarrow> bool) \<Rightarrow> ('r \<Rightarrow> 'r) \<Rightarrow> ('d, nat) tx" where
  "update_affected e label tab upd ok P f = stmt e label
     (\<lambda>s. let n = length (filter P (tab (s_db s))) in
          if n > 0 \<and> \<not> ok (s_db s) then Inl (DbError label)
          else Inr (n, s\<lparr>s_db := upd (update_where P f) (s_db s)\<rparr>))"

definition update_found ::
  "env \<Rightarrow> string \<Rightarrow> ('d \<Rightarrow> 'r list) \<Rightarrow> (('r list \<Rightarrow> 'r list) \<Rightarrow> 'd \<Rightarrow> 'd) \<Rightarrow>
   ('d \<Rightarrow> bool) \<Rightarrow> ('r \<Rightarrow> bool) \<Rightarrow> ('r \<Rightarrow> 'r) \<Rightarrow> ('d, unit) tx" where
  "update_found e label tab upd ok P f =
     tbind (update_affected e label tab upd ok P f) (\<lambda>n. tguard (n \<noteq> 0) StoreNotFound)"

text \<open>
  What callers do with \<open>store.ErrNotFound\<close>: return an error of their own, or go on another way. A query without
  rows does not abort the transaction.
\<close>

definition tmissing :: "svc_error \<Rightarrow> ('d, 'a) tx \<Rightarrow> ('d, 'a) tx" where
  "tmissing err m s = map_err (\<lambda>e. if e = StoreNotFound then err else e) (m s)"

definition tfound :: "('d, 'a) tx \<Rightarrow> ('d, 'b) tx \<Rightarrow> ('a \<Rightarrow> ('d, 'b) tx) \<Rightarrow> ('d, 'b) tx" where
  "tfound m missing f s = (case m s of
     Inl err \<Rightarrow> if err = StoreNotFound then missing s else Inl err
   | Inr (x, s') \<Rightarrow> f x s')"

text \<open>
  An insert draws the new row's id and checks it against the table's primary key and its unique
  constraint \<open>U old new\<close>; \<open>ok\<close> are the foreign keys and column types.
\<close>

definition insert_returning ::
  "env \<Rightarrow> string \<Rightarrow> ('d \<Rightarrow> 'r list) \<Rightarrow> (('r list \<Rightarrow> 'r list) \<Rightarrow> 'd \<Rightarrow> 'd) \<Rightarrow>
   ('d \<Rightarrow> bool) \<Rightarrow> ('r \<Rightarrow> uuid) \<Rightarrow> ('r \<Rightarrow> 'r \<Rightarrow> bool) \<Rightarrow> ('d \<Rightarrow> uuid \<Rightarrow> 'r) \<Rightarrow> ('d, 'r) tx" where
  "insert_returning e label tab upd ok rid U mk = stmt e label
     (\<lambda>s. let r = mk (s_db s) (e_uuid e (s_draws s)) in
          if \<not> ok (s_db s) then Inl (DbError label)
          else if \<exists>r'\<in>set (tab (s_db s)). rid r' = rid r \<or> U r' r then Inl (UniqueViolation label)
          else Inr (r, s\<lparr>s_db := upd (\<lambda>rows. rows @ [r]) (s_db s), s_draws := Suc (s_draws s)\<rparr>))"

text \<open>
  \<open>pgx.BeginTxFunc\<close>: a body that returns an error is rolled back; so is a body that succeeded in a
  transaction that a swallowed error has aborted, because its COMMIT turns into a ROLLBACK.
\<close>

definition BeginTxFunc :: "env \<Rightarrow> ('d, 'a) tx \<Rightarrow> 'd \<Rightarrow> (svc_error + 'a) \<times> 'd" where
  "BeginTxFunc e f d =
     (if e_fail e ''begin'' then (Inl (DbError ''begin''), d)
      else case f \<lparr>s_db = d, s_draws = 0, s_aborted = False\<rparr> of
             Inl err \<Rightarrow> (Inl err, d)
           | Inr (x, s) \<Rightarrow> if s_aborted s \<or> e_commit_fails e then (Inl CommitFailed, d)
                           else (Inr x, s_db s))"

text \<open>What a service returns: errors through \<open>mapStoreError\<close>.\<close>

definition mapped :: "(svc_error + 'a) \<times> 'd \<Rightarrow> (svc_error + 'a) \<times> 'd" where
  "mapped rd = (map_err mapStoreError (fst rd), snd rd)"

lemma tret_Inr [simp]: "tret x s = Inr (y, s') \<longleftrightarrow> y = x \<and> s' = s"
  by (auto simp: tret_def)

lemma tfail_Inr [simp]: "tfail e s \<noteq> Inr r"
  by (simp add: tfail_def)

lemma tguard_Inr [simp]: "tguard b e s = Inr (u, s') \<longleftrightarrow> b \<and> s' = s"
  by (auto simp: tguard_def)

lemma tlift_Inr [simp]: "tlift r s = Inr (x, s') \<longleftrightarrow> r = Inr x \<and> s' = s"
  by (auto simp: tlift_def split: sum.splits)

lemma tbind_Inr: "tbind m f s = Inr (y, s'') \<longleftrightarrow> (\<exists>x s'. m s = Inr (x, s') \<and> f x s' = Inr (y, s''))"
  by (auto simp: tbind_def split: sum.splits)

lemma stmt_Inr: "stmt e l m s = Inr r \<longleftrightarrow> \<not> s_aborted s \<and> \<not> e_fail e l \<and> m s = Inr r"
  by (simp add: stmt_def)

lemma select_all_Inr:
  "select_all e l q s = Inr (rs, s') \<longleftrightarrow>
     \<not> s_aborted s \<and> \<not> e_fail e l \<and> rs = q (s_db s) \<and> s' = s"
  by (auto simp: select_all_def stmt_Inr)

lemma select_one_Inr:
  "select_one e l tab P s = Inr (r, s') \<longleftrightarrow>
     \<not> s_aborted s \<and> \<not> e_fail e l \<and> List.find P (tab (s_db s)) = Some r \<and> s' = s"
  by (auto simp: select_one_def stmt_Inr split: option.splits)

lemma update_returning_Inr:
  "update_returning e l tab upd P f s = Inr (r', s') \<longleftrightarrow>
     \<not> s_aborted s \<and> \<not> e_fail e l \<and>
     (\<exists>r. List.find P (tab (s_db s)) = Some r \<and> r' = f r \<and>
          s' = s\<lparr>s_db := upd (update_where P f) (s_db s)\<rparr>)"
  by (auto simp: update_returning_def stmt_Inr split: option.splits)

lemma update_exec_Inr:
  "update_exec e l upd ok P f s = Inr (u, s') \<longleftrightarrow>
     \<not> s_aborted s \<and> \<not> e_fail e l \<and> ok \<and> s' = s\<lparr>s_db := upd (update_where P f) (s_db s)\<rparr>"
  by (auto simp: update_exec_def stmt_Inr)

lemma update_affected_Inr:
  "update_affected e l tab upd ok P f s = Inr (n, s') \<longleftrightarrow>
     \<not> s_aborted s \<and> \<not> e_fail e l \<and> n = length (filter P (tab (s_db s))) \<and> (n > 0 \<longrightarrow> ok (s_db s)) \<and>
     s' = s\<lparr>s_db := upd (update_where P f) (s_db s)\<rparr>"
  by (auto simp: update_affected_def stmt_Inr Let_def)

lemma update_found_Inr:
  "update_found e l tab upd ok P f s = Inr (u, s') \<longleftrightarrow>
     \<not> s_aborted s \<and> \<not> e_fail e l \<and> (\<exists>r\<in>set (tab (s_db s)). P r) \<and> ok (s_db s) \<and>
     s' = s\<lparr>s_db := upd (update_where P f) (s_db s)\<rparr>"
  by (auto simp: update_found_def tbind_Inr update_affected_Inr filter_empty_conv)

lemma tmissing_Inr [simp]: "tmissing err m s = Inr r \<longleftrightarrow> m s = Inr r"
  by (simp add: tmissing_def)

lemma tfound_Inr:
  "tfound m missing f s = Inr (y, s'') \<longleftrightarrow>
     m s = Inl StoreNotFound \<and> missing s = Inr (y, s'') \<or> (\<exists>x s'. m s = Inr (x, s') \<and> f x s' = Inr (y, s''))"
  by (auto simp: tfound_def split: sum.splits)

lemma insert_returning_Inr:
  "insert_returning e l tab upd ok rid U mk s = Inr (r, s') \<longleftrightarrow>
     \<not> s_aborted s \<and> \<not> e_fail e l \<and> r = mk (s_db s) (e_uuid e (s_draws s)) \<and> ok (s_db s) \<and>
     (\<forall>r'\<in>set (tab (s_db s)). rid r' \<noteq> rid r \<and> \<not> U r' r) \<and>
     s' = s\<lparr>s_db := upd (\<lambda>rows. rows @ [r]) (s_db s), s_draws := Suc (s_draws s)\<rparr>"
  by (auto simp: insert_returning_def stmt_Inr Let_def)

lemmas tx_elims = tbind_Inr select_all_Inr select_one_Inr update_returning_Inr insert_returning_Inr

lemma mapped_Inr: "mapped rd = (Inr x, d) \<longleftrightarrow> rd = (Inr x, d)"
  by (cases rd) (simp add: mapped_def)

lemma snd_mapped [simp]: "snd (mapped rd) = snd rd"
  by (simp add: mapped_def)

text \<open>A transaction either commits its body's final database or leaves the database alone.\<close>

lemma BeginTxFunc_Inr:
  "BeginTxFunc e f d = (Inr x, d') \<longleftrightarrow>
     \<not> e_fail e ''begin'' \<and> \<not> e_commit_fails e \<and>
     (\<exists>s. f \<lparr>s_db = d, s_draws = 0, s_aborted = False\<rparr> = Inr (x, s) \<and> \<not> s_aborted s \<and> d' = s_db s)"
  by (auto simp: BeginTxFunc_def split: sum.splits)

lemma BeginTxFunc_Inl: "BeginTxFunc e f d = (Inl err, d') \<Longrightarrow> d' = d"
  by (auto simp: BeginTxFunc_def split: sum.splits if_splits)

lemma BeginTxFunc_rollback: "fst (mapped (BeginTxFunc e f d)) = Inl err \<Longrightarrow> snd (BeginTxFunc e f d) = d"
  by (auto simp: BeginTxFunc_def mapped_def map_err_Inl split: sum.splits if_splits)

lemma mapped_rollback: "mapped (BeginTxFunc e f d) = (Inl err, d') \<Longrightarrow> d' = d"
  using BeginTxFunc_rollback [of e f d err] by (metis fst_conv snd_conv snd_mapped)

lemma BeginTxFunc_calm:
  assumes "f \<lparr>s_db = d, s_draws = 0, s_aborted = False\<rparr> = Inr (x, s)" "\<not> s_aborted s"
    and "\<not> e_fail e ''begin''" "\<not> e_commit_fails e"
  shows "BeginTxFunc e f d = (Inr x, s_db s)"
  using assms by (simp add: BeginTxFunc_def)

lemma BeginTxFunc_cases:
  assumes "BeginTxFunc e f d = (r, d')"
  obtains (commit) x s where "r = Inr x" "f \<lparr>s_db = d, s_draws = 0, s_aborted = False\<rparr> = Inr (x, s)"
      "\<not> s_aborted s" "d' = s_db s"
    | (rollback) err where "r = Inl err" "d' = d"
  using assms by (auto simp: BeginTxFunc_def split: sum.splits if_splits)

lemma snd_BeginTxFunc_inv:
  assumes "I d"
    and "\<And>x s. f \<lparr>s_db = d, s_draws = 0, s_aborted = False\<rparr> = Inr (x, s) \<Longrightarrow> \<not> s_aborted s \<Longrightarrow> I (s_db s)"
  shows "I (snd (BeginTxFunc e f d))"
  using assms by (auto simp: BeginTxFunc_def split: sum.splits)

lemma find_SomeD: "List.find P xs = Some x \<Longrightarrow> x \<in> set xs \<and> P x"
  using find_Some_iff_first by fast

lemma set_update_where: "set (update_where P f rows) = (\<lambda>r. if P r then f r else r) ` set rows"
  by (simp add: update_where_def)

lemma map_update_where:
  "(\<And>r. g (f r) = g r) \<Longrightarrow> List.map g (update_where P f rows) = List.map g rows"
  by (simp add: update_where_def)

section \<open>Two transactions at once\<close>

text \<open>
  Two requests that each read and then write, under READ COMMITTED: both read the database \<open>d\<close> before either
  writes, the first commits, then the second writes on what the first committed.
\<close>

definition read_write_race :: "env \<Rightarrow> ('d, 'a) tx \<Rightarrow> ('a \<Rightarrow> ('d, 'b) tx) \<Rightarrow> env \<Rightarrow> ('d, 'a) tx \<Rightarrow>
    ('a \<Rightarrow> ('d, 'b) tx) \<Rightarrow> 'd \<Rightarrow> (('b \<times> 'b) \<times> 'd) option" where
  "read_write_race e1 rd1 wr1 e2 rd2 wr2 d =
     (let s0 = \<lparr>s_db = d, s_draws = 0, s_aborted = False\<rparr> in
      case (rd1 s0, rd2 s0) of
        (Inr (a1, s1), Inr (a2, s2)) \<Rightarrow>
          (case wr1 a1 s1 of Inl _ \<Rightarrow> None
           | Inr (b1, t1) \<Rightarrow> if s_aborted t1 \<or> e_commit_fails e1 then None
               else (case wr2 a2 (s2\<lparr>s_db := s_db t1\<rparr>) of Inl _ \<Rightarrow> None
                     | Inr (b2, t2) \<Rightarrow> if s_aborted t2 \<or> e_commit_fails e2 then None
                         else Some ((b1, b2), s_db t2)))
      | _ \<Rightarrow> None)"

lemma race_Some:
  assumes "read_write_race e1 rd1 wr1 e2 rd2 wr2 d = Some ((b1, b2), d')"
  obtains a1 s1 a2 s2 t1 t2 where "rd1 \<lparr>s_db = d, s_draws = 0, s_aborted = False\<rparr> = Inr (a1, s1)"
    "rd2 \<lparr>s_db = d, s_draws = 0, s_aborted = False\<rparr> = Inr (a2, s2)" "wr1 a1 s1 = Inr (b1, t1)"
    "\<not> s_aborted t1" "wr2 a2 (s2\<lparr>s_db := s_db t1\<rparr>) = Inr (b2, t2)" "\<not> s_aborted t2" "d' = s_db t2"
  using assms by (auto simp: read_write_race_def Let_def split: sum.splits if_splits)

text \<open>An environment in which no statement fails.\<close>

definition healthy :: "env \<Rightarrow> bool" where
  "healthy e \<longleftrightarrow> (\<forall>l. \<not> e_fail e l) \<and> \<not> e_commit_fails e"

section \<open>Column types\<close>

definition int4_ok :: "int \<Rightarrow> bool" where
  "int4_ok x \<longleftrightarrow> - (2 ^ 31) \<le> x \<and> x < 2 ^ 31"

fun opt_ok :: "('a \<Rightarrow> bool) \<Rightarrow> 'a option \<Rightarrow> bool" where
  "opt_ok P None = True"
| "opt_ok P (Some x) = P x"

text \<open>A DATE column keeps the day of a \<open>time.Time\<close>, read back as midnight UTC.\<close>

definition to_date :: "gotime \<Rightarrow> gotime" where
  "to_date t = days_since_epoch t * day24"

text \<open>A TIMESTAMPTZ column keeps microseconds.\<close>

definition to_timestamptz :: "gotime \<Rightarrow> gotime" where
  "to_timestamptz t = t div 1000 * 1000"

fun coalesce :: "'a option \<Rightarrow> 'a \<Rightarrow> 'a" where
  "coalesce None old = old"
| "coalesce (Some x) old = x"

fun coalesce_opt :: "'a option \<Rightarrow> 'a option \<Rightarrow> 'a option" where
  "coalesce_opt None old = old"
| "coalesce_opt (Some x) old = Some x"

section \<open>The tables every domain shares\<close>

record Project =
  pj_ID :: uuid
  pj_OrgID :: uuid
  pj_Name :: string
  pj_Address :: "string option"
  pj_PermitIssuedDate :: "gotime option"
  pj_ProjectStartDate :: "gotime option"
  pj_Status :: string
  pj_GSF :: "int option"
  pj_ClientName :: "string option"
  pj_ClientEmail :: "string option"
  pj_ClientPhone :: "string option"
  pj_CreatedAt :: gotime
  pj_UpdatedAt :: gotime

record AuditEntry =
  ae_OrgID :: uuid
  ae_UserSub :: string
  ae_Action :: string
  ae_ResourceType :: string
  ae_ResourceID :: uuid
  ae_Before :: payload
  ae_After :: payload
  ae_Metadata :: payload

text \<open>A row of \<open>audit_log\<close>; nullable columns are options, a JSONB column is NULL for an empty payload.\<close>

record audit_row =
  al_ID :: uuid
  al_OrgID :: uuid
  al_UserSub :: "string option"
  al_Action :: string
  al_ResourceType :: string
  al_ResourceID :: uuid
  al_Before :: "payload option"
  al_After :: "payload option"
  al_Metadata :: "payload option"
  al_RequestID :: "string option"
  al_OccurredAt :: gotime

text \<open>River jobs, by their \<open>Kind()\<close> and arguments.\<close>

datatype river_job = HydrateProject uuid | DelayCascade uuid uuid

record core_db =
  db_orgs :: "uuid list"
  db_projects :: "Project list"
  db_audit :: "audit_row list"
  db_jobs :: "river_job list"

definition VerifyProjectInOrg :: "env \<Rightarrow> uuid \<Rightarrow> uuid \<Rightarrow> ('x core_db_scheme, unit) tx" where
  "VerifyProjectInOrg e projectID orgID =
     tbind (select_all e ''verify project in org'' db_projects) (\<lambda>rows.
       tguard (\<exists>p\<in>set rows. pj_ID p = projectID \<and> pj_OrgID p = orgID) StoreNotFound)"

text \<open>\<open>riverClient.InsertTx\<close> adds the job's row inside the transaction.\<close>

definition InsertTx :: "env \<Rightarrow> river_job \<Rightarrow> ('x core_db_scheme, unit) tx" where
  "InsertTx e job = stmt e ''enqueue''
     (\<lambda>s. Inr ((), s\<lparr>s_db := db_jobs_update (\<lambda>js. js @ [job]) (s_db s)\<rparr>))"

section \<open>The audit recorder\<close>

definition nullableJSON :: "payload \<Rightarrow> payload option" where
  "nullableJSON m = (if m = [] then None else Some m)"

definition opt_string :: "string \<Rightarrow> string option" where
  "opt_string s = (if s = [] then None else Some s)"

definition scrub_payload :: "env \<Rightarrow> payload \<Rightarrow> payload" where
  "scrub_payload e m = (if m = [] then []
     else case ScrubJSON (e_number e) (Some (JObject m)) Class_Restricted of Some (JObject m') \<Rightarrow> m' | _ \<Rightarrow> m)"

definition scrubAuditPayloads :: "env \<Rightarrow> AuditEntry \<Rightarrow> AuditEntry" where
  "scrubAuditPayloads e p = p\<lparr>ae_Before := scrub_payload e (ae_Before p),
     ae_After := scrub_payload e (ae_After p), ae_Metadata := scrub_payload e (ae_Metadata p)\<rparr>"

definition InsertAudit :: "env \<Rightarrow> AuditEntry \<Rightarrow> ('x core_db_scheme, audit_row) tx" where
  "InsertAudit e p0 =
     (let p = scrubAuditPayloads e p0 in
      insert_returning e ''insert audit_log'' db_audit db_audit_update
        (\<lambda>d. ae_OrgID p \<in> set (db_orgs d)) al_ID (\<lambda>_ _. False)
        (\<lambda>_ u. \<lparr>al_ID = u, al_OrgID = ae_OrgID p, al_UserSub = opt_string (ae_UserSub p),
           al_Action = ae_Action p, al_ResourceType = ae_ResourceType p,
           al_ResourceID = ae_ResourceID p, al_Before = nullableJSON (ae_Before p),
           al_After = nullableJSON (ae_After p), al_Metadata = nullableJSON (ae_Metadata p),
           al_RequestID = opt_string (e_request_id e), al_OccurredAt = e_now e\<rparr>))"

text \<open>
  \<open>AuditService.Record\<close> swallows the error of the insert; the failed statement leaves the
  transaction aborted.
\<close>

definition Record :: "env \<Rightarrow> AuditEntry \<Rightarrow> ('x core_db_scheme, unit) tx" where
  "Record e p s =
     (if ae_OrgID p = uuid_nil \<or> ae_Action p = [] \<or> ae_ResourceType p = [] \<or> ae_ResourceID p = uuid_nil
      then Inr ((), s)
      else case InsertAudit e p s of
             Inl err \<Rightarrow> Inr ((), s\<lparr>s_aborted := True\<rparr>)
           | Inr (row, s') \<Rightarrow> Inr ((), s'))"

text \<open>What a committed \<open>Record\<close> leaves: one more row of the audit log, carrying the entry.\<close>

definition audit_appended :: "AuditEntry \<Rightarrow> 'x core_db_scheme \<Rightarrow> 'x core_db_scheme \<Rightarrow> bool" where
  "audit_appended p d0 d \<longleftrightarrow> (\<exists>row. db_audit d = db_audit d0 @ [row] \<and>
     al_OrgID row = ae_OrgID p \<and> al_Action row = ae_Action p \<and>
     al_ResourceType row = ae_ResourceType p \<and> al_ResourceID row = ae_ResourceID p \<and>
     al_UserSub row = opt_string (ae_UserSub p))"

definition auditable :: "AuditEntry \<Rightarrow> bool" where
  "auditable p \<longleftrightarrow> ae_OrgID p \<noteq> uuid_nil \<and> ae_Action p \<noteq> [] \<and> ae_ResourceType p \<noteq> [] \<and> ae_ResourceID p \<noteq> uuid_nil"

text \<open>What no row of the audit log shows: a value under a restricted key.\<close>

definition row_clean :: "audit_row \<Rightarrow> bool" where
  "row_clean r \<longleftrightarrow> opt_ok clean_payload (al_Before r) \<and> opt_ok clean_payload (al_After r) \<and> opt_ok clean_payload (al_Metadata r)"

lemma scrub_payload_clean: "clean_payload (scrub_payload e m)"
  by (simp add: scrub_payload_def ScrubJSON_def ScrubMap_clean) (simp add: clean_payload_def)

lemma InsertAudit_clean: "InsertAudit e p s = Inr (row, s') \<Longrightarrow> row_clean row"
  by (auto simp: InsertAudit_def insert_returning_Inr Let_def row_clean_def nullableJSON_def scrubAuditPayloads_def scrub_payload_clean)

lemma Record_Inr:
  assumes "Record e p s = Inr (u, s')" "\<not> s_aborted s'"
  obtains new where "s_db s' = s_db s\<lparr>db_audit := db_audit (s_db s) @ new\<rparr>" "\<not> s_aborted s"
    "auditable p \<Longrightarrow> audit_appended p (s_db s) (s_db s')" "auditable p \<Longrightarrow> length new = 1"
proof (cases "auditable p")
  case False
  then have "s' = s" using assms(1) by (auto simp: Record_def auditable_def split: if_splits)
  then show thesis using that [of "[]"] assms(2) False by simp
next
  case True
  then obtain row where row: "InsertAudit e p s = Inr (row, s')"
    using assms by (auto simp: Record_def auditable_def split: if_splits sum.splits)
  show thesis
  proof (rule that [of "[row]"])
    show "s_db s' = s_db s\<lparr>db_audit := db_audit (s_db s) @ [row]\<rparr>"
      using row by (auto simp: InsertAudit_def insert_returning_Inr Let_def)
    show "\<not> s_aborted s"
      using row by (auto simp: InsertAudit_def insert_returning_Inr Let_def)
    show "audit_appended p (s_db s) (s_db s')"
      using row by (auto simp: InsertAudit_def insert_returning_Inr Let_def audit_appended_def scrubAuditPayloads_def)
    show "length [row] = 1" by simp
  qed
qed

lemma Record_appends:
  assumes "Record e p s = Inr (u, s')"
  shows "\<exists>rows. s_db s' = s_db s\<lparr>db_audit := db_audit (s_db s) @ rows\<rparr> \<and> list_all row_clean rows"
proof (cases "s' = s \<or> s' = s\<lparr>s_aborted := True\<rparr>")
  case True
  then show ?thesis by (intro exI [of _ "[]"]) auto
next
  case False
  then obtain row where row: "InsertAudit e p s = Inr (row, s')" using assms by (auto simp: Record_def split: if_splits sum.splits)
  show ?thesis by (rule exI [of _ "[row]"]) (use row InsertAudit_clean [OF row] in \<open>auto simp: InsertAudit_def insert_returning_Inr Let_def\<close>)
qed

lemma Record_never_fails: "\<exists>s'. Record e p s = Inr ((), s')"
  by (auto simp: Record_def split: sum.splits)

lemma Record_calm:
  assumes "\<not> s_aborted s" "\<not> e_fail e ''insert audit_log''" "ae_OrgID p \<in> set (db_orgs (s_db s))"
    and "e_uuid e (s_draws s) \<notin> al_ID ` set (db_audit (s_db s))"
  shows "\<exists>rows n. Record e p s = Inr ((), s\<lparr>s_db := s_db s\<lparr>db_audit := db_audit (s_db s) @ rows\<rparr>, s_draws := n\<rparr>)"
proof (cases "auditable p")
  case False
  then show ?thesis by (intro exI [of _ "[]"] exI [of _ "s_draws s"]) (auto simp: Record_def auditable_def)
next
  case True
  obtain row s' where row: "InsertAudit e p s = Inr (row, s')"
    using assms by (cases "InsertAudit e p s")
      (fastforce simp: InsertAudit_def insert_returning_def stmt_def Let_def scrubAuditPayloads_def image_iff split: if_splits)+
  then have "s' = s\<lparr>s_db := s_db s\<lparr>db_audit := db_audit (s_db s) @ [row]\<rparr>, s_draws := Suc (s_draws s)\<rparr>"
    by (auto simp: InsertAudit_def insert_returning_Inr Let_def)
  then have "Record e p s = Inr ((), s\<lparr>s_db := s_db s\<lparr>db_audit := db_audit (s_db s) @ [row]\<rparr>, s_draws := Suc (s_draws s)\<rparr>)"
    using True row by (simp add: Record_def auditable_def)
  then show ?thesis by blast
qed

lemma find_unique:
  "distinct (List.map f xs) \<Longrightarrow> x \<in> set xs \<Longrightarrow> f x = k \<Longrightarrow> List.find (\<lambda>r. f r = k) xs = Some x"
  by (induction xs) (auto simp: image_iff)

end
