(* ===== verification/Projects.thy ===== *)
theory Projects
  imports Db Calendar
begin

text \<open>
  Project CRUD: internal/store/projects.go and internal/service/projects.go. A project row keeps a
  NULL address as \<open>None\<close>, which \<open>scanProject\<close> hands to the caller as the empty string.
\<close>

section \<open>The store\<close>

definition order_desc :: "('r \<Rightarrow> 'k::linorder) \<Rightarrow> 'r list \<Rightarrow> 'r list" where
  "order_desc key rows = rev (sort_key key (rev rows))"

definition page_of :: "int \<Rightarrow> int \<Rightarrow> 'r list \<Rightarrow> 'r list" where
  "page_of limit offset rows = take (nat limit) (drop (nat offset) rows)"

definition order_projects :: "Project list \<Rightarrow> Project list" where
  "order_projects rows = order_desc pj_CreatedAt (order_desc pj_ID rows)"

definition ListByOrg :: "env \<Rightarrow> uuid \<Rightarrow> string \<Rightarrow> int \<Rightarrow> int \<Rightarrow> ('x core_db_scheme, Project list) tx" where
  "ListByOrg e orgID status limit offset = select_all e ''query projects''
     (\<lambda>d. page_of limit offset (order_projects
        (filter (\<lambda>p. pj_OrgID p = orgID \<and> (status \<noteq> [] \<longrightarrow> pj_Status p = status)) (db_projects d))))"

definition ListActiveAcrossOrgsForSweep :: "env \<Rightarrow> int \<Rightarrow> uuid \<Rightarrow> ('x core_db_scheme, Project list) tx" where
  "ListActiveAcrossOrgsForSweep e limit afterID = select_all e ''query active projects for sweep''
     (\<lambda>d. take (nat limit) (sort_key pj_ID
        (filter (\<lambda>p. pj_Status p = ''active'' \<and> afterID < pj_ID p) (db_projects d))))"

definition GetByID :: "env \<Rightarrow> uuid \<Rightarrow> uuid \<Rightarrow> ('x core_db_scheme, Project) tx" where
  "GetByID e projectID orgID = select_one e ''get project'' db_projects
     (\<lambda>p. pj_ID p = projectID \<and> pj_OrgID p = orgID)"

record CreateProjectParams =
  cp_OrgID :: uuid
  cp_Name :: string
  cp_Address :: "string option"
  cp_PermitIssuedDate :: "gotime option"
  cp_ProjectStartDate :: "gotime option"
  cp_GSF :: "int option"

definition project_Create :: "env \<Rightarrow> CreateProjectParams \<Rightarrow> ('x core_db_scheme, Project) tx" where
  "project_Create e p = insert_returning e ''insert project'' db_projects db_projects_update
     (\<lambda>d. cp_OrgID p \<in> set (db_orgs d) \<and> opt_ok int4_ok (cp_GSF p)) pj_ID (\<lambda>_ _. False)
     (\<lambda>_ u. \<lparr>pj_ID = u, pj_OrgID = cp_OrgID p, pj_Name = cp_Name p, pj_Address = cp_Address p,
        pj_PermitIssuedDate = map_option to_date (cp_PermitIssuedDate p),
        pj_ProjectStartDate = map_option to_date (cp_ProjectStartDate p),
        pj_Status = ''active'', pj_GSF = cp_GSF p, pj_ClientName = None, pj_ClientEmail = None,
        pj_ClientPhone = None, pj_CreatedAt = e_now e, pj_UpdatedAt = e_now e\<rparr>)"

record UpdateProjectParams =
  up_ID :: uuid
  up_OrgID :: uuid
  up_Name :: "string option"
  up_Address :: "string option"
  up_Status :: "string option"
  up_GSF :: "int option"

definition project_Update :: "env \<Rightarrow> UpdateProjectParams \<Rightarrow> ('x core_db_scheme, Project) tx" where
  "project_Update e p =
     (if \<not> opt_ok int4_ok (up_GSF p) then tfail (DbError ''update project'') else
      update_returning e ''update project'' db_projects db_projects_update
       (\<lambda>r. pj_ID r = up_ID p \<and> pj_OrgID r = up_OrgID p)
       (\<lambda>r. r\<lparr>pj_Name := coalesce (up_Name p) (pj_Name r),
          pj_Address := coalesce_opt (up_Address p) (pj_Address r),
          pj_Status := coalesce (up_Status p) (pj_Status r),
          pj_GSF := coalesce_opt (up_GSF p) (pj_GSF r), pj_UpdatedAt := e_now e\<rparr>))"

section \<open>The service\<close>

definition projectGSFMin :: int where "projectGSFMin = 1500"
definition projectGSFMax :: int where "projectGSFMax = 6000"
definition defaultProjectPageSize :: int where "defaultProjectPageSize = 50"
definition maxProjectPageSize :: int where "maxProjectPageSize = 200"

definition validProjectStatuses :: "string list" where
  "validProjectStatuses = [''active'', ''completed'', ''archived'']"

definition paginate :: "int \<Rightarrow> int \<Rightarrow> int \<times> int" where
  "paginate page perPage =
     (let perPage = (if perPage \<le> 0 then defaultProjectPageSize else perPage);
          perPage = (if perPage > maxProjectPageSize then maxProjectPageSize else perPage);
          page = (if page < 1 then 1 else page)
      in (perPage, wrap64 (wrap64 (page - 1) * perPage)))"

fun validateGSF :: "int option \<Rightarrow> svc_error + unit" where
  "validateGSF None = Inr ()"
| "validateGSF (Some gsf) = require_that (projectGSFMin \<le> gsf \<and> gsf \<le> projectGSFMax) (InvalidInput ''gsf'')"

fun normalizeOptionalString :: "string option \<Rightarrow> string option" where
  "normalizeOptionalString None = None"
| "normalizeOptionalString (Some s) = (if trim_space s = [] then None else Some (trim_space s))"

text \<open>A negative OFFSET, which \<open>page - 1\<close> times the page size can wrap to, is a Postgres error.\<close>

definition ListProjects :: "env \<Rightarrow> uuid \<Rightarrow> string \<Rightarrow> int \<Rightarrow> int \<Rightarrow> 'x core_db_scheme \<Rightarrow> svc_error + Project list" where
  "ListProjects e orgID status0 page perPage d =
     ebind (require_that (orgID \<noteq> uuid_nil) (InvalidInput ''org_id'')) (\<lambda>_.
     let status = trim_space status0 in
     ebind (require_that (status = [] \<or> status \<in> set validProjectStatuses) (InvalidInput ''status'')) (\<lambda>_.
     case paginate page perPage of (limit, offset) \<Rightarrow>
       fst (mapped (BeginTxFunc e
         (if offset < 0 then tfail (DbError ''query projects'')
          else ListByOrg e orgID status limit offset) d))))"

definition GetProject :: "env \<Rightarrow> uuid \<Rightarrow> uuid \<Rightarrow> 'x core_db_scheme \<Rightarrow> svc_error + Project" where
  "GetProject e orgID projectID d =
     ebind (require_that (orgID \<noteq> uuid_nil \<and> projectID \<noteq> uuid_nil) (InvalidInput ''id'')) (\<lambda>_.
       fst (mapped (BeginTxFunc e (GetByID e projectID orgID) d)))"

record CreateProjectInput = CreateProjectParams +
  cp_UserSub :: string

definition AuditActionProjectCreated :: string where "AuditActionProjectCreated = ''project.created''"
definition AuditActionProjectUpdated :: string where "AuditActionProjectUpdated = ''project.updated''"

text \<open>\<open>json.Marshal\<close> of a project leaves out the contact and the nil pointers (\<open>omitempty\<close>).\<close>

definition project_json :: "Project \<Rightarrow> payload" where
  "project_json p = [(''id'', JUuid (pj_ID p)), (''org_id'', JUuid (pj_OrgID p)), (''name'', JStr (pj_Name p))]
     @ (case pj_Address p of Some a \<Rightarrow> if a = [] then [] else [(''address'', JStr a)] | None \<Rightarrow> [])
     @ (case pj_PermitIssuedDate p of Some t \<Rightarrow> [(''permit_issued_date'', JTime t)] | None \<Rightarrow> [])
     @ (case pj_ProjectStartDate p of Some t \<Rightarrow> [(''project_start_date'', JTime t)] | None \<Rightarrow> [])
     @ [(''status'', JStr (pj_Status p))]
     @ (case pj_GSF p of Some g \<Rightarrow> [(''gsf'', JInt g)] | None \<Rightarrow> [])
     @ [(''created_at'', JTime (pj_CreatedAt p)), (''updated_at'', JTime (pj_UpdatedAt p))]"

definition service_result :: "svc_error + unit \<Rightarrow> 'd \<Rightarrow> (svc_error + 'a) \<times> 'd \<Rightarrow> (svc_error + 'a) \<times> 'd" where
  "service_result check d run = (case check of Inl err \<Rightarrow> (Inl err, d) | Inr _ \<Rightarrow> run)"

definition CreateProject :: "env \<Rightarrow> CreateProjectInput \<Rightarrow> 'x core_db_scheme \<Rightarrow>
    (svc_error + Project) \<times> 'x core_db_scheme" where
  "CreateProject e in0 d =
     (let name = trim_space (cp_Name in0);
          inp = CreateProjectParams.truncate in0\<lparr>cp_Name := name, cp_Address := normalizeOptionalString (cp_Address in0)\<rparr> in
      service_result
        (ebind (require_that (cp_OrgID in0 \<noteq> uuid_nil) (InvalidInput ''org_id'')) (\<lambda>_.
         ebind (require_that (name \<noteq> []) (InvalidInput ''name'')) (\<lambda>_. validateGSF (cp_GSF in0)))) d
        (mapped (BeginTxFunc e
           (tbind (project_Create e inp) (\<lambda>p.
            tbind (Record e \<lparr>ae_OrgID = cp_OrgID in0, ae_UserSub = cp_UserSub in0,
                     ae_Action = AuditActionProjectCreated, ae_ResourceType = ''project'',
                     ae_ResourceID = pj_ID p, ae_Before = [], ae_After = project_json p, ae_Metadata = []\<rparr>) (\<lambda>_.
            tret p))) d)))"

record UpdateProjectInput = UpdateProjectParams +
  up_UserSub :: string

definition UpdateProject :: "env \<Rightarrow> UpdateProjectInput \<Rightarrow> 'x core_db_scheme \<Rightarrow>
    (svc_error + Project) \<times> 'x core_db_scheme" where
  "UpdateProject e in0 d =
     (let inp = UpdateProjectParams.truncate in0\<lparr>up_Name := map_option trim_space (up_Name in0)\<rparr> in
      service_result
        (ebind (require_that (up_OrgID in0 \<noteq> uuid_nil \<and> up_ID in0 \<noteq> uuid_nil) (InvalidInput ''id'')) (\<lambda>_.
         ebind (require_that (\<not> (up_Name in0 = None \<and> up_Address in0 = None \<and> up_Status in0 = None \<and> up_GSF in0 = None))
                  (InvalidInput ''at least one field required'')) (\<lambda>_.
         ebind (require_that (up_Name inp \<noteq> Some []) (InvalidInput ''name'')) (\<lambda>_.
         ebind (require_that (opt_ok (\<lambda>st. st \<in> set validProjectStatuses) (up_Status in0)) (InvalidInput ''status'')) (\<lambda>_.
         validateGSF (up_GSF in0)))))) d
        (mapped (BeginTxFunc e
           (tbind (GetByID e (up_ID in0) (up_OrgID in0)) (\<lambda>before.
            tbind (project_Update e inp) (\<lambda>p.
            tbind (Record e \<lparr>ae_OrgID = up_OrgID in0, ae_UserSub = up_UserSub in0,
                     ae_Action = AuditActionProjectUpdated, ae_ResourceType = ''project'',
                     ae_ResourceID = pj_ID p, ae_Before = project_json before, ae_After = project_json p,
                     ae_Metadata = []\<rparr>) (\<lambda>_.
            tret p)))) d)))"

end
