(* ===== verification/Pipeline_Store.thy ===== *)
theory Pipeline_Store
  imports Projects Currency "HOL-Library.List_Lexorder" "HOL-Library.Char_ord"
begin

text \<open>
  The pre-construction pipeline: the data and state machines of internal/models/pipeline.go and
  the queries of internal/store/pipeline.go over prospects, estimates and permits.
\<close>

section \<open>Stages\<close>

type_synonym PipelineStage = string

definition StageLead :: PipelineStage where "StageLead = ''LEAD''"
definition StageQualified :: PipelineStage where "StageQualified = ''QUALIFIED''"
definition StageEstimateSent :: PipelineStage where "StageEstimateSent = ''ESTIMATE_SENT''"
definition StageVerbalCommitment :: PipelineStage where "StageVerbalCommitment = ''VERBAL_COMMITMENT''"
definition StagePermitApplied :: PipelineStage where "StagePermitApplied = ''PERMIT_APPLIED''"
definition StagePermitIssued :: PipelineStage where "StagePermitIssued = ''PERMIT_ISSUED''"
definition StageLost :: PipelineStage where "StageLost = ''LOST''"

lemmas stage_defs = StageLead_def StageQualified_def StageEstimateSent_def StageVerbalCommitment_def
  StagePermitApplied_def StagePermitIssued_def StageLost_def

definition Probability :: "PipelineStage \<Rightarrow> int" where
  "Probability s =
     (if s = StageLead then 10 else if s = StageQualified then 25
      else if s = StageEstimateSent then 50 else if s = StageVerbalCommitment then 75
      else if s = StagePermitApplied then 85 else if s = StagePermitIssued then 100
      else if s = StageLost then 0 else 0)"

definition IsTerminal :: "PipelineStage \<Rightarrow> bool" where
  "IsTerminal s \<longleftrightarrow> s = StagePermitIssued \<or> s = StageLost"

definition AllowedTransitions :: "PipelineStage \<Rightarrow> PipelineStage list" where
  "AllowedTransitions from =
     (if from = StageLead then [StageQualified, StageLost]
      else if from = StageQualified then [StageEstimateSent, StageLost]
      else if from = StageEstimateSent then [StageVerbalCommitment, StageLost]
      else if from = StageVerbalCommitment then [StagePermitApplied, StageLost]
      else if from = StagePermitApplied then [StagePermitIssued, StageLost]
      else [])"

definition CanTransition :: "PipelineStage \<Rightarrow> PipelineStage \<Rightarrow> bool" where
  "CanTransition from to \<longleftrightarrow> to \<in> set (AllowedTransitions from)"

definition IsValidStage :: "PipelineStage \<Rightarrow> bool" where
  "IsValidStage s \<longleftrightarrow> s \<in> {StageLead, StageQualified, StageEstimateSent, StageVerbalCommitment,
     StagePermitApplied, StagePermitIssued, StageLost}"

section \<open>Rows\<close>

record Prospect =
  pr_ID :: uuid
  pr_OrgID :: uuid
  pr_Name :: string
  pr_ClientName :: string
  pr_ClientEmail :: "string option"
  pr_ClientPhone :: "string option"
  pr_Address :: "string option"
  pr_GSF :: "int option"
  pr_PipelineStage :: PipelineStage
  pr_ProbabilityPct :: int
  pr_Source :: "string option"
  pr_Notes :: "string option"
  pr_LostReason :: "string option"
  pr_ProjectID :: "uuid option"
  pr_CreatedAt :: gotime
  pr_UpdatedAt :: gotime

record PipelineEstimateLineItem =
  li_WBSCode :: string
  li_Description :: string
  li_EstimatedCents :: int
  li_Unit :: string
  li_Quantity :: int

record PipelineEstimate =
  es_ID :: uuid
  es_ProspectID :: uuid
  es_Version :: int
  es_TotalEstimatedCents :: int
  es_CurrencyCode :: string
  es_LineItems :: "PipelineEstimateLineItem list"
  es_MarginPct :: int
  es_Status :: string
  es_SentAt :: "gotime option"
  es_CreatedAt :: gotime
  es_UpdatedAt :: gotime

definition EstimateStatusDraft :: string where "EstimateStatusDraft = ''draft''"
definition EstimateStatusSent :: string where "EstimateStatusSent = ''sent''"
definition EstimateStatusRevised :: string where "EstimateStatusRevised = ''revised''"
definition EstimateStatusAccepted :: string where "EstimateStatusAccepted = ''accepted''"

lemmas estimate_status_defs = EstimateStatusDraft_def EstimateStatusSent_def
  EstimateStatusRevised_def EstimateStatusAccepted_def

definition IsValidEstimateStatus :: "string \<Rightarrow> bool" where
  "IsValidEstimateStatus s \<longleftrightarrow>
     s \<in> {EstimateStatusDraft, EstimateStatusSent, EstimateStatusRevised, EstimateStatusAccepted}"

definition CanTransitionEstimateStatus :: "string \<Rightarrow> string \<Rightarrow> bool" where
  "CanTransitionEstimateStatus from to =
     (if from = to then False
      else if from = EstimateStatusAccepted then False
      else if \<not> IsValidEstimateStatus from \<or> \<not> IsValidEstimateStatus to then False
      else True)"

record Permit =
  pe_ID :: uuid
  pe_ProspectID :: uuid
  pe_PermitType :: string
  pe_Jurisdiction :: string
  pe_ApplicationNumber :: "string option"
  pe_SubmittedDate :: "gotime option"
  pe_ExpectedIssueDate :: "gotime option"
  pe_ActualIssueDate :: "gotime option"
  pe_FeeCents :: int
  pe_FeeCurrencyCode :: string
  pe_Status :: string
  pe_Notes :: "string option"
  pe_CreatedAt :: gotime
  pe_UpdatedAt :: gotime

definition PermitStatusNotSubmitted :: string where "PermitStatusNotSubmitted = ''not_submitted''"
definition PermitStatusSubmitted :: string where "PermitStatusSubmitted = ''submitted''"
definition PermitStatusUnderReview :: string where "PermitStatusUnderReview = ''under_review''"
definition PermitStatusRevisionsRequested :: string where
  "PermitStatusRevisionsRequested = ''revisions_requested''"
definition PermitStatusApproved :: string where "PermitStatusApproved = ''approved''"
definition PermitStatusDenied :: string where "PermitStatusDenied = ''denied''"

lemmas permit_status_defs = PermitStatusNotSubmitted_def PermitStatusSubmitted_def
  PermitStatusUnderReview_def PermitStatusRevisionsRequested_def PermitStatusApproved_def
  PermitStatusDenied_def

definition IsValidPermitStatus :: "string \<Rightarrow> bool" where
  "IsValidPermitStatus s \<longleftrightarrow>
     s \<in> {PermitStatusNotSubmitted, PermitStatusSubmitted, PermitStatusUnderReview,
          PermitStatusRevisionsRequested, PermitStatusApproved, PermitStatusDenied}"

definition CanTransitionPermitStatus :: "string \<Rightarrow> string \<Rightarrow> bool" where
  "CanTransitionPermitStatus from to =
     (if from = to then False
      else if from = PermitStatusApproved \<or> from = PermitStatusDenied then False
      else if \<not> IsValidPermitStatus from \<or> \<not> IsValidPermitStatus to then False
      else True)"

section \<open>Status machines\<close>

text \<open>
  What the three machines share. \<open>history\<close> is the sequence of values a row has had: each one is
  reached from the one before by a permitted change.
\<close>

locale status_machine =
  fixes valid :: "string \<Rightarrow> bool" and terminal :: "string \<Rightarrow> bool" and can :: "string \<Rightarrow> string \<Rightarrow> bool"
  assumes can_valid: "can a b \<Longrightarrow> valid a \<and> valid b"
    and can_changes: "\<not> can a a"
    and terminal_stuck: "terminal a \<Longrightarrow> \<not> can a b"
    and leaves: "valid a \<Longrightarrow> \<not> terminal a \<Longrightarrow> \<exists>b. can a b"
begin

lemma stuck_iff_terminal: "valid a \<Longrightarrow> (\<forall>b. \<not> can a b) \<longleftrightarrow> terminal a"
  using leaves terminal_stuck by blast

lemma rtranclp_valid: "can\<^sup>*\<^sup>* a b \<Longrightarrow> valid a \<Longrightarrow> valid b"
  by (induction rule: rtranclp_induct) (auto dest: can_valid)

lemma rtranclp_from_terminal: "can\<^sup>*\<^sup>* a b \<Longrightarrow> terminal a \<Longrightarrow> b = a"
  by (erule converse_rtranclpE) (auto dest: terminal_stuck)

end

interpretation estimate_status: status_machine IsValidEstimateStatus
  "\<lambda>s. s = EstimateStatusAccepted" CanTransitionEstimateStatus
proof unfold_locales
  fix a assume "IsValidEstimateStatus a" "a \<noteq> EstimateStatusAccepted"
  then have "CanTransitionEstimateStatus a EstimateStatusAccepted"
    by (simp add: CanTransitionEstimateStatus_def IsValidEstimateStatus_def)
  then show "\<exists>b. CanTransitionEstimateStatus a b" by blast
qed (auto simp: CanTransitionEstimateStatus_def split: if_splits)

interpretation permit_status: status_machine IsValidPermitStatus
  "\<lambda>s. s = PermitStatusApproved \<or> s = PermitStatusDenied" CanTransitionPermitStatus
proof unfold_locales
  fix a assume "IsValidPermitStatus a" "\<not> (a = PermitStatusApproved \<or> a = PermitStatusDenied)"
  then have "CanTransitionPermitStatus a PermitStatusApproved"
    by (simp add: CanTransitionPermitStatus_def IsValidPermitStatus_def)
  then show "\<exists>b. CanTransitionPermitStatus a b" by blast
qed (auto simp: CanTransitionPermitStatus_def split: if_splits)

lemma stages_distinct:
  "distinct [StageLead, StageQualified, StageEstimateSent, StageVerbalCommitment,
     StagePermitApplied, StagePermitIssued, StageLost]"
  by (simp add: stage_defs)

lemmas stages_neq = stages_distinct [simplified]

interpretation stage: status_machine IsValidStage IsTerminal CanTransition
proof unfold_locales
  show "CanTransition a b \<Longrightarrow> IsValidStage a \<and> IsValidStage b" for a b
    by (auto simp: CanTransition_def AllowedTransitions_def IsValidStage_def split: if_splits)
  show "\<not> CanTransition a a" for a
    using stages_neq by (auto simp: CanTransition_def AllowedTransitions_def split: if_splits)
  show "IsTerminal a \<Longrightarrow> \<not> CanTransition a b" for a b
    using stages_neq by (auto simp: CanTransition_def AllowedTransitions_def IsTerminal_def)
  show "\<exists>b. CanTransition a b" if "IsValidStage a" "\<not> IsTerminal a" for a
  proof (rule exI [of _ StageLost])
    show "CanTransition a StageLost"
      using that by (auto simp: CanTransition_def AllowedTransitions_def IsTerminal_def IsValidStage_def)
  qed
qed

text \<open>Probabilities tell the stages apart, except that an unknown stage has Lost's.\<close>

lemma probability_zero_iff: "Probability s = 0 \<longleftrightarrow> s = StageLost \<or> \<not> IsValidStage s"
  using stages_neq by (auto simp: Probability_def IsValidStage_def)

lemma probability_rises: "CanTransition a b \<Longrightarrow> b = StageLost \<or> Probability a < Probability b"
  using stages_neq by (auto simp: CanTransition_def AllowedTransitions_def Probability_def split: if_splits)

section \<open>The database of the pipeline\<close>

record pipeline_db = core_db +
  db_prospects :: "Prospect list"
  db_estimates :: "PipelineEstimate list"
  db_permits :: "Permit list"

text \<open>\<open>WHERE id = $1 AND org_id = $2\<close>.\<close>

definition prospect_key :: "uuid \<Rightarrow> uuid \<Rightarrow> Prospect \<Rightarrow> bool" where
  "prospect_key prospectID orgID r \<longleftrightarrow> pr_ID r = prospectID \<and> pr_OrgID r = orgID"

definition VerifyProspectInOrg :: "env \<Rightarrow> uuid \<Rightarrow> uuid \<Rightarrow> ('x pipeline_db_scheme, unit) tx" where
  "VerifyProspectInOrg e prospectID orgID =
     tbind (select_all e ''verify prospect in org'' db_prospects) (\<lambda>rows.
       tguard (\<exists>p\<in>set rows. prospect_key prospectID orgID p) StoreNotFound)"

record ListProspectsParams =
  lp_OrgID :: uuid
  lp_Stage :: string
  lp_Page :: int
  lp_PerPage :: int

record ProspectsPage =
  pp_Prospects :: "Prospect list"
  pp_Total :: int
  pp_Page :: int
  pp_PerPage :: int
  pp_TotalPages :: int

definition prospect_matches :: "ListProspectsParams \<Rightarrow> Prospect \<Rightarrow> bool" where
  "prospect_matches p r \<longleftrightarrow> pr_OrgID r = lp_OrgID p \<and> (lp_Stage p \<noteq> [] \<longrightarrow> pr_PipelineStage r = lp_Stage p)"

text \<open>
  \<open>COUNT(*) OVER()\<close> is a column of each row of the page, so \<open>Total\<close> stays 0 when the page is empty.
\<close>

definition ListProspects_store :: "env \<Rightarrow> ListProspectsParams \<Rightarrow> ('x pipeline_db_scheme, ProspectsPage) tx" where
  "ListProspects_store e p =
     (let page = (if lp_Page p < 1 then 1 else lp_Page p);
          perPage = (if lp_PerPage p < 1 then 50 else lp_PerPage p);
          offset = wrap64 (wrap64 (page - 1) * perPage) in
      if offset < 0 then tfail (DbError ''query prospects'') else
      tbind (select_all e ''query prospects''
         (\<lambda>d. let hits = order_desc pr_CreatedAt (filter (prospect_matches p) (db_prospects d))
              in List.map (\<lambda>r. (r, int (length hits))) (page_of perPage offset hits))) (\<lambda>rows.
      let total = (if rows = [] then 0 else snd (last rows)) in
      tret \<lparr>pp_Prospects = List.map fst rows, pp_Total = total, pp_Page = page, pp_PerPage = perPage,
            pp_TotalPages = (if perPage > 0 then quot (wrap64 (total + perPage - 1)) perPage else 0)\<rparr>))"

definition GetProspect :: "env \<Rightarrow> uuid \<Rightarrow> uuid \<Rightarrow> ('x pipeline_db_scheme, Prospect) tx" where
  "GetProspect e prospectID orgID = select_one e ''get prospect'' db_prospects (prospect_key prospectID orgID)"

record CreateProspectInput =
  ci_OrgID :: uuid
  ci_Name :: string
  ci_ClientName :: string
  ci_ClientEmail :: "string option"
  ci_ClientPhone :: "string option"
  ci_Address :: "string option"
  ci_GSF :: "int option"
  ci_Source :: "string option"
  ci_Notes :: "string option"

definition CreateProspect_store :: "env \<Rightarrow> CreateProspectInput \<Rightarrow> ('x pipeline_db_scheme, Prospect) tx" where
  "CreateProspect_store e p = insert_returning e ''insert prospect'' db_prospects db_prospects_update
     (\<lambda>d. ci_OrgID p \<in> set (db_orgs d) \<and> opt_ok int4_ok (ci_GSF p)) pr_ID (\<lambda>_ _. False)
     (\<lambda>_ u. \<lparr>pr_ID = u, pr_OrgID = ci_OrgID p, pr_Name = ci_Name p, pr_ClientName = ci_ClientName p,
        pr_ClientEmail = ci_ClientEmail p, pr_ClientPhone = ci_ClientPhone p, pr_Address = ci_Address p,
        pr_GSF = ci_GSF p, pr_PipelineStage = ''LEAD'', pr_ProbabilityPct = 10, pr_Source = ci_Source p,
        pr_Notes = ci_Notes p, pr_LostReason = None, pr_ProjectID = None, pr_CreatedAt = e_now e,
        pr_UpdatedAt = e_now e\<rparr>)"

record UpdateProspectInput =
  ui_ProspectID :: uuid
  ui_OrgID :: uuid
  ui_Name :: "string option"
  ui_ClientName :: "string option"
  ui_ClientEmail :: "string option"
  ui_ClientPhone :: "string option"
  ui_Address :: "string option"
  ui_GSF :: "int option"
  ui_Source :: "string option"
  ui_Notes :: "string option"

text \<open>The SET clauses of the four updates of a prospect.\<close>

definition edit_prospect :: "env \<Rightarrow> UpdateProspectInput \<Rightarrow> Prospect \<Rightarrow> Prospect" where
  "edit_prospect e p r = r\<lparr>pr_Name := coalesce (ui_Name p) (pr_Name r),
     pr_ClientName := coalesce (ui_ClientName p) (pr_ClientName r),
     pr_ClientEmail := coalesce_opt (ui_ClientEmail p) (pr_ClientEmail r),
     pr_ClientPhone := coalesce_opt (ui_ClientPhone p) (pr_ClientPhone r),
     pr_Address := coalesce_opt (ui_Address p) (pr_Address r),
     pr_GSF := coalesce_opt (ui_GSF p) (pr_GSF r),
     pr_Source := coalesce_opt (ui_Source p) (pr_Source r),
     pr_Notes := coalesce_opt (ui_Notes p) (pr_Notes r), pr_UpdatedAt := e_now e\<rparr>"

definition move_prospect :: "env \<Rightarrow> PipelineStage \<Rightarrow> Prospect \<Rightarrow> Prospect" where
  "move_prospect e target r = r\<lparr>pr_PipelineStage := target, pr_ProbabilityPct := Probability target,
     pr_UpdatedAt := e_now e\<rparr>"

definition lose_prospect :: "env \<Rightarrow> string \<Rightarrow> Prospect \<Rightarrow> Prospect" where
  "lose_prospect e reason r = r\<lparr>pr_PipelineStage := ''LOST'', pr_ProbabilityPct := 0,
     pr_LostReason := Some reason, pr_UpdatedAt := e_now e\<rparr>"

definition issue_prospect :: "env \<Rightarrow> uuid \<Rightarrow> Prospect \<Rightarrow> Prospect" where
  "issue_prospect e projectID r = r\<lparr>pr_PipelineStage := ''PERMIT_ISSUED'', pr_ProbabilityPct := 100,
     pr_ProjectID := Some projectID, pr_UpdatedAt := e_now e\<rparr>"

definition UpdateProspect_store :: "env \<Rightarrow> UpdateProspectInput \<Rightarrow> ('x pipeline_db_scheme, Prospect) tx" where
  "UpdateProspect_store e p =
     (if \<not> opt_ok int4_ok (ui_GSF p) then tfail (DbError ''update prospect'') else
      update_returning e ''update prospect'' db_prospects db_prospects_update
       (prospect_key (ui_ProspectID p) (ui_OrgID p)) (edit_prospect e p))"

definition AdvanceStage :: "env \<Rightarrow> uuid \<Rightarrow> uuid \<Rightarrow> PipelineStage \<Rightarrow> ('x pipeline_db_scheme, Prospect) tx" where
  "AdvanceStage e prospectID orgID target =
     update_returning e ''advance prospect stage'' db_prospects db_prospects_update
       (prospect_key prospectID orgID) (move_prospect e target)"

definition MarkLost :: "env \<Rightarrow> uuid \<Rightarrow> uuid \<Rightarrow> string \<Rightarrow> ('x pipeline_db_scheme, Prospect) tx" where
  "MarkLost e prospectID orgID reason =
     update_returning e ''mark prospect lost'' db_prospects db_prospects_update
       (prospect_key prospectID orgID) (lose_prospect e reason)"

section \<open>Estimates\<close>

definition ListEstimatesForProspect :: "env \<Rightarrow> uuid \<Rightarrow> ('x pipeline_db_scheme, PipelineEstimate list) tx" where
  "ListEstimatesForProspect e prospectID = select_all e ''query estimates''
     (\<lambda>d. order_desc es_Version (filter (\<lambda>r. es_ProspectID r = prospectID) (db_estimates d)))"

record CreateEstimateParams =
  ce_ProspectID :: uuid
  ce_TotalEstimatedCents :: int
  ce_CurrencyCode :: string
  ce_LineItems :: "PipelineEstimateLineItem list"
  ce_MarginPct :: int

text \<open>\<open>COALESCE((SELECT MAX(version) ...), 0) + 1\<close>.\<close>

definition next_version :: "uuid \<Rightarrow> PipelineEstimate list \<Rightarrow> int" where
  "next_version prospectID rows =
     (let vs = List.map es_Version (filter (\<lambda>r. es_ProspectID r = prospectID) rows)
      in (if vs = [] then 0 else Max (set vs)) + 1)"

definition CreateEstimate_store :: "env \<Rightarrow> CreateEstimateParams \<Rightarrow> ('x pipeline_db_scheme, PipelineEstimate) tx" where
  "CreateEstimate_store e p = insert_returning e ''insert estimate'' db_estimates db_estimates_update
     (\<lambda>d. (\<exists>r\<in>set (db_prospects d). pr_ID r = ce_ProspectID p)
          \<and> int4_ok (next_version (ce_ProspectID p) (db_estimates d))) es_ID (\<lambda>_ _. False)
     (\<lambda>d u. \<lparr>es_ID = u, es_ProspectID = ce_ProspectID p,
        es_Version = next_version (ce_ProspectID p) (db_estimates d),
        es_TotalEstimatedCents = ce_TotalEstimatedCents p, es_CurrencyCode = ce_CurrencyCode p,
        es_LineItems = ce_LineItems p, es_MarginPct = ce_MarginPct p, es_Status = ''draft'',
        es_SentAt = None, es_CreatedAt = e_now e, es_UpdatedAt = e_now e\<rparr>)"

definition GetEstimate :: "env \<Rightarrow> uuid \<Rightarrow> uuid \<Rightarrow> ('x pipeline_db_scheme, PipelineEstimate) tx" where
  "GetEstimate e estimateID prospectID = select_one e ''get estimate'' db_estimates
     (\<lambda>r. es_ID r = estimateID \<and> es_ProspectID r = prospectID)"

text \<open>\<open>sent_at\<close> is stamped by the first change to \<open>sent\<close> only.\<close>

definition stamp_estimate :: "env \<Rightarrow> string \<Rightarrow> PipelineEstimate \<Rightarrow> PipelineEstimate" where
  "stamp_estimate e status r = r\<lparr>es_Status := status,
     es_SentAt := (if status = ''sent'' \<and> es_SentAt r = None then Some (e_now e) else es_SentAt r),
     es_UpdatedAt := e_now e\<rparr>"

definition UpdateEstimateStatus_store :: "env \<Rightarrow> uuid \<Rightarrow> string \<Rightarrow> ('x pipeline_db_scheme, PipelineEstimate) tx" where
  "UpdateEstimateStatus_store e estimateID status =
     update_returning e ''update estimate status'' db_estimates db_estimates_update
       (\<lambda>r. es_ID r = estimateID) (stamp_estimate e status)"

section \<open>Permits\<close>

definition ListPermitsForProspect :: "env \<Rightarrow> uuid \<Rightarrow> ('x pipeline_db_scheme, Permit list) tx" where
  "ListPermitsForProspect e prospectID = select_all e ''query permits''
     (\<lambda>d. order_desc (\<lambda>r. coalesce (pe_SubmittedDate r) (to_date (pe_CreatedAt r)))
            (order_desc pe_CreatedAt (filter (\<lambda>r. pe_ProspectID r = prospectID) (db_permits d))))"

record CreatePermitParams =
  cq_ProspectID :: uuid
  cq_PermitType :: string
  cq_Jurisdiction :: string
  cq_ApplicationNumber :: "string option"
  cq_SubmittedDate :: "gotime option"
  cq_ExpectedIssueDate :: "gotime option"
  cq_FeeCents :: int
  cq_FeeCurrencyCode :: string
  cq_Notes :: "string option"

definition CreatePermit_store :: "env \<Rightarrow> CreatePermitParams \<Rightarrow> ('x pipeline_db_scheme, Permit) tx" where
  "CreatePermit_store e p = insert_returning e ''insert permit'' db_permits db_permits_update
     (\<lambda>d. \<exists>r\<in>set (db_prospects d). pr_ID r = cq_ProspectID p) pe_ID (\<lambda>_ _. False)
     (\<lambda>_ u. \<lparr>pe_ID = u, pe_ProspectID = cq_ProspectID p, pe_PermitType = cq_PermitType p,
        pe_Jurisdiction = cq_Jurisdiction p, pe_ApplicationNumber = cq_ApplicationNumber p,
        pe_SubmittedDate = map_option to_date (cq_SubmittedDate p),
        pe_ExpectedIssueDate = map_option to_date (cq_ExpectedIssueDate p), pe_ActualIssueDate = None,
        pe_FeeCents = cq_FeeCents p, pe_FeeCurrencyCode = cq_FeeCurrencyCode p,
        pe_Status = ''not_submitted'', pe_Notes = cq_Notes p, pe_CreatedAt = e_now e,
        pe_UpdatedAt = e_now e\<rparr>)"

definition GetPermit :: "env \<Rightarrow> uuid \<Rightarrow> uuid \<Rightarrow> ('x pipeline_db_scheme, Permit) tx" where
  "GetPermit e permitID prospectID = select_one e ''get permit'' db_permits
     (\<lambda>r. pe_ID r = permitID \<and> pe_ProspectID r = prospectID)"

record UpdatePermitParams =
  uq_PermitID :: uuid
  uq_ApplicationNumber :: "string option"
  uq_SubmittedDate :: "gotime option"
  uq_ExpectedIssueDate :: "gotime option"
  uq_ActualIssueDate :: "gotime option"
  uq_FeeCents :: "int option"
  uq_Status :: "string option"
  uq_Notes :: "string option"

definition edit_permit :: "env \<Rightarrow> UpdatePermitParams \<Rightarrow> Permit \<Rightarrow> Permit" where
  "edit_permit e p r =
     r\<lparr>pe_ApplicationNumber := coalesce_opt (uq_ApplicationNumber p) (pe_ApplicationNumber r),
       pe_SubmittedDate := coalesce_opt (map_option to_date (uq_SubmittedDate p)) (pe_SubmittedDate r),
       pe_ExpectedIssueDate := coalesce_opt (map_option to_date (uq_ExpectedIssueDate p)) (pe_ExpectedIssueDate r),
       pe_ActualIssueDate := coalesce_opt (map_option to_date (uq_ActualIssueDate p)) (pe_ActualIssueDate r),
       pe_FeeCents := coalesce (uq_FeeCents p) (pe_FeeCents r),
       pe_Status := coalesce (uq_Status p) (pe_Status r),
       pe_Notes := coalesce_opt (uq_Notes p) (pe_Notes r), pe_UpdatedAt := e_now e\<rparr>"

definition UpdatePermit_store :: "env \<Rightarrow> UpdatePermitParams \<Rightarrow> ('x pipeline_db_scheme, Permit) tx" where
  "UpdatePermit_store e p =
     update_returning e ''update permit'' db_permits db_permits_update
       (\<lambda>r. pe_ID r = uq_PermitID p) (edit_permit e p)"

section \<open>The Kanban to CPM transition\<close>

record CreateProjectFromProspectParams =
  cf_OrgID :: uuid
  cf_Name :: string
  cf_Address :: "string option"
  cf_GSF :: int
  cf_PermitIssuedDate :: gotime
  cf_ClientName :: "string option"
  cf_ClientEmail :: "string option"
  cf_ClientPhone :: "string option"

definition project_of_prospect :: "env \<Rightarrow> CreateProjectFromProspectParams \<Rightarrow> uuid \<Rightarrow> Project" where
  "project_of_prospect e p u =
     \<lparr>pj_ID = u, pj_OrgID = cf_OrgID p, pj_Name = cf_Name p, pj_Address = cf_Address p,
      pj_PermitIssuedDate = Some (to_date (cf_PermitIssuedDate p)),
      pj_ProjectStartDate = Some (to_date (cf_PermitIssuedDate p)), pj_Status = ''active'',
      pj_GSF = Some (cf_GSF p), pj_ClientName = cf_ClientName p, pj_ClientEmail = cf_ClientEmail p,
      pj_ClientPhone = cf_ClientPhone p, pj_CreatedAt = e_now e, pj_UpdatedAt = e_now e\<rparr>"

definition CreateProjectFromProspect ::
    "env \<Rightarrow> CreateProjectFromProspectParams \<Rightarrow> ('x core_db_scheme, Project) tx" where
  "CreateProjectFromProspect e p =
     insert_returning e ''insert project from prospect'' db_projects db_projects_update
       (\<lambda>d. cf_OrgID p \<in> set (db_orgs d) \<and> int4_ok (cf_GSF p)) pj_ID (\<lambda>_ _. False)
       (\<lambda>_ u. project_of_prospect e p u)"

definition MarkProspectPermitIssued ::
    "env \<Rightarrow> uuid \<Rightarrow> uuid \<Rightarrow> uuid \<Rightarrow> ('x pipeline_db_scheme, Prospect) tx" where
  "MarkProspectPermitIssued e prospectID orgID projectID =
     update_returning e ''mark prospect permit_issued'' db_prospects db_prospects_update
       (prospect_key prospectID orgID) (issue_prospect e projectID)"

section \<open>Analytics\<close>

record PipelineAnalyticsRow =
  pa_CurrencyCode :: string
  pa_TotalEstimatedCents :: int
  pa_WeightedRevenueCents :: int
  pa_ProspectCount :: int

text \<open>The latest estimate of a prospect: the LATERAL subquery \<open>ORDER BY version DESC LIMIT 1\<close>.\<close>

definition latest_estimate :: "PipelineEstimate list \<Rightarrow> uuid \<Rightarrow> PipelineEstimate option" where
  "latest_estimate rows prospectID =
     (case order_desc es_Version (filter (\<lambda>r. es_ProspectID r = prospectID) rows) of
        [] \<Rightarrow> None | r # _ \<Rightarrow> Some r)"

definition pipeline_join :: "uuid \<Rightarrow> 'x pipeline_db_scheme \<Rightarrow> (Prospect \<times> PipelineEstimate) list" where
  "pipeline_join orgID d =
     List.map_filter (\<lambda>pr. map_option (\<lambda>es. (pr, es)) (latest_estimate (db_estimates d) (pr_ID pr)))
       (filter (\<lambda>pr. pr_OrgID pr = orgID \<and> pr_PipelineStage pr \<noteq> ''LOST'') (db_prospects d))"

definition weighted_cents :: "Prospect \<Rightarrow> PipelineEstimate \<Rightarrow> int" where
  "weighted_cents pr es = quot (es_TotalEstimatedCents es * pr_ProbabilityPct pr) 100"

definition analytics_row :: "(Prospect \<times> PipelineEstimate) list \<Rightarrow> string \<Rightarrow> PipelineAnalyticsRow" where
  "analytics_row rows c =
     (let g = filter (\<lambda>r. es_CurrencyCode (snd r) = c) rows in
      \<lparr>pa_CurrencyCode = c, pa_TotalEstimatedCents = (\<Sum>r\<leftarrow>g. es_TotalEstimatedCents (snd r)),
       pa_WeightedRevenueCents = (\<Sum>r\<leftarrow>g. weighted_cents (fst r) (snd r)),
       pa_ProspectCount = int (card (set (List.map (\<lambda>r. pr_ID (fst r)) g)))\<rparr>)"

text \<open>A product or a total that leaves BIGINT is a Postgres error; codes sort byte by byte.\<close>

definition ListPipelineAnalytics :: "env \<Rightarrow> uuid \<Rightarrow> ('x pipeline_db_scheme, PipelineAnalyticsRow list) tx" where
  "ListPipelineAnalytics e orgID =
     tbind (select_all e ''query pipeline_analytics'' (\<lambda>d. pipeline_join orgID d)) (\<lambda>rows.
     let out = List.map (analytics_row rows) (sort (remdups (List.map (\<lambda>r. es_CurrencyCode (snd r)) rows))) in
     tbind (tguard ((\<forall>r\<in>set rows. in_int64 (es_TotalEstimatedCents (snd r) * pr_ProbabilityPct (fst r)))
        \<and> (\<forall>a\<in>set out. in_int64 (pa_TotalEstimatedCents a) \<and> in_int64 (pa_WeightedRevenueCents a)))
        (DbError ''query pipeline_analytics'')) (\<lambda>_.
     tret out))"

end
