(* ===== verification/Pipeline.thy ===== *)
theory Pipeline
  imports Pipeline_Store
begin

text \<open>
  \<open>PipelineService\<close> of internal/service/pipeline.go: prospect, estimate and permit operations, stage
  changes, and the transition that turns a prospect into a construction project.
\<close>

section \<open>Reads\<close>

definition ListProspects :: "env \<Rightarrow> ListProspectsParams \<Rightarrow> 'x pipeline_db_scheme \<Rightarrow> svc_error + ProspectsPage" where
  "ListProspects e in0 d =
     (if lp_Stage in0 \<noteq> [] \<and> Probability (lp_Stage in0) = 0 \<and> lp_Stage in0 \<noteq> StageLost
      then Inl (InvalidInput ''stage'')
      else let inp = (if lp_PerPage in0 > 200 then in0\<lparr>lp_PerPage := 200\<rparr> else in0)
           in fst (BeginTxFunc e (ListProspects_store e inp) d))"

record ProspectWithDetails =
  wd_Prospect :: Prospect
  wd_Estimates :: "PipelineEstimate list"
  wd_Permits :: "Permit list"

definition GetProspectWithDetails :: "env \<Rightarrow> uuid \<Rightarrow> uuid \<Rightarrow> 'x pipeline_db_scheme \<Rightarrow> svc_error + ProspectWithDetails" where
  "GetProspectWithDetails e prospectID callerOrgID d =
     fst (mapped (BeginTxFunc e
       (tbind (GetProspect e prospectID callerOrgID) (\<lambda>prospect.
        tbind (ListEstimatesForProspect e prospectID) (\<lambda>estimates.
        tbind (ListPermitsForProspect e prospectID) (\<lambda>permits.
        tret \<lparr>wd_Prospect = prospect, wd_Estimates = estimates, wd_Permits = permits\<rparr>)))) d))"

definition GetPipelineAnalytics :: "env \<Rightarrow> uuid \<Rightarrow> 'x pipeline_db_scheme \<Rightarrow> svc_error + PipelineAnalyticsRow list" where
  "GetPipelineAnalytics e orgID d = fst (BeginTxFunc e (ListPipelineAnalytics e orgID) d)"

section \<open>Prospects\<close>

definition CreateProspect :: "env \<Rightarrow> CreateProspectInput \<Rightarrow> 'x pipeline_db_scheme \<Rightarrow>
    (svc_error + Prospect) \<times> 'x pipeline_db_scheme" where
  "CreateProspect e inp d =
     service_result
       (ebind (require_that (ci_Name inp \<noteq> []) (InvalidInput ''name'')) (\<lambda>_.
        ebind (require_that (ci_ClientName inp \<noteq> []) (InvalidInput ''client_name'')) (\<lambda>_.
        require_that (opt_ok (\<lambda>g. g > 0) (ci_GSF inp)) (InvalidInput ''gsf'')))) d
       (BeginTxFunc e (CreateProspect_store e inp) d)"

definition UpdateProspect :: "env \<Rightarrow> UpdateProspectInput \<Rightarrow> 'x pipeline_db_scheme \<Rightarrow>
    (svc_error + Prospect) \<times> 'x pipeline_db_scheme" where
  "UpdateProspect e inp d =
     service_result (require_that (opt_ok (\<lambda>g. g > 0) (ui_GSF inp)) (InvalidInput ''gsf'')) d
       (mapped (BeginTxFunc e (UpdateProspect_store e inp) d))"

section \<open>Stage changes\<close>

record AdvanceProspectInput =
  ap_ProspectID :: uuid
  ap_OrgID :: uuid
  ap_Target :: PipelineStage
  ap_PermitIssuedDate :: "gotime option"

definition AuditResourceProspect :: string where "AuditResourceProspect = ''prospect''"
definition stage_action :: string where "stage_action = ''pipeline.stage_transitioned''"

definition stage_payload :: "Prospect \<Rightarrow> payload" where
  "stage_payload p = [(''stage'', JStr (pr_PipelineStage p)), (''probability_pct'', JInt (pr_ProbabilityPct p))]"

definition stage_entry :: "uuid \<Rightarrow> string \<Rightarrow> uuid \<Rightarrow> payload \<Rightarrow> payload \<Rightarrow> payload \<Rightarrow> AuditEntry" where
  "stage_entry orgID sub prospectID before after meta =
     \<lparr>ae_OrgID = orgID, ae_UserSub = sub, ae_Action = stage_action, ae_ResourceType = AuditResourceProspect,
      ae_ResourceID = prospectID, ae_Before = before, ae_After = after, ae_Metadata = meta\<rparr>"

text \<open>
  \<open>transitionToPermitIssued\<close>, in two phases: the statement that reads the prospect with the checks on
  it, and the writes. The read takes no lock.
\<close>

definition permit_read :: "env \<Rightarrow> AdvanceProspectInput \<Rightarrow> ('x pipeline_db_scheme, Prospect) tx" where
  "permit_read e inp =
     tbind (GetProspect e (ap_ProspectID inp) (ap_OrgID inp)) (\<lambda>current.
     tbind (tguard (CanTransition (pr_PipelineStage current) StagePermitIssued) InvalidTransition) (\<lambda>_.
     tbind (tguard (pr_GSF current \<noteq> None) (InvalidInput ''gsf'')) (\<lambda>_.
     tret current)))"

definition permit_project :: "Prospect \<Rightarrow> gotime \<Rightarrow> CreateProjectFromProspectParams" where
  "permit_project current date =
     \<lparr>cf_OrgID = pr_OrgID current, cf_Name = pr_Name current, cf_Address = pr_Address current,
      cf_GSF = the (pr_GSF current), cf_PermitIssuedDate = date,
      cf_ClientName = (if pr_ClientName current \<noteq> [] then Some (pr_ClientName current) else None),
      cf_ClientEmail = pr_ClientEmail current, cf_ClientPhone = pr_ClientPhone current\<rparr>"

definition permit_entry :: "string \<Rightarrow> AdvanceProspectInput \<Rightarrow> gotime \<Rightarrow> Prospect \<Rightarrow> Prospect \<Rightarrow> uuid \<Rightarrow> AuditEntry" where
  "permit_entry sub inp date current updated projectID =
     stage_entry (ap_OrgID inp) sub (ap_ProspectID inp) (stage_payload current)
       (stage_payload updated @ [(''project_id'', JUuid projectID)])
       [(''prospect_name'', JStr (pr_Name updated)), (''permit_issued_date'', JTime date),
        (''gsf'', JInt (the (pr_GSF current)))]"

definition permit_write ::
    "env \<Rightarrow> string \<Rightarrow> AdvanceProspectInput \<Rightarrow> gotime \<Rightarrow> Prospect \<Rightarrow> ('x pipeline_db_scheme, Prospect) tx" where
  "permit_write e sub inp date current =
     tbind (CreateProjectFromProspect e (permit_project current date)) (\<lambda>project.
     tbind (MarkProspectPermitIssued e (ap_ProspectID inp) (ap_OrgID inp) (pj_ID project)) (\<lambda>updated.
     tbind (InsertTx e (HydrateProject (pj_ID project))) (\<lambda>_.
     tbind (Record e (permit_entry sub inp date current updated (pj_ID project))) (\<lambda>_.
     tret updated))))"

definition transitionToPermitIssued :: "env \<Rightarrow> string \<Rightarrow> AdvanceProspectInput \<Rightarrow> 'x pipeline_db_scheme \<Rightarrow>
    (svc_error + Prospect) \<times> 'x pipeline_db_scheme" where
  "transitionToPermitIssued e sub inp d =
     (case ap_PermitIssuedDate inp of
        None \<Rightarrow> (Inl (InvalidInput ''permit_issued_date''), d)
      | Some date \<Rightarrow>
          if \<not> e_riverWired e then (Inl NotImplemented, d)
          else mapped (BeginTxFunc e (tbind (permit_read e inp) (permit_write e sub inp date)) d))"

definition advance_body :: "env \<Rightarrow> string \<Rightarrow> AdvanceProspectInput \<Rightarrow> ('x pipeline_db_scheme, Prospect) tx" where
  "advance_body e sub inp =
     tbind (GetProspect e (ap_ProspectID inp) (ap_OrgID inp)) (\<lambda>current.
     tbind (tguard (\<not> IsTerminal (pr_PipelineStage current)) TerminalStage) (\<lambda>_.
     tbind (tguard (CanTransition (pr_PipelineStage current) (ap_Target inp)) InvalidTransition) (\<lambda>_.
     tbind (AdvanceStage e (ap_ProspectID inp) (ap_OrgID inp) (ap_Target inp)) (\<lambda>updated.
     tbind (Record e (stage_entry (ap_OrgID inp) sub (ap_ProspectID inp) (stage_payload current)
              (stage_payload updated) [(''prospect_name'', JStr (pr_Name updated))])) (\<lambda>_.
     tret updated)))))"

definition AdvanceProspect :: "env \<Rightarrow> string \<Rightarrow> AdvanceProspectInput \<Rightarrow> 'x pipeline_db_scheme \<Rightarrow>
    (svc_error + Prospect) \<times> 'x pipeline_db_scheme" where
  "AdvanceProspect e sub inp d =
     (if ap_Target inp \<noteq> StageLost \<and> Probability (ap_Target inp) = 0 then (Inl (InvalidInput ''target_stage''), d)
      else if ap_Target inp = StagePermitIssued then transitionToPermitIssued e sub inp d
      else mapped (BeginTxFunc e (advance_body e sub inp) d))"

record LoseProspectInput =
  lo_ProspectID :: uuid
  lo_OrgID :: uuid
  lo_Reason :: string

definition lose_body :: "env \<Rightarrow> string \<Rightarrow> LoseProspectInput \<Rightarrow> ('x pipeline_db_scheme, Prospect) tx" where
  "lose_body e sub inp =
     tbind (GetProspect e (lo_ProspectID inp) (lo_OrgID inp)) (\<lambda>current.
     tbind (tguard (pr_PipelineStage current \<noteq> StagePermitIssued) TerminalStage) (\<lambda>_.
     tbind (MarkLost e (lo_ProspectID inp) (lo_OrgID inp) (lo_Reason inp)) (\<lambda>updated.
     tbind (Record e (stage_entry (lo_OrgID inp) sub (lo_ProspectID inp) (stage_payload current)
              (stage_payload updated) [(''reason'', JStr (lo_Reason inp)), (''prospect_name'', JStr (pr_Name updated))])) (\<lambda>_.
     tret updated))))"

definition LoseProspect :: "env \<Rightarrow> string \<Rightarrow> LoseProspectInput \<Rightarrow> 'x pipeline_db_scheme \<Rightarrow>
    (svc_error + Prospect) \<times> 'x pipeline_db_scheme" where
  "LoseProspect e sub inp d =
     service_result (require_that (lo_Reason inp \<noteq> []) (InvalidInput ''reason'')) d
       (mapped (BeginTxFunc e (lose_body e sub inp) d))"

section \<open>Estimates\<close>

record CreateEstimateInput =
  ne_ProspectID :: uuid
  ne_OrgID :: uuid
  ne_CurrencyCode :: string
  ne_LineItems :: "PipelineEstimateLineItem list"
  ne_MarginPct :: int

text \<open>The loop over the line items: the running total wraps at 64 bits.\<close>

fun estimate_total :: "PipelineEstimateLineItem list \<Rightarrow> int \<Rightarrow> svc_error + int" where
  "estimate_total [] acc = Inr acc"
| "estimate_total (item # items) acc =
     (if li_WBSCode item = [] then Inl (InvalidInput ''wbs_code'')
      else if li_EstimatedCents item < 0 then Inl (InvalidInput ''estimated_cents'')
      else estimate_total items (wrap64 (acc + li_EstimatedCents item)))"

definition CreateEstimate :: "env \<Rightarrow> CreateEstimateInput \<Rightarrow> 'x pipeline_db_scheme \<Rightarrow>
    (svc_error + PipelineEstimate) \<times> 'x pipeline_db_scheme" where
  "CreateEstimate e inp d =
     (case ebind (map_err (\<lambda>_. InvalidInput ''currency_code'') (Validate (ne_CurrencyCode inp))) (\<lambda>_.
           ebind (require_that (ne_LineItems inp \<noteq> []) (InvalidInput ''line_items'')) (\<lambda>_.
           ebind (require_that (0 \<le> ne_MarginPct inp \<and> ne_MarginPct inp \<le> 100) (InvalidInput ''margin_pct'')) (\<lambda>_.
           estimate_total (ne_LineItems inp) 0))) of
        Inl err \<Rightarrow> (Inl err, d)
      | Inr cents \<Rightarrow> mapped (BeginTxFunc e
          (tbind (VerifyProspectInOrg e (ne_ProspectID inp) (ne_OrgID inp)) (\<lambda>_.
           CreateEstimate_store e \<lparr>ce_ProspectID = ne_ProspectID inp, ce_TotalEstimatedCents = cents,
             ce_CurrencyCode = ne_CurrencyCode inp, ce_LineItems = ne_LineItems inp,
             ce_MarginPct = ne_MarginPct inp\<rparr>)) d))"

record UpdateEstimateStatusInput =
  ue_EstimateID :: uuid
  ue_ProspectID :: uuid
  ue_OrgID :: uuid
  ue_NewStatus :: string

definition update_estimate_body :: "env \<Rightarrow> UpdateEstimateStatusInput \<Rightarrow> ('x pipeline_db_scheme, PipelineEstimate) tx" where
  "update_estimate_body e inp =
     tbind (VerifyProspectInOrg e (ue_ProspectID inp) (ue_OrgID inp)) (\<lambda>_.
     tbind (GetEstimate e (ue_EstimateID inp) (ue_ProspectID inp)) (\<lambda>current.
     tbind (tguard (CanTransitionEstimateStatus (es_Status current) (ue_NewStatus inp)) InvalidTransition) (\<lambda>_.
     UpdateEstimateStatus_store e (ue_EstimateID inp) (ue_NewStatus inp))))"

definition UpdateEstimateStatus :: "env \<Rightarrow> UpdateEstimateStatusInput \<Rightarrow> 'x pipeline_db_scheme \<Rightarrow>
    (svc_error + PipelineEstimate) \<times> 'x pipeline_db_scheme" where
  "UpdateEstimateStatus e inp d =
     service_result (require_that (IsValidEstimateStatus (ue_NewStatus inp)) (InvalidInput ''status'')) d
       (mapped (BeginTxFunc e (update_estimate_body e inp) d))"

section \<open>Permits\<close>

record CreatePermitInput = CreatePermitParams +
  cq_OrgID :: uuid

definition CreatePermit :: "env \<Rightarrow> CreatePermitInput \<Rightarrow> 'x pipeline_db_scheme \<Rightarrow>
    (svc_error + Permit) \<times> 'x pipeline_db_scheme" where
  "CreatePermit e inp d =
     service_result
       (ebind (require_that (cq_PermitType inp \<noteq> []) (InvalidInput ''permit_type'')) (\<lambda>_.
        ebind (require_that (cq_Jurisdiction inp \<noteq> []) (InvalidInput ''jurisdiction'')) (\<lambda>_.
        ebind (map_err (\<lambda>_. InvalidInput ''fee_currency_code'') (Validate (cq_FeeCurrencyCode inp))) (\<lambda>_.
        require_that (0 \<le> cq_FeeCents inp) (InvalidInput ''fee_cents''))))) d
       (mapped (BeginTxFunc e
          (tbind (VerifyProspectInOrg e (cq_ProspectID inp) (cq_OrgID inp)) (\<lambda>_.
           CreatePermit_store e (CreatePermitParams.truncate inp))) d))"

record UpdatePermitInput = UpdatePermitParams +
  uq_ProspectID :: uuid
  uq_OrgID :: uuid

definition update_permit_body :: "env \<Rightarrow> UpdatePermitInput \<Rightarrow> ('x pipeline_db_scheme, Permit) tx" where
  "update_permit_body e inp =
     tbind (VerifyProspectInOrg e (uq_ProspectID inp) (uq_OrgID inp)) (\<lambda>_.
     tbind (GetPermit e (uq_PermitID inp) (uq_ProspectID inp)) (\<lambda>current.
     tbind (tguard (opt_ok (CanTransitionPermitStatus (pe_Status current)) (uq_Status inp)) InvalidTransition) (\<lambda>_.
     UpdatePermit_store e (UpdatePermitParams.truncate inp))))"

definition UpdatePermit :: "env \<Rightarrow> UpdatePermitInput \<Rightarrow> 'x pipeline_db_scheme \<Rightarrow>
    (svc_error + Permit) \<times> 'x pipeline_db_scheme" where
  "UpdatePermit e inp d =
     service_result
       (ebind (require_that (opt_ok IsValidPermitStatus (uq_Status inp)) (InvalidInput ''status'')) (\<lambda>_.
        require_that (opt_ok (\<lambda>c. 0 \<le> c) (uq_FeeCents inp)) (InvalidInput ''fee_cents''))) d
       (mapped (BeginTxFunc e (update_permit_body e inp) d))"

section \<open>Elimination of the bodies\<close>

lemma service_result_commit:
  "service_result chk d run = (Inr x, d') \<longleftrightarrow> chk = Inr () \<and> run = (Inr x, d')"
  by (auto simp: service_result_def split: sum.splits)

lemma snd_service_result:
  "snd (service_result chk d run) = (case chk of Inl _ \<Rightarrow> d | Inr _ \<Rightarrow> snd run)"
  by (auto simp: service_result_def split: sum.splits)

text \<open>
  The write phase finds the row by its key: what it updates is the row of its own snapshot, which is
  \<open>current\<close> only when nobody changed it since the read.
\<close>

lemma permit_write_Inr:
  assumes "permit_write e sub inp date current s1 = Inr (updated, s)" "\<not> s_aborted s" "pr_GSF current \<noteq> None"
  obtains row u rows where
    "List.find (prospect_key (ap_ProspectID inp) (ap_OrgID inp)) (db_prospects (s_db s1)) = Some row"
    "u = e_uuid e (s_draws s1)" "u \<notin> pj_ID ` set (db_projects (s_db s1))" "updated = issue_prospect e u row"
    "s_db s = s_db s1
       \<lparr>db_projects := db_projects (s_db s1) @ [project_of_prospect e (permit_project current date) u],
        db_prospects := update_where (prospect_key (ap_ProspectID inp) (ap_OrgID inp)) (issue_prospect e u)
          (db_prospects (s_db s1)),
        db_jobs := db_jobs (s_db s1) @ [HydrateProject u], db_audit := db_audit (s_db s1) @ rows\<rparr>"
    "auditable (permit_entry sub inp date current updated u) \<Longrightarrow>
       audit_appended (permit_entry sub inp date current updated u) (s_db s1) (s_db s)"
proof -
  from assms(1) obtain project s2 s3 s4 where
    ins: "CreateProjectFromProspect e (permit_project current date) s1 = Inr (project, s2)" and
    upd: "MarkProspectPermitIssued e (ap_ProspectID inp) (ap_OrgID inp) (pj_ID project) s2 = Inr (updated, s3)" and
    job: "InsertTx e (HydrateProject (pj_ID project)) s3 = Inr ((), s4)" and
    rcd: "Record e (permit_entry sub inp date current updated (pj_ID project)) s4 = Inr ((), s)"
    by (auto simp: permit_write_def tbind_Inr)
  let ?u = "e_uuid e (s_draws s1)"
  have ins': "pj_ID project = ?u" "?u \<notin> pj_ID ` set (db_projects (s_db s1))"
      "project = project_of_prospect e (permit_project current date) ?u"
    and db2: "s_db s2 = (s_db s1)\<lparr>db_projects := db_projects (s_db s1) @ [project]\<rparr>"
    using ins by (auto simp: CreateProjectFromProspect_def insert_returning_Inr project_of_prospect_def)
  obtain row where db3: "s_db s3 = (s_db s2)\<lparr>db_prospects := update_where (prospect_key (ap_ProspectID inp) (ap_OrgID inp))
          (issue_prospect e ?u) (db_prospects (s_db s2))\<rparr>"
    and row: "List.find (prospect_key (ap_ProspectID inp) (ap_OrgID inp)) (db_prospects (s_db s1)) = Some row"
    and up: "updated = issue_prospect e ?u row"
    using upd ins' by (auto simp: MarkProspectPermitIssued_def update_returning_Inr db2)
  have db4: "s_db s4 = (s_db s3)\<lparr>db_jobs := db_jobs (s_db s3) @ [HydrateProject ?u]\<rparr>"
    using job ins' by (auto simp: InsertTx_def stmt_Inr)
  have aud: "db_audit (s_db s4) = db_audit (s_db s1)" by (simp add: db4 db3 db2)
  from Record_Inr [OF rcd assms(2)] obtain rows where
    rows: "s_db s = s_db s4\<lparr>db_audit := db_audit (s_db s4) @ rows\<rparr>"
      "auditable (permit_entry sub inp date current updated (pj_ID project)) \<Longrightarrow>
       audit_appended (permit_entry sub inp date current updated (pj_ID project)) (s_db s4) (s_db s)" by metis
  show thesis
    by (rule that [of row ?u rows])
       (use row ins' up rows aud in \<open>simp_all add: db4 db3 db2 audit_appended_def\<close>)
qed

lemma permit_read_Inr:
  "permit_read e inp s0 = Inr (current, s1) \<longleftrightarrow> \<not> s_aborted s0 \<and> \<not> e_fail e ''get prospect'' \<and>
     List.find (prospect_key (ap_ProspectID inp) (ap_OrgID inp)) (db_prospects (s_db s0)) = Some current \<and>
     CanTransition (pr_PipelineStage current) StagePermitIssued \<and> pr_GSF current \<noteq> None \<and> s1 = s0"
  by (auto simp: permit_read_def GetProspect_def tx_elims)

lemma permit_body_Inr:
  assumes "tbind (permit_read e inp) (permit_write e sub inp date) s0 = Inr (updated, s)" "\<not> s_aborted s"
  obtains current u rows where
    "List.find (prospect_key (ap_ProspectID inp) (ap_OrgID inp)) (db_prospects (s_db s0)) = Some current"
    "CanTransition (pr_PipelineStage current) StagePermitIssued" "pr_GSF current \<noteq> None"
    "u = e_uuid e (s_draws s0)" "u \<notin> pj_ID ` set (db_projects (s_db s0))"
    "updated = issue_prospect e u current"
    "s_db s = s_db s0
       \<lparr>db_projects := db_projects (s_db s0) @ [project_of_prospect e (permit_project current date) u],
        db_prospects := update_where (prospect_key (ap_ProspectID inp) (ap_OrgID inp)) (issue_prospect e u)
          (db_prospects (s_db s0)),
        db_jobs := db_jobs (s_db s0) @ [HydrateProject u], db_audit := db_audit (s_db s0) @ rows\<rparr>"
    "auditable (permit_entry sub inp date current updated u) \<Longrightarrow>
       audit_appended (permit_entry sub inp date current updated u) (s_db s0) (s_db s)"
proof -
  from assms(1) obtain current where
    rd: "permit_read e inp s0 = Inr (current, s0)" and
    wr: "permit_write e sub inp date current s0 = Inr (updated, s)"
    by (auto simp: tbind_Inr permit_read_Inr)
  have cur: "pr_GSF current \<noteq> None" using rd by (simp add: permit_read_Inr)
  from wr assms(2) cur show thesis
  proof (rule permit_write_Inr, goal_cases)
    case (1 row u rows)
    then show thesis using rd that [of current u rows] by (simp add: permit_read_Inr)
  qed
qed

lemma advance_body_Inr:
  assumes "advance_body e sub inp s0 = Inr (updated, s)" "\<not> s_aborted s"
  obtains current rows where
    "List.find (prospect_key (ap_ProspectID inp) (ap_OrgID inp)) (db_prospects (s_db s0)) = Some current"
    "CanTransition (pr_PipelineStage current) (ap_Target inp)"
    "s_db s = s_db s0
       \<lparr>db_prospects := update_where (prospect_key (ap_ProspectID inp) (ap_OrgID inp))
          (move_prospect e (ap_Target inp)) (db_prospects (s_db s0)),
        db_audit := db_audit (s_db s0) @ rows\<rparr>"
proof -
  from assms(1) obtain current s1 where
    cur: "List.find (prospect_key (ap_ProspectID inp) (ap_OrgID inp)) (db_prospects (s_db s0)) = Some current"
    and can: "CanTransition (pr_PipelineStage current) (ap_Target inp)"
    and upd: "AdvanceStage e (ap_ProspectID inp) (ap_OrgID inp) (ap_Target inp) s0 = Inr (updated, s1)"
    and rcd: "Record e (stage_entry (ap_OrgID inp) sub (ap_ProspectID inp) (stage_payload current)
              (stage_payload updated) [(''prospect_name'', JStr (pr_Name updated))]) s1 = Inr ((), s)"
    unfolding advance_body_def GetProspect_def by (auto simp: tbind_Inr select_one_Inr)
  from Record_Inr [OF rcd assms(2)] obtain rows where
    rows: "s_db s = s_db s1\<lparr>db_audit := db_audit (s_db s1) @ rows\<rparr>" by metis
  show thesis
    by (rule that [of current rows])
       (use cur can rows upd in \<open>auto simp: AdvanceStage_def update_returning_Inr\<close>)
qed

lemma lose_body_Inr:
  assumes "lose_body e sub inp s0 = Inr (updated, s)" "\<not> s_aborted s"
  obtains current rows where
    "List.find (prospect_key (lo_ProspectID inp) (lo_OrgID inp)) (db_prospects (s_db s0)) = Some current"
    "pr_PipelineStage current \<noteq> StagePermitIssued"
    "s_db s = s_db s0
       \<lparr>db_prospects := update_where (prospect_key (lo_ProspectID inp) (lo_OrgID inp))
          (lose_prospect e (lo_Reason inp)) (db_prospects (s_db s0)),
        db_audit := db_audit (s_db s0) @ rows\<rparr>"
proof -
  from assms(1) obtain current s1 where
    cur: "List.find (prospect_key (lo_ProspectID inp) (lo_OrgID inp)) (db_prospects (s_db s0)) = Some current"
    and ne: "pr_PipelineStage current \<noteq> StagePermitIssued"
    and upd: "MarkLost e (lo_ProspectID inp) (lo_OrgID inp) (lo_Reason inp) s0 = Inr (updated, s1)"
    and rcd: "Record e (stage_entry (lo_OrgID inp) sub (lo_ProspectID inp) (stage_payload current)
              (stage_payload updated) [(''reason'', JStr (lo_Reason inp)), (''prospect_name'', JStr (pr_Name updated))]) s1 = Inr ((), s)"
    unfolding lose_body_def GetProspect_def by (auto simp: tbind_Inr select_one_Inr)
  from Record_Inr [OF rcd assms(2)] obtain rows where
    rows: "s_db s = s_db s1\<lparr>db_audit := db_audit (s_db s1) @ rows\<rparr>" by metis
  show thesis
    by (rule that [of current rows])
       (use cur ne rows upd in \<open>auto simp: MarkLost_def update_returning_Inr\<close>)
qed

end
