(* ===== verification/Pipeline_Inv.thy ===== *)
theory Pipeline_Inv
  imports Pipeline
begin

text \<open>
  What each write of \<open>PipelineService\<close> commits, and the invariant of the pipeline tables over every
  sequence of requests, whichever statements fail on the way.
\<close>

section \<open>What a committed request has done\<close>

section \<open>Requests\<close>

datatype pipeline_op =
    OpCreateProspect CreateProspectInput
  | OpUpdateProspect UpdateProspectInput
  | OpAdvance string AdvanceProspectInput
  | OpLose string LoseProspectInput
  | OpCreateEstimate CreateEstimateInput
  | OpEstimateStatus UpdateEstimateStatusInput
  | OpCreatePermit CreatePermitInput
  | OpUpdatePermit UpdatePermitInput

definition run_op :: "env \<Rightarrow> pipeline_op \<Rightarrow> 'x pipeline_db_scheme \<Rightarrow> 'x pipeline_db_scheme" where
  "run_op e op d =
     (case op of
        OpCreateProspect i \<Rightarrow> snd (CreateProspect e i d)
      | OpUpdateProspect i \<Rightarrow> snd (UpdateProspect e i d)
      | OpAdvance sub i \<Rightarrow> snd (AdvanceProspect e sub i d)
      | OpLose sub i \<Rightarrow> snd (LoseProspect e sub i d)
      | OpCreateEstimate i \<Rightarrow> snd (CreateEstimate e i d)
      | OpEstimateStatus i \<Rightarrow> snd (UpdateEstimateStatus e i d)
      | OpCreatePermit i \<Rightarrow> snd (CreatePermit e i d)
      | OpUpdatePermit i \<Rightarrow> snd (UpdatePermit e i d))"

fun op_org :: "pipeline_op \<Rightarrow> uuid" where
  "op_org (OpCreateProspect i) = ci_OrgID i"
| "op_org (OpUpdateProspect i) = ui_OrgID i"
| "op_org (OpAdvance sub i) = ap_OrgID i"
| "op_org (OpLose sub i) = lo_OrgID i"
| "op_org (OpCreateEstimate i) = ne_OrgID i"
| "op_org (OpEstimateStatus i) = ue_OrgID i"
| "op_org (OpCreatePermit i) = cq_OrgID i"
| "op_org (OpUpdatePermit i) = uq_OrgID i"

text \<open>
  The ways a request can change the database. \<open>edit\<close> leaves stage, link and reason alone; \<open>move\<close> and
  \<open>lost\<close> change the stage; \<open>issue\<close> is the Kanban to CPM transition.
\<close>

definition keeps_state :: "(Prospect \<Rightarrow> Prospect) \<Rightarrow> bool" where
  "keeps_state f \<longleftrightarrow> (\<forall>r. pr_ID (f r) = pr_ID r \<and> pr_OrgID (f r) = pr_OrgID r \<and>
     pr_PipelineStage (f r) = pr_PipelineStage r \<and> pr_ProbabilityPct (f r) = pr_ProbabilityPct r \<and>
     pr_LostReason (f r) = pr_LostReason r \<and> pr_ProjectID (f r) = pr_ProjectID r)"

lemma snd_BeginTx_cases:
  obtains (same) "snd (BeginTxFunc e f d) = d"
    | (commit) x s where "f \<lparr>s_db = d, s_draws = 0, s_aborted = False\<rparr> = Inr (x, s)" "\<not> s_aborted s"
        "snd (BeginTxFunc e f d) = s_db s"
proof (cases "snd (BeginTxFunc e f d) = d")
  case False
  show thesis
    by (rule BeginTxFunc_cases [OF prod.collapse [symmetric, of "BeginTxFunc e f d"]])
       (use False commit in auto)
qed (rule same)

lemma keeps_state_edit: "keeps_state (edit_prospect e p)"
  by (simp add: keeps_state_def edit_prospect_def)

lemma Validate_Inr: "Validate c = Inr () \<longleftrightarrow> c \<in> {USD, CAD}"
  by (simp add: Validate_def)

lemma require_prospect_Inr:
  "VerifyProspectInOrg e pid org s = Inr (u, s') \<longleftrightarrow> \<not> s_aborted s \<and>
     \<not> e_fail e ''verify prospect in org'' \<and> (\<exists>p\<in>set (db_prospects (s_db s)). prospect_key pid org p) \<and> s' = s"
  by (auto simp: VerifyProspectInOrg_def tx_elims prospect_key_def)

lemma create_effect:
  obtains (same) "snd (CreateProspect e i d) = d"
  | (create) r where "snd (CreateProspect e i d) = d\<lparr>db_prospects := db_prospects d @ [r]\<rparr>"
      "pr_OrgID r = ci_OrgID i" "pr_PipelineStage r = StageLead" "pr_ProbabilityPct r = 10"
      "pr_LostReason r = None" "pr_ProjectID r = None" "pr_ID r \<notin> pr_ID ` set (db_prospects d)"
proof (cases "snd (CreateProspect e i d) = d")
  case False
  show thesis
  proof (rule snd_BeginTx_cases [of e "CreateProspect_store e i" d])
    fix r s assume "CreateProspect_store e i \<lparr>s_db = d, s_draws = 0, s_aborted = False\<rparr> = Inr (r, s)"
      and "snd (BeginTxFunc e (CreateProspect_store e i) d) = s_db s"
    then show thesis using False
      by (intro create [of r])
         (auto simp: CreateProspect_def snd_service_result CreateProspect_store_def insert_returning_Inr StageLead_def
            split: sum.splits)
  qed (use False in \<open>auto simp: CreateProspect_def snd_service_result split: sum.splits\<close>)
qed (rule same)

lemma edit_effect:
  obtains (same) "snd (UpdateProspect e i d) = d"
  | (edit) f where "keeps_state f" "snd (UpdateProspect e i d) =
      d\<lparr>db_prospects := update_where (prospect_key (ui_ProspectID i) (ui_OrgID i)) f (db_prospects d)\<rparr>"
proof (cases "snd (UpdateProspect e i d) = d")
  case False
  show thesis
  proof (rule snd_BeginTx_cases [of e "UpdateProspect_store e i" d])
    fix r s assume "UpdateProspect_store e i \<lparr>s_db = d, s_draws = 0, s_aborted = False\<rparr> = Inr (r, s)"
      and "snd (BeginTxFunc e (UpdateProspect_store e i) d) = s_db s"
    then show thesis using False
      by (intro edit [OF keeps_state_edit [of e i]])
         (auto simp: UpdateProspect_def snd_service_result UpdateProspect_store_def update_returning_Inr
            split: sum.splits if_splits)
  qed (use False in \<open>auto simp: UpdateProspect_def snd_service_result split: sum.splits\<close>)
qed (rule same)

section \<open>The board: what each request may do\<close>

text \<open>
  The abstract steps of the pipeline. \<open>org\<close> is the caller's organisation: a step touches its rows only.
\<close>

inductive board_step :: "env \<Rightarrow> uuid \<Rightarrow> 'x pipeline_db_scheme \<Rightarrow> 'x pipeline_db_scheme \<Rightarrow> bool"
  for e org d where
  same: "board_step e org d d"
| create: "\<lbrakk>pr_OrgID r = org; pr_PipelineStage r = StageLead; pr_ProbabilityPct r = 10;
     pr_LostReason r = None; pr_ProjectID r = None; pr_ID r \<notin> pr_ID ` set (db_prospects d)\<rbrakk> \<Longrightarrow>
   board_step e org d (d\<lparr>db_prospects := db_prospects d @ [r]\<rparr>)"
| edit: "keeps_state f \<Longrightarrow>
   board_step e org d (d\<lparr>db_prospects := update_where (prospect_key pid org) f (db_prospects d)\<rparr>)"
| move: "\<lbrakk>List.find (prospect_key pid org) (db_prospects d) = Some current;
     CanTransition (pr_PipelineStage current) target; target \<noteq> StagePermitIssued\<rbrakk> \<Longrightarrow>
   board_step e org d (d\<lparr>db_prospects := update_where (prospect_key pid org) (move_prospect e target) (db_prospects d),
     db_audit := db_audit d @ rows\<rparr>)"
| lost: "\<lbrakk>List.find (prospect_key pid org) (db_prospects d) = Some current;
     pr_PipelineStage current \<noteq> StagePermitIssued\<rbrakk> \<Longrightarrow>
   board_step e org d (d\<lparr>db_prospects := update_where (prospect_key pid org) (lose_prospect e reason) (db_prospects d),
     db_audit := db_audit d @ rows\<rparr>)"
| issue: "\<lbrakk>List.find (prospect_key pid org) (db_prospects d) = Some current;
     CanTransition (pr_PipelineStage current) StagePermitIssued; pr_GSF current \<noteq> None;
     u \<notin> pj_ID ` set (db_projects d)\<rbrakk> \<Longrightarrow>
   board_step e org d (d\<lparr>db_projects := db_projects d @ [project_of_prospect e (permit_project current date) u],
     db_prospects := update_where (prospect_key pid org) (issue_prospect e u) (db_prospects d),
     db_jobs := db_jobs d @ [HydrateProject u], db_audit := db_audit d @ rows\<rparr>)"
| estimate: "\<lbrakk>es_ID r \<notin> es_ID ` set (db_estimates d);
     es_Version r = next_version (es_ProspectID r) (db_estimates d); es_Status r = EstimateStatusDraft;
     es_SentAt r = None; es_CurrencyCode r \<in> {USD, CAD}; es_LineItems r \<noteq> [];
     estimate_total (es_LineItems r) 0 = Inr (es_TotalEstimatedCents r);
     \<exists>p\<in>set (db_prospects d). prospect_key (es_ProspectID r) org p\<rbrakk> \<Longrightarrow>
   board_step e org d (d\<lparr>db_estimates := db_estimates d @ [r]\<rparr>)"
| estimate_status: "\<lbrakk>List.find (\<lambda>x. es_ID x = eid \<and> es_ProspectID x = pid) (db_estimates d) = Some r;
     CanTransitionEstimateStatus (es_Status r) status; \<exists>p\<in>set (db_prospects d). prospect_key pid org p\<rbrakk> \<Longrightarrow>
   board_step e org d (d\<lparr>db_estimates := update_where (\<lambda>x. es_ID x = eid) (stamp_estimate e status) (db_estimates d)\<rparr>)"
| permit: "\<lbrakk>pe_ID r \<notin> pe_ID ` set (db_permits d); pe_Status r = PermitStatusNotSubmitted; 0 \<le> pe_FeeCents r;
     pe_FeeCurrencyCode r \<in> {USD, CAD}; \<exists>p\<in>set (db_prospects d). prospect_key (pe_ProspectID r) org p\<rbrakk> \<Longrightarrow>
   board_step e org d (d\<lparr>db_permits := db_permits d @ [r]\<rparr>)"
| permit_update: "\<lbrakk>List.find (\<lambda>x. pe_ID x = qid \<and> pe_ProspectID x = pid) (db_permits d) = Some r;
     opt_ok (CanTransitionPermitStatus (pe_Status r)) (uq_Status q); opt_ok (\<lambda>c. 0 \<le> c) (uq_FeeCents q);
     \<exists>p\<in>set (db_prospects d). prospect_key pid org p\<rbrakk> \<Longrightarrow>
   board_step e org d (d\<lparr>db_permits := update_where (\<lambda>x. pe_ID x = qid) (edit_permit e q) (db_permits d)\<rparr>)"

section \<open>Every request is a step of the board\<close>

lemma create_step: "board_step e (ci_OrgID i) d (snd (CreateProspect e i d))"
proof (rule create_effect [of e i d])
  fix r assume "snd (CreateProspect e i d) = d\<lparr>db_prospects := db_prospects d @ [r]\<rparr>"
      "pr_OrgID r = ci_OrgID i" "pr_PipelineStage r = StageLead" "pr_ProbabilityPct r = 10"
      "pr_LostReason r = None" "pr_ProjectID r = None" "pr_ID r \<notin> pr_ID ` set (db_prospects d)"
  then show ?thesis using board_step.create [of r "ci_OrgID i" d e] by simp
qed (simp add: board_step.same)

lemma edit_step: "board_step e (ui_OrgID i) d (snd (UpdateProspect e i d))"
proof (rule edit_effect [of e i d])
  fix f assume "keeps_state f" "snd (UpdateProspect e i d) =
      d\<lparr>db_prospects := update_where (prospect_key (ui_ProspectID i) (ui_OrgID i)) f (db_prospects d)\<rparr>"
  then show ?thesis using board_step.edit [of f e "ui_OrgID i" d "ui_ProspectID i"] by simp
qed (simp add: board_step.same)

lemma issue_step: "board_step e (ap_OrgID i) d (snd (transitionToPermitIssued e sub i d))"
proof (cases "ap_PermitIssuedDate i")
  case None
  then show ?thesis by (simp add: transitionToPermitIssued_def board_step.same)
next
  case (Some date)
  let ?b = "tbind (permit_read e i) (permit_write e sub i date)"
  show ?thesis
  proof (rule snd_BeginTx_cases [of e ?b d])
    assume "snd (BeginTxFunc e ?b d) = d"
    then show ?thesis using Some by (simp add: transitionToPermitIssued_def board_step.same)
  next
    fix x s assume run: "?b \<lparr>s_db = d, s_draws = 0, s_aborted = False\<rparr> = Inr (x, s)" "\<not> s_aborted s"
      and eq: "snd (BeginTxFunc e ?b d) = s_db s"
    from run show ?thesis
    proof (rule permit_body_Inr, goal_cases)
      case (1 current u rows)
      then show ?thesis using eq Some
          board_step.issue [of "ap_ProspectID i" "ap_OrgID i" d current u e rows date]
        by (auto simp: transitionToPermitIssued_def board_step.same)
    qed
  qed
qed

lemma advance_step: "board_step e (ap_OrgID i) d (snd (AdvanceProspect e sub i d))"
proof (cases "ap_Target i = StagePermitIssued \<or> (ap_Target i \<noteq> StageLost \<and> Probability (ap_Target i) = 0)")
  case True
  then show ?thesis by (auto simp: AdvanceProspect_def board_step.same issue_step)
next
  case False
  then have adv: "snd (AdvanceProspect e sub i d) = snd (BeginTxFunc e (advance_body e sub i) d)"
    by (auto simp: AdvanceProspect_def)
  show ?thesis
  proof (rule snd_BeginTx_cases [of e "advance_body e sub i" d])
    fix x s assume run: "advance_body e sub i \<lparr>s_db = d, s_draws = 0, s_aborted = False\<rparr> = Inr (x, s)" "\<not> s_aborted s"
      and eq: "snd (BeginTxFunc e (advance_body e sub i) d) = s_db s"
    from run show ?thesis
    proof (rule advance_body_Inr, goal_cases)
      case (1 current rows)
      then show ?thesis using adv eq False
          board_step.move [of "ap_ProspectID i" "ap_OrgID i" d current "ap_Target i" e rows] by simp
    qed
  qed (simp add: adv board_step.same)
qed

lemma lose_step: "board_step e (lo_OrgID i) d (snd (LoseProspect e sub i d))"
proof (cases "lo_Reason i = []")
  case True
  then show ?thesis by (simp add: LoseProspect_def service_result_def require_that_def board_step.same)
next
  case False
  then have lose: "snd (LoseProspect e sub i d) = snd (BeginTxFunc e (lose_body e sub i) d)"
    by (simp add: LoseProspect_def service_result_def require_that_def)
  show ?thesis
  proof (rule snd_BeginTx_cases [of e "lose_body e sub i" d])
    fix x s assume run: "lose_body e sub i \<lparr>s_db = d, s_draws = 0, s_aborted = False\<rparr> = Inr (x, s)" "\<not> s_aborted s"
      and eq: "snd (BeginTxFunc e (lose_body e sub i) d) = s_db s"
    from run show ?thesis
    proof (rule lose_body_Inr, goal_cases)
      case (1 current rows)
      then show ?thesis using lose eq
          board_step.lost [of "lo_ProspectID i" "lo_OrgID i" d current e rows "lo_Reason i"] by simp
    qed
  qed (simp add: lose board_step.same)
qed

end
