(* ===== verification/Pipeline_Board.thy ===== *)
theory Pipeline_Board
  imports Pipeline_Inv
begin

text \<open>
  Every request of \<open>PipelineService\<close> is a step of the board, and what follows: the invariant of the
  reachable databases, the order of the stages, tenant isolation.
\<close>

section \<open>Estimates and permits\<close>

lemma estimate_step: "board_step e (ne_OrgID i) d (snd (CreateEstimate e i d))"
proof (cases "snd (CreateEstimate e i d) = d")
  case True
  then show ?thesis by (simp add: board_step.same)
next
  case False
  then obtain cents where chk: "ne_CurrencyCode i \<in> {USD, CAD}" "ne_LineItems i \<noteq> []"
      "estimate_total (ne_LineItems i) 0 = Inr cents"
    by (auto simp: CreateEstimate_def ebind_Inr_iff Validate_Inr split: sum.splits)
  let ?b = "tbind (VerifyProspectInOrg e (ne_ProspectID i) (ne_OrgID i)) (\<lambda>_.
           CreateEstimate_store e \<lparr>ce_ProspectID = ne_ProspectID i, ce_TotalEstimatedCents = cents,
             ce_CurrencyCode = ne_CurrencyCode i, ce_LineItems = ne_LineItems i,
             ce_MarginPct = ne_MarginPct i\<rparr>)"
  have run: "snd (CreateEstimate e i d) = snd (BeginTxFunc e ?b d)"
    using False chk by (auto simp: CreateEstimate_def Validate_def require_that_def split: sum.splits)
  show ?thesis
  proof (rule snd_BeginTx_cases [of e ?b d])
    fix r s assume "?b \<lparr>s_db = d, s_draws = 0, s_aborted = False\<rparr> = Inr (r, s)"
      and eq: "snd (BeginTxFunc e ?b d) = s_db s"
    then have "board_step e (ne_OrgID i) d (d\<lparr>db_estimates := db_estimates d @ [r]\<rparr>)"
      and db: "s_db s = d\<lparr>db_estimates := db_estimates d @ [r]\<rparr>"
      using chk by (auto intro!: board_step.estimate
        simp: tbind_Inr require_prospect_Inr CreateEstimate_store_def insert_returning_Inr EstimateStatusDraft_def)
    then show ?thesis using run eq by simp
  qed (use False run in simp)
qed

lemma estimate_status_step: "board_step e (ue_OrgID i) d (snd (UpdateEstimateStatus e i d))"
proof (cases "snd (UpdateEstimateStatus e i d) = d")
  case True
  then show ?thesis by (simp add: board_step.same)
next
  case False
  let ?b = "update_estimate_body e i"
  have run: "snd (UpdateEstimateStatus e i d) = snd (BeginTxFunc e ?b d)"
    using False by (auto simp: UpdateEstimateStatus_def snd_service_result split: sum.splits)
  show ?thesis
  proof (rule snd_BeginTx_cases [of e ?b d])
    fix r s assume *: "?b \<lparr>s_db = d, s_draws = 0, s_aborted = False\<rparr> = Inr (r, s)"
      and eq: "snd (BeginTxFunc e ?b d) = s_db s"
    from * obtain current where
      c: "List.find (\<lambda>x. es_ID x = ue_EstimateID i \<and> es_ProspectID x = ue_ProspectID i) (db_estimates d) = Some current"
         "CanTransitionEstimateStatus (es_Status current) (ue_NewStatus i)"
         "\<exists>p\<in>set (db_prospects d). prospect_key (ue_ProspectID i) (ue_OrgID i) p"
      and db: "s_db s = d\<lparr>db_estimates := update_where (\<lambda>x. es_ID x = ue_EstimateID i)
                (stamp_estimate e (ue_NewStatus i)) (db_estimates d)\<rparr>"
      by (auto simp: update_estimate_body_def tbind_Inr require_prospect_Inr GetEstimate_def select_one_Inr
            UpdateEstimateStatus_store_def update_returning_Inr)
    show ?thesis using board_step.estimate_status [OF c, of e] run eq db by simp
  qed (use False run in simp)
qed

lemma permit_step: "board_step e (cq_OrgID i) d (snd (CreatePermit e i d))"
proof (cases "snd (CreatePermit e i d) = d")
  case True
  then show ?thesis by (simp add: board_step.same)
next
  case False
  then have chk: "cq_FeeCurrencyCode i \<in> {USD, CAD}" "0 \<le> cq_FeeCents i"
    by (auto simp: CreatePermit_def snd_service_result ebind_Inr_iff Validate_Inr split: sum.splits)
  let ?b = "tbind (VerifyProspectInOrg e (cq_ProspectID i) (cq_OrgID i)) (\<lambda>_.
           CreatePermit_store e (CreatePermitParams.truncate i))"
  have run: "snd (CreatePermit e i d) = snd (BeginTxFunc e ?b d)"
    using False by (auto simp: CreatePermit_def snd_service_result split: sum.splits)
  show ?thesis
  proof (rule snd_BeginTx_cases [of e ?b d])
    fix r s assume "?b \<lparr>s_db = d, s_draws = 0, s_aborted = False\<rparr> = Inr (r, s)"
      and eq: "snd (BeginTxFunc e ?b d) = s_db s"
    then have "board_step e (cq_OrgID i) d (d\<lparr>db_permits := db_permits d @ [r]\<rparr>)"
      and db: "s_db s = d\<lparr>db_permits := db_permits d @ [r]\<rparr>"
      using chk by (auto intro!: board_step.permit simp: tbind_Inr require_prospect_Inr CreatePermit_store_def
        insert_returning_Inr PermitStatusNotSubmitted_def CreatePermitParams.truncate_def)
    then show ?thesis using run eq by simp
  qed (use False run in simp)
qed

lemma permit_update_step: "board_step e (uq_OrgID i) d (snd (UpdatePermit e i d))"
proof (cases "snd (UpdatePermit e i d) = d")
  case True
  then show ?thesis by (simp add: board_step.same)
next
  case False
  let ?b = "update_permit_body e i" and ?q = "UpdatePermitParams.truncate i"
  have run: "snd (UpdatePermit e i d) = snd (BeginTxFunc e ?b d)"
    and fee: "opt_ok (\<lambda>c. 0 \<le> c) (uq_FeeCents ?q)"
    using False by (auto simp: UpdatePermit_def snd_service_result require_that_def UpdatePermitParams.truncate_def
        split: sum.splits if_splits)
  show ?thesis
  proof (rule snd_BeginTx_cases [of e ?b d])
    fix r s assume *: "?b \<lparr>s_db = d, s_draws = 0, s_aborted = False\<rparr> = Inr (r, s)"
      and eq: "snd (BeginTxFunc e ?b d) = s_db s"
    from * obtain current where
      c: "List.find (\<lambda>x. pe_ID x = uq_PermitID i \<and> pe_ProspectID x = uq_ProspectID i) (db_permits d) = Some current"
         "opt_ok (CanTransitionPermitStatus (pe_Status current)) (uq_Status ?q)"
         "\<exists>p\<in>set (db_prospects d). prospect_key (uq_ProspectID i) (uq_OrgID i) p"
      and db: "s_db s = d\<lparr>db_permits := update_where (\<lambda>x. pe_ID x = uq_PermitID i) (edit_permit e ?q) (db_permits d)\<rparr>"
      by (auto simp: update_permit_body_def tbind_Inr require_prospect_Inr GetPermit_def select_one_Inr
            UpdatePermit_store_def update_returning_Inr UpdatePermitParams.truncate_def)
    show ?thesis using board_step.permit_update [OF c(1,2) fee c(3), of e] run eq db by simp
  qed (use False run in simp)
qed

lemma run_op_step: "board_step e (op_org op) d (run_op e op d)"
  by (cases op)
     (simp_all add: run_op_def create_step edit_step advance_step lose_step estimate_step
        estimate_status_step permit_step permit_update_step)

section \<open>The invariant\<close>

definition linked_project :: "Project list \<Rightarrow> Prospect \<Rightarrow> uuid \<Rightarrow> bool" where
  "linked_project pjs p j \<longleftrightarrow> (\<exists>pj\<in>set pjs. pj_ID pj = j \<and> pj_OrgID pj = pr_OrgID p \<and> pj_GSF pj \<noteq> None \<and>
     pj_ProjectStartDate pj \<noteq> None \<and> pj_ProjectStartDate pj = pj_PermitIssuedDate pj)"

definition prospect_ok :: "Project list \<Rightarrow> river_job list \<Rightarrow> Prospect \<Rightarrow> bool" where
  "prospect_ok pjs js p \<longleftrightarrow> IsValidStage (pr_PipelineStage p) \<and>
     pr_ProbabilityPct p = Probability (pr_PipelineStage p) \<and>
     (pr_LostReason p \<noteq> None \<longrightarrow> pr_PipelineStage p = StageLost) \<and>
     (pr_ProjectID p = None \<longleftrightarrow> pr_PipelineStage p \<noteq> StagePermitIssued) \<and>
     (\<forall>j. pr_ProjectID p = Some j \<longrightarrow> HydrateProject j \<in> set js \<and> linked_project pjs p j)"

text \<open>No two prospects share a project.\<close>

definition links_unique :: "Prospect list \<Rightarrow> bool" where
  "links_unique rows \<longleftrightarrow> (\<forall>p\<in>set rows. \<forall>q\<in>set rows. \<forall>j.
     pr_ProjectID p = Some j \<longrightarrow> pr_ProjectID q = Some j \<longrightarrow> p = q)"

definition prospects_inv :: "'x pipeline_db_scheme \<Rightarrow> bool" where
  "prospects_inv d \<longleftrightarrow> distinct (List.map pr_ID (db_prospects d)) \<and>
     (\<forall>p\<in>set (db_prospects d). prospect_ok (db_projects d) (db_jobs d) p) \<and>
     links_unique (db_prospects d)"

definition estimate_ok :: "PipelineEstimate \<Rightarrow> bool" where
  "estimate_ok r \<longleftrightarrow> 1 \<le> es_Version r \<and> IsValidEstimateStatus (es_Status r) \<and>
     (es_Status r = EstimateStatusSent \<longrightarrow> es_SentAt r \<noteq> None) \<and>
     es_CurrencyCode r \<in> {USD, CAD} \<and> es_LineItems r \<noteq> [] \<and>
     estimate_total (es_LineItems r) 0 = Inr (es_TotalEstimatedCents r)"

definition estimates_inv :: "'x pipeline_db_scheme \<Rightarrow> bool" where
  "estimates_inv d \<longleftrightarrow> distinct (List.map es_ID (db_estimates d)) \<and>
     distinct (List.map (\<lambda>r. (es_ProspectID r, es_Version r)) (db_estimates d)) \<and>
     (\<forall>r\<in>set (db_estimates d). estimate_ok r \<and> es_ProspectID r \<in> pr_ID ` set (db_prospects d))"

definition permits_inv :: "'x pipeline_db_scheme \<Rightarrow> bool" where
  "permits_inv d \<longleftrightarrow> distinct (List.map pe_ID (db_permits d)) \<and>
     (\<forall>r\<in>set (db_permits d). IsValidPermitStatus (pe_Status r) \<and> 0 \<le> pe_FeeCents r \<and>
        pe_FeeCurrencyCode r \<in> {USD, CAD} \<and> pe_ProspectID r \<in> pr_ID ` set (db_prospects d))"

definition pipeline_inv :: "'x pipeline_db_scheme \<Rightarrow> bool" where
  "pipeline_inv d \<longleftrightarrow> prospects_inv d \<and> estimates_inv d \<and> permits_inv d"

text \<open>The database of a new deployment, and every sequence of requests from it.\<close>

inductive pipeline_reachable :: "'x pipeline_db_scheme \<Rightarrow> bool" where
  fresh: "db_prospects d = [] \<Longrightarrow> db_estimates d = [] \<Longrightarrow> db_permits d = [] \<Longrightarrow> pipeline_reachable d"
| request: "pipeline_reachable d \<Longrightarrow> pipeline_reachable (run_op e op d)"

section \<open>Preservation\<close>

lemma find_key_unique:
  assumes "List.find (prospect_key pid org) rows = Some c" "distinct (List.map pr_ID rows)"
    "r \<in> set rows" "prospect_key pid org r"
  shows "r = c"
  using find_SomeD [OF assms(1)] assms(2-4) by (auto simp: prospect_key_def distinct_map inj_on_def)

lemma linked_project_mono: "linked_project pjs p j \<Longrightarrow> linked_project (pjs @ new) p j"
  by (auto simp: linked_project_def)

lemma prospect_ok_mono: "prospect_ok pjs js p \<Longrightarrow> prospect_ok (pjs @ pjs') (js @ js') p"
  by (simp add: prospect_ok_def linked_project_mono)

lemma prospect_ok_append_jobs: "prospect_ok pjs js p \<Longrightarrow> prospect_ok pjs (js @ js') p"
  using prospect_ok_mono [of pjs js p "[]" js'] by simp

text \<open>Replacing the one row a key selects.\<close>

lemma prospects_inv_replace:
  assumes inv: "prospects_inv d"
    and rows: "db_prospects d' = update_where (prospect_key pid org) f (db_prospects d)"
    and pj: "db_projects d' = db_projects d @ pjs" "db_jobs d' = db_jobs d @ js"
    and id: "\<And>r. pr_ID (f r) = pr_ID r"
    and ok: "\<And>r. r \<in> set (db_prospects d) \<Longrightarrow> prospect_key pid org r \<Longrightarrow> prospect_ok (db_projects d') (db_jobs d') (f r)"
    and link: "\<And>r q j. r \<in> set (db_prospects d) \<Longrightarrow> prospect_key pid org r \<Longrightarrow> q \<in> set (db_prospects d) \<Longrightarrow>
                 pr_ProjectID (f r) = Some j \<Longrightarrow> pr_ProjectID q = Some j \<Longrightarrow> q = r"
  shows "prospects_inv d'"
proof -
  let ?g = "\<lambda>r. if prospect_key pid org r then f r else r"
  have set: "set (db_prospects d') = ?g ` set (db_prospects d)" by (simp add: rows set_update_where)
  have "prospect_ok (db_projects d') (db_jobs d') p" if "p \<in> set (db_prospects d')" for p
    using that inv ok by (auto simp: set pj prospects_inv_def prospect_ok_mono split: if_splits)
  moreover have "distinct (List.map pr_ID (db_prospects d'))"
    using inv map_update_where [of pr_ID f "prospect_key pid org", OF id] by (simp add: rows prospects_inv_def)
  moreover have "?g p = ?g q" if pq: "p \<in> set (db_prospects d)" "q \<in> set (db_prospects d)"
      and l: "pr_ProjectID (?g p) = Some j" "pr_ProjectID (?g q) = Some j" for p q j
  proof (cases "prospect_key pid org p \<or> prospect_key pid org q")
    case False
    then show ?thesis using inv pq l by (auto simp: prospects_inv_def links_unique_def)
  next
    case True
    have uniq: "p = q" if "prospect_key pid org p" "prospect_key pid org q"
      using inv pq that by (auto simp: prospects_inv_def prospect_key_def distinct_map inj_on_def)
    then show ?thesis using True link [of p q j] link [of q p j] pq l by (metis (full_types))
  qed
  ultimately show ?thesis unfolding prospects_inv_def links_unique_def set by blast
qed

lemma board_step_prospects:
  assumes "board_step e org d d'" "prospects_inv d"
  shows "prospects_inv d'"
  using assms
proof (cases rule: board_step.cases)
  case (create r)
  then have "prospect_ok (db_projects d) (db_jobs d) r"
    by (simp add: prospect_ok_def IsValidStage_def Probability_def stages_neq)
  with create assms(2) show ?thesis
    by (auto simp: prospects_inv_def links_unique_def)
next
  case (edit f pid)
  show ?thesis
    by (rule prospects_inv_replace [OF assms(2), of _ pid org f "[]" "[]"])
       (use edit assms(2) in \<open>auto simp: keeps_state_def prospects_inv_def links_unique_def prospect_ok_def linked_project_def\<close>)
next
  case (move pid current target rows)
  note uniq = find_key_unique [OF move(2)]
  have cur: "prospect_ok (db_projects d) (db_jobs d) current"
    using find_SomeD [OF move(2)] assms(2) by (simp add: prospects_inv_def)
  have st: "\<not> IsTerminal (pr_PipelineStage current)" "IsValidStage target"
    using stage.terminal_stuck stage.can_valid move(3) by blast+
  show ?thesis
    by (rule prospects_inv_replace [OF assms(2), of _ pid org "move_prospect e target" "[]" "[]"])
       (use move assms(2) cur st uniq in
         \<open>auto simp: move_prospect_def prospects_inv_def links_unique_def prospect_ok_def IsTerminal_def\<close>)
next
  case (lost pid current rows reason)
  note uniq = find_key_unique [OF lost(2)]
  have cur: "prospect_ok (db_projects d) (db_jobs d) current"
    using find_SomeD [OF lost(2)] assms(2) by (simp add: prospects_inv_def)
  show ?thesis
    by (rule prospects_inv_replace [OF assms(2), of _ pid org "lose_prospect e reason" "[]" "[]"])
       (use lost assms(2) cur uniq in
         \<open>auto simp: lose_prospect_def prospects_inv_def links_unique_def prospect_ok_def IsValidStage_def Probability_def stage_defs\<close>)
next
  case (issue pid current u rows date)
  note uniq = find_key_unique [OF issue(2)]
  have cur: "prospect_ok (db_projects d) (db_jobs d) current"
    using find_SomeD [OF issue(2)] assms(2) by (simp add: prospects_inv_def)
  have st: "\<not> IsTerminal (pr_PipelineStage current)"
    using stage.terminal_stuck issue(3) by blast
  have fresh: "pr_ProjectID q \<noteq> Some u" if "q \<in> set (db_prospects d)" for q
    using assms(2) that issue(5) by (auto simp: prospects_inv_def prospect_ok_def linked_project_def)
  show ?thesis
    by (rule prospects_inv_replace [OF assms(2), of _ pid org "issue_prospect e u"
          "[project_of_prospect e (permit_project current date) u]" "[HydrateProject u]"])
       (use issue assms(2) cur st uniq fresh in
         \<open>auto simp: issue_prospect_def prospects_inv_def prospect_ok_def IsTerminal_def linked_project_def
            project_of_prospect_def permit_project_def IsValidStage_def Probability_def stage_defs\<close>)
qed (simp_all add: prospects_inv_def)


lemma next_version_above:
  "r \<in> set rows \<Longrightarrow> es_ProspectID r = pid \<Longrightarrow> es_Version r < next_version pid rows"
  by (auto simp: next_version_def Let_def filter_empty_conv intro: le_less_trans [OF Max_ge])

lemma next_version_pos:
  assumes "\<And>r. r \<in> set rows \<Longrightarrow> 1 \<le> es_Version r"
  shows "1 \<le> next_version pid rows"
proof (cases "\<exists>r\<in>set rows. es_ProspectID r = pid")
  case True
  then show ?thesis using assms next_version_above [of _ rows pid] by fastforce
next
  case False
  then show ?thesis by (simp add: next_version_def Let_def filter_empty_conv)
qed

lemma ids_update_where:
  assumes "\<And>r. pr_ID (f r) = pr_ID r"
  shows "pr_ID ` set (update_where P f rows) = pr_ID ` set rows"
  using map_update_where [of pr_ID f P rows, OF assms] by (metis image_set)

lemma board_step_prospect_ids:
  assumes "board_step e org d d'"
  shows "pr_ID ` set (db_prospects d) \<subseteq> pr_ID ` set (db_prospects d')"
  using assms
  by (cases rule: board_step.cases)
     (auto simp: ids_update_where keeps_state_def move_prospect_def lose_prospect_def issue_prospect_def)

lemma board_step_estimates:
  assumes "board_step e org d d'" "estimates_inv d"
  shows "estimates_inv d'"
proof -
  note ids = board_step_prospect_ids [OF assms(1)]
  show ?thesis using assms
  proof (cases rule: board_step.cases)
    case (estimate r)
    have "estimate_ok r"
      using estimate next_version_pos [of "db_estimates d" "es_ProspectID r"] assms(2)
      by (auto simp: estimate_ok_def estimates_inv_def IsValidEstimateStatus_def estimate_status_defs)
    then show ?thesis using estimate assms(2) next_version_above [of _ "db_estimates d"]
      by (force simp: estimates_inv_def prospect_key_def)
  next
    case (estimate_status eid pid r status)
    let ?f = "stamp_estimate e status"
    have valid: "IsValidEstimateStatus status"
      using estimate_status.can_valid estimate_status(3) by blast
    have "List.map es_ID (db_estimates d') = List.map es_ID (db_estimates d)"
      "List.map (\<lambda>r. (es_ProspectID r, es_Version r)) (db_estimates d') =
       List.map (\<lambda>r. (es_ProspectID r, es_Version r)) (db_estimates d)"
      using estimate_status(1) by (simp_all add: map_update_where stamp_estimate_def)
    then show ?thesis using estimate_status(1) assms(2) valid
      by (auto simp: estimates_inv_def set_update_where estimate_ok_def stamp_estimate_def estimate_status_defs)
  qed (use ids in \<open>auto simp: estimates_inv_def\<close>)
qed

lemma board_step_permits:
  assumes "board_step e org d d'" "permits_inv d"
  shows "permits_inv d'"
proof -
  note ids = board_step_prospect_ids [OF assms(1)]
  show ?thesis using assms
  proof (cases rule: board_step.cases)
    case (permit r)
    then show ?thesis using assms(2)
      by (force simp: permits_inv_def IsValidPermitStatus_def prospect_key_def)
  next
    case (permit_update qid pid r q)
    let ?f = "edit_permit e q"
    have valid: "opt_ok IsValidPermitStatus (uq_Status q)"
      using permit_status.can_valid permit_update(3) by (cases "uq_Status q") auto
    have "List.map pe_ID (db_permits d') = List.map pe_ID (db_permits d)"
      using permit_update(1) by (simp add: map_update_where edit_permit_def)
    then show ?thesis using permit_update(1,4) assms(2) valid
      by (cases "uq_Status q"; cases "uq_FeeCents q")
         (auto simp: permits_inv_def set_update_where edit_permit_def)
  qed (use ids in \<open>auto simp: permits_inv_def\<close>)
qed

lemma board_step_inv: "board_step e org d d' \<Longrightarrow> pipeline_inv d \<Longrightarrow> pipeline_inv d'"
  by (simp add: pipeline_inv_def board_step_prospects board_step_estimates board_step_permits)

lemma reachable_inv: "pipeline_reachable d \<Longrightarrow> pipeline_inv d"
proof (induction rule: pipeline_reachable.induct)
  case (fresh d)
  then show ?case by (simp add: pipeline_inv_def prospects_inv_def links_unique_def estimates_inv_def permits_inv_def)
next
  case (request d e op)
  then show ?case using board_step_inv [OF run_op_step] by blast
qed

end
