(* ===== verification/Pipeline_Props.thy ===== *)
theory Pipeline_Props
  imports Pipeline_Board
begin

text \<open>
  The properties of the pipeline: refinement of the board, the invariant of every reachable
  database, atomicity and the race of the Kanban to CPM transition, the order of stages, tenant
  isolation, and the total of an estimate.
\<close>

section \<open>A sample request sequence\<close>

definition quiet_env :: "nat \<Rightarrow> env" where
  "quiet_env k = \<lparr>e_now = 0, e_uuid = (\<lambda>n. k + n), e_fail = (\<lambda>_. False), e_commit_fails = False,
     e_riverWired = True, e_request_id = [], e_number = id\<rparr>"

definition sample_prospect :: Prospect where
  "sample_prospect = \<lparr>pr_ID = 10, pr_OrgID = 7, pr_Name = ''A'', pr_ClientName = ''B'', pr_ClientEmail = None,
     pr_ClientPhone = None, pr_Address = None, pr_GSF = Some 2000, pr_PipelineStage = StagePermitApplied,
     pr_ProbabilityPct = 85, pr_Source = None, pr_Notes = None, pr_LostReason = None, pr_ProjectID = None,
     pr_CreatedAt = 0, pr_UpdatedAt = 0\<rparr>"

definition empty_db :: pipeline_db where
  "empty_db = \<lparr>db_orgs = [7], db_projects = [], db_audit = [], db_jobs = [], db_prospects = [],
     db_estimates = [], db_permits = []\<rparr>"

definition sample_db :: pipeline_db where
  "sample_db = empty_db\<lparr>db_prospects := [sample_prospect]\<rparr>"

definition sample_advance :: AdvanceProspectInput where
  "sample_advance = \<lparr>ap_ProspectID = 10, ap_OrgID = 7, ap_Target = StagePermitIssued, ap_PermitIssuedDate = Some 0\<rparr>"

definition sample_create :: CreateProspectInput where
  "sample_create = \<lparr>ci_OrgID = 7, ci_Name = ''A'', ci_ClientName = ''B'', ci_ClientEmail = None,
     ci_ClientPhone = None, ci_Address = None, ci_GSF = Some 2000, ci_Source = None, ci_Notes = None\<rparr>"

lemmas sample_defs = quiet_env_def sample_prospect_def empty_db_def sample_db_def sample_advance_def sample_create_def

lemma sample_reachable: "pipeline_reachable empty_db"
  by (rule pipeline_reachable.fresh) (simp_all add: empty_db_def)

lemma sample_created:
  "db_prospects (run_op (quiet_env 10) (OpCreateProspect sample_create) empty_db) =
     [sample_prospect\<lparr>pr_PipelineStage := StageLead, pr_ProbabilityPct := 10\<rparr>]"
  by (simp add: run_op_def CreateProspect_def service_result_def require_that_def CreateProspect_store_def
      insert_returning_def BeginTxFunc_def stmt_def Let_def sample_defs int4_ok_def StageLead_def)

section \<open>Refinement and invariant\<close>

text \<open>
  C12. Refinement: whatever statements fail, a request to the pipeline service leaves the database as one
  step of the board does, for the caller's organisation: nothing, a new prospect at LEAD, an edit of
  details, a permitted stage change, LOST with its reason, the issue of a permit with its project and
  job, or a checked estimate or permit.
\<close>

theorem pipeline_refines_board: "board_step e (op_org op) d (run_op e op d)"
  by (rule run_op_step)

text \<open>
  C13. In every database that requests produce from empty pipeline tables: a prospect's probability is its
  stage's, it has a project exactly when it is PERMIT_ISSUED, that project is of its organisation with
  a floor area and a start on the permit date and has its hydrate job, a lost reason means LOST, no two
  prospects share a project; estimates have distinct versions per prospect, a valid status, a sent
  stamp once sent, a supported currency and the total of their lines; permits are in a valid status.
\<close>

theorem pipeline_invariant:
  assumes "pipeline_reachable d"
  shows "prospects_inv d \<and> estimates_inv d \<and> permits_inv d"
  using reachable_inv [OF assms] by (simp add: pipeline_inv_def)

theorem pipeline_invariant_witness:
  "prospects_inv (run_op (quiet_env 10) (OpCreateProspect sample_create) empty_db)"
  using pipeline_invariant [OF pipeline_reachable.request [OF sample_reachable]] by blast

section \<open>The Kanban to CPM transition\<close>

definition permit_outcome :: "env \<Rightarrow> AdvanceProspectInput \<Rightarrow> pipeline_db \<Rightarrow> Prospect \<Rightarrow> pipeline_db \<Rightarrow> bool" where
  "permit_outcome e inp d p d' \<longleftrightarrow>
     (\<exists>cur pj. cur \<in> set (db_prospects d) \<and> prospect_key (ap_ProspectID inp) (ap_OrgID inp) cur \<and>
        pr_PipelineStage cur = StagePermitApplied \<and> p = issue_prospect e (pj_ID pj) cur \<and>
        db_projects d' = db_projects d @ [pj] \<and> db_jobs d' = db_jobs d @ [HydrateProject (pj_ID pj)] \<and>
        pj_OrgID pj = pr_OrgID cur \<and> pj_Name pj = pr_Name cur \<and> pj_GSF pj = pr_GSF cur \<and> pj_GSF pj \<noteq> None \<and>
        pj_ClientEmail pj = pr_ClientEmail cur \<and> pj_ClientPhone pj = pr_ClientPhone cur \<and>
        pj_ProjectStartDate pj = map_option to_date (ap_PermitIssuedDate inp) \<and>
        (\<exists>rows. db_audit d' = db_audit d @ rows \<and>
           (ap_OrgID inp \<noteq> uuid_nil \<and> ap_ProspectID inp \<noteq> uuid_nil \<longrightarrow> length rows = 1)) \<and>
        db_prospects d' = update_where (prospect_key (ap_ProspectID inp) (ap_OrgID inp))
          (issue_prospect e (pj_ID pj)) (db_prospects d))"

lemma only_permit_applied: "CanTransition a StagePermitIssued \<Longrightarrow> a = StagePermitApplied"
  using stages_neq by (auto simp: CanTransition_def AllowedTransitions_def split: if_splits)

lemma audit_appended_length: "audit_appended p d0 d \<Longrightarrow> db_audit d = db_audit d0 @ rows \<Longrightarrow> length rows = 1"
  by (auto simp: audit_appended_def)

lemma permit_commit:
  assumes "transitionToPermitIssued e sub inp d = (Inr p, d')"
  shows "permit_outcome e inp d p d'"
proof -
  obtain date where date: "ap_PermitIssuedDate inp = Some date"
    using assms by (cases "ap_PermitIssuedDate inp") (auto simp: transitionToPermitIssued_def)
  let ?b = "tbind (permit_read e inp) (permit_write e sub inp date)"
  have "BeginTxFunc e ?b d = (Inr p, d')"
    using assms date by (auto simp: transitionToPermitIssued_def mapped_Inr split: if_splits)
  then obtain s where run: "?b \<lparr>s_db = d, s_draws = 0, s_aborted = False\<rparr> = Inr (p, s)" "\<not> s_aborted s"
    and d': "d' = s_db s" by (auto simp: BeginTxFunc_Inr)
  from run show ?thesis
  proof (rule permit_body_Inr, goal_cases)
    case (1 current u rows)
    let ?pj = "project_of_prospect e (permit_project current date) u"
    have "ap_OrgID inp \<noteq> uuid_nil \<and> ap_ProspectID inp \<noteq> uuid_nil \<longrightarrow> length rows = 1"
    proof
      assume "ap_OrgID inp \<noteq> uuid_nil \<and> ap_ProspectID inp \<noteq> uuid_nil"
      then have "auditable (permit_entry sub inp date current p u)"
        by (simp add: auditable_def permit_entry_def stage_entry_def stage_action_def AuditResourceProspect_def)
      from 1(8) [OF this] have "audit_appended (permit_entry sub inp date current p u) d d'" using d' by simp
      then show "length rows = 1" by (rule audit_appended_length) (use 1(7) d' in simp)
    qed
    then show ?thesis unfolding permit_outcome_def using 1 d' date find_SomeD [OF 1(1)] only_permit_applied [OF 1(2)]
      by (intro exI [of _ current] exI [of _ ?pj]) (auto simp: project_of_prospect_def permit_project_def)
  qed
qed

text \<open>
  C14. All or nothing: \<open>transitionToPermitIssued\<close> either reports an error and leaves the database as it was,
  whichever statement, audit insert or commit failed; or returns the prospect at PERMIT_ISSUED with
  exactly one project more, which carries the prospect's organisation, name, floor area and contact and
  starts on the permit date, one hydrate job more, for it, and one audit row more, and it has
  changed no other prospect.
\<close>

theorem permit_issued_all_or_nothing:
  assumes "transitionToPermitIssued e sub inp d = (r, d')"
  shows "(case r of Inl err \<Rightarrow> d' = d | Inr p \<Rightarrow> permit_outcome e inp d p d')"
proof (cases r)
  case (Inl err)
  then have "snd (transitionToPermitIssued e sub inp d) = d"
    using assms by (auto simp: transitionToPermitIssued_def map_err_Inl mapped_def BeginTxFunc_def
        split: option.splits if_splits sum.splits)
  then show ?thesis using Inl assms by simp
next
  case (Inr p)
  then show ?thesis using permit_commit assms by simp
qed

lemma sample_issue:
  "fst (transitionToPermitIssued (quiet_env 20) ''u'' sample_advance sample_db) =
     Inr (issue_prospect (quiet_env 20) 20 sample_prospect)"
  by (simp add: transitionToPermitIssued_def mapped_def BeginTxFunc_def tbind_def permit_read_def permit_write_def
     GetProspect_def select_one_def stmt_def tguard_def tret_def CreateProjectFromProspect_def insert_returning_def
     MarkProspectPermitIssued_def update_returning_def InsertTx_def Record_def InsertAudit_def Let_def
     permit_project_def project_of_prospect_def prospect_key_def update_where_def CanTransition_def AllowedTransitions_def
     stage_defs int4_ok_def permit_entry_def stage_entry_def scrubAuditPayloads_def uuid_nil_def stage_action_def
     AuditResourceProspect_def sample_defs)

theorem permit_issued_all_or_nothing_witness:
  "permit_outcome (quiet_env 20) sample_advance sample_db (issue_prospect (quiet_env 20) 20 sample_prospect)
     (snd (transitionToPermitIssued (quiet_env 20) ''u'' sample_advance sample_db))"
  using permit_issued_all_or_nothing [OF prod.collapse [symmetric], of "quiet_env 20" "''u''" sample_advance sample_db]
  unfolding sample_issue by simp

section \<open>Two concurrent issues\<close>

text \<open>
  Two requests to issue the same permit at once, as \<open>read_write_race\<close> runs two transactions.
\<close>

definition permit_race :: "env \<Rightarrow> env \<Rightarrow> string \<Rightarrow> AdvanceProspectInput \<Rightarrow> gotime \<Rightarrow> pipeline_db \<Rightarrow>
    ((Prospect \<times> Prospect) \<times> pipeline_db) option" where
  "permit_race e1 e2 sub inp date d =
     read_write_race e1 (permit_read e1 inp) (permit_write e1 sub inp date)
       e2 (permit_read e2 inp) (permit_write e2 sub inp date) d"

text \<open>
  The transition takes no lock on the prospect: when two requests to issue the same permit both read it
  before either writes and both succeed, the database has two projects more and two hydrate jobs, one of
  each per request; the first caller is told of a project that no prospect refers to any more.
\<close>

theorem concurrent_permit_issues_two_projects:
  assumes inv: "prospects_inv d"
    and race: "permit_race e1 e2 sub inp date d = Some ((p1, p2), d')"
  shows "\<exists>pj1 pj2. db_projects d' = db_projects d @ [pj1, pj2] \<and> pj_ID pj1 \<noteq> pj_ID pj2 \<and>
     db_jobs d' = db_jobs d @ [HydrateProject (pj_ID pj1), HydrateProject (pj_ID pj2)] \<and>
     pr_ProjectID p1 = Some (pj_ID pj1) \<and> pr_ProjectID p2 = Some (pj_ID pj2) \<and>
     (\<forall>p\<in>set (db_prospects d'). pr_ProjectID p \<noteq> Some (pj_ID pj1))"
proof (rule race_Some [OF race [unfolded permit_race_def]])
  let ?s0 = "\<lparr>s_db = d, s_draws = 0, s_aborted = False\<rparr>"
  let ?key = "prospect_key (ap_ProspectID inp) (ap_OrgID inp)"
  fix a1 s1 a2 s2 t1 t2
  assume rd: "permit_read e1 inp ?s0 = Inr (a1, s1)" "permit_read e2 inp ?s0 = Inr (a2, s2)"
    and wr1: "permit_write e1 sub inp date a1 s1 = Inr (p1, t1)" "\<not> s_aborted t1"
    and wr2: "permit_write e2 sub inp date a2 (s2\<lparr>s_db := s_db t1\<rparr>) = Inr (p2, t2)" "\<not> s_aborted t2"
    and d': "d' = s_db t2"
  have read1: "pr_GSF a1 \<noteq> None" "s_db s1 = d" and read2: "pr_GSF a2 \<noteq> None"
    using rd by (auto simp: permit_read_Inr)
  from wr1 read1(1) show ?thesis
  proof (rule permit_write_Inr, goal_cases)
    case first: (1 row1 u1 rows1)
    from wr2 read2 show ?thesis
    proof (rule permit_write_Inr, goal_cases)
      case second: (1 row2 u2 rows2)
      let ?pj1 = "project_of_prospect e1 (permit_project a1 date) u1"
      let ?pj2 = "project_of_prospect e2 (permit_project a2 date) u2"
      have ids: "pj_ID ?pj1 = u1" "pj_ID ?pj2 = u2" by (simp_all add: project_of_prospect_def)
      have ne: "u1 \<noteq> u2" using second(3) by (auto simp: first(5) ids)
      have fresh: "pr_ProjectID p \<noteq> Some u1" if "p \<in> set (db_prospects d)" for p
        using inv that first(3) read1(2)
        by (auto simp: prospects_inv_def prospect_ok_def linked_project_def)
      have unlinked: "\<forall>p\<in>set (db_prospects d'). pr_ProjectID p \<noteq> Some u1"
        using fresh ne by (auto simp: d' second(5) first(5) read1(2) set_update_where issue_prospect_def
          prospect_key_def)
      show ?thesis
        by (rule exI [of _ ?pj1], rule exI [of _ ?pj2])
           (use first second read1(2) ids ne unlinked in \<open>simp add: d' issue_prospect_def\<close>)
    qed
  qed
qed

lemma sample_inv: "prospects_inv sample_db"
  by (simp add: prospects_inv_def prospect_ok_def links_unique_def IsValidStage_def Probability_def stage_defs sample_defs)

lemma sample_race: "\<exists>ps d'. permit_race (quiet_env 20) (quiet_env 30) ''u'' sample_advance 0 sample_db = Some (ps, d')"
  by (simp add: permit_race_def read_write_race_def tbind_def permit_read_def permit_write_def
     GetProspect_def select_one_def stmt_def tguard_def tret_def CreateProjectFromProspect_def insert_returning_def
     MarkProspectPermitIssued_def update_returning_def InsertTx_def Record_def InsertAudit_def Let_def issue_prospect_def
     permit_project_def project_of_prospect_def prospect_key_def update_where_def CanTransition_def AllowedTransitions_def
     stage_defs int4_ok_def permit_entry_def stage_entry_def scrubAuditPayloads_def uuid_nil_def stage_action_def
     AuditResourceProspect_def sample_defs)

theorem concurrent_permit_issues_two_projects_witness:
  "\<exists>ps d' pj1 pj2. permit_race (quiet_env 20) (quiet_env 30) ''u'' sample_advance 0 sample_db = Some (ps, d') \<and>
     db_projects d' = [pj1, pj2] \<and> pj_ID pj1 \<noteq> pj_ID pj2"
proof -
  obtain p1 p2 d' where race: "permit_race (quiet_env 20) (quiet_env 30) ''u'' sample_advance 0 sample_db = Some ((p1, p2), d')"
    using sample_race by (metis surj_pair)
  from concurrent_permit_issues_two_projects [OF sample_inv race]
  show ?thesis using race by (auto simp: sample_db_def empty_db_def)
qed

section \<open>Order of the stages, tenant isolation\<close>

lemma stays_or:
  assumes "P = update_where K f rows" "p \<in> set rows"
  obtains p' where "p' \<in> set P" "p' = (if K p then f p else p)"
  using assms by (auto simp: set_update_where)

text \<open>
  No request deletes a prospect, moves it to another organisation, or changes its stage except along
  \<open>AllowedTransitions\<close>; a prospect that is PERMIT_ISSUED stays so and keeps its project for good.
\<close>

theorem stages_follow_the_board:
  assumes inv: "prospects_inv d" and p: "p \<in> set (db_prospects d)"
  shows "\<exists>p'\<in>set (db_prospects (run_op e op d)). pr_ID p' = pr_ID p \<and> pr_OrgID p' = pr_OrgID p \<and>
     (pr_PipelineStage p' = pr_PipelineStage p \<or> CanTransition (pr_PipelineStage p) (pr_PipelineStage p')) \<and>
     (pr_ProjectID p \<noteq> None \<longrightarrow> pr_ProjectID p' = pr_ProjectID p)"
proof -
  have dist: "distinct (List.map pr_ID (db_prospects d))" and ok: "prospect_ok (db_projects d) (db_jobs d) p"
    using inv p by (simp_all add: prospects_inv_def)
  from run_op_step [of e op d] show ?thesis
  proof (cases rule: board_step.cases)
    case (edit f pid)
    then show ?thesis using p
      by (intro bexI [of _ "if prospect_key pid (op_org op) p then f p else p"])
         (auto simp: keeps_state_def set_update_where)
  next
    case (move pid current target rows)
    note uniq = find_key_unique [OF move(2) dist p]
    have "\<not> IsTerminal (pr_PipelineStage current)" using stage.terminal_stuck move(3) by blast
    then show ?thesis using p move uniq ok
      by (intro bexI [of _ "if prospect_key pid (op_org op) p then move_prospect e target p else p"])
         (auto simp: move_prospect_def set_update_where prospect_ok_def IsTerminal_def)
  next
    case (lost pid current rows reason)
    note uniq = find_key_unique [OF lost(2) dist p]
    have can: "pr_PipelineStage p = StageLost \<or> CanTransition (pr_PipelineStage p) StageLost"
      if "pr_PipelineStage p \<noteq> StagePermitIssued"
      using that ok by (auto simp: prospect_ok_def IsValidStage_def CanTransition_def AllowedTransitions_def)
    then show ?thesis using p lost uniq ok
      by (intro bexI [of _ "if prospect_key pid (op_org op) p then lose_prospect e reason p else p"])
         (auto simp: lose_prospect_def set_update_where prospect_ok_def StageLost_def)
  next
    case (issue pid current u rows date)
    note uniq = find_key_unique [OF issue(2) dist p]
    have "\<not> IsTerminal (pr_PipelineStage current)" using stage.terminal_stuck issue(3) by blast
    then show ?thesis using p issue uniq ok
      by (intro bexI [of _ "if prospect_key pid (op_org op) p then issue_prospect e u p else p"])
         (auto simp: issue_prospect_def set_update_where prospect_ok_def IsTerminal_def StagePermitIssued_def)
  qed (use p in auto)
qed

theorem stages_follow_the_board_witness:
  "\<exists>p'\<in>set (db_prospects (run_op (quiet_env 20) (OpAdvance ''u'' sample_advance) sample_db)).
     pr_ID p' = pr_ID sample_prospect \<and> pr_OrgID p' = pr_OrgID sample_prospect"
  using stages_follow_the_board [OF sample_inv, of sample_prospect "quiet_env 20" "OpAdvance ''u'' sample_advance"]
  by (auto simp: sample_db_def)

lemma filter_update_where:
  assumes "\<And>r. P r \<Longrightarrow> \<not> Q r" "\<And>r. P r \<Longrightarrow> \<not> Q (f r)"
  shows "filter Q (update_where P f rows) = filter Q rows"
  using assms by (induction rows) (auto simp: update_where_def)

definition foreign_prospect :: "uuid \<Rightarrow> 'x pipeline_db_scheme \<Rightarrow> uuid \<Rightarrow> bool" where
  "foreign_prospect org d pid \<longleftrightarrow> (\<forall>p\<in>set (db_prospects d). pr_ID p = pid \<longrightarrow> pr_OrgID p \<noteq> org)"

lemma foreign_kept_update:
  assumes "List.find (\<lambda>x. rid x = i \<and> own x = pid) rows = Some r" "distinct (List.map rid rows)"
    "\<exists>p\<in>set (db_prospects d). prospect_key pid org p" "x \<in> set rows" "foreign_prospect org d (own x)"
  shows "x \<in> set (update_where (\<lambda>x. rid x = i) f rows)"
proof -
  have "rid x \<noteq> i"
  proof
    assume "rid x = i"
    then have "x = r" using find_SomeD [OF assms(1)] assms(2,4) by (metis distinct_map inj_on_def)
    then show False using find_SomeD [OF assms(1)] assms(3,5) by (auto simp: foreign_prospect_def prospect_key_def)
  qed
  then show ?thesis using assms(4) by (force simp: set_update_where)
qed

lemma board_step_foreign:
  assumes "board_step e org d d'" "pipeline_inv d"
  shows "filter (\<lambda>p. pr_OrgID p \<noteq> org) (db_prospects d') = filter (\<lambda>p. pr_OrgID p \<noteq> org) (db_prospects d)"
    and "filter (\<lambda>p. pj_OrgID p \<noteq> org) (db_projects d') = filter (\<lambda>p. pj_OrgID p \<noteq> org) (db_projects d)"
    and "x \<in> set (db_estimates d) \<Longrightarrow> foreign_prospect org d (es_ProspectID x) \<Longrightarrow> x \<in> set (db_estimates d')"
    and "y \<in> set (db_permits d) \<Longrightarrow> foreign_prospect org d (pe_ProspectID y) \<Longrightarrow> y \<in> set (db_permits d')"
proof -
  show "filter (\<lambda>p. pr_OrgID p \<noteq> org) (db_prospects d') = filter (\<lambda>p. pr_OrgID p \<noteq> org) (db_prospects d)"
    using assms(1) by (cases rule: board_step.cases)
      (auto intro!: filter_update_where simp: prospect_key_def keeps_state_def move_prospect_def lose_prospect_def issue_prospect_def)
  show "filter (\<lambda>p. pj_OrgID p \<noteq> org) (db_projects d') = filter (\<lambda>p. pj_OrgID p \<noteq> org) (db_projects d)"
    using assms(1) by (cases rule: board_step.cases)
      (auto simp: project_of_prospect_def permit_project_def prospect_key_def dest: find_SomeD)
  show "x \<in> set (db_estimates d')" if x: "x \<in> set (db_estimates d)" "foreign_prospect org d (es_ProspectID x)"
    using assms(1)
  proof (cases rule: board_step.cases)
    case (estimate_status eid pid r status)
    then show ?thesis
      using foreign_kept_update [OF estimate_status(2) _ estimate_status(4) x] assms(2)
      by (simp add: pipeline_inv_def estimates_inv_def)
  qed (use x in auto)
  show "y \<in> set (db_permits d')" if y: "y \<in> set (db_permits d)" "foreign_prospect org d (pe_ProspectID y)"
    using assms(1)
  proof (cases rule: board_step.cases)
    case (permit_update qid pid r q)
    then show ?thesis
      using foreign_kept_update [OF permit_update(2) _ permit_update(5) y] assms(2)
      by (simp add: pipeline_inv_def permits_inv_def)
  qed (use y in auto)
qed

text \<open>
  C15. Tenant isolation: a request of one organisation leaves every prospect and project of another as it is,
  and every estimate and permit of another organisation's prospects, whatever ids the request names.
\<close>

theorem pipeline_tenant_isolation:
  assumes "pipeline_inv d"
  shows "filter (\<lambda>p. pr_OrgID p \<noteq> op_org op) (db_prospects (run_op e op d)) =
           filter (\<lambda>p. pr_OrgID p \<noteq> op_org op) (db_prospects d) \<and>
         filter (\<lambda>p. pj_OrgID p \<noteq> op_org op) (db_projects (run_op e op d)) =
           filter (\<lambda>p. pj_OrgID p \<noteq> op_org op) (db_projects d) \<and>
         {x \<in> set (db_estimates d). foreign_prospect (op_org op) d (es_ProspectID x)} \<subseteq> set (db_estimates (run_op e op d)) \<and>
         {y \<in> set (db_permits d). foreign_prospect (op_org op) d (pe_ProspectID y)} \<subseteq> set (db_permits (run_op e op d))"
  using board_step_foreign [OF run_op_step assms] by auto

theorem pipeline_tenant_isolation_witness:
  "filter (\<lambda>p. pr_OrgID p \<noteq> 8) (db_prospects (run_op (quiet_env 20)
     (OpLose ''u'' \<lparr>lo_ProspectID = 10, lo_OrgID = 8, lo_Reason = ''x''\<rparr>) sample_db)) = [sample_prospect]"
proof -
  have "pipeline_inv sample_db"
    using sample_inv by (simp add: pipeline_inv_def estimates_inv_def permits_inv_def sample_db_def empty_db_def)
  from pipeline_tenant_isolation [OF this, of "OpLose ''u'' \<lparr>lo_ProspectID = 10, lo_OrgID = 8, lo_Reason = ''x''\<rparr>"]
  show ?thesis by (simp add: sample_db_def sample_prospect_def)
qed

section \<open>Estimates\<close>

lemma estimate_total_acc:
  "in_int64 acc \<Longrightarrow> estimate_total items acc =
     (if \<forall>i\<in>set items. li_WBSCode i \<noteq> [] \<and> 0 \<le> li_EstimatedCents i
      then Inr (wrap64 (acc + (\<Sum>i\<leftarrow>items. li_EstimatedCents i)))
      else estimate_total items acc)
   \<and> (\<forall>t. estimate_total items acc = Inr t \<longrightarrow> (\<forall>i\<in>set items. li_WBSCode i \<noteq> [] \<and> 0 \<le> li_EstimatedCents i))"
proof (induction items arbitrary: acc)
  case Nil
  then show ?case by (simp add: wrap64_id)
next
  case (Cons i items)
  show ?case using Cons.IH [of "wrap64 (acc + li_EstimatedCents i)"]
    by (auto simp: wrap64_add_left add.assoc)
qed

text \<open>
  The total the service stores with an estimate is the 64-bit wrap of the sum of its lines, every line
  having a code and a non-negative amount: the true sum whenever that stays below 2^63, and without
  any error when it does not (two lines of 2^62 cents store a negative total).
\<close>

theorem estimate_total_is_wrapped_sum:
  assumes "CreateEstimate e inp d = (Inr r, d')"
  shows "es_TotalEstimatedCents r = wrap64 (\<Sum>i\<leftarrow>ne_LineItems inp. li_EstimatedCents i) \<and>
     es_LineItems r = ne_LineItems inp \<and> (\<forall>i\<in>set (ne_LineItems inp). li_WBSCode i \<noteq> [] \<and> 0 \<le> li_EstimatedCents i) \<and>
     (\<forall>x\<in>set (db_estimates d). es_ProspectID x = ne_ProspectID inp \<longrightarrow> es_Version x < es_Version r)"
proof -
  obtain cents where cents: "estimate_total (ne_LineItems inp) 0 = Inr cents"
    and run: "BeginTxFunc e (tbind (VerifyProspectInOrg e (ne_ProspectID inp) (ne_OrgID inp)) (\<lambda>_.
           CreateEstimate_store e \<lparr>ce_ProspectID = ne_ProspectID inp, ce_TotalEstimatedCents = cents,
             ce_CurrencyCode = ne_CurrencyCode inp, ce_LineItems = ne_LineItems inp,
             ce_MarginPct = ne_MarginPct inp\<rparr>)) d = (Inr r, d')"
    using assms by (auto simp: CreateEstimate_def ebind_Inr_iff mapped_Inr split: sum.splits)
  have "es_TotalEstimatedCents r = cents \<and> es_LineItems r = ne_LineItems inp \<and>
      es_Version r = next_version (ne_ProspectID inp) (db_estimates d)"
    using run by (auto simp: BeginTxFunc_Inr tbind_Inr require_prospect_Inr CreateEstimate_store_def insert_returning_Inr)
  then show ?thesis using cents estimate_total_acc [of 0 "ne_LineItems inp"] next_version_above [of _ "db_estimates d"]
    by (auto simp: in_int64_def)
qed

definition big_estimate :: CreateEstimateInput where
  "big_estimate = \<lparr>ne_ProspectID = 10, ne_OrgID = 7, ne_CurrencyCode = USD,
     ne_LineItems = [\<lparr>li_WBSCode = ''8.1'', li_Description = [], li_EstimatedCents = 2 ^ 62, li_Unit = [], li_Quantity = 1\<rparr>,
                     \<lparr>li_WBSCode = ''8.2'', li_Description = [], li_EstimatedCents = 2 ^ 62, li_Unit = [], li_Quantity = 1\<rparr>],
     ne_MarginPct = 15\<rparr>"

theorem estimate_total_is_wrapped_sum_witness:
  "\<exists>r d'. CreateEstimate (quiet_env 40) big_estimate sample_db = (Inr r, d') \<and> es_TotalEstimatedCents r = - (2 ^ 63)"
proof -
  have "\<exists>r d'. CreateEstimate (quiet_env 40) big_estimate sample_db = (Inr r, d')"
    by (simp add: CreateEstimate_def Validate_def require_that_def mapped_def BeginTxFunc_def tbind_def
       VerifyProspectInOrg_def select_all_def stmt_def tguard_def CreateEstimate_store_def insert_returning_def Let_def
       prospect_key_def next_version_def int4_ok_def big_estimate_def sample_defs)
  then obtain r d' where run: "CreateEstimate (quiet_env 40) big_estimate sample_db = (Inr r, d')" by blast
  from estimate_total_is_wrapped_sum [OF run] have "es_TotalEstimatedCents r = - (2 ^ 63)"
    by (simp add: big_estimate_def wrap64_def)
  then show ?thesis using run by blast
qed

end
