(* ===== verification/Projects_Props.thy ===== *)
theory Projects_Props
  imports Projects "HOL-Library.Multiset"
begin

text \<open>
  Properties of the project service: the pages of a listing tile the organisation's projects, and an
  update is scoped and validated.
\<close>

definition org_projects :: "uuid \<Rightarrow> string \<Rightarrow> 'x core_db_scheme \<Rightarrow> Project list" where
  "org_projects orgID status d =
     order_projects (filter (\<lambda>p. pj_OrgID p = orgID \<and> (status \<noteq> [] \<longrightarrow> pj_Status p = status)) (db_projects d))"

lemma mset_order_desc [simp]: "mset (order_desc key rows) = mset rows"
  by (simp add: order_desc_def)

lemma mset_org_projects:
  "mset (org_projects orgID status d) =
     mset (filter (\<lambda>p. pj_OrgID p = orgID \<and> (status \<noteq> [] \<longrightarrow> pj_Status p = status)) (db_projects d))"
  by (simp add: org_projects_def order_projects_def)

definition project_page :: "env \<Rightarrow> uuid \<Rightarrow> string \<Rightarrow> int \<Rightarrow> 'x core_db_scheme \<Rightarrow> nat \<Rightarrow> Project list" where
  "project_page e orgID status perPage d k =
     (case ListProjects e orgID status (int k) perPage d of Inl _ \<Rightarrow> [] | Inr rows \<Rightarrow> rows)"

lemma project_page_eq:
  assumes "healthy e" "orgID \<noteq> uuid_nil" "trim_space status = status" "status = [] \<or> status \<in> set validProjectStatuses"
    and per: "1 \<le> perPage" "perPage \<le> 200" and k: "1 \<le> k" "int k * perPage < 2 ^ 63"
  shows "project_page e orgID status perPage d k =
     take (nat perPage) (drop ((k - 1) * nat perPage) (org_projects orgID status d))"
proof -
  have "int k < 2 ^ 63" using per(1) k(2) by (smt (verit) mult_le_cancel_left1 of_nat_0_le_iff)
  then have w1: "wrap64 (int k - 1) = int k - 1" using k(1) by (intro wrap64_id) (simp add: in_int64_def)
  have "0 \<le> (int k - 1) * perPage" using k(1) per(1) by simp
  moreover have "(int k - 1) * perPage < 2 ^ 63" using k(2) per(1) by (simp add: algebra_simps)
  ultimately have w2: "wrap64 ((int k - 1) * perPage) = (int k - 1) * perPage"
    by (intro wrap64_id) (simp add: in_int64_def)
  have n: "nat ((int k - 1) * perPage) = (k - 1) * nat perPage"
    using k(1) per(1) by (simp add: nat_mult_distrib nat_diff_distrib)
  have pg: "paginate (int k) perPage = (perPage, (int k - 1) * perPage)"
    using per k(1) by (simp add: paginate_def maxProjectPageSize_def w1 w2 Let_def)
  show ?thesis
    using assms(1-4) \<open>0 \<le> (int k - 1) * perPage\<close>
    by (auto simp: project_page_def ListProjects_def require_that_def Let_def pg mapped_def BeginTxFunc_def healthy_def
        ListByOrg_def select_all_def stmt_def page_of_def org_projects_def n)
qed

lemma concat_pages:
  "concat (List.map (\<lambda>k. take m (drop ((k - 1) * m) xs)) [1..<Suc n]) = take (n * m) xs"
proof (induction n)
  case (Suc n)
  then show ?case by (simp add: take_add [symmetric] add.commute)
qed simp

text \<open>
  Paging is a partition: the pages \<open>1..n\<close> of a project listing, one after the other, are the first
  \<open>n\<close> page sizes of the organisation's projects in listing order, so that no project is listed twice or
  left out; and that order holds each matching project of the organisation exactly once.
\<close>

theorem project_pages_tile:
  assumes "healthy e" "orgID \<noteq> uuid_nil" "trim_space status = status" "status = [] \<or> status \<in> set validProjectStatuses"
    and "1 \<le> perPage" "perPage \<le> 200" and "int n * perPage < 2 ^ 63"
  shows "concat (List.map (project_page e orgID status perPage d) [1..<Suc n]) =
           take (n * nat perPage) (org_projects orgID status d) \<and>
         mset (org_projects orgID status d) =
           filter_mset (\<lambda>p. pj_OrgID p = orgID \<and> (status \<noteq> [] \<longrightarrow> pj_Status p = status)) (mset (db_projects d))"
proof -
  have "int k * perPage < 2 ^ 63" if "k \<in> set [1..<Suc n]" for k
  proof -
    have "int k * perPage \<le> int n * perPage" using that assms(5) by (intro mult_right_mono) auto
    then show ?thesis using assms(7) by linarith
  qed
  then have "List.map (project_page e orgID status perPage d) [1..<Suc n] =
      List.map (\<lambda>k. take (nat perPage) (drop ((k - 1) * nat perPage) (org_projects orgID status d))) [1..<Suc n]"
    using assms by (intro map_cong refl project_page_eq) auto
  then show ?thesis by (simp only: concat_pages mset_org_projects mset_filter simp_thms)
qed

definition calm_env :: env where
  "calm_env = \<lparr>e_now = 0, e_uuid = (\<lambda>n. n + 1), e_fail = (\<lambda>_. False), e_commit_fails = False,
     e_riverWired = True, e_request_id = [], e_number = id\<rparr>"

definition sample_project :: "nat \<Rightarrow> Project" where
  "sample_project k = \<lparr>pj_ID = k, pj_OrgID = 7, pj_Name = ''A'', pj_Address = None, pj_PermitIssuedDate = None,
     pj_ProjectStartDate = None, pj_Status = ''active'', pj_GSF = None, pj_ClientName = None, pj_ClientEmail = None,
     pj_ClientPhone = None, pj_CreatedAt = int k, pj_UpdatedAt = 0\<rparr>"

definition three_projects :: core_db where
  "three_projects = \<lparr>db_orgs = [7], db_projects = List.map sample_project [1, 2, 3], db_audit = [], db_jobs = []\<rparr>"

theorem project_pages_tile_witness:
  "length (concat (List.map (project_page calm_env 7 [] 2 three_projects) [1..<Suc 2])) = 3"
proof -
  have "healthy calm_env" by (simp add: healthy_def calm_env_def)
  from project_pages_tile [OF this, of 7 "[]" 2 2 three_projects]
  have c: "concat (List.map (project_page calm_env 7 [] 2 three_projects) [1..<Suc 2]) = take 4 (org_projects 7 [] three_projects)"
    and m: "mset (org_projects 7 [] three_projects) = mset (List.map sample_project [1, 2, 3])"
    by (simp_all add: uuid_nil_def three_projects_def sample_project_def)
  have "length (org_projects 7 [] three_projects) = 3" using arg_cong [OF m, of size] by simp
  then show ?thesis unfolding c by simp
qed

end
