(* ===== verification/Schedule_Store.thy ===== *)
theory Schedule_Store
  imports Projects Cpm_Pass "HOL-Library.List_Lexorder" "HOL-Library.Char_ord"
begin

text \<open>
  The schedule tables and internal/store/schedule.go. \<open>project_tasks\<close> is a list of \<open>ProjectTask\<close> rows whose
  transient physics fields carry no data: a scan leaves them at their zero values. The constraints
  are those of migrations 001 and 019: primary keys, UNIQUE(project_id, wbs_code), UNIQUE(predecessor_id,
  successor_id), the foreign keys and the CHECK on \<open>duration_days\<close>.
\<close>

record schedule_db = core_db +
  db_tasks :: "ProjectTask list"
  db_deps :: "TaskDependency list"

definition scan_task :: "ProjectTask \<Rightarrow> ProjectTask" where
  "scan_task t = t\<lparr>pt_CalculatedDuration := 0, pt_WeatherAdjustedDuration := 0, pt_ManualOverrideDays := None\<rparr>"

definition tasks_of :: "'x schedule_db_scheme \<Rightarrow> uuid \<Rightarrow> ProjectTask list" where
  "tasks_of d projectID = sort_key pt_WBSCode (List.map scan_task (filter (\<lambda>t. pt_ProjectID t = projectID) (db_tasks d)))"

definition GetProjectTasks :: "env \<Rightarrow> uuid \<Rightarrow> ('x schedule_db_scheme, ProjectTask list) tx" where
  "GetProjectTasks e projectID = select_all e ''load tasks'' (\<lambda>d. tasks_of d projectID)"

definition deps_of :: "'x schedule_db_scheme \<Rightarrow> uuid \<Rightarrow> TaskDependency list" where
  "deps_of d projectID = filter (\<lambda>x. td_ProjectID x = projectID) (db_deps d)"

definition GetProjectDependencies :: "env \<Rightarrow> uuid \<Rightarrow> ('x schedule_db_scheme, TaskDependency list) tx" where
  "GetProjectDependencies e projectID = select_all e ''load dependencies'' (\<lambda>d. deps_of d projectID)"

text \<open>
  \<open>COALESCE(project_start_date, permit_issued_date, created_at)\<close>; \<open>created_at\<close> is NOT NULL, so the value is
  never null and the \<open>time.Now()\<close> of the code is not reached. A missing row is \<open>pgx.ErrNoRows\<close>, which no
  caller maps to a 404.
\<close>

definition start_date :: "Project \<Rightarrow> gotime" where
  "start_date p = coalesce (coalesce_opt (pj_ProjectStartDate p) (pj_PermitIssuedDate p)) (pj_CreatedAt p)"

definition GetProjectStartDate :: "env \<Rightarrow> uuid \<Rightarrow> ('x schedule_db_scheme, gotime) tx" where
  "GetProjectStartDate e projectID =
     tbind (select_all e ''load project start'' (\<lambda>d. filter (\<lambda>p. pj_ID p = projectID) (db_projects d))) (\<lambda>rows.
       case rows of [] \<Rightarrow> tfail (Internal ''load project start'') | p # _ \<Rightarrow> tret (start_date p))"

record ScheduleResult =
  sr_EarlyStart :: gotime
  sr_EarlyFinish :: gotime
  sr_LateStart :: gotime
  sr_LateFinish :: gotime
  sr_TotalFloat :: int
  sr_IsCritical :: bool

definition write_result :: "env \<Rightarrow> ScheduleResult \<Rightarrow> ProjectTask \<Rightarrow> ProjectTask" where
  "write_result e r t = t\<lparr>pt_EarlyStart := Some (sr_EarlyStart r), pt_EarlyFinish := Some (sr_EarlyFinish r),
     pt_LateStart := Some (sr_LateStart r), pt_LateFinish := Some (sr_LateFinish r),
     pt_TotalFloat := Some (sr_TotalFloat r), pt_IsCritical := sr_IsCritical r, pt_UpdatedAt := e_now e\<rparr>"

text \<open>One UPDATE per task that has a result; \<open>total_float\<close> is an INTEGER column.\<close>

fun UpdateSchedule :: "env \<Rightarrow> ProjectTask list \<Rightarrow> (uuid \<times> ScheduleResult) list \<Rightarrow> ('x schedule_db_scheme, unit) tx" where
  "UpdateSchedule e [] scheduleResults = tret ()"
| "UpdateSchedule e (task # tasks) scheduleResults =
     tbind (case mget scheduleResults (pt_ID task) of
              None \<Rightarrow> tret ()
            | Some r \<Rightarrow> update_exec e ''persist schedule'' db_tasks_update (int4_ok (sr_TotalFloat r))
                (\<lambda>t. pt_ID t = pt_ID task) (write_result e r))
       (\<lambda>_. UpdateSchedule e tasks scheduleResults)"

record InsertTaskParams =
  tp_ProjectID :: uuid
  tp_WBSCode :: string
  tp_Name :: string
  tp_Status :: string
  tp_DurationDays :: int
  tp_PercentComplete :: int
  tp_AssignedCrew :: "uuid list"

text \<open>A new row: the CPM columns are NULL or their defaults.\<close>

definition new_task :: "env \<Rightarrow> InsertTaskParams \<Rightarrow> uuid \<Rightarrow> ProjectTask" where
  "new_task e p u = zero_task\<lparr>pt_ID := u, pt_ProjectID := tp_ProjectID p, pt_WBSCode := tp_WBSCode p,
     pt_Name := tp_Name p, pt_DurationDays := tp_DurationDays p, pt_Status := tp_Status p,
     pt_PercentComplete := tp_PercentComplete p, pt_AssignedCrew := tp_AssignedCrew p,
     pt_CreatedAt := e_now e, pt_UpdatedAt := e_now e\<rparr>"

definition sane_duration :: "int \<Rightarrow> bool" where
  "sane_duration n \<longleftrightarrow> 0 \<le> n \<and> n \<le> 36500"

definition insert_task :: "env \<Rightarrow> InsertTaskParams \<Rightarrow> ('x schedule_db_scheme, ProjectTask) tx" where
  "insert_task e p = insert_returning e ''insert task'' db_tasks db_tasks_update
     (\<lambda>d. (\<exists>r\<in>set (db_projects d). pj_ID r = tp_ProjectID p) \<and> sane_duration (tp_DurationDays p) \<and>
        int4_ok (tp_PercentComplete p)) pt_ID
     (\<lambda>old new. pt_ProjectID old = pt_ProjectID new \<and> pt_WBSCode old = pt_WBSCode new)
     (\<lambda>_ u. new_task e p u)"

fun InsertTasks :: "env \<Rightarrow> InsertTaskParams list \<Rightarrow> ('x schedule_db_scheme, ProjectTask list) tx" where
  "InsertTasks e [] = tret []"
| "InsertTasks e (p # ps) =
     tbind (insert_task e p) (\<lambda>t. tbind (InsertTasks e ps) (\<lambda>ts. tret (t # ts)))"

record InsertDependencyParams =
  dp_ProjectID :: uuid
  dp_PredecessorID :: uuid
  dp_SuccessorID :: uuid
  dp_DependencyType :: string
  dp_LagDays :: int

definition insert_dependency :: "env \<Rightarrow> InsertDependencyParams \<Rightarrow> ('x schedule_db_scheme, TaskDependency) tx" where
  "insert_dependency e p = insert_returning e ''insert dependency'' db_deps db_deps_update
     (\<lambda>d. (\<exists>r\<in>set (db_projects d). pj_ID r = dp_ProjectID p) \<and>
        (\<exists>t\<in>set (db_tasks d). pt_ID t = dp_PredecessorID p) \<and> (\<exists>t\<in>set (db_tasks d). pt_ID t = dp_SuccessorID p) \<and>
        int4_ok (dp_LagDays p)) td_ID
     (\<lambda>old new. td_PredecessorID old = td_PredecessorID new \<and> td_SuccessorID old = td_SuccessorID new)
     (\<lambda>_ u. \<lparr>td_ID = u, td_ProjectID = dp_ProjectID p, td_PredecessorID = dp_PredecessorID p,
        td_SuccessorID = dp_SuccessorID p, td_DependencyType = dp_DependencyType p, td_LagDays = dp_LagDays p\<rparr>)"

fun InsertDependencies :: "env \<Rightarrow> InsertDependencyParams list \<Rightarrow> ('x schedule_db_scheme, unit) tx" where
  "InsertDependencies e [] = tret ()"
| "InsertDependencies e (p # ps) = tbind (insert_dependency e p) (\<lambda>_. InsertDependencies e ps)"

record ListTasksParams =
  lt_ProjectID :: uuid
  lt_Status :: string
  lt_IsCritical :: "bool option"

definition ListProjectTasks_store :: "env \<Rightarrow> ListTasksParams \<Rightarrow> ('x schedule_db_scheme, ProjectTask list) tx" where
  "ListProjectTasks_store e p = select_all e ''query project_tasks''
     (\<lambda>d. filter (\<lambda>t. (lt_Status p = [] \<or> pt_Status t = lt_Status p) \<and>
                      opt_ok (\<lambda>c. pt_IsCritical t = c) (lt_IsCritical p)) (tasks_of d (lt_ProjectID p)))"

definition GetTaskInProject :: "env \<Rightarrow> uuid \<Rightarrow> uuid \<Rightarrow> ('x schedule_db_scheme, ProjectTask) tx" where
  "GetTaskInProject e taskID projectID = select_one e ''get project_task''
     (\<lambda>d. tasks_of d projectID) (\<lambda>t. pt_ID t = taskID)"

record UpdateTaskParams =
  up_TaskID :: uuid
  up_ProjectID :: uuid
  up_DurationDays :: "int option"
  up_PercentComplete :: "int option"
  up_Status :: "string option"
  up_AssignedCrew :: "uuid list option"

definition edit_task :: "env \<Rightarrow> UpdateTaskParams \<Rightarrow> ProjectTask \<Rightarrow> ProjectTask" where
  "edit_task e p t = (scan_task t)\<lparr>pt_DurationDays := coalesce (up_DurationDays p) (pt_DurationDays t),
     pt_PercentComplete := coalesce (up_PercentComplete p) (pt_PercentComplete t),
     pt_Status := coalesce (up_Status p) (pt_Status t),
     pt_AssignedCrew := coalesce (up_AssignedCrew p) (pt_AssignedCrew t), pt_UpdatedAt := e_now e\<rparr>"

definition UpdateTask_store :: "env \<Rightarrow> UpdateTaskParams \<Rightarrow> ('x schedule_db_scheme, ProjectTask) tx" where
  "UpdateTask_store e p =
     tbind (update_returning e ''update task'' db_tasks db_tasks_update
       (\<lambda>t. pt_ID t = up_TaskID p \<and> pt_ProjectID t = up_ProjectID p) (edit_task e p)) (\<lambda>t.
     tbind (tguard (sane_duration (pt_DurationDays t) \<and> int4_ok (pt_PercentComplete t)) (DbError ''update task'')) (\<lambda>_.
     tret t))"

end
