(* ===== verification/Schedule.thy ===== *)
theory Schedule
  imports Schedule_Store
begin

text \<open>
  internal/service/schedule.go: recalculation (load, both passes, persist, audit, delay cascade) in one
  transaction, the Gantt view, task listing and task updates. The graph library is the parameter \<open>ops\<close> and
  the measured compute time the parameter \<open>took\<close>. The schedule map is the association list of the
  passes; Go ranges over it in any order, which only the order of the returned \<open>Tasks\<close> shows.
\<close>

section \<open>The CPM run\<close>

definition physics_calendar :: calendar where
  "physics_calendar = AddWorkDuration default_calendar"

definition run_cpm :: "'g digraph_ops \<Rightarrow> ProjectTask list \<Rightarrow> TaskDependency list \<Rightarrow> gotime \<Rightarrow>
    svc_error + (string list \<times> schedule)" where
  "run_cpm ops tasks deps projectStart =
     (case BuildDependencyGraph ops tasks deps of
        None \<Rightarrow> Inl Panicked
      | Some g \<Rightarrow>
          ebind (map_err (\<lambda>_. Internal ''forward pass'') (ForwardPass ops g projectStart physics_calendar Map.empty)) (\<lambda>s0.
          map_err (\<lambda>_. Internal ''backward pass'') (BackwardPass ops g s0 physics_calendar None)))"

definition schedule_result :: "TaskSchedule \<Rightarrow> ScheduleResult" where
  "schedule_result ts = \<lparr>sr_EarlyStart = ts_EarlyStart ts, sr_EarlyFinish = ts_EarlyFinish ts,
     sr_LateStart = ts_LateStart ts, sr_LateFinish = ts_LateFinish ts,
     sr_TotalFloat = int64_of_f64 (math_round (ts_TotalFloat ts)), sr_IsCritical = ts_IsCritical ts\<rparr>"

definition schedule_results :: "schedule \<Rightarrow> (uuid \<times> ScheduleResult) list" where
  "schedule_results schedule = List.map (\<lambda>(taskID, ts). (taskID, schedule_result ts)) schedule"

text \<open>The set comparison of the code: counts, and a fresh critical task.\<close>

definition critical_changed :: "ProjectTask list \<Rightarrow> (uuid \<times> ScheduleResult) list \<Rightarrow> bool" where
  "critical_changed tasks results =
     (let prior = filter pt_IsCritical tasks;
          priorCritical = set (List.map pt_ID prior);
          new = filter (\<lambda>(taskID, r). sr_IsCritical r) results
      in (\<exists>(taskID, r)\<in>set new. taskID \<notin> priorCritical) \<or> length new \<noteq> length prior)"

definition recalculated_entry :: "uuid \<Rightarrow> string \<Rightarrow> uuid \<Rightarrow> int \<Rightarrow> nat \<Rightarrow> nat \<Rightarrow> gotime \<Rightarrow> AuditEntry" where
  "recalculated_entry orgID sub projectID took tasks critical projectEnd =
     \<lparr>ae_OrgID = orgID, ae_UserSub = sub, ae_Action = ''schedule.recalculated'', ae_ResourceType = ''schedule'',
      ae_ResourceID = projectID, ae_Before = [], ae_After = [],
      ae_Metadata = [(''task_count'', JInt (int tasks)), (''critical_path_size'', JInt (int critical)),
        (''compute_ms'', JInt (quot took 1000000)), (''project_end'', JTime projectEnd)]\<rparr>"

definition recalcOnTx :: "'g digraph_ops \<Rightarrow> env \<Rightarrow> int \<Rightarrow> uuid \<Rightarrow> uuid \<Rightarrow> string \<Rightarrow>
    ('x schedule_db_scheme, CPMResult \<times> int) tx" where
  "recalcOnTx ops e took projectID callerOrgID sub =
     tbind (GetProjectTasks e projectID) (\<lambda>tasks.
     tbind (tguard (tasks \<noteq> []) (Internal ''no tasks found'')) (\<lambda>_.
     tbind (GetProjectDependencies e projectID) (\<lambda>deps.
     tbind (GetProjectStartDate e projectID) (\<lambda>projectStart.
     tbind (tlift (run_cpm ops tasks deps projectStart)) (\<lambda>(criticalPath, schedule).
       let projectEnd = latest_finish schedule zero_time True;
           results = schedule_results schedule;
           changed = critical_changed tasks results
       in tbind (UpdateSchedule e tasks results) (\<lambda>_.
          tbind (Record e (recalculated_entry callerOrgID sub projectID took (length tasks) (length criticalPath) projectEnd)) (\<lambda>_.
          tbind (if changed then InsertTx e (DelayCascade callerOrgID projectID) else tret ()) (\<lambda>_.
          tret (\<lparr>cr_Tasks = List.map snd schedule, cr_CriticalPath = criticalPath, cr_ProjectEnd = projectEnd,
                 cr_CriticalPathChanged = changed\<rparr>, took)))))))))"

text \<open>The services here turn \<open>store.ErrNotFound\<close> into \<open>ErrNotFound\<close> and nothing else.\<close>

fun map_not_found :: "svc_error \<Rightarrow> svc_error" where
  "map_not_found StoreNotFound = NotFound"
| "map_not_found e = e"

definition not_found_mapped :: "(svc_error + 'a) \<times> 'd \<Rightarrow> (svc_error + 'a) \<times> 'd" where
  "not_found_mapped rd = (map_err map_not_found (fst rd), snd rd)"

definition RecalculateSchedule :: "'g digraph_ops \<Rightarrow> env \<Rightarrow> int \<Rightarrow> uuid \<Rightarrow> uuid \<Rightarrow> string \<Rightarrow>
    'x schedule_db_scheme \<Rightarrow> (svc_error + CPMResult \<times> int) \<times> 'x schedule_db_scheme" where
  "RecalculateSchedule ops e took projectID callerOrgID sub d =
     not_found_mapped (BeginTxFunc e (tbind (VerifyProjectInOrg e projectID callerOrgID) (\<lambda>_.
       recalcOnTx ops e took projectID callerOrgID sub)) d)"

section \<open>The Gantt view\<close>

record GanttView =
  gv_Tasks :: "ProjectTask list"
  gv_CriticalPath :: "uuid list"
  gv_ProjectEnd :: gotime
  gv_Dependencies :: "TaskDependency list"

fun gantt_end :: "ProjectTask list \<Rightarrow> gotime \<Rightarrow> gotime" where
  "gantt_end [] end = end"
| "gantt_end (t # ts) end =
     gantt_end ts (case pt_EarlyFinish t of None \<Rightarrow> end | Some f \<Rightarrow> if f > end then f else end)"

definition ganttFromTasks :: "ProjectTask list \<Rightarrow> GanttView" where
  "ganttFromTasks tasks =
     \<lparr>gv_Tasks = tasks, gv_CriticalPath = List.map pt_ID (filter pt_IsCritical tasks),
      gv_ProjectEnd = gantt_end tasks zero_time, gv_Dependencies = []\<rparr>"

definition GetGantt :: "env \<Rightarrow> uuid \<Rightarrow> uuid \<Rightarrow> 'x schedule_db_scheme \<Rightarrow> svc_error + GanttView" where
  "GetGantt e projectID callerOrgID d =
     fst (not_found_mapped (BeginTxFunc e
       (tbind (VerifyProjectInOrg e projectID callerOrgID) (\<lambda>_.
        tbind (GetProjectTasks e projectID) (\<lambda>tasks.
        tbind (GetProjectDependencies e projectID) (\<lambda>deps.
        tret ((ganttFromTasks tasks)\<lparr>gv_Dependencies := deps\<rparr>))))) d))"

section \<open>Tasks\<close>

definition isValidTaskStatus :: "string \<Rightarrow> bool" where
  "isValidTaskStatus s \<longleftrightarrow> s \<in> {''pending'', ''in_progress'', ''completed''}"

record ListProjectTasksInput =
  li_ProjectID :: uuid
  li_OrgID :: uuid
  li_Status :: string
  li_IsCritical :: "bool option"

definition ListProjectTasks :: "env \<Rightarrow> ListProjectTasksInput \<Rightarrow> 'x schedule_db_scheme \<Rightarrow> svc_error + ProjectTask list" where
  "ListProjectTasks e inp d =
     ebind (require_that (li_Status inp = [] \<or> isValidTaskStatus (li_Status inp)) (InvalidInput ''status'')) (\<lambda>_.
     fst (not_found_mapped (BeginTxFunc e
       (tbind (VerifyProjectInOrg e (li_ProjectID inp) (li_OrgID inp)) (\<lambda>_.
        ListProjectTasks_store e \<lparr>lt_ProjectID = li_ProjectID inp, lt_Status = li_Status inp,
          lt_IsCritical = li_IsCritical inp\<rparr>)) d)))"

record UpdateTaskInput =
  ut_TaskID :: uuid
  ut_ProjectID :: uuid
  ut_OrgID :: uuid
  ut_PercentComplete :: "int option"
  ut_Status :: "string option"
  ut_AssignedCrew :: "uuid list option"

definition valid_percent :: "int \<Rightarrow> bool" where
  "valid_percent n \<longleftrightarrow> 0 \<le> n \<and> n \<le> 100"

definition UpdateTask :: "env \<Rightarrow> UpdateTaskInput \<Rightarrow> 'x schedule_db_scheme \<Rightarrow>
    (svc_error + ProjectTask) \<times> 'x schedule_db_scheme" where
  "UpdateTask e inp d =
     service_result
       (ebind (require_that (opt_ok valid_percent (ut_PercentComplete inp)) (InvalidInput ''percent_complete'')) (\<lambda>_.
        require_that (opt_ok isValidTaskStatus (ut_Status inp)) (InvalidInput ''status''))) d
       (not_found_mapped (BeginTxFunc e
         (tbind (VerifyProjectInOrg e (ut_ProjectID inp) (ut_OrgID inp)) (\<lambda>_.
          UpdateTask_store e \<lparr>up_TaskID = ut_TaskID inp, up_ProjectID = ut_ProjectID inp, up_DurationDays = None,
            up_PercentComplete = ut_PercentComplete inp, up_Status = ut_Status inp,
            up_AssignedCrew = ut_AssignedCrew inp\<rparr>)) d))"

end
