(* ===== verification/Schedule_Import.thy ===== *)
theory Schedule_Import
  imports Schedule
begin

text \<open>
  internal/service/schedule_ingress.go: a whole task graph is validated (acyclicity included), inserted and, on
  request, recalculated in one transaction; single tasks are created the same way. \<open>ph\<close> stands for
  \<open>uuid.NewSHA1\<close> over the ingress namespace, which names the nodes of the graph checked for cycles.
\<close>

definition minTaskDurationDays :: int where "minTaskDurationDays = 1"
definition maxTaskDurationDays :: int where "maxTaskDurationDays = 36500"
definition minLagDays :: int where "minLagDays = - 3650"
definition maxLagDays :: int where "maxLagDays = 3650"

record ImportTaskInput =
  it_WBSCode :: string
  it_Name :: string
  it_DurationDays :: int
  it_Status :: string
  it_PercentComplete :: int
  it_AssignedCrew :: "uuid list"

record ImportDependencyInput =
  im_PredecessorCode :: string
  im_SuccessorCode :: string
  im_DependencyType :: string
  im_LagDays :: int

record ImportScheduleInput =
  is_Tasks :: "ImportTaskInput list"
  is_Dependencies :: "ImportDependencyInput list"
  is_Recalculate :: bool

record ImportScheduleResult =
  ir_Tasks :: "ProjectTask list"
  ir_DependencyCount :: nat
  ir_CPMResult :: "CPMResult option"
  ir_RecalcDuration :: int

definition or_default :: "string \<Rightarrow> string \<Rightarrow> string" where
  "or_default dflt s = (if s = [] then dflt else s)"

definition valid_duration :: "int \<Rightarrow> bool" where
  "valid_duration n \<longleftrightarrow> minTaskDurationDays \<le> n \<and> n \<le> maxTaskDurationDays"

text \<open>The body of the task loop after the WBS code, which \<open>CreateTask\<close> repeats.\<close>

definition check_task :: "uuid \<Rightarrow> string \<Rightarrow> ImportTaskInput \<Rightarrow> svc_error + InsertTaskParams" where
  "check_task projectID wbs t =
     (let nm = trim_space (it_Name t); status = or_default ''pending'' (it_Status t) in
      ebind (require_that (nm \<noteq> []) (InvalidInput ''name'')) (\<lambda>_.
      ebind (require_that (valid_duration (it_DurationDays t)) (InvalidInput ''duration_days'')) (\<lambda>_.
      ebind (require_that (isValidTaskStatus status) (InvalidInput ''status'')) (\<lambda>_.
      ebind (require_that (valid_percent (it_PercentComplete t)) (InvalidInput ''percent_complete'')) (\<lambda>_.
      Inr \<lparr>tp_ProjectID = projectID, tp_WBSCode = wbs, tp_Name = nm, tp_Status = status,
           tp_DurationDays = it_DurationDays t, tp_PercentComplete = it_PercentComplete t,
           tp_AssignedCrew = it_AssignedCrew t\<rparr>)))))"

fun check_tasks :: "uuid \<Rightarrow> string list \<Rightarrow> ImportTaskInput list \<Rightarrow> svc_error + InsertTaskParams list" where
  "check_tasks projectID seen [] = Inr []"
| "check_tasks projectID seen (t # ts) =
     (let wbs = trim_space (it_WBSCode t) in
      if wbs = [] then Inl (InvalidInput ''wbs_code'')
      else if wbs \<in> set seen then Inl (InvalidInput ''duplicate wbs_code'')
      else ebind (check_task projectID wbs t) (\<lambda>p.
           ebind (check_tasks projectID (wbs # seen) ts) (\<lambda>ps. Inr (p # ps))))"

definition isValidDependencyType :: "string \<Rightarrow> bool" where
  "isValidDependencyType s \<longleftrightarrow> s \<in> {DependencyTypeFS, DependencyTypeSS, DependencyTypeFF, DependencyTypeSF}"

record depRow =
  predCode :: string
  succCode :: string
  depType :: string
  lagDays :: int

fun check_deps :: "string list \<Rightarrow> (string \<times> string) list \<Rightarrow> ImportDependencyInput list \<Rightarrow> svc_error + depRow list" where
  "check_deps codes seen [] = Inr []"
| "check_deps codes seen (d # ds) =
     (let p = trim_space (im_PredecessorCode d); s = trim_space (im_SuccessorCode d);
          dt = or_default DependencyTypeFS (im_DependencyType d) in
      if p = [] \<or> s = [] then Inl (InvalidInput ''dependency codes'')
      else if p = s then Inl (InvalidInput ''dependency self-loop'')
      else if p \<notin> set codes \<or> s \<notin> set codes then Inl (InvalidInput ''unknown wbs_code'')
      else if (p, s) \<in> set seen then Inl (InvalidInput ''duplicate dependency'')
      else if \<not> isValidDependencyType dt then Inl (InvalidInput ''dependency_type'')
      else if im_LagDays d < minLagDays \<or> im_LagDays d > maxLagDays then Inl (InvalidInput ''lag_days'')
      else ebind (check_deps codes ((p, s) # seen) ds) (\<lambda>rows.
        Inr (\<lparr>predCode = p, succCode = s, depType = dt, lagDays = im_LagDays d\<rparr> # rows)))"

definition proposed_task :: "(string \<Rightarrow> uuid) \<Rightarrow> InsertTaskParams \<Rightarrow> ProjectTask" where
  "proposed_task ph p = zero_task\<lparr>pt_ID := ph (tp_WBSCode p), pt_WBSCode := tp_WBSCode p\<rparr>"

definition proposed_dep :: "(string \<Rightarrow> uuid) \<Rightarrow> depRow \<Rightarrow> TaskDependency" where
  "proposed_dep ph r = zero_dep\<lparr>td_PredecessorID := ph (predCode r), td_SuccessorID := ph (succCode r),
     td_DependencyType := depType r, td_LagDays := lagDays r\<rparr>"

definition reject_cycles :: "'g digraph_ops \<Rightarrow> (string \<Rightarrow> uuid) \<Rightarrow> InsertTaskParams list \<Rightarrow> depRow list \<Rightarrow> svc_error + unit" where
  "reject_cycles ops ph params rows =
     (if rows = [] then Inr ()
      else case BuildDependencyGraph ops (List.map (proposed_task ph) params) (List.map (proposed_dep ph) rows) of
             None \<Rightarrow> Inl Panicked
           | Some g \<Rightarrow> map_err (\<lambda>_. InvalidInput ''cycle'') (DetectCycle ops g))"

definition validate_import :: "'g digraph_ops \<Rightarrow> (string \<Rightarrow> uuid) \<Rightarrow> uuid \<Rightarrow> uuid \<Rightarrow> ImportScheduleInput \<Rightarrow>
    svc_error + (InsertTaskParams list \<times> depRow list)" where
  "validate_import ops ph projectID callerOrgID inp =
     ebind (require_that (callerOrgID \<noteq> uuid_nil) (InvalidInput ''org_id'')) (\<lambda>_.
     ebind (require_that (is_Tasks inp \<noteq> []) (InvalidInput ''tasks'')) (\<lambda>_.
     ebind (check_tasks projectID [] (is_Tasks inp)) (\<lambda>params.
     ebind (check_deps (List.map tp_WBSCode params) [] (is_Dependencies inp)) (\<lambda>rows.
     ebind (reject_cycles ops ph params rows) (\<lambda>_.
     Inr (params, rows))))))"

text \<open>The map from codes to the server's ids.\<close>

definition code_id :: "ProjectTask list \<Rightarrow> string \<Rightarrow> uuid" where
  "code_id inserted code = (case List.find (\<lambda>t. pt_WBSCode t = code) (rev inserted) of None \<Rightarrow> uuid_nil | Some t \<Rightarrow> pt_ID t)"

definition dependency_params :: "uuid \<Rightarrow> ProjectTask list \<Rightarrow> depRow \<Rightarrow> InsertDependencyParams" where
  "dependency_params projectID inserted r =
     \<lparr>dp_ProjectID = projectID, dp_PredecessorID = code_id inserted (predCode r),
      dp_SuccessorID = code_id inserted (succCode r), dp_DependencyType = depType r, dp_LagDays = lagDays r\<rparr>"

definition imported_entry :: "uuid \<Rightarrow> string \<Rightarrow> uuid \<Rightarrow> nat \<Rightarrow> nat \<Rightarrow> bool \<Rightarrow> AuditEntry" where
  "imported_entry orgID sub projectID tasks deps recalculate =
     \<lparr>ae_OrgID = orgID, ae_UserSub = sub, ae_Action = ''schedule.imported'', ae_ResourceType = ''schedule'',
      ae_ResourceID = projectID, ae_Before = [], ae_After = [],
      ae_Metadata = [(''task_count'', JInt (int tasks)), (''dependency_count'', JInt (int deps)),
        (''recalculated'', JBool recalculate)]\<rparr>"

definition import_body :: "'g digraph_ops \<Rightarrow> env \<Rightarrow> int \<Rightarrow> uuid \<Rightarrow> uuid \<Rightarrow> string \<Rightarrow> bool \<Rightarrow>
    InsertTaskParams list \<Rightarrow> depRow list \<Rightarrow> ('x schedule_db_scheme, ImportScheduleResult) tx" where
  "import_body ops e took projectID callerOrgID sub recalculate params rows =
     tbind (VerifyProjectInOrg e projectID callerOrgID) (\<lambda>_.
     tbind (InsertTasks e params) (\<lambda>inserted.
     tbind (InsertDependencies e (List.map (dependency_params projectID inserted) rows)) (\<lambda>_.
     tbind (Record e (imported_entry callerOrgID sub projectID (length inserted) (length rows) recalculate)) (\<lambda>_.
     if \<not> recalculate
     then tret \<lparr>ir_Tasks = inserted, ir_DependencyCount = length rows, ir_CPMResult = None, ir_RecalcDuration = 0\<rparr>
     else tbind (recalcOnTx ops e took projectID callerOrgID sub) (\<lambda>(cpm, t).
          tbind (GetProjectTasks e projectID) (\<lambda>refreshed.
          tret \<lparr>ir_Tasks = refreshed, ir_DependencyCount = length rows, ir_CPMResult = Some cpm,
                 ir_RecalcDuration = t\<rparr>))))))"

definition ImportSchedule :: "'g digraph_ops \<Rightarrow> (string \<Rightarrow> uuid) \<Rightarrow> env \<Rightarrow> int \<Rightarrow> uuid \<Rightarrow> uuid \<Rightarrow> string \<Rightarrow>
    ImportScheduleInput \<Rightarrow> 'x schedule_db_scheme \<Rightarrow> (svc_error + ImportScheduleResult) \<times> 'x schedule_db_scheme" where
  "ImportSchedule ops ph e took projectID callerOrgID sub inp d =
     (case validate_import ops ph projectID callerOrgID inp of
        Inl err \<Rightarrow> (Inl err, d)
      | Inr (params, rows) \<Rightarrow>
          mapped (BeginTxFunc e (import_body ops e took projectID callerOrgID sub (is_Recalculate inp) params rows) d))"

record CreateTaskInput = ImportTaskInput +
  ct_ProjectID :: uuid
  ct_OrgID :: uuid
  ct_CallerUserSub :: string

definition task_json :: "ProjectTask \<Rightarrow> payload" where
  "task_json t = [(''id'', JUuid (pt_ID t)), (''project_id'', JUuid (pt_ProjectID t)), (''wbs_code'', JStr (pt_WBSCode t)),
     (''name'', JStr (pt_Name t)), (''duration_days'', JInt (pt_DurationDays t)), (''is_critical'', JBool (pt_IsCritical t)),
     (''status'', JStr (pt_Status t)), (''percent_complete'', JInt (pt_PercentComplete t))]
     @ (if pt_AssignedCrew t = [] then [] else [(''assigned_crew'', JList (List.map JUuid (pt_AssignedCrew t)))])
     @ [(''created_at'', JTime (pt_CreatedAt t)), (''updated_at'', JTime (pt_UpdatedAt t))]"

definition task_created_entry :: "CreateTaskInput \<Rightarrow> ProjectTask \<Rightarrow> AuditEntry" where
  "task_created_entry inp t =
     \<lparr>ae_OrgID = ct_OrgID inp, ae_UserSub = ct_CallerUserSub inp, ae_Action = ''task.created'',
      ae_ResourceType = ''project_task'', ae_ResourceID = pt_ID t, ae_Before = [], ae_After = task_json t,
      ae_Metadata = [(''project_id'', JUuid (ct_ProjectID inp)), (''wbs_code'', JStr (pt_WBSCode t))]\<rparr>"

definition create_task_body :: "env \<Rightarrow> CreateTaskInput \<Rightarrow> InsertTaskParams \<Rightarrow> ('x schedule_db_scheme, ProjectTask) tx" where
  "create_task_body e inp p =
     tbind (VerifyProjectInOrg e (ct_ProjectID inp) (ct_OrgID inp)) (\<lambda>_.
     tbind (InsertTasks e [p]) (\<lambda>inserted.
     tbind (Record e (task_created_entry inp (hd inserted))) (\<lambda>_.
     tret (hd inserted))))"

definition CreateTask :: "env \<Rightarrow> CreateTaskInput \<Rightarrow> 'x schedule_db_scheme \<Rightarrow>
    (svc_error + ProjectTask) \<times> 'x schedule_db_scheme" where
  "CreateTask e inp d =
     (let wbs = trim_space (it_WBSCode inp) in
      case ebind (require_that (ct_OrgID inp \<noteq> uuid_nil) (InvalidInput ''org_id'')) (\<lambda>_.
           ebind (require_that (wbs \<noteq> []) (InvalidInput ''wbs_code'')) (\<lambda>_.
           check_task (ct_ProjectID inp) wbs (ImportTaskInput.truncate inp))) of
        Inl err \<Rightarrow> (Inl err, d)
      | Inr p \<Rightarrow> mapped (BeginTxFunc e (create_task_body e inp p) d))"

end
