(* ===== verification/Schedule_Agents.thy ===== *)
theory Schedule_Agents
  imports Schedule_Import
begin

text \<open>
  The schedule flows of internal/service/agents.go: \<open>RecommendScheduleAdjustments\<close>, which joins the proposals of a
  language model against the stored tasks and, unless it is a dry run, writes the in-range ones; and
  \<open>ApplyScheduleAdjustments\<close>, which commits the rows a user selected. Both recalculate in a transaction of
  their own afterwards. The model's answer is the parameter \<open>adjuster\<close>, an arbitrary function of
  the request; a nil response is None. A missing adjuster is the parameter None; the schedule store and service are
  taken as wired, as cmd/server does.
\<close>

record ScheduleTaskSnapshot =
  sn_TaskID :: uuid
  sn_WBSCode :: string
  sn_Name :: string
  sn_DurationDays :: int
  sn_Status :: string
  sn_PercentComplete :: int
  sn_IsCritical :: bool

record ScheduleDepSnapshot =
  sd_PredecessorID :: uuid
  sd_SuccessorID :: uuid
  sd_DependencyType :: string
  sd_LagDays :: int

record UpdateScheduleRequest =
  us_ProjectID :: uuid
  us_ProjectStartDate :: gotime
  us_Tasks :: "ScheduleTaskSnapshot list"
  us_Dependencies :: "ScheduleDepSnapshot list"

record ScheduleAdjustment =
  aj_TaskID :: uuid
  aj_NewDurationDays :: "int option"
  aj_Rationale :: string

type_synonym adjuster = "UpdateScheduleRequest \<Rightarrow> svc_error + ScheduleAdjustment list option"

definition task_snapshot :: "ProjectTask \<Rightarrow> ScheduleTaskSnapshot" where
  "task_snapshot t = \<lparr>sn_TaskID = pt_ID t, sn_WBSCode = pt_WBSCode t, sn_Name = pt_Name t,
     sn_DurationDays = pt_DurationDays t, sn_Status = pt_Status t, sn_PercentComplete = pt_PercentComplete t,
     sn_IsCritical = pt_IsCritical t\<rparr>"

definition dep_snapshot :: "TaskDependency \<Rightarrow> ScheduleDepSnapshot" where
  "dep_snapshot d = \<lparr>sd_PredecessorID = td_PredecessorID d, sd_SuccessorID = td_SuccessorID d,
     sd_DependencyType = td_DependencyType d, sd_LagDays = td_LagDays d\<rparr>"

record ScheduleProposal =
  sp_TaskID :: uuid
  sp_WBSCode :: string
  sp_Name :: string
  sp_OldDurationDays :: int
  sp_NewDurationDays :: "int option"
  sp_Rationale :: string
  sp_IsCritical :: bool
  sp_ProposedChange :: bool
  sp_Applied :: bool

record ScheduleAdjustmentSet =
  sa_Adjustments :: "ScheduleProposal list"
  sa_DryRun :: bool
  sa_ProposedChanges :: nat
  sa_AdvisoryCount :: nat
  sa_AppliedDeltas :: nat
  sa_CriticalRecomputed :: bool
  sa_SkippedRationaleOnly :: nat

definition is_change :: "ProjectTask \<Rightarrow> ScheduleAdjustment \<Rightarrow> bool" where
  "is_change t adj = (case aj_NewDurationDays adj of None \<Rightarrow> False
     | Some n \<Rightarrow> 1 \<le> n \<and> n \<le> maxTaskDurationDays \<and> n \<noteq> pt_DurationDays t)"

definition proposal :: "bool \<Rightarrow> ProjectTask \<Rightarrow> ScheduleAdjustment \<Rightarrow> ScheduleProposal" where
  "proposal dryRun t adj = \<lparr>sp_TaskID = pt_ID t, sp_WBSCode = pt_WBSCode t, sp_Name = pt_Name t,
     sp_OldDurationDays = pt_DurationDays t,
     sp_NewDurationDays = (if is_change t adj then aj_NewDurationDays adj else None),
     sp_Rationale = aj_Rationale adj, sp_IsCritical = pt_IsCritical t, sp_ProposedChange = is_change t adj,
     sp_Applied = (is_change t adj \<and> \<not> dryRun)\<rparr>"

definition duration_edit :: "uuid \<Rightarrow> uuid \<Rightarrow> int option \<Rightarrow> UpdateTaskParams" where
  "duration_edit taskID projectID dur = \<lparr>up_TaskID = taskID, up_ProjectID = projectID, up_DurationDays = dur,
     up_PercentComplete = None, up_Status = None, up_AssignedCrew = None\<rparr>"

text \<open>\<open>byID\<close>: the last task with the id, as a Go map filled in order has it.\<close>

definition task_with_id :: "ProjectTask list \<Rightarrow> uuid \<Rightarrow> ProjectTask option" where
  "task_with_id tasks u = List.find (\<lambda>t. pt_ID t = u) (rev tasks)"

fun adjust_loop :: "env \<Rightarrow> uuid \<Rightarrow> bool \<Rightarrow> ProjectTask list \<Rightarrow> ScheduleAdjustment list \<Rightarrow>
    ('x schedule_db_scheme, ScheduleProposal list) tx" where
  "adjust_loop e projectID dryRun tasks [] = tret []"
| "adjust_loop e projectID dryRun tasks (adj # adjs) =
     (case task_with_id tasks (aj_TaskID adj) of
        None \<Rightarrow> adjust_loop e projectID dryRun tasks adjs
      | Some t \<Rightarrow>
          tbind (if \<not> dryRun \<and> is_change t adj
                 then tbind (UpdateTask_store e (duration_edit (pt_ID t) projectID (aj_NewDurationDays adj))) (\<lambda>_. tret ())
                 else tret ()) (\<lambda>_.
          tbind (adjust_loop e projectID dryRun tasks adjs) (\<lambda>ps.
          tret (proposal dryRun t adj # ps))))"

definition delta_json :: "string \<Rightarrow> int \<Rightarrow> int \<Rightarrow> json" where
  "delta_json wbs old new = JObject [(''wbs'', JStr wbs), (''old'', JInt old), (''new'', JInt new)]"

definition scheduleDeltaAudit :: "ScheduleProposal list \<Rightarrow> json list" where
  "scheduleDeltaAudit proposals =
     List.map_filter (\<lambda>p. if \<not> sp_Applied p then None
        else case sp_NewDurationDays p of None \<Rightarrow> None
          | Some n \<Rightarrow> Some (delta_json (sp_WBSCode p) (sp_OldDurationDays p) n)) proposals"

definition adjustment_set :: "bool \<Rightarrow> ScheduleProposal list \<Rightarrow> ScheduleAdjustmentSet" where
  "adjustment_set dryRun ps =
     (let advisory = length (filter (\<lambda>p. \<not> sp_ProposedChange p) ps) in
      \<lparr>sa_Adjustments = ps, sa_DryRun = dryRun, sa_ProposedChanges = length (filter sp_ProposedChange ps),
       sa_AdvisoryCount = advisory, sa_AppliedDeltas = length (filter sp_Applied ps),
       sa_CriticalRecomputed = False, sa_SkippedRationaleOnly = advisory\<rparr>)"

definition maestro_entry :: "uuid \<Rightarrow> string \<Rightarrow> uuid \<Rightarrow> nat \<Rightarrow> ScheduleAdjustmentSet \<Rightarrow> AuditEntry" where
  "maestro_entry orgID sub projectID recommended r =
     \<lparr>ae_OrgID = orgID, ae_UserSub = sub, ae_Action = ''schedule.maestro_edit'', ae_ResourceType = ''schedule'',
      ae_ResourceID = projectID, ae_Before = [], ae_After = [],
      ae_Metadata = [(''recommended_delta_count'', JInt (int recommended)), (''applied_deltas'', JInt (int (sa_AppliedDeltas r))),
        (''skipped_rationale_only'', JInt (int (sa_AdvisoryCount r))), (''deltas'', JList (scheduleDeltaAudit (sa_Adjustments r)))]\<rparr>"

definition recommend_body :: "adjuster \<Rightarrow> env \<Rightarrow> uuid \<Rightarrow> string \<Rightarrow> uuid \<Rightarrow> bool \<Rightarrow>
    ('x schedule_db_scheme, ScheduleAdjustmentSet) tx" where
  "recommend_body adjuster e callerOrgID sub projectID dryRun =
     tbind (VerifyProjectInOrg e projectID callerOrgID) (\<lambda>_.
     tbind (GetProjectTasks e projectID) (\<lambda>tasks.
     tbind (tguard (tasks \<noteq> []) (InvalidInput ''no tasks'')) (\<lambda>_.
     tbind (GetProjectDependencies e projectID) (\<lambda>deps.
     tbind (GetProjectStartDate e projectID) (\<lambda>projectStart.
     tbind (tlift (adjuster \<lparr>us_ProjectID = projectID, us_ProjectStartDate = projectStart,
       us_Tasks = List.map task_snapshot tasks, us_Dependencies = List.map dep_snapshot deps\<rparr>)) (\<lambda>resp.
     case resp of
       None \<Rightarrow> tfail (Internal ''ai update_schedule: nil response'')
     | Some adjs \<Rightarrow>
         tbind (adjust_loop e projectID dryRun tasks adjs) (\<lambda>ps.
         let r = adjustment_set dryRun ps in
         tbind (if dryRun then tret () else Record e (maestro_entry callerOrgID sub projectID (length adjs) r)) (\<lambda>_.
         tret r))))))))"

text \<open>
  The outcome: the error, or the value and whether the recalculation that follows failed (the value is then
  returned beside the error). \<open>e2\<close> is the environment of the second transaction.
\<close>

definition then_recalc :: "('x schedule_db_scheme \<Rightarrow> (svc_error + CPMResult \<times> int) \<times> 'x schedule_db_scheme) \<Rightarrow>
    ('r \<Rightarrow> nat) \<Rightarrow> ('r \<Rightarrow> 'r) \<Rightarrow> (svc_error + 'r) \<times> 'x schedule_db_scheme \<Rightarrow>
    (svc_error + 'r \<times> svc_error option) \<times> 'x schedule_db_scheme" where
  "then_recalc recalc applied mark rd =
     (case rd of
        (Inl err, d) \<Rightarrow> (Inl err, d)
      | (Inr r, d) \<Rightarrow>
          if applied r > 0
          then (case recalc d of (Inl err, d') \<Rightarrow> (Inr (r, Some err), d') | (Inr _, d') \<Rightarrow> (Inr (mark r, None), d'))
          else (Inr (r, None), d))"

definition RecommendScheduleAdjustments :: "'g digraph_ops \<Rightarrow> adjuster option \<Rightarrow> env \<Rightarrow> env \<Rightarrow> int \<Rightarrow> uuid \<Rightarrow> string \<Rightarrow>
    uuid \<Rightarrow> bool \<Rightarrow> 'x schedule_db_scheme \<Rightarrow>
    (svc_error + ScheduleAdjustmentSet \<times> svc_error option) \<times> 'x schedule_db_scheme" where
  "RecommendScheduleAdjustments ops adjuster e e2 took callerOrgID sub projectID dryRun d =
     (if callerOrgID = uuid_nil then (Inl (InvalidInput ''org_id''), d)
      else if projectID = uuid_nil then (Inl (InvalidInput ''project_id''), d)
      else case adjuster of
        None \<Rightarrow> (Inl (Internal ''agents: ai client not configured''), d)
      | Some adj \<Rightarrow>
          then_recalc (RecalculateSchedule ops e2 took projectID callerOrgID sub) sa_AppliedDeltas
            (\<lambda>r. r\<lparr>sa_CriticalRecomputed := True\<rparr>)
            (not_found_mapped (BeginTxFunc e (recommend_body adj e callerOrgID sub projectID dryRun) d)))"

record ScheduleAdjustmentApply =
  ap_WBSCode :: string
  ap_NewDurationDays :: int

record ScheduleApplyResult =
  ra_AppliedDeltas :: nat
  ra_CriticalRecomputed :: bool

definition task_with_code :: "ProjectTask list \<Rightarrow> string \<Rightarrow> ProjectTask option" where
  "task_with_code tasks wbs = List.find (\<lambda>t. pt_WBSCode t = wbs) (rev tasks)"

fun check_applies :: "ProjectTask list \<Rightarrow> string list \<Rightarrow> ScheduleAdjustmentApply list \<Rightarrow>
    svc_error + (ProjectTask \<times> int) list" where
  "check_applies tasks seen [] = Inr []"
| "check_applies tasks seen (a # as) =
     (if ap_WBSCode a = [] then Inl (InvalidInput ''wbs_code'')
      else if ap_WBSCode a \<in> set seen then Inl (InvalidInput ''duplicate wbs_code'')
      else if ap_NewDurationDays a < 1 \<or> ap_NewDurationDays a > maxTaskDurationDays
      then Inl (InvalidInput ''new_duration_days'')
      else case task_with_code tasks (ap_WBSCode a) of
             None \<Rightarrow> Inl (InvalidInput ''task not found'')
           | Some t \<Rightarrow> ebind (check_applies tasks (ap_WBSCode a # seen) as) (\<lambda>ds.
               Inr ((t, ap_NewDurationDays a) # ds)))"

fun apply_deltas :: "env \<Rightarrow> uuid \<Rightarrow> (ProjectTask \<times> int) list \<Rightarrow> ('x schedule_db_scheme, unit) tx" where
  "apply_deltas e projectID [] = tret ()"
| "apply_deltas e projectID ((t, next) # ds) =
     tbind (UpdateTask_store e (duration_edit (pt_ID t) projectID (Some next))) (\<lambda>_. apply_deltas e projectID ds)"

definition applied_entry :: "uuid \<Rightarrow> string \<Rightarrow> uuid \<Rightarrow> (ProjectTask \<times> int) list \<Rightarrow> AuditEntry" where
  "applied_entry orgID sub projectID ds =
     \<lparr>ae_OrgID = orgID, ae_UserSub = sub, ae_Action = ''schedule.adjustments.applied'', ae_ResourceType = ''schedule'',
      ae_ResourceID = projectID, ae_Before = [], ae_After = [],
      ae_Metadata = [(''applied_deltas'', JInt (int (length ds))),
        (''deltas'', JList (List.map (\<lambda>(t, next). delta_json (pt_WBSCode t) (pt_DurationDays t) next) ds))]\<rparr>"

definition apply_body :: "env \<Rightarrow> uuid \<Rightarrow> string \<Rightarrow> uuid \<Rightarrow> ScheduleAdjustmentApply list \<Rightarrow>
    ('x schedule_db_scheme, ScheduleApplyResult) tx" where
  "apply_body e callerOrgID sub projectID applies =
     tbind (VerifyProjectInOrg e projectID callerOrgID) (\<lambda>_.
     tbind (GetProjectTasks e projectID) (\<lambda>tasks.
     tbind (tlift (check_applies tasks [] applies)) (\<lambda>ds.
     tbind (apply_deltas e projectID ds) (\<lambda>_.
     tbind (Record e (applied_entry callerOrgID sub projectID ds)) (\<lambda>_.
     tret \<lparr>ra_AppliedDeltas = length ds, ra_CriticalRecomputed = False\<rparr>)))))"

definition ApplyScheduleAdjustments :: "'g digraph_ops \<Rightarrow> env \<Rightarrow> env \<Rightarrow> int \<Rightarrow> uuid \<Rightarrow> string \<Rightarrow> uuid \<Rightarrow>
    ScheduleAdjustmentApply list \<Rightarrow> 'x schedule_db_scheme \<Rightarrow>
    (svc_error + ScheduleApplyResult \<times> svc_error option) \<times> 'x schedule_db_scheme" where
  "ApplyScheduleAdjustments ops e e2 took callerOrgID sub projectID applies d =
     (if callerOrgID = uuid_nil then (Inl (InvalidInput ''org_id''), d)
      else if projectID = uuid_nil then (Inl (InvalidInput ''project_id''), d)
      else if applies = [] then (Inl (InvalidInput ''adjustments''), d)
      else then_recalc (RecalculateSchedule ops e2 took projectID callerOrgID sub) ra_AppliedDeltas
             (\<lambda>r. r\<lparr>ra_CriticalRecomputed := True\<rparr>)
             (not_found_mapped (BeginTxFunc e (apply_body e callerOrgID sub projectID applies) d)))"

end
