(* ===== verification/Schedule_Effect.thy ===== *)
theory Schedule_Effect
  imports Schedule_Agents
begin

text \<open>
  What the bodies of the schedule transactions do to the two tables when they succeed: every one either edits rows
  in place, keeping identity, project, code and (but for the agents) duration, or appends a batch.
\<close>

section \<open>Recalculation\<close>

definition store_results :: "env \<Rightarrow> uuid set \<Rightarrow> (uuid \<times> ScheduleResult) list \<Rightarrow> ProjectTask \<Rightarrow> ProjectTask" where
  "store_results e ids results t =
     (if pt_ID t \<in> ids then (case mget results (pt_ID t) of None \<Rightarrow> t | Some r \<Rightarrow> write_result e r t) else t)"

lemma write_result_simps [simp]:
  "pt_ID (write_result e r t) = pt_ID t" "pt_ProjectID (write_result e r t) = pt_ProjectID t"
  "pt_WBSCode (write_result e r t) = pt_WBSCode t" "pt_DurationDays (write_result e r t) = pt_DurationDays t"
  "write_result e r (write_result e r t) = write_result e r t"
  by (simp_all add: write_result_def)

lemma store_results_simps [simp]:
  "pt_ID (store_results e ids rs t) = pt_ID t" "pt_ProjectID (store_results e ids rs t) = pt_ProjectID t"
  "pt_WBSCode (store_results e ids rs t) = pt_WBSCode t" "pt_DurationDays (store_results e ids rs t) = pt_DurationDays t"
  by (auto simp: store_results_def split: option.splits)

lemma store_results_insert:
  "store_results e (insert u ids) rs t =
     store_results e ids rs (case mget rs u of None \<Rightarrow> t | Some r \<Rightarrow> if pt_ID t = u then write_result e r t else t)"
  by (auto simp: store_results_def split: option.splits)

lemma UpdateSchedule_Inr:
  "UpdateSchedule e ts rs s = Inr (u, s') \<Longrightarrow>
     s' = s\<lparr>s_db := db_tasks_update (List.map (store_results e (pt_ID ` set ts) rs)) (s_db s)\<rparr>"
proof (induction ts arbitrary: s)
  case Nil
  have "store_results e {} rs = id" by (simp add: store_results_def fun_eq_iff)
  then show ?case using Nil by simp
next
  case (Cons t ts)
  show ?case
  proof (cases "mget rs (pt_ID t)")
    case None
    then show ?thesis using Cons.prems Cons.IH by (simp add: tbind_Inr store_results_insert [abs_def])
  next
    case (Some r)
    from Cons.prems Some obtain s1 where
      up: "s1 = s\<lparr>s_db := db_tasks_update (update_where (\<lambda>x. pt_ID x = pt_ID t) (write_result e r)) (s_db s)\<rparr>" and
      rest: "UpdateSchedule e ts rs s1 = Inr (u, s')"
      by (auto simp: tbind_Inr update_exec_Inr)
    from Cons.IH [OF rest] show ?thesis
      using Some by (simp add: up update_where_def store_results_insert [abs_def] o_def)
  qed
qed

definition cascade_jobs :: "bool \<Rightarrow> uuid \<Rightarrow> uuid \<Rightarrow> river_job list" where
  "cascade_jobs changed org pid = (if changed then [DelayCascade org pid] else [])"

lemma recalcOnTx_Inr:
  assumes run: "recalcOnTx ops e took pid org sub s = Inr ((res, t), s')" and ok: "\<not> s_aborted s'"
  obtains p cp sched rows where "\<not> s_aborted s" "t = took" "tasks_of (s_db s) pid \<noteq> []"
    "p \<in> set (db_projects (s_db s))" "pj_ID p = pid"
    "run_cpm ops (tasks_of (s_db s) pid) (deps_of (s_db s) pid) (start_date p) = Inr (cp, sched)"
    "res = \<lparr>cr_Tasks = List.map snd sched, cr_CriticalPath = cp, cr_ProjectEnd = latest_finish sched zero_time True,
       cr_CriticalPathChanged = critical_changed (tasks_of (s_db s) pid) (schedule_results sched)\<rparr>"
    "s_db s' = s_db s\<lparr>
       db_tasks := List.map (store_results e (pt_ID ` set (tasks_of (s_db s) pid)) (schedule_results sched)) (db_tasks (s_db s)),
       db_audit := db_audit (s_db s) @ rows,
       db_jobs := db_jobs (s_db s) @ cascade_jobs (cr_CriticalPathChanged res) org pid\<rparr>"
    "org \<noteq> uuid_nil \<and> pid \<noteq> uuid_nil \<longrightarrow> length rows = 1"
proof -
  let ?tasks = "tasks_of (s_db s) pid" and ?deps = "deps_of (s_db s) pid"
  from run obtain p ps cp sched s1 s2 where
    ne: "?tasks \<noteq> []" and proj: "filter (\<lambda>p. pj_ID p = pid) (db_projects (s_db s)) = p # ps" and
    cpm: "run_cpm ops ?tasks ?deps (start_date p) = Inr (cp, sched)" and
    up: "UpdateSchedule e ?tasks (schedule_results sched) s = Inr ((), s1)" and
    rcd: "Record e (recalculated_entry org sub pid took (length ?tasks) (length cp) (latest_finish sched zero_time True)) s1 = Inr ((), s2)" and
    job: "(if critical_changed ?tasks (schedule_results sched) then InsertTx e (DelayCascade org pid) else tret ()) s2 = Inr ((), s')" and
    res: "res = \<lparr>cr_Tasks = List.map snd sched, cr_CriticalPath = cp, cr_ProjectEnd = latest_finish sched zero_time True,
       cr_CriticalPathChanged = critical_changed ?tasks (schedule_results sched)\<rparr>" "t = took"
    by (auto simp: recalcOnTx_def tbind_Inr GetProjectTasks_def GetProjectDependencies_def GetProjectStartDate_def
      select_all_Inr Let_def split: list.splits prod.splits)
  have job': "\<not> s_aborted s2" "s_db s' = s_db s2\<lparr>db_jobs := db_jobs (s_db s2) @
      cascade_jobs (critical_changed ?tasks (schedule_results sched)) org pid\<rparr>"
    using job ok by (auto simp: InsertTx_def stmt_Inr cascade_jobs_def split: if_splits)
  from Record_Inr [OF rcd job'(1)] obtain new where new: "s_db s2 = s_db s1\<lparr>db_audit := db_audit (s_db s1) @ new\<rparr>"
    "\<not> s_aborted s1"
    "auditable (recalculated_entry org sub pid took (length ?tasks) (length cp) (latest_finish sched zero_time True)) \<Longrightarrow> length new = 1"
    by metis
  note s1 = UpdateSchedule_Inr [OF up]
  have p: "p \<in> set (db_projects (s_db s))" "pj_ID p = pid"
    using arg_cong [OF proj, of set] by auto
  show thesis
  proof (rule that [OF _ res(2) ne p cpm res(1), of new])
    show "\<not> s_aborted s" using new(2) s1 by simp
    show "s_db s' = s_db s\<lparr>
       db_tasks := List.map (store_results e (pt_ID ` set (tasks_of (s_db s) pid)) (schedule_results sched)) (db_tasks (s_db s)),
       db_audit := db_audit (s_db s) @ new,
       db_jobs := db_jobs (s_db s) @ cascade_jobs (cr_CriticalPathChanged res) org pid\<rparr>"
      using s1 new(1) job'(2) res(1) by simp
    show "org \<noteq> uuid_nil \<and> pid \<noteq> uuid_nil \<longrightarrow> length new = 1"
      using new(3) by (simp add: auditable_def recalculated_entry_def)
  qed
qed

section \<open>Edits and insertions\<close>

lemma UpdateTask_store_Inr:
  assumes "UpdateTask_store e p s = Inr (t, s')"
  shows "\<not> s_aborted s \<and> sane_duration (pt_DurationDays t) \<and>
    (\<exists>r\<in>set (db_tasks (s_db s)). pt_ID r = up_TaskID p \<and> pt_ProjectID r = up_ProjectID p \<and> t = edit_task e p r) \<and>
    s' = s\<lparr>s_db := db_tasks_update (update_where (\<lambda>t. pt_ID t = up_TaskID p \<and> pt_ProjectID t = up_ProjectID p)
       (edit_task e p)) (s_db s)\<rparr>"
  using assms by (auto simp: UpdateTask_store_def tbind_Inr update_returning_Inr dest!: find_SomeD)

lemma new_task_simps [simp]:
  "pt_ID (new_task e p u) = u" "pt_ProjectID (new_task e p u) = tp_ProjectID p"
  "pt_WBSCode (new_task e p u) = tp_WBSCode p" "pt_DurationDays (new_task e p u) = tp_DurationDays p"
  "pt_IsCritical (new_task e p u) = False"
  by (simp_all add: new_task_def zero_task_def)

lemma InsertTasks_Inr:
  assumes "InsertTasks e ps s = Inr (out, s')"
  shows "(ps \<noteq> [] \<longrightarrow> \<not> s_aborted s) \<and> s_aborted s' = s_aborted s \<and>
    s_db s' = s_db s\<lparr>db_tasks := db_tasks (s_db s) @ out\<rparr> \<and>
    list_all2 (\<lambda>p t. pt_WBSCode t = tp_WBSCode p \<and> pt_ProjectID t = tp_ProjectID p \<and>
      pt_DurationDays t = tp_DurationDays p \<and> \<not> pt_IsCritical t) ps out \<and>
    distinct (List.map pt_ID out) \<and> pt_ID ` set out \<inter> pt_ID ` set (db_tasks (s_db s)) = {}"
  using assms
proof (induction ps arbitrary: s out)
  case (Cons p ps)
  from Cons.prems obtain t s1 out' where ins: "insert_task e p s = Inr (t, s1)" and
    rest: "InsertTasks e ps s1 = Inr (out', s')" and out: "out = t # out'"
    by (auto simp: tbind_Inr)
  have one: "\<not> s_aborted s" "s_aborted s1 = s_aborted s" "s_db s1 = s_db s\<lparr>db_tasks := db_tasks (s_db s) @ [t]\<rparr>"
    "pt_WBSCode t = tp_WBSCode p" "pt_ProjectID t = tp_ProjectID p" "pt_DurationDays t = tp_DurationDays p"
    "\<not> pt_IsCritical t" "pt_ID t \<notin> pt_ID ` set (db_tasks (s_db s))"
    using ins by (auto simp: insert_task_def insert_returning_Inr image_iff)
  note ih = Cons.IH [OF rest]
  have "pt_ID t \<notin> pt_ID ` set out'" using ih one(3) by auto
  then show ?case using ih one out by auto
qed simp

lemma InsertDependencies_Inr:
  assumes "InsertDependencies e ps s = Inr (u, s')"
  shows "(ps \<noteq> [] \<longrightarrow> \<not> s_aborted s) \<and> s_aborted s' = s_aborted s \<and>
    (\<exists>out. s_db s' = s_db s\<lparr>db_deps := db_deps (s_db s) @ out\<rparr> \<and>
      list_all2 (\<lambda>p x. td_ProjectID x = dp_ProjectID p \<and> td_PredecessorID x = dp_PredecessorID p \<and>
        td_SuccessorID x = dp_SuccessorID p \<and> td_DependencyType x = dp_DependencyType p \<and> td_LagDays x = dp_LagDays p) ps out)"
  using assms
proof (induction ps arbitrary: s)
  case Nil
  then show ?case by (auto intro!: exI [of _ "[]"])
next
  case (Cons p ps)
  from Cons.prems obtain x s1 where ins: "insert_dependency e p s = Inr (x, s1)" and
    rest: "InsertDependencies e ps s1 = Inr (u, s')"
    by (auto simp: tbind_Inr)
  have one: "\<not> s_aborted s" "s_aborted s1 = s_aborted s" "s_db s1 = s_db s\<lparr>db_deps := db_deps (s_db s) @ [x]\<rparr>"
    "td_ProjectID x = dp_ProjectID p" "td_PredecessorID x = dp_PredecessorID p" "td_SuccessorID x = dp_SuccessorID p"
    "td_DependencyType x = dp_DependencyType p" "td_LagDays x = dp_LagDays p"
    using ins by (auto simp: insert_dependency_def insert_returning_Inr)
  from Cons.IH [OF rest] obtain out where out: "s_db s' = s_db s1\<lparr>db_deps := db_deps (s_db s1) @ out\<rparr>"
    "list_all2 (\<lambda>p x. td_ProjectID x = dp_ProjectID p \<and> td_PredecessorID x = dp_PredecessorID p \<and>
        td_SuccessorID x = dp_SuccessorID p \<and> td_DependencyType x = dp_DependencyType p \<and> td_LagDays x = dp_LagDays p) ps out"
    "s_aborted s' = s_aborted s1" by blast
  then show ?case using one by (auto intro!: exI [of _ "x # out"])
qed

end
