(* ===== verification/Schedule_Inv.thy ===== *)
theory Schedule_Inv
  imports Schedule_Effect
begin

text \<open>
  The plan machine: the abstract state is the pair of tables, a step edits rows in place or appends a batch whose
  dependencies stay inside it. Every operation that writes the two tables is a sequence of steps, and the steps keep
  the plan computable: unique ids, durations of 1 to 36500 days, dependencies between stored tasks, no cycle.
\<close>

section \<open>Acyclic relations\<close>

lemma trancl_map_prod: "(a, b) \<in> R\<^sup>+ \<Longrightarrow> (f a, f b) \<in> (map_prod f f ` R)\<^sup>+"
proof (induction rule: trancl_induct)
  case (base b)
  then show ?case by (intro r_into_trancl) (force simp: image_iff)
next
  case (step b c)
  then have "(f b, f c) \<in> map_prod f f ` R" by (force simp: image_iff)
  then show ?case using step.IH by (rule trancl_into_trancl [rotated])
qed

lemma acyclic_mapD: "acyclic (map_prod f f ` R) \<Longrightarrow> acyclic R"
  unfolding acyclic_def using trancl_map_prod by fastforce

lemma acyclic_map_inj:
  assumes "acyclic R" "R \<subseteq> A \<times> A" "inj_on f A"
  shows "acyclic (map_prod f f ` R)"
proof (rule acyclic_mapD [of "inv_into A f"])
  have inverse: "map_prod (inv_into A f) (inv_into A f) (map_prod f f x) = x" if "x \<in> R" for x
    using that assms(2,3) by (cases x) (auto simp: inv_into_f_f)
  have "map_prod (inv_into A f) (inv_into A f) ` map_prod f f ` R =
      (\<lambda>x. map_prod (inv_into A f) (inv_into A f) (map_prod f f x)) ` R"
    by (rule image_image)
  also have "\<dots> = (\<lambda>x. x) ` R" by (rule image_cong [OF refl], rule inverse)
  finally have "map_prod (inv_into A f) (inv_into A f) ` map_prod f f ` R = R" by simp
  then show "acyclic (map_prod (inv_into A f) (inv_into A f) ` map_prod f f ` R)" using assms(1) by simp
qed

lemma acyclic_disjoint_union:
  assumes "acyclic R" "acyclic S" "finite R" "finite S" "Domain R \<inter> Range S = {}"
  shows "acyclic (R \<union> S)"
proof (rule wf_acyclic, rule wf_Un)
  show "wf R" "wf S" using assms by (simp_all add: finite_acyclic_wf)
qed (rule assms(5))

section \<open>The plan machine\<close>

definition links :: "TaskDependency list \<Rightarrow> (uuid \<times> uuid) set" where
  "links xs = (\<lambda>x. (td_PredecessorID x, td_SuccessorID x)) ` set xs"

type_synonym plan = "ProjectTask list \<times> TaskDependency list"

inductive plan_step :: "plan \<Rightarrow> plan \<Rightarrow> bool" where
  edit: "\<lbrakk>\<And>t. pt_ID (f t) = pt_ID t;
     \<And>t. valid_duration (pt_DurationDays t) \<Longrightarrow> valid_duration (pt_DurationDays (f t))\<rbrakk> \<Longrightarrow>
   plan_step (T, D) (List.map f T, D)"
| batch: "\<lbrakk>distinct (List.map pt_ID N); pt_ID ` set N \<inter> pt_ID ` set T = {};
     \<forall>t\<in>set N. valid_duration (pt_DurationDays t); links X \<subseteq> pt_ID ` set N \<times> pt_ID ` set N; acyclic (links X)\<rbrakk> \<Longrightarrow>
   plan_step (T, D) (T @ N, D @ X)"

inductive_cases plan_stepE: "plan_step P Q"

definition plan_ok :: "plan \<Rightarrow> bool" where
  "plan_ok P \<longleftrightarrow> distinct (List.map pt_ID (fst P)) \<and> (\<forall>t\<in>set (fst P). valid_duration (pt_DurationDays t)) \<and>
     links (snd P) \<subseteq> pt_ID ` set (fst P) \<times> pt_ID ` set (fst P) \<and> acyclic (links (snd P))"

lemma finite_links [simp]: "finite (links xs)"
  by (simp add: links_def)

lemma links_append [simp]: "links (xs @ ys) = links xs \<union> links ys"
  by (auto simp: links_def)

lemma plan_step_ok: "plan_step P Q \<Longrightarrow> plan_ok P \<Longrightarrow> plan_ok Q"
proof (induction rule: plan_step.induct)
  case (edit f T D)
  have m: "List.map pt_ID (List.map f T) = List.map pt_ID T" by (simp add: edit.hyps(1))
  have "distinct (List.map pt_ID (List.map f T))" using edit.prems unfolding m by (simp add: plan_ok_def)
  moreover have "pt_ID ` f ` set T = pt_ID ` set T" by (simp add: edit.hyps(1) image_image)
  ultimately show ?case using edit by (auto simp: plan_ok_def)
next
  case (batch N T X D)
  have "links D \<subseteq> pt_ID ` set T \<times> pt_ID ` set T" "acyclic (links D)" using batch.prems by (simp_all add: plan_ok_def)
  then have "Domain (links D) \<inter> Range (links X) = {}" using batch.hyps(2,4) by blast
  then have "acyclic (links D \<union> links X)"
    using batch.hyps(5) \<open>acyclic (links D)\<close> by (simp add: acyclic_disjoint_union)
  then show ?case using batch by (auto simp: plan_ok_def)
qed

lemma plan_steps_ok: "plan_step\<^sup>*\<^sup>* P Q \<Longrightarrow> plan_ok P \<Longrightarrow> plan_ok Q"
  by (induction rule: rtranclp_induct) (auto intro: plan_step_ok)

definition tables :: "'x schedule_db_scheme \<Rightarrow> plan" where
  "tables d = (db_tasks d, db_deps d)"

lemma tables_simps [simp]:
  "tables (d\<lparr>db_audit := a\<rparr>) = tables d" "tables (d\<lparr>db_jobs := j\<rparr>) = tables d"
  "tables (d\<lparr>db_tasks := T\<rparr>) = (T, db_deps d)" "tables (d\<lparr>db_deps := D\<rparr>) = (db_tasks d, D)"
  by (simp_all add: tables_def)

section \<open>The transactions are steps\<close>

lemma Record_tables: "Record e p s = Inr (u, s') \<Longrightarrow> \<not> s_aborted s' \<Longrightarrow> tables (s_db s') = tables (s_db s) \<and> \<not> s_aborted s"
  by (erule Record_Inr) auto

lemma recalc_moves:
  assumes "recalcOnTx ops e took pid org sub s = Inr (r, s')" "\<not> s_aborted s'"
  shows "plan_step (tables (s_db s)) (tables (s_db s'))"
proof -
  obtain res t where r: "r = (res, t)" by (cases r)
  from recalcOnTx_Inr [OF assms(1) [unfolded r] assms(2)] obtain ids rs rows js where
    "s_db s' = s_db s\<lparr>db_tasks := List.map (store_results e ids rs) (db_tasks (s_db s)), db_audit := rows, db_jobs := js\<rparr>"
    by metis
  then show ?thesis using plan_step.edit [of "store_results e ids rs" "db_tasks (s_db s)" "db_deps (s_db s)"]
    by (simp add: tables_def)
qed

lemma edit_task_simps [simp]:
  "pt_ID (edit_task e p t) = pt_ID t" "pt_ProjectID (edit_task e p t) = pt_ProjectID t"
  "pt_WBSCode (edit_task e p t) = pt_WBSCode t"
  "pt_DurationDays (edit_task e p t) = coalesce (up_DurationDays p) (pt_DurationDays t)"
  by (simp_all add: edit_task_def scan_task_def)

lemma edit_moves:
  assumes "UpdateTask_store e p s = Inr (t, s')" "opt_ok valid_duration (up_DurationDays p)"
  shows "plan_step (tables (s_db s)) (tables (s_db s'))"
proof -
  let ?f = "\<lambda>t. if pt_ID t = up_TaskID p \<and> pt_ProjectID t = up_ProjectID p then edit_task e p t else t"
  have "s_db s' = s_db s\<lparr>db_tasks := List.map ?f (db_tasks (s_db s))\<rparr>"
    using UpdateTask_store_Inr [OF assms(1)] by (simp add: update_where_def)
  moreover have "plan_step (db_tasks (s_db s), db_deps (s_db s)) (List.map ?f (db_tasks (s_db s)), db_deps (s_db s))"
    using assms(2) by (intro plan_step.edit) (auto split: option.splits intro: coalesce.cases, cases "up_DurationDays p", auto)
  ultimately show ?thesis by (simp add: tables_def)
qed

lemma max_duration: "valid_duration n \<longleftrightarrow> 1 \<le> n \<and> n \<le> maxTaskDurationDays"
  by (simp add: valid_duration_def minTaskDurationDays_def)

lemma adjust_moves:
  "adjust_loop e pid dry tasks adjs s = Inr (ps, s') \<Longrightarrow> plan_step\<^sup>*\<^sup>* (tables (s_db s)) (tables (s_db s'))"
proof (induction adjs arbitrary: s ps)
  case (Cons adj adjs)
  show ?case
  proof (cases "task_with_id tasks (aj_TaskID adj)")
    case None
    then show ?thesis using Cons by simp
  next
    case (Some t)
    with Cons.prems obtain s1 ps' where
      step: "(if \<not> dry \<and> is_change t adj
         then tbind (UpdateTask_store e (duration_edit (pt_ID t) pid (aj_NewDurationDays adj))) (\<lambda>_. tret ())
         else tret ()) s = Inr ((), s1)"
      and rest: "adjust_loop e pid dry tasks adjs s1 = Inr (ps', s')"
      by (auto simp: tbind_Inr)
    have "plan_step\<^sup>*\<^sup>* (tables (s_db s)) (tables (s_db s1))"
    proof (cases "\<not> dry \<and> is_change t adj")
      case True
      then obtain t' where "UpdateTask_store e (duration_edit (pt_ID t) pid (aj_NewDurationDays adj)) s = Inr (t', s1)"
        using step by (auto simp: tbind_Inr)
      moreover have "opt_ok valid_duration (aj_NewDurationDays adj)"
        using True by (auto simp: is_change_def max_duration split: option.splits)
      ultimately have "plan_step (tables (s_db s)) (tables (s_db s1))"
        using edit_moves [of e "duration_edit (pt_ID t) pid (aj_NewDurationDays adj)" s t' s1]
        by (simp add: duration_edit_def)
      then show ?thesis by (rule r_into_rtranclp)
    qed (use step in \<open>auto split: if_splits\<close>)
    then show ?thesis using Cons.IH [OF rest] by (rule rtranclp_trans)
  qed
qed simp

lemma apply_moves:
  "apply_deltas e pid ds s = Inr (u, s') \<Longrightarrow> \<forall>(t, n)\<in>set ds. valid_duration n \<Longrightarrow>
     plan_step\<^sup>*\<^sup>* (tables (s_db s)) (tables (s_db s'))"
proof (induction ds arbitrary: s)
  case (Cons d ds)
  obtain t n where d: "d = (t, n)" by (cases d)
  from Cons.prems d obtain t' s1 where "UpdateTask_store e (duration_edit (pt_ID t) pid (Some n)) s = Inr (t', s1)"
    and rest: "apply_deltas e pid ds s1 = Inr (u, s')" by (auto simp: tbind_Inr)
  then have "plan_step (tables (s_db s)) (tables (s_db s1))"
    using edit_moves [of e "duration_edit (pt_ID t) pid (Some n)"] Cons.prems(2) d by (simp add: duration_edit_def)
  then show ?case using Cons.IH [OF rest] Cons.prems(2) by (auto intro: converse_rtranclp_into_rtranclp)
qed simp

lemma check_applies_valid: "check_applies tasks seen as = Inr ds \<Longrightarrow> \<forall>(t, n)\<in>set ds. valid_duration n"
proof (induction as arbitrary: seen ds)
  case (Cons a as)
  then obtain t ds' where "check_applies tasks (ap_WBSCode a # seen) as = Inr ds'"
    "ds = (t, ap_NewDurationDays a) # ds'" "valid_duration (ap_NewDurationDays a)"
    by (auto simp: ebind_Inr_iff max_duration split: if_splits option.splits)
  then show ?case using Cons.IH by simp
qed simp

end
