(* ===== verification/Schedule_Ops.thy ===== *)
theory Schedule_Ops
  imports Schedule_Inv Cpm_Float
begin

text \<open>
  The import as one batch step, and the machine of all operations that write the plan: \<open>run_schedule_op\<close> is a
  sequence of plan steps, whatever statements fail and whatever the language model answers.
\<close>

section \<open>A validated batch\<close>

lemma check_task_Inr:
  "check_task pid wbs t = Inr p \<Longrightarrow> tp_ProjectID p = pid \<and> tp_WBSCode p = wbs \<and> valid_duration (tp_DurationDays p)"
  by (auto simp: check_task_def Let_def ebind_Inr_iff)

lemma check_tasks_Inr:
  "check_tasks pid seen ts = Inr ps \<Longrightarrow>
     distinct (List.map tp_WBSCode ps) \<and> set (List.map tp_WBSCode ps) \<inter> set seen = {} \<and>
     (\<forall>p\<in>set ps. tp_ProjectID p = pid \<and> valid_duration (tp_DurationDays p)) \<and> length ps = length ts"
proof (induction ts arbitrary: seen ps)
  case (Cons t ts)
  from Cons.prems obtain p ps' where p: "check_task pid (trim_space (it_WBSCode t)) t = Inr p"
    and rest: "check_tasks pid (trim_space (it_WBSCode t) # seen) ts = Inr ps'" and ps: "ps = p # ps'"
    and fresh: "trim_space (it_WBSCode t) \<notin> set seen"
    by (auto simp: Let_def ebind_Inr_iff split: if_splits)
  show ?case using Cons.IH [OF rest] check_task_Inr [OF p] fresh ps by auto
qed simp

definition row_ok :: "string set \<Rightarrow> depRow \<Rightarrow> bool" where
  "row_ok codes r \<longleftrightarrow> predCode r \<in> codes \<and> succCode r \<in> codes \<and> predCode r \<noteq> succCode r \<and>
     isValidDependencyType (depType r) \<and> minLagDays \<le> lagDays r \<and> lagDays r \<le> maxLagDays"

lemma check_deps_Inr: "check_deps codes seen ds = Inr rows \<Longrightarrow> (\<forall>r\<in>set rows. row_ok (set codes) r) \<and> length rows = length ds"
proof (induction ds arbitrary: seen rows)
  case (Cons d ds)
  from Cons.prems obtain row rows' seen' where "check_deps codes seen' ds = Inr rows'" "rows = row # rows'"
    "row_ok (set codes) row"
    by (auto simp: Let_def ebind_Inr_iff row_ok_def split: if_splits)
  then show ?case using Cons.IH by simp
qed simp

definition code_links :: "depRow list \<Rightarrow> (string \<times> string) set" where
  "code_links rows = (\<lambda>r. (predCode r, succCode r)) ` set rows"

lemma reject_cycles_Inr:
  assumes "gonum ops valid nodes edges" "inj ph" "distinct (List.map tp_WBSCode params)"
    and rows: "\<forall>r\<in>set rows. row_ok (set (List.map tp_WBSCode params)) r"
    and ok: "reject_cycles ops ph params rows = Inr ()"
  shows "acyclic (code_links rows)"
proof (cases "rows = []")
  case True
  then show ?thesis by (simp add: code_links_def acyclic_def)
next
  case False
  let ?ts = "List.map (proposed_task ph) params" and ?ds = "List.map (proposed_dep ph) rows"
  from False ok obtain g where g: "BuildDependencyGraph ops ?ts ?ds = Some g" "DetectCycle ops g = Inr ()"
    by (auto simp: reject_cycles_def split: option.splits)
  have ids: "List.map pt_ID ?ts = List.map ph (List.map tp_WBSCode params)"
    by (simp add: proposed_task_def zero_task_def)
  have dist: "distinct (List.map pt_ID ?ts)"
    unfolding ids using assms(2,3) by (simp add: distinct_map inj_on_subset [OF _ subset_UNIV] del: List.map_map)
  have "acyclic (dep_rel ?ts ?ds)"
    using gonum.DetectCycle_ok [OF assms(1) gonum.build_ok [OF assms(1) dist g(1)] dist] g(2) by (auto split: if_splits)
  moreover have "map_prod ph ph ` code_links rows \<subseteq> dep_rel ?ts ?ds"
  proof
    fix x assume "x \<in> map_prod ph ph ` code_links rows"
    then obtain r where r: "r \<in> set rows" "x = (ph (predCode r), ph (succCode r))" by (auto simp: code_links_def)
    have "ph ` set (List.map tp_WBSCode params) = task_ids ?ts"
      using arg_cong [OF ids, of set] by (simp only: set_map)
    moreover have "predCode r \<in> set (List.map tp_WBSCode params)" "succCode r \<in> set (List.map tp_WBSCode params)"
      using rows r(1) by (simp_all add: row_ok_def)
    ultimately have "ph (predCode r) \<in> task_ids ?ts" "ph (succCode r) \<in> task_ids ?ts" by blast+
    moreover have "\<exists>d\<in>set ?ds. td_PredecessorID d = ph (predCode r) \<and> td_SuccessorID d = ph (succCode r)"
      using r(1) by (intro bexI [of _ "proposed_dep ph r"]) (simp_all add: proposed_dep_def zero_dep_def)
    ultimately show "x \<in> dep_rel ?ts ?ds" using r(2) by (simp add: dep_rel_def)
  qed
  ultimately show ?thesis by (metis acyclic_mapD acyclic_subset)
qed

lemma code_id_task:
  assumes "c \<in> pt_WBSCode ` set out"
  shows "\<exists>t\<in>set out. pt_WBSCode t = c \<and> code_id out c = pt_ID t"
proof -
  from assms have "List.find (\<lambda>t. pt_WBSCode t = c) (rev out) \<noteq> None" by (auto simp: find_None_all)
  then obtain t where "List.find (\<lambda>t. pt_WBSCode t = c) (rev out) = Some t" by blast
  moreover from this have "t \<in> set out" "pt_WBSCode t = c" by (auto dest: find_SomeD)
  ultimately show ?thesis by (auto simp: code_id_def)
qed

lemma map_prod_image_subset: "R \<subseteq> A \<times> A \<Longrightarrow> f ` A \<subseteq> B \<Longrightarrow> map_prod f f ` R \<subseteq> B \<times> B"
proof (rule image_subsetI)
  fix x assume "R \<subseteq> A \<times> A" "f ` A \<subseteq> B" "x \<in> R"
  then show "map_prod f f x \<in> B \<times> B" by (cases x) auto
qed

lemma batch_links_acyclic:
  assumes out: "distinct (List.map pt_ID out)"
    and rows: "\<forall>r\<in>set rows. row_ok (pt_WBSCode ` set out) r" and ac: "acyclic (code_links rows)"
    and xs: "list_all2 (\<lambda>p x. td_ProjectID x = dp_ProjectID p \<and> td_PredecessorID x = dp_PredecessorID p \<and>
        td_SuccessorID x = dp_SuccessorID p \<and> td_DependencyType x = dp_DependencyType p \<and> td_LagDays x = dp_LagDays p)
      (List.map (dependency_params pid out) rows) xs"
  shows "acyclic (links xs) \<and> links xs \<subseteq> pt_ID ` set out \<times> pt_ID ` set out"
proof -
  have eq: "links xs = map_prod (code_id out) (code_id out) ` code_links rows"
    using xs
  proof (induction rows arbitrary: xs)
    case (Cons r rows)
    then obtain x xs' where "xs = x # xs'" "links xs' = map_prod (code_id out) (code_id out) ` code_links rows"
      "td_PredecessorID x = code_id out (predCode r)" "td_SuccessorID x = code_id out (succCode r)"
      by (auto simp: list_all2_Cons1 dependency_params_def)
    then show ?case by (simp add: links_def code_links_def)
  qed (simp add: links_def code_links_def)
  have "inj_on (code_id out) (pt_WBSCode ` set out)"
  proof (rule inj_onI)
    fix c c' assume "c \<in> pt_WBSCode ` set out" "c' \<in> pt_WBSCode ` set out" and eq: "code_id out c = code_id out c'"
    then obtain t t' where "t \<in> set out" "pt_WBSCode t = c" "code_id out c = pt_ID t"
      "t' \<in> set out" "pt_WBSCode t' = c'" "code_id out c' = pt_ID t'"
      by (metis code_id_task)
    then show "c = c'" using eq out by (metis distinct_map inj_onD)
  qed
  moreover have sub: "code_links rows \<subseteq> pt_WBSCode ` set out \<times> pt_WBSCode ` set out"
    using rows by (auto simp: code_links_def row_ok_def)
  ultimately have "acyclic (links xs)" using acyclic_map_inj [OF ac sub] eq by simp
  moreover have "code_id out ` pt_WBSCode ` set out \<subseteq> pt_ID ` set out"
    using code_id_task by (metis (no_types, lifting) image_eqI image_subsetI)
  then have "map_prod (code_id out) (code_id out) ` code_links rows \<subseteq> pt_ID ` set out \<times> pt_ID ` set out"
    by (rule map_prod_image_subset [OF sub])
  ultimately show ?thesis using eq by simp
qed

section \<open>Every operation is a sequence of plan steps\<close>

lemma validate_import_Inr:
  assumes "gonum ops valid nodes edges" "inj ph" "validate_import ops ph pid org inp = Inr (params, rows)"
  shows "org \<noteq> uuid_nil \<and> params \<noteq> [] \<and> distinct (List.map tp_WBSCode params) \<and>
    (\<forall>p\<in>set params. tp_ProjectID p = pid \<and> valid_duration (tp_DurationDays p)) \<and>
    (\<forall>r\<in>set rows. row_ok (set (List.map tp_WBSCode params)) r) \<and> acyclic (code_links rows)"
proof -
  from assms(3) have v: "org \<noteq> uuid_nil" "is_Tasks inp \<noteq> []" "check_tasks pid [] (is_Tasks inp) = Inr params"
    "check_deps (List.map tp_WBSCode params) [] (is_Dependencies inp) = Inr rows" "reject_cycles ops ph params rows = Inr ()"
    by (auto simp: validate_import_def ebind_Inr_iff)
  note t = check_tasks_Inr [OF v(3)] and r = check_deps_Inr [OF v(4)]
  have "acyclic (code_links rows)" using reject_cycles_Inr [OF assms(1,2) _ _ v(5)] t r by blast
  then show ?thesis using v(1,2) t r by auto
qed

lemma insert_batch:
  assumes ins: "InsertTasks e params s = Inr (out, s1)"
    and deps: "InsertDependencies e (List.map (dependency_params pid out) rows) s1 = Inr ((), s2)"
    and params: "\<forall>p\<in>set params. tp_ProjectID p = pid \<and> valid_duration (tp_DurationDays p)"
    and rows: "\<forall>r\<in>set rows. row_ok (set (List.map tp_WBSCode params)) r" and ac: "acyclic (code_links rows)"
  obtains xs where "s_db s2 = s_db s\<lparr>db_tasks := db_tasks (s_db s) @ out, db_deps := db_deps (s_db s) @ xs\<rparr>"
    "plan_step (tables (s_db s)) (tables (s_db s2))"
    "\<forall>t\<in>set out. pt_ProjectID t = pid \<and> \<not> pt_IsCritical t" "\<forall>x\<in>set xs. td_ProjectID x = pid"
    "List.map pt_WBSCode out = List.map tp_WBSCode params" "s_aborted s2 = s_aborted s"
proof -
  note it = InsertTasks_Inr [OF ins]
  from InsertDependencies_Inr [OF deps] obtain xs where xs: "s_db s2 = s_db s1\<lparr>db_deps := db_deps (s_db s1) @ xs\<rparr>"
    "s_aborted s2 = s_aborted s1"
    "list_all2 (\<lambda>p x. td_ProjectID x = dp_ProjectID p \<and> td_PredecessorID x = dp_PredecessorID p \<and>
        td_SuccessorID x = dp_SuccessorID p \<and> td_DependencyType x = dp_DependencyType p \<and> td_LagDays x = dp_LagDays p)
      (List.map (dependency_params pid out) rows) xs" by blast
  have all2: "list_all2 (\<lambda>p t. pt_WBSCode t = tp_WBSCode p \<and> pt_ProjectID t = tp_ProjectID p \<and>
      pt_DurationDays t = tp_DurationDays p \<and> \<not> pt_IsCritical t) params out" using it by blast
  then have codes: "List.map pt_WBSCode out = List.map tp_WBSCode params"
    by (induction rule: list_all2_induct) auto
  have each: "\<forall>t\<in>set out. pt_ProjectID t = pid \<and> \<not> pt_IsCritical t \<and> valid_duration (pt_DurationDays t)"
    using all2 params by (induction rule: list_all2_induct) auto
  have "pt_WBSCode ` set out = set (List.map tp_WBSCode params)" using arg_cong [OF codes, of set] by simp
  then have links: "acyclic (links xs) \<and> links xs \<subseteq> pt_ID ` set out \<times> pt_ID ` set out"
    using batch_links_acyclic [OF _ _ ac xs(3)] it rows by metis
  have db: "s_db s2 = s_db s\<lparr>db_tasks := db_tasks (s_db s) @ out, db_deps := db_deps (s_db s) @ xs\<rparr>"
    using it xs(1) by simp
  have "plan_step (db_tasks (s_db s), db_deps (s_db s)) (db_tasks (s_db s) @ out, db_deps (s_db s) @ xs)"
    using it each links by (intro plan_step.batch) auto
  moreover have "\<forall>x\<in>set xs. td_ProjectID x = pid"
    using xs(3) by (auto simp: list_all2_conv_all_nth in_set_conv_nth dependency_params_def)
  ultimately show thesis using that [OF db] each codes xs(2) it by (simp add: db tables_def)
qed

lemma import_moves:
  assumes run: "import_body ops e took pid org sub recalculate params rows s = Inr (r, s')" and ok: "\<not> s_aborted s'"
    and params: "\<forall>p\<in>set params. tp_ProjectID p = pid \<and> valid_duration (tp_DurationDays p)"
    and rows: "\<forall>r\<in>set rows. row_ok (set (List.map tp_WBSCode params)) r" and ac: "acyclic (code_links rows)"
  shows "plan_step\<^sup>*\<^sup>* (tables (s_db s)) (tables (s_db s'))"
proof -
  from run obtain out s1 s2 s3 where ins: "InsertTasks e params s = Inr (out, s1)"
    and deps: "InsertDependencies e (List.map (dependency_params pid out) rows) s1 = Inr ((), s2)"
    and rcd: "Record e (imported_entry org sub pid (length out) (length rows) recalculate) s2 = Inr ((), s3)"
    and rest: "s' = s3 \<or> (\<exists>x. recalcOnTx ops e took pid org sub s3 = Inr (x, s'))"
    by (auto simp: import_body_def tbind_Inr VerifyProjectInOrg_def select_all_Inr GetProjectTasks_def split: if_splits prod.splits)
  have b: "plan_step (tables (s_db s)) (tables (s_db s2))" by (rule insert_batch [OF ins deps params rows ac])
  have "plan_step\<^sup>*\<^sup>* (tables (s_db s3)) (tables (s_db s')) \<and> \<not> s_aborted s3"
    using rest
  proof
    assume "\<exists>x. recalcOnTx ops e took pid org sub s3 = Inr (x, s')"
    then obtain res t where x: "recalcOnTx ops e took pid org sub s3 = Inr ((res, t), s')" by auto
    then have "\<not> s_aborted s3" by (rule recalcOnTx_Inr [OF _ ok])
    then show ?thesis using recalc_moves [OF x ok] by blast
  qed (use ok in simp)
  then show ?thesis using Record_tables [OF rcd] b by (metis converse_rtranclp_into_rtranclp)
qed

end
