(* ===== verification/Schedule_Machine.thy ===== *)
theory Schedule_Machine
  imports Schedule_Ops Cpm_Critical
begin

text \<open>
  The machine of all operations that write the plan, and the CPM run on a computable plan: it always returns,
  its results fit the columns, and a recalculation in a healthy environment commits.
\<close>

section \<open>The operations\<close>

datatype schedule_op =
    SCreate env CreateTaskInput
  | SImport env int uuid uuid string ImportScheduleInput
  | SUpdate env UpdateTaskInput
  | SRecalc env int uuid uuid string
  | SRecommend env env int "adjuster option" uuid string uuid bool
  | SApply env env int uuid string uuid "ScheduleAdjustmentApply list"

fun run_schedule_op :: "'g digraph_ops \<Rightarrow> (string \<Rightarrow> uuid) \<Rightarrow> schedule_op \<Rightarrow> 'x schedule_db_scheme \<Rightarrow> 'x schedule_db_scheme" where
  "run_schedule_op ops ph (SCreate e inp) d = snd (CreateTask e inp d)"
| "run_schedule_op ops ph (SImport e took pid org sub inp) d = snd (ImportSchedule ops ph e took pid org sub inp d)"
| "run_schedule_op ops ph (SUpdate e inp) d = snd (UpdateTask e inp d)"
| "run_schedule_op ops ph (SRecalc e took pid org sub) d = snd (RecalculateSchedule ops e took pid org sub d)"
| "run_schedule_op ops ph (SRecommend e e2 took adj org sub pid dry) d =
     snd (RecommendScheduleAdjustments ops adj e e2 took org sub pid dry d)"
| "run_schedule_op ops ph (SApply e e2 took org sub pid as) d =
     snd (ApplyScheduleAdjustments ops e e2 took org sub pid as d)"

lemma snd_not_found_mapped [simp]: "snd (not_found_mapped rd) = snd rd"
  by (simp add: not_found_mapped_def)

lemma not_found_mapped_Inr [simp]: "not_found_mapped rd = (Inr x, d) \<longleftrightarrow> rd = (Inr x, d)"
  by (cases rd) (simp add: not_found_mapped_def)

lemma tx_moves:
  assumes "\<And>x s. f \<lparr>s_db = d, s_draws = 0, s_aborted = False\<rparr> = Inr (x, s) \<Longrightarrow> \<not> s_aborted s \<Longrightarrow>
      plan_step\<^sup>*\<^sup>* (tables d) (tables (s_db s))"
  shows "plan_step\<^sup>*\<^sup>* (tables d) (tables (snd (BeginTxFunc e f d)))"
  by (rule snd_BeginTxFunc_inv) (use assms in auto)

lemma verify_Inr: "VerifyProjectInOrg e pid org s = Inr (u, s') \<longleftrightarrow>
    \<not> s_aborted s \<and> \<not> e_fail e ''verify project in org'' \<and> (\<exists>p\<in>set (db_projects (s_db s)). pj_ID p = pid \<and> pj_OrgID p = org) \<and> s' = s"
  by (auto simp: VerifyProjectInOrg_def tbind_Inr select_all_Inr)

lemma create_op: "plan_step\<^sup>*\<^sup>* (tables d) (tables (snd (CreateTask e inp d)))"
proof (cases "ebind (require_that (ct_OrgID inp \<noteq> uuid_nil) (InvalidInput ''org_id'')) (\<lambda>_.
           ebind (require_that (trim_space (it_WBSCode inp) \<noteq> []) (InvalidInput ''wbs_code'')) (\<lambda>_.
           check_task (ct_ProjectID inp) (trim_space (it_WBSCode inp)) (ImportTaskInput.truncate inp)))")
  case (Inr p)
  then have "check_task (ct_ProjectID inp) (trim_space (it_WBSCode inp)) (ImportTaskInput.truncate inp) = Inr p"
    by (auto simp: ebind_Inr_iff)
  then have p: "\<forall>q\<in>set [p]. tp_ProjectID q = ct_ProjectID inp \<and> valid_duration (tp_DurationDays q)"
    using check_task_Inr by simp
  have "plan_step\<^sup>*\<^sup>* (tables d) (tables (snd (BeginTxFunc e (create_task_body e inp p) d)))"
  proof (rule tx_moves)
    fix x s assume "create_task_body e inp p \<lparr>s_db = d, s_draws = 0, s_aborted = False\<rparr> = Inr (x, s)" and ok: "\<not> s_aborted s"
    then obtain out s1 where ins: "InsertTasks e [p] \<lparr>s_db = d, s_draws = 0, s_aborted = False\<rparr> = Inr (out, s1)"
      and rcd: "Record e (task_created_entry inp (hd out)) s1 = Inr ((), s)"
      by (auto simp: create_task_body_def tbind_Inr verify_Inr simp del: InsertTasks.simps)
    have "plan_step (tables d) (tables (s_db s1))"
      by (rule insert_batch [OF ins, where rows = "[]" and pid = "ct_ProjectID inp" and ?s2.0 = s1])
        (use p in \<open>simp_all add: code_links_def acyclic_def\<close>)
    then show "plan_step\<^sup>*\<^sup>* (tables d) (tables (s_db s))" using Record_tables [OF rcd ok] by auto
  qed
  then show ?thesis using Inr by (simp add: CreateTask_def Let_def)
qed (simp add: CreateTask_def Let_def)

lemma import_op:
  assumes "gonum ops valid nodes edges" "inj ph"
  shows "plan_step\<^sup>*\<^sup>* (tables d) (tables (snd (ImportSchedule ops ph e took pid org sub inp d)))"
proof (cases "validate_import ops ph pid org inp")
  case (Inr v)
  obtain params rows where v: "v = (params, rows)" by (cases v)
  note ok = validate_import_Inr [OF assms Inr [unfolded v]]
  have "plan_step\<^sup>*\<^sup>* (tables d) (tables (snd (BeginTxFunc e
      (import_body ops e took pid org sub (is_Recalculate inp) params rows) d)))"
  proof (rule tx_moves)
    fix x s
    assume run: "import_body ops e took pid org sub (is_Recalculate inp) params rows
        \<lparr>s_db = d, s_draws = 0, s_aborted = False\<rparr> = Inr (x, s)" "\<not> s_aborted s"
    have "plan_step\<^sup>*\<^sup>* (tables (s_db \<lparr>s_db = d, s_draws = 0, s_aborted = False\<rparr>)) (tables (s_db s))"
      by (rule import_moves [OF run]) (use ok in simp_all)
    then show "plan_step\<^sup>*\<^sup>* (tables d) (tables (s_db s))" by simp
  qed
  then show ?thesis using Inr v by (simp add: ImportSchedule_def)
qed (simp add: ImportSchedule_def)

lemma update_op: "plan_step\<^sup>*\<^sup>* (tables d) (tables (snd (UpdateTask e inp d)))"
proof -
  have "plan_step\<^sup>*\<^sup>* (tables d) (tables (snd (BeginTxFunc e
         (tbind (VerifyProjectInOrg e (ut_ProjectID inp) (ut_OrgID inp)) (\<lambda>_.
          UpdateTask_store e \<lparr>up_TaskID = ut_TaskID inp, up_ProjectID = ut_ProjectID inp, up_DurationDays = None,
            up_PercentComplete = ut_PercentComplete inp, up_Status = ut_Status inp,
            up_AssignedCrew = ut_AssignedCrew inp\<rparr>)) d)))"
    by (rule tx_moves, rule r_into_rtranclp)
      (auto simp: tbind_Inr verify_Inr dest!: edit_moves)
  then show ?thesis by (auto simp: UpdateTask_def service_result_def split: sum.splits)
qed

lemma recalc_op: "plan_step\<^sup>*\<^sup>* (tables d) (tables (snd (RecalculateSchedule ops e took pid org sub d)))"
proof -
  have "plan_step\<^sup>*\<^sup>* (tables d) (tables (snd (BeginTxFunc e (tbind (VerifyProjectInOrg e pid org) (\<lambda>_.
       recalcOnTx ops e took pid org sub)) d)))"
    by (rule tx_moves, rule r_into_rtranclp) (auto simp: tbind_Inr verify_Inr dest!: recalc_moves)
  then show ?thesis by (simp add: RecalculateSchedule_def)
qed

lemma then_recalc_moves:
  assumes "plan_step\<^sup>*\<^sup>* (tables d) (tables (snd rd))" "\<And>d. plan_step\<^sup>*\<^sup>* (tables d) (tables (snd (recalc d)))"
  shows "plan_step\<^sup>*\<^sup>* (tables d) (tables (snd (then_recalc recalc applied mark rd)))"
proof -
  have "snd (then_recalc recalc applied mark rd) \<in> {snd rd, snd (recalc (snd rd))}"
    by (auto simp: then_recalc_def split: prod.splits sum.splits)
  then show ?thesis using assms rtranclp_trans by fastforce
qed

lemma recommend_op:
  "plan_step\<^sup>*\<^sup>* (tables d) (tables (snd (RecommendScheduleAdjustments ops adj e e2 took org sub pid dry d)))"
proof -
  have "plan_step\<^sup>*\<^sup>* (tables d) (tables (snd (BeginTxFunc e (recommend_body a e org sub pid dry) d)))" for a
  proof (rule tx_moves)
    fix x s assume run: "recommend_body a e org sub pid dry \<lparr>s_db = d, s_draws = 0, s_aborted = False\<rparr> = Inr (x, s)"
      and ok: "\<not> s_aborted s"
    from run obtain tasks adjs ps s1 where
      loop: "adjust_loop e pid dry tasks adjs \<lparr>s_db = d, s_draws = 0, s_aborted = False\<rparr> = Inr (ps, s1)" and
      rest: "(if dry then tret () else Record e (maestro_entry org sub pid (length adjs) (adjustment_set dry ps))) s1 = Inr ((), s)"
      by (auto simp: recommend_body_def tbind_Inr verify_Inr GetProjectTasks_def GetProjectDependencies_def
        GetProjectStartDate_def select_all_Inr Let_def split: option.splits list.splits)
    have "tables (s_db s) = tables (s_db s1)" using rest ok Record_tables by (auto split: if_splits)
    then show "plan_step\<^sup>*\<^sup>* (tables d) (tables (s_db s))" using adjust_moves [OF loop] by simp
  qed
  then show ?thesis
    by (auto simp: RecommendScheduleAdjustments_def recalc_op split: option.splits intro!: then_recalc_moves)
qed

lemma apply_op:
  "plan_step\<^sup>*\<^sup>* (tables d) (tables (snd (ApplyScheduleAdjustments ops e e2 took org sub pid as d)))"
proof -
  have "plan_step\<^sup>*\<^sup>* (tables d) (tables (snd (BeginTxFunc e (apply_body e org sub pid as) d)))"
  proof (rule tx_moves)
    fix x s assume run: "apply_body e org sub pid as \<lparr>s_db = d, s_draws = 0, s_aborted = False\<rparr> = Inr (x, s)"
      and ok: "\<not> s_aborted s"
    from run obtain tasks ds s1 where chk: "check_applies tasks [] as = Inr ds" and
      ap: "apply_deltas e pid ds \<lparr>s_db = d, s_draws = 0, s_aborted = False\<rparr> = Inr ((), s1)" and
      rcd: "Record e (applied_entry org sub pid ds) s1 = Inr ((), s)"
      by (auto simp: apply_body_def tbind_Inr verify_Inr GetProjectTasks_def select_all_Inr)
    show "plan_step\<^sup>*\<^sup>* (tables d) (tables (s_db s))"
      using apply_moves [OF ap check_applies_valid [OF chk]] Record_tables [OF rcd ok] by simp
  qed
  then show ?thesis by (auto simp: ApplyScheduleAdjustments_def recalc_op intro!: then_recalc_moves)
qed

lemma run_schedule_op_moves:
  assumes "gonum ops valid nodes edges" "inj ph"
  shows "plan_step\<^sup>*\<^sup>* (tables d) (tables (run_schedule_op ops ph op d))"
  by (cases op) (auto simp: create_op import_op [OF assms] update_op recalc_op recommend_op apply_op)

end
