(* ===== verification/Schedule_Run.thy ===== *)
theory Schedule_Run
  imports Schedule_Machine
begin

text \<open>
  The CPM run on a computable plan: it always returns, it covers exactly the project's tasks, and its floats fit the
  INTEGER column. So a recalculation can fail only where a statement or the commit does.
\<close>

section \<open>Floats fit their column\<close>

lemma duration_Hours_bound:
  assumes "0 \<le> d" "d \<le> 2 ^ 63"
  shows "0 \<le> duration_Hours d \<and> duration_Hours d \<le> 2562048"
proof -
  have h: "0 < hour" by (simp add: duration_units)
  have q: "0 \<le> d div hour" "d div hour \<le> 2562047" using assms by (simp_all add: duration_units)
  have r: "0 \<le> d mod hour" "d mod hour \<le> hour" using h by (simp_all add: order_less_imp_le)
  have "f64_of_int (d div hour) = of_int (d div hour)" "f64_of_int (d mod hour) = of_int (d mod hour)"
    "f64_of_int hour = of_int hour"
    using q r by (intro f64_of_int_exact; simp add: duration_units)+
  moreover have "0 \<le> fl (of_int (d mod hour) / of_int hour)" "fl (of_int (d mod hour) / of_int hour) \<le> 1"
    using r h representable_int [of 1] by (auto intro!: fl_nonneg fl_le simp: divide_le_eq)
  moreover have "(of_int (d div hour) :: rat) \<le> 2562047" "(0 :: rat) \<le> of_int (d div hour)"
    using q by (simp_all add: of_int_le_iff [of _ 2562047, simplified])
  ultimately show ?thesis
    unfolding duration_Hours_def quot_nonneg [OF assms(1) h] qrem_nonneg [OF assms(1) h] fadd_def fdiv_def
    using representable_int [of 2562048] by (auto intro!: fl_nonneg fl_le)
qed

lemma total_float_bound: "\<bar>total_float a b\<bar> \<le> 106752"
proof -
  have pos: "\<bar>fdiv (duration_Hours d) 24\<bar> \<le> 106752" if "0 \<le> d" "d \<le> 2 ^ 63" for d
    using duration_Hours_bound [OF that] representable_int [of 106752] unfolding fdiv_def
    by (auto intro!: fl_le simp: fl_nonneg)
  have neg: "fdiv (duration_Hours (- d)) 24 = - fdiv (duration_Hours d) 24" for d
    by (simp add: duration_Hours_minus fdiv_def fl_minus [symmetric])
  have "\<bar>time_sub a b\<bar> \<le> 2 ^ 63" by (auto simp: time_sub_def)
  then show ?thesis unfolding total_float_def
    using pos [of "time_sub a b"] pos [of "- time_sub a b"] neg [of "time_sub a b"] by (cases "0 \<le> time_sub a b") auto
qed

lemma math_round_int: "\<exists>k. math_round x = of_int k \<and> \<bar>of_int k :: rat\<bar> \<le> \<bar>x\<bar> + 1 / 2"
proof (cases "0 \<le> x")
  case True
  have "of_int \<lfloor>x + 1 / 2\<rfloor> \<le> x + 1 / 2" "0 \<le> \<lfloor>x + 1 / 2\<rfloor>" using True by (simp_all add: of_int_floor_le)
  then show ?thesis using True by (intro exI [of _ "\<lfloor>x + 1 / 2\<rfloor>"]) (simp add: math_round_def)
next
  case False
  have ge: "x - 1 / 2 \<le> of_int \<lceil>x - 1 / 2\<rceil>" by (rule le_of_int_ceiling)
  have "\<lceil>x - 1 / 2\<rceil> \<le> 0" using False by (simp add: ceiling_le_iff)
  then have "(of_int \<lceil>x - 1 / 2\<rceil> :: rat) \<le> 0" by (simp only: of_int_le_0_iff)
  then have "\<bar>of_int \<lceil>x - 1 / 2\<rceil> :: rat\<bar> \<le> \<bar>x\<bar> + 1 / 2" using ge False by linarith
  then show ?thesis using False by (intro exI [of _ "\<lceil>x - 1 / 2\<rceil>"]) (simp add: math_round_def)
qed

lemma rounded_float_int4: "int4_ok (int64_of_f64 (math_round (total_float a b)))"
proof -
  obtain k where k: "math_round (total_float a b) = of_int k" "\<bar>of_int k :: rat\<bar> \<le> \<bar>total_float a b\<bar> + 1 / 2"
    using math_round_int by blast
  then have "\<bar>of_int k :: rat\<bar> \<le> 106753" using total_float_bound [of a b] by simp
  then have "\<bar>k\<bar> \<le> 106753" by (metis of_int_abs of_int_le_iff of_int_numeral)
  then have "int64_of_f64 (of_int k) = k" by (intro int64_of_f64_of_int) (simp add: in_int64_def abs_le_iff)
  then show ?thesis using k \<open>\<bar>k\<bar> \<le> 106753\<close> by (simp add: int4_ok_def abs_le_iff)
qed

section \<open>The tasks of a project\<close>

lemma scan_task_simps [simp]:
  "pt_ID (scan_task t) = pt_ID t" "pt_ProjectID (scan_task t) = pt_ProjectID t" "pt_WBSCode (scan_task t) = pt_WBSCode t"
  "pt_DurationDays (scan_task t) = pt_DurationDays t" "pt_IsCritical (scan_task t) = pt_IsCritical t"
  by (simp_all add: scan_task_def)

lemma set_tasks_of: "set (tasks_of d pid) = scan_task ` {t \<in> set (db_tasks d). pt_ProjectID t = pid}"
  by (auto simp: tasks_of_def)

lemma tasks_of_ids: "task_ids (tasks_of d pid) = pt_ID ` {t \<in> set (db_tasks d). pt_ProjectID t = pid}"
  by (simp add: set_tasks_of image_image)

lemma scanned_duration:
  assumes "valid_duration (pt_DurationDays t)"
  shows "getTaskDuration (scan_task t) = Inr (pt_DurationDays t * day24)"
  using assms by (intro getTaskDuration_exact) (auto simp: max_duration maxTaskDurationDays_def scan_task_def)

lemma distinct_sort_key_map: "distinct (List.map f (sort_key k xs)) \<longleftrightarrow> distinct (List.map f xs)"
  by (metis distinct_map distinct_sort set_sort)

lemma tasks_of_distinct:
  assumes "plan_ok (tables d)"
  shows "distinct (List.map pt_ID (tasks_of d pid))"
proof -
  have "distinct (List.map pt_ID (filter (\<lambda>t. pt_ProjectID t = pid) (db_tasks d)))"
    using assms by (simp add: plan_ok_def tables_def distinct_map_filter)
  then show ?thesis by (simp add: tasks_of_def distinct_sort_key_map o_def)
qed

lemma tasks_of_plan:
  assumes ok: "plan_ok (tables d)"
  shows "no_self_dep (tasks_of d pid) (deps_of d pid)" "acyclic (dep_rel (tasks_of d pid) (deps_of d pid))"
    "\<forall>t\<in>set (tasks_of d pid). \<exists>dur. getTaskDuration t = Inr dur"
proof -
  have ac: "acyclic (links (db_deps d))" using ok by (simp add: plan_ok_def tables_def)
  have "td_PredecessorID x \<noteq> td_SuccessorID x" if "x \<in> set (db_deps d)" for x
  proof
    assume "td_PredecessorID x = td_SuccessorID x"
    then have "(td_SuccessorID x, td_SuccessorID x) \<in> links (db_deps d)" using that by (force simp: links_def)
    then show False using ac by (auto simp: acyclic_def)
  qed
  then show "no_self_dep (tasks_of d pid) (deps_of d pid)" by (auto simp: no_self_dep_def list_all_iff deps_of_def)
  have "dep_rel (tasks_of d pid) (deps_of d pid) \<subseteq> links (db_deps d)"
  proof clarify
    fix p s assume "(p, s) \<in> dep_rel (tasks_of d pid) (deps_of d pid)"
    then obtain x where "x \<in> set (db_deps d)" "(p, s) = (td_PredecessorID x, td_SuccessorID x)"
      by (auto simp: dep_rel_def deps_of_def)
    then show "(p, s) \<in> links (db_deps d)" unfolding links_def by (intro image_eqI)
  qed
  then show "acyclic (dep_rel (tasks_of d pid) (deps_of d pid))" using ac acyclic_subset by blast
  show "\<forall>t\<in>set (tasks_of d pid). \<exists>dur. getTaskDuration t = Inr dur"
    using ok scanned_duration by (fastforce simp: set_tasks_of plan_ok_def tables_def)
qed

section \<open>The run\<close>

lemma run_cpm_passes:
  assumes "distinct (List.map pt_ID tasks)" "tasks \<noteq> []"
  shows "run_cpm ops tasks deps start = Inr (cp, s1) \<longleftrightarrow>
    (\<exists>s0. passes ops physics_calendar start Map.empty None tasks deps s0 cp s1)"
  using assms by (auto simp: run_cpm_def passes_def ebind_Inr_iff split: option.splits)

lemma run_cpm_returns:
  assumes "gonum ops valid nodes edges" "plan_ok (tables d)" "tasks_of d pid \<noteq> []"
  shows "\<exists>cp s1. run_cpm ops (tasks_of d pid) (deps_of d pid) start = Inr (cp, s1)"
  unfolding run_cpm_passes [OF tasks_of_distinct [OF assms(2)] assms(3)] physics_calendar_def
  using passes_exist [OF assms(1) std.work_calendar_axioms tasks_of_distinct [OF assms(2)] assms(3) tasks_of_plan [OF assms(2)]]
  by blast

lemma backward_loop_keys: "backward_loop ops g cal cfg e us s = Inr s' \<Longrightarrow> distinct (mkeys s) \<Longrightarrow> distinct (mkeys s')"
  by (induction us arbitrary: s)
    (auto simp: ebind_Inr_iff backward_task_def distinct_mput Let_def split: option.splits if_splits)

lemma forward_loop_keys: "forward_loop ops g st cal m us s = Inr s' \<Longrightarrow> distinct (mkeys s) \<Longrightarrow> distinct (mkeys s')"
  by (induction us arbitrary: s)
    (auto simp: ebind_Inr_iff forward_task_def distinct_mput Let_def split: option.splits if_splits)

lemma run_cpm_keys: "run_cpm ops tasks deps start = Inr (cp, s1) \<Longrightarrow> distinct (mkeys s1)"
  by (auto simp: run_cpm_def ebind_Inr_iff ForwardPass_def BackwardPass_def Let_def split: option.splits if_splits
    dest!: backward_loop_keys dest: forward_loop_keys)

lemma run_cpm_schedule:
  assumes "gonum ops valid nodes edges" "plan_ok (tables d)" "tasks_of d pid \<noteq> []"
    and "run_cpm ops (tasks_of d pid) (deps_of d pid) start = Inr (cp, s1)"
  obtains S0 e where "forward_schedule physics_calendar start Map.empty (tasks_of d pid) (deps_of d pid) S0"
    "backward_schedule physics_calendar DefaultSchedulingConfig e (tasks_of d pid) (deps_of d pid) S0 (mget s1)"
    "greatest e {ts_EarlyFinish q |u q. S0 u = Some q}" "dom (mget s1) = task_ids (tasks_of d pid)" "distinct (mkeys s1)"
proof -
  obtain s0 where "passes ops physics_calendar start Map.empty None (tasks_of d pid) (deps_of d pid) s0 cp s1"
    using run_cpm_passes [OF tasks_of_distinct [OF assms(2)] assms(3)] assms(4) by blast
  then show thesis
  proof (rule passes_correct [OF assms(1)])
    fix e us
    assume p: "forward_schedule physics_calendar start Map.empty (tasks_of d pid) (deps_of d pid) (mget s0)"
      "backward_schedule physics_calendar (config_or_default None) e (tasks_of d pid) (deps_of d pid) (mget s0) (mget s1)"
      "greatest e {ts_EarlyFinish q |u q. mget s0 u = Some q}"
    show thesis
      by (rule that [OF p(1) _ p(3)])
        (use p(2) run_cpm_keys [OF assms(4)] in \<open>simp_all add: config_or_default_def backward_schedule_def\<close>)
  qed
qed

end
