(* ===== verification/Schedule_Props.thy ===== *)
theory Schedule_Props
  imports Schedule_Run Projects_Props
begin

text \<open>
  Properties of the schedule service: the plan stays computable under every operation, a recalculation therefore
  always commits in a healthy environment, what it stores is the schedule of the CPM theories, and it
  enqueues a delay cascade exactly when the critical set changed.
\<close>

text \<open>
  C9. Every operation that writes the plan (task creation, import, update, recalculation, the two agent flows with
  any answer of the language model) is a sequence of steps of the plan machine, whatever statements fail.
\<close>

theorem schedule_refines_plan:
  assumes "gonum ops valid nodes edges" "inj ph"
  shows "plan_step\<^sup>*\<^sup>* (tables d) (tables (run_schedule_op ops ph op d))"
  using assms by (rule run_schedule_op_moves)

lemma operations_plan_ok:
  assumes "gonum ops valid nodes edges" "inj ph" "plan_ok (tables d)"
  shows "plan_ok (tables (fold (run_schedule_op ops ph) os d))"
  using assms(3)
proof (induction os arbitrary: d)
  case (Cons op os)
  then have "plan_ok (tables (run_schedule_op ops ph op d))"
    using plan_steps_ok [OF run_schedule_op_moves [OF assms(1,2)]] by blast
  then show ?case using Cons.IH by simp
qed simp

text \<open>
  C8. The plan stays computable: from a database whose tasks have distinct ids and durations of 1 to 36500 days and whose
  dependencies join stored tasks without a cycle, every sequence of operations leads to such a database.
\<close>

theorem plan_stays_computable:
  assumes "gonum ops valid nodes edges" "inj ph" "plan_ok (tables d)"
  shows "plan_ok (tables (fold (run_schedule_op ops ph) os d))"
  using assms by (rule operations_plan_ok)

section \<open>Recalculation commits\<close>

lemma UpdateSchedule_calm:
  "\<not> s_aborted s \<Longrightarrow> \<forall>l. \<not> e_fail e l \<Longrightarrow> \<forall>(u, r)\<in>set rs. int4_ok (sr_TotalFloat r) \<Longrightarrow>
     \<exists>s'. UpdateSchedule e ts rs s = Inr ((), s')"
proof (induction ts arbitrary: s)
  case Nil
  then show ?case by (simp add: tret_def)
next
  case (Cons t ts)
  show ?case
  proof (cases "mget rs (pt_ID t)")
    case None
    then show ?thesis using Cons by (simp add: tbind_def tret_def)
  next
    case (Some r)
    then have "(pt_ID t, r) \<in> set rs" by (auto dest: map_of_SomeD)
    then have "int4_ok (sr_TotalFloat r)" using Cons.prems(3) by blast
    then show ?thesis using Cons Some by (simp add: tbind_def update_exec_def stmt_def)
  qed
qed

lemma results_int4:
  assumes "backward_schedule cal cfg e ts ds S0 (mget s1)" "distinct (mkeys s1)" "(u, r) \<in> set (schedule_results s1)"
  shows "int4_ok (sr_TotalFloat r)"
proof -
  from assms(3) obtain q where q: "(u, q) \<in> set s1" "r = schedule_result q" by (auto simp: schedule_results_def)
  then have m: "mget s1 u = Some q" using assms(2) by simp
  then have "u \<in> task_ids ts" using assms(1) by (auto simp: backward_schedule_def)
  then obtain t where "t \<in> set ts" "pt_ID t = u" by blast
  then obtain q0 ls lf where "mget s1 u = Some (late_schedule cfg q0 ls lf)"
    using assms(1) by (auto simp: backward_schedule_def backward_at_def)
  then have "ts_TotalFloat q = total_float ls (ts_EarlyStart q0)" using m by simp
  then show ?thesis using q(2) rounded_float_int4 by (simp add: schedule_result_def)
qed

lemma recalcOnTx_calm:
  assumes g: "gonum ops valid nodes edges" and ok: "plan_ok (tables (s_db s))" and ne: "tasks_of (s_db s) pid \<noteq> []"
    and calm: "\<not> s_aborted s" "\<forall>l. \<not> e_fail e l"
    and proj: "p \<in> set (db_projects (s_db s))" "pj_ID p = pid" and org: "org \<in> set (db_orgs (s_db s))"
    and fresh: "e_uuid e (s_draws s) \<notin> al_ID ` set (db_audit (s_db s))"
  shows "\<exists>res s'. recalcOnTx ops e took pid org sub s = Inr ((res, took), s') \<and> \<not> s_aborted s'"
proof -
  let ?tasks = "tasks_of (s_db s) pid" and ?deps = "deps_of (s_db s) pid"
  obtain p' ps where first: "filter (\<lambda>p. pj_ID p = pid) (db_projects (s_db s)) = p' # ps"
    using proj by (cases "filter (\<lambda>p. pj_ID p = pid) (db_projects (s_db s))") (auto simp: filter_empty_conv)
  obtain cp s1 where run: "run_cpm ops ?tasks ?deps (start_date p') = Inr (cp, s1)"
    using run_cpm_returns [OF g ok ne] by blast
  have "\<forall>(u, r)\<in>set (schedule_results s1). int4_ok (sr_TotalFloat r)"
  proof (rule run_cpm_schedule [OF g ok ne run], clarify)
    fix S0 e' u r
    assume "backward_schedule physics_calendar DefaultSchedulingConfig e' ?tasks ?deps S0 (mget s1)"
      "distinct (mkeys s1)" "(u, r) \<in> set (schedule_results s1)"
    then show "int4_ok (sr_TotalFloat r)" by (rule results_int4)
  qed
  then obtain t1 where up: "UpdateSchedule e ?tasks (schedule_results s1) s = Inr ((), t1)"
    using UpdateSchedule_calm [OF calm] by blast
  note t1 = UpdateSchedule_Inr [OF up]
  let ?entry = "recalculated_entry org sub pid took (length ?tasks) (length cp) (latest_finish s1 zero_time True)"
  have "\<exists>rows n. Record e ?entry t1 = Inr ((), t1\<lparr>s_db := s_db t1\<lparr>db_audit := db_audit (s_db t1) @ rows\<rparr>, s_draws := n\<rparr>)"
    by (rule Record_calm) (use calm org fresh in \<open>simp_all add: t1 recalculated_entry_def\<close>)
  then obtain rows n where rcd: "Record e ?entry t1 =
      Inr ((), t1\<lparr>s_db := s_db t1\<lparr>db_audit := db_audit (s_db t1) @ rows\<rparr>, s_draws := n\<rparr>)" by blast
  have "\<not> s_aborted t1" using calm by (simp add: t1)
  show ?thesis
    using calm ne \<open>\<not> s_aborted t1\<close> by (simp add: recalcOnTx_def tbind_def GetProjectTasks_def GetProjectDependencies_def GetProjectStartDate_def
      select_all_def stmt_def tguard_def tret_def tlift_def first run up rcd InsertTx_def Let_def)
qed

lemma recalculation_commits:
  assumes "gonum ops valid nodes edges" "plan_ok (tables d)" "tasks_of d pid \<noteq> []"
    and "p \<in> set (db_projects d)" "pj_ID p = pid" "pj_OrgID p = org" "org \<in> set (db_orgs d)"
    and "healthy e" "e_uuid e 0 \<notin> al_ID ` set (db_audit d)"
  shows "\<exists>res d'. RecalculateSchedule ops e took pid org sub d = (Inr (res, took), d')"
proof -
  let ?s0 = "\<lparr>s_db = d, s_draws = 0, s_aborted = False\<rparr>"
  obtain res s' where run: "recalcOnTx ops e took pid org sub ?s0 = Inr ((res, took), s')" "\<not> s_aborted s'"
    using recalcOnTx_calm [OF assms(1), of ?s0 pid e p org took sub] assms(2-9) by (auto simp: healthy_def)
  let ?body = "tbind (VerifyProjectInOrg e pid org) (\<lambda>_. recalcOnTx ops e took pid org sub)"
  have body: "?body ?s0 = Inr ((res, took), s')"
    unfolding tbind_Inr verify_Inr using run(1) assms(4-8) by (auto simp: healthy_def)
  have "BeginTxFunc e ?body d = (Inr (res, took), s_db s')"
    by (rule BeginTxFunc_calm, rule body) (use run(2) assms(8) in \<open>simp_all add: healthy_def\<close>)
  then show ?thesis by (simp add: RecalculateSchedule_def)
qed

text \<open>
  C6. A recalculation is never stuck: in every database the operations lead to, it commits for every project of the caller
  that has a task, provided no statement and no commit fails and the audit row gets a fresh id. Cycles, self
  dependencies, missing durations, endless calendars and column overflow are impossible.
\<close>

theorem recalculation_never_stuck:
  assumes "gonum ops valid nodes edges" "inj ph" "plan_ok (tables d0)"
    and d: "d = fold (run_schedule_op ops ph) os d0" and "tasks_of d pid \<noteq> []"
    and "p \<in> set (db_projects d)" "pj_ID p = pid" "pj_OrgID p = org" "org \<in> set (db_orgs d)"
    and "healthy e" "e_uuid e 0 \<notin> al_ID ` set (db_audit d)"
  shows "\<exists>res d'. RecalculateSchedule ops e took pid org sub d = (Inr (res, took), d')"
  unfolding d
  by (rule recalculation_commits [OF assms(1) operations_plan_ok [OF assms(1-3)]]) (use assms in simp_all)

section \<open>What a recalculation stores\<close>

lemma RecalculateSchedule_Inr:
  assumes "RecalculateSchedule ops e took pid org sub d = (Inr (res, t), d')"
  obtains p cp sched rows where "tasks_of d pid \<noteq> []" "p \<in> set (db_projects d)" "pj_ID p = pid"
    "run_cpm ops (tasks_of d pid) (deps_of d pid) (start_date p) = Inr (cp, sched)"
    "cr_CriticalPathChanged res = critical_changed (tasks_of d pid) (schedule_results sched)"
    "d' = d\<lparr>db_tasks := List.map (store_results e (task_ids (tasks_of d pid)) (schedule_results sched)) (db_tasks d),
       db_audit := db_audit d @ rows, db_jobs := db_jobs d @ cascade_jobs (cr_CriticalPathChanged res) org pid\<rparr>"
    "org \<noteq> uuid_nil \<and> pid \<noteq> uuid_nil \<longrightarrow> length rows = 1"
proof -
  let ?s0 = "\<lparr>s_db = d, s_draws = 0, s_aborted = False\<rparr>"
  from assms obtain s where run: "recalcOnTx ops e took pid org sub ?s0 = Inr ((res, t), s)" "\<not> s_aborted s" "d' = s_db s"
    by (auto simp: RecalculateSchedule_def BeginTxFunc_Inr tbind_Inr verify_Inr)
  show thesis
  proof (rule recalcOnTx_Inr [OF run(1,2)], goal_cases)
    case (1 p cp sched rows)
    show thesis by (rule that [of p cp sched rows]) (use 1 run(3) in simp_all)
  qed
qed

lemma mget_results: "mget (schedule_results s) u = map_option schedule_result (mget s u)"
  by (induction s) (auto simp: schedule_results_def)

lemma map_fst_results: "List.map fst (schedule_results s) = mkeys s"
  by (induction s) (auto simp: schedule_results_def)

text \<open>A row of the project after the run.\<close>

lemma stored_row:
  assumes "u \<in> task_ids (tasks_of d pid)" "mget s1 u = Some q" "pt_ID t = u"
  shows "store_results e (task_ids (tasks_of d pid)) (schedule_results s1) t = write_result e (schedule_result q) t"
  using assms by (auto simp: store_results_def mget_results)


definition critical_ids :: "'x schedule_db_scheme \<Rightarrow> uuid \<Rightarrow> uuid set" where
  "critical_ids d pid = pt_ID ` {t \<in> set (tasks_of d pid). pt_IsCritical t}"

lemma critical_changed_iff:
  assumes "distinct (List.map pt_ID tasks)" "distinct (List.map fst rs)"
  shows "critical_changed tasks rs \<longleftrightarrow>
    fst ` {x \<in> set rs. sr_IsCritical (snd x)} \<noteq> pt_ID ` {t \<in> set tasks. pt_IsCritical t}"
proof -
  let ?P = "pt_ID ` {t \<in> set tasks. pt_IsCritical t}" and ?N = "fst ` {x \<in> set rs. sr_IsCritical (snd x)}"
  let ?new = "filter (\<lambda>x. sr_IsCritical (snd x)) rs"
  have P: "set (List.map pt_ID (filter pt_IsCritical tasks)) = ?P" "length (filter pt_IsCritical tasks) = card ?P"
    using distinct_card [of "List.map pt_ID (filter pt_IsCritical tasks)"] assms(1) by (simp_all add: distinct_map_filter)
  have N: "set (List.map fst ?new) = ?N" "length ?new = card ?N"
    using distinct_card [of "List.map fst ?new"] assms(2) by (simp_all add: distinct_map_filter)
  have "(\<exists>(u, r)\<in>set ?new. u \<notin> X) \<longleftrightarrow> \<not> fst ` set ?new \<subseteq> X" for X by force
  then have "critical_changed tasks rs \<longleftrightarrow> \<not> ?N \<subseteq> ?P \<or> card ?N \<noteq> card ?P"
    unfolding critical_changed_def Let_def case_prod_unfold P N by simp
  also have "\<dots> \<longleftrightarrow> ?N \<noteq> ?P" using card_subset_eq [of ?P ?N] by auto
  finally show ?thesis .
qed

lemma critical_results:
  "fst ` {x \<in> set (schedule_results s). sr_IsCritical (snd x)} = {u. \<exists>q. (u, q) \<in> set s \<and> ts_IsCritical q}"
proof (intro set_eqI iffI)
  fix u assume "u \<in> {u. \<exists>q. (u, q) \<in> set s \<and> ts_IsCritical q}"
  then obtain q where "(u, q) \<in> set s" "ts_IsCritical q" by blast
  then have "(u, schedule_result q) \<in> {x \<in> set (schedule_results s). sr_IsCritical (snd x)}"
    by (force simp: schedule_results_def schedule_result_def)
  then show "u \<in> fst ` {x \<in> set (schedule_results s). sr_IsCritical (snd x)}" by (metis fst_conv imageI)
qed (auto simp: schedule_results_def schedule_result_def)

text \<open>
  C10. A recalculation enqueues one delay cascade when the set of critical tasks that the database stores for the project
  changed, and none when it did not: the counting comparison of the code is set equality.
\<close>

theorem cascade_iff_critical_set_changed:
  assumes "gonum ops valid nodes edges" "plan_ok (tables d)"
    and run: "RecalculateSchedule ops e took pid org sub d = (Inr (res, t), d')"
  shows "db_jobs d' = db_jobs d @ (if critical_ids d' pid = critical_ids d pid then [] else [DelayCascade org pid]) \<and>
    (cr_CriticalPathChanged res \<longleftrightarrow> critical_ids d' pid \<noteq> critical_ids d pid)"
proof -
  from run obtain p cp s1 where ne: "tasks_of d pid \<noteq> []"
    and cpm: "run_cpm ops (tasks_of d pid) (deps_of d pid) (start_date p) = Inr (cp, s1)"
    and ch: "cr_CriticalPathChanged res = critical_changed (tasks_of d pid) (schedule_results s1)"
    and tasks: "db_tasks d' = List.map (store_results e (task_ids (tasks_of d pid)) (schedule_results s1)) (db_tasks d)"
    and jobs: "db_jobs d' = db_jobs d @ cascade_jobs (cr_CriticalPathChanged res) org pid"
    by (rule RecalculateSchedule_Inr) simp
  obtain dom: "dom (mget s1) = task_ids (tasks_of d pid)" and keys: "distinct (mkeys s1)"
    by (rule run_cpm_schedule [OF assms(1,2) ne cpm])
  have after: "critical_ids d' pid = {u. \<exists>q. mget s1 u = Some q \<and> ts_IsCritical q}"
  proof (intro set_eqI iffI)
    fix u assume "u \<in> critical_ids d' pid"
    then obtain x where x: "x \<in> set (tasks_of d' pid)" "pt_IsCritical x" "pt_ID x = u" unfolding critical_ids_def by blast
    then obtain z where z: "z \<in> set (db_tasks d')" "pt_ProjectID z = pid" "x = scan_task z" unfolding set_tasks_of by blast
    then obtain y where y: "y \<in> set (db_tasks d)" "z = store_results e (task_ids (tasks_of d pid)) (schedule_results s1) y"
      unfolding tasks by auto
    have y': "pt_ProjectID y = pid" "pt_ID y = u"
      "pt_IsCritical (store_results e (task_ids (tasks_of d pid)) (schedule_results s1) y)"
      using x z(2,3) unfolding y(2) by simp_all
    have u: "u \<in> task_ids (tasks_of d pid)" using y(1) y' by (auto simp: tasks_of_ids)
    then obtain q where q: "mget s1 u = Some q" using dom by (metis domD)
    then show "u \<in> {u. \<exists>q. mget s1 u = Some q \<and> ts_IsCritical q}"
      using y'(3) stored_row [OF u q y'(2)] by (simp add: write_result_def schedule_result_def)
  next
    fix u assume "u \<in> {u. \<exists>q. mget s1 u = Some q \<and> ts_IsCritical q}"
    then obtain q where q: "mget s1 u = Some q" "ts_IsCritical q" by blast
    then have u: "u \<in> task_ids (tasks_of d pid)" using dom by blast
    then obtain y where y: "y \<in> set (db_tasks d)" "pt_ProjectID y = pid" "pt_ID y = u" by (auto simp: tasks_of_ids)
    have "pt_IsCritical (store_results e (task_ids (tasks_of d pid)) (schedule_results s1) y)"
      using stored_row [OF u q(1) y(3)] q(2) by (simp add: write_result_def schedule_result_def)
    moreover have "store_results e (task_ids (tasks_of d pid)) (schedule_results s1) y \<in> {x \<in> set (db_tasks d'). pt_ProjectID x = pid}"
      using y tasks by simp
    then have "scan_task (store_results e (task_ids (tasks_of d pid)) (schedule_results s1) y) \<in> set (tasks_of d' pid)"
      unfolding set_tasks_of by (rule imageI)
    ultimately show "u \<in> critical_ids d' pid"
      using y(3) unfolding critical_ids_def by (intro image_eqI [of _ _ "scan_task (store_results e (task_ids (tasks_of d pid)) (schedule_results s1) y)"]) simp_all
  qed
  have in_s1: "(u, q) \<in> set s1 \<longleftrightarrow> mget s1 u = Some q" for u q using keys by (metis map_of_SomeD map_of_is_SomeI)
  have "fst ` {x \<in> set (schedule_results s1). sr_IsCritical (snd x)} = {u. \<exists>q. mget s1 u = Some q \<and> ts_IsCritical q}"
    unfolding in_s1 [symmetric] by (rule critical_results)
  then have "cr_CriticalPathChanged res \<longleftrightarrow> critical_ids d' pid \<noteq> critical_ids d pid"
    unfolding ch after critical_ids_def [of d pid]
    using critical_changed_iff [OF tasks_of_distinct [OF assms(2)], of "schedule_results s1"] keys
    by (simp add: map_fst_results)
  then show ?thesis using jobs by (auto simp: cascade_jobs_def)
qed

section \<open>Errors of an import\<close>

lemma tbind_Inl: "tbind m f s = Inl err \<longleftrightarrow> m s = Inl err \<or> (\<exists>x s'. m s = Inr (x, s') \<and> f x s' = Inl err)"
  by (auto simp: tbind_def split: sum.splits)

lemma tlift_Inl: "tlift r s = Inl err \<longleftrightarrow> r = Inl err"
  by (auto simp: tlift_def split: sum.splits)

lemma tret_Inl: "tret x s \<noteq> Inl err"
  by (simp add: tret_def)

definition statement_error :: "svc_error \<Rightarrow> bool" where
  "statement_error err \<longleftrightarrow> (\<exists>l. err = DbError l \<or> err = UniqueViolation l)"

lemma statement_errors:
  "select_all e l q s = Inl err \<Longrightarrow> statement_error err"
  "update_exec e l upd ok P f s = Inl err \<Longrightarrow> statement_error err"
  "insert_returning e l tab upd' ok' rid U mk s' = Inl err \<Longrightarrow> statement_error err"
  "InsertTx e job s'' = Inl err \<Longrightarrow> statement_error err"
  by (auto simp: select_all_def update_exec_def insert_returning_def InsertTx_def stmt_def statement_error_def Let_def
    split: if_splits)

lemma Record_not_Inl: "Record e p s \<noteq> Inl err"
  using Record_never_fails [of e p s] by auto

lemma InsertTasks_Inl: "InsertTasks e ps s = Inl err \<Longrightarrow> statement_error err"
  by (induction ps arbitrary: s) (auto simp: tbind_Inl tret_def insert_task_def dest: statement_errors)

lemma InsertDependencies_Inl: "InsertDependencies e ps s = Inl err \<Longrightarrow> statement_error err"
  by (induction ps arbitrary: s) (auto simp: tbind_Inl tret_def insert_dependency_def dest: statement_errors)

lemma UpdateSchedule_Inl: "UpdateSchedule e ts rs s = Inl err \<Longrightarrow> statement_error err"
  by (induction ts arbitrary: s) (auto simp: tbind_Inl tret_def dest: statement_errors split: option.splits)

lemma loads:
  "GetProjectTasks e pid s = Inr (ts, s') \<Longrightarrow> ts = tasks_of (s_db s) pid \<and> s' = s"
  "GetProjectDependencies e pid s = Inr (ds, s') \<Longrightarrow> ds = deps_of (s_db s) pid \<and> s' = s"
  "GetProjectStartDate e pid s = Inr (st, s') \<Longrightarrow> s' = s"
  by (auto simp: GetProjectTasks_def GetProjectDependencies_def GetProjectStartDate_def tbind_Inr select_all_Inr
    tfail_def split: list.splits)

lemma load_errors:
  "GetProjectTasks e pid s = Inl err \<Longrightarrow> statement_error err"
  "GetProjectDependencies e pid s = Inl err \<Longrightarrow> statement_error err"
  "GetProjectStartDate e pid s = Inl err \<Longrightarrow> \<exists>p\<in>set (db_projects (s_db s)). pj_ID p = pid \<Longrightarrow> statement_error err"
  by (auto simp: GetProjectTasks_def GetProjectDependencies_def GetProjectStartDate_def tbind_Inl tret_def
    select_all_Inr filter_empty_conv dest: statement_errors split: list.splits)

lemma recalcOnTx_Inl:
  fixes s :: "'x schedule_db_scheme session"
  assumes "gonum ops valid nodes edges" "plan_ok (tables (s_db s))" "tasks_of (s_db s) pid \<noteq> []"
    and proj: "\<exists>p\<in>set (db_projects (s_db s)). pj_ID p = pid"
    and run: "recalcOnTx ops e took pid org sub s = Inl err"
  shows "statement_error err"
proof -
  have cpm: "run_cpm ops (tasks_of (s_db s) pid) (deps_of (s_db s) pid) st \<noteq> Inl err" for st
    using run_cpm_returns [OF assms(1-3), of st] by auto
  from run consider "GetProjectTasks e pid s = Inl err"
    | ts s1 where "GetProjectTasks e pid s = Inr (ts, s1)" "tguard (ts \<noteq> []) (Internal ''no tasks found'') s1 = Inl err"
    | ts s1 where "GetProjectTasks e pid s = Inr (ts, s1)" "GetProjectDependencies e pid s1 = Inl err"
    | ts s1 ds s2 where "GetProjectTasks e pid s = Inr (ts, s1)" "GetProjectDependencies e pid s1 = Inr (ds, s2)"
        "GetProjectStartDate e pid s2 = Inl err"
    | ts s1 ds s2 st s3 where "GetProjectTasks e pid s = Inr (ts, s1)" "GetProjectDependencies e pid s1 = Inr (ds, s2)"
        "GetProjectStartDate e pid s2 = Inr (st, s3)" "run_cpm ops ts ds st = Inl err"
    | ts rs and s4 :: "'x schedule_db_scheme session" where "UpdateSchedule e ts rs s4 = Inl err"
    | s5 :: "'x schedule_db_scheme session" where "InsertTx e (DelayCascade org pid) s5 = Inl err"
    unfolding recalcOnTx_def tbind_Inl Let_def
    by (auto simp: tlift_Inl tret_Inl Record_not_Inl tbind_Inl case_prod_unfold split: if_splits)
  then show ?thesis
    by cases (use proj cpm assms(3) in \<open>auto simp: tguard_def dest: load_errors loads UpdateSchedule_Inl statement_errors\<close>)
qed

lemma check_errors:
  "check_task pid wbs t = Inl err \<Longrightarrow> \<exists>f. err = InvalidInput f"
  "check_tasks pid seen ts = Inl err \<Longrightarrow> \<exists>f. err = InvalidInput f"
  "check_deps codes seen' ds = Inl err \<Longrightarrow> \<exists>f. err = InvalidInput f"
proof -
  show t: "check_task pid wbs t = Inl err \<Longrightarrow> \<exists>f. err = InvalidInput f" for wbs t
    by (auto simp: check_task_def Let_def ebind_Inl_iff)
  show "check_tasks pid seen ts = Inl err \<Longrightarrow> \<exists>f. err = InvalidInput f"
    by (induction ts arbitrary: seen) (auto simp: Let_def ebind_Inl_iff split: if_splits dest: t)
  show "check_deps codes seen' ds = Inl err \<Longrightarrow> \<exists>f. err = InvalidInput f"
    by (induction ds arbitrary: seen') (auto simp: Let_def ebind_Inl_iff split: if_splits)
qed

lemma reject_cycles_Inl:
  assumes g: "gonum ops valid nodes edges" and ph: "inj ph" and dist: "distinct (List.map tp_WBSCode params)"
    and rows: "\<forall>r\<in>set rows. row_ok codes r" and err: "reject_cycles ops ph params rows = Inl err"
  shows "\<exists>f. err = InvalidInput f"
proof -
  let ?ts = "List.map (proposed_task ph) params" and ?ds = "List.map (proposed_dep ph) rows"
  have ids: "List.map pt_ID ?ts = List.map ph (List.map tp_WBSCode params)"
    by (simp add: proposed_task_def zero_task_def)
  have "distinct (List.map pt_ID ?ts)"
    unfolding ids using ph dist by (simp add: distinct_map inj_on_subset [OF _ subset_UNIV] del: List.map_map)
  moreover have "no_self_dep ?ts ?ds"
    using rows ph by (auto simp: no_self_dep_def list_all_iff proposed_dep_def zero_dep_def row_ok_def dest: injD)
  ultimately obtain gr where "BuildDependencyGraph ops ?ts ?ds = Some gr"
    using gonum.build_defined [OF g] by blast
  then show ?thesis using err by (auto simp: reject_cycles_def map_err_Inl split: if_splits)
qed

lemma validate_import_Inl:
  assumes "gonum ops valid nodes edges" "inj ph" "validate_import ops ph pid org inp = Inl err"
  shows "\<exists>f. err = InvalidInput f"
proof -
  from assms(3) consider "\<exists>f. err = InvalidInput f" | "check_tasks pid [] (is_Tasks inp) = Inl err"
    | params :: "InsertTaskParams list" where "check_deps (List.map tp_WBSCode params) [] (is_Dependencies inp) = Inl err"
    | params rows where "check_tasks pid [] (is_Tasks inp) = Inr params"
        "check_deps (List.map tp_WBSCode params) [] (is_Dependencies inp) = Inr rows" "reject_cycles ops ph params rows = Inl err"
    by (auto simp: validate_import_def ebind_Inl_iff)
  then show ?thesis
  proof cases
    case (4 params rows)
    show ?thesis using reject_cycles_Inl [OF assms(1,2) _ _ 4(3)] check_tasks_Inr [OF 4(1)] check_deps_Inr [OF 4(2)] by blast
  qed (auto dest: check_errors)
qed

lemma import_body_Inl:
  fixes s :: "'x schedule_db_scheme session"
  assumes g: "gonum ops valid nodes edges" and ok: "plan_ok (tables (s_db s))"
    and v: "params \<noteq> []" "\<forall>p\<in>set params. tp_ProjectID p = pid \<and> valid_duration (tp_DurationDays p)"
      "\<forall>r\<in>set rows. row_ok (set (List.map tp_WBSCode params)) r" "acyclic (code_links rows)"
    and run: "import_body ops e took pid org sub recalculate params rows s = Inl err"
  shows "statement_error err \<or> err = StoreNotFound"
proof -
  from run consider "VerifyProjectInOrg e pid org s = Inl err" | "InsertTasks e params s = Inl err"
    | out and s1 :: "'x schedule_db_scheme session"
      where "InsertDependencies e (List.map (dependency_params pid out) rows) s1 = Inl err"
    | out s1 s2 s3 where "VerifyProjectInOrg e pid org s = Inr ((), s)" "InsertTasks e params s = Inr (out, s1)"
        "InsertDependencies e (List.map (dependency_params pid out) rows) s1 = Inr ((), s2)"
        "Record e (imported_entry org sub pid (length out) (length rows) recalculate) s2 = Inr ((), s3)"
        "recalcOnTx ops e took pid org sub s3 = Inl err"
    | s4 :: "'x schedule_db_scheme session" where "GetProjectTasks e pid s4 = Inl err"
    unfolding import_body_def tbind_Inl
    by (auto simp: tret_Inl Record_not_Inl tbind_Inl case_prod_unfold verify_Inr split: if_splits)
  then show ?thesis
  proof cases
    case 1
    then show ?thesis
      by (auto simp: VerifyProjectInOrg_def tbind_Inl tguard_def dest: statement_errors split: if_splits)
  next
    case (4 out s1 s2 s3)
    show ?thesis
    proof (cases "s_aborted s3")
      case True
      then have "statement_error err" using 4(5)
        by (auto simp: recalcOnTx_def tbind_def GetProjectTasks_def select_all_def stmt_def statement_error_def)
      then show ?thesis ..
    next
      case False
      obtain xs where b: "s_db s2 = s_db s\<lparr>db_tasks := db_tasks (s_db s) @ out, db_deps := db_deps (s_db s) @ xs\<rparr>"
        "plan_step (tables (s_db s)) (tables (s_db s2))" "\<forall>t\<in>set out. pt_ProjectID t = pid \<and> \<not> pt_IsCritical t"
        "List.map pt_WBSCode out = List.map tp_WBSCode params"
        by (rule insert_batch [OF 4(2,3) v(2-4)])
      obtain new where r: "s_db s3 = s_db s2\<lparr>db_audit := db_audit (s_db s2) @ new\<rparr>"
        by (rule Record_Inr [OF 4(4) False])
      have "plan_ok (tables (s_db s3))" using plan_step_ok [OF b(2) ok] r by simp
      moreover have "out \<noteq> []" using b(4) v(1) by auto
      then have "tasks_of (s_db s3) pid \<noteq> []"
        using r b(1,3) by (auto simp: tasks_of_def filter_empty_conv set_empty [symmetric] simp del: set_empty)
      moreover have "\<exists>p\<in>set (db_projects (s_db s3)). pj_ID p = pid"
        using 4(1) r b(1) by (auto simp: verify_Inr)
      ultimately show ?thesis using recalcOnTx_Inl [OF g _ _ _ 4(5)] by blast
    qed
  qed (auto dest: InsertTasks_Inl InsertDependencies_Inl load_errors)
qed

text \<open>
  C11. The errors of an import are the caller's or the database's: on a computable plan it fails only with an invalid
  input, an unknown project, a failed statement or a failed commit, never with a CPM error and never by
  the panic of a self edge; and a failed import changes nothing.
\<close>

theorem import_errors:
  assumes "gonum ops valid nodes edges" "inj ph" "plan_ok (tables d)"
    and run: "ImportSchedule ops ph e took pid org sub inp d = (Inl err, d')"
  shows "d' = d \<and> (err = NotFound \<or> err = CommitFailed \<or> (\<exists>x. err = InvalidInput x \<or> err = DbError x))"
proof (cases "validate_import ops ph pid org inp")
  case (Inl bad)
  then show ?thesis using run validate_import_Inl [OF assms(1,2) Inl] by (auto simp: ImportSchedule_def)
next
  case (Inr v)
  obtain params rows where v: "v = (params, rows)" by (cases v)
  note ok = validate_import_Inr [OF assms(1,2) Inr [unfolded v]]
  let ?body = "import_body ops e took pid org sub (is_Recalculate inp) params rows"
  let ?s0 = "\<lparr>s_db = d, s_draws = 0, s_aborted = False\<rparr>"
  from run Inr v have tx: "mapped (BeginTxFunc e ?body d) = (Inl err, d')" by (simp add: ImportSchedule_def)
  then obtain raw where raw: "fst (BeginTxFunc e ?body d) = Inl raw" "err = mapStoreError raw"
    by (auto simp: mapped_def map_err_Inl)
  have body: "statement_error x \<or> x = StoreNotFound" if "?body ?s0 = Inl x" for x
    by (rule import_body_Inl [OF assms(1) _ _ _ _ _ that]) (use assms(3) ok in simp_all)
  from raw(1) consider "raw = DbError ''begin''" | "raw = CommitFailed" | "?body ?s0 = Inl raw"
    by (auto simp: BeginTxFunc_def split: if_splits sum.splits)
  then have "statement_error raw \<or> raw = StoreNotFound \<or> raw = CommitFailed"
    by cases (use body in \<open>auto simp: statement_error_def\<close>)
  then show ?thesis using raw(2) mapped_rollback [OF tx] by (auto simp: statement_error_def)
qed

section \<open>A dry run\<close>

lemma dry_loop: "adjust_loop e pid True tasks adjs s = Inr (ps, s') \<Longrightarrow> s' = s"
  by (induction adjs arbitrary: ps) (auto simp: tbind_Inr split: option.splits)

lemma proposals_ok:
  "adjust_loop e pid dry tasks adjs s = Inr (ps, s') \<Longrightarrow>
     \<forall>p\<in>set ps. sp_ProposedChange p \<longrightarrow> (\<exists>n. sp_NewDurationDays p = Some n \<and> valid_duration n \<and> n \<noteq> sp_OldDurationDays p)"
  by (induction adjs arbitrary: s ps)
    (auto simp: tbind_Inr proposal_def is_change_def max_duration split: option.splits if_splits)

lemma dry_not_applied: "adjust_loop e pid True tasks adjs s = Inr (ps, s') \<Longrightarrow> \<forall>p\<in>set ps. \<not> sp_Applied p"
  by (induction adjs arbitrary: ps) (auto simp: tbind_Inr proposal_def split: option.splits)

lemma recommend_dry:
  "recommend_body a e org sub pid True s = Inr (r, s') \<Longrightarrow>
     s' = s \<and> (\<exists>tasks adjs ps. r = adjustment_set True ps \<and> adjust_loop e pid True tasks adjs s = Inr (ps, s))"
  by (auto simp: recommend_body_def tbind_Inr verify_Inr Let_def dest!: loads split: option.splits dest: dry_loop) (metis dry_loop)+

lemma dry_set:
  assumes "adjust_loop e pid True tasks adjs s = Inr (ps, s')"
  shows "sa_AppliedDeltas (adjustment_set True ps) = 0" "sa_Adjustments (adjustment_set True ps) = ps"
  using dry_not_applied [OF assms] by (simp_all add: adjustment_set_def Let_def filter_empty_conv)

text \<open>
  A dry run of the schedule adjuster changes nothing and applies nothing, whatever the model answers, and every
  change it proposes is a duration of 1 to 36500 days that differs from the stored one.
\<close>

theorem dry_run_only_proposes:
  assumes run: "RecommendScheduleAdjustments ops adj e e2 took org sub pid True d = (r, d')"
  shows "d' = d \<and> (\<forall>out err. r = Inr (out, err) \<longrightarrow> err = None \<and> (\<forall>p\<in>set (sa_Adjustments out).
     \<not> sp_Applied p \<and> (sp_ProposedChange p \<longrightarrow>
       (\<exists>n. sp_NewDurationDays p = Some n \<and> valid_duration n \<and> n \<noteq> sp_OldDurationDays p))))"
proof (cases "org = uuid_nil \<or> pid = uuid_nil \<or> adj = None")
  case True
  then show ?thesis using run by (auto simp: RecommendScheduleAdjustments_def split: if_splits)
next
  case False
  then obtain a where a: "adj = Some a" by auto
  let ?tx = "BeginTxFunc e (recommend_body a e org sub pid True) d"
  have eq: "(r, d') = then_recalc (RecalculateSchedule ops e2 took pid org sub) sa_AppliedDeltas
      (\<lambda>r. r\<lparr>sa_CriticalRecomputed := True\<rparr>) (not_found_mapped ?tx)"
    using run False a by (simp add: RecommendScheduleAdjustments_def)
  show ?thesis
  proof (cases "fst ?tx")
    case (Inl bad)
    then have "snd ?tx = d" using BeginTxFunc_Inl [of e _ d bad "snd ?tx"] by (metis prod.collapse)
    then show ?thesis using eq Inl by (simp add: then_recalc_def not_found_mapped_def)
  next
    case (Inr out)
    then have tx: "?tx = (Inr out, snd ?tx)" by (metis prod.collapse)
    then obtain s where s: "recommend_body a e org sub pid True \<lparr>s_db = d, s_draws = 0, s_aborted = False\<rparr> = Inr (out, s)"
      "snd ?tx = s_db s" unfolding BeginTxFunc_Inr by blast
    from recommend_dry [OF s(1)] obtain tasks adjs ps where
      "s = \<lparr>s_db = d, s_draws = 0, s_aborted = False\<rparr>" "out = adjustment_set True ps"
      "adjust_loop e pid True tasks adjs \<lparr>s_db = d, s_draws = 0, s_aborted = False\<rparr> =
         Inr (ps, \<lparr>s_db = d, s_draws = 0, s_aborted = False\<rparr>)" by blast
    then have ps: "snd ?tx = d" "out = adjustment_set True ps" "adjust_loop e pid True tasks adjs
        \<lparr>s_db = d, s_draws = 0, s_aborted = False\<rparr> = Inr (ps, \<lparr>s_db = d, s_draws = 0, s_aborted = False\<rparr>)"
      using s(2) by simp_all
    have "(r, d') = (Inr (out, None), d)"
      using eq tx ps dry_set(1) [OF ps(3)] by (simp add: then_recalc_def not_found_mapped_def)
    then show ?thesis using ps(2) dry_set(2) [OF ps(3)] dry_not_applied [OF ps(3)] proposals_ok [OF ps(3)] by auto
  qed
qed

section \<open>Examples\<close>

definition sample_plan :: schedule_db where
  "sample_plan = \<lparr>db_orgs = [7], db_projects = [sample_project 1], db_audit = [], db_jobs = [],
     db_tasks = [zero_task\<lparr>pt_ID := 100, pt_ProjectID := 1, pt_WBSCode := ''8'', pt_DurationDays := 3\<rparr>,
       zero_task\<lparr>pt_ID := 101, pt_ProjectID := 1, pt_WBSCode := ''9'', pt_DurationDays := 2\<rparr>],
     db_deps = [zero_dep\<lparr>td_ProjectID := 1, td_PredecessorID := 100, td_SuccessorID := 101,
       td_DependencyType := DependencyTypeFS\<rparr>]\<rparr>"

lemma sample_plan_ok: "plan_ok (tables sample_plan)"
proof -
  have "links (db_deps sample_plan) = {(100, 101)}" by (simp add: links_def sample_plan_def zero_dep_def)
  moreover have "acyclic {(100 :: nat, 101)}" by (rule acyclic_insert [THEN iffD2]) (simp add: acyclic_def)
  ultimately show ?thesis
    by (simp add: plan_ok_def tables_def) (simp add: sample_plan_def zero_task_def max_duration maxTaskDurationDays_def)
qed

lemma sample_plan_tasks: "tasks_of sample_plan 1 \<noteq> []"
  by (simp add: tasks_of_def sample_plan_def zero_task_def filter_empty_conv set_empty [symmetric] del: set_empty)

lemma sample_run:
  obtains res d' where "RecalculateSchedule lg_ops calm_env 0 1 7 ''u'' sample_plan = (Inr (res, 0), d')"
  using recalculation_commits [OF lg.gonum_axioms sample_plan_ok sample_plan_tasks, of "sample_project 1" 7 calm_env 0 "''u''"]
  by (auto simp: sample_plan_def sample_project_def healthy_def calm_env_def)

text \<open>An injective naming of codes.\<close>

fun number_of_code :: "string \<Rightarrow> uuid" where
  "number_of_code [] = 0"
| "number_of_code (c # cs) = number_of_code cs * 257 + of_char c + 1"

lemma number_of_code_inj: "inj number_of_code"
proof (rule injI)
  show "number_of_code x = number_of_code y \<Longrightarrow> x = y" for x y
  proof (induction x arbitrary: y)
    case Nil
    then show ?case by (cases y) simp_all
  next
    case (Cons c cs)
    then obtain c' cs' where y: "y = c' # cs'" by (cases y) simp_all
    have b: "(of_char z :: nat) < 257" for z :: char
    proof -
      have "(of_char z :: nat) < 256" by (rule nat_of_char_less_256)
      then show ?thesis by (rule less_trans) simp
    qed
    have "number_of_code cs * 257 + of_char c = number_of_code cs' * 257 + (of_char c' :: nat)"
      using Cons.prems y by simp
    then have "(number_of_code cs * 257 + of_char c) mod 257 = (number_of_code cs' * 257 + (of_char c' :: nat)) mod 257"
      and "(number_of_code cs * 257 + of_char c) div 257 = (number_of_code cs' * 257 + (of_char c' :: nat)) div 257" by simp_all
    then have "(of_char c :: nat) = of_char c'" "number_of_code cs = number_of_code cs'"
      using b [of c] b [of c'] by simp_all
    then show ?case using Cons.IH y by simp
  qed
qed

definition sample_import :: ImportScheduleInput where
  "sample_import = \<lparr>is_Tasks = [], is_Dependencies = [], is_Recalculate = True\<rparr>"

theorem schedule_refines_plan_witness:
  "plan_step\<^sup>*\<^sup>* (tables sample_plan) (tables (run_schedule_op lg_ops number_of_code (SRecalc calm_env 0 1 7 ''u'') sample_plan))"
  by (rule schedule_refines_plan [OF lg.gonum_axioms number_of_code_inj])

theorem plan_stays_computable_witness:
  "plan_ok (tables (fold (run_schedule_op lg_ops number_of_code)
     [SRecalc calm_env 0 1 7 ''u'', SImport calm_env 0 1 7 ''u'' sample_import] sample_plan))"
  by (rule plan_stays_computable [OF lg.gonum_axioms number_of_code_inj sample_plan_ok])

theorem recalculation_never_stuck_witness:
  "\<exists>res d'. RecalculateSchedule lg_ops calm_env 0 1 7 ''u'' sample_plan = (Inr (res, 0), d')"
  by (rule recalculation_never_stuck [OF lg.gonum_axioms number_of_code_inj sample_plan_ok, where os = "[]" and p = "sample_project 1"])
    (simp_all add: sample_plan_tasks [simplified], simp_all add: sample_plan_def sample_project_def healthy_def calm_env_def)


theorem cascade_iff_critical_set_changed_witness:
  "\<exists>res d'. RecalculateSchedule lg_ops calm_env 0 1 7 ''u'' sample_plan = (Inr (res, 0), d') \<and>
     db_jobs d' = (if critical_ids d' 1 = {} then [] else [DelayCascade 7 1])"
proof -
  obtain res d' where run: "RecalculateSchedule lg_ops calm_env 0 1 7 ''u'' sample_plan = (Inr (res, 0), d')" by (rule sample_run)
  have "critical_ids sample_plan 1 = {}" "db_jobs sample_plan = []"
    by (auto simp: critical_ids_def set_tasks_of) (auto simp: sample_plan_def zero_task_def)
  then show ?thesis
    using run cascade_iff_critical_set_changed [OF lg.gonum_axioms sample_plan_ok run] by auto
qed

theorem import_errors_witness:
  "let r = ImportSchedule lg_ops number_of_code calm_env 0 1 7 ''u'' sample_import sample_plan
   in snd r = sample_plan \<and> fst r = Inl (InvalidInput ''tasks'')"
proof -
  have run: "ImportSchedule lg_ops number_of_code calm_env 0 1 7 ''u'' sample_import sample_plan =
      (Inl (InvalidInput ''tasks''), sample_plan)"
    by (simp add: ImportSchedule_def validate_import_def sample_import_def require_that_def uuid_nil_def)
  then show ?thesis using import_errors [OF lg.gonum_axioms number_of_code_inj sample_plan_ok run] by (simp add: Let_def)
qed

definition sample_adjuster :: adjuster where
  "sample_adjuster req = Inr (Some [\<lparr>aj_TaskID = 100, aj_NewDurationDays = Some 5, aj_Rationale = []\<rparr>,
     \<lparr>aj_TaskID = 101, aj_NewDurationDays = Some 40000, aj_Rationale = []\<rparr>])"

theorem dry_run_only_proposes_witness:
  "\<exists>r d'. RecommendScheduleAdjustments lg_ops (Some sample_adjuster) calm_env calm_env 0 7 ''u'' 1 True sample_plan = (r, d') \<and>
     d' = sample_plan"
  using dry_run_only_proposes [of lg_ops "Some sample_adjuster" calm_env calm_env 0 7 "''u''" 1 sample_plan]
  by (metis prod.exhaust)

end
