(* ===== verification/Identity_Db.thy ===== *)
theory Identity_Db
  imports Projects "HOL-Library.List_Lexorder" "HOL-Library.Char_ord"
begin

text \<open>
  The rows of internal/models/setup.go and internal/models/user.go with the tables they live in, and the
  contract that the three kinds of one-time token share: bootstrap, refresh and password-reset tokens are
  rows looked up by a hash, valid until an instant, and spent at most once.
\<close>

section \<open>Onboarding rows\<close>

record CompanyProfile =
  cy_LegalName :: "string option"
  cy_Address :: "string option"
  cy_EIN :: "string option"
  cy_CompanyType :: "string option"
  cy_Region :: "string option"
  cy_OnboardingComplete :: bool
  cy_OnboardingCompletedAt :: "gotime option"

text \<open>A row of \<open>organizations\<close>: the profile columns and what the queries order by.\<close>

record Organization =
  og_ID :: uuid
  og_Profile :: CompanyProfile
  og_CreatedAt :: gotime
  og_UpdatedAt :: gotime

record SetupBootstrapToken =
  bt_ID :: uuid
  bt_OrgID :: uuid
  bt_TokenHash :: string
  bt_IssuedAt :: gotime
  bt_ExpiresAt :: gotime
  bt_RedeemedAt :: "gotime option"
  bt_RedeemedBy :: "uuid option"

record TradeCategory =
  tc_ID :: uuid
  tc_OrgID :: uuid
  tc_Code :: string
  tc_Name :: string
  tc_Description :: "string option"
  tc_IsDefault :: bool
  tc_CreatedAt :: gotime
  tc_UpdatedAt :: gotime

record CostCode =
  cc_ID :: uuid
  cc_OrgID :: uuid
  cc_Code :: string
  cc_Name :: string
  cc_Division :: string
  cc_ParentCode :: "string option"
  cc_IsDefault :: bool
  cc_CreatedAt :: gotime
  cc_UpdatedAt :: gotime

record WorkingCalendar =
  wc_ID :: uuid
  wc_OrgID :: uuid
  wc_Name :: string
  wc_Timezone :: string
  wc_WorkingDaysMask :: int
  wc_DailyWorkMinutes :: int
  wc_IsDefault :: bool
  wc_CreatedAt :: gotime
  wc_UpdatedAt :: gotime

record HolidayOverride =
  ho_ID :: uuid
  ho_CalendarID :: uuid
  ho_OrgID :: uuid
  ho_HolidayDate :: gotime
  ho_Name :: string
  ho_CreatedAt :: gotime

record PermitJurisdiction =
  pe_ID :: uuid
  pe_OrgID :: uuid
  pe_Name :: string
  pe_Region :: "string option"
  pe_PermitTypes :: string
  pe_InspectionChecklist :: string
  pe_Notes :: "string option"
  pe_CreatedAt :: gotime
  pe_UpdatedAt :: gotime

text \<open>The weekday bits of a mask: Monday is bit 0. \<open>WorkingDaysMonFri\<close> is the union of the first five.\<close>

definition WorkingDaysMonFri :: int where
  "WorkingDaysMonFri = 31"

definition weekday_bit :: "int \<Rightarrow> nat" where
  "weekday_bit d = (if d = 1 then 0 else if d = 2 then 1 else if d = 3 then 2 else if d = 4 then 3
     else if d = 5 then 4 else if d = 6 then 5 else if d = 0 then 6 else 0)"

definition calendar_IsWorkingDay :: "WorkingCalendar \<Rightarrow> int \<Rightarrow> bool" where
  "calendar_IsWorkingDay c d \<longleftrightarrow> wc_WorkingDaysMask c div 2 ^ weekday_bit d mod 2 = 1"

definition bootstrap_IsActive :: "SetupBootstrapToken \<Rightarrow> gotime \<Rightarrow> bool" where
  "bootstrap_IsActive t now \<longleftrightarrow> bt_RedeemedAt t = None \<and> now < bt_ExpiresAt t"

section \<open>Identity rows\<close>

record User =
  ur_ID :: uuid
  ur_OrgID :: uuid
  ur_Email :: string
  ur_DisplayName :: string
  ur_Role :: string
  ur_Locale :: string
  ur_OIDCSubject :: "string option"
  ur_PasswordHash :: string
  ur_LastLoginAt :: "gotime option"
  ur_CreatedAt :: gotime
  ur_UpdatedAt :: gotime

record RefreshToken =
  rt_ID :: uuid
  rt_UserID :: uuid
  rt_OrgID :: uuid
  rt_TokenHash :: string
  rt_IssuedAt :: gotime
  rt_ExpiresAt :: gotime
  rt_RevokedAt :: "gotime option"
  rt_LastUsedAt :: "gotime option"

record PasswordResetToken =
  pw_ID :: uuid
  pw_UserID :: uuid
  pw_TokenHash :: string
  pw_IssuedAt :: gotime
  pw_ExpiresAt :: gotime
  pw_RedeemedAt :: "gotime option"

record identity_db = core_db +
  db_organizations :: "Organization list"
  db_bootstrap :: "SetupBootstrapToken list"
  db_trades :: "TradeCategory list"
  db_costs :: "CostCode list"
  db_calendars :: "WorkingCalendar list"
  db_holidays :: "HolidayOverride list"
  db_jurisdictions :: "PermitJurisdiction list"
  db_users :: "User list"
  db_refresh :: "RefreshToken list"
  db_reset :: "PasswordResetToken list"

section \<open>One-time tokens\<close>

text \<open>
  A token table: \<open>tid\<close>, \<open>thash\<close> and \<open>texp\<close> read a row, \<open>spent\<close> says that it was redeemed or revoked. The code
  changes a table in two ways only: it appends an unspent row whose id and hash are new, and it spends
  rows, which keeps their id, hash and expiry.
\<close>

locale one_time_tokens =
  fixes tid :: "'r \<Rightarrow> uuid" and thash :: "'r \<Rightarrow> string" and texp :: "'r \<Rightarrow> gotime" and spent :: "'r \<Rightarrow> bool"
    and spend :: "'p \<Rightarrow> 'r \<Rightarrow> 'r"
  assumes spend_tid: "tid (spend p r) = tid r"
    and spend_thash: "thash (spend p r) = thash r"
    and spend_texp: "texp (spend p r) = texp r"
    and spend_spent: "spent (spend p r)"
begin

inductive token_step :: "'r list \<Rightarrow> 'r list \<Rightarrow> bool" where
  issue: "\<lbrakk>tid r \<notin> tid ` set rows; thash r \<notin> thash ` set rows; \<not> spent r\<rbrakk> \<Longrightarrow> token_step rows (rows @ [r])"
| spend: "token_step rows (update_where (\<lambda>r. P r \<and> \<not> spent r) (spend p) rows)"

definition token_ok :: "'r list \<Rightarrow> bool" where
  "token_ok rows \<longleftrightarrow> distinct (map tid rows) \<and> distinct (map thash rows)"

definition active :: "string \<Rightarrow> gotime \<Rightarrow> 'r \<Rightarrow> bool" where
  "active h now r \<longleftrightarrow> thash r = h \<and> \<not> spent r \<and> texp r > now"

text \<open>The life of one hash: unknown, then unspent, then spent for good.\<close>

definition dead :: "string \<Rightarrow> 'r list \<Rightarrow> bool" where
  "dead h rows \<longleftrightarrow> (\<exists>r\<in>set rows. thash r = h) \<and> (\<forall>r\<in>set rows. thash r = h \<longrightarrow> spent r)"

lemma map_spend: "map tid (update_where P (spend p) rows) = map tid rows"
    "map thash (update_where P (spend p) rows) = map thash rows"
  by (simp_all add: map_update_where spend_tid spend_thash)

lemma token_step_ok: "token_step rows rows' \<Longrightarrow> token_ok rows \<Longrightarrow> token_ok rows'"
  by (induction rule: token_step.induct) (auto simp: token_ok_def map_spend)

lemma token_steps_ok: "token_step\<^sup>*\<^sup>* rows rows' \<Longrightarrow> token_ok rows \<Longrightarrow> token_ok rows'"
  by (induction rule: rtranclp_induct) (auto intro: token_step_ok)

lemma token_step_dead: "token_step rows rows' \<Longrightarrow> dead h rows \<Longrightarrow> dead h rows'"
proof (induction rule: token_step.induct)
  case (issue r rows)
  then have "thash r \<noteq> h" by (auto simp: dead_def)
  then show ?case using issue by (auto simp: dead_def)
next
  case (spend rows P p)
  show ?case unfolding dead_def set_update_where
  proof (intro conjI ballI impI)
    from spend obtain r where "r \<in> set rows" "thash r = h" by (auto simp: dead_def)
    then show "\<exists>r\<in>(\<lambda>r. if P r \<and> \<not> spent r then spend p r else r) ` set rows. thash r = h"
      by (intro bexI [of _ "if P r \<and> \<not> spent r then spend p r else r"]) (auto simp: spend_thash)
  next
    fix r assume "r \<in> (\<lambda>r. if P r \<and> \<not> spent r then spend p r else r) ` set rows" "thash r = h"
    then show "spent r" using spend by (auto simp: dead_def spend_thash spend_spent split: if_splits)
  qed
qed

lemma token_steps_dead: "token_step\<^sup>*\<^sup>* rows rows' \<Longrightarrow> dead h rows \<Longrightarrow> dead h rows'"
  by (induction rule: rtranclp_induct) (auto intro: token_step_dead)

lemma dead_inactive: "dead h rows \<Longrightarrow> List.find (active h now) rows = None"
  by (auto simp: find_None_iff dead_def active_def)

lemma spend_dead:
  assumes "token_ok rows" "r \<in> set rows" "thash r = h"
  shows "dead h (update_where (\<lambda>x. tid x = tid r \<and> \<not> spent x) (spend p) rows)"
proof -
  have only: "x = r" if "x \<in> set rows" "thash x = h" for x
    using assms that by (auto simp: token_ok_def distinct_map inj_on_def)
  show ?thesis unfolding dead_def set_update_where
  proof (intro conjI ballI impI)
    let ?f = "\<lambda>x. if tid x = tid r \<and> \<not> spent x then spend p x else x"
    show "\<exists>x\<in>?f ` set rows. thash x = h"
      by (rule bexI [of _ "?f r"]) (use assms in \<open>auto simp: spend_thash\<close>)
    fix x assume "x \<in> ?f ` set rows" "thash x = h"
    then obtain y where "y \<in> set rows" "x = ?f y" "thash y = h" by (auto simp: spend_thash split: if_splits)
    with only show "spent x" by (auto simp: spend_spent)
  qed
qed

lemma spend_all_dead:
  assumes "r \<in> set rows" "P r" "thash r = h" "token_ok rows"
  shows "dead h (update_where (\<lambda>x. P x \<and> \<not> spent x) (spend p) rows)"
proof -
  have only: "x = r" if "x \<in> set rows" "thash x = h" for x
    using assms that by (auto simp: token_ok_def distinct_map inj_on_def)
  let ?f = "\<lambda>x. if P x \<and> \<not> spent x then spend p x else x"
  show ?thesis unfolding dead_def set_update_where
  proof (intro conjI ballI impI)
    show "\<exists>x\<in>?f ` set rows. thash x = h"
      by (rule bexI [of _ "?f r"]) (use assms in \<open>auto simp: spend_thash\<close>)
    fix x assume "x \<in> ?f ` set rows" "thash x = h"
    then obtain y where "y \<in> set rows" "x = ?f y" "thash y = h" by (auto simp: spend_thash split: if_splits)
    with only assms show "spent x" by (auto simp: spend_spent)
  qed
qed

end

definition redeem_bootstrap :: "gotime \<times> uuid \<Rightarrow> SetupBootstrapToken \<Rightarrow> SetupBootstrapToken" where
  "redeem_bootstrap p t = t\<lparr>bt_RedeemedAt := Some (to_timestamptz (fst p)), bt_RedeemedBy := Some (snd p)\<rparr>"

definition revoke_refresh :: "gotime \<Rightarrow> RefreshToken \<Rightarrow> RefreshToken" where
  "revoke_refresh now t = t\<lparr>rt_RevokedAt := Some (to_timestamptz now)\<rparr>"

definition redeem_reset :: "gotime \<Rightarrow> PasswordResetToken \<Rightarrow> PasswordResetToken" where
  "redeem_reset now t = t\<lparr>pw_RedeemedAt := Some (to_timestamptz now)\<rparr>"

definition bt_redeemed :: "SetupBootstrapToken \<Rightarrow> bool" where
  "bt_redeemed t \<longleftrightarrow> bt_RedeemedAt t \<noteq> None"

definition rt_revoked :: "RefreshToken \<Rightarrow> bool" where
  "rt_revoked t \<longleftrightarrow> rt_RevokedAt t \<noteq> None"

definition pw_redeemed :: "PasswordResetToken \<Rightarrow> bool" where
  "pw_redeemed t \<longleftrightarrow> pw_RedeemedAt t \<noteq> None"

lemma unspent_iff:
  "bt_RedeemedAt t = None \<longleftrightarrow> \<not> bt_redeemed t" "rt_RevokedAt r = None \<longleftrightarrow> \<not> rt_revoked r"
  "pw_RedeemedAt p = None \<longleftrightarrow> \<not> pw_redeemed p"
  by (simp_all add: bt_redeemed_def rt_revoked_def pw_redeemed_def)

interpretation bt: one_time_tokens bt_ID bt_TokenHash bt_ExpiresAt bt_redeemed redeem_bootstrap
  by unfold_locales (simp_all add: redeem_bootstrap_def bt_redeemed_def)

interpretation rt: one_time_tokens rt_ID rt_TokenHash rt_ExpiresAt rt_revoked revoke_refresh
  by unfold_locales (simp_all add: revoke_refresh_def rt_revoked_def)

interpretation pw: one_time_tokens pw_ID pw_TokenHash pw_ExpiresAt pw_redeemed redeem_reset
  by unfold_locales (simp_all add: redeem_reset_def pw_redeemed_def)

end
