(* ===== verification/Json_Text.thy ===== *)
theory Json_Text
  imports Prelude
begin

text \<open>
  \<open>encoding/json.Valid\<close>: the scanner of Go's standard library, a state machine over the bytes of the text with
  the stack of the objects and arrays it is inside of, at most 10000 deep.
\<close>

datatype jstate =
    BeginValue | BeginValueOrEmpty | BeginStringOrEmpty | BeginString | EndValue | EndTop
  | InString | InStringEsc | InStringEscU nat
  | Neg | Digits1 | Digits0 | Dot | Dot0 | Exp | ExpSign | Exp0
  | Lit string

datatype jparse = ObjectKey | ObjectValue | ArrayValue

definition is_json_space :: "char \<Rightarrow> bool" where
  "is_json_space c \<longleftrightarrow> c \<in> {CHR '' '', CHR 0x09, CHR 0x0D, CHR 0x0A}"

definition is_digit :: "char \<Rightarrow> bool" where
  "is_digit c \<longleftrightarrow> c \<in> set ''0123456789''"

definition push_parse :: "jparse \<Rightarrow> jstate \<Rightarrow> jparse list \<Rightarrow> (jstate \<times> jparse list) option" where
  "push_parse p st ps = (if length ps < 10000 then Some (st, p # ps) else None)"

definition pop_parse :: "jparse list \<Rightarrow> (jstate \<times> jparse list) option" where
  "pop_parse ps = Some (if tl ps = [] then EndTop else EndValue, tl ps)"

fun end_value :: "jparse list \<Rightarrow> char \<Rightarrow> (jstate \<times> jparse list) option" where
  "end_value [] c = (if is_json_space c then Some (EndTop, []) else None)"
| "end_value (p # ps) c =
     (if is_json_space c then Some (EndValue, p # ps)
      else case p of
        ObjectKey \<Rightarrow> if c = CHR '':'' then Some (BeginValue, ObjectValue # ps) else None
      | ObjectValue \<Rightarrow> if c = CHR '','' then Some (BeginString, ObjectKey # ps)
          else if c = CHR ''}'' then pop_parse (p # ps) else None
      | ArrayValue \<Rightarrow> if c = CHR '','' then Some (BeginValue, p # ps)
          else if c = CHR '']'' then pop_parse (p # ps) else None)"

definition begin_value :: "jstate \<Rightarrow> jparse list \<Rightarrow> char \<Rightarrow> (jstate \<times> jparse list) option" where
  "begin_value st ps c =
     (if is_json_space c then Some (st, ps)
      else if c = CHR ''{'' then push_parse ObjectKey BeginStringOrEmpty ps
      else if c = CHR ''['' then push_parse ArrayValue BeginValueOrEmpty ps
      else if c = CHR 0x22 then Some (InString, ps)
      else if c = CHR ''-'' then Some (Neg, ps)
      else if c = CHR ''0'' then Some (Digits0, ps)
      else if is_digit c then Some (Digits1, ps)
      else if c = CHR ''t'' then Some (Lit ''rue'', ps)
      else if c = CHR ''f'' then Some (Lit ''alse'', ps)
      else if c = CHR ''n'' then Some (Lit ''ull'', ps)
      else None)"

definition begin_string :: "jstate \<Rightarrow> jparse list \<Rightarrow> char \<Rightarrow> (jstate \<times> jparse list) option" where
  "begin_string st ps c =
     (if is_json_space c then Some (st, ps) else if c = CHR 0x22 then Some (InString, ps) else None)"

definition after_integer :: "jparse list \<Rightarrow> char \<Rightarrow> (jstate \<times> jparse list) option" where
  "after_integer ps c =
     (if c = CHR ''.'' then Some (Dot, ps)
      else if c = CHR ''e'' \<or> c = CHR ''E'' then Some (Exp, ps) else end_value ps c)"

definition exp_digit :: "jparse list \<Rightarrow> char \<Rightarrow> (jstate \<times> jparse list) option" where
  "exp_digit ps c = (if is_digit c then Some (Exp0, ps) else None)"

fun json_step :: "jstate \<times> jparse list \<Rightarrow> char \<Rightarrow> (jstate \<times> jparse list) option" where
  "json_step (BeginValue, ps) c = begin_value BeginValue ps c"
| "json_step (BeginValueOrEmpty, ps) c =
     (if c = CHR '']'' then end_value ps c else if is_json_space c then Some (BeginValueOrEmpty, ps) else begin_value BeginValue ps c)"
| "json_step (BeginStringOrEmpty, ps) c =
     (if c = CHR ''}'' then end_value (ObjectValue # tl ps) c
      else if is_json_space c then Some (BeginStringOrEmpty, ps) else begin_string BeginString ps c)"
| "json_step (BeginString, ps) c = begin_string BeginString ps c"
| "json_step (EndValue, ps) c = end_value ps c"
| "json_step (EndTop, ps) c = (if is_json_space c then Some (EndTop, ps) else None)"
| "json_step (InString, ps) c =
     (if c = CHR 0x22 then Some (EndValue, ps) else if c = CHR 0x5C then Some (InStringEsc, ps)
      else if (of_char c :: nat) < 32 then None else Some (InString, ps))"
| "json_step (InStringEsc, ps) c =
     (if c \<in> set [CHR ''b'', CHR ''f'', CHR ''n'', CHR ''r'', CHR ''t'', CHR 0x5C, CHR ''/'', CHR 0x22] then Some (InString, ps)
      else if c = CHR ''u'' then Some (InStringEscU 4, ps) else None)"
| "json_step (InStringEscU n, ps) c =
     (if c \<in> set ''0123456789abcdefABCDEF'' then Some (if n \<le> 1 then InString else InStringEscU (n - 1), ps) else None)"
| "json_step (Neg, ps) c =
     (if c = CHR ''0'' then Some (Digits0, ps) else if is_digit c then Some (Digits1, ps) else None)"
| "json_step (Digits1, ps) c = (if is_digit c then Some (Digits1, ps) else after_integer ps c)"
| "json_step (Digits0, ps) c = after_integer ps c"
| "json_step (Dot, ps) c = (if is_digit c then Some (Dot0, ps) else None)"
| "json_step (Dot0, ps) c =
     (if is_digit c then Some (Dot0, ps) else if c = CHR ''e'' \<or> c = CHR ''E'' then Some (Exp, ps) else end_value ps c)"
| "json_step (Exp, ps) c = (if c = CHR ''+'' \<or> c = CHR ''-'' then Some (ExpSign, ps) else exp_digit ps c)"
| "json_step (ExpSign, ps) c = exp_digit ps c"
| "json_step (Exp0, ps) c = (if is_digit c then Some (Exp0, ps) else end_value ps c)"
| "json_step (Lit [], ps) c = None"
| "json_step (Lit (x # xs), ps) c =
     (if c = x then Some (if xs = [] then EndValue else Lit xs, ps) else None)"

fun json_scan :: "jstate \<times> jparse list \<Rightarrow> string \<Rightarrow> bool" where
  "json_scan s [] = (fst s = EndTop \<or> (case json_step s (CHR '' '') of Some s' \<Rightarrow> fst s' = EndTop | None \<Rightarrow> False))"
| "json_scan s (c # cs) = (case json_step s c of Some s' \<Rightarrow> json_scan s' cs | None \<Rightarrow> False)"

definition json_valid :: "string \<Rightarrow> bool" where
  "json_valid text = json_scan (BeginValue, []) text"

lemma json_valid_samples:
  "json_valid ''[]''" "json_valid '' [1, -2.5e+3, true, {}] ''" "json_valid (CHR 0x22 # ''a'' @ [CHR 0x22])"
  "\<not> json_valid ''''" "\<not> json_valid ''[1,]''" "\<not> json_valid ''01''" "\<not> json_valid ''{} x''"
  by (simp_all add: json_valid_def begin_value_def begin_string_def is_json_space_def is_digit_def push_parse_def
      pop_parse_def after_integer_def exp_digit_def)

end
