(* ===== verification/Setup_Store.thy ===== *)
theory Setup_Store
  imports Identity_Db Json_Text
begin

text \<open>
  internal/store/setup.go: the queries of the onboarding wizard over the organization's profile, the bootstrap
  tokens, trades, cost codes, calendars, holidays and permit jurisdictions. Text columns sort by byte. A JSONB
  column takes valid JSON only and keeps its text as Postgres prints it, the parameter \<open>jsonb\<close>.
\<close>

section \<open>The company profile\<close>

record UpdateCompanyProfileParams =
  uc_OrgID :: uuid
  uc_LegalName :: "string option"
  uc_Address :: "string option"
  uc_EIN :: "string option"
  uc_CompanyType :: "string option"
  uc_Region :: "string option"

definition patch_profile :: "UpdateCompanyProfileParams \<Rightarrow> CompanyProfile \<Rightarrow> CompanyProfile" where
  "patch_profile p c = c\<lparr>cy_LegalName := coalesce_opt (uc_LegalName p) (cy_LegalName c),
     cy_Address := coalesce_opt (uc_Address p) (cy_Address c), cy_EIN := coalesce_opt (uc_EIN p) (cy_EIN c),
     cy_CompanyType := coalesce_opt (uc_CompanyType p) (cy_CompanyType c),
     cy_Region := coalesce_opt (uc_Region p) (cy_Region c)\<rparr>"

definition UpdateCompanyProfile :: "env \<Rightarrow> UpdateCompanyProfileParams \<Rightarrow> ('x identity_db_scheme, unit) tx" where
  "UpdateCompanyProfile e p = update_found e ''update company profile'' db_organizations db_organizations_update
     (\<lambda>_. True) (\<lambda>row. og_ID row = uc_OrgID p)
     (\<lambda>row. row\<lparr>og_Profile := patch_profile p (og_Profile row), og_UpdatedAt := e_now e\<rparr>)"

definition GetCompanyProfile :: "env \<Rightarrow> uuid \<Rightarrow> ('x identity_db_scheme, CompanyProfile) tx" where
  "GetCompanyProfile e orgID = tbind (select_one e ''get company profile'' db_organizations (\<lambda>row. og_ID row = orgID))
     (\<lambda>row. tret (og_Profile row))"

definition complete_profile :: "gotime \<Rightarrow> CompanyProfile \<Rightarrow> CompanyProfile" where
  "complete_profile now c = c\<lparr>cy_OnboardingComplete := True,
     cy_OnboardingCompletedAt := coalesce_opt (cy_OnboardingCompletedAt c) (Some (to_timestamptz now))\<rparr>"

definition CompleteOnboarding :: "env \<Rightarrow> uuid \<Rightarrow> gotime \<Rightarrow> ('x identity_db_scheme, unit) tx" where
  "CompleteOnboarding e orgID now = update_found e ''complete onboarding'' db_organizations db_organizations_update
     (\<lambda>_. True) (\<lambda>row. og_ID row = orgID)
     (\<lambda>row. row\<lparr>og_Profile := complete_profile now (og_Profile row), og_UpdatedAt := e_now e\<rparr>)"

section \<open>Bootstrap tokens\<close>

record CreateBootstrapTokenParams =
  cb_OrgID :: uuid
  cb_TokenHash :: string
  cb_ExpiresAt :: gotime

definition CreateBootstrapToken :: "env \<Rightarrow> CreateBootstrapTokenParams \<Rightarrow> ('x identity_db_scheme, uuid) tx" where
  "CreateBootstrapToken e p = tbind
     (insert_returning e ''insert bootstrap token'' db_bootstrap db_bootstrap_update
        (\<lambda>d. cb_OrgID p \<in> set (db_orgs d)) bt_ID (\<lambda>t t'. bt_TokenHash t = bt_TokenHash t')
        (\<lambda>_ u. \<lparr>bt_ID = u, bt_OrgID = cb_OrgID p, bt_TokenHash = cb_TokenHash p, bt_IssuedAt = e_now e,
           bt_ExpiresAt = to_timestamptz (cb_ExpiresAt p), bt_RedeemedAt = None, bt_RedeemedBy = None\<rparr>))
     (\<lambda>t. tret (bt_ID t))"

definition GetActiveBootstrapTokenByHash :: "env \<Rightarrow> string \<Rightarrow> gotime \<Rightarrow> ('x identity_db_scheme, SetupBootstrapToken) tx" where
  "GetActiveBootstrapTokenByHash e hash now = select_one e ''get bootstrap token'' db_bootstrap
     (\<lambda>t. bt_TokenHash t = hash \<and> bt_RedeemedAt t = None \<and> bt_ExpiresAt t > to_timestamptz now)"

definition RedeemBootstrapToken_store :: "env \<Rightarrow> uuid \<Rightarrow> uuid \<Rightarrow> gotime \<Rightarrow> ('x identity_db_scheme, unit) tx" where
  "RedeemBootstrapToken_store e tokenID redeemedBy now =
     update_found e ''redeem bootstrap token'' db_bootstrap db_bootstrap_update
       (\<lambda>d. redeemedBy \<in> ur_ID ` set (db_users d))
       (\<lambda>t. bt_ID t = tokenID \<and> bt_RedeemedAt t = None) (redeem_bootstrap (now, redeemedBy))"

section \<open>Trades and cost codes\<close>

record CreateTradeCategoryParams =
  ct_OrgID :: uuid
  ct_Code :: string
  ct_Name :: string
  ct_Description :: "string option"
  ct_IsDefault :: bool

definition CreateTradeCategory :: "env \<Rightarrow> CreateTradeCategoryParams \<Rightarrow> ('x identity_db_scheme, TradeCategory) tx" where
  "CreateTradeCategory e p = insert_returning e ''insert trade category'' db_trades db_trades_update
     (\<lambda>d. ct_OrgID p \<in> set (db_orgs d)) tc_ID (\<lambda>t t'. tc_OrgID t = tc_OrgID t' \<and> tc_Code t = tc_Code t')
     (\<lambda>_ u. \<lparr>tc_ID = u, tc_OrgID = ct_OrgID p, tc_Code = ct_Code p, tc_Name = ct_Name p,
        tc_Description = ct_Description p, tc_IsDefault = ct_IsDefault p, tc_CreatedAt = e_now e, tc_UpdatedAt = e_now e\<rparr>)"

definition ListTradeCategories :: "env \<Rightarrow> uuid \<Rightarrow> ('x identity_db_scheme, TradeCategory list) tx" where
  "ListTradeCategories e orgID = select_all e ''list trade categories''
     (\<lambda>d. order_desc tc_IsDefault (sort_key tc_Name (filter (\<lambda>t. tc_OrgID t = orgID) (db_trades d))))"

record CreateCostCodeParams =
  ck_OrgID :: uuid
  ck_Code :: string
  ck_Name :: string
  ck_Division :: string
  ck_ParentCode :: "string option"
  ck_IsDefault :: bool

definition CreateCostCode_store :: "env \<Rightarrow> CreateCostCodeParams \<Rightarrow> ('x identity_db_scheme, CostCode) tx" where
  "CreateCostCode_store e p = insert_returning e ''insert cost code'' db_costs db_costs_update
     (\<lambda>d. ck_OrgID p \<in> set (db_orgs d)) cc_ID (\<lambda>c c'. cc_OrgID c = cc_OrgID c' \<and> cc_Code c = cc_Code c')
     (\<lambda>_ u. \<lparr>cc_ID = u, cc_OrgID = ck_OrgID p, cc_Code = ck_Code p, cc_Name = ck_Name p, cc_Division = ck_Division p,
        cc_ParentCode = ck_ParentCode p, cc_IsDefault = ck_IsDefault p, cc_CreatedAt = e_now e, cc_UpdatedAt = e_now e\<rparr>)"

definition ListCostCodes :: "env \<Rightarrow> uuid \<Rightarrow> ('x identity_db_scheme, CostCode list) tx" where
  "ListCostCodes e orgID = select_all e ''list cost codes''
     (\<lambda>d. sort_key cc_Code (filter (\<lambda>c. cc_OrgID c = orgID) (db_costs d)))"

section \<open>Calendars, holidays, jurisdictions\<close>

record CreateWorkingCalendarParams =
  cw_OrgID :: uuid
  cw_Name :: string
  cw_Timezone :: string
  cw_WorkingDaysMask :: int
  cw_DailyWorkMinutes :: int
  cw_IsDefault :: bool

text \<open>The two CHECK constraints, and the partial unique index on the organization of a default calendar.\<close>

definition CreateWorkingCalendar :: "env \<Rightarrow> CreateWorkingCalendarParams \<Rightarrow> ('x identity_db_scheme, WorkingCalendar) tx" where
  "CreateWorkingCalendar e p = insert_returning e ''insert working calendar'' db_calendars db_calendars_update
     (\<lambda>d. cw_OrgID p \<in> set (db_orgs d) \<and> 0 \<le> cw_WorkingDaysMask p \<and> cw_WorkingDaysMask p \<le> 127 \<and>
        0 < cw_DailyWorkMinutes p \<and> cw_DailyWorkMinutes p \<le> 1440) wc_ID
     (\<lambda>c c'. wc_IsDefault c \<and> wc_IsDefault c' \<and> wc_OrgID c = wc_OrgID c')
     (\<lambda>_ u. \<lparr>wc_ID = u, wc_OrgID = cw_OrgID p, wc_Name = cw_Name p, wc_Timezone = cw_Timezone p,
        wc_WorkingDaysMask = cw_WorkingDaysMask p, wc_DailyWorkMinutes = cw_DailyWorkMinutes p,
        wc_IsDefault = cw_IsDefault p, wc_CreatedAt = e_now e, wc_UpdatedAt = e_now e\<rparr>)"

definition GetDefaultWorkingCalendar :: "env \<Rightarrow> uuid \<Rightarrow> ('x identity_db_scheme, WorkingCalendar) tx" where
  "GetDefaultWorkingCalendar e orgID = select_one e ''get default working calendar'' db_calendars
     (\<lambda>c. wc_OrgID c = orgID \<and> wc_IsDefault c)"

record CreateHolidayOverrideParams =
  cx_CalendarID :: uuid
  cx_OrgID :: uuid
  cx_HolidayDate :: gotime
  cx_Name :: string

definition CreateHolidayOverride :: "env \<Rightarrow> CreateHolidayOverrideParams \<Rightarrow> ('x identity_db_scheme, HolidayOverride) tx" where
  "CreateHolidayOverride e p = insert_returning e ''insert holiday override'' db_holidays db_holidays_update
     (\<lambda>d. cx_CalendarID p \<in> wc_ID ` set (db_calendars d) \<and> cx_OrgID p \<in> set (db_orgs d)) ho_ID
     (\<lambda>h h'. ho_CalendarID h = ho_CalendarID h' \<and> ho_HolidayDate h = ho_HolidayDate h')
     (\<lambda>_ u. \<lparr>ho_ID = u, ho_CalendarID = cx_CalendarID p, ho_OrgID = cx_OrgID p,
        ho_HolidayDate = to_date (cx_HolidayDate p), ho_Name = cx_Name p, ho_CreatedAt = e_now e\<rparr>)"

definition ListHolidaysForCalendar :: "env \<Rightarrow> uuid \<Rightarrow> ('x identity_db_scheme, HolidayOverride list) tx" where
  "ListHolidaysForCalendar e calendarID = select_all e ''list holiday overrides''
     (\<lambda>d. sort_key ho_HolidayDate (filter (\<lambda>h. ho_CalendarID h = calendarID) (db_holidays d)))"

record CreatePermitJurisdictionParams =
  cj_OrgID :: uuid
  cj_Name :: string
  cj_Region :: "string option"
  cj_PermitTypes :: "string option"
  cj_InspectionChecklist :: "string option"
  cj_Notes :: "string option"

definition CreatePermitJurisdiction :: "(string \<Rightarrow> string) \<Rightarrow> env \<Rightarrow> CreatePermitJurisdictionParams \<Rightarrow>
    ('x identity_db_scheme, PermitJurisdiction) tx" where
  "CreatePermitJurisdiction jsonb e p =
     (let permitTypes = coalesce (cj_PermitTypes p) ''[]''; checklist = coalesce (cj_InspectionChecklist p) ''[]'' in
      insert_returning e ''insert permit jurisdiction'' db_jurisdictions db_jurisdictions_update
        (\<lambda>d. cj_OrgID p \<in> set (db_orgs d) \<and> json_valid permitTypes \<and> json_valid checklist) pe_ID (\<lambda>_ _. False)
        (\<lambda>_ u. \<lparr>pe_ID = u, pe_OrgID = cj_OrgID p, pe_Name = cj_Name p, pe_Region = cj_Region p,
           pe_PermitTypes = jsonb permitTypes, pe_InspectionChecklist = jsonb checklist, pe_Notes = cj_Notes p,
           pe_CreatedAt = e_now e, pe_UpdatedAt = e_now e\<rparr>))"

definition ListPermitJurisdictions :: "env \<Rightarrow> uuid \<Rightarrow> ('x identity_db_scheme, PermitJurisdiction list) tx" where
  "ListPermitJurisdictions e orgID = select_all e ''list permit jurisdictions''
     (\<lambda>d. sort_key pe_Name (filter (\<lambda>j. pe_OrgID j = orgID) (db_jurisdictions d)))"

end
