(* ===== verification/Bytes.thy ===== *)
theory Bytes
  imports Prelude "HOL-Library.Word"
begin

text \<open>
  Byte strings and the encodings of Go's standard library that the identity code uses: \<open>encoding/hex\<close>,
  \<open>encoding/base64\<close> without padding (standard and URL alphabet), \<open>crypto/sha256\<close>, decimal integers as
  \<open>fmt.Sprintf("%d")\<close> prints them. A Go string is the list of its bytes as characters.
\<close>

unbundle bit_operations_syntax

type_synonym byte = "8 word"

definition byte_of_char :: "char \<Rightarrow> byte" where
  "byte_of_char c = of_nat (of_char c)"

definition char_of_byte :: "byte \<Rightarrow> char" where
  "char_of_byte b = char_of (unat b)"

lemma of_char_less: "(of_char c :: nat) < 256"
proof -
  have "(of_char c :: nat) mod 256 = of_char c" by (simp add: of_char_mod_256)
  then show ?thesis by (metis mod_less_divisor zero_less_numeral)
qed

lemma byte_less: "unat (b :: byte) < 256"
  using unsigned_less [of b, where 'a = nat] by simp

lemma byte_of_char_of_byte [simp]: "byte_of_char (char_of_byte b) = b"
proof -
  have "unat b mod 256 = unat b" using byte_less [of b] by simp
  then show ?thesis by (simp add: byte_of_char_def char_of_byte_def)
qed

section \<open>Hexadecimal\<close>

definition hex_digits :: string where
  "hex_digits = ''0123456789abcdef''"

definition hex_encode :: "byte list \<Rightarrow> string" where
  "hex_encode bs = concat (map (\<lambda>b. [hex_digits ! (unat b div 16), hex_digits ! (unat b mod 16)]) bs)"

lemma length_hex_encode: "length (hex_encode bs) = 2 * length bs"
  by (induction bs) (simp_all add: hex_encode_def)

section \<open>SHA-256\<close>

type_synonym word32 = "32 word"

definition sha256_k :: "word32 list" where
  "sha256_k =
    [0x428a2f98, 0x71374491, 0xb5c0fbcf, 0xe9b5dba5, 0x3956c25b, 0x59f111f1, 0x923f82a4, 0xab1c5ed5,
     0xd807aa98, 0x12835b01, 0x243185be, 0x550c7dc3, 0x72be5d74, 0x80deb1fe, 0x9bdc06a7, 0xc19bf174,
     0xe49b69c1, 0xefbe4786, 0x0fc19dc6, 0x240ca1cc, 0x2de92c6f, 0x4a7484aa, 0x5cb0a9dc, 0x76f988da,
     0x983e5152, 0xa831c66d, 0xb00327c8, 0xbf597fc7, 0xc6e00bf3, 0xd5a79147, 0x06ca6351, 0x14292967,
     0x27b70a85, 0x2e1b2138, 0x4d2c6dfc, 0x53380d13, 0x650a7354, 0x766a0abb, 0x81c2c92e, 0x92722c85,
     0xa2bfe8a1, 0xa81a664b, 0xc24b8b70, 0xc76c51a3, 0xd192e819, 0xd6990624, 0xf40e3585, 0x106aa070,
     0x19a4c116, 0x1e376c08, 0x2748774c, 0x34b0bcb5, 0x391c0cb3, 0x4ed8aa4a, 0x5b9cca4f, 0x682e6ff3,
     0x748f82ee, 0x78a5636f, 0x84c87814, 0x8cc70208, 0x90befffa, 0xa4506ceb, 0xbef9a3f7, 0xc67178f2]"

definition sha256_init :: "word32 list" where
  "sha256_init =
    [0x6a09e667, 0xbb67ae85, 0x3c6ef372, 0xa54ff53a, 0x510e527f, 0x9b05688c, 0x1f83d9ab, 0x5be0cd19]"

definition rotr :: "nat \<Rightarrow> word32 \<Rightarrow> word32" where
  "rotr n x = drop_bit n x OR push_bit (32 - n) x"

definition big_endian64 :: "nat \<Rightarrow> byte list" where
  "big_endian64 n = map (\<lambda>k. of_nat (n div 256 ^ k)) (rev [0..<8])"

text \<open>One \<open>0x80\<close> byte, zeros up to 56 modulo 64, the length in bits.\<close>

definition sha256_pad :: "byte list \<Rightarrow> byte list" where
  "sha256_pad bs = bs @ [0x80] @ replicate ((119 - length bs mod 64) mod 64) 0 @ big_endian64 (8 * length bs)"

fun be_words :: "byte list \<Rightarrow> word32 list" where
  "be_words (a # b # c # d # r) =
     (push_bit 24 (ucast a) OR push_bit 16 (ucast b) OR push_bit 8 (ucast c) OR ucast d) # be_words r"
| "be_words _ = []"

definition be_bytes :: "word32 \<Rightarrow> byte list" where
  "be_bytes w = [ucast (drop_bit 24 w), ucast (drop_bit 16 w), ucast (drop_bit 8 w), ucast w]"

fun extend_words :: "nat \<Rightarrow> word32 list \<Rightarrow> word32 list" where
  "extend_words 0 ws = ws"
| "extend_words (Suc n) ws =
     (let t = length ws; v1 = ws ! (t - 2); v2 = ws ! (t - 15);
          t1 = rotr 17 v1 XOR rotr 19 v1 XOR drop_bit 10 v1;
          t2 = rotr 7 v2 XOR rotr 18 v2 XOR drop_bit 3 v2
      in extend_words n (ws @ [t1 + ws ! (t - 7) + t2 + ws ! (t - 16)]))"

fun sha256_round :: "word32 list \<Rightarrow> word32 \<times> word32 \<Rightarrow> word32 list" where
  "sha256_round [a, b, c, d, e, f, g, h] (k, w) =
     (let t1 = h + (rotr 6 e XOR rotr 11 e XOR rotr 25 e) + ((e AND f) XOR (NOT e AND g)) + k + w;
          t2 = (rotr 2 a XOR rotr 13 a XOR rotr 22 a) + ((a AND b) XOR (a AND c) XOR (b AND c))
      in [t1 + t2, a, b, c, d + t1, e, f, g])"
| "sha256_round s _ = s"

definition sha256_block :: "word32 list \<Rightarrow> byte list \<Rightarrow> word32 list" where
  "sha256_block s block =
     map2 (+) s (foldl sha256_round s (zip sha256_k (extend_words 48 (be_words block))))"

function blocks64 :: "byte list \<Rightarrow> byte list list" where
  "blocks64 bs = (if bs = [] then [] else take 64 bs # blocks64 (drop 64 bs))"
  by auto
termination by (relation "measure length") auto

declare blocks64.simps [simp del]

definition Sum256 :: "byte list \<Rightarrow> byte list" where
  "Sum256 bs = concat (map be_bytes (foldl sha256_block sha256_init (blocks64 (sha256_pad bs))))"

lemma length_sha256_round: "length s = 8 \<Longrightarrow> length (sha256_round s kw) = 8"
  by (cases "(s, kw)" rule: sha256_round.cases) (auto simp: Let_def)

lemma length_sha256_block:
  assumes "length s = 8" shows "length (sha256_block s block) = 8"
proof -
  have "length (foldl sha256_round s' kws) = 8" if "length s' = 8" for s' kws
    using that by (induction kws arbitrary: s') (simp_all add: length_sha256_round)
  from this [OF assms] show ?thesis using assms by (simp add: sha256_block_def)
qed

lemma length_Sum256: "length (Sum256 bs) = 32"
proof -
  have "length (foldl sha256_block s bl) = 8" if "length s = 8" for s bl
    using that by (induction bl arbitrary: s) (simp_all add: length_sha256_block)
  then have "length (foldl sha256_block sha256_init (blocks64 (sha256_pad bs))) = 8"
    by (simp add: sha256_init_def)
  then show ?thesis
    by (simp add: Sum256_def length_concat comp_def be_bytes_def sum_list_triv)
qed

section \<open>Base64\<close>

definition std_alphabet :: string where
  "std_alphabet = ''ABCDEFGHIJKLMNOPQRSTUVWXYZabcdefghijklmnopqrstuvwxyz0123456789+/''"

definition url_alphabet :: string where
  "url_alphabet = ''ABCDEFGHIJKLMNOPQRSTUVWXYZabcdefghijklmnopqrstuvwxyz0123456789-_''"

text \<open>\<open>EncodeToString\<close> of \<open>RawStdEncoding\<close> and \<open>RawURLEncoding\<close>, as digits of base 64 and as characters.\<close>

fun b64_digits :: "byte list \<Rightarrow> nat list" where
  "b64_digits (a # b # c # r) =
     (let v = unat a * 65536 + unat b * 256 + unat c
      in v div 262144 # v div 4096 mod 64 # v div 64 mod 64 # v mod 64 # b64_digits r)"
| "b64_digits [a, b] =
     (let v = unat a * 65536 + unat b * 256 in [v div 262144, v div 4096 mod 64, v div 64 mod 64])"
| "b64_digits [a] = (let v = unat a * 65536 in [v div 262144, v div 4096 mod 64])"
| "b64_digits [] = []"

definition b64_encode :: "string \<Rightarrow> byte list \<Rightarrow> string" where
  "b64_encode alphabet bs = map ((!) alphabet) (b64_digits bs)"

text \<open>
  \<open>DecodeString\<close>: line breaks are skipped, any other character outside the alphabet and a lone last digit
  are errors, the unused bits of the last digit are not looked at.
\<close>

fun digit_index :: "string \<Rightarrow> char \<Rightarrow> nat option" where
  "digit_index [] c = None"
| "digit_index (x # xs) c = (if x = c then Some 0 else map_option Suc (digit_index xs c))"

fun digits_of :: "string \<Rightarrow> string \<Rightarrow> nat list option" where
  "digits_of alphabet [] = Some []"
| "digits_of alphabet (c # cs) =
     (case digit_index alphabet c of
        Some d \<Rightarrow> map_option (\<lambda>ds. d # ds) (digits_of alphabet cs)
      | None \<Rightarrow> if c = CHR 0x0A \<or> c = CHR 0x0D then digits_of alphabet cs else None)"

fun b64_bytes :: "nat list \<Rightarrow> byte list option" where
  "b64_bytes (a # b # c # d # r) =
     (let v = a * 262144 + b * 4096 + c * 64 + d
      in map_option (\<lambda>bs. of_nat (v div 65536) # of_nat (v div 256) # of_nat v # bs) (b64_bytes r))"
| "b64_bytes [a, b, c] =
     (let v = a * 262144 + b * 4096 + c * 64 in Some [of_nat (v div 65536), of_nat (v div 256)])"
| "b64_bytes [a, b] = (let v = a * 262144 + b * 4096 in Some [of_nat (v div 65536)])"
| "b64_bytes [a] = None"
| "b64_bytes [] = Some []"

definition b64_decode :: "string \<Rightarrow> string \<Rightarrow> byte list option" where
  "b64_decode alphabet s = Option.bind (digits_of alphabet s) b64_bytes"

lemma digit_index_nth:
  "distinct alphabet \<Longrightarrow> d < length alphabet \<Longrightarrow> digit_index alphabet (alphabet ! d) = Some d"
  by (induction alphabet arbitrary: d) (auto simp: nth_Cons split: nat.splits)

lemma digits_of_map:
  "distinct alphabet \<Longrightarrow> \<forall>d\<in>set ds. d < length alphabet \<Longrightarrow> digits_of alphabet (map ((!) alphabet) ds) = Some ds"
  by (induction ds) (simp_all add: digit_index_nth)

lemma of_nat_byte: "n mod 256 = unat b \<Longrightarrow> (of_nat n :: byte) = b"
  by (simp add: word_unat_eq_iff unat_of_nat)

text \<open>A 24-bit group: its four digits and its three bytes.\<close>

lemma group_digits: "(v :: nat) div 262144 * 262144 + v div 4096 mod 64 * 4096 + v div 64 mod 64 * 64 + v mod 64 = v"
proof -
  have e: "v div 4096 = v div 64 div 64" "v div 262144 = v div 64 div 64 div 64"
    by (simp_all add: div_mult2_eq [symmetric])
  show ?thesis
    unfolding e using div_mult_mod_eq [of v 64] div_mult_mod_eq [of "v div 64" 64] div_mult_mod_eq [of "v div 64 div 64" 64]
    by linarith
qed

lemma div_first: "x < m \<Longrightarrow> (a * m + x) div m = (a :: nat)"
  by (simp add: add.commute)

lemma group_bytes:
  fixes a b c :: byte
  defines "v \<equiv> unat a * 65536 + unat b * 256 + unat c"
  shows "v div 65536 = unat a" "v div 256 mod 256 = unat b" "v mod 256 = unat c" "v div 262144 < 64"
proof -
  have less: "unat a < 256" "unat b < 256" "unat c < 256" by (rule byte_less)+
  have v: "v = unat a * 65536 + (unat b * 256 + unat c)" "v = (unat a * 256 + unat b) * 256 + unat c"
    by (simp_all add: v_def)
  show "v div 65536 = unat a" unfolding v(1) by (rule div_first) (use less in linarith)
  have "v div 256 = unat a * 256 + unat b" unfolding v(2) by (rule div_first) (use less in linarith)
  then show "v div 256 mod 256 = unat b" using less by simp
  show "v mod 256 = unat c" unfolding v(2) using less by (simp only: mod_mult_self3 mod_less)
  have "v < 64 * 262144" using less unfolding v_def by linarith
  then show "v div 262144 < 64" by (simp add: less_mult_imp_div_less)
qed

lemma group_short:
  fixes a b :: byte
  shows "(unat a * 65536 + unat b * 256) mod 64 = 0"
    "(unat a * 65536) div 64 mod 64 = 0" "(unat a * 65536) mod 64 = 0"
proof -
  have "unat a * 65536 + unat b * 256 = (unat a * 1024 + unat b * 4) * 64" "unat a * 65536 = (unat a * 16 * 64) * 64" by simp_all
  then show "(unat a * 65536 + unat b * 256) mod 64 = 0" "(unat a * 65536) div 64 mod 64 = 0" "(unat a * 65536) mod 64 = 0"
    by (simp_all only: mod_mult_self2_is_0 nonzero_mult_div_cancel_right zero_neq_numeral)
qed

lemma b64_bytes_digits: "b64_bytes (b64_digits bs) = Some bs"
proof (induction bs rule: b64_digits.induct)
  case (1 a b c r)
  define v where "v = unat a * 65536 + unat b * 256 + unat c"
  have "v div 65536 mod 256 = unat a" "v div 256 mod 256 = unat b" "v mod 256 = unat c"
    using group_bytes [of a b c] by (simp_all add: v_def)
  then show ?case using 1 [OF v_def] group_digits [of v] by (simp add: Let_def v_def [symmetric] of_nat_byte del: One_nat_def)
next
  case (2 a b)
  define v where "v = unat a * 65536 + unat b * 256"
  have "v div 65536 mod 256 = unat a" "v div 256 mod 256 = unat b" "v mod 64 = 0"
    using group_bytes [of a b 0] group_short(1) [of a b] by (simp_all add: v_def)
  then show ?case using group_digits [of v] by (simp add: Let_def v_def [symmetric] of_nat_byte)
next
  case (3 a)
  define v where "v = unat a * 65536"
  have "v div 65536 mod 256 = unat a" "v div 64 mod 64 = 0" "v mod 64 = 0"
    using group_bytes [of a 0 0] group_short(2,3) [of a] by (simp_all add: v_def)
  then show ?case using group_digits [of v] by (simp add: Let_def v_def [symmetric] of_nat_byte)
qed simp

lemma b64_digits_less: "\<forall>d\<in>set (b64_digits bs). d < 64"
proof (induction bs rule: b64_digits.induct)
  case (1 a b c r)
  then show ?case using group_bytes(4) [of a b c] by (simp add: Let_def)
next
  case (2 a b)
  show ?case using group_bytes(4) [of a b 0] by (simp add: Let_def)
next
  case (3 a)
  show ?case using group_bytes(4) [of a 0 0] by (simp add: Let_def)
qed simp

lemma b64_decode_encode:
  "distinct alphabet \<Longrightarrow> length alphabet = 64 \<Longrightarrow> b64_decode alphabet (b64_encode alphabet bs) = Some bs"
  using b64_digits_less [of bs] by (simp add: b64_decode_def b64_encode_def digits_of_map b64_bytes_digits)

lemma alphabets [simp]:
  "distinct std_alphabet" "length std_alphabet = 64" "distinct url_alphabet" "length url_alphabet = 64"
  by (simp_all add: std_alphabet_def url_alphabet_def)

lemma set_b64_encode: "length alphabet = 64 \<Longrightarrow> set (b64_encode alphabet bs) \<subseteq> set alphabet"
  using b64_digits_less [of bs] by (auto simp: b64_encode_def)

lemma length_b64_digits: "length (b64_digits bs) = (4 * length bs + 2) div 3"
proof (induction bs rule: b64_digits.induct)
  case (1 a b c r)
  have "(4 * (length r + 3) + 2) div 3 = (4 * length r + 2 + 4 * 3) div 3" by (simp add: algebra_simps)
  also have "\<dots> = (4 * length r + 2) div 3 + 4" by simp
  finally show ?case using 1 by (simp add: Let_def)
qed (simp_all add: Let_def)

lemma length_b64_encode: "length (b64_encode alphabet bs) = (4 * length bs + 2) div 3"
  by (simp add: b64_encode_def length_b64_digits)

section \<open>Decimal numbers\<close>

fun decimal :: "nat \<Rightarrow> string" where
  "decimal n = (if n < 10 then [] else decimal (n div 10)) @ [char_of (48 + n mod 10)]"

declare decimal.simps [simp del]

end
