(* ===== verification/Credentials.thy ===== *)
theory Credentials
  imports Bytes Json_Text Go_Float Go_Time
begin

text \<open>
  internal/auth: argon2id password hashes in the PHC string format (password.go), access tokens and opaque
  tokens (token.go). \<open>argon2.IDKey\<close> of golang.org/x/crypto and the signing, parsing and validation of a JWT by go-jose
  are parameters; \<open>IDKey\<close> returns None where it panics, for no rounds or no threads. A random draw is the parameter \<open>rand\<close>, None when the
  system's generator fails.
\<close>

section \<open>Standard library helpers\<close>

text \<open>\<open>strings.Split\<close> at one character.\<close>

fun split_on :: "char \<Rightarrow> string \<Rightarrow> string list" where
  "split_on sep [] = [[]]"
| "split_on sep (c # cs) = (if c = sep then [] # split_on sep cs
     else case split_on sep cs of [] \<Rightarrow> [[c]] | p # ps \<Rightarrow> (c # p) # ps)"

text \<open>
  \<open>fmt.Sscanf\<close> with \<open>%d\<close>: blanks before the number are skipped, a line break is an error, what follows the last
  verb is not read.
\<close>

fun skip_blank :: "string \<Rightarrow> string option" where
  "skip_blank [] = Some []"
| "skip_blank (c # cs) = (if c = CHR 0x0A then None else if is_space c then skip_blank cs else Some (c # cs))"

definition digit_value :: "char \<Rightarrow> nat" where
  "digit_value c = of_char c - 48"

definition decimal_value :: "string \<Rightarrow> nat" where
  "decimal_value ds = foldl (\<lambda>n c. 10 * n + digit_value c) 0 ds"

definition scan_digits :: "nat \<Rightarrow> string \<Rightarrow> (nat \<times> string) option" where
  "scan_digits bound s =
     (let ds = takeWhile is_digit s in
      if ds = [] \<or> decimal_value ds \<ge> bound then None else Some (decimal_value ds, dropWhile is_digit s))"

definition scan_uint :: "nat \<Rightarrow> string \<Rightarrow> (nat \<times> string) option" where
  "scan_uint bits s = Option.bind (skip_blank s) (scan_digits (2 ^ bits))"

definition scan_int :: "string \<Rightarrow> (int \<times> string) option" where
  "scan_int s = Option.bind (skip_blank s) (\<lambda>s.
     case s of
       [] \<Rightarrow> None
     | c # cs \<Rightarrow>
         if c = CHR ''-'' then map_option (\<lambda>(n, r). (- int n, r)) (scan_digits (2 ^ 63 + 1) cs)
         else map_option (\<lambda>(n, r). (int n, r)) (scan_digits (2 ^ 63) (if c = CHR ''+'' then cs else s)))"

definition expect :: "string \<Rightarrow> string \<Rightarrow> string option" where
  "expect lit s = (if has_prefix s lit then Some (drop (length lit) s) else None)"

section \<open>Password hashes\<close>

definition argonTime :: nat where "argonTime = 2"
definition argonMemory :: nat where "argonMemory = 19 * 1024"
definition argonThreads :: nat where "argonThreads = 1"
definition argonKeyLen :: nat where "argonKeyLen = 32"
definition argonSaltLen :: nat where "argonSaltLen = 16"

definition argon2_Version :: int where "argon2_Version = 19"

record argonParams =
  ag_memory :: nat
  ag_time :: nat
  ag_threads :: nat

type_synonym idkey = "byte list \<Rightarrow> byte list \<Rightarrow> nat \<Rightarrow> nat \<Rightarrow> nat \<Rightarrow> nat \<Rightarrow> byte list option"

definition string_bytes :: "string \<Rightarrow> byte list" where
  "string_bytes s = map byte_of_char s"

definition phc_string :: "nat \<Rightarrow> nat \<Rightarrow> nat \<Rightarrow> byte list \<Rightarrow> byte list \<Rightarrow> string" where
  "phc_string memory time threads salt hash =
     ''$argon2id$v=19$m='' @ decimal memory @ '',t='' @ decimal time @ '',p='' @ decimal threads @ ''$''
       @ b64_encode std_alphabet salt @ ''$'' @ b64_encode std_alphabet hash"

definition HashPassword :: "idkey \<Rightarrow> byte list option \<Rightarrow> string \<Rightarrow> string + string option" where
  "HashPassword idkey rand password =
     (if password = [] then Inl ''auth: password must not be empty''
      else case rand of
        None \<Rightarrow> Inl ''auth: generate salt''
      | Some salt \<Rightarrow> Inr (map_option (phc_string argonMemory argonTime argonThreads salt)
          (idkey (string_bytes password) salt argonTime argonMemory argonThreads argonKeyLen)))"

definition decode_params :: "string \<Rightarrow> argonParams option" where
  "decode_params s =
     Option.bind (expect ''m='' s) (\<lambda>s. Option.bind (scan_uint 32 s) (\<lambda>(m, s).
     Option.bind (expect '',t='' s) (\<lambda>s. Option.bind (scan_uint 32 s) (\<lambda>(t, s).
     Option.bind (expect '',p='' s) (\<lambda>s. Option.bind (scan_uint 8 s) (\<lambda>(p, _).
     Some \<lparr>ag_memory = m, ag_time = t, ag_threads = p\<rparr>))))))"

definition decode_version :: "string \<Rightarrow> int option" where
  "decode_version s = map_option fst (Option.bind (expect ''v='' s) scan_int)"

definition decodeHash :: "string \<Rightarrow> (argonParams \<times> byte list \<times> byte list) option" where
  "decodeHash encodedHash =
     (case split_on (CHR ''$'') encodedHash of
        [p0, p1, p2, p3, p4, p5] \<Rightarrow>
          if p0 \<noteq> [] \<or> p1 \<noteq> ''argon2id'' then None
          else if decode_version p2 \<noteq> Some argon2_Version then None
          else Option.bind (decode_params p3) (\<lambda>p.
            Option.bind (b64_decode std_alphabet p4) (\<lambda>salt.
            Option.bind (b64_decode std_alphabet p5) (\<lambda>hash. Some (p, salt, hash))))
      | _ \<Rightarrow> None)"

datatype verify_result = PasswordMatch | PasswordMismatch | InvalidHash | VerifyPanics

definition VerifyPassword :: "idkey \<Rightarrow> string \<Rightarrow> string \<Rightarrow> verify_result" where
  "VerifyPassword idkey password encodedHash =
     (case decodeHash encodedHash of
        None \<Rightarrow> InvalidHash
      | Some (p, salt, want) \<Rightarrow>
          (case idkey (string_bytes password) salt (ag_time p) (ag_memory p) (ag_threads p) (length want) of
             None \<Rightarrow> VerifyPanics
           | Some got \<Rightarrow> if got = want then PasswordMatch else PasswordMismatch))"

section \<open>Opaque tokens\<close>

definition opaqueTokenBytes :: nat where "opaqueTokenBytes = 32"

definition HashOpaqueToken :: "string \<Rightarrow> string" where
  "HashOpaqueToken cleartext = hex_encode (Sum256 (string_bytes cleartext))"

definition GenerateOpaqueToken :: "byte list option \<Rightarrow> string + string \<times> string" where
  "GenerateOpaqueToken rand =
     (case rand of
        None \<Rightarrow> Inl ''auth: generate token''
      | Some b \<Rightarrow> let cleartext = b64_encode url_alphabet b in Inr (cleartext, HashOpaqueToken cleartext))"

section \<open>Access tokens\<close>

record TokenClaims =
  cl_Sub :: string
  cl_OrgID :: string
  cl_Role :: string
  cl_PlanTier :: string
  cl_Issuer :: string
  cl_Subject :: string
  cl_Audience :: "string list"
  cl_Expiry :: int
  cl_IssuedAt :: int
  cl_NotBefore :: int

record TokenIssuer =
  ti_sign :: "TokenClaims \<Rightarrow> string option"
  ti_issuer :: string
  ti_audience :: string
  ti_accessTTL :: duration

definition DefaultAccessTTL :: duration where "DefaultAccessTTL = 15 * minute"

definition NumericDate :: "gotime \<Rightarrow> int" where
  "NumericDate t = t div second"

definition Mint :: "TokenIssuer \<Rightarrow> gotime \<Rightarrow> string \<Rightarrow> string \<Rightarrow> string \<Rightarrow> string \<Rightarrow> string + string \<times> gotime" where
  "Mint ti now sub orgID role planTier =
     (let exp = now + ti_accessTTL ti;
          claims = \<lparr>cl_Sub = sub, cl_OrgID = orgID, cl_Role = role, cl_PlanTier = planTier, cl_Issuer = ti_issuer ti,
            cl_Subject = sub, cl_Audience = [ti_audience ti], cl_Expiry = NumericDate exp, cl_IssuedAt = NumericDate now,
            cl_NotBefore = NumericDate now\<rparr>
      in case ti_sign ti claims of None \<Rightarrow> Inl ''auth: sign token'' | Some raw \<Rightarrow> Inr (raw, exp))"

record Verifier =
  vf_open :: "string \<Rightarrow> TokenClaims option"
  vf_validate :: "string \<Rightarrow> string \<Rightarrow> gotime \<Rightarrow> TokenClaims \<Rightarrow> bool"
  vf_issuer :: string
  vf_audience :: string

definition Verify :: "Verifier \<Rightarrow> string \<Rightarrow> gotime \<Rightarrow> TokenClaims option" where
  "Verify v raw now = Option.bind (vf_open v raw) (\<lambda>claims.
     if vf_validate v (vf_issuer v) (vf_audience v) now claims then Some claims else None)"

text \<open>\<open>int(d.Seconds())\<close>.\<close>

definition duration_seconds :: "duration \<Rightarrow> int" where
  "duration_seconds d = int64_of_f64 (fadd (f64_of_int (quot d second)) (fdiv (f64_of_int (qrem d second)) (f64_of_int second)))"

end
