(* ===== verification/Setup.thy ===== *)
theory Setup
  imports Setup_Store Credentials
begin

text \<open>
  internal/service/setup.go: the onboarding wizard, bootstrap tokens, and the middleware of
  internal/api/middleware/setup_gate.go that keeps an organization out until its onboarding is complete. The time
  zone database is the parameter \<open>valid_tz\<close>, the service clock \<open>now\<close>, the random draw \<open>rand\<close>.
\<close>

section \<open>Validation\<close>

definition upper_char :: "char \<Rightarrow> char" where
  "upper_char c = (let n = of_char c :: nat in if 97 \<le> n \<and> n \<le> 122 then char_of (n - 32) else c)"

definition to_upper :: "string \<Rightarrow> string" where
  "to_upper s = List.map upper_char s"

definition upper_letters :: string where "upper_letters = ''ABCDEFGHIJKLMNOPQRSTUVWXYZ''"
definition lower_letters :: string where "lower_letters = ''abcdefghijklmnopqrstuvwxyz''"

definition atLeastOneNonNil :: "string option list \<Rightarrow> bool" where
  "atLeastOneNonNil ps \<longleftrightarrow> (\<exists>p\<in>set ps. p \<noteq> None)"

definition looksLikeRegion :: "string \<Rightarrow> bool" where
  "looksLikeRegion s \<longleftrightarrow> 2 \<le> length s \<and> length s \<le> 8 \<and>
     (\<forall>r\<in>set s. r = CHR ''-'' \<or> r \<in> set upper_letters \<or> r \<in> set lower_letters \<or> is_digit r)"

definition isShortCode :: "string \<Rightarrow> nat \<Rightarrow> nat \<Rightarrow> bool" where
  "isShortCode s lo hi \<longleftrightarrow> lo \<le> length s \<and> length s \<le> hi \<and>
     (\<forall>r\<in>set s. r = CHR ''_'' \<or> r = CHR ''-'' \<or> r \<in> set upper_letters \<or> is_digit r)"

definition looksLikeCSICode :: "string \<Rightarrow> bool" where
  "looksLikeCSICode s =
     (let parts = split_on (CHR ''-'') s in
      2 \<le> length parts \<and> length parts \<le> 3 \<and> (\<forall>p\<in>set parts. length p = 2 \<and> (\<forall>r\<in>set p. is_digit r)))"

fun mapSetupStoreError :: "svc_error \<Rightarrow> svc_error" where
  "mapSetupStoreError (UniqueViolation c) = InvalidInput c"
| "mapSetupStoreError e = mapStoreError e"

definition setup_mapped :: "(svc_error + 'a) \<times> 'd \<Rightarrow> (svc_error + 'a) \<times> 'd" where
  "setup_mapped rd = (map_err mapSetupStoreError (fst rd), snd rd)"

definition guardNotComplete :: "env \<Rightarrow> uuid \<Rightarrow> ('x identity_db_scheme, unit) tx" where
  "guardNotComplete e orgID = tbind (GetCompanyProfile e orgID)
     (\<lambda>cp. tguard (\<not> cy_OnboardingComplete cp) SetupAlreadyComplete)"

definition setup_entry :: "uuid \<Rightarrow> string \<Rightarrow> string \<Rightarrow> uuid \<Rightarrow> payload \<Rightarrow> AuditEntry" where
  "setup_entry orgID sub action resource after =
     \<lparr>ae_OrgID = orgID, ae_UserSub = sub, ae_Action = action, ae_ResourceType = ''organization'',
      ae_ResourceID = resource, ae_Before = [], ae_After = after, ae_Metadata = []\<rparr>"

section \<open>Reading the state\<close>

record SetupState =
  ss_OrgID :: uuid
  ss_OnboardingComplete :: bool
  ss_CompanyProfile :: CompanyProfile
  ss_Trades :: "TradeCategory list"
  ss_CostCodes :: "CostCode list"
  ss_DefaultCalendar :: "WorkingCalendar option"
  ss_DefaultHolidays :: "HolidayOverride list"
  ss_PermitJurisdictions :: "PermitJurisdiction list"

definition state_body :: "env \<Rightarrow> uuid \<Rightarrow> ('x identity_db_scheme, SetupState) tx" where
  "state_body e orgID =
     tbind (GetCompanyProfile e orgID) (\<lambda>cp.
     tbind (ListTradeCategories e orgID) (\<lambda>trades.
     tbind (ListCostCodes e orgID) (\<lambda>costs.
     tbind (tfound (GetDefaultWorkingCalendar e orgID) (tret (None, [])) (\<lambda>cal.
       tbind (ListHolidaysForCalendar e (wc_ID cal)) (\<lambda>hols. tret (Some cal, hols)))) (\<lambda>(cal, hols).
     tbind (ListPermitJurisdictions e orgID) (\<lambda>juris.
     tret \<lparr>ss_OrgID = orgID, ss_OnboardingComplete = cy_OnboardingComplete cp, ss_CompanyProfile = cp,
       ss_Trades = trades, ss_CostCodes = costs, ss_DefaultCalendar = cal, ss_DefaultHolidays = hols,
       ss_PermitJurisdictions = juris\<rparr>)))))"

definition GetState :: "env \<Rightarrow> uuid \<Rightarrow> 'x identity_db_scheme \<Rightarrow> svc_error + SetupState" where
  "GetState e orgID d =
     (if orgID = uuid_nil then Inl (InvalidInput ''org_id'') else fst (setup_mapped (BeginTxFunc e (state_body e orgID) d)))"

section \<open>The wizard steps\<close>

record UpdateCompanyInfoInput = UpdateCompanyProfileParams +
  uc_UserSub :: string

definition json_opt :: "string option \<Rightarrow> json" where
  "json_opt s = (case s of None \<Rightarrow> JNull | Some x \<Rightarrow> JStr x)"

definition company_patch :: "'x UpdateCompanyProfileParams_scheme \<Rightarrow> payload" where
  "company_patch p = [(''address'', json_opt (uc_Address p)), (''company_type'', json_opt (uc_CompanyType p)),
     (''ein'', json_opt (uc_EIN p)), (''legal_name'', json_opt (uc_LegalName p)), (''region'', json_opt (uc_Region p))]"

definition company_body :: "env \<Rightarrow> UpdateCompanyInfoInput \<Rightarrow> ('x identity_db_scheme, CompanyProfile) tx" where
  "company_body e inp =
     tbind (guardNotComplete e (uc_OrgID inp)) (\<lambda>_.
     tbind (UpdateCompanyProfile e (UpdateCompanyProfileParams.truncate inp)) (\<lambda>_.
     tbind (GetCompanyProfile e (uc_OrgID inp)) (\<lambda>cp.
     tbind (Record e (setup_entry (uc_OrgID inp) (uc_UserSub inp) ''setup.company_info.updated'' (uc_OrgID inp) (company_patch inp))) (\<lambda>_.
     tret cp))))"

definition UpdateCompanyInfo :: "env \<Rightarrow> UpdateCompanyInfoInput \<Rightarrow> 'x identity_db_scheme \<Rightarrow>
    (svc_error + CompanyProfile) \<times> 'x identity_db_scheme" where
  "UpdateCompanyInfo e inp d =
     service_result
       (ebind (require_that (uc_OrgID inp \<noteq> uuid_nil) (InvalidInput ''org_id'')) (\<lambda>_.
        ebind (require_that (atLeastOneNonNil [uc_LegalName inp, uc_Address inp, uc_EIN inp, uc_CompanyType inp, uc_Region inp])
          (InvalidInput ''fields'')) (\<lambda>_.
        require_that (opt_ok looksLikeRegion (uc_Region inp)) (InvalidInput ''region'')))) d
       (setup_mapped (BeginTxFunc e (company_body e inp) d))"

record CreateTradeInput = CreateTradeCategoryParams +
  ct_UserSub :: string

definition trade_body :: "env \<Rightarrow> string \<Rightarrow> CreateTradeCategoryParams \<Rightarrow> ('x identity_db_scheme, TradeCategory) tx" where
  "trade_body e sub p =
     tbind (guardNotComplete e (ct_OrgID p)) (\<lambda>_.
     tbind (CreateTradeCategory e p) (\<lambda>t.
     tbind (Record e (setup_entry (ct_OrgID p) sub ''setup.trade.created'' (tc_ID t) [])) (\<lambda>_. tret t)))"

definition CreateTrade :: "env \<Rightarrow> CreateTradeInput \<Rightarrow> 'x identity_db_scheme \<Rightarrow>
    (svc_error + TradeCategory) \<times> 'x identity_db_scheme" where
  "CreateTrade e inp0 d =
     (let inp = inp0\<lparr>ct_Code := to_upper (trim_space (ct_Code inp0)), ct_Name := trim_space (ct_Name inp0)\<rparr> in
      service_result
        (ebind (require_that (ct_OrgID inp \<noteq> uuid_nil) (InvalidInput ''org_id'')) (\<lambda>_.
         ebind (require_that (isShortCode (ct_Code inp) 1 16) (InvalidInput ''code'')) (\<lambda>_.
         require_that (ct_Name inp \<noteq> []) (InvalidInput ''name'')))) d
        (setup_mapped (BeginTxFunc e (trade_body e (ct_UserSub inp) (CreateTradeCategoryParams.truncate inp)) d)))"

record CreateCostCodeInput = CreateCostCodeParams +
  ck_UserSub :: string

definition cost_code_body :: "env \<Rightarrow> string \<Rightarrow> CreateCostCodeParams \<Rightarrow> ('x identity_db_scheme, CostCode) tx" where
  "cost_code_body e sub p =
     tbind (guardNotComplete e (ck_OrgID p)) (\<lambda>_.
     tbind (CreateCostCode_store e p) (\<lambda>c.
     tbind (Record e (setup_entry (ck_OrgID p) sub ''setup.cost_code.created'' (cc_ID c) [])) (\<lambda>_. tret c)))"

definition CreateCostCode :: "env \<Rightarrow> CreateCostCodeInput \<Rightarrow> 'x identity_db_scheme \<Rightarrow>
    (svc_error + CostCode) \<times> 'x identity_db_scheme" where
  "CreateCostCode e inp0 d =
     (let inp = inp0\<lparr>ck_Code := trim_space (ck_Code inp0), ck_Name := trim_space (ck_Name inp0),
            ck_Division := trim_space (ck_Division inp0)\<rparr> in
      service_result
        (ebind (require_that (ck_OrgID inp \<noteq> uuid_nil) (InvalidInput ''org_id'')) (\<lambda>_.
         ebind (require_that (looksLikeCSICode (ck_Code inp)) (InvalidInput ''code'')) (\<lambda>_.
         ebind (require_that (ck_Name inp \<noteq> []) (InvalidInput ''name'')) (\<lambda>_.
         require_that (ck_Division inp \<noteq> []) (InvalidInput ''division''))))) d
        (setup_mapped (BeginTxFunc e (cost_code_body e (ck_UserSub inp) (CreateCostCodeParams.truncate inp)) d)))"

record CreateCalendarInput = CreateWorkingCalendarParams +
  cw_UserSub :: string

definition check_calendar :: "(string \<Rightarrow> bool) \<Rightarrow> CreateCalendarInput \<Rightarrow> svc_error + CreateWorkingCalendarParams" where
  "check_calendar valid_tz inp0 =
     (let inp = inp0\<lparr>cw_Name := trim_space (cw_Name inp0), cw_Timezone := trim_space (cw_Timezone inp0)\<rparr> in
      ebind (require_that (cw_OrgID inp \<noteq> uuid_nil) (InvalidInput ''org_id'')) (\<lambda>_.
      ebind (require_that (cw_Name inp \<noteq> []) (InvalidInput ''name'')) (\<lambda>_.
      let tz = (if cw_Timezone inp = [] then ''America/New_York'' else cw_Timezone inp) in
      ebind (require_that (valid_tz tz) (InvalidInput ''timezone'')) (\<lambda>_.
      ebind (require_that (0 \<le> cw_WorkingDaysMask inp \<and> cw_WorkingDaysMask inp \<le> 127) (InvalidInput ''working_days_mask'')) (\<lambda>_.
      let mask = (if cw_WorkingDaysMask inp = 0 then WorkingDaysMonFri else cw_WorkingDaysMask inp);
          minutes = (if cw_DailyWorkMinutes inp \<le> 0 then 480 else cw_DailyWorkMinutes inp) in
      ebind (require_that (minutes \<le> 1440) (InvalidInput ''daily_work_minutes'')) (\<lambda>_.
      Inr (CreateWorkingCalendarParams.truncate
        (inp\<lparr>cw_Timezone := tz, cw_WorkingDaysMask := mask, cw_DailyWorkMinutes := minutes\<rparr>))))))))"

definition calendar_body :: "env \<Rightarrow> string \<Rightarrow> CreateWorkingCalendarParams \<Rightarrow> ('x identity_db_scheme, WorkingCalendar) tx" where
  "calendar_body e sub p =
     tbind (guardNotComplete e (cw_OrgID p)) (\<lambda>_.
     tbind (CreateWorkingCalendar e p) (\<lambda>c.
     tbind (Record e (setup_entry (cw_OrgID p) sub ''setup.calendar.created'' (wc_ID c) [])) (\<lambda>_. tret c)))"

definition CreateCalendar :: "(string \<Rightarrow> bool) \<Rightarrow> env \<Rightarrow> CreateCalendarInput \<Rightarrow> 'x identity_db_scheme \<Rightarrow>
    (svc_error + WorkingCalendar) \<times> 'x identity_db_scheme" where
  "CreateCalendar valid_tz e inp d =
     (case check_calendar valid_tz inp of
        Inl err \<Rightarrow> (Inl err, d)
      | Inr p \<Rightarrow> setup_mapped (BeginTxFunc e (calendar_body e (cw_UserSub inp) p) d))"

record AddHolidayInput = CreateHolidayOverrideParams +
  cx_UserSub :: string

definition holiday_body :: "env \<Rightarrow> string \<Rightarrow> CreateHolidayOverrideParams \<Rightarrow> ('x identity_db_scheme, HolidayOverride) tx" where
  "holiday_body e sub p =
     tbind (guardNotComplete e (cx_OrgID p)) (\<lambda>_.
     tbind (CreateHolidayOverride e p) (\<lambda>h.
     tbind (Record e (setup_entry (cx_OrgID p) sub ''setup.holiday.created'' (ho_ID h) [])) (\<lambda>_. tret h)))"

definition AddHoliday :: "env \<Rightarrow> AddHolidayInput \<Rightarrow> 'x identity_db_scheme \<Rightarrow>
    (svc_error + HolidayOverride) \<times> 'x identity_db_scheme" where
  "AddHoliday e inp0 d =
     (let inp = inp0\<lparr>cx_Name := trim_space (cx_Name inp0), cx_HolidayDate := to_date (cx_HolidayDate inp0)\<rparr> in
      service_result
        (ebind (require_that (cx_OrgID inp \<noteq> uuid_nil \<and> cx_CalendarID inp \<noteq> uuid_nil) (InvalidInput ''org_id and calendar_id'')) (\<lambda>_.
         ebind (require_that (cx_Name inp \<noteq> []) (InvalidInput ''name'')) (\<lambda>_.
         require_that (cx_HolidayDate inp0 \<noteq> zero_time) (InvalidInput ''holiday_date'')))) d
        (setup_mapped (BeginTxFunc e (holiday_body e (cx_UserSub inp) (CreateHolidayOverrideParams.truncate inp)) d)))"

record AddJurisdictionInput = CreatePermitJurisdictionParams +
  cj_UserSub :: string

definition json_bytes_ok :: "string option \<Rightarrow> bool" where
  "json_bytes_ok b = (case b of None \<Rightarrow> True | Some [] \<Rightarrow> True | Some text \<Rightarrow> json_valid text)"

definition jurisdiction_body :: "(string \<Rightarrow> string) \<Rightarrow> env \<Rightarrow> string \<Rightarrow> CreatePermitJurisdictionParams \<Rightarrow>
    ('x identity_db_scheme, PermitJurisdiction) tx" where
  "jurisdiction_body jsonb e sub p =
     tbind (guardNotComplete e (cj_OrgID p)) (\<lambda>_.
     tbind (CreatePermitJurisdiction jsonb e p) (\<lambda>j.
     tbind (Record e (setup_entry (cj_OrgID p) sub ''setup.jurisdiction.created'' (pe_ID j) [])) (\<lambda>_. tret j)))"

definition AddJurisdiction :: "(string \<Rightarrow> string) \<Rightarrow> env \<Rightarrow> AddJurisdictionInput \<Rightarrow> 'x identity_db_scheme \<Rightarrow>
    (svc_error + PermitJurisdiction) \<times> 'x identity_db_scheme" where
  "AddJurisdiction jsonb e inp0 d =
     (let inp = inp0\<lparr>cj_Name := trim_space (cj_Name inp0)\<rparr> in
      service_result
        (ebind (require_that (cj_OrgID inp \<noteq> uuid_nil) (InvalidInput ''org_id'')) (\<lambda>_.
         ebind (require_that (cj_Name inp \<noteq> []) (InvalidInput ''name'')) (\<lambda>_.
         ebind (require_that (json_bytes_ok (cj_PermitTypes inp)) (InvalidInput ''permit_types'')) (\<lambda>_.
         require_that (json_bytes_ok (cj_InspectionChecklist inp)) (InvalidInput ''inspection_checklist''))))) d
        (setup_mapped (BeginTxFunc e (jurisdiction_body jsonb e (cj_UserSub inp) (CreatePermitJurisdictionParams.truncate inp)) d)))"

section \<open>Completion\<close>

definition complete_body :: "env \<Rightarrow> gotime \<Rightarrow> uuid \<Rightarrow> string \<Rightarrow> ('x identity_db_scheme, CompanyProfile) tx" where
  "complete_body e now orgID sub =
     tbind (GetCompanyProfile e orgID) (\<lambda>cp.
     if cy_OnboardingComplete cp then tret cp
     else
       tbind (tguard (cy_LegalName cp \<noteq> None \<and> cy_LegalName cp \<noteq> Some []) (InvalidInput ''legal_name'')) (\<lambda>_.
       tbind (ListTradeCategories e orgID) (\<lambda>trades.
       tbind (tguard (trades \<noteq> []) (InvalidInput ''trades'')) (\<lambda>_.
       tbind (ListCostCodes e orgID) (\<lambda>codes.
       tbind (tguard (codes \<noteq> []) (InvalidInput ''cost_codes'')) (\<lambda>_.
       tbind (tmissing (InvalidInput ''default calendar'') (GetDefaultWorkingCalendar e orgID)) (\<lambda>_.
       tbind (CompleteOnboarding e orgID now) (\<lambda>_.
       tbind (GetCompanyProfile e orgID) (\<lambda>cp2.
       tbind (Record e (setup_entry orgID sub ''setup.completed'' orgID [])) (\<lambda>_.
       tret cp2))))))))))"

definition Complete :: "env \<Rightarrow> gotime \<Rightarrow> uuid \<Rightarrow> string \<Rightarrow> 'x identity_db_scheme \<Rightarrow>
    (svc_error + CompanyProfile) \<times> 'x identity_db_scheme" where
  "Complete e now orgID sub d =
     (if orgID = uuid_nil then (Inl (InvalidInput ''org_id''), d)
      else setup_mapped (BeginTxFunc e (complete_body e now orgID sub) d))"

section \<open>Bootstrap tokens\<close>

definition bootstrapTokenByteLen :: nat where "bootstrapTokenByteLen = 32"
definition DefaultBootstrapTokenTTL :: duration where "DefaultBootstrapTokenTTL = 7 * 24 * hour"

text \<open>The service's own hash, nibble by nibble, and its own encoding of the draw.\<close>

definition hashBootstrapToken :: "string \<Rightarrow> string" where
  "hashBootstrapToken cleartext =
     concat (List.map (\<lambda>b. [''0123456789abcdef'' ! unat (drop_bit 4 b), ''0123456789abcdef'' ! unat (and b 15)])
       (Sum256 (string_bytes cleartext)))"

definition generateBootstrapTokenCleartext :: "byte list option \<Rightarrow> svc_error + string" where
  "generateBootstrapTokenCleartext rand =
     (case rand of None \<Rightarrow> Inl (Internal ''generate bootstrap token'') | Some buf \<Rightarrow> Inr (b64_encode url_alphabet buf))"

definition or_ttl :: "duration \<Rightarrow> duration" where
  "or_ttl ttl = (if ttl \<le> 0 then DefaultBootstrapTokenTTL else ttl)"

record IssuedBootstrapToken =
  ib_ID :: uuid
  ib_Cleartext :: string
  ib_ExpiresAt :: gotime

definition issue_body :: "env \<Rightarrow> uuid \<Rightarrow> string \<Rightarrow> string \<Rightarrow> gotime \<Rightarrow> ('x identity_db_scheme, uuid) tx" where
  "issue_body e orgID sub hash expires =
     tbind (GetCompanyProfile e orgID) (\<lambda>cp.
     tbind (tguard (\<not> cy_OnboardingComplete cp) SetupAlreadyComplete) (\<lambda>_.
     tbind (CreateBootstrapToken e \<lparr>cb_OrgID = orgID, cb_TokenHash = hash, cb_ExpiresAt = expires\<rparr>) (\<lambda>id'.
     tbind (Record e (setup_entry orgID sub ''setup.bootstrap_token.issued'' id' [])) (\<lambda>_.
     tret id'))))"

definition IssueBootstrapToken :: "env \<Rightarrow> byte list option \<Rightarrow> gotime \<Rightarrow> uuid \<Rightarrow> string \<Rightarrow> duration \<Rightarrow> 'x identity_db_scheme \<Rightarrow>
    (svc_error + IssuedBootstrapToken) \<times> 'x identity_db_scheme" where
  "IssueBootstrapToken e rand now orgID sub ttl d =
     (if orgID = uuid_nil then (Inl (InvalidInput ''org_id''), d)
      else case generateBootstrapTokenCleartext rand of
        Inl err \<Rightarrow> (Inl err, d)
      | Inr cleartext \<Rightarrow>
          let expires = now + or_ttl ttl in
          (case setup_mapped (BeginTxFunc e (issue_body e orgID sub (hashBootstrapToken cleartext) expires) d) of
             (Inl err, d') \<Rightarrow> (Inl err, d')
           | (Inr id', d') \<Rightarrow> (Inr \<lparr>ib_ID = id', ib_Cleartext = cleartext, ib_ExpiresAt = expires\<rparr>, d')))"

definition redeem_body :: "env \<Rightarrow> gotime \<Rightarrow> string \<Rightarrow> uuid \<Rightarrow> ('x identity_db_scheme, uuid \<times> uuid) tx" where
  "redeem_body e now hash redeemerID =
     tbind (tmissing InvalidBootstrapToken (GetActiveBootstrapTokenByHash e hash now)) (\<lambda>tok.
     tbind (tmissing InvalidBootstrapToken (RedeemBootstrapToken_store e (bt_ID tok) redeemerID now)) (\<lambda>_.
     tbind (Record e (setup_entry (bt_OrgID tok) [] ''setup.bootstrap_token.redeemed'' (bt_ID tok) [])) (\<lambda>_.
     tret (bt_ID tok, bt_OrgID tok))))"

definition RedeemBootstrapToken :: "env \<Rightarrow> gotime \<Rightarrow> string \<Rightarrow> uuid \<Rightarrow> 'x identity_db_scheme \<Rightarrow>
    (svc_error + uuid \<times> uuid) \<times> 'x identity_db_scheme" where
  "RedeemBootstrapToken e now cleartext redeemerID d =
     (if cleartext = [] then (Inl InvalidBootstrapToken, d)
      else if redeemerID = uuid_nil then (Inl (InvalidInput ''redeemer''), d)
      else setup_mapped (BeginTxFunc e (redeem_body e now (hashBootstrapToken cleartext) redeemerID) d))"

text \<open>The organization to seed: the one asked for, else the first that has not finished; None when there is nothing to do.\<close>

definition seed_target :: "env \<Rightarrow> uuid \<Rightarrow> ('x identity_db_scheme, uuid option) tx" where
  "seed_target e orgID =
     (if orgID = uuid_nil
      then tfound (select_one e ''find fork-zero org'' (\<lambda>d. sort_key og_CreatedAt (db_organizations d))
             (\<lambda>row. \<not> cy_OnboardingComplete (og_Profile row))) (tret None) (\<lambda>row. tret (Some (og_ID row)))
      else tbind (GetCompanyProfile e orgID) (\<lambda>cp. tret (if cy_OnboardingComplete cp then None else Some orgID)))"

definition seed_insert :: "env \<Rightarrow> uuid \<Rightarrow> string \<Rightarrow> gotime \<Rightarrow> ('x identity_db_scheme, uuid) tx" where
  "seed_insert e target hash expires s =
     map_err (\<lambda>err. case err of UniqueViolation _ \<Rightarrow> BootstrapTokenExists | _ \<Rightarrow> err)
       (CreateBootstrapToken e \<lparr>cb_OrgID = target, cb_TokenHash = hash, cb_ExpiresAt = expires\<rparr> s)"

definition seed_body :: "env \<Rightarrow> uuid \<Rightarrow> string \<Rightarrow> gotime \<Rightarrow> ('x identity_db_scheme, bool) tx" where
  "seed_body e orgID hash expires =
     tbind (seed_target e orgID) (\<lambda>target.
     case target of
       None \<Rightarrow> tret False
     | Some org \<Rightarrow>
         tbind (seed_insert e org hash expires) (\<lambda>_.
         tbind (Record e (setup_entry org ''system:boot'' ''setup.bootstrap_token.issued'' org [])) (\<lambda>_.
         tret True)))"

definition SeedBootstrapTokenIfNeeded :: "env \<Rightarrow> gotime \<Rightarrow> string \<Rightarrow> uuid \<Rightarrow> duration \<Rightarrow> 'x identity_db_scheme \<Rightarrow>
    (svc_error + bool) \<times> 'x identity_db_scheme" where
  "SeedBootstrapTokenIfNeeded e now cleartext orgID ttl d =
     (if cleartext = [] then (Inr False, d)
      else if length cleartext \<noteq> 43 then (Inl (InvalidInput ''length''), d)
      else if b64_decode url_alphabet cleartext = None then (Inl (InvalidInput ''base64url''), d)
      else case BeginTxFunc e (seed_body e orgID (hashBootstrapToken cleartext) (now + or_ttl ttl)) d of
        (Inl err, d') \<Rightarrow> (if err = BootstrapTokenExists then Inr False else Inl (mapSetupStoreError err), d')
      | (Inr seeded, d') \<Rightarrow> (Inr seeded, d'))"

section \<open>The setup gate\<close>

definition IsOnboardingComplete :: "env \<Rightarrow> uuid \<Rightarrow> 'x identity_db_scheme \<Rightarrow> svc_error + bool" where
  "IsOnboardingComplete e orgID d =
     (if orgID = uuid_nil then Inl (InvalidInput ''org_id'')
      else if e_fail e ''read onboarding state'' then Inl (DbError ''read onboarding state'')
      else case List.find (\<lambda>row. og_ID row = orgID) (db_organizations d) of
        None \<Rightarrow> Inl StoreNotFound
      | Some row \<Rightarrow> Inr (cy_OnboardingComplete (og_Profile row)))"

definition DefaultSetupGateExemptPrefixes :: "string list" where
  "DefaultSetupGateExemptPrefixes = [''/api/v1/setup'', ''/health'', ''/ready'', ''/metrics'']"

definition isExempt :: "string \<Rightarrow> string list \<Rightarrow> bool" where
  "isExempt path prefixes \<longleftrightarrow> (\<exists>p\<in>set prefixes. path = p \<or> has_prefix path (p @ ''/''))"

datatype gate_decision = PassOn | Refuse nat string

text \<open>\<open>claims\<close> is the organization id of the request's claims, if any; \<open>parse\<close> is \<open>uuid.Parse\<close>.\<close>

definition SetupGate :: "string list \<Rightarrow> (string \<Rightarrow> uuid option) \<Rightarrow> (uuid \<Rightarrow> svc_error + bool) \<Rightarrow> string \<Rightarrow> string option \<Rightarrow> gate_decision" where
  "SetupGate exempt parse check path claims =
     (let prefixes = (if exempt = [] then DefaultSetupGateExemptPrefixes else exempt) in
      if isExempt path prefixes then PassOn
      else case claims of
        None \<Rightarrow> Refuse 401 ''UNAUTHORIZED''
      | Some org \<Rightarrow>
          (case parse org of
             None \<Rightarrow> Refuse 401 ''UNAUTHORIZED''
           | Some orgID \<Rightarrow>
               (case check orgID of
                  Inl err \<Rightarrow> if err = StoreNotFound then Refuse 403 ''SETUP_INCOMPLETE'' else Refuse 503 ''SERVICE_UNAVAILABLE''
                | Inr onboarded \<Rightarrow> if onboarded then PassOn else Refuse 403 ''SETUP_INCOMPLETE'')))"

end
