(* ===== verification/Users_Store.thy ===== *)
theory Users_Store
  imports Identity_Db
begin

text \<open>
  internal/store/users.go: users, refresh tokens and password-reset tokens. A NULL password hash is the empty
  string, as \<open>scanUser\<close> reads it; \<open>lower\<close> acts on ASCII letters.
\<close>

section \<open>Users\<close>

record CreateUserParams =
  cu_OrgID :: uuid
  cu_Email :: string
  cu_DisplayName :: string
  cu_Role :: string
  cu_PasswordHash :: string
  cu_Locale :: string

definition CreateUser :: "env \<Rightarrow> CreateUserParams \<Rightarrow> ('x identity_db_scheme, User) tx" where
  "CreateUser e p =
     (let locale' = (if cu_Locale p = [] then ''en-US'' else cu_Locale p) in
      insert_returning e ''insert user'' db_users db_users_update
        (\<lambda>d. cu_OrgID p \<in> set (db_orgs d)) ur_ID
        (\<lambda>u u'. ur_OrgID u = ur_OrgID u' \<and> to_lower (ur_Email u) = to_lower (ur_Email u'))
        (\<lambda>_ u. \<lparr>ur_ID = u, ur_OrgID = cu_OrgID p, ur_Email = cu_Email p, ur_DisplayName = cu_DisplayName p,
           ur_Role = cu_Role p, ur_Locale = locale', ur_OIDCSubject = None, ur_PasswordHash = cu_PasswordHash p,
           ur_LastLoginAt = None, ur_CreatedAt = e_now e, ur_UpdatedAt = e_now e\<rparr>))"

definition GetUserByEmail :: "env \<Rightarrow> uuid \<Rightarrow> string \<Rightarrow> ('x identity_db_scheme, User) tx" where
  "GetUserByEmail e orgID email = select_one e ''get user by email'' db_users
     (\<lambda>u. ur_OrgID u = orgID \<and> to_lower (ur_Email u) = to_lower email)"

definition GetUserByEmailGlobal :: "env \<Rightarrow> string \<Rightarrow> ('x identity_db_scheme, User) tx" where
  "GetUserByEmailGlobal e email = select_one e ''get user by email (global)'' (\<lambda>d. sort_key ur_CreatedAt (db_users d))
     (\<lambda>u. to_lower (ur_Email u) = to_lower email)"

definition GetUserByID :: "env \<Rightarrow> uuid \<Rightarrow> ('x identity_db_scheme, User) tx" where
  "GetUserByID e userID = select_one e ''get user by id'' db_users (\<lambda>u. ur_ID u = userID)"

definition CountUsersInOrg :: "env \<Rightarrow> uuid \<Rightarrow> ('x identity_db_scheme, nat) tx" where
  "CountUsersInOrg e orgID = tbind (select_all e ''count users in org'' (\<lambda>d. filter (\<lambda>u. ur_OrgID u = orgID) (db_users d)))
     (\<lambda>us. tret (length us))"

definition UpdatePasswordHash :: "env \<Rightarrow> uuid \<Rightarrow> string \<Rightarrow> ('x identity_db_scheme, unit) tx" where
  "UpdatePasswordHash e userID passwordHash = update_found e ''update password hash'' db_users db_users_update
     (\<lambda>_. True) (\<lambda>u. ur_ID u = userID) (\<lambda>u. u\<lparr>ur_PasswordHash := passwordHash, ur_UpdatedAt := e_now e\<rparr>)"

definition TouchLastLogin :: "env \<Rightarrow> uuid \<Rightarrow> gotime \<Rightarrow> ('x identity_db_scheme, unit) tx" where
  "TouchLastLogin e userID now = update_found e ''touch last login'' db_users db_users_update
     (\<lambda>_. True) (\<lambda>u. ur_ID u = userID) (\<lambda>u. u\<lparr>ur_LastLoginAt := Some (to_timestamptz now)\<rparr>)"

section \<open>Refresh tokens\<close>

record CreateRefreshTokenParams =
  cf_UserID :: uuid
  cf_OrgID :: uuid
  cf_TokenHash :: string
  cf_ExpiresAt :: gotime

definition CreateRefreshToken :: "env \<Rightarrow> CreateRefreshTokenParams \<Rightarrow> ('x identity_db_scheme, uuid) tx" where
  "CreateRefreshToken e p = tbind
     (insert_returning e ''insert refresh token'' db_refresh db_refresh_update
        (\<lambda>d. cf_UserID p \<in> ur_ID ` set (db_users d) \<and> cf_OrgID p \<in> set (db_orgs d)) rt_ID
        (\<lambda>t t'. rt_TokenHash t = rt_TokenHash t')
        (\<lambda>_ u. \<lparr>rt_ID = u, rt_UserID = cf_UserID p, rt_OrgID = cf_OrgID p, rt_TokenHash = cf_TokenHash p,
           rt_IssuedAt = e_now e, rt_ExpiresAt = to_timestamptz (cf_ExpiresAt p), rt_RevokedAt = None, rt_LastUsedAt = None\<rparr>))
     (\<lambda>t. tret (rt_ID t))"

definition GetActiveRefreshToken :: "env \<Rightarrow> string \<Rightarrow> gotime \<Rightarrow> ('x identity_db_scheme, RefreshToken) tx" where
  "GetActiveRefreshToken e hash now = select_one e ''get active refresh token'' db_refresh
     (\<lambda>t. rt_TokenHash t = hash \<and> rt_RevokedAt t = None \<and> rt_ExpiresAt t > to_timestamptz now)"

definition RevokeRefreshToken :: "env \<Rightarrow> uuid \<Rightarrow> gotime \<Rightarrow> ('x identity_db_scheme, unit) tx" where
  "RevokeRefreshToken e tokenID now = update_found e ''revoke refresh token'' db_refresh db_refresh_update
     (\<lambda>_. True) (\<lambda>t. rt_ID t = tokenID \<and> rt_RevokedAt t = None) (revoke_refresh now)"

definition RevokeAllRefreshTokensForUser :: "env \<Rightarrow> uuid \<Rightarrow> gotime \<Rightarrow> ('x identity_db_scheme, nat) tx" where
  "RevokeAllRefreshTokensForUser e userID now = update_affected e ''revoke all refresh tokens'' db_refresh db_refresh_update
     (\<lambda>_. True) (\<lambda>t. rt_UserID t = userID \<and> rt_RevokedAt t = None) (revoke_refresh now)"

section \<open>Password-reset tokens\<close>

record CreatePasswordResetTokenParams =
  cq_UserID :: uuid
  cq_TokenHash :: string
  cq_ExpiresAt :: gotime

definition CreatePasswordResetToken :: "env \<Rightarrow> CreatePasswordResetTokenParams \<Rightarrow> ('x identity_db_scheme, uuid) tx" where
  "CreatePasswordResetToken e p = tbind
     (insert_returning e ''insert password reset token'' db_reset db_reset_update
        (\<lambda>d. cq_UserID p \<in> ur_ID ` set (db_users d)) pw_ID (\<lambda>t t'. pw_TokenHash t = pw_TokenHash t')
        (\<lambda>_ u. \<lparr>pw_ID = u, pw_UserID = cq_UserID p, pw_TokenHash = cq_TokenHash p, pw_IssuedAt = e_now e,
           pw_ExpiresAt = to_timestamptz (cq_ExpiresAt p), pw_RedeemedAt = None\<rparr>))
     (\<lambda>t. tret (pw_ID t))"

definition GetActivePasswordResetToken :: "env \<Rightarrow> string \<Rightarrow> gotime \<Rightarrow> ('x identity_db_scheme, PasswordResetToken) tx" where
  "GetActivePasswordResetToken e hash now = select_one e ''get active password reset token'' db_reset
     (\<lambda>t. pw_TokenHash t = hash \<and> pw_RedeemedAt t = None \<and> pw_ExpiresAt t > to_timestamptz now)"

definition RedeemPasswordResetToken :: "env \<Rightarrow> uuid \<Rightarrow> gotime \<Rightarrow> ('x identity_db_scheme, unit) tx" where
  "RedeemPasswordResetToken e tokenID now = update_found e ''redeem password reset token'' db_reset db_reset_update
     (\<lambda>_. True) (\<lambda>t. pw_ID t = tokenID \<and> pw_RedeemedAt t = None) (redeem_reset now)"

end
