(* ===== verification/Auth_Service.thy ===== *)
theory Auth_Service
  imports Setup Users_Store
begin

text \<open>
  internal/service/auth.go: the first owner's claim, login, refresh, logout and password reset. A request carries what
  the process reads from outside: the environments of its two transactions, the clock readings, the random draws for
  a salt and a token. The mailer is an effect: a request returns the message it hands over, whose delivery the code
  does not depend on. \<open>uuid.String\<close> is a parameter of the service.
\<close>

record AuthService =
  as_issuer :: TokenIssuer
  as_idkey :: idkey
  as_refreshTTL :: duration
  as_resetTTL :: duration
  as_appBaseURL :: string
  as_dummyHash :: string
  as_uuid_string :: "uuid \<Rightarrow> string"

record request =
  rq_env :: env
  rq_env2 :: env
  rq_now :: gotime
  rq_now2 :: gotime
  rq_mint :: gotime
  rq_salt :: "byte list option"
  rq_token :: "byte list option"

definition DefaultRefreshTTL :: duration where "DefaultRefreshTTL = 30 * 24 * hour"
definition DefaultPasswordResetTTL :: duration where "DefaultPasswordResetTTL = 1 * hour"

record AuthServiceConfig =
  ac_Issuer :: TokenIssuer
  ac_RefreshTTL :: duration
  ac_ResetTTL :: duration
  ac_AppBaseURL :: string

definition hash_password :: "idkey \<Rightarrow> byte list option \<Rightarrow> string \<Rightarrow> svc_error + string" where
  "hash_password idkey salt password =
     (case HashPassword idkey salt password of
        Inl m \<Rightarrow> Inl (Internal m)
      | Inr None \<Rightarrow> Inl Panicked
      | Inr (Some h) \<Rightarrow> Inr h)"

definition NewAuthService :: "idkey \<Rightarrow> (uuid \<Rightarrow> string) \<Rightarrow> byte list option \<Rightarrow> AuthServiceConfig \<Rightarrow> svc_error + AuthService" where
  "NewAuthService idkey us salt cfg =
     ebind (hash_password idkey salt ''buildos-login-timing-equalizer'') (\<lambda>dummyHash.
     Inr \<lparr>as_issuer = ac_Issuer cfg, as_idkey = idkey,
       as_refreshTTL = (if ac_RefreshTTL cfg \<le> 0 then DefaultRefreshTTL else ac_RefreshTTL cfg),
       as_resetTTL = (if ac_ResetTTL cfg \<le> 0 then DefaultPasswordResetTTL else ac_ResetTTL cfg),
       as_appBaseURL = ac_AppBaseURL cfg, as_dummyHash = dummyHash, as_uuid_string = us\<rparr>)"

record TokenPair =
  pa_AccessToken :: string
  pa_ExpiresAt :: gotime
  pa_ExpiresIn :: int
  pa_RefreshToken :: string
  pa_User :: User

section \<open>Helpers\<close>

definition validateEmail :: "string \<Rightarrow> bool" where
  "validateEmail email \<longleftrightarrow> CHR ''@'' \<in> set email \<and> takeWhile (\<lambda>c. c \<noteq> CHR ''@'') email \<noteq> [] \<and>
     length (takeWhile (\<lambda>c. c \<noteq> CHR ''@'') email) \<noteq> length email - 1 \<and>
     set email \<inter> {CHR '' '', CHR 0x09, CHR 0x0D, CHR 0x0A} = {}"

definition validatePassword :: "string \<Rightarrow> bool" where
  "validatePassword password \<longleftrightarrow> length password \<ge> 12"

fun mapAuthStoreError :: "svc_error \<Rightarrow> svc_error" where
  "mapAuthStoreError (UniqueViolation c) = InvalidInput c"
| "mapAuthStoreError e = mapStoreError e"

definition auth_mapped :: "(svc_error + 'a) \<times> 'd \<Rightarrow> (svc_error + 'a) \<times> 'd" where
  "auth_mapped rd = (map_err mapAuthStoreError (fst rd), snd rd)"

definition auth_entry :: "AuthService \<Rightarrow> uuid \<Rightarrow> uuid \<Rightarrow> string \<Rightarrow> AuditEntry" where
  "auth_entry sv orgID userID action =
     \<lparr>ae_OrgID = orgID, ae_UserSub = as_uuid_string sv userID, ae_Action = action, ae_ResourceType = ''user'',
      ae_ResourceID = userID, ae_Before = [], ae_After = [], ae_Metadata = []\<rparr>"

definition createRefreshToken :: "AuthService \<Rightarrow> env \<Rightarrow> byte list option \<Rightarrow> gotime \<Rightarrow> User \<Rightarrow>
    ('x identity_db_scheme, string) tx" where
  "createRefreshToken sv e rand now u =
     tbind (tlift (map_err Internal (GenerateOpaqueToken rand))) (\<lambda>(ct, hash).
     tbind (CreateRefreshToken e \<lparr>cf_UserID = ur_ID u, cf_OrgID = ur_OrgID u, cf_TokenHash = hash,
       cf_ExpiresAt = now + as_refreshTTL sv\<rparr>) (\<lambda>_. tret ct))"

definition mint_for :: "AuthService \<Rightarrow> gotime \<Rightarrow> User \<Rightarrow> svc_error + string \<times> gotime" where
  "mint_for sv now u =
     map_err Internal (Mint (as_issuer sv) now (as_uuid_string sv (ur_ID u)) (as_uuid_string sv (ur_OrgID u)) (ur_Role u) [])"

definition token_pair :: "AuthService \<Rightarrow> string \<times> gotime \<Rightarrow> string \<Rightarrow> User \<Rightarrow> TokenPair" where
  "token_pair sv minted refresh u =
     \<lparr>pa_AccessToken = fst minted, pa_ExpiresAt = snd minted,
      pa_ExpiresIn = duration_seconds (ti_accessTTL (as_issuer sv)), pa_RefreshToken = refresh, pa_User = u\<rparr>"

definition issueTokenPair :: "AuthService \<Rightarrow> request \<Rightarrow> User \<Rightarrow> 'x identity_db_scheme \<Rightarrow>
    (svc_error + TokenPair) \<times> 'x identity_db_scheme" where
  "issueTokenPair sv rq u d =
     (case mint_for sv (rq_mint rq) u of
        Inl err \<Rightarrow> (Inl err, d)
      | Inr minted \<Rightarrow>
          (case auth_mapped (BeginTxFunc (rq_env2 rq) (createRefreshToken sv (rq_env2 rq) (rq_token rq) (rq_now2 rq) u) d) of
             (Inl err, d') \<Rightarrow> (Inl err, d')
           | (Inr cleartext, d') \<Rightarrow> (Inr (token_pair sv minted cleartext u), d')))"

definition then_issue :: "AuthService \<Rightarrow> request \<Rightarrow> (svc_error + User) \<times> 'x identity_db_scheme \<Rightarrow>
    (svc_error + TokenPair) \<times> 'x identity_db_scheme" where
  "then_issue sv rq rd = (case rd of (Inl err, d) \<Rightarrow> (Inl err, d) | (Inr u, d) \<Rightarrow> issueTokenPair sv rq u d)"

section \<open>The first owner\<close>

definition claim_read :: "env \<Rightarrow> gotime \<Rightarrow> string \<Rightarrow> ('x identity_db_scheme, SetupBootstrapToken) tx" where
  "claim_read e now hash =
     tbind (tmissing InvalidBootstrapToken (GetActiveBootstrapTokenByHash e hash now)) (\<lambda>tok.
     tbind (CountUsersInOrg e (bt_OrgID tok)) (\<lambda>count.
     tbind (tguard (count = 0) FirstOwnerExists) (\<lambda>_.
     tret tok)))"

definition claim_write :: "AuthService \<Rightarrow> env \<Rightarrow> gotime \<Rightarrow> string \<Rightarrow> string \<Rightarrow> string \<Rightarrow> SetupBootstrapToken \<Rightarrow>
    ('x identity_db_scheme, User) tx" where
  "claim_write sv e now email displayName passwordHash tok =
     tbind (CreateUser e \<lparr>cu_OrgID = bt_OrgID tok, cu_Email = email, cu_DisplayName = displayName, cu_Role = ''owner'',
       cu_PasswordHash = passwordHash, cu_Locale = []\<rparr>) (\<lambda>u.
     tbind (tmissing InvalidBootstrapToken (RedeemBootstrapToken_store e (bt_ID tok) (ur_ID u) now)) (\<lambda>_.
     tbind (Record e (auth_entry sv (bt_OrgID tok) (ur_ID u) ''auth.owner.claimed'')) (\<lambda>_.
     tret u)))"

definition claim_body :: "AuthService \<Rightarrow> env \<Rightarrow> gotime \<Rightarrow> string \<Rightarrow> string \<Rightarrow> string \<Rightarrow> string \<Rightarrow>
    ('x identity_db_scheme, User) tx" where
  "claim_body sv e now hash email displayName passwordHash =
     tbind (claim_read e now hash) (claim_write sv e now email displayName passwordHash)"

definition claim_owner_tx :: "AuthService \<Rightarrow> request \<Rightarrow> string \<Rightarrow> string \<Rightarrow> string \<Rightarrow> string \<Rightarrow> 'x identity_db_scheme \<Rightarrow>
    (svc_error + User) \<times> 'x identity_db_scheme" where
  "claim_owner_tx sv rq cleartext email0 password displayName0 d =
     (let email = trim_space email0; displayName = (if displayName0 = [] then email else displayName0) in
      case ebind (require_that (cleartext \<noteq> []) InvalidBootstrapToken) (\<lambda>_.
           ebind (require_that (validateEmail email) (InvalidInput ''email'')) (\<lambda>_.
           ebind (require_that (validatePassword password) (InvalidInput ''password'')) (\<lambda>_.
           hash_password (as_idkey sv) (rq_salt rq) password))) of
        Inl err \<Rightarrow> (Inl err, d)
      | Inr passwordHash \<Rightarrow>
          auth_mapped (BeginTxFunc (rq_env rq)
            (claim_body sv (rq_env rq) (rq_now rq) (HashOpaqueToken cleartext) email displayName passwordHash) d))"

definition ClaimFirstOwner :: "AuthService \<Rightarrow> request \<Rightarrow> string \<Rightarrow> string \<Rightarrow> string \<Rightarrow> string \<Rightarrow> 'x identity_db_scheme \<Rightarrow>
    (svc_error + TokenPair) \<times> 'x identity_db_scheme" where
  "ClaimFirstOwner sv rq cleartext email password displayName d =
     then_issue sv rq (claim_owner_tx sv rq cleartext email password displayName d)"

section \<open>Login\<close>

text \<open>\<open>VerifyPassword\<close> as a step of the transaction: a mismatch and a malformed hash are one error.\<close>

definition verify_credential :: "idkey \<Rightarrow> string \<Rightarrow> string \<Rightarrow> ('d, unit) tx" where
  "verify_credential idkey password hash =
     (case VerifyPassword idkey password hash of
        PasswordMatch \<Rightarrow> tret ()
      | VerifyPanics \<Rightarrow> tfail Panicked
      | _ \<Rightarrow> tfail InvalidCredentials)"

text \<open>The dummy verification of a login without a usable hash: its result is ignored.\<close>

definition equalize_timing :: "AuthService \<Rightarrow> string \<Rightarrow> ('d, 'a) tx" where
  "equalize_timing sv password =
     (case VerifyPassword (as_idkey sv) password (as_dummyHash sv) of
        VerifyPanics \<Rightarrow> tfail Panicked
      | _ \<Rightarrow> tfail InvalidCredentials)"

definition login_body :: "AuthService \<Rightarrow> env \<Rightarrow> gotime \<Rightarrow> string \<Rightarrow> string \<Rightarrow> ('x identity_db_scheme, User) tx" where
  "login_body sv e now email password =
     tfound (GetUserByEmailGlobal e email) (equalize_timing sv password) (\<lambda>found.
     if ur_PasswordHash found = [] then equalize_timing sv password
     else
       tbind (verify_credential (as_idkey sv) password (ur_PasswordHash found)) (\<lambda>_.
       tbind (TouchLastLogin e (ur_ID found) now) (\<lambda>_.
       tbind (Record e (auth_entry sv (ur_OrgID found) (ur_ID found) ''auth.login'')) (\<lambda>_.
       tret found))))"

definition login_tx :: "AuthService \<Rightarrow> request \<Rightarrow> string \<Rightarrow> string \<Rightarrow> 'x identity_db_scheme \<Rightarrow>
    (svc_error + User) \<times> 'x identity_db_scheme" where
  "login_tx sv rq email0 password d =
     (let email = trim_space email0 in
      if email = [] \<or> password = [] then (Inl InvalidCredentials, d)
      else auth_mapped (BeginTxFunc (rq_env rq) (login_body sv (rq_env rq) (rq_now rq) email password) d))"

definition Login :: "AuthService \<Rightarrow> request \<Rightarrow> string \<Rightarrow> string \<Rightarrow> 'x identity_db_scheme \<Rightarrow>
    (svc_error + TokenPair) \<times> 'x identity_db_scheme" where
  "Login sv rq email password d = then_issue sv rq (login_tx sv rq email password d)"

section \<open>Refresh and logout\<close>

definition refresh_body :: "AuthService \<Rightarrow> env \<Rightarrow> byte list option \<Rightarrow> gotime \<Rightarrow> string \<Rightarrow>
    ('x identity_db_scheme, User \<times> string) tx" where
  "refresh_body sv e rand now hash =
     tbind (tmissing InvalidRefreshToken (GetActiveRefreshToken e hash now)) (\<lambda>tok.
     tbind (tmissing InvalidRefreshToken (GetUserByID e (rt_UserID tok))) (\<lambda>u.
     tbind (tmissing InvalidRefreshToken (RevokeRefreshToken e (rt_ID tok) now)) (\<lambda>_.
     tbind (createRefreshToken sv e rand now u) (\<lambda>ct.
     tbind (Record e (auth_entry sv (ur_OrgID u) (ur_ID u) ''auth.token.refreshed'')) (\<lambda>_.
     tret (u, ct))))))"

definition Refresh :: "AuthService \<Rightarrow> request \<Rightarrow> string \<Rightarrow> 'x identity_db_scheme \<Rightarrow>
    (svc_error + TokenPair) \<times> 'x identity_db_scheme" where
  "Refresh sv rq cleartext d =
     (if cleartext = [] then (Inl InvalidRefreshToken, d)
      else case auth_mapped (BeginTxFunc (rq_env rq)
              (refresh_body sv (rq_env rq) (rq_token rq) (rq_now rq) (HashOpaqueToken cleartext)) d) of
        (Inl err, d') \<Rightarrow> (Inl err, d')
      | (Inr (u, newRefresh), d') \<Rightarrow>
          (case mint_for sv (rq_mint rq) u of
             Inl err \<Rightarrow> (Inl err, d')
           | Inr minted \<Rightarrow> (Inr (token_pair sv minted newRefresh u), d')))"

definition logout_body :: "AuthService \<Rightarrow> env \<Rightarrow> gotime \<Rightarrow> string \<Rightarrow> ('x identity_db_scheme, unit) tx" where
  "logout_body sv e now hash =
     tfound (GetActiveRefreshToken e hash now) (tret ()) (\<lambda>tok.
     tfound (RevokeRefreshToken e (rt_ID tok) now) (tret ()) (\<lambda>_.
     Record e (auth_entry sv (rt_OrgID tok) (rt_UserID tok) ''auth.logout'')))"

definition Logout :: "AuthService \<Rightarrow> request \<Rightarrow> string \<Rightarrow> 'x identity_db_scheme \<Rightarrow>
    (svc_error + unit) \<times> 'x identity_db_scheme" where
  "Logout sv rq cleartext d =
     (if cleartext = [] then (Inr (), d)
      else auth_mapped (BeginTxFunc (rq_env rq) (logout_body sv (rq_env rq) (rq_now rq) (HashOpaqueToken cleartext)) d))"

section \<open>Password reset\<close>

record Message =
  ms_To :: string
  ms_Subject :: string
  ms_TextBody :: string
  ms_HTMLBody :: string

text \<open>\<open>url.QueryEscape\<close> and \<open>strings.TrimRight\<close> at slashes.\<close>

definition query_escape :: "string \<Rightarrow> string" where
  "query_escape s = concat (List.map (\<lambda>c.
     if is_digit c \<or> c \<in> set upper_letters \<or> c \<in> set lower_letters \<or> c \<in> set ''-_.~'' then [c]
     else if c = CHR '' '' then ''+''
     else [CHR ''%'', ''0123456789ABCDEF'' ! (of_char c div 16), ''0123456789ABCDEF'' ! (of_char c mod 16)]) s)"

definition trim_right_slashes :: "string \<Rightarrow> string" where
  "trim_right_slashes s = rev (dropWhile (\<lambda>c. c = CHR ''/'') (rev s))"

definition reset_link :: "string \<Rightarrow> string \<Rightarrow> string" where
  "reset_link appBaseURL cleartext =
     (if appBaseURL = [] then cleartext
      else trim_right_slashes appBaseURL @ ''/reset-password?token='' @ query_escape cleartext)"

definition sendResetEmail :: "AuthService \<Rightarrow> User \<Rightarrow> string \<Rightarrow> Message" where
  "sendResetEmail sv u cleartext =
     (let link = reset_link (as_appBaseURL sv) cleartext; nl = CHR 0x0A; q = CHR 0x22 in
      \<lparr>ms_To = ur_Email u, ms_Subject = ''Reset your BuildOS password'',
       ms_TextBody = ''A password reset was requested for your BuildOS account.'' @ [nl, nl]
         @ ''Use this link to choose a new password:'' @ [nl] @ link @ [nl, nl]
         @ ''If you did not request this, you can ignore this email.'',
       ms_HTMLBody = ''<p>A password reset was requested for your BuildOS account.</p><p><a href='' @ [q] @ link @ [q]
         @ ''>Choose a new password</a></p><p>If you did not request this, you can ignore this email.</p>''\<rparr>)"

definition request_reset_body :: "AuthService \<Rightarrow> env \<Rightarrow> byte list option \<Rightarrow> gotime \<Rightarrow> string \<Rightarrow>
    ('x identity_db_scheme, (User \<times> string) option) tx" where
  "request_reset_body sv e rand now email =
     tfound (GetUserByEmailGlobal e email) (tret None) (\<lambda>u.
     tbind (tlift (map_err Internal (GenerateOpaqueToken rand))) (\<lambda>(ct, hash).
     tbind (CreatePasswordResetToken e \<lparr>cq_UserID = ur_ID u, cq_TokenHash = hash, cq_ExpiresAt = now + as_resetTTL sv\<rparr>) (\<lambda>_.
     tbind (Record e (auth_entry sv (ur_OrgID u) (ur_ID u) ''auth.password_reset.requested'')) (\<lambda>_.
     tret (Some (u, ct))))))"

definition RequestPasswordReset :: "AuthService \<Rightarrow> request \<Rightarrow> string \<Rightarrow> 'x identity_db_scheme \<Rightarrow>
    (svc_error + unit) \<times> Message option \<times> 'x identity_db_scheme" where
  "RequestPasswordReset sv rq email0 d =
     (let email = trim_space email0 in
      if email = [] then (Inr (), None, d)
      else case BeginTxFunc (rq_env rq) (request_reset_body sv (rq_env rq) (rq_token rq) (rq_now rq) email) d of
        (Inl err, d') \<Rightarrow> (Inl (mapAuthStoreError err), None, d')
      | (Inr found, d') \<Rightarrow> (Inr (), map_option (\<lambda>(u, ct). sendResetEmail sv u ct) found, d'))"

definition reset_body :: "AuthService \<Rightarrow> env \<Rightarrow> gotime \<Rightarrow> string \<Rightarrow> string \<Rightarrow> ('x identity_db_scheme, unit) tx" where
  "reset_body sv e now hash newHash =
     tbind (tmissing InvalidResetToken (GetActivePasswordResetToken e hash now)) (\<lambda>tok.
     tbind (tmissing InvalidResetToken (GetUserByID e (pw_UserID tok))) (\<lambda>u.
     tbind (UpdatePasswordHash e (ur_ID u) newHash) (\<lambda>_.
     tbind (tmissing InvalidResetToken (RedeemPasswordResetToken e (pw_ID tok) now)) (\<lambda>_.
     tbind (RevokeAllRefreshTokensForUser e (ur_ID u) now) (\<lambda>_.
     Record e (auth_entry sv (ur_OrgID u) (ur_ID u) ''auth.password_reset.completed''))))))"

definition ResetPassword :: "AuthService \<Rightarrow> request \<Rightarrow> string \<Rightarrow> string \<Rightarrow> 'x identity_db_scheme \<Rightarrow>
    (svc_error + unit) \<times> 'x identity_db_scheme" where
  "ResetPassword sv rq cleartext newPassword d =
     (case ebind (require_that (cleartext \<noteq> []) InvalidResetToken) (\<lambda>_.
           ebind (require_that (validatePassword newPassword) (InvalidInput ''password'')) (\<lambda>_.
           hash_password (as_idkey sv) (rq_salt rq) newPassword)) of
        Inl err \<Rightarrow> (Inl err, d)
      | Inr newHash \<Rightarrow>
          auth_mapped (BeginTxFunc (rq_env rq) (reset_body sv (rq_env rq) (rq_now rq) (HashOpaqueToken cleartext) newHash) d))"

end
