(* ===== verification/Identity_Step.thy ===== *)
theory Identity_Step
  imports Auth_Service
begin

text \<open>
  The specification of the onboarding and identity services: the ways in which their tables may change, as a step
  relation, and the invariant every step keeps.
\<close>

section \<open>What a row must look like\<close>

definition good_trade :: "TradeCategory \<Rightarrow> bool" where
  "good_trade t \<longleftrightarrow> isShortCode (tc_Code t) 1 16 \<and> tc_Name t \<noteq> []"

definition good_cost :: "CostCode \<Rightarrow> bool" where
  "good_cost c \<longleftrightarrow> looksLikeCSICode (cc_Code c) \<and> cc_Name c \<noteq> [] \<and> cc_Division c \<noteq> []"

text \<open>A calendar has a working day in the week and a working minute in the day.\<close>

definition good_calendar :: "WorkingCalendar \<Rightarrow> bool" where
  "good_calendar c \<longleftrightarrow> wc_Name c \<noteq> [] \<and> 1 \<le> wc_WorkingDaysMask c \<and> wc_WorkingDaysMask c \<le> 127 \<and>
     1 \<le> wc_DailyWorkMinutes c \<and> wc_DailyWorkMinutes c \<le> 1440"

section \<open>Open and ready organizations\<close>

definition profile_of :: "'x identity_db_scheme \<Rightarrow> uuid \<Rightarrow> CompanyProfile option" where
  "profile_of d org = map_option og_Profile (List.find (\<lambda>row. og_ID row = org) (db_organizations d))"

definition open_org :: "'x identity_db_scheme \<Rightarrow> uuid \<Rightarrow> bool" where
  "open_org d org \<longleftrightarrow> (\<exists>cp. profile_of d org = Some cp \<and> \<not> cy_OnboardingComplete cp)"

definition onboarded :: "'x identity_db_scheme \<Rightarrow> uuid \<Rightarrow> bool" where
  "onboarded d org \<longleftrightarrow> (\<exists>cp. profile_of d org = Some cp \<and> cy_OnboardingComplete cp)"

definition named :: "CompanyProfile \<Rightarrow> bool" where
  "named cp \<longleftrightarrow> cy_LegalName cp \<noteq> None \<and> cy_LegalName cp \<noteq> Some []"

text \<open>What \<open>Complete\<close> asks for.\<close>

definition ready :: "'x identity_db_scheme \<Rightarrow> uuid \<Rightarrow> bool" where
  "ready d org \<longleftrightarrow> (\<exists>cp. profile_of d org = Some cp \<and> named cp) \<and> (\<exists>t\<in>set (db_trades d). tc_OrgID t = org) \<and>
     (\<exists>c\<in>set (db_costs d). cc_OrgID c = org) \<and> (\<exists>c\<in>set (db_calendars d). wc_OrgID c = org \<and> wc_IsDefault c)"

definition users_of :: "'x identity_db_scheme \<Rightarrow> uuid \<Rightarrow> User list" where
  "users_of d org = filter (\<lambda>u. ur_OrgID u = org) (db_users d)"

text \<open>What a user row keeps in every update.\<close>

definition same_user :: "User \<Rightarrow> User \<Rightarrow> bool" where
  "same_user u u' \<longleftrightarrow> ur_ID u' = ur_ID u \<and> ur_OrgID u' = ur_OrgID u \<and> ur_Email u' = ur_Email u \<and>
     ur_Role u' = ur_Role u \<and> ur_CreatedAt u' = ur_CreatedAt u"

definition user_principal :: "User \<Rightarrow> uuid \<times> uuid" where
  "user_principal u = (ur_ID u, ur_OrgID u)"

definition token_principal :: "RefreshToken \<Rightarrow> uuid \<times> uuid" where
  "token_principal t = (rt_UserID t, rt_OrgID t)"

section \<open>The step relation\<close>

inductive identity_step :: "'x identity_db_scheme \<Rightarrow> 'x identity_db_scheme \<Rightarrow> bool" where
  audited: "identity_step d (d\<lparr>db_audit := rows\<rparr>)"
| profile_patched: "open_org d (uc_OrgID p) \<Longrightarrow> identity_step d (db_organizations_update
     (update_where (\<lambda>row. og_ID row = uc_OrgID p) (\<lambda>row. row\<lparr>og_Profile := patch_profile p (og_Profile row), og_UpdatedAt := t\<rparr>)) d)"
| completed: "\<lbrakk>open_org d org; ready d org\<rbrakk> \<Longrightarrow> identity_step d (db_organizations_update
     (update_where (\<lambda>row. og_ID row = org) (\<lambda>row. row\<lparr>og_Profile := complete_profile now (og_Profile row), og_UpdatedAt := t\<rparr>)) d)"
| trade_added: "\<lbrakk>open_org d (tc_OrgID t); good_trade t\<rbrakk> \<Longrightarrow> identity_step d (db_trades_update (\<lambda>rows. rows @ [t]) d)"
| cost_added: "\<lbrakk>open_org d (cc_OrgID c); good_cost c\<rbrakk> \<Longrightarrow> identity_step d (db_costs_update (\<lambda>rows. rows @ [c]) d)"
| calendar_added: "\<lbrakk>open_org d (wc_OrgID c); good_calendar c;
     \<forall>c'\<in>set (db_calendars d). wc_ID c' \<noteq> wc_ID c \<and> \<not> (wc_IsDefault c' \<and> wc_IsDefault c \<and> wc_OrgID c' = wc_OrgID c)\<rbrakk> \<Longrightarrow>
     identity_step d (db_calendars_update (\<lambda>rows. rows @ [c]) d)"
| holiday_added: "open_org d (ho_OrgID h) \<Longrightarrow> identity_step d (db_holidays_update (\<lambda>rows. rows @ [h]) d)"
| jurisdiction_added: "open_org d (pe_OrgID j) \<Longrightarrow> identity_step d (db_jurisdictions_update (\<lambda>rows. rows @ [j]) d)"
| bootstrap_moved: "bt.token_step (db_bootstrap d) rows \<Longrightarrow> identity_step d (d\<lparr>db_bootstrap := rows\<rparr>)"
| refresh_moved: "\<lbrakk>rt.token_step (db_refresh d) rows;
     token_principal ` set rows \<subseteq> token_principal ` set (db_refresh d) \<union> user_principal ` set (db_users d)\<rbrakk> \<Longrightarrow> identity_step d (d\<lparr>db_refresh := rows\<rparr>)"
| reset_moved: "pw.token_step (db_reset d) rows \<Longrightarrow> identity_step d (d\<lparr>db_reset := rows\<rparr>)"
| user_added: "\<lbrakk>users_of d (ur_OrgID u) = []; ur_Role u = ''owner''; \<forall>u'\<in>set (db_users d). ur_ID u' \<noteq> ur_ID u\<rbrakk> \<Longrightarrow>
     identity_step d (db_users_update (\<lambda>rows. rows @ [u]) d)"
| user_updated: "\<forall>u. same_user u (f u) \<Longrightarrow> identity_step d (db_users_update (update_where P f) d)"

section \<open>The invariant\<close>

definition identity_ok :: "'x identity_db_scheme \<Rightarrow> bool" where
  "identity_ok d \<longleftrightarrow>
     distinct (List.map og_ID (db_organizations d)) \<and> bt.token_ok (db_bootstrap d) \<and> rt.token_ok (db_refresh d) \<and>
     pw.token_ok (db_reset d) \<and> distinct (List.map ur_ID (db_users d)) \<and>
     (\<forall>org. length (users_of d org) \<le> 1) \<and> (\<forall>u\<in>set (db_users d). ur_Role u = ''owner'') \<and>
     token_principal ` set (db_refresh d) \<subseteq> user_principal ` set (db_users d) \<and>
     (\<forall>t\<in>set (db_trades d). good_trade t) \<and> (\<forall>c\<in>set (db_costs d). good_cost c) \<and>
     (\<forall>c\<in>set (db_calendars d). good_calendar c) \<and> distinct (List.map wc_ID (db_calendars d)) \<and>
     (\<forall>org. length (filter (\<lambda>c. wc_OrgID c = org \<and> wc_IsDefault c) (db_calendars d)) \<le> 1) \<and>
     (\<forall>org. onboarded d org \<longrightarrow> ready d org)"

lemma find_update_where:
  assumes "\<And>r. key (f r) = key r"
  shows "List.find (\<lambda>r. key r = k) (update_where (\<lambda>r. key r = k') f rows) =
    map_option (\<lambda>r. if k = k' then f r else r) (List.find (\<lambda>r. key r = k) rows)"
  by (induction rows) (auto simp: update_where_def assms)

lemma filter_update_commutes:
  "(\<And>r. Q (f r) = Q r) \<Longrightarrow> filter Q (update_where P f rows) = update_where P f (filter Q rows)"
  by (induction rows) (auto simp: update_where_def)

lemma ball_update_where:
  "(\<forall>r\<in>set (update_where P f rows). Q r) \<longleftrightarrow> (\<forall>r\<in>set rows. Q (if P r then f r else r))"
  by (auto simp: update_where_def)

lemma length_update_where [simp]: "length (update_where P f rows) = length rows"
  by (simp add: update_where_def)

lemma profile_of_update:
  "profile_of (db_organizations_update (update_where (\<lambda>row. og_ID row = org')
     (\<lambda>row. row\<lparr>og_Profile := g (og_Profile row), og_UpdatedAt := t\<rparr>)) d) org =
   map_option (\<lambda>cp. if org = org' then g cp else cp) (profile_of d org)"
  by (cases "List.find (\<lambda>row. og_ID row = org) (db_organizations d)") (simp_all add: profile_of_def find_update_where)

lemma profile_of_other [simp]:
  "profile_of (d\<lparr>db_audit := x1\<rparr>) org = profile_of d org"
  "profile_of (db_trades_update x2 d) org = profile_of d org"
  "profile_of (db_costs_update x3 d) org = profile_of d org"
  "profile_of (db_calendars_update x4 d) org = profile_of d org"
  "profile_of (db_holidays_update x5 d) org = profile_of d org"
  "profile_of (db_jurisdictions_update x6 d) org = profile_of d org"
  "profile_of (db_bootstrap_update x7 d) org = profile_of d org"
  "profile_of (db_refresh_update x8 d) org = profile_of d org"
  "profile_of (db_reset_update x9 d) org = profile_of d org"
  "profile_of (db_users_update x10 d) org = profile_of d org"
  by (simp_all add: profile_of_def)

lemma patch_complete [simp]: "cy_OnboardingComplete (patch_profile p cp) = cy_OnboardingComplete cp"
  by (simp add: patch_profile_def)

lemma complete_complete [simp]: "cy_OnboardingComplete (complete_profile now cp)" "named (complete_profile now cp) = named cp"
  by (simp_all add: complete_profile_def named_def)

text \<open>An onboarded organization stays so, and keeps what the wizard built.\<close>

definition setup_view :: "'x identity_db_scheme \<Rightarrow> uuid \<Rightarrow>
    CompanyProfile option \<times> TradeCategory list \<times> CostCode list \<times> WorkingCalendar list \<times> PermitJurisdiction list" where
  "setup_view d org = (profile_of d org, filter (\<lambda>t. tc_OrgID t = org) (db_trades d), filter (\<lambda>c. cc_OrgID c = org) (db_costs d),
     filter (\<lambda>c. wc_OrgID c = org) (db_calendars d), filter (\<lambda>j. pe_OrgID j = org) (db_jurisdictions d))"

lemma open_not_onboarded: "open_org d org \<Longrightarrow> \<not> onboarded d org"
  by (auto simp: open_org_def onboarded_def)

lemma identity_step_view:
  "identity_step d d' \<Longrightarrow> onboarded d org \<Longrightarrow> setup_view d' org = setup_view d org"
proof (induction rule: identity_step.induct)
  case (profile_patched d p t)
  then have "org \<noteq> uc_OrgID p" using open_not_onboarded by blast
  then show ?case by (simp add: setup_view_def profile_of_update option.map_ident)
next
  case (completed d org' now t)
  then have "org \<noteq> org'" using open_not_onboarded by blast
  then show ?case by (simp add: setup_view_def profile_of_update option.map_ident)
qed (use open_not_onboarded in \<open>auto simp: setup_view_def profile_of_def\<close>)

lemma onboarded_view: "setup_view d' org = setup_view d org \<Longrightarrow> onboarded d' org = onboarded d org"
  by (simp add: setup_view_def onboarded_def)

lemma identity_steps_view:
  "identity_step\<^sup>*\<^sup>* d d' \<Longrightarrow> onboarded d org \<Longrightarrow> setup_view d' org = setup_view d org"
proof (induction rule: rtranclp_induct)
  case (step y z)
  then show ?case using identity_step_view [of y z org] onboarded_view [of y org d] by simp
qed simp

section \<open>Every step keeps the invariant\<close>

lemma identity_step_tokens:
  "identity_step d d' \<Longrightarrow> bt.token_step\<^sup>*\<^sup>* (db_bootstrap d) (db_bootstrap d') \<and>
     rt.token_step\<^sup>*\<^sup>* (db_refresh d) (db_refresh d') \<and> pw.token_step\<^sup>*\<^sup>* (db_reset d) (db_reset d')"
  by (induction rule: identity_step.induct) auto

lemma identity_steps_tokens:
  "identity_step\<^sup>*\<^sup>* d d' \<Longrightarrow> bt.token_step\<^sup>*\<^sup>* (db_bootstrap d) (db_bootstrap d') \<and>
     rt.token_step\<^sup>*\<^sup>* (db_refresh d) (db_refresh d') \<and> pw.token_step\<^sup>*\<^sup>* (db_reset d) (db_reset d')"
proof (induction rule: rtranclp_induct)
  case (step y z)
  then show ?case using identity_step_tokens [OF step(2)] by (meson rtranclp_trans)
qed simp

definition users_ok :: "'x identity_db_scheme \<Rightarrow> bool" where
  "users_ok d \<longleftrightarrow> distinct (List.map ur_ID (db_users d)) \<and>
     (\<forall>org. length (users_of d org) \<le> 1) \<and> (\<forall>u\<in>set (db_users d). ur_Role u = ''owner'') \<and>
     token_principal ` set (db_refresh d) \<subseteq> user_principal ` set (db_users d)"

definition wizard_ok :: "'x identity_db_scheme \<Rightarrow> bool" where
  "wizard_ok d \<longleftrightarrow> distinct (List.map og_ID (db_organizations d)) \<and>
     (\<forall>t\<in>set (db_trades d). good_trade t) \<and> (\<forall>c\<in>set (db_costs d). good_cost c) \<and>
     (\<forall>c\<in>set (db_calendars d). good_calendar c) \<and> distinct (List.map wc_ID (db_calendars d)) \<and>
     (\<forall>org. length (filter (\<lambda>c. wc_OrgID c = org \<and> wc_IsDefault c) (db_calendars d)) \<le> 1)"

lemma identity_ok_parts:
  "identity_ok d \<longleftrightarrow> users_ok d \<and> wizard_ok d \<and> bt.token_ok (db_bootstrap d) \<and> rt.token_ok (db_refresh d) \<and>
     pw.token_ok (db_reset d) \<and> (\<forall>org. onboarded d org \<longrightarrow> ready d org)"
  unfolding identity_ok_def users_ok_def wizard_ok_def by blast

lemma users_update:
  assumes "\<forall>u. same_user u (f u)"
  shows "users_ok (db_users_update (update_where P f) d) = users_ok d"
proof -
  have f: "ur_ID (f u) = ur_ID u" "ur_OrgID (f u) = ur_OrgID u" "ur_Role (f u) = ur_Role u" for u
    using assms by (simp_all add: same_user_def)
  have "List.map user_principal (update_where P f (db_users d)) = List.map user_principal (db_users d)"
    by (rule map_update_where) (simp add: user_principal_def f)
  then have "user_principal ` set (update_where P f (db_users d)) = user_principal ` set (db_users d)"
    by (metis list.set_map)
  then show ?thesis
    by (simp add: users_ok_def users_of_def map_update_where f filter_update_commutes ball_update_where if_distrib [of ur_Role])
qed

lemma identity_step_users: "identity_step d d' \<Longrightarrow> users_ok d \<Longrightarrow> users_ok d'"
proof (induction rule: identity_step.induct)
  case (user_added d u)
  then show ?case by (auto simp: users_ok_def users_of_def)
next
  case (user_updated f P d)
  then show ?case by (simp add: users_update)
next
  case (refresh_moved d rows)
  then have "token_principal ` set rows \<subseteq> user_principal ` set (db_users d)" unfolding users_ok_def by blast
  then show ?case using refresh_moved by (simp add: users_ok_def users_of_def)
qed (auto simp: users_ok_def users_of_def)

lemma identity_step_wizard: "identity_step d d' \<Longrightarrow> wizard_ok d \<Longrightarrow> wizard_ok d'"
proof (induction rule: identity_step.induct)
  case (calendar_added d c)
  then have none: "wc_IsDefault c \<Longrightarrow> filter (\<lambda>c'. wc_OrgID c' = wc_OrgID c \<and> wc_IsDefault c') (db_calendars d) = []"
    by (auto simp: filter_empty_conv)
  have "length (filter (\<lambda>c'. wc_OrgID c' = org \<and> wc_IsDefault c') (db_calendars d @ [c])) \<le> 1" for org
    using calendar_added none by (cases "wc_OrgID c = org \<and> wc_IsDefault c") (auto simp: wizard_ok_def)
  then show ?case using calendar_added by (auto simp: wizard_ok_def)
qed (auto simp: wizard_ok_def map_update_where)

lemma ready_mono:
  assumes "ready d org" "profile_of d' org = profile_of d org \<or> (\<exists>now. profile_of d' org = map_option (complete_profile now) (profile_of d org))"
    and "set (db_trades d) \<subseteq> set (db_trades d')" "set (db_costs d) \<subseteq> set (db_costs d')" "set (db_calendars d) \<subseteq> set (db_calendars d')"
  shows "ready d' org"
  using assms unfolding ready_def by fastforce

lemma identity_step_ready:
  assumes "identity_step d d'" "onboarded d org \<longrightarrow> ready d org"
  shows "onboarded d' org \<longrightarrow> ready d' org"
  using assms
proof (induction rule: identity_step.induct)
  case (profile_patched d p t)
  then show ?case by (auto simp: onboarded_def open_org_def ready_def profile_of_update)
next
  case (completed d org' now t)
  show ?case
  proof (cases "org = org'")
    case True
    then show ?thesis using completed(2) by (auto simp: ready_def profile_of_update)
  next
    case False
    then show ?thesis using completed(3) by (auto simp: onboarded_def ready_def profile_of_update)
  qed
qed (auto simp: onboarded_def ready_def)

lemma identity_step_ok: "identity_step d d' \<Longrightarrow> identity_ok d \<Longrightarrow> identity_ok d'"
  using identity_step_users [of d d'] identity_step_wizard [of d d'] identity_step_tokens [of d d']
    identity_step_ready [of d d'] bt.token_steps_ok rt.token_steps_ok pw.token_steps_ok
  unfolding identity_ok_parts by blast

lemma identity_steps_ok: "identity_step\<^sup>*\<^sup>* d d' \<Longrightarrow> identity_ok d \<Longrightarrow> identity_ok d'"
  by (induction rule: rtranclp_induct) (auto intro: identity_step_ok)

end
