(* ===== verification/Identity_Ops.thy ===== *)
theory Identity_Ops
  imports Identity_Step
begin

text \<open>
  The operations of the onboarding and identity services as one machine, and the proof that each of them, whatever
  fails, takes only steps of the specification.
\<close>

section \<open>The machine\<close>

record deployment =
  dp_auth :: AuthService
  dp_valid_tz :: "string \<Rightarrow> bool"
  dp_jsonb :: "string \<Rightarrow> string"

datatype identity_op =
    OCompany env UpdateCompanyInfoInput
  | OTrade env CreateTradeInput
  | OCost env CreateCostCodeInput
  | OCalendar env CreateCalendarInput
  | OHoliday env AddHolidayInput
  | OJurisdiction env AddJurisdictionInput
  | OComplete env gotime uuid string
  | OIssue env "byte list option" gotime uuid string duration
  | ORedeem env gotime string uuid
  | OSeed env gotime string uuid duration
  | OClaim request string string string string
  | OLogin request string string
  | ORefresh request string
  | OLogout request string
  | ORequestReset request string
  | OReset request string string

fun run_identity_op :: "deployment \<Rightarrow> identity_op \<Rightarrow> 'x identity_db_scheme \<Rightarrow> 'x identity_db_scheme" where
  "run_identity_op dp (OCompany e inp) d = snd (UpdateCompanyInfo e inp d)"
| "run_identity_op dp (OTrade e inp) d = snd (CreateTrade e inp d)"
| "run_identity_op dp (OCost e inp) d = snd (CreateCostCode e inp d)"
| "run_identity_op dp (OCalendar e inp) d = snd (CreateCalendar (dp_valid_tz dp) e inp d)"
| "run_identity_op dp (OHoliday e inp) d = snd (AddHoliday e inp d)"
| "run_identity_op dp (OJurisdiction e inp) d = snd (AddJurisdiction (dp_jsonb dp) e inp d)"
| "run_identity_op dp (OComplete e now orgID sub) d = snd (Complete e now orgID sub d)"
| "run_identity_op dp (OIssue e rand now orgID sub ttl) d = snd (IssueBootstrapToken e rand now orgID sub ttl d)"
| "run_identity_op dp (ORedeem e now c u) d = snd (RedeemBootstrapToken e now c u d)"
| "run_identity_op dp (OSeed e now c orgID ttl) d = snd (SeedBootstrapTokenIfNeeded e now c orgID ttl d)"
| "run_identity_op dp (OClaim rq c email pass nm) d = snd (ClaimFirstOwner (dp_auth dp) rq c email pass nm d)"
| "run_identity_op dp (OLogin rq email pass) d = snd (Login (dp_auth dp) rq email pass d)"
| "run_identity_op dp (ORefresh rq c) d = snd (Refresh (dp_auth dp) rq c d)"
| "run_identity_op dp (OLogout rq c) d = snd (Logout (dp_auth dp) rq c d)"
| "run_identity_op dp (ORequestReset rq email) d = snd (snd (RequestPasswordReset (dp_auth dp) rq email d))"
| "run_identity_op dp (OReset rq c pass) d = snd (ResetPassword (dp_auth dp) rq c pass d)"

section \<open>Transactions that take steps\<close>

definition tx_moves :: "('x identity_db_scheme, 'a) tx \<Rightarrow> bool" where
  "tx_moves m \<longleftrightarrow> (\<forall>s x s'. m s = Inr (x, s') \<longrightarrow> identity_step\<^sup>*\<^sup>* (s_db s) (s_db s'))"

lemma tx_movesI: "(\<And>s x s'. m s = Inr (x, s') \<Longrightarrow> identity_step\<^sup>*\<^sup>* (s_db s) (s_db s')) \<Longrightarrow> tx_moves m"
  by (simp add: tx_moves_def)

lemma tx_movesD: "tx_moves m \<Longrightarrow> m s = Inr (x, s') \<Longrightarrow> identity_step\<^sup>*\<^sup>* (s_db s) (s_db s')"
  by (simp add: tx_moves_def)

named_theorems moves \<open>statements and combinators that take only steps of the specification\<close>

lemma moves_basic [moves]:
  "tx_moves (tret x)" "tx_moves (tfail err)" "tx_moves (tguard b err)" "tx_moves (tlift r)"
  by (auto intro!: tx_movesI)

lemma moves_select [moves]: "tx_moves (select_all e l q)" "tx_moves (select_one e l tab P)"
  by (auto intro!: tx_movesI simp: select_all_Inr select_one_Inr)

lemma moves_bind [moves]:
  assumes "tx_moves m" "\<And>x. tx_moves (f x)" shows "tx_moves (tbind m f)"
proof (rule tx_movesI)
  fix s x s' assume "tbind m f s = Inr (x, s')"
  then obtain y s1 where "m s = Inr (y, s1)" "f y s1 = Inr (x, s')" by (auto simp: tbind_Inr)
  then show "identity_step\<^sup>*\<^sup>* (s_db s) (s_db s')"
    by (rule rtranclp_trans [OF tx_movesD [OF assms(1)] tx_movesD [OF assms(2)]])
qed

lemma moves_found [moves]:
  assumes "tx_moves m" "tx_moves a" "\<And>x. tx_moves (f x)" shows "tx_moves (tfound m a f)"
proof (rule tx_movesI)
  fix s x s' assume "tfound m a f s = Inr (x, s')"
  then consider "a s = Inr (x, s')" | y s1 where "m s = Inr (y, s1)" "f y s1 = Inr (x, s')" by (auto simp: tfound_Inr)
  then show "identity_step\<^sup>*\<^sup>* (s_db s) (s_db s')"
  proof cases
    case 1
    then show ?thesis by (rule tx_movesD [OF assms(2)])
  next
    case 2
    then show ?thesis by (rule rtranclp_trans [OF tx_movesD [OF assms(1)] tx_movesD [OF assms(3)]])
  qed
qed

lemma moves_missing [moves]: "tx_moves m \<Longrightarrow> tx_moves (tmissing err m)"
  by (simp add: tx_moves_def)

lemma moves_if [moves]: "tx_moves m \<Longrightarrow> tx_moves m' \<Longrightarrow> tx_moves (if b then m else m')"
  by simp

lemma moves_split [moves]: "(\<And>x y. tx_moves (f x y)) \<Longrightarrow> tx_moves (case p of (x, y) \<Rightarrow> f x y)"
  by (cases p) simp

lemma audit_update_const: "db_audit_update f d = d\<lparr>db_audit := f (db_audit d)\<rparr>"
  by (cases d) simp

lemma Record_db:
  assumes "Record e p s = Inr (x, s')" obtains rows where "s_db s' = s_db s\<lparr>db_audit := rows\<rparr>"
  using Record_appends [OF assms] that by blast

lemma moves_Record [moves]: "tx_moves (Record e p)"
  by (rule tx_movesI) (erule Record_db, simp add: r_into_rtranclp identity_step.audited)

lemma moves_begin: "tx_moves m \<Longrightarrow> identity_step\<^sup>*\<^sup>* d (snd (BeginTxFunc e m d))"
  by (rule snd_BeginTxFunc_inv) (auto dest: tx_movesD)

text \<open>A write that is allowed for an open organization, behind the guard that checks it.\<close>

lemma guardNotComplete_Inr:
  "guardNotComplete e org s = Inr (u, s') \<Longrightarrow> s' = s \<and> open_org (s_db s) org"
  by (auto simp: guardNotComplete_def GetCompanyProfile_def tbind_Inr select_one_Inr open_org_def profile_of_def)

lemma moves_guarded:
  assumes "\<And>s x s'. open_org (s_db s) org \<Longrightarrow> m s = Inr (x, s') \<Longrightarrow> identity_step (s_db s) (s_db s')"
    and "\<And>x. tx_moves (f x)"
  shows "tx_moves (tbind (guardNotComplete e org) (\<lambda>_. tbind m f))"
proof (rule tx_movesI)
  fix s x s' assume "tbind (guardNotComplete e org) (\<lambda>_. tbind m f) s = Inr (x, s')"
  then obtain y s1 where "open_org (s_db s) org" "m s = Inr (y, s1)" "f y s1 = Inr (x, s')"
    by (auto simp: tbind_Inr dest: guardNotComplete_Inr)
  then show "identity_step\<^sup>*\<^sup>* (s_db s) (s_db s')"
    using assms(1) [of s y s1] tx_movesD [OF assms(2)] by (meson converse_rtranclp_into_rtranclp)
qed

section \<open>The wizard\<close>

lemma GetCompanyProfile_moves [moves]: "tx_moves (GetCompanyProfile e org)"
  unfolding GetCompanyProfile_def by (intro moves)

lemma insert_returning_step:
  assumes "insert_returning e l tab upd ok rid U mk s = Inr (r, s')"
    and "\<And>d u. mk d u = row u" and "s_db s = d"
    and "\<And>u. ok d \<Longrightarrow> \<forall>r'\<in>set (tab d). rid r' \<noteq> rid (row u) \<and> \<not> U r' (row u) \<Longrightarrow> identity_step d (upd (\<lambda>rows. rows @ [row u]) d)"
  shows "identity_step d (s_db s')"
  using assms by (auto simp: insert_returning_Inr)

lemma UpdateCompanyProfile_step:
  "open_org (s_db s) (uc_OrgID p) \<Longrightarrow> UpdateCompanyProfile e p s = Inr (x, s') \<Longrightarrow> identity_step (s_db s) (s_db s')"
  by (auto simp: UpdateCompanyProfile_def update_found_Inr intro: identity_step.profile_patched)

lemma CreateTradeCategory_step:
  "open_org (s_db s) (ct_OrgID p) \<Longrightarrow> isShortCode (ct_Code p) 1 16 \<Longrightarrow> ct_Name p \<noteq> [] \<Longrightarrow>
     CreateTradeCategory e p s = Inr (x, s') \<Longrightarrow> identity_step (s_db s) (s_db s')"
  unfolding CreateTradeCategory_def
  by (erule insert_returning_step) (auto intro!: identity_step.trade_added simp: good_trade_def)

lemma CreateCostCode_step:
  "open_org (s_db s) (ck_OrgID p) \<Longrightarrow> looksLikeCSICode (ck_Code p) \<Longrightarrow> ck_Name p \<noteq> [] \<Longrightarrow> ck_Division p \<noteq> [] \<Longrightarrow>
     CreateCostCode_store e p s = Inr (x, s') \<Longrightarrow> identity_step (s_db s) (s_db s')"
  unfolding CreateCostCode_store_def
  by (erule insert_returning_step) (auto intro!: identity_step.cost_added simp: good_cost_def)

lemma CreateWorkingCalendar_step:
  "open_org (s_db s) (cw_OrgID p) \<Longrightarrow> cw_Name p \<noteq> [] \<Longrightarrow> cw_WorkingDaysMask p \<noteq> 0 \<Longrightarrow>
     CreateWorkingCalendar e p s = Inr (x, s') \<Longrightarrow> identity_step (s_db s) (s_db s')"
  unfolding CreateWorkingCalendar_def
  by (erule insert_returning_step) (auto intro!: identity_step.calendar_added simp: good_calendar_def)

lemma CreateHolidayOverride_step:
  "open_org (s_db s) (cx_OrgID p) \<Longrightarrow> CreateHolidayOverride e p s = Inr (x, s') \<Longrightarrow> identity_step (s_db s) (s_db s')"
  unfolding CreateHolidayOverride_def
  by (erule insert_returning_step) (auto intro!: identity_step.holiday_added)

lemma CreatePermitJurisdiction_step:
  "open_org (s_db s) (cj_OrgID p) \<Longrightarrow> CreatePermitJurisdiction jsonb e p s = Inr (x, s') \<Longrightarrow> identity_step (s_db s) (s_db s')"
  unfolding CreatePermitJurisdiction_def Let_def
  by (erule insert_returning_step) (auto intro!: identity_step.jurisdiction_added)

lemma snd_setup_mapped [simp]: "snd (setup_mapped rd) = snd rd"
  by (simp add: setup_mapped_def)

lemma service_result_moves:
  "(\<And>x. v = Inr x \<Longrightarrow> identity_step\<^sup>*\<^sup>* d (snd rd)) \<Longrightarrow> identity_step\<^sup>*\<^sup>* d (snd (service_result v d rd))"
  by (auto simp: service_result_def split: sum.split)

lemma company_moves: "tx_moves (company_body e inp)"
  unfolding company_body_def
  by (rule moves_guarded)
    (auto intro!: moves elim!: UpdateCompanyProfile_step [rotated] simp: UpdateCompanyProfileParams.truncate_def)

lemma trade_moves: "isShortCode (ct_Code p) 1 16 \<Longrightarrow> ct_Name p \<noteq> [] \<Longrightarrow> tx_moves (trade_body e sub p)"
  unfolding trade_body_def
  by (rule moves_guarded) (auto intro!: moves elim!: CreateTradeCategory_step [rotated 3])

lemma cost_code_moves:
  "looksLikeCSICode (ck_Code p) \<Longrightarrow> ck_Name p \<noteq> [] \<Longrightarrow> ck_Division p \<noteq> [] \<Longrightarrow> tx_moves (cost_code_body e sub p)"
  unfolding cost_code_body_def
  by (rule moves_guarded) (auto intro!: moves elim!: CreateCostCode_step [rotated 4])

lemma check_calendar_Inr:
  "check_calendar tz inp = Inr p \<Longrightarrow> cw_Name p \<noteq> [] \<and> cw_WorkingDaysMask p \<noteq> 0"
  by (auto simp: check_calendar_def ebind_Inr_iff Let_def CreateWorkingCalendarParams.truncate_def WorkingDaysMonFri_def
    split: if_splits)

lemma calendar_moves: "cw_Name p \<noteq> [] \<Longrightarrow> cw_WorkingDaysMask p \<noteq> 0 \<Longrightarrow> tx_moves (calendar_body e sub p)"
  unfolding calendar_body_def
  by (rule moves_guarded) (auto intro!: moves elim!: CreateWorkingCalendar_step [rotated 3])

lemma holiday_moves: "tx_moves (holiday_body e sub p)"
  unfolding holiday_body_def
  by (rule moves_guarded) (auto intro!: moves elim!: CreateHolidayOverride_step [rotated])

lemma jurisdiction_moves: "tx_moves (jurisdiction_body jsonb e sub p)"
  unfolding jurisdiction_body_def
  by (rule moves_guarded) (auto intro!: moves elim!: CreatePermitJurisdiction_step [rotated])

lemma UpdateCompanyInfo_moves: "identity_step\<^sup>*\<^sup>* d (snd (UpdateCompanyInfo e inp d))"
  unfolding UpdateCompanyInfo_def by (intro service_result_moves) (simp add: moves_begin company_moves)

lemma CreateTrade_moves: "identity_step\<^sup>*\<^sup>* d (snd (CreateTrade e inp d))"
  unfolding CreateTrade_def Let_def
  by (intro service_result_moves)
    (auto simp: ebind_Inr_iff CreateTradeCategoryParams.truncate_def intro!: moves_begin trade_moves)

lemma CreateCostCode_moves: "identity_step\<^sup>*\<^sup>* d (snd (CreateCostCode e inp d))"
  unfolding CreateCostCode_def Let_def
  by (intro service_result_moves)
    (auto simp: ebind_Inr_iff CreateCostCodeParams.truncate_def intro!: moves_begin cost_code_moves)

lemma CreateCalendar_moves: "identity_step\<^sup>*\<^sup>* d (snd (CreateCalendar tz e inp d))"
  by (auto simp: CreateCalendar_def dest: check_calendar_Inr intro!: moves_begin calendar_moves split: sum.split)

lemma AddHoliday_moves: "identity_step\<^sup>*\<^sup>* d (snd (AddHoliday e inp d))"
  unfolding AddHoliday_def Let_def by (intro service_result_moves) (simp add: moves_begin holiday_moves)

lemma AddJurisdiction_moves: "identity_step\<^sup>*\<^sup>* d (snd (AddJurisdiction jsonb e inp d))"
  unfolding AddJurisdiction_def Let_def by (intro service_result_moves) (simp add: moves_begin jurisdiction_moves)

lemma GetCompanyProfile_Inr:
  "GetCompanyProfile e org s = Inr (cp, s') \<longleftrightarrow>
     \<not> s_aborted s \<and> \<not> e_fail e ''get company profile'' \<and> profile_of (s_db s) org = Some cp \<and> s' = s"
  by (auto simp: GetCompanyProfile_def tbind_Inr select_one_Inr profile_of_def)

lemma sorted_Nil [simp]: "sort_key key rows = [] \<longleftrightarrow> rows = []" "order_desc key rows = [] \<longleftrightarrow> rows = []"
proof -
  show eq: "sort_key key rows = [] \<longleftrightarrow> rows = []" for key :: "'a \<Rightarrow> 'b::linorder" and rows
    by (metis length_0_conv length_sort)
  show "order_desc key rows = [] \<longleftrightarrow> rows = []" for key :: "'a \<Rightarrow> 'b::linorder" and rows
    by (simp add: order_desc_def eq)
qed

lemma complete_body_Inr:
  assumes "complete_body e now org sub s = Inr (cp, s')"
  shows "profile_of (s_db s) org = Some cp \<and> cy_OnboardingComplete cp \<and> s' = s \<or>
    open_org (s_db s) org \<and> ready (s_db s) org \<and>
    (\<exists>s1 u. CompleteOnboarding e org now s = Inr ((), s1) \<and> profile_of (s_db s1) org = Some cp \<and>
       Record e (setup_entry org sub ''setup.completed'' org []) s1 = Inr (u, s'))"
proof -
  from assms obtain cp0 where cp0: "profile_of (s_db s) org = Some cp0"
    by (auto simp: complete_body_def tbind_Inr GetCompanyProfile_Inr)
  show ?thesis
  proof (cases "cy_OnboardingComplete cp0")
    case True
    then show ?thesis using assms cp0 by (auto simp: complete_body_def tbind_Inr GetCompanyProfile_Inr)
  next
    case False
    with assms cp0 obtain s1 u cal where "named cp0"
      "filter (\<lambda>t. tc_OrgID t = org) (db_trades (s_db s)) \<noteq> []" "filter (\<lambda>c. cc_OrgID c = org) (db_costs (s_db s)) \<noteq> []"
      "List.find (\<lambda>c. wc_OrgID c = org \<and> wc_IsDefault c) (db_calendars (s_db s)) = Some cal"
      and s1: "CompleteOnboarding e org now s = Inr ((), s1)" "profile_of (s_db s1) org = Some cp"
        "Record e (setup_entry org sub ''setup.completed'' org []) s1 = Inr (u, s')"
      by (auto simp: complete_body_def tbind_Inr GetCompanyProfile_Inr ListTradeCategories_def ListCostCodes_def
          GetDefaultWorkingCalendar_def select_all_Inr select_one_Inr named_def)
    then have "ready (s_db s) org"
      using cp0 find_SomeD [of _ "db_calendars (s_db s)" cal] by (auto simp: ready_def filter_empty_conv)
    moreover have "open_org (s_db s) org" using cp0 False by (simp add: open_org_def)
    ultimately show ?thesis using s1 by blast
  qed
qed

lemma complete_moves: "tx_moves (complete_body e now org sub)"
proof (rule tx_movesI)
  fix s x s' assume "complete_body e now org sub s = Inr (x, s')"
  from complete_body_Inr [OF this] show "identity_step\<^sup>*\<^sup>* (s_db s) (s_db s')"
  proof (elim disjE conjE exE)
    fix s1 u assume "open_org (s_db s) org" "ready (s_db s) org" "CompleteOnboarding e org now s = Inr ((), s1)"
      and rec: "Record e (setup_entry org sub ''setup.completed'' org []) s1 = Inr (u, s')"
    then have "identity_step (s_db s) (s_db s1)"
      by (auto simp: CompleteOnboarding_def update_found_Inr intro: identity_step.completed)
    then show ?thesis using tx_movesD [OF moves_Record rec] by (rule converse_rtranclp_into_rtranclp)
  qed simp
qed

lemma Complete_moves: "identity_step\<^sup>*\<^sup>* d (snd (Complete e now org sub d))"
  by (simp add: Complete_def moves_begin complete_moves)

section \<open>Tokens\<close>

lemma token_updates:
  "db_bootstrap_update f d = d\<lparr>db_bootstrap := f (db_bootstrap d)\<rparr>"
  "db_refresh_update g d = d\<lparr>db_refresh := g (db_refresh d)\<rparr>"
  "db_reset_update h d = d\<lparr>db_reset := h (db_reset d)\<rparr>"
  by (cases d, simp)+

lemma CreateBootstrapToken_moves [moves]: "tx_moves (CreateBootstrapToken e p)"
proof (rule tx_movesI)
  fix s x s' assume "CreateBootstrapToken e p s = Inr (x, s')"
  then obtain t where "s_db s' = db_bootstrap_update (\<lambda>rows. rows @ [t]) (s_db s)" "\<not> bt_redeemed t"
    "bt_ID t \<notin> bt_ID ` set (db_bootstrap (s_db s))" "bt_TokenHash t \<notin> bt_TokenHash ` set (db_bootstrap (s_db s))"
    by (fastforce simp: CreateBootstrapToken_def tbind_Inr insert_returning_Inr bt_redeemed_def)
  then have "identity_step (s_db s) (s_db s')"
    by (simp add: token_updates(1) [of "\<lambda>rows. rows @ [t]"] identity_step.bootstrap_moved bt.token_step.issue)
  then show "identity_step\<^sup>*\<^sup>* (s_db s) (s_db s')" by (rule r_into_rtranclp)
qed

lemma RedeemBootstrapToken_moves [moves]: "tx_moves (RedeemBootstrapToken_store e tokenID by' now)"
proof (rule tx_movesI)
  fix s x s' assume "RedeemBootstrapToken_store e tokenID by' now s = Inr (x, s')"
  then have "s_db s' = db_bootstrap_update (update_where (\<lambda>t. bt_ID t = tokenID \<and> \<not> bt_redeemed t) (redeem_bootstrap (now, by'))) (s_db s)"
    by (auto simp: RedeemBootstrapToken_store_def update_found_Inr unspent_iff)
  then have "identity_step (s_db s) (s_db s')"
    by (simp add: token_updates(1) [of "update_where _ _"] identity_step.bootstrap_moved bt.token_step.spend)
  then show "identity_step\<^sup>*\<^sup>* (s_db s) (s_db s')" by (rule r_into_rtranclp)
qed

lemma revoked_step:
  "identity_step\<^sup>*\<^sup>* d (db_refresh_update (update_where (\<lambda>t. P t \<and> \<not> rt_revoked t) (revoke_refresh now)) d)"
proof -
  let ?rows = "update_where (\<lambda>t. P t \<and> \<not> rt_revoked t) (revoke_refresh now) (db_refresh d)"
  have "List.map token_principal ?rows = List.map token_principal (db_refresh d)"
    by (rule map_update_where) (simp add: token_principal_def revoke_refresh_def)
  then have "token_principal ` set ?rows = token_principal ` set (db_refresh d)" by (metis list.set_map)
  then have "identity_step d (d\<lparr>db_refresh := ?rows\<rparr>)"
    by (intro identity_step.refresh_moved rt.token_step.spend) simp
  then show ?thesis by (simp add: token_updates(2) [of "update_where _ _"] r_into_rtranclp)
qed

lemma RevokeRefreshToken_moves [moves]: "tx_moves (RevokeRefreshToken e tokenID now)"
proof (rule tx_movesI)
  fix s x s' assume "RevokeRefreshToken e tokenID now s = Inr (x, s')"
  then have eq: "s_db s' = db_refresh_update (update_where (\<lambda>t. rt_ID t = tokenID \<and> \<not> rt_revoked t) (revoke_refresh now)) (s_db s)"
    by (auto simp: RevokeRefreshToken_def update_found_Inr unspent_iff)
  show "identity_step\<^sup>*\<^sup>* (s_db s) (s_db s')"
    unfolding eq by (rule revoked_step)
qed

end
