(* ===== verification/Identity_Auth.thy ===== *)
theory Identity_Auth
  imports Identity_Ops
begin

text \<open>The operations on bootstrap tokens, users and sessions take only steps of the specification; so does the machine.\<close>

section \<open>Bootstrap tokens\<close>

lemma issue_moves: "tx_moves (issue_body e org sub hash expires)"
  unfolding issue_body_def by (intro moves)

lemma redeem_moves: "tx_moves (redeem_body e now hash redeemer)"
  unfolding redeem_body_def GetActiveBootstrapTokenByHash_def by (intro moves)

lemma seed_insert_Inr: "seed_insert e org hash expires s = Inr r \<longleftrightarrow>
    CreateBootstrapToken e \<lparr>cb_OrgID = org, cb_TokenHash = hash, cb_ExpiresAt = expires\<rparr> s = Inr r"
  by (simp add: seed_insert_def)

lemma seed_moves: "tx_moves (seed_body e org hash expires)"
proof -
  have "tx_moves (seed_target e org)"
    unfolding seed_target_def by (intro moves)
  moreover have "tx_moves (case target of None \<Rightarrow> tret False
     | Some org \<Rightarrow> tbind (seed_insert e org hash expires) (\<lambda>_.
         tbind (Record e (setup_entry org ''system:boot'' ''setup.bootstrap_token.issued'' org [])) (\<lambda>_. tret True)))" for target
    by (cases target)
      (auto intro!: moves tx_movesI [of "seed_insert e _ hash expires"] dest: tx_movesD [OF CreateBootstrapToken_moves] simp: seed_insert_Inr)
  ultimately show ?thesis unfolding seed_body_def by (rule moves_bind)
qed

lemma IssueBootstrapToken_moves: "identity_step\<^sup>*\<^sup>* d (snd (IssueBootstrapToken e rand now org sub ttl d))"
proof (cases "generateBootstrapTokenCleartext rand")
  case (Inr c)
  have "snd (IssueBootstrapToken e rand now org sub ttl d) = d \<or> snd (IssueBootstrapToken e rand now org sub ttl d) =
      snd (BeginTxFunc e (issue_body e org sub (hashBootstrapToken c) (now + or_ttl ttl)) d)"
    by (auto simp: IssueBootstrapToken_def Inr Let_def setup_mapped_def split: prod.split sum.split)
  then show ?thesis using moves_begin [OF issue_moves] by (elim disjE) simp_all
qed (simp add: IssueBootstrapToken_def)

lemma RedeemBootstrapToken_op_moves: "identity_step\<^sup>*\<^sup>* d (snd (RedeemBootstrapToken e now c u d))"
  by (simp add: RedeemBootstrapToken_def moves_begin redeem_moves)

lemma SeedBootstrapToken_moves: "identity_step\<^sup>*\<^sup>* d (snd (SeedBootstrapTokenIfNeeded e now c org ttl d))"
proof -
  have "snd (SeedBootstrapTokenIfNeeded e now c org ttl d) = d \<or> snd (SeedBootstrapTokenIfNeeded e now c org ttl d) =
      snd (BeginTxFunc e (seed_body e org (hashBootstrapToken c) (now + or_ttl ttl)) d)"
    by (auto simp: SeedBootstrapTokenIfNeeded_def split: prod.split sum.split)
  then show ?thesis using moves_begin [OF seed_moves] by (elim disjE) simp_all
qed

section \<open>Users and sessions\<close>

lemma users_update_moves: "\<forall>u. same_user u (f u) \<Longrightarrow> tx_moves (update_found e l db_users db_users_update ok P f)"
  by (rule tx_movesI) (auto simp: update_found_Inr intro!: r_into_rtranclp identity_step.user_updated)

lemma UpdatePasswordHash_moves [moves]: "tx_moves (UpdatePasswordHash e u h)"
  unfolding UpdatePasswordHash_def by (rule users_update_moves) (simp add: same_user_def)

lemma TouchLastLogin_moves [moves]: "tx_moves (TouchLastLogin e u now)"
  unfolding TouchLastLogin_def by (rule users_update_moves) (simp add: same_user_def)

lemma RevokeAllRefreshTokensForUser_moves [moves]: "tx_moves (RevokeAllRefreshTokensForUser e u now)"
proof (rule tx_movesI)
  fix s x s' assume "RevokeAllRefreshTokensForUser e u now s = Inr (x, s')"
  then have eq: "s_db s' = db_refresh_update (update_where (\<lambda>t. rt_UserID t = u \<and> \<not> rt_revoked t) (revoke_refresh now)) (s_db s)"
    by (auto simp: RevokeAllRefreshTokensForUser_def update_affected_Inr unspent_iff)
  show "identity_step\<^sup>*\<^sup>* (s_db s) (s_db s')"
    unfolding eq by (rule revoked_step)
qed

lemma CreatePasswordResetToken_moves [moves]: "tx_moves (CreatePasswordResetToken e p)"
proof (rule tx_movesI)
  fix s x s' assume "CreatePasswordResetToken e p s = Inr (x, s')"
  then obtain t where "s_db s' = db_reset_update (\<lambda>rows. rows @ [t]) (s_db s)" "\<not> pw_redeemed t"
    "pw_ID t \<notin> pw_ID ` set (db_reset (s_db s))" "pw_TokenHash t \<notin> pw_TokenHash ` set (db_reset (s_db s))"
    by (fastforce simp: CreatePasswordResetToken_def tbind_Inr insert_returning_Inr pw_redeemed_def)
  then have "identity_step (s_db s) (s_db s')"
    by (simp add: token_updates(3) [of "\<lambda>rows. rows @ [t]"] identity_step.reset_moved pw.token_step.issue)
  then show "identity_step\<^sup>*\<^sup>* (s_db s) (s_db s')" by (rule r_into_rtranclp)
qed

lemma RedeemPasswordResetToken_moves [moves]: "tx_moves (RedeemPasswordResetToken e tokenID now)"
proof (rule tx_movesI)
  fix s x s' assume "RedeemPasswordResetToken e tokenID now s = Inr (x, s')"
  then have "s_db s' = db_reset_update (update_where (\<lambda>t. pw_ID t = tokenID \<and> \<not> pw_redeemed t) (redeem_reset now)) (s_db s)"
    by (auto simp: RedeemPasswordResetToken_def update_found_Inr unspent_iff)
  then have "identity_step (s_db s) (s_db s')"
    by (simp add: token_updates(3) [of "update_where _ _"] identity_step.reset_moved pw.token_step.spend)
  then show "identity_step\<^sup>*\<^sup>* (s_db s) (s_db s')" by (rule r_into_rtranclp)
qed

text \<open>A refresh token is created for a user of the table, in the user's organization.\<close>

definition known :: "'x identity_db_scheme \<Rightarrow> User \<Rightarrow> bool" where
  "known d u \<longleftrightarrow> user_principal u \<in> user_principal ` set (db_users d)"

lemma knownI: "u \<in> set (db_users d) \<Longrightarrow> known d u"
  by (simp add: known_def)

lemma CreateRefreshToken_Inr:
  assumes "CreateRefreshToken e p s = Inr (x, s')"
  obtains t where "rt_TokenHash t = cf_TokenHash p" "rt_RevokedAt t = None" "rt_ExpiresAt t = to_timestamptz (cf_ExpiresAt p)"
    "token_principal t = (cf_UserID p, cf_OrgID p)" "rt_ID t \<notin> rt_ID ` set (db_refresh (s_db s))"
    "rt_TokenHash t \<notin> rt_TokenHash ` set (db_refresh (s_db s))" "s_db s' = db_refresh_update (\<lambda>rows. rows @ [t]) (s_db s)"
proof (rule that [of "\<lparr>rt_ID = e_uuid e (s_draws s), rt_UserID = cf_UserID p, rt_OrgID = cf_OrgID p, rt_TokenHash = cf_TokenHash p,
     rt_IssuedAt = e_now e, rt_ExpiresAt = to_timestamptz (cf_ExpiresAt p), rt_RevokedAt = None, rt_LastUsedAt = None\<rparr>"])
qed (use assms in \<open>auto simp: CreateRefreshToken_def tbind_Inr insert_returning_Inr token_principal_def\<close>)

lemma createRefreshToken_Inr:
  assumes "createRefreshToken sv e rand now u s = Inr (ct, s')"
  obtains t b where "rand = Some b" "ct = b64_encode url_alphabet b" "rt_TokenHash t = HashOpaqueToken ct" "rt_RevokedAt t = None"
    "rt_ExpiresAt t = to_timestamptz (now + as_refreshTTL sv)" "token_principal t = user_principal u"
    "rt_ID t \<notin> rt_ID ` set (db_refresh (s_db s))" "rt_TokenHash t \<notin> rt_TokenHash ` set (db_refresh (s_db s))"
    "s_db s' = db_refresh_update (\<lambda>rows. rows @ [t]) (s_db s)"
proof -
  from assms obtain b id' where b: "rand = Some b" "ct = b64_encode url_alphabet b"
    and ins: "CreateRefreshToken e \<lparr>cf_UserID = ur_ID u, cf_OrgID = ur_OrgID u, cf_TokenHash = HashOpaqueToken ct,
       cf_ExpiresAt = now + as_refreshTTL sv\<rparr> s = Inr (id', s')"
    by (auto simp: createRefreshToken_def tbind_Inr GenerateOpaqueToken_def Let_def split: option.splits prod.splits)
  from ins show thesis
    by (rule CreateRefreshToken_Inr) (rule that [OF b], simp_all add: user_principal_def)
qed

lemma createRefreshToken_step:
  assumes "createRefreshToken sv e rand now u s = Inr (ct, s')" "known (s_db s) u"
  shows "identity_step (s_db s) (s_db s')"
  using assms(1)
proof (rule createRefreshToken_Inr)
  fix t b assume t: "rt_RevokedAt t = None" "token_principal t = user_principal u" "rt_ID t \<notin> rt_ID ` set (db_refresh (s_db s))"
    "rt_TokenHash t \<notin> rt_TokenHash ` set (db_refresh (s_db s))" "s_db s' = db_refresh_update (\<lambda>rows. rows @ [t]) (s_db s)"
  have "token_principal ` set (db_refresh (s_db s) @ [t]) \<subseteq>
      token_principal ` set (db_refresh (s_db s)) \<union> user_principal ` set (db_users (s_db s))"
    using t(2) assms(2) by (simp add: known_def)
  moreover have "rt.token_step (db_refresh (s_db s)) (db_refresh (s_db s) @ [t])"
    using t by (intro rt.token_step.issue) (simp_all add: unspent_iff)
  ultimately show ?thesis
    unfolding t(5) token_updates(2) [of "\<lambda>rows. rows @ [t]"] by (intro identity_step.refresh_moved)
qed

lemma identity_step_principals:
  "identity_step d d' \<Longrightarrow> user_principal ` set (db_users d) \<subseteq> user_principal ` set (db_users d')"
proof (induction rule: identity_step.induct)
  case (user_updated f d P)
  then have "List.map user_principal (update_where P f (db_users d)) = List.map user_principal (db_users d)"
    by (intro map_update_where) (simp add: user_principal_def same_user_def)
  then have "user_principal ` set (update_where P f (db_users d)) = user_principal ` set (db_users d)" by (metis list.set_map)
  then show ?case by simp
qed auto

lemma known_steps: "identity_step\<^sup>*\<^sup>* d d' \<Longrightarrow> known d u \<Longrightarrow> known d' u"
proof (induction rule: rtranclp_induct)
  case (step y z)
  then show ?case using identity_step_principals [OF step(2)] unfolding known_def by blast
qed

lemma snd_auth_mapped [simp]: "snd (auth_mapped rd) = snd rd"
  by (simp add: auth_mapped_def)

lemma auth_mapped_Inr: "auth_mapped rd = (Inr x, d) \<longleftrightarrow> rd = (Inr x, d)"
  by (cases rd) (simp add: auth_mapped_def)

lemma issueTokenPair_moves:
  assumes "known d u" shows "identity_step\<^sup>*\<^sup>* d (snd (issueTokenPair sv rq u d))"
proof -
  let ?run = "BeginTxFunc (rq_env2 rq) (createRefreshToken sv (rq_env2 rq) (rq_token rq) (rq_now2 rq) u) d"
  have "identity_step\<^sup>*\<^sup>* d (snd ?run)"
    by (rule snd_BeginTxFunc_inv) (use assms createRefreshToken_step in force)+
  moreover have "snd (issueTokenPair sv rq u d) = d \<or> snd (issueTokenPair sv rq u d) = snd ?run"
    by (cases ?run) (auto simp: issueTokenPair_def auth_mapped_def split: sum.split)
  ultimately show ?thesis by (elim disjE) simp_all
qed

section \<open>The first owner\<close>

lemma CreateUser_Inr:
  assumes "CreateUser e p s = Inr (u, s')"
  shows "ur_OrgID u = cu_OrgID p \<and> ur_Role u = cu_Role p \<and> ur_PasswordHash u = cu_PasswordHash p \<and> ur_Email u = cu_Email p \<and>
    (\<forall>u'\<in>set (db_users (s_db s)). ur_ID u' \<noteq> ur_ID u) \<and> s_db s' = db_users_update (\<lambda>rows. rows @ [u]) (s_db s)"
  using assms by (auto simp: CreateUser_def Let_def insert_returning_Inr)

lemma CountUsersInOrg_Inr:
  "CountUsersInOrg e org s = Inr (n, s') \<Longrightarrow> n = length (users_of (s_db s) org) \<and> s' = s"
  by (auto simp: CountUsersInOrg_def tbind_Inr select_all_Inr users_of_def)

lemma claim_body_Inr:
  assumes "claim_body sv e now hash email nm ph s = Inr (u, s')"
  obtains tok s1 s2 y where
    "GetActiveBootstrapTokenByHash e hash now s = Inr (tok, s)" "users_of (s_db s) (bt_OrgID tok) = []"
    "ur_OrgID u = bt_OrgID tok" "ur_Role u = ''owner''" "ur_PasswordHash u = ph" "ur_Email u = email"
    "\<forall>u'\<in>set (db_users (s_db s)). ur_ID u' \<noteq> ur_ID u" "s_db s1 = db_users_update (\<lambda>rows. rows @ [u]) (s_db s)"
    "RedeemBootstrapToken_store e (bt_ID tok) (ur_ID u) now s1 = Inr ((), s2)"
    "Record e (auth_entry sv (bt_OrgID tok) (ur_ID u) ''auth.owner.claimed'') s2 = Inr (y, s')"
proof -
  from assms obtain tok s0 n sn s1 s2 y where
    tok: "GetActiveBootstrapTokenByHash e hash now s = Inr (tok, s0)" and n: "CountUsersInOrg e (bt_OrgID tok) s0 = Inr (n, sn)" "n = 0"
    and u: "CreateUser e \<lparr>cu_OrgID = bt_OrgID tok, cu_Email = email, cu_DisplayName = nm, cu_Role = ''owner'',
       cu_PasswordHash = ph, cu_Locale = []\<rparr> sn = Inr (u, s1)"
    and rest: "RedeemBootstrapToken_store e (bt_ID tok) (ur_ID u) now s1 = Inr ((), s2)"
      "Record e (auth_entry sv (bt_OrgID tok) (ur_ID u) ''auth.owner.claimed'') s2 = Inr (y, s')"
    by (auto simp: claim_body_def claim_read_def claim_write_def tbind_Inr)
  have "s0 = s" using tok by (simp add: GetActiveBootstrapTokenByHash_def select_one_Inr)
  moreover have "sn = s0" "users_of (s_db s0) (bt_OrgID tok) = []" using CountUsersInOrg_Inr [OF n(1)] n(2) by simp_all
  ultimately show thesis
    using that [OF _ _ _ _ _ _ _ _ rest] tok CreateUser_Inr [OF u] by simp
qed

lemma claim_body_step:
  assumes "claim_body sv e now hash email nm ph s = Inr (u, s')"
  shows "identity_step\<^sup>*\<^sup>* (s_db s) (s_db s') \<and> known (s_db s') u"
  using assms
proof (rule claim_body_Inr)
  fix tok s1 s2 y
  assume u: "users_of (s_db s) (bt_OrgID tok) = []" "ur_OrgID u = bt_OrgID tok" "ur_Role u = ''owner''"
    "\<forall>u'\<in>set (db_users (s_db s)). ur_ID u' \<noteq> ur_ID u" and s1: "s_db s1 = db_users_update (\<lambda>rows. rows @ [u]) (s_db s)"
    and rest: "RedeemBootstrapToken_store e (bt_ID tok) (ur_ID u) now s1 = Inr ((), s2)"
      "Record e (auth_entry sv (bt_OrgID tok) (ur_ID u) ''auth.owner.claimed'') s2 = Inr (y, s')"
  have first: "identity_step (s_db s) (s_db s1)" unfolding s1 using u by (intro identity_step.user_added) simp_all
  have more: "identity_step\<^sup>*\<^sup>* (s_db s1) (s_db s')"
    by (rule rtranclp_trans [OF tx_movesD [OF RedeemBootstrapToken_moves rest(1)] tx_movesD [OF moves_Record rest(2)]])
  have "known (s_db s1) u" by (simp add: s1 knownI)
  then show ?thesis using first more known_steps [OF more] by (simp add: converse_rtranclp_into_rtranclp)
qed

lemma then_issue_moves:
  assumes "identity_step\<^sup>*\<^sup>* d (snd rd)" "\<And>u. fst rd = Inr u \<Longrightarrow> known (snd rd) u"
  shows "identity_step\<^sup>*\<^sup>* d (snd (then_issue sv rq rd))"
  using assms issueTokenPair_moves [of "snd rd"]
  by (cases rd) (auto simp: then_issue_def split: sum.split intro: rtranclp_trans)

lemma claim_owner_moves:
  "identity_step\<^sup>*\<^sup>* d (snd (claim_owner_tx sv rq c email pass nm d)) \<and>
   (fst (claim_owner_tx sv rq c email pass nm d) = Inr u \<longrightarrow> known (snd (claim_owner_tx sv rq c email pass nm d)) u)"
proof (cases "claim_owner_tx sv rq c email pass nm d")
  case (Pair r d')
  consider "d' = d" "\<exists>err. r = Inl err" | (commit) e ph em nm' s x where "r = Inr x" "d' = s_db s"
      "claim_body sv e (rq_now rq) (HashOpaqueToken c) em nm' ph \<lparr>s_db = d, s_draws = 0, s_aborted = False\<rparr> = Inr (x, s)"
    using Pair
    by (auto simp: claim_owner_tx_def Let_def auth_mapped_def BeginTxFunc_def split: sum.splits if_splits)
  then show ?thesis
  proof cases
    case commit
    then show ?thesis using claim_body_step [OF commit(3)] Pair by auto
  qed (use Pair in auto)
qed

lemma ClaimFirstOwner_moves: "identity_step\<^sup>*\<^sup>* d (snd (ClaimFirstOwner sv rq c email pass nm d))"
  unfolding ClaimFirstOwner_def using claim_owner_moves by (blast intro: then_issue_moves)

section \<open>Login, refresh, logout, reset\<close>

lemma moves_verdict [moves]: "tx_moves (verify_credential idkey pass h)" "tx_moves (equalize_timing sv pass)"
  by (auto simp: verify_credential_def equalize_timing_def intro: moves split: verify_result.split)

lemma login_moves: "tx_moves (login_body sv e now email pass)"
  unfolding login_body_def GetUserByEmailGlobal_def by (intro moves)

lemma login_body_Inr:
  assumes "login_body sv e now email pass s = Inr (u, s')"
  shows "u \<in> set (db_users (s_db s)) \<and> to_lower (ur_Email u) = to_lower email \<and>
    VerifyPassword (as_idkey sv) pass (ur_PasswordHash u) = PasswordMatch"
proof -
  have eq: "equalize_timing sv pass s = Inr r \<longleftrightarrow> False" for s :: "'x identity_db_scheme session" and r :: "User \<times> 'x identity_db_scheme session"
    by (simp add: equalize_timing_def split: verify_result.split)
  from assms obtain s1 where found: "GetUserByEmailGlobal e email s = Inr (u, s1)"
      "verify_credential (as_idkey sv) pass (ur_PasswordHash u) s1 = Inr ((), s1)"
    by (auto simp: login_body_def tfound_Inr eq tbind_Inr verify_credential_def split: if_splits verify_result.splits)
  then show ?thesis
    by (auto simp: GetUserByEmailGlobal_def select_one_Inr verify_credential_def dest!: find_SomeD split: verify_result.splits)
qed

lemma login_tx_moves:
  "identity_step\<^sup>*\<^sup>* d (snd (login_tx sv rq email pass d)) \<and>
   (fst (login_tx sv rq email pass d) = Inr u \<longrightarrow> known (snd (login_tx sv rq email pass d)) u)"
proof (cases "login_tx sv rq email pass d")
  case (Pair r d')
  consider "d' = d" "\<exists>err. r = Inl err" | (commit) em s x where "r = Inr x" "d' = s_db s"
      "login_body sv (rq_env rq) (rq_now rq) em pass \<lparr>s_db = d, s_draws = 0, s_aborted = False\<rparr> = Inr (x, s)"
    using Pair
    by (auto simp: login_tx_def Let_def auth_mapped_def BeginTxFunc_def split: sum.splits if_splits)
  then show ?thesis
  proof cases
    case commit
    have "identity_step\<^sup>*\<^sup>* d d'" using tx_movesD [OF login_moves commit(3)] commit(2) by simp
    moreover have "known d x" using login_body_Inr [OF commit(3)] by (simp add: knownI)
    ultimately show ?thesis using known_steps Pair commit(1) by fastforce
  qed (use Pair in auto)
qed

lemma Login_moves: "identity_step\<^sup>*\<^sup>* d (snd (Login sv rq email pass d))"
  unfolding Login_def using login_tx_moves by (blast intro: then_issue_moves)

lemma refresh_body_Inr:
  assumes "refresh_body sv e rand now hash s = Inr ((u, ct), s')"
  obtains tok s1 s2 y where "GetActiveRefreshToken e hash now s = Inr (tok, s)" "u \<in> set (db_users (s_db s))" "ur_ID u = rt_UserID tok"
    "RevokeRefreshToken e (rt_ID tok) now s = Inr ((), s1)" "createRefreshToken sv e rand now u s1 = Inr (ct, s2)"
    "Record e (auth_entry sv (ur_OrgID u) (ur_ID u) ''auth.token.refreshed'') s2 = Inr (y, s')"
proof -
  from assms obtain tok s0 su s1 s2 y where tok: "GetActiveRefreshToken e hash now s = Inr (tok, s0)"
    and u: "GetUserByID e (rt_UserID tok) s0 = Inr (u, su)"
    and rest: "RevokeRefreshToken e (rt_ID tok) now su = Inr ((), s1)" "createRefreshToken sv e rand now u s1 = Inr (ct, s2)"
      "Record e (auth_entry sv (ur_OrgID u) (ur_ID u) ''auth.token.refreshed'') s2 = Inr (y, s')"
    by (auto simp: refresh_body_def tbind_Inr)
  have "s0 = s" using tok by (simp add: GetActiveRefreshToken_def select_one_Inr)
  moreover have "su = s0" "u \<in> set (db_users (s_db s0))" "ur_ID u = rt_UserID tok"
    using u by (auto simp: GetUserByID_def select_one_Inr dest: find_SomeD)
  ultimately show thesis using that [OF _ _ _ _ rest(2,3)] tok rest(1) by simp
qed

lemma refresh_moves: "tx_moves (refresh_body sv e rand now hash)"
proof (rule tx_movesI)
  fix s x s' assume "refresh_body sv e rand now hash s = Inr (x, s')"
  moreover obtain u ct where "x = (u, ct)" by (cases x)
  ultimately have "refresh_body sv e rand now hash s = Inr ((u, ct), s')" by simp
  then show "identity_step\<^sup>*\<^sup>* (s_db s) (s_db s')"
  proof (rule refresh_body_Inr)
    fix tok s1 s2 y
    assume u: "u \<in> set (db_users (s_db s))" and r: "RevokeRefreshToken e (rt_ID tok) now s = Inr ((), s1)"
      and c: "createRefreshToken sv e rand now u s1 = Inr (ct, s2)"
      and a: "Record e (auth_entry sv (ur_OrgID u) (ur_ID u) ''auth.token.refreshed'') s2 = Inr (y, s')"
    have 1: "identity_step\<^sup>*\<^sup>* (s_db s) (s_db s1)" by (rule tx_movesD [OF RevokeRefreshToken_moves r])
    have 2: "identity_step (s_db s1) (s_db s2)" by (rule createRefreshToken_step [OF c known_steps [OF 1 knownI [OF u]]])
    have 3: "identity_step\<^sup>*\<^sup>* (s_db s2) (s_db s')" by (rule tx_movesD [OF moves_Record a])
    show ?thesis by (rule rtranclp_trans [OF rtranclp.rtrancl_into_rtrancl [OF 1 2] 3])
  qed
qed

lemma Refresh_moves: "identity_step\<^sup>*\<^sup>* d (snd (Refresh sv rq c d))"
proof -
  let ?run = "BeginTxFunc (rq_env rq) (refresh_body sv (rq_env rq) (rq_token rq) (rq_now rq) (HashOpaqueToken c)) d"
  have "snd (Refresh sv rq c d) = d \<or> snd (Refresh sv rq c d) = snd ?run"
    by (cases ?run) (auto simp: Refresh_def auth_mapped_def split: sum.split)
  then show ?thesis using moves_begin [OF refresh_moves] by (elim disjE) simp_all
qed

lemma logout_moves: "tx_moves (logout_body sv e now h)"
  unfolding logout_body_def GetActiveRefreshToken_def by (intro moves)

lemma Logout_moves: "identity_step\<^sup>*\<^sup>* d (snd (Logout sv rq c d))"
  by (simp add: Logout_def moves_begin logout_moves)

lemma request_reset_moves: "tx_moves (request_reset_body sv e rand now email)"
  unfolding request_reset_body_def GetUserByEmailGlobal_def by (intro moves)

lemma RequestPasswordReset_moves: "identity_step\<^sup>*\<^sup>* d (snd (snd (RequestPasswordReset sv rq email d)))"
proof -
  let ?run = "\<lambda>em. BeginTxFunc (rq_env rq) (request_reset_body sv (rq_env rq) (rq_token rq) (rq_now rq) em) d"
  have "snd (snd (RequestPasswordReset sv rq email d)) = d \<or> snd (snd (RequestPasswordReset sv rq email d)) = snd (?run (trim_space email))"
    by (cases "?run (trim_space email)") (auto simp: RequestPasswordReset_def Let_def split: sum.split)
  then show ?thesis using moves_begin [OF request_reset_moves] by (elim disjE) simp_all
qed

lemma reset_moves: "tx_moves (reset_body sv e now hash h)"
  unfolding reset_body_def GetActivePasswordResetToken_def GetUserByID_def by (intro moves)

lemma ResetPassword_moves: "identity_step\<^sup>*\<^sup>* d (snd (ResetPassword sv rq c pass d))"
  by (auto simp: ResetPassword_def intro: moves_begin reset_moves split: sum.split)

section \<open>The machine takes only steps\<close>

lemma run_identity_op_moves: "identity_step\<^sup>*\<^sup>* d (run_identity_op dp op d)"
  by (cases op) (simp_all add: UpdateCompanyInfo_moves CreateTrade_moves CreateCostCode_moves CreateCalendar_moves
      AddHoliday_moves AddJurisdiction_moves Complete_moves IssueBootstrapToken_moves RedeemBootstrapToken_op_moves
      SeedBootstrapToken_moves ClaimFirstOwner_moves Login_moves Refresh_moves Logout_moves RequestPasswordReset_moves
      ResetPassword_moves)

lemma run_identity_ops_moves: "identity_step\<^sup>*\<^sup>* d (fold (run_identity_op dp) ops d)"
proof (induction ops arbitrary: d)
  case (Cons op ops)
  show ?case using rtranclp_trans [OF run_identity_op_moves Cons.IH] by simp
qed simp

end
