(* ===== verification/Credentials_Props.thy ===== *)
theory Credentials_Props
  imports Credentials Setup
begin

text \<open>Round trips of the credential encodings: password hashes and opaque tokens.\<close>

section \<open>Decimal numbers are read back\<close>

lemma decimal_value_snoc: "decimal_value (ds @ [c]) = 10 * decimal_value ds + digit_value c"
  by (simp add: decimal_value_def)

lemma digit_char: "d < 10 \<Longrightarrow> digit_value (char_of (48 + d)) = d \<and> is_digit (char_of (48 + d))"
proof -
  have "list_all (\<lambda>d. digit_value (char_of (48 + d)) = d \<and> is_digit (char_of (48 + d))) [0..<10]" by code_simp
  then show "d < 10 \<Longrightarrow> ?thesis" by (simp add: list_all_iff)
qed

lemma decimal_facts: "decimal_value (decimal n) = n \<and> (\<forall>c\<in>set (decimal n). is_digit c) \<and> decimal n \<noteq> []"
proof (induction n rule: decimal.induct)
  case (1 n)
  have d: "digit_value (char_of (48 + n mod 10)) = n mod 10" "is_digit (char_of (48 + n mod 10))"
    using digit_char [of "n mod 10"] by simp_all
  show ?case
  proof (cases "n < 10")
    case True
    then have "decimal n = [char_of (48 + n mod 10)]" by (subst decimal.simps) simp
    then show ?thesis using d True by (simp add: decimal_value_def)
  next
    case False
    then have "decimal n = decimal (n div 10) @ [char_of (48 + n mod 10)]" by (subst decimal.simps) simp
    then show ?thesis using d 1 [OF False] by (simp add: decimal_value_snoc)
  qed
qed

lemma digit_not: "is_digit c \<Longrightarrow> \<not> is_space c \<and> c \<noteq> CHR 0x0A \<and> c \<noteq> CHR ''$'' \<and> c \<noteq> CHR '','' "
  by (auto simp: is_digit_def is_space_def)

lemma scan_uint_decimal:
  assumes "n < 2 ^ bits" "\<forall>c\<in>set (take 1 rest). \<not> is_digit c"
  shows "scan_uint bits (decimal n @ rest) = Some (n, rest)"
proof -
  have dec: "decimal_value (decimal n) = n" "\<forall>c\<in>set (decimal n). is_digit c" "decimal n \<noteq> []" using decimal_facts by blast+
  then obtain c cs where c: "decimal n = c # cs" by (cases "decimal n") auto
  then have "skip_blank (decimal n @ rest) = Some (decimal n @ rest)" using dec(2) digit_not by simp
  moreover have "takeWhile is_digit (decimal n @ rest) = decimal n" "dropWhile is_digit (decimal n @ rest) = rest"
    using dec(2) assms(2) by (cases rest; simp add: takeWhile_append dropWhile_append)+
  ultimately show ?thesis using dec assms(1) by (simp add: scan_uint_def scan_digits_def)
qed

section \<open>The PHC string\<close>

lemma split_on_append: "sep \<notin> set x \<Longrightarrow> split_on sep (x @ sep # y) = x # split_on sep y"
  by (induction x) auto

lemma split_on_none: "sep \<notin> set x \<Longrightarrow> split_on sep x = [x]"
  by (induction x) auto

lemma expect_append [simp]: "expect lit (lit @ s) = Some s"
  by (simp add: expect_def has_prefix_def)

lemma decode_params_phc:
  assumes "m < 2 ^ 32" "t < 2 ^ 32" "p < 2 ^ 8"
  shows "decode_params (''m='' @ decimal m @ '',t='' @ decimal t @ '',p='' @ decimal p) =
    Some \<lparr>ag_memory = m, ag_time = t, ag_threads = p\<rparr>"
proof -
  have "scan_uint 32 (decimal m @ '',t='' @ decimal t @ '',p='' @ decimal p) = Some (m, '',t='' @ decimal t @ '',p='' @ decimal p)"
    "scan_uint 32 (decimal t @ '',p='' @ decimal p) = Some (t, '',p='' @ decimal p)" "scan_uint 8 (decimal p) = Some (p, [])"
    using assms scan_uint_decimal [of p 8 "[]"] by (auto intro!: scan_uint_decimal simp: is_digit_def)
  then show ?thesis unfolding decode_params_def by (simp add: expect_def has_prefix_def)
qed

lemma no_dollar: "CHR ''$'' \<notin> set (b64_encode std_alphabet bs)" "CHR ''$'' \<notin> set (decimal n)"
  using set_b64_encode [of std_alphabet bs] decimal_facts [of n] digit_not by (auto simp: std_alphabet_def)

lemma decodeHash_phc:
  assumes "m < 2 ^ 32" "t < 2 ^ 32" "p < 2 ^ 8"
  shows "decodeHash (phc_string m t p salt hash) = Some (\<lparr>ag_memory = m, ag_time = t, ag_threads = p\<rparr>, salt, hash)"
proof -
  let ?par = "''m='' @ decimal m @ '',t='' @ decimal t @ '',p='' @ decimal p"
  have eq: "phc_string m t p salt hash = [] @ CHR ''$'' # ''argon2id'' @ CHR ''$'' # ''v=19'' @ CHR ''$'' # ?par @ CHR ''$'' #
      b64_encode std_alphabet salt @ CHR ''$'' # b64_encode std_alphabet hash"
    by (simp add: phc_string_def)
  have par: "CHR ''$'' \<notin> set ?par" using no_dollar(2) by simp
  have parts: "split_on (CHR ''$'') (phc_string m t p salt hash) =
      [[], ''argon2id'', ''v=19'', ?par, b64_encode std_alphabet salt, b64_encode std_alphabet hash]"
    unfolding eq by (subst split_on_append, use par no_dollar(1) in simp)+ (simp add: split_on_none no_dollar(1))
  have "decode_version ''v=19'' = Some argon2_Version"
    by (simp add: decode_version_def expect_def has_prefix_def scan_int_def scan_digits_def is_digit_def is_space_def
        decimal_value_def digit_value_def argon2_Version_def)
  then show ?thesis
    unfolding decodeHash_def parts using decode_params_phc [OF assms] by (simp add: b64_decode_encode)
qed

lemma verify_hashed:
  assumes "HashPassword idkey (Some salt) p = Inr (Some h)" "\<And>p s t m th n k. idkey p s t m th n = Some k \<Longrightarrow> length k = n"
  obtains k where "idkey (string_bytes p) salt argonTime argonMemory argonThreads argonKeyLen = Some k"
    "\<And>q. VerifyPassword idkey q h =
      (case idkey (string_bytes q) salt argonTime argonMemory argonThreads argonKeyLen of
         None \<Rightarrow> VerifyPanics | Some k' \<Rightarrow> if k' = k then PasswordMatch else PasswordMismatch)"
proof -
  obtain k where k: "idkey (string_bytes p) salt argonTime argonMemory argonThreads argonKeyLen = Some k"
      "h = phc_string argonMemory argonTime argonThreads salt k"
    using assms(1) by (auto simp: HashPassword_def split: if_splits)
  have "decodeHash h = Some (\<lparr>ag_memory = argonMemory, ag_time = argonTime, ag_threads = argonThreads\<rparr>, salt, k)"
    unfolding k(2) by (rule decodeHash_phc) (simp_all add: argonMemory_def argonTime_def argonThreads_def)
  then show thesis using that [OF k(1)] assms(2) [OF k(1)] by (simp add: VerifyPassword_def)
qed

text \<open>A password verifies against a hash exactly when its derived key is the hashed one's.\<close>

theorem password_round_trip:
  assumes "HashPassword idkey (Some salt) p = Inr (Some h)" "\<forall>p s t m th n k. idkey p s t m th n = Some k \<longrightarrow> length k = n"
  shows "VerifyPassword idkey p h = PasswordMatch \<and>
    (VerifyPassword idkey q h = PasswordMatch \<longleftrightarrow>
      idkey (string_bytes q) salt argonTime argonMemory argonThreads argonKeyLen =
      idkey (string_bytes p) salt argonTime argonMemory argonThreads argonKeyLen) \<and>
    VerifyPassword idkey q h \<noteq> InvalidHash"
proof -
  obtain k where "idkey (string_bytes p) salt argonTime argonMemory argonThreads argonKeyLen = Some k"
    "\<And>q. VerifyPassword idkey q h =
      (case idkey (string_bytes q) salt argonTime argonMemory argonThreads argonKeyLen of
         None \<Rightarrow> VerifyPanics | Some k' \<Rightarrow> if k' = k then PasswordMatch else PasswordMismatch)"
    by (rule verify_hashed [OF assms(1)]) (use assms(2) in blast)+
  then show ?thesis by (auto split: option.split)
qed

text \<open>A key derivation that repeats the password up to the key length, for samples.\<close>

definition sample_idkey :: idkey where
  "sample_idkey p s t m th n = (if t < 1 \<or> th < 1 then None else Some (take n (p @ replicate n 0)))"

lemma sample_idkey_length: "\<forall>p s t m th n k. sample_idkey p s t m th n = Some k \<longrightarrow> length k = n"
  by (auto simp: sample_idkey_def min_def)

lemma sample_hash: "p \<noteq> [] \<Longrightarrow> \<exists>h. HashPassword sample_idkey (Some salt) p = Inr (Some h)"
  by (simp add: HashPassword_def sample_idkey_def argonTime_def argonThreads_def)

theorem password_round_trip_witness:
  "\<exists>h. HashPassword sample_idkey (Some [1, 2]) ''secret'' = Inr (Some h) \<and>
     VerifyPassword sample_idkey ''secret'' h = PasswordMatch \<and> VerifyPassword sample_idkey ''Secret'' h \<noteq> PasswordMatch"
proof -
  obtain h where h: "HashPassword sample_idkey (Some [1, 2]) ''secret'' = Inr (Some h)" using sample_hash by blast
  have "string_bytes ''Secret'' \<noteq> string_bytes ''secret''" by (simp add: string_bytes_def byte_of_char_def)
  then have "sample_idkey (string_bytes ''Secret'') [1, 2] argonTime argonMemory argonThreads argonKeyLen \<noteq>
      sample_idkey (string_bytes ''secret'') [1, 2] argonTime argonMemory argonThreads argonKeyLen"
    by (simp add: sample_idkey_def argonTime_def argonThreads_def argonKeyLen_def string_bytes_def byte_of_char_def)
  then show ?thesis
    using h password_round_trip [OF h sample_idkey_length, of "''Secret''"] by blast
qed

section \<open>Opaque tokens\<close>

text \<open>The two services hash a token alike, each in its own way.\<close>

lemma nibbles: "unat (drop_bit 4 (b :: byte)) = unat b div 16" "unat (and b 15) = unat b mod 16"
proof -
  show "unat (drop_bit 4 b) = unat b div 16" using byte_less [of b]
    by (simp only: unsigned_drop_bit_eq) (simp add: drop_bit_eq_div take_bit_eq_mod)
  have "and b 15 = take_bit 4 b" by (simp only: take_bit_eq_mask) (simp add: mask_eq_exp_minus_1)
  then have "unat (and b 15) = take_bit 4 (unat b)" by (simp only: unsigned_take_bit_eq)
  then show "unat (and b 15) = unat b mod 16" by (simp add: take_bit_eq_mod)
qed

lemma hashBootstrapToken_eq: "hashBootstrapToken c = HashOpaqueToken c"
  by (simp add: hashBootstrapToken_def HashOpaqueToken_def hex_encode_def nibbles hex_digits_def)

end
