(* ===== verification/Sha256_Bits.thy ===== *)
theory Sha256_Bits
  imports Credentials
begin

text \<open>
  SHA-256 on lists of bits, least significant first, an equivalent of \<open>Sum256\<close> that the kernel evaluates quickly:
  a rotation is a cut of the list and an addition a ripple of carries.
\<close>

definition word_bits :: "word32 \<Rightarrow> bool list" where
  "word_bits w = map (bit w) [0..<32]"

fun add_bits :: "bool \<Rightarrow> bool list \<Rightarrow> bool list \<Rightarrow> bool list" where
  "add_bits c (x # xs) (y # ys) = ((x \<noteq> y) \<noteq> c) # add_bits (if x = y then x else c) xs ys"
| "add_bits c _ _ = []"

definition rot_bits :: "nat \<Rightarrow> bool list \<Rightarrow> bool list" where
  "rot_bits n xs = drop n xs @ take n xs"

definition shift_bits :: "nat \<Rightarrow> bool list \<Rightarrow> bool list" where
  "shift_bits n xs = drop n xs @ replicate n False"

definition xor_bits :: "bool list \<Rightarrow> bool list \<Rightarrow> bool list" where
  "xor_bits = map2 (\<noteq>)"

definition and_bits :: "bool list \<Rightarrow> bool list \<Rightarrow> bool list" where
  "and_bits = map2 (\<and>)"

fun num_bits :: "num \<Rightarrow> bool list" where
  "num_bits num.One = [True]"
| "num_bits (num.Bit0 n) = False # num_bits n"
| "num_bits (num.Bit1 n) = True # num_bits n"

definition numeral_bits :: "num \<Rightarrow> bool list" where
  "numeral_bits n = take 32 (num_bits n @ replicate 32 False)"

section \<open>Each operation on bits is the operation on words\<close>

lemma length_word_bits [simp]: "length (word_bits w) = 32"
  by (simp add: word_bits_def)

lemma word_bits_nth: "i < 32 \<Longrightarrow> word_bits w ! i = bit w i"
  by (simp add: word_bits_def)

lemma word_bits_xor: "word_bits (a XOR b) = xor_bits (word_bits a) (word_bits b)"
  by (rule nth_equalityI) (simp_all add: xor_bits_def word_bits_nth bit_xor_iff)

lemma word_bits_and: "word_bits (a AND b) = and_bits (word_bits a) (word_bits b)"
  by (rule nth_equalityI) (simp_all add: and_bits_def word_bits_nth bit_and_iff)

lemma word_bits_not: "word_bits (NOT a) = map Not (word_bits a)"
  by (rule nth_equalityI) (simp_all add: word_bits_nth bit_not_iff)

lemma word_bits_drop: "n \<le> 32 \<Longrightarrow> word_bits (drop_bit n a) = shift_bits n (word_bits a)"
  by (rule nth_equalityI) (auto simp: shift_bits_def word_bits_nth bit_drop_bit_eq nth_append bit_imp_le_length not_less dest: bit_imp_le_length)

lemma word_bits_rotr:
  assumes "n \<le> 32" shows "word_bits (rotr n a) = rot_bits n (word_bits a)"
proof (rule nth_equalityI)
  fix i assume i: "i < length (word_bits (rotr n a))"
  then show "word_bits (rotr n a) ! i = rot_bits n (word_bits a) ! i"
    using assms by (auto simp: rotr_def rot_bits_def word_bits_nth bit_or_iff bit_drop_bit_eq bit_push_bit_iff nth_append
        add.commute dest: bit_imp_le_length)
qed (use assms in \<open>simp add: rot_bits_def\<close>)

definition bits_value :: "bool list \<Rightarrow> nat" where
  "bits_value xs = horner_sum of_bool 2 xs"

lemma bits_value_simps [simp]: "bits_value [] = 0" "bits_value (x # xs) = of_bool x + 2 * bits_value xs"
  by (simp_all add: bits_value_def)

lemma bits_value_less: "bits_value xs < 2 ^ length xs"
  by (induction xs) auto

lemma bits_value_inj: "length xs = length ys \<Longrightarrow> bits_value xs = bits_value ys \<Longrightarrow> xs = ys"
proof (induction xs ys rule: list_induct2)
  case (Cons x xs y ys)
  then have "bits_value xs = bits_value ys \<and> x = y"
    by (cases x; cases y; simp; presburger)
  then show ?case using Cons by simp
qed simp

lemma bits_value_word: "bits_value (word_bits w) = unat w"
proof -
  have "word_bits w = map (bit (unat w)) [0..<32]"
    by (simp add: word_bits_def bit_unsigned_iff)
  then show ?thesis
    by (simp add: bits_value_def horner_sum_bit_eq_take_bit take_bit_eq_mod) (use unsigned_less [of w, where ?'a = nat] in simp)
qed

lemma bit_mod_double: "(of_bool b + 2 * k) mod (2 * m) = of_bool b + 2 * (k mod (m :: nat))" if "0 < m"
proof -
  have "k mod m < m" using that by simp
  then have "of_bool b + 2 * (k mod m) < 2 * m" by (cases b) auto
  moreover have "k = q * m + r \<Longrightarrow> of_bool b + 2 * k = of_bool b + 2 * r + q * (2 * m)" for q r
    by (simp add: algebra_simps)
  then have "of_bool b + 2 * k = of_bool b + 2 * (k mod m) + (k div m) * (2 * m)"
    using div_mult_mod_eq [of k m] by metis
  ultimately show ?thesis by (metis mod_less mod_mult_self1)
qed

lemma add_bits_value:
  "length xs = length ys \<Longrightarrow> length (add_bits c xs ys) = length xs \<and>
     bits_value (add_bits c xs ys) = (bits_value xs + bits_value ys + of_bool c) mod 2 ^ length xs"
proof (induction xs ys arbitrary: c rule: list_induct2)
  case (Cons x xs y ys)
  define c' where "c' = (if x = y then x else c)"
  have "bits_value (x # xs) + bits_value (y # ys) + of_bool c =
      of_bool ((x \<noteq> y) \<noteq> c) + 2 * (bits_value xs + bits_value ys + of_bool c')"
    by (cases x; cases y; cases c; simp add: c'_def)
  moreover have "bits_value (add_bits c (x # xs) (y # ys)) = of_bool ((x \<noteq> y) \<noteq> c) + 2 * bits_value (add_bits c' xs ys)"
    by (simp add: c'_def)
  ultimately show ?case using Cons.IH [of c'] Cons.hyps unfolding power_Suc length_Cons
    by (simp only: bit_mod_double zero_less_power zero_less_numeral add_bits.simps length_Cons c'_def [symmetric] simp_thms)
qed simp

lemma word_bits_add: "word_bits (a + b) = add_bits False (word_bits a) (word_bits b)"
  using add_bits_value [of "word_bits a" "word_bits b" False]
  by (intro bits_value_inj) (simp_all add: bits_value_word unat_word_ariths)

lemma word_bits_inj: "word_bits a = word_bits b \<longleftrightarrow> a = b"
  by (metis bits_value_word unsigned_word_eqI)

lemma bits_value_num: "bits_value (num_bits n) = numeral n"
  by (induction n) (simp_all add: numeral_Bit0 numeral_Bit1)

lemma bits_value_pad: "bits_value (xs @ replicate k False) = bits_value xs"
  by (induction xs) (simp_all, induction k, simp_all)

lemma bits_value_take: "bits_value (take k xs) = bits_value xs mod 2 ^ k"
proof (induction k arbitrary: xs)
  case (Suc k)
  then show ?case by (cases xs) (simp_all add: bit_mod_double)
qed simp

lemma word_bits_numeral: "word_bits (numeral n) = numeral_bits n"
proof (rule bits_value_inj)
  have "bits_value (numeral_bits n) = numeral n mod 2 ^ 32"
    unfolding numeral_bits_def bits_value_take bits_value_pad bits_value_num by (rule refl)
  moreover have "bits_value (word_bits (numeral n)) = numeral n mod 2 ^ 32"
    unfolding bits_value_word unat_numeral by simp
  ultimately show "bits_value (word_bits (numeral n)) = bits_value (numeral_bits n)" by simp
qed (simp add: numeral_bits_def)

section \<open>The digest\<close>

fun round_bits :: "bool list list \<Rightarrow> bool list \<times> bool list \<Rightarrow> bool list list" where
  "round_bits [a, b, c, d, e, f, g, h] (k, w) =
     (let t1 = add_bits False (add_bits False (add_bits False (add_bits False h
                 (xor_bits (rot_bits 6 e) (xor_bits (rot_bits 11 e) (rot_bits 25 e))))
                 (xor_bits (and_bits e f) (and_bits (map Not e) g))) k) w;
          t2 = add_bits False (xor_bits (rot_bits 2 a) (xor_bits (rot_bits 13 a) (rot_bits 22 a)))
                 (xor_bits (and_bits a b) (xor_bits (and_bits a c) (and_bits b c)))
      in [add_bits False t1 t2, a, b, c, add_bits False d t1, e, f, g])"
| "round_bits s _ = s"

fun extend_bits :: "nat \<Rightarrow> bool list list \<Rightarrow> bool list list" where
  "extend_bits 0 ws = ws"
| "extend_bits (Suc n) ws =
     (let t = length ws; v1 = ws ! (t - 2); v2 = ws ! (t - 15);
          t1 = xor_bits (rot_bits 17 v1) (xor_bits (rot_bits 19 v1) (shift_bits 10 v1));
          t2 = xor_bits (rot_bits 7 v2) (xor_bits (rot_bits 18 v2) (shift_bits 3 v2))
      in extend_bits n (ws @ [add_bits False (add_bits False (add_bits False t1 (ws ! (t - 7))) t2) (ws ! (t - 16))]))"

lemmas word_bits_ops = word_bits_add word_bits_xor word_bits_and word_bits_not word_bits_drop word_bits_rotr

lemma round_bits: "map word_bits (sha256_round s (k, w)) = round_bits (map word_bits s) (word_bits k, word_bits w)"
  by (cases "(s, (k, w))" rule: sha256_round.cases) (simp_all add: Let_def word_bits_ops)

lemma rounds_bits:
  "map word_bits (foldl sha256_round s kws) = foldl round_bits (map word_bits s) (map (map_prod word_bits word_bits) kws)"
  by (induction kws arbitrary: s) (auto simp: round_bits)

lemma extend_bits: "15 < length ws \<Longrightarrow> map word_bits (extend_words n ws) = extend_bits n (map word_bits ws)"
  by (induction n ws rule: extend_words.induct) (simp_all add: Let_def word_bits_ops)

definition block_bits :: "bool list list \<Rightarrow> bool list list \<Rightarrow> bool list list \<Rightarrow> bool list list" where
  "block_bits ks s ws = map2 (add_bits False) s (foldl round_bits s (zip ks (extend_bits 48 ws)))"

lemma block_bits:
  assumes "15 < length (be_words block)"
  shows "map word_bits (sha256_block s block) = block_bits (map word_bits sha256_k) (map word_bits s) (map word_bits (be_words block))"
proof -
  have "map word_bits (map2 (+) s t) = map2 (add_bits False) (map word_bits s) (map word_bits t)" for s t
    by (induction s t rule: list_induct2') (simp_all add: word_bits_add)
  moreover have "map (map_prod word_bits word_bits) (zip sha256_k ws) = zip (map word_bits sha256_k) (map word_bits ws)" for ws
    by (simp add: zip_map_map map_prod_def)
  ultimately show ?thesis
    unfolding sha256_block_def block_bits_def by (simp only: rounds_bits extend_bits [OF assms])
qed

section \<open>Evaluation\<close>

lemma word_bits_zero: "word_bits 0 = replicate 32 False"
  by (rule nth_equalityI) (simp_all add: word_bits_nth)

lemmas sha256_bits = sha256_k_def sha256_init_def list.map word_bits_numeral word_bits_zero

lemma big_endian64_eq: "big_endian64 n = map (\<lambda>k. of_nat (n div 256 ^ k)) [7, 6, 5, 4, 3, 2, 1, 0]"
  by (simp add: big_endian64_def upt_rec)

text \<open>The digest of a message that fits in one block, from the bits of its block's words.\<close>

lemma Sum256_one_block:
  assumes "length bs < 56" "be_words (sha256_pad bs) = ws" "length ws = 16"
    and "block_bits (map word_bits sha256_k) (map word_bits sha256_init) (map word_bits ws) = map word_bits h"
  shows "Sum256 bs = concat (map be_bytes h)"
proof -
  have "(119 - length bs) mod 64 = 55 - length bs" using assms(1) by (simp add: mod_if)
  then have len: "length (sha256_pad bs) = 64" using assms(1) by (simp add: sha256_pad_def big_endian64_def)
  then have "blocks64 (sha256_pad bs) = [sha256_pad bs]"
    by (subst blocks64.simps) (auto simp: blocks64.simps)
  moreover have "map word_bits (sha256_block sha256_init (sha256_pad bs)) = map word_bits h"
    using assms by (simp add: block_bits [of "sha256_pad bs"])
  then have "sha256_block sha256_init (sha256_pad bs) = h"
    by (simp add: inj_map_eq_map inj_def word_bits_inj)
  ultimately show ?thesis by (simp add: Sum256_def)
qed

text \<open>The digest of the FIPS 180-4 example, and of two short tokens.\<close>

lemma sha_abc_pad: "sha256_pad (string_bytes ''abc'') = [97, 98, 99, 128] @ replicate 52 0 @ [0, 0, 0, 0, 0, 0, 0, 24]"
  by (simp add: sha256_pad_def string_bytes_def byte_of_char_def big_endian64_eq)

lemma sha_abc_words: "be_words (sha256_pad (string_bytes ''abc'')) =
   [1633837952, 0, 0, 0, 0, 0, 0, 0, 0, 0, 0, 0, 0, 0, 0, 24]"
  unfolding sha_abc_pad by code_simp

lemma sha_abc_block: "block_bits (map word_bits sha256_k) (map word_bits sha256_init)
   (map word_bits [1633837952, 0, 0, 0, 0, 0, 0, 0, 0, 0, 0, 0, 0, 0, 0, 24]) =
   map word_bits [3128432319, 2399260650, 1094795486, 1571693091, 2953011619, 2518121116, 3021012833, 4060091821]"
  unfolding sha256_bits by code_simp

lemma sha_abc_digest: "HashOpaqueToken ''abc'' =
   ''ba7816bf8f01cfea414140de5dae2223b00361a396177a9cb410ff61f20015ad''"
proof -
  have "Sum256 (string_bytes ''abc'') = concat (map be_bytes [3128432319, 2399260650, 1094795486, 1571693091, 2953011619, 2518121116, 3021012833, 4060091821])"
    by (rule Sum256_one_block [OF _ sha_abc_words _ sha_abc_block]) (simp_all add: string_bytes_def)
  also have "\<dots> = [186, 120, 22, 191, 143, 1, 207, 234, 65, 65, 64, 222, 93, 174, 34, 35, 176, 3, 97, 163, 150, 23, 122, 156, 180, 16, 255, 97, 242, 0, 21, 173]" by code_simp
  finally show ?thesis by (simp add: HashOpaqueToken_def hex_encode_def hex_digits_def)
qed

lemma sha_c_pad: "sha256_pad (string_bytes ''c'') = [99, 128] @ replicate 54 0 @ [0, 0, 0, 0, 0, 0, 0, 8]"
  by (simp add: sha256_pad_def string_bytes_def byte_of_char_def big_endian64_eq)

lemma sha_c_words: "be_words (sha256_pad (string_bytes ''c'')) =
   [1669332992, 0, 0, 0, 0, 0, 0, 0, 0, 0, 0, 0, 0, 0, 0, 8]"
  unfolding sha_c_pad by code_simp

lemma sha_c_block: "block_bits (map word_bits sha256_k) (map word_bits sha256_init)
   (map word_bits [1669332992, 0, 0, 0, 0, 0, 0, 0, 0, 0, 0, 0, 0, 0, 0, 8]) =
   map word_bits [779955203, 2840623842, 1710028213, 896042405, 865313282, 2636387220, 2574411169, 2723868614]"
  unfolding sha256_bits by code_simp

lemma sha_c_digest: "HashOpaqueToken ''c'' =
   ''2e7d2c03a9507ae265ecf5b5356885a53393a2029d241394997265a1a25aefc6''"
proof -
  have "Sum256 (string_bytes ''c'') = concat (map be_bytes [779955203, 2840623842, 1710028213, 896042405, 865313282, 2636387220, 2574411169, 2723868614])"
    by (rule Sum256_one_block [OF _ sha_c_words _ sha_c_block]) (simp_all add: string_bytes_def)
  also have "\<dots> = [46, 125, 44, 3, 169, 80, 122, 226, 101, 236, 245, 181, 53, 104, 133, 165, 51, 147, 162, 2, 157, 36, 19, 148, 153, 114, 101, 161, 162, 90, 239, 198]" by code_simp
  finally show ?thesis by (simp add: HashOpaqueToken_def hex_encode_def hex_digits_def)
qed

lemma sha_a43_pad: "sha256_pad (string_bytes ''AAAAAAAAAAAAAAAAAAAAAAAAAAAAAAAAAAAAAAAAAAA'') = [65, 65, 65, 65, 65, 65, 65, 65, 65, 65, 65, 65, 65, 65, 65, 65, 65, 65, 65, 65, 65, 65, 65, 65, 65, 65, 65, 65, 65, 65, 65, 65, 65, 65, 65, 65, 65, 65, 65, 65, 65, 65, 65, 128] @ replicate 12 0 @ [0, 0, 0, 0, 0, 0, 1, 88]"
  by (simp add: sha256_pad_def string_bytes_def byte_of_char_def big_endian64_eq)

lemma sha_a43_words: "be_words (sha256_pad (string_bytes ''AAAAAAAAAAAAAAAAAAAAAAAAAAAAAAAAAAAAAAAAAAA'')) =
   [1094795585, 1094795585, 1094795585, 1094795585, 1094795585, 1094795585, 1094795585, 1094795585, 1094795585, 1094795585, 1094795648, 0, 0, 0, 0, 344]"
  unfolding sha_a43_pad by code_simp

lemma sha_a43_block: "block_bits (map word_bits sha256_k) (map word_bits sha256_init)
   (map word_bits [1094795585, 1094795585, 1094795585, 1094795585, 1094795585, 1094795585, 1094795585, 1094795585, 1094795585, 1094795585, 1094795648, 0, 0, 0, 0, 344]) =
   map word_bits [251687813, 3069826231, 4004672646, 95412649, 2225120191, 2750420176, 2653583436, 3924151578]"
  unfolding sha256_bits by code_simp

lemma sha_a43_digest: "HashOpaqueToken ''AAAAAAAAAAAAAAAAAAAAAAAAAAAAAAAAAAAAAAAAAAA'' =
   ''0f007385b6f9d4b7eeb2748605afe1a984a0a3bfa3f014d09e2a784ce9e5cd1a''"
proof -
  have "Sum256 (string_bytes ''AAAAAAAAAAAAAAAAAAAAAAAAAAAAAAAAAAAAAAAAAAA'') = concat (map be_bytes [251687813, 3069826231, 4004672646, 95412649, 2225120191, 2750420176, 2653583436, 3924151578])"
    by (rule Sum256_one_block [OF _ sha_a43_words _ sha_a43_block]) (simp_all add: string_bytes_def)
  also have "\<dots> = [15, 0, 115, 133, 182, 249, 212, 183, 238, 178, 116, 134, 5, 175, 225, 169, 132, 160, 163, 191, 163, 240, 20, 208, 158, 42, 120, 76, 233, 229, 205, 26]" by code_simp
  finally show ?thesis by (simp add: HashOpaqueToken_def hex_encode_def hex_digits_def)
qed

end
