(* ===== verification/Identity_Props.thy ===== *)
theory Identity_Props
  imports Identity_Auth Credentials_Props Pipeline_Props Sha256_Bits
begin

text \<open>What the onboarding and identity services guarantee, over every sequence of operations.\<close>

section \<open>The specification and the invariant\<close>

text \<open>
  C29. Whatever operations run, in any order, with any failures, the tables move only by steps of the
  specification \<open>identity_step\<close>.
\<close>

theorem identity_refines_spec: "identity_step\<^sup>*\<^sup>* d (fold (run_identity_op dp) ops d)"
  by (induction ops arbitrary: d) (auto intro: rtranclp_trans [OF run_identity_op_moves])

text \<open>
  C28. Every sequence of operations keeps the invariant: at most one user per organization, an owner; unique ids and
  token hashes; refresh tokens that belong to users; an onboarded organization has a legal name, a trade, a cost
  code and a default calendar.
\<close>

theorem identity_invariant: "identity_ok d \<Longrightarrow> identity_ok (fold (run_identity_op dp) ops d)"
  by (rule identity_steps_ok [OF run_identity_ops_moves])

text \<open>
  A company that has completed its onboarding: a profile, a trade, a cost code, a default calendar; its owner, whose
  password is "old password!"; one open session with the refresh token "c" and one unused reset token "r".
\<close>

definition sample_password_hash :: string where
  "sample_password_hash = phc_string argonMemory argonTime argonThreads [1, 2] (take 32 (string_bytes ''old password!'' @ replicate 32 0))"

definition sample_profile :: CompanyProfile where
  "sample_profile = \<lparr>cy_LegalName = Some ''Acme'', cy_Address = None, cy_EIN = None, cy_CompanyType = None, cy_Region = None,
     cy_OnboardingComplete = True, cy_OnboardingCompletedAt = Some 0\<rparr>"

definition sample_user :: User where
  "sample_user = \<lparr>ur_ID = 5, ur_OrgID = 9, ur_Email = ''a@b.c'', ur_DisplayName = ''A'', ur_Role = ''owner'', ur_Locale = ''en-US'',
     ur_OIDCSubject = None, ur_PasswordHash = sample_password_hash, ur_LastLoginAt = None, ur_CreatedAt = 0, ur_UpdatedAt = 0\<rparr>"

definition sample_identity_db :: identity_db where
  "sample_identity_db = \<lparr>db_orgs = [9], db_projects = [], db_audit = [], db_jobs = [],
     db_organizations = [\<lparr>og_ID = 9, og_Profile = sample_profile, og_CreatedAt = 0, og_UpdatedAt = 0\<rparr>], db_bootstrap = [],
     db_trades = [\<lparr>tc_ID = 2, tc_OrgID = 9, tc_Code = ''RF'', tc_Name = ''Roof'', tc_Description = None, tc_IsDefault = True, tc_CreatedAt = 0, tc_UpdatedAt = 0\<rparr>],
     db_costs = [\<lparr>cc_ID = 3, cc_OrgID = 9, cc_Code = ''01-10'', cc_Name = ''Roof'', cc_Division = ''01'', cc_ParentCode = None, cc_IsDefault = True,
       cc_CreatedAt = 0, cc_UpdatedAt = 0\<rparr>],
     db_calendars = [\<lparr>wc_ID = 4, wc_OrgID = 9, wc_Name = ''Std'', wc_Timezone = ''UTC'', wc_WorkingDaysMask = 31, wc_DailyWorkMinutes = 480,
       wc_IsDefault = True, wc_CreatedAt = 0, wc_UpdatedAt = 0\<rparr>], db_holidays = [], db_jurisdictions = [], db_users = [sample_user],
     db_refresh = [\<lparr>rt_ID = 6, rt_UserID = 5, rt_OrgID = 9, rt_TokenHash = HashOpaqueToken ''c'', rt_IssuedAt = 0, rt_ExpiresAt = 10 ^ 18,
       rt_RevokedAt = None, rt_LastUsedAt = None\<rparr>],
     db_reset = [\<lparr>pw_ID = 7, pw_UserID = 5, pw_TokenHash = HashOpaqueToken ''r'', pw_IssuedAt = 0, pw_ExpiresAt = 10 ^ 18, pw_RedeemedAt = None\<rparr>]\<rparr>"

definition sample_auth :: AuthService where
  "sample_auth = \<lparr>as_issuer = \<lparr>ti_sign = (\<lambda>_. Some ''jwt''), ti_issuer = ''i'', ti_audience = ''a'', ti_accessTTL = 900 * second\<rparr>,
     as_idkey = sample_idkey, as_refreshTTL = hour, as_resetTTL = hour, as_appBaseURL = [], as_dummyHash = sample_password_hash,
     as_uuid_string = (\<lambda>_. ''u'')\<rparr>"

definition sample_deployment :: deployment where
  "sample_deployment = \<lparr>dp_auth = sample_auth, dp_valid_tz = (\<lambda>_. True), dp_jsonb = (\<lambda>s. s)\<rparr>"

text \<open>A request that draws 32 zero bytes for its token, whose text is 43 times the letter A.\<close>

definition sample_request :: "nat \<Rightarrow> request" where
  "sample_request k = \<lparr>rq_env = quiet_env k, rq_env2 = quiet_env k, rq_now = 0, rq_now2 = 0, rq_mint = 0, rq_salt = Some [1, 2],
     rq_token = Some (replicate 32 0)\<rparr>"

lemma sample_token: "b64_encode url_alphabet (replicate 32 0) = ''AAAAAAAAAAAAAAAAAAAAAAAAAAAAAAAAAAAAAAAAAAA''"
proof -
  have "replicate 32 (0 :: byte) = [0, 0, 0, 0, 0, 0, 0, 0, 0, 0, 0, 0, 0, 0, 0, 0, 0, 0, 0, 0, 0, 0, 0, 0, 0, 0, 0, 0, 0, 0, 0, 0]" by (simp add: numeral_eq_Suc)
  then show ?thesis by (simp add: b64_encode_def url_alphabet_def)
qed

lemmas sample_identity_defs = sample_identity_db_def sample_user_def sample_profile_def

lemma sample_onboarded: "onboarded sample_identity_db org \<longleftrightarrow> org = 9"
  by (simp add: onboarded_def profile_of_def sample_identity_defs)

lemma sample_identity_ok: "identity_ok sample_identity_db"
proof -
  have "ready sample_identity_db 9" by (simp add: ready_def profile_of_def named_def sample_identity_defs)
  moreover have "users_ok sample_identity_db"
    by (simp add: users_ok_def sample_identity_defs users_of_def token_principal_def user_principal_def)
  moreover have "wizard_ok sample_identity_db"
    by (simp add: wizard_ok_def sample_identity_defs good_trade_def good_cost_def good_calendar_def isShortCode_def looksLikeCSICode_def
      upper_letters_def is_digit_def)
  ultimately show ?thesis
    by (simp add: identity_ok_parts sample_onboarded)
      (simp add: sample_identity_defs bt.token_ok_def rt.token_ok_def pw.token_ok_def)
qed

theorem identity_invariant_witness: "\<forall>dp ops. identity_ok (fold (run_identity_op dp) ops sample_identity_db)"
  using identity_invariant [OF sample_identity_ok] by blast

text \<open>
  Completing the wizard closes it: no later operation changes the profile, trades, cost codes, calendars or
  jurisdictions of an onboarded organization.
\<close>

theorem onboarded_org_frozen:
  assumes "onboarded d org"
  shows "setup_view (fold (run_identity_op dp) ops d) org = setup_view d org"
  by (rule identity_steps_view [OF run_identity_ops_moves assms])

theorem onboarded_org_frozen_witness:
  "\<forall>dp ops. setup_view (fold (run_identity_op dp) ops sample_identity_db) 9 = setup_view sample_identity_db 9"
  using onboarded_org_frozen [of sample_identity_db 9] sample_onboarded by blast

section \<open>Sessions\<close>

text \<open>What a dead token is refused with.\<close>

lemma Refresh_dead:
  assumes "rt.dead (HashOpaqueToken c) (db_refresh d)"
  shows "\<exists>err. Refresh sv rq c d = (Inl err, d) \<and> (healthy (rq_env rq) \<longrightarrow> err = InvalidRefreshToken)"
proof (cases "c = []")
  case False
  have "List.find (\<lambda>t. rt_TokenHash t = HashOpaqueToken c \<and> rt_RevokedAt t = None \<and> rt_ExpiresAt t > to_timestamptz now) (db_refresh d) = None" for now
    using rt.dead_inactive [OF assms, of "to_timestamptz now"] by (simp add: rt.active_def [abs_def] unspent_iff)
  then show ?thesis
    using False by (auto simp: Refresh_def auth_mapped_def BeginTxFunc_def refresh_body_def GetActiveRefreshToken_def select_one_def
        stmt_def tmissing_def tbind_def healthy_def)
qed (simp add: Refresh_def)

lemma Refresh_Inr:
  assumes "fst (Refresh sv rq c d) = Inr p"
  obtains u ct s where "refresh_body sv (rq_env rq) (rq_token rq) (rq_now rq) (HashOpaqueToken c)
      \<lparr>s_db = d, s_draws = 0, s_aborted = False\<rparr> = Inr ((u, ct), s)" "snd (Refresh sv rq c d) = s_db s"
    "pa_RefreshToken p = ct" "pa_User p = u"
proof (cases "auth_mapped (BeginTxFunc (rq_env rq) (refresh_body sv (rq_env rq) (rq_token rq) (rq_now rq) (HashOpaqueToken c)) d)")
  case (Pair r d')
  with assms obtain u ct where r: "r = Inr (u, ct)" "p = token_pair sv (projr (mint_for sv (rq_mint rq) u)) ct u" "snd (Refresh sv rq c d) = d'"
    by (auto simp: Refresh_def split: sum.splits if_splits prod.splits)
  with Pair show thesis using that by (auto simp: auth_mapped_Inr BeginTxFunc_Inr token_pair_def)
qed

lemma RevokeRefreshToken_Inr:
  assumes "RevokeRefreshToken e i now s = Inr (x, s')"
  shows "s_db s' = db_refresh_update (update_where (\<lambda>t. rt_ID t = i \<and> \<not> rt_revoked t) (revoke_refresh now)) (s_db s)"
  using assms by (auto simp: RevokeRefreshToken_def update_found_Inr unspent_iff)

lemma Refresh_kills:
  assumes ok: "identity_ok d" and "fst (Refresh sv rq c d) = Inr p"
  shows "rt.dead (HashOpaqueToken c) (db_refresh (snd (Refresh sv rq c d)))"
  using assms(2)
proof (rule Refresh_Inr)
  fix u ct s assume body: "refresh_body sv (rq_env rq) (rq_token rq) (rq_now rq) (HashOpaqueToken c)
      \<lparr>s_db = d, s_draws = 0, s_aborted = False\<rparr> = Inr ((u, ct), s)" and s: "snd (Refresh sv rq c d) = s_db s"
  from body show ?thesis
  proof (rule refresh_body_Inr)
    let ?s0 = "\<lparr>s_db = d, s_draws = 0, s_aborted = False\<rparr>"
    fix tok s1 s2 y
    assume get: "GetActiveRefreshToken (rq_env rq) (HashOpaqueToken c) (rq_now rq) ?s0 = Inr (tok, ?s0)"
      and u: "u \<in> set (db_users (s_db ?s0))"
      and rev: "RevokeRefreshToken (rq_env rq) (rt_ID tok) (rq_now rq) ?s0 = Inr ((), s1)"
      and new: "createRefreshToken sv (rq_env rq) (rq_token rq) (rq_now rq) u s1 = Inr (ct, s2)"
      and rec: "Record (rq_env rq) (auth_entry sv (ur_OrgID u) (ur_ID u) ''auth.token.refreshed'') s2 = Inr (y, s)"
    from get have tok: "tok \<in> set (db_refresh d)" "rt_TokenHash tok = HashOpaqueToken c"
      by (auto simp: GetActiveRefreshToken_def select_one_Inr dest: find_SomeD)
    have "rt.dead (HashOpaqueToken c) (db_refresh (s_db s1))"
      using rt.spend_dead [of "db_refresh d" tok] ok tok RevokeRefreshToken_Inr [OF rev] by (simp add: identity_ok_def)
    moreover have "identity_step\<^sup>*\<^sup>* (s_db s1) (s_db s)"
      by (rule converse_rtranclp_into_rtranclp [OF createRefreshToken_step [OF new known_steps [OF tx_movesD [OF RevokeRefreshToken_moves rev] knownI [OF u]]]
          tx_movesD [OF moves_Record rec]])
    ultimately show ?thesis unfolding s using identity_steps_tokens rt.token_steps_dead by blast
  qed
qed

text \<open>
  C30. A refresh token is good for one refresh: once a refresh with it has succeeded, every later one, after any
  operations, fails without a write, in a healthy environment with the invalid-token error.
\<close>

theorem refresh_token_single_use:
  assumes "identity_ok d" "fst (Refresh (dp_auth dp) rq c d) = Inr p"
  shows "\<exists>err. Refresh (dp_auth dp) rq' c (fold (run_identity_op dp) ops (snd (Refresh (dp_auth dp) rq c d))) =
      (Inl err, fold (run_identity_op dp) ops (snd (Refresh (dp_auth dp) rq c d))) \<and>
    (healthy (rq_env rq') \<longrightarrow> err = InvalidRefreshToken)"
proof (rule Refresh_dead)
  have "identity_step\<^sup>*\<^sup>* (snd (Refresh (dp_auth dp) rq c d)) (fold (run_identity_op dp) ops (snd (Refresh (dp_auth dp) rq c d)))"
    by (rule run_identity_ops_moves)
  then show "rt.dead (HashOpaqueToken c) (db_refresh (fold (run_identity_op dp) ops (snd (Refresh (dp_auth dp) rq c d))))"
    using identity_steps_tokens rt.token_steps_dead Refresh_kills [OF assms] by blast
qed

lemma sample_refresh:
  "\<exists>p. fst (Refresh sample_auth (sample_request 20) ''c'' sample_identity_db) = Inr p"
  by (simp add: Refresh_def auth_mapped_def BeginTxFunc_def refresh_body_def GetActiveRefreshToken_def GetUserByID_def
      RevokeRefreshToken_def update_found_def update_affected_def createRefreshToken_def CreateRefreshToken_def insert_returning_def
      select_one_def stmt_def tmissing_def tbind_def tguard_def tret_def tlift_def GenerateOpaqueToken_def sample_token Let_def
      Record_def InsertAudit_def scrubAuditPayloads_def auth_entry_def update_where_def revoke_refresh_def mint_for_def Mint_def
      sample_auth_def sample_request_def sample_identity_defs quiet_env_def uuid_nil_def to_timestamptz_def sha_c_digest sha_a43_digest)

theorem refresh_token_single_use_witness:
  "\<forall>ops. \<exists>err. Refresh sample_auth (sample_request 30) ''c''
      (fold (run_identity_op sample_deployment) ops (snd (Refresh sample_auth (sample_request 20) ''c'' sample_identity_db))) =
     (Inl err, fold (run_identity_op sample_deployment) ops (snd (Refresh sample_auth (sample_request 20) ''c'' sample_identity_db)))"
proof -
  obtain p where p: "fst (Refresh (dp_auth sample_deployment) (sample_request 20) ''c'' sample_identity_db) = Inr p"
    using sample_refresh by (auto simp: sample_deployment_def)
  show ?thesis
    using refresh_token_single_use [OF sample_identity_ok p, of "sample_request 30"] by (auto simp: sample_deployment_def)
qed

end
