(* ===== verification/Sessions_Props.thy ===== *)
theory Sessions_Props
  imports Identity_Props
begin

text \<open>Login and password reset: who is let in, what a reset ends, and what it does not.\<close>

section \<open>Reset\<close>

lemma ResetPassword_Inr:
  assumes "fst (ResetPassword sv rq c pw d) = Inr ()"
  obtains h s where "HashPassword (as_idkey sv) (rq_salt rq) pw = Inr (Some h)" "validatePassword pw"
    "reset_body sv (rq_env rq) (rq_now rq) (HashOpaqueToken c) h \<lparr>s_db = d, s_draws = 0, s_aborted = False\<rparr> = Inr ((), s)"
    "snd (ResetPassword sv rq c pw d) = s_db s"
  using assms
  by (auto simp: ResetPassword_def hash_password_def ebind_Inr_iff require_that_def auth_mapped_def BeginTxFunc_def
      split: sum.splits option.splits if_splits)

lemma ResetPassword_dead:
  assumes "pw.dead (HashOpaqueToken c) (db_reset d)" shows "\<exists>err. ResetPassword sv rq c pw d = (Inl err, d)"
proof (cases "ResetPassword sv rq c pw d")
  case (Pair r d')
  have "List.find (\<lambda>t. pw_TokenHash t = HashOpaqueToken c \<and> pw_RedeemedAt t = None \<and> pw_ExpiresAt t > to_timestamptz now) (db_reset d) = None" for now
    using pw.dead_inactive [OF assms, of "to_timestamptz now"] by (simp add: pw.active_def [abs_def] unspent_iff)
  then have "reset_body sv (rq_env rq) (rq_now rq) (HashOpaqueToken c) h \<lparr>s_db = d, s_draws = 0, s_aborted = False\<rparr> \<noteq> Inr x" for h x
    by (auto simp: reset_body_def tbind_def GetActivePasswordResetToken_def select_one_def stmt_def tmissing_def)
  then show ?thesis
    by (auto simp: ResetPassword_def auth_mapped_def BeginTxFunc_def split: sum.splits)
qed

lemma reset_body_Inr:
  assumes "reset_body sv e now hash h s = Inr (x, s')"
  obtains tok u s1 s2 n s3 y where "tok \<in> set (db_reset (s_db s))" "pw_TokenHash tok = hash" "u \<in> set (db_users (s_db s))"
    "UpdatePasswordHash e (ur_ID u) h s = Inr ((), s1)" "RedeemPasswordResetToken e (pw_ID tok) now s1 = Inr ((), s2)"
    "RevokeAllRefreshTokensForUser e (ur_ID u) now s2 = Inr (n, s3)"
    "Record e (auth_entry sv (ur_OrgID u) (ur_ID u) ''auth.password_reset.completed'') s3 = Inr (y, s')" "pw_UserID tok = ur_ID u"
  using assms
  by (auto simp: reset_body_def tbind_Inr GetActivePasswordResetToken_def GetUserByID_def select_one_Inr dest!: find_SomeD)

text \<open>The state after each statement of a reset, for the tables it touches.\<close>

lemma UpdatePasswordHash_Inr:
  "UpdatePasswordHash e i h s = Inr (x, s') \<Longrightarrow> s_db s' = db_users_update (update_where (\<lambda>u. ur_ID u = i)
     (\<lambda>u. u\<lparr>ur_PasswordHash := h, ur_UpdatedAt := e_now e\<rparr>)) (s_db s)"
  by (auto simp: UpdatePasswordHash_def update_found_Inr)

lemma RedeemPasswordResetToken_Inr:
  "RedeemPasswordResetToken e i now s = Inr (x, s') \<Longrightarrow> s_db s' = db_reset_update (update_where
     (\<lambda>t. pw_ID t = i \<and> \<not> pw_redeemed t) (redeem_reset now)) (s_db s)"
  by (auto simp: RedeemPasswordResetToken_def update_found_Inr unspent_iff)

lemma RevokeAll_Inr:
  "RevokeAllRefreshTokensForUser e i now s = Inr (n, s') \<Longrightarrow> s_db s' = db_refresh_update (update_where
     (\<lambda>t. rt_UserID t = i \<and> \<not> rt_revoked t) (revoke_refresh now)) (s_db s)"
  by (auto simp: RevokeAllRefreshTokensForUser_def update_affected_Inr unspent_iff)

lemma Record_identity_tables:
  assumes "Record e p s = Inr (x, s')"
  shows "db_users (s_db s') = db_users (s_db s)" "db_refresh (s_db s') = db_refresh (s_db s)" "db_reset (s_db s') = db_reset (s_db s)"
  using assms by (auto elim!: Record_db)

lemma reset_body_tables:
  assumes "reset_body sv e now hash h s = Inr (x, s')"
  obtains tok u where "tok \<in> set (db_reset (s_db s))" "pw_TokenHash tok = hash" "u \<in> set (db_users (s_db s))" "pw_UserID tok = ur_ID u"
    "db_users (s_db s') = update_where (\<lambda>x. ur_ID x = ur_ID u) (\<lambda>x. x\<lparr>ur_PasswordHash := h, ur_UpdatedAt := e_now e\<rparr>) (db_users (s_db s))"
    "db_reset (s_db s') = update_where (\<lambda>t. pw_ID t = pw_ID tok \<and> \<not> pw_redeemed t) (redeem_reset now) (db_reset (s_db s))"
    "db_refresh (s_db s') = update_where (\<lambda>t. rt_UserID t = ur_ID u \<and> \<not> rt_revoked t) (revoke_refresh now) (db_refresh (s_db s))"
  using assms
proof (rule reset_body_Inr)
  fix tok u s1 s2 n s3 y
  assume row: "tok \<in> set (db_reset (s_db s))" "pw_TokenHash tok = hash" "u \<in> set (db_users (s_db s))" "pw_UserID tok = ur_ID u"
    and 1: "UpdatePasswordHash e (ur_ID u) h s = Inr ((), s1)" and 2: "RedeemPasswordResetToken e (pw_ID tok) now s1 = Inr ((), s2)"
    and 3: "RevokeAllRefreshTokensForUser e (ur_ID u) now s2 = Inr (n, s3)"
    and 4: "Record e (auth_entry sv (ur_OrgID u) (ur_ID u) ''auth.password_reset.completed'') s3 = Inr (y, s')"
  show thesis
    using Record_identity_tables [OF 4] UpdatePasswordHash_Inr [OF 1] RedeemPasswordResetToken_Inr [OF 2] RevokeAll_Inr [OF 3]
    by (intro that [OF row]) simp_all
qed

text \<open>
  C31. A password reset stores the hash of the new password for one user, uses up the reset token, and ends every
  session that user had: after any further operations none of the refresh tokens that were in the table buys a
  new one, and the reset token is refused.
\<close>

theorem reset_ends_every_session:
  assumes ok: "identity_ok d" and success: "fst (ResetPassword (dp_auth dp) rq c pw d) = Inr ()"
    and d': "d' = fold (run_identity_op dp) ops (snd (ResetPassword (dp_auth dp) rq c pw d))"
  shows "\<exists>u\<in>set (db_users d). \<exists>h. HashPassword (as_idkey (dp_auth dp)) (rq_salt rq) pw = Inr (Some h) \<and>
    db_users (snd (ResetPassword (dp_auth dp) rq c pw d)) =
      update_where (\<lambda>x. ur_ID x = ur_ID u) (\<lambda>x. x\<lparr>ur_PasswordHash := h, ur_UpdatedAt := e_now (rq_env rq)\<rparr>) (db_users d) \<and>
    (\<forall>t\<in>set (db_refresh d). rt_UserID t = ur_ID u \<longrightarrow> (\<forall>sv rq' c'. HashOpaqueToken c' = rt_TokenHash t \<longrightarrow>
       (\<exists>err. Refresh sv rq' c' d' = (Inl err, d')))) \<and>
    (\<forall>sv rq' pw'. \<exists>err. ResetPassword sv rq' c pw' d' = (Inl err, d'))"
  using success
proof (rule ResetPassword_Inr)
  fix h s
  assume h: "HashPassword (as_idkey (dp_auth dp)) (rq_salt rq) pw = Inr (Some h)"
    and body: "reset_body (dp_auth dp) (rq_env rq) (rq_now rq) (HashOpaqueToken c) h \<lparr>s_db = d, s_draws = 0, s_aborted = False\<rparr> = Inr ((), s)"
    and s: "snd (ResetPassword (dp_auth dp) rq c pw d) = s_db s"
  have later: "rt.token_step\<^sup>*\<^sup>* (db_refresh (s_db s)) (db_refresh d')" "pw.token_step\<^sup>*\<^sup>* (db_reset (s_db s)) (db_reset d')"
    using identity_steps_tokens [OF run_identity_ops_moves [of "s_db s" dp ops]] by (simp_all add: d' s)
  from body obtain tok u where row: "tok \<in> set (db_reset d)" "pw_TokenHash tok = HashOpaqueToken c" "u \<in> set (db_users d)"
    and tabs: "db_users (s_db s) = update_where (\<lambda>x. ur_ID x = ur_ID u) (\<lambda>x. x\<lparr>ur_PasswordHash := h, ur_UpdatedAt := e_now (rq_env rq)\<rparr>) (db_users d)"
      "db_reset (s_db s) = update_where (\<lambda>t. pw_ID t = pw_ID tok \<and> \<not> pw_redeemed t) (redeem_reset (rq_now rq)) (db_reset d)"
      "db_refresh (s_db s) = update_where (\<lambda>t. rt_UserID t = ur_ID u \<and> \<not> rt_revoked t) (revoke_refresh (rq_now rq)) (db_refresh d)"
    by (rule reset_body_tables) simp
  have "rt.dead (rt_TokenHash t) (db_refresh d')" if "t \<in> set (db_refresh d)" "rt_UserID t = ur_ID u" for t
    using rt.token_steps_dead [OF later(1)] rt.spend_all_dead [of t "db_refresh d" "\<lambda>t. rt_UserID t = ur_ID u"] that ok
    by (simp add: tabs identity_ok_def)
  then have old: "\<exists>err. Refresh sv rq' c' d' = (Inl err, d')"
    if "t \<in> set (db_refresh d)" "rt_UserID t = ur_ID u" "HashOpaqueToken c' = rt_TokenHash t" for t sv rq' c'
    using Refresh_dead [of c' d' sv rq'] that by metis
  have "pw.dead (HashOpaqueToken c) (db_reset d')"
    using pw.token_steps_dead [OF later(2)] pw.spend_dead [of "db_reset d" tok] row ok by (simp add: tabs identity_ok_def)
  then have again: "\<exists>err. ResetPassword sv rq' c pw' d' = (Inl err, d')" for sv rq' pw'
    by (rule ResetPassword_dead)
  show ?thesis unfolding s by (intro bexI [OF _ row(3)] exI [of _ h]) (use h tabs(1) old again in blast)
qed

lemmas identity_eval = auth_mapped_def BeginTxFunc_def GetActiveRefreshToken_def GetUserByID_def GetUserByEmailGlobal_def
  GetActivePasswordResetToken_def UpdatePasswordHash_def RedeemPasswordResetToken_def RevokeAllRefreshTokensForUser_def TouchLastLogin_def
  update_found_def update_affected_def createRefreshToken_def CreateRefreshToken_def insert_returning_def
  select_one_def stmt_def tmissing_def tfound_def tbind_def tguard_def tret_def tlift_def GenerateOpaqueToken_def Let_def Record_def
  InsertAudit_def scrubAuditPayloads_def auth_entry_def update_where_def revoke_refresh_def mint_for_def Mint_def
  sample_auth_def sample_request_def quiet_env_def uuid_nil_def to_timestamptz_def

lemma sample_new_hash: "\<exists>h. HashPassword sample_idkey (Some [1, 2]) ''new password!'' = Inr (Some h)"
  by (rule sample_hash) simp

lemma sample_reset:
  "fst (ResetPassword sample_auth (sample_request 40) ''r'' ''new password!'' sample_identity_db) = Inr ()"
  using sample_new_hash
  by (auto simp: ResetPassword_def reset_body_def validatePassword_def hash_password_def require_that_def identity_eval sample_identity_defs)

theorem reset_ends_every_session_witness:
  "\<forall>ops sv rq'. \<exists>err. Refresh sv rq' ''c'' (fold (run_identity_op sample_deployment) ops
      (snd (ResetPassword sample_auth (sample_request 40) ''r'' ''new password!'' sample_identity_db))) =
    (Inl err, fold (run_identity_op sample_deployment) ops
      (snd (ResetPassword sample_auth (sample_request 40) ''r'' ''new password!'' sample_identity_db)))"
proof (intro allI)
  fix ops sv rq'
  have "fst (ResetPassword (dp_auth sample_deployment) (sample_request 40) ''r'' ''new password!'' sample_identity_db) = Inr ()"
    using sample_reset by (simp add: sample_deployment_def)
  from reset_ends_every_session [OF sample_identity_ok this refl, of ops]
  show "\<exists>err. Refresh sv rq' ''c'' (fold (run_identity_op sample_deployment) ops
      (snd (ResetPassword sample_auth (sample_request 40) ''r'' ''new password!'' sample_identity_db))) =
    (Inl err, fold (run_identity_op sample_deployment) ops
      (snd (ResetPassword sample_auth (sample_request 40) ''r'' ''new password!'' sample_identity_db)))"
    by (auto simp: sample_identity_defs sample_deployment_def)
qed

section \<open>Login\<close>

text \<open>
  C32. A login succeeds only for a user with that email whose stored hash the password verifies; in a healthy
  environment every other login - an unknown email, a wrong password, an account without a password - fails with
  one and the same error and changes nothing.
\<close>

theorem login_uniform:
  "(fst (Login sv rq email pass d) = Inr p \<longrightarrow>
     (\<exists>u\<in>set (db_users d). pa_User p = u \<and> to_lower (ur_Email u) = to_lower (trim_space email) \<and>
        VerifyPassword (as_idkey sv) pass (ur_PasswordHash u) = PasswordMatch)) \<and>
   (healthy (rq_env rq) \<and> (\<forall>h\<in>insert (as_dummyHash sv) (ur_PasswordHash ` set (db_users d)). VerifyPassword (as_idkey sv) pass h \<noteq> VerifyPanics) \<and>
    (\<forall>u\<in>set (db_users d). to_lower (ur_Email u) = to_lower (trim_space email) \<longrightarrow>
       VerifyPassword (as_idkey sv) pass (ur_PasswordHash u) \<noteq> PasswordMatch) \<longrightarrow>
    Login sv rq email pass d = (Inl InvalidCredentials, d))"
proof (intro conjI impI)
  assume "fst (Login sv rq email pass d) = Inr p"
  then obtain u d1 where "login_tx sv rq email pass d = (Inr u, d1)" "pa_User p = u"
    by (auto simp: Login_def then_issue_def issueTokenPair_def token_pair_def split: prod.splits sum.splits)
  then obtain s where "login_body sv (rq_env rq) (rq_now rq) (trim_space email) pass \<lparr>s_db = d, s_draws = 0, s_aborted = False\<rparr> = Inr (u, s)"
    by (auto simp: login_tx_def Let_def auth_mapped_Inr BeginTxFunc_Inr split: if_splits)
  from login_body_Inr [OF this] show "\<exists>u\<in>set (db_users d). pa_User p = u \<and> to_lower (ur_Email u) = to_lower (trim_space email) \<and>
      VerifyPassword (as_idkey sv) pass (ur_PasswordHash u) = PasswordMatch"
    using \<open>pa_User p = u\<close> by simp
next
  assume H: "healthy (rq_env rq) \<and> (\<forall>h\<in>insert (as_dummyHash sv) (ur_PasswordHash ` set (db_users d)). VerifyPassword (as_idkey sv) pass h \<noteq> VerifyPanics) \<and>
    (\<forall>u\<in>set (db_users d). to_lower (ur_Email u) = to_lower (trim_space email) \<longrightarrow>
       VerifyPassword (as_idkey sv) pass (ur_PasswordHash u) \<noteq> PasswordMatch)"
  let ?s = "\<lparr>s_db = d, s_draws = 0, s_aborted = False\<rparr>"
  have dummy: "equalize_timing sv pass s = Inl InvalidCredentials" for s :: "'a identity_db_scheme session"
    using H by (auto simp: equalize_timing_def tfail_def split: verify_result.split)
  have "login_body sv (rq_env rq) (rq_now rq) (trim_space email) pass ?s = Inl InvalidCredentials"
  proof (cases "List.find (\<lambda>u. to_lower (ur_Email u) = to_lower (trim_space email)) (sort_key ur_CreatedAt (db_users d))")
    case None
    then show ?thesis using H by (simp add: login_body_def tfound_def GetUserByEmailGlobal_def select_one_def stmt_def healthy_def dummy)
  next
    case (Some u)
    then have "u \<in> set (db_users d)" "to_lower (ur_Email u) = to_lower (trim_space email)" using find_SomeD by fastforce+
    then have "VerifyPassword (as_idkey sv) pass (ur_PasswordHash u) \<notin> {VerifyPanics, PasswordMatch}" using H by auto
    then have "verify_credential (as_idkey sv) pass (ur_PasswordHash u) s = Inl InvalidCredentials" for s :: "'a identity_db_scheme session"
      by (auto simp: verify_credential_def tfail_def split: verify_result.split)
    then show ?thesis
      using H Some by (simp add: login_body_def tfound_def GetUserByEmailGlobal_def select_one_def stmt_def healthy_def dummy tbind_def)
  qed
  then show "Login sv rq email pass d = (Inl InvalidCredentials, d)"
    using H by (simp add: Login_def then_issue_def login_tx_def Let_def auth_mapped_def BeginTxFunc_def healthy_def)
qed

lemma sample_verify:
  "VerifyPassword sample_idkey q sample_password_hash =
     (if take 32 (string_bytes q @ replicate 32 0) = take 32 (string_bytes ''old password!'' @ replicate 32 0) then PasswordMatch
      else PasswordMismatch)"
proof -
  have h: "HashPassword sample_idkey (Some [1, 2]) ''old password!'' = Inr (Some sample_password_hash)"
    by (simp add: HashPassword_def sample_idkey_def sample_password_hash_def argonTime_def argonThreads_def argonKeyLen_def)
  obtain k where k: "sample_idkey (string_bytes ''old password!'') [1, 2] argonTime argonMemory argonThreads argonKeyLen = Some k"
    "VerifyPassword sample_idkey q sample_password_hash =
      (case sample_idkey (string_bytes q) [1, 2] argonTime argonMemory argonThreads argonKeyLen of
         None \<Rightarrow> VerifyPanics | Some k' \<Rightarrow> if k' = k then PasswordMatch else PasswordMismatch)"
    by (rule verify_hashed [OF h]) (use sample_idkey_length in blast)+
  then show ?thesis by (auto simp: sample_idkey_def argonTime_def argonThreads_def argonKeyLen_def)
qed

lemma sample_mismatch: "VerifyPassword sample_idkey ''Old password!'' sample_password_hash = PasswordMismatch"
  by (simp add: sample_verify string_bytes_def byte_of_char_def)

theorem login_uniform_witness:
  "Login sample_auth (sample_request 20) ''a@b.c'' ''Old password!'' sample_identity_db = (Inl InvalidCredentials, sample_identity_db)"
  by (rule login_uniform [THEN conjunct2, THEN mp])
    (simp add: healthy_def sample_mismatch, simp add: sample_auth_def sample_request_def quiet_env_def sample_identity_defs sample_mismatch)

section \<open>A login that a reset overtakes\<close>

text \<open>
  \<open>Login\<close> runs two transactions: the first checks the password, the second stores the refresh token.
  \<open>between\<close> is what other requests do in the meantime.
\<close>

definition login_interrupted :: "AuthService \<Rightarrow> request \<Rightarrow> string \<Rightarrow> string \<Rightarrow>
    ('x identity_db_scheme \<Rightarrow> 'x identity_db_scheme) \<Rightarrow> 'x identity_db_scheme \<Rightarrow> (svc_error + TokenPair) \<times> 'x identity_db_scheme" where
  "login_interrupted sv rq email pass between d =
     (case login_tx sv rq email pass d of
        (Inl err, d1) \<Rightarrow> (Inl err, between d1)
      | (Inr u, d1) \<Rightarrow> issueTokenPair sv rq u (between d1))"

lemma login_uninterrupted: "login_interrupted sv rq email pass (\<lambda>d. d) d = Login sv rq email pass d"
  by (simp add: login_interrupted_def Login_def then_issue_def)

text \<open>
  A login with the old password whose two transactions a password reset of that user comes between succeeds after
  the reset: it returns a live refresh token of that user, although the reset has replaced the password and
  revoked the user's sessions.
\<close>

theorem login_outlives_reset:
  assumes "login_interrupted sv rq email pass (\<lambda>d. snd (ResetPassword sv rq' c pw d)) d = (Inr p, d')"
    and "fst (ResetPassword sv rq' c pw (snd (login_tx sv rq email pass d))) = Inr ()"
  shows "VerifyPassword (as_idkey sv) pass (ur_PasswordHash (pa_User p)) = PasswordMatch \<and>
    (\<exists>t\<in>set (db_refresh d'). rt_TokenHash t = HashOpaqueToken (pa_RefreshToken p) \<and> \<not> rt_revoked t \<and>
       token_principal t = user_principal (pa_User p))"
proof -
  let ?d2 = "snd (ResetPassword sv rq' c pw (snd (login_tx sv rq email pass d)))"
  from assms(1) obtain u d1 where login: "login_tx sv rq email pass d = (Inr u, d1)" and issue: "issueTokenPair sv rq u ?d2 = (Inr p, d')"
    by (auto simp: login_interrupted_def split: prod.splits sum.splits)
  from login obtain s where "login_body sv (rq_env rq) (rq_now rq) (trim_space email) pass \<lparr>s_db = d, s_draws = 0, s_aborted = False\<rparr> = Inr (u, s)"
    by (auto simp: login_tx_def Let_def auth_mapped_Inr BeginTxFunc_Inr split: if_splits)
  then have "VerifyPassword (as_idkey sv) pass (ur_PasswordHash u) = PasswordMatch" by (blast dest: login_body_Inr)
  moreover from issue obtain ct s2 where new: "createRefreshToken sv (rq_env2 rq) (rq_token rq) (rq_now2 rq) u
      \<lparr>s_db = ?d2, s_draws = 0, s_aborted = False\<rparr> = Inr (ct, s2)" "d' = s_db s2" "pa_RefreshToken p = ct" "pa_User p = u"
    by (auto simp: issueTokenPair_def token_pair_def auth_mapped_Inr BeginTxFunc_Inr split: prod.splits sum.splits)
  from new(1) have "\<exists>t\<in>set (db_refresh d'). rt_TokenHash t = HashOpaqueToken ct \<and> \<not> rt_revoked t \<and> token_principal t = user_principal u"
    by (rule createRefreshToken_Inr) (auto simp: new(2) rt_revoked_def)
  ultimately show ?thesis by (simp add: new)
qed

lemma sample_match: "VerifyPassword sample_idkey ''old password!'' sample_password_hash = PasswordMatch"
  by (simp add: sample_verify)

lemma sample_login_tx:
  "\<exists>row. al_ID row = 20 \<and> login_tx sample_auth (sample_request 20) ''a@b.c'' ''old password!'' sample_identity_db =
     (Inr sample_user, sample_identity_db\<lparr>db_users := [sample_user\<lparr>ur_LastLoginAt := Some 0\<rparr>], db_audit := [row]\<rparr>)"
proof -
  have h: "sample_password_hash \<noteq> []" "VerifyPassword sample_idkey ''old password!'' sample_password_hash = PasswordMatch"
    using sample_match by (simp_all add: sample_password_hash_def phc_string_def)
  have trim: "trim_space ''a@b.c'' = ''a@b.c''" by code_simp
  show ?thesis
    by (simp add: h trim login_tx_def login_body_def verify_credential_def identity_eval sample_identity_defs)
qed

lemma sample_reset_after:
  assumes "al_ID row = 20"
  shows "\<exists>row' h. al_ID row' = 40 \<and> ResetPassword sample_auth (sample_request 40) ''r'' ''new password!''
     (sample_identity_db\<lparr>db_users := [sample_user\<lparr>ur_LastLoginAt := Some 0\<rparr>], db_audit := [row]\<rparr>) =
     (Inr (), sample_identity_db\<lparr>db_users := [sample_user\<lparr>ur_LastLoginAt := Some 0, ur_PasswordHash := h\<rparr>], db_audit := [row, row'],
        db_refresh := map (revoke_refresh 0) (db_refresh sample_identity_db), db_reset := map (redeem_reset 0) (db_reset sample_identity_db)\<rparr>)"
proof -
  obtain h where h: "HashPassword sample_idkey (Some [1, 2]) ''new password!'' = Inr (Some h)" using sample_new_hash by blast
  then show ?thesis using assms
    by (simp add: ResetPassword_def reset_body_def validatePassword_def hash_password_def require_that_def identity_eval sample_identity_defs)
qed

lemma sample_login:
  "fst (ResetPassword sample_auth (sample_request 40) ''r'' ''new password!''
     (snd (login_tx sample_auth (sample_request 20) ''a@b.c'' ''old password!'' sample_identity_db))) = Inr ()"
  "\<exists>p. fst (login_interrupted sample_auth (sample_request 20) ''a@b.c'' ''old password!''
     (\<lambda>d. snd (ResetPassword sample_auth (sample_request 40) ''r'' ''new password!'' d)) sample_identity_db) = Inr p"
proof -
  obtain row where 1: "al_ID row = 20" "login_tx sample_auth (sample_request 20) ''a@b.c'' ''old password!'' sample_identity_db =
     (Inr sample_user, sample_identity_db\<lparr>db_users := [sample_user\<lparr>ur_LastLoginAt := Some 0\<rparr>], db_audit := [row]\<rparr>)"
    using sample_login_tx by blast
  obtain row' h where 2: "al_ID row' = 40" "ResetPassword sample_auth (sample_request 40) ''r'' ''new password!''
     (sample_identity_db\<lparr>db_users := [sample_user\<lparr>ur_LastLoginAt := Some 0\<rparr>], db_audit := [row]\<rparr>) =
     (Inr (), sample_identity_db\<lparr>db_users := [sample_user\<lparr>ur_LastLoginAt := Some 0, ur_PasswordHash := h\<rparr>], db_audit := [row, row'],
        db_refresh := map (revoke_refresh 0) (db_refresh sample_identity_db), db_reset := map (redeem_reset 0) (db_reset sample_identity_db)\<rparr>)"
    using sample_reset_after [OF 1(1)] by blast
  show "fst (ResetPassword sample_auth (sample_request 40) ''r'' ''new password!''
     (snd (login_tx sample_auth (sample_request 20) ''a@b.c'' ''old password!'' sample_identity_db))) = Inr ()"
    by (simp add: 1(2) 2(2))
  show "\<exists>p. fst (login_interrupted sample_auth (sample_request 20) ''a@b.c'' ''old password!''
     (\<lambda>d. snd (ResetPassword sample_auth (sample_request 40) ''r'' ''new password!'' d)) sample_identity_db) = Inr p"
    unfolding login_interrupted_def
    by (simp add: 1(2) 2(2)) (simp add: issueTokenPair_def identity_eval sample_identity_defs sample_token sha_c_digest sha_a43_digest)
qed

theorem login_outlives_reset_witness:
  "\<exists>p d' t. login_interrupted sample_auth (sample_request 20) ''a@b.c'' ''old password!''
       (\<lambda>d. snd (ResetPassword sample_auth (sample_request 40) ''r'' ''new password!'' d)) sample_identity_db = (Inr p, d') \<and>
     t \<in> set (db_refresh d') \<and> \<not> rt_revoked t \<and> rt_TokenHash t = HashOpaqueToken (pa_RefreshToken p)"
  using sample_login login_outlives_reset [of sample_auth "sample_request 20" "''a@b.c''" "''old password!''" "sample_request 40" "''r''" "''new password!''" sample_identity_db]
  by (metis prod.collapse)

end
