(* ===== verification/Bootstrap_Props.thy ===== *)
theory Bootstrap_Props
  imports Identity_Props
begin

text \<open>The first owner: bootstrap tokens, the claim, two claims at once; the setup gate; holidays across tenants.\<close>

section \<open>Opaque tokens\<close>

text \<open>
  A token of 32 random bytes is 43 characters that decode to the bytes; the hash that is stored has 64 characters,
  and the two services that compute it agree.
\<close>

theorem opaque_token_round_trip:
  assumes "length b = opaqueTokenBytes"
  shows "\<exists>c h. GenerateOpaqueToken (Some b) = Inr (c, h) \<and> generateBootstrapTokenCleartext (Some b) = Inr c \<and> length c = 43 \<and>
    b64_decode url_alphabet c = Some b \<and> h = hashBootstrapToken c \<and> length h = 64"
  using assms
  by (simp add: GenerateOpaqueToken_def generateBootstrapTokenCleartext_def Let_def length_b64_encode opaqueTokenBytes_def
      b64_decode_encode hashBootstrapToken_eq HashOpaqueToken_def length_hex_encode length_Sum256)

theorem opaque_token_round_trip_witness:
  "b64_decode url_alphabet ''AAAAAAAAAAAAAAAAAAAAAAAAAAAAAAAAAAAAAAAAAAA'' = Some (replicate 32 0)"
  using opaque_token_round_trip [of "replicate 32 0"]
  by (auto simp: GenerateOpaqueToken_def sample_token Let_def opaqueTokenBytes_def)

section \<open>The first owner\<close>

text \<open>An environment in which nothing fails and every drawn id is new.\<close>

definition fresh_for :: "env \<Rightarrow> 'x identity_db_scheme \<Rightarrow> bool" where
  "fresh_for e d \<longleftrightarrow> healthy e \<and> (\<forall>k. e_uuid e k \<notin> al_ID ` set (db_audit d) \<and> e_uuid e k \<notin> ur_ID ` set (db_users d) \<and>
     e_uuid e k \<notin> ho_ID ` set (db_holidays d))"

lemma find_snoc: "\<forall>r\<in>set rows. \<not> P r \<Longrightarrow> List.find P (rows @ [r]) = (if P r then Some r else None)"
  by (induction rows) simp_all

lemma Record_fresh:
  assumes "\<not> s_aborted s" "healthy e" "\<And>k. e_uuid e k \<notin> al_ID ` set (db_audit (s_db s))" "ae_OrgID p \<in> set (db_orgs (s_db s))"
  obtains rows n where "Record e p s = Inr ((), s\<lparr>s_db := s_db s\<lparr>db_audit := db_audit (s_db s) @ rows\<rparr>, s_draws := n\<rparr>)"
  using Record_calm [of s e p] assms by (auto simp: healthy_def)

lemma issue_Inr:
  assumes "IssueBootstrapToken e (Some b) now org sub ttl d = (Inr tok, d1)"
  obtains t rows where "bt_OrgID t = org" "bt_TokenHash t = HashOpaqueToken (ib_Cleartext tok)" "\<not> bt_redeemed t"
    "bt_ExpiresAt t = to_timestamptz (ib_ExpiresAt tok)" "bt_TokenHash t \<notin> bt_TokenHash ` set (db_bootstrap d)" "bt_ID t \<notin> bt_ID ` set (db_bootstrap d)"
    "ib_Cleartext tok = b64_encode url_alphabet b" "org \<in> set (db_orgs d)" "d1 = d\<lparr>db_bootstrap := db_bootstrap d @ [t], db_audit := rows\<rparr>"
proof -
  let ?c = "b64_encode url_alphabet b" and ?s0 = "\<lparr>s_db = d, s_draws = 0, s_aborted = False\<rparr>"
  obtain i s where body: "issue_body e org sub (hashBootstrapToken ?c) (now + or_ttl ttl) ?s0 = Inr (i, s)" "d1 = s_db s"
    and tok: "ib_Cleartext tok = ?c" "ib_ExpiresAt tok = now + or_ttl ttl"
    using assms by (auto simp: IssueBootstrapToken_def generateBootstrapTokenCleartext_def setup_mapped_def BeginTxFunc_def Let_def
        split: if_splits sum.splits)
  obtain s1 u where ins: "CreateBootstrapToken e \<lparr>cb_OrgID = org, cb_TokenHash = HashOpaqueToken ?c, cb_ExpiresAt = now + or_ttl ttl\<rparr> ?s0 = Inr (i, s1)"
    and rec: "Record e (setup_entry org sub ''setup.bootstrap_token.issued'' i []) s1 = Inr (u, s)"
    using body(1) by (auto simp: issue_body_def tbind_Inr GetCompanyProfile_def select_one_Inr hashBootstrapToken_eq)
  obtain rows where "s_db s = s_db s1\<lparr>db_audit := rows\<rparr>" using Record_db [OF rec] by blast
  then show thesis
    using ins body(2) tok
    by (intro that [of "\<lparr>bt_ID = i, bt_OrgID = org, bt_TokenHash = HashOpaqueToken ?c, bt_IssuedAt = e_now e,
           bt_ExpiresAt = to_timestamptz (now + or_ttl ttl), bt_RedeemedAt = None, bt_RedeemedBy = None\<rparr>" rows])
      (auto simp: CreateBootstrapToken_def tbind_Inr insert_returning_Inr bt_redeemed_def)
qed

text \<open>
  An issued bootstrap token makes a first owner: in a healthy environment, before its expiry and while the
  organization has no user, a claim with the token, a valid email and a long enough password creates the
  organization's only user, an owner with the hash of that password, and uses the token up.
\<close>

theorem bootstrap_token_claims_owner:
  assumes ok: "identity_ok d" and issued: "IssueBootstrapToken e (Some b) now org sub ttl d = (Inr tok, d1)" and b: "b \<noteq> []"
    and none: "users_of d org = []" and env: "fresh_for (rq_env rq) d1"
    and live: "to_timestamptz (rq_now rq) < to_timestamptz (ib_ExpiresAt tok)"
    and input: "validateEmail (trim_space email)" "validatePassword pw"
    and hash: "HashPassword (as_idkey sv) (rq_salt rq) pw = Inr (Some h)"
  shows "\<exists>u d2. claim_owner_tx sv rq (ib_Cleartext tok) email pw nm d1 = (Inr u, d2) \<and> ur_OrgID u = org \<and> ur_Role u = ''owner'' \<and>
    ur_PasswordHash u = h \<and> users_of d2 org = [u] \<and> bt.dead (HashOpaqueToken (ib_Cleartext tok)) (db_bootstrap d2)"
  using issued
proof (rule issue_Inr)
  fix t rows
  assume t: "bt_OrgID t = org" "bt_TokenHash t = HashOpaqueToken (ib_Cleartext tok)" "\<not> bt_redeemed t"
      "bt_ExpiresAt t = to_timestamptz (ib_ExpiresAt tok)" "bt_TokenHash t \<notin> bt_TokenHash ` set (db_bootstrap d)"
      "bt_ID t \<notin> bt_ID ` set (db_bootstrap d)"
    and c: "ib_Cleartext tok = b64_encode url_alphabet b" and org: "org \<in> set (db_orgs d)"
    and d1: "d1 = d\<lparr>db_bootstrap := db_bootstrap d @ [t], db_audit := rows\<rparr>"
  let ?e = "rq_env rq" and ?hash = "HashOpaqueToken (ib_Cleartext tok)" and ?s0 = "\<lparr>s_db = d1, s_draws = 0, s_aborted = False\<rparr>"
  define nm' where "nm' = (if nm = [] then trim_space email else nm)"
  define u where "u = \<lparr>ur_ID = e_uuid ?e 0, ur_OrgID = org, ur_Email = trim_space email, ur_DisplayName = nm', ur_Role = ''owner'',
     ur_Locale = ''en-US'', ur_OIDCSubject = None, ur_PasswordHash = h, ur_LastLoginAt = None, ur_CreatedAt = e_now ?e, ur_UpdatedAt = e_now ?e\<rparr>"
  let ?d2 = "d1\<lparr>db_users := db_users d1 @ [u],
     db_bootstrap := update_where (\<lambda>x. bt_ID x = bt_ID t \<and> \<not> bt_redeemed x) (redeem_bootstrap (rq_now rq, ur_ID u)) (db_bootstrap d1)\<rparr>"
  have healthy: "\<not> e_fail ?e l" "\<not> e_commit_fails ?e" for l using env by (simp_all add: fresh_for_def healthy_def)
  have "List.find (\<lambda>t. bt_TokenHash t = ?hash \<and> bt_RedeemedAt t = None \<and> to_timestamptz (rq_now rq) < bt_ExpiresAt t) (db_bootstrap d1) = Some t"
    using t live by (simp add: d1 unspent_iff) (subst find_snoc; auto simp: image_iff)
  then have read: "claim_read ?e (rq_now rq) ?hash ?s0 = Inr (t, ?s0)"
    using healthy none t(1) by (simp add: claim_read_def tbind_def tmissing_def GetActiveBootstrapTokenByHash_def select_one_def stmt_def
        CountUsersInOrg_def select_all_def tret_def tguard_def users_of_def d1)
  have "\<exists>x\<in>set (db_bootstrap d1). bt_ID x = bt_ID t \<and> bt_RedeemedAt x = None" using t(3) by (auto simp: d1 unspent_iff)
  then have redeemed: "RedeemBootstrapToken_store ?e (bt_ID t) (ur_ID u) (rq_now rq) \<lparr>s_db = d1\<lparr>db_users := db_users d1 @ [u]\<rparr>, s_draws = Suc 0, s_aborted = False\<rparr> =
      Inr ((), \<lparr>s_db = ?d2, s_draws = Suc 0, s_aborted = False\<rparr>)"
    using healthy by (simp add: RedeemBootstrapToken_store_def update_found_def update_affected_def tbind_def stmt_def tguard_def Let_def
        filter_empty_conv unspent_iff)
  have audit: "e_uuid ?e k \<notin> al_ID ` set (db_audit d1)" "e_uuid ?e k \<notin> ur_ID ` set (db_users d1)" for k
    using env by (auto simp: fresh_for_def)
  obtain rows' n where rec: "Record ?e (auth_entry sv org (ur_ID u) ''auth.owner.claimed'') \<lparr>s_db = ?d2, s_draws = Suc 0, s_aborted = False\<rparr> =
      Inr ((), \<lparr>s_db = ?d2\<lparr>db_audit := db_audit ?d2 @ rows'\<rparr>, s_draws = n, s_aborted = False\<rparr>)"
    by (rule Record_fresh [of "\<lparr>s_db = ?d2, s_draws = Suc 0, s_aborted = False\<rparr>" ?e]) (use audit org env in \<open>auto simp: fresh_for_def auth_entry_def d1\<close>)
  have new: "\<forall>u'\<in>set (db_users d1). ur_ID u' \<noteq> ur_ID u \<and> ur_OrgID u' \<noteq> org"
    using audit(2) [of 0] none by (auto simp: u_def d1 users_of_def filter_empty_conv image_iff)
  have created: "CreateUser ?e \<lparr>cu_OrgID = bt_OrgID t, cu_Email = trim_space email, cu_DisplayName = nm', cu_Role = ''owner'',
      cu_PasswordHash = h, cu_Locale = []\<rparr> ?s0 = Inr (u, \<lparr>s_db = d1\<lparr>db_users := db_users d1 @ [u]\<rparr>, s_draws = Suc 0, s_aborted = False\<rparr>)"
    using healthy new org t(1) by (auto simp: CreateUser_def insert_returning_def stmt_def Let_def u_def d1)
  have "claim_body sv ?e (rq_now rq) ?hash (trim_space email) nm' h ?s0 = Inr (u, \<lparr>s_db = ?d2\<lparr>db_audit := db_audit ?d2 @ rows'\<rparr>, s_draws = n, s_aborted = False\<rparr>)"
    by (simp add: claim_body_def claim_write_def tbind_def read created [unfolded t(1)] tmissing_def redeemed rec t(1) tret_def)
  moreover have "ib_Cleartext tok \<noteq> []"
    using b length_b64_encode [of url_alphabet b] by (cases b) (auto simp: c)
  ultimately have claim: "claim_owner_tx sv rq (ib_Cleartext tok) email pw nm d1 = (Inr u, ?d2\<lparr>db_audit := db_audit ?d2 @ rows'\<rparr>)"
    using input hash healthy by (simp add: claim_owner_tx_def Let_def nm'_def [symmetric] require_that_def hash_password_def auth_mapped_def BeginTxFunc_def)
  have "bt.token_ok (db_bootstrap d1)" using ok t(5,6) by (auto simp: identity_ok_def bt.token_ok_def d1)
  then have "bt.dead ?hash (db_bootstrap ?d2)"
    using bt.spend_dead [of "db_bootstrap d1" t ?hash] t(2) by (simp add: d1)
  moreover have "users_of ?d2 org = [u]" using none by (simp add: users_of_def d1 u_def)
  ultimately show ?thesis
    by (intro exI [of _ u] exI [of _ "?d2\<lparr>db_audit := db_audit ?d2 @ rows'\<rparr>"]) (simp add: claim, simp add: u_def users_of_def)
qed

definition sample_new_org_db :: identity_db where
  "sample_new_org_db = sample_identity_db\<lparr>db_organizations := [\<lparr>og_ID = 9, og_Profile = sample_profile\<lparr>cy_OnboardingComplete := False\<rparr>,
     og_CreatedAt = 0, og_UpdatedAt = 0\<rparr>], db_users := [], db_refresh := [], db_reset := []\<rparr>"

lemma sample_new_org_ok: "identity_ok sample_new_org_db"
proof -
  have "wizard_ok sample_identity_db" using sample_identity_ok by (simp add: identity_ok_parts)
  then have "wizard_ok sample_new_org_db" by (simp add: wizard_ok_def sample_new_org_db_def sample_identity_db_def)
  moreover have "\<not> onboarded sample_new_org_db org" for org by (simp add: onboarded_def profile_of_def sample_new_org_db_def)
  ultimately show ?thesis
    by (simp add: identity_ok_parts users_ok_def users_of_def bt.token_ok_def rt.token_ok_def pw.token_ok_def)
      (simp add: sample_new_org_db_def sample_identity_db_def)
qed

definition sample_issued :: "(svc_error + IssuedBootstrapToken) \<times> identity_db" where
  "sample_issued = IssueBootstrapToken (quiet_env 20) (Some (replicate 32 0)) 0 9 ''u'' 0 sample_new_org_db"

lemma sample_issued_eq:
  "\<exists>row tok. al_ID row = 21 \<and> ib_Cleartext tok = b64_encode url_alphabet (replicate 32 0) \<and> ib_ExpiresAt tok = DefaultBootstrapTokenTTL \<and>
     fst sample_issued = Inr tok \<and> db_audit (snd sample_issued) = [row] \<and> db_users (snd sample_issued) = []
     \<and> db_holidays (snd sample_issued) = []"
  by (simp add: sample_issued_def IssueBootstrapToken_def generateBootstrapTokenCleartext_def issue_body_def GetCompanyProfile_def
      CreateBootstrapToken_def setup_mapped_def setup_entry_def BeginTxFunc_def insert_returning_def select_one_def stmt_def tbind_def
      tguard_def tret_def Let_def or_ttl_def Record_def InsertAudit_def scrubAuditPayloads_def quiet_env_def uuid_nil_def
      sample_new_org_db_def sample_identity_db_def sample_profile_def)

theorem bootstrap_token_claims_owner_witness:
  "\<exists>tok u d2. fst sample_issued = Inr tok \<and>
     claim_owner_tx sample_auth (sample_request 50) (ib_Cleartext tok) ''a@b.c'' ''old password!'' [] (snd sample_issued) = (Inr u, d2) \<and>
     users_of d2 9 = [u] \<and> ur_Role u = ''owner''"
proof -
  obtain row tok where tok: "al_ID row = 21" "ib_Cleartext tok = b64_encode url_alphabet (replicate 32 0)" "ib_ExpiresAt tok = DefaultBootstrapTokenTTL"
    "fst sample_issued = Inr tok" "db_audit (snd sample_issued) = [row]" "db_users (snd sample_issued) = []" "db_holidays (snd sample_issued) = []"
    using sample_issued_eq by blast
  have issued: "IssueBootstrapToken (quiet_env 20) (Some (replicate 32 0)) 0 9 ''u'' 0 sample_new_org_db = (Inr tok, snd sample_issued)"
    using tok(4) by (metis sample_issued_def prod.collapse)
  have "fresh_for (rq_env (sample_request 50)) (snd sample_issued)"
    by (simp add: fresh_for_def healthy_def tok sample_request_def quiet_env_def)
  moreover have "to_timestamptz (rq_now (sample_request 50)) < to_timestamptz (ib_ExpiresAt tok)"
    by (simp add: tok(3) sample_request_def to_timestamptz_def DefaultBootstrapTokenTTL_def hour_def minute_def second_def)
  moreover have "validateEmail (trim_space ''a@b.c'')" "validatePassword ''old password!''" by code_simp+
  moreover have "HashPassword (as_idkey sample_auth) (rq_salt (sample_request 50)) ''old password!'' = Inr (Some sample_password_hash)"
    by (simp add: sample_auth_def sample_request_def HashPassword_def sample_idkey_def sample_password_hash_def argonTime_def argonThreads_def argonKeyLen_def)
  ultimately show ?thesis
    using bootstrap_token_claims_owner [OF sample_new_org_ok issued] tok(4) by (simp add: sample_new_org_db_def users_of_def) blast
qed

section \<open>Two claims at once\<close>

definition claim_race :: "AuthService \<Rightarrow> request \<Rightarrow> request \<Rightarrow> string \<times> string \<Rightarrow> string \<times> string \<Rightarrow> string \<Rightarrow> 'x identity_db_scheme \<Rightarrow>
    ((User \<times> User) \<times> 'x identity_db_scheme) option" where
  "claim_race sv rq1 rq2 claim1 claim2 ph d =
     read_write_race (rq_env rq1) (claim_read (rq_env rq1) (rq_now rq1) (fst claim1)) (claim_write sv (rq_env rq1) (rq_now rq1) (snd claim1) [] ph)
       (rq_env rq2) (claim_read (rq_env rq2) (rq_now rq2) (fst claim2)) (claim_write sv (rq_env rq2) (rq_now rq2) (snd claim2) [] ph) d"

lemma claim_read_Inr:
  "claim_read e now hash s = Inr (tok, s') \<Longrightarrow> s' = s \<and> tok \<in> set (db_bootstrap (s_db s)) \<and> bt_TokenHash tok = hash \<and>
     users_of (s_db s) (bt_OrgID tok) = []"
  by (auto simp: claim_read_def tbind_Inr GetActiveBootstrapTokenByHash_def select_one_Inr dest!: CountUsersInOrg_Inr find_SomeD)

lemma claim_write_Inr:
  assumes "claim_write sv e now em nm ph tok s = Inr (u, s')"
  shows "db_users (s_db s') = db_users (s_db s) @ [u] \<and> ur_OrgID u = bt_OrgID tok \<and> ur_Role u = ''owner''"
proof -
  from assms obtain s1 s2 y where 1: "CreateUser e \<lparr>cu_OrgID = bt_OrgID tok, cu_Email = em, cu_DisplayName = nm, cu_Role = ''owner'',
       cu_PasswordHash = ph, cu_Locale = []\<rparr> s = Inr (u, s1)"
    and 2: "RedeemBootstrapToken_store e (bt_ID tok) (ur_ID u) now s1 = Inr ((), s2)"
    and 3: "Record e (auth_entry sv (bt_OrgID tok) (ur_ID u) ''auth.owner.claimed'') s2 = Inr (y, s')"
    by (auto simp: claim_write_def tbind_Inr)
  have "db_users (s_db s2) = db_users (s_db s1)" using 2 by (auto simp: RedeemBootstrapToken_store_def update_found_Inr)
  then show ?thesis using CreateUser_Inr [OF 1] 3 by (auto elim!: Record_db)
qed

text \<open>
  The check that the organization has no user is not atomic with the insert: two claims with two bootstrap tokens
  of one organization that both read before either writes, and both succeed, leave it with two owners, against
  the invariant.
\<close>

theorem concurrent_claims_make_two_owners:
  assumes race: "claim_race sv rq1 rq2 claim1 claim2 ph d = Some ((u1, u2), d')" and org: "ur_OrgID u1 = ur_OrgID u2"
  shows "users_of d' (ur_OrgID u1) = [u1, u2] \<and> ur_Role u1 = ''owner'' \<and> ur_Role u2 = ''owner'' \<and> \<not> identity_ok d'"
proof (rule race_Some [OF race [unfolded claim_race_def]])
  let ?s0 = "\<lparr>s_db = d, s_draws = 0, s_aborted = False\<rparr>"
  fix a1 s1 a2 s2 t1 t2
  assume rd: "claim_read (rq_env rq1) (rq_now rq1) (fst claim1) ?s0 = Inr (a1, s1)" "claim_read (rq_env rq2) (rq_now rq2) (fst claim2) ?s0 = Inr (a2, s2)"
    and wr: "claim_write sv (rq_env rq1) (rq_now rq1) (snd claim1) [] ph a1 s1 = Inr (u1, t1)"
      "claim_write sv (rq_env rq2) (rq_now rq2) (snd claim2) [] ph a2 (s2\<lparr>s_db := s_db t1\<rparr>) = Inr (u2, t2)" and d': "d' = s_db t2"
  have "users_of d (ur_OrgID u1) = []" using claim_read_Inr [OF rd(1)] claim_write_Inr [OF wr(1)] by simp
  then have two: "users_of d' (ur_OrgID u1) = [u1, u2]"
    using claim_write_Inr [OF wr(1)] claim_write_Inr [OF wr(2)] claim_read_Inr [OF rd(1)] org by (simp add: d' users_of_def)
  moreover have "\<not> length [u1, u2] \<le> 1" by simp
  ultimately have "\<not> identity_ok d'" unfolding identity_ok_def by metis
  then show ?thesis using two claim_write_Inr [OF wr(1)] claim_write_Inr [OF wr(2)] by blast
qed

text \<open>An organization without users and with two unredeemed tokens.\<close>

definition sample_two_tokens_db :: identity_db where
  "sample_two_tokens_db = sample_new_org_db\<lparr>db_bootstrap :=
     [\<lparr>bt_ID = 11, bt_OrgID = 9, bt_TokenHash = ''h1'', bt_IssuedAt = 0, bt_ExpiresAt = 10 ^ 18, bt_RedeemedAt = None, bt_RedeemedBy = None\<rparr>,
      \<lparr>bt_ID = 12, bt_OrgID = 9, bt_TokenHash = ''h2'', bt_IssuedAt = 0, bt_ExpiresAt = 10 ^ 18, bt_RedeemedAt = None, bt_RedeemedBy = None\<rparr>]\<rparr>"

lemma sample_claim_race:
  "\<exists>u1 u2 d'. claim_race sample_auth (sample_request 50) (sample_request 60) (''h1'', ''a@b.c'') (''h2'', ''b@b.c'') ''h'' sample_two_tokens_db =
     Some ((u1, u2), d') \<and> ur_OrgID u1 = 9 \<and> ur_OrgID u2 = 9"
proof -
  have lower: "to_lower ''a@b.c'' \<noteq> to_lower ''b@b.c''" by code_simp
  show ?thesis using lower
    by (simp add: claim_race_def read_write_race_def claim_read_def claim_write_def GetActiveBootstrapTokenByHash_def CountUsersInOrg_def
        select_all_def select_one_def CreateUser_def RedeemBootstrapToken_store_def update_found_def update_affected_def insert_returning_def
        stmt_def tbind_def tmissing_def tguard_def tret_def Let_def Record_def InsertAudit_def scrubAuditPayloads_def auth_entry_def
        update_where_def redeem_bootstrap_def to_timestamptz_def sample_auth_def sample_request_def quiet_env_def uuid_nil_def
        sample_two_tokens_db_def sample_new_org_db_def sample_identity_db_def)
qed

theorem concurrent_claims_make_two_owners_witness:
  "\<exists>u1 u2 d'. claim_race sample_auth (sample_request 50) (sample_request 60) (''h1'', ''a@b.c'') (''h2'', ''b@b.c'') ''h'' sample_two_tokens_db =
     Some ((u1, u2), d') \<and> users_of d' 9 = [u1, u2] \<and> \<not> identity_ok d'"
  using sample_claim_race concurrent_claims_make_two_owners
  by metis

section \<open>The setup gate\<close>

text \<open>
  The gate lets a request through exactly when its path is exempt or its claims name an organization whose stored
  onboarding is complete; a database error never opens it.
\<close>

theorem setup_gate_admits_iff:
  "SetupGate exempt parse (\<lambda>org. IsOnboardingComplete e org d) path claims = PassOn \<longleftrightarrow>
     isExempt path (if exempt = [] then DefaultSetupGateExemptPrefixes else exempt) \<or>
     (\<exists>text org. claims = Some text \<and> parse text = Some org \<and> org \<noteq> uuid_nil \<and> \<not> e_fail e ''read onboarding state'' \<and> onboarded d org)"
  by (auto simp: SetupGate_def Let_def IsOnboardingComplete_def onboarded_def profile_of_def split: option.splits sum.splits if_splits)

section \<open>Holidays\<close>

text \<open>
  \<open>AddHoliday\<close> does not ask whose calendar it writes to: an organization that has not finished its onboarding can
  add a holiday to a calendar of another one, whose list of holidays then has it.
\<close>

theorem holiday_crosses_tenants:
  assumes env: "fresh_for e d" and org: "open_org d (cx_OrgID inp)" "cx_OrgID inp \<in> set (db_orgs d)" "cx_OrgID inp \<noteq> uuid_nil"
    and cal: "c \<in> set (db_calendars d)" "wc_ID c = cx_CalendarID inp" "wc_ID c \<noteq> uuid_nil" "wc_OrgID c \<noteq> cx_OrgID inp"
    and input: "trim_space (cx_Name inp) \<noteq> []" "cx_HolidayDate inp \<noteq> zero_time"
    and free: "\<forall>h\<in>set (db_holidays d). ho_CalendarID h = wc_ID c \<longrightarrow> ho_HolidayDate h \<noteq> to_date (cx_HolidayDate inp)"
  shows "\<exists>h d'. AddHoliday e inp d = (Inr h, d') \<and> ho_CalendarID h = wc_ID c \<and> ho_OrgID h = cx_OrgID inp \<and>
    db_holidays d' = db_holidays d @ [h]"
proof -
  let ?p = "CreateHolidayOverrideParams.truncate (inp\<lparr>cx_Name := trim_space (cx_Name inp), cx_HolidayDate := to_date (cx_HolidayDate inp)\<rparr>)"
  let ?s0 = "\<lparr>s_db = d, s_draws = 0, s_aborted = False\<rparr>"
  define h where "h = \<lparr>ho_ID = e_uuid e 0, ho_CalendarID = wc_ID c, ho_OrgID = cx_OrgID inp, ho_HolidayDate = to_date (cx_HolidayDate inp),
     ho_Name = trim_space (cx_Name inp), ho_CreatedAt = e_now e\<rparr>"
  have healthy: "\<not> e_fail e l" "\<not> e_commit_fails e" for l using env by (simp_all add: fresh_for_def healthy_def)
  have dates: "to_date (to_date t) = to_date t" for t
    by (simp add: to_date_def days_since_epoch_def day24_def)
  have guard: "guardNotComplete e (cx_OrgID inp) ?s0 = Inr ((), ?s0)"
    using org(1) healthy by (auto simp: guardNotComplete_def GetCompanyProfile_def select_one_def stmt_def tbind_def tguard_def tret_def
        open_org_def profile_of_def)
  let ?s1 = "\<lparr>s_db = d\<lparr>db_holidays := db_holidays d @ [h]\<rparr>, s_draws = Suc 0, s_aborted = False\<rparr>"
  have "\<forall>h'\<in>set (db_holidays d). ho_ID h' \<noteq> e_uuid e 0" "cx_CalendarID inp \<in> wc_ID ` set (db_calendars d)"
  proof -
    have "e_uuid e 0 \<notin> ho_ID ` set (db_holidays d)" using env by (simp add: fresh_for_def)
    then show "\<forall>h'\<in>set (db_holidays d). ho_ID h' \<noteq> e_uuid e 0" by (metis imageI)
    show "cx_CalendarID inp \<in> wc_ID ` set (db_calendars d)" using cal(1,2) by (metis imageI)
  qed
  then have insert: "CreateHolidayOverride e ?p ?s0 = Inr (h, ?s1)"
    using healthy org cal free
    by (auto simp: CreateHolidayOverride_def insert_returning_def stmt_def Let_def h_def dates CreateHolidayOverrideParams.truncate_def)
  obtain rows n where rec: "Record e (setup_entry (cx_OrgID inp) (cx_UserSub inp) ''setup.holiday.created'' (ho_ID h) []) ?s1 =
      Inr ((), ?s1\<lparr>s_db := (s_db ?s1)\<lparr>db_audit := db_audit (s_db ?s1) @ rows\<rparr>, s_draws := n\<rparr>)"
    by (rule Record_fresh [of ?s1 e]) (use env org in \<open>auto simp: fresh_for_def setup_entry_def\<close>)
  have "holiday_body e (cx_UserSub inp) ?p ?s0 = Inr (h, ?s1\<lparr>s_db := (s_db ?s1)\<lparr>db_audit := db_audit (s_db ?s1) @ rows\<rparr>, s_draws := n\<rparr>)"
    using guard insert rec by (simp add: holiday_body_def tbind_def tret_def CreateHolidayOverrideParams.truncate_def)
  then show ?thesis
    using healthy org cal input
    by (auto simp: AddHoliday_def Let_def service_result_def require_that_def setup_mapped_def BeginTxFunc_def h_def)
qed

text \<open>A second organization, in its onboarding, and the holiday it adds to the first one's calendar.\<close>

definition sample_two_orgs_db :: identity_db where
  "sample_two_orgs_db = sample_identity_db\<lparr>db_orgs := [9, 10], db_organizations := db_organizations sample_identity_db @
     [\<lparr>og_ID = 10, og_Profile = sample_profile\<lparr>cy_OnboardingComplete := False\<rparr>, og_CreatedAt = 0, og_UpdatedAt = 0\<rparr>]\<rparr>"

definition sample_holiday :: AddHolidayInput where
  "sample_holiday = \<lparr>cx_CalendarID = 4, cx_OrgID = 10, cx_HolidayDate = 0, cx_Name = ''Closed'', cx_UserSub = ''u''\<rparr>"

theorem holiday_crosses_tenants_witness:
  "\<exists>h d'. AddHoliday (quiet_env 20) sample_holiday sample_two_orgs_db = (Inr h, d') \<and> ho_OrgID h = 10 \<and> ho_CalendarID h = 4 \<and>
     db_holidays d' = [h] \<and> wc_OrgID (hd (db_calendars sample_two_orgs_db)) = 9"
proof -
  let ?d = sample_two_orgs_db and ?c = "hd (db_calendars sample_two_orgs_db)"
  have "fresh_for (quiet_env 20) ?d"
    by (simp add: fresh_for_def healthy_def quiet_env_def sample_two_orgs_db_def sample_identity_db_def sample_user_def)
  moreover have "open_org ?d (cx_OrgID sample_holiday)"
    by (simp add: open_org_def profile_of_def sample_two_orgs_db_def sample_identity_db_def sample_holiday_def)
  moreover have "trim_space (cx_Name sample_holiday) \<noteq> []" by code_simp
  moreover have "cx_OrgID sample_holiday \<in> set (db_orgs ?d)" "cx_OrgID sample_holiday \<noteq> uuid_nil" "wc_ID ?c = cx_CalendarID sample_holiday"
    "wc_ID ?c \<noteq> uuid_nil" "wc_OrgID ?c \<noteq> cx_OrgID sample_holiday" "?c \<in> set (db_calendars ?d)" "cx_HolidayDate sample_holiday \<noteq> zero_time"
    by (simp_all add: sample_two_orgs_db_def sample_identity_db_def sample_holiday_def uuid_nil_def zero_time_def second_def)
  moreover have none: "db_holidays ?d = []" "wc_OrgID ?c = 9" "wc_ID ?c = 4" "cx_OrgID sample_holiday = 10"
    by (simp_all add: sample_two_orgs_db_def sample_identity_db_def sample_holiday_def)
  ultimately obtain h d' where "AddHoliday (quiet_env 20) sample_holiday ?d = (Inr h, d')" "ho_CalendarID h = wc_ID ?c"
      "ho_OrgID h = cx_OrgID sample_holiday" "db_holidays d' = db_holidays ?d @ [h]"
    using holiday_crosses_tenants [of "quiet_env 20" ?d sample_holiday ?c] by auto
  then show ?thesis by (intro exI [of _ h] exI [of _ d']) (simp only: none simp_thms append.simps)
qed

end
