(* ===== verification/Wizard_Props.thy ===== *)
theory Wizard_Props
  imports Bootstrap_Props
begin

text \<open>
  What the onboarding wizard accepts: the formats of trade codes, cost codes and calendars spelled out character by character, and
  for each of the three the row that is stored or the refusal.
\<close>

section \<open>The formats\<close>

definition capital :: "char \<Rightarrow> char" where
  "capital c = (case map_of (zip ''abcdefghijklmnopqrstuvwxyz'' ''ABCDEFGHIJKLMNOPQRSTUVWXYZ'') c of None \<Rightarrow> c | Some u \<Rightarrow> u)"

definition trade_format :: "string \<Rightarrow> bool" where
  "trade_format s \<longleftrightarrow> s \<noteq> [] \<and> length s \<le> 16 \<and> set s \<subseteq> set ''ABCDEFGHIJKLMNOPQRSTUVWXYZ0123456789_-''"

definition digit_pair :: "string \<Rightarrow> bool" where
  "digit_pair s \<longleftrightarrow> (\<exists>a b. s = [a, b] \<and> {a, b} \<subseteq> set ''0123456789'')"

definition cost_format :: "string \<Rightarrow> bool" where
  "cost_format s \<longleftrightarrow> (\<exists>x y. digit_pair x \<and> digit_pair y \<and> s = x @ ''-'' @ y) \<or>
     (\<exists>x y z. digit_pair x \<and> digit_pair y \<and> digit_pair z \<and> s = x @ ''-'' @ y @ ''-'' @ z)"

lemma capital_upper: "upper_char = capital"
proof
  have "\<forall>c. upper_char c = capital c" by code_simp
  then show "upper_char c = capital c" for c by blast
qed

lemma short_code_format: "isShortCode s 1 16 \<longleftrightarrow> trade_format s"
proof -
  have "\<forall>c. (c = CHR ''_'' \<or> c = CHR ''-'' \<or> c \<in> set upper_letters \<or> is_digit c) \<longleftrightarrow> c \<in> set ''ABCDEFGHIJKLMNOPQRSTUVWXYZ0123456789_-''"
    by code_simp
  then have "isShortCode s 1 16 \<longleftrightarrow> 1 \<le> length s \<and> length s \<le> 16 \<and> set s \<subseteq> set ''ABCDEFGHIJKLMNOPQRSTUVWXYZ0123456789_-''"
    by (simp only: isShortCode_def subset_iff Ball_def)
  then show ?thesis unfolding trade_format_def by (cases s) (simp_all del: set_simps)
qed

lemma digit_pair_iff: "digit_pair p \<longleftrightarrow> length p = 2 \<and> (\<forall>c\<in>set p. is_digit c)"
  unfolding digit_pair_def is_digit_def by (cases p rule: list.exhaust; cases "tl p" rule: list.exhaust) auto

lemma dash_free: "digit_pair p \<Longrightarrow> CHR ''-'' \<notin> set p"
  unfolding digit_pair_def by auto

lemma split_on_join: "s = (case split_on sep s of [] \<Rightarrow> [] | p # ps \<Rightarrow> p @ concat (List.map (\<lambda>q. sep # q) ps))"
  by (induction s) (auto split: list.splits)

lemma csi_code_format: "looksLikeCSICode s \<longleftrightarrow> cost_format s"
proof
  assume csi: "looksLikeCSICode s"
  let ?ps = "split_on (CHR ''-'') s"
  have ps: "2 \<le> length ?ps" "length ?ps \<le> 3" "\<forall>p\<in>set ?ps. digit_pair p"
    using csi by (simp_all add: looksLikeCSICode_def Let_def digit_pair_iff)
  obtain x y r where xy: "?ps = x # y # r" using ps(1) by (cases ?ps rule: list.exhaust; cases "tl ?ps" rule: list.exhaust) auto
  have s: "s = x @ concat (List.map (\<lambda>q. CHR ''-'' # q) (y # r))" using split_on_join [of s "CHR ''-''"] xy by simp
  show "cost_format s"
  proof (cases r)
    case Nil
    then show ?thesis using s ps(3) xy by (auto simp: cost_format_def)
  next
    case (Cons z q)
    then have "q = []" using ps(2) xy by simp
    then show ?thesis using s ps(3) xy Cons unfolding cost_format_def
      by (intro disjI2 exI [of _ x] exI [of _ y] exI [of _ z]) simp
  qed
next
  assume "cost_format s"
  then show "looksLikeCSICode s"
    by (auto simp: cost_format_def looksLikeCSICode_def Let_def split_on_append split_on_none dash_free digit_pair_iff [symmetric])
qed

section \<open>Accepted and refused\<close>

text \<open>An organization in the middle of its onboarding, and an environment that gives ids no row has.\<close>

definition wizard_open :: "env \<Rightarrow> uuid \<Rightarrow> 'x identity_db_scheme \<Rightarrow> bool" where
  "wizard_open e org d \<longleftrightarrow> healthy e \<and> org \<noteq> uuid_nil \<and> org \<in> set (db_orgs d) \<and>
     (\<exists>row. List.find (\<lambda>row. og_ID row = org) (db_organizations d) = Some row \<and> \<not> cy_OnboardingComplete (og_Profile row)) \<and>
     (\<forall>n. e_uuid e n \<notin> al_ID ` set (db_audit d) \<union> tc_ID ` set (db_trades d) \<union> cc_ID ` set (db_costs d) \<union> wc_ID ` set (db_calendars d))"

text \<open>The answer to a request: the new row at the end of its table, or an error and no change.\<close>

definition decided :: "('x identity_db_scheme \<Rightarrow> 'r list) \<Rightarrow> 'x identity_db_scheme \<Rightarrow> bool \<Rightarrow> 'r \<Rightarrow> (svc_error + 'r) \<times> 'x identity_db_scheme \<Rightarrow> bool" where
  "decided tab d wanted r answer \<longleftrightarrow> (if wanted then fst answer = Inr r \<and> tab (snd answer) = tab d @ [r]
     else (\<exists>err. answer = (Inl err, d)))"

lemma guard_open:
  assumes "wizard_open e org d"
  shows "guardNotComplete e org \<lparr>s_db = d, s_draws = 0, s_aborted = False\<rparr> = Inr ((), \<lparr>s_db = d, s_draws = 0, s_aborted = False\<rparr>)"
  using assms by (auto simp: wizard_open_def healthy_def guardNotComplete_def GetCompanyProfile_def tbind_def select_one_def stmt_def tguard_def tret_def)

lemma wizard_recorded:
  assumes "wizard_open e org d" "db_orgs d' = db_orgs d" "db_audit d' = db_audit d" "ae_OrgID p = org"
  obtains rows n where "Record e p \<lparr>s_db = d', s_draws = k, s_aborted = False\<rparr> =
    Inr ((), \<lparr>s_db = d'\<lparr>db_audit := db_audit d' @ rows\<rparr>, s_draws = n, s_aborted = False\<rparr>)"
  using Record_calm [of "\<lparr>s_db = d', s_draws = k, s_aborted = False\<rparr>" e p] assms by (auto simp: wizard_open_def healthy_def)

text \<open>The transaction of a wizard step: the gate, the insert, the audit row.\<close>

lemma wizard_insert:
  fixes d :: "'x identity_db_scheme"
  assumes "wizard_open e org d" "ok d" "r = mk d (e_uuid e 0)" "rid r = e_uuid e 0" "\<forall>r\<in>set (tab d). rid r \<noteq> e_uuid e 0"
    and tab: "\<And>f x. tab (upd f x) = f (tab x)" "\<And>x rows. tab (x\<lparr>db_audit := rows\<rparr>) = tab x"
    and frame: "\<And>f x. db_orgs (upd f x) = db_orgs x" "\<And>f x. db_audit (upd f x) = db_audit x"
    and body: "body = tbind (guardNotComplete e org) (\<lambda>_. tbind (insert_returning e l tab upd ok rid U mk)
      (\<lambda>r. tbind (Record e (setup_entry org sub act (rid r) [])) (\<lambda>_. tret r)))"
  shows "(\<exists>r'\<in>set (tab d). U r' r) \<Longrightarrow> BeginTxFunc e body d = (Inl (UniqueViolation l), d)"
    and "\<not> (\<exists>r'\<in>set (tab d). U r' r) \<Longrightarrow> \<exists>d'. BeginTxFunc e body d = (Inr r, d') \<and> tab d' = tab d @ [r]"
proof -
  let ?s = "\<lparr>s_db = d, s_draws = 0, s_aborted = False\<rparr>" and ?d = "upd (\<lambda>rows. rows @ [r]) d"
  have h: "\<not> e_fail e x" "\<not> e_commit_fails e" for x using assms(1) by (simp_all add: wizard_open_def healthy_def)
  note guard = guard_open [OF assms(1)]
  show "BeginTxFunc e body d = (Inl (UniqueViolation l), d)" if "\<exists>r'\<in>set (tab d). U r' r"
    using that h assms(2,3) by (auto simp: body BeginTxFunc_def tbind_def guard insert_returning_def stmt_def Let_def)
  show "\<exists>d'. BeginTxFunc e body d = (Inr r, d') \<and> tab d' = tab d @ [r]" if "\<not> (\<exists>r'\<in>set (tab d). U r' r)"
  proof -
    have ins: "insert_returning e l tab upd ok rid U mk ?s = Inr (r, \<lparr>s_db = ?d, s_draws = Suc 0, s_aborted = False\<rparr>)"
      using that h assms(2-5) by (auto simp: insert_returning_def stmt_def Let_def)
    have "ae_OrgID (setup_entry org sub act (rid r) []) = org" by (simp add: setup_entry_def)
    then obtain rows n where "Record e (setup_entry org sub act (rid r) []) \<lparr>s_db = ?d, s_draws = Suc 0, s_aborted = False\<rparr> =
        Inr ((), \<lparr>s_db = ?d\<lparr>db_audit := db_audit ?d @ rows\<rparr>, s_draws = n, s_aborted = False\<rparr>)"
      by (rule wizard_recorded [OF assms(1) frame])
    then show ?thesis using h by (simp add: body BeginTxFunc_def tbind_def guard ins tret_def tab)
  qed
qed

lemma wizard_openD:
  assumes "wizard_open e org d"
  shows "org \<noteq> uuid_nil" "org \<in> set (db_orgs d)" "\<forall>t\<in>set (db_trades d). tc_ID t \<noteq> e_uuid e 0"
    "\<forall>c\<in>set (db_costs d). cc_ID c \<noteq> e_uuid e 0" "\<forall>c\<in>set (db_calendars d). wc_ID c \<noteq> e_uuid e 0"
proof -
  have "e_uuid e 0 \<notin> tc_ID ` set (db_trades d)" "e_uuid e 0 \<notin> cc_ID ` set (db_costs d)" "e_uuid e 0 \<notin> wc_ID ` set (db_calendars d)"
    using assms by (simp_all add: wizard_open_def)
  then show "\<forall>t\<in>set (db_trades d). tc_ID t \<noteq> e_uuid e 0" "\<forall>c\<in>set (db_costs d). cc_ID c \<noteq> e_uuid e 0"
    "\<forall>c\<in>set (db_calendars d). wc_ID c \<noteq> e_uuid e 0" by (metis image_eqI)+
  show "org \<noteq> uuid_nil" "org \<in> set (db_orgs d)" using assms by (simp_all add: wizard_open_def)
qed

lemma decided_run:
  assumes "format = (case check of Inl _ \<Rightarrow> False | Inr _ \<Rightarrow> True)" "clash \<Longrightarrow> rd = (Inl err, d)"
    "\<not> clash \<Longrightarrow> \<exists>d'. rd = (Inr r, d') \<and> tab d' = tab d @ [r]"
  shows "decided tab d (format \<and> \<not> clash) r (service_result check d (setup_mapped rd))"
  using assms by (cases check; cases clash) (auto simp: decided_def service_result_def setup_mapped_def)

definition new_trade :: "env \<Rightarrow> CreateTradeInput \<Rightarrow> TradeCategory" where
  "new_trade e inp = \<lparr>tc_ID = e_uuid e 0, tc_OrgID = ct_OrgID inp, tc_Code = List.map capital (trim_space (ct_Code inp)),
     tc_Name = trim_space (ct_Name inp), tc_Description = ct_Description inp, tc_IsDefault = ct_IsDefault inp,
     tc_CreatedAt = e_now e, tc_UpdatedAt = e_now e\<rparr>"

lemma trade_decided:
  assumes "wizard_open e (ct_OrgID inp) d"
  shows "decided db_trades d (trade_format (tc_Code (new_trade e inp)) \<and> tc_Name (new_trade e inp) \<noteq> [] \<and>
     \<not> (\<exists>t\<in>set (db_trades d). tc_OrgID t = ct_OrgID inp \<and> tc_Code t = tc_Code (new_trade e inp))) (new_trade e inp) (CreateTrade e inp d)"
proof -
  let ?p = "CreateTradeCategoryParams.truncate (inp\<lparr>ct_Code := tc_Code (new_trade e inp), ct_Name := tc_Name (new_trade e inp)\<rparr>)"
  let ?U = "\<lambda>t t'. tc_OrgID t = tc_OrgID t' \<and> tc_Code t = tc_Code t'"
  note o = wizard_openD [OF assms]
  have body: "trade_body e (ct_UserSub inp) ?p = tbind (guardNotComplete e (ct_OrgID inp)) (\<lambda>_. tbind (insert_returning e ''insert trade category''
      db_trades db_trades_update (\<lambda>d. ct_OrgID inp \<in> set (db_orgs d)) tc_ID ?U (\<lambda>_ u. (new_trade e inp)\<lparr>tc_ID := u\<rparr>))
      (\<lambda>t. tbind (Record e (setup_entry (ct_OrgID inp) (ct_UserSub inp) ''setup.trade.created'' (tc_ID t) [])) (\<lambda>_. tret t)))"
    by (simp add: trade_body_def CreateTradeCategory_def CreateTradeCategoryParams.defs new_trade_def)
  have r: "new_trade e inp = (\<lambda>_ u. (new_trade e inp)\<lparr>tc_ID := u\<rparr>) d (e_uuid e 0)" "tc_ID (new_trade e inp) = e_uuid e 0" by (simp_all add: new_trade_def)
  note ins = wizard_insert [where tab = db_trades and ok = "\<lambda>d. ct_OrgID inp \<in> set (db_orgs d)", OF assms o(2) r o(3) _ _ _ _ body]
  have run: "CreateTrade e inp d = service_result (ebind (require_that (trade_format (tc_Code (new_trade e inp))) (InvalidInput ''code''))
      (\<lambda>_. require_that (tc_Name (new_trade e inp) \<noteq> []) (InvalidInput ''name''))) d (setup_mapped (BeginTxFunc e (trade_body e (ct_UserSub inp) ?p) d))"
    using o(1) by (simp add: CreateTrade_def Let_def require_that_def short_code_format [symmetric] new_trade_def to_upper_def capital_upper [symmetric]
        del: One_nat_def)
  have "decided db_trades d ((trade_format (tc_Code (new_trade e inp)) \<and> tc_Name (new_trade e inp) \<noteq> []) \<and>
      \<not> (\<exists>t\<in>set (db_trades d). ?U t (new_trade e inp))) (new_trade e inp) (CreateTrade e inp d)"
    unfolding run by (rule decided_run) (simp add: require_that_def, rule ins(1), simp_all, rule ins(2), simp_all)
  moreover have "tc_OrgID (new_trade e inp) = ct_OrgID inp" by (simp add: new_trade_def)
  ultimately show ?thesis by (simp only: conj_assoc)
qed

definition new_cost :: "env \<Rightarrow> CreateCostCodeInput \<Rightarrow> CostCode" where
  "new_cost e inp = \<lparr>cc_ID = e_uuid e 0, cc_OrgID = ck_OrgID inp, cc_Code = trim_space (ck_Code inp), cc_Name = trim_space (ck_Name inp),
     cc_Division = trim_space (ck_Division inp), cc_ParentCode = ck_ParentCode inp, cc_IsDefault = ck_IsDefault inp,
     cc_CreatedAt = e_now e, cc_UpdatedAt = e_now e\<rparr>"

lemma cost_decided:
  assumes "wizard_open e (ck_OrgID inp) d"
  shows "decided db_costs d (cost_format (cc_Code (new_cost e inp)) \<and> cc_Name (new_cost e inp) \<noteq> [] \<and> cc_Division (new_cost e inp) \<noteq> [] \<and>
     \<not> (\<exists>c\<in>set (db_costs d). cc_OrgID c = ck_OrgID inp \<and> cc_Code c = cc_Code (new_cost e inp))) (new_cost e inp) (CreateCostCode e inp d)"
proof -
  let ?p = "CreateCostCodeParams.truncate (inp\<lparr>ck_Code := cc_Code (new_cost e inp), ck_Name := cc_Name (new_cost e inp),
    ck_Division := cc_Division (new_cost e inp)\<rparr>)"
  let ?U = "\<lambda>c c'. cc_OrgID c = cc_OrgID c' \<and> cc_Code c = cc_Code c'"
  note o = wizard_openD [OF assms]
  have body: "cost_code_body e (ck_UserSub inp) ?p = tbind (guardNotComplete e (ck_OrgID inp)) (\<lambda>_. tbind (insert_returning e ''insert cost code''
      db_costs db_costs_update (\<lambda>d. ck_OrgID inp \<in> set (db_orgs d)) cc_ID ?U (\<lambda>_ u. (new_cost e inp)\<lparr>cc_ID := u\<rparr>))
      (\<lambda>c. tbind (Record e (setup_entry (ck_OrgID inp) (ck_UserSub inp) ''setup.cost_code.created'' (cc_ID c) [])) (\<lambda>_. tret c)))"
    by (simp add: cost_code_body_def CreateCostCode_store_def CreateCostCodeParams.defs new_cost_def)
  have r: "new_cost e inp = (\<lambda>_ u. (new_cost e inp)\<lparr>cc_ID := u\<rparr>) d (e_uuid e 0)" "cc_ID (new_cost e inp) = e_uuid e 0" by (simp_all add: new_cost_def)
  note ins = wizard_insert [where tab = db_costs and ok = "\<lambda>d. ck_OrgID inp \<in> set (db_orgs d)", OF assms o(2) r o(4) _ _ _ _ body]
  have run: "CreateCostCode e inp d = service_result (ebind (require_that (cost_format (cc_Code (new_cost e inp))) (InvalidInput ''code''))
      (\<lambda>_. ebind (require_that (cc_Name (new_cost e inp) \<noteq> []) (InvalidInput ''name''))
      (\<lambda>_. require_that (cc_Division (new_cost e inp) \<noteq> []) (InvalidInput ''division'')))) d
      (setup_mapped (BeginTxFunc e (cost_code_body e (ck_UserSub inp) ?p) d))"
    using o(1) by (simp add: CreateCostCode_def Let_def require_that_def csi_code_format [symmetric] new_cost_def)
  have "decided db_costs d ((cost_format (cc_Code (new_cost e inp)) \<and> cc_Name (new_cost e inp) \<noteq> [] \<and> cc_Division (new_cost e inp) \<noteq> []) \<and>
      \<not> (\<exists>c\<in>set (db_costs d). ?U c (new_cost e inp))) (new_cost e inp) (CreateCostCode e inp d)"
    unfolding run by (rule decided_run) (simp add: require_that_def, rule ins(1), simp_all, rule ins(2), simp_all)
  moreover have "cc_OrgID (new_cost e inp) = ck_OrgID inp" by (simp add: new_cost_def)
  ultimately show ?thesis by (simp only: conj_assoc)
qed

definition new_calendar :: "env \<Rightarrow> CreateCalendarInput \<Rightarrow> WorkingCalendar" where
  "new_calendar e inp = \<lparr>wc_ID = e_uuid e 0, wc_OrgID = cw_OrgID inp, wc_Name = trim_space (cw_Name inp),
     wc_Timezone = (if trim_space (cw_Timezone inp) = [] then ''America/New_York'' else trim_space (cw_Timezone inp)),
     wc_WorkingDaysMask = (if cw_WorkingDaysMask inp = 0 then 31 else cw_WorkingDaysMask inp),
     wc_DailyWorkMinutes = (if cw_DailyWorkMinutes inp \<le> 0 then 480 else cw_DailyWorkMinutes inp), wc_IsDefault = cw_IsDefault inp,
     wc_CreatedAt = e_now e, wc_UpdatedAt = e_now e\<rparr>"

definition calendar_format :: "(string \<Rightarrow> bool) \<Rightarrow> WorkingCalendar \<Rightarrow> bool" where
  "calendar_format known_zone c \<longleftrightarrow> wc_Name c \<noteq> [] \<and> known_zone (wc_Timezone c) \<and> 0 < wc_WorkingDaysMask c \<and> wc_WorkingDaysMask c \<le> 127 \<and>
     0 < wc_DailyWorkMinutes c \<and> wc_DailyWorkMinutes c \<le> 1440"

lemma calendar_decided:
  assumes "wizard_open e (cw_OrgID inp) d"
  shows "decided db_calendars d (calendar_format known_zone (new_calendar e inp) \<and>
     \<not> (\<exists>c\<in>set (db_calendars d). wc_IsDefault c \<and> cw_IsDefault inp \<and> wc_OrgID c = cw_OrgID inp)) (new_calendar e inp)
     (CreateCalendar known_zone e inp d)"
proof -
  let ?c = "new_calendar e inp" and ?U = "\<lambda>c c'. wc_IsDefault c \<and> wc_IsDefault c' \<and> wc_OrgID c = wc_OrgID c'"
  let ?p = "CreateWorkingCalendarParams.truncate (inp\<lparr>cw_Name := wc_Name ?c, cw_Timezone := wc_Timezone ?c,
    cw_WorkingDaysMask := wc_WorkingDaysMask ?c, cw_DailyWorkMinutes := wc_DailyWorkMinutes ?c\<rparr>)"
  let ?ok = "\<lambda>d. cw_OrgID inp \<in> set (db_orgs d) \<and> 0 \<le> wc_WorkingDaysMask ?c \<and> wc_WorkingDaysMask ?c \<le> 127 \<and>
    0 < wc_DailyWorkMinutes ?c \<and> wc_DailyWorkMinutes ?c \<le> 1440"
  note o = wizard_openD [OF assms]
  have body: "calendar_body e (cw_UserSub inp) ?p = tbind (guardNotComplete e (cw_OrgID inp)) (\<lambda>_. tbind (insert_returning e ''insert working calendar''
      db_calendars db_calendars_update ?ok wc_ID ?U (\<lambda>_ u. ?c\<lparr>wc_ID := u\<rparr>))
      (\<lambda>c. tbind (Record e (setup_entry (cw_OrgID inp) (cw_UserSub inp) ''setup.calendar.created'' (wc_ID c) [])) (\<lambda>_. tret c)))"
    by (simp add: calendar_body_def CreateWorkingCalendar_def CreateWorkingCalendarParams.defs new_calendar_def)
  have r: "?c = (\<lambda>_ u. ?c\<lparr>wc_ID := u\<rparr>) d (e_uuid e 0)" "wc_ID ?c = e_uuid e 0" by (simp_all add: new_calendar_def)
  have fmt: "calendar_format known_zone ?c \<longleftrightarrow> trim_space (cw_Name inp) \<noteq> [] \<and> known_zone (wc_Timezone ?c) \<and>
      (0 \<le> cw_WorkingDaysMask inp \<and> cw_WorkingDaysMask inp \<le> 127) \<and> wc_DailyWorkMinutes ?c \<le> 1440"
    by (auto simp: calendar_format_def new_calendar_def)
  have check: "check_calendar known_zone inp = ebind (require_that (trim_space (cw_Name inp) \<noteq> []) (InvalidInput ''name'')) (\<lambda>_.
      ebind (require_that (known_zone (wc_Timezone ?c)) (InvalidInput ''timezone'')) (\<lambda>_.
      ebind (require_that (0 \<le> cw_WorkingDaysMask inp \<and> cw_WorkingDaysMask inp \<le> 127) (InvalidInput ''working_days_mask'')) (\<lambda>_.
      ebind (require_that (wc_DailyWorkMinutes ?c \<le> 1440) (InvalidInput ''daily_work_minutes'')) (\<lambda>_. Inr ?p))))"
    using o(1) by (simp add: check_calendar_def Let_def new_calendar_def WorkingDaysMonFri_def require_that_def CreateWorkingCalendarParams.defs)
  have accepted: "check_calendar known_zone inp = Inr ?p" if "calendar_format known_zone ?c"
    using that unfolding check fmt by (simp add: require_that_def)
  have refused: "\<exists>err. check_calendar known_zone inp = Inl err" if "\<not> calendar_format known_zone ?c"
    using that unfolding check fmt by (auto simp: require_that_def)
  show ?thesis
  proof (cases "calendar_format known_zone ?c")
    case True
    have "?ok d" using True o(2) by (simp add: calendar_format_def)
    note ins = wizard_insert [where tab = db_calendars and ok = ?ok, OF assms this r o(5) _ _ _ _ body]
    have run: "CreateCalendar known_zone e inp d = service_result (Inr ()) d (setup_mapped (BeginTxFunc e (calendar_body e (cw_UserSub inp) ?p) d))"
      using accepted [OF True] by (simp add: CreateCalendar_def service_result_def)
    have "decided db_calendars d (calendar_format known_zone ?c \<and> \<not> (\<exists>c\<in>set (db_calendars d). ?U c ?c)) ?c (CreateCalendar known_zone e inp d)"
      unfolding run by (rule decided_run) (simp add: True, rule ins(1), simp_all, rule ins(2), simp_all)
    moreover have "wc_IsDefault ?c = cw_IsDefault inp" "wc_OrgID ?c = cw_OrgID inp" by (simp_all add: new_calendar_def)
    ultimately show ?thesis by simp
  next
    case False
    then show ?thesis using refused by (auto simp: decided_def CreateCalendar_def)
  qed
qed

text \<open>
  C33. The wizard decides by format: in an organization whose onboarding is open, a trade is accepted exactly when its code, trimmed and
  in capitals, has 1 to 16 characters out of A to Z, 0 to 9, the underscore and the dash and is new, and its name is not blank; a cost code
  exactly when it is two or three pairs of digits joined by dashes and is new, and name and division are not blank; a calendar exactly
  when its name is not blank, its zone is known, it has a working day and at most 1440 minutes and is not a second default. What is
  accepted is stored as trimmed, with the defaults filled in; what is refused changes nothing.
\<close>

theorem wizard_decides_by_format:
  assumes "wizard_open e (ct_OrgID trade) d" "ck_OrgID cost = ct_OrgID trade" "cw_OrgID cal = ct_OrgID trade"
  shows "decided db_trades d (trade_format (tc_Code (new_trade e trade)) \<and> tc_Name (new_trade e trade) \<noteq> [] \<and>
      \<not> (\<exists>t\<in>set (db_trades d). tc_OrgID t = ct_OrgID trade \<and> tc_Code t = tc_Code (new_trade e trade))) (new_trade e trade) (CreateTrade e trade d) \<and>
    decided db_costs d (cost_format (cc_Code (new_cost e cost)) \<and> cc_Name (new_cost e cost) \<noteq> [] \<and> cc_Division (new_cost e cost) \<noteq> [] \<and>
      \<not> (\<exists>c\<in>set (db_costs d). cc_OrgID c = ck_OrgID cost \<and> cc_Code c = cc_Code (new_cost e cost))) (new_cost e cost) (CreateCostCode e cost d) \<and>
    decided db_calendars d (calendar_format known_zone (new_calendar e cal) \<and>
      \<not> (\<exists>c\<in>set (db_calendars d). wc_IsDefault c \<and> cw_IsDefault cal \<and> wc_OrgID c = cw_OrgID cal)) (new_calendar e cal)
      (CreateCalendar known_zone e cal d)"
  using trade_decided [OF assms(1)] cost_decided [of e cost d] calendar_decided [of e cal d] assms by simp

definition sample_trade_input :: "string \<Rightarrow> CreateTradeInput" where
  "sample_trade_input code = \<lparr>ct_OrgID = 9, ct_Code = code, ct_Name = '' Paint '', ct_Description = None, ct_IsDefault = False, ct_UserSub = ''u''\<rparr>"

definition sample_cost_input :: "string \<Rightarrow> CreateCostCodeInput" where
  "sample_cost_input code = \<lparr>ck_OrgID = 9, ck_Code = code, ck_Name = ''Paint'', ck_Division = ''09'', ck_ParentCode = None, ck_IsDefault = False,
     ck_UserSub = ''u''\<rparr>"

definition sample_calendar_input :: CreateCalendarInput where
  "sample_calendar_input = \<lparr>cw_OrgID = 9, cw_Name = ''Summer'', cw_Timezone = [], cw_WorkingDaysMask = 0, cw_DailyWorkMinutes = 0,
     cw_IsDefault = True, cw_UserSub = ''u''\<rparr>"

lemma sample_wizard_open: "wizard_open (quiet_env 20) 9 sample_new_org_db"
  by (simp add: wizard_open_def healthy_def quiet_env_def uuid_nil_def sample_new_org_db_def sample_identity_db_def sample_profile_def)

theorem wizard_decides_by_format_witness:
  "fst (CreateTrade (quiet_env 20) (sample_trade_input '' p-1 '') sample_new_org_db) = Inr (new_trade (quiet_env 20) (sample_trade_input ''P-1'')) \<and>
   (\<exists>err. CreateCostCode (quiet_env 20) (sample_cost_input ''9-91'') sample_new_org_db = (Inl err, sample_new_org_db)) \<and>
   (\<exists>err. CreateCalendar (\<lambda>_. True) (quiet_env 20) sample_calendar_input sample_new_org_db = (Inl err, sample_new_org_db))"
proof -
  have "\<not> cost_format ''9-91''" unfolding csi_code_format [symmetric] by code_simp
  moreover have "trade_format (tc_Code (new_trade (quiet_env 20) (sample_trade_input '' p-1 '')))" by code_simp
  moreover have "tc_Name (new_trade (quiet_env 20) (sample_trade_input '' p-1 '')) \<noteq> []" by code_simp
  moreover have "new_trade (quiet_env 20) (sample_trade_input '' p-1 '') = new_trade (quiet_env 20) (sample_trade_input ''P-1'')" by code_simp
  moreover have "trim_space ''9-91'' = ''9-91''" by code_simp
  moreover have "tc_Code (new_trade (quiet_env 20) (sample_trade_input ''P-1'')) = ''P-1''" by code_simp
  ultimately show ?thesis
    using wizard_decides_by_format [of "quiet_env 20" "sample_trade_input '' p-1 ''" sample_new_org_db "sample_cost_input ''9-91''" sample_calendar_input
        "\<lambda>_. True"] sample_wizard_open
    by (simp add: decided_def sample_trade_input_def sample_cost_input_def sample_calendar_input_def new_cost_def sample_new_org_db_def sample_identity_db_def)
qed

end
