(* ===== verification/Financials.thy ===== *)
theory Financials
  imports Projects Currency "HOL-Library.List_Lexorder" "HOL-Library.Char_ord" "HOL-Library.Product_Lexorder"
begin

text \<open>
  Budgets, invoices and rollups: internal/models/financials.go, internal/store/financials.go and
  \<open>BudgetService\<close> of internal/service/budget.go. An aggregate whose total leaves BIGINT is a Postgres
  error; \<open>ORDER BY\<close> on text sorts byte by byte.
\<close>

section \<open>Rows\<close>

record ProjectBudget =
  pb_ID :: uuid
  pb_ProjectID :: uuid
  pb_WBSCode :: string
  pb_PhaseName :: string
  pb_EstimatedCostCents :: int
  pb_EstimatedCostCurrencyCode :: string
  pb_CommittedCostCents :: int
  pb_CommittedCostCurrencyCode :: string
  pb_ActualCostCents :: int
  pb_ActualCostCurrencyCode :: string
  pb_CreatedAt :: gotime
  pb_UpdatedAt :: gotime

record CorporateBudget =
  co_ID :: uuid
  co_OrgID :: uuid
  co_FiscalYear :: int
  co_Quarter :: int
  co_CurrencyCode :: string
  co_TotalEstimatedCents :: int
  co_TotalCommittedCents :: int
  co_TotalActualCents :: int
  co_ProjectCount :: int
  co_LastRollupAt :: gotime
  co_CreatedAt :: gotime
  co_UpdatedAt :: gotime

record ARAgingSnapshot =
  ar_ID :: uuid
  ar_OrgID :: uuid
  ar_SnapshotDate :: gotime
  ar_CurrencyCode :: string
  ar_CurrentCents :: int
  ar_Days30Cents :: int
  ar_Days60Cents :: int
  ar_Days90PlusCents :: int
  ar_TotalReceivableCents :: int
  ar_CreatedAt :: gotime

record Invoice =
  in_ID :: uuid
  in_ProjectID :: uuid
  in_OrgID :: uuid
  in_VendorName :: string
  in_InvoiceNumber :: "string option"
  in_AmountCents :: int
  in_CurrencyCode :: string
  in_WBSCode :: "string option"
  in_Status :: string
  in_DueDate :: "gotime option"
  in_PaidDate :: "gotime option"
  in_CreatedAt :: gotime
  in_Source :: string

record ProjectFinancial =
  pf_ProjectID :: uuid
  pf_ProjectName :: string
  pf_CurrencyCode :: string
  pf_TotalEstimatedCents :: int
  pf_TotalCommittedCents :: int
  pf_TotalActualCents :: int
  pf_PhaseCount :: int

definition InvoiceStatusPending :: string where "InvoiceStatusPending = ''pending''"
definition InvoiceStatusApproved :: string where "InvoiceStatusApproved = ''approved''"
definition InvoiceStatusRejected :: string where "InvoiceStatusRejected = ''rejected''"
definition InvoiceStatusPaid :: string where "InvoiceStatusPaid = ''paid''"

definition IsValidInvoiceStatus :: "string \<Rightarrow> bool" where
  "IsValidInvoiceStatus s \<longleftrightarrow>
     s \<in> {InvoiceStatusPending, InvoiceStatusApproved, InvoiceStatusRejected, InvoiceStatusPaid}"

record financial_db = core_db +
  db_budgets :: "ProjectBudget list"
  db_corporate :: "CorporateBudget list"
  db_aging :: "ARAgingSnapshot list"
  db_invoices :: "Invoice list"

section \<open>Queries\<close>

definition ListProjectBudgets :: "env \<Rightarrow> uuid \<Rightarrow> ('x financial_db_scheme, ProjectBudget list) tx" where
  "ListProjectBudgets e projectID = select_all e ''query project_budgets''
     (\<lambda>d. sort_key pb_WBSCode (filter (\<lambda>r. pb_ProjectID r = projectID) (db_budgets d)))"

definition ListCorporateBudgets :: "env \<Rightarrow> uuid \<Rightarrow> string \<Rightarrow> ('x financial_db_scheme, CorporateBudget list) tx" where
  "ListCorporateBudgets e orgID currency = select_all e ''query corporate_budgets''
     (\<lambda>d. order_desc co_FiscalYear (order_desc co_Quarter (sort_key co_CurrencyCode
        (filter (\<lambda>r. co_OrgID r = orgID \<and> (currency \<noteq> [] \<longrightarrow> co_CurrencyCode r = currency)) (db_corporate d)))))"

text \<open>\<open>DISTINCT ON (currency_code) ... ORDER BY currency_code, snapshot_date DESC\<close>: the first row of each code.\<close>

definition first_per_key :: "('r \<Rightarrow> 'k) \<Rightarrow> 'r list \<Rightarrow> 'r list" where
  "first_per_key key rows = List.map_filter (\<lambda>k. List.find (\<lambda>r. key r = k) rows) (remdups (List.map key rows))"

definition ListLatestARAgingSnapshots :: "env \<Rightarrow> uuid \<Rightarrow> string \<Rightarrow> ('x financial_db_scheme, ARAgingSnapshot list) tx" where
  "ListLatestARAgingSnapshots e orgID currency = select_all e ''query ar_aging_snapshots''
     (\<lambda>d. sort_key ar_CurrencyCode (first_per_key ar_CurrencyCode (order_desc ar_SnapshotDate
        (filter (\<lambda>r. ar_OrgID r = orgID \<and> (currency \<noteq> [] \<longrightarrow> ar_CurrencyCode r = currency)) (db_aging d)))))"

text \<open>\<open>projects p INNER JOIN project_budgets pb ON pb.project_id = p.id\<close>, for the projects of \<open>P\<close>.\<close>

definition budget_join :: "(Project \<Rightarrow> bool) \<Rightarrow> 'x financial_db_scheme \<Rightarrow> (Project \<times> ProjectBudget) list" where
  "budget_join P d = concat (List.map (\<lambda>p. List.map (Pair p) (filter (\<lambda>b. pb_ProjectID b = pj_ID p) (db_budgets d)))
     (filter P (db_projects d)))"

definition financial_row :: "(Project \<times> ProjectBudget) list \<Rightarrow> string \<times> string \<times> uuid \<Rightarrow> ProjectFinancial" where
  "financial_row rows k =
     (case k of (name, code, pid) \<Rightarrow>
      let g = filter (\<lambda>r. (pj_Name (fst r), pb_EstimatedCostCurrencyCode (snd r), pj_ID (fst r)) = k) rows in
      \<lparr>pf_ProjectID = pid, pf_ProjectName = name, pf_CurrencyCode = code,
       pf_TotalEstimatedCents = (\<Sum>r\<leftarrow>g. pb_EstimatedCostCents (snd r)),
       pf_TotalCommittedCents = (\<Sum>r\<leftarrow>g. pb_CommittedCostCents (snd r)),
       pf_TotalActualCents = (\<Sum>r\<leftarrow>g. pb_ActualCostCents (snd r)), pf_PhaseCount = int (length g)\<rparr>)"

definition ListProjectFinancials :: "env \<Rightarrow> uuid \<Rightarrow> string \<Rightarrow> ('x financial_db_scheme, ProjectFinancial list) tx" where
  "ListProjectFinancials e orgID currency =
     tbind (select_all e ''query project_financials''
       (\<lambda>d. filter (\<lambda>r. currency \<noteq> [] \<longrightarrow> pb_EstimatedCostCurrencyCode (snd r) = currency)
              (budget_join (\<lambda>p. pj_OrgID p = orgID) d))) (\<lambda>rows.
     let out = List.map (financial_row rows)
           (sort (remdups (List.map (\<lambda>r. (pj_Name (fst r), pb_EstimatedCostCurrencyCode (snd r), pj_ID (fst r))) rows))) in
     tbind (tguard (\<forall>f\<in>set out. in_int64 (pf_TotalEstimatedCents f) \<and> in_int64 (pf_TotalCommittedCents f) \<and>
        in_int64 (pf_TotalActualCents f)) (DbError ''query project_financials'')) (\<lambda>_.
     tret out))"

definition ListInvoices :: "env \<Rightarrow> uuid \<Rightarrow> ('x financial_db_scheme, Invoice list) tx" where
  "ListInvoices e projectID = select_all e ''query invoices''
     (\<lambda>d. order_desc in_CreatedAt (filter (\<lambda>r. in_ProjectID r = projectID) (db_invoices d)))"

section \<open>Budget lines and invoices\<close>

record CreateProjectBudgetParams =
  bp_ProjectID :: uuid
  bp_WBSCode :: string
  bp_PhaseName :: string
  bp_CurrencyCode :: string
  bp_EstimatedCostCents :: int
  bp_CommittedCostCents :: int
  bp_ActualCostCents :: int

definition CreateProjectBudget :: "env \<Rightarrow> CreateProjectBudgetParams \<Rightarrow> ('x financial_db_scheme, ProjectBudget) tx" where
  "CreateProjectBudget e p = insert_returning e ''insert project_budget'' db_budgets db_budgets_update
     (\<lambda>d. \<exists>r\<in>set (db_projects d). pj_ID r = bp_ProjectID p) pb_ID
     (\<lambda>old new. pb_ProjectID old = pb_ProjectID new \<and> pb_WBSCode old = pb_WBSCode new)
     (\<lambda>_ u. \<lparr>pb_ID = u, pb_ProjectID = bp_ProjectID p, pb_WBSCode = bp_WBSCode p, pb_PhaseName = bp_PhaseName p,
        pb_EstimatedCostCents = bp_EstimatedCostCents p, pb_EstimatedCostCurrencyCode = bp_CurrencyCode p,
        pb_CommittedCostCents = bp_CommittedCostCents p, pb_CommittedCostCurrencyCode = bp_CurrencyCode p,
        pb_ActualCostCents = bp_ActualCostCents p, pb_ActualCostCurrencyCode = bp_CurrencyCode p,
        pb_CreatedAt = e_now e, pb_UpdatedAt = e_now e\<rparr>)"

record CreateInvoiceInput =
  ip_ProjectID :: uuid
  ip_VendorName :: string
  ip_InvoiceNumber :: "string option"
  ip_AmountCents :: int
  ip_CurrencyCode :: string
  ip_WBSCode :: "string option"
  ip_DueDate :: "gotime option"
  ip_Source :: "string option"

definition CreateInvoice_store :: "env \<Rightarrow> uuid \<Rightarrow> CreateInvoiceInput \<Rightarrow> ('x financial_db_scheme, Invoice) tx" where
  "CreateInvoice_store e orgID p = insert_returning e ''insert invoice'' db_invoices db_invoices_update
     (\<lambda>d. (\<exists>r\<in>set (db_projects d). pj_ID r = ip_ProjectID p) \<and> orgID \<in> set (db_orgs d)) in_ID (\<lambda>_ _. False)
     (\<lambda>_ u. \<lparr>in_ID = u, in_ProjectID = ip_ProjectID p, in_OrgID = orgID, in_VendorName = ip_VendorName p,
        in_InvoiceNumber = ip_InvoiceNumber p, in_AmountCents = ip_AmountCents p, in_CurrencyCode = ip_CurrencyCode p,
        in_WBSCode = ip_WBSCode p, in_Status = ''pending'', in_DueDate = map_option to_date (ip_DueDate p),
        in_PaidDate = None, in_CreatedAt = e_now e, in_Source = coalesce (ip_Source p) ''manual''\<rparr>)"

record UpdateInvoiceParams =
  iu_ID :: uuid
  iu_Status :: "string option"
  iu_PaidDate :: "gotime option"

definition edit_invoice :: "UpdateInvoiceParams \<Rightarrow> Invoice \<Rightarrow> Invoice" where
  "edit_invoice p r = r\<lparr>in_Status := coalesce (iu_Status p) (in_Status r),
     in_PaidDate := coalesce_opt (map_option to_date (iu_PaidDate p)) (in_PaidDate r)\<rparr>"

definition UpdateInvoice_store :: "env \<Rightarrow> UpdateInvoiceParams \<Rightarrow> ('x financial_db_scheme, Invoice) tx" where
  "UpdateInvoice_store e p = update_returning e ''update invoice'' db_invoices db_invoices_update
     (\<lambda>r. in_ID r = iu_ID p) (edit_invoice p)"

section \<open>The corporate rollup\<close>

definition in_rollup :: "Project \<Rightarrow> bool" where
  "in_rollup p \<longleftrightarrow> pj_Status p \<in> {''active'', ''completed''}"

definition rollup_key :: "Project \<times> ProjectBudget \<Rightarrow> uuid \<times> string" where
  "rollup_key r = (pj_OrgID (fst r), pb_EstimatedCostCurrencyCode (snd r))"

definition rollup_row :: "env \<Rightarrow> int \<Rightarrow> int \<Rightarrow> (Project \<times> ProjectBudget) list \<Rightarrow> uuid \<times> string \<Rightarrow> uuid \<Rightarrow> CorporateBudget" where
  "rollup_row e year quarter rows k u =
     (let g = filter (\<lambda>r. rollup_key r = k) rows in
      \<lparr>co_ID = u, co_OrgID = fst k, co_FiscalYear = year, co_Quarter = quarter, co_CurrencyCode = snd k,
       co_TotalEstimatedCents = (\<Sum>r\<leftarrow>g. pb_EstimatedCostCents (snd r)),
       co_TotalCommittedCents = (\<Sum>r\<leftarrow>g. pb_CommittedCostCents (snd r)),
       co_TotalActualCents = (\<Sum>r\<leftarrow>g. pb_ActualCostCents (snd r)),
       co_ProjectCount = int (card (set (List.map (\<lambda>r. pj_ID (fst r)) g))),
       co_LastRollupAt = e_now e, co_CreatedAt = e_now e, co_UpdatedAt = e_now e\<rparr>)"

definition same_bucket :: "CorporateBudget \<Rightarrow> CorporateBudget \<Rightarrow> bool" where
  "same_bucket a b \<longleftrightarrow> co_OrgID a = co_OrgID b \<and> co_FiscalYear a = co_FiscalYear b \<and>
     co_Quarter a = co_Quarter b \<and> co_CurrencyCode a = co_CurrencyCode b"

text \<open>\<open>INSERT ... ON CONFLICT ... DO UPDATE\<close>: the conflicting row keeps its id and creation time.\<close>

definition upsert_corporate :: "CorporateBudget \<Rightarrow> CorporateBudget list \<Rightarrow> CorporateBudget list" where
  "upsert_corporate new table =
     (if \<exists>old\<in>set table. same_bucket old new
      then update_where (\<lambda>old. same_bucket old new)
        (\<lambda>old. new\<lparr>co_ID := co_ID old, co_CreatedAt := co_CreatedAt old\<rparr>) table
      else table @ [new])"

definition rollup_rows :: "env \<Rightarrow> nat \<Rightarrow> int \<Rightarrow> int \<Rightarrow> (Project \<times> ProjectBudget) list \<Rightarrow> CorporateBudget list" where
  "rollup_rows e draws year quarter rows =
     (let keys = remdups (List.map rollup_key rows)
      in List.map (\<lambda>(i, k). rollup_row e year quarter rows k (e_uuid e i)) (enumerate draws keys))"

definition UpsertCorporateRollupForQuarter :: "env \<Rightarrow> int \<Rightarrow> int \<Rightarrow> ('x financial_db_scheme, int) tx" where
  "UpsertCorporateRollupForQuarter e year quarter =
     stmt e ''upsert corporate_budgets'' (\<lambda>s.
       let news = rollup_rows e (s_draws s) year quarter (budget_join in_rollup (s_db s)) in
       if \<not> (\<forall>n\<in>set news. in_int64 (co_TotalEstimatedCents n) \<and> in_int64 (co_TotalCommittedCents n) \<and>
              in_int64 (co_TotalActualCents n))
       then Inl (DbError ''upsert corporate_budgets'')
       else if \<not> distinct (List.map co_ID news) \<or> (\<exists>n\<in>set news. \<exists>old\<in>set (db_corporate (s_db s)). \<not> same_bucket old n \<and> co_ID old = co_ID n)
       then Inl (UniqueViolation ''upsert corporate_budgets'')
       else Inr (int (length news), s\<lparr>s_db := db_corporate_update (fold upsert_corporate news) (s_db s),
                                       s_draws := s_draws s + length news\<rparr>))"

section \<open>The service\<close>

definition currentFiscalQuarter :: "gotime \<Rightarrow> int \<times> int" where
  "currentFiscalQuarter t = (year_of t, quot (month_of t - 1) 3 + 1)"

definition validateOptionalCurrency :: "string \<Rightarrow> svc_error + unit" where
  "validateOptionalCurrency code =
     (if code = [] then Inr () else map_err (\<lambda>_. InvalidInput ''currency'') (Validate code))"

definition GetProjectBudgets :: "env \<Rightarrow> uuid \<Rightarrow> uuid \<Rightarrow> 'x financial_db_scheme \<Rightarrow> svc_error + ProjectBudget list" where
  "GetProjectBudgets e projectID callerOrgID d =
     fst (mapped (BeginTxFunc e (tbind (VerifyProjectInOrg e projectID callerOrgID) (\<lambda>_.
       ListProjectBudgets e projectID)) d))"

record FinancialsSummary =
  fs_CorporateBudgets :: "CorporateBudget list"
  fs_ARAging :: "ARAgingSnapshot list"

definition GetOrgFinancialsSummary :: "env \<Rightarrow> uuid \<Rightarrow> string \<Rightarrow> 'x financial_db_scheme \<Rightarrow> svc_error + FinancialsSummary" where
  "GetOrgFinancialsSummary e orgID currencyCode d =
     ebind (validateOptionalCurrency currencyCode) (\<lambda>_.
       fst (BeginTxFunc e (tbind (ListCorporateBudgets e orgID currencyCode) (\<lambda>cbs.
         tbind (ListLatestARAgingSnapshots e orgID currencyCode) (\<lambda>ar.
         tret \<lparr>fs_CorporateBudgets = cbs, fs_ARAging = ar\<rparr>))) d))"

definition GetARAging :: "env \<Rightarrow> uuid \<Rightarrow> string \<Rightarrow> 'x financial_db_scheme \<Rightarrow> svc_error + ARAgingSnapshot list" where
  "GetARAging e orgID currencyCode d =
     ebind (validateOptionalCurrency currencyCode) (\<lambda>_.
       fst (BeginTxFunc e (ListLatestARAgingSnapshots e orgID currencyCode) d))"

definition GetProjectFinancials :: "env \<Rightarrow> uuid \<Rightarrow> string \<Rightarrow> 'x financial_db_scheme \<Rightarrow> svc_error + ProjectFinancial list" where
  "GetProjectFinancials e orgID currencyCode d =
     ebind (validateOptionalCurrency currencyCode) (\<lambda>_.
       fst (BeginTxFunc e (ListProjectFinancials e orgID currencyCode) d))"

definition invoice_json :: "Invoice \<Rightarrow> payload" where
  "invoice_json r = [(''id'', JUuid (in_ID r)), (''project_id'', JUuid (in_ProjectID r)), (''org_id'', JUuid (in_OrgID r)),
     (''vendor_name'', JStr (in_VendorName r))] @ opt_field ''invoice_number'' JStr (in_InvoiceNumber r) @
     [(''amount_cents'', JInt (in_AmountCents r)), (''currency_code'', JStr (in_CurrencyCode r))] @
     opt_field ''wbs_code'' JStr (in_WBSCode r) @ [(''status'', JStr (in_Status r))] @
     opt_field ''due_date'' JTime (in_DueDate r) @ opt_field ''paid_date'' JTime (in_PaidDate r) @
     [(''created_at'', JTime (in_CreatedAt r)), (''source'', JStr (in_Source r))]"

definition budget_json :: "ProjectBudget \<Rightarrow> payload" where
  "budget_json r = [(''id'', JUuid (pb_ID r)), (''project_id'', JUuid (pb_ProjectID r)), (''wbs_code'', JStr (pb_WBSCode r)),
     (''phase_name'', JStr (pb_PhaseName r)), (''estimated_cost_cents'', JInt (pb_EstimatedCostCents r)),
     (''estimated_cost_currency_code'', JStr (pb_EstimatedCostCurrencyCode r)),
     (''committed_cost_cents'', JInt (pb_CommittedCostCents r)),
     (''committed_cost_currency_code'', JStr (pb_CommittedCostCurrencyCode r)),
     (''actual_cost_cents'', JInt (pb_ActualCostCents r)), (''actual_cost_currency_code'', JStr (pb_ActualCostCurrencyCode r)),
     (''created_at'', JTime (pb_CreatedAt r)), (''updated_at'', JTime (pb_UpdatedAt r))]"

definition invoice_check :: "CreateInvoiceInput \<Rightarrow> svc_error + unit" where
  "invoice_check p =
     ebind (map_err (\<lambda>_. InvalidInput ''currency_code'') (Validate (ip_CurrencyCode p))) (\<lambda>_.
     ebind (require_that (ip_VendorName p \<noteq> []) (InvalidInput ''vendor_name'')) (\<lambda>_.
     require_that (ip_AmountCents p > 0) (InvalidInput ''amount_cents'')))"

definition invoice_created_entry :: "uuid \<Rightarrow> string \<Rightarrow> CreateInvoiceInput \<Rightarrow> Invoice \<Rightarrow> AuditEntry" where
  "invoice_created_entry orgID sub p created =
     \<lparr>ae_OrgID = orgID, ae_UserSub = sub, ae_Action = ''invoice.created'', ae_ResourceType = ''invoice'',
      ae_ResourceID = in_ID created, ae_Before = [], ae_After = invoice_json created,
      ae_Metadata = [(''project_id'', JUuid (ip_ProjectID p)), (''vendor_name'', JStr (ip_VendorName p)),
        (''amount_cents'', JInt (ip_AmountCents p)), (''currency'', JStr (ip_CurrencyCode p)),
        (''wbs_code'', opt_json JStr (ip_WBSCode p))]\<rparr>"

definition createInvoiceTx :: "env \<Rightarrow> uuid \<Rightarrow> string \<Rightarrow> CreateInvoiceInput \<Rightarrow> ('x financial_db_scheme, Invoice) tx" where
  "createInvoiceTx e callerOrgID sub p =
     tbind (tlift (invoice_check p)) (\<lambda>_.
     tbind (VerifyProjectInOrg e (ip_ProjectID p) callerOrgID) (\<lambda>_.
     tbind (CreateInvoice_store e callerOrgID p) (\<lambda>created.
     tbind (Record e (invoice_created_entry callerOrgID sub p created)) (\<lambda>_.
     tret created))))"

definition CreateInvoice :: "env \<Rightarrow> uuid \<Rightarrow> string \<Rightarrow> CreateInvoiceInput \<Rightarrow> 'x financial_db_scheme \<Rightarrow>
    (svc_error + Invoice) \<times> 'x financial_db_scheme" where
  "CreateInvoice e callerOrgID sub p d = mapped (BeginTxFunc e (createInvoiceTx e callerOrgID sub p) d)"

record CreateProjectBudgetLine =
  bl_WBSCode :: string
  bl_PhaseName :: string
  bl_CurrencyCode :: string
  bl_EstimatedCostCents :: int
  bl_CommittedCostCents :: int
  bl_ActualCostCents :: int

text \<open>The validation loop: \<open>seen\<close> are the trimmed codes so far, in which a repeated code is an error.\<close>

fun check_lines :: "uuid \<Rightarrow> string list \<Rightarrow> CreateProjectBudgetLine list \<Rightarrow> svc_error + CreateProjectBudgetParams list" where
  "check_lines projectID seen [] = Inr []"
| "check_lines projectID seen (l # ls) =
     (let wbs = trim_space (bl_WBSCode l); phase = trim_space (bl_PhaseName l) in
      if wbs = [] then Inl (InvalidInput ''wbs_code'')
      else if wbs \<in> set seen then Inl (InvalidInput ''duplicate wbs_code'')
      else if phase = [] then Inl (InvalidInput ''phase_name'')
      else ebind (map_err (\<lambda>_. InvalidInput ''currency_code'') (Validate (bl_CurrencyCode l))) (\<lambda>_.
        if bl_EstimatedCostCents l < 0 \<or> bl_CommittedCostCents l < 0 \<or> bl_ActualCostCents l < 0
        then Inl (InvalidInput ''cost_cents'')
        else ebind (check_lines projectID (wbs # seen) ls) (\<lambda>ps.
          Inr (\<lparr>bp_ProjectID = projectID, bp_WBSCode = wbs, bp_PhaseName = phase, bp_CurrencyCode = bl_CurrencyCode l,
                bp_EstimatedCostCents = bl_EstimatedCostCents l, bp_CommittedCostCents = bl_CommittedCostCents l,
                bp_ActualCostCents = bl_ActualCostCents l\<rparr> # ps))))"

definition budget_created_entry :: "uuid \<Rightarrow> string \<Rightarrow> uuid \<Rightarrow> ProjectBudget \<Rightarrow> AuditEntry" where
  "budget_created_entry orgID sub projectID created =
     \<lparr>ae_OrgID = orgID, ae_UserSub = sub, ae_Action = ''budget.created'', ae_ResourceType = ''project_budget'',
      ae_ResourceID = pb_ID created, ae_Before = [], ae_After = budget_json created,
      ae_Metadata = [(''project_id'', JUuid projectID), (''wbs_code'', JStr (pb_WBSCode created)),
        (''estimated_cost_cents'', JInt (pb_EstimatedCostCents created)),
        (''currency'', JStr (pb_EstimatedCostCurrencyCode created))]\<rparr>"

fun create_lines :: "env \<Rightarrow> uuid \<Rightarrow> string \<Rightarrow> uuid \<Rightarrow> CreateProjectBudgetParams list \<Rightarrow>
    ('x financial_db_scheme, ProjectBudget list) tx" where
  "create_lines e orgID sub projectID [] = tret []"
| "create_lines e orgID sub projectID (p # ps) =
     tbind (CreateProjectBudget e p) (\<lambda>created.
     tbind (Record e (budget_created_entry orgID sub projectID created)) (\<lambda>_.
     tbind (create_lines e orgID sub projectID ps) (\<lambda>out.
     tret (created # out))))"

definition CreateProjectBudgets :: "env \<Rightarrow> uuid \<Rightarrow> string \<Rightarrow> uuid \<Rightarrow> CreateProjectBudgetLine list \<Rightarrow>
    'x financial_db_scheme \<Rightarrow> (svc_error + ProjectBudget list) \<times> 'x financial_db_scheme" where
  "CreateProjectBudgets e callerOrgID sub projectID lines d =
     (case ebind (require_that (callerOrgID \<noteq> uuid_nil) (InvalidInput ''org_id'')) (\<lambda>_.
           ebind (require_that (lines \<noteq> []) (InvalidInput ''budgets'')) (\<lambda>_.
           check_lines projectID [] lines)) of
        Inl err \<Rightarrow> (Inl err, d)
      | Inr params \<Rightarrow> mapped (BeginTxFunc e
          (tbind (VerifyProjectInOrg e projectID callerOrgID) (\<lambda>_.
           create_lines e callerOrgID sub projectID params)) d))"

record UpdateInvoiceInput = UpdateInvoiceParams +
  iu_ProjectID :: uuid

definition invoice_updated_entry :: "uuid \<Rightarrow> string \<Rightarrow> UpdateInvoiceInput \<Rightarrow> Invoice \<Rightarrow> AuditEntry" where
  "invoice_updated_entry orgID sub inp updated =
     \<lparr>ae_OrgID = orgID, ae_UserSub = sub, ae_Action = ''invoice.updated'', ae_ResourceType = ''invoice'',
      ae_ResourceID = in_ID updated, ae_Before = [], ae_After = invoice_json updated,
      ae_Metadata = [(''status'', opt_json JStr (iu_Status inp)), (''paid_date'', opt_json JTime (iu_PaidDate inp))]\<rparr>"

definition UpdateInvoice :: "env \<Rightarrow> uuid \<Rightarrow> string \<Rightarrow> UpdateInvoiceInput \<Rightarrow> 'x financial_db_scheme \<Rightarrow>
    (svc_error + Invoice) \<times> 'x financial_db_scheme" where
  "UpdateInvoice e callerOrgID sub inp d =
     service_result (require_that (opt_ok IsValidInvoiceStatus (iu_Status inp)) (InvalidInput ''status'')) d
       (mapped (BeginTxFunc e
          (tbind (VerifyProjectInOrg e (iu_ProjectID inp) callerOrgID) (\<lambda>_.
           tbind (UpdateInvoice_store e (UpdateInvoiceParams.truncate inp)) (\<lambda>updated.
           tbind (Record e (invoice_updated_entry callerOrgID sub inp updated)) (\<lambda>_.
           tret updated)))) d))"

definition RunCorporateRollup :: "env \<Rightarrow> gotime \<Rightarrow> 'x financial_db_scheme \<Rightarrow> (svc_error + int) \<times> 'x financial_db_scheme" where
  "RunCorporateRollup e now d =
     (case currentFiscalQuarter now of (year, quarter) \<Rightarrow>
        BeginTxFunc e (UpsertCorporateRollupForQuarter e year quarter) d)"

end
