(* ===== verification/Financials_Props.thy ===== *)
theory Financials_Props
  imports Financials Projects_Props
begin

text \<open>
  Properties of the financial service: the corporate rollup, the budget batch, invoice creation, and
  what \<open>UpdateInvoice\<close> lets a caller change.
\<close>

section \<open>The rollup\<close>

definition bucket :: "CorporateBudget \<Rightarrow> uuid \<times> int \<times> int \<times> string" where
  "bucket c = (co_OrgID c, co_FiscalYear c, co_Quarter c, co_CurrencyCode c)"

definition totals :: "CorporateBudget \<Rightarrow> int \<times> int \<times> int \<times> int" where
  "totals c = (co_TotalEstimatedCents c, co_TotalCommittedCents c, co_TotalActualCents c, co_ProjectCount c)"

lemma same_bucket_iff: "same_bucket a b \<longleftrightarrow> bucket a = bucket b"
  by (auto simp: same_bucket_def bucket_def)

lemma upsert_one:
  shows "c \<in> set (upsert_corporate new table) \<Longrightarrow> bucket c = bucket new \<Longrightarrow> totals c = totals new"
    and "bucket c \<noteq> bucket new \<Longrightarrow> c \<in> set (upsert_corporate new table) \<longleftrightarrow> c \<in> set table"
    and "\<exists>c\<in>set (upsert_corporate new table). bucket c = bucket new"
    and "distinct (List.map bucket table) \<Longrightarrow> distinct (List.map bucket (upsert_corporate new table))"
proof -
  let ?f = "\<lambda>old. new\<lparr>co_ID := co_ID old, co_CreatedAt := co_CreatedAt old\<rparr>"
  have f: "bucket (?f old) = bucket new" "totals (?f old) = totals new" for old
    by (simp_all add: bucket_def totals_def)
  show "c \<in> set (upsert_corporate new table) \<Longrightarrow> bucket c = bucket new \<Longrightarrow> totals c = totals new"
    by (auto simp: upsert_corporate_def same_bucket_iff set_update_where f split: if_splits)
  show "bucket c \<noteq> bucket new \<Longrightarrow> c \<in> set (upsert_corporate new table) \<longleftrightarrow> c \<in> set table"
    by (auto simp: upsert_corporate_def same_bucket_iff set_update_where f split: if_splits)
  show "\<exists>c\<in>set (upsert_corporate new table). bucket c = bucket new"
  proof (cases "\<exists>old\<in>set table. bucket old = bucket new")
    case True
    then obtain old where old: "old \<in> set table" "bucket old = bucket new" by blast
    then have "?f old \<in> set (upsert_corporate new table)"
      by (force simp: upsert_corporate_def same_bucket_iff set_update_where)
    then show ?thesis using f(1) by (rule bexI [rotated])
  qed (simp add: upsert_corporate_def same_bucket_iff)
  have "List.map bucket (update_where (\<lambda>old. bucket old = bucket new) ?f table) = List.map bucket table"
    by (simp add: update_where_def f)
  then show "distinct (List.map bucket table) \<Longrightarrow> distinct (List.map bucket (upsert_corporate new table))"
    by (auto simp: upsert_corporate_def same_bucket_iff)
qed

lemma upsert_all:
  assumes "distinct (List.map bucket news)"
  shows "c \<in> set (fold upsert_corporate news table) \<Longrightarrow> n \<in> set news \<Longrightarrow> bucket c = bucket n \<Longrightarrow> totals c = totals n"
    and "bucket c \<notin> bucket ` set news \<Longrightarrow> c \<in> set (fold upsert_corporate news table) \<longleftrightarrow> c \<in> set table"
    and "n \<in> set news \<Longrightarrow> \<exists>c\<in>set (fold upsert_corporate news table). bucket c = bucket n"
    and "distinct (List.map bucket table) \<Longrightarrow> distinct (List.map bucket (fold upsert_corporate news table))"
proof -
  have "(\<forall>c\<in>set (fold upsert_corporate news table). \<forall>n\<in>set news. bucket c = bucket n \<longrightarrow> totals c = totals n) \<and>
    (\<forall>c. bucket c \<notin> bucket ` set news \<longrightarrow> (c \<in> set (fold upsert_corporate news table) \<longleftrightarrow> c \<in> set table)) \<and>
    (\<forall>n\<in>set news. \<exists>c\<in>set (fold upsert_corporate news table). bucket c = bucket n) \<and>
    (distinct (List.map bucket table) \<longrightarrow> distinct (List.map bucket (fold upsert_corporate news table)))"
    using assms
  proof (induction news arbitrary: table)
    case (Cons m news)
    let ?t = "upsert_corporate m table"
    have m: "bucket m \<notin> bucket ` set news" using Cons.prems by auto
    note IH = Cons.IH [of ?t]
    have ih: "\<forall>c\<in>set (fold upsert_corporate news ?t). \<forall>n\<in>set news. bucket c = bucket n \<longrightarrow> totals c = totals n"
      "\<And>c. bucket c \<notin> bucket ` set news \<Longrightarrow> c \<in> set (fold upsert_corporate news ?t) \<longleftrightarrow> c \<in> set ?t"
      "\<forall>n\<in>set news. \<exists>c\<in>set (fold upsert_corporate news ?t). bucket c = bucket n"
      "distinct (List.map bucket ?t) \<Longrightarrow> distinct (List.map bucket (fold upsert_corporate news ?t))"
      using IH Cons.prems by simp_all
    have "totals c = totals m" if "c \<in> set (fold upsert_corporate news ?t)" "bucket c = bucket m" for c
      using that ih(2) [of c] m upsert_one(1) [of c m table] by simp
    moreover have "\<exists>c\<in>set (fold upsert_corporate news ?t). bucket c = bucket m"
      using upsert_one(3) [of m table] ih(2) m by metis
    moreover have "c \<in> set (fold upsert_corporate news ?t) \<longleftrightarrow> c \<in> set table"
      if "bucket c \<notin> bucket ` set (m # news)" for c
      using that ih(2) [of c] upsert_one(2) [of c m table] by simp
    ultimately show ?case using ih(1,3,4) upsert_one(4) [of table m] by auto
  qed simp
  then show "c \<in> set (fold upsert_corporate news table) \<Longrightarrow> n \<in> set news \<Longrightarrow> bucket c = bucket n \<Longrightarrow> totals c = totals n"
    and "bucket c \<notin> bucket ` set news \<Longrightarrow> c \<in> set (fold upsert_corporate news table) \<longleftrightarrow> c \<in> set table"
    and "n \<in> set news \<Longrightarrow> \<exists>c\<in>set (fold upsert_corporate news table). bucket c = bucket n"
    and "distinct (List.map bucket table) \<Longrightarrow> distinct (List.map bucket (fold upsert_corporate news table))"
    by blast+
qed

definition contributions :: "'x financial_db_scheme \<Rightarrow> uuid \<Rightarrow> string \<Rightarrow> (Project \<times> ProjectBudget) list" where
  "contributions d org code = filter (\<lambda>r. rollup_key r = (org, code)) (budget_join in_rollup d)"

definition contribution_totals :: "'x financial_db_scheme \<Rightarrow> uuid \<Rightarrow> string \<Rightarrow> int \<times> int \<times> int \<times> int" where
  "contribution_totals d org code =
     (let g = contributions d org code in
      (\<Sum>r\<leftarrow>g. pb_EstimatedCostCents (snd r), \<Sum>r\<leftarrow>g. pb_CommittedCostCents (snd r),
       \<Sum>r\<leftarrow>g. pb_ActualCostCents (snd r), int (card (set (List.map (\<lambda>r. pj_ID (fst r)) g)))))"

lemma map_enumerate: "List.map (\<lambda>(i, k). f k) (enumerate n ks) = List.map f ks"
  by (induction ks arbitrary: n) auto

lemma rollup_rows_buckets:
  "List.map bucket (rollup_rows e n y q rows) =
     List.map (\<lambda>k. (fst k, y, q, snd k)) (remdups (List.map rollup_key rows))"
proof -
  have "bucket \<circ> (\<lambda>(i, k). rollup_row e y q rows k (e_uuid e i)) = (\<lambda>(i, k). (fst k, y, q, snd k))"
    by (auto simp: fun_eq_iff bucket_def rollup_row_def Let_def)
  then show ?thesis by (simp add: rollup_rows_def Let_def map_enumerate)
qed

lemma rollup_rows_distinct: "distinct (List.map bucket (rollup_rows e n y q rows))"
proof -
  have "inj (\<lambda>k::uuid \<times> string. (fst k, y, q, snd k))" by (auto simp: inj_def prod_eq_iff)
  then show ?thesis unfolding rollup_rows_buckets by (simp add: distinct_map inj_on_subset [OF _ subset_UNIV])
qed

lemma rollup_rows_totals:
  "r \<in> set (rollup_rows e n y q (budget_join in_rollup d)) \<Longrightarrow>
     totals r = contribution_totals d (co_OrgID r) (co_CurrencyCode r) \<and> co_FiscalYear r = y \<and> co_Quarter r = q"
  by (auto simp: rollup_rows_def rollup_row_def totals_def contribution_totals_def contributions_def Let_def)

lemma bucket_image:
  "(org, y', q', code) \<in> (\<lambda>k. (fst k, y, q, snd k)) ` (K :: (uuid \<times> string) set) \<longleftrightarrow> y' = y \<and> q' = q \<and> (org, code) \<in> K"
proof
  assume "(org, y', q', code) \<in> (\<lambda>k. (fst k, y, q, snd k)) ` K"
  then obtain k where "(org, y', q', code) = (fst k, y, q, snd k)" "k \<in> K" by (rule imageE)
  then show "y' = y \<and> q' = q \<and> (org, code) \<in> K" by (cases k) simp
next
  assume "y' = y \<and> q' = q \<and> (org, code) \<in> K"
  then show "(org, y', q', code) \<in> (\<lambda>k. (fst k, y, q, snd k)) ` K" by (intro image_eqI [of _ _ "(org, code)"]) simp_all
qed

lemma contributions_nonempty:
  "contributions d org code \<noteq> [] \<longleftrightarrow> (org, code) \<in> rollup_key ` set (budget_join in_rollup d)"
  unfolding contributions_def filter_empty_conv image_iff by (auto intro: sym)

lemma bucket_in_rollup:
  "(org, y', q', code) \<in> bucket ` set (rollup_rows e n y q (budget_join in_rollup d)) \<longleftrightarrow>
     y' = y \<and> q' = q \<and> contributions d org code \<noteq> []"
proof -
  have "bucket ` set (rollup_rows e n y q (budget_join in_rollup d)) =
      (\<lambda>k. (fst k, y, q, snd k)) ` (rollup_key ` set (budget_join in_rollup d))"
    using arg_cong [OF rollup_rows_buckets [of e n y q "budget_join in_rollup d"], of set] by simp
  then show ?thesis by (simp only: bucket_image contributions_nonempty)
qed

text \<open>
  The rollup: after a successful run every organisation and currency with a budget line in an active or
  completed project has exactly one row for the current quarter, whose four figures are the true sums over
  those lines and the number of their projects; every other row of the table is as it was. So
  currencies and organisations never mix, and a second run in the quarter writes the same figures.
\<close>

theorem corporate_rollup_exact:
  assumes run: "RunCorporateRollup e now d = (Inr n, d')"
    and uniq: "distinct (List.map bucket (db_corporate d))"
    and cur: "currentFiscalQuarter now = (year, quarter)"
  shows "distinct (List.map bucket (db_corporate d')) \<and>
    (\<forall>org code. contributions d org code \<noteq> [] \<longrightarrow>
       (\<exists>c\<in>set (db_corporate d'). bucket c = (org, year, quarter, code) \<and> totals c = contribution_totals d org code)) \<and>
    (\<forall>c. \<not> (co_FiscalYear c = year \<and> co_Quarter c = quarter \<and> contributions d (co_OrgID c) (co_CurrencyCode c) \<noteq> []) \<longrightarrow>
       (c \<in> set (db_corporate d') \<longleftrightarrow> c \<in> set (db_corporate d)))"
proof -
  let ?news = "rollup_rows e 0 year quarter (budget_join in_rollup d)"
  have d': "db_corporate d' = fold upsert_corporate ?news (db_corporate d)"
    using run by (auto simp: RunCorporateRollup_def cur BeginTxFunc_Inr UpsertCorporateRollupForQuarter_def stmt_Inr
      Let_def split: if_splits)
  note all = upsert_all [OF rollup_rows_distinct [of e 0 year quarter "budget_join in_rollup d"],
      where table = "db_corporate d"]
  have ex: "\<exists>c\<in>set (db_corporate d'). bucket c = (org, year, quarter, code) \<and> totals c = contribution_totals d org code"
    if ne: "contributions d org code \<noteq> []" for org code
  proof -
    from ne obtain m where m: "m \<in> set ?news" "bucket m = (org, year, quarter, code)"
      using bucket_in_rollup [of org year quarter code e 0 year quarter d] by (metis imageE)
    then obtain c where c: "c \<in> set (db_corporate d')" "bucket c = bucket m" using all(3) d' by metis
    then have "totals c = totals m" using all(1) m d' by metis
    then show ?thesis using c m rollup_rows_totals [OF m(1)] by (auto simp: bucket_def)
  qed
  have keep: "c \<in> set (db_corporate d') \<longleftrightarrow> c \<in> set (db_corporate d)"
    if "\<not> (co_FiscalYear c = year \<and> co_Quarter c = quarter \<and> contributions d (co_OrgID c) (co_CurrencyCode c) \<noteq> [])" for c
  proof -
    have "bucket c \<notin> bucket ` set ?news"
      using that unfolding bucket_def [of c] bucket_in_rollup by blast
    then show ?thesis using all(2) d' by metis
  qed
  show ?thesis using all(4) [OF uniq] ex keep d' by auto
qed

definition sample_budget :: ProjectBudget where
  "sample_budget = \<lparr>pb_ID = 50, pb_ProjectID = 1, pb_WBSCode = ''8'', pb_PhaseName = ''F'', pb_EstimatedCostCents = 500,
     pb_EstimatedCostCurrencyCode = USD, pb_CommittedCostCents = 0, pb_CommittedCostCurrencyCode = USD,
     pb_ActualCostCents = 0, pb_ActualCostCurrencyCode = USD, pb_CreatedAt = 0, pb_UpdatedAt = 0\<rparr>"

definition sample_invoice :: Invoice where
  "sample_invoice = \<lparr>in_ID = 3, in_ProjectID = 2, in_OrgID = 8, in_VendorName = ''V'', in_InvoiceNumber = None,
     in_AmountCents = 100, in_CurrencyCode = USD, in_WBSCode = None, in_Status = InvoiceStatusPaid, in_DueDate = None,
     in_PaidDate = None, in_CreatedAt = 0, in_Source = ''manual''\<rparr>"

definition sample_books :: financial_db where
  "sample_books = \<lparr>db_orgs = [7, 8], db_projects = [sample_project 1], db_audit = [], db_jobs = [],
     db_budgets = [sample_budget], db_corporate = [], db_aging = [], db_invoices = [sample_invoice]\<rparr>"

theorem corporate_rollup_exact_witness:
  "\<exists>d' c. RunCorporateRollup calm_env 0 sample_books = (Inr 1, d') \<and> c \<in> set (db_corporate d') \<and>
     totals c = (500, 0, 0, 1)"
proof -
  have join: "budget_join in_rollup sample_books = [(sample_project 1, sample_budget)]"
    by (simp add: budget_join_def in_rollup_def sample_books_def sample_project_def sample_budget_def)
  have con: "contributions sample_books 7 USD = [(sample_project 1, sample_budget)]"
    by (simp add: contributions_def join rollup_key_def sample_project_def sample_budget_def)
  have calm: "e_fail calm_env op = False" "e_commit_fails calm_env = False" for op by (simp_all add: calm_env_def)
  have books: "db_corporate sample_books = []" by (simp add: sample_books_def)
  have rows: "rollup_rows calm_env 0 y q (budget_join in_rollup sample_books) =
      [rollup_row calm_env y q [(sample_project 1, sample_budget)] (7, USD) (e_uuid calm_env 0)]" for y q
    by (simp add: rollup_rows_def Let_def join rollup_key_def sample_project_def sample_budget_def)
  have small: "in_int64 (co_TotalEstimatedCents (rollup_row calm_env y q [(sample_project 1, sample_budget)] (7, USD) u)) \<and>
      in_int64 (co_TotalCommittedCents (rollup_row calm_env y q [(sample_project 1, sample_budget)] (7, USD) u)) \<and>
      in_int64 (co_TotalActualCents (rollup_row calm_env y q [(sample_project 1, sample_budget)] (7, USD) u))" for y q u
    by (simp add: rollup_row_def rollup_key_def Let_def sample_project_def sample_budget_def in_int64_def)
  have "\<exists>d'. RunCorporateRollup calm_env 0 sample_books = (Inr 1, d')"
    by (cases "currentFiscalQuarter 0")
       (simp add: RunCorporateRollup_def BeginTxFunc_def UpsertCorporateRollupForQuarter_def stmt_def Let_def
         rows small books calm del: One_nat_def)
  then obtain d' where run: "RunCorporateRollup calm_env 0 sample_books = (Inr 1, d')" by blast
  have tot: "contribution_totals sample_books 7 USD = (500, 0, 0, 1)"
    by (simp add: contribution_totals_def con sample_project_def sample_budget_def)
  obtain y q where cur: "currentFiscalQuarter 0 = (y, q)" by (rule prod.exhaust)
  have uniq: "distinct (List.map bucket (db_corporate sample_books))" by (simp add: sample_books_def)
  have "contributions sample_books 7 USD \<noteq> []" by (simp add: con)
  then obtain c where "c \<in> set (db_corporate d')" "totals c = contribution_totals sample_books 7 USD"
    using corporate_rollup_exact [OF run uniq cur, THEN conjunct2, THEN conjunct1, rule_format, of 7 USD] by blast
  then show ?thesis using run tot by auto
qed

section \<open>The budget batch\<close>

lemma check_lines_Inr:
  "check_lines pid seen ls = Inr ps \<Longrightarrow>
     List.map bp_WBSCode ps = List.map (\<lambda>l. trim_space (bl_WBSCode l)) ls \<and>
     distinct (List.map bp_WBSCode ps) \<and> set (List.map bp_WBSCode ps) \<inter> set seen = {} \<and>
     (\<forall>p\<in>set ps. bp_ProjectID p = pid \<and> bp_WBSCode p \<noteq> [] \<and> bp_PhaseName p \<noteq> [] \<and> bp_CurrencyCode p \<in> {USD, CAD} \<and>
        0 \<le> bp_EstimatedCostCents p \<and> 0 \<le> bp_CommittedCostCents p \<and> 0 \<le> bp_ActualCostCents p)"
proof (induction ls arbitrary: seen ps)
  case (Cons l ls)
  from Cons.prems obtain ps' where rec: "check_lines pid (trim_space (bl_WBSCode l) # seen) ls = Inr ps'"
    and ps: "ps = \<lparr>bp_ProjectID = pid, bp_WBSCode = trim_space (bl_WBSCode l), bp_PhaseName = trim_space (bl_PhaseName l),
        bp_CurrencyCode = bl_CurrencyCode l, bp_EstimatedCostCents = bl_EstimatedCostCents l,
        bp_CommittedCostCents = bl_CommittedCostCents l, bp_ActualCostCents = bl_ActualCostCents l\<rparr> # ps'"
    and ok: "trim_space (bl_WBSCode l) \<noteq> []" "trim_space (bl_WBSCode l) \<notin> set seen" "trim_space (bl_PhaseName l) \<noteq> []"
      "bl_CurrencyCode l \<in> {USD, CAD}" "0 \<le> bl_EstimatedCostCents l" "0 \<le> bl_CommittedCostCents l" "0 \<le> bl_ActualCostCents l"
    by (auto simp: Let_def ebind_Inr_iff Validate_def split: if_splits)
  note ih = Cons.IH [OF rec]
  have "bp_WBSCode ` set ps' = (\<lambda>l. trim_space (bl_WBSCode l)) ` set ls" using ih by (metis set_map)
  then show ?case using ih ps ok by auto
qed simp

definition budget_of :: "CreateProjectBudgetParams \<Rightarrow> ProjectBudget \<Rightarrow> bool" where
  "budget_of p b \<longleftrightarrow> pb_ProjectID b = bp_ProjectID p \<and> pb_WBSCode b = bp_WBSCode p \<and> pb_PhaseName b = bp_PhaseName p \<and>
     pb_EstimatedCostCents b = bp_EstimatedCostCents p \<and> pb_CommittedCostCents b = bp_CommittedCostCents p \<and>
     pb_ActualCostCents b = bp_ActualCostCents p \<and> pb_EstimatedCostCurrencyCode b = bp_CurrencyCode p \<and>
     pb_CommittedCostCurrencyCode b = bp_CurrencyCode p \<and> pb_ActualCostCurrencyCode b = bp_CurrencyCode p"

lemma create_lines_Inr:
  assumes "create_lines e org sub pid ps s = Inr (out, s')" "\<not> s_aborted s'"
  shows "\<not> s_aborted s \<and> list_all2 budget_of ps out \<and>
     (\<forall>b\<in>set out. \<forall>old\<in>set (db_budgets (s_db s)). \<not> (pb_ProjectID old = pb_ProjectID b \<and> pb_WBSCode old = pb_WBSCode b)) \<and>
     (\<exists>rows. s_db s' = s_db s\<lparr>db_budgets := db_budgets (s_db s) @ out, db_audit := db_audit (s_db s) @ rows\<rparr> \<and>
        (org \<noteq> uuid_nil \<and> (\<forall>k. e_uuid e k \<noteq> uuid_nil) \<longrightarrow> length rows = length out))"
  using assms
proof (induction ps arbitrary: s out)
  case Nil
  then show ?case by (intro conjI exI [of _ "[]"]) auto
next
  case (Cons p ps)
  from Cons.prems(1) obtain b s1 s2 out' where
    ins: "CreateProjectBudget e p s = Inr (b, s1)" and
    rcd: "Record e (budget_created_entry org sub pid b) s1 = Inr ((), s2)" and
    rest: "create_lines e org sub pid ps s2 = Inr (out', s')" and out: "out = b # out'"
    by (auto simp: tbind_Inr)
  note ih = Cons.IH [OF rest Cons.prems(2)]
  then have ok2: "\<not> s_aborted s2" by blast
  from Record_Inr [OF rcd ok2] obtain new where new: "s_db s2 = s_db s1\<lparr>db_audit := db_audit (s_db s1) @ new\<rparr>"
    "auditable (budget_created_entry org sub pid b) \<Longrightarrow> length new = 1" by metis
  have ins': "\<not> s_aborted s" "budget_of p b" "s_db s1 = s_db s\<lparr>db_budgets := db_budgets (s_db s) @ [b]\<rparr>"
    "pb_ID b = e_uuid e (s_draws s)"
    "\<forall>old\<in>set (db_budgets (s_db s)). \<not> (pb_ProjectID old = pb_ProjectID b \<and> pb_WBSCode old = pb_WBSCode b)"
    using ins by (auto simp: CreateProjectBudget_def insert_returning_Inr budget_of_def)
  obtain rows where rows: "s_db s' = s_db s2\<lparr>db_budgets := db_budgets (s_db s2) @ out', db_audit := db_audit (s_db s2) @ rows\<rparr>"
    "org \<noteq> uuid_nil \<and> (\<forall>k. e_uuid e k \<noteq> uuid_nil) \<longrightarrow> length rows = length out'" using ih by blast
  have aud: "org \<noteq> uuid_nil \<and> (\<forall>k. e_uuid e k \<noteq> uuid_nil) \<longrightarrow> auditable (budget_created_entry org sub pid b)"
    using ins'(4) by (simp add: auditable_def budget_created_entry_def)
  have "s_db s' = s_db s\<lparr>db_budgets := db_budgets (s_db s) @ out, db_audit := db_audit (s_db s) @ (new @ rows)\<rparr> \<and>
        (org \<noteq> uuid_nil \<and> (\<forall>k. e_uuid e k \<noteq> uuid_nil) \<longrightarrow> length (new @ rows) = length out)"
    using rows new ins'(3) aud out by (auto simp: new(1))
  then show ?case using ins' ih out by (auto simp: new(1))
qed

text \<open>
  The budget baseline is written whole or not at all: an error leaves the database alone; success adds,
  in order, one line per input line, with the trimmed code, non-negative amounts and one supported
  currency in all three columns, to a project of the caller's organisation in which no two
  lines share a code, and one audit row per line.
\<close>

theorem budget_batch_all_or_nothing:
  assumes run: "CreateProjectBudgets e org sub pid lines d = (r, d')"
  shows "(case r of Inl err \<Rightarrow> d' = d
     | Inr out \<Rightarrow> db_budgets d' = db_budgets d @ out \<and>
         List.map pb_WBSCode out = List.map (\<lambda>l. trim_space (bl_WBSCode l)) lines \<and>
         distinct (List.map pb_WBSCode out) \<and>
         (\<forall>b\<in>set out. pb_ProjectID b = pid \<and> pb_EstimatedCostCurrencyCode b \<in> {USD, CAD} \<and>
            pb_CommittedCostCurrencyCode b = pb_EstimatedCostCurrencyCode b \<and>
            pb_ActualCostCurrencyCode b = pb_EstimatedCostCurrencyCode b \<and> 0 \<le> pb_EstimatedCostCents b \<and>
            0 \<le> pb_CommittedCostCents b \<and> 0 \<le> pb_ActualCostCents b \<and>
            (\<forall>old\<in>set (db_budgets d). \<not> (pb_ProjectID old = pid \<and> pb_WBSCode old = pb_WBSCode b))) \<and>
         (\<exists>p\<in>set (db_projects d). pj_ID p = pid \<and> pj_OrgID p = org) \<and>
         (\<exists>rows. db_audit d' = db_audit d @ rows \<and>
            ((\<forall>k. e_uuid e k \<noteq> uuid_nil) \<longrightarrow> length rows = length lines)))"
proof (cases r)
  case (Inl err)
  then show ?thesis using run
    by (auto simp: CreateProjectBudgets_def dest: mapped_rollback split: sum.splits)
next
  case (Inr out)
  then obtain ps where chk: "org \<noteq> uuid_nil" "check_lines pid [] lines = Inr ps"
    and "BeginTxFunc e (tbind (VerifyProjectInOrg e pid org) (\<lambda>_. create_lines e org sub pid ps)) d = (Inr out, d')"
    using run by (auto simp: CreateProjectBudgets_def ebind_Inr_iff mapped_Inr split: sum.splits)
  then obtain s where proj: "\<exists>p\<in>set (db_projects d). pj_ID p = pid \<and> pj_OrgID p = org"
    and body: "create_lines e org sub pid ps \<lparr>s_db = d, s_draws = 0, s_aborted = False\<rparr> = Inr (out, s)"
    and ok: "\<not> s_aborted s" "d' = s_db s"
    by (auto simp: BeginTxFunc_Inr tbind_Inr VerifyProjectInOrg_def select_all_Inr)
  note lines = check_lines_Inr [OF chk(2)]
  note eff = create_lines_Inr [OF body ok(1)]
  have all2: "list_all2 budget_of ps out" using eff by blast
  then have codes: "List.map pb_WBSCode out = List.map bp_WBSCode ps"
    by (induction rule: list_all2_induct) (auto simp: budget_of_def)
  have len: "length out = length lines" using codes lines by (metis length_map)
  have dist: "distinct (List.map (\<lambda>l. trim_space (bl_WBSCode l)) lines)" using lines by metis
  have each: "\<exists>p\<in>set ps. budget_of p b" if "b \<in> set out" for b
    using all2 that by (metis list_all2_conv_all_nth in_set_conv_nth)
  obtain rows where rows: "s_db s = d\<lparr>db_budgets := db_budgets d @ out, db_audit := db_audit d @ rows\<rparr>"
    "(\<forall>k. e_uuid e k \<noteq> uuid_nil) \<longrightarrow> length rows = length out" using eff chk(1) by auto
  have line: "pb_ProjectID b = pid \<and> pb_EstimatedCostCurrencyCode b \<in> {USD, CAD} \<and>
            pb_CommittedCostCurrencyCode b = pb_EstimatedCostCurrencyCode b \<and>
            pb_ActualCostCurrencyCode b = pb_EstimatedCostCurrencyCode b \<and> 0 \<le> pb_EstimatedCostCents b \<and>
            0 \<le> pb_CommittedCostCents b \<and> 0 \<le> pb_ActualCostCents b" if b: "b \<in> set out" for b
    using each [OF b] lines by (auto simp: budget_of_def)
  have "\<forall>b\<in>set out. \<forall>old\<in>set (db_budgets d). \<not> (pb_ProjectID old = pid \<and> pb_WBSCode old = pb_WBSCode b)"
    using eff line by auto
  then show ?thesis using Inr ok rows line lines codes proj len dist by simp
qed

theorem budget_batch_all_or_nothing_witness:
  "\<exists>b d'. CreateProjectBudgets calm_env 7 ''u'' 1
     [\<lparr>bl_WBSCode = '' 9 '', bl_PhaseName = ''R'', bl_CurrencyCode = CAD, bl_EstimatedCostCents = 5,
       bl_CommittedCostCents = 0, bl_ActualCostCents = 0\<rparr>] sample_books = (Inr [b], d') \<and>
     db_budgets d' = [sample_budget, b] \<and> pb_WBSCode b = ''9'' \<and> length (db_audit d') = 1"
proof -
  let ?lines = "[\<lparr>bl_WBSCode = '' 9 '', bl_PhaseName = ''R'', bl_CurrencyCode = CAD, bl_EstimatedCostCents = 5,
       bl_CommittedCostCents = 0, bl_ActualCostCents = 0\<rparr>]"
  have trim: "trim_space '' 9 '' = ''9''" "trim_space ''R'' = ''R''"
    by (simp_all add: trim_space_def is_space_def)
  have "\<exists>b d'. CreateProjectBudgets calm_env 7 ''u'' 1 ?lines sample_books = (Inr [b], d')"
    by (simp add: CreateProjectBudgets_def trim Validate_def require_that_def mapped_def BeginTxFunc_def tbind_def
      VerifyProjectInOrg_def select_all_def stmt_def tguard_def CreateProjectBudget_def insert_returning_def Let_def
      Record_def InsertAudit_def scrubAuditPayloads_def budget_created_entry_def tret_def calm_env_def sample_books_def
      sample_project_def sample_budget_def uuid_nil_def)
  then obtain b d' where run: "CreateProjectBudgets calm_env 7 ''u'' 1 ?lines sample_books = (Inr [b], d')" by blast
  have "e_uuid calm_env k \<noteq> uuid_nil" for k by (simp add: calm_env_def uuid_nil_def)
  then show ?thesis using budget_batch_all_or_nothing [OF run] run by (auto simp: sample_books_def trim)
qed

section \<open>Invoices\<close>

text \<open>
  An invoice is created validated: success stores exactly one new pending invoice under the caller's
  organisation, with a positive amount, a vendor, a supported currency and a project of that organisation; an
  error stores nothing.
\<close>

theorem invoice_created_validated:
  assumes run: "CreateInvoice e org sub p d = (r, d')"
  shows "(case r of Inl err \<Rightarrow> d' = d
     | Inr i \<Rightarrow> db_invoices d' = db_invoices d @ [i] \<and> in_OrgID i = org \<and> in_ProjectID i = ip_ProjectID p \<and>
         in_Status i = ''pending'' \<and> in_PaidDate i = None \<and> 0 < in_AmountCents i \<and> in_VendorName i \<noteq> [] \<and>
         in_CurrencyCode i \<in> {USD, CAD} \<and> (\<exists>q\<in>set (db_projects d). pj_ID q = in_ProjectID i \<and> pj_OrgID q = org))"
proof (cases r)
  case (Inl err)
  then show ?thesis using run by (auto simp: CreateInvoice_def dest: mapped_rollback)
next
  case (Inr i)
  then have "BeginTxFunc e (createInvoiceTx e org sub p) d = (Inr i, d')"
    using run by (simp add: CreateInvoice_def mapped_Inr)
  then obtain s where tx: "createInvoiceTx e org sub p \<lparr>s_db = d, s_draws = 0, s_aborted = False\<rparr> = Inr (i, s)"
    and ok: "\<not> s_aborted s" "d' = s_db s" by (auto simp: BeginTxFunc_Inr)
  from tx obtain s1 where check: "invoice_check p = Inr ()"
    and proj: "\<exists>q\<in>set (db_projects d). pj_ID q = ip_ProjectID p \<and> pj_OrgID q = org"
    and ins: "CreateInvoice_store e org p \<lparr>s_db = d, s_draws = 0, s_aborted = False\<rparr> = Inr (i, s1)"
    and rcd: "Record e (invoice_created_entry org sub p i) s1 = Inr ((), s)"
    by (auto simp: createInvoiceTx_def tbind_Inr tlift_def VerifyProjectInOrg_def select_all_Inr split: sum.splits)
  from Record_Inr [OF rcd ok(1)] obtain new where "s_db s = s_db s1\<lparr>db_audit := db_audit (s_db s1) @ new\<rparr>" by metis
  then have table: "db_invoices d' = db_invoices d @ [i]" using ins ok
    by (auto simp: CreateInvoice_store_def insert_returning_Inr)
  have row: "in_OrgID i = org" "in_ProjectID i = ip_ProjectID p" "in_Status i = ''pending''" "in_PaidDate i = None"
    "in_AmountCents i = ip_AmountCents p" "in_VendorName i = ip_VendorName p" "in_CurrencyCode i = ip_CurrencyCode p"
    using ins by (auto simp: CreateInvoice_store_def insert_returning_Inr)
  have "0 < ip_AmountCents p" "ip_VendorName p \<noteq> []" "ip_CurrencyCode p \<in> {USD, CAD}"
    using check by (auto simp: invoice_check_def ebind_Inr_iff Validate_def require_that_def split: if_splits)
  then show ?thesis using Inr table row proj by simp
qed

theorem invoice_created_validated_witness:
  "\<exists>i d'. CreateInvoice calm_env 7 ''u'' \<lparr>ip_ProjectID = 1, ip_VendorName = ''V'', ip_InvoiceNumber = None,
      ip_AmountCents = 9, ip_CurrencyCode = USD, ip_WBSCode = None, ip_DueDate = None, ip_Source = None\<rparr> sample_books = (Inr i, d') \<and>
     in_OrgID i = 7 \<and> length (db_invoices d') = 2"
proof -
  let ?p = "\<lparr>ip_ProjectID = 1, ip_VendorName = ''V'', ip_InvoiceNumber = None,
      ip_AmountCents = 9, ip_CurrencyCode = USD, ip_WBSCode = None, ip_DueDate = None, ip_Source = None\<rparr>"
  have "\<exists>i d'. CreateInvoice calm_env 7 ''u'' ?p sample_books = (Inr i, d')"
    by (simp add: CreateInvoice_def createInvoiceTx_def tlift_def invoice_check_def Validate_def require_that_def mapped_def BeginTxFunc_def tbind_def
      VerifyProjectInOrg_def select_all_def stmt_def tguard_def CreateInvoice_store_def insert_returning_def Let_def
      Record_def InsertAudit_def scrubAuditPayloads_def invoice_created_entry_def tret_def calm_env_def sample_books_def
      sample_project_def sample_budget_def sample_invoice_def uuid_nil_def)
  then obtain i d' where run: "CreateInvoice calm_env 7 ''u'' ?p sample_books = (Inr i, d')" by blast
  then show ?thesis using invoice_created_validated [OF run] by (auto simp: sample_books_def)
qed

text \<open>
  \<open>UpdateInvoice\<close> checks the organisation of the project named in the input, not of the invoice: a caller
  with one project of their own sets any recognised status, paid back to pending included, on any invoice
  of any organisation, and the new row is returned to them.
\<close>

theorem update_invoice_crosses_tenants:
  assumes own: "p \<in> set (db_projects d)" "pj_ID p = iu_ProjectID inp" "pj_OrgID p = org" "org \<in> set (db_orgs d)"
    and target: "i \<in> set (db_invoices d)" "in_ID i = iu_ID inp" "distinct (List.map in_ID (db_invoices d))"
    and status: "iu_Status inp = Some st" "IsValidInvoiceStatus st"
    and calm: "\<forall>op. \<not> e_fail e op" "\<not> e_commit_fails e" "e_uuid e 0 \<notin> al_ID ` set (db_audit d)"
  shows "\<exists>i' d'. UpdateInvoice e org sub inp d = (Inr i', d') \<and> i' \<in> set (db_invoices d') \<and>
     in_ID i' = in_ID i \<and> in_OrgID i' = in_OrgID i \<and> in_Status i' = st"
proof -
  let ?i' = "edit_invoice (UpdateInvoiceParams.truncate inp) i"
  let ?s0 = "\<lparr>s_db = d, s_draws = 0, s_aborted = False\<rparr>"
  let ?s1 = "?s0\<lparr>s_db := d\<lparr>db_invoices := update_where (\<lambda>r. in_ID r = iu_ID inp)
      (edit_invoice (UpdateInvoiceParams.truncate inp)) (db_invoices d)\<rparr>\<rparr>"
  have find: "List.find (\<lambda>r. in_ID r = iu_ID inp) (db_invoices d) = Some i"
    using find_unique [OF target(3,1,2)] .
  have verify: "VerifyProjectInOrg e (iu_ProjectID inp) org ?s0 = Inr ((), ?s0)"
    using own calm by (auto simp: VerifyProjectInOrg_def tbind_def select_all_def stmt_def tguard_def)
  have update: "UpdateInvoice_store e (UpdateInvoiceParams.truncate inp) ?s0 = Inr (?i', ?s1)"
    using find calm by (simp add: UpdateInvoice_store_def update_returning_def stmt_def UpdateInvoiceParams.defs)
  obtain rows n where rcd: "Record e (invoice_updated_entry org sub inp ?i') ?s1 =
      Inr ((), ?s1\<lparr>s_db := s_db ?s1\<lparr>db_audit := db_audit d @ rows\<rparr>, s_draws := n\<rparr>)"
    using Record_calm [of ?s1 e "invoice_updated_entry org sub inp ?i'"] own calm by (auto simp: invoice_updated_entry_def)
  let ?s2 = "?s1\<lparr>s_db := s_db ?s1\<lparr>db_audit := db_audit d @ rows\<rparr>, s_draws := n\<rparr>"
  have body: "tbind (VerifyProjectInOrg e (iu_ProjectID inp) org) (\<lambda>_.
           tbind (UpdateInvoice_store e (UpdateInvoiceParams.truncate inp)) (\<lambda>updated.
           tbind (Record e (invoice_updated_entry org sub inp updated)) (\<lambda>_. tret updated))) ?s0 = Inr (?i', ?s2)"
    by (simp only: tbind_def verify update rcd tret_def sum.case prod.case)
  have "BeginTxFunc e (tbind (VerifyProjectInOrg e (iu_ProjectID inp) org) (\<lambda>_.
           tbind (UpdateInvoice_store e (UpdateInvoiceParams.truncate inp)) (\<lambda>updated.
           tbind (Record e (invoice_updated_entry org sub inp updated)) (\<lambda>_. tret updated)))) d = (Inr ?i', s_db ?s2)"
    by (rule BeginTxFunc_calm, rule body) (use calm in simp_all)
  then have run: "UpdateInvoice e org sub inp d = (Inr ?i', s_db ?s2)"
    using status by (simp add: UpdateInvoice_def service_result_def require_that_def mapped_def)
  have "?i' \<in> set (db_invoices (s_db ?s1))" using target(1,2) by (force simp: set_update_where)
  then show ?thesis using run status by (auto simp: edit_invoice_def UpdateInvoiceParams.defs)
qed

theorem update_invoice_crosses_tenants_witness:
  "\<exists>i' d'. UpdateInvoice calm_env 7 ''u'' \<lparr>iu_ID = 3, iu_Status = Some ''pending'', iu_PaidDate = None, iu_ProjectID = 1\<rparr>
      sample_books = (Inr i', d') \<and> in_OrgID i' = 8 \<and> in_Status i' = ''pending''"
proof -
  let ?inp = "\<lparr>iu_ID = 3, iu_Status = Some ''pending'', iu_PaidDate = None, iu_ProjectID = 1\<rparr>"
  have "\<exists>i' d'. UpdateInvoice calm_env 7 ''u'' ?inp sample_books = (Inr i', d') \<and> i' \<in> set (db_invoices d') \<and>
     in_ID i' = in_ID sample_invoice \<and> in_OrgID i' = in_OrgID sample_invoice \<and> in_Status i' = ''pending''"
    by (rule update_invoice_crosses_tenants [of "sample_project 1"])
       (simp_all add: sample_books_def sample_project_def sample_invoice_def calm_env_def IsValidInvoiceStatus_def
         InvoiceStatusPending_def)
  then show ?thesis by (auto simp: sample_invoice_def)
qed

end
