(* ===== verification/Feed.thy ===== *)
theory Feed
  imports Projects Json_Text
begin

text \<open>
  The daily feed: internal/models/feed.go, internal/store/feed_cards.go and internal/service/feed.go. A card is
  aimed at a user or at a role. The partial unique index of migration 015 keeps one open card per project, risk
  family and subject.
\<close>

section \<open>Cards\<close>

record FeedCard =
  fe_ID :: uuid
  fe_OrgID :: uuid
  fe_ProjectID :: "uuid option"
  fe_CardType :: string
  fe_Title :: string
  fe_Body :: string
  fe_Priority :: string
  fe_SubjectCode :: string
  fe_TargetUserID :: "uuid option"
  fe_TargetRole :: "string option"
  fe_Actions :: json
  fe_Status :: string
  fe_ActionedAt :: "gotime option"
  fe_ExpiresAt :: "gotime option"
  fe_CreatedAt :: gotime

definition FeedPriorityCritical :: string where "FeedPriorityCritical = ''critical''"
definition FeedPriorityUrgent :: string where "FeedPriorityUrgent = ''urgent''"
definition FeedPriorityNormal :: string where "FeedPriorityNormal = ''normal''"
definition FeedPriorityLow :: string where "FeedPriorityLow = ''low''"

lemmas feed_priorities = FeedPriorityCritical_def FeedPriorityUrgent_def FeedPriorityNormal_def FeedPriorityLow_def

definition IsValidFeedPriority :: "string \<Rightarrow> bool" where
  "IsValidFeedPriority s \<longleftrightarrow> s \<in> {FeedPriorityCritical, FeedPriorityUrgent, FeedPriorityNormal, FeedPriorityLow}"

definition isValidFeedStatus :: "string \<Rightarrow> bool" where
  "isValidFeedStatus s \<longleftrightarrow> s \<in> {''active'', ''dismissed'', ''actioned'', ''expired''}"

text \<open>\<open>db_user_ids\<close> are the ids of the table of users, for the foreign key of \<open>target_user_id\<close>.\<close>

record feed_db = core_db +
  db_cards :: "FeedCard list"
  db_user_ids :: "uuid list"

section \<open>The store\<close>

record CreateFeedCardParams =
  fc_OrgID :: uuid
  fc_ProjectID :: "uuid option"
  fc_CardType :: string
  fc_Title :: string
  fc_Body :: string
  fc_Priority :: string
  fc_SubjectCode :: string
  fc_TargetUserID :: "uuid option"
  fc_TargetRole :: "string option"
  fc_Actions :: "json option"

text \<open>A card that nobody has acted on keeps its place in the index \<open>idx_feed_risk_dedup\<close>.\<close>

definition open_card :: "FeedCard \<Rightarrow> bool" where
  "open_card c \<longleftrightarrow> fe_Status c = ''active'' \<or> fe_Status c = ''dismissed''"

definition risk_types :: "string list" where
  "risk_types = [''procurement_criticality'', ''schedule_slip'', ''budget_burn'']"

definition dedup_key :: "FeedCard \<Rightarrow> (uuid \<times> string \<times> string) option" where
  "dedup_key c = (case fe_ProjectID c of
     Some pid \<Rightarrow> if open_card c \<and> fe_CardType c \<in> set risk_types then Some (pid, fe_CardType c, fe_SubjectCode c) else None
   | None \<Rightarrow> None)"

definition new_card :: "env \<Rightarrow> CreateFeedCardParams \<Rightarrow> uuid \<Rightarrow> FeedCard" where
  "new_card e p u = \<lparr>fe_ID = u, fe_OrgID = fc_OrgID p, fe_ProjectID = fc_ProjectID p, fe_CardType = fc_CardType p,
     fe_Title = fc_Title p, fe_Body = fc_Body p, fe_Priority = fc_Priority p, fe_SubjectCode = fc_SubjectCode p,
     fe_TargetUserID = fc_TargetUserID p, fe_TargetRole = fc_TargetRole p, fe_Actions = coalesce (fc_Actions p) JNull,
     fe_Status = ''active'', fe_ActionedAt = None, fe_ExpiresAt = None, fe_CreatedAt = e_now e\<rparr>"

definition dedup_clash :: "env \<Rightarrow> CreateFeedCardParams \<Rightarrow> FeedCard list \<Rightarrow> bool" where
  "dedup_clash e p cards \<longleftrightarrow> (\<exists>c\<in>set cards. dedup_key c \<noteq> None \<and> dedup_key c = dedup_key (new_card e p (fe_ID c)))"

definition CreateFeedCard :: "env \<Rightarrow> CreateFeedCardParams \<Rightarrow> ('x feed_db_scheme, FeedCard) tx" where
  "CreateFeedCard e p = stmt e ''insert feed_card'' (\<lambda>s.
     if dedup_clash e p (db_cards (s_db s)) then Inl DuplicateActiveRiskCard
     else insert_returning e ''insert feed_card'' db_cards db_cards_update
       (\<lambda>d. fc_OrgID p \<in> set (db_orgs d) \<and> opt_ok (\<lambda>pid. pid \<in> pj_ID ` set (db_projects d)) (fc_ProjectID p) \<and>
          opt_ok (\<lambda>u. u \<in> set (db_user_ids d)) (fc_TargetUserID p) \<and> length (fc_SubjectCode p) \<le> 50)
       fe_ID (\<lambda>_ _. False) (\<lambda>_ u. new_card e p u) s)"

definition HasActiveRiskCard :: "env \<Rightarrow> uuid \<Rightarrow> string \<Rightarrow> string \<Rightarrow> ('x feed_db_scheme, bool) tx" where
  "HasActiveRiskCard e projectID cardType subject =
     tbind (select_all e ''has active risk card'' db_cards) (\<lambda>cards.
       tret (\<exists>c\<in>set cards. fe_ProjectID c = Some projectID \<and> fe_CardType c = cardType \<and> fe_SubjectCode c = subject \<and> open_card c))"

record ListFeedCardsParams =
  lf_OrgID :: uuid
  lf_CallerOIDCSubject :: string
  lf_CallerRole :: string
  lf_StatusFilter :: "string list"
  lf_PriorityFilter :: "string list"
  lf_Limit :: int
  lf_Offset :: int

definition priority_rank :: "string \<Rightarrow> nat" where
  "priority_rank p = (if p = FeedPriorityCritical then 1 else if p = FeedPriorityUrgent then 2
     else if p = FeedPriorityNormal then 3 else if p = FeedPriorityLow then 4 else 5)"

definition order_cards :: "FeedCard list \<Rightarrow> FeedCard list" where
  "order_cards cards = sort_key (\<lambda>c. priority_rank (fe_Priority c)) (order_desc fe_CreatedAt cards)"

text \<open>\<open>parse\<close> is \<open>uuid.Parse\<close>; a subject that is no id is the nil id.\<close>

definition visible :: "(string \<Rightarrow> uuid option) \<Rightarrow> ListFeedCardsParams \<Rightarrow> FeedCard \<Rightarrow> bool" where
  "visible parse p c \<longleftrightarrow> fe_OrgID c = lf_OrgID p \<and>
     (fe_TargetUserID c = Some (coalesce (parse (lf_CallerOIDCSubject p)) uuid_nil) \<or> fe_TargetRole c = Some (lf_CallerRole p)) \<and>
     fe_Status c \<in> set (if lf_StatusFilter p = [] then [''active''] else lf_StatusFilter p) \<and>
     (lf_PriorityFilter p \<noteq> [] \<longrightarrow> fe_Priority c \<in> set (lf_PriorityFilter p))"

definition clamp_limit :: "int \<Rightarrow> int" where
  "clamp_limit l = (if l \<le> 0 then 50 else if l > 200 then 200 else l)"

definition ListFeedCards :: "(string \<Rightarrow> uuid option) \<Rightarrow> env \<Rightarrow> ListFeedCardsParams \<Rightarrow>
    ('x feed_db_scheme, FeedCard list \<times> nat) tx" where
  "ListFeedCards parse e p =
     tbind (select_all e ''count feed_cards'' (\<lambda>d. filter (visible parse p) (db_cards d))) (\<lambda>hits.
     if hits = [] then tret ([], 0)
     else tbind (select_all e ''query feed_cards'' (\<lambda>d.
            page_of (clamp_limit (lf_Limit p)) (max 0 (lf_Offset p)) (order_cards (filter (visible parse p) (db_cards d)))))
          (\<lambda>page. tret (page, length hits)))"

definition GetFeedCard :: "env \<Rightarrow> uuid \<Rightarrow> uuid \<Rightarrow> ('x feed_db_scheme, FeedCard) tx" where
  "GetFeedCard e cardID orgID = tmissing FeedCardNotFound (select_one e ''get feed_card'' db_cards
     (\<lambda>c. fe_ID c = cardID \<and> fe_OrgID c = orgID))"

definition DismissFeedCard :: "env \<Rightarrow> uuid \<Rightarrow> uuid \<Rightarrow> ('x feed_db_scheme, FeedCard) tx" where
  "DismissFeedCard e cardID orgID = tmissing FeedCardNotFound (update_returning e ''dismiss feed_card'' db_cards db_cards_update
     (\<lambda>c. fe_ID c = cardID \<and> fe_OrgID c = orgID \<and> open_card c) (\<lambda>c. c\<lparr>fe_Status := ''dismissed''\<rparr>))"

definition ActionFeedCard :: "env \<Rightarrow> uuid \<Rightarrow> uuid \<Rightarrow> ('x feed_db_scheme, FeedCard) tx" where
  "ActionFeedCard e cardID orgID = tmissing FeedCardNotFound (update_returning e ''action feed_card'' db_cards db_cards_update
     (\<lambda>c. fe_ID c = cardID \<and> fe_OrgID c = orgID \<and> fe_Status c = ''active'')
     (\<lambda>c. c\<lparr>fe_Status := ''actioned'', fe_ActionedAt := Some (e_now e)\<rparr>))"

section \<open>The service\<close>

definition MaxFeedActionPayloadBytes :: nat where "MaxFeedActionPayloadBytes = 8 * 1024"

record FeedListOptions =
  fo_CallerOrgID :: uuid
  fo_CallerOIDCSubject :: string
  fo_CallerRole :: string
  fo_StatusFilter :: "string list"
  fo_PriorityFilter :: "string list"
  fo_Page :: int
  fo_PerPage :: int

definition feed_params :: "FeedListOptions \<Rightarrow> ListFeedCardsParams" where
  "feed_params opts =
     (let page = (if fo_Page opts \<le> 0 then 1 else fo_Page opts); perPage = clamp_limit (fo_PerPage opts) in
      \<lparr>lf_OrgID = fo_CallerOrgID opts, lf_CallerOIDCSubject = fo_CallerOIDCSubject opts, lf_CallerRole = fo_CallerRole opts,
       lf_StatusFilter = fo_StatusFilter opts, lf_PriorityFilter = fo_PriorityFilter opts, lf_Limit = perPage,
       lf_Offset = wrap64 (wrap64 (page - 1) * perPage)\<rparr>)"

definition check_feed_options :: "FeedListOptions \<Rightarrow> svc_error + unit" where
  "check_feed_options opts =
     ebind (require_that (fo_CallerOrgID opts \<noteq> uuid_nil) (InvalidInput ''org_id'')) (\<lambda>_.
     ebind (require_that (fo_CallerOIDCSubject opts \<noteq> []) (InvalidInput ''oidc subject'')) (\<lambda>_.
     ebind (require_that (fo_CallerRole opts \<noteq> []) (InvalidInput ''role'')) (\<lambda>_.
     ebind (require_that (list_all isValidFeedStatus (fo_StatusFilter opts)) (InvalidInput ''status'')) (\<lambda>_.
     require_that (list_all IsValidFeedPriority (fo_PriorityFilter opts)) (InvalidInput ''priority'')))))"

definition ListFeed :: "(string \<Rightarrow> uuid option) \<Rightarrow> env \<Rightarrow> FeedListOptions \<Rightarrow> 'x feed_db_scheme \<Rightarrow> svc_error + FeedCard list \<times> nat" where
  "ListFeed parse e opts d =
     ebind (check_feed_options opts) (\<lambda>_. fst (BeginTxFunc e (ListFeedCards parse e (feed_params opts)) d))"

definition card_json :: "FeedCard \<Rightarrow> payload" where
  "card_json c = [(''id'', JUuid (fe_ID c)), (''org_id'', JUuid (fe_OrgID c))] @ opt_field ''project_id'' JUuid (fe_ProjectID c) @
     [(''card_type'', JStr (fe_CardType c)), (''title'', JStr (fe_Title c))] @
     (if fe_Body c = [] then [] else [(''body'', JStr (fe_Body c))]) @ [(''priority'', JStr (fe_Priority c))] @
     opt_field ''target_user_id'' JUuid (fe_TargetUserID c) @ opt_field ''target_role'' JStr (fe_TargetRole c) @
     [(''actions'', fe_Actions c), (''status'', JStr (fe_Status c))] @ opt_field ''actioned_at'' JTime (fe_ActionedAt c) @
     opt_field ''expires_at'' JTime (fe_ExpiresAt c) @ [(''created_at'', JTime (fe_CreatedAt c))]"

definition feed_entry :: "uuid \<Rightarrow> string \<Rightarrow> string \<Rightarrow> FeedCard \<Rightarrow> payload \<Rightarrow> AuditEntry" where
  "feed_entry orgID sub action c meta =
     \<lparr>ae_OrgID = orgID, ae_UserSub = sub, ae_Action = action, ae_ResourceType = ''feed_card'', ae_ResourceID = fe_ID c,
      ae_Before = [], ae_After = card_json c, ae_Metadata = meta\<rparr>"

definition dismiss_body :: "env \<Rightarrow> uuid \<Rightarrow> string \<Rightarrow> uuid \<Rightarrow> ('x feed_db_scheme, FeedCard) tx" where
  "dismiss_body e orgID sub cardID =
     tbind (DismissFeedCard e cardID orgID) (\<lambda>c.
     tbind (Record e (feed_entry orgID sub ''feed.card.dismissed'' c [(''card_type'', JStr (fe_CardType c))])) (\<lambda>_. tret c))"

definition DismissCard :: "env \<Rightarrow> uuid \<Rightarrow> string \<Rightarrow> uuid \<Rightarrow> 'x feed_db_scheme \<Rightarrow> (svc_error + FeedCard) \<times> 'x feed_db_scheme" where
  "DismissCard e orgID sub cardID d =
     (if orgID = uuid_nil \<or> cardID = uuid_nil then (Inl (InvalidInput ''org_id and card_id''), d)
      else BeginTxFunc e (dismiss_body e orgID sub cardID) d)"

record FeedActionInput =
  fa_ActionType :: string
  fa_Payload :: string

text \<open>
  The metadata of an action. The payload is embedded as it is, which \<open>JStr\<close> of its text stands for; a payload that is no
  JSON makes the whole object unmarshalable, and it is dropped.
\<close>

definition action_metadata :: "FeedActionInput \<Rightarrow> FeedCard \<Rightarrow> payload" where
  "action_metadata inp c =
     (if fa_Payload inp \<noteq> [] \<and> \<not> json_valid (fa_Payload inp) then []
      else [(''action_type'', JStr (fa_ActionType inp)), (''action_payload'', if fa_Payload inp = [] then JNull else JStr (fa_Payload inp)), (''card_type'', JStr (fe_CardType c))])"

definition action_body :: "env \<Rightarrow> uuid \<Rightarrow> string \<Rightarrow> uuid \<Rightarrow> FeedActionInput \<Rightarrow> ('x feed_db_scheme, FeedCard) tx" where
  "action_body e orgID sub cardID inp =
     tbind (ActionFeedCard e cardID orgID) (\<lambda>c.
     tbind (Record e (feed_entry orgID sub ''feed.card.actioned'' c (action_metadata inp c))) (\<lambda>_. tret c))"

definition ActionCard :: "env \<Rightarrow> uuid \<Rightarrow> string \<Rightarrow> uuid \<Rightarrow> FeedActionInput \<Rightarrow> 'x feed_db_scheme \<Rightarrow>
    (svc_error + FeedCard) \<times> 'x feed_db_scheme" where
  "ActionCard e orgID sub cardID inp d =
     (if orgID = uuid_nil \<or> cardID = uuid_nil then (Inl (InvalidInput ''org_id and card_id''), d)
      else if fa_ActionType inp = [] then (Inl (InvalidInput ''action_type''), d)
      else if length (fa_Payload inp) > MaxFeedActionPayloadBytes then (Inl (InvalidInput ''payload''), d)
      else BeginTxFunc e (action_body e orgID sub cardID inp) d)"

end
