(* ===== verification/Procurement.thy ===== *)
theory Procurement
  imports Feed Currency Go_Float Bytes
begin

text \<open>
  Procurement: internal/models/procurement.go, internal/store/procurement.go and internal/service/procurement.go. The
  language model's recommendations are the parameter \<open>recommend\<close>, the batch's \<open>uuid.New\<close> the parameter \<open>run\<close>,
  \<open>%q\<close> of a name the parameter \<open>quoted\<close>.
\<close>

section \<open>Items\<close>

definition ProcurementStatusOK :: string where "ProcurementStatusOK = ''OK''"
definition ProcurementStatusWarning :: string where "ProcurementStatusWarning = ''WARNING''"
definition ProcurementStatusCritical :: string where "ProcurementStatusCritical = ''CRITICAL''"
definition ProcurementStatusOrdered :: string where "ProcurementStatusOrdered = ''ORDERED''"

lemmas procurement_statuses = ProcurementStatusOK_def ProcurementStatusWarning_def ProcurementStatusCritical_def ProcurementStatusOrdered_def

definition IsValidProcurementStatus :: "string \<Rightarrow> bool" where
  "IsValidProcurementStatus s \<longleftrightarrow>
     s \<in> {ProcurementStatusOK, ProcurementStatusWarning, ProcurementStatusCritical, ProcurementStatusOrdered}"

record ProcurementItem =
  pi_ID :: uuid
  pi_ProjectID :: uuid
  pi_OrgID :: uuid
  pi_Name :: string
  pi_WBSCode :: string
  pi_EstimatedCostCents :: int
  pi_EstimatedCostCurrencyCode :: string
  pi_LeadTimeDays :: int
  pi_WeatherBufferDays :: int
  pi_VendorID :: "uuid option"
  pi_NeedByDate :: "gotime option"
  pi_MustOrderDate :: "gotime option"
  pi_Status :: string
  pi_OrderedAt :: "gotime option"
  pi_PONumber :: "string option"
  pi_StatusChangedAt :: gotime
  pi_CreatedAt :: gotime
  pi_UpdatedAt :: gotime

record ProcurementRecommendation =
  pq_ID :: uuid
  pq_ProcurementItemID :: uuid
  pq_OrgID :: uuid
  pq_RunID :: uuid
  pq_VendorID :: "uuid option"
  pq_VendorName :: string
  pq_PredictedSpendCents :: int
  pq_PredictedSpendCurrencyCode :: string
  pq_ConfidencePct :: int
  pq_Reasoning :: "string option"
  pq_CreatedAt :: gotime

record procurement_db = feed_db +
  db_items :: "ProcurementItem list"
  db_recs :: "ProcurementRecommendation list"

section \<open>The store\<close>

record CreateProcurementItemInput =
  pc_ProjectID :: uuid
  pc_Name :: string
  pc_WBSCode :: string
  pc_EstimatedCostCents :: int
  pc_EstimatedCostCurrencyCode :: string
  pc_LeadTimeDays :: int
  pc_WeatherBufferDays :: int
  pc_VendorID :: "uuid option"
  pc_NeedByDate :: "gotime option"

definition must_order :: "CreateProcurementItemInput \<Rightarrow> gotime option" where
  "must_order p = map_option (\<lambda>d. add_days d (- (pc_LeadTimeDays p + pc_WeatherBufferDays p))) (pc_NeedByDate p)"

text \<open>A name or code is stored trimmed; INTEGER and VARCHAR(3) bound the columns.\<close>

definition CreateProcurementItem_store :: "env \<Rightarrow> uuid \<Rightarrow> CreateProcurementItemInput \<Rightarrow>
    ('x procurement_db_scheme, ProcurementItem) tx" where
  "CreateProcurementItem_store e orgID p = insert_returning e ''insert procurement_item'' db_items db_items_update
     (\<lambda>d. pc_ProjectID p \<in> pj_ID ` set (db_projects d) \<and> orgID \<in> set (db_orgs d) \<and> int4_ok (pc_LeadTimeDays p) \<and>
        int4_ok (pc_WeatherBufferDays p) \<and> length (pc_EstimatedCostCurrencyCode p) \<le> 3) pi_ID (\<lambda>_ _. False)
     (\<lambda>_ u. \<lparr>pi_ID = u, pi_ProjectID = pc_ProjectID p, pi_OrgID = orgID, pi_Name = pc_Name p, pi_WBSCode = pc_WBSCode p,
        pi_EstimatedCostCents = pc_EstimatedCostCents p, pi_EstimatedCostCurrencyCode = pc_EstimatedCostCurrencyCode p,
        pi_LeadTimeDays = pc_LeadTimeDays p, pi_WeatherBufferDays = pc_WeatherBufferDays p, pi_VendorID = pc_VendorID p,
        pi_NeedByDate = map_option to_date (pc_NeedByDate p), pi_MustOrderDate = map_option to_date (must_order p),
        pi_Status = ProcurementStatusOK, pi_OrderedAt = None, pi_PONumber = None, pi_StatusChangedAt = e_now e,
        pi_CreatedAt = e_now e, pi_UpdatedAt = e_now e\<rparr>)"

definition status_rank :: "string \<Rightarrow> nat" where
  "status_rank s = (if s = ProcurementStatusCritical then 1 else if s = ProcurementStatusWarning then 2
     else if s = ProcurementStatusOK then 3 else if s = ProcurementStatusOrdered then 4 else 5)"

definition order_items :: "ProcurementItem list \<Rightarrow> ProcurementItem list" where
  "order_items items = sort_key (\<lambda>i. status_rank (pi_Status i))
     (sort_key (\<lambda>i. pi_MustOrderDate i = None) (sort_key (\<lambda>i. coalesce (pi_MustOrderDate i) 0) (order_desc pi_CreatedAt items)))"

definition ListProcurementItems :: "env \<Rightarrow> uuid \<Rightarrow> uuid \<Rightarrow> string list \<Rightarrow> ('x procurement_db_scheme, ProcurementItem list) tx" where
  "ListProcurementItems e projectID orgID statuses = select_all e ''query procurement_items''
     (\<lambda>d. order_items (filter (\<lambda>i. pi_ProjectID i = projectID \<and> pi_OrgID i = orgID \<and>
        (statuses \<noteq> [] \<longrightarrow> pi_Status i \<in> set statuses)) (db_items d)))"

record UpdateProcurementItemInput =
  pu_ItemID :: uuid
  pu_ProjectID :: uuid
  pu_Status :: "string option"
  pu_PONumber :: "string option"
  pu_OrderedAt :: "gotime option"

definition edit_item :: "env \<Rightarrow> UpdateProcurementItemInput \<Rightarrow> ProcurementItem \<Rightarrow> ProcurementItem" where
  "edit_item e p i = i\<lparr>pi_Status := coalesce (pu_Status p) (pi_Status i),
     pi_PONumber := coalesce_opt (pu_PONumber p) (pi_PONumber i),
     pi_OrderedAt := coalesce_opt (map_option to_timestamptz (pu_OrderedAt p)) (pi_OrderedAt i),
     pi_StatusChangedAt := (if pu_Status p \<noteq> None \<and> pu_Status p \<noteq> Some (pi_Status i) then e_now e else pi_StatusChangedAt i),
     pi_UpdatedAt := e_now e\<rparr>"

definition UpdateProcurementItem_store :: "env \<Rightarrow> uuid \<Rightarrow> UpdateProcurementItemInput \<Rightarrow>
    ('x procurement_db_scheme, ProcurementItem) tx" where
  "UpdateProcurementItem_store e orgID p = tmissing ProcurementItemNotFound
     (update_returning e ''update procurement_item'' db_items db_items_update
       (\<lambda>i. pi_ID i = pu_ItemID p \<and> pi_ProjectID i = pu_ProjectID p \<and> pi_OrgID i = orgID) (edit_item e p))"

definition GetProcurementItem :: "env \<Rightarrow> uuid \<Rightarrow> uuid \<Rightarrow> ('x procurement_db_scheme, ProcurementItem) tx" where
  "GetProcurementItem e itemID orgID = tmissing ProcurementItemNotFound
     (select_one e ''get procurement_item'' db_items (\<lambda>i. pi_ID i = itemID \<and> pi_OrgID i = orgID))"

record CreateProcurementRecommendationParams =
  rp_ProcurementItemID :: uuid
  rp_OrgID :: uuid
  rp_RunID :: uuid
  rp_VendorID :: "uuid option"
  rp_VendorName :: string
  rp_PredictedSpendCents :: int
  rp_PredictedSpendCurrencyCode :: string
  rp_ConfidencePct :: int
  rp_Reasoning :: "string option"

text \<open>The three CHECK constraints of migration 009.\<close>

definition recommendation_ok :: "CreateProcurementRecommendationParams \<Rightarrow> bool" where
  "recommendation_ok p \<longleftrightarrow> rp_PredictedSpendCurrencyCode p \<in> {''USD'', ''CAD''} \<and> 0 \<le> rp_ConfidencePct p \<and>
     rp_ConfidencePct p \<le> 100 \<and> 0 \<le> rp_PredictedSpendCents p"

definition CreateProcurementRecommendation :: "env \<Rightarrow> CreateProcurementRecommendationParams \<Rightarrow>
    ('x procurement_db_scheme, ProcurementRecommendation) tx" where
  "CreateProcurementRecommendation e p = insert_returning e ''insert procurement_recommendation'' db_recs db_recs_update
     (\<lambda>d. rp_ProcurementItemID p \<in> pi_ID ` set (db_items d) \<and> rp_OrgID p \<in> set (db_orgs d) \<and> recommendation_ok p) pq_ID (\<lambda>_ _. False)
     (\<lambda>_ u. \<lparr>pq_ID = u, pq_ProcurementItemID = rp_ProcurementItemID p, pq_OrgID = rp_OrgID p, pq_RunID = rp_RunID p,
        pq_VendorID = rp_VendorID p, pq_VendorName = rp_VendorName p, pq_PredictedSpendCents = rp_PredictedSpendCents p,
        pq_PredictedSpendCurrencyCode = rp_PredictedSpendCurrencyCode p, pq_ConfidencePct = rp_ConfidencePct p,
        pq_Reasoning = rp_Reasoning p, pq_CreatedAt = e_now e\<rparr>)"

text \<open>The status of an item that is not ordered and has a date, on the day of \<open>now\<close>.\<close>

definition swept_status :: "gotime \<Rightarrow> int \<Rightarrow> gotime \<Rightarrow> string" where
  "swept_status now window mustOrder =
     (if mustOrder < to_date now then ProcurementStatusCritical
      else if mustOrder < add_days (to_date now) window then ProcurementStatusWarning
      else ProcurementStatusOK)"

definition sweep_hits :: "gotime \<Rightarrow> int \<Rightarrow> ProcurementItem \<Rightarrow> bool" where
  "sweep_hits now window i \<longleftrightarrow> pi_Status i \<noteq> ProcurementStatusOrdered \<and>
     (\<exists>m. pi_MustOrderDate i = Some m \<and> pi_Status i \<noteq> swept_status now window m)"

definition sweep_item :: "env \<Rightarrow> gotime \<Rightarrow> int \<Rightarrow> ProcurementItem \<Rightarrow> ProcurementItem" where
  "sweep_item e now window i = i\<lparr>pi_Status := swept_status now window (coalesce (pi_MustOrderDate i) 0),
     pi_StatusChangedAt := e_now e, pi_UpdatedAt := e_now e\<rparr>"

text \<open>\<open>now\<close> is the process clock, which stands in for the zero time the service passes.\<close>

definition RecomputeStatuses_store :: "env \<Rightarrow> gotime \<Rightarrow> int \<Rightarrow> ('x procurement_db_scheme, nat) tx" where
  "RecomputeStatuses_store e now window =
     (if window < 0 then tfail (Internal ''warning window'')
      else update_affected e ''recompute procurement statuses'' db_items db_items_update (\<lambda>_. True)
        (sweep_hits now window) (sweep_item e now window))"

section \<open>The service\<close>

definition item_mapped :: "(svc_error + 'a) \<times> 'd \<Rightarrow> (svc_error + 'a) \<times> 'd" where
  "item_mapped rd = (map_err (\<lambda>err. if err = StoreNotFound then NotFound else err) (fst rd), snd rd)"

definition ListProcurement :: "env \<Rightarrow> uuid \<Rightarrow> uuid \<Rightarrow> string list \<Rightarrow> 'x procurement_db_scheme \<Rightarrow> svc_error + ProcurementItem list" where
  "ListProcurement e projectID orgID statuses d =
     ebind (require_that (projectID \<noteq> uuid_nil \<and> orgID \<noteq> uuid_nil) (InvalidInput ''project_id and org_id'')) (\<lambda>_.
     ebind (require_that (list_all IsValidProcurementStatus statuses) (InvalidInput ''status'')) (\<lambda>_.
     fst (item_mapped (BeginTxFunc e
       (tbind (VerifyProjectInOrg e projectID orgID) (\<lambda>_. ListProcurementItems e projectID orgID statuses)) d))))"

definition item_json :: "ProcurementItem \<Rightarrow> payload" where
  "item_json i = [(''id'', JUuid (pi_ID i)), (''project_id'', JUuid (pi_ProjectID i)), (''org_id'', JUuid (pi_OrgID i)),
     (''name'', JStr (pi_Name i)), (''wbs_code'', JStr (pi_WBSCode i)), (''estimated_cost_cents'', JInt (pi_EstimatedCostCents i)),
     (''estimated_cost_currency_code'', JStr (pi_EstimatedCostCurrencyCode i)), (''lead_time_days'', JInt (pi_LeadTimeDays i)),
     (''weather_buffer_days'', JInt (pi_WeatherBufferDays i))] @ opt_field ''vendor_id'' JUuid (pi_VendorID i) @
     opt_field ''need_by_date'' JTime (pi_NeedByDate i) @ opt_field ''must_order_date'' JTime (pi_MustOrderDate i) @
     [(''status'', JStr (pi_Status i))] @ opt_field ''ordered_at'' JTime (pi_OrderedAt i) @
     opt_field ''po_number'' JStr (pi_PONumber i) @
     [(''status_changed_at'', JTime (pi_StatusChangedAt i)), (''created_at'', JTime (pi_CreatedAt i)),
      (''updated_at'', JTime (pi_UpdatedAt i))]"

definition procurement_entry :: "uuid \<Rightarrow> string \<Rightarrow> string \<Rightarrow> string \<Rightarrow> uuid \<Rightarrow> payload \<Rightarrow> payload \<Rightarrow> AuditEntry" where
  "procurement_entry orgID sub action resource rid after meta =
     \<lparr>ae_OrgID = orgID, ae_UserSub = sub, ae_Action = action, ae_ResourceType = resource, ae_ResourceID = rid,
      ae_Before = [], ae_After = after, ae_Metadata = meta\<rparr>"

definition check_item :: "uuid \<Rightarrow> CreateProcurementItemInput \<Rightarrow> svc_error + unit" where
  "check_item orgID inp =
     ebind (require_that (orgID \<noteq> uuid_nil) (InvalidInput ''org_id'')) (\<lambda>_.
     ebind (require_that (pc_ProjectID inp \<noteq> uuid_nil) (InvalidInput ''project_id'')) (\<lambda>_.
     ebind (require_that (trim_space (pc_Name inp) \<noteq> []) (InvalidInput ''name'')) (\<lambda>_.
     ebind (require_that (trim_space (pc_WBSCode inp) \<noteq> []) (InvalidInput ''wbs_code'')) (\<lambda>_.
     ebind (require_that (0 \<le> pc_EstimatedCostCents inp) (InvalidInput ''estimated_cost_cents'')) (\<lambda>_.
     ebind (require_that (0 \<le> pc_LeadTimeDays inp \<and> 0 \<le> pc_WeatherBufferDays inp) (InvalidInput ''lead_time_days'')) (\<lambda>_.
     map_err (\<lambda>_. InvalidInput ''currency'') (Validate (pc_EstimatedCostCurrencyCode inp))))))))"

definition create_item_body :: "env \<Rightarrow> uuid \<Rightarrow> string \<Rightarrow> CreateProcurementItemInput \<Rightarrow> ('x procurement_db_scheme, ProcurementItem) tx" where
  "create_item_body e orgID sub inp =
     tbind (VerifyProjectInOrg e (pc_ProjectID inp) orgID) (\<lambda>_.
     tbind (CreateProcurementItem_store e orgID
       (inp\<lparr>pc_Name := trim_space (pc_Name inp), pc_WBSCode := trim_space (pc_WBSCode inp)\<rparr>)) (\<lambda>got.
     tbind (Record e (procurement_entry orgID sub ''procurement.item.created'' ''procurement_item'' (pi_ID got) (item_json got)
       [(''project_id'', JUuid (pc_ProjectID inp)), (''wbs_code'', JStr (pi_WBSCode got)),
        (''cost_cents'', JInt (pi_EstimatedCostCents got)), (''currency'', JStr (pi_EstimatedCostCurrencyCode got))])) (\<lambda>_.
     tret got)))"

definition CreateProcurementItem :: "env \<Rightarrow> uuid \<Rightarrow> string \<Rightarrow> CreateProcurementItemInput \<Rightarrow> 'x procurement_db_scheme \<Rightarrow>
    (svc_error + ProcurementItem) \<times> 'x procurement_db_scheme" where
  "CreateProcurementItem e orgID sub inp d =
     (case check_item orgID inp of
        Inl err \<Rightarrow> (Inl err, d)
      | Inr _ \<Rightarrow> item_mapped (BeginTxFunc e (create_item_body e orgID sub inp) d))"

definition check_item_update :: "uuid \<Rightarrow> UpdateProcurementItemInput \<Rightarrow> svc_error + unit" where
  "check_item_update orgID inp =
     ebind (require_that (orgID \<noteq> uuid_nil) (InvalidInput ''org_id'')) (\<lambda>_.
     ebind (require_that (pu_ItemID inp \<noteq> uuid_nil \<and> pu_ProjectID inp \<noteq> uuid_nil) (InvalidInput ''item_id and project_id'')) (\<lambda>_.
     ebind (require_that (pu_Status inp \<noteq> None \<or> pu_PONumber inp \<noteq> None \<or> pu_OrderedAt inp \<noteq> None) (InvalidInput ''fields'')) (\<lambda>_.
     ebind (require_that (opt_ok IsValidProcurementStatus (pu_Status inp)) (InvalidInput ''status'')) (\<lambda>_.
     require_that (pu_Status inp = Some ProcurementStatusOrdered \<longrightarrow> (\<exists>po. pu_PONumber inp = Some po \<and> trim_space po \<noteq> []))
       (InvalidInput ''po_number'')))))"

definition update_item_body :: "env \<Rightarrow> uuid \<Rightarrow> string \<Rightarrow> UpdateProcurementItemInput \<Rightarrow> ('x procurement_db_scheme, ProcurementItem) tx" where
  "update_item_body e orgID sub inp =
     tbind (VerifyProjectInOrg e (pu_ProjectID inp) orgID) (\<lambda>_.
     tbind (UpdateProcurementItem_store e orgID inp) (\<lambda>got.
     tbind (Record e (procurement_entry orgID sub ''procurement.item.updated'' ''procurement_item'' (pi_ID got) (item_json got)
       [(''status'', opt_json JStr (pu_Status inp)), (''po_number'', opt_json JStr (pu_PONumber inp)),
        (''ordered_at'', opt_json JTime (pu_OrderedAt inp))])) (\<lambda>_.
     tret got)))"

definition UpdateProcurementItem :: "env \<Rightarrow> uuid \<Rightarrow> string \<Rightarrow> UpdateProcurementItemInput \<Rightarrow> 'x procurement_db_scheme \<Rightarrow>
    (svc_error + ProcurementItem) \<times> 'x procurement_db_scheme" where
  "UpdateProcurementItem e orgID sub inp d =
     (case check_item_update orgID inp of
        Inl err \<Rightarrow> (Inl err, d)
      | Inr _ \<Rightarrow> item_mapped (BeginTxFunc e (update_item_body e orgID sub inp) d))"

definition DefaultProcurementWarningWindowDays :: int where "DefaultProcurementWarningWindowDays = 7"

definition RecomputeStatuses :: "env \<Rightarrow> gotime \<Rightarrow> 'x procurement_db_scheme \<Rightarrow> (svc_error + nat) \<times> 'x procurement_db_scheme" where
  "RecomputeStatuses e now d = BeginTxFunc e (RecomputeStatuses_store e now DefaultProcurementWarningWindowDays) d"

section \<open>Vendor recommendations\<close>

text \<open>One recommendation of the language model; a JSON number is never NaN.\<close>

record VendorRecommendation =
  vr_VendorID :: uuid
  vr_VendorName :: string
  vr_PredictedSpendCents :: int
  vr_CurrencyCode :: string
  vr_Confidence :: f64
  vr_Reasoning :: string

definition confidenceToPct :: "f64 \<Rightarrow> int" where
  "confidenceToPct c = (if c \<le> 0 then 0 else if c \<ge> 1 then 100 else int64_of_f64 (math_round (fmul c 100)))"

definition recommendation_params :: "uuid \<Rightarrow> uuid \<Rightarrow> ProcurementItem \<Rightarrow> VendorRecommendation \<Rightarrow> CreateProcurementRecommendationParams" where
  "recommendation_params orgID run item r =
     \<lparr>rp_ProcurementItemID = pi_ID item, rp_OrgID = orgID, rp_RunID = run,
      rp_VendorID = (if vr_VendorID r = uuid_nil then None else Some (vr_VendorID r)), rp_VendorName = vr_VendorName r,
      rp_PredictedSpendCents = vr_PredictedSpendCents r, rp_PredictedSpendCurrencyCode = vr_CurrencyCode r,
      rp_ConfidencePct = confidenceToPct (vr_Confidence r),
      rp_Reasoning = (if trim_space (vr_Reasoning r) = [] then None else Some (vr_Reasoning r))\<rparr>"

fun store_recommendations :: "env \<Rightarrow> uuid \<Rightarrow> uuid \<Rightarrow> ProcurementItem \<Rightarrow> VendorRecommendation list \<Rightarrow>
    ('x procurement_db_scheme, ProcurementRecommendation list) tx" where
  "store_recommendations e orgID run item [] = tret []"
| "store_recommendations e orgID run item (r # rs) =
     tbind (CreateProcurementRecommendation e (recommendation_params orgID run item r)) (\<lambda>rec.
     tbind (store_recommendations e orgID run item rs) (\<lambda>recs. tret (rec # recs)))"

definition recommend_vendors_body :: "env \<Rightarrow> (uuid \<Rightarrow> int \<Rightarrow> string \<Rightarrow> VendorRecommendation list option) \<Rightarrow> uuid \<Rightarrow> uuid \<Rightarrow> string \<Rightarrow> uuid \<Rightarrow>
    ('x procurement_db_scheme, ProcurementRecommendation list) tx" where
  "recommend_vendors_body e recommend run orgID sub itemID =
     tbind (GetProcurementItem e itemID orgID) (\<lambda>item.
     tbind (tlift (case recommend (pi_ID item) (pi_EstimatedCostCents item) (pi_EstimatedCostCurrencyCode item) of
        None \<Rightarrow> Inl AIFailed | Some rs \<Rightarrow> Inr rs)) (\<lambda>rs.
     tbind (store_recommendations e orgID run item rs) (\<lambda>recs.
     tbind (Record e (procurement_entry orgID sub ''procurement.recommendations.created'' ''procurement_recommendation'' (pi_ID item) []
       [(''run_id'', JUuid run), (''recommendation_count'', JInt (int (length recs)))])) (\<lambda>_.
     tret recs))))"

definition RecommendVendors :: "env \<Rightarrow> (uuid \<Rightarrow> int \<Rightarrow> string \<Rightarrow> VendorRecommendation list option) option \<Rightarrow> uuid \<Rightarrow> uuid \<Rightarrow> string \<Rightarrow>
    uuid \<Rightarrow> 'x procurement_db_scheme \<Rightarrow> (svc_error + ProcurementRecommendation list \<times> uuid) \<times> 'x procurement_db_scheme" where
  "RecommendVendors e recommender run orgID sub itemID d =
     (if orgID = uuid_nil then (Inl (InvalidInput ''org_id''), d)
      else if itemID = uuid_nil then (Inl (InvalidInput ''procurement_item_id''), d)
      else case recommender of
        None \<Rightarrow> (Inl AIUnavailable, d)
      | Some recommend \<Rightarrow>
          item_mapped (BeginTxFunc e (tbind (recommend_vendors_body e recommend run orgID sub itemID) (\<lambda>recs. tret (recs, run))) d))"

section \<open>Vendor reviews\<close>

record RequestVendorReviewInput =
  rv_ProcurementItemID :: uuid
  rv_RFQID :: uuid
  rv_Vendor :: string
  rv_TotalCents :: int
  rv_CurrencyCode :: string
  rv_Reasoning :: string

text \<open>\<open>%d.%02d\<close> of a non-negative amount; the negation of the least int64 is itself, whose parts both carry a sign.\<close>

definition int_digits :: "int \<Rightarrow> string" where
  "int_digits n = (if n < 0 then ''-'' @ decimal (nat (- n)) else decimal (nat n))"

definition two_digits :: "int \<Rightarrow> string" where
  "two_digits n = (let s = int_digits n in if length s < 2 then CHR ''0'' # s else s)"

definition formatCents :: "int \<Rightarrow> string" where
  "formatCents cents0 =
     (let neg = cents0 < 0; cents = (if neg then wrap64 (- cents0) else cents0);
          s = int_digits (quot cents 100) @ ''.'' @ two_digits (qrem cents 100)
      in if neg then ''-'' @ s else s)"

definition vendorReviewBody :: "(string \<Rightarrow> string) \<Rightarrow> string \<Rightarrow> string \<Rightarrow> int \<Rightarrow> string \<Rightarrow> string" where
  "vendorReviewBody quoted itemName vendor totalCents currencyCode =
     vendor @ '' quoted '' @ formatCents totalCents @ '' '' @ currencyCode @ '' for '' @ quoted itemName
       @ ''. Review and approve or route to another vendor.''"

definition vendor_action :: "RequestVendorReviewInput \<Rightarrow> json" where
  "vendor_action inp = JList [JObject (
     [(''label'', JStr ''Review quote''), (''action'', JStr ''review_material_quote''),
      (''procurement_item_id'', JUuid (rv_ProcurementItemID inp)), (''rfq_id'', JUuid (rv_RFQID inp)),
      (''vendor'', JStr (rv_Vendor inp)), (''total_cents'', JInt (rv_TotalCents inp)),
      (''currency_code'', JStr (rv_CurrencyCode inp))] @
     (if rv_Reasoning inp = [] then [] else [(''reasoning'', JStr (rv_Reasoning inp))]))]"

definition review_card :: "(string \<Rightarrow> string) \<Rightarrow> uuid \<Rightarrow> RequestVendorReviewInput \<Rightarrow> ProcurementItem \<Rightarrow> CreateFeedCardParams" where
  "review_card quoted orgID inp item =
     \<lparr>fc_OrgID = orgID, fc_ProjectID = Some (pi_ProjectID item), fc_CardType = ''vendor_review_requested'',
      fc_Title = ''Vendor quote ready for review: '' @ rv_Vendor inp,
      fc_Body = vendorReviewBody quoted (pi_Name item) (rv_Vendor inp) (rv_TotalCents inp) (rv_CurrencyCode inp),
      fc_Priority = FeedPriorityUrgent, fc_SubjectCode = [], fc_TargetUserID = None, fc_TargetRole = Some ''owner'',
      fc_Actions = Some (vendor_action inp)\<rparr>"

definition review_body :: "env \<Rightarrow> (string \<Rightarrow> string) \<Rightarrow> uuid \<Rightarrow> string \<Rightarrow> RequestVendorReviewInput \<Rightarrow> ('x procurement_db_scheme, uuid) tx" where
  "review_body e quoted orgID sub inp =
     tbind (GetProcurementItem e (rv_ProcurementItemID inp) orgID) (\<lambda>item.
     tbind (CreateFeedCard e (review_card quoted orgID inp item)) (\<lambda>card.
     tbind (Record e (procurement_entry orgID sub ''procurement.vendor_review.requested'' ''procurement_item'' (rv_ProcurementItemID inp) []
       [(''feed_card_id'', JUuid (fe_ID card)), (''vendor'', JStr (rv_Vendor inp)), (''total_cents'', JInt (rv_TotalCents inp)),
        (''currency_code'', JStr (rv_CurrencyCode inp)), (''rfq_id'', JUuid (rv_RFQID inp)),
        (''has_reasoning'', JBool (trim_space (rv_Reasoning inp) \<noteq> []))])) (\<lambda>_.
     tret (fe_ID card))))"

definition RequestVendorReview :: "env \<Rightarrow> (string \<Rightarrow> string) \<Rightarrow> bool \<Rightarrow> uuid \<Rightarrow> string \<Rightarrow> RequestVendorReviewInput \<Rightarrow>
    'x procurement_db_scheme \<Rightarrow> (svc_error + uuid) \<times> 'x procurement_db_scheme" where
  "RequestVendorReview e quoted feedWired orgID sub inp d =
     (case ebind (require_that (orgID \<noteq> uuid_nil) (InvalidInput ''org_id'')) (\<lambda>_.
           ebind (require_that (rv_ProcurementItemID inp \<noteq> uuid_nil) (InvalidInput ''procurement_item_id'')) (\<lambda>_.
           ebind (require_that (trim_space (rv_Vendor inp) \<noteq> []) (InvalidInput ''vendor'')) (\<lambda>_.
           ebind (require_that (0 \<le> rv_TotalCents inp) (InvalidInput ''total_cents'')) (\<lambda>_.
           ebind (map_err (\<lambda>_. InvalidInput ''currency'') (Validate (rv_CurrencyCode inp))) (\<lambda>_.
           require_that feedWired VendorReviewUnavailable))))) of
        Inl err \<Rightarrow> (Inl err, d)
      | Inr _ \<Rightarrow> item_mapped (BeginTxFunc e (review_body e quoted orgID sub inp) d))"

end
