(* ===== verification/Foresight.thy ===== *)
theory Foresight
  imports Procurement Financials Schedule_Store
begin

text \<open>
  Foresight: internal/agentic/foresight.go, internal/service/foresight.go, internal/service/foresight_sweep.go and the tuning
  of internal/agentic/config.go. The workspace computes the metrics and keeps one open card per risk; the reasoner
  judges them and is the parameter \<open>ai\<close>. Rows of the other domains are read through views of the database.
\<close>

section \<open>The database\<close>

record foresight_db = procurement_db +
  fx_tasks :: "ProjectTask list"
  fx_deps :: "TaskDependency list"
  fx_budgets :: "ProjectBudget list"

definition schedule_view :: "'x foresight_db_scheme \<Rightarrow> schedule_db" where
  "schedule_view d = \<lparr>db_orgs = db_orgs d, db_projects = db_projects d, db_audit = db_audit d, db_jobs = db_jobs d,
     db_tasks = fx_tasks d, db_deps = fx_deps d\<rparr>"

definition money_view :: "'x foresight_db_scheme \<Rightarrow> financial_db" where
  "money_view d = \<lparr>db_orgs = db_orgs d, db_projects = db_projects d, db_audit = db_audit d, db_jobs = db_jobs d,
     db_budgets = fx_budgets d, db_corporate = [], db_aging = [], db_invoices = []\<rparr>"

text \<open>A read of another store inside this transaction.\<close>

definition on_view :: "('d \<Rightarrow> 'e) \<Rightarrow> ('e, 'a) tx \<Rightarrow> ('d, 'a) tx" where
  "on_view v m s = (case m \<lparr>s_db = v (s_db s), s_draws = s_draws s, s_aborted = s_aborted s\<rparr> of
     Inl err \<Rightarrow> Inl err
   | Inr (x, s') \<Rightarrow> Inr (x, s\<lparr>s_draws := s_draws s', s_aborted := s_aborted s'\<rparr>))"

section \<open>Tuning\<close>

record ForesightTuning =
  ft_ScheduleFloatDays :: int
  ft_BudgetBurnPercent :: int

definition defaultForesightScheduleFloatDays :: int where "defaultForesightScheduleFloatDays = 2"
definition defaultForesightBudgetBurnPercent :: int where "defaultForesightBudgetBurnPercent = 80"

definition DefaultForesightTuning :: ForesightTuning where
  "DefaultForesightTuning = \<lparr>ft_ScheduleFloatDays = defaultForesightScheduleFloatDays, ft_BudgetBurnPercent = defaultForesightBudgetBurnPercent\<rparr>"

definition tuning_WithDefaults :: "ForesightTuning \<Rightarrow> ForesightTuning" where
  "tuning_WithDefaults t = \<lparr>ft_ScheduleFloatDays = (if ft_ScheduleFloatDays t \<le> 0 then defaultForesightScheduleFloatDays else ft_ScheduleFloatDays t),
     ft_BudgetBurnPercent = (if ft_BudgetBurnPercent t \<le> 0 then defaultForesightBudgetBurnPercent else ft_BudgetBurnPercent t)\<rparr>"

section \<open>Metrics\<close>

record ForesightInput =
  fi_OrgID :: uuid
  fi_ProjectID :: uuid

record ProcurementMetric =
  mp_WBS :: string
  mp_Description :: string
  mp_Status :: string
  mp_DaysUntilMustOrder :: int
  mp_Breached :: bool

record ScheduleMetric =
  ms_WBS :: string
  ms_Name :: string
  ms_RemainingFloatDays :: int
  ms_IsCritical :: bool
  ms_PercentComplete :: int
  ms_Breached :: bool

record BudgetMetric =
  mb_WBS :: string
  mb_EstimatedCents :: int
  mb_CommittedCents :: int
  mb_ActualCents :: int
  mb_CurrencyCode :: string
  mb_BurnPercent :: int
  mb_Breached :: bool

record ForesightContext =
  fk_ProjectName :: string
  fk_Procurement :: "ProcurementMetric list"
  fk_Schedule :: "ScheduleMetric list"
  fk_Budget :: "BudgetMetric list"

definition HasMaterialSignal :: "ForesightContext \<Rightarrow> bool" where
  "HasMaterialSignal c \<longleftrightarrow> list_ex mp_Breached (fk_Procurement c) \<or> list_ex ms_Breached (fk_Schedule c) \<or> list_ex mb_Breached (fk_Budget c)"

record ForesightRisk =
  fr_RiskType :: string
  fr_SubjectCode :: string
  fr_Severity :: string
  fr_Title :: string
  fr_Body :: string
  fr_RecommendedAction :: string

record ForesightResult =
  fq_Risks :: nat
  fq_CardsCreated :: nat
  fq_CardsSkipped :: nat

definition no_result :: ForesightResult where
  "no_result = \<lparr>fq_Risks = 0, fq_CardsCreated = 0, fq_CardsSkipped = 0\<rparr>"

definition foresightBurnPercent :: "int \<Rightarrow> int \<Rightarrow> int" where
  "foresightBurnPercent actual estimated =
     (if estimated = 0 then -1
      else if actual > quot (2 ^ 63 - 1) 100 then wrap64 (wrap64 (quot actual estimated) * 100)
      else wrap64 (quot (wrap64 (actual * 100)) estimated))"

definition foresightRemainingFloatDays :: "int option \<Rightarrow> int" where
  "foresightRemainingFloatDays totalFloat = (let v = coalesce totalFloat 0 in if v < 0 then 0 else v)"

text \<open>\<open>t.Sub(now)\<close> saturates; \<open>Hours()\<close> is a float.\<close>

definition time_sub :: "gotime \<Rightarrow> gotime \<Rightarrow> duration" where
  "time_sub t u = max (- (2 ^ 63)) (min (2 ^ 63 - 1) (t - u))"

definition duration_hours :: "duration \<Rightarrow> f64" where
  "duration_hours d = fadd (f64_of_int (quot d hour)) (fdiv (f64_of_int (qrem d hour)) (f64_of_int hour))"

definition foresightDaysUntil :: "gotime option \<Rightarrow> gotime \<Rightarrow> int" where
  "foresightDaysUntil t now = (case t of None \<Rightarrow> 0 | Some t \<Rightarrow> quot (int64_of_f64 (duration_hours (time_sub t now))) 24)"

definition foresightSeverityToPriority :: "string \<Rightarrow> string" where
  "foresightSeverityToPriority severity =
     (if severity = ''critical'' then FeedPriorityCritical else if severity = ''high'' then FeedPriorityUrgent
      else if severity = ''low'' then FeedPriorityLow else FeedPriorityNormal)"

definition foresightCardProcurement :: string where "foresightCardProcurement = ''procurement_criticality''"
definition foresightCardSchedule :: string where "foresightCardSchedule = ''schedule_slip''"
definition foresightCardBudget :: string where "foresightCardBudget = ''budget_burn''"
definition foresightBudgetTotalSubject :: string where "foresightBudgetTotalSubject = ''total''"

lemmas foresight_cards = foresightCardProcurement_def foresightCardSchedule_def foresightCardBudget_def

definition foresightTargetRole :: "string \<Rightarrow> string" where
  "foresightTargetRole cardType = (if cardType = foresightCardBudget then ''owner'' else ''superintendent'')"

section \<open>Loading the context\<close>

definition item_breached :: "ProcurementItem \<Rightarrow> bool" where
  "item_breached i \<longleftrightarrow> pi_Status i = ProcurementStatusWarning \<or> pi_Status i = ProcurementStatusCritical"

definition item_metric :: "gotime \<Rightarrow> ProcurementItem \<Rightarrow> ProcurementMetric" where
  "item_metric now i = \<lparr>mp_WBS = pi_WBSCode i, mp_Description = pi_Name i, mp_Status = pi_Status i,
     mp_DaysUntilMustOrder = foresightDaysUntil (pi_MustOrderDate i) now, mp_Breached = True\<rparr>"

definition task_breached :: "ForesightTuning \<Rightarrow> ProjectTask \<Rightarrow> bool" where
  "task_breached tuning t \<longleftrightarrow> pt_IsCritical t \<and> pt_Status t \<noteq> ''completed'' \<and> pt_PercentComplete t < 100 \<or>
     foresightRemainingFloatDays (pt_TotalFloat t) \<le> ft_ScheduleFloatDays tuning"

definition task_metric :: "ProjectTask \<Rightarrow> ScheduleMetric" where
  "task_metric t = \<lparr>ms_WBS = pt_WBSCode t, ms_Name = pt_Name t, ms_RemainingFloatDays = foresightRemainingFloatDays (pt_TotalFloat t),
     ms_IsCritical = pt_IsCritical t, ms_PercentComplete = pt_PercentComplete t, ms_Breached = True\<rparr>"

definition budget_burn :: "ProjectBudget \<Rightarrow> int" where
  "budget_burn b = foresightBurnPercent (pb_ActualCostCents b) (pb_EstimatedCostCents b)"

definition budget_breached :: "ForesightTuning \<Rightarrow> ProjectBudget \<Rightarrow> bool" where
  "budget_breached tuning b \<longleftrightarrow> 0 \<le> budget_burn b \<and> ft_BudgetBurnPercent tuning \<le> budget_burn b"

definition budget_metric :: "ProjectBudget \<Rightarrow> BudgetMetric" where
  "budget_metric b = \<lparr>mb_WBS = pb_WBSCode b, mb_EstimatedCents = pb_EstimatedCostCents b, mb_CommittedCents = pb_CommittedCostCents b,
     mb_ActualCents = pb_ActualCostCents b, mb_CurrencyCode = pb_EstimatedCostCurrencyCode b, mb_BurnPercent = budget_burn b, mb_Breached = True\<rparr>"

text \<open>One dimension: the rows that breach and have no open card yet.\<close>

fun load_metrics :: "env \<Rightarrow> uuid \<Rightarrow> string \<Rightarrow> ('r \<Rightarrow> string) \<Rightarrow> ('r \<Rightarrow> bool) \<Rightarrow> ('r \<Rightarrow> 'm) \<Rightarrow> 'r list \<Rightarrow> ('x feed_db_scheme, 'm list) tx" where
  "load_metrics e pid cardType code breached metric [] = tret []"
| "load_metrics e pid cardType code breached metric (r # rs) =
     (if \<not> breached r then load_metrics e pid cardType code breached metric rs
      else tbind (HasActiveRiskCard e pid cardType (code r)) (\<lambda>carded.
        tbind (load_metrics e pid cardType code breached metric rs) (\<lambda>ms.
        tret (if carded then ms else metric r # ms))))"

definition load_body :: "env \<Rightarrow> gotime \<Rightarrow> ForesightInput \<Rightarrow> ForesightTuning \<Rightarrow> ('x foresight_db_scheme, ForesightContext) tx" where
  "load_body e now inp tuning =
     tbind (VerifyProjectInOrg e (fi_ProjectID inp) (fi_OrgID inp)) (\<lambda>_.
     tbind (GetByID e (fi_ProjectID inp) (fi_OrgID inp)) (\<lambda>project.
     tbind (ListProcurementItems e (fi_ProjectID inp) (fi_OrgID inp) []) (\<lambda>items.
     tbind (load_metrics e (fi_ProjectID inp) foresightCardProcurement pi_WBSCode item_breached (item_metric now) items) (\<lambda>proc.
     tbind (on_view schedule_view (GetProjectTasks e (fi_ProjectID inp))) (\<lambda>tasks.
     tbind (load_metrics e (fi_ProjectID inp) foresightCardSchedule pt_WBSCode (task_breached tuning) task_metric tasks) (\<lambda>sched.
     tbind (on_view money_view (ListProjectBudgets e (fi_ProjectID inp))) (\<lambda>budgets.
     tbind (load_metrics e (fi_ProjectID inp) foresightCardBudget pb_WBSCode (budget_breached tuning) budget_metric budgets) (\<lambda>money.
     tret \<lparr>fk_ProjectName = pj_Name project, fk_Procurement = proc, fk_Schedule = sched, fk_Budget = money\<rparr>))))))))"

definition LoadForesightContext :: "env \<Rightarrow> gotime \<Rightarrow> ForesightInput \<Rightarrow> ForesightTuning \<Rightarrow> 'x foresight_db_scheme \<Rightarrow>
    svc_error + ForesightContext" where
  "LoadForesightContext e now inp tuning d = fst (item_mapped (BeginTxFunc e (load_body e now inp (tuning_WithDefaults tuning)) d))"

section \<open>Applying the plan\<close>

definition risk_subject :: "ForesightRisk \<Rightarrow> string" where
  "risk_subject r = (if fr_SubjectCode r = [] then foresightBudgetTotalSubject else fr_SubjectCode r)"

definition risk_action :: "ForesightRisk \<Rightarrow> json" where
  "risk_action r = JList [JObject [(''label'', JStr ''Review risk''), (''action_type'', JStr ''review_foresight_risk''),
     (''payload'', JObject [(''risk_type'', JStr (fr_RiskType r)), (''subject_code'', JStr (risk_subject r)),
        (''severity'', JStr (fr_Severity r)), (''recommended_action'', JStr (fr_RecommendedAction r))])]]"

definition risk_card :: "ForesightInput \<Rightarrow> ForesightRisk \<Rightarrow> CreateFeedCardParams" where
  "risk_card inp r =
     \<lparr>fc_OrgID = fi_OrgID inp, fc_ProjectID = Some (fi_ProjectID inp), fc_CardType = fr_RiskType r, fc_Title = fr_Title r,
      fc_Body = fr_Body r, fc_Priority = foresightSeverityToPriority (fr_Severity r), fc_SubjectCode = risk_subject r,
      fc_TargetUserID = None, fc_TargetRole = Some (foresightTargetRole (fr_RiskType r)), fc_Actions = Some (risk_action r)\<rparr>"

text \<open>The maps by WBS keep the last metric of a code.\<close>

definition last_by :: "('m \<Rightarrow> string) \<Rightarrow> 'm list \<Rightarrow> string \<Rightarrow> 'm option" where
  "last_by code ms k = List.find (\<lambda>m. code m = k) (rev ms)"

definition risk_metadata :: "ForesightContext \<Rightarrow> ForesightRisk \<Rightarrow> FeedCard \<Rightarrow> payload" where
  "risk_metadata c r fc =
     [(''risk_type'', JStr (fr_RiskType r)), (''subject_code'', JStr (risk_subject r)), (''severity'', JStr (fr_Severity r)),
      (''title'', JStr (fr_Title r)), (''card_id'', JUuid (fe_ID fc))] @
     (if fr_RiskType r = foresightCardProcurement then
        (case last_by mp_WBS (fk_Procurement c) (risk_subject r) of None \<Rightarrow> []
         | Some m \<Rightarrow> [(''days_until_must_order'', JInt (mp_DaysUntilMustOrder m)), (''procurement_status'', JStr (mp_Status m))])
      else if fr_RiskType r = foresightCardSchedule then
        (case last_by ms_WBS (fk_Schedule c) (risk_subject r) of None \<Rightarrow> []
         | Some m \<Rightarrow> [(''remaining_float_days'', JInt (ms_RemainingFloatDays m))])
      else if fr_RiskType r = foresightCardBudget then
        (case last_by mb_WBS (fk_Budget c) (risk_subject r) of None \<Rightarrow> [] | Some m \<Rightarrow> [(''burn_percent'', JInt (mb_BurnPercent m))])
      else [])"

definition risk_entry :: "ForesightInput \<Rightarrow> ForesightContext \<Rightarrow> ForesightRisk \<Rightarrow> FeedCard \<Rightarrow> AuditEntry" where
  "risk_entry inp c r fc =
     \<lparr>ae_OrgID = fi_OrgID inp, ae_UserSub = [], ae_Action = ''agentic.foresight.risk_surfaced'', ae_ResourceType = ''foresight'',
      ae_ResourceID = fi_ProjectID inp, ae_Before = [], ae_After = [], ae_Metadata = risk_metadata c r fc\<rparr>"

text \<open>
  The loop over the risks. \<open>others k\<close> is what other transactions commit between the check and the insert of the
  \<open>k\<close>-th risk, which a READ COMMITTED transaction sees. A clash in the dedup index is counted as a skip, but the failed
  statement leaves the transaction aborted.
\<close>

fun apply_risks :: "env \<Rightarrow> (nat \<Rightarrow> 'x foresight_db_scheme \<Rightarrow> 'x foresight_db_scheme) \<Rightarrow> ForesightInput \<Rightarrow> ForesightContext \<Rightarrow>
    nat \<Rightarrow> ForesightRisk list \<Rightarrow> ('x foresight_db_scheme, nat \<times> nat) tx" where
  "apply_risks e others inp c k [] = tret (0, 0)"
| "apply_risks e others inp c k (r # rs) =
     tbind (HasActiveRiskCard e (fi_ProjectID inp) (fr_RiskType r) (risk_subject r)) (\<lambda>carded s.
     let skip = tbind (apply_risks e others inp c (Suc k) rs) (\<lambda>(created, skipped). tret (created, Suc skipped)) in
     if carded then skip s
     else (case CreateFeedCard e (risk_card inp r) (s\<lparr>s_db := others k (s_db s)\<rparr>) of
        Inl err \<Rightarrow> if err = DuplicateActiveRiskCard then skip (s\<lparr>s_db := others k (s_db s), s_aborted := True\<rparr>) else Inl err
      | Inr (fc, s') \<Rightarrow>
          tbind (Record e (risk_entry inp c r fc)) (\<lambda>_.
          tbind (apply_risks e others inp c (Suc k) rs) (\<lambda>(created, skipped). tret (Suc created, skipped))) s'))"

text \<open>A rollback leaves what the others committed.\<close>

definition ApplyForesight :: "env \<Rightarrow> (nat \<Rightarrow> 'x foresight_db_scheme \<Rightarrow> 'x foresight_db_scheme) \<Rightarrow> ForesightInput \<Rightarrow> ForesightContext \<Rightarrow>
    ForesightRisk list \<Rightarrow> 'x foresight_db_scheme \<Rightarrow> (svc_error + ForesightResult) \<times> 'x foresight_db_scheme" where
  "ApplyForesight e others inp c risks d =
     (case BeginTxFunc e (tbind (apply_risks e others inp c 0 risks) (\<lambda>(created, skipped).
         tret \<lparr>fq_Risks = length risks, fq_CardsCreated = created, fq_CardsSkipped = skipped\<rparr>)) d of
        (Inl err, _) \<Rightarrow> (Inl err, fold others [0..<length risks] d)
      | (Inr res, d') \<Rightarrow> (Inr res, d'))"

section \<open>The orchestrator\<close>

text \<open>What the AI client answers; no client at all is \<open>None\<close>.\<close>

datatype ai_answer = Risks "ForesightRisk list" | Unconfigured | AICallFails

definition JudgeRisks :: "(ForesightContext \<Rightarrow> ai_answer) option \<Rightarrow> ForesightContext \<Rightarrow> svc_error + ForesightRisk list" where
  "JudgeRisks ai c = (case ai of None \<Rightarrow> Inl AIUnavailable
     | Some f \<Rightarrow> (case f c of Risks rs \<Rightarrow> Inr rs | Unconfigured \<Rightarrow> Inl AIUnavailable | AICallFails \<Rightarrow> Inl AIFailed))"

record run_env =
  ru_load :: env
  ru_apply :: env
  ru_now :: gotime

definition RunForesight :: "run_env \<Rightarrow> (ForesightContext \<Rightarrow> ai_answer) option \<Rightarrow> ForesightInput \<Rightarrow> ForesightTuning \<Rightarrow>
    'x foresight_db_scheme \<Rightarrow> (svc_error + ForesightResult) \<times> 'x foresight_db_scheme" where
  "RunForesight r ai inp tuning d =
     (case LoadForesightContext (ru_load r) (ru_now r) inp tuning d of
        Inl err \<Rightarrow> (Inl err, d)
      | Inr fc \<Rightarrow>
          if \<not> HasMaterialSignal fc then (Inr no_result, d)
          else case JudgeRisks ai fc of
            Inl err \<Rightarrow> (if err = AIUnavailable then Inr no_result else Inl err, d)
          | Inr risks \<Rightarrow> if risks = [] then (Inr no_result, d)
              else ApplyForesight (ru_apply r) (\<lambda>_ d. d) inp fc risks d)"

section \<open>The sweep\<close>

definition foresightSweepPageSize :: int where "foresightSweepPageSize = 100"

record sweep_totals =
  sw_projects :: nat
  sw_disabled :: nat
  sw_errors :: nat
  sw_result :: ForesightResult

definition add_result :: "ForesightResult \<Rightarrow> ForesightResult \<Rightarrow> ForesightResult" where
  "add_result a b = \<lparr>fq_Risks = fq_Risks a + fq_Risks b, fq_CardsCreated = fq_CardsCreated a + fq_CardsCreated b,
     fq_CardsSkipped = fq_CardsSkipped a + fq_CardsSkipped b\<rparr>"

text \<open>
  What a sweep gets from outside: \<open>sp_config\<close> resolves an organization's switch and tuning, \<open>sp_ai\<close> its reasoner,
  \<open>sp_run\<close> the environment of a project's run, \<open>sp_page\<close> that of the page after a project id.
\<close>

record sweep_params =
  sp_config :: "uuid \<Rightarrow> svc_error + bool \<times> ForesightTuning"
  sp_ai :: "uuid \<Rightarrow> (ForesightContext \<Rightarrow> ai_answer) option"
  sp_run :: "uuid \<Rightarrow> run_env"
  sp_page :: "uuid \<Rightarrow> env"

text \<open>The memo of the configuration only saves calls: \<open>sp_config\<close> is a function.\<close>

fun sweep_page :: "sweep_params \<Rightarrow> Project list \<Rightarrow> sweep_totals \<Rightarrow> 'x foresight_db_scheme \<Rightarrow> (svc_error + sweep_totals) \<times> 'x foresight_db_scheme" where
  "sweep_page sp [] tot d = (Inr tot, d)"
| "sweep_page sp (p # ps) tot d =
     (let tot = tot\<lparr>sw_projects := Suc (sw_projects tot)\<rparr> in
      case sp_config sp (pj_OrgID p) of
        Inl err \<Rightarrow> (Inl err, d)
      | Inr (enabled, tuning) \<Rightarrow>
          if \<not> enabled then sweep_page sp ps (tot\<lparr>sw_disabled := Suc (sw_disabled tot)\<rparr>) d
          else (case RunForesight (sp_run sp (pj_ID p)) (sp_ai sp (pj_OrgID p)) \<lparr>fi_OrgID = pj_OrgID p, fi_ProjectID = pj_ID p\<rparr> tuning d of
              (Inl err, d') \<Rightarrow> sweep_page sp ps (tot\<lparr>sw_errors := Suc (sw_errors tot)\<rparr>) d'
            | (Inr res, d') \<Rightarrow> sweep_page sp ps (tot\<lparr>sw_result := add_result (sw_result tot) res\<rparr>) d'))"

text \<open>The keyset loop, with fuel: None when it runs out.\<close>

fun sweep_loop :: "nat \<Rightarrow> sweep_params \<Rightarrow> uuid \<Rightarrow> sweep_totals \<Rightarrow> 'x foresight_db_scheme \<Rightarrow>
    ((svc_error + sweep_totals) \<times> 'x foresight_db_scheme) option" where
  "sweep_loop 0 sp afterID tot d = None"
| "sweep_loop (Suc n) sp afterID tot d =
     (case fst (BeginTxFunc (sp_page sp afterID) (ListActiveAcrossOrgsForSweep (sp_page sp afterID) foresightSweepPageSize afterID) d) of
        Inl err \<Rightarrow> Some (Inl err, d)
      | Inr page \<Rightarrow>
          if page = [] then Some (Inr tot, d)
          else (case sweep_page sp page tot d of
              (Inl err, d') \<Rightarrow> Some (Inl err, d')
            | (Inr tot', d') \<Rightarrow>
                if int (length page) < foresightSweepPageSize then Some (Inr tot', d')
                else sweep_loop n sp (pj_ID (last page)) tot' d'))"

definition RunForesightSweep :: "nat \<Rightarrow> env \<Rightarrow> gotime \<Rightarrow> sweep_params \<Rightarrow> 'x foresight_db_scheme \<Rightarrow>
    ((svc_error + sweep_totals) \<times> 'x foresight_db_scheme) option" where
  "RunForesightSweep fuel e now sp d =
     (case RecomputeStatuses e now d of
        (Inl err, d') \<Rightarrow> Some (Inl err, d')
      | (Inr _, d') \<Rightarrow> sweep_loop fuel sp uuid_nil \<lparr>sw_projects = 0, sw_disabled = 0, sw_errors = 0, sw_result = no_result\<rparr> d')"

end
