(* ===== verification/Risk_Cards.thy ===== *)
theory Risk_Cards
  imports Foresight
begin

text \<open>
  Which databases the services of the feed, of procurement and of foresight can reach: the order \<open>ws_le\<close> every
  one of their transactions follows, the invariant \<open>ws_ok\<close> it carries, and the machine of their operations.
\<close>

section \<open>Transactions that follow an order\<close>

definition tx_follows :: "('d \<Rightarrow> 'd \<Rightarrow> bool) \<Rightarrow> ('d, 'a) tx \<Rightarrow> bool" where
  "tx_follows R m \<longleftrightarrow> (\<forall>s x s'. m s = Inr (x, s') \<longrightarrow> R (s_db s) (s_db s'))"

named_theorems follows \<open>transactions that follow the order of the workspace\<close>

lemma tx_followsI: "(\<And>s x s'. m s = Inr (x, s') \<Longrightarrow> R (s_db s) (s_db s')) \<Longrightarrow> tx_follows R m"
  by (simp add: tx_follows_def)

lemma tx_followsD: "tx_follows R m \<Longrightarrow> m s = Inr (x, s') \<Longrightarrow> R (s_db s) (s_db s')"
  by (simp add: tx_follows_def)

text \<open>An order on databases: what every transaction of a component keeps.\<close>

locale tx_order =
  fixes R :: "'d \<Rightarrow> 'd \<Rightarrow> bool"
  assumes R_refl: "R d d"
    and R_trans: "R d d1 \<Longrightarrow> R d1 d2 \<Longrightarrow> R d d2"
begin

lemma pure: "tx_follows R (tret x)" "tx_follows R (tfail err)" "tx_follows R (tguard b err)" "tx_follows R (tlift r)"
  by (auto intro!: tx_followsI R_refl)

lemma reads: "tx_follows R (select_all e l q)" "tx_follows R (select_one e l tab P)"
  by (auto intro!: tx_followsI R_refl simp: select_all_Inr select_one_Inr)

lemma bind: "tx_follows R m \<Longrightarrow> (\<And>x. tx_follows R (f x)) \<Longrightarrow> tx_follows R (tbind m f)"
  by (rule tx_followsI) (auto simp: tbind_Inr intro: R_trans dest!: tx_followsD)

lemma bind_pair:
  assumes "tx_follows R (tbind m (\<lambda>_. n))" "\<And>y. tx_follows R (g y)" shows "tx_follows R (tbind m (\<lambda>_. tbind n g))"
proof (rule tx_followsI)
  fix s z s' assume "tbind m (\<lambda>_. tbind n g) s = Inr (z, s')"
  then obtain y s1 where "tbind m (\<lambda>_. n) s = Inr (y, s1)" "g y s1 = Inr (z, s')" by (auto simp: tbind_Inr)
  then show "R (s_db s) (s_db s')" by (rule R_trans [OF tx_followsD [OF assms(1)] tx_followsD [OF assms(2)]])
qed

lemma missing: "tx_follows R m \<Longrightarrow> tx_follows R (tmissing err m)"
  by (rule tx_followsI) (auto dest!: tx_followsD)

lemma statement: "tx_follows R m \<Longrightarrow> tx_follows R (stmt e l m)"
  by (rule tx_followsI) (auto simp: stmt_Inr dest!: tx_followsD)

lemma commit: "tx_follows R m \<Longrightarrow> R d (snd (BeginTxFunc e m d))"
  by (rule snd_BeginTxFunc_inv) (auto intro: R_refl dest: tx_followsD)

lemma commits: "tx_follows R m \<Longrightarrow> BeginTxFunc e m d = (r, d') \<Longrightarrow> R d d'"
  using commit [of m d e] by simp

end

section \<open>The invariant\<close>

definition dedup_index :: "FeedCard list \<Rightarrow> bool" where
  "dedup_index cards \<longleftrightarrow> (\<forall>c\<in>set cards. \<forall>c'\<in>set cards. dedup_key c \<noteq> None \<longrightarrow> dedup_key c = dedup_key c' \<longrightarrow> c = c')"

definition item_ok :: "Project list \<Rightarrow> ProcurementItem \<Rightarrow> bool" where
  "item_ok projects i \<longleftrightarrow> IsValidProcurementStatus (pi_Status i) \<and> 0 \<le> pi_EstimatedCostCents i \<and>
     Validate (pi_EstimatedCostCurrencyCode i) = Inr () \<and> 0 \<le> pi_LeadTimeDays i \<and> 0 \<le> pi_WeatherBufferDays i \<and>
     pi_Name i \<noteq> [] \<and> pi_WBSCode i \<noteq> [] \<and> (pi_MustOrderDate i = None \<longleftrightarrow> pi_NeedByDate i = None) \<and>
     (\<exists>p\<in>set projects. pj_ID p = pi_ProjectID i \<and> pj_OrgID p = pi_OrgID i)"

definition rec_ok :: "ProcurementItem list \<Rightarrow> ProcurementRecommendation \<Rightarrow> bool" where
  "rec_ok items r \<longleftrightarrow> 0 \<le> pq_ConfidencePct r \<and> pq_ConfidencePct r \<le> 100 \<and> 0 \<le> pq_PredictedSpendCents r \<and>
     (\<exists>i\<in>set items. pi_ID i = pq_ProcurementItemID r \<and> pi_OrgID i = pq_OrgID r)"

definition ws_ok :: "'x foresight_db_scheme \<Rightarrow> bool" where
  "ws_ok d \<longleftrightarrow> dedup_index (db_cards d) \<and> distinct (List.map fe_ID (db_cards d)) \<and>
     (\<forall>i\<in>set (db_items d). item_ok (db_projects d) i) \<and> distinct (List.map pi_ID (db_items d)) \<and>
     (\<forall>r\<in>set (db_recs d). rec_ok (db_items d) r)"

text \<open>What an operation may do: cards nobody can act on any more stay as they are, the audit log only grows.\<close>

definition ws_le :: "'x foresight_db_scheme \<Rightarrow> 'x foresight_db_scheme \<Rightarrow> bool" where
  "ws_le d d' \<longleftrightarrow> (ws_ok d \<longrightarrow> ws_ok d') \<and> (\<forall>c\<in>set (db_cards d). \<not> open_card c \<longrightarrow> c \<in> set (db_cards d')) \<and>
     (\<exists>rows. db_audit d' = db_audit d @ rows) \<and> db_projects d' = db_projects d"

interpretation ws: tx_order ws_le
  by unfold_locales (fastforce simp: ws_le_def)+

declare ws.pure [follows] ws.reads [follows] ws.missing [follows] ws.statement [follows]

lemma audit_le: "ws_le d (d\<lparr>db_audit := db_audit d @ rows\<rparr>)"
  by (simp add: ws_le_def ws_ok_def)

lemma Record_follows [follows]: "tx_follows ws_le (Record e p)"
  by (rule tx_followsI) (auto dest!: Record_appends simp: audit_le)

lemma Verify_follows [follows]: "tx_follows ws_le (VerifyProjectInOrg e p org)"
  unfolding VerifyProjectInOrg_def by (intro ws.bind follows)

section \<open>Cards\<close>

lemma db_updates:
  "db_cards_update (\<lambda>rows. rows @ [c]) d = d\<lparr>db_cards := db_cards d @ [c]\<rparr>"
  "db_cards_update (update_where P f) d = d\<lparr>db_cards := update_where P f (db_cards d)\<rparr>"
  "db_items_update (\<lambda>rows. rows @ [i]) w = w\<lparr>db_items := db_items w @ [i]\<rparr>"
  "db_items_update (update_where Q g) w = w\<lparr>db_items := update_where Q g (db_items w)\<rparr>"
  "db_recs_update (\<lambda>rows. rows @ [r]) w = w\<lparr>db_recs := db_recs w @ [r]\<rparr>"
  by (cases d, simp, cases d, simp) (cases w, simp)+

lemma dedup_key_new: "dedup_key (new_card e p u) = dedup_key (new_card e p v)"
  by (simp add: dedup_key_def new_card_def open_card_def split: option.splits)

lemma dedup_index_snoc:
  assumes "dedup_index cards" "\<not> dedup_clash e p cards"
  shows "dedup_index (cards @ [new_card e p u])"
proof -
  have new: "dedup_key c \<noteq> dedup_key (new_card e p u)" if "c \<in> set cards" "dedup_key c \<noteq> None" for c
    using that assms(2) dedup_key_new [of e p u "fe_ID c"] unfolding dedup_clash_def by metis
  show ?thesis unfolding dedup_index_def
  proof (intro ballI impI)
    fix c c' assume "c \<in> set (cards @ [new_card e p u])" "c' \<in> set (cards @ [new_card e p u])"
      and k: "dedup_key c \<noteq> None" "dedup_key c = dedup_key c'"
    then consider "c \<in> set cards" "c' \<in> set cards" | "c = c'" | "c \<in> set cards" "c' = new_card e p u"
      | "c' \<in> set cards" "c = new_card e p u" by (simp only: set_append set_simps) blast
    then show "c = c'"
    proof cases
      case 1
      then show ?thesis using assms(1) k unfolding dedup_index_def by blast
    next
      case 3
      then show ?thesis using new [of c] k by simp
    next
      case 4
      then show ?thesis using new [of c'] k by simp
    qed
  qed
qed

lemma dedup_index_update:
  assumes "dedup_index cards" "\<And>c. P c \<Longrightarrow> dedup_key (f c) = dedup_key c \<or> dedup_key (f c) = None"
  shows "dedup_index (update_where P f cards)"
proof -
  define g where "g = (\<lambda>c. if P c then f c else c)"
  have "dedup_key (g c) = dedup_key c \<or> dedup_key (g c) = None" for c using assms(2) by (simp add: g_def)
  then have "g c = g c'" if "c \<in> set cards" "c' \<in> set cards" "dedup_key (g c) \<noteq> None" "dedup_key (g c) = dedup_key (g c')" for c c'
    using that assms(1) unfolding dedup_index_def by metis
  then have *: "\<forall>c\<in>set cards. \<forall>c'\<in>set cards. dedup_key (g c) \<noteq> None \<longrightarrow> dedup_key (g c) = dedup_key (g c') \<longrightarrow> g c = g c'"
    by blast
  have rows: "set (update_where P f cards) = g ` set cards" by (auto simp: set_update_where g_def)
  show ?thesis unfolding dedup_index_def rows ball_simps(9) by (rule *)
qed

lemma CreateFeedCard_Inr:
  assumes "CreateFeedCard e p s = Inr (c, s')"
  shows "\<not> dedup_clash e p (db_cards (s_db s))" "c = new_card e p (fe_ID c)" "fe_ID c \<notin> fe_ID ` set (db_cards (s_db s))"
    "s_db s' = s_db s\<lparr>db_cards := db_cards (s_db s) @ [c]\<rparr>"
proof -
  have "\<not> dedup_clash e p (db_cards (s_db s)) \<and> (\<exists>u. c = new_card e p u) \<and>
      (\<forall>c'\<in>set (db_cards (s_db s)). fe_ID c' \<noteq> fe_ID c) \<and> s_db s' = db_cards_update (\<lambda>rows. rows @ [c]) (s_db s)"
    using assms unfolding CreateFeedCard_def stmt_Inr by (auto simp: insert_returning_Inr split: if_splits)
  then show "\<not> dedup_clash e p (db_cards (s_db s))" "c = new_card e p (fe_ID c)" "fe_ID c \<notin> fe_ID ` set (db_cards (s_db s))"
    "s_db s' = s_db s\<lparr>db_cards := db_cards (s_db s) @ [c]\<rparr>"
    unfolding db_updates by (auto simp: new_card_def image_iff)
qed

lemma CreateFeedCard_follows [follows]: "tx_follows ws_le (CreateFeedCard e p)"
proof (rule tx_followsI)
  fix s :: "'x foresight_db_scheme session" and c s' assume "CreateFeedCard e p s = Inr (c, s')"
  note c = CreateFeedCard_Inr [OF this]
  have "dedup_index (db_cards (s_db s) @ [c])" if "dedup_index (db_cards (s_db s))"
    using dedup_index_snoc [OF that, of e p "fe_ID c"] c by simp
  then show "ws_le (s_db s) (s_db s')" using c by (auto simp: ws_le_def ws_ok_def image_iff)
qed

lemma HasActive_follows [follows]: "tx_follows ws_le (HasActiveRiskCard e pid t code)"
  unfolding HasActiveRiskCard_def by (intro ws.bind follows)

lemma HasActive_reads: "HasActiveRiskCard e pid t code s = Inr (b, s') \<Longrightarrow> s' = s"
  by (auto simp: HasActiveRiskCard_def tbind_Inr select_all_Inr)

lemma card_update_follows:
  assumes "\<And>c. P c \<Longrightarrow> open_card c \<and> fe_ID (f c) = fe_ID c \<and> (dedup_key (f c) = dedup_key c \<or> dedup_key (f c) = None)"
  shows "tx_follows ws_le (update_returning e l db_cards db_cards_update P f)"
proof (rule tx_followsI)
  fix s :: "'x foresight_db_scheme session" and c s'
  assume "update_returning e l db_cards db_cards_update P f s = Inr (c, s')"
  then have s': "s_db s' = s_db s\<lparr>db_cards := update_where P f (db_cards (s_db s))\<rparr>"
    by (auto simp: update_returning_Inr db_updates)
  have "dedup_index (update_where P f cards)" if "dedup_index cards" for cards
    by (rule dedup_index_update [OF that]) (drule assms, elim conjE, assumption)
  moreover have "List.map fe_ID (update_where P f cards) = List.map fe_ID cards" for cards
    unfolding update_where_def using conjunct1 [OF conjunct2 [OF assms]] by (induction cards) simp_all
  moreover have "c \<in> set (update_where P f cards)" if "c \<in> set cards" "\<not> open_card c" for c cards
  proof -
    have "\<not> P c"
    proof
      assume "P c"
      from assms [OF this] that(2) show False by (elim conjE) (erule notE)
    qed
    then show ?thesis unfolding set_update_where by (intro image_eqI [OF _ that(1)]) simp
  qed
  ultimately show "ws_le (s_db s) (s_db s')" unfolding s' by (simp add: ws_le_def ws_ok_def)
qed

lemma DismissFeedCard_follows [follows]: "tx_follows ws_le (DismissFeedCard e c org)"
  unfolding DismissFeedCard_def by (intro ws.missing card_update_follows) (auto simp: dedup_key_def open_card_def split: option.splits)

lemma ActionFeedCard_follows [follows]: "tx_follows ws_le (ActionFeedCard e c org)"
  unfolding ActionFeedCard_def by (intro ws.missing card_update_follows) (auto simp: dedup_key_def open_card_def split: option.splits)

lemma DismissCard_le: "ws_le d (snd (DismissCard e org sub c d))"
  by (auto simp: DismissCard_def dismiss_body_def intro!: ws.commit ws.bind follows ws.R_refl)

lemma ActionCard_le: "ws_le d (snd (ActionCard e org sub c inp d))"
  by (auto simp: ActionCard_def action_body_def intro!: ws.commit ws.bind follows ws.R_refl)

section \<open>Procurement\<close>

lemma items_update_le:
  assumes "\<And>i. P i \<Longrightarrow> item_ok (db_projects d) i \<Longrightarrow> item_ok (db_projects d) (f i)"
    and same: "\<And>i. pi_ID (f i) = pi_ID i" "\<And>i. pi_OrgID (f i) = pi_OrgID i"
  shows "ws_le d (d\<lparr>db_items := update_where P f (db_items d)\<rparr>)"
proof -
  define g where "g = (\<lambda>i. if P i then f i else i)"
  have g: "pi_ID (g i) = pi_ID i" "pi_OrgID (g i) = pi_OrgID i" for i by (simp_all add: g_def same)
  have rows: "update_where P f (db_items d) = List.map g (db_items d)" by (simp add: update_where_def g_def)
  have "item_ok (db_projects d) (g i)" if "item_ok (db_projects d) i" for i
    using assms(1) [of i] that by (simp add: g_def)
  moreover have "rec_ok (List.map g (db_items d)) r" if "rec_ok (db_items d) r" for r
    using that g by (auto simp: rec_ok_def)
  ultimately show ?thesis by (simp add: rows ws_le_def ws_ok_def comp_def g(1))
qed

lemma item_insert_le:
  assumes "ws_ok d \<Longrightarrow> item_ok (db_projects d) i" "pi_ID i \<notin> pi_ID ` set (db_items d)"
  shows "ws_le d (d\<lparr>db_items := db_items d @ [i]\<rparr>)"
proof -
  have "rec_ok (db_items d @ [i]) r" if "rec_ok (db_items d) r" for r
    using that by (auto simp: rec_ok_def)
  then show ?thesis using assms by (simp add: ws_le_def ws_ok_def)
qed

lemma rec_insert_le:
  assumes "rec_ok (db_items d) r"
  shows "ws_le d (d\<lparr>db_recs := db_recs d @ [r]\<rparr>)"
  using assms by (simp add: ws_le_def ws_ok_def)

lemma check_item_Inr:
  "check_item org inp = Inr u \<Longrightarrow> trim_space (pc_Name inp) \<noteq> [] \<and> trim_space (pc_WBSCode inp) \<noteq> [] \<and> 0 \<le> pc_EstimatedCostCents inp \<and>
     0 \<le> pc_LeadTimeDays inp \<and> 0 \<le> pc_WeatherBufferDays inp \<and> Validate (pc_EstimatedCostCurrencyCode inp) = Inr ()"
  by (auto simp: check_item_def ebind_elims)

lemma item_insert_follows:
  assumes "check_item org inp = Inr u"
  shows "tx_follows ws_le (tbind (VerifyProjectInOrg e (pc_ProjectID inp) org) (\<lambda>_. CreateProcurementItem_store e org
     (inp\<lparr>pc_Name := trim_space (pc_Name inp), pc_WBSCode := trim_space (pc_WBSCode inp)\<rparr>)))"
proof (rule tx_followsI)
  fix s :: "'x foresight_db_scheme session" and i s'
  assume "tbind (VerifyProjectInOrg e (pc_ProjectID inp) org) (\<lambda>_. CreateProcurementItem_store e org
     (inp\<lparr>pc_Name := trim_space (pc_Name inp), pc_WBSCode := trim_space (pc_WBSCode inp)\<rparr>)) s = Inr (i, s')"
  then have new: "\<exists>p\<in>set (db_projects (s_db s)). pj_ID p = pc_ProjectID inp \<and> pj_OrgID p = org"
      "pi_ID i \<notin> pi_ID ` set (db_items (s_db s))" "s_db s' = s_db s\<lparr>db_items := db_items (s_db s) @ [i]\<rparr>"
    and i: "pi_ProjectID i = pc_ProjectID inp" "pi_OrgID i = org" "pi_Name i = trim_space (pc_Name inp)"
      "pi_WBSCode i = trim_space (pc_WBSCode inp)" "pi_EstimatedCostCents i = pc_EstimatedCostCents inp"
      "pi_EstimatedCostCurrencyCode i = pc_EstimatedCostCurrencyCode inp" "pi_LeadTimeDays i = pc_LeadTimeDays inp"
      "pi_WeatherBufferDays i = pc_WeatherBufferDays inp" "pi_Status i = ProcurementStatusOK"
      "pi_MustOrderDate i = None \<longleftrightarrow> pi_NeedByDate i = None"
    by (auto simp: tbind_Inr VerifyProjectInOrg_def select_all_Inr CreateProcurementItem_store_def insert_returning_Inr
        db_updates must_order_def)
  have "item_ok (db_projects (s_db s)) i"
    using check_item_Inr [OF assms] i new(1) by (simp add: item_ok_def IsValidProcurementStatus_def)
  then show "ws_le (s_db s) (s_db s')" unfolding new(3) by (intro item_insert_le new(2))
qed

lemma create_item_follows: "check_item org inp = Inr u \<Longrightarrow> tx_follows ws_le (create_item_body e org sub inp)"
  unfolding create_item_body_def by (intro ws.bind_pair item_insert_follows ws.bind follows)

lemma CreateProcurementItem_le: "ws_le d (snd (CreateProcurementItem e org sub inp d))"
proof (cases "check_item org inp")
  case (Inr u)
  from ws.commit [OF create_item_follows [OF this]] show ?thesis by (simp add: CreateProcurementItem_def Inr item_mapped_def)
qed (simp add: CreateProcurementItem_def ws.R_refl)

lemma item_edit_follows:
  assumes "check_item_update org inp = Inr u"
  shows "tx_follows ws_le (UpdateProcurementItem_store e org inp)"
proof -
  have status: "opt_ok IsValidProcurementStatus (pu_Status inp)" using assms by (auto simp: check_item_update_def ebind_elims)
  show ?thesis unfolding UpdateProcurementItem_store_def
  proof (rule ws.missing, rule tx_followsI, goal_cases)
    case (1 s i s')
    then have "s_db s' = s_db s\<lparr>db_items := update_where (\<lambda>i. pi_ID i = pu_ItemID inp \<and> pi_ProjectID i = pu_ProjectID inp \<and> pi_OrgID i = org)
        (edit_item e inp) (db_items (s_db s))\<rparr>"
      by (auto simp: update_returning_Inr db_updates)
    moreover have "item_ok ps (edit_item e inp i)" if "item_ok ps i" for ps i
      using that status by (cases "pu_Status inp") (auto simp: item_ok_def edit_item_def)
    ultimately show ?case by (simp add: items_update_le edit_item_def)
  qed
qed

lemma update_item_follows: "check_item_update org inp = Inr u \<Longrightarrow> tx_follows ws_le (update_item_body e org sub inp)"
  unfolding update_item_body_def by (intro ws.bind item_edit_follows follows)

lemma UpdateProcurementItem_le: "ws_le d (snd (UpdateProcurementItem e org sub inp d))"
proof (cases "check_item_update org inp")
  case (Inr u)
  from ws.commit [OF update_item_follows [OF this]] show ?thesis by (simp add: UpdateProcurementItem_def Inr item_mapped_def)
qed (simp add: UpdateProcurementItem_def ws.R_refl)

lemma recompute_follows: "tx_follows ws_le (RecomputeStatuses_store e now w)"
proof (rule tx_followsI)
  fix s :: "'x foresight_db_scheme session" and n s' assume "RecomputeStatuses_store e now w s = Inr (n, s')"
  then have s': "s_db s' = s_db s\<lparr>db_items := update_where (sweep_hits now w) (sweep_item e now w) (db_items (s_db s))\<rparr>"
    by (auto simp: RecomputeStatuses_store_def update_affected_Inr db_updates split: if_splits)
  have "item_ok ps (sweep_item e now w i)" if "item_ok ps i" for ps i
    using that by (simp add: item_ok_def sweep_item_def swept_status_def IsValidProcurementStatus_def)
  then show "ws_le (s_db s) (s_db s')" unfolding s' by (intro items_update_le) (simp_all add: sweep_item_def)
qed

lemma RecomputeStatuses_le: "ws_le d (snd (RecomputeStatuses e now d))"
  unfolding RecomputeStatuses_def by (intro ws.commit recompute_follows)

lemma rec_insert:
  assumes "CreateProcurementRecommendation e p s = Inr (r, s')" "i \<in> set (db_items (s_db s))"
    and "pi_ID i = rp_ProcurementItemID p" "pi_OrgID i = rp_OrgID p"
  shows "ws_le (s_db s) (s_db s')" "db_items (s_db s') = db_items (s_db s)"
proof -
  have s': "s_db s' = s_db s\<lparr>db_recs := db_recs (s_db s) @ [r]\<rparr>" and ok: "recommendation_ok p"
    and r: "pq_ProcurementItemID r = rp_ProcurementItemID p" "pq_OrgID r = rp_OrgID p" "pq_ConfidencePct r = rp_ConfidencePct p"
      "pq_PredictedSpendCents r = rp_PredictedSpendCents p"
    using assms(1) by (auto simp: CreateProcurementRecommendation_def insert_returning_Inr db_updates)
  have "rec_ok (db_items (s_db s)) r" using ok r assms(2-) by (auto simp: rec_ok_def recommendation_ok_def)
  then show "ws_le (s_db s) (s_db s')" "db_items (s_db s') = db_items (s_db s)" unfolding s' by (simp_all add: rec_insert_le)
qed

lemma store_recommendations_le:
  "store_recommendations e org run i rs s = Inr (recs, s') \<Longrightarrow> i \<in> set (db_items (s_db s)) \<Longrightarrow> pi_OrgID i = org \<Longrightarrow>
     ws_le (s_db s) (s_db s')"
proof (induction rs arbitrary: s recs)
  case (Cons r rs)
  from Cons.prems(1) obtain rec s1 recs' where
    1: "CreateProcurementRecommendation e (recommendation_params org run i r) s = Inr (rec, s1)"
    and 2: "store_recommendations e org run i rs s1 = Inr (recs', s')"
    by (auto simp: tbind_Inr)
  note n = rec_insert [OF 1 Cons.prems(2)]
  show ?case using ws.R_trans [OF n(1) Cons.IH [OF 2]] n(2) Cons.prems(2,3) by (simp add: recommendation_params_def)
qed (simp add: ws.R_refl)

lemma RecommendVendors_follows: "tx_follows ws_le (recommend_vendors_body e recommend run org sub itemID)"
proof (rule tx_followsI)
  fix s :: "'x foresight_db_scheme session" and recs s'
  assume "recommend_vendors_body e recommend run org sub itemID s = Inr (recs, s')"
  then obtain i rs s1 ent where i: "List.find (\<lambda>i. pi_ID i = itemID \<and> pi_OrgID i = org) (db_items (s_db s)) = Some i"
    and st: "store_recommendations e org run i rs s = Inr (recs, s1)" and rc: "Record e ent s1 = Inr ((), s')"
    by (auto simp: recommend_vendors_body_def tbind_Inr GetProcurementItem_def select_one_Inr)
  from store_recommendations_le [OF st] find_SomeD [OF i] have "ws_le (s_db s) (s_db s1)" by simp
  then show "ws_le (s_db s) (s_db s')" by (rule ws.R_trans) (rule tx_followsD [OF Record_follows rc])
qed

lemma RecommendVendors_le: "ws_le d (snd (RecommendVendors e ai run org sub itemID d))"
  by (auto simp: RecommendVendors_def item_mapped_def ws.R_refl split: option.splits
      intro!: ws.commit ws.bind RecommendVendors_follows follows)

lemma review_follows: "tx_follows ws_le (review_body e quoted org sub inp)"
  unfolding review_body_def GetProcurementItem_def by (intro ws.bind follows)

lemma RequestVendorReview_le: "ws_le d (snd (RequestVendorReview e quoted wired org sub inp d))"
  by (auto simp: RequestVendorReview_def item_mapped_def ws.R_refl split: sum.splits intro!: ws.commit review_follows)

section \<open>Foresight\<close>

text \<open>The other transactions that commit while the risks are applied are operations of the same services.\<close>

lemma apply_risks_follows:
  assumes "\<And>k d. ws_le d (others k d)"
  shows "tx_follows ws_le (apply_risks e others inp c k risks)"
proof (induction risks arbitrary: k)
  case (Cons r rs)
  show ?case
  proof (rule tx_followsI)
    fix s x s' assume run: "apply_risks e others inp c k (r # rs) s = Inr (x, s')"
    define skip where "skip = tbind (apply_risks e others inp c (Suc k) rs) (\<lambda>(created, skipped). tret (created, Suc skipped))"
    define go where "go fc = tbind (Record e (risk_entry inp c r fc)) (\<lambda>_.
        tbind (apply_risks e others inp c (Suc k) rs) (\<lambda>(created, skipped). tret (Suc created, skipped)))" for fc
    have skip: "tx_follows ws_le skip" unfolding skip_def by (intro ws.bind Cons.IH) (auto split: prod.splits intro: follows)
    have go: "tx_follows ws_le (go fc)" for fc
      unfolding go_def by (intro ws.bind Cons.IH follows) (auto split: prod.splits intro: follows)
    obtain carded s0 where has: "HasActiveRiskCard e (fi_ProjectID inp) (fr_RiskType r) (risk_subject r) s = Inr (carded, s0)"
      and rest: "(if carded then skip s0
         else case CreateFeedCard e (risk_card inp r) (s0\<lparr>s_db := others k (s_db s0)\<rparr>) of
          Inl err \<Rightarrow> if err = DuplicateActiveRiskCard then skip (s0\<lparr>s_db := others k (s_db s0), s_aborted := True\<rparr>) else Inl err
        | Inr (fc, s') \<Rightarrow> go fc s') = Inr (x, s')"
      using run
      unfolding apply_risks.simps tbind_Inr [of "HasActiveRiskCard e (fi_ProjectID inp) (fr_RiskType r) (risk_subject r)"]
        Let_def skip_def [symmetric] go_def [symmetric]
      by (elim exE conjE) (rule that)
    have "s0 = s" using has by (rule HasActive_reads)
    note cases = rest [unfolded this]
    have o: "ws_le (s_db s) (others k (s_db s))" by (rule assms)
    show "ws_le (s_db s) (s_db s')"
    proof (cases carded)
      case True
      with cases have "skip s = Inr (x, s')" by (simp only: if_True)
      from tx_followsD [OF skip this] show ?thesis .
    next
      case False
      show ?thesis
      proof (cases "CreateFeedCard e (risk_card inp r) (s\<lparr>s_db := others k (s_db s)\<rparr>)")
        case (Inl err)
        then have "skip (s\<lparr>s_db := others k (s_db s), s_aborted := True\<rparr>) = Inr (x, s')"
          using cases False by (simp split: if_splits)
        from tx_followsD [OF skip this] show ?thesis by (auto intro: ws.R_trans [OF o])
      next
        case (Inr ok)
        obtain fc s1 where ok: "ok = (fc, s1)" by fastforce
        have "go fc s1 = Inr (x, s')" using cases False Inr ok by simp
        from tx_followsD [OF go this] have 2: "ws_le (s_db s1) (s_db s')" .
        have 1: "ws_le (others k (s_db s)) (s_db s1)" using tx_followsD [OF CreateFeedCard_follows Inr [unfolded ok]] by simp
        show ?thesis by (rule ws.R_trans [OF o ws.R_trans [OF 1 2]])
      qed
    qed
  qed
qed (simp add: follows)

lemma fold_le: "(\<And>k d. ws_le d (others k d)) \<Longrightarrow> ws_le d (fold others ks d)"
  by (induction ks arbitrary: d) (auto intro: ws.R_refl ws.R_trans)

lemma ApplyForesight_le:
  assumes "\<And>k d. ws_le d (others k d)"
  shows "ws_le d (snd (ApplyForesight e others inp c risks d))"
proof -
  have "tx_follows ws_le (tbind (apply_risks e others inp c 0 risks) (\<lambda>(created, skipped).
         tret \<lparr>fq_Risks = length risks, fq_CardsCreated = created, fq_CardsSkipped = skipped\<rparr>))"
    by (intro ws.bind apply_risks_follows assms) (auto split: prod.splits intro: follows)
  from ws.commits [OF this] fold_le [OF assms] show ?thesis
    by (auto simp: ApplyForesight_def split: sum.splits prod.splits)
qed

lemma RunForesight_le: "ws_le d (snd (RunForesight r ai inp tuning d))"
  by (auto simp: RunForesight_def ws.R_refl Let_def split: sum.splits intro: ApplyForesight_le)

lemma sweep_page_le: "ws_le d (snd (sweep_page sp ps tot d))"
proof (induction ps arbitrary: tot d)
  case (Cons p ps)
  show ?case
  proof (cases "sp_config sp (pj_OrgID p)")
    case (Inr cfg)
    obtain enabled tuning where cfg: "cfg = (enabled, tuning)" by fastforce
    obtain res d' where run: "RunForesight (sp_run sp (pj_ID p)) (sp_ai sp (pj_OrgID p))
        \<lparr>fi_OrgID = pj_OrgID p, fi_ProjectID = pj_ID p\<rparr> tuning d = (res, d')" by fastforce
    have d': "ws_le d d'"
      using RunForesight_le [of d "sp_run sp (pj_ID p)" "sp_ai sp (pj_OrgID p)" "\<lparr>fi_OrgID = pj_OrgID p, fi_ProjectID = pj_ID p\<rparr>" tuning]
      by (simp add: run)
    show ?thesis
      using Inr cfg run by (cases enabled; cases res) (simp_all add: Cons.IH ws.R_trans [OF d' Cons.IH])
  qed (simp add: ws.R_refl)
qed (simp add: ws.R_refl)

lemma sweep_loop_le: "sweep_loop n sp u tot d = Some (r, d') \<Longrightarrow> ws_le d d'"
proof (induction n arbitrary: u tot d)
  case (Suc n)
  obtain res where page: "fst (BeginTxFunc (sp_page sp u) (ListActiveAcrossOrgsForSweep (sp_page sp u) foresightSweepPageSize u) d) = res"
    by blast
  show ?case
  proof (cases res)
    case (Inr ps)
    obtain res' d1 where run: "sweep_page sp ps tot d = (res', d1)" by fastforce
    have d1: "ws_le d d1" using sweep_page_le [of d sp ps tot] by (simp add: run)
    show ?thesis using Suc.prems page Inr run d1
      by (cases res') (auto intro: ws.R_refl ws.R_trans [OF d1 Suc.IH] split: if_splits)
  qed (use Suc.prems page in \<open>simp add: ws.R_refl\<close>)
qed simp

lemma RunForesightSweep_le: "RunForesightSweep n e now sp d = Some (r, d') \<Longrightarrow> ws_le d d'"
  using RecomputeStatuses_le [of d e now]
  by (auto simp: RunForesightSweep_def ws.R_refl split: prod.splits sum.splits intro: ws.R_trans sweep_loop_le)

section \<open>The machine\<close>

text \<open>One call of a service, with its own environment and input.\<close>

inductive workspace_op :: "foresight_db \<Rightarrow> foresight_db \<Rightarrow> bool" where
  dismissed: "workspace_op d (snd (DismissCard e org sub cardID d))"
| actioned: "workspace_op d (snd (ActionCard e org sub cardID act d))"
| item_created: "workspace_op d (snd (CreateProcurementItem e org sub new d))"
| item_updated: "workspace_op d (snd (UpdateProcurementItem e org sub upd d))"
| recomputed: "workspace_op d (snd (RecomputeStatuses e now d))"
| recommended: "workspace_op d (snd (RecommendVendors e ai run org sub itemID d))"
| review_requested: "workspace_op d (snd (RequestVendorReview e quoted wired org sub req d))"
| applied: "workspace_op d (snd (ApplyForesight e (\<lambda>_ d. d) inp c risks d))"
| assessed: "workspace_op d (snd (RunForesight r judge inp tuning d))"
| swept: "RunForesightSweep n e now sp d = Some (res, d') \<Longrightarrow> workspace_op d d'"

lemma workspace_op_le: "workspace_op d d' \<Longrightarrow> ws_le d d'"
  by (induction rule: workspace_op.induct)
    (auto intro: DismissCard_le ActionCard_le CreateProcurementItem_le UpdateProcurementItem_le RecomputeStatuses_le
      RecommendVendors_le RequestVendorReview_le ApplyForesight_le ws.R_refl RunForesight_le RunForesightSweep_le)

lemma workspace_reach_le: "workspace_op\<^sup>*\<^sup>* d d' \<Longrightarrow> ws_le d d'"
  by (induction rule: rtranclp_induct) (auto intro: ws.R_refl ws.R_trans workspace_op_le)

end
