(* ===== verification/Risk_Props.thy ===== *)
theory Risk_Props
  imports Risk_Cards Projects_Props
begin

text \<open>
  Properties of procurement, the feed and foresight: the status sweep, the invariant of the cards and items, the context
  foresight gives to its reasoner, the cards it creates from the answer, and the sweep over all projects.
\<close>

section \<open>The status sweep\<close>

definition dated_open :: "ProcurementItem \<Rightarrow> bool" where
  "dated_open i \<longleftrightarrow> pi_Status i \<noteq> ProcurementStatusOrdered \<and> pi_MustOrderDate i \<noteq> None"

lemma sweep_item_settled:
  assumes "dated_open i"
  shows "pi_Status (if sweep_hits now w i then sweep_item e now w i else i) = swept_status now w (the (pi_MustOrderDate i))"
  using assms by (auto simp: dated_open_def sweep_hits_def sweep_item_def)

lemma sweep_not_ordered: "swept_status now w m \<noteq> ProcurementStatusOrdered"
  by (simp add: swept_status_def procurement_statuses)

lemma sweep_twice: "\<not> sweep_hits now w (if sweep_hits now w i then sweep_item e now w i else i)"
  by (auto simp: sweep_hits_def sweep_item_def)

lemma RecomputeStatuses_Inr:
  assumes "RecomputeStatuses e now d = (Inr n, d')"
  shows "n = length (filter (sweep_hits now 7) (db_items d))"
    "d' = d\<lparr>db_items := update_where (sweep_hits now 7) (sweep_item e now 7) (db_items d)\<rparr>"
  using assms
  by (auto simp: RecomputeStatuses_def RecomputeStatuses_store_def DefaultProcurementWarningWindowDays_def BeginTxFunc_Inr
      update_affected_Inr db_updates)

lemma update_where_none: "(\<And>r. r \<in> set rows \<Longrightarrow> \<not> P r) \<Longrightarrow> update_where P f rows = rows"
  by (simp add: update_where_def map_idI)

text \<open>What a sweep on the day of \<open>now\<close> makes of an item.\<close>

definition swept :: "gotime \<Rightarrow> ProcurementItem \<Rightarrow> ProcurementItem \<Rightarrow> bool" where
  "swept now i i' \<longleftrightarrow> (if pi_Status i = ProcurementStatusOrdered \<or> pi_MustOrderDate i = None then i' = i
     else pi_Status i' = (case pi_MustOrderDate i of Some m \<Rightarrow>
         if m < to_date now then ''CRITICAL'' else if m < add_days (to_date now) 7 then ''WARNING'' else ''OK'') \<and>
       i' = i\<lparr>pi_Status := pi_Status i', pi_StatusChangedAt := pi_StatusChangedAt i', pi_UpdatedAt := pi_UpdatedAt i'\<rparr>)"

text \<open>
  The daily sweep leaves every item on the status its order date calls for: past it is CRITICAL, less than seven days
  ahead is WARNING, anything later is OK. Ordered items, undated items and all other fields of the database stay as they
  were, the returned number is that of the items whose status changed, and a second sweep on the same day changes nothing.
\<close>

theorem status_sweep_settles:
  assumes "RecomputeStatuses e now d = (Inr n, d')"
  shows "length (db_items d') = length (db_items d) \<and> d' = d\<lparr>db_items := db_items d'\<rparr> \<and>
    list_all2 (swept now) (db_items d) (db_items d') \<and>
    n = length (filter (\<lambda>(i, i'). pi_Status i \<noteq> pi_Status i') (zip (db_items d) (db_items d'))) \<and>
    (healthy e' \<longrightarrow> RecomputeStatuses e' now d' = (Inr 0, d'))"
proof -
  note n = RecomputeStatuses_Inr [OF assms]
  define g where "g = (\<lambda>i. if sweep_hits now 7 i then sweep_item e now 7 i else i)"
  have items: "db_items d' = List.map g (db_items d)" using n(2) by (simp add: update_where_def g_def)
  have zip: "zip (db_items d) (db_items d') = List.map (\<lambda>i. (i, g i)) (db_items d)"
    by (simp add: items zip_map2 zip_same_conv_map)
  have changed: "pi_Status i \<noteq> pi_Status (g i) \<longleftrightarrow> sweep_hits now 7 i" for i
    by (auto simp: g_def sweep_hits_def sweep_item_def)
  have "length (filter (\<lambda>(i, i'). pi_Status i \<noteq> pi_Status i') (zip (db_items d) (db_items d'))) = n"
    unfolding zip by (simp add: filter_map comp_def changed n(1))
  moreover have "RecomputeStatuses e' now d' = (Inr 0, d')" if "healthy e'"
  proof -
    have none: "\<not> sweep_hits now 7 i" if "i \<in> set (db_items d')" for i
      using that unfolding items g_def set_map by (elim imageE) (simp only: sweep_twice not_False_eq_True)
    then have "update_where (sweep_hits now 7) (sweep_item e' now 7) (db_items d') = db_items d'" by (intro update_where_none)
    moreover have "filter (sweep_hits now 7) (db_items d') = []" using none by (simp add: filter_empty_conv)
    ultimately show ?thesis using \<open>healthy e'\<close>
      by (simp add: RecomputeStatuses_def RecomputeStatuses_store_def DefaultProcurementWarningWindowDays_def BeginTxFunc_def
          healthy_def update_affected_def stmt_def db_updates Let_def)
  qed
  moreover have "swept now i (g i)" for i
    using sweep_item_settled [of i now 7 e]
    by (auto simp: swept_def g_def sweep_hits_def dated_open_def sweep_item_def swept_status_def procurement_statuses split: option.splits)
  then have "list_all2 (swept now) (db_items d) (db_items d')"
    by (simp add: items list_all2_map2 list.rel_refl)
  moreover have "length (db_items d') = length (db_items d)" by (simp add: items)
  moreover have "d' = d\<lparr>db_items := db_items d'\<rparr>" using n(2) by simp
  ultimately show ?thesis by blast
qed

section \<open>The workspace invariant\<close>

text \<open>
  C39. Whatever calls of the feed, procurement and foresight services follow one another, on whatever inputs and with whatever
  statements failing: at most one open card stands for a risk of a subject of a project; card and item ids are unique; every item
  has a known status, no negative amounts, a supported currency and a project of its organization; every stored
  recommendation has a confidence of 0 to 100 and belongs to an item of its organization. A card that was actioned or has
  expired never changes again, and the audit log only grows.
\<close>

theorem workspace_invariant:
  assumes "workspace_op\<^sup>*\<^sup>* d d'" "ws_ok d"
  shows "(\<forall>c\<in>set (db_cards d'). \<forall>c'\<in>set (db_cards d'). open_card c \<and> open_card c' \<and> fe_CardType c \<in> set risk_types \<and>
      fe_CardType c' = fe_CardType c \<and> fe_ProjectID c \<noteq> None \<and> fe_ProjectID c' = fe_ProjectID c \<and>
      fe_SubjectCode c' = fe_SubjectCode c \<longrightarrow> c' = c) \<and>
    distinct (List.map fe_ID (db_cards d')) \<and> distinct (List.map pi_ID (db_items d')) \<and>
    (\<forall>i\<in>set (db_items d'). IsValidProcurementStatus (pi_Status i) \<and> 0 \<le> pi_EstimatedCostCents i \<and>
       Validate (pi_EstimatedCostCurrencyCode i) = Inr () \<and> (\<exists>p\<in>set (db_projects d'). pj_ID p = pi_ProjectID i \<and> pj_OrgID p = pi_OrgID i)) \<and>
    (\<forall>r\<in>set (db_recs d'). 0 \<le> pq_ConfidencePct r \<and> pq_ConfidencePct r \<le> 100 \<and>
       (\<exists>i\<in>set (db_items d'). pi_ID i = pq_ProcurementItemID r \<and> pi_OrgID i = pq_OrgID r)) \<and>
    (\<forall>c\<in>set (db_cards d). \<not> open_card c \<longrightarrow> c \<in> set (db_cards d')) \<and> (\<exists>rows. db_audit d' = db_audit d @ rows)"
proof -
  have le: "ws_le d d'" by (rule workspace_reach_le [OF assms(1)])
  then have ok: "ws_ok d'" using assms(2) by (simp add: ws_le_def)
  then have idx: "dedup_index (db_cards d')" by (simp add: ws_ok_def)
  have one: "c' = c" if "c \<in> set (db_cards d')" "c' \<in> set (db_cards d')" "open_card c \<and> open_card c' \<and> fe_CardType c \<in> set risk_types \<and>
      fe_CardType c' = fe_CardType c \<and> fe_ProjectID c \<noteq> None \<and> fe_ProjectID c' = fe_ProjectID c \<and>
      fe_SubjectCode c' = fe_SubjectCode c" for c c'
  proof -
    have "dedup_key c \<noteq> None" "dedup_key c = dedup_key c'" using that(3) by (auto simp: dedup_key_def)
    then show ?thesis using idx that(1,2) unfolding dedup_index_def by metis
  qed
  show ?thesis
  proof (intro conjI)
    show "\<forall>c\<in>set (db_cards d'). \<forall>c'\<in>set (db_cards d'). open_card c \<and> open_card c' \<and> fe_CardType c \<in> set risk_types \<and>
      fe_CardType c' = fe_CardType c \<and> fe_ProjectID c \<noteq> None \<and> fe_ProjectID c' = fe_ProjectID c \<and>
      fe_SubjectCode c' = fe_SubjectCode c \<longrightarrow> c' = c"
      using one by blast
  qed (use ok le in \<open>auto simp: ws_ok_def ws_le_def item_ok_def rec_ok_def\<close>)
qed

section \<open>The context of a project\<close>

definition carded :: "FeedCard list \<Rightarrow> uuid \<Rightarrow> string \<Rightarrow> string \<Rightarrow> bool" where
  "carded cards pid t code \<longleftrightarrow> (\<exists>c\<in>set cards. fe_ProjectID c = Some pid \<and> fe_CardType c = t \<and> fe_SubjectCode c = code \<and> open_card c)"

lemma HasActive_Inr:
  "HasActiveRiskCard e pid t code s = Inr (b, s') \<longleftrightarrow>
     \<not> s_aborted s \<and> \<not> e_fail e ''has active risk card'' \<and> b = carded (db_cards (s_db s)) pid t code \<and> s' = s"
  by (auto simp: HasActiveRiskCard_def tbind_Inr select_all_Inr carded_def)

lemma load_metrics_Inr:
  "load_metrics e pid t code P metric rs s = Inr (ms, s') \<Longrightarrow>
     s' = s \<and> ms = List.map metric (filter (\<lambda>r. P r \<and> \<not> carded (db_cards (s_db s)) pid t (code r)) rs)"
proof (induction rs arbitrary: ms)
  case (Cons r rs)
  then show ?case by (cases "P r") (auto simp: tbind_Inr HasActive_Inr)
qed simp

lemma on_view_select_Inr: "on_view v (select_all e l q) s = Inr (rs, s') \<Longrightarrow> rs = q (v (s_db s)) \<and> s' = s"
  by (auto simp: on_view_def select_all_def stmt_def split: if_splits)

lemma load_body_Inr:
  assumes "load_body e now inp t s = Inr (fc, s')"
  defines "pid \<equiv> fi_ProjectID inp" and "cards \<equiv> db_cards (s_db s)"
  shows "(\<exists>p\<in>set (db_projects (s_db s)). pj_ID p = pid \<and> pj_OrgID p = fi_OrgID inp \<and> fk_ProjectName fc = pj_Name p) \<and>
    fk_Procurement fc = List.map (item_metric now) (filter (\<lambda>i. item_breached i \<and> \<not> carded cards pid ''procurement_criticality'' (pi_WBSCode i))
       (order_items (filter (\<lambda>i. pi_ProjectID i = pid \<and> pi_OrgID i = fi_OrgID inp) (db_items (s_db s))))) \<and>
    fk_Schedule fc = List.map task_metric (filter (\<lambda>r. task_breached t r \<and> \<not> carded cards pid ''schedule_slip'' (pt_WBSCode r))
       (tasks_of (schedule_view (s_db s)) pid)) \<and>
    fk_Budget fc = List.map budget_metric (filter (\<lambda>b. budget_breached t b \<and> \<not> carded cards pid ''budget_burn'' (pb_WBSCode b))
       (sort_key pb_WBSCode (filter (\<lambda>b. pb_ProjectID b = pid) (fx_budgets (s_db s)))))"
proof -
  from assms(1) obtain project items pm tasks sm budgets bm s1 s2 s3 s4 s5 s6 where
    p: "List.find (\<lambda>p. pj_ID p = pid \<and> pj_OrgID p = fi_OrgID inp) (db_projects (s_db s)) = Some project"
    and items: "items = order_items (filter (\<lambda>i. pi_ProjectID i = pid \<and> pi_OrgID i = fi_OrgID inp) (db_items (s_db s)))"
    and m1: "load_metrics e pid foresightCardProcurement pi_WBSCode item_breached (item_metric now) items s = Inr (pm, s2)"
    and v1: "on_view schedule_view (GetProjectTasks e pid) s2 = Inr (tasks, s3)"
    and m2: "load_metrics e pid foresightCardSchedule pt_WBSCode (task_breached t) task_metric tasks s3 = Inr (sm, s4)"
    and v2: "on_view money_view (ListProjectBudgets e pid) s4 = Inr (budgets, s5)"
    and m3: "load_metrics e pid foresightCardBudget pb_WBSCode (budget_breached t) budget_metric budgets s5 = Inr (bm, s6)"
    and fc: "fc = \<lparr>fk_ProjectName = pj_Name project, fk_Procurement = pm, fk_Schedule = sm, fk_Budget = bm\<rparr>"
    by (auto simp: load_body_def tbind_Inr VerifyProjectInOrg_def select_all_Inr GetByID_def select_one_Inr ListProcurementItems_def pid_def)
  note p = find_SomeD [OF p]
  note m1 = load_metrics_Inr [OF m1]
  note v1 = on_view_select_Inr [OF v1 [unfolded GetProjectTasks_def]]
  note m2 = load_metrics_Inr [OF m2]
  note v2 = on_view_select_Inr [OF v2 [unfolded ListProjectBudgets_def]]
  note m3 = load_metrics_Inr [OF m3]
  show ?thesis using p m1 v1 m2 v2 m3 unfolding fc items cards_def
    by (auto simp: foresight_cards money_view_def)
qed

text \<open>
  Foresight puts before its reasoner exactly the threshold-crossing rows of the project that no open card stands for, each
  with its numbers, in the order of the stores: the items the sweep marked WARNING or CRITICAL, the tasks that are critical and
  unfinished or within the float threshold, the budget lines burnt past the percentage. The project is one of the
  organization's, and there is a material signal just when one of the three lists is not empty.
\<close>

theorem foresight_context_exact:
  assumes "LoadForesightContext e now inp tuning d = Inr fc"
  shows "(\<exists>p\<in>set (db_projects d). pj_ID p = fi_ProjectID inp \<and> pj_OrgID p = fi_OrgID inp \<and> fk_ProjectName fc = pj_Name p) \<and>
    fk_Procurement fc = List.map (item_metric now)
       (filter (\<lambda>i. pi_Status i \<in> {''WARNING'', ''CRITICAL''} \<and> \<not> carded (db_cards d) (fi_ProjectID inp) ''procurement_criticality'' (pi_WBSCode i))
         (order_items (filter (\<lambda>i. pi_ProjectID i = fi_ProjectID inp \<and> pi_OrgID i = fi_OrgID inp) (db_items d)))) \<and>
    fk_Schedule fc = List.map task_metric
       (filter (\<lambda>t. (pt_IsCritical t \<and> pt_Status t \<noteq> ''completed'' \<and> pt_PercentComplete t < 100 \<or>
            max 0 (coalesce (pt_TotalFloat t) 0) \<le> ft_ScheduleFloatDays (tuning_WithDefaults tuning)) \<and>
            \<not> carded (db_cards d) (fi_ProjectID inp) ''schedule_slip'' (pt_WBSCode t))
         (tasks_of (schedule_view d) (fi_ProjectID inp))) \<and>
    fk_Budget fc = List.map budget_metric
       (filter (\<lambda>b. budget_breached (tuning_WithDefaults tuning) b \<and> \<not> carded (db_cards d) (fi_ProjectID inp) ''budget_burn'' (pb_WBSCode b))
         (sort_key pb_WBSCode (filter (\<lambda>b. pb_ProjectID b = fi_ProjectID inp) (fx_budgets d)))) \<and>
    (HasMaterialSignal fc \<longleftrightarrow> fk_Procurement fc \<noteq> [] \<or> fk_Schedule fc \<noteq> [] \<or> fk_Budget fc \<noteq> [])"
proof -
  from assms obtain s where l: "load_body e now inp (tuning_WithDefaults tuning) \<lparr>s_db = d, s_draws = 0, s_aborted = False\<rparr> = Inr (fc, s)"
    by (auto simp: LoadForesightContext_def item_mapped_def BeginTxFunc_def split: if_splits sum.splits)
  note b = load_body_Inr [OF l, simplified]
  have i: "item_breached i \<longleftrightarrow> pi_Status i \<in> {''WARNING'', ''CRITICAL''}" for i
    by (simp add: item_breached_def procurement_statuses)
  have t: "task_breached tun t \<longleftrightarrow> pt_IsCritical t \<and> pt_Status t \<noteq> ''completed'' \<and> pt_PercentComplete t < 100 \<or>
            max 0 (coalesce (pt_TotalFloat t) 0) \<le> ft_ScheduleFloatDays tun" for tun t
    by (auto simp: task_breached_def foresightRemainingFloatDays_def Let_def max_def)
  have "HasMaterialSignal fc \<longleftrightarrow> fk_Procurement fc \<noteq> [] \<or> fk_Schedule fc \<noteq> [] \<or> fk_Budget fc \<noteq> []"
  proof -
    have all: "list_ex P (List.map f xs) \<longleftrightarrow> List.map f xs \<noteq> []" if "\<And>x. P (f x)" for P and f :: "'r \<Rightarrow> 'm" and xs
      using that by (cases xs) auto
    show ?thesis unfolding HasMaterialSignal_def
      using b all [of mp_Breached "item_metric now"] all [of ms_Breached task_metric] all [of mb_Breached budget_metric]
      by (simp add: item_metric_def task_metric_def budget_metric_def)
  qed
  then show ?thesis using b unfolding i t by blast
qed

section \<open>Applying the answer\<close>

lemma apply_risks_aborted:
  assumes "s_aborted s"
  shows "apply_risks e others inp c k rs s = (if rs = [] then Inr ((0, 0), s) else Inl (DbError ''has active risk card''))"
  using assms by (cases rs) (simp_all add: tbind_def HasActiveRiskCard_def select_all_def stmt_def tret_def)

lemma carded_mono: "set cards \<subseteq> set cards' \<Longrightarrow> carded cards pid t code \<Longrightarrow> carded cards' pid t code"
  by (auto simp: carded_def)

lemma apply_step:
  assumes "apply_risks e (\<lambda>_ d. d) inp c k (r # rs) s = Inr (x, s')" "\<not> s_aborted s'"
  obtains (skip) created skipped where "carded (db_cards (s_db s)) (fi_ProjectID inp) (fr_RiskType r) (risk_subject r)"
      "apply_risks e (\<lambda>_ d. d) inp c (Suc k) rs s = Inr ((created, skipped), s')" "x = (created, Suc skipped)"
  | (card) fc s1 s2 created skipped where "CreateFeedCard e (risk_card inp r) s = Inr (fc, s1)"
      "Record e (risk_entry inp c r fc) s1 = Inr ((), s2)"
      "apply_risks e (\<lambda>_ d. d) inp c (Suc k) rs s2 = Inr ((created, skipped), s')" "x = (Suc created, skipped)"
proof -
  let ?skip = "tbind (apply_risks e (\<lambda>_ d. d) inp c (Suc k) rs) (\<lambda>(created, skipped). tret (created, Suc skipped))"
  from assms(1) have run: "(if carded (db_cards (s_db s)) (fi_ProjectID inp) (fr_RiskType r) (risk_subject r) then ?skip s
     else case CreateFeedCard e (risk_card inp r) s of
        Inl err \<Rightarrow> if err = DuplicateActiveRiskCard then ?skip (s\<lparr>s_db := s_db s, s_aborted := True\<rparr>) else Inl err
      | Inr (fc, s') \<Rightarrow>
          tbind (Record e (risk_entry inp c r fc)) (\<lambda>_.
          tbind (apply_risks e (\<lambda>_ d. d) inp c (Suc k) rs) (\<lambda>(created, skipped). tret (Suc created, skipped))) s') = Inr (x, s')"
    by (auto simp: tbind_Inr [of "HasActiveRiskCard e pid t code" for pid t code] HasActive_Inr)
  show thesis
  proof (cases "carded (db_cards (s_db s)) (fi_ProjectID inp) (fr_RiskType r) (risk_subject r)")
    case True
    with run have "?skip s = Inr (x, s')" by simp
    then show thesis using True by (auto simp: tbind_Inr intro: skip)
  next
    case False
    show thesis
    proof (cases "CreateFeedCard e (risk_card inp r) s")
      case (Inl err)
      with run False have "?skip (s\<lparr>s_aborted := True\<rparr>) = Inr (x, s')" by (simp split: if_splits)
      then have "s_aborted s'" by (auto simp: tbind_Inr apply_risks_aborted split: if_splits)
      then show thesis using assms(2) by simp
    next
      case (Inr ok)
      then show thesis using run False by (cases ok) (auto simp: tbind_Inr intro: card)
    qed
  qed
qed

lemma apply_risks_all:
  "apply_risks e (\<lambda>_ d. d) inp c k rs s = Inr ((created, skipped), s') \<Longrightarrow> \<not> s_aborted s' \<Longrightarrow>
     created + skipped = length rs \<and> (\<exists>new. db_cards (s_db s') = db_cards (s_db s) @ new \<and> length new = created) \<and>
     (\<forall>r\<in>set rs. carded (db_cards (s_db s')) (fi_ProjectID inp) (fr_RiskType r) (risk_subject r))"
proof (induction rs arbitrary: k s created skipped)
  case (Cons r rs)
  from Cons.prems show ?case
  proof (cases rule: apply_step)
    case (skip created' skipped')
    note IH = Cons.IH [OF skip(2) Cons.prems(2)]
    then obtain new where new: "db_cards (s_db s') = db_cards (s_db s) @ new" by blast
    have "carded (db_cards (s_db s')) (fi_ProjectID inp) (fr_RiskType r) (risk_subject r)"
      by (rule carded_mono [OF _ skip(1)]) (simp add: new)
    then show ?thesis using IH skip(3) by simp
  next
    case (card fc s1 s2 created' skipped')
    note fc = CreateFeedCard_Inr [OF card(1)]
    obtain rows where "s_db s2 = s_db s1\<lparr>db_audit := db_audit (s_db s1) @ rows\<rparr>" using Record_appends [OF card(2)] by blast
    then have cards: "db_cards (s_db s2) = db_cards (s_db s) @ [fc]" using fc(4) by simp
    note IH = Cons.IH [OF card(3) Cons.prems(2)]
    then obtain new where new: "db_cards (s_db s') = db_cards (s_db s2) @ new" "length new = created'" by blast
    have "carded [fc] (fi_ProjectID inp) (fr_RiskType r) (risk_subject r)"
      using fc(2) by (auto simp: carded_def new_card_def risk_card_def open_card_def dest: arg_cong [where f = fe_ProjectID]
          arg_cong [where f = fe_CardType] arg_cong [where f = fe_SubjectCode] arg_cong [where f = fe_Status])
    then have "carded (db_cards (s_db s')) (fi_ProjectID inp) (fr_RiskType r) (risk_subject r)"
      by (rule carded_mono [rotated]) (simp add: new cards)
    moreover have "\<exists>more. db_cards (s_db s') = db_cards (s_db s) @ more \<and> length more = Suc created'"
      by (rule exI [of _ "fc # new"]) (simp add: new cards)
    ultimately show ?thesis using IH card(4) by simp
  qed
qed (auto simp: tret_def)

text \<open>
  When the apply step succeeds, every risk of the answer has an open card for its subject, whether it was created now or
  was there before; the counts add up to the number of risks, one new card per created risk and no other change to the cards.
  So the next run puts none of these subjects before the reasoner again.
\<close>

theorem applied_risks_are_carded:
  assumes "ApplyForesight e (\<lambda>_ d. d) inp fc risks d = (Inr res, d')"
    and "LoadForesightContext e2 now inp tuning d' = Inr fc'"
  shows "fq_Risks res = length risks \<and> fq_CardsCreated res + fq_CardsSkipped res = length risks \<and>
    (\<exists>new. db_cards d' = db_cards d @ new \<and> length new = fq_CardsCreated res) \<and>
    (\<forall>r\<in>set risks. carded (db_cards d') (fi_ProjectID inp) (fr_RiskType r) (risk_subject r)) \<and>
    (\<forall>r\<in>set risks. \<forall>m\<in>set (fk_Procurement fc'). (fr_RiskType r, risk_subject r) \<noteq> (''procurement_criticality'', mp_WBS m)) \<and>
    (\<forall>r\<in>set risks. \<forall>m\<in>set (fk_Schedule fc'). (fr_RiskType r, risk_subject r) \<noteq> (''schedule_slip'', ms_WBS m)) \<and>
    (\<forall>r\<in>set risks. \<forall>m\<in>set (fk_Budget fc'). (fr_RiskType r, risk_subject r) \<noteq> (''budget_burn'', mb_WBS m))"
proof -
  from assms(1) obtain s created skipped where
    s: "apply_risks e (\<lambda>_ d. d) inp fc 0 risks \<lparr>s_db = d, s_draws = 0, s_aborted = False\<rparr> = Inr ((created, skipped), s)" "\<not> s_aborted s"
      "d' = s_db s" "res = \<lparr>fq_Risks = length risks, fq_CardsCreated = created, fq_CardsSkipped = skipped\<rparr>"
    by (auto simp: ApplyForesight_def BeginTxFunc_Inr tbind_Inr split: prod.splits sum.splits)
  note all = apply_risks_all [OF s(1,2)]
  have mem: "m \<in> f ` set (filter (\<lambda>x. P x \<and> \<not> carded (db_cards d') pid t (code x)) xs) \<Longrightarrow>
      \<exists>x. m = f x \<and> \<not> carded (db_cards d') pid t (code x)" for m and f :: "'r \<Rightarrow> 'm" and P pid t code xs
    by auto
  note ctx = load_body_Inr
  from assms(2) obtain s2 where l: "load_body e2 now inp (tuning_WithDefaults tuning) \<lparr>s_db = d', s_draws = 0, s_aborted = False\<rparr> = Inr (fc', s2)"
    by (auto simp: LoadForesightContext_def item_mapped_def BeginTxFunc_def split: if_splits sum.splits)
  note ctx = load_body_Inr [OF l, simplified]
  have fresh: "\<forall>m\<in>set (fk_Procurement fc'). \<not> carded (db_cards d') (fi_ProjectID inp) ''procurement_criticality'' (mp_WBS m)"
    "\<forall>m\<in>set (fk_Schedule fc'). \<not> carded (db_cards d') (fi_ProjectID inp) ''schedule_slip'' (ms_WBS m)"
    "\<forall>m\<in>set (fk_Budget fc'). \<not> carded (db_cards d') (fi_ProjectID inp) ''budget_burn'' (mb_WBS m)"
    using ctx by (auto simp: item_metric_def task_metric_def budget_metric_def)
  have "\<forall>r\<in>set risks. carded (db_cards d') (fi_ProjectID inp) (fr_RiskType r) (risk_subject r)" using all s(3) by simp
  with fresh have "\<forall>r\<in>set risks. \<forall>m\<in>set (fk_Procurement fc'). (fr_RiskType r, risk_subject r) \<noteq> (''procurement_criticality'', mp_WBS m)"
    "\<forall>r\<in>set risks. \<forall>m\<in>set (fk_Schedule fc'). (fr_RiskType r, risk_subject r) \<noteq> (''schedule_slip'', ms_WBS m)"
    "\<forall>r\<in>set risks. \<forall>m\<in>set (fk_Budget fc'). (fr_RiskType r, risk_subject r) \<noteq> (''budget_burn'', mb_WBS m)"
    by (metis prod.inject)+
  then show ?thesis using all s(3,4) by simp
qed

text \<open>
  A race the code means to survive: another transaction commits a card for the same risk of the same subject between the
  check and the insert. The insert then fails on the dedup index, which the code counts as a skip; but the failed statement has
  aborted the transaction, so the rest of the answer fails with it: the call returns an error, and of the whole answer no card
  and no audit row is kept.
\<close>

theorem duplicate_risk_loses_answer:
  assumes "healthy e" "fr_RiskType r \<in> set risk_types"
    and "\<not> carded (db_cards d) (fi_ProjectID inp) (fr_RiskType r) (risk_subject r)"
    and "carded (db_cards (others 0 d)) (fi_ProjectID inp) (fr_RiskType r) (risk_subject r)"
  shows "ApplyForesight e others inp fc (r # rs) d =
    (Inl (if rs = [] then CommitFailed else DbError ''has active risk card''), fold others [0..<length (r # rs)] d)"
proof -
  let ?s = "\<lparr>s_db = d, s_draws = 0, s_aborted = False\<rparr>"
  from assms(4) obtain c where c: "c \<in> set (db_cards (others 0 d))" "fe_ProjectID c = Some (fi_ProjectID inp)"
      "fe_CardType c = fr_RiskType r" "fe_SubjectCode c = risk_subject r" "open_card c"
    by (auto simp: carded_def)
  then have "dedup_key c = dedup_key (new_card e (risk_card inp r) (fe_ID c))" "dedup_key c \<noteq> None"
    using assms(2) by (auto simp: dedup_key_def new_card_def risk_card_def open_card_def)
  then have "dedup_clash e (risk_card inp r) (db_cards (others 0 d))" using c(1) unfolding dedup_clash_def by blast
  then have dup: "CreateFeedCard e (risk_card inp r) (?s\<lparr>s_db := others 0 d\<rparr>) = Inl DuplicateActiveRiskCard"
    using assms(1) by (simp add: CreateFeedCard_def stmt_def healthy_def)
  have has: "HasActiveRiskCard e (fi_ProjectID inp) (fr_RiskType r) (risk_subject r) ?s = Inr (False, ?s)"
    using assms(1,3) by (simp add: HasActive_Inr healthy_def)
  have "apply_risks e others inp fc 0 (r # rs) ?s =
      (if rs = [] then Inr ((0, 1), ?s\<lparr>s_db := others 0 d, s_aborted := True\<rparr>) else Inl (DbError ''has active risk card''))"
    using dup by (simp add: tbind_def [of "HasActiveRiskCard e pid t code" for pid t code] has Let_def)
      (simp add: tbind_def apply_risks_aborted tret_def)
  then show ?thesis using assms(1)
    by (simp add: ApplyForesight_def BeginTxFunc_def healthy_def tbind_def tret_def)
qed

section \<open>The cost gate\<close>

text \<open>
  The reasoner is asked only when there is something to judge: without a material signal the outcome of a run is the same for
  every reasoner, no result and an untouched database. With a signal, a reasoner that is not configured or finds no risk ends the
  run the same way, and only a failing call is an error.
\<close>

theorem foresight_cost_gate:
  assumes "LoadForesightContext (ru_load r) (ru_now r) inp tuning d = Inr fc"
  shows "(\<not> HasMaterialSignal fc \<longrightarrow> (\<forall>ai. RunForesight r ai inp tuning d = (Inr no_result, d))) \<and>
    (HasMaterialSignal fc \<longrightarrow> RunForesight r None inp tuning d = (Inr no_result, d) \<and>
       (\<forall>f. f fc = Unconfigured \<or> f fc = Risks [] \<longrightarrow> RunForesight r (Some f) inp tuning d = (Inr no_result, d)) \<and>
       (\<forall>f. f fc = AICallFails \<longrightarrow> RunForesight r (Some f) inp tuning d = (Inl AIFailed, d)) \<and>
       (\<forall>f risks. f fc = Risks risks \<longrightarrow> risks \<noteq> [] \<longrightarrow>
          RunForesight r (Some f) inp tuning d = ApplyForesight (ru_apply r) (\<lambda>_ d. d) inp fc risks d))"
  using assms by (auto simp: RunForesight_def JudgeRisks_def)

section \<open>The sweep over all projects\<close>

definition active_after :: "uuid \<Rightarrow> 'x core_db_scheme \<Rightarrow> Project list" where
  "active_after u d = filter (\<lambda>p. pj_Status p = ''active'' \<and> u < pj_ID p) (db_projects d)"

lemma filter_after_take:
  assumes "sorted (List.map f xs)" "distinct (List.map f xs)" "0 < k" "k \<le> length xs"
  shows "filter (\<lambda>x. f (last (take k xs)) < f x) xs = drop k xs"
proof -
  have ne: "take k xs \<noteq> []" using assms(3,4) by auto
  have st: "sorted_wrt (<) (List.map f (take k xs) @ List.map f (drop k xs))"
    using assms(1,2) by (simp add: strict_sorted_iff flip: map_append)
  have "f x \<le> f (last (take k xs))" if x: "x \<in> set (take k xs)" for x
  proof -
    have "sorted (List.map f (take k xs))" using assms(1) by (metis sorted_wrt_take take_map)
    then have "sorted (List.map f (butlast (take k xs) @ [last (take k xs)]))" using ne by simp
    moreover have "x \<in> set (butlast (take k xs) @ [last (take k xs)])" using x ne by simp
    ultimately show ?thesis by (auto simp: sorted_append simp del: append_butlast_last_id)
  qed
  then have "filter (\<lambda>x. f (last (take k xs)) < f x) (take k xs) = []" by (auto simp: filter_empty_conv leD)
  moreover have "filter (\<lambda>x. f (last (take k xs)) < f x) (drop k xs) = drop k xs"
    using st ne by (intro filter_True) (auto simp: sorted_wrt_append)
  ultimately show ?thesis by (metis append_take_drop_id filter_append append_Nil)
qed

lemma sweep_page_counts:
  assumes "\<And>org. \<exists>cfg. sp_config sp org = Inr cfg"
  shows "\<exists>tot' d'. sweep_page sp ps tot d = (Inr tot', d') \<and> sw_projects tot' = sw_projects tot + length ps"
proof (induction ps arbitrary: tot d)
  case (Cons p ps)
  obtain enabled tuning where cfg: "sp_config sp (pj_OrgID p) = Inr (enabled, tuning)" using assms by fastforce
  obtain res d' where run: "RunForesight (sp_run sp (pj_ID p)) (sp_ai sp (pj_OrgID p))
      \<lparr>fi_OrgID = pj_OrgID p, fi_ProjectID = pj_ID p\<rparr> tuning d = (res, d')" by fastforce
  show ?case
  proof (cases enabled)
    case True
    then show ?thesis
      using Cons.IH [of "tot\<lparr>sw_projects := Suc (sw_projects tot), sw_errors := Suc (sw_errors tot)\<rparr>" d']
        Cons.IH [of "tot\<lparr>sw_projects := Suc (sw_projects tot), sw_result := add_result (sw_result tot) r\<rparr>" d' for r]
      by (cases res) (auto simp: cfg run Let_def)
  next
    case False
    then show ?thesis
      using Cons.IH [of "tot\<lparr>sw_projects := Suc (sw_projects tot), sw_disabled := Suc (sw_disabled tot)\<rparr>" d]
      by (auto simp: cfg Let_def)
  qed
qed simp

lemma sweep_loop_counts:
  assumes cfg: "\<And>org. \<exists>cfg. sp_config sp org = Inr cfg" and page: "\<And>u. healthy (sp_page sp u)"
  shows "distinct (List.map pj_ID (db_projects d)) \<Longrightarrow> length (active_after u d) div 100 < n \<Longrightarrow>
    \<exists>tot' d'. sweep_loop n sp u tot d = Some (Inr tot', d') \<and> sw_projects tot' = sw_projects tot + length (active_after u d)"
proof (induction n arbitrary: u tot d)
  case (Suc n)
  define xs where "xs = sort_key pj_ID (active_after u d)"
  have len: "length xs = length (active_after u d)" by (simp add: xs_def)
  have pg: "fst (BeginTxFunc (sp_page sp u) (ListActiveAcrossOrgsForSweep (sp_page sp u) foresightSweepPageSize u) d) = Inr (take 100 xs)"
    using page [of u] by (simp add: BeginTxFunc_def ListActiveAcrossOrgsForSweep_def select_all_def stmt_def healthy_def
        foresightSweepPageSize_def xs_def active_after_def)
  obtain tot' d' where run: "sweep_page sp (take 100 xs) tot d = (Inr tot', d')"
    and tot': "sw_projects tot' = sw_projects tot + length (take 100 xs)" using sweep_page_counts [OF cfg] by blast
  show ?case
  proof (cases "length xs < 100")
    case True
    then show ?thesis using pg run tot' len by (auto simp: foresightSweepPageSize_def)
  next
    case False
    define u' where "u' = pj_ID (last (take 100 xs))"
    have same: "db_projects d' = db_projects d"
      using sweep_page_le [of d sp "take 100 xs" tot] by (simp add: run ws_le_def)
    have "distinct (List.map pj_ID (active_after u d))"
      using Suc.prems(1) by (simp add: active_after_def distinct_map_filter)
    then have dist: "distinct (List.map pj_ID xs)" by (simp add: xs_def distinct_map)
    have srt: "sorted (List.map pj_ID xs)" by (simp add: xs_def)
    have u: "u < u'"
    proof -
      have "last (take 100 xs) \<in> set xs" using False by (metis in_set_takeD last_in_set length_take min_0L list.size(3) not_less_zero
            length_greater_0_conv min_def take_eq_Nil zero_neq_numeral zero_less_numeral)
      then show ?thesis by (simp add: u'_def xs_def active_after_def)
    qed
    have "active_after u' d' = filter (\<lambda>p. u' < pj_ID p) (active_after u d)"
      using u by (auto simp: active_after_def same intro!: filter_cong)
    then have "length (active_after u' d') = length (filter (\<lambda>p. u' < pj_ID p) xs)"
      by (simp add: xs_def filter_sort)
    also have "\<dots> = length xs - 100" using filter_after_take [OF srt dist, of 100] False by (simp add: u'_def)
    finally have rest: "length (active_after u' d') = length xs - 100" .
    have "length (active_after u' d') div 100 < n" using Suc.prems(2) False by (simp add: rest len)
    from Suc.IH [OF _ this, of tot'] obtain t2 d2 where
      "sweep_loop n sp u' tot' d' = Some (Inr t2, d2)" "sw_projects t2 = sw_projects tot' + length (active_after u' d')"
      using Suc.prems(1) same by auto
    then show ?thesis using pg run tot' False rest len by (auto simp: foresightSweepPageSize_def u'_def)
  qed
qed simp

text \<open>
  The sweep ends and reaches the whole fleet: with one page of fuel more than there are full pages of active projects, when
  no statement of the listing and no lookup of a configuration fails, it returns, having visited every active project of every
  organization once, whatever the runs of the projects do, errors included.
\<close>

theorem sweep_visits_every_project:
  assumes "distinct (List.map pj_ID (db_projects d))" "healthy e"
    and "\<And>u. healthy (sp_page sp u)" "\<And>org. \<exists>cfg. sp_config sp org = Inr cfg"
    and "length (filter (\<lambda>p. pj_Status p = ''active'' \<and> pj_ID p \<noteq> uuid_nil) (db_projects d)) div 100 < n"
  shows "\<exists>tot d'. RunForesightSweep n e now sp d = Some (Inr tot, d') \<and>
    sw_projects tot = length (filter (\<lambda>p. pj_Status p = ''active'' \<and> pj_ID p \<noteq> uuid_nil) (db_projects d)) \<and>
    db_projects d' = db_projects d"
proof -
  have all: "active_after uuid_nil d = filter (\<lambda>p. pj_Status p = ''active'' \<and> pj_ID p \<noteq> uuid_nil) (db_projects d)"
    by (simp add: active_after_def uuid_nil_def)
  obtain k d1 where rec: "RecomputeStatuses e now d = (Inr k, d1)"
    using assms(2) by (simp add: RecomputeStatuses_def RecomputeStatuses_store_def DefaultProcurementWarningWindowDays_def BeginTxFunc_def
          healthy_def update_affected_def stmt_def Let_def)
  have same: "db_projects d1 = db_projects d" using RecomputeStatuses_le [of d e now] by (simp add: rec ws_le_def)
  then have act: "active_after uuid_nil d1 = active_after uuid_nil d" by (simp add: active_after_def)
  obtain tot d' where run: "sweep_loop n sp uuid_nil \<lparr>sw_projects = 0, sw_disabled = 0, sw_errors = 0, sw_result = no_result\<rparr> d1 = Some (Inr tot, d')"
    "sw_projects tot = length (active_after uuid_nil d)"
    using sweep_loop_counts [OF assms(4,3), of d1 uuid_nil n "\<lparr>sw_projects = 0, sw_disabled = 0, sw_errors = 0, sw_result = no_result\<rparr>"]
      assms(1,5) by (auto simp: same act all)
  have "db_projects d' = db_projects d1" using sweep_loop_le [OF run(1)] by (simp add: ws_le_def)
  then show ?thesis using rec run same by (simp add: RunForesightSweep_def all)
qed

section \<open>Samples\<close>

definition sample_item :: "uuid \<Rightarrow> string \<Rightarrow> int \<Rightarrow> ProcurementItem" where
  "sample_item k status days = \<lparr>pi_ID = k, pi_ProjectID = 2, pi_OrgID = 7, pi_Name = ''Trusses'', pi_WBSCode = ''8.1'',
     pi_EstimatedCostCents = 100, pi_EstimatedCostCurrencyCode = ''USD'', pi_LeadTimeDays = 14, pi_WeatherBufferDays = 0,
     pi_VendorID = None, pi_NeedByDate = Some (day24 * (days + 14)), pi_MustOrderDate = Some (day24 * days), pi_Status = status,
     pi_OrderedAt = None, pi_PONumber = None, pi_StatusChangedAt = 0, pi_CreatedAt = 0, pi_UpdatedAt = 0\<rparr>"

definition sample_workspace :: foresight_db where
  "sample_workspace = \<lparr>db_orgs = [7], db_projects = [sample_project 2], db_audit = [], db_jobs = [], db_cards = [],
     db_user_ids = [], db_items = [sample_item 3 ''WARNING'' (- 1), sample_item 4 ''OK'' 6, sample_item 5 ''OK'' 7], db_recs = [],
     fx_tasks = [], fx_deps = [], fx_budgets = []\<rparr>"

definition sample_risk :: ForesightRisk where
  "sample_risk = \<lparr>fr_RiskType = ''procurement_criticality'', fr_SubjectCode = ''8.1'', fr_Severity = ''high'', fr_Title = ''Order'',
     fr_Body = ''Late'', fr_RecommendedAction = ''Call''\<rparr>"

definition sample_input :: ForesightInput where
  "sample_input = \<lparr>fi_OrgID = 7, fi_ProjectID = 2\<rparr>"

lemma healthy_calm: "healthy calm_env"
  by (simp add: healthy_def calm_env_def)

theorem status_sweep_settles_witness:
  "fst (RecomputeStatuses calm_env 0 sample_workspace) = Inr 2 \<and>
   (let d' = snd (RecomputeStatuses calm_env 0 sample_workspace) in RecomputeStatuses calm_env 0 d' = (Inr 0, d'))"
proof -
  obtain n d' where run: "RecomputeStatuses calm_env 0 sample_workspace = (Inr n, d')"
    using healthy_calm by (simp add: RecomputeStatuses_def RecomputeStatuses_store_def DefaultProcurementWarningWindowDays_def BeginTxFunc_def
          healthy_def update_affected_def stmt_def Let_def)
  have "n = 2" using RecomputeStatuses_Inr(1) [OF run]
    by (simp add: sample_workspace_def sample_item_def sweep_hits_def swept_status_def procurement_statuses to_date_def add_days_def duration_units days_since_epoch_def)
  then show ?thesis using status_sweep_settles [OF run, of calm_env] run healthy_calm by (simp add: Let_def)
qed

lemma sample_workspace_ok: "ws_ok sample_workspace"
  by (simp add: ws_ok_def sample_workspace_def dedup_index_def item_ok_def sample_item_def sample_project_def
      IsValidProcurementStatus_def procurement_statuses Validate_def USD_def CAD_def)

lemma load_metrics_total: "healthy e \<Longrightarrow> \<not> s_aborted s \<Longrightarrow> \<exists>ms. load_metrics e pid t code P metric rs s = Inr (ms, s)"
proof (induction rs)
  case (Cons r rs)
  then show ?case
    by (auto simp: tbind_def HasActiveRiskCard_def select_all_def stmt_def healthy_def tret_def)
qed (simp add: tret_def)

lemma load_total:
  assumes "healthy e" "\<exists>p\<in>set (db_projects d). pj_ID p = fi_ProjectID inp \<and> pj_OrgID p = fi_OrgID inp"
  shows "\<exists>fc. LoadForesightContext e now inp tuning d = Inr fc"
proof -
  let ?s = "\<lparr>s_db = d, s_draws = 0, s_aborted = False\<rparr>"
  have e: "\<not> e_fail e l" "\<not> e_commit_fails e" for l using assms(1) by (simp_all add: healthy_def)
  obtain p where p: "List.find (\<lambda>p. pj_ID p = fi_ProjectID inp \<and> pj_OrgID p = fi_OrgID inp) (db_projects d) = Some p"
    using assms(2) find_None_all [of _ "db_projects d"] by (metis (mono_tags, lifting) not_None_eq)
  obtain pm where pm: "load_metrics e (fi_ProjectID inp) foresightCardProcurement pi_WBSCode item_breached (item_metric now)
      (order_items (filter (\<lambda>i. pi_ProjectID i = fi_ProjectID inp \<and> pi_OrgID i = fi_OrgID inp) (db_items d))) ?s = Inr (pm, ?s)"
    using load_metrics_total [OF assms(1), of ?s] by fastforce
  obtain sm where sm: "load_metrics e (fi_ProjectID inp) foresightCardSchedule pt_WBSCode (task_breached (tuning_WithDefaults tuning)) task_metric
      (tasks_of (schedule_view d) (fi_ProjectID inp)) ?s = Inr (sm, ?s)"
    using load_metrics_total [OF assms(1), of ?s] by fastforce
  obtain bm where bm: "load_metrics e (fi_ProjectID inp) foresightCardBudget pb_WBSCode (budget_breached (tuning_WithDefaults tuning)) budget_metric
      (sort_key pb_WBSCode (filter (\<lambda>b. pb_ProjectID b = fi_ProjectID inp) (fx_budgets d))) ?s = Inr (bm, ?s)"
    using load_metrics_total [OF assms(1), of ?s] by fastforce
  have "load_body e now inp (tuning_WithDefaults tuning) ?s =
      Inr (\<lparr>fk_ProjectName = pj_Name p, fk_Procurement = pm, fk_Schedule = sm, fk_Budget = bm\<rparr>, ?s)"
    using assms(2) p pm sm bm e
    by (simp add: load_body_def tbind_def VerifyProjectInOrg_def GetByID_def select_all_def select_one_def stmt_def tguard_def
        ListProcurementItems_def on_view_def GetProjectTasks_def ListProjectBudgets_def money_view_def tret_def)
  then show ?thesis using e by (simp add: LoadForesightContext_def item_mapped_def BeginTxFunc_def)
qed

lemma sample_context_total: "\<exists>fc. LoadForesightContext calm_env now sample_input tuning sample_workspace = Inr fc"
  by (rule load_total [OF healthy_calm]) (simp add: sample_input_def sample_workspace_def sample_project_def)

theorem foresight_context_exact_witness:
  "\<exists>fc. LoadForesightContext calm_env 0 sample_input DefaultForesightTuning sample_workspace = Inr fc \<and>
     ''8.1'' \<in> mp_WBS ` set (fk_Procurement fc) \<and> HasMaterialSignal fc"
proof -
  obtain fc where fc: "LoadForesightContext calm_env 0 sample_input DefaultForesightTuning sample_workspace = Inr fc"
    using sample_context_total by blast
  have set: "set (order_items xs) = set xs" for xs by (simp add: order_items_def order_desc_def)
  have "sample_item 3 ''WARNING'' (- 1) \<in> set (filter (\<lambda>i. pi_Status i \<in> {''WARNING'', ''CRITICAL''} \<and>
      \<not> carded (db_cards sample_workspace) (fi_ProjectID sample_input) ''procurement_criticality'' (pi_WBSCode i))
     (order_items (filter (\<lambda>i. pi_ProjectID i = fi_ProjectID sample_input \<and> pi_OrgID i = fi_OrgID sample_input) (db_items sample_workspace))))"
    by (simp add: set sample_workspace_def sample_item_def sample_input_def carded_def)
  then have mem: "item_metric 0 (sample_item 3 ''WARNING'' (- 1)) \<in> set (fk_Procurement fc)"
    using foresight_context_exact [OF fc] by (simp only: set_map image_eqI)
  then have "fk_Procurement fc \<noteq> []" by auto
  then have "HasMaterialSignal fc"
    by (rule iffD2 [OF foresight_context_exact [OF fc, THEN conjunct2, THEN conjunct2, THEN conjunct2, THEN conjunct2], OF disjI1])
  moreover have "mp_WBS (item_metric 0 (sample_item 3 ''WARNING'' (- 1))) = ''8.1''"
    by (simp add: item_metric_def sample_item_def)
  ultimately show ?thesis using fc mem by (metis imageI)
qed

theorem foresight_cost_gate_witness:
  "RunForesight \<lparr>ru_load = calm_env, ru_apply = calm_env, ru_now = 0\<rparr> None sample_input DefaultForesightTuning sample_workspace =
     (Inr no_result, sample_workspace)"
proof -
  obtain fc where fc: "LoadForesightContext calm_env 0 sample_input DefaultForesightTuning sample_workspace = Inr fc"
    using sample_context_total by blast
  show ?thesis
    using foresight_cost_gate [of "\<lparr>ru_load = calm_env, ru_apply = calm_env, ru_now = 0\<rparr>" sample_input DefaultForesightTuning sample_workspace fc] fc
    by (cases "HasMaterialSignal fc") simp_all
qed

definition sample_foresight :: ForesightContext where
  "sample_foresight = \<lparr>fk_ProjectName = ''A'', fk_Procurement = [], fk_Schedule = [], fk_Budget = []\<rparr>"

definition sample_card :: FeedCard where
  "sample_card = new_card calm_env (risk_card sample_input sample_risk) 1"

definition sample_applied :: "(svc_error + ForesightResult) \<times> foresight_db" where
  "sample_applied = ApplyForesight calm_env (\<lambda>_ d. d) sample_input sample_foresight [sample_risk, sample_risk] sample_workspace"

lemma sample_card_created:
  "CreateFeedCard calm_env (risk_card sample_input sample_risk) \<lparr>s_db = sample_workspace, s_draws = 0, s_aborted = False\<rparr> =
     Inr (sample_card, \<lparr>s_db = sample_workspace\<lparr>db_cards := [sample_card]\<rparr>, s_draws = 1, s_aborted = False\<rparr>)"
  by (simp add: CreateFeedCard_def insert_returning_def stmt_def calm_env_def sample_card_def risk_card_def sample_input_def
      sample_workspace_def dedup_clash_def sample_project_def new_card_def Let_def sample_risk_def risk_subject_def)

lemma sample_carded: "carded [sample_card] 2 ''procurement_criticality'' ''8.1''"
  by (simp add: carded_def sample_card_def new_card_def risk_card_def sample_input_def sample_risk_def risk_subject_def open_card_def)

lemma sample_applied_Inr: "\<exists>d'. sample_applied = (Inr \<lparr>fq_Risks = 2, fq_CardsCreated = 1, fq_CardsSkipped = 1\<rparr>, d') \<and> db_projects d' = [sample_project 2]"
proof -
  let ?s = "\<lparr>s_db = sample_workspace, s_draws = 0, s_aborted = False\<rparr>"
  let ?s1 = "\<lparr>s_db = sample_workspace\<lparr>db_cards := [sample_card]\<rparr>, s_draws = 1, s_aborted = False\<rparr>"
  obtain rows n where rec: "Record calm_env (risk_entry sample_input sample_foresight sample_risk sample_card) ?s1 =
      Inr ((), ?s1\<lparr>s_db := s_db ?s1\<lparr>db_audit := db_audit (s_db ?s1) @ rows\<rparr>, s_draws := n\<rparr>)"
    using Record_calm [of ?s1 calm_env "risk_entry sample_input sample_foresight sample_risk sample_card"]
    by (auto simp: calm_env_def risk_entry_def sample_input_def sample_workspace_def)
  have has: "HasActiveRiskCard calm_env 2 ''procurement_criticality'' ''8.1'' s = Inr (carded (db_cards (s_db s)) 2 ''procurement_criticality'' ''8.1'', s)"
    if "\<not> s_aborted s" for s :: "foresight_db session"
    using that healthy_calm by (simp add: HasActive_Inr healthy_def)
  have none: "\<not> carded (db_cards sample_workspace) 2 ''procurement_criticality'' ''8.1''"
    by (simp add: carded_def sample_workspace_def)
  have r: "fr_RiskType sample_risk = ''procurement_criticality''" "risk_subject sample_risk = ''8.1''" "fi_ProjectID sample_input = 2"
    by (simp_all add: sample_risk_def risk_subject_def sample_input_def)
  show ?thesis
    using rec sample_card_created sample_carded none healthy_calm
    by (simp add: sample_applied_def ApplyForesight_def BeginTxFunc_def tbind_def has r healthy_def Let_def tret_def)
      (simp add: sample_workspace_def)
qed

theorem applied_risks_are_carded_witness:
  "\<exists>d' fc'. sample_applied = (Inr \<lparr>fq_Risks = 2, fq_CardsCreated = 1, fq_CardsSkipped = 1\<rparr>, d') \<and>
     LoadForesightContext calm_env 0 sample_input DefaultForesightTuning d' = Inr fc' \<and>
     (\<forall>m\<in>set (fk_Procurement fc'). mp_WBS m \<noteq> ''8.1'')"
proof -
  obtain d' where d': "sample_applied = (Inr \<lparr>fq_Risks = 2, fq_CardsCreated = 1, fq_CardsSkipped = 1\<rparr>, d')"
      "db_projects d' = [sample_project 2]"
    using sample_applied_Inr by blast
  obtain fc' where fc': "LoadForesightContext calm_env 0 sample_input DefaultForesightTuning d' = Inr fc'"
    using load_total [OF healthy_calm, of d' sample_input] d'(2) by (auto simp: sample_input_def sample_project_def)
  have r: "fr_RiskType sample_risk = ''procurement_criticality''" "risk_subject sample_risk = ''8.1''"
    by (simp_all add: sample_risk_def risk_subject_def)
  have "\<forall>m\<in>set (fk_Procurement fc'). mp_WBS m \<noteq> ''8.1''"
    using applied_risks_are_carded [OF d'(1) [unfolded sample_applied_def] fc'] by (simp add: r) metis
  with d'(1) fc' show ?thesis by blast
qed

text \<open>Another run's card, committed between the check and the insert.\<close>

definition rival :: "nat \<Rightarrow> foresight_db \<Rightarrow> foresight_db" where
  "rival k d = d\<lparr>db_cards := db_cards d @ [sample_card]\<rparr>"

theorem duplicate_risk_loses_answer_witness:
  "ApplyForesight calm_env rival sample_input sample_foresight [sample_risk] sample_workspace =
     (Inl CommitFailed, sample_workspace\<lparr>db_cards := [sample_card]\<rparr>)"
proof -
  have r: "fr_RiskType sample_risk = ''procurement_criticality''" "risk_subject sample_risk = ''8.1''" "fi_ProjectID sample_input = 2"
    by (simp_all add: sample_risk_def risk_subject_def sample_input_def)
  have d: "db_cards sample_workspace = []" by (simp add: sample_workspace_def)
  show ?thesis
    using duplicate_risk_loses_answer [OF healthy_calm, of sample_risk sample_workspace sample_input rival sample_foresight "[]"] sample_carded
    by (simp add: r d rival_def risk_types_def carded_def)
qed

theorem workspace_invariant_witness:
  "length (db_cards (snd sample_applied)) = 1 \<and> distinct (List.map fe_ID (db_cards (snd sample_applied))) \<and>
   list_all (\<lambda>i. 0 \<le> pi_EstimatedCostCents i) (db_items (snd sample_applied))"
proof -
  have "workspace_op sample_workspace (snd sample_applied)" unfolding sample_applied_def by (rule workspace_op.applied)
  then have "workspace_op\<^sup>*\<^sup>* sample_workspace (snd sample_applied)" by (rule r_into_rtranclp)
  note inv = workspace_invariant [OF this sample_workspace_ok]
  obtain d' where d': "sample_applied = (Inr \<lparr>fq_Risks = 2, fq_CardsCreated = 1, fq_CardsSkipped = 1\<rparr>, d')"
    using sample_applied_Inr by blast
  have "length (db_cards d') = 1"
  proof -
    obtain s created skipped where "apply_risks calm_env (\<lambda>_ d. d) sample_input sample_foresight 0 [sample_risk, sample_risk]
        \<lparr>s_db = sample_workspace, s_draws = 0, s_aborted = False\<rparr> = Inr ((created, skipped), s)" "\<not> s_aborted s" "d' = s_db s" "created = 1"
      using d' by (auto simp: sample_applied_def ApplyForesight_def BeginTxFunc_Inr tbind_Inr split: prod.splits sum.splits)
    from apply_risks_all [OF this(1,2)] this(3,4) show ?thesis by (auto simp: sample_workspace_def)
  qed
  moreover have "snd sample_applied = d'" by (simp only: d' snd_conv)
  ultimately show ?thesis using inv unfolding list_all_iff by (simp only: simp_thms) blast
qed

definition sample_sweep :: sweep_params where
  "sample_sweep = \<lparr>sp_config = (\<lambda>_. Inr (True, DefaultForesightTuning)), sp_ai = (\<lambda>_. None),
     sp_run = (\<lambda>_. \<lparr>ru_load = calm_env, ru_apply = calm_env, ru_now = 0\<rparr>), sp_page = (\<lambda>_. calm_env)\<rparr>"

theorem sweep_visits_every_project_witness:
  "\<exists>tot d'. RunForesightSweep 1 calm_env 0 sample_sweep sample_workspace = Some (Inr tot, d') \<and> sw_projects tot = 1"
proof -
  have p: "db_projects sample_workspace = [sample_project 2]" by (simp add: sample_workspace_def)
  have one: "filter (\<lambda>p. pj_Status p = ''active'' \<and> pj_ID p \<noteq> uuid_nil) [sample_project 2] = [sample_project 2]"
    by (simp add: sample_project_def uuid_nil_def)
  have sp: "sp_page sample_sweep u = calm_env" "sp_config sample_sweep org = Inr (True, DefaultForesightTuning)" for u org
    by (simp_all add: sample_sweep_def)
  from sweep_visits_every_project [of sample_workspace calm_env sample_sweep 1 0, unfolded p one sp] healthy_calm
  obtain tot d' where "RunForesightSweep 1 calm_env 0 sample_sweep sample_workspace = Some (Inr tot, d')" "sw_projects tot = length [sample_project 2]"
    by fastforce
  then show ?thesis by auto
qed

end
