(* ===== verification/Site_Db.thy ===== *)
theory Site_Db
  imports Risk_Cards Bytes
begin

text \<open>
  The job site: the rows of internal/models/fleet.go, field.go, asset.go, client_update.go and share_link.go in one
  database with the tables of the office, and what the services of the site share.
\<close>

section \<open>Rows\<close>

record FleetAsset =
  fl_ID :: uuid
  fl_OrgID :: uuid
  fl_Name :: string
  fl_AssetType :: string
  fl_SerialNumber :: "string option"
  fl_Status :: string
  fl_CreatedAt :: gotime

record EquipmentAllocation =
  ea_ID :: uuid
  ea_AssetID :: uuid
  ea_ProjectID :: uuid
  ea_StartDate :: gotime
  ea_EndDate :: gotime
  ea_CreatedAt :: gotime

text \<open>A coordinate is the rational a \<open>float64\<close> stands for.\<close>

record TaskProgress =
  tk_ID :: uuid
  tk_TaskID :: uuid
  tk_ReportedBy :: uuid
  tk_PercentComplete :: int
  tk_Notes :: "string option"
  tk_PhotoAssetID :: "uuid option"
  tk_GPSLat :: "f64 option"
  tk_GPSLng :: "f64 option"
  tk_ReportedVia :: string
  tk_IdempotencyKey :: uuid
  tk_ReportedAt :: gotime

record CrewCheckin =
  ch_ID :: uuid
  ch_OrgID :: uuid
  ch_ProjectID :: uuid
  ch_ReportedBy :: uuid
  ch_CrewMembers :: json
  ch_GPSLat :: "f64 option"
  ch_GPSLng :: "f64 option"
  ch_Notes :: "string option"
  ch_IdempotencyKey :: uuid
  ch_ReportedAt :: gotime

record DailyLog =
  dl_ID :: uuid
  dl_OrgID :: uuid
  dl_ProjectID :: uuid
  dl_ReportedBy :: uuid
  dl_LogDate :: gotime
  dl_WeatherConditions :: "string option"
  dl_WorkSummary :: string
  dl_SafetyIncidents :: "string option"
  dl_PhotoAssetIDs :: "uuid list"
  dl_IdempotencyKey :: uuid
  dl_ReportedAt :: gotime

record Asset =
  at_ID :: uuid
  at_OrgID :: uuid
  at_ProjectID :: "uuid option"
  at_StorageKey :: string
  at_ContentType :: string
  at_SizeBytes :: int
  at_Status :: string
  at_UploadedBy :: string
  at_ChecksumSHA256 :: "string option"
  at_CreatedAt :: gotime
  at_ConfirmedAt :: "gotime option"

record ClientUpdate =
  hu_ID :: uuid
  hu_OrgID :: uuid
  hu_ProjectID :: uuid
  hu_PeriodStart :: gotime
  hu_PeriodEnd :: gotime
  hu_Status :: string
  hu_AIDraft :: "string option"
  hu_EditedBody :: string
  hu_Subject :: string
  hu_PhotoAssetIDs :: "uuid list"
  hu_RecipientEmail :: "string option"
  hu_CreatedBy :: uuid
  hu_SentBy :: "uuid option"
  hu_SentAt :: "gotime option"
  hu_SendError :: "string option"
  hu_CreatedAt :: gotime
  hu_UpdatedAt :: gotime

record ShareLink =
  sl_ID :: uuid
  sl_OrgID :: uuid
  sl_ClientUpdateID :: uuid
  sl_TokenHash :: string
  sl_ExpiresAt :: gotime
  sl_RevokedAt :: "gotime option"
  sl_CreatedBy :: uuid
  sl_LastViewedAt :: "gotime option"
  sl_ViewCount :: int
  sl_CreatedAt :: gotime

text \<open>\<open>st_members\<close> is the table of users by id and organization.\<close>

record site_db = foresight_db +
  st_members :: "(uuid \<times> uuid) list"
  st_fleet :: "FleetAsset list"
  st_allocs :: "EquipmentAllocation list"
  st_progress :: "TaskProgress list"
  st_checkins :: "CrewCheckin list"
  st_logs :: "DailyLog list"
  st_assets :: "Asset list"
  st_updates :: "ClientUpdate list"
  st_links :: "ShareLink list"

section \<open>Statuses\<close>

definition FleetAssetStatusAvailable :: string where "FleetAssetStatusAvailable = ''available''"
definition FleetAssetStatusUnavailable :: string where "FleetAssetStatusUnavailable = ''unavailable''"
definition FleetAssetStatusMaintenance :: string where "FleetAssetStatusMaintenance = ''maintenance''"

definition IsValidFleetAssetStatus :: "string \<Rightarrow> bool" where
  "IsValidFleetAssetStatus s \<longleftrightarrow> s \<in> {FleetAssetStatusAvailable, FleetAssetStatusUnavailable, FleetAssetStatusMaintenance}"

definition ReportedViaMobile :: string where "ReportedViaMobile = ''mobile''"

definition AssetStatusPending :: string where "AssetStatusPending = ''pending''"
definition AssetStatusReady :: string where "AssetStatusReady = ''ready''"
definition AssetStatusFailed :: string where "AssetStatusFailed = ''failed''"

definition ClientUpdateStatusDraft :: string where "ClientUpdateStatusDraft = ''draft''"
definition ClientUpdateStatusSent :: string where "ClientUpdateStatusSent = ''sent''"
definition ClientUpdateStatusFailed :: string where "ClientUpdateStatusFailed = ''failed''"

lemmas update_statuses = ClientUpdateStatusDraft_def ClientUpdateStatusSent_def ClientUpdateStatusFailed_def
lemmas asset_statuses = AssetStatusPending_def AssetStatusReady_def AssetStatusFailed_def

section \<open>Shared operations\<close>

text \<open>The caller's token names its subject; \<open>parse\<close> is \<open>uuid.Parse\<close>.\<close>

definition LookupUserIDBySubject :: "(string \<Rightarrow> uuid option) \<Rightarrow> env \<Rightarrow> string \<Rightarrow> uuid \<Rightarrow> ('x site_db_scheme, uuid) tx" where
  "LookupUserIDBySubject parse e subject orgID = (case parse subject of
     None \<Rightarrow> tfail StoreNotFound
   | Some sid \<Rightarrow> tbind (select_one e ''lookup user_id by subject'' st_members (\<lambda>m. m = (sid, orgID))) (\<lambda>m. tret (fst m)))"

text \<open>The store answers any violated unique constraint with one error of its own.\<close>

definition tconflict :: "svc_error \<Rightarrow> ('d, 'a) tx \<Rightarrow> ('d, 'a) tx" where
  "tconflict err m s = map_err (\<lambda>e. case e of UniqueViolation c \<Rightarrow> err | _ \<Rightarrow> e) (m s)"

lemma tconflict_Inr [simp]: "tconflict err m s = Inr r \<longleftrightarrow> m s = Inr r"
  by (simp add: tconflict_def)

text \<open>What the site's services do with \<open>store.ErrNotFound\<close>; every other error keeps its meaning.\<close>

definition mapReportError :: "svc_error \<Rightarrow> svc_error" where
  "mapReportError e = (if e = StoreNotFound then NotFound else e)"

definition reported :: "(svc_error + 'a) \<times> 'd \<Rightarrow> (svc_error + 'a) \<times> 'd" where
  "reported rd = (map_err mapReportError (fst rd), snd rd)"

lemma reported_Inr: "reported rd = (Inr x, d) \<longleftrightarrow> rd = (Inr x, d)"
  by (cases rd) (simp add: reported_def)

lemma snd_reported [simp]: "snd (reported rd) = snd rd"
  by (simp add: reported_def)

lemma reported_rollback: "reported (BeginTxFunc e f d) = (Inl err, d') \<Longrightarrow> d' = d"
  by (auto simp: reported_def BeginTxFunc_def map_err_Inl split: sum.splits if_splits)

text \<open>\<open>dedupeUUIDs\<close>: the distinct ids that are not nil, in input order.\<close>

fun dedupe_loop :: "uuid list \<Rightarrow> uuid list \<Rightarrow> uuid list \<Rightarrow> uuid list" where
  "dedupe_loop seen out [] = out"
| "dedupe_loop seen out (u # us) =
     (if u = uuid_nil \<or> u \<in> set seen then dedupe_loop seen out us else dedupe_loop (u # seen) (out @ [u]) us)"

definition dedupeUUIDs :: "uuid list \<Rightarrow> uuid list" where
  "dedupeUUIDs ids = dedupe_loop [] [] ids"

text \<open>The first occurrences of a list: what \<open>GROUP BY u ... MIN(ord)\<close> keeps.\<close>

definition first_seen :: "'a list \<Rightarrow> 'a list" where
  "first_seen xs = rev (remdups (rev xs))"

lemma first_seen_set [simp]: "set (first_seen xs) = set xs"
  by (simp add: first_seen_def)

lemma first_seen_distinct [simp]: "distinct (first_seen xs)"
  by (simp add: first_seen_def)

lemma first_seen_snoc: "first_seen (xs @ [x]) = (if x \<in> set xs then first_seen xs else first_seen xs @ [x])"
  by (simp add: first_seen_def)

lemma dedupe_loop_eq:
  "set seen = set xs \<Longrightarrow> out = first_seen xs \<Longrightarrow>
     dedupe_loop seen out us = first_seen (xs @ filter (\<lambda>u. u \<noteq> uuid_nil) us)"
proof (induction us arbitrary: seen out xs)
  case (Cons u us)
  show ?case
  proof (cases "u = uuid_nil \<or> u \<in> set seen")
    case True
    have "first_seen ((xs @ [u]) @ ys) = first_seen (xs @ ys)" if "u \<in> set xs" for ys
      using that by (induction ys rule: rev_induct) (simp_all add: first_seen_snoc flip: append_assoc)
    with True Cons.IH [OF Cons.prems] Cons.prems show ?thesis by auto
  next
    case False
    then show ?thesis using Cons.prems Cons.IH [of "u # seen" "xs @ [u]" "out @ [u]"] by (simp add: first_seen_snoc)
  qed
qed simp

lemma dedupeUUIDs_eq: "dedupeUUIDs ids = first_seen (filter (\<lambda>u. u \<noteq> uuid_nil) ids)"
  using dedupe_loop_eq [of "[]" "[]" "[]" ids] by (simp add: dedupeUUIDs_def first_seen_def)

lemma set_dedupeUUIDs [simp]: "set (dedupeUUIDs ids) = set ids - {uuid_nil}"
  by (auto simp: dedupeUUIDs_eq)

lemma distinct_dedupeUUIDs [simp]: "distinct (dedupeUUIDs ids)"
  by (simp add: dedupeUUIDs_eq)

text \<open>\<open>truncateDay\<close> is midnight UTC, as a DATE column keeps it.\<close>

definition truncateDay :: "gotime \<Rightarrow> gotime" where
  "truncateDay t = to_date t"

text \<open>\<open>time.Format("2006-01-02")\<close>, for years of four digits or more.\<close>

definition zero_pad :: "nat \<Rightarrow> string \<Rightarrow> string" where
  "zero_pad w s = replicate (w - length s) CHR ''0'' @ s"

definition format_date :: "gotime \<Rightarrow> string" where
  "format_date t = zero_pad 4 (decimal (nat (year_of t))) @ ''-'' @ zero_pad 2 (decimal (nat (month_of t))) @ ''-'' @
     zero_pad 2 (decimal (nat (day_of t)))"

text \<open>\<open>%d\<close>.\<close>

definition show_int :: "int \<Rightarrow> string" where
  "show_int i = (if i < 0 then ''-'' @ decimal (nat (- i)) else decimal (nat i))"

text \<open>The most recent row, for \<open>ORDER BY reported_at DESC LIMIT 1\<close>.\<close>

definition latest :: "('r \<Rightarrow> 'k::linorder) \<Rightarrow> 'r list \<Rightarrow> 'r option" where
  "latest key rows = (case order_desc key rows of [] \<Rightarrow> None | r # rs \<Rightarrow> Some r)"

lemma latest_in: "latest key rows = Some r \<Longrightarrow> r \<in> set rows"
  unfolding latest_def order_desc_def by (metis list.set_intros(1) list.simps(4) list.simps(5) neq_Nil_conv option.distinct(1) option.inject set_rev set_sort)

lemma latest_None: "latest key rows = None \<longleftrightarrow> rows = []"
  by (auto simp: latest_def order_desc_def split: list.splits dest: arg_cong [of _ _ length])

end
