(* ===== verification/Fleet.thy ===== *)
theory Fleet
  imports Site_Db
begin

text \<open>
  Equipment: internal/store/fleet.go and internal/service/fleet.go. The exclusion constraint of migration 003 keeps the
  half-open date ranges of one asset apart.
\<close>

section \<open>The store\<close>

record CreateAssetParams =
  cs_OrgID :: uuid
  cs_Name :: string
  cs_AssetType :: string
  cs_SerialNumber :: "string option"

definition CreateAsset_store :: "env \<Rightarrow> CreateAssetParams \<Rightarrow> ('x site_db_scheme, FleetAsset) tx" where
  "CreateAsset_store e p = insert_returning e ''insert fleet_asset'' st_fleet st_fleet_update
     (\<lambda>d. cs_OrgID p \<in> set (db_orgs d)) fl_ID (\<lambda>_ _. False)
     (\<lambda>_ u. \<lparr>fl_ID = u, fl_OrgID = cs_OrgID p, fl_Name = cs_Name p, fl_AssetType = cs_AssetType p,
        fl_SerialNumber = cs_SerialNumber p, fl_Status = FleetAssetStatusAvailable, fl_CreatedAt = e_now e\<rparr>)"

definition ListAssets_store :: "env \<Rightarrow> uuid \<Rightarrow> string list \<Rightarrow> ('x site_db_scheme, FleetAsset list) tx" where
  "ListAssets_store e orgID statusFilter = select_all e ''query fleet_assets''
     (\<lambda>d. order_desc fl_CreatedAt (filter (\<lambda>a. fl_OrgID a = orgID \<and> (statusFilter = [] \<or> fl_Status a \<in> set statusFilter)) (st_fleet d)))"

definition VerifyAssetInOrg :: "env \<Rightarrow> uuid \<Rightarrow> uuid \<Rightarrow> ('x site_db_scheme, unit) tx" where
  "VerifyAssetInOrg e assetID orgID =
     tbind (select_all e ''verify fleet_asset in org'' st_fleet) (\<lambda>rows.
       tguard (\<exists>a\<in>set rows. fl_ID a = assetID \<and> fl_OrgID a = orgID) FleetAssetNotFound)"

record AllocateAssetParams =
  aa_AssetID :: uuid
  aa_ProjectID :: uuid
  aa_StartDate :: gotime
  aa_EndDate :: gotime

text \<open>\<open>daterange(s, e) && daterange(s', e')\<close> on half-open ranges; an empty range overlaps nothing.\<close>

definition ranges_overlap :: "gotime \<times> gotime \<Rightarrow> gotime \<times> gotime \<Rightarrow> bool" where
  "ranges_overlap r r' \<longleftrightarrow> max (fst r) (fst r') < min (snd r) (snd r')"

definition booked :: "EquipmentAllocation \<Rightarrow> gotime \<times> gotime" where
  "booked a = (ea_StartDate a, ea_EndDate a)"

definition new_alloc :: "env \<Rightarrow> AllocateAssetParams \<Rightarrow> uuid \<Rightarrow> EquipmentAllocation" where
  "new_alloc e p u = \<lparr>ea_ID = u, ea_AssetID = aa_AssetID p, ea_ProjectID = aa_ProjectID p,
     ea_StartDate = to_date (aa_StartDate p), ea_EndDate = to_date (aa_EndDate p), ea_CreatedAt = e_now e\<rparr>"

text \<open>A range whose bounds are out of order is an error of the range type.\<close>

definition AllocateAsset_store :: "env \<Rightarrow> AllocateAssetParams \<Rightarrow> ('x site_db_scheme, EquipmentAllocation) tx" where
  "AllocateAsset_store e p = stmt e ''insert equipment_allocation'' (\<lambda>s.
     if to_date (aa_StartDate p) \<le> to_date (aa_EndDate p) \<and>
        (\<exists>a\<in>set (st_allocs (s_db s)). ea_AssetID a = aa_AssetID p \<and> ranges_overlap (booked a) (booked (new_alloc e p 0)))
     then Inl AllocationConflict
     else insert_returning e ''insert equipment_allocation'' st_allocs st_allocs_update
       (\<lambda>d. to_date (aa_StartDate p) \<le> to_date (aa_EndDate p) \<and> aa_AssetID p \<in> fl_ID ` set (st_fleet d) \<and>
          aa_ProjectID p \<in> pj_ID ` set (db_projects d))
       ea_ID (\<lambda>_ _. False) (\<lambda>_ u. new_alloc e p u) s)"

section \<open>The service\<close>

definition fleet_json :: "FleetAsset \<Rightarrow> payload" where
  "fleet_json a = [(''id'', JUuid (fl_ID a)), (''org_id'', JUuid (fl_OrgID a)), (''name'', JStr (fl_Name a)),
     (''asset_type'', JStr (fl_AssetType a))] @ opt_field ''serial_number'' JStr (fl_SerialNumber a) @
     [(''status'', JStr (fl_Status a)), (''created_at'', JTime (fl_CreatedAt a))]"

definition alloc_json :: "EquipmentAllocation \<Rightarrow> payload" where
  "alloc_json a = [(''id'', JUuid (ea_ID a)), (''asset_id'', JUuid (ea_AssetID a)), (''project_id'', JUuid (ea_ProjectID a)),
     (''start_date'', JTime (ea_StartDate a)), (''end_date'', JTime (ea_EndDate a)), (''created_at'', JTime (ea_CreatedAt a))]"

definition ListAssets :: "env \<Rightarrow> uuid \<Rightarrow> string list \<Rightarrow> 'x site_db_scheme \<Rightarrow> svc_error + FleetAsset list" where
  "ListAssets e orgID statusFilter d =
     ebind (require_that (orgID \<noteq> uuid_nil) (InvalidInput ''org_id'')) (\<lambda>_.
     ebind (require_that (list_all IsValidFleetAssetStatus statusFilter) (InvalidInput ''status'')) (\<lambda>_.
     fst (BeginTxFunc e (ListAssets_store e orgID statusFilter) d)))"

record CreateAssetInput =
  ai_Name :: string
  ai_AssetType :: string
  ai_SerialNumber :: "string option"

definition create_asset_params :: "uuid \<Rightarrow> CreateAssetInput \<Rightarrow> CreateAssetParams" where
  "create_asset_params orgID inp = \<lparr>cs_OrgID = orgID, cs_Name = trim_space (ai_Name inp),
     cs_AssetType = trim_space (ai_AssetType inp), cs_SerialNumber = normalizeOptionalString (ai_SerialNumber inp)\<rparr>"

definition create_asset_body :: "env \<Rightarrow> uuid \<Rightarrow> string \<Rightarrow> CreateAssetInput \<Rightarrow> ('x site_db_scheme, FleetAsset) tx" where
  "create_asset_body e orgID sub inp =
     tbind (CreateAsset_store e (create_asset_params orgID inp)) (\<lambda>got.
     tbind (Record e \<lparr>ae_OrgID = orgID, ae_UserSub = sub, ae_Action = ''fleet.asset.created'', ae_ResourceType = ''fleet_asset'',
       ae_ResourceID = fl_ID got, ae_Before = [], ae_After = fleet_json got,
       ae_Metadata = [(''asset_type'', JStr (fl_AssetType got)), (''name'', JStr (fl_Name got))]\<rparr>) (\<lambda>_. tret got))"

definition CreateAsset :: "env \<Rightarrow> uuid \<Rightarrow> string \<Rightarrow> CreateAssetInput \<Rightarrow> 'x site_db_scheme \<Rightarrow>
    (svc_error + FleetAsset) \<times> 'x site_db_scheme" where
  "CreateAsset e orgID sub inp d = service_result
     (ebind (require_that (orgID \<noteq> uuid_nil) (InvalidInput ''org_id'')) (\<lambda>_.
      ebind (require_that (trim_space (ai_Name inp) \<noteq> []) (InvalidInput ''name'')) (\<lambda>_.
      require_that (trim_space (ai_AssetType inp) \<noteq> []) (InvalidInput ''asset_type'')))) d
     (BeginTxFunc e (create_asset_body e orgID sub inp) d)"

definition alloc_entry :: "uuid \<Rightarrow> string \<Rightarrow> EquipmentAllocation \<Rightarrow> AuditEntry" where
  "alloc_entry orgID sub got = \<lparr>ae_OrgID = orgID, ae_UserSub = sub, ae_Action = ''fleet.asset.allocated'',
     ae_ResourceType = ''equipment_allocation'', ae_ResourceID = ea_ID got, ae_Before = [], ae_After = alloc_json got,
     ae_Metadata = [(''asset_id'', JUuid (ea_AssetID got)), (''project_id'', JUuid (ea_ProjectID got)),
       (''start_date'', JTime (ea_StartDate got)), (''end_date'', JTime (ea_EndDate got))]\<rparr>"

definition allocate_body :: "env \<Rightarrow> uuid \<Rightarrow> string \<Rightarrow> AllocateAssetParams \<Rightarrow> ('x site_db_scheme, EquipmentAllocation) tx" where
  "allocate_body e orgID sub inp =
     tbind (VerifyAssetInOrg e (aa_AssetID inp) orgID) (\<lambda>_.
     tbind (VerifyProjectInOrg e (aa_ProjectID inp) orgID) (\<lambda>_.
     tbind (AllocateAsset_store e inp) (\<lambda>got.
     tbind (Record e (alloc_entry orgID sub got)) (\<lambda>_. tret got))))"

definition allocate_check :: "uuid \<Rightarrow> AllocateAssetParams \<Rightarrow> svc_error + unit" where
  "allocate_check orgID inp =
     ebind (require_that (orgID \<noteq> uuid_nil) (InvalidInput ''org_id'')) (\<lambda>_.
     ebind (require_that (aa_AssetID inp \<noteq> uuid_nil \<and> aa_ProjectID inp \<noteq> uuid_nil) (InvalidInput ''asset_id and project_id'')) (\<lambda>_.
     ebind (require_that (aa_StartDate inp \<noteq> zero_time \<and> aa_EndDate inp \<noteq> zero_time) (InvalidInput ''start_date and end_date'')) (\<lambda>_.
     require_that (aa_EndDate inp > aa_StartDate inp) (InvalidInput ''end_date''))))"

definition AllocateAsset :: "env \<Rightarrow> uuid \<Rightarrow> string \<Rightarrow> AllocateAssetParams \<Rightarrow> 'x site_db_scheme \<Rightarrow>
    (svc_error + EquipmentAllocation) \<times> 'x site_db_scheme" where
  "AllocateAsset e orgID sub inp d = service_result (allocate_check orgID inp) d
     (reported (BeginTxFunc e (allocate_body e orgID sub inp) d))"

end
