(* ===== verification/Assets.thy ===== *)
theory Assets
  imports Site_Db
begin

text \<open>
  Photos: internal/store/assets.go, internal/service/assets.go and \<open>AppendDailyLogPhotos\<close> of internal/store/field.go. The
  blobs live in an object store outside the program, the parameter \<open>resolver\<close>; a row says whether its blob arrived.
\<close>

section \<open>The store\<close>

record InsertAssetParams =
  ia_OrgID :: uuid
  ia_ProjectID :: "uuid option"
  ia_StorageKey :: string
  ia_ContentType :: string
  ia_SizeBytes :: int
  ia_UploadedBy :: string

definition asset_Create :: "env \<Rightarrow> InsertAssetParams \<Rightarrow> ('x site_db_scheme, Asset) tx" where
  "asset_Create e p = insert_returning e ''insert asset'' st_assets st_assets_update
     (\<lambda>d. ia_OrgID p \<in> set (db_orgs d) \<and> opt_ok (\<lambda>pid. pid \<in> pj_ID ` set (db_projects d)) (ia_ProjectID p)) at_ID (\<lambda>_ _. False)
     (\<lambda>_ u. \<lparr>at_ID = u, at_OrgID = ia_OrgID p, at_ProjectID = ia_ProjectID p, at_StorageKey = ia_StorageKey p,
        at_ContentType = ia_ContentType p, at_SizeBytes = ia_SizeBytes p, at_Status = AssetStatusPending,
        at_UploadedBy = ia_UploadedBy p, at_ChecksumSHA256 = None, at_CreatedAt = e_now e, at_ConfirmedAt = None\<rparr>)"

definition MarkReady :: "env \<Rightarrow> uuid \<Rightarrow> uuid \<Rightarrow> string option \<Rightarrow> ('x site_db_scheme, Asset) tx" where
  "MarkReady e orgID aid checksum = update_returning e ''mark asset ready'' st_assets st_assets_update
     (\<lambda>a. at_ID a = aid \<and> at_OrgID a = orgID \<and> at_Status a = AssetStatusPending)
     (\<lambda>a. a\<lparr>at_Status := AssetStatusReady, at_ConfirmedAt := Some (e_now e), at_ChecksumSHA256 := coalesce_opt checksum (at_ChecksumSHA256 a)\<rparr>)"

text \<open>No service calls the next statement or \<open>ListByIDs\<close>: a pending asset stays pending until it is confirmed.\<close>

definition asset_MarkFailed :: "env \<Rightarrow> uuid \<Rightarrow> uuid \<Rightarrow> ('x site_db_scheme, unit) tx" where
  "asset_MarkFailed e orgID aid = tbind (update_returning e ''mark asset failed'' st_assets st_assets_update
     (\<lambda>a. at_ID a = aid \<and> at_OrgID a = orgID \<and> at_Status a = AssetStatusPending) (\<lambda>a. a\<lparr>at_Status := AssetStatusFailed\<rparr>)) (\<lambda>_. tret ())"

definition asset_GetByID :: "env \<Rightarrow> uuid \<Rightarrow> uuid \<Rightarrow> ('x site_db_scheme, Asset) tx" where
  "asset_GetByID e orgID aid = select_one e ''get asset'' st_assets (\<lambda>a. at_ID a = aid \<and> at_OrgID a = orgID)"

definition asset_ListByProject :: "env \<Rightarrow> uuid \<Rightarrow> uuid \<Rightarrow> bool \<Rightarrow> ('x site_db_scheme, Asset list) tx" where
  "asset_ListByProject e orgID projectID readyOnly = select_all e ''list assets by project''
     (\<lambda>d. order_desc at_CreatedAt (filter (\<lambda>a. at_OrgID a = orgID \<and> at_ProjectID a = Some projectID \<and>
        (\<not> readyOnly \<or> at_Status a = AssetStatusReady)) (st_assets d)))"

definition ListByIDs :: "env \<Rightarrow> uuid \<Rightarrow> uuid list \<Rightarrow> ('x site_db_scheme, Asset list) tx" where
  "ListByIDs e orgID ids =
     (if ids = [] then tret []
      else select_all e ''list assets by ids'' (\<lambda>d. order_desc at_CreatedAt
        (filter (\<lambda>a. at_OrgID a = orgID \<and> at_ID a \<in> set ids \<and> at_Status a = AssetStatusReady) (st_assets d))))"

text \<open>A photo that a log of the project may show: confirmed, of the organization, and of no other project.\<close>

definition servable :: "uuid \<Rightarrow> uuid \<Rightarrow> Asset \<Rightarrow> bool" where
  "servable orgID projectID a \<longleftrightarrow> at_OrgID a = orgID \<and> at_Status a = AssetStatusReady \<and>
     (at_ProjectID a = None \<or> at_ProjectID a = Some projectID)"

definition CountReadyForProject :: "env \<Rightarrow> uuid \<Rightarrow> uuid \<Rightarrow> uuid list \<Rightarrow> ('x site_db_scheme, nat) tx" where
  "CountReadyForProject e orgID projectID ids =
     (if ids = [] then tret 0
      else tbind (select_all e ''count ready assets for project'' st_assets) (\<lambda>rows.
             tret (length (filter (\<lambda>a. at_ID a \<in> set ids \<and> servable orgID projectID a) rows))))"

section \<open>The object store\<close>

definition MaxAssetSizeBytes :: int where "MaxAssetSizeBytes = 15 * 2 ^ 20"
definition MaxAssetsPerDailyLog :: nat where "MaxAssetsPerDailyLog = 20"
definition presignPutTTL :: duration where "presignPutTTL = 5 * minute"
definition presignGetTTL :: duration where "presignGetTTL = 15 * minute"

definition allowedAssetContentTypes :: "(string \<times> string) list" where
  "allowedAssetContentTypes = [(''image/jpeg'', ''.jpg''), (''image/png'', ''.png''), (''image/webp'', ''.webp''), (''image/heic'', ''.heic'')]"

record ObjectStore =
  os_PresignPut :: "string \<Rightarrow> string \<Rightarrow> int \<Rightarrow> duration \<Rightarrow> svc_error + (string \<times> (string \<times> string) list)"
  os_PresignGet :: "string \<Rightarrow> duration \<Rightarrow> svc_error + string"
  os_Get :: "string \<Rightarrow> svc_error + (byte list \<times> string)"

type_synonym store_resolver = "(uuid \<Rightarrow> svc_error + ObjectStore option) option"

definition objStore :: "store_resolver \<Rightarrow> uuid \<Rightarrow> svc_error + ObjectStore" where
  "objStore resolver orgID = (case resolver of
     None \<Rightarrow> Inl StorageUnavailable
   | Some r \<Rightarrow> ebind (r orgID) (\<lambda>objs. case objs of None \<Rightarrow> Inl StorageUnavailable | Some st \<Rightarrow> Inr st))"

record ObjectStoreConfig =
  oc_Endpoint :: string
  oc_Bucket :: string
  oc_Region :: string

text \<open>
  The resolver of the server, from the vault's \<open>creds\<close> and the constructor \<open>newR2\<close> of internal/storage; its \<open>None\<close> is
  \<open>storage.ErrUnconfigured\<close>.
\<close>

definition NewVaultObjectStoreResolver :: "(ObjectStoreConfig \<Rightarrow> string \<Rightarrow> string \<Rightarrow> svc_error + ObjectStore option) \<Rightarrow> ObjectStoreConfig \<Rightarrow>
    (uuid \<Rightarrow> svc_error + (string \<times> string)) option \<Rightarrow> uuid \<Rightarrow> svc_error + ObjectStore option" where
  "NewVaultObjectStoreResolver newR2 cfg creds orgID =
     (case creds of
        None \<Rightarrow> Inr None
      | Some vault \<Rightarrow>
          if oc_Endpoint cfg = [] \<or> oc_Bucket cfg = [] then Inr None
          else ebind (vault orgID) (\<lambda>ks. case ks of (accessKey, secret) \<Rightarrow>
                 if accessKey = [] \<or> secret = [] then Inr None else newR2 cfg accessKey secret))"

text \<open>\<open>ustr\<close> writes an id in its canonical form, \<open>fresh\<close> is the \<open>uuid.NewString()\<close> of the call.\<close>

definition buildStorageKey :: "(uuid \<Rightarrow> string) \<Rightarrow> string \<Rightarrow> uuid \<Rightarrow> uuid option \<Rightarrow> string \<Rightarrow> string" where
  "buildStorageKey ustr fresh orgID projectID ext = (case projectID of
     Some pid \<Rightarrow> ''org/'' @ ustr orgID @ ''/project/'' @ ustr pid @ ''/'' @ fresh @ ext
   | None \<Rightarrow> ''org/'' @ ustr orgID @ ''/'' @ fresh @ ext)"

section \<open>Uploads\<close>

record RequestUploadInput =
  ru_ProjectID :: "uuid option"
  ru_ContentType :: string
  ru_SizeBytes :: int

record RequestUploadResult =
  rr_Asset :: Asset
  rr_UploadURL :: string
  rr_SignedHeaders :: "(string \<times> string) list"
  rr_ExpiresAt :: gotime

definition upload_check :: "RequestUploadInput \<Rightarrow> svc_error + string" where
  "upload_check inp = (case map_of allowedAssetContentTypes (to_lower (trim_space (ru_ContentType inp))) of
     None \<Rightarrow> Inl (InvalidInput ''content_type'')
   | Some ext \<Rightarrow> ebind (require_that (ru_SizeBytes inp > 0) (InvalidInput ''byte_size'')) (\<lambda>_.
       ebind (require_that (ru_SizeBytes inp \<le> MaxAssetSizeBytes) (InvalidInput ''byte_size'')) (\<lambda>_. Inr ext)))"

definition upload_body :: "env \<Rightarrow> string \<Rightarrow> uuid \<Rightarrow> string \<Rightarrow> RequestUploadInput \<Rightarrow> ('x site_db_scheme, Asset) tx" where
  "upload_body e key orgID sub inp =
     tbind (case ru_ProjectID inp of Some pid \<Rightarrow> VerifyProjectInOrg e pid orgID | None \<Rightarrow> tret ()) (\<lambda>_.
     tbind (asset_Create e \<lparr>ia_OrgID = orgID, ia_ProjectID = ru_ProjectID inp, ia_StorageKey = key,
       ia_ContentType = to_lower (trim_space (ru_ContentType inp)), ia_SizeBytes = ru_SizeBytes inp, ia_UploadedBy = sub\<rparr>) (\<lambda>a.
     tbind (Record e \<lparr>ae_OrgID = orgID, ae_UserSub = sub, ae_Action = ''asset.upload_requested'', ae_ResourceType = ''asset'',
       ae_ResourceID = at_ID a, ae_Before = [],
       ae_After = [(''content_type'', JStr (at_ContentType a)), (''size_bytes'', JInt (ru_SizeBytes inp)),
         (''project_id'', opt_json JUuid (ru_ProjectID inp))], ae_Metadata = []\<rparr>) (\<lambda>_. tret a)))"

text \<open>The URL is presigned after the commit; when that fails, the pending row stays.\<close>

definition RequestUpload :: "store_resolver \<Rightarrow> (uuid \<Rightarrow> string) \<Rightarrow> string \<Rightarrow> env \<Rightarrow> gotime \<Rightarrow> uuid \<Rightarrow> string \<Rightarrow> RequestUploadInput \<Rightarrow>
    'x site_db_scheme \<Rightarrow> (svc_error + RequestUploadResult) \<times> 'x site_db_scheme" where
  "RequestUpload resolver ustr fresh e now orgID sub inp d =
     (if orgID = uuid_nil then (Inl (InvalidInput ''org_id''), d)
      else case objStore resolver orgID of
        Inl err \<Rightarrow> (Inl err, d)
      | Inr objs \<Rightarrow>
          (case upload_check inp of
             Inl err \<Rightarrow> (Inl err, d)
           | Inr ext \<Rightarrow>
               let key = buildStorageKey ustr fresh orgID (ru_ProjectID inp) ext in
               case mapped (BeginTxFunc e (upload_body e key orgID sub inp) d) of
                 (Inl err, d') \<Rightarrow> (Inl err, d')
               | (Inr a, d') \<Rightarrow>
                   (ebind (os_PresignPut objs key (to_lower (trim_space (ru_ContentType inp))) (ru_SizeBytes inp) presignPutTTL)
                      (\<lambda>uh. Inr \<lparr>rr_Asset = a, rr_UploadURL = fst uh, rr_SignedHeaders = snd uh, rr_ExpiresAt = now + presignPutTTL\<rparr>), d')))"

definition confirm_body :: "env \<Rightarrow> uuid \<Rightarrow> string \<Rightarrow> uuid \<Rightarrow> string option \<Rightarrow> ('x site_db_scheme, Asset) tx" where
  "confirm_body e orgID sub assetID checksum =
     tbind (MarkReady e orgID assetID checksum) (\<lambda>a.
     tbind (Record e \<lparr>ae_OrgID = orgID, ae_UserSub = sub, ae_Action = ''asset.uploaded'', ae_ResourceType = ''asset'',
       ae_ResourceID = at_ID a, ae_Before = [], ae_After = [], ae_Metadata = []\<rparr>) (\<lambda>_. tret a))"

definition ConfirmUpload :: "env \<Rightarrow> uuid \<Rightarrow> string \<Rightarrow> uuid \<Rightarrow> string option \<Rightarrow> 'x site_db_scheme \<Rightarrow>
    (svc_error + Asset) \<times> 'x site_db_scheme" where
  "ConfirmUpload e orgID sub assetID checksum d = service_result
     (require_that (orgID \<noteq> uuid_nil \<and> assetID \<noteq> uuid_nil) (InvalidInput ''org_id and asset id'')) d
     (mapped (BeginTxFunc e (confirm_body e orgID sub assetID checksum) d))"

section \<open>Photos of a daily log\<close>

definition ValidatePhotoAssets :: "env \<Rightarrow> uuid \<Rightarrow> uuid \<Rightarrow> uuid list \<Rightarrow> ('x site_db_scheme, unit) tx" where
  "ValidatePhotoAssets e orgID projectID ids =
     (let deduped = dedupeUUIDs ids in
      if deduped = [] then tret ()
      else tbind (CountReadyForProject e orgID projectID deduped) (\<lambda>n. tguard (n = length deduped) InvalidPhotoAsset))"

record AppendDailyLogPhotosParams =
  aq_OrgID :: uuid
  aq_ProjectID :: uuid
  aq_LogDate :: gotime
  aq_AssetIDs :: "uuid list"
  aq_MaxPhotos :: nat

text \<open>
  The photos of the day's latest log with the new ones after them, each at its first occurrence. The query orders the new
  ones from 1000001 on, after any list of photos that its own limit lets a log have.
\<close>

definition day_logs :: "uuid \<Rightarrow> uuid \<Rightarrow> gotime \<Rightarrow> DailyLog list \<Rightarrow> DailyLog list" where
  "day_logs orgID projectID day rows =
     filter (\<lambda>l. dl_OrgID l = orgID \<and> dl_ProjectID l = projectID \<and> dl_LogDate l = to_date day) rows"

definition merged_photos :: "AppendDailyLogPhotosParams \<Rightarrow> DailyLog \<Rightarrow> uuid list" where
  "merged_photos p l = first_seen (dl_PhotoAssetIDs l @ aq_AssetIDs p)"

definition AppendDailyLogPhotos :: "env \<Rightarrow> AppendDailyLogPhotosParams \<Rightarrow> ('x site_db_scheme, DailyLog) tx" where
  "AppendDailyLogPhotos e p =
     tbind (select_all e ''locate daily log for append'' (\<lambda>d. day_logs (aq_OrgID p) (aq_ProjectID p) (aq_LogDate p) (st_logs d))) (\<lambda>rows.
     case latest dl_ReportedAt rows of
       None \<Rightarrow> tfail StoreNotFound
     | Some target \<Rightarrow>
         tmissing PhotoLimit (update_returning e ''append daily log photos'' st_logs st_logs_update
           (\<lambda>l. dl_ID l = dl_ID target \<and> (aq_MaxPhotos p = 0 \<or> length (merged_photos p l) \<le> aq_MaxPhotos p))
           (\<lambda>l. l\<lparr>dl_PhotoAssetIDs := merged_photos p l\<rparr>)))"

definition link_body :: "env \<Rightarrow> uuid \<Rightarrow> string \<Rightarrow> uuid \<Rightarrow> gotime \<Rightarrow> uuid list \<Rightarrow> ('x site_db_scheme, DailyLog) tx" where
  "link_body e orgID sub projectID day deduped =
     tbind (VerifyProjectInOrg e projectID orgID) (\<lambda>_.
     tbind (ValidatePhotoAssets e orgID projectID deduped) (\<lambda>_.
     tbind (AppendDailyLogPhotos e \<lparr>aq_OrgID = orgID, aq_ProjectID = projectID, aq_LogDate = day, aq_AssetIDs = deduped,
       aq_MaxPhotos = MaxAssetsPerDailyLog\<rparr>) (\<lambda>row.
     tbind (Record e \<lparr>ae_OrgID = orgID, ae_UserSub = sub, ae_Action = ''asset.linked_to_daily_log'', ae_ResourceType = ''asset'',
       ae_ResourceID = dl_ID row, ae_Before = [], ae_After = [],
       ae_Metadata = [(''project_id'', JUuid projectID), (''log_date'', JStr (format_date day)),
         (''asset_count'', JInt (int (length deduped)))]\<rparr>) (\<lambda>_. tret row))))"

definition link_error :: "svc_error \<Rightarrow> svc_error" where
  "link_error err = (if err = PhotoLimit then InvalidInput ''photos'' else mapStoreError err)"

definition LinkPhotosToDailyLog :: "env \<Rightarrow> uuid \<Rightarrow> string \<Rightarrow> uuid \<Rightarrow> gotime \<Rightarrow> uuid list \<Rightarrow> 'x site_db_scheme \<Rightarrow>
    (svc_error + DailyLog) \<times> 'x site_db_scheme" where
  "LinkPhotosToDailyLog e orgID sub projectID day assetIDs d =
     (let deduped = dedupeUUIDs assetIDs in
      service_result
        (ebind (require_that (orgID \<noteq> uuid_nil \<and> projectID \<noteq> uuid_nil) (InvalidInput ''org_id and project_id'')) (\<lambda>_.
         ebind (require_that (day \<noteq> zero_time) (InvalidInput ''log_date'')) (\<lambda>_.
         ebind (require_that (deduped \<noteq> []) (InvalidInput ''asset id'')) (\<lambda>_.
         require_that (length deduped \<le> MaxAssetsPerDailyLog) (InvalidInput ''photos''))))) d
        (case BeginTxFunc e (link_body e orgID sub projectID day deduped) d of (r, d') \<Rightarrow> (map_err link_error r, d')))"

section \<open>Serving\<close>

definition GetAsset :: "env \<Rightarrow> uuid \<Rightarrow> uuid \<Rightarrow> 'x site_db_scheme \<Rightarrow> svc_error + Asset" where
  "GetAsset e orgID assetID d =
     ebind (require_that (orgID \<noteq> uuid_nil \<and> assetID \<noteq> uuid_nil) (InvalidInput ''org_id and asset id'')) (\<lambda>_.
       fst (mapped (BeginTxFunc e (asset_GetByID e orgID assetID) d)))"

definition SignedGetURL :: "store_resolver \<Rightarrow> env \<Rightarrow> uuid \<Rightarrow> uuid \<Rightarrow> duration \<Rightarrow> 'x site_db_scheme \<Rightarrow> svc_error + string" where
  "SignedGetURL resolver e orgID assetID ttl d =
     ebind (objStore resolver orgID) (\<lambda>objs.
     ebind (GetAsset e orgID assetID d) (\<lambda>a.
     if at_Status a \<noteq> AssetStatusReady then Inl NotFound
     else os_PresignGet objs (at_StorageKey a) (if ttl \<le> 0 then presignGetTTL else ttl)))"

definition ListProjectAssets :: "env \<Rightarrow> uuid \<Rightarrow> uuid \<Rightarrow> bool \<Rightarrow> 'x site_db_scheme \<Rightarrow> svc_error + Asset list" where
  "ListProjectAssets e orgID projectID readyOnly d =
     ebind (require_that (orgID \<noteq> uuid_nil \<and> projectID \<noteq> uuid_nil) (InvalidInput ''org_id and project id'')) (\<lambda>_.
       fst (mapped (BeginTxFunc e (tbind (VerifyProjectInOrg e projectID orgID) (\<lambda>_. asset_ListByProject e orgID projectID readyOnly)) d)))"

text \<open>Decoding an image and encoding the pixels again, by the image packages of the standard library.\<close>

record image_codec =
  ic_jpeg :: "byte list \<Rightarrow> byte list option"
  ic_png :: "byte list \<Rightarrow> byte list option"

definition stripImageMetadata :: "image_codec \<Rightarrow> byte list \<Rightarrow> string \<Rightarrow> (byte list \<times> string) option" where
  "stripImageMetadata codec body contentType =
     (let ct = to_lower (trim_space contentType); limited = take (nat (MaxAssetSizeBytes + 1)) body in
      if ct = ''image/jpeg'' then map_option (\<lambda>b. (b, ''image/jpeg'')) (ic_jpeg codec limited)
      else if ct = ''image/png'' then map_option (\<lambda>b. (b, ''image/png'')) (ic_png codec limited)
      else None)"

definition ServeAsset :: "store_resolver \<Rightarrow> image_codec \<Rightarrow> env \<Rightarrow> uuid \<Rightarrow> uuid \<Rightarrow> 'x site_db_scheme \<Rightarrow> svc_error + (byte list \<times> string)" where
  "ServeAsset resolver codec e orgID assetID d =
     ebind (objStore resolver orgID) (\<lambda>objs.
     ebind (GetAsset e orgID assetID d) (\<lambda>a.
     if at_Status a \<noteq> AssetStatusReady then Inl NotFound
     else ebind (os_Get objs (at_StorageKey a)) (\<lambda>bc. case bc of (body, ct) \<Rightarrow>
       case stripImageMetadata codec body (if ct = [] then at_ContentType a else ct) of
         None \<Rightarrow> Inl NotFound
       | Some out \<Rightarrow> Inr out)))"

end
