(* ===== verification/Field.thy ===== *)
theory Field
  imports Assets
begin

text \<open>
  Field work: internal/store/field.go and internal/service/field.go. A phone sends its outbox again when it is unsure that a
  write arrived; the key of each entry is unique in its table.
\<close>

section \<open>The store\<close>

record ListAssignedTasksParams =
  la_UserID :: uuid
  la_OrgID :: uuid
  la_Since :: gotime

definition in_org :: "'x site_db_scheme \<Rightarrow> uuid \<Rightarrow> uuid \<Rightarrow> bool" where
  "in_org d orgID projectID \<longleftrightarrow> (\<exists>p\<in>set (db_projects d). pj_ID p = projectID \<and> pj_OrgID p = orgID)"

definition on_crew :: "'x site_db_scheme \<Rightarrow> uuid \<Rightarrow> uuid \<Rightarrow> ProjectTask \<Rightarrow> bool" where
  "on_crew d orgID userID t \<longleftrightarrow> in_org d orgID (pt_ProjectID t) \<and> pt_Status t \<noteq> ''completed'' \<and> userID \<in> set (pt_AssignedCrew t)"

text \<open>\<open>ORDER BY early_start ASC NULLS LAST, created_at ASC\<close>.\<close>

definition start_rank :: "ProjectTask \<Rightarrow> bool \<times> gotime" where
  "start_rank t = (pt_EarlyStart t = None, coalesce (pt_EarlyStart t) 0)"

definition ListAssignedTasks :: "env \<Rightarrow> ListAssignedTasksParams \<Rightarrow> ('x site_db_scheme, ProjectTask list) tx" where
  "ListAssignedTasks e p = select_all e ''query field sync tasks'' (\<lambda>d.
     sort_key start_rank (sort_key pt_CreatedAt
       (filter (\<lambda>t. on_crew d (la_OrgID p) (la_UserID p) t \<and> (la_Since p = zero_time \<or> pt_UpdatedAt t > la_Since p)) (fx_tasks d))))"

record FieldEquipment =
  fm_ID :: uuid
  fm_Name :: string
  fm_AssetType :: string
  fm_SerialNumber :: "string option"
  fm_Status :: string
  fm_StartDate :: gotime
  fm_EndDate :: gotime

definition equipment :: "FleetAsset \<Rightarrow> EquipmentAllocation \<Rightarrow> FieldEquipment" where
  "equipment fa ea = \<lparr>fm_ID = fl_ID fa, fm_Name = fl_Name fa, fm_AssetType = fl_AssetType fa, fm_SerialNumber = fl_SerialNumber fa,
     fm_Status = fl_Status fa, fm_StartDate = ea_StartDate ea, fm_EndDate = ea_EndDate ea\<rparr>"

definition on_site :: "'x site_db_scheme \<Rightarrow> uuid \<Rightarrow> uuid \<Rightarrow> gotime \<Rightarrow> EquipmentAllocation \<Rightarrow> bool" where
  "on_site d orgID userID today ea \<longleftrightarrow> in_org d orgID (ea_ProjectID ea) \<and> ea_StartDate ea \<le> to_date today \<and> to_date today < ea_EndDate ea \<and>
     (\<exists>t\<in>set (fx_tasks d). pt_ProjectID t = ea_ProjectID ea \<and> on_crew d orgID userID t)"

definition ListAllocatedEquipment :: "env \<Rightarrow> uuid \<Rightarrow> uuid \<Rightarrow> gotime \<Rightarrow> ('x site_db_scheme, FieldEquipment list) tx" where
  "ListAllocatedEquipment e userID orgID today = select_all e ''query field sync equipment'' (\<lambda>d.
     sort_key fm_Name (sort_key fm_ID (concat (List.map (\<lambda>ea.
       List.map (\<lambda>fa. equipment fa ea) (filter (\<lambda>fa. fl_ID fa = ea_AssetID ea \<and> fl_OrgID fa = orgID) (st_fleet d)))
       (filter (on_site d orgID userID today) (st_allocs d))))))"

record ReportProgressParams =
  rg_TaskID :: uuid
  rg_ReportedBy :: uuid
  rg_PercentComplete :: int
  rg_Notes :: "string option"
  rg_PhotoAssetID :: "uuid option"
  rg_GPSLat :: "f64 option"
  rg_GPSLng :: "f64 option"
  rg_ReportedVia :: string
  rg_IdempotencyKey :: uuid

definition ReportProgress_store :: "env \<Rightarrow> ReportProgressParams \<Rightarrow> ('x site_db_scheme, TaskProgress) tx" where
  "ReportProgress_store e p = tconflict IdempotencyConflict (insert_returning e ''insert task_progress'' st_progress st_progress_update
     (\<lambda>d. rg_TaskID p \<in> pt_ID ` set (fx_tasks d) \<and> rg_ReportedBy p \<in> fst ` set (st_members d) \<and> int4_ok (rg_PercentComplete p))
     tk_ID (\<lambda>old new. tk_IdempotencyKey old = tk_IdempotencyKey new)
     (\<lambda>_ u. \<lparr>tk_ID = u, tk_TaskID = rg_TaskID p, tk_ReportedBy = rg_ReportedBy p, tk_PercentComplete = rg_PercentComplete p,
        tk_Notes = rg_Notes p, tk_PhotoAssetID = rg_PhotoAssetID p, tk_GPSLat = rg_GPSLat p, tk_GPSLng = rg_GPSLng p,
        tk_ReportedVia = rg_ReportedVia p, tk_IdempotencyKey = rg_IdempotencyKey p, tk_ReportedAt = e_now e\<rparr>))"

record CheckinParams =
  cm_OrgID :: uuid
  cm_ProjectID :: uuid
  cm_ReportedBy :: uuid
  cm_CrewMembers :: string
  cm_GPSLat :: "f64 option"
  cm_GPSLng :: "f64 option"
  cm_Notes :: "string option"
  cm_IdempotencyKey :: uuid

text \<open>\<open>jsonb\<close> is the cast of a text to JSONB, \<open>None\<close> its error.\<close>

definition Checkin_store :: "(string \<Rightarrow> json option) \<Rightarrow> env \<Rightarrow> CheckinParams \<Rightarrow> ('x site_db_scheme, CrewCheckin) tx" where
  "Checkin_store jsonb e p =
     (let crew = (if cm_CrewMembers p = [] then ''[]'' else cm_CrewMembers p) in
      tconflict IdempotencyConflict (insert_returning e ''insert crew_checkin'' st_checkins st_checkins_update
     (\<lambda>d. jsonb crew \<noteq> None \<and> cm_OrgID p \<in> set (db_orgs d) \<and> cm_ProjectID p \<in> pj_ID ` set (db_projects d) \<and>
        cm_ReportedBy p \<in> fst ` set (st_members d))
     ch_ID (\<lambda>old new. ch_IdempotencyKey old = ch_IdempotencyKey new)
     (\<lambda>_ u. \<lparr>ch_ID = u, ch_OrgID = cm_OrgID p, ch_ProjectID = cm_ProjectID p, ch_ReportedBy = cm_ReportedBy p,
        ch_CrewMembers = coalesce (jsonb crew) JNull, ch_GPSLat = cm_GPSLat p, ch_GPSLng = cm_GPSLng p, ch_Notes = cm_Notes p,
        ch_IdempotencyKey = cm_IdempotencyKey p, ch_ReportedAt = e_now e\<rparr>)))"

record DailyLogParams =
  dy_OrgID :: uuid
  dy_ProjectID :: uuid
  dy_ReportedBy :: uuid
  dy_LogDate :: gotime
  dy_WeatherConditions :: "string option"
  dy_WorkSummary :: string
  dy_SafetyIncidents :: "string option"
  dy_PhotoAssetIDs :: "uuid list"
  dy_IdempotencyKey :: uuid

definition DailyLog_store :: "env \<Rightarrow> DailyLogParams \<Rightarrow> ('x site_db_scheme, DailyLog) tx" where
  "DailyLog_store e p = tconflict IdempotencyConflict (insert_returning e ''insert daily_log'' st_logs st_logs_update
     (\<lambda>d. dy_OrgID p \<in> set (db_orgs d) \<and> dy_ProjectID p \<in> pj_ID ` set (db_projects d) \<and> dy_ReportedBy p \<in> fst ` set (st_members d))
     dl_ID (\<lambda>old new. dl_IdempotencyKey old = dl_IdempotencyKey new)
     (\<lambda>_ u. \<lparr>dl_ID = u, dl_OrgID = dy_OrgID p, dl_ProjectID = dy_ProjectID p, dl_ReportedBy = dy_ReportedBy p,
        dl_LogDate = to_date (dy_LogDate p), dl_WeatherConditions = dy_WeatherConditions p, dl_WorkSummary = dy_WorkSummary p,
        dl_SafetyIncidents = dy_SafetyIncidents p, dl_PhotoAssetIDs = dy_PhotoAssetIDs p, dl_IdempotencyKey = dy_IdempotencyKey p,
        dl_ReportedAt = e_now e\<rparr>))"

definition VerifyTaskInOrg :: "env \<Rightarrow> uuid \<Rightarrow> uuid \<Rightarrow> ('x site_db_scheme, unit) tx" where
  "VerifyTaskInOrg e taskID orgID =
     tbind (select_all e ''verify task in org'' (\<lambda>d. filter (\<lambda>t. pt_ID t = taskID \<and> in_org d orgID (pt_ProjectID t)) (fx_tasks d))) (\<lambda>rows.
       tguard (rows \<noteq> []) StoreNotFound)"

definition ProjectIDForTaskInOrg :: "env \<Rightarrow> uuid \<Rightarrow> uuid \<Rightarrow> ('x site_db_scheme, uuid) tx" where
  "ProjectIDForTaskInOrg e taskID orgID = tbind (select_one e ''project id for task in org''
     (\<lambda>d. filter (\<lambda>t. in_org d orgID (pt_ProjectID t)) (fx_tasks d)) (\<lambda>t. pt_ID t = taskID)) (\<lambda>t. tret (pt_ProjectID t))"

section \<open>Checks\<close>

definition MaxFieldNotesLength :: nat where "MaxFieldNotesLength = 4096"

definition requireFieldCaller :: "uuid \<Rightarrow> string \<Rightarrow> svc_error + unit" where
  "requireFieldCaller orgID sub =
     ebind (require_that (orgID \<noteq> uuid_nil) (InvalidInput ''org_id'')) (\<lambda>_. require_that (sub \<noteq> []) (InvalidInput ''oidc subject''))"

fun validateOptionalNotes :: "string option \<Rightarrow> svc_error + unit" where
  "validateOptionalNotes None = Inr ()"
| "validateOptionalNotes (Some s) = require_that (length s \<le> MaxFieldNotesLength) (InvalidInput ''text'')"

fun validateGPS :: "f64 option \<Rightarrow> f64 option \<Rightarrow> svc_error + unit" where
  "validateGPS None None = Inr ()"
| "validateGPS (Some lat) (Some lng) =
     ebind (require_that (\<not> (lat < -90 \<or> lat > 90)) (InvalidInput ''gps_lat'')) (\<lambda>_.
     require_that (\<not> (lng < -180 \<or> lng > 180)) (InvalidInput ''gps_lng''))"
| "validateGPS _ _ = Inl (InvalidInput ''gps_lat and gps_lng'')"

section \<open>The sync\<close>

record SyncOptions =
  so_CallerOrgID :: uuid
  so_CallerOIDCSubject :: string
  so_CallerRole :: string
  so_Since :: gotime

record FieldSyncResponse =
  fy_Tasks :: "ProjectTask list"
  fy_FeedCards :: "FeedCard list"
  fy_Equipment :: "FieldEquipment list"
  fy_ServerTime :: gotime

definition sync_body :: "(string \<Rightarrow> uuid option) \<Rightarrow> env \<Rightarrow> gotime \<Rightarrow> SyncOptions \<Rightarrow> ('x site_db_scheme, FieldSyncResponse) tx" where
  "sync_body parse e serverTime opts =
     tbind (LookupUserIDBySubject parse e (so_CallerOIDCSubject opts) (so_CallerOrgID opts)) (\<lambda>userID.
     tbind (ListAssignedTasks e \<lparr>la_UserID = userID, la_OrgID = so_CallerOrgID opts, la_Since = so_Since opts\<rparr>) (\<lambda>tasks.
     tbind (if so_CallerRole opts \<noteq> [] then
              tbind (ListFeedCards parse e \<lparr>lf_OrgID = so_CallerOrgID opts, lf_CallerOIDCSubject = so_CallerOIDCSubject opts,
                lf_CallerRole = so_CallerRole opts, lf_StatusFilter = [''active''], lf_PriorityFilter = [], lf_Limit = 50, lf_Offset = 0\<rparr>)
                (\<lambda>r. tret (fst r))
            else tret []) (\<lambda>cards.
     tbind (ListAllocatedEquipment e userID (so_CallerOrgID opts) serverTime) (\<lambda>equip.
     tret \<lparr>fy_Tasks = tasks, fy_FeedCards = cards, fy_Equipment = equip, fy_ServerTime = serverTime\<rparr>))))"

definition Sync :: "(string \<Rightarrow> uuid option) \<Rightarrow> env \<Rightarrow> gotime \<Rightarrow> SyncOptions \<Rightarrow> 'x site_db_scheme \<Rightarrow> svc_error + FieldSyncResponse" where
  "Sync parse e serverTime opts d =
     ebind (requireFieldCaller (so_CallerOrgID opts) (so_CallerOIDCSubject opts)) (\<lambda>_.
       fst (reported (BeginTxFunc e (sync_body parse e serverTime opts) d)))"

section \<open>The writes\<close>

text \<open>\<open>photos\<close> says whether a photo validator was wired; it is \<open>ValidatePhotoAssets\<close> of the asset service.\<close>

record ReportProgressInput =
  rx_TaskID :: uuid
  rx_PercentComplete :: int
  rx_Notes :: "string option"
  rx_PhotoAssetID :: "uuid option"
  rx_GPSLat :: "f64 option"
  rx_GPSLng :: "f64 option"
  rx_IdempotencyKey :: uuid

definition progress_json :: "TaskProgress \<Rightarrow> payload" where
  "progress_json r = [(''id'', JUuid (tk_ID r)), (''task_id'', JUuid (tk_TaskID r)), (''reported_by'', JUuid (tk_ReportedBy r)),
     (''percent_complete'', JInt (tk_PercentComplete r))] @ opt_field ''notes'' JStr (tk_Notes r) @
     opt_field ''photo_asset_id'' JUuid (tk_PhotoAssetID r) @ opt_field ''gps_lat'' JFloat (tk_GPSLat r) @
     opt_field ''gps_lng'' JFloat (tk_GPSLng r) @ [(''reported_via'', JStr (tk_ReportedVia r)),
     (''idempotency_key'', JUuid (tk_IdempotencyKey r)), (''reported_at'', JTime (tk_ReportedAt r))]"

definition progress_check :: "uuid \<Rightarrow> string \<Rightarrow> ReportProgressInput \<Rightarrow> svc_error + unit" where
  "progress_check orgID sub inp =
     ebind (requireFieldCaller orgID sub) (\<lambda>_.
     ebind (require_that (rx_TaskID inp \<noteq> uuid_nil) (InvalidInput ''task_id'')) (\<lambda>_.
     ebind (require_that (rx_IdempotencyKey inp \<noteq> uuid_nil) (InvalidInput ''idempotency_key'')) (\<lambda>_.
     ebind (require_that (\<not> (rx_PercentComplete inp < 0 \<or> rx_PercentComplete inp > 100)) (InvalidInput ''percent_complete'')) (\<lambda>_.
     ebind (validateOptionalNotes (rx_Notes inp)) (\<lambda>_. validateGPS (rx_GPSLat inp) (rx_GPSLng inp))))))"

definition progress_params :: "uuid \<Rightarrow> ReportProgressInput \<Rightarrow> ReportProgressParams" where
  "progress_params userID inp = \<lparr>rg_TaskID = rx_TaskID inp, rg_ReportedBy = userID, rg_PercentComplete = rx_PercentComplete inp,
     rg_Notes = rx_Notes inp, rg_PhotoAssetID = rx_PhotoAssetID inp, rg_GPSLat = rx_GPSLat inp, rg_GPSLng = rx_GPSLng inp,
     rg_ReportedVia = ReportedViaMobile, rg_IdempotencyKey = rx_IdempotencyKey inp\<rparr>"

definition progress_body :: "(string \<Rightarrow> uuid option) \<Rightarrow> bool \<Rightarrow> env \<Rightarrow> uuid \<Rightarrow> string \<Rightarrow> ReportProgressInput \<Rightarrow> ('x site_db_scheme, TaskProgress) tx" where
  "progress_body parse photos e orgID sub inp =
     tbind (LookupUserIDBySubject parse e sub orgID) (\<lambda>userID.
     tbind (ProjectIDForTaskInOrg e (rx_TaskID inp) orgID) (\<lambda>projectID.
     tbind (case rx_PhotoAssetID inp of Some a \<Rightarrow> if photos then ValidatePhotoAssets e orgID projectID [a] else tret () | None \<Rightarrow> tret ()) (\<lambda>_.
     tbind (ReportProgress_store e (progress_params userID inp)) (\<lambda>row.
     tbind (Record e \<lparr>ae_OrgID = orgID, ae_UserSub = sub, ae_Action = ''field.task_progress.reported'', ae_ResourceType = ''task_progress'',
       ae_ResourceID = tk_ID row, ae_Before = [], ae_After = progress_json row,
       ae_Metadata = [(''task_id'', JUuid (rx_TaskID inp)), (''percent_complete'', JInt (rx_PercentComplete inp)),
         (''reported_via'', JStr ReportedViaMobile)]\<rparr>) (\<lambda>_. tret row)))))"

definition ReportProgress :: "(string \<Rightarrow> uuid option) \<Rightarrow> bool \<Rightarrow> env \<Rightarrow> uuid \<Rightarrow> string \<Rightarrow> ReportProgressInput \<Rightarrow> 'x site_db_scheme \<Rightarrow>
    (svc_error + TaskProgress) \<times> 'x site_db_scheme" where
  "ReportProgress parse photos e orgID sub inp d = service_result (progress_check orgID sub inp) d
     (reported (BeginTxFunc e (progress_body parse photos e orgID sub inp) d))"

record CheckinInput =
  cd_ProjectID :: uuid
  cd_CrewMembers :: string
  cd_GPSLat :: "f64 option"
  cd_GPSLng :: "f64 option"
  cd_Notes :: "string option"
  cd_IdempotencyKey :: uuid

definition checkin_json :: "CrewCheckin \<Rightarrow> payload" where
  "checkin_json c = [(''id'', JUuid (ch_ID c)), (''org_id'', JUuid (ch_OrgID c)), (''project_id'', JUuid (ch_ProjectID c)),
     (''reported_by'', JUuid (ch_ReportedBy c)), (''crew_members'', ch_CrewMembers c)] @ opt_field ''gps_lat'' JFloat (ch_GPSLat c) @
     opt_field ''gps_lng'' JFloat (ch_GPSLng c) @ opt_field ''notes'' JStr (ch_Notes c) @
     [(''idempotency_key'', JUuid (ch_IdempotencyKey c)), (''reported_at'', JTime (ch_ReportedAt c))]"

definition checkin_check :: "uuid \<Rightarrow> string \<Rightarrow> CheckinInput \<Rightarrow> svc_error + unit" where
  "checkin_check orgID sub inp =
     ebind (requireFieldCaller orgID sub) (\<lambda>_.
     ebind (require_that (cd_ProjectID inp \<noteq> uuid_nil) (InvalidInput ''project_id'')) (\<lambda>_.
     ebind (require_that (cd_IdempotencyKey inp \<noteq> uuid_nil) (InvalidInput ''idempotency_key'')) (\<lambda>_.
     ebind (validateOptionalNotes (cd_Notes inp)) (\<lambda>_. validateGPS (cd_GPSLat inp) (cd_GPSLng inp)))))"

definition checkin_body :: "(string \<Rightarrow> uuid option) \<Rightarrow> (string \<Rightarrow> json option) \<Rightarrow> env \<Rightarrow> uuid \<Rightarrow> string \<Rightarrow> CheckinInput \<Rightarrow>
    ('x site_db_scheme, CrewCheckin) tx" where
  "checkin_body parse jsonb e orgID sub inp =
     tbind (LookupUserIDBySubject parse e sub orgID) (\<lambda>userID.
     tbind (VerifyProjectInOrg e (cd_ProjectID inp) orgID) (\<lambda>_.
     tbind (Checkin_store jsonb e \<lparr>cm_OrgID = orgID, cm_ProjectID = cd_ProjectID inp, cm_ReportedBy = userID,
       cm_CrewMembers = cd_CrewMembers inp, cm_GPSLat = cd_GPSLat inp, cm_GPSLng = cd_GPSLng inp, cm_Notes = cd_Notes inp,
       cm_IdempotencyKey = cd_IdempotencyKey inp\<rparr>) (\<lambda>row.
     tbind (Record e \<lparr>ae_OrgID = orgID, ae_UserSub = sub, ae_Action = ''field.crew_checkin.recorded'', ae_ResourceType = ''crew_checkin'',
       ae_ResourceID = ch_ID row, ae_Before = [], ae_After = checkin_json row,
       ae_Metadata = [(''project_id'', JUuid (cd_ProjectID inp))]\<rparr>) (\<lambda>_. tret row))))"

definition Checkin :: "(string \<Rightarrow> uuid option) \<Rightarrow> (string \<Rightarrow> json option) \<Rightarrow> env \<Rightarrow> uuid \<Rightarrow> string \<Rightarrow> CheckinInput \<Rightarrow> 'x site_db_scheme \<Rightarrow>
    (svc_error + CrewCheckin) \<times> 'x site_db_scheme" where
  "Checkin parse jsonb e orgID sub inp d = service_result (checkin_check orgID sub inp) d
     (reported (BeginTxFunc e (checkin_body parse jsonb e orgID sub inp) d))"

record DailyLogInput =
  dg_ProjectID :: uuid
  dg_LogDate :: gotime
  dg_WeatherConditions :: "string option"
  dg_WorkSummary :: string
  dg_SafetyIncidents :: "string option"
  dg_PhotoAssetIDs :: "uuid list"
  dg_IdempotencyKey :: uuid

definition log_json :: "DailyLog \<Rightarrow> payload" where
  "log_json l = [(''id'', JUuid (dl_ID l)), (''org_id'', JUuid (dl_OrgID l)), (''project_id'', JUuid (dl_ProjectID l)),
     (''reported_by'', JUuid (dl_ReportedBy l)), (''log_date'', JTime (dl_LogDate l))] @
     opt_field ''weather_conditions'' JStr (dl_WeatherConditions l) @ [(''work_summary'', JStr (dl_WorkSummary l))] @
     opt_field ''safety_incidents'' JStr (dl_SafetyIncidents l) @
     (if dl_PhotoAssetIDs l = [] then [] else [(''photo_asset_ids'', JList (List.map JUuid (dl_PhotoAssetIDs l)))]) @
     [(''idempotency_key'', JUuid (dl_IdempotencyKey l)), (''reported_at'', JTime (dl_ReportedAt l))]"

definition log_check :: "uuid \<Rightarrow> string \<Rightarrow> DailyLogInput \<Rightarrow> svc_error + unit" where
  "log_check orgID sub inp =
     ebind (requireFieldCaller orgID sub) (\<lambda>_.
     ebind (require_that (dg_ProjectID inp \<noteq> uuid_nil) (InvalidInput ''project_id'')) (\<lambda>_.
     ebind (require_that (dg_IdempotencyKey inp \<noteq> uuid_nil) (InvalidInput ''idempotency_key'')) (\<lambda>_.
     ebind (require_that (dg_LogDate inp \<noteq> zero_time) (InvalidInput ''log_date'')) (\<lambda>_.
     ebind (require_that (trim_space (dg_WorkSummary inp) \<noteq> []) (InvalidInput ''work_summary'')) (\<lambda>_.
     ebind (require_that (length (dg_WorkSummary inp) \<le> MaxFieldNotesLength) (InvalidInput ''work_summary'')) (\<lambda>_.
     ebind (validateOptionalNotes (dg_WeatherConditions inp)) (\<lambda>_.
     ebind (validateOptionalNotes (dg_SafetyIncidents inp)) (\<lambda>_.
     require_that (length (dg_PhotoAssetIDs inp) \<le> MaxAssetsPerDailyLog) (InvalidInput ''photos'')))))))))"

definition log_params :: "uuid \<Rightarrow> uuid \<Rightarrow> DailyLogInput \<Rightarrow> DailyLogParams" where
  "log_params orgID userID inp = \<lparr>dy_OrgID = orgID, dy_ProjectID = dg_ProjectID inp, dy_ReportedBy = userID, dy_LogDate = dg_LogDate inp,
     dy_WeatherConditions = dg_WeatherConditions inp, dy_WorkSummary = dg_WorkSummary inp, dy_SafetyIncidents = dg_SafetyIncidents inp,
     dy_PhotoAssetIDs = dg_PhotoAssetIDs inp, dy_IdempotencyKey = dg_IdempotencyKey inp\<rparr>"

definition log_entry :: "uuid \<Rightarrow> string \<Rightarrow> DailyLogInput \<Rightarrow> DailyLog \<Rightarrow> AuditEntry" where
  "log_entry orgID sub inp row = \<lparr>ae_OrgID = orgID, ae_UserSub = sub, ae_Action = ''field.daily_log.recorded'',
     ae_ResourceType = ''daily_log'', ae_ResourceID = dl_ID row, ae_Before = [], ae_After = log_json row,
     ae_Metadata = [(''project_id'', JUuid (dg_ProjectID inp)), (''log_date'', JTime (dg_LogDate inp))]\<rparr>"

definition log_body :: "(string \<Rightarrow> uuid option) \<Rightarrow> bool \<Rightarrow> env \<Rightarrow> uuid \<Rightarrow> string \<Rightarrow> DailyLogInput \<Rightarrow> ('x site_db_scheme, DailyLog) tx" where
  "log_body parse photos e orgID sub inp =
     tbind (LookupUserIDBySubject parse e sub orgID) (\<lambda>userID.
     tbind (VerifyProjectInOrg e (dg_ProjectID inp) orgID) (\<lambda>_.
     tbind (if photos \<and> dg_PhotoAssetIDs inp \<noteq> [] then ValidatePhotoAssets e orgID (dg_ProjectID inp) (dg_PhotoAssetIDs inp) else tret ()) (\<lambda>_.
     tbind (DailyLog_store e (log_params orgID userID inp)) (\<lambda>row.
     tbind (Record e (log_entry orgID sub inp row)) (\<lambda>_. tret row)))))"

definition DailyLog_svc :: "(string \<Rightarrow> uuid option) \<Rightarrow> bool \<Rightarrow> env \<Rightarrow> uuid \<Rightarrow> string \<Rightarrow> DailyLogInput \<Rightarrow> 'x site_db_scheme \<Rightarrow>
    (svc_error + DailyLog) \<times> 'x site_db_scheme" where
  "DailyLog_svc parse photos e orgID sub inp d = service_result (log_check orgID sub inp) d
     (reported (BeginTxFunc e (log_body parse photos e orgID sub inp) d))"

end
