(* ===== verification/Reports.thy ===== *)
theory Reports
  imports Field
begin

text \<open>
  Daily reports: internal/models/dailyreport.go, internal/store/reports.go, internal/service/reports.go and the two report
  tasks of internal/ai/tasks.go. A report is no row: it is put together from the logs, check-ins and progress of a day.
\<close>

section \<open>The store\<close>

definition task_row :: "'x site_db_scheme \<Rightarrow> uuid \<Rightarrow> ProjectTask option" where
  "task_row d taskID = List.find (\<lambda>t. pt_ID t = taskID) (fx_tasks d)"

definition progress_of :: "'x site_db_scheme \<Rightarrow> uuid \<Rightarrow> uuid \<Rightarrow> TaskProgress list" where
  "progress_of d orgID projectID = filter (\<lambda>r. case task_row d (tk_TaskID r) of
     None \<Rightarrow> False | Some t \<Rightarrow> pt_ProjectID t = projectID \<and> in_org d orgID projectID) (st_progress d)"

definition checkins_of :: "'x site_db_scheme \<Rightarrow> uuid \<Rightarrow> uuid \<Rightarrow> CrewCheckin list" where
  "checkins_of d orgID projectID = filter (\<lambda>c. ch_OrgID c = orgID \<and> ch_ProjectID c = projectID) (st_checkins d)"

definition logs_of :: "'x site_db_scheme \<Rightarrow> uuid \<Rightarrow> uuid \<Rightarrow> DailyLog list" where
  "logs_of d orgID projectID = filter (\<lambda>l. dl_OrgID l = orgID \<and> dl_ProjectID l = projectID) (st_logs d)"

definition activity_dates :: "'x site_db_scheme \<Rightarrow> uuid \<Rightarrow> uuid \<Rightarrow> gotime list" where
  "activity_dates d orgID projectID = List.map dl_LogDate (logs_of d orgID projectID) @
     List.map (\<lambda>c. to_date (ch_ReportedAt c)) (checkins_of d orgID projectID) @
     List.map (\<lambda>r. to_date (tk_ReportedAt r)) (progress_of d orgID projectID)"

definition ListDailyReportDates :: "env \<Rightarrow> uuid \<Rightarrow> uuid \<Rightarrow> int \<Rightarrow> ('x site_db_scheme, gotime list) tx" where
  "ListDailyReportDates e orgID projectID limit = select_all e ''list daily report dates''
     (\<lambda>d. take (nat (if limit \<le> 0 then 60 else limit)) (rev (sort (remdups (activity_dates d orgID projectID)))))"

record DailyLogFields =
  df_ProjectID :: uuid
  df_ReportedBy :: uuid
  df_LogDate :: gotime
  df_WeatherConditions :: string
  df_WorkSummary :: string
  df_SafetyIncidents :: string
  df_PhotoAssetIDs :: "uuid list"
  df_ReportedAt :: gotime

definition log_fields :: "DailyLog \<Rightarrow> DailyLogFields" where
  "log_fields l = \<lparr>df_ProjectID = dl_ProjectID l, df_ReportedBy = dl_ReportedBy l, df_LogDate = dl_LogDate l,
     df_WeatherConditions = coalesce (dl_WeatherConditions l) [], df_WorkSummary = dl_WorkSummary l,
     df_SafetyIncidents = coalesce (dl_SafetyIncidents l) [], df_PhotoAssetIDs = dl_PhotoAssetIDs l, df_ReportedAt = dl_ReportedAt l\<rparr>"

definition DailyLogFieldsByProjectDate :: "env \<Rightarrow> uuid \<Rightarrow> uuid \<Rightarrow> gotime \<Rightarrow> ('x site_db_scheme, DailyLogFields option) tx" where
  "DailyLogFieldsByProjectDate e orgID projectID day =
     tbind (select_all e ''get daily log by date'' (\<lambda>d. day_logs orgID projectID day (st_logs d))) (\<lambda>rows.
       tret (map_option log_fields (latest dl_ReportedAt rows)))"

definition crew_size :: "CrewCheckin \<Rightarrow> int" where
  "crew_size c = (case ch_CrewMembers c of JList ms \<Rightarrow> int (length ms) | _ \<Rightarrow> 0)"

definition CrewCountByProjectDate :: "env \<Rightarrow> uuid \<Rightarrow> uuid \<Rightarrow> gotime \<Rightarrow> ('x site_db_scheme, int) tx" where
  "CrewCountByProjectDate e orgID projectID day =
     tbind (select_all e ''crew count by date'' (\<lambda>d. filter (\<lambda>c. to_date (ch_ReportedAt c) = to_date day) (checkins_of d orgID projectID))) (\<lambda>rows.
     let n = sum_list (List.map crew_size rows) in
     tbind (tguard (int4_ok n) (DbError ''crew count by date'')) (\<lambda>_. tret n))"

record TaskProgressLine =
  tl_TaskID :: uuid
  tl_WBSCode :: string
  tl_Name :: string
  tl_PercentComplete :: int
  tl_Notes :: string
  tl_ReportedAt :: gotime

definition progress_line :: "ProjectTask \<Rightarrow> TaskProgress \<Rightarrow> TaskProgressLine" where
  "progress_line t r = \<lparr>tl_TaskID = tk_TaskID r, tl_WBSCode = pt_WBSCode t, tl_Name = pt_Name t,
     tl_PercentComplete = tk_PercentComplete r, tl_Notes = coalesce (tk_Notes r) [], tl_ReportedAt = tk_ReportedAt r\<rparr>"

definition day_progress :: "'x site_db_scheme \<Rightarrow> uuid \<Rightarrow> uuid \<Rightarrow> gotime \<Rightarrow> TaskProgressLine list" where
  "day_progress d orgID projectID day =
     List.map (\<lambda>r. progress_line (the (task_row d (tk_TaskID r))) r)
       (order_desc tk_ReportedAt (filter (\<lambda>r. to_date (tk_ReportedAt r) = to_date day) (progress_of d orgID projectID)))"

definition TaskProgressByProjectDate :: "env \<Rightarrow> uuid \<Rightarrow> uuid \<Rightarrow> gotime \<Rightarrow> ('x site_db_scheme, TaskProgressLine list) tx" where
  "TaskProgressByProjectDate e orgID projectID day = select_all e ''task progress by date'' (\<lambda>d. day_progress d orgID projectID day)"

section \<open>The report of a day\<close>

record PhotoRef =
  ph_AssetID :: uuid
  ph_ThumbURL :: string

record DailyReport =
  re_ProjectID :: uuid
  re_ProjectName :: string
  re_LogDate :: gotime
  re_WeatherConditions :: string
  re_WorkSummary :: string
  re_SafetyIncidents :: string
  re_Photos :: "PhotoRef list"
  re_PhotoCount :: nat
  re_ReportedBy :: uuid
  re_CrewCount :: int
  re_TaskProgress :: "TaskProgressLine list"
  re_ReportedAt :: gotime
  re_HasLog :: bool

definition empty_report :: "uuid \<Rightarrow> gotime \<Rightarrow> DailyReport" where
  "empty_report projectID day = \<lparr>re_ProjectID = projectID, re_ProjectName = [], re_LogDate = truncateDay day, re_WeatherConditions = [],
     re_WorkSummary = [], re_SafetyIncidents = [], re_Photos = [], re_PhotoCount = 0, re_ReportedBy = uuid_nil, re_CrewCount = 0,
     re_TaskProgress = [], re_ReportedAt = zero_time, re_HasLog = False\<rparr>"

definition with_log :: "DailyLogFields \<Rightarrow> DailyReport \<Rightarrow> DailyReport" where
  "with_log l r = r\<lparr>re_HasLog := True, re_WeatherConditions := df_WeatherConditions l, re_WorkSummary := df_WorkSummary l,
     re_SafetyIncidents := df_SafetyIncidents l, re_ReportedBy := df_ReportedBy l, re_ReportedAt := df_ReportedAt l,
     re_PhotoCount := length (df_PhotoAssetIDs l), re_Photos := List.map (\<lambda>i. \<lparr>ph_AssetID = i, ph_ThumbURL = []\<rparr>) (df_PhotoAssetIDs l)\<rparr>"

definition assemble :: "env \<Rightarrow> uuid \<Rightarrow> uuid \<Rightarrow> gotime \<Rightarrow> ('x site_db_scheme, DailyReport) tx" where
  "assemble e orgID projectID day =
     tbind (DailyLogFieldsByProjectDate e orgID projectID day) (\<lambda>lf.
     tbind (CrewCountByProjectDate e orgID projectID day) (\<lambda>crew.
     tbind (TaskProgressByProjectDate e orgID projectID day) (\<lambda>progress.
     let r0 = (case lf of None \<Rightarrow> empty_report projectID day | Some l \<Rightarrow> with_log l (empty_report projectID day));
         r = r0\<lparr>re_CrewCount := crew, re_TaskProgress := progress\<rparr> in
     tret (if re_ReportedAt r = zero_time \<and> progress \<noteq> [] then r\<lparr>re_ReportedAt := tl_ReportedAt (hd progress)\<rparr> else r))))"

record DailyReportSummary =
  ry_ProjectID :: uuid
  ry_LogDate :: gotime
  ry_WeatherConditions :: string
  ry_WorkSummary :: string
  ry_HasSafetyIncident :: bool
  ry_PhotoCount :: nat
  ry_CrewCount :: int
  ry_TaskProgressCount :: nat
  ry_ReportedAt :: gotime

definition buildSummary :: "env \<Rightarrow> uuid \<Rightarrow> uuid \<Rightarrow> gotime \<Rightarrow> ('x site_db_scheme, DailyReportSummary) tx" where
  "buildSummary e orgID projectID day = tbind (assemble e orgID projectID day) (\<lambda>r.
     tret \<lparr>ry_ProjectID = projectID, ry_LogDate = re_LogDate r, ry_WeatherConditions = re_WeatherConditions r,
       ry_WorkSummary = re_WorkSummary r, ry_HasSafetyIncident = (trim_space (re_SafetyIncidents r) \<noteq> []),
       ry_PhotoCount = re_PhotoCount r, ry_CrewCount = re_CrewCount r, ry_TaskProgressCount = length (re_TaskProgress r),
       ry_ReportedAt = re_ReportedAt r\<rparr>)"

definition in_window :: "gotime \<Rightarrow> gotime \<Rightarrow> gotime \<Rightarrow> bool" where
  "in_window since until t \<longleftrightarrow> \<not> (since \<noteq> zero_time \<and> t < truncateDay since) \<and> \<not> (until \<noteq> zero_time \<and> t > truncateDay until)"

fun summaries :: "env \<Rightarrow> uuid \<Rightarrow> uuid \<Rightarrow> gotime \<Rightarrow> gotime \<Rightarrow> gotime list \<Rightarrow> ('x site_db_scheme, DailyReportSummary list) tx" where
  "summaries e orgID projectID since until [] = tret []"
| "summaries e orgID projectID since until (t # ts) =
     (if in_window since until t
      then tbind (buildSummary e orgID projectID t) (\<lambda>s. tbind (summaries e orgID projectID since until ts) (\<lambda>ss. tret (s # ss)))
      else summaries e orgID projectID since until ts)"

definition ListProjectReports :: "env \<Rightarrow> uuid \<Rightarrow> uuid \<Rightarrow> gotime \<Rightarrow> gotime \<Rightarrow> 'x site_db_scheme \<Rightarrow> svc_error + DailyReportSummary list" where
  "ListProjectReports e orgID projectID since until d =
     ebind (require_that (orgID \<noteq> uuid_nil \<and> projectID \<noteq> uuid_nil) (InvalidInput ''org_id and project_id'')) (\<lambda>_.
     fst (reported (BeginTxFunc e
       (tbind (VerifyProjectInOrg e projectID orgID) (\<lambda>_.
        tbind (ListDailyReportDates e orgID projectID 0) (\<lambda>dates. summaries e orgID projectID since until dates))) d)))"

definition defaultReportWindowDays :: int where "defaultReportWindowDays = 14"

definition DefaultReportWindow :: "gotime \<Rightarrow> gotime \<times> gotime" where
  "DefaultReportWindow now = (add_days (truncateDay now) (- defaultReportWindowDays), truncateDay now)"

section \<open>The service\<close>

text \<open>
  The two compositions are tasks of the AI client; \<open>callText\<close> and \<open>callTool\<close> are its calls out of the program, which see
  nothing but the JSON of the request.
\<close>

record DailyReportDigestRequest =
  gr_ProjectName :: string
  gr_LogDate :: string
  gr_WeatherConditions :: string
  gr_WorkSummary :: string
  gr_SafetyIncidents :: string
  gr_CrewCount :: int
  gr_PhotoCount :: nat
  gr_TaskProgress :: "string list"

record ClientProgressUpdateRequest =
  hr_ProjectName :: string
  hr_PeriodStart :: string
  hr_PeriodEnd :: string
  hr_WeatherConditions :: string
  hr_WorkSummary :: string
  hr_HighlightLines :: "string list"
  hr_PhotoCount :: nat

definition omit_empty :: "string \<Rightarrow> string \<Rightarrow> payload" where
  "omit_empty k s = (if s = [] then [] else [(k, JStr s)])"

definition omit_empty_list :: "string \<Rightarrow> string list \<Rightarrow> payload" where
  "omit_empty_list k ss = (if ss = [] then [] else [(k, JList (List.map JStr ss))])"

definition digest_prompt :: "DailyReportDigestRequest \<Rightarrow> payload" where
  "digest_prompt r = [(''project_name'', JStr (gr_ProjectName r)), (''log_date'', JStr (gr_LogDate r))] @
     omit_empty ''weather_conditions'' (gr_WeatherConditions r) @ omit_empty ''work_summary'' (gr_WorkSummary r) @
     omit_empty ''safety_incidents'' (gr_SafetyIncidents r) @
     [(''crew_count'', JInt (gr_CrewCount r)), (''photo_count'', JInt (int (gr_PhotoCount r)))] @
     omit_empty_list ''task_progress'' (gr_TaskProgress r)"

definition client_prompt :: "ClientProgressUpdateRequest \<Rightarrow> payload" where
  "client_prompt r = [(''project_name'', JStr (hr_ProjectName r)), (''period_start'', JStr (hr_PeriodStart r)),
     (''period_end'', JStr (hr_PeriodEnd r))] @ omit_empty ''weather_conditions'' (hr_WeatherConditions r) @
     omit_empty ''work_summary'' (hr_WorkSummary r) @ omit_empty_list ''highlight_lines'' (hr_HighlightLines r) @
     [(''photo_count'', JInt (int (hr_PhotoCount r)))]"

definition DailyReportDigest :: "(payload \<Rightarrow> svc_error + string) \<Rightarrow> DailyReportDigestRequest \<Rightarrow> svc_error + string" where
  "DailyReportDigest callText r =
     ebind (require_that (gr_ProjectName r \<noteq> []) (Internal ''project_name is required'')) (\<lambda>_. callText (digest_prompt r))"

definition ClientProgressUpdate :: "(payload \<Rightarrow> svc_error + (string \<times> string)) \<Rightarrow> ClientProgressUpdateRequest \<Rightarrow> svc_error + (string \<times> string)" where
  "ClientProgressUpdate callTool r =
     ebind (require_that (hr_ProjectName r \<noteq> []) (Internal ''project_name is required'')) (\<lambda>_. callTool (client_prompt r))"

text \<open>\<open>rs_photos\<close> mints the URL of a photo; the AI clients are absent in the worker.\<close>

record reports_service =
  rs_photos :: "(uuid \<Rightarrow> uuid \<Rightarrow> duration \<Rightarrow> svc_error + string) option"
  rs_digester :: "(payload \<Rightarrow> svc_error + string) option"
  rs_drafter :: "(payload \<Rightarrow> svc_error + (string \<times> string)) option"

definition reportThumbTTL :: duration where "reportThumbTTL = 15 * minute"

fun resolve_refs :: "(uuid \<Rightarrow> svc_error + string) \<Rightarrow> PhotoRef list \<Rightarrow> PhotoRef list" where
  "resolve_refs url [] = []"
| "resolve_refs url (p # ps) = (case url (ph_AssetID p) of
     Inl err \<Rightarrow> resolve_refs url ps
   | Inr u \<Rightarrow> \<lparr>ph_AssetID = ph_AssetID p, ph_ThumbURL = u\<rparr> # resolve_refs url ps)"

definition resolvePhotos :: "reports_service \<Rightarrow> uuid \<Rightarrow> DailyReport \<Rightarrow> DailyReport" where
  "resolvePhotos rs orgID r = (case rs_photos rs of
     None \<Rightarrow> r\<lparr>re_Photos := []\<rparr>
   | Some url \<Rightarrow> r\<lparr>re_Photos := resolve_refs (\<lambda>i. url orgID i reportThumbTTL) (re_Photos r)\<rparr>)"

definition GetProjectReport :: "reports_service \<Rightarrow> env \<Rightarrow> uuid \<Rightarrow> uuid \<Rightarrow> gotime \<Rightarrow> 'x site_db_scheme \<Rightarrow> svc_error + DailyReport" where
  "GetProjectReport rs e orgID projectID day d =
     ebind (require_that (orgID \<noteq> uuid_nil \<and> projectID \<noteq> uuid_nil) (InvalidInput ''org_id and project_id'')) (\<lambda>_.
     ebind (require_that (day \<noteq> zero_time) (InvalidInput ''date'')) (\<lambda>_.
     ebind (fst (reported (BeginTxFunc e
       (tbind (VerifyProjectInOrg e projectID orgID) (\<lambda>_.
        tbind (GetByID e projectID orgID) (\<lambda>project.
        tbind (assemble e orgID projectID day) (\<lambda>r. tret (r\<lparr>re_ProjectName := pj_Name project\<rparr>))))) d))) (\<lambda>report.
     Inr (resolvePhotos rs orgID report))))"

text \<open>The dash of a task line is U+2014, three bytes of UTF-8.\<close>

definition em_dash :: string where
  "em_dash = [CHR 0xE2, CHR 0x80, CHR 0x94]"

definition task_line :: "TaskProgressLine \<Rightarrow> string" where
  "task_line l = tl_WBSCode l @ '' '' @ tl_Name l @ '' '' @ em_dash @ '' '' @ show_int (tl_PercentComplete l) @ ''%''"

definition taskProgressLines :: "TaskProgressLine list \<Rightarrow> string list" where
  "taskProgressLines progress = List.map task_line progress"

definition buildClientRequest :: "DailyReport \<Rightarrow> ClientProgressUpdateRequest" where
  "buildClientRequest r = \<lparr>hr_ProjectName = re_ProjectName r, hr_PeriodStart = format_date (re_LogDate r),
     hr_PeriodEnd = format_date (re_LogDate r), hr_WeatherConditions = re_WeatherConditions r, hr_WorkSummary = re_WorkSummary r,
     hr_HighlightLines = List.map task_line (re_TaskProgress r), hr_PhotoCount = re_PhotoCount r\<rparr>"

text \<open>The audit row of a composition rides a transaction of its own, whose failure nobody sees.\<close>

definition recordReport :: "env \<Rightarrow> uuid \<Rightarrow> string \<Rightarrow> string \<Rightarrow> uuid \<Rightarrow> payload \<Rightarrow> 'x site_db_scheme \<Rightarrow> 'x site_db_scheme" where
  "recordReport e orgID sub action projectID meta d = snd (BeginTxFunc e (Record e
     \<lparr>ae_OrgID = orgID, ae_UserSub = sub, ae_Action = action, ae_ResourceType = ''daily_report'', ae_ResourceID = projectID,
      ae_Before = [], ae_After = [], ae_Metadata = meta\<rparr>) d)"

definition digest_request :: "DailyReport \<Rightarrow> DailyReportDigestRequest" where
  "digest_request r = \<lparr>gr_ProjectName = re_ProjectName r, gr_LogDate = format_date (re_LogDate r),
     gr_WeatherConditions = re_WeatherConditions r, gr_WorkSummary = re_WorkSummary r, gr_SafetyIncidents = re_SafetyIncidents r,
     gr_CrewCount = re_CrewCount r, gr_PhotoCount = re_PhotoCount r, gr_TaskProgress = taskProgressLines (re_TaskProgress r)\<rparr>"

definition GenerateDigest :: "reports_service \<Rightarrow> env \<Rightarrow> env \<Rightarrow> uuid \<Rightarrow> string \<Rightarrow> uuid \<Rightarrow> gotime \<Rightarrow> 'x site_db_scheme \<Rightarrow>
    (svc_error + string) \<times> 'x site_db_scheme" where
  "GenerateDigest rs e e' orgID sub projectID day d = (case rs_digester rs of
     None \<Rightarrow> (Inl ReportsAIUnavailable, d)
   | Some callText \<Rightarrow>
       (case ebind (GetProjectReport rs e orgID projectID day d) (\<lambda>report.
              ebind (DailyReportDigest callText (digest_request report)) (\<lambda>text. Inr (report, text))) of
          Inl err \<Rightarrow> (Inl err, d)
        | Inr (report, text) \<Rightarrow> (Inr text, recordReport e' orgID sub ''report.digest.generated'' projectID
            [(''log_date'', JStr (format_date (re_LogDate report))), (''task_progress_count'', JInt (int (length (re_TaskProgress report)))),
             (''photo_count'', JInt (int (re_PhotoCount report)))] d)))"

record ClientUpdateDraft =
  cn_Subject :: string
  cn_Body :: string
  cn_PeriodStart :: gotime
  cn_PeriodEnd :: gotime
  cn_PhotoCount :: nat

definition DraftClientUpdate :: "reports_service \<Rightarrow> env \<Rightarrow> env \<Rightarrow> uuid \<Rightarrow> string \<Rightarrow> uuid \<Rightarrow> gotime \<Rightarrow> 'x site_db_scheme \<Rightarrow>
    (svc_error + ClientUpdateDraft) \<times> 'x site_db_scheme" where
  "DraftClientUpdate rs e e' orgID sub projectID day d = (case rs_drafter rs of
     None \<Rightarrow> (Inl ReportsAIUnavailable, d)
   | Some callTool \<Rightarrow>
       (case ebind (GetProjectReport rs e orgID projectID day d) (\<lambda>report.
              ebind (ClientProgressUpdate callTool (buildClientRequest report)) (\<lambda>text. Inr (report, text))) of
          Inl err \<Rightarrow> (Inl err, d)
        | Inr (report, subject, body) \<Rightarrow>
            (Inr \<lparr>cn_Subject = subject, cn_Body = body, cn_PeriodStart = re_LogDate report, cn_PeriodEnd = re_LogDate report,
               cn_PhotoCount = re_PhotoCount report\<rparr>,
             recordReport e' orgID sub ''client_update.drafted'' projectID
               [(''period_start'', JStr (format_date (re_LogDate report))), (''period_end'', JStr (format_date (re_LogDate report))),
                (''photo_count'', JInt (int (re_PhotoCount report)))] d)))"

end
