(* ===== verification/Client_Updates.thy ===== *)
theory Client_Updates
  imports Reports
begin

text \<open>
  Updates for the homeowner: internal/store/client_updates.go and internal/service/client_update.go. An update is a draft
  until an operator sends it; it is marked sent before the mail goes out, and failed after a mail that did not.
\<close>

section \<open>The store\<close>

record CreateClientUpdateParams =
  cz_OrgID :: uuid
  cz_ProjectID :: uuid
  cz_PeriodStart :: gotime
  cz_PeriodEnd :: gotime
  cz_AIDraft :: "string option"
  cz_EditedBody :: string
  cz_Subject :: string
  cz_PhotoAssetIDs :: "uuid list"
  cz_CreatedBy :: uuid

definition update_Create :: "env \<Rightarrow> CreateClientUpdateParams \<Rightarrow> ('x site_db_scheme, ClientUpdate) tx" where
  "update_Create e p = insert_returning e ''insert client_update'' st_updates st_updates_update
     (\<lambda>d. cz_OrgID p \<in> set (db_orgs d) \<and> cz_ProjectID p \<in> pj_ID ` set (db_projects d) \<and> cz_CreatedBy p \<in> fst ` set (st_members d))
     hu_ID (\<lambda>_ _. False)
     (\<lambda>_ u. \<lparr>hu_ID = u, hu_OrgID = cz_OrgID p, hu_ProjectID = cz_ProjectID p, hu_PeriodStart = to_date (cz_PeriodStart p),
        hu_PeriodEnd = to_date (cz_PeriodEnd p), hu_Status = ClientUpdateStatusDraft, hu_AIDraft = cz_AIDraft p,
        hu_EditedBody = cz_EditedBody p, hu_Subject = cz_Subject p, hu_PhotoAssetIDs = cz_PhotoAssetIDs p, hu_RecipientEmail = None,
        hu_CreatedBy = cz_CreatedBy p, hu_SentBy = None, hu_SentAt = None, hu_SendError = None, hu_CreatedAt = e_now e,
        hu_UpdatedAt = e_now e\<rparr>)"

definition update_GetByID :: "env \<Rightarrow> uuid \<Rightarrow> uuid \<Rightarrow> ('x site_db_scheme, ClientUpdate) tx" where
  "update_GetByID e orgID uid = select_one e ''get client_update'' st_updates (\<lambda>c. hu_ID c = uid \<and> hu_OrgID c = orgID)"

definition update_ListByProject :: "env \<Rightarrow> uuid \<Rightarrow> uuid \<Rightarrow> ('x site_db_scheme, ClientUpdate list) tx" where
  "update_ListByProject e orgID projectID = select_all e ''list client_updates by project''
     (\<lambda>d. order_desc hu_CreatedAt (filter (\<lambda>c. hu_OrgID c = orgID \<and> hu_ProjectID c = projectID) (st_updates d)))"

record UpdateDraftParams =
  ux_OrgID :: uuid
  ux_ID :: uuid
  ux_Subject :: string
  ux_EditedBody :: string
  ux_PhotoAssetIDs :: "uuid list"

definition edited :: "env \<Rightarrow> UpdateDraftParams \<Rightarrow> ClientUpdate \<Rightarrow> ClientUpdate" where
  "edited e p c = c\<lparr>hu_Subject := ux_Subject p, hu_EditedBody := ux_EditedBody p, hu_PhotoAssetIDs := ux_PhotoAssetIDs p,
     hu_Status := ClientUpdateStatusDraft, hu_SendError := None, hu_UpdatedAt := e_now e\<rparr>"

definition UpdateDraft_store :: "env \<Rightarrow> UpdateDraftParams \<Rightarrow> ('x site_db_scheme, ClientUpdate) tx" where
  "UpdateDraft_store e p = update_returning e ''update client_update draft'' st_updates st_updates_update
     (\<lambda>c. hu_ID c = ux_ID p \<and> hu_OrgID c = ux_OrgID p \<and> (hu_Status c = ClientUpdateStatusDraft \<or> hu_Status c = ClientUpdateStatusFailed))
     (edited e p)"

record MarkSentParams =
  mx_OrgID :: uuid
  mx_ID :: uuid
  mx_RecipientEmail :: string
  mx_SentBy :: uuid

definition marked_sent :: "env \<Rightarrow> MarkSentParams \<Rightarrow> ClientUpdate \<Rightarrow> ClientUpdate" where
  "marked_sent e p c = c\<lparr>hu_Status := ClientUpdateStatusSent, hu_RecipientEmail := Some (mx_RecipientEmail p),
     hu_SentBy := Some (mx_SentBy p), hu_SentAt := Some (e_now e), hu_SendError := None, hu_UpdatedAt := e_now e\<rparr>"

definition MarkSent :: "env \<Rightarrow> MarkSentParams \<Rightarrow> ('x site_db_scheme, ClientUpdate) tx" where
  "MarkSent e p = update_returning e ''mark client_update sent'' st_updates st_updates_update
     (\<lambda>c. hu_ID c = mx_ID p \<and> hu_OrgID c = mx_OrgID p \<and> hu_Status c \<noteq> ClientUpdateStatusSent) (marked_sent e p)"

definition marked_failed :: "env \<Rightarrow> string \<Rightarrow> ClientUpdate \<Rightarrow> ClientUpdate" where
  "marked_failed e reason c = c\<lparr>hu_Status := ClientUpdateStatusFailed, hu_SendError := Some reason, hu_UpdatedAt := e_now e\<rparr>"

definition update_MarkFailed :: "env \<Rightarrow> uuid \<Rightarrow> uuid \<Rightarrow> string \<Rightarrow> ('x site_db_scheme, ClientUpdate) tx" where
  "update_MarkFailed e orgID uid reason = update_returning e ''mark client_update failed'' st_updates st_updates_update
     (\<lambda>c. hu_ID c = uid \<and> hu_OrgID c = orgID) (marked_failed e reason)"

section \<open>The mail\<close>

definition emailPhotoTTL :: duration where "emailPhotoTTL = 7 * day24"

record Message =
  mg_To :: string
  mg_Subject :: string
  mg_TextBody :: string
  mg_HTMLBody :: string

definition newline :: char where "newline = CHR 0x0A"

text \<open>\<open>html.EscapeString\<close>.\<close>

definition escape_char :: "char \<Rightarrow> string" where
  "escape_char c = (if c = CHR ''&'' then ''&amp;'' else if c = CHR 0x27 then ''&#39;'' else if c = CHR ''<'' then ''&lt;''
     else if c = CHR ''>'' then ''&gt;'' else if c = CHR 0x22 then ''&#34;'' else [c])"

definition EscapeString :: "string \<Rightarrow> string" where
  "EscapeString s = concat (List.map escape_char s)"

text \<open>\<open>strings.Split\<close> at a blank line.\<close>

fun split_paras :: "string \<Rightarrow> string \<Rightarrow> string list" where
  "split_paras cur [] = [cur]"
| "split_paras cur [c] = [cur @ [c]]"
| "split_paras cur (c # c' # s) = (if c = newline \<and> c' = newline then cur # split_paras [] s else split_paras (cur @ [c]) (c' # s))"

definition line_breaks :: "string \<Rightarrow> string" where
  "line_breaks s = concat (List.map (\<lambda>c. if c = newline then ''<br>'' else [c]) s)"

definition para_html :: "string \<Rightarrow> string" where
  "para_html para = (let p = trim_space para in
     if p = [] then [] else ''<p>'' @ line_breaks (EscapeString p) @ ''</p>'')"

definition body_html :: "string \<Rightarrow> string" where
  "body_html body = concat (List.map para_html (split_paras [] body))"

text \<open>In \<open>markup\<close> a backquote stands for a quotation mark, which HOL strings cannot spell.\<close>

definition markup :: "string \<Rightarrow> string" where
  "markup s = List.map (\<lambda>c. if c = CHR 0x60 then CHR 0x22 else c) s"

definition photo_html :: "string \<Rightarrow> string" where
  "photo_html u = markup ''<p><img src=`'' @ EscapeString u @ markup ''` alt=`Site photo` style=`max-width:100%;height:auto;`></p>''"

fun resolve_urls :: "(uuid \<Rightarrow> svc_error + string) \<Rightarrow> uuid list \<Rightarrow> string list" where
  "resolve_urls url [] = []"
| "resolve_urls url (i # ids) = (case url i of Inl err \<Rightarrow> resolve_urls url ids | Inr u \<Rightarrow> u # resolve_urls url ids)"

text \<open>\<open>uv_photos\<close> mints the URL of a photo (\<open>None\<close>: no storage was wired), \<open>uv_send\<close> is the mailer.\<close>

record update_service =
  uv_photos :: "(uuid \<Rightarrow> uuid \<Rightarrow> duration \<Rightarrow> svc_error + string) option"
  uv_send :: "uuid \<Rightarrow> Message \<Rightarrow> svc_error option"

definition resolveEmailPhotos :: "update_service \<Rightarrow> uuid \<Rightarrow> uuid list \<Rightarrow> string list" where
  "resolveEmailPhotos sv orgID ids = (case uv_photos sv of
     None \<Rightarrow> [] | Some url \<Rightarrow> resolve_urls (\<lambda>i. url orgID i emailPhotoTTL) ids)"

definition email_subject :: "ClientUpdate \<Rightarrow> Project \<Rightarrow> string" where
  "email_subject c project = (if trim_space (hu_Subject c) \<noteq> [] then trim_space (hu_Subject c)
     else if pj_Name project \<noteq> [] then ''Progress update: '' @ pj_Name project else ''Progress update on your project'')"

definition composeEmail :: "update_service \<Rightarrow> uuid \<Rightarrow> ClientUpdate \<Rightarrow> Project \<Rightarrow> string \<Rightarrow> Message" where
  "composeEmail sv orgID c project recipient =
     (let urls = resolveEmailPhotos sv orgID (hu_PhotoAssetIDs c) in
      \<lparr>mg_To = recipient, mg_Subject = email_subject c project,
       mg_TextBody = hu_EditedBody c @ (if urls = [] then []
         else [newline, newline] @ ''Photos from the site:'' @ [newline] @ concat (List.map (\<lambda>u. u @ [newline]) urls)),
       mg_HTMLBody = body_html (hu_EditedBody c) @ concat (List.map photo_html urls)\<rparr>)"

section \<open>The service\<close>

definition update_entry :: "uuid \<Rightarrow> string \<Rightarrow> string \<Rightarrow> uuid \<Rightarrow> payload \<Rightarrow> AuditEntry" where
  "update_entry orgID sub action uid meta =
     \<lparr>ae_OrgID = orgID, ae_UserSub = sub, ae_Action = action, ae_ResourceType = ''client_update'', ae_ResourceID = uid,
      ae_Before = [], ae_After = [], ae_Metadata = meta\<rparr>"

definition create_draft_body :: "(string \<Rightarrow> uuid option) \<Rightarrow> env \<Rightarrow> uuid \<Rightarrow> string \<Rightarrow> uuid \<Rightarrow> gotime \<Rightarrow> ClientUpdateDraft \<Rightarrow>
    ('x site_db_scheme, ClientUpdate) tx" where
  "create_draft_body parse e orgID sub projectID period draft =
     tbind (VerifyProjectInOrg e projectID orgID) (\<lambda>_.
     tbind (LookupUserIDBySubject parse e sub orgID) (\<lambda>createdBy.
     tbind (update_Create e \<lparr>cz_OrgID = orgID, cz_ProjectID = projectID, cz_PeriodStart = period, cz_PeriodEnd = period,
       cz_AIDraft = Some (cn_Body draft), cz_EditedBody = cn_Body draft, cz_Subject = cn_Subject draft, cz_PhotoAssetIDs = [],
       cz_CreatedBy = createdBy\<rparr>) (\<lambda>row.
     tbind (Record e (update_entry orgID sub ''client_update.created'' (hu_ID row)
       [(''project_id'', JUuid projectID), (''period_start'', JStr (format_date period)), (''period_end'', JStr (format_date period))]))
       (\<lambda>_. tret row))))"

text \<open>The draft comes first, in transactions of its own; \<open>drafter\<close> is \<open>DraftClientUpdate\<close> of the reports service.\<close>

definition CreateDraft :: "(string \<Rightarrow> uuid option) \<Rightarrow>
    (uuid \<Rightarrow> string \<Rightarrow> uuid \<Rightarrow> gotime \<Rightarrow> 'x site_db_scheme \<Rightarrow> (svc_error + ClientUpdateDraft) \<times> 'x site_db_scheme) option \<Rightarrow>
    env \<Rightarrow> uuid \<Rightarrow> string \<Rightarrow> uuid \<Rightarrow> gotime \<Rightarrow> 'x site_db_scheme \<Rightarrow> (svc_error + ClientUpdate) \<times> 'x site_db_scheme" where
  "CreateDraft parse drafter e orgID sub projectID reportDate d =
     (if orgID = uuid_nil \<or> projectID = uuid_nil then (Inl (InvalidInput ''org_id and project_id''), d)
      else if reportDate = zero_time then (Inl (InvalidInput ''report date''), d)
      else case drafter of
        None \<Rightarrow> (Inl ClientUpdateAIUnavailable, d)
      | Some f \<Rightarrow>
          (case f orgID sub projectID reportDate d of
             (Inl err, d') \<Rightarrow> (Inl (if err = ReportsAIUnavailable then ClientUpdateAIUnavailable else err), d')
           | (Inr draft, d') \<Rightarrow> mapped (BeginTxFunc e (create_draft_body parse e orgID sub projectID (truncateDay reportDate) draft) d')))"

record UpdateDraftInput =
  uz_ID :: uuid
  uz_Subject :: string
  uz_EditedBody :: string
  uz_PhotoAssetIDs :: "uuid list"

definition update_draft_body :: "bool \<Rightarrow> env \<Rightarrow> uuid \<Rightarrow> string \<Rightarrow> UpdateDraftInput \<Rightarrow> ('x site_db_scheme, ClientUpdate) tx" where
  "update_draft_body photos e orgID sub inp = (let ids = dedupeUUIDs (uz_PhotoAssetIDs inp) in
     tbind (update_GetByID e orgID (uz_ID inp)) (\<lambda>current.
     tbind (tguard (hu_Status current \<noteq> ClientUpdateStatusSent) AlreadySent) (\<lambda>_.
     tbind (if photos \<and> ids \<noteq> [] then ValidatePhotoAssets e orgID (hu_ProjectID current) ids else tret ()) (\<lambda>_.
     tbind (UpdateDraft_store e \<lparr>ux_OrgID = orgID, ux_ID = uz_ID inp, ux_Subject = uz_Subject inp, ux_EditedBody = uz_EditedBody inp,
       ux_PhotoAssetIDs = ids\<rparr>) (\<lambda>row.
     tbind (Record e (update_entry orgID sub ''client_update.updated'' (hu_ID row)
       [(''project_id'', JUuid (hu_ProjectID row)), (''photo_count'', JInt (int (length ids))),
        (''subject_len'', JInt (int (length (uz_Subject inp))))])) (\<lambda>_. tret row))))))"

definition UpdateDraft :: "bool \<Rightarrow> env \<Rightarrow> uuid \<Rightarrow> string \<Rightarrow> UpdateDraftInput \<Rightarrow> 'x site_db_scheme \<Rightarrow>
    (svc_error + ClientUpdate) \<times> 'x site_db_scheme" where
  "UpdateDraft photos e orgID sub inp d = service_result
     (require_that (orgID \<noteq> uuid_nil \<and> uz_ID inp \<noteq> uuid_nil) (InvalidInput ''org_id and id'')) d
     (mapped (BeginTxFunc e (update_draft_body photos e orgID sub inp) d))"

definition send_body :: "(string \<Rightarrow> uuid option) \<Rightarrow> env \<Rightarrow> uuid \<Rightarrow> string \<Rightarrow> uuid \<Rightarrow> ('x site_db_scheme, ClientUpdate \<times> Project \<times> string) tx" where
  "send_body parse e orgID sub uid =
     tbind (update_GetByID e orgID uid) (\<lambda>current.
     tbind (tguard (hu_Status current \<noteq> ClientUpdateStatusSent) AlreadySent) (\<lambda>_.
     tbind (GetByID e (hu_ProjectID current) orgID) (\<lambda>p.
     tbind (tguard (trim_space (coalesce (pj_ClientEmail p) []) \<noteq> []) NoClientContact) (\<lambda>_.
     let recipient = trim_space (coalesce (pj_ClientEmail p) []) in
     tbind (LookupUserIDBySubject parse e sub orgID) (\<lambda>sentBy.
     tbind (MarkSent e \<lparr>mx_OrgID = orgID, mx_ID = uid, mx_RecipientEmail = recipient, mx_SentBy = sentBy\<rparr>) (\<lambda>row.
     tbind (Record e (update_entry orgID sub ''client_update.sent'' (hu_ID row)
       [(''project_id'', JUuid (hu_ProjectID row)), (''photo_count'', JInt (int (length (hu_PhotoAssetIDs row))))])) (\<lambda>_.
     tret (row, p, recipient))))))))"

definition failure_reason :: "svc_error \<Rightarrow> string" where
  "failure_reason err = (if err = MailerUnconfigured then ''mailer unconfigured: no Resend API key set'' else ''email delivery failed'')"

definition mark_failed_body :: "env \<Rightarrow> uuid \<Rightarrow> string \<Rightarrow> uuid \<Rightarrow> svc_error \<Rightarrow> ('x site_db_scheme, ClientUpdate) tx" where
  "mark_failed_body e orgID sub uid err =
     tbind (update_MarkFailed e orgID uid (failure_reason err)) (\<lambda>row.
     tbind (Record e (update_entry orgID sub ''client_update.send_failed'' uid
       [(''project_id'', JUuid (hu_ProjectID row)), (''reason'', JStr (failure_reason err))])) (\<lambda>_. tret row))"

text \<open>An error of this transaction is logged and nothing else.\<close>

definition markSendFailed :: "env \<Rightarrow> uuid \<Rightarrow> string \<Rightarrow> uuid \<Rightarrow> svc_error \<Rightarrow> 'x site_db_scheme \<Rightarrow> 'x site_db_scheme" where
  "markSendFailed e orgID sub uid err d = snd (BeginTxFunc e (mark_failed_body e orgID sub uid err) d)"

text \<open>\<open>e\<close> is the environment of the transaction that marks the update sent, \<open>e'\<close> of the one that marks it failed.\<close>

definition SendClientUpdate :: "(string \<Rightarrow> uuid option) \<Rightarrow> update_service \<Rightarrow> env \<Rightarrow> env \<Rightarrow> uuid \<Rightarrow> string \<Rightarrow> uuid \<Rightarrow> 'x site_db_scheme \<Rightarrow>
    (svc_error + ClientUpdate) \<times> 'x site_db_scheme" where
  "SendClientUpdate parse sv e e' orgID sub uid d =
     (if orgID = uuid_nil \<or> uid = uuid_nil then (Inl (InvalidInput ''org_id and id''), d)
      else case mapped (BeginTxFunc e (send_body parse e orgID sub uid) d) of
        (Inl err, d') \<Rightarrow> (Inl err, d')
      | (Inr (row, project, recipient), d') \<Rightarrow>
          (case uv_send sv orgID (composeEmail sv orgID row project recipient) of
             None \<Rightarrow> (Inr row, d')
           | Some err \<Rightarrow> (Inl (if err = MailerUnconfigured then MailerUnconfigured else ClientUpdateSendFailed),
               markSendFailed e' orgID sub uid err d')))"

definition update_ListByProject_svc :: "env \<Rightarrow> uuid \<Rightarrow> uuid \<Rightarrow> 'x site_db_scheme \<Rightarrow> svc_error + ClientUpdate list" where
  "update_ListByProject_svc e orgID projectID d =
     ebind (require_that (orgID \<noteq> uuid_nil \<and> projectID \<noteq> uuid_nil) (InvalidInput ''org_id and project_id'')) (\<lambda>_.
     fst (mapped (BeginTxFunc e (tbind (VerifyProjectInOrg e projectID orgID) (\<lambda>_. update_ListByProject e orgID projectID)) d)))"

definition update_Get :: "env \<Rightarrow> uuid \<Rightarrow> uuid \<Rightarrow> 'x site_db_scheme \<Rightarrow> svc_error + ClientUpdate" where
  "update_Get e orgID uid d =
     ebind (require_that (orgID \<noteq> uuid_nil \<and> uid \<noteq> uuid_nil) (InvalidInput ''org_id and id'')) (\<lambda>_.
     fst (mapped (BeginTxFunc e (update_GetByID e orgID uid) d)))"

end
