(* ===== verification/Share_Links.thy ===== *)
theory Share_Links
  imports Client_Updates Identity_Db Credentials_Props
begin

text \<open>
  Public links: internal/models/share_link.go, internal/store/share_links.go, internal/service/share_link.go and the page of
  internal/api/public_share.go. A link is a token like those of the identity service, which may be shown many times: its
  hash is in the table, the cleartext is handed out once.
\<close>

section \<open>The store\<close>

definition link_IsActive :: "ShareLink \<Rightarrow> gotime \<Rightarrow> bool" where
  "link_IsActive l now \<longleftrightarrow> sl_RevokedAt l = None \<and> now < sl_ExpiresAt l"

record CreateShareLinkParams =
  cv_OrgID :: uuid
  cv_ClientUpdateID :: uuid
  cv_TokenHash :: string
  cv_ExpiresAt :: gotime
  cv_CreatedBy :: uuid

definition link_Create :: "env \<Rightarrow> CreateShareLinkParams \<Rightarrow> ('x site_db_scheme, ShareLink) tx" where
  "link_Create e p = insert_returning e ''insert share link'' st_links st_links_update
     (\<lambda>d. cv_OrgID p \<in> set (db_orgs d) \<and> cv_ClientUpdateID p \<in> hu_ID ` set (st_updates d) \<and> cv_CreatedBy p \<in> fst ` set (st_members d))
     sl_ID (\<lambda>old new. sl_TokenHash old = sl_TokenHash new)
     (\<lambda>_ u. \<lparr>sl_ID = u, sl_OrgID = cv_OrgID p, sl_ClientUpdateID = cv_ClientUpdateID p, sl_TokenHash = cv_TokenHash p,
        sl_ExpiresAt = to_timestamptz (cv_ExpiresAt p), sl_RevokedAt = None, sl_CreatedBy = cv_CreatedBy p, sl_LastViewedAt = None,
        sl_ViewCount = 0, sl_CreatedAt = e_now e\<rparr>)"

definition GetActiveByHash :: "env \<Rightarrow> string \<Rightarrow> gotime \<Rightarrow> ('x site_db_scheme, ShareLink) tx" where
  "GetActiveByHash e hash now = select_one e ''get active share link'' st_links
     (\<lambda>l. sl_TokenHash l = hash \<and> sl_RevokedAt l = None \<and> sl_ExpiresAt l > to_timestamptz now)"

definition link_GetByID :: "env \<Rightarrow> uuid \<Rightarrow> uuid \<Rightarrow> ('x site_db_scheme, ShareLink) tx" where
  "link_GetByID e orgID lid = select_one e ''get share link'' st_links (\<lambda>l. sl_ID l = lid \<and> sl_OrgID l = orgID)"

definition ListByClientUpdate :: "env \<Rightarrow> uuid \<Rightarrow> uuid \<Rightarrow> ('x site_db_scheme, ShareLink list) tx" where
  "ListByClientUpdate e orgID uid = select_all e ''list share links''
     (\<lambda>d. order_desc sl_CreatedAt (filter (\<lambda>l. sl_OrgID l = orgID \<and> sl_ClientUpdateID l = uid) (st_links d)))"

definition link_revoked :: "ShareLink \<Rightarrow> bool" where
  "link_revoked l \<longleftrightarrow> sl_RevokedAt l \<noteq> None"

definition revoke_link :: "gotime \<Rightarrow> ShareLink \<Rightarrow> ShareLink" where
  "revoke_link now l = l\<lparr>sl_RevokedAt := Some (to_timestamptz now)\<rparr>"

definition link_Revoke :: "env \<Rightarrow> uuid \<Rightarrow> uuid \<Rightarrow> gotime \<Rightarrow> ('x site_db_scheme, ShareLink) tx" where
  "link_Revoke e orgID lid now = update_returning e ''revoke share link'' st_links st_links_update
     (\<lambda>l. sl_ID l = lid \<and> sl_OrgID l = orgID \<and> sl_RevokedAt l = None) (revoke_link now)"

definition viewed :: "gotime \<Rightarrow> ShareLink \<Rightarrow> ShareLink" where
  "viewed now l = l\<lparr>sl_ViewCount := sl_ViewCount l + 1, sl_LastViewedAt := Some (to_timestamptz now)\<rparr>"

text \<open>A count at the top of a BIGINT cannot be raised.\<close>

definition TouchView :: "env \<Rightarrow> uuid \<Rightarrow> gotime \<Rightarrow> ('x site_db_scheme, unit) tx" where
  "TouchView e lid now = stmt e ''touch share link view'' (\<lambda>s.
     if \<exists>l\<in>set (st_links (s_db s)). sl_ID l = lid \<and> \<not> in_int64 (sl_ViewCount l + 1) then Inl (DbError ''touch share link view'')
     else Inr ((), s\<lparr>s_db := st_links_update (update_where (\<lambda>l. sl_ID l = lid) (viewed now)) (s_db s)\<rparr>))"

interpretation sl: one_time_tokens sl_ID sl_TokenHash sl_ExpiresAt link_revoked revoke_link
  by unfold_locales (simp_all add: revoke_link_def link_revoked_def)

section \<open>Tokens\<close>

definition shareTokenByteLen :: nat where "shareTokenByteLen = 32"
definition DefaultShareLinkTTL :: duration where "DefaultShareLinkTTL = 30 * day24"
definition MaxShareLinkTTL :: duration where "MaxShareLinkTTL = 365 * day24"

definition generateShareTokenCleartext :: "byte list option \<Rightarrow> svc_error + string" where
  "generateShareTokenCleartext rand = (case rand of
     None \<Rightarrow> Inl (Internal ''generate share token'') | Some buf \<Rightarrow> Inr (b64_encode url_alphabet buf))"

definition hashShareToken :: "string \<Rightarrow> string" where
  "hashShareToken cleartext =
     concat (List.map (\<lambda>b. [''0123456789abcdef'' ! unat (drop_bit 4 b), ''0123456789abcdef'' ! unat (and b 15)])
       (Sum256 (string_bytes cleartext)))"

text \<open>Line breaks inside the text are skipped by the decoder, which can make a shorter token of 43 characters.\<close>

definition looksLikeShareToken :: "string \<Rightarrow> bool" where
  "looksLikeShareToken cleartext \<longleftrightarrow> length cleartext = 43 \<and>
     b64_decode url_alphabet (filter (\<lambda>c. c \<noteq> CHR 0x0A \<and> c \<noteq> CHR 0x0D) cleartext) \<noteq> None"

section \<open>The operator's side\<close>

definition share_ttl :: "duration \<Rightarrow> duration" where
  "share_ttl ttl = (let t = (if ttl \<le> 0 then DefaultShareLinkTTL else ttl) in if t > MaxShareLinkTTL then MaxShareLinkTTL else t)"

definition link_entry :: "uuid \<Rightarrow> string \<Rightarrow> string \<Rightarrow> uuid \<Rightarrow> payload \<Rightarrow> AuditEntry" where
  "link_entry orgID sub action lid meta =
     \<lparr>ae_OrgID = orgID, ae_UserSub = sub, ae_Action = action, ae_ResourceType = ''client_update_share_link'', ae_ResourceID = lid,
      ae_Before = [], ae_After = [], ae_Metadata = meta\<rparr>"

definition create_link_body :: "(string \<Rightarrow> uuid option) \<Rightarrow> env \<Rightarrow> uuid \<Rightarrow> string \<Rightarrow> uuid \<Rightarrow> string \<Rightarrow> gotime \<Rightarrow> ('x site_db_scheme, ShareLink) tx" where
  "create_link_body parse e orgID sub uid hash expires =
     tbind (update_GetByID e orgID uid) (\<lambda>c.
     tbind (tguard (hu_Status c = ClientUpdateStatusSent) ShareLinkNotSent) (\<lambda>_.
     tbind (LookupUserIDBySubject parse e sub orgID) (\<lambda>createdBy.
     tbind (link_Create e \<lparr>cv_OrgID = orgID, cv_ClientUpdateID = uid, cv_TokenHash = hash, cv_ExpiresAt = expires,
       cv_CreatedBy = createdBy\<rparr>) (\<lambda>l.
     tbind (Record e (link_entry orgID sub ''client_update.share_link.created'' (sl_ID l)
       [(''client_update_id'', JUuid uid), (''expires_at'', JTime (expires div second * second))])) (\<lambda>_. tret l)))))"

record IssuedShareLink =
  il_Link :: ShareLink
  il_Cleartext :: string

definition CreateShareLink :: "(string \<Rightarrow> uuid option) \<Rightarrow> env \<Rightarrow> byte list option \<Rightarrow> gotime \<Rightarrow> uuid \<Rightarrow> string \<Rightarrow> uuid \<Rightarrow> duration \<Rightarrow>
    'x site_db_scheme \<Rightarrow> (svc_error + IssuedShareLink) \<times> 'x site_db_scheme" where
  "CreateShareLink parse e rand now orgID sub uid ttl d =
     (if orgID = uuid_nil \<or> uid = uuid_nil then (Inl (InvalidInput ''org_id and client_update_id''), d)
      else case generateShareTokenCleartext rand of
        Inl err \<Rightarrow> (Inl err, d)
      | Inr cleartext \<Rightarrow>
          (case mapped (BeginTxFunc e (create_link_body parse e orgID sub uid (hashShareToken cleartext) (now + share_ttl ttl)) d) of
             (Inl err, d') \<Rightarrow> (Inl err, d')
           | (Inr l, d') \<Rightarrow> (Inr \<lparr>il_Link = l, il_Cleartext = cleartext\<rparr>, d')))"

definition revoke_body :: "env \<Rightarrow> gotime \<Rightarrow> uuid \<Rightarrow> string \<Rightarrow> uuid \<Rightarrow> ('x site_db_scheme, ShareLink) tx" where
  "revoke_body e now orgID sub lid =
     tfound (link_Revoke e orgID lid now) (link_GetByID e orgID lid) (\<lambda>l.
     tbind (Record e (link_entry orgID sub ''client_update.share_link.revoked'' (sl_ID l)
       [(''client_update_id'', JUuid (sl_ClientUpdateID l))])) (\<lambda>_. tret l))"

definition RevokeShareLink :: "env \<Rightarrow> gotime \<Rightarrow> uuid \<Rightarrow> string \<Rightarrow> uuid \<Rightarrow> 'x site_db_scheme \<Rightarrow> (svc_error + ShareLink) \<times> 'x site_db_scheme" where
  "RevokeShareLink e now orgID sub lid d = service_result
     (require_that (orgID \<noteq> uuid_nil \<and> lid \<noteq> uuid_nil) (InvalidInput ''org_id and link id'')) d
     (mapped (BeginTxFunc e (revoke_body e now orgID sub lid) d))"

definition ListShareLinks :: "env \<Rightarrow> uuid \<Rightarrow> uuid \<Rightarrow> 'x site_db_scheme \<Rightarrow> svc_error + ShareLink list" where
  "ListShareLinks e orgID uid d =
     ebind (require_that (orgID \<noteq> uuid_nil \<and> uid \<noteq> uuid_nil) (InvalidInput ''org_id and client_update_id'')) (\<lambda>_.
     fst (mapped (BeginTxFunc e (tbind (update_GetByID e orgID uid) (\<lambda>_. ListByClientUpdate e orgID uid)) d)))"

section \<open>The public side\<close>

text \<open>\<open>v_link\<close>, \<open>v_read\<close> and \<open>v_touch\<close> are the environments of the three transactions of a visit, \<open>v_now\<close> its clock.\<close>

record visit =
  v_link :: env
  v_read :: env
  v_touch :: env
  v_now :: gotime

definition resolveActiveLink :: "env \<Rightarrow> gotime \<Rightarrow> string \<Rightarrow> 'x site_db_scheme \<Rightarrow> svc_error + ShareLink" where
  "resolveActiveLink e now cleartext d =
     (if \<not> looksLikeShareToken cleartext then Inl InvalidShareToken
      else fst (mapped (BeginTxFunc e (tmissing InvalidShareToken (GetActiveByHash e (hashShareToken cleartext) now)) d)))"

text \<open>A missing update or project behind a link is answered like a bad token.\<close>

definition uniform :: "svc_error + 'a \<Rightarrow> svc_error + 'a" where
  "uniform r = map_err (\<lambda>err. if err = StoreNotFound then InvalidShareToken else mapStoreError err) r"

definition touchView :: "env \<Rightarrow> gotime \<Rightarrow> uuid \<Rightarrow> 'x site_db_scheme \<Rightarrow> 'x site_db_scheme" where
  "touchView e now lid d = snd (BeginTxFunc e (TouchView e lid now) d)"

record PublicUpdate =
  pz_ProjectName :: string
  pz_Body :: string
  pz_UpdateDate :: gotime
  pz_PhotoAssetIDs :: "uuid list"

definition public_body :: "env \<Rightarrow> ShareLink \<Rightarrow> ('x site_db_scheme, PublicUpdate) tx" where
  "public_body e l =
     tbind (update_GetByID e (sl_OrgID l) (sl_ClientUpdateID l)) (\<lambda>c.
     tbind (tguard (hu_Status c = ClientUpdateStatusSent) InvalidShareToken) (\<lambda>_.
     tbind (GetByID e (hu_ProjectID c) (sl_OrgID l)) (\<lambda>p.
     tret \<lparr>pz_ProjectName = pj_Name p, pz_Body = hu_EditedBody c, pz_UpdateDate = hu_PeriodEnd c,
       pz_PhotoAssetIDs = dedupeUUIDs (hu_PhotoAssetIDs c)\<rparr>)))"

definition ResolvePublicUpdate :: "visit \<Rightarrow> string \<Rightarrow> 'x site_db_scheme \<Rightarrow> (svc_error + PublicUpdate) \<times> 'x site_db_scheme" where
  "ResolvePublicUpdate v cleartext d = (case resolveActiveLink (v_link v) (v_now v) cleartext d of
     Inl err \<Rightarrow> (Inl err, d)
   | Inr l \<Rightarrow>
       (case uniform (fst (BeginTxFunc (v_read v) (public_body (v_read v) l) d)) of
          Inl err \<Rightarrow> (Inl err, d)
        | Inr pub \<Rightarrow> (Inr pub, touchView (v_touch v) (v_now v) (sl_ID l) d)))"

definition photo_body :: "env \<Rightarrow> ShareLink \<Rightarrow> uuid \<Rightarrow> ('x site_db_scheme, uuid \<times> uuid) tx" where
  "photo_body e l assetID =
     tbind (update_GetByID e (sl_OrgID l) (sl_ClientUpdateID l)) (\<lambda>c.
     tbind (tguard (hu_Status c = ClientUpdateStatusSent) InvalidShareToken) (\<lambda>_.
     tbind (tguard (assetID \<in> set (hu_PhotoAssetIDs c)) InvalidShareToken) (\<lambda>_.
     tret (sl_OrgID l, assetID))))"

definition ResolvePublicPhoto :: "visit \<Rightarrow> string \<Rightarrow> uuid \<Rightarrow> 'x site_db_scheme \<Rightarrow> svc_error + uuid \<times> uuid" where
  "ResolvePublicPhoto v cleartext assetID d =
     (if assetID = uuid_nil then Inl InvalidShareToken
      else ebind (resolveActiveLink (v_link v) (v_now v) cleartext d) (\<lambda>l.
        uniform (fst (BeginTxFunc (v_read v) (photo_body (v_read v) l assetID) d))))"

section \<open>The page\<close>

text \<open>What the handler answers.\<close>

record response =
  hp_Status :: int
  hp_Body :: string

definition publicPageStyle :: string where
  "publicPageStyle = [newline] @
     concat ['':root{color-scheme:dark}'', [newline]] @
     concat [''*{box-sizing:border-box}'', [newline]] @
     concat [''body{margin:0;background:#0c0d10;color:#e7e9ee;font-family:system-ui,-apple-system,Segoe UI,Roboto,s'', ''ans-serif;line-height:1.6}'', [newline]] @
     concat [''.card{max-width:720px;margin:0 auto;padding:32px 20px 24px}'', [newline]] @
     concat [''h1{font-size:1.6rem;margin:0 0 4px;color:#fff}'', [newline]] @
     concat [''.date{margin:0 0 24px;color:#a7adba;font-size:.95rem}'', [newline]] @
     concat [''.body p{margin:0 0 16px}'', [newline]] @
     concat [''.photos{display:grid;grid-template-columns:repeat(auto-fill,minmax(220px,1fr));gap:12px;margin-top:2'', ''4px}'', [newline]] @
     concat [''.photos img{width:100%;height:auto;border-radius:10px;display:block;background:#16181d}'', [newline]] @
     concat [''footer{max-width:720px;margin:32px auto 40px;padding:0 20px;color:#7a8090;font-size:.8rem;text-align'', '':center}'', [newline]]"

definition publicPageHead :: "string \<Rightarrow> string" where
  "publicPageHead title = markup ''<!DOCTYPE html><html lang=`en`><head>'' @ markup ''<meta charset=`utf-8`>'' @
     markup ''<meta name=`viewport` content=`width=device-width, initial-scale=1`>'' @
     markup ''<meta name=`robots` content=`noindex, nofollow`>'' @ markup ''<title>'' @ EscapeString title @ markup ''</title>'' @
     markup ''<style>'' @ publicPageStyle @ markup ''</style>'' @ markup ''</head><body>''"

definition publicPageFoot :: string where
  "publicPageFoot = ''<footer>Shared by your builder via BuildOS</footer></body></html>''"

text \<open>\<open>ustr\<close> writes an id, \<open>longDate\<close> is the layout \<open>"January 2, 2006"\<close>, \<open>withAssets\<close> says whether storage is wired.\<close>

definition photo_img :: "(uuid \<Rightarrow> string) \<Rightarrow> string \<Rightarrow> uuid \<Rightarrow> string" where
  "photo_img ustr token i = markup ''<img src=`'' @ ''/p/'' @ EscapeString token @ ''/photos/'' @ EscapeString (ustr i) @
     markup ''` alt=`Site photo` loading=`lazy`>''"

definition writePage :: "(uuid \<Rightarrow> string) \<Rightarrow> (gotime \<Rightarrow> string) \<Rightarrow> bool \<Rightarrow> string \<Rightarrow> PublicUpdate \<Rightarrow> response" where
  "writePage ustr longDate withAssets token pub = \<lparr>hp_Status = 200, hp_Body =
     publicPageHead (pz_ProjectName pub) @ markup ''<main class=`card`>'' @
     markup ''<h1>'' @ EscapeString (pz_ProjectName pub) @ markup ''</h1>'' @
     (if pz_UpdateDate pub = zero_time then []
      else markup ''<p class=`date`>'' @ EscapeString (longDate (pz_UpdateDate pub)) @ markup ''</p>'') @
     markup ''<div class=`body`>'' @ body_html (pz_Body pub) @ markup ''</div>'' @
     (if pz_PhotoAssetIDs pub \<noteq> [] \<and> withAssets
      then markup ''<div class=`photos`>'' @ concat (List.map (photo_img ustr token) (pz_PhotoAssetIDs pub)) @ markup ''</div>'' else []) @
     markup ''</main>'' @ publicPageFoot\<rparr>"

definition writeNotFoundPage :: response where
  "writeNotFoundPage = \<lparr>hp_Status = 404, hp_Body =
     publicPageHead ''Link unavailable'' @ markup ''<main class=`card`>'' @ ''<h1>This link is unavailable</h1>'' @
     markup ''<p class=`body`>This progress link is invalid or has expired. Please contact your builder for an updated link.</p>'' @
     ''</main>'' @ publicPageFoot\<rparr>"

definition Page :: "(uuid \<Rightarrow> string) \<Rightarrow> (gotime \<Rightarrow> string) \<Rightarrow> bool \<Rightarrow> visit \<Rightarrow> string \<Rightarrow> 'x site_db_scheme \<Rightarrow>
    response \<times> 'x site_db_scheme" where
  "Page ustr longDate withAssets v token d = (case ResolvePublicUpdate v token d of
     (Inl err, d') \<Rightarrow> (writeNotFoundPage, d')
   | (Inr pub, d') \<Rightarrow> (writePage ustr longDate withAssets token pub, d'))"

text \<open>\<open>parse\<close> is \<open>uuid.Parse\<close>, \<open>assets\<close> is \<open>ServeAsset\<close> on the current database; a missing photo has no body.\<close>

record photo_response =
  pr_Status :: int
  pr_ContentType :: string
  pr_Body :: "byte list"

definition writeNotFoundImage :: photo_response where
  "writeNotFoundImage = \<lparr>pr_Status = 404, pr_ContentType = [], pr_Body = []\<rparr>"

definition Photo :: "(string \<Rightarrow> uuid option) \<Rightarrow> (uuid \<Rightarrow> uuid \<Rightarrow> svc_error + byte list \<times> string) option \<Rightarrow> visit \<Rightarrow> string \<Rightarrow> string \<Rightarrow>
    'x site_db_scheme \<Rightarrow> photo_response" where
  "Photo parse assets v token assetText d = (case parse assetText of
     None \<Rightarrow> writeNotFoundImage
   | Some assetID \<Rightarrow>
       (case (ResolvePublicPhoto v token assetID d, assets) of
          (Inr (orgID, i), Some serve) \<Rightarrow>
            (case serve orgID i of
               Inl err \<Rightarrow> writeNotFoundImage
             | Inr (body, ct) \<Rightarrow> \<lparr>pr_Status = 200, pr_ContentType = (if ct = [] then ''application/octet-stream'' else ct), pr_Body = body\<rparr>)
        | _ \<Rightarrow> writeNotFoundImage))"

end
