(* ===== verification/Site_Inv.thy ===== *)
theory Site_Inv
  imports Fleet Share_Links
begin

text \<open>
  What the services of the site keep: the invariant \<open>site_ok\<close> of their tables and the order \<open>site_le\<close>, under which rows
  are added and never lost and keep the columns that no statement writes.
\<close>

section \<open>Tables that only grow\<close>

definition extends :: "('r \<Rightarrow> 'k) \<Rightarrow> 'r list \<Rightarrow> 'r list \<Rightarrow> bool" where
  "extends key rows rows' \<longleftrightarrow> (\<exists>added. List.map key rows' = List.map key rows @ added)"

lemma extends_refl [simp]: "extends key rows rows"
  by (simp add: extends_def)

lemma extends_trans: "extends key a b \<Longrightarrow> extends key b c \<Longrightarrow> extends key a c"
  by (auto simp: extends_def)

lemma extends_append [simp]: "extends key rows (rows @ added)"
  by (simp add: extends_def)

lemma extends_update [simp]: "(\<And>r. key (f r) = key r) \<Longrightarrow> extends key rows (update_where P f rows)"
  unfolding extends_def by (rule exI [of _ "[]"]) (simp add: map_update_where)

lemma extends_image: "extends key rows rows' \<Longrightarrow> key ` set rows \<subseteq> key ` set rows'"
  unfolding extends_def by (metis image_set set_append Un_upper1)

lemma extends_rows: "extends (\<lambda>r. r) rows rows' \<Longrightarrow> set rows \<subseteq> set rows'"
  using extends_image [of "\<lambda>r. r"] by simp

section \<open>The invariant\<close>

definition allocs_ok :: "Project list \<Rightarrow> FleetAsset list \<Rightarrow> EquipmentAllocation list \<Rightarrow> bool" where
  "allocs_ok projects fleet allocs \<longleftrightarrow> distinct (List.map ea_ID allocs) \<and>
     (\<forall>a\<in>set allocs. ea_StartDate a \<le> ea_EndDate a \<and>
        (\<exists>f\<in>set fleet. \<exists>p\<in>set projects. fl_ID f = ea_AssetID a \<and> pj_ID p = ea_ProjectID a \<and> pj_OrgID p = fl_OrgID f)) \<and>
     (\<forall>a\<in>set allocs. \<forall>b\<in>set allocs. ea_ID a \<noteq> ea_ID b \<longrightarrow> ea_AssetID a = ea_AssetID b \<longrightarrow> \<not> ranges_overlap (booked a) (booked b))"

definition gps_ok :: "f64 option \<Rightarrow> f64 option \<Rightarrow> bool" where
  "gps_ok lat lng \<longleftrightarrow> (lat = None \<longleftrightarrow> lng = None) \<and> opt_ok (\<lambda>x. -90 \<le> x \<and> x \<le> 90) lat \<and> opt_ok (\<lambda>x. -180 \<le> x \<and> x \<le> 180) lng"

definition progress_ok :: "TaskProgress list \<Rightarrow> bool" where
  "progress_ok rows \<longleftrightarrow> distinct (List.map tk_IdempotencyKey rows) \<and>
     (\<forall>r\<in>set rows. 0 \<le> tk_PercentComplete r \<and> tk_PercentComplete r \<le> 100 \<and> gps_ok (tk_GPSLat r) (tk_GPSLng r))"

definition checkins_ok :: "CrewCheckin list \<Rightarrow> bool" where
  "checkins_ok rows \<longleftrightarrow> distinct (List.map ch_IdempotencyKey rows) \<and> (\<forall>r\<in>set rows. gps_ok (ch_GPSLat r) (ch_GPSLng r))"

definition logs_ok :: "DailyLog list \<Rightarrow> bool" where
  "logs_ok rows \<longleftrightarrow> distinct (List.map dl_IdempotencyKey rows) \<and>
     (\<forall>r\<in>set rows. length (dl_PhotoAssetIDs r) \<le> MaxAssetsPerDailyLog \<and> trim_space (dl_WorkSummary r) \<noteq> [])"

definition asset_ok :: "Asset \<Rightarrow> bool" where
  "asset_ok a \<longleftrightarrow> (at_Status a = AssetStatusPending \<and> at_ConfirmedAt a = None \<or> at_Status a = AssetStatusReady \<and> at_ConfirmedAt a \<noteq> None) \<and>
     0 < at_SizeBytes a \<and> at_SizeBytes a \<le> MaxAssetSizeBytes \<and> at_ContentType a \<in> fst ` set allowedAssetContentTypes"

definition assets_ok :: "Asset list \<Rightarrow> bool" where
  "assets_ok rows \<longleftrightarrow> distinct (List.map at_ID rows) \<and> (\<forall>a\<in>set rows. asset_ok a)"

text \<open>The life of an update: what each status says of the other columns.\<close>

definition update_ok :: "ClientUpdate \<Rightarrow> bool" where
  "update_ok c \<longleftrightarrow> distinct (hu_PhotoAssetIDs c) \<and> uuid_nil \<notin> set (hu_PhotoAssetIDs c) \<and> hu_AIDraft c \<noteq> None \<and>
     (hu_Status c = ClientUpdateStatusDraft \<and> hu_SendError c = None \<or>
      hu_Status c = ClientUpdateStatusSent \<and> hu_SendError c = None \<and> hu_SentBy c \<noteq> None \<and> hu_SentAt c \<noteq> None \<and>
        trim_space (coalesce (hu_RecipientEmail c) []) \<noteq> [] \<or>
      hu_Status c = ClientUpdateStatusFailed \<and> hu_SendError c \<noteq> None)"

definition updates_ok :: "ClientUpdate list \<Rightarrow> bool" where
  "updates_ok rows \<longleftrightarrow> distinct (List.map hu_ID rows) \<and> (\<forall>c\<in>set rows. update_ok c)"

text \<open>The project of an update is one of its organization.\<close>

definition homes_ok :: "Project list \<Rightarrow> ClientUpdate list \<Rightarrow> bool" where
  "homes_ok projects updates \<longleftrightarrow> (\<forall>c\<in>set updates. (hu_ProjectID c, hu_OrgID c) \<in> (\<lambda>p. (pj_ID p, pj_OrgID p)) ` set projects)"

definition links_ok :: "ClientUpdate list \<Rightarrow> ShareLink list \<Rightarrow> bool" where
  "links_ok updates links \<longleftrightarrow> sl.token_ok links \<and>
     (\<forall>l\<in>set links. \<exists>c\<in>set updates. hu_ID c = sl_ClientUpdateID l \<and> hu_OrgID c = sl_OrgID l)"

definition site_ok :: "'x site_db_scheme \<Rightarrow> bool" where
  "site_ok d \<longleftrightarrow> allocs_ok (db_projects d) (st_fleet d) (st_allocs d) \<and> progress_ok (st_progress d) \<and> checkins_ok (st_checkins d) \<and>
     logs_ok (st_logs d) \<and> assets_ok (st_assets d) \<and> updates_ok (st_updates d) \<and>
     homes_ok (db_projects d) (st_updates d) \<and> links_ok (st_updates d) (st_links d) \<and> list_all row_clean (db_audit d)"

section \<open>The order\<close>

text \<open>The columns of a row that no statement writes after its insert.\<close>

definition log_key :: "DailyLog \<Rightarrow> DailyLog" where
  "log_key l = l\<lparr>dl_PhotoAssetIDs := []\<rparr>"

definition asset_key :: "Asset \<Rightarrow> Asset" where
  "asset_key a = a\<lparr>at_Status := [], at_ConfirmedAt := None, at_ChecksumSHA256 := None\<rparr>"

definition update_key :: "ClientUpdate \<Rightarrow> uuid \<times> uuid \<times> uuid \<times> gotime \<times> gotime \<times> string option \<times> uuid \<times> gotime" where
  "update_key c = (hu_ID c, hu_OrgID c, hu_ProjectID c, hu_PeriodStart c, hu_PeriodEnd c, hu_AIDraft c, hu_CreatedBy c, hu_CreatedAt c)"

definition link_key :: "ShareLink \<Rightarrow> ShareLink" where
  "link_key l = l\<lparr>sl_RevokedAt := None, sl_ViewCount := 0, sl_LastViewedAt := None\<rparr>"

definition link_le :: "ShareLink \<Rightarrow> ShareLink \<Rightarrow> bool" where
  "link_le l l' \<longleftrightarrow> link_key l' = link_key l \<and> (sl_RevokedAt l \<noteq> None \<longrightarrow> sl_RevokedAt l' = sl_RevokedAt l) \<and> sl_ViewCount l \<le> sl_ViewCount l'"

definition links_le :: "ShareLink list \<Rightarrow> ShareLink list \<Rightarrow> bool" where
  "links_le rows rows' \<longleftrightarrow> (\<exists>old added. rows' = old @ added \<and> list_all2 link_le rows old)"

lemma link_key_fields:
  assumes "link_key l' = link_key l"
  shows "sl_ID l' = sl_ID l" "sl_OrgID l' = sl_OrgID l" "sl_ClientUpdateID l' = sl_ClientUpdateID l" "sl_TokenHash l' = sl_TokenHash l"
    "sl_ExpiresAt l' = sl_ExpiresAt l"
  using arg_cong [OF assms, of sl_ID] arg_cong [OF assms, of sl_OrgID] arg_cong [OF assms, of sl_ClientUpdateID]
    arg_cong [OF assms, of sl_TokenHash] arg_cong [OF assms, of sl_ExpiresAt] by (simp_all add: link_key_def)

lemma link_le_refl [simp]: "link_le l l"
  by (simp add: link_le_def)

lemma link_le_trans: "link_le a b \<Longrightarrow> link_le b c \<Longrightarrow> link_le a c"
  by (auto simp: link_le_def)

lemma links_le_refl [simp]: "links_le rows rows"
  unfolding links_le_def by (rule exI [of _ rows], rule exI [of _ "[]"]) (simp add: list_all2_refl)

lemma links_le_append [simp]: "links_le rows (rows @ added)"
  unfolding links_le_def by (rule exI [of _ rows], rule exI [of _ added]) (simp add: list_all2_refl)

lemma links_le_update: "(\<And>l. P l \<Longrightarrow> link_le l (f l)) \<Longrightarrow> links_le rows (update_where P f rows)"
  unfolding links_le_def update_where_def
  by (rule exI [of _ "List.map (\<lambda>r. if P r then f r else r) rows"], rule exI [of _ "[]"]) (simp add: list_all2_map2 list_all2_same)

lemma links_le_trans:
  assumes "links_le a b" "links_le b c"
  shows "links_le a c"
proof -
  obtain old added where b: "b = old @ added" "list_all2 link_le a old" using assms(1) by (auto simp: links_le_def)
  obtain old' added' where c: "c = old' @ added'" "list_all2 link_le b old'" using assms(2) by (auto simp: links_le_def)
  obtain o1 o2 where o: "old' = o1 @ o2" "list_all2 link_le old o1"
    using c(2) b(1) by (auto simp: list_all2_append1)
  have "list_all2 link_le a o1" by (rule list_all2_trans [OF _ b(2) o(2)]) (rule link_le_trans)
  then show ?thesis using c(1) o(1) unfolding links_le_def by (metis append_assoc)
qed

lemma links_leD: "links_le rows rows' \<Longrightarrow> l \<in> set rows \<Longrightarrow> \<exists>l'\<in>set rows'. link_le l l'"
  by (fastforce simp: links_le_def list_all2_conv_all_nth in_set_conv_nth)

definition tables_le :: "'x site_db_scheme \<Rightarrow> 'x site_db_scheme \<Rightarrow> bool" where
  "tables_le d d' \<longleftrightarrow> extends (\<lambda>r. r) (st_fleet d) (st_fleet d') \<and> extends (\<lambda>r. r) (st_allocs d) (st_allocs d') \<and>
     extends (\<lambda>r. r) (st_progress d) (st_progress d') \<and> extends (\<lambda>r. r) (st_checkins d) (st_checkins d') \<and>
     extends log_key (st_logs d) (st_logs d') \<and> extends asset_key (st_assets d) (st_assets d') \<and>
     extends update_key (st_updates d) (st_updates d') \<and> links_le (st_links d) (st_links d')"

text \<open>Statements of the site write neither projects nor users; other services add to both and delete none.\<close>

definition site_grow :: "'x site_db_scheme \<Rightarrow> 'x site_db_scheme \<Rightarrow> bool" where
  "site_grow d d' \<longleftrightarrow> (site_ok d \<longrightarrow> site_ok d') \<and> tables_le d d' \<and> (\<exists>rows. db_audit d' = db_audit d @ rows) \<and>
     (\<lambda>p. (pj_ID p, pj_OrgID p)) ` set (db_projects d) \<subseteq> (\<lambda>p. (pj_ID p, pj_OrgID p)) ` set (db_projects d') \<and>
     set (st_members d) \<subseteq> set (st_members d')"

text \<open>A sent update stays as it is; only the failure of its own mail takes it back.\<close>

definition frozen :: "ClientUpdate list \<Rightarrow> ClientUpdate list \<Rightarrow> bool" where
  "frozen rows rows' \<longleftrightarrow> (\<forall>c\<in>set rows. hu_Status c = ClientUpdateStatusSent \<longrightarrow> c \<in> set rows')"

definition site_le :: "'x site_db_scheme \<Rightarrow> 'x site_db_scheme \<Rightarrow> bool" where
  "site_le d d' \<longleftrightarrow> site_grow d d' \<and> frozen (st_updates d) (st_updates d')"

lemmas site_le_defs = site_le_def site_grow_def frozen_def site_ok_def tables_le_def

lemma tables_le_refl [simp]: "tables_le d d"
  by (simp add: tables_le_def)

lemma tables_le_trans: "tables_le a b \<Longrightarrow> tables_le b c \<Longrightarrow> tables_le a c"
  unfolding tables_le_def by (meson extends_trans links_le_trans)

lemma site_grow_refl [simp]: "site_grow d d"
  by (simp add: site_grow_def exI [of _ "[]"])

lemma site_grow_trans: "site_grow a b \<Longrightarrow> site_grow b c \<Longrightarrow> site_grow a c"
  unfolding site_grow_def using tables_le_trans [of a b c] by (metis (no_types, lifting) append_assoc subset_trans)

interpretation site: tx_order site_le
proof unfold_locales
  show "site_le d d" for d :: "'x site_db_scheme" by (simp add: site_le_def frozen_def)
next
  fix a b c :: "'x site_db_scheme"
  assume "site_le a b" "site_le b c"
  then show "site_le a c" unfolding site_le_def frozen_def using site_grow_trans [of a b c] by blast
qed

named_theorems site_follows \<open>transactions that follow the order of the site\<close>

declare site.pure [site_follows] site.reads [site_follows] site.missing [site_follows] site.statement [site_follows]

lemma site_audit: "list_all row_clean rows \<Longrightarrow> site_le d (d\<lparr>db_audit := db_audit d @ rows\<rparr>)"
  by (simp add: site_le_defs)

lemma Record_site [site_follows]: "tx_follows site_le (Record e p)"
  by (rule tx_followsI) (auto dest!: Record_appends simp: site_audit)

lemma insert_site:
  assumes "\<And>d u. ok d \<Longrightarrow> \<forall>r'\<in>set (tab d). rid r' \<noteq> rid (mk d u) \<and> \<not> U r' (mk d u) \<Longrightarrow>
      site_le d (upd (\<lambda>rows. rows @ [mk d u]) d)"
  shows "tx_follows site_le (insert_returning e l tab upd ok rid U mk)"
  by (rule tx_followsI) (auto simp: insert_returning_Inr intro!: assms)

lemma update_site:
  assumes "\<And>d. site_le d (upd (update_where P f) d)"
  shows "tx_follows site_le (update_returning e l tab upd P f)"
  by (rule tx_followsI) (auto simp: update_returning_Inr intro: assms)

lemma Verify_site [site_follows]: "tx_follows site_le (VerifyProjectInOrg e p org)"
  unfolding VerifyProjectInOrg_def by (intro site.bind site_follows)

lemma GetByID_site [site_follows]: "tx_follows site_le (GetByID e p org)"
  unfolding GetByID_def by (intro site_follows)

lemma Lookup_site [site_follows]: "tx_follows site_le (LookupUserIDBySubject parse e sub org)"
  unfolding LookupUserIDBySubject_def by (cases "parse sub") (auto intro!: site.bind site_follows)

lemma Photos_site [site_follows]: "tx_follows site_le (ValidatePhotoAssets e org pid ids)"
  unfolding ValidatePhotoAssets_def CountReadyForProject_def Let_def
  by (auto intro!: site.bind site_follows)

lemma conflict_site [site_follows]: "tx_follows site_le m \<Longrightarrow> tx_follows site_le (tconflict err m)"
  by (rule tx_followsI) (auto dest!: tx_followsD)

end
