(* ===== verification/Site_Ops.thy ===== *)
theory Site_Ops
  imports Site_Inv
begin

text \<open>Every operation of the site's services follows the order \<open>site_le\<close>; the machine that they make up.\<close>

section \<open>Equipment\<close>

lemma site_fleet: "site_le d (st_fleet_update (\<lambda>rows. rows @ [a]) d)"
  by (auto simp: site_le_defs allocs_ok_def)

lemma CreateAsset_follows [site_follows]: "tx_follows site_le (create_asset_body e org sub inp)"
  unfolding create_asset_body_def CreateAsset_store_def
  by (intro site.bind site_follows tx_followsI) (auto simp: insert_returning_Inr site_fleet)

lemma overlap_sym: "ranges_overlap r r' \<longleftrightarrow> ranges_overlap r' r"
  by (simp add: ranges_overlap_def max.commute min.commute)

lemma site_alloc:
  assumes "\<exists>f\<in>set (st_fleet d). fl_ID f = ea_AssetID a \<and> fl_OrgID f = org"
    and "\<exists>p\<in>set (db_projects d). pj_ID p = ea_ProjectID a \<and> pj_OrgID p = org"
    and "ea_StartDate a \<le> ea_EndDate a" "\<forall>b\<in>set (st_allocs d). ea_ID b \<noteq> ea_ID a"
    and "\<forall>b\<in>set (st_allocs d). ea_AssetID b = ea_AssetID a \<longrightarrow> \<not> ranges_overlap (booked b) (booked a)"
  shows "site_le d (st_allocs_update (\<lambda>rows. rows @ [a]) d)"
proof -
  have "allocs_ok (db_projects d) (st_fleet d) (st_allocs d @ [a])" if ok: "allocs_ok (db_projects d) (st_fleet d) (st_allocs d)"
    unfolding allocs_ok_def
  proof (intro conjI ballI impI)
    show "distinct (List.map ea_ID (st_allocs d @ [a]))" using ok assms(4) by (auto simp: allocs_ok_def)
  next
    fix b assume "b \<in> set (st_allocs d @ [a])"
    then show "ea_StartDate b \<le> ea_EndDate b" using ok assms(3) by (auto simp: allocs_ok_def)
  next
    fix b assume b: "b \<in> set (st_allocs d @ [a])"
    show "\<exists>f\<in>set (st_fleet d). \<exists>p\<in>set (db_projects d). fl_ID f = ea_AssetID b \<and> pj_ID p = ea_ProjectID b \<and> pj_OrgID p = fl_OrgID f"
    proof (cases "b = a")
      case True
      then show ?thesis using assms(1,2) by fastforce
    next
      case False
      then show ?thesis using b ok by (auto simp: allocs_ok_def)
    qed
  next
    fix b c assume bc: "b \<in> set (st_allocs d @ [a])" "c \<in> set (st_allocs d @ [a])" "ea_ID b \<noteq> ea_ID c" "ea_AssetID b = ea_AssetID c"
    then consider "b \<in> set (st_allocs d)" "c \<in> set (st_allocs d)" | "b \<in> set (st_allocs d)" "c = a" | "b = a" "c \<in> set (st_allocs d)"
      by auto
    then show "\<not> ranges_overlap (booked b) (booked c)"
    proof cases
      case 1
      then show ?thesis using ok bc(3,4) by (simp add: allocs_ok_def)
    qed (use assms(5) bc(4) overlap_sym in metis)+
  qed
  then show ?thesis by (auto simp: site_le_defs)
qed

lemma allocate_follows [site_follows]: "tx_follows site_le (allocate_body e org sub inp)"
proof (rule tx_followsI)
  fix s :: "'a site_db_scheme session" and got s'
  assume "allocate_body e org sub inp s = Inr (got, s')"
  then obtain u v s1 s2 s3 w where run: "VerifyAssetInOrg e (aa_AssetID inp) org s = Inr (u, s1)"
      "VerifyProjectInOrg e (aa_ProjectID inp) org s1 = Inr (v, s2)" "AllocateAsset_store e inp s2 = Inr (got, s3)"
    and rec: "\<exists>p. Record e p s3 = Inr (w, s')"
    unfolding allocate_body_def tbind_Inr by (elim exE conjE) (simp, blast)
  from run(1) have a: "\<exists>f\<in>set (st_fleet (s_db s)). fl_ID f = aa_AssetID inp \<and> fl_OrgID f = org" "s1 = s"
    by (auto simp: VerifyAssetInOrg_def tbind_Inr select_all_Inr)
  from run(2) a have p: "\<exists>p\<in>set (db_projects (s_db s)). pj_ID p = aa_ProjectID inp \<and> pj_OrgID p = org" "s2 = s"
    by (auto simp: VerifyProjectInOrg_def tbind_Inr select_all_Inr)
  have "site_le (s_db s) (s_db s3)"
    using run(3) a p site_alloc [of "s_db s" got org]
    by (auto simp: AllocateAsset_store_def stmt_Inr insert_returning_Inr new_alloc_def booked_def split: if_splits)
  moreover have "site_le (s_db s3) (s_db s')" using rec by (auto dest: tx_followsD [OF Record_site])
  ultimately show "site_le (s_db s) (s_db s')" by (rule site.R_trans)
qed

section \<open>Photos\<close>

lemma allowed_keys: "map_of allowedAssetContentTypes k = Some ext \<Longrightarrow> k \<in> fst ` set allowedAssetContentTypes"
  by (metis domI dom_map_of_conv_image_fst)

lemma site_asset:
  assumes "\<forall>b\<in>set (st_assets d). at_ID b \<noteq> at_ID a" "asset_ok a"
  shows "site_le d (st_assets_update (\<lambda>rows. rows @ [a]) d)"
  using assms by (auto simp: site_le_defs assets_ok_def)

lemma upload_follows:
  assumes "upload_check inp = Inr ext"
  shows "tx_follows site_le (upload_body e key org sub inp)"
proof -
  have size: "0 < ru_SizeBytes inp" "ru_SizeBytes inp \<le> MaxAssetSizeBytes"
    "map_of allowedAssetContentTypes (to_lower (trim_space (ru_ContentType inp))) = Some ext"
    using assms by (auto simp: upload_check_def ebind_elims split: option.splits)
  note ct = allowed_keys [OF size(3)]
  let ?p = "\<lparr>ia_OrgID = org, ia_ProjectID = ru_ProjectID inp, ia_StorageKey = key,
       ia_ContentType = to_lower (trim_space (ru_ContentType inp)), ia_SizeBytes = ru_SizeBytes inp, ia_UploadedBy = sub\<rparr>"
  have create: "tx_follows site_le (asset_Create e ?p)"
    unfolding asset_Create_def
    by (intro insert_site site_asset) (use size ct in \<open>auto simp: asset_ok_def\<close>)
  show ?thesis unfolding upload_body_def
    by (intro site.bind create site_follows) (cases "ru_ProjectID inp"; simp add: site_follows)
qed

lemma site_asset_update:
  assumes "\<And>a. P a \<Longrightarrow> asset_ok a \<Longrightarrow> asset_ok (f a)" "\<And>a. asset_key (f a) = asset_key a"
  shows "site_le d (st_assets_update (update_where P f) d)"
proof -
  have "at_ID (f a) = at_ID a" for a using assms(2) [of a] unfolding asset_key_def by (metis Asset.select_convs(1) Asset.surjective Asset.update_convs(7,9,11))
  then have "assets_ok (update_where P f (st_assets d))" if "assets_ok (st_assets d)"
    using that assms(1) by (auto simp: assets_ok_def map_update_where set_update_where)
  then show ?thesis using assms(2) by (auto simp: site_le_defs)
qed

lemma confirm_follows [site_follows]: "tx_follows site_le (confirm_body e org sub aid checksum)"
proof -
  have "tx_follows site_le (MarkReady e org aid checksum)"
    unfolding MarkReady_def
    by (rule tx_followsI) (auto simp: update_returning_Inr asset_key_def intro!: site_asset_update,
        auto simp: asset_ok_def asset_statuses)
  then show ?thesis unfolding confirm_body_def by (intro site.bind site_follows)
qed

lemma site_log_update:
  assumes "\<And>l. P l \<Longrightarrow> length (ids l) \<le> MaxAssetsPerDailyLog"
  shows "site_le d (st_logs_update (update_where P (\<lambda>l. l\<lparr>dl_PhotoAssetIDs := ids l\<rparr>)) d)"
  using assms by (auto simp: site_le_defs logs_ok_def map_update_where set_update_where log_key_def)

lemma link_photos_follows [site_follows]: "tx_follows site_le (link_body e org sub pid day ids)"
proof -
  have upd: "tx_follows site_le (update_returning e l st_logs st_logs_update
     (\<lambda>r. dl_ID r = i \<and> (MaxAssetsPerDailyLog = 0 \<or> length (merged_photos p r) \<le> MaxAssetsPerDailyLog))
     (\<lambda>r. r\<lparr>dl_PhotoAssetIDs := merged_photos p r\<rparr>))" for l i p
    by (rule tx_followsI) (auto simp: update_returning_Inr MaxAssetsPerDailyLog_def intro!: site_log_update [unfolded MaxAssetsPerDailyLog_def])
  have "tx_follows site_le (AppendDailyLogPhotos e \<lparr>aq_OrgID = org, aq_ProjectID = pid, aq_LogDate = day, aq_AssetIDs = ids,
       aq_MaxPhotos = MaxAssetsPerDailyLog\<rparr>)"
    unfolding AppendDailyLogPhotos_def
    by (rule site.bind) (auto intro!: site_follows upd split: option.splits)
  then show ?thesis unfolding link_body_def by (intro site.bind site_follows)
qed

section \<open>Field work\<close>

lemma gps_checked: "validateGPS lat lng = Inr () \<Longrightarrow> gps_ok lat lng"
  by (cases "(lat, lng)" rule: validateGPS.cases) (auto simp: gps_ok_def ebind_elims)

lemma site_progress:
  assumes "\<forall>r'\<in>set (st_progress d). tk_IdempotencyKey r' \<noteq> tk_IdempotencyKey r"
    and "0 \<le> tk_PercentComplete r" "tk_PercentComplete r \<le> 100" "gps_ok (tk_GPSLat r) (tk_GPSLng r)"
  shows "site_le d (st_progress_update (\<lambda>rows. rows @ [r]) d)"
  using assms by (auto simp: site_le_defs progress_ok_def)

lemma progress_follows:
  assumes "progress_check org sub inp = Inr ()"
  shows "tx_follows site_le (progress_body parse photos e org sub inp)"
proof -
  have inp: "0 \<le> rx_PercentComplete inp" "rx_PercentComplete inp \<le> 100" "gps_ok (rx_GPSLat inp) (rx_GPSLng inp)"
    using assms by (auto simp: progress_check_def ebind_elims not_less dest: gps_checked)
  have "tx_follows site_le (ReportProgress_store e (progress_params u inp))" for u
    unfolding ReportProgress_store_def
    by (intro conflict_site insert_site site_progress) (use inp in \<open>auto simp: progress_params_def\<close>)
  then show ?thesis unfolding progress_body_def ProjectIDForTaskInOrg_def
    by (intro site.bind site_follows) (auto intro: site_follows split: option.splits)
qed

lemma site_checkin:
  assumes "\<forall>r'\<in>set (st_checkins d). ch_IdempotencyKey r' \<noteq> ch_IdempotencyKey r" "gps_ok (ch_GPSLat r) (ch_GPSLng r)"
  shows "site_le d (st_checkins_update (\<lambda>rows. rows @ [r]) d)"
  using assms by (auto simp: site_le_defs checkins_ok_def)

lemma checkin_follows:
  assumes "checkin_check org sub inp = Inr ()"
  shows "tx_follows site_le (checkin_body parse jsonb e org sub inp)"
proof -
  have inp: "gps_ok (cd_GPSLat inp) (cd_GPSLng inp)"
    using assms by (auto simp: checkin_check_def ebind_elims dest: gps_checked)
  have ins: "tx_follows site_le (Checkin_store jsonb e p)" if "gps_ok (cm_GPSLat p) (cm_GPSLng p)" for p
    unfolding Checkin_store_def Let_def
    by (intro conflict_site insert_site site_checkin) (use that in auto)
  show ?thesis unfolding checkin_body_def by (intro site.bind site_follows ins) (simp add: inp)
qed

lemma site_log:
  assumes "\<forall>r'\<in>set (st_logs d). dl_IdempotencyKey r' \<noteq> dl_IdempotencyKey r"
    and "length (dl_PhotoAssetIDs r) \<le> MaxAssetsPerDailyLog" "trim_space (dl_WorkSummary r) \<noteq> []"
  shows "site_le d (st_logs_update (\<lambda>rows. rows @ [r]) d)"
  using assms by (auto simp: site_le_defs logs_ok_def)

lemma log_follows:
  assumes "log_check org sub inp = Inr ()"
  shows "tx_follows site_le (log_body parse photos e org sub inp)"
proof -
  have inp: "length (dg_PhotoAssetIDs inp) \<le> MaxAssetsPerDailyLog" "trim_space (dg_WorkSummary inp) \<noteq> []"
    using assms by (auto simp: log_check_def ebind_elims)
  have "tx_follows site_le (DailyLog_store e (log_params org u inp))" for u
    unfolding DailyLog_store_def
    by (intro conflict_site insert_site site_log) (use inp in \<open>auto simp: log_params_def\<close>)
  then show ?thesis unfolding log_body_def by (intro site.bind site_follows) (auto intro: site_follows)
qed

section \<open>Updates\<close>

lemma update_GetByID_site [site_follows]: "tx_follows site_le (update_GetByID e org uid)"
  unfolding update_GetByID_def by (intro site_follows)

lemma site_update:
  assumes "\<forall>b\<in>set (st_updates d). hu_ID b \<noteq> hu_ID c" "update_ok c"
    and "(hu_ProjectID c, hu_OrgID c) \<in> (\<lambda>p. (pj_ID p, pj_OrgID p)) ` set (db_projects d)"
  shows "site_le d (st_updates_update (\<lambda>rows. rows @ [c]) d)"
  using assms by (auto simp: site_le_defs updates_ok_def homes_ok_def links_ok_def)

lemma create_draft_follows [site_follows]: "tx_follows site_le (create_draft_body parse e org sub pid period draft)"
proof (rule tx_followsI)
  fix s :: "'x site_db_scheme session" and r s'
  assume "create_draft_body parse e org sub pid period draft s = Inr (r, s')"
  then obtain u v p row s1 s2 s3 w q where run: "VerifyProjectInOrg e pid org s = Inr (v, s1)" "LookupUserIDBySubject parse e sub org s1 = Inr (u, s2)"
      "update_Create e p s2 = Inr (row, s3)" "Record e q s3 = Inr (w, s')"
      "p = \<lparr>cz_OrgID = org, cz_ProjectID = pid, cz_PeriodStart = period, cz_PeriodEnd = period, cz_AIDraft = Some (cn_Body draft),
         cz_EditedBody = cn_Body draft, cz_Subject = cn_Subject draft, cz_PhotoAssetIDs = [], cz_CreatedBy = u\<rparr>"
    unfolding create_draft_body_def tbind_Inr by auto
  have home: "(pid, org) \<in> (\<lambda>p. (pj_ID p, pj_OrgID p)) ` set (db_projects (s_db s))" "s1 = s"
    using run(1) by (auto simp: VerifyProjectInOrg_def tbind_Inr select_all_Inr)
  have "s2 = s" using run(2) home(2)
    by (auto simp: LookupUserIDBySubject_def tbind_Inr select_one_Inr split: option.splits)
  with run(3) have ins: "s_db s3 = st_updates_update (\<lambda>rows. rows @ [row]) (s_db s)" "hu_ProjectID row = pid" "hu_OrgID row = org" "update_ok row"
      "\<forall>b\<in>set (st_updates (s_db s)). hu_ID b \<noteq> hu_ID row"
    by (auto simp: update_Create_def insert_returning_Inr run(5) update_ok_def)
  have "site_le (s_db s) (s_db s3)" unfolding ins(1) using ins home(1) by (intro site_update) auto
  moreover have "site_le (s_db s3) (s_db s')" by (rule tx_followsD [OF Record_site run(4)])
  ultimately show "site_le (s_db s) (s_db s')" by (rule site.R_trans)
qed

lemma grow_update_where:
  assumes "\<And>c. P c \<Longrightarrow> update_ok c \<Longrightarrow> update_ok (f c)" "\<And>c. update_key (f c) = update_key c"
  shows "site_grow d (st_updates_update (update_where P f) d)"
proof -
  have key: "hu_ID (f c) = hu_ID c" "hu_OrgID (f c) = hu_OrgID c" for c using assms(2) [of c] by (simp_all add: update_key_def)
  then have "updates_ok (update_where P f (st_updates d))" if "updates_ok (st_updates d)"
    using that assms(1) by (auto simp: updates_ok_def map_update_where set_update_where)
  moreover have "links_ok (update_where P f (st_updates d)) links" if ok: "links_ok (st_updates d) links" for links
    unfolding links_ok_def
  proof (intro conjI ballI)
    show "sl.token_ok links" using ok by (simp add: links_ok_def)
    fix l assume "l \<in> set links"
    then obtain c where c: "c \<in> set (st_updates d)" "hu_ID c = sl_ClientUpdateID l" "hu_OrgID c = sl_OrgID l"
      using ok by (auto simp: links_ok_def)
    show "\<exists>c\<in>set (update_where P f (st_updates d)). hu_ID c = sl_ClientUpdateID l \<and> hu_OrgID c = sl_OrgID l"
      unfolding set_update_where using c key by (intro bexI [of _ "if P c then f c else c"]) auto
  qed
  moreover have "homes_ok ps (update_where P f (st_updates d))" if "homes_ok ps (st_updates d)" for ps
    using that assms(2) by (fastforce simp: homes_ok_def set_update_where update_key_def)
  ultimately show ?thesis using assms(2) by (auto simp: site_le_defs)
qed

lemma site_update_where:
  assumes "\<And>c. P c \<Longrightarrow> update_ok c \<Longrightarrow> update_ok (f c)" "\<And>c. update_key (f c) = update_key c"
    and "\<And>c. P c \<Longrightarrow> hu_Status c \<noteq> ClientUpdateStatusSent"
  shows "site_le d (st_updates_update (update_where P f) d)"
  using grow_update_where [OF assms(1,2), of P d] assms(3)
  by (auto simp: site_le_def frozen_def set_update_where intro!: image_eqI)

lemma update_draft_follows [site_follows]: "tx_follows site_le (update_draft_body photos e org sub inp)"
proof -
  have edit: "tx_follows site_le (UpdateDraft_store e p)" if "distinct (ux_PhotoAssetIDs p)" "uuid_nil \<notin> set (ux_PhotoAssetIDs p)" for p
    unfolding UpdateDraft_store_def
    by (intro update_site site_update_where) (use that in \<open>auto simp: edited_def update_ok_def update_key_def update_statuses\<close>)
  show ?thesis unfolding update_draft_body_def Let_def
    by (intro site.bind site_follows edit) (auto intro: site_follows)
qed

lemma send_follows [site_follows]: "tx_follows site_le (send_body parse e org sub uid)"
proof -
  have ms: "tx_follows site_le (MarkSent e p)" if "trim_space (mx_RecipientEmail p) \<noteq> []" for p
    unfolding MarkSent_def
    by (intro update_site site_update_where) (use that in \<open>auto simp: marked_sent_def update_ok_def update_key_def\<close>)
  have trim: "trim_space (trim_space s) = trim_space s" for s by (rule trim_space_idem)
  show ?thesis
  proof (rule tx_followsI)
    fix s :: "'x site_db_scheme session" and r s'
    assume "send_body parse e org sub uid s = Inr (r, s')"
    then obtain c p sb row s1 s2 s3 w q where run: "update_GetByID e org uid s = Inr (c, s)" "GetByID e (hu_ProjectID c) org s = Inr (p, s1)"
        "trim_space (coalesce (pj_ClientEmail p) []) \<noteq> []" "LookupUserIDBySubject parse e sub org s1 = Inr (sb, s2)"
        "MarkSent e \<lparr>mx_OrgID = org, mx_ID = uid, mx_RecipientEmail = trim_space (coalesce (pj_ClientEmail p) []), mx_SentBy = sb\<rparr> s2 = Inr (row, s3)"
        "Record e q s3 = Inr (w, s')"
      unfolding send_body_def update_GetByID_def tbind_Inr Let_def by (auto simp: select_one_Inr)
    have "site_le (s_db s) (s_db s1)" by (rule tx_followsD [OF GetByID_site run(2)])
    moreover have "site_le (s_db s1) (s_db s2)" by (rule tx_followsD [OF Lookup_site run(4)])
    moreover have "site_le (s_db s2) (s_db s3)" by (rule tx_followsD [OF ms run(5)]) (simp add: trim run(3))
    moreover have "site_le (s_db s3) (s_db s')" by (rule tx_followsD [OF Record_site run(6)])
    ultimately show "site_le (s_db s) (s_db s')" by (meson site.R_trans)
  qed
qed

lemma mark_failed_grows:
  assumes "mark_failed_body e org sub uid err s = Inr (r, s')"
  shows "site_grow (s_db s) (s_db s')"
    and "\<forall>c\<in>set (st_updates (s_db s)). hu_ID c \<noteq> uid \<or> hu_OrgID c \<noteq> org \<longrightarrow> c \<in> set (st_updates (s_db s'))"
proof -
  obtain s1 w q where run: "update_MarkFailed e org uid (failure_reason err) s = Inr (r, s1)" "Record e q s1 = Inr (w, s')"
    using assms unfolding mark_failed_body_def tbind_Inr by auto
  have s1: "s_db s1 = st_updates_update (update_where (\<lambda>c. hu_ID c = uid \<and> hu_OrgID c = org) (marked_failed e (failure_reason err))) (s_db s)"
    using run(1) by (auto simp: update_MarkFailed_def update_returning_Inr)
  have "site_grow (s_db s) (s_db s1)" unfolding s1
    by (rule grow_update_where) (auto simp: marked_failed_def update_ok_def update_key_def)
  moreover have "site_grow (s_db s1) (s_db s')" using tx_followsD [OF Record_site run(2)] by (simp add: site_le_def)
  ultimately show "site_grow (s_db s) (s_db s')" by (rule site_grow_trans)
  have "st_updates (s_db s') = st_updates (s_db s1)" using Record_appends [OF run(2)] by auto
  then show "\<forall>c\<in>set (st_updates (s_db s)). hu_ID c \<noteq> uid \<or> hu_OrgID c \<noteq> org \<longrightarrow> c \<in> set (st_updates (s_db s'))"
    by (auto simp: s1 set_update_where intro!: image_eqI)
qed

section \<open>Links\<close>

lemma link_GetByID_site [site_follows]: "tx_follows site_le (link_GetByID e org lid)"
  unfolding link_GetByID_def by (intro site_follows)

lemma site_link:
  assumes "\<exists>c\<in>set (st_updates d). hu_ID c = sl_ClientUpdateID l \<and> hu_OrgID c = sl_OrgID l"
    and "\<forall>l'\<in>set (st_links d). sl_ID l' \<noteq> sl_ID l \<and> sl_TokenHash l' \<noteq> sl_TokenHash l"
  shows "site_le d (st_links_update (\<lambda>rows. rows @ [l]) d)"
  using assms by (auto simp: site_le_defs links_ok_def sl.token_ok_def)

lemma create_link_follows [site_follows]: "tx_follows site_le (create_link_body parse e org sub uid hash expires)"
proof (rule tx_followsI)
  fix s :: "'x site_db_scheme session" and r s'
  assume "create_link_body parse e org sub uid hash expires s = Inr (r, s')"
  then obtain c sb s2 s3 w q where run: "update_GetByID e org uid s = Inr (c, s)" "LookupUserIDBySubject parse e sub org s = Inr (sb, s2)"
      "link_Create e \<lparr>cv_OrgID = org, cv_ClientUpdateID = uid, cv_TokenHash = hash, cv_ExpiresAt = expires, cv_CreatedBy = sb\<rparr> s2 = Inr (r, s3)"
      "Record e q s3 = Inr (w, s')"
    unfolding create_link_body_def update_GetByID_def tbind_Inr by (auto simp: select_one_Inr)
  have "s2 = s" using run(2) by (auto simp: LookupUserIDBySubject_def tbind_Inr select_one_Inr split: option.splits)
  moreover have "c \<in> set (st_updates (s_db s))" "hu_ID c = uid" "hu_OrgID c = org"
    using run(1) by (auto simp: update_GetByID_def select_one_Inr dest: find_SomeD)
  ultimately have "site_le (s_db s) (s_db s3)"
    using run(3) by (auto simp: link_Create_def insert_returning_Inr intro!: site_link)
  then show "site_le (s_db s) (s_db s')" by (rule site.R_trans [OF _ tx_followsD [OF Record_site run(4)]])
qed

lemma site_links_update:
  assumes "\<And>l. P l \<Longrightarrow> link_le l (f l)"
  shows "site_le d (st_links_update (update_where P f) d)"
proof -
  let ?f = "\<lambda>l. if P l then f l else l"
  have key: "sl_ID (?f l) = sl_ID l" "sl_TokenHash (?f l) = sl_TokenHash l" "sl_ClientUpdateID (?f l) = sl_ClientUpdateID l" "sl_OrgID (?f l) = sl_OrgID l" for l
    using assms [of l] link_key_fields [of "f l" l] by (simp_all add: link_le_def)
  then have "links_ok updates (update_where P f (st_links d))" if "links_ok updates (st_links d)" for updates
    unfolding links_ok_def set_update_where
  proof (intro conjI ballI)
    show "sl.token_ok (update_where P f (st_links d))"
      using that key unfolding links_ok_def sl.token_ok_def update_where_def by (simp add: o_def)
    fix l assume "l \<in> ?f ` set (st_links d)"
    with that key show "\<exists>c\<in>set updates. hu_ID c = sl_ClientUpdateID l \<and> hu_OrgID c = sl_OrgID l"
      unfolding links_ok_def by (metis (no_types, lifting) imageE)
  qed
  then show ?thesis using links_le_update [of P f "st_links d"] assms by (auto simp: site_le_defs)
qed

lemma revoke_follows [site_follows]: "tx_follows site_le (revoke_body e now org sub lid)"
proof (rule tx_followsI)
  fix s :: "'x site_db_scheme session" and r s'
  assume run: "revoke_body e now org sub lid s = Inr (r, s')"
  have "tx_follows site_le (link_Revoke e org lid now)"
    unfolding link_Revoke_def by (intro update_site site_links_update) (simp add: link_le_def link_key_def revoke_link_def)
  note f1 = tx_followsD [OF this] and f2 = tx_followsD [OF link_GetByID_site] and f3 = tx_followsD [OF Record_site]
  from run show "site_le (s_db s) (s_db s')"
    unfolding revoke_body_def tfound_Inr tbind_Inr
    by (elim disjE exE conjE) (auto dest: f2, meson f1 f3 site.R_trans tret_Inr)
qed

lemma touch_follows [site_follows]: "tx_follows site_le (TouchView e lid now)"
  unfolding TouchView_def
  by (rule tx_followsI) (auto simp: stmt_Inr link_le_def link_key_def viewed_def intro!: site_links_update split: if_splits)

section \<open>The machine\<close>

text \<open>
  Any operation of the site, by anyone, with any environment; \<open>elsewhere\<close> is an operation of another part of the office,
  which knows nothing of these tables, deletes no project and no user and writes the audit log through \<open>Record\<close>.
\<close>

inductive site_op :: "site_db \<Rightarrow> site_db \<Rightarrow> bool" where
  equipment_added: "site_op d (snd (CreateAsset e org sub eqp d))"
| equipment_booked: "site_op d (snd (AllocateAsset e org sub booking d))"
| upload_requested: "site_op d (snd (RequestUpload resolver ustr fresh e now org sub upl d))"
| upload_confirmed: "site_op d (snd (ConfirmUpload e org sub assetID checksum d))"
| photos_linked: "site_op d (snd (LinkPhotosToDailyLog e org sub projectID day ids d))"
| progress_reported: "site_op d (snd (ReportProgress parse photos e org sub prog d))"
| checked_in: "site_op d (snd (Checkin parse jsonb e org sub chk d))"
| day_logged: "site_op d (snd (DailyLog_svc parse photos e org sub lg d))"
| digested: "site_op d (snd (GenerateDigest rs e e' org sub projectID day d))"
| drafted: "site_op d (snd (DraftClientUpdate rs e e' org sub projectID day d))"
| update_created: "site_op d (snd (CreateDraft parse (Some (DraftClientUpdate rs e e')) e'' org sub projectID day d))"
| update_edited: "site_op d (snd (UpdateDraft photos e org sub edit d))"
| update_sent: "site_op d (snd (SendClientUpdate parse sv e e' org sub updateID d))"
| link_created: "site_op d (snd (CreateShareLink parse e rand now org sub updateID ttl d))"
| link_revoked: "site_op d (snd (RevokeShareLink e now org sub linkID d))"
| page_visited: "site_op d (snd (Page ustr longDate withAssets v token d))"
| elsewhere: "\<lbrakk>st_fleet d' = st_fleet d; st_allocs d' = st_allocs d; st_progress d' = st_progress d; st_checkins d' = st_checkins d;
     st_logs d' = st_logs d; st_assets d' = st_assets d; st_updates d' = st_updates d; st_links d' = st_links d;
     (\<lambda>p. (pj_ID p, pj_OrgID p)) ` set (db_projects d) \<subseteq> (\<lambda>p. (pj_ID p, pj_OrgID p)) ` set (db_projects d');
     set (st_members d) \<subseteq> set (st_members d'); db_audit d' = db_audit d @ rows; list_all row_clean rows\<rbrakk> \<Longrightarrow> site_op d d'"

lemma mapped_snd: "mapped rd = (r, d') \<Longrightarrow> snd rd = d'"
  by (metis snd_conv snd_mapped)

lemma site_service:
  assumes "check = Inr () \<Longrightarrow> site_le d (snd run)"
  shows "site_le d (snd (service_result check d run))"
  using assms by (cases check) (auto simp: service_result_def site.R_refl)

lemma elsewhere_ok:
  assumes "allocs_ok ps fleet allocs" "(\<lambda>p. (pj_ID p, pj_OrgID p)) ` set ps \<subseteq> (\<lambda>p. (pj_ID p, pj_OrgID p)) ` set ps'"
  shows "allocs_ok ps' fleet allocs"
proof -
  have "\<exists>p\<in>set ps'. pj_ID p = x \<and> pj_OrgID p = y" if "p \<in> set ps" "pj_ID p = x" "pj_OrgID p = y" for p x y
    using assms(2) that by fastforce
  then show ?thesis using assms(1) unfolding allocs_ok_def by blast
qed

lemma recordReport_le: "site_le d (recordReport e org sub action pid meta d)"
  unfolding recordReport_def by (intro site.commit site_follows)

lemma DraftClientUpdate_le: "site_le d (snd (DraftClientUpdate rs e e' org sub pid day d))"
  by (auto simp: DraftClientUpdate_def recordReport_le site.R_refl split: option.splits sum.splits prod.splits)

lemma CreateDraft_le: "site_le d (snd (CreateDraft parse (Some (DraftClientUpdate rs e e')) e'' org sub pid day d))"
proof -
  obtain r d1 where f: "DraftClientUpdate rs e e' org sub pid day d = (r, d1)" by fastforce
  then have le: "site_le d d1" using DraftClientUpdate_le [of d rs e e' org sub pid day] by simp
  have "site_le d1 (snd (mapped (BeginTxFunc e'' (create_draft_body parse e'' org sub pid (truncateDay day) draft) d1)))" for draft
    by (simp add: site.commit create_draft_follows)
  with le show ?thesis by (auto simp: CreateDraft_def f site.R_refl intro: site.R_trans split: sum.splits)
qed

lemma send_body_row:
  assumes "send_body parse e org sub uid s = Inr ((row, p, to), s')"
  obtains c where "List.find (\<lambda>c. hu_ID c = uid \<and> hu_OrgID c = org) (st_updates (s_db s)) = Some c"
    "hu_Status c \<noteq> ClientUpdateStatusSent"
  using assms unfolding send_body_def update_GetByID_def tbind_Inr Let_def
  by (elim exE conjE) (simp add: select_one_Inr)

lemma SendClientUpdate_le:
  assumes "site_ok d"
  shows "site_le d (snd (SendClientUpdate parse sv e e' org sub uid d))"
proof (cases "fst (mapped (BeginTxFunc e (send_body parse e org sub uid) d))")
  case (Inl err)
  then obtain d1 where d1: "mapped (BeginTxFunc e (send_body parse e org sub uid) d) = (Inl err, d1)" by (metis prod.collapse)
  have "site_le d d1" using site.commit [OF send_follows, of d e parse e org sub uid] mapped_snd [OF d1] by simp
  then show ?thesis by (simp add: SendClientUpdate_def d1 site.R_refl)
next
  case (Inr r)
  obtain row p to where r: "r = (row, p, to)" by (cases r) auto
  obtain d1 where run: "BeginTxFunc e (send_body parse e org sub uid) d = (Inr (row, p, to), d1)"
    using Inr r by (cases "BeginTxFunc e (send_body parse e org sub uid) d") (auto simp: mapped_def)
  then obtain s1 where s1: "send_body parse e org sub uid \<lparr>s_db = d, s_draws = 0, s_aborted = False\<rparr> = Inr ((row, p, to), s1)"
    by (auto simp: BeginTxFunc_Inr)
  obtain c where c: "List.find (\<lambda>c. hu_ID c = uid \<and> hu_OrgID c = org) (st_updates d) = Some c" "hu_Status c \<noteq> ClientUpdateStatusSent"
    using send_body_row [OF s1] by auto
  have le1: "site_le d d1" using site.commits [OF send_follows run] .
  have "site_le d (markSendFailed e' org sub uid err d1)" for err
  proof (cases "fst (BeginTxFunc e' (mark_failed_body e' org sub uid err) d1)")
    case (Inl x)
    then have "markSendFailed e' org sub uid err d1 = d1"
      unfolding markSendFailed_def using BeginTxFunc_Inl [of e' _ d1] by (metis prod.collapse)
    then show ?thesis using le1 by simp
  next
    case (Inr x)
    then obtain s2 where s2: "mark_failed_body e' org sub uid err \<lparr>s_db = d1, s_draws = 0, s_aborted = False\<rparr> = Inr (x, s2)"
        "markSendFailed e' org sub uid err d1 = s_db s2"
      unfolding markSendFailed_def by (cases "BeginTxFunc e' (mark_failed_body e' org sub uid err) d1") (auto simp: BeginTxFunc_Inr)
    have keep: "b \<in> set (st_updates (s_db s2))" if b: "b \<in> set (st_updates d)" "hu_Status b = ClientUpdateStatusSent" for b
    proof -
      have "b \<in> set (st_updates d1)" using le1 b by (auto simp: site_le_def frozen_def)
      moreover have "hu_ID b \<noteq> uid \<or> hu_OrgID b \<noteq> org"
      proof (rule ccontr)
        assume "\<not> (hu_ID b \<noteq> uid \<or> hu_OrgID b \<noteq> org)"
        then have "hu_ID b = hu_ID c" "c \<in> set (st_updates d)" using find_SomeD [OF c(1)] by auto
        then have "b = c" using assms b(1) by (auto simp: site_ok_def updates_ok_def distinct_map inj_on_def)
        then show False using b(2) c(2) by simp
      qed
      ultimately show ?thesis using mark_failed_grows(2) [OF s2(1)] by auto
    qed
    then show ?thesis
      using le1 mark_failed_grows(1) [OF s2(1)] site_grow_trans [of d d1] by (auto simp: s2(2) site_le_def frozen_def)
  qed
  then show ?thesis using run le1 by (auto simp: SendClientUpdate_def mapped_def site.R_refl split: option.splits)
qed

lemma site_op_le:
  assumes "site_op d d'" "site_ok d"
  shows "site_le d d'"
  using assms
proof (induction rule: site_op.induct)
  case (elsewhere d' d rows)
  then have "homes_ok (db_projects d') (st_updates d')" if "homes_ok (db_projects d) (st_updates d)"
    using that unfolding homes_ok_def by auto
  with elsewhere show ?case by (auto simp: site_le_defs intro: elsewhere_ok)
next
  case (update_sent d parse sv e e' org sub updateID)
  then show ?case by (rule SendClientUpdate_le)
next
  case (update_created d parse rs e e' e'' org sub projectID day)
  show ?case by (rule CreateDraft_le)
next
  case (drafted d rs e e' org sub projectID day)
  show ?case by (rule DraftClientUpdate_le)
next
  case (digested d rs e e' org sub projectID day)
  show ?case by (auto simp: GenerateDigest_def recordReport_le site.R_refl split: option.splits sum.splits prod.splits)
next
  case (upload_requested d resolver ustr fresh e now org sub upl)
  have "site_le d (snd (mapped (BeginTxFunc e (upload_body e key org sub upl) d)))" if "upload_check upl = Inr ext" for key ext
    by (simp add: site.commit upload_follows [OF that])
  then show ?case by (auto simp: RequestUpload_def Let_def site.R_refl dest!: mapped_snd split: sum.splits prod.splits)
next
  case (link_created d parse e rand now org sub updateID ttl)
  have "site_le d (snd (mapped (BeginTxFunc e (create_link_body parse e org sub updateID hash ex) d)))" for hash ex
    by (simp add: site.commit create_link_follows)
  then show ?case by (auto simp: CreateShareLink_def site.R_refl dest!: mapped_snd split: sum.splits prod.splits)
next
  case (page_visited d ustr longDate withAssets v token)
  have "site_le d (touchView e now lid d)" for e now lid unfolding touchView_def by (intro site.commit touch_follows)
  then show ?case by (auto simp: Page_def ResolvePublicUpdate_def site.R_refl split: sum.splits)
qed (auto simp: CreateAsset_def AllocateAsset_def ConfirmUpload_def LinkPhotosToDailyLog_def ReportProgress_def Checkin_def DailyLog_svc_def
    UpdateDraft_def RevokeShareLink_def Let_def case_prod_unfold
    intro!: site_service site.commit site_follows progress_follows checkin_follows log_follows)

lemma site_ops_le: "site_op\<^sup>*\<^sup>* d d' \<Longrightarrow> site_ok d \<Longrightarrow> site_le d d' \<and> site_ok d'"
proof (induction rule: rtranclp_induct)
  case base
  then show ?case by (simp add: site.R_refl)
next
  case (step y z)
  then have le: "site_le d y" "site_le y z" using site_op_le by blast+
  have "site_ok z" using le(2) step by (simp add: site_le_def site_grow_def)
  with site.R_trans [OF le] show ?case by simp
qed

end
