(* ===== verification/Site_Props.thy ===== *)
theory Site_Props
  imports Site_Ops Projects_Props
begin

text \<open>What the services of the site guarantee, with a sample site to apply the theorems to.\<close>

section \<open>A sample site\<close>

definition site_env :: "nat \<Rightarrow> env" where
  "site_env k = calm_env\<lparr>e_uuid := (\<lambda>n. k + n)\<rparr>"

definition sample_home :: Project where
  "sample_home = (sample_project 2)\<lparr>pj_ClientEmail := Some ''h@x.y''\<rparr>"

definition sample_excavator :: FleetAsset where
  "sample_excavator = \<lparr>fl_ID = 30, fl_OrgID = 7, fl_Name = ''E'', fl_AssetType = ''excavator'', fl_SerialNumber = None,
     fl_Status = FleetAssetStatusAvailable, fl_CreatedAt = 0\<rparr>"

definition sample_booking :: EquipmentAllocation where
  "sample_booking = \<lparr>ea_ID = 31, ea_AssetID = 30, ea_ProjectID = 2, ea_StartDate = 0, ea_EndDate = 2 * day24, ea_CreatedAt = 0\<rparr>"

definition sample_photo :: Asset where
  "sample_photo = \<lparr>at_ID = 40, at_OrgID = 7, at_ProjectID = Some 2, at_StorageKey = ''k'', at_ContentType = ''image/jpeg'', at_SizeBytes = 10,
     at_Status = AssetStatusReady, at_UploadedBy = ''u'', at_ChecksumSHA256 = None, at_CreatedAt = 0, at_ConfirmedAt = Some 0\<rparr>"

definition sample_draft :: ClientUpdate where
  "sample_draft = \<lparr>hu_ID = 50, hu_OrgID = 7, hu_ProjectID = 2, hu_PeriodStart = 0, hu_PeriodEnd = 0, hu_Status = ClientUpdateStatusDraft,
     hu_AIDraft = Some ''Hi'', hu_EditedBody = ''Hi <b>'', hu_Subject = ''S'', hu_PhotoAssetIDs = [40], hu_RecipientEmail = None,
     hu_CreatedBy = 5, hu_SentBy = None, hu_SentAt = None, hu_SendError = None, hu_CreatedAt = 0, hu_UpdatedAt = 0\<rparr>"

definition sample_site :: site_db where
  "sample_site = \<lparr>db_orgs = [7], db_projects = [sample_home], db_audit = [], db_jobs = [], db_cards = [], db_user_ids = [5], db_items = [],
     db_recs = [], fx_tasks = [], fx_deps = [], fx_budgets = [], st_members = [(5, 7)], st_fleet = [sample_excavator],
     st_allocs = [sample_booking], st_progress = [], st_checkins = [], st_logs = [], st_assets = [sample_photo],
     st_updates = [sample_draft], st_links = []\<rparr>"

definition sample_parse :: "string \<Rightarrow> uuid option" where
  "sample_parse s = (if s = ''u'' then Some 5 else None)"

lemma sample_site_ok: "site_ok sample_site"
  by (simp add: site_ok_def sample_site_def allocs_ok_def progress_ok_def checkins_ok_def logs_ok_def assets_ok_def updates_ok_def
      homes_ok_def links_ok_def sl.token_ok_def asset_ok_def update_ok_def sample_booking_def sample_excavator_def sample_home_def sample_project_def
      sample_photo_def sample_draft_def MaxAssetSizeBytes_def allowedAssetContentTypes_def uuid_nil_def day24_def hour_def minute_def second_def)

lemma healthy_site: "healthy (site_env k)"
  by (simp add: healthy_def site_env_def calm_env_def)

section \<open>Equipment\<close>

definition sample_request_booking :: AllocateAssetParams where
  "sample_request_booking = \<lparr>aa_AssetID = 30, aa_ProjectID = 2, aa_StartDate = 2 * day24, aa_EndDate = 4 * day24\<rparr>"

text \<open>
  C16. Whatever the site's services and the rest of the office do, in any order, with any failures: bookings of one asset stay apart
  and inside one organization, the keys of the phones' entries stay unique, uploads and updates carry the columns their status
  promises, and every link belongs to an update of its organization. The audit log only grows.
\<close>

theorem site_invariant:
  assumes "site_op\<^sup>*\<^sup>* d d'" "site_ok d"
  shows "site_ok d' \<and> (\<exists>rows. db_audit d' = db_audit d @ rows)"
  using site_ops_le [OF assms] by (simp add: site_le_def site_grow_def)

theorem site_invariant_witness:
  "site_ok (snd (AllocateAsset (site_env 100) 7 ''u'' sample_request_booking sample_site))"
proof -
  have "site_op sample_site (snd (AllocateAsset (site_env 100) 7 ''u'' sample_request_booking sample_site))"
    by (rule site_op.equipment_booked)
  then show ?thesis using site_invariant [OF r_into_rtranclp sample_site_ok] by blast
qed

text \<open>
  After any operations no instant belongs to two bookings of one piece of equipment.
\<close>

theorem equipment_never_double_booked:
  assumes "site_op\<^sup>*\<^sup>* d d'" "site_ok d" "a \<in> set (st_allocs d')" "b \<in> set (st_allocs d')" "ea_AssetID a = ea_AssetID b"
    and "ea_StartDate a \<le> t" "t < ea_EndDate a" "ea_StartDate b \<le> t" "t < ea_EndDate b"
  shows "a = b"
proof (rule ccontr)
  assume "a \<noteq> b"
  have ok: "allocs_ok (db_projects d') (st_fleet d') (st_allocs d')"
    using site_ops_le [OF assms(1,2)] by (simp add: site_ok_def)
  then have "ea_ID a \<noteq> ea_ID b" using \<open>a \<noteq> b\<close> assms(3,4) by (auto simp: allocs_ok_def distinct_map inj_on_def)
  then have "\<not> ranges_overlap (booked a) (booked b)" using ok assms(3-5) by (simp add: allocs_ok_def)
  then show False using assms(6-9) by (simp add: ranges_overlap_def booked_def)
qed

text \<open>The days of a booking: midnights of the range \<open>[start, end)\<close>.\<close>

definition books :: "AllocateAssetParams \<Rightarrow> gotime \<Rightarrow> bool" where
  "books p t \<longleftrightarrow> to_date (aa_StartDate p) \<le> t \<and> t < to_date (aa_EndDate p)"

lemma overlap_iff: "ranges_overlap r r' \<longleftrightarrow> (\<exists>t. fst r \<le> t \<and> t < snd r \<and> fst r' \<le> t \<and> t < snd r')"
  unfolding ranges_overlap_def by (auto simp: max_def min_def intro: exI [of _ "max (fst r) (fst r')"])

lemma to_date_mono: "s \<le> t \<Longrightarrow> to_date s \<le> to_date t"
  by (simp add: to_date_def days_since_epoch_def zdiv_mono1 day24_def hour_def minute_def second_def)

lemma Record_fine:
  assumes "healthy e" "\<not> s_aborted s" "ae_OrgID p \<in> set (db_orgs (s_db s))" "\<forall>n. e_uuid e n \<notin> al_ID ` set (db_audit (s_db s))"
  obtains rows n where "Record e p s = Inr ((), s\<lparr>s_db := s_db s\<lparr>db_audit := db_audit (s_db s) @ rows\<rparr>, s_draws := n\<rparr>)"
  using Record_calm [of s e p] assms unfolding healthy_def by blast

lemma tbind_step: "m s = Inr (x, s') \<Longrightarrow> tbind m f s = f x s'"
  by (simp add: tbind_def)

lemma recorded:
  assumes "healthy e" "\<not> s_aborted s" "ae_OrgID p \<in> set (db_orgs (s_db s))" "\<forall>n. e_uuid e n \<notin> al_ID ` set (db_audit (s_db s))"
  obtains rows n where "tbind (Record e p) (\<lambda>_. tret x) s = Inr (x, s\<lparr>s_db := s_db s\<lparr>db_audit := db_audit (s_db s) @ rows\<rparr>, s_draws := n\<rparr>)"
  using Record_calm [of s e p] assms tbind_step [of "Record e p" s "()" _ "\<lambda>_. tret x"] unfolding healthy_def by (metis tret_def)

lemma allocate_run:
  assumes "healthy e" "org \<in> set (db_orgs d)" "\<exists>f\<in>set (st_fleet d). fl_ID f = aa_AssetID inp \<and> fl_OrgID f = org"
    "\<exists>p\<in>set (db_projects d). pj_ID p = aa_ProjectID inp \<and> pj_OrgID p = org" "aa_StartDate inp < aa_EndDate inp"
    "\<forall>n. e_uuid e n \<notin> al_ID ` set (db_audit d) \<union> ea_ID ` set (st_allocs d)"
  shows "(\<exists>a\<in>set (st_allocs d). ea_AssetID a = aa_AssetID inp \<and> ranges_overlap (booked a) (booked (new_alloc e inp 0))) \<Longrightarrow>
      allocate_body e org sub inp \<lparr>s_db = d, s_draws = 0, s_aborted = False\<rparr> = Inl AllocationConflict"
    and "\<not> (\<exists>a\<in>set (st_allocs d). ea_AssetID a = aa_AssetID inp \<and> ranges_overlap (booked a) (booked (new_alloc e inp 0))) \<Longrightarrow>
      \<exists>s. allocate_body e org sub inp \<lparr>s_db = d, s_draws = 0, s_aborted = False\<rparr> = Inr (new_alloc e inp (e_uuid e 0), s) \<and>
        \<not> s_aborted s \<and> st_allocs (s_db s) = st_allocs d @ [new_alloc e inp (e_uuid e 0)]"
proof -
  let ?s = "\<lparr>s_db = d, s_draws = 0, s_aborted = False\<rparr>" and ?a = "new_alloc e inp (e_uuid e 0)"
  have h: "\<not> e_fail e l" for l using assms(1) by (simp add: healthy_def)
  have v: "VerifyAssetInOrg e (aa_AssetID inp) org ?s = Inr ((), ?s)" "VerifyProjectInOrg e (aa_ProjectID inp) org ?s = Inr ((), ?s)"
    using assms(3,4) h by (auto simp: VerifyAssetInOrg_def VerifyProjectInOrg_def tbind_Inr select_all_Inr)
  have le: "to_date (aa_StartDate inp) \<le> to_date (aa_EndDate inp)" using assms(5) by (simp add: to_date_mono)
  have steps: "tbind (VerifyAssetInOrg e (aa_AssetID inp) org) f ?s = f () ?s" "tbind (VerifyProjectInOrg e (aa_ProjectID inp) org) g ?s = g () ?s" for f g
    using v by (simp_all add: tbind_def)
  show "allocate_body e org sub inp ?s = Inl AllocationConflict"
    if "\<exists>a\<in>set (st_allocs d). ea_AssetID a = aa_AssetID inp \<and> ranges_overlap (booked a) (booked (new_alloc e inp 0))"
  proof -
    have "AllocateAsset_store e inp ?s = Inl AllocationConflict" using that le h by (simp add: AllocateAsset_store_def stmt_def)
    then have "tbind (AllocateAsset_store e inp) f ?s = Inl AllocationConflict" for f by (simp add: tbind_def)
    then show ?thesis by (simp only: allocate_body_def steps)
  qed
  let ?s1 = "?s\<lparr>s_db := st_allocs_update (\<lambda>rows. rows @ [?a]) d, s_draws := Suc 0\<rparr>"
  show "\<exists>s. allocate_body e org sub inp ?s = Inr (?a, s) \<and> \<not> s_aborted s \<and> st_allocs (s_db s) = st_allocs d @ [?a]"
    if no: "\<not> (\<exists>a\<in>set (st_allocs d). ea_AssetID a = aa_AssetID inp \<and> ranges_overlap (booked a) (booked (new_alloc e inp 0)))"
  proof -
    have fresh: "\<forall>r'\<in>set (st_allocs d). ea_ID r' \<noteq> e_uuid e 0" using assms(6) by (metis UnI2 image_eqI)
    have fk: "aa_AssetID inp \<in> fl_ID ` set (st_fleet d)" "aa_ProjectID inp \<in> pj_ID ` set (db_projects d)"
      using assms(3,4) by (metis image_eqI)+
    have ins: "AllocateAsset_store e inp ?s = Inr (?a, ?s1)"
      using no fk fresh le h by (auto simp: AllocateAsset_store_def stmt_Inr insert_returning_Inr new_alloc_def)
    have step3: "tbind (AllocateAsset_store e inp) f ?s = f ?a ?s1" for f using ins by (simp add: tbind_def)
    have "allocate_body e org sub inp ?s = tbind (Record e (alloc_entry org sub ?a)) (\<lambda>_. tret ?a) ?s1"
      by (simp only: allocate_body_def steps step3)
    moreover obtain rows n where "tbind (Record e (alloc_entry org sub ?a)) (\<lambda>_. tret ?a) ?s1 =
        Inr (?a, ?s1\<lparr>s_db := s_db ?s1\<lparr>db_audit := db_audit (s_db ?s1) @ rows\<rparr>, s_draws := n\<rparr>)"
      by (rule recorded [of e ?s1 "alloc_entry org sub ?a" ?a]) (use assms(1,2,6) in \<open>auto simp: alloc_entry_def\<close>)
    ultimately show ?thesis by simp
  qed
qed

text \<open>
  C27. A valid booking of a project's equipment, in a healthy environment, is refused exactly when one of its days is booked already;
  otherwise it is stored with the dates of the request, and nothing else happens to the bookings.
\<close>

theorem booking_decided_by_dates:
  assumes "healthy e" "org \<in> set (db_orgs d)" "allocate_check org inp = Inr ()"
    "\<exists>f\<in>set (st_fleet d). fl_ID f = aa_AssetID inp \<and> fl_OrgID f = org"
    "\<exists>p\<in>set (db_projects d). pj_ID p = aa_ProjectID inp \<and> pj_OrgID p = org"
    "\<forall>n. e_uuid e n \<notin> al_ID ` set (db_audit d) \<union> ea_ID ` set (st_allocs d)"
  shows "if \<exists>a\<in>set (st_allocs d). ea_AssetID a = aa_AssetID inp \<and> (\<exists>t. ea_StartDate a \<le> t \<and> t < ea_EndDate a \<and> books inp t)
    then AllocateAsset e org sub inp d = (Inl AllocationConflict, d)
    else \<exists>d'. AllocateAsset e org sub inp d = (Inr (new_alloc e inp (e_uuid e 0)), d') \<and>
      st_allocs d' = st_allocs d @ [new_alloc e inp (e_uuid e 0)]"
proof -
  have dates: "aa_StartDate inp < aa_EndDate inp" using assms(3) by (auto simp: allocate_check_def ebind_elims)
  let ?clash = "\<exists>a\<in>set (st_allocs d). ea_AssetID a = aa_AssetID inp \<and> ranges_overlap (booked a) (booked (new_alloc e inp 0))"
  have clash: "(\<exists>a\<in>set (st_allocs d). ea_AssetID a = aa_AssetID inp \<and> (\<exists>t. ea_StartDate a \<le> t \<and> t < ea_EndDate a \<and> books inp t)) = ?clash"
    unfolding overlap_iff books_def by (simp add: booked_def new_alloc_def)
  have h: "\<not> e_fail e ''begin''" "\<not> e_commit_fails e" using assms(1) by (simp_all add: healthy_def)
  note run = allocate_run [OF assms(1,2,4,5) dates assms(6), of sub]
  show ?thesis
  proof (cases ?clash)
    case True
    then show ?thesis unfolding clash using run(1) h assms(3)
      by (simp add: AllocateAsset_def service_result_def reported_def BeginTxFunc_def mapReportError_def)
  next
    case False
    then obtain s where "allocate_body e org sub inp \<lparr>s_db = d, s_draws = 0, s_aborted = False\<rparr> = Inr (new_alloc e inp (e_uuid e 0), s)"
        "\<not> s_aborted s" "st_allocs (s_db s) = st_allocs d @ [new_alloc e inp (e_uuid e 0)]" using run(2) by blast
    with False show ?thesis unfolding clash using h assms(3)
      by (simp add: AllocateAsset_def service_result_def reported_def BeginTxFunc_def)
  qed
qed

lemma site_env_simps [simp]: "e_uuid (site_env k) n = k + n" "e_now (site_env k) = 0" "e_fail (site_env k) l = False"
    "e_commit_fails (site_env k) = False"
  by (simp_all add: site_env_def calm_env_def)

lemma sample_site_simps [simp]:
  "db_orgs sample_site = [7]" "db_projects sample_site = [sample_home]" "db_audit sample_site = []" "st_members sample_site = [(5, 7)]"
  "st_fleet sample_site = [sample_excavator]" "st_allocs sample_site = [sample_booking]" "st_assets sample_site = [sample_photo]"
  "st_updates sample_site = [sample_draft]" "st_links sample_site = []" "st_logs sample_site = []" "st_progress sample_site = []"
  "st_checkins sample_site = []" "fx_tasks sample_site = []"
  by (simp_all add: sample_site_def)

lemma sample_dates: "to_date (k * day24) = k * day24"
  by (simp add: to_date_def days_since_epoch_def day24_def hour_def minute_def second_def)

theorem booking_decided_by_dates_witness:
  "AllocateAsset (site_env 100) 7 ''u'' (sample_request_booking\<lparr>aa_StartDate := 1 * day24\<rparr>) sample_site = (Inl AllocationConflict, sample_site) \<and>
   (\<exists>a d'. AllocateAsset (site_env 100) 7 ''u'' sample_request_booking sample_site = (Inr a, d'))"
proof -
  let ?p = "sample_request_booking\<lparr>aa_StartDate := 1 * day24\<rparr>"
  have own: "\<exists>f\<in>set (st_fleet sample_site). fl_ID f = 30 \<and> fl_OrgID f = 7" "\<exists>p\<in>set (db_projects sample_site). pj_ID p = 2 \<and> pj_OrgID p = 7"
    by (simp_all add: sample_excavator_def sample_home_def sample_project_def)
  have ids: "\<forall>n. e_uuid (site_env 100) n \<notin> al_ID ` set (db_audit sample_site) \<union> ea_ID ` set (st_allocs sample_site)"
    by (simp add: sample_booking_def)
  have big: "0 < day24" by (simp add: day24_def hour_def minute_def second_def)
  have z: "zero_time \<noteq> 1 * day24" "zero_time \<noteq> 2 * day24" "zero_time \<noteq> 4 * day24"
    by (simp_all add: zero_time_def day24_def hour_def minute_def second_def)
  have ok: "allocate_check 7 ?p = Inr ()" "allocate_check 7 sample_request_booking = Inr ()"
    using z big by (simp_all add: allocate_check_def ebind_elims require_that_def sample_request_booking_def uuid_nil_def)
  have days: "books ?p t \<longleftrightarrow> day24 \<le> t \<and> t < 4 * day24" "books sample_request_booking t \<longleftrightarrow> 2 * day24 \<le> t \<and> t < 4 * day24" for t
    using sample_dates [of 1] by (simp_all add: books_def sample_request_booking_def sample_dates)
  note rule = booking_decided_by_dates [OF healthy_site]
  have "AllocateAsset (site_env 100) 7 ''u'' ?p sample_site = (Inl AllocationConflict, sample_site)"
    using rule [of 7 sample_site ?p 100 "''u''"] own ids ok(1) big unfolding days
    by (auto simp: sample_request_booking_def sample_booking_def split: if_splits)
  moreover have "\<exists>a d'. AllocateAsset (site_env 100) 7 ''u'' sample_request_booking sample_site = (Inr a, d')"
    using rule [of 7 sample_site sample_request_booking 100 "''u''"] own ids ok(2) unfolding days
    by (auto simp: sample_request_booking_def sample_booking_def split: if_splits)
  ultimately show ?thesis by blast
qed

theorem equipment_never_double_booked_witness:
  "\<exists>a\<in>set (st_allocs sample_site). a = sample_booking \<and> ea_StartDate a \<le> 0 \<and> 0 < ea_EndDate a"
proof -
  have t: "ea_StartDate sample_booking \<le> 0" "0 < ea_EndDate sample_booking"
    by (simp_all add: sample_booking_def day24_def hour_def minute_def second_def)
  have mem: "sample_booking \<in> set (st_allocs sample_site)" by simp
  have "sample_booking = sample_booking"
    by (rule equipment_never_double_booked [OF rtranclp.rtrancl_refl sample_site_ok mem mem refl t t])
  with t mem show ?thesis by blast
qed

section \<open>Field work\<close>

lemma lookup_member:
  "LookupUserIDBySubject parse e sub org s = Inr (u, s') \<Longrightarrow> parse sub = Some u \<and> (u, org) \<in> set (st_members (s_db s)) \<and> s' = s"
  by (auto simp: LookupUserIDBySubject_def tbind_Inr select_one_Inr dest: find_SomeD split: option.splits)

lemma photos_read: "ValidatePhotoAssets e org pid ids s = Inr (u, s') \<Longrightarrow> s' = s"
  by (auto simp: ValidatePhotoAssets_def CountReadyForProject_def Let_def tbind_Inr select_all_Inr split: if_splits)

lemma log_committed:
  assumes "DailyLog_svc parse ph e org sub inp d = (Inr l, d1)"
  shows "st_logs d1 = st_logs d @ [l]" "dl_IdempotencyKey l = dg_IdempotencyKey inp" "log_check org sub inp = Inr ()"
    "dg_IdempotencyKey inp \<notin> dl_IdempotencyKey ` set (st_logs d)" "\<exists>u. parse sub = Some u \<and> (u, org) \<in> set (st_members d1)"
    "\<exists>p\<in>set (db_projects d1). pj_ID p = dg_ProjectID inp \<and> pj_OrgID p = org" "db_orgs d1 = db_orgs d"
proof -
  from assms show check: "log_check org sub inp = Inr ()"
    by (auto simp: DailyLog_svc_def service_result_def split: sum.splits)
  with assms obtain s' where s': "log_body parse ph e org sub inp \<lparr>s_db = d, s_draws = 0, s_aborted = False\<rparr> = Inr (l, s')" "d1 = s_db s'"
    by (auto simp: DailyLog_svc_def service_result_def reported_Inr BeginTxFunc_Inr)
  let ?s = "\<lparr>s_db = d, s_draws = 0, s_aborted = False\<rparr>"
  obtain u v w x s1 s2 s3 s4 where run: "LookupUserIDBySubject parse e sub org ?s = Inr (u, s1)"
      "VerifyProjectInOrg e (dg_ProjectID inp) org s1 = Inr (v, s2)"
      "(if ph \<and> dg_PhotoAssetIDs inp \<noteq> [] then ValidatePhotoAssets e org (dg_ProjectID inp) (dg_PhotoAssetIDs inp) else tret ()) s2 = Inr (w, s3)"
      "DailyLog_store e (log_params org u inp) s3 = Inr (l, s4)" "Record e (log_entry org sub inp l) s4 = Inr (x, s')"
    using s'(1) unfolding log_body_def tbind_Inr by auto
  note l = lookup_member [OF run(1)]
  have v: "s2 = ?s" "\<exists>p\<in>set (db_projects d). pj_ID p = dg_ProjectID inp \<and> pj_OrgID p = org"
    using run(2) l by (auto simp: VerifyProjectInOrg_def tbind_Inr select_all_Inr)
  have "s3 = ?s" using run(3) v photos_read by (auto split: if_splits)
  then have ins: "s_db s4 = st_logs_update (\<lambda>rows. rows @ [l]) d" "dl_IdempotencyKey l = dg_IdempotencyKey inp"
      "\<forall>r\<in>set (st_logs d). dl_IdempotencyKey r \<noteq> dl_IdempotencyKey l"
    using run(4) by (auto simp: DailyLog_store_def insert_returning_Inr log_params_def)
  obtain rows where d1: "d1 = st_logs_update (\<lambda>rows. rows @ [l]) d\<lparr>db_audit := db_audit d @ rows\<rparr>"
    using Record_appends [OF run(5)] ins(1) s'(2) by auto
  show "st_logs d1 = st_logs d @ [l]" "dl_IdempotencyKey l = dg_IdempotencyKey inp"
    "dg_IdempotencyKey inp \<notin> dl_IdempotencyKey ` set (st_logs d)" "\<exists>u. parse sub = Some u \<and> (u, org) \<in> set (st_members d1)"
    "\<exists>p\<in>set (db_projects d1). pj_ID p = dg_ProjectID inp \<and> pj_OrgID p = org" "db_orgs d1 = db_orgs d"
    using d1 ins l v by auto
qed

lemma rejected_unchanged: "fst (DailyLog_svc parse ph e org sub inp d) = Inl err \<Longrightarrow> snd (DailyLog_svc parse ph e org sub inp d) = d"
  by (auto simp: DailyLog_svc_def service_result_def reported_def BeginTxFunc_def map_err_Inl split: sum.splits if_splits)

lemma log_keys_grow: "site_le d d' \<Longrightarrow> dl_IdempotencyKey ` set (st_logs d) \<subseteq> dl_IdempotencyKey ` set (st_logs d')"
proof -
  assume "site_le d d'"
  then have "log_key ` set (st_logs d) \<subseteq> log_key ` set (st_logs d')"
    by (auto simp: site_le_def site_grow_def tables_le_def dest!: extends_image)
  then have "dl_IdempotencyKey ` log_key ` set (st_logs d) \<subseteq> dl_IdempotencyKey ` log_key ` set (st_logs d')" by (rule image_mono)
  then show ?thesis by (simp add: image_image log_key_def)
qed

lemma distinct_count: "distinct (List.map f xs) \<Longrightarrow> k \<in> f ` set xs \<Longrightarrow> length (filter (\<lambda>x. f x = k) xs) = 1"
proof (induction xs)
  case (Cons x xs)
  have "f x \<noteq> f y" if "y \<in> set xs" for y using Cons.prems(1) that by auto
  then have "f x = k \<Longrightarrow> filter (\<lambda>y. f y = k) xs = []" unfolding filter_empty_conv by metis
  then show ?case using Cons by auto
qed simp

lemma find_itself: "x \<in> set xs \<Longrightarrow> List.find (\<lambda>m. m = x) xs = Some x"
  by (induction xs) auto

lemma replay_conflicts:
  assumes "healthy e" "log_check org sub inp = Inr ()" "parse sub = Some u" "(u, org) \<in> set (st_members d)" "org \<in> set (db_orgs d)"
    "\<exists>p\<in>set (db_projects d). pj_ID p = dg_ProjectID inp \<and> pj_OrgID p = org" "\<not> ph \<or> dg_PhotoAssetIDs inp = []"
    "dg_IdempotencyKey inp \<in> dl_IdempotencyKey ` set (st_logs d)"
  shows "DailyLog_svc parse ph e org sub inp d = (Inl IdempotencyConflict, d)"
proof -
  let ?s = "\<lparr>s_db = d, s_draws = 0, s_aborted = False\<rparr>"
  have h: "\<not> e_fail e l" for l using assms(1) by (simp add: healthy_def)
  have "List.find (\<lambda>m. m = (u, org)) (st_members d) = Some (u, org)" using assms(4) by (rule find_itself)
  then have "LookupUserIDBySubject parse e sub org ?s = Inr (u, ?s)"
    using assms(3) h by (auto simp: LookupUserIDBySubject_def tbind_Inr select_one_Inr)
  moreover have "VerifyProjectInOrg e (dg_ProjectID inp) org ?s = Inr ((), ?s)"
    using assms(6) h by (auto simp: VerifyProjectInOrg_def tbind_Inr select_all_Inr)
  moreover have "DailyLog_store e (log_params org u inp) ?s = Inl IdempotencyConflict"
  proof -
    have fk: "dg_ProjectID inp \<in> pj_ID ` set (db_projects d)" "u \<in> fst ` set (st_members d)" using assms(4,6) by (force, force)
    obtain r where "r \<in> set (st_logs d)" "dl_IdempotencyKey r = dg_IdempotencyKey inp" using assms(8) by force
    with fk assms(5) h show ?thesis
      by (auto simp: DailyLog_store_def tconflict_def insert_returning_def stmt_def log_params_def Let_def)
  qed
  moreover have np: "(if ph \<and> dg_PhotoAssetIDs inp \<noteq> [] then ValidatePhotoAssets e org (dg_ProjectID inp) (dg_PhotoAssetIDs inp) else tret ()) = tret ()"
    using assms(7) by auto
  ultimately have "log_body parse ph e org sub inp ?s = Inl IdempotencyConflict"
    unfolding log_body_def np by (simp add: tbind_def tret_def)
  then show ?thesis using assms(2) h
    by (simp add: DailyLog_svc_def service_result_def reported_def BeginTxFunc_def mapReportError_def)
qed

text \<open>
  C26. A daily log that was accepted is in the table once, whatever happens afterwards: a second entry with its key is refused
  whoever sends it and whatever it says, and the phone that sends the same text again in a healthy environment is told that the key
  is used, which it takes for success.
\<close>

theorem replayed_log_lands_once:
  assumes "DailyLog_svc parse ph e org sub inp d = (Inr l, d1)" "site_op\<^sup>*\<^sup>* d1 d2" "site_ok d1"
  shows "length (filter (\<lambda>x. dl_IdempotencyKey x = dg_IdempotencyKey inp) (st_logs d2)) = 1 \<and>
    (dg_IdempotencyKey again = dg_IdempotencyKey inp \<longrightarrow> (\<exists>err. DailyLog_svc parse' ph' e' org' sub' again d2 = (Inl err, d2))) \<and>
    (healthy e' \<and> org \<in> set (db_orgs d2) \<and> (\<not> ph \<or> dg_PhotoAssetIDs inp = []) \<longrightarrow>
      DailyLog_svc parse ph e' org sub inp d2 = (Inl IdempotencyConflict, d2))"
proof (intro conjI impI)
  note c = log_committed [OF assms(1)]
  have le: "site_le d1 d2" "site_ok d2" using site_ops_le [OF assms(2,3)] by auto
  have key: "dg_IdempotencyKey inp \<in> dl_IdempotencyKey ` set (st_logs d2)"
    using log_keys_grow [OF le(1)] c(1,2) by auto
  then show "length (filter (\<lambda>x. dl_IdempotencyKey x = dg_IdempotencyKey inp) (st_logs d2)) = 1"
    using le(2) by (intro distinct_count) (auto simp: site_ok_def logs_ok_def)
  show "\<exists>err. DailyLog_svc parse' ph' e' org' sub' again d2 = (Inl err, d2)" if "dg_IdempotencyKey again = dg_IdempotencyKey inp"
  proof (cases "fst (DailyLog_svc parse' ph' e' org' sub' again d2)")
    case (Inl err)
    then show ?thesis using rejected_unchanged [OF Inl] by (metis prod.collapse)
  next
    case (Inr r)
    then have "DailyLog_svc parse' ph' e' org' sub' again d2 = (Inr r, snd (DailyLog_svc parse' ph' e' org' sub' again d2))" by (metis prod.collapse)
    from log_committed(4) [OF this] key that show ?thesis by simp
  qed
  show "DailyLog_svc parse ph e' org sub inp d2 = (Inl IdempotencyConflict, d2)"
    if h: "healthy e' \<and> org \<in> set (db_orgs d2) \<and> (\<not> ph \<or> dg_PhotoAssetIDs inp = [])"
  proof -
    obtain u where u: "parse sub = Some u" "(u, org) \<in> set (st_members d1)" using c(5) by blast
    obtain p where p: "p \<in> set (db_projects d1)" "pj_ID p = dg_ProjectID inp" "pj_OrgID p = org" using c(6) by blast
    have "(pj_ID p, pj_OrgID p) \<in> (\<lambda>p. (pj_ID p, pj_OrgID p)) ` set (db_projects d2)" "(u, org) \<in> set (st_members d2)"
      using le(1) p(1) u(2) unfolding site_le_def site_grow_def by (blast, blast)
    then show ?thesis using h c(3) u(1) p key by (intro replay_conflicts) auto
  qed
qed

lemma log_accepted:
  assumes "healthy e" "log_check org sub inp = Inr ()" "parse sub = Some u" "(u, org) \<in> set (st_members d)" "org \<in> set (db_orgs d)"
    "\<exists>p\<in>set (db_projects d). pj_ID p = dg_ProjectID inp \<and> pj_OrgID p = org" "\<not> ph \<or> dg_PhotoAssetIDs inp = []"
    "dg_IdempotencyKey inp \<notin> dl_IdempotencyKey ` set (st_logs d)"
    "\<forall>n. e_uuid e n \<notin> al_ID ` set (db_audit d) \<union> dl_ID ` set (st_logs d)"
  shows "\<exists>l d'. DailyLog_svc parse ph e org sub inp d = (Inr l, d')"
proof -
  let ?s = "\<lparr>s_db = d, s_draws = 0, s_aborted = False\<rparr>"
  have h: "\<not> e_fail e l" "\<not> e_commit_fails e" for l using assms(1) by (simp_all add: healthy_def)
  have "List.find (\<lambda>m. m = (u, org)) (st_members d) = Some (u, org)" using assms(4) by (rule find_itself)
  then have s1: "tbind (LookupUserIDBySubject parse e sub org) f ?s = f u ?s" for f
    using assms(3) h by (auto simp: LookupUserIDBySubject_def tbind_Inr select_one_Inr intro!: tbind_step)
  have s2: "tbind (VerifyProjectInOrg e (dg_ProjectID inp) org) f ?s = f () ?s" for f
    using assms(6) h by (auto simp: VerifyProjectInOrg_def tbind_Inr select_all_Inr intro!: tbind_step)
  have np: "(if ph \<and> dg_PhotoAssetIDs inp \<noteq> [] then ValidatePhotoAssets e org (dg_ProjectID inp) (dg_PhotoAssetIDs inp) else tret ()) = tret ()"
    using assms(7) by auto
  have fk: "dg_ProjectID inp \<in> pj_ID ` set (db_projects d)" "u \<in> fst ` set (st_members d)" using assms(4,6) by (force, force)
  have "\<forall>r\<in>set (st_logs d). dl_ID r \<noteq> e_uuid e 0 \<and> dl_IdempotencyKey r \<noteq> dg_IdempotencyKey inp"
    using assms(8,9) by (metis UnI2 image_eqI)
  then obtain l where ins: "DailyLog_store e (log_params org u inp) ?s = Inr (l, ?s\<lparr>s_db := st_logs_update (\<lambda>rows. rows @ [l]) d, s_draws := Suc 0\<rparr>)"
    using fk assms(5) h by (auto simp: DailyLog_store_def insert_returning_Inr log_params_def)
  let ?s1 = "?s\<lparr>s_db := st_logs_update (\<lambda>rows. rows @ [l]) d, s_draws := Suc 0\<rparr>"
  have s3: "tbind (DailyLog_store e (log_params org u inp)) f ?s = f l ?s1" for f using ins by (simp add: tbind_def)
  obtain rows n where s4: "tbind (Record e (log_entry org sub inp l)) (\<lambda>_. tret l) ?s1 =
      Inr (l, ?s1\<lparr>s_db := s_db ?s1\<lparr>db_audit := db_audit (s_db ?s1) @ rows\<rparr>, s_draws := n\<rparr>)"
    by (rule recorded [of e ?s1 "log_entry org sub inp l" l]) (use assms(1,5,9) in \<open>auto simp: log_entry_def\<close>)
  have "log_body parse ph e org sub inp ?s = tbind (Record e (log_entry org sub inp l)) (\<lambda>_. tret l) ?s1"
    unfolding log_body_def s1 s2 np by (simp add: tbind_def tret_def ins)
  then show ?thesis using h s4 assms(2)
    by (simp add: DailyLog_svc_def service_result_def reported_def BeginTxFunc_def)
qed

definition sample_log :: DailyLogInput where
  "sample_log = \<lparr>dg_ProjectID = 2, dg_LogDate = day24, dg_WeatherConditions = None, dg_WorkSummary = ''ok'', dg_SafetyIncidents = None,
     dg_PhotoAssetIDs = [], dg_IdempotencyKey = 60\<rparr>"

theorem replayed_log_lands_once_witness:
  "\<exists>l d. DailyLog_svc sample_parse True (site_env 100) 7 ''u'' sample_log sample_site = (Inr l, d) \<and>
    DailyLog_svc sample_parse True (site_env 200) 7 ''u'' sample_log d = (Inl IdempotencyConflict, d)"
proof -
  have check: "log_check 7 ''u'' sample_log = Inr ()"
    by (simp add: log_check_def requireFieldCaller_def ebind_elims require_that_def sample_log_def uuid_nil_def zero_time_def
        day24_def hour_def minute_def second_def MaxFieldNotesLength_def trim_space_def is_space_def MaxAssetsPerDailyLog_def)
  obtain l d where first: "DailyLog_svc sample_parse True (site_env 100) 7 ''u'' sample_log sample_site = (Inr l, d)"
    using log_accepted [OF healthy_site check, of sample_parse 5 sample_site True 100]
    by (auto simp: sample_parse_def sample_log_def sample_home_def sample_project_def)
  have op: "site_op sample_site d"
    using site_op.day_logged [of sample_site sample_parse True "site_env 100" 7 "''u''" sample_log] first by simp
  then have ok: "site_ok d" using site_ops_le [OF r_into_rtranclp sample_site_ok] by blast
  have "db_orgs d = [7]" using log_committed(7) [OF first] by simp
  then show ?thesis
    using first replayed_log_lands_once [OF first rtranclp.rtrancl_refl ok, where e' = "site_env 200"]
      healthy_site [of 200] by (auto simp: sample_log_def)
qed

end
