(* ===== verification/Office.thy ===== *)
theory Office
  imports Site_Ops "HOL-Library.Product_Lexorder"
begin

text \<open>
  The office beside the site. The rows of internal/models/hr.go, feedback.go, notification.go and agent_config.go; employees
  and certifications (internal/store/hr.go, internal/service/hr.go); the feedback loop (internal/store/feedback.go,
  internal/service/feedback.go and migration 020); notifications of the field (internal/store/notifications.go,
  internal/service/notification.go and the retry worker of internal/worker/jobs.go under the job queue). The services hand
  the store no empty JSON document, which its \<open>nil\<close> default would replace.
\<close>

section \<open>Tables and models\<close>

subsection \<open>Rows\<close>

record Employee =
  em_ID :: uuid
  em_OrgID :: uuid
  em_UserID :: "uuid option"
  em_FirstName :: string
  em_LastName :: string
  em_Role :: string
  em_Phone :: "string option"
  em_HireDate :: "gotime option"
  em_CreatedAt :: gotime

record Certification =
  ce_ID :: uuid
  ce_EmployeeID :: uuid
  ce_CertType :: string
  ce_CertNumber :: "string option"
  ce_IssuedDate :: "gotime option"
  ce_ExpiryDate :: gotime
  ce_Status :: string
  ce_CreatedAt :: gotime

record Feedback =
  fk_ID :: uuid
  fk_OrgID :: uuid
  fk_UserSub :: string
  fk_Category :: string
  fk_Message :: string
  fk_Context :: json
  fk_Status :: string
  fk_TriageNote :: string
  fk_CreatedAt :: gotime
  fk_UpdatedAt :: gotime

record FieldNotificationDLQEntry =
  dq_ID :: uuid
  dq_UserID :: uuid
  dq_NotificationType :: string
  dq_Payload :: json
  dq_RetryCount :: int
  dq_LastError :: "string option"
  dq_CreatedAt :: gotime

record AgentConfig =
  ac_ID :: uuid
  ac_OrgID :: uuid
  ac_Capability :: string
  ac_Enabled :: bool
  ac_Config :: json
  ac_UpdatedBy :: string
  ac_CreatedAt :: gotime
  ac_UpdatedAt :: gotime

record office_db = site_db +
  of_employees :: "Employee list"
  of_certs :: "Certification list"
  of_feedback :: "Feedback list"
  of_dlq :: "FieldNotificationDLQEntry list"
  of_agents :: "AgentConfig list"

subsection \<open>What the models validate\<close>

definition CertificationStatusActive :: string where "CertificationStatusActive = ''active''"
definition CertificationStatusExpired :: string where "CertificationStatusExpired = ''expired''"
definition CertificationStatusRevoked :: string where "CertificationStatusRevoked = ''revoked''"

definition IsValidCertificationStatus :: "string \<Rightarrow> bool" where
  "IsValidCertificationStatus s \<longleftrightarrow> s \<in> {CertificationStatusActive, CertificationStatusExpired, CertificationStatusRevoked}"

definition validFeedbackCategories :: "string list" where
  "validFeedbackCategories = [''bug'', ''idea'', ''friction'', ''other'']"

definition FeedbackStatusNew :: string where "FeedbackStatusNew = ''new''"

definition validFeedbackStatuses :: "string list" where
  "validFeedbackStatuses = [FeedbackStatusNew, ''triaged'', ''planned'', ''shipped'', ''declined'']"

definition IsValidNotificationType :: "string \<Rightarrow> bool" where
  "IsValidNotificationType s \<longleftrightarrow> s \<in> {''sms'', ''push'', ''email''}"

subsection \<open>Raw JSON\<close>

text \<open>\<open>parse\<close> is \<open>json.Unmarshal\<close> into \<open>any\<close>. Its texts of an object are those that start with a brace.\<close>

definition validateConfigObject :: "(string \<Rightarrow> json option) \<Rightarrow> string \<Rightarrow> svc_error + string" where
  "validateConfigObject parse raw =
     (if trim_space raw = [] then Inr ''{}''
      else if parse raw = None then Inl (InvalidInput ''config must be valid JSON'')
      else if hd (trim_space raw) \<noteq> CHR ''{'' then Inl (InvalidInput ''config must be a JSON object'')
      else Inr raw)"

definition json_text :: "(string \<Rightarrow> json option) \<Rightarrow> bool" where
  "json_text parse \<longleftrightarrow> parse ''{}'' = Some (JObject []) \<and> (\<forall>raw v. parse raw = Some v \<longrightarrow> trim_space raw \<noteq> []) \<and>
     (\<forall>raw v. parse raw = Some v \<longrightarrow> (hd (trim_space raw) = CHR ''{'' \<longleftrightarrow> (\<exists>m. v = JObject m)))"

lemma validateConfigObject_Inr:
  assumes "json_text parse" "validateConfigObject parse raw = Inr cfg"
  obtains m where "parse cfg = Some (JObject m)"
  using assms by (fastforce simp: json_text_def validateConfigObject_def split: if_splits)

definition nul :: char where "nul = CHR 0x00"

fun anyContainsNUL :: "json \<Rightarrow> bool" where
  "anyContainsNUL (JStr s) \<longleftrightarrow> nul \<in> set s"
| "anyContainsNUL (JObject m) \<longleftrightarrow> list_ex (\<lambda>(k, v). nul \<in> set k \<or> anyContainsNUL v) m"
| "anyContainsNUL (JList vs) \<longleftrightarrow> list_ex anyContainsNUL vs"
| "anyContainsNUL v \<longleftrightarrow> False"

definition jsonContainsNUL :: "(string \<Rightarrow> json option) \<Rightarrow> string \<Rightarrow> bool" where
  "jsonContainsNUL parse raw = (case parse raw of None \<Rightarrow> False | Some v \<Rightarrow> anyContainsNUL v)"

text \<open>
  What Postgres makes of a JSONB argument: of equal keys the last one stays, and the keys are ordered by length and then by
  bytes. A text that does not parse or holds a NUL is an error. \<open>parse\<close> gives the members as they are written.
\<close>

fun last_members :: "payload \<Rightarrow> payload" where
  "last_members [] = []"
| "last_members ((k, v) # m) = (if k \<in> fst ` set m then last_members m else (k, v) # last_members m)"

definition key_order :: "payload \<Rightarrow> payload" where
  "key_order m = sort_key (\<lambda>p. (length (fst p), fst p)) m"

fun jsonb_value :: "json \<Rightarrow> json" where
  "jsonb_value (JObject m) = JObject (key_order (last_members (List.map (\<lambda>(k, v). (k, jsonb_value v)) m)))"
| "jsonb_value (JList vs) = JList (List.map jsonb_value vs)"
| "jsonb_value v = v"

definition jsonb :: "(string \<Rightarrow> json option) \<Rightarrow> string \<Rightarrow> json option" where
  "jsonb parse raw = (case parse raw of None \<Rightarrow> None | Some v \<Rightarrow> if anyContainsNUL v then None else Some (jsonb_value v))"

lemma last_members_distinct: "distinct (List.map fst m) \<Longrightarrow> last_members m = m"
  by (induction m rule: last_members.induct) auto

lemma set_key_order [simp]: "set (key_order m) = set m"
  by (simp add: key_order_def)

section \<open>Employees and certifications\<close>

subsection \<open>The store\<close>

definition VerifyEmployeeInOrg :: "env \<Rightarrow> uuid \<Rightarrow> uuid \<Rightarrow> ('x office_db_scheme, unit) tx" where
  "VerifyEmployeeInOrg e employeeID orgID =
     tbind (select_all e ''verify employee in org'' of_employees) (\<lambda>rows.
       tguard (\<exists>r\<in>set rows. em_ID r = employeeID \<and> em_OrgID r = orgID) EmployeeNotFound)"

definition VerifyUserInOrg :: "env \<Rightarrow> uuid \<Rightarrow> uuid \<Rightarrow> ('x office_db_scheme, unit) tx" where
  "VerifyUserInOrg e userID orgID =
     tbind (select_all e ''verify user in org'' st_members) (\<lambda>rows. tguard ((userID, orgID) \<in> set rows) StoreNotFound)"

record CreateEmployeeParams =
  ep_OrgID :: uuid
  ep_FirstName :: string
  ep_LastName :: string
  ep_Role :: string
  ep_Phone :: "string option"
  ep_HireDate :: "gotime option"
  ep_UserID :: "uuid option"

definition CreateEmployee_store :: "env \<Rightarrow> CreateEmployeeParams \<Rightarrow> ('x office_db_scheme, Employee) tx" where
  "CreateEmployee_store e p = insert_returning e ''insert employee'' of_employees of_employees_update
     (\<lambda>d. ep_OrgID p \<in> set (db_orgs d) \<and> opt_ok (\<lambda>u. u \<in> fst ` set (st_members d)) (ep_UserID p))
     em_ID (\<lambda>_ _. False)
     (\<lambda>_ u. \<lparr>em_ID = u, em_OrgID = ep_OrgID p, em_UserID = ep_UserID p, em_FirstName = ep_FirstName p, em_LastName = ep_LastName p,
        em_Role = ep_Role p, em_Phone = ep_Phone p, em_HireDate = map_option to_date (ep_HireDate p), em_CreatedAt = e_now e\<rparr>)"

record CreateCertificationParams =
  rp_EmployeeID :: uuid
  rp_CertType :: string
  rp_CertNumber :: "string option"
  rp_IssuedDate :: "gotime option"
  rp_ExpiryDate :: gotime
  rp_Status :: string

definition CreateCertification_store :: "env \<Rightarrow> CreateCertificationParams \<Rightarrow> ('x office_db_scheme, Certification) tx" where
  "CreateCertification_store e p = insert_returning e ''insert certification'' of_certs of_certs_update
     (\<lambda>d. rp_EmployeeID p \<in> em_ID ` set (of_employees d)) ce_ID (\<lambda>_ _. False)
     (\<lambda>_ u. \<lparr>ce_ID = u, ce_EmployeeID = rp_EmployeeID p, ce_CertType = rp_CertType p, ce_CertNumber = rp_CertNumber p,
        ce_IssuedDate = map_option to_date (rp_IssuedDate p), ce_ExpiryDate = to_date (rp_ExpiryDate p), ce_Status = rp_Status p,
        ce_CreatedAt = e_now e\<rparr>)"

text \<open>\<open>collate\<close> is the sort key that the database's collation gives a text.\<close>

definition ListEmployees_store :: "(string \<Rightarrow> int list) \<Rightarrow> env \<Rightarrow> uuid \<Rightarrow> ('x office_db_scheme, Employee list) tx" where
  "ListEmployees_store collate e orgID = select_all e ''query employees''
     (\<lambda>d. sort_key (\<lambda>r. collate (em_LastName r)) (sort_key (\<lambda>r. collate (em_FirstName r))
        (order_desc em_CreatedAt (filter (\<lambda>r. em_OrgID r = orgID) (of_employees d)))))"

definition ListCertifications_store :: "env \<Rightarrow> uuid \<Rightarrow> ('x office_db_scheme, Certification list) tx" where
  "ListCertifications_store e employeeID = select_all e ''query certifications''
     (\<lambda>d. sort_key ce_ExpiryDate (order_desc ce_CreatedAt (filter (\<lambda>c. ce_EmployeeID c = employeeID) (of_certs d))))"

subsection \<open>The service\<close>

definition employee_json :: "Employee \<Rightarrow> payload" where
  "employee_json r = [(''id'', JUuid (em_ID r)), (''org_id'', JUuid (em_OrgID r))] @ opt_field ''user_id'' JUuid (em_UserID r) @
     [(''first_name'', JStr (em_FirstName r)), (''last_name'', JStr (em_LastName r)), (''role'', JStr (em_Role r))] @
     opt_field ''phone'' JStr (em_Phone r) @ opt_field ''hire_date'' JTime (em_HireDate r) @ [(''created_at'', JTime (em_CreatedAt r))]"

definition certification_json :: "Certification \<Rightarrow> payload" where
  "certification_json c = [(''id'', JUuid (ce_ID c)), (''employee_id'', JUuid (ce_EmployeeID c)), (''cert_type'', JStr (ce_CertType c))] @
     opt_field ''cert_number'' JStr (ce_CertNumber c) @ opt_field ''issued_date'' JTime (ce_IssuedDate c) @
     [(''expiry_date'', JTime (ce_ExpiryDate c)), (''status'', JStr (ce_Status c)), (''created_at'', JTime (ce_CreatedAt c))]"

record CreateEmployeeInput =
  ei_OrgID :: uuid
  ei_CallerUserSub :: string
  ei_FirstName :: string
  ei_LastName :: string
  ei_Role :: string
  ei_Phone :: "string option"
  ei_HireDate :: "gotime option"
  ei_UserID :: "uuid option"

definition employee_params :: "CreateEmployeeInput \<Rightarrow> CreateEmployeeParams" where
  "employee_params inp = \<lparr>ep_OrgID = ei_OrgID inp, ep_FirstName = trim_space (ei_FirstName inp), ep_LastName = trim_space (ei_LastName inp),
     ep_Role = trim_space (ei_Role inp), ep_Phone = normalizeOptionalString (ei_Phone inp), ep_HireDate = ei_HireDate inp,
     ep_UserID = ei_UserID inp\<rparr>"

definition employee_entry :: "CreateEmployeeInput \<Rightarrow> Employee \<Rightarrow> AuditEntry" where
  "employee_entry inp got = \<lparr>ae_OrgID = ei_OrgID inp, ae_UserSub = ei_CallerUserSub inp, ae_Action = ''hr.employee.created'',
     ae_ResourceType = ''employee'', ae_ResourceID = em_ID got, ae_Before = [], ae_After = employee_json got,
     ae_Metadata = [(''role'', JStr (em_Role got))]\<rparr>"

definition employee_body :: "env \<Rightarrow> CreateEmployeeInput \<Rightarrow> ('x office_db_scheme, Employee) tx" where
  "employee_body e inp =
     tbind (case ei_UserID inp of None \<Rightarrow> tret () | Some u \<Rightarrow> tmissing (InvalidInput ''user_id'') (VerifyUserInOrg e u (ei_OrgID inp))) (\<lambda>_.
     tbind (CreateEmployee_store e (employee_params inp)) (\<lambda>got.
     tbind (Record e (employee_entry inp got)) (\<lambda>_. tret got)))"

definition CreateEmployee :: "env \<Rightarrow> CreateEmployeeInput \<Rightarrow> 'x office_db_scheme \<Rightarrow> (svc_error + Employee) \<times> 'x office_db_scheme" where
  "CreateEmployee e inp d = service_result
     (ebind (require_that (ei_OrgID inp \<noteq> uuid_nil) (InvalidInput ''org_id'')) (\<lambda>_.
      require_that (trim_space (ei_FirstName inp) \<noteq> [] \<and> trim_space (ei_LastName inp) \<noteq> [] \<and> trim_space (ei_Role inp) \<noteq> [])
        (InvalidInput ''first_name, last_name, and role''))) d
     (mapped (BeginTxFunc e (employee_body e inp) d))"

record CreateCertificationInput =
  xi_OrgID :: uuid
  xi_CallerUserSub :: string
  xi_EmployeeID :: uuid
  xi_CertType :: string
  xi_CertNumber :: "string option"
  xi_IssuedDate :: "gotime option"
  xi_ExpiryDate :: gotime
  xi_Status :: string

definition certification_params :: "CreateCertificationInput \<Rightarrow> CreateCertificationParams" where
  "certification_params inp = \<lparr>rp_EmployeeID = xi_EmployeeID inp, rp_CertType = trim_space (xi_CertType inp),
     rp_CertNumber = normalizeOptionalString (xi_CertNumber inp), rp_IssuedDate = xi_IssuedDate inp, rp_ExpiryDate = xi_ExpiryDate inp,
     rp_Status = (if xi_Status inp = [] then CertificationStatusActive else xi_Status inp)\<rparr>"

definition certification_entry :: "CreateCertificationInput \<Rightarrow> Certification \<Rightarrow> AuditEntry" where
  "certification_entry inp got = \<lparr>ae_OrgID = xi_OrgID inp, ae_UserSub = xi_CallerUserSub inp, ae_Action = ''hr.certification.created'',
     ae_ResourceType = ''certification'', ae_ResourceID = ce_ID got, ae_Before = [], ae_After = certification_json got,
     ae_Metadata = [(''employee_id'', JUuid (xi_EmployeeID inp)), (''cert_type'', JStr (ce_CertType got))]\<rparr>"

definition certification_body :: "env \<Rightarrow> CreateCertificationInput \<Rightarrow> ('x office_db_scheme, Certification) tx" where
  "certification_body e inp =
     tbind (VerifyEmployeeInOrg e (xi_EmployeeID inp) (xi_OrgID inp)) (\<lambda>_.
     tbind (CreateCertification_store e (certification_params inp)) (\<lambda>got.
     tbind (Record e (certification_entry inp got)) (\<lambda>_. tret got)))"

definition certification_check :: "CreateCertificationInput \<Rightarrow> svc_error + unit" where
  "certification_check inp =
     ebind (require_that (xi_OrgID inp \<noteq> uuid_nil \<and> xi_EmployeeID inp \<noteq> uuid_nil) (InvalidInput ''org_id and employee_id'')) (\<lambda>_.
     ebind (require_that (trim_space (xi_CertType inp) \<noteq> []) (InvalidInput ''cert_type'')) (\<lambda>_.
     ebind (require_that (xi_ExpiryDate inp \<noteq> zero_time) (InvalidInput ''expiry_date'')) (\<lambda>_.
     require_that (IsValidCertificationStatus (rp_Status (certification_params inp))) (InvalidInput ''status''))))"

definition CreateCertification :: "env \<Rightarrow> CreateCertificationInput \<Rightarrow> 'x office_db_scheme \<Rightarrow>
    (svc_error + Certification) \<times> 'x office_db_scheme" where
  "CreateCertification e inp d = service_result (certification_check inp) d (mapped (BeginTxFunc e (certification_body e inp) d))"

definition ListEmployees :: "(string \<Rightarrow> int list) \<Rightarrow> env \<Rightarrow> uuid \<Rightarrow> 'x office_db_scheme \<Rightarrow> svc_error + Employee list" where
  "ListEmployees collate e callerOrgID d =
     ebind (require_that (callerOrgID \<noteq> uuid_nil) (InvalidInput ''org_id'')) (\<lambda>_.
     fst (BeginTxFunc e (ListEmployees_store collate e callerOrgID) d))"

definition certifications_body :: "env \<Rightarrow> uuid \<Rightarrow> uuid \<Rightarrow> ('x office_db_scheme, Certification list) tx" where
  "certifications_body e callerOrgID employeeID =
     tbind (VerifyEmployeeInOrg e employeeID callerOrgID) (\<lambda>_. ListCertifications_store e employeeID)"

definition ListCertifications :: "env \<Rightarrow> uuid \<Rightarrow> uuid \<Rightarrow> 'x office_db_scheme \<Rightarrow> svc_error + Certification list" where
  "ListCertifications e callerOrgID employeeID d =
     ebind (require_that (callerOrgID \<noteq> uuid_nil \<and> employeeID \<noteq> uuid_nil) (InvalidInput ''org_id and employee_id'')) (\<lambda>_.
     fst (BeginTxFunc e (certifications_body e callerOrgID employeeID) d))"

section \<open>The feedback loop\<close>

subsection \<open>The store\<close>

text \<open>The number of code points of a UTF-8 text: its bytes that continue no other.\<close>

definition rune_count :: "string \<Rightarrow> nat" where
  "rune_count s = length (filter (\<lambda>c. (of_char c :: nat) div 64 \<noteq> 2) s)"

record InsertFeedbackParams =
  jp_OrgID :: uuid
  jp_UserSub :: string
  jp_Category :: string
  jp_Message :: string
  jp_Context :: string

text \<open>The checks of the table; text and JSONB cannot hold a NUL.\<close>

definition message_ok :: "string \<Rightarrow> bool" where
  "message_ok m \<longleftrightarrow> 1 \<le> rune_count m \<and> rune_count m \<le> 4000 \<and> nul \<notin> set m"

definition note_ok :: "string \<Rightarrow> bool" where
  "note_ok n \<longleftrightarrow> rune_count n \<le> 4000 \<and> nul \<notin> set n"

definition Insert_store :: "(string \<Rightarrow> json option) \<Rightarrow> env \<Rightarrow> InsertFeedbackParams \<Rightarrow> ('x office_db_scheme, Feedback) tx" where
  "Insert_store parse e p = insert_returning e ''insert feedback'' of_feedback of_feedback_update
     (\<lambda>d. jp_OrgID p \<in> set (db_orgs d) \<and> jp_Category p \<in> set validFeedbackCategories \<and> message_ok (jp_Message p) \<and>
        jsonb parse (jp_Context p) \<noteq> None \<and> nul \<notin> set (jp_UserSub p))
     fk_ID (\<lambda>_ _. False)
     (\<lambda>_ u. \<lparr>fk_ID = u, fk_OrgID = jp_OrgID p, fk_UserSub = jp_UserSub p, fk_Category = jp_Category p, fk_Message = jp_Message p,
        fk_Context = coalesce (jsonb parse (jp_Context p)) JNull, fk_Status = FeedbackStatusNew, fk_TriageNote = [],
        fk_CreatedAt = e_now e, fk_UpdatedAt = e_now e\<rparr>)"

record FeedbackPage =
  kp_Feedback :: "Feedback list"
  kp_Total :: int
  kp_Page :: int
  kp_PerPage :: int
  kp_TotalPages :: int

text \<open>The window count comes with the rows, so a page without rows has the total 0. A negative OFFSET is an error.\<close>

definition ListByOrg_feedback :: "env \<Rightarrow> uuid \<Rightarrow> string \<Rightarrow> int \<Rightarrow> int \<Rightarrow> ('x office_db_scheme, FeedbackPage) tx" where
  "ListByOrg_feedback e orgID status page0 perPage0 =
     (let page = (if page0 < 1 then 1 else page0);
          perPage = (if perPage0 < 1 then 1 else perPage0);
          offset = wrap64 (wrap64 (page - 1) * perPage) in
      if offset < 0 then tfail (DbError ''list feedback'')
      else tbind (select_all e ''list feedback'' (\<lambda>d.
        let hits = order_desc fk_CreatedAt (order_desc fk_ID
              (filter (\<lambda>r. fk_OrgID r = orgID \<and> (status = [] \<or> fk_Status r = status)) (of_feedback d)))
        in List.map (\<lambda>r. (r, int (length hits))) (page_of perPage offset hits))) (\<lambda>rows.
      let total = (case rows of [] \<Rightarrow> 0 | _ \<Rightarrow> snd (last rows)) in
      tret \<lparr>kp_Feedback = List.map fst rows, kp_Total = total, kp_Page = page, kp_PerPage = perPage,
        kp_TotalPages = (if total > 0 then quot (wrap64 (total + perPage - 1)) perPage else 0)\<rparr>))"

definition recent_of :: "gotime \<Rightarrow> duration \<Rightarrow> uuid \<Rightarrow> string \<Rightarrow> Feedback list \<Rightarrow> Feedback list" where
  "recent_of now window orgID sub rows =
     filter (\<lambda>r. fk_OrgID r = orgID \<and> fk_UserSub r = sub \<and> now - window < fk_CreatedAt r) rows"

definition CountRecentByUser :: "env \<Rightarrow> uuid \<Rightarrow> string \<Rightarrow> duration \<Rightarrow> ('x office_db_scheme, nat) tx" where
  "CountRecentByUser e orgID sub window =
     tbind (select_all e ''count recent feedback'' (\<lambda>d. recent_of (e_now e) window orgID sub (of_feedback d))) (\<lambda>rows. tret (length rows))"

definition triaged :: "env \<Rightarrow> string \<Rightarrow> string option \<Rightarrow> Feedback \<Rightarrow> Feedback" where
  "triaged e status note r = r\<lparr>fk_Status := status, fk_TriageNote := coalesce note (fk_TriageNote r), fk_UpdatedAt := e_now e\<rparr>"

definition UpdateStatus :: "env \<Rightarrow> uuid \<Rightarrow> uuid \<Rightarrow> string \<Rightarrow> string option \<Rightarrow> ('x office_db_scheme, Feedback) tx" where
  "UpdateStatus e orgID fid status note =
     update_returning e ''update feedback status'' of_feedback of_feedback_update (\<lambda>r. fk_OrgID r = orgID \<and> fk_ID r = fid) (triaged e status note)"

subsection \<open>The service\<close>

definition feedbackMessageMaxChars :: nat where "feedbackMessageMaxChars = 4000"
definition feedbackContextMaxBytes :: nat where "feedbackContextMaxBytes = 4096"
definition feedbackListDefaultPage :: int where "feedbackListDefaultPage = 100"
definition feedbackListMaxPerPage :: int where "feedbackListMaxPerPage = 500"
definition feedbackSubmitWindow :: duration where "feedbackSubmitWindow = hour"
definition feedbackSubmitMaxPerHour :: nat where "feedbackSubmitMaxPerHour = 20"

record SubmitFeedbackInput =
  sf_OrgID :: uuid
  sf_UserSub :: string
  sf_Category :: string
  sf_Message :: string
  sf_Context :: string

definition submit_check :: "(string \<Rightarrow> json option) \<Rightarrow> SubmitFeedbackInput \<Rightarrow> svc_error + string" where
  "submit_check parse inp =
     (let msg = trim_space (sf_Message inp) in
      ebind (require_that (sf_OrgID inp \<noteq> uuid_nil) (InvalidInput ''org_id'')) (\<lambda>_.
      ebind (require_that (sf_Category inp \<in> set validFeedbackCategories) (InvalidInput ''category'')) (\<lambda>_.
      ebind (require_that (msg \<noteq> []) (InvalidInput ''message is required'')) (\<lambda>_.
      ebind (require_that (rune_count msg \<le> feedbackMessageMaxChars) (InvalidInput ''message too long'')) (\<lambda>_.
      ebind (require_that (nul \<notin> set msg) (InvalidInput ''message must not contain NUL'')) (\<lambda>_.
      ebind (map_err (\<lambda>_. InvalidInput ''context must be a JSON object'') (validateConfigObject parse (sf_Context inp))) (\<lambda>cctx.
      ebind (require_that (length cctx \<le> feedbackContextMaxBytes) (InvalidInput ''context too long'')) (\<lambda>_.
      ebind (require_that (\<not> jsonContainsNUL parse cctx) (InvalidInput ''context must not contain NUL'')) (\<lambda>_.
      Inr cctx)))))))))"

definition submit_entry :: "SubmitFeedbackInput \<Rightarrow> Feedback \<Rightarrow> AuditEntry" where
  "submit_entry inp row = \<lparr>ae_OrgID = sf_OrgID inp, ae_UserSub = sf_UserSub inp, ae_Action = ''feedback.submitted'',
     ae_ResourceType = ''feedback'', ae_ResourceID = fk_ID row, ae_Before = [], ae_After = [],
     ae_Metadata = [(''category'', JStr (sf_Category inp))]\<rparr>"

definition submit_body :: "(string \<Rightarrow> json option) \<Rightarrow> env \<Rightarrow> SubmitFeedbackInput \<Rightarrow> string \<Rightarrow> ('x office_db_scheme, Feedback) tx" where
  "submit_body parse e inp cctx =
     tbind (CountRecentByUser e (sf_OrgID inp) (sf_UserSub inp) feedbackSubmitWindow) (\<lambda>recent.
     tbind (tguard (recent < feedbackSubmitMaxPerHour) FeedbackRateLimited) (\<lambda>_.
     tbind (Insert_store parse e \<lparr>jp_OrgID = sf_OrgID inp, jp_UserSub = sf_UserSub inp, jp_Category = sf_Category inp,
         jp_Message = trim_space (sf_Message inp), jp_Context = cctx\<rparr>) (\<lambda>row.
     tbind (Record e (submit_entry inp row)) (\<lambda>_. tret row))))"

definition Submit :: "(string \<Rightarrow> json option) \<Rightarrow> env \<Rightarrow> SubmitFeedbackInput \<Rightarrow> 'x office_db_scheme \<Rightarrow>
    (svc_error + Feedback) \<times> 'x office_db_scheme" where
  "Submit parse e inp d = (case submit_check parse inp of Inl err \<Rightarrow> (Inl err, d)
     | Inr cctx \<Rightarrow> BeginTxFunc e (submit_body parse e inp cctx) d)"

record ListFeedbackInput =
  lq_OrgID :: uuid
  lq_Status :: string
  lq_Page :: int
  lq_PerPage :: int

definition feedback_per_page :: "int \<Rightarrow> int" where
  "feedback_per_page n = (let k = (if n < 1 then feedbackListDefaultPage else n) in if k > feedbackListMaxPerPage then feedbackListMaxPerPage else k)"

definition ListForAdmin :: "env \<Rightarrow> ListFeedbackInput \<Rightarrow> 'x office_db_scheme \<Rightarrow> svc_error + FeedbackPage" where
  "ListForAdmin e inp d =
     ebind (require_that (lq_Status inp = [] \<or> lq_Status inp \<in> set validFeedbackStatuses) (InvalidInput ''status'')) (\<lambda>_.
     fst (BeginTxFunc e (ListByOrg_feedback e (lq_OrgID inp) (lq_Status inp) (lq_Page inp) (feedback_per_page (lq_PerPage inp))) d))"

record TriageFeedbackInput =
  tg_OrgID :: uuid
  tg_ID :: uuid
  tg_Status :: string
  tg_TriageNote :: "string option"
  tg_UserSub :: string

definition triage_check :: "TriageFeedbackInput \<Rightarrow> svc_error + unit" where
  "triage_check inp =
     ebind (require_that (tg_Status inp \<in> set validFeedbackStatuses) (InvalidInput ''status'')) (\<lambda>_.
     ebind (require_that (opt_ok (\<lambda>n. rune_count n \<le> feedbackMessageMaxChars) (tg_TriageNote inp)) (InvalidInput ''triage_note too long'')) (\<lambda>_.
     require_that (opt_ok (\<lambda>n. nul \<notin> set n) (tg_TriageNote inp)) (InvalidInput ''triage_note must not contain NUL'')))"

definition triage_entry :: "TriageFeedbackInput \<Rightarrow> Feedback \<Rightarrow> AuditEntry" where
  "triage_entry inp row = \<lparr>ae_OrgID = tg_OrgID inp, ae_UserSub = tg_UserSub inp, ae_Action = ''feedback.triaged'',
     ae_ResourceType = ''feedback'', ae_ResourceID = fk_ID row, ae_Before = [], ae_After = [],
     ae_Metadata = [(''status'', JStr (tg_Status inp)), (''has_note'', JBool (coalesce (tg_TriageNote inp) [] \<noteq> []))]\<rparr>"

definition triage_body :: "env \<Rightarrow> TriageFeedbackInput \<Rightarrow> ('x office_db_scheme, Feedback) tx" where
  "triage_body e inp =
     tbind (UpdateStatus e (tg_OrgID inp) (tg_ID inp) (tg_Status inp) (tg_TriageNote inp)) (\<lambda>row.
     tbind (Record e (triage_entry inp row)) (\<lambda>_. tret row))"

definition Triage :: "env \<Rightarrow> TriageFeedbackInput \<Rightarrow> 'x office_db_scheme \<Rightarrow> (svc_error + Feedback) \<times> 'x office_db_scheme" where
  "Triage e inp d = service_result (triage_check inp) d (reported (BeginTxFunc e (triage_body e inp) d))"

section \<open>Notifications of the field\<close>

subsection \<open>The dead letters\<close>

record InsertDLQEntryParams =
  yp_UserID :: uuid
  yp_NotificationType :: string
  yp_Payload :: string
  yp_RetryCount :: int
  yp_LastError :: string

definition InsertDLQEntry :: "(string \<Rightarrow> json option) \<Rightarrow> env \<Rightarrow> InsertDLQEntryParams \<Rightarrow>
    ('x office_db_scheme, FieldNotificationDLQEntry) tx" where
  "InsertDLQEntry parse e p =
     (let payload = (if yp_Payload p = [] then ''{}'' else yp_Payload p) in
      insert_returning e ''insert field_notification_dlq'' of_dlq of_dlq_update
        (\<lambda>d. yp_UserID p \<in> fst ` set (st_members d) \<and> jsonb parse payload \<noteq> None \<and> int4_ok (yp_RetryCount p))
        dq_ID (\<lambda>_ _. False)
        (\<lambda>_ u. \<lparr>dq_ID = u, dq_UserID = yp_UserID p, dq_NotificationType = yp_NotificationType p,
           dq_Payload = coalesce (jsonb parse payload) JNull, dq_RetryCount = yp_RetryCount p,
           dq_LastError = opt_string (yp_LastError p), dq_CreatedAt = e_now e\<rparr>))"

definition dlq_limit :: "int \<Rightarrow> int" where
  "dlq_limit n = (let k = (if n \<le> 0 then 100 else n) in if k > 1000 then 1000 else k)"

definition ListDLQ :: "env \<Rightarrow> uuid option \<Rightarrow> int \<Rightarrow> ('x office_db_scheme, FieldNotificationDLQEntry list) tx" where
  "ListDLQ e userID limit = select_all e ''query field_notification_dlq''
     (\<lambda>d. take (nat (dlq_limit limit)) (order_desc dq_CreatedAt
        (filter (\<lambda>q. opt_ok (\<lambda>u. dq_UserID q = u) userID) (of_dlq d))))"

subsection \<open>One delivery\<close>

definition MaxNotificationAttempts :: int where "MaxNotificationAttempts = 6"

record NotificationDelivery =
  nd_UserID :: uuid
  nd_NotificationType :: string
  nd_Payload :: string

text \<open>A transaction of its own; when it fails the send error stays the answer.\<close>

definition recordDLQAndError :: "(string \<Rightarrow> json option) \<Rightarrow> env \<Rightarrow> int \<Rightarrow> NotificationDelivery \<Rightarrow> string \<Rightarrow>
    'x office_db_scheme \<Rightarrow> (svc_error + unit) \<times> 'x office_db_scheme" where
  "recordDLQAndError parse e attempt n sendErr d =
     (Inl (SendFailed sendErr), snd (BeginTxFunc e (InsertDLQEntry parse e \<lparr>yp_UserID = nd_UserID n,
        yp_NotificationType = nd_NotificationType n, yp_Payload = nd_Payload n, yp_RetryCount = attempt, yp_LastError = sendErr\<rparr>) d))"

text \<open>\<open>send\<close> is the transport: \<open>None\<close> when it took the message, its error otherwise.\<close>

definition Deliver :: "(string \<Rightarrow> json option) \<Rightarrow> env \<Rightarrow> (NotificationDelivery \<Rightarrow> string option) \<Rightarrow> int \<Rightarrow> NotificationDelivery \<Rightarrow>
    'x office_db_scheme \<Rightarrow> (svc_error + unit) \<times> 'x office_db_scheme" where
  "Deliver parse e send attempt n d =
     (if \<not> IsValidNotificationType (nd_NotificationType n) then (Inl (Internal ''unknown notification_type''), d)
      else case send n of
        None \<Rightarrow> (Inr (), d)
      | Some err \<Rightarrow> if attempt \<ge> MaxNotificationAttempts then recordDLQAndError parse e attempt n err d
          else (Inl (SendFailed err), d))"

record FieldNotificationRetryArgs =
  nr_UserID :: uuid
  nr_NotificationType :: string
  nr_Payload :: string

definition DeliverNotification :: "(string \<Rightarrow> json option) \<Rightarrow> env \<Rightarrow> (NotificationDelivery \<Rightarrow> string option) \<Rightarrow> int \<Rightarrow>
    FieldNotificationRetryArgs \<Rightarrow> 'x office_db_scheme \<Rightarrow> (svc_error + unit) \<times> 'x office_db_scheme" where
  "DeliverNotification parse e send attempt args d = Deliver parse e send attempt
     \<lparr>nd_UserID = nr_UserID args, nd_NotificationType = nr_NotificationType args, nd_Payload = nr_Payload args\<rparr> d"

subsection \<open>The job\<close>

definition retry_MaxAttempts :: int where "retry_MaxAttempts = 6"

definition retry_delays :: "duration list" where
  "retry_delays = [30 * second, 60 * second, 2 * minute, 5 * minute, 30 * minute, 60 * minute]"

definition NextRetry :: "gotime \<Rightarrow> int \<Rightarrow> gotime" where
  "NextRetry now attempt =
     (let idx = (if attempt \<ge> int (length retry_delays) then int (length retry_delays) - 1 else attempt) in
      now + retry_delays ! nat idx)"

text \<open>
  The queue runs a job at attempts 1, 2, ... until one succeeds or the last allowed one has failed; attempt \<open>k\<close> runs in the
  environment \<open>env k\<close> at the time \<open>at k\<close> with the transport \<open>send k\<close>.
\<close>

function run_job :: "(string \<Rightarrow> json option) \<Rightarrow> (int \<Rightarrow> env) \<Rightarrow> (int \<Rightarrow> NotificationDelivery \<Rightarrow> string option) \<Rightarrow>
    FieldNotificationRetryArgs \<Rightarrow> int \<Rightarrow> 'x office_db_scheme \<Rightarrow> bool \<times> 'x office_db_scheme" where
  "run_job parse env send args k d =
     (if k > retry_MaxAttempts then (False, d)
      else case DeliverNotification parse (env k) (send k) k args d of
        (Inr _, d') \<Rightarrow> (True, d')
      | (Inl _, d') \<Rightarrow> run_job parse env send args (k + 1) d')"
  by pat_completeness auto

termination by (relation "measure (\<lambda>(parse, env, send, args, k, d). nat (retry_MaxAttempts + 1 - k))") auto

end
