(* ===== verification/Agent_Config.thy ===== *)
theory Agent_Config
  imports Office
begin

text \<open>
  The agent registry and its per-organization overrides: internal/agentic/registry.go, the parser of
  internal/agentic/config.go, internal/store/agent_config.go and internal/service/agent_config.go.
\<close>

section \<open>The catalog\<close>

record Descriptor =
  ds_Capability :: string
  ds_Description :: string
  ds_DefaultEnabled :: bool
  ds_DefaultConfig :: string

type_synonym Registry = "(string \<times> Descriptor) list"

definition DelayCascadeCap :: string where "DelayCascadeCap = ''delay_cascade''"
definition ForesightCap :: string where "ForesightCap = ''foresight''"
definition ExperienceCap :: string where "ExperienceCap = ''experience''"

text \<open>\<open>Register\<close> panics on an empty key.\<close>

definition Register :: "Descriptor \<Rightarrow> Registry \<Rightarrow> Registry option" where
  "Register ds r = (if ds_Capability ds = [] then None else Some ((ds_Capability ds, ds) # filter (\<lambda>p. fst p \<noteq> ds_Capability ds) r))"

definition foresightDefaultConfigJSON :: string where
  "foresightDefaultConfigJSON = ''{'' @ [CHR 0x22] @ ''schedule_float_days'' @ [CHR 0x22] @ '':2,'' @ [CHR 0x22] @
     ''budget_burn_percent'' @ [CHR 0x22] @ '':80}''"

definition NewRegistry :: "Registry option" where
  "NewRegistry =
     Option.bind (Register \<lparr>ds_Capability = DelayCascadeCap,
       ds_Description = ''Reason about the cross-module blast radius of a schedule slip and surface impacts as feed cards.'',
       ds_DefaultEnabled = True, ds_DefaultConfig = ''{}''\<rparr> []) (\<lambda>r.
     Option.bind (Register \<lparr>ds_Capability = ForesightCap,
       ds_Description = ''Periodically surface material standing cross-module risks (procurement criticality, schedule slip, budget burn) the deterministic engine has computed, judged for materiality by AI, as deduped feed cards.'',
       ds_DefaultEnabled = True, ds_DefaultConfig = foresightDefaultConfigJSON\<rparr> r) (\<lambda>r.
     Register \<lparr>ds_Capability = ExperienceCap,
       ds_Description = ''Answer operator questions in natural language by planning which read-only ERP tools to call, executing them scoped to the caller'' @ [CHR 0x27] @ ''s org and role, and synthesizing a grounded answer from the deterministic engine facts.'',
       ds_DefaultEnabled = True, ds_DefaultConfig = ''{}''\<rparr> r))"

definition catalog :: Registry where
  "catalog = (case NewRegistry of Some r \<Rightarrow> r | None \<Rightarrow> [])"

definition catalog_Lookup :: "Registry \<Rightarrow> string \<Rightarrow> Descriptor option" where
  "catalog_Lookup r c = map_of r c"

definition Capabilities :: "Registry \<Rightarrow> Descriptor list" where
  "Capabilities r = sort_key ds_Capability (List.map snd r)"

section \<open>Tuning\<close>

text \<open>
  \<open>json.Unmarshal\<close> into the struct of two integers: a key matches whatever its case (the long s, U+017F, is an s as well), the last of several wins, \<open>null\<close>
  leaves the field, and a value that is no integer of 64 bits is an error that leaves the field and goes on. \<open>JInt\<close> is a
  number written without fraction and exponent.
\<close>

fun short_s :: "string \<Rightarrow> string" where
  "short_s (a # b # s) = (if a = CHR 0xC5 \<and> b = CHR 0xBF then CHR ''s'' # short_s s else a # short_s (b # s))"
| "short_s s = s"

definition fold_name :: "string \<Rightarrow> string" where
  "fold_name k = to_lower (short_s k)"

definition tuning_member :: "string \<Rightarrow> payload \<Rightarrow> json list" where
  "tuning_member key m = List.map snd (filter (\<lambda>p. fold_name (fst p) = key) m)"

fun int_member :: "json \<Rightarrow> int option" where
  "int_member (JInt i) = (if - (2 ^ 63) \<le> i \<and> i < 2 ^ 63 then Some i else None)"
| "int_member v = None"

definition member_ok :: "json \<Rightarrow> bool" where
  "member_ok v \<longleftrightarrow> v = JNull \<or> int_member v \<noteq> None"

definition pointer_field :: "json list \<Rightarrow> int option" where
  "pointer_field vs = foldl (\<lambda>f v. if v = JNull then None else case int_member v of Some i \<Rightarrow> Some i | None \<Rightarrow> f) None vs"

definition int_field :: "json list \<Rightarrow> int" where
  "int_field vs = foldl (\<lambda>f v. case int_member v of Some i \<Rightarrow> i | None \<Rightarrow> f) 0 vs"

definition probe_ok :: "payload \<Rightarrow> bool" where
  "probe_ok m \<longleftrightarrow> list_all member_ok (tuning_member ''schedule_float_days'' m) \<and> list_all member_ok (tuning_member ''budget_burn_percent'' m)"

definition tuning_of :: "payload \<Rightarrow> ForesightTuning" where
  "tuning_of m = \<lparr>ft_ScheduleFloatDays = int_field (tuning_member ''schedule_float_days'' m),
     ft_BudgetBurnPercent = int_field (tuning_member ''budget_burn_percent'' m)\<rparr>"

definition ParseForesightTuning :: "json \<Rightarrow> ForesightTuning" where
  "ParseForesightTuning cfg = tuning_WithDefaults (case cfg of JObject m \<Rightarrow> tuning_of m
     | _ \<Rightarrow> \<lparr>ft_ScheduleFloatDays = 0, ft_BudgetBurnPercent = 0\<rparr>)"

section \<open>The store\<close>

record UpsertAgentConfigParams =
  ug_OrgID :: uuid
  ug_Capability :: string
  ug_Enabled :: bool
  ug_Config :: string
  ug_UpdatedBy :: string

definition of_capability :: "uuid \<Rightarrow> string \<Rightarrow> AgentConfig \<Rightarrow> bool" where
  "of_capability orgID c r \<longleftrightarrow> ac_OrgID r = orgID \<and> ac_Capability r = c"

definition overridden :: "env \<Rightarrow> UpsertAgentConfigParams \<Rightarrow> json \<Rightarrow> AgentConfig \<Rightarrow> AgentConfig" where
  "overridden e p v r = r\<lparr>ac_Enabled := ug_Enabled p, ac_Config := v, ac_UpdatedBy := ug_UpdatedBy p, ac_UpdatedAt := e_now e\<rparr>"

definition Upsert :: "(string \<Rightarrow> json option) \<Rightarrow> env \<Rightarrow> UpsertAgentConfigParams \<Rightarrow> ('x office_db_scheme, AgentConfig) tx" where
  "Upsert parse e p = stmt e ''upsert agent config'' (\<lambda>s. case jsonb parse (ug_Config p) of
       None \<Rightarrow> Inl (DbError ''upsert agent config'')
     | Some v \<Rightarrow>
         if \<exists>r\<in>set (of_agents (s_db s)). of_capability (ug_OrgID p) (ug_Capability p) r
         then update_returning e ''upsert agent config'' of_agents of_agents_update (of_capability (ug_OrgID p) (ug_Capability p)) (overridden e p v) s
         else insert_returning e ''upsert agent config'' of_agents of_agents_update (\<lambda>d. ug_OrgID p \<in> set (db_orgs d)) ac_ID (\<lambda>_ _. False)
           (\<lambda>_ u. \<lparr>ac_ID = u, ac_OrgID = ug_OrgID p, ac_Capability = ug_Capability p, ac_Enabled = ug_Enabled p, ac_Config = v,
              ac_UpdatedBy = ug_UpdatedBy p, ac_CreatedAt = e_now e, ac_UpdatedAt = e_now e\<rparr>) s)"

definition GetByCapability :: "env \<Rightarrow> uuid \<Rightarrow> string \<Rightarrow> ('x office_db_scheme, AgentConfig) tx" where
  "GetByCapability e orgID c = select_one e ''get agent config'' of_agents (of_capability orgID c)"

definition ListByOrg_agents :: "(string \<Rightarrow> int list) \<Rightarrow> env \<Rightarrow> uuid \<Rightarrow> ('x office_db_scheme, AgentConfig list) tx" where
  "ListByOrg_agents collate e orgID = select_all e ''list agent config''
     (\<lambda>d. sort_key (\<lambda>r. collate (ac_Capability r)) (filter (\<lambda>r. ac_OrgID r = orgID) (of_agents d)))"

definition DeleteByCapability :: "env \<Rightarrow> uuid \<Rightarrow> string \<Rightarrow> ('x office_db_scheme, nat) tx" where
  "DeleteByCapability e orgID c = stmt e ''delete agent config'' (\<lambda>s.
     Inr (length (filter (of_capability orgID c) (of_agents (s_db s))),
       s\<lparr>s_db := of_agents_update (filter (\<lambda>r. \<not> of_capability orgID c r)) (s_db s)\<rparr>))"

section \<open>The service\<close>

definition defaultConfigJSON :: "string \<Rightarrow> string" where
  "defaultConfigJSON raw = (if trim_space raw = [] then ''{}'' else raw)"

definition validateAgentConfig :: "(string \<Rightarrow> json option) \<Rightarrow> string \<Rightarrow> string \<Rightarrow> svc_error + string" where
  "validateAgentConfig parse capability raw =
     ebind (validateConfigObject parse raw) (\<lambda>cfg.
     if capability = ForesightCap \<and> trim_space raw \<noteq> [] then
       (let m = (case parse raw of Some (JObject m) \<Rightarrow> m | _ \<Rightarrow> []) in
        ebind (require_that (probe_ok m) (InvalidInput ''foresight tuning must be integers'')) (\<lambda>_.
        ebind (require_that (opt_ok (\<lambda>i. 0 < i) (pointer_field (tuning_member ''schedule_float_days'' m))) (InvalidInput ''schedule_float_days'')) (\<lambda>_.
        ebind (require_that (opt_ok (\<lambda>i. 0 < i) (pointer_field (tuning_member ''budget_burn_percent'' m))) (InvalidInput ''budget_burn_percent'')) (\<lambda>_.
        Inr cfg))))
     else Inr cfg)"

record SetAgentConfigInput =
  sg_OrgID :: uuid
  sg_Capability :: string
  sg_Enabled :: bool
  sg_Config :: string
  sg_UserSub :: string

definition set_entry :: "(string \<Rightarrow> json option) \<Rightarrow> SetAgentConfigInput \<Rightarrow> string \<Rightarrow> AgentConfig \<Rightarrow> AuditEntry" where
  "set_entry parse inp cfg row = \<lparr>ae_OrgID = sg_OrgID inp, ae_UserSub = sg_UserSub inp, ae_Action = ''agent.config.updated'',
     ae_ResourceType = ''agent_config'', ae_ResourceID = ac_ID row, ae_Before = [], ae_After = [],
     ae_Metadata = [(''capability'', JStr (sg_Capability inp)), (''enabled'', JBool (sg_Enabled inp)), (''config'', coalesce (parse cfg) JNull)]\<rparr>"

definition set_body :: "(string \<Rightarrow> json option) \<Rightarrow> env \<Rightarrow> SetAgentConfigInput \<Rightarrow> string \<Rightarrow> ('x office_db_scheme, AgentConfig) tx" where
  "set_body parse e inp cfg =
     tbind (Upsert parse e \<lparr>ug_OrgID = sg_OrgID inp, ug_Capability = sg_Capability inp, ug_Enabled = sg_Enabled inp, ug_Config = cfg,
        ug_UpdatedBy = sg_UserSub inp\<rparr>) (\<lambda>row.
     tbind (Record e (set_entry parse inp cfg row)) (\<lambda>_. tret row))"

definition set_check :: "(string \<Rightarrow> json option) \<Rightarrow> SetAgentConfigInput \<Rightarrow> svc_error + string" where
  "set_check parse inp =
     ebind (require_that (sg_OrgID inp \<noteq> uuid_nil) (InvalidInput ''org_id'')) (\<lambda>_.
     ebind (require_that (catalog_Lookup catalog (sg_Capability inp) \<noteq> None) NotFound) (\<lambda>_.
     validateAgentConfig parse (sg_Capability inp) (sg_Config inp)))"

definition Set_config :: "(string \<Rightarrow> json option) \<Rightarrow> env \<Rightarrow> SetAgentConfigInput \<Rightarrow> 'x office_db_scheme \<Rightarrow>
    (svc_error + AgentConfig) \<times> 'x office_db_scheme" where
  "Set_config parse e inp d = (case set_check parse inp of Inl err \<Rightarrow> (Inl err, d)
     | Inr cfg \<Rightarrow> BeginTxFunc e (set_body parse e inp cfg) d)"

definition reset_entry :: "uuid \<Rightarrow> string \<Rightarrow> string \<Rightarrow> AuditEntry" where
  "reset_entry orgID c sub = \<lparr>ae_OrgID = orgID, ae_UserSub = sub, ae_Action = ''agent.config.reset'',
     ae_ResourceType = ''agent_config'', ae_ResourceID = orgID, ae_Before = [], ae_After = [],
     ae_Metadata = [(''capability'', JStr c)]\<rparr>"

definition reset_config_body :: "env \<Rightarrow> uuid \<Rightarrow> string \<Rightarrow> string \<Rightarrow> ('x office_db_scheme, unit) tx" where
  "reset_config_body e orgID c sub =
     tbind (DeleteByCapability e orgID c) (\<lambda>n. if n = 0 then tret () else Record e (reset_entry orgID c sub))"

definition Reset_config :: "env \<Rightarrow> uuid \<Rightarrow> string \<Rightarrow> string \<Rightarrow> 'x office_db_scheme \<Rightarrow> (svc_error + unit) \<times> 'x office_db_scheme" where
  "Reset_config e orgID c sub d = service_result
     (ebind (require_that (orgID \<noteq> uuid_nil) (InvalidInput ''org_id'')) (\<lambda>_. require_that (catalog_Lookup catalog c \<noteq> None) NotFound)) d
     (BeginTxFunc e (reset_config_body e orgID c sub) d)"

record CapabilityConfig =
  cg_Enabled :: bool
  cg_Config :: json

definition config_value :: "(string \<Rightarrow> json option) \<Rightarrow> string \<Rightarrow> json" where
  "config_value parse raw = coalesce (parse (defaultConfigJSON raw)) JNull"

definition default_config :: "(string \<Rightarrow> json option) \<Rightarrow> Descriptor \<Rightarrow> CapabilityConfig" where
  "default_config parse ds = \<lparr>cg_Enabled = ds_DefaultEnabled ds, cg_Config = config_value parse (ds_DefaultConfig ds)\<rparr>"

definition resolve_body :: "(string \<Rightarrow> json option) \<Rightarrow> env \<Rightarrow> uuid \<Rightarrow> Descriptor \<Rightarrow> ('x office_db_scheme, CapabilityConfig) tx" where
  "resolve_body parse e orgID ds = tfound (GetByCapability e orgID (ds_Capability ds)) (tret (default_config parse ds))
     (\<lambda>row. tret \<lparr>cg_Enabled = ac_Enabled row, cg_Config = ac_Config row\<rparr>)"

definition Resolve :: "(string \<Rightarrow> json option) \<Rightarrow> env \<Rightarrow> uuid \<Rightarrow> string \<Rightarrow> 'x office_db_scheme \<Rightarrow> svc_error + CapabilityConfig" where
  "Resolve parse e orgID c d = (case catalog_Lookup catalog c of
     None \<Rightarrow> Inr \<lparr>cg_Enabled = False, cg_Config = JNull\<rparr>
   | Some ds \<Rightarrow> fst (BeginTxFunc e (resolve_body parse e orgID ds) d))"

text \<open>\<open>resolveCapabilityConfig\<close>: the catalog default when no resolver is wired.\<close>

definition resolveCapabilityConfig :: "(string \<Rightarrow> json option) \<Rightarrow> (uuid \<Rightarrow> string \<Rightarrow> svc_error + CapabilityConfig) option \<Rightarrow> uuid \<Rightarrow> string \<Rightarrow>
    svc_error + CapabilityConfig" where
  "resolveCapabilityConfig parse resolver orgID c = (case resolver of
     None \<Rightarrow> Inr (case catalog_Lookup catalog c of Some ds \<Rightarrow> \<lparr>cg_Enabled = ds_DefaultEnabled ds, cg_Config = coalesce (parse (ds_DefaultConfig ds)) JNull\<rparr>
       | None \<Rightarrow> \<lparr>cg_Enabled = False, cg_Config = JNull\<rparr>)
   | Some f \<Rightarrow> f orgID c)"

record EffectiveAgentConfig =
  ef_Capability :: string
  ef_Description :: string
  ef_Enabled :: bool
  ef_Config :: json
  ef_Source :: string
  ef_UpdatedBy :: string
  ef_UpdatedAt :: "gotime option"

definition effective :: "(string \<Rightarrow> json option) \<Rightarrow> AgentConfig list \<Rightarrow> Descriptor \<Rightarrow> EffectiveAgentConfig" where
  "effective parse rows ds = (case map_of (rev (List.map (\<lambda>r. (ac_Capability r, r)) rows)) (ds_Capability ds) of
     None \<Rightarrow> \<lparr>ef_Capability = ds_Capability ds, ef_Description = ds_Description ds, ef_Enabled = ds_DefaultEnabled ds,
       ef_Config = config_value parse (ds_DefaultConfig ds), ef_Source = ''default'', ef_UpdatedBy = [], ef_UpdatedAt = None\<rparr>
   | Some row \<Rightarrow> \<lparr>ef_Capability = ds_Capability ds, ef_Description = ds_Description ds, ef_Enabled = ac_Enabled row,
       ef_Config = ac_Config row, ef_Source = ''override'', ef_UpdatedBy = ac_UpdatedBy row, ef_UpdatedAt = Some (ac_UpdatedAt row)\<rparr>)"

definition ListEffective :: "(string \<Rightarrow> json option) \<Rightarrow> (string \<Rightarrow> int list) \<Rightarrow> env \<Rightarrow> uuid \<Rightarrow> 'x office_db_scheme \<Rightarrow>
    svc_error + EffectiveAgentConfig list" where
  "ListEffective parse collate e orgID d =
     ebind (fst (BeginTxFunc e (ListByOrg_agents collate e orgID) d)) (\<lambda>rows.
     Inr (List.map (effective parse rows) (Capabilities catalog)))"

end
