(* ===== verification/Office_Props.thy ===== *)
theory Office_Props
  imports Office Agent_Config Site_Props "HOL-Library.Multiset"
begin

text \<open>
  What the office services keep, the invariant \<open>office_ok\<close> of their tables under any sequence of their operations on a clock
  that does not go back, and what single operations guarantee, with a sample office to apply the theorems to.
\<close>

section \<open>The invariant\<close>

definition staff_ok :: "(uuid \<times> uuid) list \<Rightarrow> Employee list \<Rightarrow> Certification list \<Rightarrow> bool" where
  "staff_ok members employees certs \<longleftrightarrow> distinct (List.map em_ID employees) \<and> distinct (List.map ce_ID certs) \<and>
     (\<forall>r\<in>set employees. em_FirstName r \<noteq> [] \<and> em_LastName r \<noteq> [] \<and> em_Role r \<noteq> [] \<and>
        opt_ok (\<lambda>u. (u, em_OrgID r) \<in> set members) (em_UserID r)) \<and>
     (\<forall>c\<in>set certs. ce_EmployeeID c \<in> em_ID ` set employees \<and> ce_CertType c \<noteq> [] \<and> IsValidCertificationStatus (ce_Status c))"

text \<open>The reports of one user that fall into the hour that ends at \<open>w\<close>.\<close>

definition in_hour :: "uuid \<Rightarrow> string \<Rightarrow> gotime \<Rightarrow> Feedback \<Rightarrow> bool" where
  "in_hour org sub w r \<longleftrightarrow> fk_OrgID r = org \<and> fk_UserSub r = sub \<and> w - feedbackSubmitWindow < fk_CreatedAt r \<and> fk_CreatedAt r \<le> w"

definition report_ok :: "Feedback \<Rightarrow> bool" where
  "report_ok r \<longleftrightarrow> fk_Category r \<in> set validFeedbackCategories \<and> fk_Status r \<in> set validFeedbackStatuses \<and>
     message_ok (fk_Message r) \<and> note_ok (fk_TriageNote r)"

definition feedback_ok :: "gotime \<Rightarrow> Feedback list \<Rightarrow> bool" where
  "feedback_ok t rows \<longleftrightarrow> (\<forall>r\<in>set rows. report_ok r \<and> fk_CreatedAt r \<le> t) \<and>
     (\<forall>org sub w. length (filter (in_hour org sub w) rows) \<le> feedbackSubmitMaxPerHour)"

definition dlq_ok :: "(uuid \<times> uuid) list \<Rightarrow> FieldNotificationDLQEntry list \<Rightarrow> bool" where
  "dlq_ok members rows \<longleftrightarrow> (\<forall>q\<in>set rows. IsValidNotificationType (dq_NotificationType q) \<and> MaxNotificationAttempts \<le> dq_RetryCount q \<and>
     dq_UserID q \<in> fst ` set members)"

definition agents_ok :: "AgentConfig list \<Rightarrow> bool" where
  "agents_ok rows \<longleftrightarrow> distinct (List.map (\<lambda>r. (ac_OrgID r, ac_Capability r)) rows) \<and>
     (\<forall>r\<in>set rows. catalog_Lookup catalog (ac_Capability r) \<noteq> None \<and> (\<exists>m. ac_Config r = JObject m))"

definition office_ok :: "gotime \<Rightarrow> 'x office_db_scheme \<Rightarrow> bool" where
  "office_ok t d \<longleftrightarrow> staff_ok (st_members d) (of_employees d) (of_certs d) \<and> feedback_ok t (of_feedback d) \<and>
     dlq_ok (st_members d) (of_dlq d) \<and> agents_ok (of_agents d) \<and> list_all row_clean (db_audit d)"

definition office_keeps :: "gotime \<Rightarrow> 'x office_db_scheme \<Rightarrow> 'x office_db_scheme \<Rightarrow> bool" where
  "office_keeps t d d' \<longleftrightarrow> (office_ok t d \<longrightarrow> office_ok t d')"

interpretation office: tx_order "office_keeps t :: 'x office_db_scheme \<Rightarrow> 'x office_db_scheme \<Rightarrow> bool" for t
  by unfold_locales (auto simp: office_keeps_def)

named_theorems office_follows \<open>transactions that keep the invariant of the office\<close>

declare office.pure [office_follows] office.reads [office_follows] office.missing [office_follows] office.statement [office_follows]

lemma Record_office [office_follows]: "tx_follows (office_keeps t) (Record e p)"
  by (rule tx_followsI) (auto dest!: Record_appends simp: office_keeps_def office_ok_def)

lemma office_ok_later: "office_ok t d \<Longrightarrow> t \<le> t' \<Longrightarrow> office_ok t' d"
  by (fastforce simp: office_ok_def feedback_ok_def)

section \<open>Staff keep it\<close>

lemma employee_follows [office_follows]:
  assumes "trim_space (ei_FirstName inp) \<noteq> []" "trim_space (ei_LastName inp) \<noteq> []" "trim_space (ei_Role inp) \<noteq> []"
  shows "tx_follows (office_keeps t) (employee_body e inp)"
proof (rule tx_followsI)
  fix s :: "'x office_db_scheme session" and got s'
  assume "employee_body e inp s = Inr (got, s')"
  then obtain u s1 s2 where user: "(case ei_UserID inp of None \<Rightarrow> tret () | Some u \<Rightarrow>
        tmissing (InvalidInput ''user_id'') (VerifyUserInOrg e u (ei_OrgID inp))) s = Inr (u, s1)"
    and ins: "CreateEmployee_store e (employee_params inp) s1 = Inr (got, s2)" and rec: "Record e (employee_entry inp got) s2 = Inr ((), s')"
    by (auto simp: employee_body_def tbind_Inr)
  have s1: "s1 = s" "opt_ok (\<lambda>u. (u, ei_OrgID inp) \<in> set (st_members (s_db s))) (ei_UserID inp)"
    using user by (cases "ei_UserID inp"; auto simp: tret_def VerifyUserInOrg_def tbind_Inr select_all_Inr)+
  have "office_keeps t (s_db s) (s_db s2)"
    using ins s1 assms by (auto simp: CreateEmployee_store_def insert_returning_Inr office_keeps_def office_ok_def staff_ok_def employee_params_def)
  then show "office_keeps t (s_db s) (s_db s')" using office.R_trans tx_followsD [OF Record_office rec] by blast
qed

lemma certification_follows [office_follows]:
  assumes "certification_check inp = Inr ()"
  shows "tx_follows (office_keeps t) (certification_body e inp)"
proof -
  have "trim_space (xi_CertType inp) \<noteq> []" "IsValidCertificationStatus (rp_Status (certification_params inp))"
    using assms by (auto simp: certification_check_def ebind_elims)
  then have "tx_follows (office_keeps t) (CreateCertification_store e (certification_params inp))"
    by (intro tx_followsI) (auto simp: CreateCertification_store_def insert_returning_Inr office_keeps_def office_ok_def staff_ok_def certification_params_def)
  then show ?thesis unfolding certification_body_def VerifyEmployeeInOrg_def by (intro office.bind office_follows)
qed

section \<open>Feedback keeps it\<close>

lemma recent_bounds_hour:
  assumes "\<forall>r\<in>set rows. fk_CreatedAt r \<le> now" "now \<le> w"
  shows "length (filter (in_hour org sub w) rows) \<le> length (recent_of now feedbackSubmitWindow org sub rows)"
proof -
  have "filter (in_hour org sub w) rows = filter (in_hour org sub w) (recent_of now feedbackSubmitWindow org sub rows)"
    unfolding recent_of_def filter_filter by (rule filter_cong [OF refl]) (use assms(2) in \<open>auto simp: in_hour_def\<close>)
  then show ?thesis by simp
qed

lemma feedback_grows:
  assumes "feedback_ok now rows" "length (recent_of now feedbackSubmitWindow (fk_OrgID r) (fk_UserSub r) rows) < feedbackSubmitMaxPerHour"
    and "fk_CreatedAt r = now" "report_ok r"
  shows "feedback_ok now (rows @ [r])"
proof -
  have "length (filter (in_hour org sub w) (rows @ [r])) \<le> feedbackSubmitMaxPerHour" for org sub w
  proof (cases "in_hour org sub w r")
    case False
    then show ?thesis using assms(1) by (simp add: feedback_ok_def)
  next
    case True
    then have "length (filter (in_hour org sub w) rows) < feedbackSubmitMaxPerHour"
      using recent_bounds_hour [of rows now w org sub] assms(1-3) by (auto simp: in_hour_def feedback_ok_def)
    then show ?thesis using True by simp
  qed
  then show ?thesis using assms by (auto simp: feedback_ok_def)
qed

lemma submit_follows [office_follows]:
  assumes "submit_check parse inp = Inr cctx" "t = e_now e"
  shows "tx_follows (office_keeps t) (submit_body parse e inp cctx)"
proof (rule tx_followsI)
  fix s :: "'x office_db_scheme session" and row s'
  assume "submit_body parse e inp cctx s = Inr (row, s')"
  then obtain s2 where count: "length (recent_of (e_now e) feedbackSubmitWindow (sf_OrgID inp) (sf_UserSub inp) (of_feedback (s_db s))) < feedbackSubmitMaxPerHour"
    and ins: "Insert_store parse e \<lparr>jp_OrgID = sf_OrgID inp, jp_UserSub = sf_UserSub inp, jp_Category = sf_Category inp,
         jp_Message = trim_space (sf_Message inp), jp_Context = cctx\<rparr> s = Inr (row, s2)"
    and rec: "Record e (submit_entry inp row) s2 = Inr ((), s')"
    by (auto simp: submit_body_def CountRecentByUser_def tbind_Inr select_all_Inr)
  have row: "fk_OrgID row = sf_OrgID inp" "fk_UserSub row = sf_UserSub inp" "fk_CreatedAt row = t" "report_ok row"
    "s_db s2 = of_feedback_update (\<lambda>rows. rows @ [row]) (s_db s)"
    using ins assms(2) by (auto simp: Insert_store_def insert_returning_Inr report_ok_def note_ok_def rune_count_def validFeedbackStatuses_def Let_def)
  have "feedback_ok t (of_feedback (s_db s) @ [row])" if "feedback_ok t (of_feedback (s_db s))"
    by (rule feedback_grows [OF that]) (use count row assms(2) in auto)
  then have "office_keeps t (s_db s) (s_db s2)" by (auto simp: office_keeps_def office_ok_def row(5))
  then show "office_keeps t (s_db s) (s_db s')" using office.R_trans tx_followsD [OF Record_office rec] by blast
qed

lemma triaged_keeps:
  assumes "feedback_ok t rows" "triage_check inp = Inr ()"
  shows "feedback_ok t (update_where P (triaged e (tg_Status inp) (tg_TriageNote inp)) rows)"
proof -
  let ?f = "triaged e (tg_Status inp) (tg_TriageNote inp)"
  have same: "in_hour org sub w (?f r) = in_hour org sub w r" "fk_CreatedAt (?f r) = fk_CreatedAt r" for org sub w r
    by (simp_all add: in_hour_def triaged_def)
  have "report_ok (?f r)" if "report_ok r" for r
    using that assms(2) by (cases "tg_TriageNote inp") (auto simp: report_ok_def triaged_def triage_check_def ebind_elims note_ok_def feedbackMessageMaxChars_def)
  moreover have "length (filter (in_hour org sub w) (update_where P ?f rows)) = length (filter (in_hour org sub w) rows)" for org sub w
    by (simp add: update_where_def filter_map comp_def if_distrib [of "in_hour org sub w"] same)
  ultimately show ?thesis using assms(1) by (auto simp: feedback_ok_def set_update_where same)
qed

lemma triage_follows [office_follows]:
  assumes "triage_check inp = Inr ()"
  shows "tx_follows (office_keeps t) (triage_body e inp)"
proof -
  have "tx_follows (office_keeps t) (UpdateStatus e (tg_OrgID inp) (tg_ID inp) (tg_Status inp) (tg_TriageNote inp))"
    by (rule tx_followsI) (auto simp: UpdateStatus_def update_returning_Inr office_keeps_def office_ok_def triaged_keeps [OF _ assms])
  then show ?thesis unfolding triage_body_def by (intro office.bind office_follows)
qed

section \<open>Notifications keep it\<close>

lemma deliver_keeps: "office_keeps t d (snd (DeliverNotification parse e send k args d))"
proof -
  have "tx_follows (office_keeps t) (InsertDLQEntry parse e \<lparr>yp_UserID = nr_UserID args, yp_NotificationType = nr_NotificationType args,
      yp_Payload = nr_Payload args, yp_RetryCount = k, yp_LastError = err\<rparr>)" if "IsValidNotificationType (nr_NotificationType args)" "MaxNotificationAttempts \<le> k" for err
    using that by (intro tx_followsI) (auto simp: InsertDLQEntry_def Let_def insert_returning_Inr office_keeps_def office_ok_def dlq_ok_def)
  then show ?thesis
    by (auto simp: DeliverNotification_def Deliver_def recordDLQAndError_def office.R_refl intro: office.commit split: option.splits)
qed

lemma job_keeps: "office_keeps t d (snd (run_job parse env send args k d))"
proof (induction parse env send args k d rule: run_job.induct)
  case (1 parse env send args k d)
  show ?case
  proof (cases "k > retry_MaxAttempts")
    case False
    obtain r d' where step: "DeliverNotification parse (env k) (send k) k args d = (r, d')" by (cases "DeliverNotification parse (env k) (send k) k args d")
    have keep: "office_keeps t d d'" using deliver_keeps [of t d parse "env k" "send k" k args] step by simp
    show ?thesis
    proof (cases r)
      case (Inl err)
      with False step have "office_keeps t d' (snd (run_job parse env send args (k + 1) d'))" using 1 [OF False step [symmetric] Inl] by simp
      with keep show ?thesis using False step Inl office.R_trans by (subst run_job.simps) auto
    qed (use keep False step in \<open>subst run_job.simps, auto\<close>)
  qed (subst run_job.simps, simp add: office.R_refl)
qed

section \<open>Agents keep it\<close>

lemma jsonb_object: "parse cfg = Some (JObject m) \<Longrightarrow> jsonb parse cfg = Some v \<Longrightarrow> \<exists>m'. v = JObject m'"
  by (auto simp: jsonb_def split: if_splits)

lemma set_follows [office_follows]:
  assumes "json_text parse" "set_check parse inp = Inr cfg"
  shows "tx_follows (office_keeps t) (set_body parse e inp cfg)"
proof -
  have known: "catalog_Lookup catalog (sg_Capability inp) \<noteq> None" and cfg: "validateConfigObject parse (sg_Config inp) = Inr cfg"
    using assms(2) by (auto simp: set_check_def validateAgentConfig_def ebind_elims Let_def split: if_splits)
  obtain m where m: "parse cfg = Some (JObject m)" by (rule validateConfigObject_Inr [OF assms(1) cfg])
  let ?p = "\<lparr>ug_OrgID = sg_OrgID inp, ug_Capability = sg_Capability inp, ug_Enabled = sg_Enabled inp, ug_Config = cfg, ug_UpdatedBy = sg_UserSub inp\<rparr>"
  let ?k = "\<lambda>r. (ac_OrgID r, ac_Capability r)" and ?P = "of_capability (sg_OrgID inp) (sg_Capability inp)"
  have upd: "agents_ok (update_where ?P (overridden e ?p v) rows)" if "agents_ok rows" "\<exists>m. v = JObject m" for rows v
  proof -
    have "List.map ?k (update_where ?P (overridden e ?p v) rows) = List.map ?k rows"
      by (rule map_update_where) (simp add: overridden_def)
    with that show ?thesis by (auto simp: agents_ok_def set_update_where overridden_def)
  qed
  have ins: "agents_ok (rows @ [r])" if "agents_ok rows" "\<forall>r'\<in>set rows. \<not> ?P r'" "?P r" "\<exists>m. ac_Config r = JObject m" for rows r
    using that known by (auto simp: agents_ok_def of_capability_def)
  have "tx_follows (office_keeps t) (Upsert parse e ?p)"
  proof (rule tx_followsI)
    fix s :: "'x office_db_scheme session" and row s'
    assume run: "Upsert parse e ?p s = Inr (row, s')"
    then obtain v where v: "jsonb parse cfg = Some v" by (auto simp: Upsert_def stmt_Inr split: option.splits)
    have "agents_ok (of_agents (s_db s'))" if "agents_ok (of_agents (s_db s))"
      using run v jsonb_object [OF m v] upd [OF that] ins [OF that]
      by (auto simp: Upsert_def stmt_Inr update_returning_Inr insert_returning_Inr of_capability_def split: if_splits)
    then show "office_keeps t (s_db s) (s_db s')"
      using run v by (auto simp: Upsert_def stmt_Inr update_returning_Inr insert_returning_Inr office_keeps_def office_ok_def split: if_splits)
  qed
  then show ?thesis unfolding set_body_def by (intro office.bind office_follows)
qed

lemma reset_follows [office_follows]: "tx_follows (office_keeps t) (reset_config_body e org c sub)"
proof -
  have "tx_follows (office_keeps t) (DeleteByCapability e org c)"
    by (rule tx_followsI) (auto simp: DeleteByCapability_def stmt_Inr office_keeps_def office_ok_def agents_ok_def distinct_map inj_on_def)
  then show ?thesis unfolding reset_config_body_def by (intro office.bind) (simp_all add: office_follows)
qed

section \<open>The machine\<close>

text \<open>
  Any operation of these services at a time that is not before the last one; \<open>elsewhere\<close> is an operation of another part,
  which leaves these tables, removes no user and writes the audit log through \<open>Record\<close>.
\<close>

inductive office_op :: "(string \<Rightarrow> json option) \<Rightarrow> gotime \<times> office_db \<Rightarrow> gotime \<times> office_db \<Rightarrow> bool" for parse where
  employee_added: "t \<le> e_now e \<Longrightarrow> office_op parse (t, d) (e_now e, snd (CreateEmployee e emp d))"
| certified: "t \<le> e_now e \<Longrightarrow> office_op parse (t, d) (e_now e, snd (CreateCertification e cert d))"
| reported: "t \<le> e_now e \<Longrightarrow> office_op parse (t, d) (e_now e, snd (Submit parse e fb d))"
| triaged: "t \<le> e_now e \<Longrightarrow> office_op parse (t, d) (e_now e, snd (Triage e tri d))"
| notified: "t \<le> t' \<Longrightarrow> office_op parse (t, d) (t', snd (DeliverNotification parse e send k args d))"
| configured: "t \<le> e_now e \<Longrightarrow> office_op parse (t, d) (e_now e, snd (Set_config parse e conf d))"
| config_reset: "t \<le> e_now e \<Longrightarrow> office_op parse (t, d) (e_now e, snd (Reset_config e org c sub d))"
| elsewhere: "\<lbrakk>t \<le> t'; of_employees d' = of_employees d; of_certs d' = of_certs d; of_feedback d' = of_feedback d; of_dlq d' = of_dlq d;
     of_agents d' = of_agents d; set (st_members d) \<subseteq> set (st_members d'); db_audit d' = db_audit d @ rows; list_all row_clean rows\<rbrakk> \<Longrightarrow>
     office_op parse (t, d) (t', d')"

lemma office_service:
  assumes "\<And>u. check = Inr u \<Longrightarrow> office_keeps t d (snd run)"
  shows "office_keeps t d (snd (service_result check d run))"
  using assms by (cases check) (auto simp: service_result_def office.R_refl)

lemma members_more:
  assumes "set ms \<subseteq> set ms'"
  shows "staff_ok ms es cs \<Longrightarrow> staff_ok ms' es cs" and "dlq_ok ms qs \<Longrightarrow> dlq_ok ms' qs"
proof -
  have "opt_ok (\<lambda>u. (u, org) \<in> set ms') u" if "opt_ok (\<lambda>u. (u, org) \<in> set ms) u" for u org
    using that assms by (cases u) auto
  then show "staff_ok ms es cs \<Longrightarrow> staff_ok ms' es cs" by (auto simp: staff_ok_def)
  show "dlq_ok ms qs \<Longrightarrow> dlq_ok ms' qs" using assms by (fastforce simp: dlq_ok_def)
qed

lemma office_op_keeps:
  assumes "office_op parse s s'" "json_text parse" "office_ok (fst s) (snd s)"
  shows "office_ok (fst s') (snd s')"
  using assms
proof (induction rule: office_op.induct)
  case (employee_added t e d emp)
  have "office_keeps (e_now e) d (snd (CreateEmployee e emp d))" unfolding CreateEmployee_def
    by (rule office_service) (auto simp: ebind_elims intro!: office.commit employee_follows)
  then show ?case using employee_added office_ok_later by (auto simp: office_keeps_def)
next
  case (certified t e d cert)
  have "office_keeps (e_now e) d (snd (CreateCertification e cert d))" unfolding CreateCertification_def
    by (rule office_service) (auto intro!: office.commit certification_follows)
  then show ?case using certified office_ok_later by (auto simp: office_keeps_def)
next
  case (reported t e d fb)
  have "office_keeps (e_now e) d (snd (Submit parse e fb d))" unfolding Submit_def
    by (auto simp: office.R_refl intro!: office.commit submit_follows split: sum.splits)
  then show ?case using reported office_ok_later by (auto simp: office_keeps_def)
next
  case (triaged t e d tri)
  have "office_keeps (e_now e) d (snd (Triage e tri d))" unfolding Triage_def
    by (rule office_service) (auto intro!: office.commit triage_follows)
  then show ?case using triaged office_ok_later by (auto simp: office_keeps_def)
next
  case (notified t t' d e send k args)
  then show ?case using deliver_keeps [of t' d parse e send k args] office_ok_later by (auto simp: office_keeps_def)
next
  case (configured t e d conf)
  have "office_keeps (e_now e) d (snd (Set_config parse e conf d))" unfolding Set_config_def
    using configured(2) by (auto simp: office.R_refl intro!: office.commit set_follows split: sum.splits)
  then show ?case using configured office_ok_later by (auto simp: office_keeps_def)
next
  case (config_reset t e d org c sub)
  have "office_keeps (e_now e) d (snd (Reset_config e org c sub d))" unfolding Reset_config_def
    by (rule office_service) (auto intro!: office.commit reset_follows)
  then show ?case using config_reset office_ok_later by (auto simp: office_keeps_def)
next
  case (elsewhere t t' d' d rows)
  then show ?case using office_ok_later [of t d t'] members_more [of "st_members d" "st_members d'"] by (auto simp: office_ok_def)
qed

lemma office_ops_keep:
  assumes "(office_op parse)\<^sup>*\<^sup>* s s'" "json_text parse" "office_ok (fst s) (snd s)"
  shows "office_ok (fst s') (snd s')"
  using assms by (induction rule: rtranclp_induct) (auto dest: office_op_keeps)

section \<open>What becomes of a notification\<close>

definition dead_letter :: "(string \<Rightarrow> json option) \<Rightarrow> env \<Rightarrow> FieldNotificationRetryArgs \<Rightarrow> string \<Rightarrow> uuid \<Rightarrow> FieldNotificationDLQEntry" where
  "dead_letter parse e args err u = \<lparr>dq_ID = u, dq_UserID = nr_UserID args, dq_NotificationType = nr_NotificationType args,
     dq_Payload = coalesce (jsonb parse (if nr_Payload args = [] then ''{}'' else nr_Payload args)) JNull, dq_RetryCount = MaxNotificationAttempts,
     dq_LastError = opt_string err, dq_CreatedAt = e_now e\<rparr>"

definition delivery :: "FieldNotificationRetryArgs \<Rightarrow> NotificationDelivery" where
  "delivery args = \<lparr>nd_UserID = nr_UserID args, nd_NotificationType = nr_NotificationType args, nd_Payload = nr_Payload args\<rparr>"

lemma early_attempts:
  assumes "IsValidNotificationType (nr_NotificationType args)" "k \<le> 6" "1 \<le> k"
  shows "run_job parse env send args k d =
    (if \<exists>i\<in>{k..5}. send i (delivery args) = None then (True, d) else run_job parse env send args 6 d)"
  using assms
proof (induction "nat (6 - k)" arbitrary: k)
  case 0
  then have "k = 6" by simp
  then show ?case by simp
next
  case (Suc n)
  then have k: "k < 6" by simp
  then have split: "{k..5} = insert k {k + 1..5}" by auto
  show ?case
  proof (cases "send k (delivery args)")
    case None
    then show ?thesis using k Suc(3,5) unfolding split
      by (subst run_job.simps) (simp add: DeliverNotification_def Deliver_def delivery_def retry_MaxAttempts_def)
  next
    case (Some err)
    have "run_job parse env send args k d = run_job parse env send args (k + 1) d"
      using k Suc(3,5) Some
      by (subst run_job.simps) (simp add: DeliverNotification_def Deliver_def delivery_def retry_MaxAttempts_def MaxNotificationAttempts_def)
    also have "\<dots> = (if \<exists>i\<in>{k + 1..5}. send i (delivery args) = None then (True, d) else run_job parse env send args 6 d)"
      by (rule Suc(1)) (use Suc k in auto)
    finally show ?thesis using Some unfolding split by simp
  qed
qed

lemma last_attempt:
  assumes "IsValidNotificationType (nr_NotificationType args)" "healthy (env 6)" "nr_UserID args \<in> fst ` set (st_members d)"
    and "jsonb parse (if nr_Payload args = [] then ''{}'' else nr_Payload args) \<noteq> None" "e_uuid (env 6) 0 \<notin> dq_ID ` set (of_dlq d)"
  shows "run_job parse env send args 6 d = (case send 6 (delivery args) of None \<Rightarrow> (True, d)
     | Some err \<Rightarrow> (False, d\<lparr>of_dlq := of_dlq d @ [dead_letter parse (env 6) args err (e_uuid (env 6) 0)]\<rparr>))"
proof (cases "send 6 (delivery args)")
  case None
  then show ?thesis using assms(1) by (subst run_job.simps) (simp add: DeliverNotification_def Deliver_def delivery_def retry_MaxAttempts_def)
next
  case (Some err)
  let ?p = "\<lparr>yp_UserID = nr_UserID args, yp_NotificationType = nr_NotificationType args, yp_Payload = nr_Payload args, yp_RetryCount = 6, yp_LastError = err\<rparr>"
  have "BeginTxFunc (env 6) (InsertDLQEntry parse (env 6) ?p) d =
      (Inr (dead_letter parse (env 6) args err (e_uuid (env 6) 0)), d\<lparr>of_dlq := of_dlq d @ [dead_letter parse (env 6) args err (e_uuid (env 6) 0)]\<rparr>)"
    using assms by (auto simp: BeginTxFunc_def healthy_def InsertDLQEntry_def Let_def insert_returning_def stmt_def dead_letter_def int4_ok_def
        MaxNotificationAttempts_def image_iff)
  then have "DeliverNotification parse (env 6) (send 6) 6 args d =
      (Inl (SendFailed err), d\<lparr>of_dlq := of_dlq d @ [dead_letter parse (env 6) args err (e_uuid (env 6) 0)]\<rparr>)"
    using assms(1) Some by (simp add: DeliverNotification_def Deliver_def recordDLQAndError_def delivery_def MaxNotificationAttempts_def)
  then show ?thesis using Some by (subst run_job.simps, subst run_job.simps) (simp add: retry_MaxAttempts_def)
qed

text \<open>A notification job ends after at most six attempts. It is delivered exactly when the transport takes it at one of
  them, and then nothing is stored; otherwise one row is added to the dead letters, with six attempts and the last error.\<close>

theorem notification_delivered_or_dead:
  assumes "IsValidNotificationType (nr_NotificationType args)" "healthy (env 6)" "nr_UserID args \<in> fst ` set (st_members d)"
    and "jsonb parse (if nr_Payload args = [] then ''{}'' else nr_Payload args) \<noteq> None" "e_uuid (env 6) 0 \<notin> dq_ID ` set (of_dlq d)"
  shows "run_job parse env send args 1 d =
    (if \<exists>k\<in>{1..6}. send k (delivery args) = None then (True, d)
     else (False, d\<lparr>of_dlq := of_dlq d @ [dead_letter parse (env 6) args (the (send 6 (delivery args))) (e_uuid (env 6) 0)]\<rparr>))"
proof -
  have six: "(\<exists>k\<in>{1..6}. send k (delivery args) = None) \<longleftrightarrow> (\<exists>k\<in>{1..5}. send k (delivery args) = None) \<or> send 6 (delivery args) = None"
  proof -
    have "{1..6 :: int} = insert 6 {1..5}" by auto
    then show ?thesis by auto
  qed
  have run: "run_job parse env send args 1 d =
      (if \<exists>i\<in>{1..5}. send i (delivery args) = None then (True, d) else run_job parse env send args 6 d)"
    by (rule early_attempts [OF assms(1)]) simp_all
  show ?thesis unfolding run six last_attempt [where env = env and parse = parse, OF assms] by (cases "send 6 (delivery args)") simp_all
qed

text \<open>The first delay of the table is never used: the attempts count from 1.\<close>

lemma first_delay_is_skipped:
  "1 \<le> k \<Longrightarrow> k \<le> 5 \<Longrightarrow> NextRetry now k \<in> {now + 60 * second, now + 2 * minute, now + 5 * minute, now + 30 * minute, now + 60 * minute}"
proof -
  assume "1 \<le> k" "k \<le> 5"
  then consider "k = 1" | "k = 2" | "k = 3" | "k = 4" | "k = 5" by linarith
  then show ?thesis by cases (simp_all add: NextRetry_def retry_delays_def)
qed

section \<open>Employees of other organizations\<close>

text \<open>To a caller of another organization an employee does not exist: reading and adding certifications answer with the
  same error whether the employee belongs to someone else or to nobody, and change nothing.\<close>

theorem foreign_employee_is_not_found:
  assumes "\<not> e_fail e ''begin''" "\<not> e_fail e ''verify employee in org''" "certification_check inp = Inr ()"
    and "\<forall>r\<in>set (of_employees d). em_ID r = xi_EmployeeID inp \<longrightarrow> em_OrgID r \<noteq> xi_OrgID inp"
  shows "ListCertifications e (xi_OrgID inp) (xi_EmployeeID inp) d = Inl EmployeeNotFound \<and>
    CreateCertification e inp d = (Inl EmployeeNotFound, d)"
proof -
  have ids: "xi_OrgID inp \<noteq> uuid_nil" "xi_EmployeeID inp \<noteq> uuid_nil"
    using assms(3) by (auto simp: certification_check_def ebind_elims)
  have no: "VerifyEmployeeInOrg e (xi_EmployeeID inp) (xi_OrgID inp) \<lparr>s_db = d, s_draws = 0, s_aborted = False\<rparr> = Inl EmployeeNotFound"
    using assms(2,4) by (auto simp: VerifyEmployeeInOrg_def tbind_def select_all_def stmt_def tguard_def)
  show ?thesis using assms(1,3) ids no
    by (simp add: ListCertifications_def CreateCertification_def certifications_body_def certification_body_def tbind_def BeginTxFunc_def
        service_result_def mapped_def Let_def require_that_def)
qed

section \<open>What a setting does\<close>

definition fold_distinct :: "payload \<Rightarrow> bool" where
  "fold_distinct m \<longleftrightarrow> distinct (List.map (\<lambda>p. fold_name (fst p)) m)"

lemma member_unique: "fold_distinct m \<Longrightarrow> length (tuning_member key m) \<le> 1"
  unfolding tuning_member_def fold_distinct_def
proof (induction m)
  case (Cons p m)
  then have "fold_name (fst p) \<notin> (\<lambda>p. fold_name (fst p)) ` set m" by simp
  then have "filter (\<lambda>q. fold_name (fst q) = fold_name (fst p)) m = []" by (metis (mono_tags, lifting) filter_False image_eqI)
  with Cons show ?case by auto
qed simp

lemma member_stored:
  assumes "fold_distinct m"
  shows "tuning_member key (key_order (last_members (List.map (\<lambda>(k, v). (k, jsonb_value v)) m))) = List.map jsonb_value (tuning_member key m)"
proof -
  let ?m = "List.map (\<lambda>(k, v). (k, jsonb_value v)) m"
  have keys: "List.map fst ?m = List.map fst m" by auto
  have "distinct (List.map fold_name (List.map fst m))" using assms by (simp add: fold_distinct_def comp_def)
  then have "last_members ?m = ?m" by (intro last_members_distinct) (simp only: keys distinct_map)
  moreover have here: "tuning_member key ?m = List.map jsonb_value (tuning_member key m)"
    by (simp add: tuning_member_def filter_map comp_def case_prod_unfold)
  moreover have "mset (tuning_member key (key_order ?m)) = mset (tuning_member key ?m)"
    by (simp add: tuning_member_def key_order_def)
  moreover have "length (tuning_member key ?m) \<le> 1" unfolding here using member_unique [OF assms] by simp
  ultimately show ?thesis by (cases "tuning_member key ?m") auto
qed

definition or_documented :: "int \<Rightarrow> int option \<Rightarrow> int" where
  "or_documented k f = (case f of None \<Rightarrow> k | Some i \<Rightarrow> i)"

text \<open>What an accepted text asks for: a threshold it names, else the documented default.\<close>

definition stated_tuning :: "payload \<Rightarrow> ForesightTuning" where
  "stated_tuning m = \<lparr>ft_ScheduleFloatDays = or_documented defaultForesightScheduleFloatDays (pointer_field (tuning_member ''schedule_float_days'' m)),
     ft_BudgetBurnPercent = or_documented defaultForesightBudgetBurnPercent (pointer_field (tuning_member ''budget_burn_percent'' m))\<rparr>"

lemma field_read:
  assumes "length vs \<le> 1" "list_all member_ok vs" "opt_ok (\<lambda>i. 0 < i) (pointer_field vs)"
  shows "(if int_field (List.map jsonb_value vs) \<le> 0 then k else int_field (List.map jsonb_value vs)) = or_documented k (pointer_field vs)"
proof (cases vs)
  case (Cons v ws)
  then have "vs = [v]" using assms(1) by simp
  then show ?thesis using assms(2,3)
    by (cases v) (auto simp: int_field_def pointer_field_def or_documented_def member_ok_def split: if_splits)
qed (simp add: int_field_def pointer_field_def or_documented_def)

lemma stored_tuning:
  assumes "fold_distinct m" "probe_ok m" "opt_ok (\<lambda>i. 0 < i) (pointer_field (tuning_member ''schedule_float_days'' m))"
    and "opt_ok (\<lambda>i. 0 < i) (pointer_field (tuning_member ''budget_burn_percent'' m))"
  shows "ParseForesightTuning (jsonb_value (JObject m)) = stated_tuning m"
proof -
  have ok: "list_all member_ok (tuning_member ''schedule_float_days'' m)" "list_all member_ok (tuning_member ''budget_burn_percent'' m)"
    using assms(2) by (simp_all add: probe_ok_def)
  note read = field_read [OF member_unique [OF assms(1)] ok(1) assms(3)] field_read [OF member_unique [OF assms(1)] ok(2) assms(4)]
  have "ParseForesightTuning (jsonb_value (JObject m)) = tuning_WithDefaults
      \<lparr>ft_ScheduleFloatDays = int_field (List.map jsonb_value (tuning_member ''schedule_float_days'' m)),
       ft_BudgetBurnPercent = int_field (List.map jsonb_value (tuning_member ''budget_burn_percent'' m))\<rparr>"
    by (simp add: ParseForesightTuning_def tuning_of_def member_stored [OF assms(1)])
  also have "\<dots> = stated_tuning m"
    by (simp only: tuning_WithDefaults_def stated_tuning_def ForesightTuning.select_convs read)
  finally show ?thesis .
qed

lemma catalog_keys: "catalog_Lookup catalog c = Some ds \<Longrightarrow> ds_Capability ds = c"
  by (auto simp: catalog_Lookup_def catalog_def NewRegistry_def Register_def DelayCascadeCap_def ForesightCap_def ExperienceCap_def split: if_splits)

lemma catalog_foresight: "catalog_Lookup catalog ForesightCap \<noteq> None"
  by (simp add: catalog_Lookup_def catalog_def NewRegistry_def Register_def DelayCascadeCap_def ForesightCap_def ExperienceCap_def)

text \<open>What a committed \<open>Set_config\<close> leaves: one row for the pair, and every other row as it was.\<close>

lemma set_config_row:
  assumes "Set_config parse e inp d = (Inr row, d')"
  obtains cfg v where "set_check parse inp = Inr cfg" "jsonb parse cfg = Some v"
    "List.find (of_capability (sg_OrgID inp) (sg_Capability inp)) (of_agents d') = Some row" "ac_Enabled row = sg_Enabled inp" "ac_Config row = v"
    "\<And>org c. (org, c) \<noteq> (sg_OrgID inp, sg_Capability inp) \<Longrightarrow> List.find (of_capability org c) (of_agents d') = List.find (of_capability org c) (of_agents d)"
proof -
  let ?P = "of_capability (sg_OrgID inp) (sg_Capability inp)"
  obtain cfg where cfg: "set_check parse inp = Inr cfg" and run: "BeginTxFunc e (set_body parse e inp cfg) d = (Inr row, d')"
    using assms by (auto simp: Set_config_def split: sum.splits)
  let ?p = "\<lparr>ug_OrgID = sg_OrgID inp, ug_Capability = sg_Capability inp, ug_Enabled = sg_Enabled inp, ug_Config = cfg, ug_UpdatedBy = sg_UserSub inp\<rparr>"
  obtain s1 s2 where up: "Upsert parse e ?p \<lparr>s_db = d, s_draws = 0, s_aborted = False\<rparr> = Inr (row, s1)"
    and rec: "Record e (set_entry parse inp cfg row) s1 = Inr ((), s2)" and d': "d' = s_db s2"
    using run by (auto simp: BeginTxFunc_Inr set_body_def tbind_Inr)
  obtain v where v: "jsonb parse cfg = Some v" using up by (auto simp: Upsert_def stmt_Inr split: option.splits)
  have same: "of_agents d' = of_agents (s_db s1)" using Record_appends [OF rec] d' by auto
  show thesis
  proof (cases "\<exists>r\<in>set (of_agents d). ?P r")
    case True
    then obtain r where r: "List.find ?P (of_agents d) = Some r" by (cases "List.find ?P (of_agents d)") (auto simp: find_None_iff)
    have row: "row = overridden e ?p v r" "of_agents (s_db s1) = update_where ?P (overridden e ?p v) (of_agents d)"
      using up v True r by (auto simp: Upsert_def stmt_Inr update_returning_Inr)
    have keep: "of_capability org c (overridden e ?p v r') = of_capability org c r'" for org c r'
      by (simp add: of_capability_def overridden_def)
    have "List.find ?P (update_where ?P (overridden e ?p v) rows) = map_option (overridden e ?p v) (List.find ?P rows)" for rows
      by (induction rows) (auto simp: update_where_def keep)
    moreover have "List.find (of_capability org c) (update_where ?P (overridden e ?p v) rows) = List.find (of_capability org c) rows"
      if "(org, c) \<noteq> (sg_OrgID inp, sg_Capability inp)" for org c rows
    proof -
      have "\<not> of_capability org c r" if "?P r" for r using that \<open>(org, c) \<noteq> _\<close> by (auto simp: of_capability_def)
      then show ?thesis by (induction rows) (auto simp: update_where_def keep)
    qed
    ultimately show thesis
      by (intro that [OF cfg v]) (use row r same in \<open>auto simp: overridden_def\<close>)
  next
    case False
    then have none: "List.find ?P (of_agents d) = None" by (auto simp: find_None_iff)
    have row: "of_agents (s_db s1) = of_agents d @ [row]" "ac_OrgID row = sg_OrgID inp" "ac_Capability row = sg_Capability inp"
      "ac_Enabled row = sg_Enabled inp" "ac_Config row = v"
      using up v False by (auto simp: Upsert_def stmt_Inr insert_returning_Inr)
    have app: "List.find Q (rows @ [row]) = (case List.find Q rows of Some x \<Rightarrow> Some x | None \<Rightarrow> if Q row then Some row else None)" for Q rows
      by (induction rows) auto
    show thesis
      by (intro that [OF cfg v]) (use row none same in \<open>auto simp: app of_capability_def split: option.splits\<close>)
  qed
qed

lemma resolve_run:
  assumes "\<not> e_fail e ''begin''" "\<not> e_fail e ''get agent config''" "\<not> e_commit_fails e"
  shows "Resolve parse e org c d = (case catalog_Lookup catalog c of None \<Rightarrow> Inr \<lparr>cg_Enabled = False, cg_Config = JNull\<rparr>
    | Some ds \<Rightarrow> (case List.find (of_capability org c) (of_agents d) of
        None \<Rightarrow> Inr (default_config parse ds) | Some r \<Rightarrow> Inr \<lparr>cg_Enabled = ac_Enabled r, cg_Config = ac_Config r\<rparr>))"
proof (cases "catalog_Lookup catalog c")
  case (Some ds)
  note key = catalog_keys [OF Some]
  show ?thesis
    by (cases "List.find (of_capability org c) (of_agents d)")
      (use assms Some key in \<open>simp_all add: Resolve_def resolve_body_def tfound_def GetByCapability_def select_one_def stmt_def BeginTxFunc_def tret_def\<close>)
qed (simp add: Resolve_def)

text \<open>An accepted foresight setting is what the engine runs with: after the write the organization resolves to the switch that
  was set and to the thresholds the text names, with the documented default for one it leaves out, provided no key is written
  twice; and no other organization or capability resolves differently.\<close>

theorem accepted_tuning_is_executed:
  assumes "json_text parse" "sg_Capability inp = ForesightCap" "parse (sg_Config inp) = Some (JObject m)" "fold_distinct m"
    and "Set_config parse e inp d = (Inr row, d')" "\<not> e_fail e' ''begin''" "\<not> e_fail e' ''get agent config''" "\<not> e_commit_fails e'"
  shows "\<exists>cfg. Resolve parse e' (sg_OrgID inp) ForesightCap d' = Inr cfg \<and> cg_Enabled cfg = sg_Enabled inp \<and>
      ParseForesightTuning (cg_Config cfg) = stated_tuning m"
    and "\<And>org c. (org, c) \<noteq> (sg_OrgID inp, ForesightCap) \<Longrightarrow> Resolve parse e' org c d' = Resolve parse e' org c d"
proof -
  obtain cfg v where set: "set_check parse inp = Inr cfg" "jsonb parse cfg = Some v"
      "List.find (of_capability (sg_OrgID inp) ForesightCap) (of_agents d') = Some row" "ac_Enabled row = sg_Enabled inp" "ac_Config row = v"
    and others: "\<And>org c. (org, c) \<noteq> (sg_OrgID inp, ForesightCap) \<Longrightarrow> List.find (of_capability org c) (of_agents d') = List.find (of_capability org c) (of_agents d)"
    using set_config_row [OF assms(5)] unfolding assms(2) by metis
  have "trim_space (sg_Config inp) \<noteq> []" using assms(1,3) by (auto simp: json_text_def)
  then have checks: "cfg = sg_Config inp" "probe_ok m" "opt_ok (\<lambda>i. 0 < i) (pointer_field (tuning_member ''schedule_float_days'' m))"
    "opt_ok (\<lambda>i. 0 < i) (pointer_field (tuning_member ''budget_burn_percent'' m))"
    using set(1) assms(2,3) by (auto simp: set_check_def validateAgentConfig_def validateConfigObject_def ebind_elims Let_def split: if_splits)
  have "v = jsonb_value (JObject m)" using set(2) assms(3) checks(1) by (simp add: jsonb_def split: if_splits)
  then have "ParseForesightTuning v = stated_tuning m" using stored_tuning [OF assms(4) checks(2-4)] by simp
  then show "\<exists>cfg. Resolve parse e' (sg_OrgID inp) ForesightCap d' = Inr cfg \<and> cg_Enabled cfg = sg_Enabled inp \<and>
      ParseForesightTuning (cg_Config cfg) = stated_tuning m"
    using catalog_foresight set by (auto simp: resolve_run [OF assms(6-8)])
  show "Resolve parse e' org c d' = Resolve parse e' org c d" if "(org, c) \<noteq> (sg_OrgID inp, ForesightCap)" for org c
    unfolding resolve_run [OF assms(6-8)] others [OF that] ..
qed

text \<open>
  A key written twice in different cases escapes the check: the validator reads the members as they are written, the engine
  as JSONB keeps them, so a threshold of 5 days is accepted and the default of 2 is executed.
\<close>

definition twin_keys :: payload where
  "twin_keys = [(''schedule_float_days'', JInt 0), (''SCHEDULE_FLOAT_DAYS'', JInt 5)]"

lemma twin_keys_escape:
  assumes "json_text parse" "parse raw = Some (JObject twin_keys)"
  shows "validateAgentConfig parse ForesightCap raw = Inr raw" "ft_ScheduleFloatDays (stated_tuning twin_keys) = 5"
    "jsonb parse raw = Some v \<Longrightarrow> ft_ScheduleFloatDays (ParseForesightTuning v) = 2"
proof -
  have lower: "fold_name ''schedule_float_days'' = ''schedule_float_days''" "fold_name ''SCHEDULE_FLOAT_DAYS'' = ''schedule_float_days''"
    by code_simp+
  have sched: "tuning_member ''schedule_float_days'' twin_keys = [JInt 0, JInt 5]" "tuning_member ''budget_burn_percent'' twin_keys = []"
    by (simp_all add: tuning_member_def twin_keys_def lower)
  have "validateConfigObject parse raw = Inr raw" "trim_space raw \<noteq> []"
    using assms by (auto simp: json_text_def validateConfigObject_def)
  then show "validateAgentConfig parse ForesightCap raw = Inr raw"
    using assms(2) by (simp add: validateAgentConfig_def sched probe_ok_def member_ok_def pointer_field_def require_that_def)
  show "ft_ScheduleFloatDays (stated_tuning twin_keys) = 5"
    by (simp add: stated_tuning_def sched pointer_field_def or_documented_def)
  have stored: "jsonb_value (JObject twin_keys) = JObject [(''SCHEDULE_FLOAT_DAYS'', JInt 5), (''schedule_float_days'', JInt 0)]"
    by (simp add: twin_keys_def key_order_def less_eq_char_def less_char_def)
  have "tuning_member ''schedule_float_days'' [(''SCHEDULE_FLOAT_DAYS'', JInt 5), (''schedule_float_days'', JInt 0)] = [JInt 5, JInt 0]"
    by (simp add: tuning_member_def lower)
  then show "ft_ScheduleFloatDays (ParseForesightTuning v) = 2" if "jsonb parse raw = Some v"
    using that assms(2) stored by (auto simp: jsonb_def ParseForesightTuning_def tuning_of_def tuning_WithDefaults_def int_field_def
        defaultForesightScheduleFloatDays_def split: if_splits)
qed

section \<open>The throttle of reports\<close>

text \<open>The throttle of reports holds over every sequence of operations: in no hour does a user file more than twenty, and one
  more report within the hour is refused without a change.\<close>

theorem feedback_throttle:
  assumes "(office_op parse)\<^sup>*\<^sup>* (t0, d0) (t, d)" "json_text parse" "office_ok t0 d0"
  shows "length (filter (in_hour org sub w) (of_feedback d)) \<le> 20"
    and "\<lbrakk>submit_check parse inp = Inr cctx; healthy e; t \<le> e_now e;
      20 \<le> length (filter (in_hour (sf_OrgID inp) (sf_UserSub inp) (e_now e)) (of_feedback d))\<rbrakk> \<Longrightarrow>
      Submit parse e inp d = (Inl FeedbackRateLimited, d)"
proof -
  have ok: "feedback_ok t (of_feedback d)" using office_ops_keep [OF assms(1,2)] assms(3) by (simp add: office_ok_def)
  then show "length (filter (in_hour org sub w) (of_feedback d)) \<le> 20" by (simp add: feedback_ok_def feedbackSubmitMaxPerHour_def)
  assume check: "submit_check parse inp = Inr cctx" and e: "healthy e" "t \<le> e_now e"
    and full: "20 \<le> length (filter (in_hour (sf_OrgID inp) (sf_UserSub inp) (e_now e)) (of_feedback d))"
  have "\<forall>r\<in>set (of_feedback d). fk_CreatedAt r \<le> e_now e" using ok e(2) by (fastforce simp: feedback_ok_def)
  from recent_bounds_hour [OF this order_refl, of "sf_OrgID inp" "sf_UserSub inp"] full
  have "\<not> length (recent_of (e_now e) feedbackSubmitWindow (sf_OrgID inp) (sf_UserSub inp) (of_feedback d)) < feedbackSubmitMaxPerHour"
    by (simp add: feedbackSubmitMaxPerHour_def)
  then show "Submit parse e inp d = (Inl FeedbackRateLimited, d)"
    using check e(1) by (simp add: Submit_def submit_body_def CountRecentByUser_def BeginTxFunc_def tbind_def select_all_def stmt_def tguard_def
        tret_def healthy_def)
qed

text \<open>Every sequence of operations of the office services, at times that do not go back, keeps their tables valid: employees
  are linked to users of their organization, certifications belong to employees, reports pass the checks and the hourly cap,
  dead letters have used up their attempts, an organization has one setting per known agent, and the audit log is redacted.\<close>

theorem office_invariant:
  assumes "(office_op parse)\<^sup>*\<^sup>* s s'" "json_text parse" "office_ok (fst s) (snd s)"
  shows "office_ok (fst s') (snd s')"
  by (rule office_ops_keep [OF assms])

section \<open>A sample office\<close>

definition sample_employee :: Employee where
  "sample_employee = \<lparr>em_ID = 60, em_OrgID = 7, em_UserID = Some 5, em_FirstName = ''A'', em_LastName = ''B'', em_Role = ''mason'',
     em_Phone = None, em_HireDate = None, em_CreatedAt = 0\<rparr>"

definition sample_office :: office_db where
  "sample_office = site_db.extend sample_site (office_db.fields [sample_employee] [] [] [] [])"

lemma sample_office_tables:
  "of_employees sample_office = [sample_employee]" "of_certs sample_office = []" "of_feedback sample_office = []" "of_dlq sample_office = []"
  "of_agents sample_office = []" "st_members sample_office = [(5, 7)]" "db_audit sample_office = []" "db_orgs sample_office = [7]"
  by (simp_all add: sample_office_def sample_site_def site_db.defs office_db.defs)

lemma sample_office_ok: "office_ok 0 sample_office"
  by (simp add: office_ok_def sample_office_tables staff_ok_def sample_employee_def feedback_ok_def dlq_ok_def agents_ok_def)

definition five_days :: string where
  "five_days = ''{'' @ [CHR 0x22] @ ''schedule_float_days'' @ [CHR 0x22] @ '':5}''"

definition five_members :: payload where
  "five_members = [(''schedule_float_days'', JInt 5)]"

definition sample_json :: "string \<Rightarrow> json option" where
  "sample_json raw = (if raw = ''{}'' then Some (JObject []) else if raw = five_days then Some (JObject five_members) else None)"

lemma sample_json_text: "json_text sample_json"
  by (auto simp: json_text_def sample_json_def five_days_def five_members_def trim_space_def is_space_def)

definition sample_args :: FieldNotificationRetryArgs where
  "sample_args = \<lparr>nr_UserID = 5, nr_NotificationType = ''sms'', nr_Payload = []\<rparr>"

theorem notification_delivered_or_dead_witness:
  "run_job sample_json (\<lambda>_. site_env 100) (\<lambda>_ _. Some ''queue full'') sample_args 1 sample_office =
    (False, sample_office\<lparr>of_dlq := [dead_letter sample_json (site_env 100) sample_args ''queue full'' 100]\<rparr>)"
proof -
  have "jsonb sample_json (if nr_Payload sample_args = [] then ''{}'' else nr_Payload sample_args) \<noteq> None"
    by (simp add: jsonb_def sample_json_def sample_args_def)
  moreover have "IsValidNotificationType (nr_NotificationType sample_args)" by (simp add: sample_args_def IsValidNotificationType_def)
  moreover have "nr_UserID sample_args \<in> fst ` set (st_members sample_office)" by (simp add: sample_args_def sample_office_tables)
  moreover have "e_uuid (site_env 100) 0 = 100" by (simp add: site_env_def)
  ultimately show ?thesis
    using notification_delivered_or_dead [of sample_args "\<lambda>_. site_env 100" sample_office sample_json "\<lambda>_ _. Some ''queue full''"] healthy_site
    by (simp add: sample_office_tables)
qed

definition sample_certificate :: CreateCertificationInput where
  "sample_certificate = \<lparr>xi_OrgID = 8, xi_CallerUserSub = ''u'', xi_EmployeeID = 60, xi_CertType = ''osha_10'', xi_CertNumber = None,
     xi_IssuedDate = None, xi_ExpiryDate = 0, xi_Status = []\<rparr>"

theorem foreign_employee_is_not_found_witness:
  "sample_employee \<in> set (of_employees sample_office) \<and> ListCertifications (site_env 100) 8 60 sample_office = Inl EmployeeNotFound \<and>
   CreateCertification (site_env 100) sample_certificate sample_office = (Inl EmployeeNotFound, sample_office)"
proof -
  have "certification_check sample_certificate = Inr ()"
    by (simp add: certification_check_def sample_certificate_def certification_params_def require_that_def uuid_nil_def zero_time_def second_def
        trim_space_def is_space_def IsValidCertificationStatus_def)
  with foreign_employee_is_not_found [of "site_env 100" sample_certificate sample_office] healthy_site [of 100]
  show ?thesis by (simp add: sample_office_tables sample_employee_def sample_certificate_def healthy_def)
qed

definition sample_setting :: SetAgentConfigInput where
  "sample_setting = \<lparr>sg_OrgID = 7, sg_Capability = ForesightCap, sg_Enabled = True, sg_Config = five_days, sg_UserSub = ''u''\<rparr>"

lemma five_members_tuning:
  "tuning_member ''schedule_float_days'' five_members = [JInt 5]" "tuning_member ''budget_burn_percent'' five_members = []"
  by code_simp+

lemma sample_set: "\<exists>row d. Set_config sample_json (site_env 100) sample_setting sample_office = (Inr row, d)"
proof -
  let ?e = "site_env 100" and ?s = "\<lparr>s_db = sample_office, s_draws = 0, s_aborted = False\<rparr>"
  have given: "sample_json five_days = Some (JObject five_members)" "trim_space five_days \<noteq> []" "hd (trim_space five_days) = CHR ''{''"
    by (simp_all add: sample_json_def five_days_def trim_space_def is_space_def)
  have check: "set_check sample_json sample_setting = Inr five_days"
    using given catalog_foresight by (simp add: set_check_def sample_setting_def validateAgentConfig_def validateConfigObject_def probe_ok_def
        five_members_tuning member_ok_def pointer_field_def require_that_def uuid_nil_def)
  have stored: "jsonb sample_json five_days \<noteq> None" using given by (simp add: jsonb_def five_members_def nul_def)
  let ?p = "\<lparr>ug_OrgID = 7, ug_Capability = ForesightCap, ug_Enabled = True, ug_Config = five_days, ug_UpdatedBy = ''u''\<rparr>"
  obtain row s1 where up: "Upsert sample_json ?e ?p ?s = Inr (row, s1)" "\<not> s_aborted s1" "db_orgs (s_db s1) = [7]" "db_audit (s_db s1) = []"
    using stored healthy_site [of 100]
    by (auto simp: Upsert_def stmt_def healthy_def sample_office_tables insert_returning_def Let_def split: option.splits)
  obtain rows n where rec: "Record ?e (set_entry sample_json sample_setting five_days row) s1 =
      Inr ((), s1\<lparr>s_db := s_db s1\<lparr>db_audit := db_audit (s_db s1) @ rows\<rparr>, s_draws := n\<rparr>)"
    by (rule Record_fine [OF healthy_site up(2), of "set_entry sample_json sample_setting five_days row" 100]) (auto simp: up set_entry_def sample_setting_def)
  have "set_body sample_json ?e sample_setting five_days ?s = Inr (row, s1\<lparr>s_db := s_db s1\<lparr>db_audit := db_audit (s_db s1) @ rows\<rparr>, s_draws := n\<rparr>)"
    using up(1) rec by (simp add: set_body_def tbind_def tret_def sample_setting_def)
  then show ?thesis using check healthy_site [of 100] up(2) by (simp add: Set_config_def BeginTxFunc_def healthy_def)
qed

theorem accepted_tuning_is_executed_witness:
  "\<exists>row d cfg. Set_config sample_json (site_env 100) sample_setting sample_office = (Inr row, d) \<and>
     Resolve sample_json (site_env 200) 7 ForesightCap d = Inr cfg \<and> cg_Enabled cfg \<and>
     ParseForesightTuning (cg_Config cfg) = \<lparr>ft_ScheduleFloatDays = 5, ft_BudgetBurnPercent = 80\<rparr> \<and>
     Resolve sample_json (site_env 200) 8 ForesightCap d = Resolve sample_json (site_env 200) 8 ForesightCap sample_office"
proof -
  obtain row d where set: "Set_config sample_json (site_env 100) sample_setting sample_office = (Inr row, d)" using sample_set by blast
  have "sample_json (sg_Config sample_setting) = Some (JObject five_members)" "fold_distinct five_members" "sg_Capability sample_setting = ForesightCap"
    by (simp_all add: sample_setting_def sample_json_def five_days_def five_members_def fold_distinct_def)
  from accepted_tuning_is_executed [OF sample_json_text this(3,1,2) set, of "site_env 200"] healthy_site [of 200]
  have "\<exists>cfg. Resolve sample_json (site_env 200) 7 ForesightCap d = Inr cfg \<and> cg_Enabled cfg \<and> ParseForesightTuning (cg_Config cfg) = stated_tuning five_members"
    "Resolve sample_json (site_env 200) 8 ForesightCap d = Resolve sample_json (site_env 200) 8 ForesightCap sample_office"
    by (auto simp: sample_setting_def healthy_def)
  moreover have "stated_tuning five_members = \<lparr>ft_ScheduleFloatDays = 5, ft_BudgetBurnPercent = 80\<rparr>"
    by (simp add: stated_tuning_def five_members_tuning pointer_field_def or_documented_def defaultForesightBudgetBurnPercent_def)
  ultimately show ?thesis using set by auto
qed

definition full_hour :: office_db where
  "full_hour = sample_office\<lparr>of_feedback := replicate 20 \<lparr>fk_ID = 70, fk_OrgID = 7, fk_UserSub = ''u'', fk_Category = ''bug'', fk_Message = ''m'',
     fk_Context = JObject [], fk_Status = FeedbackStatusNew, fk_TriageNote = [], fk_CreatedAt = 0, fk_UpdatedAt = 0\<rparr>\<rparr>"

definition sample_report :: SubmitFeedbackInput where
  "sample_report = \<lparr>sf_OrgID = 7, sf_UserSub = ''u'', sf_Category = ''bug'', sf_Message = ''m'', sf_Context = []\<rparr>"

lemma site_env_now: "e_now (site_env k) = 0"
  by (simp add: site_env_def calm_env_def)

lemma full_hour_ok: "office_ok 0 full_hour"
  using sample_office_ok
  by (auto simp: office_ok_def full_hour_def feedback_ok_def report_ok_def message_ok_def note_ok_def validFeedbackCategories_def
      validFeedbackStatuses_def rune_count_def nul_def feedbackSubmitMaxPerHour_def filter_replicate)

theorem feedback_throttle_witness:
  "Submit sample_json (site_env 100) sample_report full_hour = (Inl FeedbackRateLimited, full_hour) \<and>
   length (filter (in_hour 7 ''u'' 0) (of_feedback full_hour)) = 20"
proof -
  have check: "submit_check sample_json sample_report = Inr ''{}''"
    by (simp add: submit_check_def sample_report_def require_that_def uuid_nil_def validFeedbackCategories_def trim_space_def is_space_def
        rune_count_def feedbackMessageMaxChars_def nul_def validateConfigObject_def feedbackContextMaxBytes_def jsonContainsNUL_def sample_json_def)
  have full: "length (filter (in_hour 7 ''u'' 0) (of_feedback full_hour)) = 20"
    by (simp add: full_hour_def filter_replicate in_hour_def feedbackSubmitWindow_def hour_def minute_def second_def)
  from feedback_throttle(2) [OF rtranclp.rtrancl_refl sample_json_text full_hour_ok check healthy_site]
  show ?thesis using full by (simp add: site_env_now sample_report_def)
qed

theorem office_invariant_witness:
  "\<exists>row d. Set_config sample_json (site_env 100) sample_setting sample_office = (Inr row, d) \<and> office_ok 0 d"
proof -
  obtain row d where set: "Set_config sample_json (site_env 100) sample_setting sample_office = (Inr row, d)" using sample_set by blast
  have "office_op sample_json (0, sample_office) (0, d)"
    using office_op.configured [of 0 "site_env 100" sample_json sample_office sample_setting] set by (simp add: site_env_now)
  then have "(office_op sample_json)\<^sup>*\<^sup>* (0, sample_office) (0, d)" by (rule r_into_rtranclp)
  from office_invariant [OF this sample_json_text] sample_office_ok set show ?thesis by auto
qed

end
