(* ===== verification/Page_Markup.thy ===== *)
theory Page_Markup
  imports Share_Links
begin

text \<open>
  The markup of the public page. A scanner collects the tags of an HTML text as a browser would find them; the tags of the page are those of
  its template, whatever the operator wrote, whatever the project is called and whatever token the visitor typed.
\<close>

fun tags :: "string option \<Rightarrow> string \<Rightarrow> string list" where
  "tags None [] = []"
| "tags (Some cur) [] = [cur]"
| "tags None (c # s) = (if c = CHR ''<'' then tags (Some []) s else tags None s)"
| "tags (Some cur) (c # s) = (if c = CHR ''>'' then cur # tags None s else tags (Some (cur @ [c])) s)"

lemma tags_text: "CHR ''<'' \<notin> set t \<Longrightarrow> tags None (t @ s) = tags None s"
  by (induction t) auto

lemma tags_inside: "CHR ''>'' \<notin> set t \<Longrightarrow> tags (Some cur) (t @ s) = tags (Some (cur @ t)) s"
  by (induction t arbitrary: cur) auto

lemma tags_tag: "CHR ''>'' \<notin> set t \<Longrightarrow> tags None (CHR ''<'' # t @ CHR ''>'' # s) = t # tags None s"
  using tags_inside [of t "[]"] by simp

lemma escape_safe: "CHR ''<'' \<notin> set (EscapeString s)" "CHR ''>'' \<notin> set (EscapeString s)" "CHR 0x22 \<notin> set (EscapeString s)"
  by (auto simp: EscapeString_def escape_char_def split: if_splits)

lemma escape_newlines: "filter (\<lambda>c. c = newline) (EscapeString s) = filter (\<lambda>c. c = newline) s"
  unfolding EscapeString_def by (induction s) (auto simp: escape_char_def newline_def)

lemma tags_escaped: "tags None (EscapeString t @ s) = tags None s"
  by (rule tags_text) (rule escape_safe)

lemma tags_lines: "CHR ''<'' \<notin> set t \<Longrightarrow> tags None (line_breaks t @ s) = replicate (length (filter (\<lambda>c. c = newline) t)) ''br'' @ tags None s"
  by (induction t) (auto simp: line_breaks_def newline_def)

section \<open>Paragraphs\<close>

text \<open>The line breaks of each paragraph that is not blank.\<close>

definition breaks :: "string \<Rightarrow> nat list" where
  "breaks body = List.map (\<lambda>p. length (filter (\<lambda>c. c = newline) p)) (filter (\<lambda>p. p \<noteq> []) (List.map trim_space (split_paras [] body)))"

definition para_tags :: "nat \<Rightarrow> string list" where
  "para_tags n = [''p''] @ replicate n ''br'' @ [''/p'']"

lemma tags_para: "tags None (para_html para @ s) =
    (if trim_space para = [] then [] else para_tags (length (filter (\<lambda>c. c = newline) (trim_space para)))) @ tags None s"
  by (auto simp: para_html_def Let_def tags_lines escape_safe escape_newlines para_tags_def)

lemma tags_body: "tags None (body_html body @ s) = concat (List.map para_tags (breaks body)) @ tags None s"
proof -
  have "tags None (concat (List.map para_html ps) @ s) =
      concat (List.map para_tags (List.map (\<lambda>p. length (filter (\<lambda>c. c = newline) p)) (filter (\<lambda>p. p \<noteq> []) (List.map trim_space ps)))) @ tags None s" for ps
    by (induction ps) (auto simp: tags_para)
  then show ?thesis by (simp add: body_html_def breaks_def)
qed

section \<open>The page\<close>

definition head_tags :: "string list" where
  "head_tags = [''!DOCTYPE html'', markup ''html lang=`en`'', ''head'', markup ''meta charset=`utf-8`'',
     markup ''meta name=`viewport` content=`width=device-width, initial-scale=1`'', markup ''meta name=`robots` content=`noindex, nofollow`'',
     ''title'', ''/title'', ''style'', ''/style'', ''/head'', ''body'']"

definition photo_tag :: "string \<Rightarrow> string" where
  "photo_tag src = markup ''img src=`'' @ src @ markup ''` alt=`Site photo` loading=`lazy`''"

definition page_tags :: "bool \<Rightarrow> nat list \<Rightarrow> string list \<Rightarrow> string list" where
  "page_tags dated ns srcs = head_tags @ [markup ''main class=`card`'', ''h1'', ''/h1''] @
     (if dated then [markup ''p class=`date`'', ''/p''] else []) @ [markup ''div class=`body`''] @ concat (List.map para_tags ns) @ [''/div''] @
     (if srcs = [] then [] else [markup ''div class=`photos`''] @ List.map photo_tag srcs @ [''/div'']) @
     [''/main'', ''footer'', ''/footer'', ''/body'', ''/html'']"

lemma no_tag_in_style: "CHR ''<'' \<notin> set publicPageStyle"
  by (simp add: publicPageStyle_def newline_def)

lemma tags_style: "tags None (publicPageStyle @ s) = tags None s"
  by (rule tags_text) (rule no_tag_in_style)

lemma tags_head: "tags None (publicPageHead title @ s) = head_tags @ tags None s"
  by (simp add: publicPageHead_def markup_def tags_escaped tags_style head_tags_def)

lemma tags_foot: "tags None publicPageFoot = [''footer'', ''/footer'', ''/body'', ''/html'']"
  by (simp add: publicPageFoot_def)

definition photo_src :: "string \<Rightarrow> string \<Rightarrow> string" where
  "photo_src token i = ''/p/'' @ EscapeString token @ ''/photos/'' @ EscapeString i"

lemma photo_src_safe: "CHR ''<'' \<notin> set (photo_src t i)" "CHR ''>'' \<notin> set (photo_src t i)" "CHR 0x22 \<notin> set (photo_src t i)"
  by (simp_all add: photo_src_def escape_safe)

lemma tags_photo: "tags None (photo_img ustr token i @ s) = photo_tag (photo_src token (ustr i)) # tags None s"
proof -
  let ?t = "photo_tag (photo_src token (ustr i))"
  have eq: "photo_img ustr token i @ s = CHR ''<'' # ?t @ CHR ''>'' # s"
    by (simp add: photo_img_def photo_tag_def photo_src_def markup_def)
  have "CHR ''>'' \<notin> set ?t" by (simp add: photo_tag_def photo_src_safe markup_def)
  then show ?thesis unfolding eq by (rule tags_tag)
qed

lemma tags_photos: "tags None (concat (List.map (photo_img ustr token) ids) @ s) =
    List.map (\<lambda>i. photo_tag (photo_src token (ustr i))) ids @ tags None s"
  by (induction ids) (simp_all add: tags_photo)

lemma tags_page:
  "tags None (hp_Body (writePage ustr longDate w token pub)) =
     page_tags (pz_UpdateDate pub \<noteq> zero_time) (breaks (pz_Body pub)) (if w then List.map (\<lambda>i. photo_src token (ustr i)) (pz_PhotoAssetIDs pub) else [])"
proof -
  have lits: "tags None (markup ''<main class=`card`>'' @ s) = markup ''main class=`card`'' # tags None s" "tags None (markup ''<h1>'' @ s) = ''h1'' # tags None s"
    "tags None (markup ''</h1>'' @ s) = ''/h1'' # tags None s" "tags None (markup ''<p class=`date`>'' @ s) = markup ''p class=`date`'' # tags None s"
    "tags None (markup ''</p>'' @ s) = ''/p'' # tags None s" "tags None (markup ''<div class=`body`>'' @ s) = markup ''div class=`body`'' # tags None s"
    "tags None (markup ''</div>'' @ s) = ''/div'' # tags None s" "tags None (markup ''<div class=`photos`>'' @ s) = markup ''div class=`photos`'' # tags None s"
    "tags None (markup ''</main>'' @ s) = ''/main'' # tags None s" for s
    by (simp_all add: markup_def)
  show ?thesis
    by (simp add: writePage_def tags_head lits tags_escaped tags_body tags_photos tags_foot page_tags_def)
qed

definition in_quotes :: "string \<Rightarrow> bool" where
  "in_quotes s \<longleftrightarrow> CHR ''<'' \<notin> set s \<and> CHR ''>'' \<notin> set s \<and> CHR 0x22 \<notin> set s"

text \<open>
  C19. No text can inject markup into the public page: its tags are exactly those of the template, with one \<open>p\<close> for each paragraph of the
  update, one \<open>br\<close> for each line break in it and one \<open>img\<close> for each curated photo, whose address stays inside its quotation marks.
\<close>

theorem page_markup_is_fixed:
  "tags None (hp_Body (writePage ustr longDate w token pub)) =
     page_tags (pz_UpdateDate pub \<noteq> zero_time) (breaks (pz_Body pub)) (if w then List.map (\<lambda>i. photo_src token (ustr i)) (pz_PhotoAssetIDs pub) else []) \<and>
   list_all (\<lambda>i. in_quotes (photo_src token (ustr i))) (pz_PhotoAssetIDs pub)"
  by (simp add: tags_page list_all_iff in_quotes_def photo_src_safe)

text \<open>The page of an update whose body tries to close its paragraph and run a script.\<close>

lemma injected_script_is_text:
  "tags None (hp_Body (writePage ustr longDate False token \<lparr>pz_ProjectName = ''<b>'', pz_Body = ''</p><script>x</script>'', pz_UpdateDate = zero_time,
     pz_PhotoAssetIDs = []\<rparr>)) = page_tags False [0] []"
  by (simp add: tags_page breaks_def trim_space_def is_space_def newline_def)

end
