(* ===== verification/Two_Runs.thy ===== *)
theory Two_Runs
  imports Projects
begin

text \<open>
  Two runs of a transaction on two databases that one view cannot tell apart: what the transaction returns is then related too. With
  such a pair of runs a theorem says which columns cannot reach an answer.
\<close>

definition alike :: "('d \<Rightarrow> 'v) \<Rightarrow> 'd session \<Rightarrow> 'd session \<Rightarrow> bool" where
  "alike V s s' \<longleftrightarrow> V (s_db s) = V (s_db s') \<and> s_draws s = s_draws s' \<and> s_aborted s = s_aborted s'"

definition agree :: "('d \<Rightarrow> 'v) \<Rightarrow> ('a \<Rightarrow> 'a \<Rightarrow> bool) \<Rightarrow> ('d, 'a) tx \<Rightarrow> ('d, 'a) tx \<Rightarrow> bool" where
  "agree V R m m' \<longleftrightarrow> (\<forall>s s'. alike V s s' \<longrightarrow> rel_sum (=) (rel_prod R (alike V)) (m s) (m' s'))"

named_theorems agrees \<open>pairs of transactions with related answers\<close>

lemma agreeD: "agree V R m m' \<Longrightarrow> alike V s s' \<Longrightarrow> rel_sum (=) (rel_prod R (alike V)) (m s) (m' s')"
  by (simp add: agree_def)

lemma agree_tret [agrees]: "R x y \<Longrightarrow> agree V R (tret x) (tret y)"
  by (simp add: agree_def tret_def)

lemma agree_tguard [agrees]: "b = b' \<Longrightarrow> agree V (=) (tguard b err) (tguard b' err)"
  by (simp add: agree_def tguard_def)

lemma agree_bind:
  assumes "agree V R m m'" "\<And>x y. R x y \<Longrightarrow> agree V R' (f x) (g y)"
  shows "agree V R' (tbind m f) (tbind m' g)"
  unfolding agree_def
proof (intro allI impI)
  fix s s' :: "'a session"
  assume "alike V s s'"
  from agreeD [OF assms(1) this] show "rel_sum (=) (rel_prod R' (alike V)) (tbind m f s) (tbind m' g s')"
    by (cases "m s"; cases "m' s'") (auto simp: tbind_def rel_prod_sel intro: agreeD [OF assms(2)])
qed

lemma agree_stmt: "agree V R m m' \<Longrightarrow> agree V R (stmt e l m) (stmt e l m')"
  by (auto simp: agree_def stmt_def alike_def)

lemma agree_all [agrees]: "(\<And>d d'. V d = V d' \<Longrightarrow> R (q d) (q d')) \<Longrightarrow> agree V R (select_all e l q) (select_all e l q)"
  unfolding select_all_def by (rule agree_stmt) (simp add: agree_def alike_def)

lemma agree_one [agrees]:
  assumes "\<And>d d'. V d = V d' \<Longrightarrow> rel_option R (List.find P (tab d)) (List.find P (tab d'))"
  shows "agree V R (select_one e l tab P) (select_one e l tab P)"
  unfolding select_one_def agree_def
proof (intro allI impI)
  fix s s' :: "'a session"
  assume s: "alike V s s'"
  then have "rel_option R (List.find P (tab (s_db s))) (List.find P (tab (s_db s')))" using assms by (simp add: alike_def)
  then show "rel_sum (=) (rel_prod R (alike V))
      (stmt e l (\<lambda>s. case List.find P (tab (s_db s)) of None \<Rightarrow> Inl StoreNotFound | Some r \<Rightarrow> Inr (r, s)) s)
      (stmt e l (\<lambda>s. case List.find P (tab (s_db s)) of None \<Rightarrow> Inl StoreNotFound | Some r \<Rightarrow> Inr (r, s)) s')"
    using s by (cases rule: option.rel_cases) (auto simp: stmt_def alike_def)
qed

lemma rel_map_err: "rel_sum (=) R r r' \<Longrightarrow> rel_sum (=) R (map_err h r) (map_err h r')"
  by (cases r; cases r') auto

lemma agree_missing [agrees]: "agree V R m m' \<Longrightarrow> agree V R (tmissing err m) (tmissing err m')"
  unfolding agree_def tmissing_def by (auto intro: rel_map_err)

lemma agree_commit:
  assumes "agree V R m m'" "V d = V d'"
  shows "rel_sum (=) R (fst (BeginTxFunc e m d)) (fst (BeginTxFunc e m' d'))"
proof -
  let ?s = "\<lparr>s_db = d, s_draws = 0, s_aborted = False\<rparr>" and ?s' = "\<lparr>s_db = d', s_draws = 0, s_aborted = False\<rparr>"
  have "alike V ?s ?s'" using assms(2) by (simp add: alike_def)
  from agreeD [OF assms(1) this] show ?thesis
    by (cases "m ?s"; cases "m' ?s'") (auto simp: BeginTxFunc_def alike_def rel_prod_sel split: prod.splits)
qed

lemma find_related:
  assumes "list_all2 R xs ys" "\<And>x y. R x y \<Longrightarrow> P x = P y"
  shows "rel_option R (List.find P xs) (List.find P ys)"
  using assms(1) by (induction rule: list_all2_induct) (auto simp: assms(2))

lemma map_related: "List.map k xs = List.map k ys \<longleftrightarrow> list_all2 (\<lambda>x y. k x = k y) xs ys"
  unfolding list_all2_conv_all_nth list_eq_iff_nth_eq by auto

end
