(* ===== verification/Draft_Props.thy ===== *)
theory Draft_Props
  imports Two_Runs Site_Props
begin

text \<open>The drafts for the homeowner: what the language model and the draft can depend on.\<close>

section \<open>Lists under a projection\<close>

lemma map_filter_key: "(\<And>x. P x = Q (k x)) \<Longrightarrow> List.map k (filter P xs) = filter Q (List.map k xs)"
  by (induction xs) auto

lemma map_insort_key: "List.map k (insort_key (\<lambda>x. g (k x)) x xs) = insort_key g (k x) (List.map k xs)"
  by (induction xs) auto

lemma map_sort_by_key: "List.map k (sort_key (\<lambda>x. g (k x)) xs) = sort_key g (List.map k xs)"
  by (induction xs) (simp_all add: map_insort_key)

lemma map_order_desc: "List.map k (order_desc (\<lambda>x. g (k x)) xs) = order_desc g (List.map k xs)"
  by (simp only: order_desc_def rev_map map_sort_by_key [symmetric])

lemma map_latest: "map_option k (latest (\<lambda>x. g (k x)) xs) = latest g (List.map k xs)"
  unfolding latest_def map_order_desc [symmetric] by (simp split: list.splits)

lemma map_find: "(\<And>x. P x = Q (k x)) \<Longrightarrow> map_option k (List.find P xs) = List.find Q (List.map k xs)"
  by (induction xs) auto

section \<open>What a draft can see\<close>

definition task_key :: "ProjectTask \<Rightarrow> uuid \<times> uuid \<times> string \<times> string" where
  "task_key t = (pt_ID t, pt_ProjectID t, pt_WBSCode t, pt_Name t)"

definition progress_key :: "TaskProgress \<Rightarrow> uuid \<times> int \<times> gotime" where
  "progress_key r = (tk_TaskID r, tk_PercentComplete r, tk_ReportedAt r)"

definition log_view :: "DailyLog \<Rightarrow> uuid \<times> uuid \<times> gotime \<times> gotime \<times> string option \<times> string \<times> nat" where
  "log_view l = (dl_OrgID l, dl_ProjectID l, dl_LogDate l, dl_ReportedAt l, dl_WeatherConditions l, dl_WorkSummary l, length (dl_PhotoAssetIDs l))"

definition crew_key :: "CrewCheckin \<Rightarrow> uuid \<times> uuid \<times> gotime \<times> int" where
  "crew_key c = (ch_OrgID c, ch_ProjectID c, ch_ReportedAt c, crew_size c)"

definition project_key :: "Project \<Rightarrow> uuid \<times> uuid \<times> string" where
  "project_key p = (pj_ID p, pj_OrgID p, pj_Name p)"

definition draft_view where
  "draft_view d = (List.map project_key (db_projects d), List.map log_view (st_logs d), List.map crew_key (st_checkins d),
     List.map task_key (fx_tasks d), List.map progress_key (st_progress d))"

text \<open>What of a report reaches the model and the draft.\<close>

definition redacted :: "DailyReport \<Rightarrow> string \<times> gotime \<times> string \<times> string \<times> nat \<times> (string \<times> string \<times> int) list" where
  "redacted r = (re_ProjectName r, re_LogDate r, re_WeatherConditions r, re_WorkSummary r, re_PhotoCount r,
     List.map (\<lambda>l. (tl_WBSCode l, tl_Name l, tl_PercentComplete l)) (re_TaskProgress r))"

lemma draft_views:
  assumes "draft_view d = draft_view d'"
  shows "List.map project_key (db_projects d) = List.map project_key (db_projects d')" "List.map log_view (st_logs d) = List.map log_view (st_logs d')"
    "List.map crew_key (st_checkins d) = List.map crew_key (st_checkins d')" "List.map task_key (fx_tasks d) = List.map task_key (fx_tasks d')"
    "List.map progress_key (st_progress d) = List.map progress_key (st_progress d')"
  using assms by (simp_all add: draft_view_def)

lemma owned_image: "(\<exists>p\<in>set ps. pj_ID p = pid \<and> pj_OrgID p = org) \<longleftrightarrow> (pid, org) \<in> (\<lambda>k. (fst k, fst (snd k))) ` set (List.map project_key ps)"
  by (force simp: project_key_def)

lemma draft_in_org:
  fixes d d' :: "'x site_db_scheme"
  assumes "draft_view d = draft_view d'"
  shows "in_org d org pid = in_org d' org pid"
  unfolding in_org_def owned_image draft_views(1) [OF assms] ..

lemma draft_task_row:
  fixes d d' :: "'x site_db_scheme"
  assumes "draft_view d = draft_view d'"
  shows "map_option task_key (task_row d i) = map_option task_key (task_row d' i)"
proof -
  have "map_option task_key (task_row b i) = List.find (\<lambda>k. fst k = i) (List.map task_key (fx_tasks b))" for b :: "'x site_db_scheme"
    unfolding task_row_def by (rule map_find) (simp add: task_key_def)
  then show ?thesis by (simp only: draft_views(4) [OF assms])
qed

section \<open>The statements of a report\<close>

lemma verify_agrees: "agree draft_view (=) (VerifyProjectInOrg e pid org) (VerifyProjectInOrg e pid org)"
  unfolding VerifyProjectInOrg_def
proof (rule agree_bind)
  show "agree draft_view (\<lambda>ps ps'. List.map project_key ps = List.map project_key ps')
      (select_all e ''verify project in org'' db_projects) (select_all e ''verify project in org'' db_projects)"
    by (rule agree_all) (rule draft_views)
  show "agree draft_view (=) (tguard (\<exists>p\<in>set ps. pj_ID p = pid \<and> pj_OrgID p = org) StoreNotFound) (tguard (\<exists>p\<in>set ps'. pj_ID p = pid \<and> pj_OrgID p = org) StoreNotFound)"
    if same: "List.map project_key ps = List.map project_key ps'" for ps ps'
    by (rule agree_tguard) (simp only: owned_image same)
qed

lemma project_agrees: "agree draft_view (\<lambda>p p'. pj_Name p = pj_Name p') (GetByID e pid org) (GetByID e pid org)"
  unfolding GetByID_def
proof (rule agree_one)
  fix d d' :: "'a site_db_scheme"
  assume "draft_view d = draft_view d'"
  then have "map_option project_key (List.find (\<lambda>p. pj_ID p = pid \<and> pj_OrgID p = org) (db_projects d)) =
      map_option project_key (List.find (\<lambda>p. pj_ID p = pid \<and> pj_OrgID p = org) (db_projects d'))"
    using map_find [of "\<lambda>p. pj_ID p = pid \<and> pj_OrgID p = org" "\<lambda>k. fst k = pid \<and> fst (snd k) = org" project_key]
    by (simp add: project_key_def [abs_def] draft_view_def)
  then show "rel_option (\<lambda>p p'. pj_Name p = pj_Name p') (List.find (\<lambda>p. pj_ID p = pid \<and> pj_OrgID p = org) (db_projects d))
      (List.find (\<lambda>p. pj_ID p = pid \<and> pj_OrgID p = org) (db_projects d'))"
    by (auto simp: project_key_def option.rel_sel map_option_case split: option.splits)
qed

definition fields_key :: "DailyLogFields \<Rightarrow> string \<times> string \<times> nat" where
  "fields_key f = (df_WeatherConditions f, df_WorkSummary f, length (df_PhotoAssetIDs f))"

lemma log_agrees: "agree draft_view (\<lambda>f f'. map_option fields_key f = map_option fields_key f')
    (DailyLogFieldsByProjectDate e org pid day) (DailyLogFieldsByProjectDate e org pid day)"
  unfolding DailyLogFieldsByProjectDate_def
proof (rule agree_bind)
  show "agree (draft_view :: 'a site_db_scheme \<Rightarrow> _) (\<lambda>ls ls'. List.map log_view ls = List.map log_view ls')
      (select_all e ''get daily log by date'' (\<lambda>d. day_logs org pid day (st_logs d))) (select_all e ''get daily log by date'' (\<lambda>d. day_logs org pid day (st_logs d)))"
  proof (rule agree_all)
    fix d d' :: "'a site_db_scheme"
    assume v: "draft_view d = draft_view d'"
    have "List.map log_view (day_logs org pid day ls) =
        filter (\<lambda>(a, b, c, _). a = org \<and> b = pid \<and> c = to_date day) (List.map log_view ls)" for ls
      unfolding day_logs_def by (rule map_filter_key) (simp add: log_view_def)
    then show "List.map log_view (day_logs org pid day (st_logs d)) = List.map log_view (day_logs org pid day (st_logs d'))"
      by (simp only: draft_views(2) [OF v])
  qed
  show "agree (draft_view :: 'a site_db_scheme \<Rightarrow> _) (\<lambda>f f'. map_option fields_key f = map_option fields_key f')
      (tret (map_option log_fields (latest dl_ReportedAt ls))) (tret (map_option log_fields (latest dl_ReportedAt ls')))"
    if same: "List.map log_view ls = List.map log_view ls'" for ls ls'
  proof (rule agree_tret)
    let ?g = "\<lambda>(_, _, _, _, w, s, n). (coalesce w [], s, n)" and ?t = "\<lambda>(_, _, _, t, _). t"
    have "map_option fields_key (map_option log_fields (latest dl_ReportedAt rows)) = map_option ?g (latest ?t (List.map log_view rows))" for rows
    proof -
      have "map_option ?g (map_option log_view (latest (\<lambda>l. ?t (log_view l)) rows)) = map_option ?g (latest ?t (List.map log_view rows))"
        by (simp only: map_latest)
      then show ?thesis
        by (simp add: option.map_comp comp_def fields_key_def log_fields_def log_view_def)
    qed
    then show "map_option fields_key (map_option log_fields (latest dl_ReportedAt ls)) = map_option fields_key (map_option log_fields (latest dl_ReportedAt ls'))"
      by (simp only: same)
  qed
qed

lemma crew_agrees: "agree draft_view (=) (CrewCountByProjectDate e org pid day) (CrewCountByProjectDate e org pid day)"
  unfolding CrewCountByProjectDate_def Let_def
proof (rule agree_bind)
  let ?q = "\<lambda>d :: 'a site_db_scheme. filter (\<lambda>c. to_date (ch_ReportedAt c) = to_date day) (checkins_of d org pid)"
  show "agree (draft_view :: 'a site_db_scheme \<Rightarrow> _) (\<lambda>cs cs'. List.map crew_size cs = List.map crew_size cs') (select_all e ''crew count by date'' ?q) (select_all e ''crew count by date'' ?q)"
  proof (rule agree_all)
    fix d d' :: "'a site_db_scheme"
    assume v: "draft_view d = draft_view d'"
    have "List.map crew_key (?q b) = filter (\<lambda>(o', p, t, _). to_date t = to_date day \<and> o' = org \<and> p = pid) (List.map crew_key (st_checkins b))"
      for b :: "'a site_db_scheme"
      unfolding checkins_of_def filter_filter by (rule map_filter_key) (auto simp: crew_key_def)
    then have "List.map (\<lambda>k. snd (snd (snd k))) (List.map crew_key (?q d)) = List.map (\<lambda>k. snd (snd (snd k))) (List.map crew_key (?q d'))"
      by (simp only: draft_views(3) [OF v])
    then show "List.map crew_size (?q d) = List.map crew_size (?q d')" by (simp add: crew_key_def comp_def)
  qed
qed (simp, rule agree_bind, rule agree_tguard, simp, rule agree_tret, simp)

definition line_key :: "TaskProgressLine \<Rightarrow> string \<times> string \<times> int" where
  "line_key l = (tl_WBSCode l, tl_Name l, tl_PercentComplete l)"

lemma progress_agrees: "agree draft_view (\<lambda>ls ls'. List.map line_key ls = List.map line_key ls')
    (TaskProgressByProjectDate e org pid day) (TaskProgressByProjectDate e org pid day)"
  unfolding TaskProgressByProjectDate_def
proof (rule agree_all)
  fix d d' :: "'a site_db_scheme"
  assume v: "draft_view d = draft_view d'"
  define T where "T b i = map_option task_key (task_row b i)" for b :: "'a site_db_scheme" and i
  define seen where "seen b k = (case T b (fst k) of None \<Rightarrow> False | Some t \<Rightarrow> fst (snd t) = pid \<and> in_org b org pid)" for b :: "'a site_db_scheme" and k :: "uuid \<times> int \<times> gotime"
  have sel: "List.map progress_key (order_desc tk_ReportedAt (filter (\<lambda>r. to_date (tk_ReportedAt r) = to_date day) (progress_of b org pid))) =
      order_desc (\<lambda>k. snd (snd k)) (filter (\<lambda>k. to_date (snd (snd k)) = to_date day \<and> seen b k) (List.map progress_key (st_progress b)))"
    for b :: "'a site_db_scheme"
  proof -
    have by_key: "order_desc tk_ReportedAt xs = order_desc (\<lambda>r. snd (snd (progress_key r))) xs" for xs by (simp add: progress_key_def)
    have rows: "List.map progress_key (filter (\<lambda>r. to_date (tk_ReportedAt r) = to_date day) (progress_of b org pid)) =
        filter (\<lambda>k. to_date (snd (snd k)) = to_date day \<and> seen b k) (List.map progress_key (st_progress b))"
      unfolding progress_of_def filter_filter
      by (rule map_filter_key) (auto simp: progress_key_def seen_def T_def task_key_def split: option.splits)
    show ?thesis unfolding by_key map_order_desc [of progress_key "\<lambda>k. snd (snd k)"] rows ..
  qed
  have same: "seen d = seen d'" by (intro ext) (simp only: seen_def T_def draft_task_row [OF v] draft_in_org [OF v])
  have line: "List.map line_key (day_progress b org pid day) =
      List.map (\<lambda>k. (fst (snd (snd (the (T b (fst k))))), snd (snd (snd (the (T b (fst k))))), fst (snd k)))
        (List.map progress_key (order_desc tk_ReportedAt (filter (\<lambda>r. to_date (tk_ReportedAt r) = to_date day) (progress_of b org pid))))"
    for b :: "'a site_db_scheme"
  proof -
    have "line_key (progress_line (the (task_row b (tk_TaskID r))) r) =
        (fst (snd (snd (the (T b (fst (progress_key r)))))), snd (snd (snd (the (T b (fst (progress_key r)))))), fst (snd (progress_key r)))"
      if "r \<in> set (progress_of b org pid)" for r
      using that by (auto simp: progress_of_def T_def line_key_def progress_line_def progress_key_def task_key_def split: option.splits)
    then show ?thesis unfolding day_progress_def by (auto simp: order_desc_def)
  qed
  show "List.map line_key (day_progress d org pid day) = List.map line_key (day_progress d' org pid day)"
    unfolding line sel same draft_views(5) [OF v] by (simp only: T_def draft_task_row [OF v])
qed

section \<open>The report and the draft\<close>

lemma assemble_agrees: "agree draft_view (\<lambda>r r'. redacted r = redacted r') (assemble e org pid day) (assemble e org pid day)"
  unfolding assemble_def
proof (rule agree_bind [OF log_agrees], rule agree_bind [OF crew_agrees], rule agree_bind [OF progress_agrees])
  fix lf lf' and crew crew' :: int and ls ls'
  assume same: "map_option fields_key lf = map_option fields_key lf'" "crew = crew'" "List.map line_key ls = List.map line_key ls'"
  have "ls = [] \<longleftrightarrow> ls' = []" using same(3) by (metis map_is_Nil_conv)
  then show "agree (draft_view :: 'a site_db_scheme \<Rightarrow> _) (\<lambda>r r'. redacted r = redacted r')
      (let r0 = (case lf of None \<Rightarrow> empty_report pid day | Some l \<Rightarrow> with_log l (empty_report pid day)); r = r0\<lparr>re_CrewCount := crew, re_TaskProgress := ls\<rparr>
       in tret (if re_ReportedAt r = zero_time \<and> ls \<noteq> [] then r\<lparr>re_ReportedAt := tl_ReportedAt (hd ls)\<rparr> else r))
      (let r0 = (case lf' of None \<Rightarrow> empty_report pid day | Some l \<Rightarrow> with_log l (empty_report pid day)); r = r0\<lparr>re_CrewCount := crew', re_TaskProgress := ls'\<rparr>
       in tret (if re_ReportedAt r = zero_time \<and> ls' \<noteq> [] then r\<lparr>re_ReportedAt := tl_ReportedAt (hd ls')\<rparr> else r))"
    unfolding Let_def
    by (intro agree_tret) (use same(1,3) in \<open>auto simp: redacted_def line_key_def [abs_def] fields_key_def with_log_def empty_report_def split: option.splits\<close>)
qed

lemma report_agrees:
  fixes d d' :: "'x site_db_scheme"
  assumes "draft_view d = draft_view d'"
  shows "rel_sum (=) (\<lambda>r r'. redacted r = redacted r') (GetProjectReport rs e org pid day d) (GetProjectReport rs e org pid day d')"
proof -
  let ?m = "tbind (VerifyProjectInOrg e pid org) (\<lambda>_. tbind (GetByID e pid org) (\<lambda>project. tbind (assemble e org pid day) (\<lambda>r.
      tret (r\<lparr>re_ProjectName := pj_Name project\<rparr>)))) :: ('x site_db_scheme, DailyReport) tx"
  have "agree draft_view (\<lambda>r r'. redacted r = redacted r') ?m ?m"
    by (rule agree_bind [OF verify_agrees], rule agree_bind [OF project_agrees], rule agree_bind [OF assemble_agrees], rule agree_tret)
      (auto simp: redacted_def)
  from agree_commit [OF this, OF assms]
  have "rel_sum (=) (\<lambda>r r'. redacted r = redacted r') (fst (reported (BeginTxFunc e ?m d))) (fst (reported (BeginTxFunc e ?m d')))"
    by (simp add: reported_def rel_map_err)
  moreover have "redacted (resolvePhotos rs org r) = redacted r" for r
    by (auto simp: redacted_def resolvePhotos_def split: option.splits)
  ultimately show ?thesis
    unfolding GetProjectReport_def
    by (cases "fst (reported (BeginTxFunc e ?m d))"; cases "fst (reported (BeginTxFunc e ?m d'))") (auto simp: require_that_def)
qed

lemma request_redacted: "redacted r = redacted r' \<Longrightarrow> buildClientRequest r = buildClientRequest r'"
proof -
  assume same: "redacted r = redacted r'"
  have lines: "List.map task_line ls = List.map (\<lambda>(w, n, p). w @ '' '' @ n @ '' '' @ em_dash @ '' '' @ show_int p @ ''%'')
      (List.map (\<lambda>l. (tl_WBSCode l, tl_Name l, tl_PercentComplete l)) ls)" for ls
    by (simp add: task_line_def)
  have eq: "List.map (\<lambda>l. (tl_WBSCode l, tl_Name l, tl_PercentComplete l)) (re_TaskProgress r) =
      List.map (\<lambda>l. (tl_WBSCode l, tl_Name l, tl_PercentComplete l)) (re_TaskProgress r')"
    using same by (simp add: redacted_def)
  have "List.map task_line (re_TaskProgress r) = List.map task_line (re_TaskProgress r')" unfolding lines eq ..
  with same show ?thesis by (simp add: buildClientRequest_def redacted_def)
qed

text \<open>
  C17. The draft for the homeowner cannot depend on a safety incident, on who reported or worked on the site, on a position, on a note or on
  any money: two databases that agree on the names of the project and its tasks, on the days, the weather, the summaries and the number of
  photos of the logs, on the size of the crews and on the percentages of the progress get the same draft or the same error, whatever the
  language model does with what it is sent.
\<close>

theorem client_draft_redaction:
  fixes d d' :: "'x site_db_scheme"
  assumes "draft_view d = draft_view d'"
  shows "fst (DraftClientUpdate rs e e' org sub pid day d) = fst (DraftClientUpdate rs e e' org sub pid day d')"
proof -
  from report_agrees [OF assms, of rs e org pid day] consider
    err where "GetProjectReport rs e org pid day d = Inl err" "GetProjectReport rs e org pid day d' = Inl err"
  | r r' where "GetProjectReport rs e org pid day d = Inr r" "GetProjectReport rs e org pid day d' = Inr r'" "redacted r = redacted r'"
    by (cases "GetProjectReport rs e org pid day d"; cases "GetProjectReport rs e org pid day d'") auto
  then show ?thesis
  proof cases
    case 1
    then show ?thesis by (simp add: DraftClientUpdate_def split: option.splits)
  next
    case 2
    have "buildClientRequest r = buildClientRequest r'" "re_LogDate r = re_LogDate r'" "re_PhotoCount r = re_PhotoCount r'"
      using request_redacted [OF 2(3)] 2(3) by (simp_all add: redacted_def)
    then show ?thesis by (auto simp: DraftClientUpdate_def 2(1,2) ebind_elims split: option.splits sum.splits)
  qed
qed

section \<open>The window of the list\<close>

lemma take_descending:
  assumes "sorted_wrt (\<ge>) L" "n \<le> length (filter (\<lambda>x. x > U) L)" "x \<in> set (take n L)"
  shows "x > (U :: 'k :: linorder)"
  using assms
proof (induction L arbitrary: n)
  case (Cons y L)
  show ?case
  proof (cases "y > U")
    case True
    then show ?thesis using Cons by (cases n) auto
  next
    case False
    then have "filter (\<lambda>x. x > U) (y # L) = []" using Cons.prems(1) by (fastforce simp: filter_empty_conv)
    then show ?thesis using Cons.prems(2,3) by simp
  qed
qed simp

lemma summaries_none: "(\<And>t. t \<in> set ts \<Longrightarrow> \<not> in_window since until t) \<Longrightarrow> summaries e org pid since until ts = tret []"
  by (induction ts) simp_all

text \<open>
  The list is cut to the sixty latest days of activity before the window is applied: with sixty later days, a window that ends earlier comes back empty,
  whatever happened in it.
\<close>

theorem report_window_is_cut_at_60:
  fixes d :: "'x site_db_scheme"
  assumes "healthy e" "org \<noteq> uuid_nil" "pid \<noteq> uuid_nil" "\<exists>p\<in>set (db_projects d). pj_ID p = pid \<and> pj_OrgID p = org" "until \<noteq> zero_time"
    and "60 \<le> length (filter (\<lambda>t. t > truncateDay until) (remdups (activity_dates d org pid)))"
  shows "ListProjectReports e org pid since until d = Inr []"
proof -
  let ?s = "\<lparr>s_db = d, s_draws = 0, s_aborted = False\<rparr>" and ?L = "rev (sort (remdups (activity_dates d org pid)))"
  have h: "\<not> e_fail e x" "\<not> e_commit_fails e" for x using assms(1) by (simp_all add: healthy_def)
  have "length (filter (\<lambda>t. t > truncateDay until) ?L) = length (filter (\<lambda>t. t > truncateDay until) (remdups (activity_dates d org pid)))"
    by (simp add: rev_filter [symmetric] filter_sort)
  then have late: "t > truncateDay until" if "t \<in> set (take 60 ?L)" for t
    using take_descending [of ?L 60 "truncateDay until" t] assms(6) that by (simp add: sorted_wrt_rev)
  have "(summaries e org pid since until (take 60 ?L) :: ('x site_db_scheme, DailyReportSummary list) tx) = tret []"
    by (rule summaries_none) (use late assms(5) in \<open>auto simp: in_window_def\<close>)
  then have "summaries e org pid since until (take 60 ?L) ?s = Inr ([], ?s)" by (simp add: tret_def)
  moreover have "VerifyProjectInOrg e pid org ?s = Inr ((), ?s)"
    using assms(4) h by (auto simp: VerifyProjectInOrg_def tbind_Inr select_all_Inr)
  moreover have "ListDailyReportDates e org pid 0 ?s = Inr (take 60 ?L, ?s)"
    using h by (simp add: ListDailyReportDates_def select_all_def stmt_def)
  ultimately show ?thesis using h assms(2,3)
    by (simp add: ListProjectReports_def require_that_def reported_def BeginTxFunc_def tbind_def tret_def)
qed

section \<open>A site with a log\<close>

definition sample_entry :: DailyLog where
  "sample_entry = \<lparr>dl_ID = 80, dl_OrgID = 7, dl_ProjectID = 2, dl_ReportedBy = 5, dl_LogDate = day24, dl_WeatherConditions = None,
     dl_WorkSummary = ''ok'', dl_SafetyIncidents = Some ''fall'', dl_PhotoAssetIDs = [], dl_IdempotencyKey = 81, dl_ReportedAt = day24\<rparr>"

definition sample_writer :: reports_service where
  "sample_writer = \<lparr>rs_photos = None, rs_digester = None, rs_drafter = Some (\<lambda>prompt. Inr (''S'', fst (hd prompt)))\<rparr>"

theorem client_draft_redaction_witness:
  "fst (DraftClientUpdate sample_writer (site_env 100) (site_env 200) 7 ''u'' 2 day24 (sample_site\<lparr>st_logs := [sample_entry]\<rparr>)) =
   fst (DraftClientUpdate sample_writer (site_env 100) (site_env 200) 7 ''u'' 2 day24
     (sample_site\<lparr>st_logs := [sample_entry\<lparr>dl_SafetyIncidents := None, dl_ReportedBy := 6\<rparr>], st_members := []\<rparr>))"
  by (rule client_draft_redaction) (simp add: draft_view_def log_view_def)

end
