(* ===== verification/Public_Props.thy ===== *)
theory Public_Props
  imports Site_Props Two_Runs
begin

text \<open>What the public side of the site guarantees: links, the page, the photos, and the mail of an update.\<close>

section \<open>Links\<close>

lemma begin_Inr: "fst (BeginTxFunc e f d) = Inr x \<Longrightarrow> \<exists>s. f \<lparr>s_db = d, s_draws = 0, s_aborted = False\<rparr> = Inr (x, s)"
  by (cases "BeginTxFunc e f d") (auto simp: BeginTxFunc_Inr)

lemma mapped_fst_Inr: "fst (mapped rd) = Inr x \<longleftrightarrow> fst rd = Inr x"
  by (cases rd) (auto simp: mapped_def split: sum.splits)

text \<open>A link that opens for \<open>token\<close> at \<open>now\<close>.\<close>

definition opens :: "gotime \<Rightarrow> string \<Rightarrow> ShareLink \<Rightarrow> bool" where
  "opens now token l \<longleftrightarrow> looksLikeShareToken token \<and> sl_TokenHash l = hashShareToken token \<and> sl_RevokedAt l = None \<and>
     to_timestamptz now < sl_ExpiresAt l"

lemma link_resolved: "resolveActiveLink e now token d = Inr l \<Longrightarrow> l \<in> set (st_links d) \<and> opens now token l"
  by (auto simp: resolveActiveLink_def mapped_fst_Inr opens_def GetActiveByHash_def select_one_Inr dest!: begin_Inr find_SomeD
      split: if_splits)

definition shown :: "Project \<Rightarrow> ClientUpdate \<Rightarrow> PublicUpdate" where
  "shown p c = \<lparr>pz_ProjectName = pj_Name p, pz_Body = hu_EditedBody c, pz_UpdateDate = hu_PeriodEnd c,
     pz_PhotoAssetIDs = dedupeUUIDs (hu_PhotoAssetIDs c)\<rparr>"

text \<open>The update of a link and its project.\<close>

definition publishes :: "ShareLink \<Rightarrow> ClientUpdate \<Rightarrow> Project \<Rightarrow> bool" where
  "publishes l c p \<longleftrightarrow> hu_ID c = sl_ClientUpdateID l \<and> hu_OrgID c = sl_OrgID l \<and> hu_Status c = ClientUpdateStatusSent \<and>
     pj_ID p = hu_ProjectID c \<and> pj_OrgID p = sl_OrgID l"

lemma uniform_Inr [simp]: "uniform r = Inr x \<longleftrightarrow> r = Inr x"
  by (cases r) (simp_all add: uniform_def)

lemma uniform_of_Inr [simp]: "uniform (Inr x) = Inr x"
  by simp

lemma public_read:
  assumes "fst (BeginTxFunc e (public_body e l) d) = Inr pub"
  obtains c p where "c \<in> set (st_updates d)" "p \<in> set (db_projects d)" "publishes l c p" "pub = shown p c"
  using begin_Inr [OF assms]
  by (auto simp: public_body_def update_GetByID_def GetByID_def tbind_Inr select_one_Inr publishes_def shown_def dest!: find_SomeD)

text \<open>
  C25. The public page shows a sent update of the organization of a live link, and of that update only its text, its date, the name
  of its project and the ids of its curated photos; in every other case, whatever went wrong, the visitor gets the same page and the
  database is as before.
\<close>

theorem public_page_shows_sent_update:
  "Page ustr longDate w v token d = (writeNotFoundPage, d) \<or>
   (\<exists>l\<in>set (st_links d). \<exists>c\<in>set (st_updates d). \<exists>p\<in>set (db_projects d). opens (v_now v) token l \<and> publishes l c p \<and>
      fst (Page ustr longDate w v token d) = writePage ustr longDate w token (shown p c))"
proof (cases "ResolvePublicUpdate v token d")
  case (Pair r d')
  show ?thesis
  proof (cases r)
    case (Inl err)
    then have "d' = d" using Pair by (auto simp: ResolvePublicUpdate_def split: sum.splits)
    then show ?thesis using Pair Inl by (simp add: Page_def)
  next
    case (Inr pub)
    then obtain l where l: "resolveActiveLink (v_link v) (v_now v) token d = Inr l" "fst (BeginTxFunc (v_read v) (public_body (v_read v) l) d) = Inr pub"
      using Pair by (auto simp: ResolvePublicUpdate_def split: sum.splits)
    obtain c p where cp: "c \<in> set (st_updates d)" "p \<in> set (db_projects d)" "publishes l c p" "pub = shown p c"
      by (rule public_read [OF l(2)])
    show ?thesis using link_resolved [OF l(1)] cp Pair Inr by (force simp: Page_def)
  qed
qed

lemma dead_link:
  assumes "links_ok us (st_links d)" "l \<in> set (st_links d)" "sl_TokenHash l = hashShareToken token" "sl_RevokedAt l \<noteq> None"
  shows "\<exists>err. resolveActiveLink e now token d = Inl err"
proof (cases "resolveActiveLink e now token d")
  case (Inr l')
  then have "l' \<in> set (st_links d)" "sl_TokenHash l' = sl_TokenHash l" "sl_RevokedAt l' = None"
    using link_resolved [OF Inr] assms(3) by (auto simp: opens_def)
  then have "l' = l" using assms(1,2) by (auto simp: links_ok_def sl.token_ok_def distinct_map inj_on_def)
  then show ?thesis using assms(4) \<open>sl_RevokedAt l' = None\<close> by simp
qed simp

lemma revoke_committed:
  assumes "RevokeShareLink e now org sub lid d = (Inr l, d1)"
  shows "l \<in> set (st_links d1)" "sl_RevokedAt l \<noteq> None" "sl_OrgID l = org" "sl_ID l = lid"
proof -
  obtain s' where run: "revoke_body e now org sub lid \<lparr>s_db = d, s_draws = 0, s_aborted = False\<rparr> = Inr (l, s')" "d1 = s_db s'"
    using assms by (auto simp: RevokeShareLink_def service_result_def mapped_Inr BeginTxFunc_Inr split: sum.splits)
  let ?P = "\<lambda>l. sl_ID l = lid \<and> sl_OrgID l = org \<and> sl_RevokedAt l = None"
  have "l \<in> set (st_links d1) \<and> sl_RevokedAt l \<noteq> None \<and> sl_OrgID l = org \<and> sl_ID l = lid"
  proof (cases "List.find ?P (st_links d)")
    case None
    then have "link_Revoke e org lid now \<lparr>s_db = d, s_draws = 0, s_aborted = False\<rparr> \<noteq> Inr r" for r
      by (cases r) (simp add: link_Revoke_def update_returning_Inr)
    then have "link_GetByID e org lid \<lparr>s_db = d, s_draws = 0, s_aborted = False\<rparr> = Inr (l, s')"
      using run(1) by (auto simp: revoke_body_def tfound_def split: sum.splits if_splits)
    then have "l \<in> set (st_links d)" "sl_ID l = lid" "sl_OrgID l = org" "d1 = d"
      using run(2) by (auto simp: link_GetByID_def select_one_Inr dest!: find_SomeD)
    then show ?thesis using None by (auto simp: find_None_iff)
  next
    case (Some l0)
    then have "\<exists>s q. l = revoke_link now l0 \<and> s_db s = st_links_update (update_where ?P (revoke_link now)) d \<and> Record e q s = Inr ((), s')"
      using run(1) by (auto simp: revoke_body_def tfound_Inr link_Revoke_def update_returning_def stmt_def tbind_Inr split: if_splits)
        (rule exI, rule conjI [rotated], rule exI, assumption, simp)
    then obtain s q where s: "l = revoke_link now l0" "s_db s = st_links_update (update_where ?P (revoke_link now)) d" "Record e q s = Inr ((), s')"
      by blast
    have "st_links d1 = update_where ?P (revoke_link now) (st_links d)" using Record_appends [OF s(3)] s(2) run(2) by auto
    moreover have "l0 \<in> set (st_links d)" "?P l0" using find_SomeD [OF Some] by auto
    ultimately show ?thesis by (auto simp: s(1) set_update_where revoke_link_def)
  qed
  then show "l \<in> set (st_links d1)" "sl_RevokedAt l \<noteq> None" "sl_OrgID l = org" "sl_ID l = lid" by auto
qed

lemma page_of_dead_link: "\<exists>err. resolveActiveLink (v_link v) (v_now v) token d = Inl err \<Longrightarrow>
    Page ustr longDate w v token d = (writeNotFoundPage, d) \<and> Photo parse assets v token a d = writeNotFoundImage"
  by (auto simp: Page_def ResolvePublicUpdate_def Photo_def ResolvePublicPhoto_def split: option.splits)

text \<open>
  C23. Once an operator has revoked a link, its token opens nothing any more, after any operations of any organization: every visitor
  gets the page of an unknown token, no photo is served and no view is counted.
\<close>

theorem revoked_link_is_dead:
  assumes "RevokeShareLink e now org sub lid d = (Inr l, d1)" "site_op\<^sup>*\<^sup>* d1 d2" "site_ok d1" "hashShareToken token = sl_TokenHash l"
  shows "Page ustr longDate w v token d2 = (writeNotFoundPage, d2) \<and> Photo parse assets v token a d2 = writeNotFoundImage"
proof -
  note r = revoke_committed [OF assms(1)]
  have le: "site_le d1 d2" "site_ok d2" using site_ops_le [OF assms(2,3)] by auto
  then obtain l' where l': "l' \<in> set (st_links d2)" "link_le l l'"
    using links_leD [OF _ r(1), of "st_links d2"] by (auto simp: site_le_def site_grow_def tables_le_def)
  then have "sl_TokenHash l' = hashShareToken token" "sl_RevokedAt l' \<noteq> None"
    using r(2) link_key_fields(4) [of l' l] assms(4) by (auto simp: link_le_def)
  then have "\<exists>err. resolveActiveLink (v_link v) (v_now v) token d2 = Inl err"
    using dead_link [of "st_updates d2" d2 l' token] le(2) l'(1) by (auto simp: site_ok_def)
  then show ?thesis by (rule page_of_dead_link)
qed

lemma create_committed:
  assumes "CreateShareLink parse e rand now org sub uid ttl d = (Inr il, d1)"
  shows "\<exists>buf. rand = Some buf \<and> il_Cleartext il = b64_encode url_alphabet buf"
    and "il_Link il \<in> set (st_links d1)" "sl_TokenHash (il_Link il) = hashShareToken (il_Cleartext il)"
    and "sl_ExpiresAt (il_Link il) = to_timestamptz (now + share_ttl ttl)" "sl_OrgID (il_Link il) = org" "sl_ClientUpdateID (il_Link il) = uid"
    and "\<exists>c\<in>set (st_updates d1). hu_ID c = uid \<and> hu_OrgID c = org \<and> hu_Status c = ClientUpdateStatusSent"
proof -
  obtain buf l where rand: "rand = Some buf" "il_Cleartext il = b64_encode url_alphabet buf" "il_Link il = l"
    and commit: "BeginTxFunc e (create_link_body parse e org sub uid (hashShareToken (il_Cleartext il)) (now + share_ttl ttl)) d = (Inr l, d1)"
    using assms by (auto simp: CreateShareLink_def generateShareTokenCleartext_def mapped_Inr split: if_splits option.splits sum.splits prod.splits)
  then obtain s' where "create_link_body parse e org sub uid (hashShareToken (il_Cleartext il)) (now + share_ttl ttl)
      \<lparr>s_db = d, s_draws = 0, s_aborted = False\<rparr> = Inr (l, s')" "d1 = s_db s'"
    by (auto simp: BeginTxFunc_Inr)
  then obtain c u s1 s2 q where run: "List.find (\<lambda>c. hu_ID c = uid \<and> hu_OrgID c = org) (st_updates d) = Some c" "hu_Status c = ClientUpdateStatusSent"
      "LookupUserIDBySubject parse e sub org \<lparr>s_db = d, s_draws = 0, s_aborted = False\<rparr> = Inr (u, s1)"
      "link_Create e \<lparr>cv_OrgID = org, cv_ClientUpdateID = uid, cv_TokenHash = hashShareToken (il_Cleartext il), cv_ExpiresAt = now + share_ttl ttl,
        cv_CreatedBy = u\<rparr> s1 = Inr (l, s2)" "Record e q s2 = Inr ((), s')"
    unfolding create_link_body_def update_GetByID_def tbind_Inr by (auto simp: select_one_Inr)
  have "s_db s1 = d" using lookup_member [OF run(3)] by simp
  then have l: "s_db s2 = st_links_update (\<lambda>rows. rows @ [l]) d" "sl_TokenHash l = hashShareToken (il_Cleartext il)" "sl_OrgID l = org"
      "sl_ClientUpdateID l = uid" "sl_ExpiresAt l = to_timestamptz (now + share_ttl ttl)"
    using run(4) by (auto simp: link_Create_def insert_returning_Inr)
  have d1: "st_links d1 = st_links d @ [l]" "st_updates d1 = st_updates d"
    using Record_appends [OF run(5)] l(1) \<open>d1 = s_db s'\<close> by auto
  show "\<exists>buf. rand = Some buf \<and> il_Cleartext il = b64_encode url_alphabet buf" using rand by blast
  show "il_Link il \<in> set (st_links d1)" "sl_TokenHash (il_Link il) = hashShareToken (il_Cleartext il)"
    "sl_ExpiresAt (il_Link il) = to_timestamptz (now + share_ttl ttl)" "sl_OrgID (il_Link il) = org" "sl_ClientUpdateID (il_Link il) = uid"
    using l d1 rand(3) by simp_all
  show "\<exists>c\<in>set (st_updates d1). hu_ID c = uid \<and> hu_OrgID c = org \<and> hu_Status c = ClientUpdateStatusSent"
    using find_SomeD [OF run(1)] run(2) d1(2) by auto
qed

lemma find_only: "x \<in> set xs \<Longrightarrow> P x \<Longrightarrow> (\<And>y. y \<in> set xs \<Longrightarrow> P y \<Longrightarrow> y = x) \<Longrightarrow> List.find P xs = Some x"
  by (cases "List.find P xs") (blast dest: find_None_iff [THEN iffD1], metis find_SomeD)

lemma looks_generated: "length buf = 32 \<Longrightarrow> looksLikeShareToken (b64_encode url_alphabet buf)"
proof -
  assume len: "length buf = 32"
  have "set (b64_encode url_alphabet buf) \<subseteq> set url_alphabet" by (rule set_b64_encode) simp
  moreover have "CHR 0x0A \<notin> set url_alphabet" "CHR 0x0D \<notin> set url_alphabet" by (simp_all add: url_alphabet_def)
  ultimately have "filter (\<lambda>c. c \<noteq> CHR 0x0A \<and> c \<noteq> CHR 0x0D) (b64_encode url_alphabet buf) = b64_encode url_alphabet buf"
    by (intro filter_True) auto
  moreover have "b64_decode url_alphabet (b64_encode url_alphabet buf) = Some buf" by (rule b64_decode_encode) simp_all
  ultimately show ?thesis using len by (simp add: looksLikeShareToken_def length_b64_encode)
qed

lemma page_of_live_link:
  assumes "site_ok d" "healthy (v_link v)" "healthy (v_read v)" "l \<in> set (st_links d)" "opens (v_now v) token l"
    "c \<in> set (st_updates d)" "hu_ID c = sl_ClientUpdateID l" "hu_OrgID c = sl_OrgID l" "hu_Status c = ClientUpdateStatusSent"
  obtains p where "p \<in> set (db_projects d)" "publishes l c p" "fst (Page ustr longDate w v token d) = writePage ustr longDate w token (shown p c)"
proof -
  have h: "\<not> e_fail (v_link v) x" "\<not> e_commit_fails (v_link v)" "\<not> e_fail (v_read v) x" "\<not> e_commit_fails (v_read v)" for x
    using assms(2,3) by (simp_all add: healthy_def)
  have "List.find (\<lambda>l. sl_TokenHash l = hashShareToken token \<and> sl_RevokedAt l = None \<and> sl_ExpiresAt l > to_timestamptz (v_now v)) (st_links d) = Some l"
    using assms(1,4,5) by (intro find_only) (auto simp: opens_def site_ok_def links_ok_def sl.token_ok_def distinct_map inj_on_def)
  then have "resolveActiveLink (v_link v) (v_now v) token d = Inr l"
    using assms(5) h by (simp add: resolveActiveLink_def opens_def mapped_def BeginTxFunc_def tmissing_def GetActiveByHash_def select_one_def stmt_def)
  moreover have "List.find (\<lambda>c. hu_ID c = sl_ClientUpdateID l \<and> hu_OrgID c = sl_OrgID l) (st_updates d) = Some c"
    using assms(1,6-8) by (intro find_only) (auto simp: site_ok_def updates_ok_def distinct_map inj_on_def)
  moreover obtain p where p: "List.find (\<lambda>p. pj_ID p = hu_ProjectID c \<and> pj_OrgID p = sl_OrgID l) (db_projects d) = Some p"
  proof (cases "List.find (\<lambda>p. pj_ID p = hu_ProjectID c \<and> pj_OrgID p = sl_OrgID l) (db_projects d)")
    case None
    then show ?thesis using assms(1,6,8) by (auto simp: site_ok_def homes_ok_def find_None_iff)
  qed (rule that)
  ultimately have "fst (Page ustr longDate w v token d) = writePage ustr longDate w token (shown p c)"
    using h assms(9) by (simp add: Page_def ResolvePublicUpdate_def uniform_def BeginTxFunc_def public_body_def tbind_def update_GetByID_def
        GetByID_def select_one_def stmt_def tguard_def tret_def shown_def)
  with find_SomeD [OF p] that assms(7-9) show ?thesis by (auto simp: publishes_def)
qed

text \<open>
  C22. The cleartext that \<open>CreateShareLink\<close> hands out opens the page of its update, exactly as it was sent, for as long as the link is
  neither revoked nor expired: after any operations of any organization, when no statement of the visit fails.
\<close>

theorem share_link_round_trip:
  assumes "CreateShareLink parse e (Some buf) now org sub uid ttl d = (Inr il, d1)" "length buf = 32" "site_op\<^sup>*\<^sup>* d1 d2" "site_ok d1"
    and "l \<in> set (st_links d2)" "sl_ID l = sl_ID (il_Link il)" "sl_RevokedAt l = None" "to_timestamptz (v_now v) < to_timestamptz (now + share_ttl ttl)"
    and "healthy (v_link v)" "healthy (v_read v)"
  shows "\<exists>c\<in>set (st_updates d1). \<exists>p\<in>set (db_projects d2). hu_ID c = uid \<and> publishes l c p \<and>
    fst (Page ustr longDate w v (il_Cleartext il) d2) = writePage ustr longDate w (il_Cleartext il) (shown p c)"
proof -
  note c = create_committed [OF assms(1)]
  have le: "site_le d1 d2" "site_ok d2" using site_ops_le [OF assms(3,4)] by auto
  then obtain l' where l': "l' \<in> set (st_links d2)" "link_le (il_Link il) l'"
    using links_leD [OF _ c(2), of "st_links d2"] by (auto simp: site_le_def site_grow_def tables_le_def)
  have key: "link_key l' = link_key (il_Link il)" using l'(2) by (simp add: link_le_def)
  then have "sl_ID l' = sl_ID l" using assms(6) link_key_fields(1) by metis
  then have "l' = l" using le(2) l'(1) assms(5) by (auto simp: site_ok_def links_ok_def sl.token_ok_def distinct_map inj_on_def)
  then have l: "opens (v_now v) (il_Cleartext il) l" "sl_ClientUpdateID l = uid" "sl_OrgID l = org"
    using link_key_fields [OF key] c(1,3-6) assms(2,7,8) looks_generated [of buf] by (auto simp: opens_def)
  obtain cu where cu: "cu \<in> set (st_updates d1)" "hu_ID cu = uid" "hu_OrgID cu = org" "hu_Status cu = ClientUpdateStatusSent" using c(7) by blast
  then have "cu \<in> set (st_updates d2)" using le(1) by (auto simp: site_le_def frozen_def)
  then obtain p where "p \<in> set (db_projects d2)" "publishes l cu p"
      "fst (Page ustr longDate w v (il_Cleartext il) d2) = writePage ustr longDate w (il_Cleartext il) (shown p cu)"
    using page_of_live_link [OF le(2) assms(9,10,5) l(1), of cu] cu l by metis
  with cu show ?thesis by blast
qed

section \<open>What the public side can depend on\<close>

text \<open>The object under a key of an organization's store, where one can be read.\<close>

definition stored_object :: "store_resolver \<Rightarrow> uuid \<Rightarrow> string \<Rightarrow> (byte list \<times> string) option" where
  "stored_object resolver org key = (case resolver of None \<Rightarrow> None
   | Some r \<Rightarrow> (case r org of Inr (Some store) \<Rightarrow> (case os_Get store key of Inr obj \<Rightarrow> Some obj | Inl _ \<Rightarrow> None) | _ \<Rightarrow> None))"

text \<open>
  All that a visitor with \<open>token\<close> can see at \<open>now\<close>: which update the token opens; of that update, once it is sent, its project, its
  edited text, its date and its curated photos; the name of its project; of the curated photos, once they are confirmed, the stored object.
\<close>

definition behind :: "gotime \<Rightarrow> string \<Rightarrow> 'x site_db_scheme \<Rightarrow> ClientUpdate \<Rightarrow> bool" where
  "behind now token d c \<longleftrightarrow> (\<exists>l\<in>set (st_links d). opens now token l \<and> hu_ID c = sl_ClientUpdateID l \<and> hu_OrgID c = sl_OrgID l)"

definition link_columns :: "ShareLink \<Rightarrow> uuid \<times> uuid" where
  "link_columns l = (sl_OrgID l, sl_ClientUpdateID l)"

definition update_columns where
  "update_columns c = (hu_ID c, hu_OrgID c, if hu_Status c = ''sent''
     then Some (hu_ProjectID c, hu_EditedBody c, hu_PeriodEnd c, hu_PhotoAssetIDs c) else None)"

definition project_columns :: "Project \<Rightarrow> uuid \<times> uuid \<times> string" where
  "project_columns p = (pj_ID p, pj_OrgID p, pj_Name p)"

definition photo_columns where
  "photo_columns resolver x = (at_ID x, at_OrgID x, if at_Status x = ''ready''
     then Some (at_ContentType x, stored_object resolver (at_OrgID x) (at_StorageKey x)) else None)"

definition home_of_sent :: "gotime \<Rightarrow> string \<Rightarrow> 'x site_db_scheme \<Rightarrow> Project \<Rightarrow> bool" where
  "home_of_sent now token d p \<longleftrightarrow> (\<exists>c\<in>set (st_updates d). behind now token d c \<and> hu_Status c = ''sent'' \<and>
     pj_ID p = hu_ProjectID c \<and> pj_OrgID p = hu_OrgID c)"

definition curated_in_sent :: "gotime \<Rightarrow> string \<Rightarrow> 'x site_db_scheme \<Rightarrow> Asset \<Rightarrow> bool" where
  "curated_in_sent now token d x \<longleftrightarrow> (\<exists>c\<in>set (st_updates d). behind now token d c \<and> hu_Status c = ''sent'' \<and>
     at_ID x \<in> set (hu_PhotoAssetIDs c) \<and> at_OrgID x = hu_OrgID c)"

definition public_view where
  "public_view now token resolver d = (List.map link_columns (filter (opens now token) (st_links d)),
     List.map update_columns (filter (behind now token d) (st_updates d)),
     List.map project_columns (filter (home_of_sent now token d) (db_projects d)),
     List.map (photo_columns resolver) (filter (curated_in_sent now token d) (st_assets d)))"

lemma find_filtered: "(\<And>x. P x \<Longrightarrow> B x) \<Longrightarrow> List.find P (filter B xs) = List.find P xs"
  by (induction xs) auto

lemma find_in_view:
  assumes "List.map k (filter B xs) = List.map k' (filter B' ys)" "List.find P xs = Some x"
    and "\<And>x. P x \<Longrightarrow> B x" "\<And>x. Q x \<Longrightarrow> B' x" "\<And>x y. k x = k' y \<Longrightarrow> P x = Q y"
  obtains y where "List.find Q ys = Some y" "k x = k' y"
proof -
  have "list_all2 (\<lambda>x y. k x = k' y) (filter B xs) (filter B' ys)"
    using assms(1) unfolding list_all2_conv_all_nth list_eq_iff_nth_eq by auto
  then have "rel_option (\<lambda>x y. k x = k' y) (List.find P (filter B xs)) (List.find Q (filter B' ys))"
    by (induction rule: list_all2_induct) (auto simp: assms(5))
  moreover have "List.find P (filter B xs) = List.find P xs" "List.find Q (filter B' ys) = List.find Q ys"
    using assms(3,4) by (auto intro!: find_filtered)
  ultimately show thesis using that assms(2) by (cases "List.find Q ys") auto
qed

definition commits :: "env \<Rightarrow> string list \<Rightarrow> bool" where
  "commits e labels \<longleftrightarrow> \<not> e_fail e ''begin'' \<and> \<not> e_commit_fails e \<and> (\<forall>x\<in>set labels. \<not> e_fail e x)"

lemma resolve_iff: "resolveActiveLink e now token d = Inr l \<longleftrightarrow>
    commits e [''get active share link''] \<and> List.find (opens now token) (st_links d) = Some l"
proof (cases "looksLikeShareToken token")
  case True
  then have "opens now token = (\<lambda>l. sl_TokenHash l = hashShareToken token \<and> sl_RevokedAt l = None \<and> sl_ExpiresAt l > to_timestamptz now)"
    by (auto simp: opens_def [abs_def])
  then show ?thesis using True
    by (auto simp: resolveActiveLink_def mapped_def BeginTxFunc_def tmissing_def GetActiveByHash_def select_one_def stmt_def commits_def
        split: option.splits)
next
  case False
  then have "List.find (opens now token) (st_links d) = None" by (simp add: find_None_iff opens_def)
  then show ?thesis using False by (simp add: resolveActiveLink_def)
qed

lemma public_iff: "fst (BeginTxFunc e (public_body e l) d) = Inr pub \<longleftrightarrow> commits e [''get client_update'', ''get project''] \<and>
    (\<exists>c p. List.find (\<lambda>c. hu_ID c = sl_ClientUpdateID l \<and> hu_OrgID c = sl_OrgID l) (st_updates d) = Some c \<and> hu_Status c = ''sent'' \<and>
       List.find (\<lambda>p. pj_ID p = hu_ProjectID c \<and> pj_OrgID p = sl_OrgID l) (db_projects d) = Some p \<and> pub = shown p c)"
  by (auto simp: BeginTxFunc_def public_body_def update_GetByID_def GetByID_def select_one_def stmt_def tbind_def tguard_def tret_def shown_def
      commits_def ClientUpdateStatusSent_def split: option.splits)

lemma target_iff: "fst (BeginTxFunc e (photo_body e l i) d) = Inr t \<longleftrightarrow> commits e [''get client_update''] \<and> t = (sl_OrgID l, i) \<and>
    (\<exists>c. List.find (\<lambda>c. hu_ID c = sl_ClientUpdateID l \<and> hu_OrgID c = sl_OrgID l) (st_updates d) = Some c \<and> hu_Status c = ''sent'' \<and>
       i \<in> set (hu_PhotoAssetIDs c))"
  by (auto simp: BeginTxFunc_def photo_body_def update_GetByID_def select_one_def stmt_def tbind_def tguard_def tret_def
      commits_def ClientUpdateStatusSent_def split: option.splits)

lemma serve_iff: "ServeAsset resolver codec e org i d = Inr out \<longleftrightarrow> org \<noteq> uuid_nil \<and> i \<noteq> uuid_nil \<and> commits e [''get asset''] \<and>
    (\<exists>x blob ct. List.find (\<lambda>x. at_ID x = i \<and> at_OrgID x = org) (st_assets d) = Some x \<and> at_Status x = ''ready'' \<and>
       stored_object resolver org (at_StorageKey x) = Some (blob, ct) \<and>
       stripImageMetadata codec blob (if ct = [] then at_ContentType x else ct) = Some out)"
proof -
  have store: "objStore resolver org = Inr st \<and> os_Get st key = Inr obj \<Longrightarrow> stored_object resolver org key = Some obj" for st key obj
    by (auto simp: objStore_def stored_object_def ebind_elims split: option.splits)
  have stored: "\<exists>st. objStore resolver org = Inr st \<and> os_Get st key = Inr obj" if "stored_object resolver org key = Some obj" for key obj
    using that by (auto simp: objStore_def stored_object_def split: option.splits sum.splits)
  have get: "GetAsset e org i d = Inr x \<longleftrightarrow> org \<noteq> uuid_nil \<and> i \<noteq> uuid_nil \<and> commits e [''get asset''] \<and>
      List.find (\<lambda>x. at_ID x = i \<and> at_OrgID x = org) (st_assets d) = Some x" for x
    by (auto simp: GetAsset_def require_that_def mapped_def BeginTxFunc_def asset_GetByID_def select_one_def stmt_def commits_def split: option.splits)
  show ?thesis
  proof
    assume "ServeAsset resolver codec e org i d = Inr out"
    then obtain st x blob ct where "objStore resolver org = Inr st" "GetAsset e org i d = Inr x" "at_Status x = AssetStatusReady"
        "os_Get st (at_StorageKey x) = Inr (blob, ct)" "stripImageMetadata codec blob (if ct = [] then at_ContentType x else ct) = Some out"
      by (auto simp: ServeAsset_def ebind_elims split: if_splits option.splits prod.splits)
    then show "org \<noteq> uuid_nil \<and> i \<noteq> uuid_nil \<and> commits e [''get asset''] \<and>
      (\<exists>x blob ct. List.find (\<lambda>x. at_ID x = i \<and> at_OrgID x = org) (st_assets d) = Some x \<and> at_Status x = ''ready'' \<and>
         stored_object resolver org (at_StorageKey x) = Some (blob, ct) \<and>
         stripImageMetadata codec blob (if ct = [] then at_ContentType x else ct) = Some out)"
      using store get by (auto simp: AssetStatusReady_def)
  next
    assume "org \<noteq> uuid_nil \<and> i \<noteq> uuid_nil \<and> commits e [''get asset''] \<and>
      (\<exists>x blob ct. List.find (\<lambda>x. at_ID x = i \<and> at_OrgID x = org) (st_assets d) = Some x \<and> at_Status x = ''ready'' \<and>
         stored_object resolver org (at_StorageKey x) = Some (blob, ct) \<and>
         stripImageMetadata codec blob (if ct = [] then at_ContentType x else ct) = Some out)"
    then obtain x blob ct where x: "GetAsset e org i d = Inr x" "at_Status x = ''ready''" "stored_object resolver org (at_StorageKey x) = Some (blob, ct)"
        "stripImageMetadata codec blob (if ct = [] then at_ContentType x else ct) = Some out" using get by blast
    obtain st where "objStore resolver org = Inr st" "os_Get st (at_StorageKey x) = Inr (blob, ct)" using stored [OF x(3)] by blast
    then show "ServeAsset resolver codec e org i d = Inr out" using x(1,2,4) by (simp add: ServeAsset_def AssetStatusReady_def)
  qed
qed


text \<open>What a visit gets to show, and which photo.\<close>

definition page_answer :: "visit \<Rightarrow> string \<Rightarrow> 'x site_db_scheme \<Rightarrow> PublicUpdate option" where
  "page_answer v token d = (case fst (ResolvePublicUpdate v token d) of Inl _ \<Rightarrow> None | Inr pub \<Rightarrow> Some pub)"

lemma Page_answer: "fst (Page ustr longDate w v token d) =
    (case page_answer v token d of None \<Rightarrow> writeNotFoundPage | Some pub \<Rightarrow> writePage ustr longDate w token pub)"
  by (auto simp: Page_def page_answer_def split: sum.splits prod.splits)

lemma page_answer_iff: "page_answer v token d = Some pub \<longleftrightarrow> (\<exists>l c p. commits (v_link v) [''get active share link''] \<and>
    List.find (opens (v_now v) token) (st_links d) = Some l \<and> commits (v_read v) [''get client_update'', ''get project''] \<and>
    List.find (\<lambda>c. hu_ID c = sl_ClientUpdateID l \<and> hu_OrgID c = sl_OrgID l) (st_updates d) = Some c \<and> hu_Status c = ''sent'' \<and>
    List.find (\<lambda>p. pj_ID p = hu_ProjectID c \<and> pj_OrgID p = sl_OrgID l) (db_projects d) = Some p \<and> pub = shown p c)"
proof -
  have "page_answer v token d = Some pub \<longleftrightarrow> (\<exists>l. resolveActiveLink (v_link v) (v_now v) token d = Inr l \<and>
      fst (BeginTxFunc (v_read v) (public_body (v_read v) l) d) = Inr pub)"
    by (auto simp: page_answer_def ResolvePublicUpdate_def split: sum.splits)
  then show ?thesis unfolding resolve_iff public_iff by blast
qed

definition photo_answer :: "(string \<Rightarrow> uuid option) \<Rightarrow> store_resolver \<Rightarrow> image_codec \<Rightarrow> env \<Rightarrow> visit \<Rightarrow> string \<Rightarrow> string \<Rightarrow> 'x site_db_scheme \<Rightarrow>
    (byte list \<times> string) option" where
  "photo_answer parse resolver codec e v token a d = (case parse a of None \<Rightarrow> None
   | Some i \<Rightarrow> (case ResolvePublicPhoto v token i d of Inl _ \<Rightarrow> None
     | Inr (org, j) \<Rightarrow> (case ServeAsset resolver codec e org j d of Inl _ \<Rightarrow> None | Inr out \<Rightarrow> Some out)))"

lemma Photo_answer: "Photo parse (Some (\<lambda>org i. ServeAsset resolver codec e org i d)) v token a d =
    (case photo_answer parse resolver codec e v token a d of None \<Rightarrow> writeNotFoundImage
     | Some (body, ct) \<Rightarrow> \<lparr>pr_Status = 200, pr_ContentType = (if ct = [] then ''application/octet-stream'' else ct), pr_Body = body\<rparr>)"
  by (auto simp: Photo_def photo_answer_def split: option.splits sum.splits prod.splits)

lemma photo_answer_iff: "photo_answer parse resolver codec e v token a d = Some out \<longleftrightarrow> (\<exists>i l c x blob ct. parse a = Some i \<and> i \<noteq> uuid_nil \<and>
    commits (v_link v) [''get active share link''] \<and> List.find (opens (v_now v) token) (st_links d) = Some l \<and>
    commits (v_read v) [''get client_update''] \<and>
    List.find (\<lambda>c. hu_ID c = sl_ClientUpdateID l \<and> hu_OrgID c = sl_OrgID l) (st_updates d) = Some c \<and> hu_Status c = ''sent'' \<and>
    i \<in> set (hu_PhotoAssetIDs c) \<and> sl_OrgID l \<noteq> uuid_nil \<and> commits e [''get asset''] \<and>
    List.find (\<lambda>x. at_ID x = i \<and> at_OrgID x = sl_OrgID l) (st_assets d) = Some x \<and> at_Status x = ''ready'' \<and>
    stored_object resolver (sl_OrgID l) (at_StorageKey x) = Some (blob, ct) \<and>
    stripImageMetadata codec blob (if ct = [] then at_ContentType x else ct) = Some out)"
proof -
  have target: "ResolvePublicPhoto v token i d = Inr t \<longleftrightarrow> i \<noteq> uuid_nil \<and> (\<exists>l. resolveActiveLink (v_link v) (v_now v) token d = Inr l \<and>
      fst (BeginTxFunc (v_read v) (photo_body (v_read v) l i) d) = Inr t)" for i t
    by (auto simp: ResolvePublicPhoto_def ebind_elims)
  have "photo_answer parse resolver codec e v token a d = Some out \<longleftrightarrow> (\<exists>i org j. parse a = Some i \<and>
      ResolvePublicPhoto v token i d = Inr (org, j) \<and> ServeAsset resolver codec e org j d = Inr out)"
    by (auto simp: photo_answer_def split: option.splits sum.splits prod.splits)
  then show ?thesis unfolding target resolve_iff target_iff serve_iff by (simp add: ex_simps [symmetric] del: ex_simps) blast
qed

lemma find_filter: "List.find P xs = (case filter P xs of [] \<Rightarrow> None | x # _ \<Rightarrow> Some x)"
  by (induction xs) auto

text \<open>The update that the token opens, on one database and on another that looks the same.\<close>

definition opened :: "gotime \<Rightarrow> string \<Rightarrow> 'x site_db_scheme \<Rightarrow> ShareLink \<Rightarrow> ClientUpdate \<Rightarrow> bool" where
  "opened now token d l c \<longleftrightarrow> List.find (opens now token) (st_links d) = Some l \<and>
     List.find (\<lambda>c. hu_ID c = sl_ClientUpdateID l \<and> hu_OrgID c = sl_OrgID l) (st_updates d) = Some c"

lemma opened_behind: "opened now token d l c \<Longrightarrow> c \<in> set (st_updates d) \<and> behind now token d c \<and> hu_OrgID c = sl_OrgID l"
  by (auto simp: opened_def behind_def dest!: find_SomeD)

lemma opened_alike:
  assumes "public_view now token resolver d = public_view now token resolver' d'" "opened now token d l c"
  obtains l' c' where "opened now token d' l' c'" "link_columns l = link_columns l'" "update_columns c = update_columns c'"
proof -
  have l: "List.find (opens now token) (st_links d) = Some l" and c: "List.find (\<lambda>c. hu_ID c = sl_ClientUpdateID l \<and> hu_OrgID c = sl_OrgID l) (st_updates d) = Some c"
    using assms(2) by (simp_all add: opened_def)
  have "List.map link_columns (filter (opens now token) (st_links d)) = List.map link_columns (filter (opens now token) (st_links d'))"
    using assms(1) by (simp add: public_view_def)
  then obtain l' where l': "List.find (opens now token) (st_links d') = Some l'" "link_columns l = link_columns l'"
    using l unfolding find_filter by (auto split: list.splits)
  have eq: "List.map update_columns (filter (behind now token d) (st_updates d)) = List.map update_columns (filter (behind now token d') (st_updates d'))"
    using assms(1) by (simp add: public_view_def)
  show thesis
  proof (rule find_in_view [OF eq c, where Q = "\<lambda>c. hu_ID c = sl_ClientUpdateID l' \<and> hu_OrgID c = sl_OrgID l'"])
    show "hu_ID x = sl_ClientUpdateID l \<and> hu_OrgID x = sl_OrgID l \<Longrightarrow> behind now token d x" for x
      using find_SomeD [OF l] by (auto simp: behind_def)
    show "hu_ID x = sl_ClientUpdateID l' \<and> hu_OrgID x = sl_OrgID l' \<Longrightarrow> behind now token d' x" for x
      using find_SomeD [OF l'(1)] by (auto simp: behind_def)
    show "update_columns x = update_columns y \<Longrightarrow> (hu_ID x = sl_ClientUpdateID l \<and> hu_OrgID x = sl_OrgID l) =
        (hu_ID y = sl_ClientUpdateID l' \<and> hu_OrgID y = sl_OrgID l')" for x y
      using l'(2) by (auto simp: update_columns_def link_columns_def)
  next
    fix c' assume "List.find (\<lambda>c. hu_ID c = sl_ClientUpdateID l' \<and> hu_OrgID c = sl_OrgID l') (st_updates d') = Some c'" "update_columns c = update_columns c'"
    then show thesis using that l' by (auto simp: opened_def)
  qed
qed

lemma sent_columns: "update_columns c = update_columns c' \<Longrightarrow> hu_Status c = ''sent'' \<Longrightarrow> hu_Status c' = ''sent'' \<and> hu_ID c' = hu_ID c \<and>
    hu_OrgID c' = hu_OrgID c \<and> hu_ProjectID c' = hu_ProjectID c \<and> hu_EditedBody c' = hu_EditedBody c \<and> hu_PeriodEnd c' = hu_PeriodEnd c \<and>
    hu_PhotoAssetIDs c' = hu_PhotoAssetIDs c"
  by (auto simp: update_columns_def split: if_splits)

lemma page_answer_alike:
  assumes "public_view (v_now v) token resolver d = public_view (v_now v) token resolver' d'" "page_answer v token d = Some pub"
  shows "page_answer v token d' = Some pub"
proof -
  obtain l c p where a: "opened (v_now v) token d l c" "hu_Status c = ''sent''" "pub = shown p c" "commits (v_link v) [''get active share link'']"
      "commits (v_read v) [''get client_update'', ''get project'']"
    and p: "List.find (\<lambda>p. pj_ID p = hu_ProjectID c \<and> pj_OrgID p = sl_OrgID l) (db_projects d) = Some p"
    using assms(2) unfolding page_answer_iff opened_def by blast
  obtain l' c' where b: "opened (v_now v) token d' l' c'" "link_columns l = link_columns l'" "update_columns c = update_columns c'"
    by (rule opened_alike [OF assms(1) a(1)])
  note s = sent_columns [OF b(3) a(2)]
  have eq: "List.map project_columns (filter (home_of_sent (v_now v) token d) (db_projects d)) =
      List.map project_columns (filter (home_of_sent (v_now v) token d') (db_projects d'))"
    using assms(1) by (simp add: public_view_def)
  obtain p' where "List.find (\<lambda>p. pj_ID p = hu_ProjectID c' \<and> pj_OrgID p = sl_OrgID l') (db_projects d') = Some p'" "project_columns p = project_columns p'"
  proof (rule find_in_view [OF eq p, where Q = "\<lambda>p. pj_ID p = hu_ProjectID c' \<and> pj_OrgID p = sl_OrgID l'"])
    show "pj_ID x = hu_ProjectID c \<and> pj_OrgID x = sl_OrgID l \<Longrightarrow> home_of_sent (v_now v) token d x" for x
      using opened_behind [OF a(1)] a(2) by (auto simp: home_of_sent_def)
    show "pj_ID x = hu_ProjectID c' \<and> pj_OrgID x = sl_OrgID l' \<Longrightarrow> home_of_sent (v_now v) token d' x" for x
      using opened_behind [OF b(1)] s by (auto simp: home_of_sent_def)
    show "project_columns x = project_columns y \<Longrightarrow> (pj_ID x = hu_ProjectID c \<and> pj_OrgID x = sl_OrgID l) =
        (pj_ID y = hu_ProjectID c' \<and> pj_OrgID y = sl_OrgID l')" for x y
      using b(2) s by (auto simp: project_columns_def link_columns_def)
  qed
  then show ?thesis using a(3-5) b(1) s unfolding page_answer_iff opened_def by (auto simp: shown_def project_columns_def)
qed

lemma photo_answer_alike:
  assumes "public_view (v_now v) token resolver d = public_view (v_now v) token resolver' d'" "photo_answer parse resolver codec e v token a d = Some out"
  shows "photo_answer parse resolver' codec e v token a d' = Some out"
proof -
  obtain i l c x blob ct where a: "opened (v_now v) token d l c" "hu_Status c = ''sent''" "i \<in> set (hu_PhotoAssetIDs c)"
      "parse a = Some i" "i \<noteq> uuid_nil" "sl_OrgID l \<noteq> uuid_nil" "commits (v_link v) [''get active share link'']"
      "commits (v_read v) [''get client_update'']" "commits e [''get asset'']"
    and x: "List.find (\<lambda>x. at_ID x = i \<and> at_OrgID x = sl_OrgID l) (st_assets d) = Some x" "at_Status x = ''ready''"
      "stored_object resolver (sl_OrgID l) (at_StorageKey x) = Some (blob, ct)"
      "stripImageMetadata codec blob (if ct = [] then at_ContentType x else ct) = Some out"
    using assms(2) unfolding photo_answer_iff opened_def by blast
  obtain l' c' where b: "opened (v_now v) token d' l' c'" "link_columns l = link_columns l'" "update_columns c = update_columns c'"
    by (rule opened_alike [OF assms(1) a(1)])
  note s = sent_columns [OF b(3) a(2)]
  have org: "sl_OrgID l' = sl_OrgID l" using b(2) by (simp add: link_columns_def)
  have eq: "List.map (photo_columns resolver) (filter (curated_in_sent (v_now v) token d) (st_assets d)) =
      List.map (photo_columns resolver') (filter (curated_in_sent (v_now v) token d') (st_assets d'))"
    using assms(1) by (simp add: public_view_def)
  obtain x' where x': "List.find (\<lambda>x. at_ID x = i \<and> at_OrgID x = sl_OrgID l') (st_assets d') = Some x'" "photo_columns resolver x = photo_columns resolver' x'"
  proof (rule find_in_view [OF eq x(1), where Q = "\<lambda>x. at_ID x = i \<and> at_OrgID x = sl_OrgID l'"])
    show "at_ID y = i \<and> at_OrgID y = sl_OrgID l \<Longrightarrow> curated_in_sent (v_now v) token d y" for y
      using opened_behind [OF a(1)] a(2,3) by (auto simp: curated_in_sent_def)
    show "at_ID y = i \<and> at_OrgID y = sl_OrgID l' \<Longrightarrow> curated_in_sent (v_now v) token d' y" for y
      using opened_behind [OF b(1)] s a(3) by (auto simp: curated_in_sent_def)
    show "photo_columns resolver y = photo_columns resolver' z \<Longrightarrow> (at_ID y = i \<and> at_OrgID y = sl_OrgID l) = (at_ID z = i \<and> at_OrgID z = sl_OrgID l')" for y z
      using org by (auto simp: photo_columns_def)
  qed
  have keys: "at_OrgID x = sl_OrgID l" "at_OrgID x' = sl_OrgID l" using find_SomeD [OF x(1)] find_SomeD [OF x'(1)] org by auto
  have "at_Status x' = ''ready''" "at_ContentType x' = at_ContentType x" "stored_object resolver' (sl_OrgID l) (at_StorageKey x') = Some (blob, ct)"
    using x'(2) x(2,3) keys by (auto simp: photo_columns_def split: if_splits)
  then show ?thesis using a(3-9) b(1) s x(4) x'(1) org unfolding photo_answer_iff opened_def by auto
qed

text \<open>
  C18. Nothing else can reach the public: a visitor with a token gets the same page and the same photos from two databases and two
  object stores whenever these agree on the update that the token opens (and, once it is sent, on its edited text, its date, its project
  and its curated photos), on the name of that project, and on the stored objects of those curated photos that are confirmed. So
  drafts, other updates, other links, other photos and other objects, recipients, safety incidents, crews, positions, money and tasks
  reach neither.
\<close>

theorem public_page_redaction:
  fixes d d' :: "'x site_db_scheme"
  assumes "public_view (v_now v) token resolver d = public_view (v_now v) token resolver' d'"
  shows "fst (Page ustr longDate w v token d) = fst (Page ustr longDate w v token d') \<and>
    Photo parse (Some (\<lambda>org i. ServeAsset resolver codec e org i d)) v token a d =
    Photo parse (Some (\<lambda>org i. ServeAsset resolver' codec e org i d')) v token a d'"
proof -
  have "page_answer v token d = page_answer v token d'"
    using page_answer_alike [OF assms] page_answer_alike [OF assms [symmetric]] by (metis not_Some_eq)
  moreover have "photo_answer parse resolver codec e v token a d = photo_answer parse resolver' codec e v token a d'"
    using photo_answer_alike [OF assms] photo_answer_alike [OF assms [symmetric]] by (metis not_Some_eq)
  ultimately show ?thesis by (simp only: Page_answer Photo_answer)
qed

section \<open>Photos\<close>

text \<open>
  C24. A photo reaches the public only as pixels encoded again: when the proxy answers with an image, its id is one of the curated photos of
  the sent update of a live link, the asset is confirmed and of the link's organization, and the bytes are what the JPEG or PNG encoder
  made of the object stored under that asset's key (of its first 15 MiB and one byte), by the content type of the object or else of the
  asset; so no metadata of a camera and no other object can be among them.
\<close>

theorem public_photo_is_curated:
  assumes "Photo parse (Some (\<lambda>org i. ServeAsset resolver codec e org i d)) v token a d = r" "pr_Status r = 200"
  shows "\<exists>i. \<exists>l\<in>set (st_links d). \<exists>c\<in>set (st_updates d). \<exists>x\<in>set (st_assets d). \<exists>blob ct. parse a = Some i \<and> opens (v_now v) token l \<and>
    hu_ID c = sl_ClientUpdateID l \<and> hu_OrgID c = sl_OrgID l \<and> hu_Status c = ''sent'' \<and> i \<in> set (hu_PhotoAssetIDs c) \<and>
    at_ID x = i \<and> at_OrgID x = sl_OrgID l \<and> at_Status x = ''ready'' \<and>
    (\<exists>serve store. resolver = Some serve \<and> serve (sl_OrgID l) = Inr (Some store) \<and> os_Get store (at_StorageKey x) = Inr (blob, ct)) \<and>
    to_lower (trim_space (if ct = [] then at_ContentType x else ct)) = pr_ContentType r \<and>
    (pr_ContentType r = ''image/jpeg'' \<and> ic_jpeg codec (take (15 * 2 ^ 20 + 1) blob) = Some (pr_Body r) \<or>
     pr_ContentType r = ''image/png'' \<and> ic_png codec (take (15 * 2 ^ 20 + 1) blob) = Some (pr_Body r))"
proof -
  obtain body kind where out: "photo_answer parse resolver codec e v token a d = Some (body, kind)"
      "r = \<lparr>pr_Status = 200, pr_ContentType = (if kind = [] then ''application/octet-stream'' else kind), pr_Body = body\<rparr>"
    using assms by (auto simp: Photo_answer writeNotFoundImage_def split: option.splits)
  then obtain i l c x blob ct where f: "parse a = Some i" "List.find (opens (v_now v) token) (st_links d) = Some l"
      "List.find (\<lambda>c. hu_ID c = sl_ClientUpdateID l \<and> hu_OrgID c = sl_OrgID l) (st_updates d) = Some c" "hu_Status c = ''sent''"
      "i \<in> set (hu_PhotoAssetIDs c)" "List.find (\<lambda>x. at_ID x = i \<and> at_OrgID x = sl_OrgID l) (st_assets d) = Some x" "at_Status x = ''ready''"
      "stored_object resolver (sl_OrgID l) (at_StorageKey x) = Some (blob, ct)"
      "stripImageMetadata codec blob (if ct = [] then at_ContentType x else ct) = Some (body, kind)"
    unfolding photo_answer_iff by blast
  have n: "nat (MaxAssetSizeBytes + 1) = 15 * 2 ^ 20 + 1" by (simp add: MaxAssetSizeBytes_def)
  have kind: "to_lower (trim_space (if ct = [] then at_ContentType x else ct)) = kind \<and>
      (kind = ''image/jpeg'' \<and> ic_jpeg codec (take (15 * 2 ^ 20 + 1) blob) = Some body \<or>
       kind = ''image/png'' \<and> ic_png codec (take (15 * 2 ^ 20 + 1) blob) = Some body)"
    using f(9) unfolding stripImageMetadata_def Let_def n by (simp split: if_splits)
  have obj: "\<exists>serve store. resolver = Some serve \<and> serve (sl_OrgID l) = Inr (Some store) \<and> os_Get store (at_StorageKey x) = Inr (blob, ct)"
    using f(8) by (auto simp: stored_object_def split: option.splits sum.splits)
  have keys: "l \<in> set (st_links d)" "opens (v_now v) token l" "c \<in> set (st_updates d)" "hu_ID c = sl_ClientUpdateID l" "hu_OrgID c = sl_OrgID l"
      "x \<in> set (st_assets d)" "at_ID x = i" "at_OrgID x = sl_OrgID l"
    using find_SomeD [OF f(2)] find_SomeD [OF f(3)] find_SomeD [OF f(6)] by auto
  have ct: "pr_ContentType r = kind" "pr_Body r = body" using kind out(2) by auto
  show ?thesis unfolding ct
    by (intro exI [of _ i] bexI [of _ l] bexI [of _ c] bexI [of _ x] exI [of _ blob] exI [of _ ct] conjI keys f(1,4,5,7) obj
        kind [THEN conjunct1] kind [THEN conjunct2])
qed

section \<open>A site with a link\<close>

definition sample_sent :: ClientUpdate where
  "sample_sent = sample_draft\<lparr>hu_Status := ClientUpdateStatusSent, hu_RecipientEmail := Some ''h@x.y'', hu_SentBy := Some 5, hu_SentAt := Some 0\<rparr>"

definition public_token :: string where
  "public_token = b64_encode url_alphabet (replicate 32 0)"

definition sample_link :: ShareLink where
  "sample_link = \<lparr>sl_ID = 70, sl_OrgID = 7, sl_ClientUpdateID = 50, sl_TokenHash = hashShareToken public_token, sl_ExpiresAt = day24,
     sl_RevokedAt = None, sl_CreatedBy = 5, sl_LastViewedAt = None, sl_ViewCount = 0, sl_CreatedAt = 0\<rparr>"

definition sent_site :: site_db where
  "sent_site = sample_site\<lparr>st_updates := [sample_sent]\<rparr>"

definition linked_site :: site_db where
  "linked_site = sent_site\<lparr>st_links := [sample_link]\<rparr>"

definition sample_visit :: visit where
  "sample_visit = \<lparr>v_link = site_env 300, v_read = site_env 400, v_touch = site_env 500, v_now = 0\<rparr>"

lemma linked_site_simps [simp]:
  "st_links linked_site = [sample_link]" "st_updates linked_site = [sample_sent]" "db_projects linked_site = [sample_home]"
  "st_assets linked_site = [sample_photo]" "db_orgs linked_site = [7]" "db_audit linked_site = []"
  "st_links sent_site = []" "st_updates sent_site = [sample_sent]" "db_projects sent_site = [sample_home]"
  "db_orgs sent_site = [7]" "db_audit sent_site = []" "st_members sent_site = [(5, 7)]"
  by (simp_all add: linked_site_def sent_site_def)

lemma sample_visit_simps [simp]:
  "v_link sample_visit = site_env 300" "v_read sample_visit = site_env 400" "v_touch sample_visit = site_env 500" "v_now sample_visit = 0"
  by (simp_all add: sample_visit_def)

lemma linked_site_ok: "site_ok linked_site" "site_ok sent_site"
  using sample_site_ok
  by (simp_all add: site_ok_def linked_site_def sent_site_def updates_ok_def update_ok_def homes_ok_def links_ok_def sl.token_ok_def sample_sent_def
      sample_draft_def sample_link_def trim_space_def is_space_def)

lemma midnight: "to_timestamptz 0 = 0" "0 < day24"
  by (simp_all add: to_timestamptz_def day24_def hour_def minute_def second_def)

lemma sample_link_opens: "opens 0 public_token sample_link"
  unfolding opens_def public_token_def using looks_generated [of "replicate 32 0"]
  by (simp add: sample_link_def public_token_def midnight)

lemma sample_publishes: "hu_ID sample_sent = sl_ClientUpdateID sample_link" "hu_OrgID sample_sent = sl_OrgID sample_link"
    "hu_Status sample_sent = ClientUpdateStatusSent"
  by (simp_all add: sample_sent_def sample_draft_def sample_link_def)

lemma revoke_run:
  assumes "healthy e" "org \<noteq> uuid_nil" "lid \<noteq> uuid_nil" "org \<in> set (db_orgs d)" "\<forall>n. e_uuid e n \<notin> al_ID ` set (db_audit d)"
    "List.find (\<lambda>l. sl_ID l = lid \<and> sl_OrgID l = org \<and> sl_RevokedAt l = None) (st_links d) = Some l"
  shows "\<exists>d'. RevokeShareLink e now org sub lid d = (Inr (revoke_link now l), d')"
proof -
  let ?s = "\<lparr>s_db = d, s_draws = 0, s_aborted = False\<rparr>" and ?P = "\<lambda>l. sl_ID l = lid \<and> sl_OrgID l = org \<and> sl_RevokedAt l = None"
  let ?s1 = "?s\<lparr>s_db := st_links_update (update_where ?P (revoke_link now)) d\<rparr>" and ?l = "revoke_link now l"
  let ?p = "link_entry org sub ''client_update.share_link.revoked'' (sl_ID ?l) [(''client_update_id'', JUuid (sl_ClientUpdateID ?l))]"
  have h: "\<not> e_fail e x" "\<not> e_commit_fails e" for x using assms(1) by (simp_all add: healthy_def)
  have step: "link_Revoke e org lid now ?s = Inr (?l, ?s1)"
    using assms(6) h by (simp add: link_Revoke_def update_returning_def stmt_def)
  have "revoke_body e now org sub lid ?s = tbind (Record e ?p) (\<lambda>_. tret ?l) ?s1"
    by (simp only: revoke_body_def tfound_def step sum.case prod.case)
  moreover obtain rows n where "tbind (Record e ?p) (\<lambda>_. tret ?l) ?s1 =
      Inr (?l, ?s1\<lparr>s_db := s_db ?s1\<lparr>db_audit := db_audit (s_db ?s1) @ rows\<rparr>, s_draws := n\<rparr>)"
    by (rule recorded [of e ?s1 ?p ?l]) (use assms(1,4,5) in \<open>auto simp: link_entry_def\<close>)
  ultimately show ?thesis using h assms(2,3)
    by (simp add: RevokeShareLink_def service_result_def require_that_def BeginTxFunc_def mapped_def)
qed

theorem revoked_link_is_dead_witness:
  "\<exists>l d. RevokeShareLink (site_env 100) 0 7 ''u'' 70 linked_site = (Inr l, d) \<and>
    Page (\<lambda>_. ''i'') (\<lambda>_. ''d'') True sample_visit public_token d = (writeNotFoundPage, d)"
proof -
  obtain l d where run: "RevokeShareLink (site_env 100) 0 7 ''u'' 70 linked_site = (Inr l, d)" "l = revoke_link 0 sample_link"
    using revoke_run [OF healthy_site, of 7 70 linked_site 100 sample_link 0 "''u''"] by (auto simp: uuid_nil_def sample_link_def)
  have "site_op linked_site d"
    using site_op.link_revoked [of linked_site "site_env 100" 0 7 "''u''" 70] run(1) by simp
  then have ok: "site_ok d" using site_ops_le [OF r_into_rtranclp linked_site_ok(1)] by blast
  have "hashShareToken public_token = sl_TokenHash l" by (simp add: run(2) revoke_link_def sample_link_def)
  with revoked_link_is_dead [OF run(1) rtranclp.rtrancl_refl ok] run(1) show ?thesis by blast
qed

lemma create_link_run:
  assumes "healthy e" "org \<noteq> uuid_nil" "uid \<noteq> uuid_nil" "org \<in> set (db_orgs d)"
    "\<forall>n. e_uuid e n \<notin> al_ID ` set (db_audit d) \<union> sl_ID ` set (st_links d)"
    "List.find (\<lambda>c. hu_ID c = uid \<and> hu_OrgID c = org) (st_updates d) = Some c" "hu_Status c = ClientUpdateStatusSent"
    "parse sub = Some u" "(u, org) \<in> set (st_members d)" "hashShareToken (b64_encode url_alphabet buf) \<notin> sl_TokenHash ` set (st_links d)"
  shows "\<exists>il d'. CreateShareLink parse e (Some buf) now org sub uid ttl d = (Inr il, d') \<and> sl_RevokedAt (il_Link il) = None"
proof -
  let ?s = "\<lparr>s_db = d, s_draws = 0, s_aborted = False\<rparr>" and ?h = "hashShareToken (b64_encode url_alphabet buf)" and ?ex = "now + share_ttl ttl"
  have h: "\<not> e_fail e x" "\<not> e_commit_fails e" for x using assms(1) by (simp_all add: healthy_def)
  have find: "List.find (\<lambda>m. m = (u, org)) (st_members d) = Some (u, org)" using assms(9) by (rule find_itself)
  have s1: "update_GetByID e org uid ?s = Inr (c, ?s)" using assms(6) h by (simp add: update_GetByID_def select_one_def stmt_def)
  have s2: "LookupUserIDBySubject parse e sub org ?s = Inr (u, ?s)"
    using assms(8) find h by (auto simp: LookupUserIDBySubject_def tbind_Inr select_one_Inr)
  have fk: "uid \<in> hu_ID ` set (st_updates d)" "u \<in> fst ` set (st_members d)" using find_SomeD [OF assms(6)] assms(9) by force+
  have fresh: "\<forall>r\<in>set (st_links d). sl_ID r \<noteq> e_uuid e 0 \<and> sl_TokenHash r \<noteq> ?h" using assms(5,10) by (metis UnI2 image_eqI)
  obtain l where ins: "link_Create e \<lparr>cv_OrgID = org, cv_ClientUpdateID = uid, cv_TokenHash = ?h, cv_ExpiresAt = ?ex, cv_CreatedBy = u\<rparr> ?s =
      Inr (l, ?s\<lparr>s_db := st_links_update (\<lambda>rows. rows @ [l]) d, s_draws := Suc 0\<rparr>)" "sl_RevokedAt l = None"
    using fk fresh assms(4) h by (auto simp: link_Create_def insert_returning_Inr)
  let ?s1 = "?s\<lparr>s_db := st_links_update (\<lambda>rows. rows @ [l]) d, s_draws := Suc 0\<rparr>"
  let ?p = "link_entry org sub ''client_update.share_link.created'' (sl_ID l)
      [(''client_update_id'', JUuid uid), (''expires_at'', JTime (?ex div second * second))]"
  have "create_link_body parse e org sub uid ?h ?ex ?s = tbind (Record e ?p) (\<lambda>_. tret l) ?s1"
    unfolding create_link_body_def by (simp add: tbind_def s1 s2 ins(1) assms(7) tguard_def)
  moreover obtain rows n where "tbind (Record e ?p) (\<lambda>_. tret l) ?s1 =
      Inr (l, ?s1\<lparr>s_db := s_db ?s1\<lparr>db_audit := db_audit (s_db ?s1) @ rows\<rparr>, s_draws := n\<rparr>)"
    by (rule recorded [of e ?s1 ?p l]) (use assms(1,4,5) in \<open>auto simp: link_entry_def\<close>)
  ultimately show ?thesis using h assms(2,3) ins(2)
    by (simp add: CreateShareLink_def generateShareTokenCleartext_def BeginTxFunc_def mapped_def)
qed

theorem share_link_round_trip_witness:
  "\<exists>il d. CreateShareLink sample_parse (site_env 100) (Some (replicate 32 0)) 0 7 ''u'' 50 day24 sent_site = (Inr il, d) \<and>
    hp_Status (fst (Page (\<lambda>_. ''i'') (\<lambda>_. ''d'') True sample_visit (il_Cleartext il) d)) = 200"
proof -
  obtain il d where run: "CreateShareLink sample_parse (site_env 100) (Some (replicate 32 0)) 0 7 ''u'' 50 day24 sent_site = (Inr il, d)"
      "sl_RevokedAt (il_Link il) = None"
    using create_link_run [OF healthy_site, of 7 50 sent_site 100 sample_sent sample_parse "''u''" 5 "replicate 32 0" 0 day24]
    by (auto simp: uuid_nil_def sample_sent_def sample_draft_def sample_parse_def)
  have "site_op sent_site d"
    using site_op.link_created [of sent_site sample_parse "site_env 100" "Some (replicate 32 0)" 0 7 "''u''" 50 day24] run(1) by simp
  then have ok: "site_ok d" using site_ops_le [OF r_into_rtranclp linked_site_ok(2)] by blast
  have "to_timestamptz 0 < to_timestamptz (0 + share_ttl day24)"
    by (simp add: to_timestamptz_def share_ttl_def MaxShareLinkTTL_def DefaultShareLinkTTL_def day24_def hour_def minute_def second_def)
  then have "to_timestamptz (v_now sample_visit) < to_timestamptz (0 + share_ttl day24)" by simp
  from share_link_round_trip [OF run(1) length_replicate rtranclp.rtrancl_refl ok create_committed(2) [OF run(1)] refl run(2) this, of "\<lambda>_. ''i''" "\<lambda>_. ''d''" True]
  show ?thesis using run(1) healthy_site by (fastforce simp: writePage_def)
qed

definition sample_store :: ObjectStore where
  "sample_store = \<lparr>os_PresignPut = (\<lambda>_ _ _ _. Inr (''put'', [])), os_PresignGet = (\<lambda>_ _. Inr ''get''), os_Get = (\<lambda>k. if k = ''k'' then Inr ([1, 2], ''image/jpeg'') else Inl NotFound)\<rparr>"

definition sample_codec :: image_codec where
  "sample_codec = \<lparr>ic_jpeg = (\<lambda>_. Some [9]), ic_png = (\<lambda>_. None)\<rparr>"

lemma served_photo: "Photo (\<lambda>_. Some 40) (Some (\<lambda>org i. ServeAsset (Some (\<lambda>_. Inr (Some sample_store))) sample_codec (site_env 600) org i linked_site))
    sample_visit public_token a linked_site = \<lparr>pr_Status = 200, pr_ContentType = ''image/jpeg'', pr_Body = [9]\<rparr>"
proof -
  have "resolveActiveLink (site_env 300) 0 public_token linked_site = Inr sample_link"
    using sample_link_opens by (simp add: resolveActiveLink_def opens_def mapped_def BeginTxFunc_def tmissing_def GetActiveByHash_def select_one_def
        stmt_def midnight)
  then have "ResolvePublicPhoto sample_visit public_token 40 linked_site = Inr (7, 40)"
    by (simp add: ResolvePublicPhoto_def BeginTxFunc_def photo_body_def tbind_def update_GetByID_def select_one_def stmt_def tguard_def tret_def
        uniform_def sample_publishes, simp add: sample_sent_def sample_draft_def sample_link_def uuid_nil_def)
  moreover have "ServeAsset (Some (\<lambda>_. Inr (Some sample_store))) sample_codec (site_env 600) 7 40 linked_site = Inr ([9], ''image/jpeg'')"
    by (simp add: ServeAsset_def objStore_def GetAsset_def mapped_def BeginTxFunc_def asset_GetByID_def select_one_def stmt_def require_that_def
        sample_photo_def uuid_nil_def AssetStatusReady_def sample_store_def stripImageMetadata_def sample_codec_def trim_space_def is_space_def to_lower_def lower_char_def Let_def)
  ultimately show ?thesis by (simp add: Photo_def)
qed

theorem public_photo_is_curated_witness:
  "Photo (\<lambda>_. Some 40) (Some (\<lambda>org i. ServeAsset (Some (\<lambda>_. Inr (Some sample_store))) sample_codec (site_env 600) org i linked_site))
     sample_visit public_token ''a'' linked_site = \<lparr>pr_Status = 200, pr_ContentType = ''image/jpeg'', pr_Body = [9]\<rparr> \<and>
   (\<exists>x\<in>set (st_assets linked_site). \<exists>blob ct. os_Get sample_store (at_StorageKey x) = Inr (blob, ct) \<and>
      ic_jpeg sample_codec (take (15 * 2 ^ 20 + 1) blob) = Some [9])"
  using public_photo_is_curated [OF served_photo [of "''a''"]] served_photo [of "''a''"]
  by (intro conjI) (assumption, fastforce)

text \<open>Another site and store: the visitor sees the same, the operator does not.\<close>

definition other_site :: site_db where
  "other_site = linked_site\<lparr>st_updates := [sample_sent\<lparr>hu_RecipientEmail := None, hu_AIDraft := None\<rparr>, sample_draft\<lparr>hu_ID := 51\<rparr>],
     st_assets := [sample_photo\<lparr>at_StorageKey := ''z'', at_UploadedBy := ''w''\<rparr>, sample_photo\<lparr>at_ID := 41\<rparr>],
     db_projects := [sample_home\<lparr>pj_ClientEmail := None\<rparr>]\<rparr>"

definition other_store :: ObjectStore where
  "other_store = sample_store\<lparr>os_Get := (\<lambda>k. if k = ''z'' then Inr ([1, 2], ''image/jpeg'') else Inr ([3], ''image/png''))\<rparr>"

lemma sites_alike: "public_view 0 public_token (Some (\<lambda>_. Inr (Some sample_store))) linked_site =
    public_view 0 public_token (Some (\<lambda>_. Inr (Some other_store))) other_site"
  using sample_link_opens
  by (simp add: public_view_def other_site_def behind_def home_of_sent_def curated_in_sent_def update_columns_def photo_columns_def project_columns_def
      stored_object_def sample_store_def other_store_def sample_sent_def sample_draft_def sample_link_def sample_photo_def sample_home_def
      sample_project_def ClientUpdateStatusSent_def ClientUpdateStatusDraft_def AssetStatusReady_def)

theorem public_page_redaction_witness:
  "fst (Page (\<lambda>_. ''i'') (\<lambda>_. ''d'') True sample_visit public_token other_site) =
     fst (Page (\<lambda>_. ''i'') (\<lambda>_. ''d'') True sample_visit public_token linked_site) \<and>
   Photo (\<lambda>_. Some 40) (Some (\<lambda>org i. ServeAsset (Some (\<lambda>_. Inr (Some other_store))) sample_codec (site_env 600) org i other_site))
     sample_visit public_token ''a'' other_site = \<lparr>pr_Status = 200, pr_ContentType = ''image/jpeg'', pr_Body = [9]\<rparr>"
  using public_page_redaction [where v = sample_visit and d = linked_site and d' = other_site and resolver = "Some (\<lambda>_. Inr (Some sample_store))"
      and resolver' = "Some (\<lambda>_. Inr (Some other_store))" and ustr = "\<lambda>_. ''i''" and longDate = "\<lambda>_. ''d''" and w = True and token = public_token
      and parse = "\<lambda>_. Some 40" and codec = sample_codec and e = "site_env 600" and a = "''a''"] sites_alike served_photo [of "''a''"]
  by simp

end
