(* ===== verification/Mail_Props.thy ===== *)
theory Mail_Props
  imports Public_Props
begin

text \<open>The sending of an update: what is mailed, what the row says afterwards, and that a sent update stays as it is.\<close>

lemma Record_ids:
  assumes "Record e p s = Inr (u, s')"
  shows "al_ID ` set (db_audit (s_db s')) \<subseteq> al_ID ` set (db_audit (s_db s)) \<union> range (e_uuid e)"
proof (cases "s' = s \<or> s' = s\<lparr>s_aborted := True\<rparr>")
  case False
  then obtain row where "InsertAudit e p s = Inr (row, s')" using assms by (auto simp: Record_def split: if_splits sum.splits)
  then show ?thesis by (auto simp: InsertAudit_def insert_returning_Inr Let_def)
qed auto

text \<open>The row that \<open>SendClientUpdate\<close> marks, and the outcome for an answer of the mailer.\<close>

definition sent_row :: "env \<Rightarrow> uuid \<Rightarrow> uuid \<Rightarrow> string \<Rightarrow> uuid \<Rightarrow> ClientUpdate \<Rightarrow> ClientUpdate" where
  "sent_row e org uid to u c = marked_sent e \<lparr>mx_OrgID = org, mx_ID = uid, mx_RecipientEmail = to, mx_SentBy = u\<rparr> c"

definition after_mail :: "env \<Rightarrow> svc_error option \<Rightarrow> ClientUpdate \<Rightarrow> ClientUpdate" where
  "after_mail e answer c = (case answer of None \<Rightarrow> c | Some err \<Rightarrow> marked_failed e (failure_reason err) c)"

definition send_result :: "svc_error option \<Rightarrow> ClientUpdate \<Rightarrow> svc_error + ClientUpdate" where
  "send_result answer c = (case answer of None \<Rightarrow> Inr c | Some err \<Rightarrow> Inl (if err = MailerUnconfigured then MailerUnconfigured else ClientUpdateSendFailed))"

lemma find_stronger: "List.find P xs = Some c \<Longrightarrow> Q c \<Longrightarrow> (\<And>x. Q x \<Longrightarrow> P x) \<Longrightarrow> List.find Q xs = Some c"
  by (induction xs) (auto split: if_splits)

lemma send_run:
  assumes "healthy e" "org \<in> set (db_orgs d)" "List.find (\<lambda>c. hu_ID c = uid \<and> hu_OrgID c = org) (st_updates d) = Some c"
    "hu_Status c \<noteq> ClientUpdateStatusSent" "List.find (\<lambda>p. pj_ID p = hu_ProjectID c \<and> pj_OrgID p = org) (db_projects d) = Some p"
    "trim_space (coalesce (pj_ClientEmail p) []) = to" "to \<noteq> []" "parse sub = Some u" "(u, org) \<in> set (st_members d)"
    "\<forall>n. e_uuid e n \<notin> al_ID ` set (db_audit d)"
  shows "\<exists>d'. BeginTxFunc e (send_body parse e org sub uid) d = (Inr (sent_row e org uid to u c, p, to), d') \<and>
    st_updates d' = update_where (\<lambda>x. hu_ID x = uid \<and> hu_OrgID x = org \<and> hu_Status x \<noteq> ClientUpdateStatusSent) (sent_row e org uid to u) (st_updates d) \<and>
    db_orgs d' = db_orgs d \<and> al_ID ` set (db_audit d') \<subseteq> al_ID ` set (db_audit d) \<union> range (e_uuid e)"
proof -
  let ?s = "\<lparr>s_db = d, s_draws = 0, s_aborted = False\<rparr>" and ?m = "sent_row e org uid to u"
  let ?P = "\<lambda>x. hu_ID x = uid \<and> hu_OrgID x = org \<and> hu_Status x \<noteq> ClientUpdateStatusSent"
  let ?s1 = "?s\<lparr>s_db := st_updates_update (update_where ?P ?m) d\<rparr>"
  let ?q = "update_entry org sub ''client_update.sent'' (hu_ID (?m c))
      [(''project_id'', JUuid (hu_ProjectID (?m c))), (''photo_count'', JInt (int (length (hu_PhotoAssetIDs (?m c)))))]"
  have h: "\<not> e_fail e x" "\<not> e_commit_fails e" for x using assms(1) by (simp_all add: healthy_def)
  have find: "List.find (\<lambda>m. m = (u, org)) (st_members d) = Some (u, org)" using assms(9) by (rule find_itself)
  have hit: "List.find ?P (st_updates d) = Some c" by (rule find_stronger [OF assms(3)]) (use find_SomeD [OF assms(3)] assms(4) in auto)
  have s1: "update_GetByID e org uid ?s = Inr (c, ?s)" using assms(3) h by (simp add: update_GetByID_def select_one_def stmt_def)
  have s2: "GetByID e (hu_ProjectID c) org ?s = Inr (p, ?s)" using assms(5) h by (simp add: GetByID_def select_one_def stmt_def)
  have s3: "LookupUserIDBySubject parse e sub org ?s = Inr (u, ?s)"
    using assms(8) find h by (auto simp: LookupUserIDBySubject_def tbind_Inr select_one_Inr)
  have s4: "MarkSent e \<lparr>mx_OrgID = org, mx_ID = uid, mx_RecipientEmail = to, mx_SentBy = u\<rparr> ?s = Inr (?m c, ?s1)"
    using hit h by (simp add: MarkSent_def update_returning_def stmt_def sent_row_def [abs_def])
  obtain rows n where s5: "Record e ?q ?s1 = Inr ((), ?s1\<lparr>s_db := s_db ?s1\<lparr>db_audit := db_audit (s_db ?s1) @ rows\<rparr>, s_draws := n\<rparr>)"
    by (rule Record_fine [of e ?s1 ?q]) (use assms(1,2,10) in \<open>auto simp: update_entry_def\<close>)
  have body: "send_body parse e org sub uid ?s = Inr ((?m c, p, to), ?s1\<lparr>s_db := s_db ?s1\<lparr>db_audit := db_audit (s_db ?s1) @ rows\<rparr>, s_draws := n\<rparr>)"
  proof -
    have t: "tbind (update_GetByID e org uid) f ?s = f c ?s" "tbind (GetByID e (hu_ProjectID c) org) g ?s = g p ?s"
        "tbind (tguard True err) i ?s = i () ?s" for f g i err
      using s1 s2 by (simp_all add: tbind_def tguard_def)
    have g: "(hu_Status c \<noteq> ClientUpdateStatusSent) = True" "(to \<noteq> []) = True" using assms(4,7) by simp_all
    show ?thesis unfolding send_body_def Let_def t g assms(6) using s5 by (simp add: tbind_def s3 s4 tret_def)
  qed
  show ?thesis using Record_ids [OF s5] body h by (intro exI [of _ "s_db ?s1\<lparr>db_audit := db_audit (s_db ?s1) @ rows\<rparr>"]) (simp add: BeginTxFunc_def)
qed

lemma mark_failed_run:
  assumes "healthy e" "org \<in> set (db_orgs d)" "\<exists>c\<in>set (st_updates d). hu_ID c = uid \<and> hu_OrgID c = org"
    "\<forall>n. e_uuid e n \<notin> al_ID ` set (db_audit d)"
  shows "st_updates (markSendFailed e org sub uid err d) =
    update_where (\<lambda>x. hu_ID x = uid \<and> hu_OrgID x = org) (marked_failed e (failure_reason err)) (st_updates d)"
proof -
  let ?s = "\<lparr>s_db = d, s_draws = 0, s_aborted = False\<rparr>" and ?P = "\<lambda>x. hu_ID x = uid \<and> hu_OrgID x = org"
  let ?m = "marked_failed e (failure_reason err)"
  let ?s1 = "?s\<lparr>s_db := st_updates_update (update_where ?P ?m) d\<rparr>"
  have h: "\<not> e_fail e x" "\<not> e_commit_fails e" for x using assms(1) by (simp_all add: healthy_def)
  obtain c where c: "List.find ?P (st_updates d) = Some c" using assms(3) by (cases "List.find ?P (st_updates d)") (auto simp: find_None_iff)
  let ?q = "update_entry org sub ''client_update.send_failed'' uid [(''project_id'', JUuid (hu_ProjectID (?m c))), (''reason'', JStr (failure_reason err))]"
  have s1: "update_MarkFailed e org uid (failure_reason err) ?s = Inr (?m c, ?s1)"
    using c h by (simp add: update_MarkFailed_def update_returning_def stmt_def)
  obtain rows n where s2: "Record e ?q ?s1 = Inr ((), ?s1\<lparr>s_db := s_db ?s1\<lparr>db_audit := db_audit (s_db ?s1) @ rows\<rparr>, s_draws := n\<rparr>)"
    by (rule Record_fine [of e ?s1 ?q]) (use assms(1,2,4) in \<open>auto simp: update_entry_def\<close>)
  have "mark_failed_body e org sub uid err ?s = Inr (?m c, ?s1\<lparr>s_db := s_db ?s1\<lparr>db_audit := db_audit (s_db ?s1) @ rows\<rparr>, s_draws := n\<rparr>)"
    unfolding mark_failed_body_def using s2 by (simp add: tbind_def s1 tret_def)
  then show ?thesis using h by (simp add: markSendFailed_def BeginTxFunc_def)
qed

section \<open>The mail spelled out\<close>

text \<open>
  What the homeowner is to receive, without the functions that compose it: the HTML shows the paragraphs of the text (separated by
  blank lines), trimmed and escaped, with a break for every other line, and then the photos.
\<close>

definition blank_line :: "string \<Rightarrow> bool" where
  "blank_line s \<longleftrightarrow> (\<exists>a b. s = a @ [CHR 0x0A, CHR 0x0A] @ b)"

definition paragraphs :: "string \<Rightarrow> string list \<Rightarrow> bool" where
  "paragraphs body ps \<longleftrightarrow> ps \<noteq> [] \<and> body = concat (List.map (\<lambda>p. p @ [CHR 0x0A, CHR 0x0A]) (butlast ps)) @ last ps \<and>
     (\<forall>p\<in>set (butlast ps). \<not> blank_line (p @ [CHR 0x0A])) \<and> \<not> blank_line (last ps)"

definition html_char :: "char \<Rightarrow> string" where
  "html_char c = (if c = CHR ''&'' then ''&amp;'' else if c = CHR ''<'' then ''&lt;'' else if c = CHR ''>'' then ''&gt;''
     else if c = CHR 0x22 then ''&#34;'' else if c = CHR 0x27 then ''&#39;'' else [c])"

definition html_paragraph :: "string \<Rightarrow> string" where
  "html_paragraph p = (if trim_space p = [] then [] else
     ''<p>'' @ concat (List.map (\<lambda>c. if c = CHR 0x0A then ''<br>'' else html_char c) (trim_space p)) @ ''</p>'')"

definition html_photo :: "string \<Rightarrow> string" where
  "html_photo url = ''<p><img src='' @ [CHR 0x22] @ concat (List.map html_char url) @ [CHR 0x22] @ '' alt='' @ [CHR 0x22] @ ''Site photo'' @
     [CHR 0x22] @ '' style='' @ [CHR 0x22] @ ''max-width:100%;height:auto;'' @ [CHR 0x22] @ ''></p>''"

text \<open>The addresses of the curated photos that can be signed for a week.\<close>

definition photo_links :: "update_service \<Rightarrow> uuid \<Rightarrow> uuid list \<Rightarrow> string list" where
  "photo_links sv org ids = (case uv_photos sv of None \<Rightarrow> []
   | Some url \<Rightarrow> concat (List.map (\<lambda>i. case url org i (7 * 24 * 3600 * 10 ^ 9) of Inl _ \<Rightarrow> [] | Inr u \<Rightarrow> [u]) ids))"

definition mail_for :: "update_service \<Rightarrow> uuid \<Rightarrow> ClientUpdate \<Rightarrow> Project \<Rightarrow> string \<Rightarrow> Message \<Rightarrow> bool" where
  "mail_for sv org c p to m \<longleftrightarrow> mg_To m = to \<and>
     mg_Subject m = (if trim_space (hu_Subject c) \<noteq> [] then trim_space (hu_Subject c)
       else if pj_Name p = [] then ''Progress update on your project'' else ''Progress update: '' @ pj_Name p) \<and>
     mg_TextBody m = hu_EditedBody c @ (if photo_links sv org (hu_PhotoAssetIDs c) = [] then []
       else [CHR 0x0A, CHR 0x0A] @ ''Photos from the site:'' @ [CHR 0x0A] @
         concat (List.map (\<lambda>u. u @ [CHR 0x0A]) (photo_links sv org (hu_PhotoAssetIDs c)))) \<and>
     (\<exists>ps. paragraphs (hu_EditedBody c) ps \<and> mg_HTMLBody m =
        concat (List.map html_paragraph ps) @ concat (List.map html_photo (photo_links sv org (hu_PhotoAssetIDs c))))"

lemma blank_line_short [simp]: "\<not> blank_line []" "\<not> blank_line [c]"
  by (simp_all add: blank_line_def)

lemma blank_line_append: "blank_line (s @ [c]) \<longleftrightarrow> blank_line s \<or> c = CHR 0x0A \<and> (\<exists>a. s = a @ [CHR 0x0A])"
proof
  assume "blank_line (s @ [c])"
  then obtain a b where ab: "s @ [c] = a @ [CHR 0x0A, CHR 0x0A] @ b" by (auto simp: blank_line_def)
  show "blank_line s \<or> c = CHR 0x0A \<and> (\<exists>a. s = a @ [CHR 0x0A])"
  proof (cases b rule: rev_cases)
    case Nil
    then show ?thesis using ab append_eq_append_conv [of "[c]" "[CHR 0x0A]" s "a @ [CHR 0x0A]"] by simp
  next
    case (snoc b' x)
    then have "s = a @ [CHR 0x0A, CHR 0x0A] @ b'" using ab append_eq_append_conv [of "[c]" "[x]" s "a @ [CHR 0x0A, CHR 0x0A] @ b'"] by simp
    then show ?thesis by (auto simp: blank_line_def)
  qed
next
  assume "blank_line s \<or> c = CHR 0x0A \<and> (\<exists>a. s = a @ [CHR 0x0A])"
  then show "blank_line (s @ [c])" unfolding blank_line_def by fastforce
qed

lemma blank_line_snoc: "blank_line (s @ [c, c']) \<longleftrightarrow> blank_line (s @ [c]) \<or> c = CHR 0x0A \<and> c' = CHR 0x0A"
  using blank_line_append [of "s @ [c]" c'] by auto

lemma split_paras_paragraphs:
  "\<not> blank_line (cur @ take 1 s) \<Longrightarrow> paragraphs (cur @ s) (split_paras cur s)"
proof (induction cur s rule: split_paras.induct)
  case (3 cur c c' s)
  show ?case
  proof (cases "c = newline \<and> c' = newline")
    case True
    have "\<not> blank_line ([] @ take 1 s)" by (cases s) simp_all
    with 3 True have "paragraphs s (split_paras [] s)" by simp
    then show ?thesis using 3(3) True by (auto simp: paragraphs_def newline_def)
  next
    case False
    have "\<not> blank_line ((cur @ [c]) @ take 1 (c' # s))" using 3(3) False blank_line_snoc [of cur c c'] by (simp add: newline_def)
    with 3(2) False have "paragraphs ((cur @ [c]) @ c' # s) (split_paras (cur @ [c]) (c' # s))" by blast
    with False show ?thesis by auto
  qed
qed (simp_all add: paragraphs_def)

lemma escape_char_html: "escape_char = html_char"
  by (rule ext) (simp add: escape_char_def html_char_def)

lemma para_html_paragraph: "para_html p = html_paragraph p"
proof -
  have char: "line_breaks (escape_char c) = (if c = CHR 0x0A then ''<br>'' else html_char c)" for c
    by (simp add: line_breaks_def escape_char_def html_char_def newline_def)
  have "line_breaks (EscapeString s) = concat (List.map (\<lambda>c. if c = CHR 0x0A then ''<br>'' else html_char c) s)" for s
  proof (induction s)
    case (Cons c s)
    have "line_breaks (EscapeString (c # s)) = line_breaks (escape_char c) @ line_breaks (EscapeString s)"
      by (simp add: line_breaks_def EscapeString_def)
    then show ?case using Cons char by simp
  qed (simp add: line_breaks_def EscapeString_def)
  then show ?thesis by (simp add: para_html_def html_paragraph_def Let_def)
qed

lemma photo_html_spelled: "photo_html u = html_photo u"
  by (simp add: photo_html_def html_photo_def markup_def EscapeString_def escape_char_html)

lemma resolve_links: "resolveEmailPhotos sv org ids = photo_links sv org ids"
proof -
  have ttl: "emailPhotoTTL = 7 * 24 * 3600 * 10 ^ 9" by (simp add: emailPhotoTTL_def day24_def hour_def minute_def second_def)
  have "resolve_urls url ids = concat (List.map (\<lambda>i. case url i of Inl _ \<Rightarrow> [] | Inr u \<Rightarrow> [u]) ids)" for url
    by (induction ids) (auto split: sum.splits)
  then show ?thesis by (simp add: resolveEmailPhotos_def photo_links_def ttl split: option.splits)
qed

lemma composed_mail: "mail_for sv org c p to (composeEmail sv org c p to)"
proof -
  have "paragraphs (hu_EditedBody c) (split_paras [] (hu_EditedBody c))"
    using split_paras_paragraphs [of "[]" "hu_EditedBody c"] by (cases "hu_EditedBody c") simp_all
  then show ?thesis
    unfolding mail_for_def composeEmail_def Let_def resolve_links body_html_def para_html_paragraph [abs_def] photo_html_spelled [abs_def]
    by (auto simp: email_subject_def newline_def)
qed

definition sent_version :: "env \<Rightarrow> string \<Rightarrow> uuid \<Rightarrow> ClientUpdate \<Rightarrow> ClientUpdate" where
  "sent_version e to u c = c\<lparr>hu_Status := ''sent'', hu_RecipientEmail := Some to, hu_SentBy := Some u, hu_SentAt := Some (e_now e),
     hu_SendError := None, hu_UpdatedAt := e_now e\<rparr>"

definition failed_version :: "env \<Rightarrow> svc_error \<Rightarrow> ClientUpdate \<Rightarrow> ClientUpdate" where
  "failed_version e err c = c\<lparr>hu_Status := ''failed'', hu_SendError := Some (if err = MailerUnconfigured
     then ''mailer unconfigured: no Resend API key set'' else ''email delivery failed''), hu_UpdatedAt := e_now e\<rparr>"

lemma spelled_rows:
  "sent_row e org uid to u c = sent_version e to u c"
  "after_mail e' answer c = (case answer of None \<Rightarrow> c | Some err \<Rightarrow> failed_version e' err c)"
  by (auto simp: sent_row_def marked_sent_def sent_version_def after_mail_def marked_failed_def failed_version_def failure_reason_def
      ClientUpdateStatusSent_def ClientUpdateStatusFailed_def split: option.splits)

lemma mail_of_sent: "mail_for sv org (sent_version e to u c) p to m \<longleftrightarrow> mail_for sv org c p to m"
  by (simp add: mail_for_def sent_version_def)

lemma send_accounts:
  assumes "healthy e" "healthy e'" "site_ok d" "org \<in> set (db_orgs d)" "org \<noteq> uuid_nil" "uid \<noteq> uuid_nil"
    and "c \<in> set (st_updates d)" "hu_ID c = uid" "hu_OrgID c = org" "hu_Status c \<noteq> ClientUpdateStatusSent"
    and "List.find (\<lambda>p. pj_ID p = hu_ProjectID c \<and> pj_OrgID p = org) (db_projects d) = Some p" "trim_space (coalesce (pj_ClientEmail p) []) = to" "to \<noteq> []"
    and "parse sub = Some u" "(u, org) \<in> set (st_members d)"
    and "\<forall>n. e_uuid e n \<notin> al_ID ` set (db_audit d)" "\<forall>n. e_uuid e' n \<notin> al_ID ` set (db_audit d) \<union> range (e_uuid e)"
    and "row = sent_row e org uid to u c" "answer = uv_send sv org (composeEmail sv org row p to)"
  shows "\<exists>d'. SendClientUpdate parse sv e e' org sub uid d = (send_result answer row, d') \<and>
    st_updates d' = List.map (\<lambda>x. if x = c then after_mail e' answer row else x) (st_updates d)"
proof -
  have only: "x = c" if "x \<in> set (st_updates d)" "hu_ID x = uid" for x
    using assms(3,7,8) that by (auto simp: site_ok_def updates_ok_def distinct_map inj_on_def)
  have find: "List.find (\<lambda>c. hu_ID c = uid \<and> hu_OrgID c = org) (st_updates d) = Some c"
  proof (rule find_stronger)
    show "List.find (\<lambda>x. hu_ID x = uid) (st_updates d) = Some c"
      by (rule find_unique) (use assms(3,7,8) in \<open>auto simp: site_ok_def updates_ok_def\<close>)
  qed (use assms(8,9) in auto)
  obtain d1 where run: "BeginTxFunc e (send_body parse e org sub uid) d = (Inr (row, p, to), d1)"
      "st_updates d1 = update_where (\<lambda>x. hu_ID x = uid \<and> hu_OrgID x = org \<and> hu_Status x \<noteq> ClientUpdateStatusSent) (sent_row e org uid to u) (st_updates d)"
      "db_orgs d1 = db_orgs d" "al_ID ` set (db_audit d1) \<subseteq> al_ID ` set (db_audit d) \<union> range (e_uuid e)"
    using send_run [where parse = parse and sub = sub, OF assms(1,4) find assms(10-16)] assms(18) by blast
  have hit: "(hu_ID x = uid \<and> hu_OrgID x = org \<and> hu_Status x \<noteq> ClientUpdateStatusSent) \<longleftrightarrow> x = c" "(hu_ID x = uid \<and> hu_OrgID x = org) \<longleftrightarrow> x = c"
    if "x \<in> set (st_updates d)" for x
    using only [OF that] assms(8-10) by blast+
  have upd: "st_updates d1 = List.map (\<lambda>x. if x = c then row else x) (st_updates d)"
    unfolding run(2) update_where_def by (rule map_cong [OF refl]) (simp add: hit assms(18))
  have keys: "hu_ID row = uid" "hu_OrgID row = org" using assms(8,9,18) by (simp_all add: sent_row_def marked_sent_def)
  show ?thesis
  proof (cases answer)
    case None
    then show ?thesis using run(1) upd assms(5,6,19) by (simp add: SendClientUpdate_def mapped_def send_result_def after_mail_def)
  next
    case (Some err)
    have fresh: "\<forall>n. e_uuid e' n \<notin> al_ID ` set (db_audit d1)" using run(4) assms(17) by blast
    have "row \<in> set (st_updates d1)" using upd assms(7) by auto
    with keys have "\<exists>c\<in>set (st_updates d1). hu_ID c = uid \<and> hu_OrgID c = org" by blast
    then have "st_updates (markSendFailed e' org sub uid err d1) =
        update_where (\<lambda>x. hu_ID x = uid \<and> hu_OrgID x = org) (marked_failed e' (failure_reason err)) (st_updates d1)"
      by (intro mark_failed_run) (use fresh keys assms(2,4) run(3) in auto)
    also have "\<dots> = List.map (\<lambda>x. if x = c then after_mail e' answer row else x) (st_updates d)"
      unfolding upd update_where_def map_map by (rule map_cong [OF refl]) (simp add: hit keys Some after_mail_def)
    finally show ?thesis using run(1) Some assms(5,6,19) by (simp add: SendClientUpdate_def mapped_def send_result_def)
  qed
qed

text \<open>
  C20. A send of a draft, in a healthy environment, asks the mailer once for a message to the client's trimmed address with the update's
  subject (or one made of the project's name), its edited text and the signed links of its curated photos, as text and as escaped HTML;
  the caller learns the mailer's answer, and the row says the same: sent, with recipient, sender and time, when the mailer took the
  message, failed with the reason when it did not. No other update changes.
\<close>

theorem send_accounts_for_mail:
  assumes "healthy e" "healthy e'" "site_ok d" "org \<in> set (db_orgs d)" "org \<noteq> uuid_nil" "uid \<noteq> uuid_nil"
    and "c \<in> set (st_updates d)" "hu_ID c = uid" "hu_OrgID c = org" "hu_Status c \<noteq> ''sent''"
    and "List.find (\<lambda>p. pj_ID p = hu_ProjectID c \<and> pj_OrgID p = org) (db_projects d) = Some p" "trim_space (coalesce (pj_ClientEmail p) []) = to" "to \<noteq> []"
    and "parse sub = Some u" "(u, org) \<in> set (st_members d)"
    and "\<forall>n. e_uuid e n \<notin> al_ID ` set (db_audit d)" "\<forall>n. e_uuid e' n \<notin> al_ID ` set (db_audit d) \<union> range (e_uuid e)"
  shows "\<exists>m d'. mail_for sv org c p to m \<and>
    (case uv_send sv org m of
       None \<Rightarrow> SendClientUpdate parse sv e e' org sub uid d = (Inr (sent_version e to u c), d') \<and>
         st_updates d' = List.map (\<lambda>x. if x = c then sent_version e to u c else x) (st_updates d)
     | Some err \<Rightarrow> SendClientUpdate parse sv e e' org sub uid d =
           (Inl (if err = MailerUnconfigured then MailerUnconfigured else ClientUpdateSendFailed), d') \<and>
         st_updates d' = List.map (\<lambda>x. if x = c then failed_version e' err (sent_version e to u c) else x) (st_updates d))"
proof -
  let ?m = "composeEmail sv org (sent_row e org uid to u c) p to"
  have m: "mail_for sv org c p to ?m"
    using composed_mail [of sv org "sent_row e org uid to u c" p to] by (simp add: spelled_rows(1) mail_of_sent)
  have draft: "hu_Status c \<noteq> ClientUpdateStatusSent" using assms(10) by (simp add: ClientUpdateStatusSent_def)
  from send_accounts [where parse = parse and sub = sub and sv = sv and row = "sent_row e org uid to u c" and answer = "uv_send sv org ?m",
      OF assms(1-9) draft assms(11-17) refl refl]
  obtain d' where "SendClientUpdate parse sv e e' org sub uid d = (send_result (uv_send sv org ?m) (sent_row e org uid to u c), d')"
    "st_updates d' = List.map (\<lambda>x. if x = c then after_mail e' (uv_send sv org ?m) (sent_row e org uid to u c) else x) (st_updates d)"
    by blast
  then show ?thesis
    by (intro exI [of _ ?m] exI [of _ d'] conjI m) (auto simp: spelled_rows send_result_def split: option.splits)
qed

lemma send_committed:
  assumes "SendClientUpdate parse sv e e' org sub uid d = (Inr c, d1)"
  shows "c \<in> set (st_updates d1) \<and> hu_ID c = uid \<and> hu_OrgID c = org \<and> hu_Status c = ClientUpdateStatusSent"
proof -
  obtain p to where run: "BeginTxFunc e (send_body parse e org sub uid) d = (Inr (c, p, to), d1)"
    using assms by (auto simp: SendClientUpdate_def mapped_Inr split: if_splits sum.splits prod.splits option.splits)
  then obtain s' where s': "send_body parse e org sub uid \<lparr>s_db = d, s_draws = 0, s_aborted = False\<rparr> = Inr ((c, p, to), s')" "d1 = s_db s'"
    by (auto simp: BeginTxFunc_Inr)
  then obtain x s1 s2 q where x: "MarkSent e x s1 = Inr (c, s2)" "Record e q s2 = Inr ((), s')" "mx_ID x = uid" "mx_OrgID x = org"
    unfolding send_body_def tbind_Inr Let_def by auto
  then obtain c0 where "c = marked_sent e x c0" "c0 \<in> set (st_updates (s_db s1))" "hu_ID c0 = uid" "hu_OrgID c0 = org" "hu_Status c0 \<noteq> ClientUpdateStatusSent"
      "st_updates (s_db s2) = update_where (\<lambda>c. hu_ID c = mx_ID x \<and> hu_OrgID c = mx_OrgID x \<and> hu_Status c \<noteq> ClientUpdateStatusSent) (marked_sent e x) (st_updates (s_db s1))"
    by (auto simp: MarkSent_def update_returning_Inr dest!: find_SomeD)
  moreover have "st_updates d1 = st_updates (s_db s2)" using Record_appends [OF x(2)] s'(2) by auto
  ultimately show ?thesis using x(3,4) by (auto simp: marked_sent_def set_update_where intro!: rev_image_eqI [of c0])
qed

lemma sent_refused:
  assumes "site_ok d" "c \<in> set (st_updates d)" "hu_ID c = uid" "hu_Status c = ClientUpdateStatusSent"
  shows "uz_ID inp = uid \<Longrightarrow> \<exists>err. UpdateDraft photos e org sub inp d = (Inl err, d)"
    and "\<exists>err. SendClientUpdate parse sv e e' org sub uid d = (Inl err, d)"
proof -
  have only: "x = c" if "List.find (\<lambda>c. hu_ID c = uid \<and> hu_OrgID c = org) (st_updates d) = Some x" for x
    using find_SomeD [OF that] assms(1-3) by (auto simp: site_ok_def updates_ok_def distinct_map inj_on_def)
  have "update_draft_body photos e org sub inp \<lparr>s_db = d, s_draws = 0, s_aborted = False\<rparr> \<noteq> Inr r" if "uz_ID inp = uid" for r
    using only assms(4) that by (cases r) (auto simp: update_draft_body_def Let_def tbind_Inr update_GetByID_def select_one_Inr)
  then have "fst (BeginTxFunc e (update_draft_body photos e org sub inp) d) \<noteq> Inr r" if "uz_ID inp = uid" for r
    using that begin_Inr [of e "update_draft_body photos e org sub inp" d r] by blast
  then show "uz_ID inp = uid \<Longrightarrow> \<exists>err. UpdateDraft photos e org sub inp d = (Inl err, d)"
    by (cases "BeginTxFunc e (update_draft_body photos e org sub inp) d"; cases "fst (BeginTxFunc e (update_draft_body photos e org sub inp) d)")
      (auto simp: UpdateDraft_def service_result_def mapped_def dest: BeginTxFunc_Inl split: sum.splits)
  have "send_body parse e org sub uid \<lparr>s_db = d, s_draws = 0, s_aborted = False\<rparr> \<noteq> Inr (x, s)" for x s
    using only assms(4) by (cases x) (auto simp: send_body_def Let_def tbind_Inr update_GetByID_def select_one_Inr)
  then have "fst (BeginTxFunc e (send_body parse e org sub uid) d) \<noteq> Inr r" for r
    using begin_Inr [of e "send_body parse e org sub uid" d r] by blast
  then show "\<exists>err. SendClientUpdate parse sv e e' org sub uid d = (Inl err, d)"
    by (cases "BeginTxFunc e (send_body parse e org sub uid) d"; cases "fst (BeginTxFunc e (send_body parse e org sub uid) d)")
      (auto simp: SendClientUpdate_def mapped_def dest: BeginTxFunc_Inl)
qed

text \<open>
  C21. What the homeowner was mailed stays on record: after a successful send the row keeps its text, photos, recipient and status after any operations
  of any organization, and every later edit or send of the update, by whomever, is refused and changes nothing.
\<close>

theorem sent_update_is_frozen:
  assumes "SendClientUpdate parse sv e e' org sub uid d = (Inr c, d1)" "site_op\<^sup>*\<^sup>* d1 d2" "site_ok d1"
  shows "c \<in> set (st_updates d2) \<and> hu_Status c = ClientUpdateStatusSent \<and>
    (uz_ID edit = uid \<longrightarrow> (\<exists>err. UpdateDraft photos f org' sub' edit d2 = (Inl err, d2))) \<and>
    (\<exists>err. SendClientUpdate parse' sv' f f' org' sub' uid d2 = (Inl err, d2))"
proof -
  note c = send_committed [OF assms(1)]
  have le: "site_le d1 d2" "site_ok d2" using site_ops_le [OF assms(2,3)] by auto
  then have "c \<in> set (st_updates d2)" using c by (auto simp: site_le_def frozen_def)
  with sent_refused [OF le(2) this] c show ?thesis by blast
qed

section \<open>A draft that is sent\<close>

definition sample_mailer :: "svc_error option \<Rightarrow> update_service" where
  "sample_mailer answer = \<lparr>uv_photos = None, uv_send = (\<lambda>_ _. answer)\<rparr>"

definition late_env :: env where
  "late_env = (site_env 0)\<lparr>e_uuid := (\<lambda>_. 3)\<rparr>"

lemma late_env_healthy: "healthy late_env"
  using healthy_site [of 0] by (simp add: healthy_def late_env_def)

theorem send_accounts_for_mail_witness:
  "\<forall>answer. \<exists>(m :: Message) d. mg_To m = ''h@x.y'' \<and> mg_Subject m = ''S'' \<and> mg_TextBody m = ''Hi <b>'' \<and>
   SendClientUpdate sample_parse (sample_mailer answer) (site_env 100) late_env 7 ''u'' 50 sample_site =
     (case answer of None \<Rightarrow> Inr (sent_version (site_env 100) ''h@x.y'' 5 sample_draft)
      | Some err \<Rightarrow> Inl (if err = MailerUnconfigured then MailerUnconfigured else ClientUpdateSendFailed), d)"
proof (rule allI)
  fix answer
  have ids: "\<forall>n. e_uuid (site_env 100) n \<notin> al_ID ` set (db_audit sample_site)"
    "\<forall>n. e_uuid late_env n \<notin> al_ID ` set (db_audit sample_site) \<union> range (e_uuid (site_env 100))"
    by (auto simp: late_env_def)
  have home: "List.find (\<lambda>p. pj_ID p = hu_ProjectID sample_draft \<and> pj_OrgID p = 7) (db_projects sample_site) = Some sample_home"
    by (simp add: sample_draft_def sample_home_def sample_project_def)
  have mail: "trim_space (coalesce (pj_ClientEmail sample_home) []) = ''h@x.y''" by (simp add: sample_home_def trim_space_def is_space_def)
  have draft: "sample_draft \<in> set (st_updates sample_site)" "hu_ID sample_draft = 50" "hu_OrgID sample_draft = 7" "hu_Status sample_draft \<noteq> ''sent''"
    by (simp_all add: sample_draft_def ClientUpdateStatusDraft_def)
  have org: "7 \<in> set (db_orgs sample_site)" "(7 :: uuid) \<noteq> uuid_nil" "(50 :: uuid) \<noteq> uuid_nil" "''h@x.y'' \<noteq> []"
      "sample_parse ''u'' = Some 5" "(5, 7) \<in> set (st_members sample_site)"
    by (simp_all add: uuid_nil_def sample_parse_def)
  from send_accounts_for_mail [where parse = sample_parse and sub = "''u''" and sv = "sample_mailer answer",
      OF healthy_site late_env_healthy sample_site_ok org(1-3) draft home mail org(4-6) ids]
  obtain m d where m: "mail_for (sample_mailer answer) 7 sample_draft sample_home ''h@x.y'' m"
    "case uv_send (sample_mailer answer) 7 m of
       None \<Rightarrow> SendClientUpdate sample_parse (sample_mailer answer) (site_env 100) late_env 7 ''u'' 50 sample_site =
         (Inr (sent_version (site_env 100) ''h@x.y'' 5 sample_draft), d)
     | Some err \<Rightarrow> SendClientUpdate sample_parse (sample_mailer answer) (site_env 100) late_env 7 ''u'' 50 sample_site =
         (Inl (if err = MailerUnconfigured then MailerUnconfigured else ClientUpdateSendFailed), d)"
    by (fastforce split: option.splits)
  have "mg_To m = ''h@x.y'' \<and> mg_Subject m = ''S'' \<and> mg_TextBody m = ''Hi <b>''"
    using m(1) by (simp add: mail_for_def photo_links_def sample_mailer_def sample_draft_def trim_space_def is_space_def)
  moreover have "SendClientUpdate sample_parse (sample_mailer answer) (site_env 100) late_env 7 ''u'' 50 sample_site =
     (case answer of None \<Rightarrow> Inr (sent_version (site_env 100) ''h@x.y'' 5 sample_draft)
      | Some err \<Rightarrow> Inl (if err = MailerUnconfigured then MailerUnconfigured else ClientUpdateSendFailed), d)"
  proof -
    have "uv_send (sample_mailer answer) 7 m = answer" by (simp add: sample_mailer_def)
    with m(2) show ?thesis by (cases answer) (simp_all only: option.case)
  qed
  ultimately show "\<exists>(m :: Message) d. mg_To m = ''h@x.y'' \<and> mg_Subject m = ''S'' \<and> mg_TextBody m = ''Hi <b>'' \<and>
   SendClientUpdate sample_parse (sample_mailer answer) (site_env 100) late_env 7 ''u'' 50 sample_site =
     (case answer of None \<Rightarrow> Inr (sent_version (site_env 100) ''h@x.y'' 5 sample_draft)
      | Some err \<Rightarrow> Inl (if err = MailerUnconfigured then MailerUnconfigured else ClientUpdateSendFailed), d)"
    by blast
qed

theorem sent_update_is_frozen_witness:
  "\<exists>c d. SendClientUpdate sample_parse (sample_mailer None) (site_env 100) late_env 7 ''u'' 50 sample_site = (Inr c, d) \<and> c \<in> set (st_updates d) \<and>
    (\<exists>err. SendClientUpdate sample_parse (sample_mailer None) (site_env 200) late_env 7 ''u'' 50 d = (Inl err, d))"
proof -
  obtain d where run: "SendClientUpdate sample_parse (sample_mailer None) (site_env 100) late_env 7 ''u'' 50 sample_site =
      (Inr (sent_row (site_env 100) 7 50 ''h@x.y'' 5 sample_draft), d)"
    using send_run [where parse = sample_parse and sub = "''u''" and u = 5, OF healthy_site, of 7 sample_site 50 sample_draft sample_home "''h@x.y''" 100]
    by (auto simp: SendClientUpdate_def mapped_def sample_mailer_def uuid_nil_def sample_draft_def sample_home_def sample_project_def trim_space_def
        is_space_def sample_parse_def ClientUpdateStatusDraft_def ClientUpdateStatusSent_def)
  have "site_op sample_site d"
    using site_op.update_sent [of sample_site sample_parse "sample_mailer None" "site_env 100" late_env 7 "''u''" 50] run by simp
  then have "site_ok d" using site_ops_le [OF r_into_rtranclp sample_site_ok] by blast
  from sent_update_is_frozen [OF run rtranclp.rtrancl_refl this] run show ?thesis by blast
qed

end
