(* ===== verification/Spec2Isabelle.thy ===== *)
theory Spec2Isabelle
  imports Cpm_Critical Durations Scoping Breaker Authz Currency Pipeline_Props Projects_Props Schedule_Props Sessions_Props Bootstrap_Props Wizard_Props
    Financials_Props Risk_Props Site_Props Office_Props
    Pii Page_Markup Draft_Props Public_Props Mail_Props
begin

text \<open>
  BuildOS, the server of a construction company (Go, internal/ of the repository), from the first prospect to the page
  that a homeowner opens.

  \<^bold>\<open>The program.\<close> HTTP handlers (internal/api) and background workers (internal/worker) call services
  (internal/service). A service checks its input, opens one transaction with \<open>pgx.BeginTxFunc\<close>, calls the store
  (internal/store, one method per SQL statement) and writes an audit row in that transaction. Beside the services
  stand engines without a database: the critical path engine, the duration models and the template scoping
  (internal/physics), the circuit breakers (internal/connectors, internal/ai), the classification of personal data
  (internal/pii), credentials (internal/auth), roles (internal/authz) and money (internal/currency). The parts meet in
  the database: a permit turns a prospect into a project (service/pipeline.go), its tasks are scheduled by the CPM
  engine (service/schedule.go), procurement items and budgets hang on the project, the foresight sweep reads all of
  them and writes feed cards, and daily logs and photos of the site become reports, drafts, mails and public pages.

  \<^bold>\<open>How the model reads.\<close> A struct is a record (fields mostly with a two-letter prefix), an enumeration a datatype or
  its string, a Go integer an \<open>int\<close> that wraps through \<open>wrap64\<close> where it can leave 64 bits, a float64 the rational it
  denotes with every operation rounded (Go_Float), an instant a number of nanoseconds in UTC (Go_Time), a UUID a
  natural number, a text the list of its bytes. A function that returns an error returns a sum; a panic or a loop that
  does not end is \<open>None\<close>. A table is the list of its rows in insertion order, with the constraints of migrations/
  checked by each statement; a store method is a function of a session, a service operation one of the request, the
  environment and the database, returning the answer and the database after it. The environment \<open>env\<close> (Db) holds what
  an operation cannot choose: the clock, fresh UUIDs, and the set of statements that fail. A failed statement aborts
  its transaction as in Postgres. Theorems over all environments therefore hold whatever fails and wherever. Requests
  run one after the other; interleavings are explicit sequences of steps in the breakers and in the races that are
  stated as theorems (Pipeline_Props, Bootstrap_Props, Sessions_Props). A definition keeps the name of its function; a
  suffix \<open>_store\<close> or \<open>_svc\<close> and a prefix such as \<open>money_\<close> or \<open>update_\<close> tell apart names that several files use,
  \<open>_body\<close> is the closure that a service hands to its transaction, \<open>_entry\<close> its audit row, \<open>_check\<close> its tests before
  the transaction.

  \<^bold>\<open>Theories.\<close>
  \<^item> Prelude, Go_Time, Go_Float, Bytes, Json_Text, Sha256_Bits: the Go language and library as far as the code uses
    them.
  \<^item> internal/physics/cpm.go: Calendar (working days, \<open>AddWorkDuration\<close>), Workdays (whole days as an action of the
    integers), Digraph (the graph library behind the locale \<open>gonum\<close>), Cpm_Graph (\<open>BuildDependencyGraph\<close>,
    \<open>TopologicalSort\<close>, \<open>DetectCycle\<close>), Cpm_Pass (\<open>ForwardPass\<close>, \<open>BackwardPass\<close>), then Cpm_Forward, Cpm_Backward,
    Cpm_Float and Cpm_Critical with what the passes compute. The specifications \<open>scheduled_early\<close> and \<open>scheduled_late\<close>
    spell out the table of dependency types, lags, durations, material dates, floats and the critical threshold
    without the functions of the code. Models holds the records of internal/models/project.go; Durations is dhsm.go
    and swim.go, Scoping is scoping.go.
  \<^item> Db: sessions, statements, transactions, audit (service/audit.go, store/audit.go). Projects, Pipeline_Store and
    Pipeline, Financials, Schedule_Store, Schedule, Schedule_Import and Schedule_Agents, Feed, Procurement, Foresight:
    the store and the service of the part each is named after. Setup_Store, Setup, Users_Store, Auth_Service,
    Credentials: onboarding and identity.
  \<^item> The site, with its tables in Site_Db: Fleet, Assets, Field, Reports, Client_Updates, Share_Links (with the HTML of
    internal/api/public_share.go).
  \<^item> The office, in Office (employees and certifications, feedback, notifications) and Agent_Config (the catalog of
    agents and what an organization overrides).
  \<^item> Guards: Authz (roles), Breaker (both circuit breakers), Pii (masks and the scrub of the audit log), Currency
    (money).

  \<^bold>\<open>What the lemmas show.\<close>
  \<^item> The scheduler: both passes return exactly the stated schedules, ForwardPass returns exactly on acyclic
    dependencies with valid durations, a cycle is answered by the error that names its tasks, and a whole-day
    finish-to-start project has a critical path. The plan machine (Schedule_Inv, Schedule_Effect, Schedule_Ops,
    Schedule_Machine, Schedule_Run, Schedule_Props) shows that each operation on tasks and dependencies keeps the
    stored plan computable, so that a recalculation commits when no statement fails, stores the schedule and enqueues
    a cascade exactly when the critical set changed.
  \<^item> Each group of services is one machine of all its operations, with an abstract specification or an invariant that
    every operation keeps under every environment: the board of the pipeline (Pipeline_Inv, Pipeline_Board,
    Pipeline_Props), the identity specification (Identity_Db, Identity_Step, Identity_Ops, Identity_Auth,
    Identity_Props), the workspace of cards and items (Risk_Cards, Risk_Props), the site (Site_Inv, Site_Ops,
    Site_Props), the office (Office_Props). On top stand theorems about single operations: atomicity, tenant
    isolation, idempotent replays, single-use tokens, decisions on dates, throttles, dead letters.
  \<^item> What may leave the server: Two_Runs compares two runs on databases that agree on a view; Draft_Props and
    Public_Props show that the draft and the public pages depend on nothing else, Page_Markup that no text changes the
    markup, Mail_Props what a mail says. Projects_Props, Financials_Props, Credentials_Props, Bootstrap_Props,
    Sessions_Props and Wizard_Props hold the remaining results of their components.
  \<^item> Some theorems state behaviour that the comments of the code rule out (an empty critical path, two owners, a
    booking of one day that reserves nothing, a tuning key written twice, and others); the manifest lists them as
    findings.

  \<^bold>\<open>Interfaces.\<close> They are locales: \<open>gonum\<close>, \<open>work_calendar\<close> and \<open>day_calendar\<close>, \<open>status_machine\<close> (stages and states),
  \<open>one_time_tokens\<close> (bootstrap, refresh, reset and share tokens), \<open>tx_order\<close> (an order that transactions follow),
  \<open>circuit\<close> (a breaker). Each is interpreted on the definitions of the code that provides it; \<open>gonum\<close>, whose provider
  is not in the repository, on a graph of lists that sorts by Kahn's algorithm.

  \<^bold>\<open>Parameters.\<close> Code outside the repository is an argument of the definitions that use it: the gonum graph (\<open>ops\<close>),
  math.Pow, the rounding of JSON numbers (\<open>e_number\<close>), SHA-1 UUIDs (\<open>ph\<close>), the parser and printer of UUIDs, the
  answers of the language model (arbitrary functions), argon2 and the JOSE library, the time zone database, the text
  of JSONB, json.Unmarshal of a raw text (\<open>parse\<close>), \<open>%q\<close>, the long form of a date, random draws, the mailer, the
  notification transport, the object store and its signed URLs, the image codecs, and the collation of text where a
  listing sorts by it. River appears as the rows of its job table, inserted by the transaction. A theorem that needs a
  law of a parameter has it as a hypothesis, and its witness instantiates it.

  \<^bold>\<open>Bounds.\<close> The loops that skip days are unbounded in the code and partial functions here; \<open>calendar_ok\<close> (a weekday
  that is worked, fewer than 53 holidays: within a year a weekday falls on 53 dates) makes each of them end. The sweep
  of foresight reads its projects page by page until a page is short and has fuel for the pages; Risk_Props shows that
  one page more than there are full pages of active projects is enough. The retry of a notification ends after its six
  attempts.

  \<^bold>\<open>Not modelled.\<close> Decoding of requests and encoding of answers, the route table, header and rate middleware; the
  clients of the model provider, of S3, of mail, of Vault and of MCP servers, with the credentials sealed by AES-GCM;
  the chat loop of the assistant and its tools; the vision step in front of an invoice; logs, metrics and traces;
  process wiring and migrations as a program; NaN and overflow of floats past the largest float64; concurrency beyond
  the interleavings named above.
\<close>

end
